(* ===== verification/Prelude.thy ===== *)
theory Prelude
  imports Main "HOL-Library.Word"
begin

text \<open>
  The base of the development: the machine integers of src/src/common_types.h, the ways in which
  the emulator stops, the two result monads (plain failure, and failure over a state), and the
  generic lemmas on them, on lists updated by index and on words that the components share.

  A peripheral of the emulator is a record and each of its methods is a function from the record to
  the updated one. What a method passes to a callback (an interrupt handler, the audio callback)
  is returned as a list of outputs, so the composition at the level of src/src/teakra.cpp can
  deliver it. A method that can stop the emulator returns a sum whose left value is the way it stops.
\<close>

section \<open>Types\<close>

type_synonym u8 = "8 word"
type_synonym u16 = "16 word"
type_synonym u32 = "32 word"
type_synonym u64 = "64 word"

text \<open>
  How the C++ code leaves the normal path: ASSERT and UNREACHABLE abort
  the process, instructions without a body throw UnimplementedException, and
  an index past the end of an array or a division by zero is undefined behaviour.
  A call whose loop never ends does not return at all: it is the value \<open>Diverges\<close>, which
  only arises from the value None of a \<open>partial_function\<close>.
\<close>

datatype teakra_error = Abort | Unimplemented | OutOfBounds | DivideByZero | Diverges

type_synonym 'a result = "teakra_error + 'a"

named_theorems word_facts \<open>rules on machine words used by several components\<close>
named_theorems monad_defs \<open>definitions of the result monads\<close>
named_theorems inv_intros \<open>preservation of the components' invariants\<close>

section \<open>Failure\<close>

definition rbind :: "'a result \<Rightarrow> ('a \<Rightarrow> 'b result) \<Rightarrow> 'b result" where
  "rbind m f = (case m of Inl e \<Rightarrow> Inl e | Inr x \<Rightarrow> f x)"

definition rassert :: "bool \<Rightarrow> unit result" where
  "rassert b = (if b then Inr () else Inl Abort)"

lemma rbind_simps [simp]:
  "rbind (Inl e) f = Inl e"
  "rbind (Inr x) f = f x"
  by (simp_all add: rbind_def)

lemma rbind_Inr_iff:
  "rbind m f = Inr y \<longleftrightarrow> (\<exists>x. m = Inr x \<and> f x = Inr y)"
  by (cases m) auto

lemma rbind_assoc: "rbind (rbind m f) g = rbind m (\<lambda>x. rbind (f x) g)"
  by (cases m) auto

lemma rbind_cong [fundef_cong]:
  "m = m' \<Longrightarrow> (\<And>x. m' = Inr x \<Longrightarrow> f x = f' x) \<Longrightarrow> rbind m f = rbind m' f'"
  by (cases m') auto

lemma rassert_simps [simp]:
  "rassert True = Inr ()"
  "rassert False = Inl Abort"
  by (simp_all add: rassert_def)

lemma rassert_Inr_iff [simp]: "rassert b = Inr u \<longleftrightarrow> b"
  by (simp add: rassert_def)

text \<open>The value of a call whose body is a loop that may run forever.\<close>

definition returned :: "'a result option \<Rightarrow> 'a result" where
  "returned r = (case r of None \<Rightarrow> Inl Diverges | Some x \<Rightarrow> x)"

lemma returned_simps [simp]:
  "returned None = Inl Diverges"
  "returned (Some x) = x"
  by (simp_all add: returned_def)

section \<open>Steps over a state\<close>

text \<open>
  A step reads and updates a state, returns a value or fails. It is the shape of the methods of the
  interpreter, which work on the registers and the memory and call one another.
\<close>

type_synonym ('s, 'a) step = "'s \<Rightarrow> ('a \<times> 's) result"

definition sreturn :: "'a \<Rightarrow> ('s, 'a) step" where
  "sreturn x s = Inr (x, s)"

definition sbind :: "('s, 'a) step \<Rightarrow> ('a \<Rightarrow> ('s, 'b) step) \<Rightarrow> ('s, 'b) step" where
  "sbind m f s = rbind (m s) (\<lambda>(x, s'). f x s')"

definition sfail :: "teakra_error \<Rightarrow> ('s, 'a) step" where
  "sfail e s = Inl e"

definition sget :: "('s \<Rightarrow> 'a) \<Rightarrow> ('s, 'a) step" where
  "sget f s = Inr (f s, s)"

definition squery :: "('s \<Rightarrow> 'a result) \<Rightarrow> ('s, 'a) step" where
  "squery f s = rbind (f s) (\<lambda>x. Inr (x, s))"

definition supd :: "('s \<Rightarrow> 's) \<Rightarrow> ('s, unit) step" where
  "supd f s = Inr ((), f s)"

definition swhen :: "bool \<Rightarrow> ('s, unit) step \<Rightarrow> ('s, unit) step" where
  "swhen b m s = (if b then m s else Inr ((), s))"

text \<open>A run of statements.\<close>

fun sseq :: "('s, unit) step list \<Rightarrow> ('s, unit) step" where
  "sseq [] s = Inr ((), s)"
| "sseq (m # ms) s = rbind (m s) (\<lambda>(u, s'). sseq ms s')"

lemma sseq_Cons: "sseq (m # ms) = sbind m (\<lambda>_. sseq ms)"
  by (rule ext) (simp add: sbind_def)

lemma step_simps [simp]:
  "sreturn x s = Inr (x, s)"
  "sfail e s = Inl e"
  "sget h s = Inr (h s, s)"
  "squery g s = rbind (g s) (\<lambda>x. Inr (x, s))"
  "supd f s = Inr ((), f s)"
  "swhen True m s = m s"
  "swhen False m s = Inr ((), s)"
  "sbind n k s = rbind (n s) (\<lambda>(x, s'). k x s')"
  by (simp_all add: sreturn_def sfail_def sget_def squery_def supd_def swhen_def sbind_def)

lemma swhen_if: "swhen b m s = (if b then m s else Inr ((), s))"
  by (simp add: swhen_def)

text \<open>
  Partial correctness of a step: from an invariant, if it returns, the invariant holds again and
  its value is as stated. The rules follow the structure of the step.
\<close>

definition step_gives :: "('s \<Rightarrow> bool) \<Rightarrow> ('s, 'a) step \<Rightarrow> ('a \<Rightarrow> bool) \<Rightarrow> bool" where
  "step_gives P m A \<longleftrightarrow> (\<forall>s x s'. P s \<longrightarrow> m s = Inr (x, s') \<longrightarrow> P s' \<and> A x)"

lemma step_givesI:
  "(\<And>s x s'. P s \<Longrightarrow> m s = Inr (x, s') \<Longrightarrow> P s' \<and> A x) \<Longrightarrow> step_gives P m A"
  by (simp add: step_gives_def)

lemma step_givesD: "step_gives P m A \<Longrightarrow> P s \<Longrightarrow> m s = Inr (x, s') \<Longrightarrow> P s' \<and> A x"
  by (auto simp: step_gives_def)

abbreviation step_safe :: "('s \<Rightarrow> bool) \<Rightarrow> ('s, 'a) step \<Rightarrow> bool" where
  "step_safe P m \<equiv> step_gives P m (\<lambda>_. True)"

lemma gives_sreturn: "A x \<Longrightarrow> step_gives P (sreturn x) A"
  and gives_sfail: "step_gives P (sfail e) A"
  and gives_sget: "(\<And>s. P s \<Longrightarrow> A (f s)) \<Longrightarrow> step_gives P (sget f) A"
  and gives_squery: "(\<And>s x. P s \<Longrightarrow> h s = Inr x \<Longrightarrow> A x) \<Longrightarrow> step_gives P (squery h) A"
  and gives_supd: "(\<And>s. P s \<Longrightarrow> P (g s)) \<Longrightarrow> step_safe P (supd g)"
  by (auto simp: step_gives_def rbind_Inr_iff)

lemma gives_sbind:
  assumes "step_gives P m B" and "\<And>x. B x \<Longrightarrow> step_gives P (f x) A"
  shows "step_gives P (sbind m f) A"
proof (rule step_givesI)
  fix s y s'
  assume "P s" and "sbind m f s = Inr (y, s')"
  then obtain x t where "m s = Inr (x, t)" "f x t = Inr (y, s')"
    by (auto simp: rbind_Inr_iff)
  with assms \<open>P s\<close> show "P s' \<and> A y"
    by (blast dest: step_givesD)
qed

lemma gives_sbind_any: "step_safe P m \<Longrightarrow> (\<And>x. step_gives P (f x) A) \<Longrightarrow> step_gives P (sbind m f) A"
  by (rule gives_sbind)

lemma gives_swhen: "step_safe P m \<Longrightarrow> step_safe P (swhen b m)"
  by (auto simp: step_gives_def swhen_if)

lemma gives_if: "(b \<Longrightarrow> step_gives P m A) \<Longrightarrow> (\<not> b \<Longrightarrow> step_gives P n A) \<Longrightarrow> step_gives P (if b then m else n) A"
  by simp

lemma gives_sseq_Nil: "step_safe P (sseq [])"
  by (simp add: step_gives_def)

lemma gives_sseq_Cons: "step_safe P m \<Longrightarrow> step_safe P (sseq ms) \<Longrightarrow> step_safe P (sseq (m # ms))"
  unfolding sseq_Cons by (rule gives_sbind)

lemma gives_prod: "(\<And>a b. step_gives P (f a b) A) \<Longrightarrow> step_gives P (case p of (a, b) \<Rightarrow> f a b) A"
  by (cases p) simp

lemma gives_option:
  "step_gives P m A \<Longrightarrow> (\<And>x. z = Some x \<Longrightarrow> step_gives P (f x) A) \<Longrightarrow>
   step_gives P (case z of None \<Rightarrow> m | Some x \<Rightarrow> f x) A"
  by (cases z) simp_all

lemma gives_weaken: "step_gives P m A \<Longrightarrow> step_safe P m"
  by (auto simp: step_gives_def)

lemma gives_prod2: "(\<And>x y. step_gives P (g x y b) A) \<Longrightarrow> step_gives P ((case a of (x, y) \<Rightarrow> g x y) b) A"
  by (cases a) simp

lemmas gives_basic = gives_sreturn gives_sfail gives_sget gives_squery gives_supd gives_sbind_any
  gives_swhen gives_if gives_sseq_Nil gives_sseq_Cons gives_prod gives_option

section \<open>Words\<close>

lemma unat_below: "unat (w :: 'a::len word) < 2 ^ LENGTH('a)"
  by (fact unsigned_less)

lemma unat_lt_2p16 [word_facts]: "unat (w :: u16) < 65536"
  using unat_below [of w] by simp

lemma unat_lt_2p32 [word_facts]: "unat (w :: u32) < 4294967296"
  using unat_below [of w] by simp

lemma unat_lt_2p64 [word_facts]: "unat (w :: u64) < 18446744073709551616"
  using unat_below [of w] by simp

lemma unat_minus_of_nat:
  fixes w :: "'a::len word"
  assumes "n \<le> unat w"
  shows "unat (w - of_nat n) = unat w - n"
proof -
  have n: "n < 2 ^ LENGTH('a)"
    using assms unat_below [of w] by (rule le_less_trans)
  then have "unat (of_nat n :: 'a word) = n"
    by (simp add: unat_of_nat)
  with assms show ?thesis
    by (simp add: unat_sub word_le_nat_alt)
qed

lemma word_neq_0_unat: "(w :: 'a::len word) \<noteq> 0 \<longleftrightarrow> 0 < unat w"
  by (simp add: unat_gt_0)

text \<open>Masks written as numerals in the code.\<close>

lemma numeral_masks [word_facts]:
  "(0xFF :: 'a::len word) = mask 8"
  "(0x7FF :: 'a::len word) = mask 11"
  "(0xFFFF :: 'a::len word) = mask 16"
  "(0x1FFFF :: 'a::len word) = mask 17"
  "(0xFFFFFFFF :: 'a::len word) = mask 32"
  by (simp_all add: mask_eq_exp_minus_1)

section \<open>Lists\<close>

lemma concat_map_single:
  "concat (map (\<lambda>i. if i = k then f i else []) [0..<n]) = (if k < n then f k else [])"
  by (induction n) (auto simp: less_Suc_eq)

lemma ball_list_update:
  "\<forall>x \<in> set xs. P x \<Longrightarrow> P y \<Longrightarrow> \<forall>x \<in> set (xs[i := y]). P x"
  by (auto dest!: set_update_subset_insert [THEN subsetD])

end
