(* ===== verification/Core_Timing.thy ===== *)
theory Core_Timing
  imports Prelude
begin

text \<open>
  src/src/core_timing.h: the clock that drives the timers and the audio ports.

  The abstract class CoreTiming::Callbacks is the record of its three virtual methods; a
  registered callback is a value of the state type these methods act on, and the vector of
  registered callbacks is the list of them, in registration order. Each method returns the
  outputs its component emits; the clock tags them with the index of the component.
\<close>

section \<open>The clock\<close>

record ('s, 'e) callbacks =
  cb_tick :: "'s \<Rightarrow> ('s \<times> 'e list) result"
  cb_max_skip :: "'s \<Rightarrow> nat"
  cb_skip :: "nat \<Rightarrow> 's \<Rightarrow> ('s \<times> 'e list) result"

text \<open>
  The u64 tick counts are naturals below \<open>2 ^ 64\<close>; Infinity is their greatest value. The emulator
  asks for at most as many ticks as the unsigned argument of Teakra::Run can hold.
\<close>

definition infinity :: nat where
  "infinity = 2 ^ 64 - 1"

definition max_request :: nat where
  "max_request = 2 ^ 32 - 1"

text \<open>One pass over the registered callbacks, from the callback with index \<open>i\<close> on.\<close>

fun each_callback :: "('s \<Rightarrow> ('s \<times> 'e list) result) \<Rightarrow> nat \<Rightarrow> 's list
    \<Rightarrow> ('s list \<times> (nat \<times> 'e) list) result" where
  "each_callback f i [] = Inr ([], [])"
| "each_callback f i (c # cs) =
     rbind (f c) (\<lambda>(c', es).
     rbind (each_callback f (Suc i) cs) (\<lambda>(cs', es').
       Inr (c' # cs', map (Pair i) es @ es')))"

definition core_tick :: "('s, 'e) callbacks \<Rightarrow> 's list \<Rightarrow> ('s list \<times> (nat \<times> 'e) list) result" where
  "core_tick cb cs = each_callback (cb_tick cb) 0 cs"

definition core_skip_ticks :: "('s, 'e) callbacks \<Rightarrow> nat \<Rightarrow> 's list \<Rightarrow> nat" where
  "core_skip_ticks cb maximum cs = foldl (\<lambda>t c. min t (cb_max_skip cb c)) maximum cs"

definition core_skip :: "('s, 'e) callbacks \<Rightarrow> nat \<Rightarrow> 's list
    \<Rightarrow> (nat \<times> 's list \<times> (nat \<times> 'e) list) result" where
  "core_skip cb maximum cs =
     (let ticks = core_skip_ticks cb maximum cs in
      rbind (each_callback (cb_skip cb ticks) 0 cs) (\<lambda>(cs', es). Inr (ticks, cs', es)))"

section \<open>Repeated ticks\<close>

text \<open>The reference that skipping is compared with: \<open>n\<close> single steps, outputs in order.\<close>

fun ticks_of :: "('s \<Rightarrow> ('s \<times> 'e list) result) \<Rightarrow> nat \<Rightarrow> 's \<Rightarrow> ('s \<times> 'e list) result" where
  "ticks_of f 0 s = Inr (s, [])"
| "ticks_of f (Suc n) s =
     rbind (f s) (\<lambda>(s', es). rbind (ticks_of f n s') (\<lambda>(s'', es'). Inr (s'', es @ es')))"

lemma ticks_of_add:
  "ticks_of f (m + n) s =
     rbind (ticks_of f m s) (\<lambda>(s', es). rbind (ticks_of f n s') (\<lambda>(s'', es'). Inr (s'', es @ es')))"
proof (induction m arbitrary: s)
  case 0
  then show ?case by (cases "ticks_of f n s") auto
next
  case (Suc m)
  then show ?case
    by (cases "f s") (auto simp: rbind_assoc split_def)
qed

lemma ticks_of_Suc_right:
  "ticks_of f (Suc n) s =
     rbind (ticks_of f n s) (\<lambda>(s', es). rbind (f s') (\<lambda>(s'', es'). Inr (s'', es @ es')))"
  using ticks_of_add [of f n 1 s] by (simp add: rbind_assoc split_def)

lemma ticks_of_fixed:
  "f s = Inr (s, []) \<Longrightarrow> ticks_of f n s = Inr (s, [])"
  by (induction n) auto

definition outputs_of :: "nat \<Rightarrow> (nat \<times> 'e) list \<Rightarrow> 'e list" where
  "outputs_of i es = map snd (filter (\<lambda>p. fst p = i) es)"

lemma outputs_of_simps [simp]:
  "outputs_of i [] = []"
  "outputs_of i (es @ es') = outputs_of i es @ outputs_of i es'"
  "outputs_of i (map (Pair i) xs) = xs"
  "i \<noteq> j \<Longrightarrow> outputs_of i (map (Pair j) xs) = []"
  by (simp_all add: outputs_of_def filter_map comp_def)

text \<open>What a pass over the callbacks does to each of them.\<close>

lemma each_callback_length:
  "each_callback f i cs = Inr (cs', es) \<Longrightarrow> length cs' = length cs"
  by (induction f i cs arbitrary: cs' es rule: each_callback.induct)
    (auto simp: rbind_Inr_iff split_def)

lemma each_callback_outputs_below:
  "each_callback f i cs = Inr (cs', es) \<Longrightarrow> j < i \<Longrightarrow> outputs_of j es = []"
proof (induction f i cs arbitrary: cs' es rule: each_callback.induct)
  case (2 f i c cs)
  then show ?case
    by (fastforce simp: rbind_Inr_iff split_def)
qed auto

lemma each_callback_nth:
  assumes "each_callback f i cs = Inr (cs', es)" and "k < length cs"
  shows "f (cs ! k) = Inr (cs' ! k, outputs_of (i + k) es)"
  using assms
proof (induction f i cs arbitrary: cs' es k rule: each_callback.induct)
  case (2 f i c cs)
  from "2.prems"(1) obtain c' es1 cs1 es2 where
    1: "f c = Inr (c', es1)" and 2: "each_callback f (Suc i) cs = Inr (cs1, es2)"
    and 3: "cs' = c' # cs1" "es = map (Pair i) es1 @ es2"
    by (auto simp: rbind_Inr_iff split_def)
  show ?case
  proof (cases k)
    case 0
    with 1 3 each_callback_outputs_below [OF 2, of i] show ?thesis by simp
  next
    case (Suc m)
    with "2.prems"(2) have "m < length cs" by simp
    with "2.IH" [OF 1 refl 2] Suc 3 show ?thesis by simp
  qed
qed simp

lemma each_callback_total:
  assumes "\<forall>c \<in> set cs. \<exists>y. f c = Inr y"
  shows "\<exists>cs' es. each_callback f i cs = Inr (cs', es)"
  using assms
proof (induction cs arbitrary: i)
  case (Cons c cs)
  then obtain c' es where "f c = Inr (c', es)" by fastforce
  moreover obtain cs' es' where "each_callback f (Suc i) cs = Inr (cs', es')"
    using Cons.IH [of "Suc i"] Cons.prems by auto
  ultimately show ?case by simp
qed simp

lemma core_skip_ticks_le:
  "core_skip_ticks cb m cs \<le> m"
  "c \<in> set cs \<Longrightarrow> core_skip_ticks cb m cs \<le> cb_max_skip cb c"
proof -
  have *: "foldl (\<lambda>t c. min t (cb_max_skip cb c)) m cs \<le> m
      \<and> (\<forall>c \<in> set cs. foldl (\<lambda>t c. min t (cb_max_skip cb c)) m cs \<le> cb_max_skip cb c)" for m
  proof (induction cs arbitrary: m)
    case (Cons a cs)
    from Cons [of "min m (cb_max_skip cb a)"] show ?case by auto
  qed simp
  from * show "core_skip_ticks cb m cs \<le> m"
    by (simp add: core_skip_ticks_def)
  from * show "c \<in> set cs \<Longrightarrow> core_skip_ticks cb m cs \<le> cb_max_skip cb c"
    by (simp add: core_skip_ticks_def)
qed

lemma each_callback_outputs_above:
  "each_callback f i cs = Inr (cs', es) \<Longrightarrow> i + length cs \<le> j \<Longrightarrow> outputs_of j es = []"
proof (induction f i cs arbitrary: cs' es rule: each_callback.induct)
  case (2 f i c cs)
  then show ?case
    by (fastforce simp: rbind_Inr_iff split_def)
qed auto

section \<open>The contract of the callbacks\<close>

text \<open>
  What the clock relies on: from a state that satisfies the component's invariant a tick
  succeeds and keeps the invariant, and skipping a positive number of ticks, up to the number the
  component allows, is that number of single ticks and raises no interrupt.
\<close>

locale timing_callbacks =
  fixes cb :: "('s, 'e) callbacks"
    and inv :: "'s \<Rightarrow> bool"
    and irq :: "'e \<Rightarrow> bool"
  assumes tick_ok: "inv s \<Longrightarrow> \<exists>s' es. cb_tick cb s = Inr (s', es) \<and> inv s'"
    and skip_is_ticks: "inv s \<Longrightarrow> 0 < n \<Longrightarrow> n \<le> max_request \<Longrightarrow> n \<le> cb_max_skip cb s \<Longrightarrow>
      cb_skip cb n s = ticks_of (cb_tick cb) n s"
    and skip_quiet: "inv s \<Longrightarrow> 0 < n \<Longrightarrow> n \<le> max_request \<Longrightarrow> n \<le> cb_max_skip cb s \<Longrightarrow>
      cb_skip cb n s = Inr (s', es) \<Longrightarrow> e \<in> set es \<Longrightarrow> \<not> irq e"
begin

lemma tick_inv: "inv s \<Longrightarrow> cb_tick cb s = Inr (s', es) \<Longrightarrow> inv s'"
  using tick_ok [of s] by auto

lemma ticks_ok: "inv s \<Longrightarrow> \<exists>s' es. ticks_of (cb_tick cb) n s = Inr (s', es) \<and> inv s'"
proof (induction n arbitrary: s)
  case (Suc n)
  from tick_ok [OF Suc.prems] obtain s1 es1 where
    1: "cb_tick cb s = Inr (s1, es1)" "inv s1" by blast
  from Suc.IH [OF 1(2)] 1(1) show ?case by fastforce
qed simp

lemma core_tick_ok:
  assumes "\<forall>c \<in> set cs. inv c"
  shows "\<exists>cs' es. core_tick cb cs = Inr (cs', es) \<and> (\<forall>c \<in> set cs'. inv c)"
proof -
  have "\<forall>c \<in> set cs. \<exists>y. cb_tick cb c = Inr y"
    using assms tick_ok by blast
  then obtain cs' es where *: "each_callback (cb_tick cb) 0 cs = Inr (cs', es)"
    using each_callback_total by blast
  have "inv (cs' ! k)" if "k < length cs" for k
    using each_callback_nth [OF * that] tick_inv assms that by (metis nth_mem)
  with * show ?thesis
    by (auto simp: core_tick_def in_set_conv_nth each_callback_length)
qed

lemma core_ticks:
  assumes "\<forall>c \<in> set cs. inv c"
  shows "\<exists>cs' es. ticks_of (core_tick cb) n cs = Inr (cs', es) \<and> length cs' = length cs
    \<and> (\<forall>c \<in> set cs'. inv c)
    \<and> (\<forall>k < length cs. ticks_of (cb_tick cb) n (cs ! k) = Inr (cs' ! k, outputs_of k es))
    \<and> (\<forall>k \<ge> length cs. outputs_of k es = [])"
proof (induction n)
  case 0
  from assms show ?case by simp
next
  case (Suc n)
  then obtain cs1 es1 where
    1: "ticks_of (core_tick cb) n cs = Inr (cs1, es1)" "length cs1 = length cs"
      "\<forall>c \<in> set cs1. inv c"
      "\<forall>k < length cs. ticks_of (cb_tick cb) n (cs ! k) = Inr (cs1 ! k, outputs_of k es1)"
      "\<forall>k \<ge> length cs. outputs_of k es1 = []"
    by blast
  from core_tick_ok [OF 1(3)] obtain cs2 es2 where
    2: "each_callback (cb_tick cb) 0 cs1 = Inr (cs2, es2)" "\<forall>c \<in> set cs2. inv c"
    by (auto simp: core_tick_def)
  note len = each_callback_length [OF 2(1)]
  have "ticks_of (core_tick cb) (Suc n) cs = Inr (cs2, es1 @ es2)"
    unfolding ticks_of_Suc_right by (simp add: 1(1) 2(1) core_tick_def)
  moreover have "ticks_of (cb_tick cb) (Suc n) (cs ! k) = Inr (cs2 ! k, outputs_of k (es1 @ es2))"
    if "k < length cs" for k
    unfolding ticks_of_Suc_right
    using 1(2,4) that each_callback_nth [OF 2(1), of k] by simp
  ultimately show ?case
    using 1(2,5) 2 len each_callback_outputs_above [OF 2(1)] by auto
qed

text \<open>Skipping with the clock is ticking with the clock, as each component sees it.\<close>

lemma core_skip_is_ticks:
  assumes inv: "\<forall>c \<in> set cs. inv c" and m: "m \<le> max_request"
    and pos: "0 < core_skip_ticks cb m cs"
  shows "\<exists>n cs' es es'. core_skip cb m cs = Inr (n, cs', es) \<and> 0 < n \<and> n \<le> m
    \<and> ticks_of (core_tick cb) n cs = Inr (cs', es')
    \<and> (\<forall>k. outputs_of k es = outputs_of k es')
    \<and> (\<forall>k. \<forall>e \<in> set (outputs_of k es). \<not> irq e)"
proof -
  let ?n = "core_skip_ticks cb m cs"
  have n: "?n \<le> max_request"
    using core_skip_ticks_le(1) m by (rule order_trans)
  from core_ticks [OF inv, of ?n] obtain cs' es' where
    t: "ticks_of (core_tick cb) ?n cs = Inr (cs', es')" "length cs' = length cs"
      "\<forall>k < length cs. ticks_of (cb_tick cb) ?n (cs ! k) = Inr (cs' ! k, outputs_of k es')"
      "\<forall>k \<ge> length cs. outputs_of k es' = []"
    by blast
  have skip: "cb_skip cb ?n c = ticks_of (cb_tick cb) ?n c" if "c \<in> set cs" for c
    by (rule skip_is_ticks [OF bspec [OF inv that] pos n core_skip_ticks_le(2) [OF that]])
  have "\<forall>c \<in> set cs. \<exists>y. cb_skip cb ?n c = Inr y"
  proof
    fix c assume c: "c \<in> set cs"
    with ticks_ok [OF bspec [OF inv c], of ?n] show "\<exists>y. cb_skip cb ?n c = Inr y"
      by (auto simp: skip)
  qed
  then obtain cs2 es where s: "each_callback (cb_skip cb ?n) 0 cs = Inr (cs2, es)"
    using each_callback_total by blast
  have nth: "cb_skip cb ?n (cs ! k) = Inr (cs2 ! k, outputs_of k es)" if "k < length cs" for k
    using each_callback_nth [OF s that] by simp
  have eq: "cs2 ! k = cs' ! k \<and> outputs_of k es = outputs_of k es'" if "k < length cs" for k
    using nth [OF that] skip [OF nth_mem [OF that]] t(3) that by simp
  have len: "length cs2 = length cs"
    using s by (rule each_callback_length)
  have "cs2 = cs'"
    using eq t(2) len by (simp add: list_eq_iff_nth_eq)
  moreover have out: "outputs_of k es = outputs_of k es'" for k
    using eq [of k] t(4) each_callback_outputs_above [OF s, of k] by (cases "k < length cs") auto
  moreover have "\<not> irq e" if "e \<in> set (outputs_of k es)" for k e
  proof (cases "k < length cs")
    case True
    then have "cs ! k \<in> set cs" by (rule nth_mem)
    with inv have "inv (cs ! k)" and "?n \<le> cb_max_skip cb (cs ! k)"
      using core_skip_ticks_le(2) [of "cs ! k" cs cb m] by auto
    from skip_quiet [OF this(1) pos n this(2) nth [OF True] that] show ?thesis .
  next
    case False
    then show ?thesis
      using that each_callback_outputs_above [OF s, of k] by simp
  qed
  ultimately have "core_skip cb m cs = Inr (?n, cs', es) \<and> 0 < ?n \<and> ?n \<le> m
    \<and> ticks_of (core_tick cb) ?n cs = Inr (cs', es')
    \<and> (\<forall>k. outputs_of k es = outputs_of k es')
    \<and> (\<forall>k. \<forall>e \<in> set (outputs_of k es). \<not> irq e)"
    using s t(1) pos core_skip_ticks_le(1) [of cb m cs] by (simp add: core_skip_def Let_def)
  then show ?thesis by blast
qed

end

end
