(* ===== verification/Timers.thy ===== *)
theory Timers
  imports Core_Timing
begin

unbundle bit_operations_syntax

text \<open>
  src/src/timer.h and src/src/timer.cpp: the two timers of the DSP, their counting modes, the copy
  of the counter the MMIO region shows, and the shortcut over ticks that raise no interrupt.
\<close>

section \<open>State\<close>

text \<open>
  The field \<open>tm_count_mode\<close> has the underlying type of the enumeration CountMode: the MMIO region
  stores any three-bit value into it, which is why the code asserts that it is below 4.
\<close>

record timer =
  tm_update_mmio :: u16
  tm_pause :: u16
  tm_count_mode :: u16
  tm_scale :: u16
  tm_start_high :: u16
  tm_start_low :: u16
  tm_counter :: u32
  tm_counter_high :: u16
  tm_counter_low :: u16

abbreviation (input) Single :: u16 where "Single \<equiv> 0"
abbreviation (input) AutoRestart :: u16 where "AutoRestart \<equiv> 1"
abbreviation (input) FreeRunning :: u16 where "FreeRunning \<equiv> 2"
abbreviation (input) EventCount :: u16 where "EventCount \<equiv> 3"

datatype timer_event = TimerInterrupt

definition timer_reset :: timer where
  "timer_reset = \<lparr>tm_update_mmio = 0, tm_pause = 0, tm_count_mode = Single, tm_scale = 0,
     tm_start_high = 0, tm_start_low = 0, tm_counter = 0, tm_counter_high = 0, tm_counter_low = 0\<rparr>"

section \<open>Operations\<close>

definition timer_update_mmio :: "timer \<Rightarrow> timer" where
  "timer_update_mmio t =
     (if tm_update_mmio t = 0 then t
      else t\<lparr>tm_counter_high := ucast (drop_bit 16 (tm_counter t)),
             tm_counter_low := ucast (tm_counter t AND 0xFFFF)\<rparr>)"

definition timer_start_value :: "timer \<Rightarrow> u32" where
  "timer_start_value t = push_bit 16 (ucast (tm_start_high t)) OR ucast (tm_start_low t)"

definition timer_restart :: "timer \<Rightarrow> timer result" where
  "timer_restart t =
     rbind (rassert (tm_count_mode t < 4)) (\<lambda>_.
       Inr (if tm_count_mode t \<noteq> FreeRunning
            then timer_update_mmio (t\<lparr>tm_counter := timer_start_value t\<rparr>) else t))"

text \<open>Lines 39-45 and 55-59: count down by one, and fire when zero is reached.\<close>

definition timer_count_down :: "timer \<Rightarrow> timer \<times> timer_event list" where
  "timer_count_down t =
     (let t' = timer_update_mmio (t\<lparr>tm_counter := tm_counter t - 1\<rparr>)
      in (t', if tm_counter t' = 0 then [TimerInterrupt] else []))"

definition timer_tick :: "timer \<Rightarrow> (timer \<times> timer_event list) result" where
  "timer_tick t =
     rbind (rassert (tm_count_mode t < 4)) (\<lambda>_.
     rbind (rassert (tm_scale t = 0)) (\<lambda>_.
       if tm_pause t \<noteq> 0 then Inr (t, [])
       else if tm_count_mode t = EventCount then Inr (t, [])
       else if tm_counter t = 0 then
         (if tm_count_mode t = AutoRestart then rbind (timer_restart t) (\<lambda>t'. Inr (t', []))
          else if tm_count_mode t = FreeRunning
          then Inr (timer_update_mmio (t\<lparr>tm_counter := 0xFFFFFFFF\<rparr>), [])
          else Inr (t, []))
       else Inr (timer_count_down t)))"

definition timer_tick_event :: "timer \<Rightarrow> timer \<times> timer_event list" where
  "timer_tick_event t =
     (if tm_pause t \<noteq> 0 then (t, [])
      else if tm_count_mode t \<noteq> EventCount then (t, [])
      else if tm_counter t = 0 then (t, [])
      else timer_count_down t)"

definition timer_max_skip :: "timer \<Rightarrow> nat" where
  "timer_max_skip t =
     (if tm_pause t \<noteq> 0 \<or> tm_count_mode t = EventCount then infinity
      else if tm_counter t = 0 then
        (if tm_count_mode t = AutoRestart then unat (timer_start_value t)
         else if tm_count_mode t = FreeRunning then 0xFFFFFFFF
         else infinity)
      else unat (tm_counter t - 1))"

definition timer_skip :: "nat \<Rightarrow> timer \<Rightarrow> (timer \<times> timer_event list) result" where
  "timer_skip ticks t =
     (let from_zero = (\<lambda>reset :: u32.
        rbind (rassert (ticks \<le> unat reset)) (\<lambda>_.
          Inr (timer_update_mmio (t\<lparr>tm_counter := reset - (of_nat ticks - 1)\<rparr>), [])))
      in if tm_pause t \<noteq> 0 \<or> tm_count_mode t = EventCount then Inr (t, [])
         else if tm_counter t = 0 then
           (if tm_count_mode t = AutoRestart then from_zero (timer_start_value t)
            else if tm_count_mode t = FreeRunning then from_zero 0xFFFFFFFF
            else Inr (t, []))
         else rbind (rassert (ticks < unat (tm_counter t))) (\<lambda>_.
           Inr (timer_update_mmio (t\<lparr>tm_counter := tm_counter t - of_nat ticks\<rparr>), [])))"

definition timer_callbacks :: "(timer, timer_event) callbacks" where
  "timer_callbacks = \<lparr>cb_tick = timer_tick, cb_max_skip = timer_max_skip, cb_skip = timer_skip\<rparr>"

section \<open>Lemmas\<close>

text \<open>The configurations in which Tick passes its assertions; Tick never changes these fields.\<close>

definition timer_ok :: "timer \<Rightarrow> bool" where
  "timer_ok t \<longleftrightarrow> tm_count_mode t < 4 \<and> tm_scale t = 0"

definition timer_running :: "timer \<Rightarrow> bool" where
  "timer_running t \<longleftrightarrow> timer_ok t \<and> tm_pause t = 0 \<and> tm_count_mode t \<noteq> EventCount"

lemma timer_update_mmio_simps [simp]:
  "tm_update_mmio (timer_update_mmio t) = tm_update_mmio t"
  "tm_pause (timer_update_mmio t) = tm_pause t"
  "tm_count_mode (timer_update_mmio t) = tm_count_mode t"
  "tm_scale (timer_update_mmio t) = tm_scale t"
  "tm_start_high (timer_update_mmio t) = tm_start_high t"
  "tm_start_low (timer_update_mmio t) = tm_start_low t"
  "tm_counter (timer_update_mmio t) = tm_counter t"
  by (simp_all add: timer_update_mmio_def)

lemma timer_update_mmio_absorb [simp]:
  "timer_update_mmio ((timer_update_mmio (t\<lparr>tm_counter := c\<rparr>))\<lparr>tm_counter := d\<rparr>) =
   timer_update_mmio (t\<lparr>tm_counter := d\<rparr>)"
  by (simp add: timer_update_mmio_def)

lemma timer_start_value_cong [simp]:
  "timer_start_value (timer_update_mmio t) = timer_start_value t"
  "timer_start_value (t\<lparr>tm_counter := c\<rparr>) = timer_start_value t"
  by (simp_all add: timer_start_value_def)

lemma timer_ok_cong [simp]:
  "timer_ok (timer_update_mmio t) = timer_ok t"
  "timer_ok (t\<lparr>tm_counter := c\<rparr>) = timer_ok t"
  "timer_running (timer_update_mmio t) = timer_running t"
  "timer_running (t\<lparr>tm_counter := c\<rparr>) = timer_running t"
  by (simp_all add: timer_ok_def timer_running_def)

lemma timer_restart_AutoRestart:
  "tm_count_mode t = AutoRestart \<Longrightarrow>
   timer_restart t = Inr (timer_update_mmio (t\<lparr>tm_counter := timer_start_value t\<rparr>))"
  by (simp add: timer_restart_def)

lemma timer_tick_idle:
  "timer_ok t \<Longrightarrow> tm_pause t \<noteq> 0 \<or> tm_count_mode t = EventCount \<Longrightarrow> timer_tick t = Inr (t, [])"
  by (auto simp: timer_tick_def timer_ok_def)

lemma timer_tick_down:
  "timer_running t \<Longrightarrow> tm_counter t \<noteq> 0 \<Longrightarrow> timer_tick t = Inr (timer_count_down t)"
  by (simp add: timer_tick_def timer_running_def timer_ok_def)

lemma timer_tick_zero:
  assumes "timer_running t" and "tm_counter t = 0"
  shows "timer_tick t = Inr
    (if tm_count_mode t = AutoRestart then timer_update_mmio (t\<lparr>tm_counter := timer_start_value t\<rparr>)
     else if tm_count_mode t = FreeRunning then timer_update_mmio (t\<lparr>tm_counter := 0xFFFFFFFF\<rparr>)
     else t, [])"
  using assms
  by (simp add: timer_tick_def timer_running_def timer_ok_def timer_restart_AutoRestart)

lemma timer_tick_ok:
  "timer_ok t \<Longrightarrow> \<exists>t' es. timer_tick t = Inr (t', es) \<and> timer_ok t'"
  by (cases "timer_running t"; cases "tm_counter t = 0")
    (auto simp: timer_tick_zero timer_tick_down timer_count_down_def Let_def timer_running_def
      timer_tick_idle)

lemma timer_not_running:
  "timer_ok t \<Longrightarrow> \<not> timer_running t \<Longrightarrow> tm_pause t \<noteq> 0 \<or> tm_count_mode t = EventCount"
  by (auto simp: timer_running_def)

section \<open>Counting\<close>

lemma timer_tick_step:
  "timer_running t \<Longrightarrow> c \<noteq> 0 \<Longrightarrow> c - 1 \<noteq> 0 \<Longrightarrow>
   timer_tick (timer_update_mmio (t\<lparr>tm_counter := c\<rparr>)) =
   Inr (timer_update_mmio (t\<lparr>tm_counter := c - 1\<rparr>), [])"
  by (simp add: timer_tick_down timer_count_down_def)

lemma timer_ticks_down:
  assumes "timer_running t" and "0 < n" and "n < unat (tm_counter t)"
  shows "ticks_of timer_tick n t =
    Inr (timer_update_mmio (t\<lparr>tm_counter := tm_counter t - of_nat n\<rparr>), [])"
  using assms(2,3)
proof (induction n rule: nat_induct_non_zero)
  case 1
  then have "tm_counter t \<noteq> 0" and "tm_counter t - 1 \<noteq> 0"
    by auto
  with assms(1) show ?case
    by (simp add: timer_tick_down timer_count_down_def)
next
  case (Suc n)
  let ?c = "tm_counter t - of_nat n"
  have "unat ?c = unat (tm_counter t) - n" and
    "unat (tm_counter t - of_nat (Suc n)) = unat (tm_counter t) - Suc n"
    using Suc.prems by (simp_all only: unat_minus_of_nat)
  with Suc.prems have "?c \<noteq> 0" and "tm_counter t - of_nat (Suc n) \<noteq> 0"
    by (simp_all only: word_neq_0_unat zero_less_diff Suc_lessD)
  moreover have e: "?c - 1 = tm_counter t - of_nat (Suc n)"
    by simp
  ultimately have "timer_tick (timer_update_mmio (t\<lparr>tm_counter := ?c\<rparr>)) =
      Inr (timer_update_mmio (t\<lparr>tm_counter := tm_counter t - of_nat (Suc n)\<rparr>), [])"
    using timer_tick_step [OF assms(1), of ?c] by (simp only: e simp_thms)
  with Suc show ?case
    unfolding ticks_of_Suc_right by simp
qed

lemma timer_ticks_to_zero:
  assumes "timer_running t" and "tm_counter t \<noteq> 0"
  shows "ticks_of timer_tick (unat (tm_counter t)) t =
    Inr (timer_update_mmio (t\<lparr>tm_counter := 0\<rparr>), [TimerInterrupt])"
proof (cases "unat (tm_counter t) = 1")
  case True
  then have "tm_counter t = 1"
    by (simp add: word_unat_eq_iff)
  with True assms show ?thesis
    by (simp add: timer_tick_down timer_count_down_def)
next
  case False
  with assms(2) obtain n where n: "unat (tm_counter t) = Suc n" "0 < n"
    by (metis One_nat_def gr0_conv_Suc word_neq_0_unat neq0_conv)
  then have "tm_counter t = of_nat (Suc n)"
    by (metis of_nat_unat ucast_id)
  then have c: "tm_counter t - of_nat n = 1"
    by simp
  show ?thesis
    unfolding n(1) ticks_of_Suc_right
    using timer_ticks_down [OF assms(1) n(2)] n assms(1)
    by (simp add: c timer_tick_down timer_count_down_def)
qed

text \<open>The value the counter takes on the tick after zero, in the two modes that go on.\<close>

definition timer_reload :: "timer \<Rightarrow> u32" where
  "timer_reload t = (if tm_count_mode t = AutoRestart then timer_start_value t else 0xFFFFFFFF)"

lemma timer_reload_cong [simp]:
  "timer_reload (timer_update_mmio t) = timer_reload t"
  "timer_reload (t\<lparr>tm_counter := c\<rparr>) = timer_reload t"
  by (simp_all add: timer_reload_def)

lemma timer_tick_reload:
  "timer_running t \<Longrightarrow> tm_counter t = 0 \<Longrightarrow> tm_count_mode t \<in> {AutoRestart, FreeRunning} \<Longrightarrow>
   timer_tick t = Inr (timer_update_mmio (t\<lparr>tm_counter := timer_reload t\<rparr>), [])"
  by (auto simp: timer_tick_zero timer_reload_def)

lemma timer_one_period:
  assumes "timer_running t" and "tm_counter t = 0"
    and "tm_count_mode t \<in> {AutoRestart, FreeRunning}" and "timer_reload t \<noteq> 0"
  shows "ticks_of timer_tick (Suc (unat (timer_reload t))) t =
    Inr (timer_update_mmio (t\<lparr>tm_counter := 0\<rparr>), [TimerInterrupt])"
  using timer_ticks_to_zero [of "timer_update_mmio (t\<lparr>tm_counter := timer_reload t\<rparr>)"] assms
  by (simp add: timer_tick_reload)

lemma timer_zero_stays:
  assumes "timer_running t" and "tm_counter t = 0" and "tm_count_mode t = Single"
  shows "ticks_of timer_tick n t = Inr (t, [])"
  using assms by (intro ticks_of_fixed) (simp add: timer_tick_zero)

section \<open>Skipping\<close>

lemma timer_skip_law:
  assumes ok: "timer_ok t" and "0 < n" and n: "n \<le> timer_max_skip t"
  shows "timer_skip n t = ticks_of timer_tick n t"
proof (cases "timer_running t")
  case False
  with ok have "tm_pause t \<noteq> 0 \<or> tm_count_mode t = EventCount"
    by (rule timer_not_running)
  with ok show ?thesis
    by (simp add: timer_skip_def ticks_of_fixed timer_tick_idle)
next
  case True
  then have *: "tm_pause t = 0" "tm_count_mode t \<noteq> EventCount"
    by (simp_all add: timer_running_def)
  consider (down) "tm_counter t \<noteq> 0"
    | (reload) "tm_counter t = 0" "tm_count_mode t \<in> {AutoRestart, FreeRunning}"
    | (stop) "tm_counter t = 0" "tm_count_mode t \<notin> {AutoRestart, FreeRunning}"
    by blast
  then show ?thesis
  proof cases
    case down
    then have "unat (tm_counter t - 1) = unat (tm_counter t) - 1"
      using unat_minus_of_nat [of 1 "tm_counter t"] by (simp add: word_neq_0_unat Suc_le_eq)
    with n * down have "n < unat (tm_counter t)"
      by (simp add: timer_max_skip_def word_neq_0_unat)
    with * down show ?thesis
      by (simp add: timer_skip_def timer_ticks_down [OF True assms(2)])
  next
    case reload
    obtain m where m: "n = Suc m"
      using assms(2) gr0_conv_Suc by blast
    have r: "n \<le> unat (timer_reload t)"
      using n * reload by (auto simp: timer_max_skip_def timer_reload_def)
    have "timer_skip n t = Inr (timer_update_mmio (t\<lparr>tm_counter := timer_reload t - of_nat m\<rparr>), [])"
      using * reload r by (auto simp: timer_skip_def timer_reload_def m)
    also have "\<dots> = ticks_of timer_tick n t"
    proof (cases "m = 0")
      case True
      with m show ?thesis
        by (simp add: timer_tick_reload [OF \<open>timer_running t\<close> reload])
    next
      case False
      then show ?thesis
        using timer_ticks_down [of "timer_update_mmio (t\<lparr>tm_counter := timer_reload t\<rparr>)" m] True r m
        by (simp add: timer_tick_reload [OF True reload])
    qed
    finally show ?thesis .
  next
    case stop
    with True * show ?thesis
      by (simp add: timer_skip_def ticks_of_fixed timer_tick_zero)
  qed
qed

lemma timer_skip_no_output: "timer_skip n t = Inr (t', es) \<Longrightarrow> es = []"
  by (auto simp: timer_skip_def Let_def rbind_Inr_iff split: if_splits)

interpretation timer_clock: timing_callbacks timer_callbacks timer_ok "\<lambda>_. True"
proof unfold_locales
  show "\<exists>s' es. cb_tick timer_callbacks s = Inr (s', es) \<and> timer_ok s'" if "timer_ok s" for s
    using timer_tick_ok [OF that] by (simp add: timer_callbacks_def)
next
  show "cb_skip timer_callbacks n s = ticks_of (cb_tick timer_callbacks) n s"
    if "timer_ok s" "0 < n" "n \<le> max_request" "n \<le> cb_max_skip timer_callbacks s" for s n
    using timer_skip_law [of s n] that by (simp add: timer_callbacks_def)
next
  show "\<not> True" if "cb_skip timer_callbacks n s = Inr (s', es)" "e \<in> set es" for s n s' es e
    using timer_skip_no_output [of n s s' es] that by (simp add: timer_callbacks_def)
qed

section \<open>Properties\<close>

definition timer_zero_reload :: "timer \<Rightarrow> bool" where
  "timer_zero_reload t \<longleftrightarrow> timer_running t \<and> tm_count_mode t = AutoRestart \<and> tm_counter t = 0
     \<and> timer_start_value t = 0"

lemma timer_skip_zero_tick:
  assumes ok: "timer_ok t" and z: "\<not> timer_zero_reload t"
  shows "rbind (timer_skip 0 t) (\<lambda>(t', _). timer_tick t') = timer_tick t"
proof (cases "timer_running t")
  case False
  with ok have "tm_pause t \<noteq> 0 \<or> tm_count_mode t = EventCount"
    by (rule timer_not_running)
  then show ?thesis
    by (simp add: timer_skip_def)
next
  case True
  then have *: "tm_pause t = 0" "tm_count_mode t \<noteq> EventCount"
    by (simp_all add: timer_running_def)
  consider (down) "tm_counter t \<noteq> 0"
    | (reload) "tm_counter t = 0" "tm_count_mode t \<in> {AutoRestart, FreeRunning}"
    | (stop) "tm_counter t = 0" "tm_count_mode t \<notin> {AutoRestart, FreeRunning}"
    by blast
  then show ?thesis
  proof cases
    case down
    have "timer_update_mmio ((timer_update_mmio t)\<lparr>tm_counter := c\<rparr>) =
        timer_update_mmio (t\<lparr>tm_counter := c\<rparr>)" for c
      by (simp add: timer_update_mmio_def)
    moreover have "0 < unat (tm_counter t)"
      using down by (simp only: word_neq_0_unat)
    ultimately show ?thesis
      using True * down by (simp add: timer_skip_def timer_tick_down timer_count_down_def Let_def)
  next
    case reload
    then have r: "tm_count_mode t = AutoRestart \<Longrightarrow> timer_reload t \<noteq> 0"
      using z True by (simp add: timer_zero_reload_def timer_reload_def)
    let ?t = "timer_update_mmio (t\<lparr>tm_counter := timer_reload t + 1\<rparr>)"
    have "timer_skip 0 t = Inr (?t, [])"
      using * reload by (auto simp: timer_skip_def timer_reload_def)
    moreover have "timer_tick ?t = Inr (timer_update_mmio (t\<lparr>tm_counter := timer_reload t\<rparr>), [])"
    proof (cases "timer_reload t + 1 = 0")
      case True
      then have "timer_reload t = 0xFFFFFFFF"
        by (simp add: eq_neg_iff_add_eq_0 [symmetric])
      with True reload \<open>timer_running t\<close> show ?thesis
        by (simp add: timer_tick_reload)
    next
      case False
      moreover have "timer_reload t \<noteq> 0"
        using r reload by (auto simp: timer_reload_def)
      ultimately show ?thesis
        using timer_tick_step [OF \<open>timer_running t\<close>, of "timer_reload t + 1"] by simp
    qed
    ultimately show ?thesis
      by (simp add: timer_tick_reload [OF True reload])
  next
    case stop
    with * show ?thesis
      by (simp add: timer_skip_def)
  qed
qed

text \<open>
  C27: The use the main loop makes of the shortcut: for every timer that passes the assertions
  of Tick, skipping any number of ticks that GetMaxSkip allows, zero included, and then ticking
  once is the same, in state and in interrupts, as ticking one time more. The one exception is a
  running timer in auto-restart mode that stands at zero with a start value of zero.
\<close>

theorem timer_skip_then_tick:
  assumes "timer_ok t" and "n \<le> timer_max_skip t" and "\<not> timer_zero_reload t"
  shows "rbind (timer_skip n t) (\<lambda>(t', _). timer_tick t') = ticks_of timer_tick (Suc n) t"
proof (cases "n = 0")
  case True
  then show ?thesis
    using timer_skip_zero_tick [OF assms(1,3)] by (cases "timer_tick t") auto
next
  case False
  with timer_skip_law [OF assms(1) _ assms(2)] have s: "timer_skip n t = ticks_of timer_tick n t"
    by simp
  from timer_skip_no_output [of n t] show ?thesis
    unfolding ticks_of_Suc_right s [symmetric]
    by (cases "timer_skip n t"; cases "timer_tick (fst (projr (timer_skip n t)))") auto
qed

definition timer_example :: "u16 \<Rightarrow> timer" where
  "timer_example start = timer_reset\<lparr>tm_count_mode := AutoRestart, tm_start_low := start\<rparr>"

lemmas timer_example_defs = timer_example_def timer_ok_def timer_max_skip_def
  timer_zero_reload_def timer_running_def timer_reset_def timer_start_value_def timer_reload_def

lemma timer_skip_then_tick_witness:
  "rbind (timer_skip 3 (timer_example 5)) (\<lambda>(t', _). timer_tick t') =
   ticks_of timer_tick (Suc 3) (timer_example 5)"
  by (rule timer_skip_then_tick) (simp_all add: timer_example_defs)

text \<open>
  C30: A running timer in auto-restart or free-running mode that starts from zero raises exactly one
  interrupt in every \<open>reload + 1\<close> ticks, for any number of periods, and stands at zero again.
\<close>

theorem timer_period:
  assumes "timer_running t" and "tm_counter t = 0"
    and "tm_count_mode t \<in> {AutoRestart, FreeRunning}" and "timer_reload t \<noteq> 0"
  shows "\<exists>t'. ticks_of timer_tick (k * Suc (unat (timer_reload t))) t =
      Inr (t', replicate k TimerInterrupt) \<and> tm_counter t' = 0"
proof -
  have "\<exists>t'. ticks_of timer_tick (k * Suc (unat (timer_reload t))) t =
      Inr (t', replicate k TimerInterrupt) \<and> (t' = t \<or> t' = timer_update_mmio (t\<lparr>tm_counter := 0\<rparr>))"
  proof (induction k)
    case (Suc k)
    then obtain t' where t': "ticks_of timer_tick (k * Suc (unat (timer_reload t))) t =
        Inr (t', replicate k TimerInterrupt)" "t' = t \<or> t' = timer_update_mmio (t\<lparr>tm_counter := 0\<rparr>)"
      by blast
    then have "ticks_of timer_tick (Suc (unat (timer_reload t))) t' =
        Inr (timer_update_mmio (t\<lparr>tm_counter := 0\<rparr>), [TimerInterrupt])"
      using timer_one_period [of t'] assms by auto
    then show ?case
      unfolding mult_Suc add.commute [of "Suc _" "k * _"] ticks_of_add t'(1)
      by (simp add: replicate_append_same)
  qed simp
  with assms(2) show ?thesis by auto
qed

lemma timer_period_witness:
  "\<exists>t'. ticks_of timer_tick (3 * Suc (unat (timer_reload (timer_example 3)))) (timer_example 3) =
     Inr (t', replicate 3 TimerInterrupt) \<and> tm_counter t' = 0"
  by (rule timer_period) (simp_all add: timer_example_defs)

text \<open>
  C37: The exception of the first property: with a start value of zero no number of ticks ever
  raises an interrupt, but after \<open>Skip(0)\<close> the very next tick raises one.
\<close>

theorem timer_skip_zero_spurious:
  assumes "timer_zero_reload t"
  shows "(\<exists>t'. ticks_of timer_tick n t = Inr (t', [])) \<and>
    (\<exists>t'. rbind (timer_skip 0 t) (\<lambda>(t', _). timer_tick t') = Inr (t', [TimerInterrupt]))"
proof
  show "\<exists>t'. ticks_of timer_tick n t = Inr (t', [])"
    using assms
  proof (induction n arbitrary: t)
    case (Suc n)
    let ?t = "timer_update_mmio (t\<lparr>tm_counter := 0\<rparr>)"
    have "timer_tick t = Inr (?t, [])" and "timer_zero_reload ?t"
      using Suc.prems by (simp_all add: timer_zero_reload_def timer_tick_reload timer_reload_def)
    with Suc.IH [of ?t] show ?case by auto
  qed simp
  have "timer_skip 0 t = Inr (timer_update_mmio (t\<lparr>tm_counter := 1\<rparr>), [])"
    using assms by (simp add: timer_skip_def timer_zero_reload_def timer_running_def)
  with assms show "\<exists>t'. rbind (timer_skip 0 t) (\<lambda>(t', _). timer_tick t') = Inr (t', [TimerInterrupt])"
    by (simp add: timer_zero_reload_def timer_tick_down timer_count_down_def Let_def)
qed

lemma timer_skip_zero_spurious_witness:
  "(\<exists>t'. ticks_of timer_tick 100 (timer_example 0) = Inr (t', [])) \<and>
   (\<exists>t'. rbind (timer_skip 0 (timer_example 0)) (\<lambda>(t', _). timer_tick t') =
      Inr (t', [TimerInterrupt]))"
  by (rule timer_skip_zero_spurious) (simp add: timer_example_defs)

end
