(* ===== verification/Audio_Ports.thy ===== *)
theory Audio_Ports
  imports Core_Timing
begin

text \<open>
  src/src/btdmp.h and src/src/btdmp.cpp: the two serial audio ports with their transmit queue of 16
  words. The queue is the list of its words, front first.
\<close>

section \<open>State\<close>

record btdmp =
  bt_transmit_clock_config :: u16
  bt_transmit_period :: u16
  bt_transmit_timer :: u16
  bt_transmit_enable :: u16
  bt_transmit_empty :: bool
  bt_transmit_full :: bool
  bt_transmit_queue :: "u16 list"

text \<open>A sample is the pair of words the code casts to signed 16-bit integers.\<close>

datatype btdmp_event = BtdmpInterrupt | AudioSample "u16 \<times> u16"

definition btdmp_reset :: btdmp where
  "btdmp_reset = \<lparr>bt_transmit_clock_config = 0, bt_transmit_period = 4096, bt_transmit_timer = 0,
     bt_transmit_enable = 0, bt_transmit_empty = True, bt_transmit_full = False,
     bt_transmit_queue = []\<rparr>"

section \<open>Operations\<close>

definition btdmp_send :: "u16 \<Rightarrow> btdmp \<Rightarrow> btdmp" where
  "btdmp_send v b =
     (if length (bt_transmit_queue b) = 16 then b
      else let q = bt_transmit_queue b @ [v] in
        b\<lparr>bt_transmit_queue := q, bt_transmit_empty := False, bt_transmit_full := (length q = 16)\<rparr>)"

definition btdmp_set_flush :: "u16 \<Rightarrow> btdmp \<Rightarrow> btdmp" where
  "btdmp_set_flush v b =
     b\<lparr>bt_transmit_queue := [], bt_transmit_empty := True, bt_transmit_full := False\<rparr>"

definition btdmp_get_flush :: "btdmp \<Rightarrow> u16" where
  "btdmp_get_flush b = 0"

text \<open>The body of the loop over the two words of a sample in Tick.\<close>

definition btdmp_take :: "btdmp \<Rightarrow> u16 \<times> btdmp \<times> btdmp_event list" where
  "btdmp_take b =
     (case bt_transmit_queue b of
        [] \<Rightarrow> (0, b, [])
      | v # q \<Rightarrow> (v, b\<lparr>bt_transmit_queue := q, bt_transmit_empty := (q = []),
                        bt_transmit_full := False\<rparr>,
                  if q = [] then [BtdmpInterrupt] else []))"

definition btdmp_transmit :: "btdmp \<Rightarrow> btdmp \<times> btdmp_event list" where
  "btdmp_transmit b =
     (let (l, b1, es1) = btdmp_take b;
          (r, b2, es2) = btdmp_take b1
      in (b2, es1 @ es2 @ [AudioSample (l, r)]))"

definition btdmp_tick :: "btdmp \<Rightarrow> btdmp \<times> btdmp_event list" where
  "btdmp_tick b =
     (if bt_transmit_enable b \<noteq> 0 then
        (let b' = b\<lparr>bt_transmit_timer := bt_transmit_timer b + 1\<rparr> in
         if bt_transmit_timer b' \<ge> bt_transmit_period b'
         then btdmp_transmit (b'\<lparr>bt_transmit_timer := 0\<rparr>)
         else (b', []))
      else (b, []))"

definition btdmp_max_skip :: "btdmp \<Rightarrow> nat" where
  "btdmp_max_skip b =
     (if bt_transmit_enable b = 0 \<or> bt_transmit_queue b = [] then infinity
      else
        (if bt_transmit_timer b < bt_transmit_period b
         then unat (bt_transmit_period b) - unat (bt_transmit_timer b) - 1 else 0)
        + ((length (bt_transmit_queue b) + 1) div 2 - 1) * unat (bt_transmit_period b))"

text \<open>One word of a sample in the loop of Skip: the assertion forbids emptying the queue.\<close>

definition btdmp_skip_take :: "btdmp \<Rightarrow> (u16 \<times> btdmp) result" where
  "btdmp_skip_take b =
     (case bt_transmit_queue b of
        [] \<Rightarrow> Inr (0, b)
      | v # q \<Rightarrow> rbind (rassert (q \<noteq> [])) (\<lambda>_.
          Inr (v, b\<lparr>bt_transmit_queue := q, bt_transmit_full := False\<rparr>)))"

fun btdmp_skip_cycles :: "nat \<Rightarrow> btdmp \<Rightarrow> (btdmp \<times> btdmp_event list) result" where
  "btdmp_skip_cycles 0 b = Inr (b, [])"
| "btdmp_skip_cycles (Suc c) b =
     rbind (btdmp_skip_take b) (\<lambda>(l, b1).
     rbind (btdmp_skip_take b1) (\<lambda>(r, b2).
     rbind (btdmp_skip_cycles c b2) (\<lambda>(b3, es). Inr (b3, AudioSample (l, r) # es))))"

definition btdmp_skip :: "nat \<Rightarrow> btdmp \<Rightarrow> (btdmp \<times> btdmp_event list) result" where
  "btdmp_skip ticks b =
     (if bt_transmit_enable b = 0 then Inr (b, [])
      else
        let b1 = (if bt_transmit_timer b \<ge> bt_transmit_period b
                  then b\<lparr>bt_transmit_timer := 0\<rparr> else b);
            future_timer = (unat (bt_transmit_timer b1) + ticks) mod 2 ^ 64;
            period = unat (bt_transmit_period b1)
        in if period = 0 then Inl DivideByZero
           else btdmp_skip_cycles (future_timer div period)
                  (b1\<lparr>bt_transmit_timer := of_nat (future_timer mod period)\<rparr>))"

definition btdmp_callbacks :: "(btdmp, btdmp_event) callbacks" where
  "btdmp_callbacks = \<lparr>cb_tick = (\<lambda>b. Inr (btdmp_tick b)), cb_max_skip = btdmp_max_skip,
     cb_skip = btdmp_skip\<rparr>"

section \<open>The invariant\<close>

definition btdmp_flags_ok :: "btdmp \<Rightarrow> bool" where
  "btdmp_flags_ok b \<longleftrightarrow>
     length (bt_transmit_queue b) \<le> 16 \<and>
     bt_transmit_empty b = (bt_transmit_queue b = []) \<and>
     bt_transmit_full b = (length (bt_transmit_queue b) = 16)"

definition btdmp_ok :: "btdmp \<Rightarrow> bool" where
  "btdmp_ok b \<longleftrightarrow> btdmp_flags_ok b \<and> bt_transmit_timer b < bt_transmit_period b"

lemma btdmp_reset_ok [inv_intros]: "btdmp_ok btdmp_reset"
  by (simp add: btdmp_ok_def btdmp_flags_ok_def btdmp_reset_def)

lemma btdmp_flags_ok_timer [simp]:
  "btdmp_flags_ok (b\<lparr>bt_transmit_timer := t\<rparr>) = btdmp_flags_ok b"
  by (simp add: btdmp_flags_ok_def)

lemma btdmp_send_flags [inv_intros]: "btdmp_flags_ok b \<Longrightarrow> btdmp_flags_ok (btdmp_send v b)"
  by (auto simp: btdmp_flags_ok_def btdmp_send_def Let_def)

lemma btdmp_flush_flags [inv_intros]: "btdmp_flags_ok (btdmp_set_flush v b)"
  by (simp add: btdmp_flags_ok_def btdmp_set_flush_def)

lemma btdmp_take_flags [inv_intros]:
  "btdmp_flags_ok b \<Longrightarrow> btdmp_take b = (v, b', es) \<Longrightarrow> btdmp_flags_ok b'"
  by (auto simp: btdmp_flags_ok_def btdmp_take_def split: list.splits)

lemma btdmp_take_frame [simp]:
  "btdmp_take b = (v, b', es) \<Longrightarrow> bt_transmit_timer b' = bt_transmit_timer b"
  "btdmp_take b = (v, b', es) \<Longrightarrow> bt_transmit_period b' = bt_transmit_period b"
  "btdmp_take b = (v, b', es) \<Longrightarrow> bt_transmit_enable b' = bt_transmit_enable b"
  by (auto simp: btdmp_take_def split: list.splits)

lemma btdmp_transmit_flags [inv_intros]:
  "btdmp_flags_ok b \<Longrightarrow> btdmp_transmit b = (b', es) \<Longrightarrow> btdmp_flags_ok b'"
  by (auto simp: btdmp_transmit_def split: prod.splits intro: btdmp_take_flags)

lemma btdmp_transmit_frame [simp]:
  "btdmp_transmit b = (b', es) \<Longrightarrow> bt_transmit_timer b' = bt_transmit_timer b"
  "btdmp_transmit b = (b', es) \<Longrightarrow> bt_transmit_period b' = bt_transmit_period b"
  "btdmp_transmit b = (b', es) \<Longrightarrow> bt_transmit_enable b' = bt_transmit_enable b"
  by (auto simp: btdmp_transmit_def split: prod.splits)

lemma btdmp_take_timer:
  "btdmp_take (b\<lparr>bt_transmit_timer := t\<rparr>) =
   (case btdmp_take b of (v, b', es) \<Rightarrow> (v, b'\<lparr>bt_transmit_timer := t\<rparr>, es))"
  by (cases "bt_transmit_queue b") (simp_all add: btdmp_take_def)

lemma btdmp_transmit_timer:
  "btdmp_transmit (b\<lparr>bt_transmit_timer := t\<rparr>) =
   (case btdmp_transmit b of (b', es) \<Rightarrow> (b'\<lparr>bt_transmit_timer := t\<rparr>, es))"
  by (simp add: btdmp_transmit_def btdmp_take_timer split: prod.splits)

lemma btdmp_tick_ok [inv_intros]:
  assumes "btdmp_ok b" and "btdmp_tick b = (b', es)"
  shows "btdmp_ok b'"
proof -
  from assms(1) have f: "btdmp_flags_ok b" and p: "0 < bt_transmit_period b"
    by (auto simp: btdmp_ok_def intro: le_less_trans [OF word_zero_le])
  obtain b1 es1 where t: "btdmp_transmit b = (b1, es1)"
    by fastforce
  have "btdmp_flags_ok b1"
    using f t by (rule btdmp_transmit_flags)
  with assms t p show ?thesis
    by (auto simp: btdmp_tick_def btdmp_ok_def Let_def btdmp_transmit_timer split: if_splits)
qed

section \<open>Skipping\<close>

abbreviation btdmp_transmits :: "nat \<Rightarrow> btdmp \<Rightarrow> (btdmp \<times> btdmp_event list) result" where
  "btdmp_transmits \<equiv> ticks_of (\<lambda>b. Inr (btdmp_transmit b))"

abbreviation btdmp_ticks :: "nat \<Rightarrow> btdmp \<Rightarrow> (btdmp \<times> btdmp_event list) result" where
  "btdmp_ticks \<equiv> ticks_of (\<lambda>b. Inr (btdmp_tick b))"

lemma btdmp_transmits_total: "\<exists>b' es. btdmp_transmits k b = Inr (b', es)"
proof (induction k arbitrary: b)
  case (Suc k)
  obtain b1 es1 where "btdmp_transmit b = (b1, es1)"
    by fastforce
  moreover obtain b2 es2 where "btdmp_transmits k b1 = Inr (b2, es2)"
    using Suc by blast
  ultimately show ?case by simp
qed simp

lemma btdmp_transmits_frame:
  "btdmp_transmits k b = Inr (b', es) \<Longrightarrow>
   bt_transmit_period b' = bt_transmit_period b \<and> bt_transmit_enable b' = bt_transmit_enable b"
  by (induction k arbitrary: b b' es) (auto simp: rbind_Inr_iff split: prod.splits)

lemma btdmp_transmits_timer:
  "btdmp_transmits k (b\<lparr>bt_transmit_timer := t\<rparr>) =
   rbind (btdmp_transmits k b) (\<lambda>(b', es). Inr (b'\<lparr>bt_transmit_timer := t\<rparr>, es))"
  by (induction k arbitrary: b)
    (simp_all add: btdmp_transmit_timer rbind_assoc split_def)

text \<open>One tick of a port whose timer stands at \<open>r\<close>, below the period.\<close>

lemma btdmp_tick_at:
  assumes "bt_transmit_enable b \<noteq> 0" and r: "r < unat (bt_transmit_period b)"
  shows "btdmp_tick (b\<lparr>bt_transmit_timer := of_nat r\<rparr>) =
    (if Suc r = unat (bt_transmit_period b)
     then case btdmp_transmit b of (b', es) \<Rightarrow> (b'\<lparr>bt_transmit_timer := 0\<rparr>, es)
     else (b\<lparr>bt_transmit_timer := of_nat (Suc r)\<rparr>, []))"
proof -
  have "Suc r < 65536"
    using r unat_lt_2p16 [of "bt_transmit_period b"] by linarith
  then have 1: "unat (of_nat (Suc r) :: u16) = Suc r"
    by (simp only: unat_of_nat) simp
  have 2: "of_nat r + 1 = (of_nat (Suc r) :: u16)"
    by simp
  have "of_nat r + 1 \<ge> bt_transmit_period b \<longleftrightarrow> unat (bt_transmit_period b) \<le> Suc r"
    by (simp only: word_le_nat_alt 1 2)
  then have "of_nat r + 1 \<ge> bt_transmit_period b \<longleftrightarrow> Suc r = unat (bt_transmit_period b)"
    using r by linarith
  with assms(1) show ?thesis
    by (simp add: btdmp_tick_def Let_def btdmp_transmit_timer add.commute)
qed

lemma btdmp_ticks_eq:
  assumes "bt_transmit_enable b \<noteq> 0" and t: "bt_transmit_timer b < bt_transmit_period b"
  shows "btdmp_ticks n b =
    rbind (btdmp_transmits ((unat (bt_transmit_timer b) + n) div unat (bt_transmit_period b)) b)
      (\<lambda>(b', es). Inr (b'\<lparr>bt_transmit_timer :=
         of_nat ((unat (bt_transmit_timer b) + n) mod unat (bt_transmit_period b))\<rparr>, es))"
proof (induction n)
  case 0
  from t have "unat (bt_transmit_timer b) < unat (bt_transmit_period b)"
    by (simp add: word_less_nat_alt)
  then show ?case by simp
next
  case (Suc n)
  let ?p = "unat (bt_transmit_period b)" and ?m = "unat (bt_transmit_timer b) + n"
  from t have p: "0 < ?p"
    by (simp add: word_less_nat_alt)
  obtain b1 es1 where 1: "btdmp_transmits (?m div ?p) b = Inr (b1, es1)"
    using btdmp_transmits_total by blast
  note fr = btdmp_transmits_frame [OF 1]
  have step: "btdmp_ticks (Suc n) b =
      (case btdmp_tick (b1\<lparr>bt_transmit_timer := of_nat (?m mod ?p)\<rparr>) of
         (b2, es2) \<Rightarrow> Inr (b2, es1 @ es2))"
    unfolding ticks_of_Suc_right Suc.IH by (simp add: 1)
  have tick: "btdmp_tick (b1\<lparr>bt_transmit_timer := of_nat (?m mod ?p)\<rparr>) =
      (if Suc (?m mod ?p) = ?p
       then case btdmp_transmit b1 of (b', es) \<Rightarrow> (b'\<lparr>bt_transmit_timer := 0\<rparr>, es)
       else (b1\<lparr>bt_transmit_timer := of_nat (Suc (?m mod ?p))\<rparr>, []))"
    using btdmp_tick_at [of b1 "?m mod ?p"] assms(1) p fr by simp
  show ?case
  proof (cases "Suc (?m mod ?p) = ?p")
    case True
    then have "Suc ?m div ?p = Suc (?m div ?p)" and "Suc ?m mod ?p = 0"
      by (simp_all add: div_Suc mod_Suc)
    with True show ?thesis
      unfolding step tick add_Suc_right
      by (simp only: ticks_of_Suc_right 1) (simp split: prod.splits)
  next
    case False
    then have "Suc ?m div ?p = ?m div ?p" and "Suc ?m mod ?p = Suc (?m mod ?p)"
      by (simp_all add: div_Suc mod_Suc)
    with False show ?thesis
      unfolding step tick add_Suc_right by (simp add: 1)
  qed
qed

text \<open>While the queue does not run empty, a cycle of Skip is the transmission of Tick.\<close>

lemma btdmp_transmit_more:
  assumes "btdmp_flags_ok b" and "2 < length (bt_transmit_queue b)"
  shows "\<exists>l r q. bt_transmit_queue b = l # r # q \<and> q \<noteq> [] \<and>
    btdmp_transmit b = (b\<lparr>bt_transmit_queue := q, bt_transmit_full := False\<rparr>, [AudioSample (l, r)])"
proof -
  obtain l r q where q: "bt_transmit_queue b = l # r # q" "q \<noteq> []"
    using assms(2) by (auto simp: numeral_2_eq_2 Suc_less_eq2 length_Suc_conv)
  moreover have "bt_transmit_empty b = False"
    using assms(1) q by (simp add: btdmp_flags_ok_def)
  ultimately show ?thesis
    by (simp add: btdmp_transmit_def btdmp_take_def)
qed

lemma btdmp_transmit_none:
  "bt_transmit_queue b = [] \<Longrightarrow> btdmp_transmit b = (b, [AudioSample (0, 0)])"
  by (simp add: btdmp_transmit_def btdmp_take_def)

lemma btdmp_skip_cycles_eq:
  assumes "btdmp_flags_ok b" and "bt_transmit_queue b = [] \<or> 2 * k < length (bt_transmit_queue b)"
  shows "btdmp_skip_cycles k b = btdmp_transmits k b"
  using assms
proof (induction k arbitrary: b)
  case (Suc k)
  show ?case
  proof (cases "bt_transmit_queue b = []")
    case True
    with Suc show ?thesis
      by (simp add: btdmp_skip_take_def btdmp_transmit_none)
  next
    case False
    with Suc.prems btdmp_transmit_more [of b] obtain l r q where
      q: "bt_transmit_queue b = l # r # q" "q \<noteq> []" and
      t: "btdmp_transmit b = (b\<lparr>bt_transmit_queue := q, bt_transmit_full := False\<rparr>, [AudioSample (l, r)])"
      by auto
    let ?b = "b\<lparr>bt_transmit_queue := q, bt_transmit_full := False\<rparr>"
    have "btdmp_flags_ok ?b"
      using Suc.prems(1) t by (rule btdmp_transmit_flags)
    then have "btdmp_skip_cycles k ?b = btdmp_transmits k ?b"
      using Suc.IH [of ?b] Suc.prems(2) q False by simp
    with q t show ?thesis
      by (simp add: btdmp_skip_take_def)
  qed
qed simp

lemma btdmp_skip_quiet:
  "btdmp_skip n b = Inr (b', es) \<Longrightarrow> BtdmpInterrupt \<notin> set es"
proof -
  have "btdmp_skip_cycles k b = Inr (b', es) \<Longrightarrow> BtdmpInterrupt \<notin> set es" for k b
    by (induction k arbitrary: b b' es) (auto simp: rbind_Inr_iff)
  then show "btdmp_skip n b = Inr (b', es) \<Longrightarrow> BtdmpInterrupt \<notin> set es"
    by (auto simp: btdmp_skip_def Let_def split: if_splits)
qed

lemma btdmp_max_skip_cycles:
  assumes "bt_transmit_enable b \<noteq> 0" and t: "bt_transmit_timer b < bt_transmit_period b"
    and "bt_transmit_queue b \<noteq> []" and n: "n \<le> btdmp_max_skip b"
  shows "2 * ((unat (bt_transmit_timer b) + n) div unat (bt_transmit_period b))
    < length (bt_transmit_queue b)"
proof -
  let ?p = "unat (bt_transmit_period b)" and ?h = "(length (bt_transmit_queue b) + 1) div 2"
  have tp: "unat (bt_transmit_timer b) < ?p"
    using t by (simp add: word_less_nat_alt)
  have half: "0 < l \<Longrightarrow> 0 < (l + 1) div 2 \<and> 2 * ((l + 1) div 2 - 1) < l" for l :: nat
    by presburger
  have h: "0 < ?h" and hq: "2 * (?h - 1) < length (bt_transmit_queue b)"
    using half [OF iffD2 [OF length_greater_0_conv assms(3)]] by blast+
  obtain k where k: "?h = Suc k"
    using h gr0_conv_Suc by blast
  have "unat (bt_transmit_timer b) + n \<le> (?p - 1) + (?h - 1) * ?p"
    using n assms(1,3) t tp by (simp add: btdmp_max_skip_def)
  also have "\<dots> < ?h * ?p"
    unfolding k using tp by simp
  finally have "(unat (bt_transmit_timer b) + n) div ?p < ?h"
    using tp by (simp add: div_less_iff_less_mult)
  with hq show ?thesis by linarith
qed

lemma btdmp_skip_law:
  assumes ok: "btdmp_ok b" and n: "n \<le> max_request" "n \<le> btdmp_max_skip b"
  shows "btdmp_skip n b = btdmp_ticks n b"
proof (cases "bt_transmit_enable b = 0")
  case True
  then show ?thesis
    by (simp add: btdmp_skip_def ticks_of_fixed btdmp_tick_def)
next
  case False
  let ?p = "unat (bt_transmit_period b)" and ?m = "unat (bt_transmit_timer b) + n"
  from ok have f: "btdmp_flags_ok b" and t: "bt_transmit_timer b < bt_transmit_period b"
    by (simp_all add: btdmp_ok_def)
  have p: "0 < ?p"
    using t by (simp add: word_less_nat_alt)
  have nt: "(bt_transmit_timer b \<ge> bt_transmit_period b) = False"
    using t by (simp add: not_le)
  have m: "?m mod 2 ^ 64 = ?m"
    using n(1) unat_lt_2p16 [of "bt_transmit_timer b"]
    by (intro mod_less) (simp add: max_request_def)
  let ?b = "b\<lparr>bt_transmit_timer := of_nat (?m mod ?p)\<rparr>"
  have "btdmp_skip n b = btdmp_skip_cycles (?m div ?p) ?b"
    using p by (simp only: btdmp_skip_def Let_def False nt m if_False neq0_conv [symmetric])
  also have "\<dots> = btdmp_transmits (?m div ?p) ?b"
  proof (rule btdmp_skip_cycles_eq)
    show "btdmp_flags_ok ?b"
      using f by simp
    show "bt_transmit_queue ?b = [] \<or> 2 * (?m div ?p) < length (bt_transmit_queue ?b)"
      using btdmp_max_skip_cycles [OF False t _ n(2)] by auto
  qed
  also have "\<dots> = rbind (btdmp_transmits (?m div ?p) b)
      (\<lambda>(b', es). Inr (b'\<lparr>bt_transmit_timer := of_nat (?m mod ?p)\<rparr>, es))"
    by (rule btdmp_transmits_timer)
  also have "\<dots> = btdmp_ticks n b"
    using btdmp_ticks_eq [OF False t] by simp
  finally show ?thesis .
qed

text \<open>The interrupt is the one event the clock must not skip over.\<close>

interpretation btdmp_clock: timing_callbacks btdmp_callbacks btdmp_ok "\<lambda>e. e = BtdmpInterrupt"
proof unfold_locales
  show "\<exists>s' es. cb_tick btdmp_callbacks s = Inr (s', es) \<and> btdmp_ok s'" if "btdmp_ok s" for s
    using btdmp_tick_ok [OF that] by (cases "btdmp_tick s") (simp add: btdmp_callbacks_def)
next
  show "cb_skip btdmp_callbacks n s = ticks_of (cb_tick btdmp_callbacks) n s"
    if "btdmp_ok s" "0 < n" "n \<le> max_request" "n \<le> cb_max_skip btdmp_callbacks s" for s n
    using btdmp_skip_law [of s n] that by (simp add: btdmp_callbacks_def)
next
  show "e \<noteq> BtdmpInterrupt"
    if "cb_skip btdmp_callbacks n s = Inr (s', es)" "e \<in> set es" for s n s' es e
    using btdmp_skip_quiet [of n s s' es] that by (auto simp: btdmp_callbacks_def)
qed

section \<open>Properties\<close>

text \<open>
  C28: Skipping any number of ticks that GetMaxSkip allows, zero included, is that many
  single ticks: the same queue, timer and flags, and the same audio samples in the same order.
\<close>

theorem btdmp_skip_is_ticks:
  assumes "btdmp_ok b" and "n \<le> max_request" and "n \<le> btdmp_max_skip b"
  shows "btdmp_skip n b = ticks_of (\<lambda>b. Inr (btdmp_tick b)) n b"
  using assms by (rule btdmp_skip_law)

definition btdmp_example :: btdmp where
  "btdmp_example = btdmp_reset\<lparr>bt_transmit_enable := 1, bt_transmit_period := 3,
     bt_transmit_queue := [1, 2, 3, 4], bt_transmit_empty := False\<rparr>"

lemma btdmp_skip_is_ticks_witness:
  "btdmp_skip 5 btdmp_example = ticks_of (\<lambda>b. Inr (btdmp_tick b)) 5 btdmp_example"
  by (rule btdmp_skip_is_ticks)
    (simp_all add: btdmp_example_def btdmp_reset_def btdmp_ok_def btdmp_flags_ok_def
      max_request_def btdmp_max_skip_def)

text \<open>The pairs of words a queue is sent as.\<close>

fun sample_pairs :: "u16 list \<Rightarrow> (u16 \<times> u16) list" where
  "sample_pairs (l # r # q) = (l, r) # sample_pairs q"
| "sample_pairs _ = []"

lemma btdmp_transmits_fifo:
  assumes "btdmp_flags_ok b" and "length (bt_transmit_queue b) = 2 * Suc k"
  shows "btdmp_transmits (Suc k) b =
    Inr (b\<lparr>bt_transmit_queue := [], bt_transmit_empty := True, bt_transmit_full := False\<rparr>,
      map AudioSample (butlast (sample_pairs (bt_transmit_queue b))) @
      [BtdmpInterrupt, AudioSample (last (sample_pairs (bt_transmit_queue b)))])"
  using assms
proof (induction k arbitrary: b)
  case 0
  then obtain l r where "bt_transmit_queue b = [l, r]"
    by (auto simp: numeral_2_eq_2 length_Suc_conv)
  then show ?case
    by (simp add: btdmp_transmit_def btdmp_take_def)
next
  case (Suc k)
  then obtain l r q where
    q: "bt_transmit_queue b = l # r # q" "q \<noteq> []" and
    t: "btdmp_transmit b = (b\<lparr>bt_transmit_queue := q, bt_transmit_full := False\<rparr>, [AudioSample (l, r)])"
    using btdmp_transmit_more [of b] by auto
  let ?b = "b\<lparr>bt_transmit_queue := q, bt_transmit_full := False\<rparr>"
  have "btdmp_flags_ok ?b"
    using Suc.prems(1) t by (rule btdmp_transmit_flags)
  moreover have len: "length q = 2 * Suc k"
    using Suc.prems(2) q by simp
  moreover have "sample_pairs q \<noteq> []"
    using len by (auto simp: length_Suc_conv)
  ultimately show ?case
    using Suc.IH [of ?b] by (subst ticks_of.simps) (simp add: t q)
qed

lemma btdmp_send_all:
  assumes "btdmp_flags_ok b" and "length (bt_transmit_queue b) + length vs \<le> 16"
  shows "bt_transmit_queue (fold btdmp_send vs b) = bt_transmit_queue b @ vs \<and>
    btdmp_flags_ok (fold btdmp_send vs b) \<and>
    bt_transmit_timer (fold btdmp_send vs b) = bt_transmit_timer b \<and>
    bt_transmit_period (fold btdmp_send vs b) = bt_transmit_period b \<and>
    bt_transmit_enable (fold btdmp_send vs b) = bt_transmit_enable b"
  using assms
proof (induction vs arbitrary: b)
  case (Cons v vs)
  have q: "bt_transmit_queue (btdmp_send v b) = bt_transmit_queue b @ [v]"
    using Cons.prems(2) by (simp add: btdmp_send_def Let_def)
  have "btdmp_flags_ok (btdmp_send v b)"
    using Cons.prems(1) by (rule btdmp_send_flags)
  moreover have "bt_transmit_timer (btdmp_send v b) = bt_transmit_timer b"
    "bt_transmit_period (btdmp_send v b) = bt_transmit_period b"
    "bt_transmit_enable (btdmp_send v b) = bt_transmit_enable b"
    by (simp_all add: btdmp_send_def Let_def)
  ultimately show ?case
    using Cons.IH [of "btdmp_send v b"] Cons.prems(2) q by simp
qed simp

text \<open>
  C29: The port is a FIFO: up to sixteen words sent to an idle enabled port come out, two at a
  time and in order, one sample in every period, and the interrupt is raised exactly once, when the
  last pair is taken.
\<close>

theorem btdmp_plays_what_was_sent:
  assumes "btdmp_ok b" and "bt_transmit_queue b = []" and "bt_transmit_enable b \<noteq> 0"
    and "bt_transmit_timer b = 0" and "length vs = 2 * Suc k" and "length vs \<le> 16"
  shows "\<exists>b'. ticks_of (\<lambda>b. Inr (btdmp_tick b)) (Suc k * unat (bt_transmit_period b)) (fold btdmp_send vs b) =
      Inr (b', map AudioSample (butlast (sample_pairs vs)) @
        [BtdmpInterrupt, AudioSample (last (sample_pairs vs))]) \<and>
      bt_transmit_queue b' = [] \<and> btdmp_ok b'"
proof -
  let ?b = "fold btdmp_send vs b"
  have s: "bt_transmit_queue ?b = vs \<and> btdmp_flags_ok ?b \<and> bt_transmit_timer ?b = 0 \<and>
      bt_transmit_period ?b = bt_transmit_period b \<and> bt_transmit_enable ?b \<noteq> 0"
    using btdmp_send_all [of b vs] assms by (simp add: btdmp_ok_def)
  have p: "0 < bt_transmit_period b"
    using assms(1,4) by (simp add: btdmp_ok_def)
  then have "0 < unat (bt_transmit_period b)"
    by (simp add: word_less_nat_alt)
  moreover have "btdmp_transmits (Suc k) ?b =
      Inr (?b\<lparr>bt_transmit_queue := [], bt_transmit_empty := True, bt_transmit_full := False\<rparr>,
        map AudioSample (butlast (sample_pairs vs)) @
        [BtdmpInterrupt, AudioSample (last (sample_pairs vs))])"
    using btdmp_transmits_fifo [of ?b k] s assms(5) by simp
  ultimately show ?thesis
    using btdmp_ticks_eq [of ?b "Suc k * unat (bt_transmit_period b)"] s p
    by (simp add: btdmp_ok_def btdmp_flags_ok_def del: ticks_of.simps mult_Suc)
qed

lemma btdmp_plays_what_was_sent_witness:
  "\<exists>b'. ticks_of (\<lambda>b. Inr (btdmp_tick b)) (Suc 1 * unat (bt_transmit_period (btdmp_example\<lparr>bt_transmit_queue := [],
        bt_transmit_empty := True\<rparr>)))
      (fold btdmp_send [7, 8, 9, 10] (btdmp_example\<lparr>bt_transmit_queue := [], bt_transmit_empty := True\<rparr>)) =
    Inr (b', map AudioSample (butlast (sample_pairs [7, 8, 9, 10])) @
      [BtdmpInterrupt, AudioSample (last (sample_pairs [7, 8, 9, 10]))]) \<and>
    bt_transmit_queue b' = [] \<and> btdmp_ok b'"
  by (rule btdmp_plays_what_was_sent)
    (simp_all add: btdmp_example_def btdmp_reset_def btdmp_ok_def btdmp_flags_ok_def)

text \<open>
  Outside the invariant the shortcut differs: when the period is lowered below the running
  timer, the next tick transmits at once, while skipping that one tick, which GetMaxSkip allows,
  transmits nothing.
\<close>

theorem btdmp_lowered_period_diverges:
  "let b = btdmp_example\<lparr>bt_transmit_timer := 10\<rparr> in
     1 \<le> btdmp_max_skip b \<and>
     snd (btdmp_tick b) = [AudioSample (1, 2)] \<and>
     (\<exists>b'. btdmp_skip 1 b = Inr (b', []))"
  by (simp add: btdmp_example_def btdmp_reset_def btdmp_max_skip_def btdmp_tick_def
      btdmp_transmit_def btdmp_take_def btdmp_skip_def Let_def)

end
