(* ===== verification/Interrupt_Controller.thy ===== *)
theory Interrupt_Controller
  imports Prelude
begin

unbundle bit_operations_syntax

text \<open>
  src/src/icu.h: the interrupt control unit, which latches the sixteen interrupt requests and
  routes each of them to the three interrupt lines of the processor and to the vectored interrupt.
  A bitset of 16 bits is the word with these bits, an array the list of its elements.
\<close>

section \<open>State\<close>

record icu =
  icu_request :: u16
  icu_enabled :: "u16 list"
  icu_vectored_enabled :: u16
  icu_vector_low :: "u16 list"
  icu_vector_high :: "u16 list"
  icu_vector_context_switch :: "u16 list"

text \<open>The two callbacks into the processor: on_interrupt and on_vectored_interrupt.\<close>

datatype icu_event = OnInterrupt nat | OnVectoredInterrupt u32 bool

definition icu_shape :: "icu \<Rightarrow> bool" where
  "icu_shape c \<longleftrightarrow> length (icu_enabled c) = 3 \<and> length (icu_vector_low c) = 16
     \<and> length (icu_vector_high c) = 16 \<and> length (icu_vector_context_switch c) = 16"

section \<open>Operations\<close>

definition icu_acknowledge :: "u16 \<Rightarrow> icu \<Rightarrow> icu" where
  "icu_acknowledge irq_bits c = c\<lparr>icu_request := icu_request c AND NOT irq_bits\<rparr>"

definition icu_get_acknowledge :: "icu \<Rightarrow> u16" where
  "icu_get_acknowledge c = 0"

definition icu_get_trigger :: "icu \<Rightarrow> u16" where
  "icu_get_trigger c = 0"

definition icu_set_enable :: "nat \<Rightarrow> u16 \<Rightarrow> icu \<Rightarrow> icu" where
  "icu_set_enable i irq_bits c = c\<lparr>icu_enabled := (icu_enabled c)[i := irq_bits]\<rparr>"

definition icu_get_enable :: "nat \<Rightarrow> icu \<Rightarrow> u16" where
  "icu_get_enable i c = icu_enabled c ! i"

definition icu_set_enable_vectored :: "u16 \<Rightarrow> icu \<Rightarrow> icu" where
  "icu_set_enable_vectored irq_bits c = c\<lparr>icu_vectored_enabled := irq_bits\<rparr>"

definition icu_get_vector :: "icu \<Rightarrow> nat \<Rightarrow> u32" where
  "icu_get_vector c irq =
     ucast (icu_vector_low c ! irq) OR push_bit 16 (ucast (icu_vector_high c ! irq))"

text \<open>The two inner steps of the loop of Trigger for one request.\<close>

definition icu_lines_of :: "icu \<Rightarrow> nat \<Rightarrow> nat list" where
  "icu_lines_of c irq = filter (\<lambda>i. bit (icu_enabled c ! i) irq) [0..<length (icu_enabled c)]"

definition icu_route :: "icu \<Rightarrow> nat \<Rightarrow> icu_event list" where
  "icu_route c irq =
     map OnInterrupt (icu_lines_of c irq) @
     (if bit (icu_vectored_enabled c) irq
      then [OnVectoredInterrupt (icu_get_vector c irq) (icu_vector_context_switch c ! irq \<noteq> 0)]
      else [])"

definition icu_trigger :: "u16 \<Rightarrow> icu \<Rightarrow> icu \<times> icu_event list" where
  "icu_trigger irq_bits c =
     (let c' = c\<lparr>icu_request := icu_request c OR irq_bits\<rparr> in
      (c', concat (map (\<lambda>irq. if bit irq_bits irq then icu_route c' irq else []) [0..<16])))"

definition icu_trigger_single :: "nat \<Rightarrow> icu \<Rightarrow> icu \<times> icu_event list" where
  "icu_trigger_single irq c = icu_trigger (push_bit irq 1) c"

section \<open>Lemmas\<close>

lemma icu_shape_ops [inv_intros]:
  "icu_shape c \<Longrightarrow> icu_shape (icu_acknowledge b c)"
  "icu_shape c \<Longrightarrow> icu_shape (icu_set_enable i b c)"
  "icu_shape c \<Longrightarrow> icu_shape (icu_set_enable_vectored b c)"
  "icu_shape c \<Longrightarrow> icu_shape (fst (icu_trigger b c))"
  by (simp_all add: icu_shape_def icu_acknowledge_def icu_set_enable_def
      icu_set_enable_vectored_def icu_trigger_def Let_def)

lemma icu_trigger_state [simp]:
  "icu_request (fst (icu_trigger b c)) = icu_request c OR b"
  "icu_enabled (fst (icu_trigger b c)) = icu_enabled c"
  "icu_vectored_enabled (fst (icu_trigger b c)) = icu_vectored_enabled c"
  by (simp_all add: icu_trigger_def Let_def)

lemma icu_route_request [simp]: "icu_route (c\<lparr>icu_request := r\<rparr>) = icu_route c"
  by (rule ext) (simp add: icu_route_def icu_lines_of_def icu_get_vector_def)

lemma icu_trigger_events:
  "snd (icu_trigger b c) = concat (map (\<lambda>irq. if bit b irq then icu_route c irq else []) [0..<16])"
  by (simp add: icu_trigger_def Let_def cong: if_cong)

lemma icu_route_interrupt:
  "OnInterrupt i \<in> set (icu_route c irq) \<longleftrightarrow> i < length (icu_enabled c) \<and> bit (icu_enabled c ! i) irq"
  by (auto simp: icu_route_def icu_lines_of_def)

lemma icu_route_vectored:
  "OnVectoredInterrupt v s \<in> set (icu_route c irq) \<longleftrightarrow>
     bit (icu_vectored_enabled c) irq \<and> v = icu_get_vector c irq \<and>
     s = (icu_vector_context_switch c ! irq \<noteq> 0)"
  by (auto simp: icu_route_def)

lemma icu_trigger_single_events:
  assumes "irq < 16"
  shows "snd (icu_trigger_single irq c) = icu_route c irq"
proof -
  have "bit (push_bit irq 1 :: u16) i \<longleftrightarrow> i = irq" for i
    using assms by (auto simp: bit_simps)
  then show ?thesis
    using assms by (simp add: icu_trigger_single_def icu_trigger_events concat_map_single)
qed

section \<open>Properties\<close>

text \<open>
  A write to the trigger register latches exactly the written requests, and an interrupt line of
  the processor is raised exactly when one of the written requests is enabled for it; the
  requests that were already pending raise nothing.
\<close>

theorem icu_trigger_raises:
  assumes "icu_shape c"
  shows "icu_request (fst (icu_trigger b c)) = icu_request c OR b \<and>
    (OnInterrupt i \<in> set (snd (icu_trigger b c)) \<longleftrightarrow>
       i < 3 \<and> b AND (icu_enabled c ! i) \<noteq> 0)"
proof -
  have "b AND (icu_enabled c ! i) \<noteq> 0 \<longleftrightarrow> (\<exists>irq < 16. bit b irq \<and> bit (icu_enabled c ! i) irq)"
    by (auto simp: bit_eq_iff bit_simps)
  moreover have "OnInterrupt i \<in> set (snd (icu_trigger b c)) \<longleftrightarrow>
      (\<exists>irq < 16. bit b irq \<and> OnInterrupt i \<in> set (icu_route c irq))"
    by (auto simp: icu_trigger_events split: if_splits)
  ultimately show ?thesis
    using assms by (auto simp: icu_route_interrupt icu_shape_def)
qed

definition icu_example :: icu where
  "icu_example = \<lparr>icu_request = 0, icu_enabled = [1, 0x400, 2], icu_vectored_enabled = 0x400,
     icu_vector_low = replicate 16 0x1234, icu_vector_high = replicate 16 2,
     icu_vector_context_switch = replicate 16 1\<rparr>"

lemma icu_example_shape: "icu_shape icu_example"
  by (simp add: icu_shape_def icu_example_def)

lemma icu_trigger_raises_witness:
  "icu_request (fst (icu_trigger 0x400 icu_example)) = icu_request icu_example OR 0x400 \<and>
    (OnInterrupt 1 \<in> set (snd (icu_trigger 0x400 icu_example)) \<longleftrightarrow>
       1 < (3::nat) \<and> 0x400 AND (icu_enabled icu_example ! 1) \<noteq> 0)"
  by (rule icu_trigger_raises [OF icu_example_shape])

text \<open>
  Triggering one request signals the processor in order: first the enabled lines from the
  lowest to the highest, each once, then the vectored interrupt, if it is enabled, with the vector
  built from the two halves and the context-switch flag of that request.
\<close>

theorem icu_trigger_single_order:
  assumes "irq < 16"
  shows "snd (icu_trigger_single irq c) =
    map OnInterrupt (filter (\<lambda>i. bit (icu_enabled c ! i) irq) [0..<length (icu_enabled c)]) @
    (if bit (icu_vectored_enabled c) irq
     then [OnVectoredInterrupt
            (ucast (icu_vector_low c ! irq) OR push_bit 16 (ucast (icu_vector_high c ! irq)))
            (icu_vector_context_switch c ! irq \<noteq> 0)]
     else [])"
  using icu_trigger_single_events [OF assms, of c]
  by (simp add: icu_route_def icu_lines_of_def icu_get_vector_def)

lemma icu_trigger_single_order_witness:
  "snd (icu_trigger_single 10 icu_example) =
    map OnInterrupt (filter (\<lambda>i. bit (icu_enabled icu_example ! i) 10) [0..<length (icu_enabled icu_example)]) @
    (if bit (icu_vectored_enabled icu_example) 10
     then [OnVectoredInterrupt
            (ucast (icu_vector_low icu_example ! 10) OR push_bit 16 (ucast (icu_vector_high icu_example ! 10)))
            (icu_vector_context_switch icu_example ! 10 \<noteq> 0)]
     else [])"
  by (rule icu_trigger_single_order) simp

end
