(* ===== verification/Mailbox.thy ===== *)
theory Mailbox
  imports Prelude
begin

unbundle bit_operations_syntax

text \<open>
  src/src/apbp.h and src/src/apbp.cpp: the mailbox between the DSP and the CPU, three data channels
  and a semaphore register with a mask. The DSP owns one for each direction.
\<close>

section \<open>State\<close>

record data_channel =
  dc_ready :: bool
  dc_data :: u16
  dc_disable_interrupt :: u16

record apbp =
  ap_data_channels :: "data_channel list"
  ap_semaphore :: u16
  ap_semaphore_mask :: u16
  ap_semaphore_master_signal :: bool

text \<open>
  The calls of the handlers. SetSemaphore calls its handler while it holds the lock and before it
  latches the master signal; the event carries the signal as the handler would read it.
\<close>

datatype apbp_event = DataHandler nat | SemaphoreHandler bool

definition apbp_initial :: apbp where
  "apbp_initial = \<lparr>ap_data_channels = replicate 3 \<lparr>dc_ready = False, dc_data = 0, dc_disable_interrupt = 0\<rparr>,
     ap_semaphore = 0, ap_semaphore_mask = 0, ap_semaphore_master_signal = False\<rparr>"

definition apbp_shape :: "apbp \<Rightarrow> bool" where
  "apbp_shape a \<longleftrightarrow> length (ap_data_channels a) = 3"

section \<open>Data channels\<close>

definition channel_reset :: "data_channel \<Rightarrow> data_channel" where
  "channel_reset c = c\<lparr>dc_ready := False, dc_data := 0\<rparr>"

definition channel_send :: "u16 \<Rightarrow> data_channel \<Rightarrow> data_channel \<times> bool" where
  "channel_send v c = (c\<lparr>dc_ready := True, dc_data := v\<rparr>, dc_disable_interrupt c = 0)"

definition channel_recv :: "data_channel \<Rightarrow> u16 \<times> data_channel" where
  "channel_recv c = (dc_data c, c\<lparr>dc_ready := False\<rparr>)"

definition channel_set_disable :: "u16 \<Rightarrow> data_channel \<Rightarrow> data_channel" where
  "channel_set_disable v c = c\<lparr>dc_disable_interrupt := v\<rparr>"

section \<open>The mailbox\<close>

text \<open>The array of channels is indexed without a check: an index above 2 is undefined behaviour.\<close>

definition apbp_channel :: "nat \<Rightarrow> apbp \<Rightarrow> data_channel result" where
  "apbp_channel i a =
     (if i < length (ap_data_channels a) then Inr (ap_data_channels a ! i) else Inl OutOfBounds)"

definition apbp_put_channel :: "nat \<Rightarrow> data_channel \<Rightarrow> apbp \<Rightarrow> apbp" where
  "apbp_put_channel i c a = a\<lparr>ap_data_channels := (ap_data_channels a)[i := c]\<rparr>"

definition apbp_reset :: "apbp \<Rightarrow> apbp" where
  "apbp_reset a = a\<lparr>ap_data_channels := map channel_reset (ap_data_channels a),
     ap_semaphore := 0, ap_semaphore_mask := 0, ap_semaphore_master_signal := False\<rparr>"

definition apbp_send_data :: "nat \<Rightarrow> u16 \<Rightarrow> apbp \<Rightarrow> (apbp \<times> apbp_event list) result" where
  "apbp_send_data i v a =
     rbind (apbp_channel i a) (\<lambda>c.
       let (c', call) = channel_send v c
       in Inr (apbp_put_channel i c' a, if call then [DataHandler i] else []))"

definition apbp_recv_data :: "nat \<Rightarrow> apbp \<Rightarrow> (u16 \<times> apbp) result" where
  "apbp_recv_data i a =
     rbind (apbp_channel i a) (\<lambda>c.
       let (v, c') = channel_recv c in Inr (v, apbp_put_channel i c' a))"

definition apbp_peek_data :: "nat \<Rightarrow> apbp \<Rightarrow> u16 result" where
  "apbp_peek_data i a = rbind (apbp_channel i a) (\<lambda>c. Inr (dc_data c))"

definition apbp_is_data_ready :: "nat \<Rightarrow> apbp \<Rightarrow> bool result" where
  "apbp_is_data_ready i a = rbind (apbp_channel i a) (\<lambda>c. Inr (dc_ready c))"

definition apbp_get_disable_interrupt :: "nat \<Rightarrow> apbp \<Rightarrow> u16 result" where
  "apbp_get_disable_interrupt i a = rbind (apbp_channel i a) (\<lambda>c. Inr (dc_disable_interrupt c))"

definition apbp_set_disable_interrupt :: "nat \<Rightarrow> u16 \<Rightarrow> apbp \<Rightarrow> apbp result" where
  "apbp_set_disable_interrupt i v a =
     rbind (apbp_channel i a) (\<lambda>c. Inr (apbp_put_channel i (channel_set_disable v c) a))"

definition apbp_raised :: "apbp \<Rightarrow> bool" where
  "apbp_raised a \<longleftrightarrow> ap_semaphore a AND NOT (ap_semaphore_mask a) \<noteq> 0"

definition apbp_set_semaphore :: "u16 \<Rightarrow> apbp \<Rightarrow> apbp \<times> apbp_event list" where
  "apbp_set_semaphore bits a =
     (let a1 = a\<lparr>ap_semaphore := ap_semaphore a OR bits\<rparr>;
          new_signal = apbp_raised a1
      in (a1\<lparr>ap_semaphore_master_signal := ap_semaphore_master_signal a1 \<or> new_signal\<rparr>,
          if new_signal then [SemaphoreHandler (ap_semaphore_master_signal a1)] else []))"

definition apbp_clear_semaphore :: "u16 \<Rightarrow> apbp \<Rightarrow> apbp" where
  "apbp_clear_semaphore bits a =
     (let a1 = a\<lparr>ap_semaphore := ap_semaphore a AND NOT bits\<rparr>
      in a1\<lparr>ap_semaphore_master_signal := apbp_raised a1\<rparr>)"

definition apbp_mask_semaphore :: "u16 \<Rightarrow> apbp \<Rightarrow> apbp" where
  "apbp_mask_semaphore bits a = a\<lparr>ap_semaphore_mask := bits\<rparr>"

section \<open>Lemmas\<close>

lemma apbp_shape_initial [inv_intros]: "apbp_shape apbp_initial"
  by (simp add: apbp_shape_def apbp_initial_def)

lemma apbp_shape_put [simp]: "apbp_shape (apbp_put_channel i c a) = apbp_shape a"
  by (simp add: apbp_shape_def apbp_put_channel_def)

lemma apbp_shape_ops [inv_intros]:
  "apbp_shape a \<Longrightarrow> apbp_shape (apbp_reset a)"
  "apbp_shape a \<Longrightarrow> apbp_shape (fst (apbp_set_semaphore b a))"
  "apbp_shape a \<Longrightarrow> apbp_shape (apbp_clear_semaphore b a)"
  "apbp_shape a \<Longrightarrow> apbp_shape (apbp_mask_semaphore b a)"
  by (simp_all add: apbp_shape_def apbp_reset_def apbp_set_semaphore_def apbp_clear_semaphore_def
      apbp_mask_semaphore_def Let_def)

lemma apbp_channel_ok [simp]:
  "apbp_shape a \<Longrightarrow> i < 3 \<Longrightarrow> apbp_channel i a = Inr (ap_data_channels a ! i)"
  by (simp add: apbp_channel_def apbp_shape_def)

lemma apbp_channel_oob:
  "apbp_shape a \<Longrightarrow> 3 \<le> i \<Longrightarrow> apbp_channel i a = Inl OutOfBounds"
  by (simp add: apbp_channel_def apbp_shape_def)

lemma apbp_channel_put:
  "apbp_shape a \<Longrightarrow> i < 3 \<Longrightarrow> j < 3 \<Longrightarrow>
   ap_data_channels (apbp_put_channel i c a) ! j = (if i = j then c else ap_data_channels a ! j)"
  by (simp add: apbp_put_channel_def apbp_shape_def)

lemmas apbp_data_defs = apbp_send_data_def apbp_recv_data_def apbp_peek_data_def
  apbp_is_data_ready_def apbp_get_disable_interrupt_def apbp_set_disable_interrupt_def
  channel_send_def channel_recv_def channel_set_disable_def

lemmas apbp_semaphore_defs = apbp_set_semaphore_def apbp_clear_semaphore_def
  apbp_mask_semaphore_def apbp_raised_def

section \<open>Properties\<close>

text \<open>
  A word sent on a channel is received unchanged and clears the ready flag, the handler is
  called exactly when the channel's interrupt is not disabled, and no other channel is affected.
\<close>

theorem apbp_send_then_receive:
  assumes "apbp_shape a" and "i < 3"
  shows "\<exists>a1 a2. apbp_send_data i v a =
      Inr (a1, if dc_disable_interrupt (ap_data_channels a ! i) = 0 then [DataHandler i] else []) \<and>
    apbp_is_data_ready i a1 = Inr True \<and> apbp_peek_data i a1 = Inr v \<and>
    apbp_recv_data i a1 = Inr (v, a2) \<and> apbp_is_data_ready i a2 = Inr False \<and>
    (\<forall>j. j \<noteq> i \<longrightarrow> apbp_channel j a2 = apbp_channel j a)"
proof -
  let ?c = "(ap_data_channels a ! i)\<lparr>dc_ready := True, dc_data := v\<rparr>"
  let ?a1 = "apbp_put_channel i ?c a" and ?a2 = "apbp_put_channel i (?c\<lparr>dc_ready := False\<rparr>) a"
  have 1: "apbp_channel i ?a1 = Inr ?c" "apbp_channel i ?a2 = Inr (?c\<lparr>dc_ready := False\<rparr>)"
    using assms by (simp_all add: apbp_channel_put)
  have "apbp_put_channel i d ?a1 = apbp_put_channel i d a" for d
    by (simp add: apbp_put_channel_def)
  moreover have "apbp_channel j ?a2 = apbp_channel j a" if "j \<noteq> i" for j
    using that by (simp add: apbp_channel_def apbp_put_channel_def)
  ultimately show ?thesis
    using assms 1
    by (intro exI [of _ ?a1] exI [of _ ?a2]) (simp add: apbp_data_defs)
qed

lemma apbp_send_then_receive_witness:
  "\<exists>a1 a2. apbp_send_data 1 42 apbp_initial =
      Inr (a1, if dc_disable_interrupt (ap_data_channels apbp_initial ! 1) = 0 then [DataHandler 1] else []) \<and>
    apbp_is_data_ready 1 a1 = Inr True \<and> apbp_peek_data 1 a1 = Inr 42 \<and>
    apbp_recv_data 1 a1 = Inr (42, a2) \<and> apbp_is_data_ready 1 a2 = Inr False \<and>
    (\<forall>j. j \<noteq> 1 \<longrightarrow> apbp_channel j a2 = apbp_channel j apbp_initial)"
  by (rule apbp_send_then_receive [OF apbp_shape_initial]) simp

text \<open>
  The semaphore signal. After SetSemaphore the master signal is up if any unmasked bit is,
  and stays up if it was; the handler is called exactly when an unmasked bit is up, and it reads the
  signal from before the call. ClearSemaphore recomputes the signal; MaskSemaphore does not.
\<close>

theorem apbp_semaphore_signal:
  "let (a1, es) = apbp_set_semaphore b a in
     ap_semaphore_master_signal a1 = (ap_semaphore_master_signal a \<or> apbp_raised a1) \<and>
     es = (if apbp_raised a1 then [SemaphoreHandler (ap_semaphore_master_signal a)] else []) \<and>
     ap_semaphore_master_signal (apbp_clear_semaphore b' a1) = apbp_raised (apbp_clear_semaphore b' a1) \<and>
     ap_semaphore_master_signal (apbp_mask_semaphore b' a1) = ap_semaphore_master_signal a1 \<and>
     \<not> apbp_raised (apbp_mask_semaphore 0xFFFF a1)"
  by (simp add: apbp_semaphore_defs Let_def bit_eq_iff bit_simps numeral_masks) auto

end
