(* ===== verification/Shared_Mem.thy ===== *)
theory Shared_Mem
  imports Prelude
begin

unbundle bit_operations_syntax

text \<open>
  src/src/shared_memory.h and the address translation of src/src/memory_interface.h: the bytes
  the DSP shares with the host, and how a 16-bit data address selects a word of them.

  The memory is the array of \<open>0x80000\<close> bytes, a map from byte addresses; an access past its end is
  undefined behaviour in the code, the error \<open>OutOfBounds\<close> here.
\<close>

section \<open>Shared memory\<close>

type_synonym shared_memory = "u32 \<Rightarrow> u8"

definition dsp_memory_size :: u32 where
  "dsp_memory_size = 0x80000"

definition shared_read_word :: "u32 \<Rightarrow> shared_memory \<Rightarrow> u16 result" where
  "shared_read_word word_address m =
     (let byte_address = word_address * 2 in
      if byte_address + 1 < dsp_memory_size
      then Inr (ucast (m byte_address) OR push_bit 8 (ucast (m (byte_address + 1))))
      else Inl OutOfBounds)"

definition shared_write_word :: "u32 \<Rightarrow> u16 \<Rightarrow> shared_memory \<Rightarrow> shared_memory result" where
  "shared_write_word word_address v m =
     (let low = ucast (v AND 0xFF); high = ucast (drop_bit 8 v);
          byte_address = word_address * 2 in
      if byte_address + 1 < dsp_memory_size
      then Inr (m(byte_address := low, byte_address + 1 := high))
      else Inl OutOfBounds)"

section \<open>The contract of a word memory\<close>

locale word_memory =
  fixes rd :: "'a \<Rightarrow> 'm \<Rightarrow> 'v result"
    and wr :: "'a \<Rightarrow> 'v \<Rightarrow> 'm \<Rightarrow> 'm result"
    and valid :: "'a \<Rightarrow> bool"
  assumes rd_ok: "valid a \<Longrightarrow> \<exists>v. rd a m = Inr v"
    and wr_ok: "valid a \<Longrightarrow> \<exists>m'. wr a v m = Inr m'"
    and rd_wr: "valid a \<Longrightarrow> valid b \<Longrightarrow> wr a v m = Inr m' \<Longrightarrow>
      rd b m' = (if a = b then Inr v else rd b m)"
begin

lemma rd_wr_same: "valid a \<Longrightarrow> wr a v m = Inr m' \<Longrightarrow> rd a m' = Inr v"
  using rd_wr [of a a v m m'] by simp

lemma rd_wr_other:
  "valid a \<Longrightarrow> valid b \<Longrightarrow> a \<noteq> b \<Longrightarrow> wr a v m = Inr m' \<Longrightarrow> rd b m' = rd b m"
  using rd_wr [of a b v m m'] by simp

text \<open>Writing a list of words at pairwise distinct addresses and reading them back.\<close>

lemma write_all_read_all:
  assumes "\<forall>(a, v) \<in> set ws. valid a" and "distinct (map fst ws)"
  shows "\<exists>m'. foldl (\<lambda>m (a, v). rbind m (wr a v)) (Inr m) ws = Inr m'
    \<and> (\<forall>(a, v) \<in> set ws. rd a m' = Inr v)
    \<and> (\<forall>a. valid a \<longrightarrow> a \<notin> fst ` set ws \<longrightarrow> rd a m' = rd a m)"
  using assms
proof (induction ws arbitrary: m)
  case (Cons w ws)
  obtain a v where w: "w = (a, v)" by fastforce
  from Cons.prems w have a: "valid a" by simp
  from wr_ok [OF a] obtain m1 where m1: "wr a v m = Inr m1" by blast
  from Cons.IH [of m1] Cons.prems obtain m' where
    m': "foldl (\<lambda>m (a, v). rbind m (wr a v)) (Inr m1) ws = Inr m'"
      "\<forall>(a, v) \<in> set ws. rd a m' = Inr v"
      "\<forall>a. valid a \<longrightarrow> a \<notin> fst ` set ws \<longrightarrow> rd a m' = rd a m1"
    by auto
  have "rd a m' = Inr v"
    using m'(3) a Cons.prems(2) rd_wr_same [OF a m1] w by simp
  moreover have "rd b m' = rd b m" if "valid b" "b \<notin> fst ` set (w # ws)" for b
    using that m'(3) rd_wr_other [OF a that(1) _ m1] w by auto
  ultimately show ?case
    using m' m1 w by auto
qed auto

end

section \<open>Shared memory is a word memory\<close>

definition word_address_ok :: "u32 \<Rightarrow> bool" where
  "word_address_ok a \<longleftrightarrow> a < 0x40000"

lemma word_address_bytes:
  assumes "word_address_ok a"
  shows "unat (a * 2) = 2 * unat a" and "unat (a * 2 + 1) = 2 * unat a + 1"
    and "a * 2 + 1 < dsp_memory_size"
proof -
  have a: "unat a < 0x40000"
    using assms by (simp add: word_address_ok_def word_less_nat_alt)
  then show 1: "unat (a * 2) = 2 * unat a"
    by (simp add: unat_word_ariths)
  with a show 2: "unat (a * 2 + 1) = 2 * unat a + 1"
    by (simp add: unat_word_ariths)
  show "a * 2 + 1 < dsp_memory_size"
    unfolding word_less_nat_alt 2 using a by (simp add: dsp_memory_size_def)
qed

lemma word_address_bytes_distinct:
  assumes "word_address_ok a" and "word_address_ok b"
  shows "a * 2 = b * 2 \<longleftrightarrow> a = b" and "a * 2 + 1 = b * 2 + 1 \<longleftrightarrow> a = b"
    and "a * 2 \<noteq> b * 2 + 1" and "a * 2 + 1 \<noteq> b * 2"
  using word_address_bytes [OF assms(1)] word_address_bytes [OF assms(2)]
  by (auto simp only: word_unat_eq_iff) presburger+

lemma join_bytes:
  "ucast (ucast (v AND 0xFF) :: u8) OR push_bit 8 (ucast (ucast (drop_bit 8 v) :: u8)) = (v :: u16)"
  unfolding numeral_masks by (rule bit_word_eqI) (auto simp: bit_simps)

lemma split_bytes:
  fixes l h :: u8
  defines "v \<equiv> (ucast l OR push_bit 8 (ucast h)) :: u16"
  shows "ucast (v AND 0xFF) = l" and "ucast (drop_bit 8 v) = h"
  unfolding v_def numeral_masks by (rule bit_word_eqI; auto simp: bit_simps dest: bit_imp_le_length)+

lemma shared_read_ok:
  "word_address_ok a \<Longrightarrow> shared_read_word a m =
     Inr (ucast (m (a * 2)) OR push_bit 8 (ucast (m (a * 2 + 1))))"
  using word_address_bytes(3) by (simp add: shared_read_word_def Let_def)

lemma shared_write_ok:
  "word_address_ok a \<Longrightarrow> shared_write_word a v m =
     Inr (m(a * 2 := ucast (v AND 0xFF), a * 2 + 1 := ucast (drop_bit 8 v)))"
  using word_address_bytes(3) by (simp add: shared_write_word_def Let_def)

interpretation shared_words: word_memory shared_read_word shared_write_word word_address_ok
proof unfold_locales
  fix a b :: u32 and v :: u16 and m m' :: shared_memory
  assume "word_address_ok a" "word_address_ok b" "shared_write_word a v m = Inr m'"
  then show "shared_read_word b m' = (if a = b then Inr v else shared_read_word b m)"
    by (auto simp: shared_read_ok shared_write_ok word_address_bytes_distinct join_bytes)
qed (simp_all add: shared_read_ok shared_write_ok)

section \<open>The memory interface unit\<close>

record miu =
  miu_x_page :: u16
  miu_y_page :: u16
  miu_z_page :: u16
  miu_x_size :: "u16 list"
  miu_y_size :: "u16 list"
  miu_page_mode :: u16
  miu_mmio_base :: u16

definition miu_reset :: miu where
  "miu_reset = \<lparr>miu_x_page = 0, miu_y_page = 0, miu_z_page = 0, miu_x_size = [0x20, 0x20],
     miu_y_size = [0x1E, 0x1E], miu_page_mode = 0, miu_mmio_base = 0x8000\<rparr>"

abbreviation MMIOSize :: nat where "MMIOSize \<equiv> 0x0800"
abbreviation XYSizeResolution :: nat where "XYSizeResolution \<equiv> 0x400"
abbreviation DataMemoryOffset :: u32 where "DataMemoryOffset \<equiv> 0x20000"
abbreviation DataMemoryBankSize :: u32 where "DataMemoryBankSize \<equiv> 0x10000"

text \<open>The comparisons are made on promoted integers, so \<open>mmio_base + MMIOSize\<close> does not wrap.\<close>

definition in_mmio :: "miu \<Rightarrow> u16 \<Rightarrow> bool" where
  "in_mmio u addr \<longleftrightarrow>
     miu_mmio_base u \<le> addr \<and> unat addr < unat (miu_mmio_base u) + MMIOSize"

definition to_mmio :: "miu \<Rightarrow> u16 \<Rightarrow> u16 result" where
  "to_mmio u addr =
     rbind (rassert (miu_z_page u = 0)) (\<lambda>_. Inr ((addr - miu_mmio_base u) AND 0x7FF))"

definition convert_data_address :: "miu \<Rightarrow> u16 \<Rightarrow> u32 result" where
  "convert_data_address u addr =
     (if miu_page_mode u = 0 then
        rbind (rassert (miu_z_page u < 2)) (\<lambda>_.
          Inr (DataMemoryOffset + ucast addr + ucast (miu_z_page u) * DataMemoryBankSize))
      else if unat addr \<le> unat (miu_x_size u ! 0) * XYSizeResolution then
        rbind (rassert (miu_x_page u < 2)) (\<lambda>_.
          Inr (DataMemoryOffset + ucast addr + ucast (miu_x_page u) * DataMemoryBankSize))
      else
        rbind (rassert (miu_y_page u < 2)) (\<lambda>_.
          Inr (DataMemoryOffset + ucast addr + ucast (miu_y_page u) * DataMemoryBankSize)))"

text \<open>The 32-bit access of the host interface: DataReadA32 and DataWriteA32.\<close>

definition a32_address :: "u32 \<Rightarrow> u32" where
  "a32_address address = (address AND (DataMemoryBankSize * 2 - 1)) + DataMemoryOffset"

definition data_read_a32 :: "u32 \<Rightarrow> shared_memory \<Rightarrow> u16 result" where
  "data_read_a32 address m = shared_read_word (a32_address address) m"

definition data_write_a32 :: "u32 \<Rightarrow> u16 \<Rightarrow> shared_memory \<Rightarrow> shared_memory result" where
  "data_write_a32 address v m = shared_write_word (a32_address address) v m"

definition program_read :: "u32 \<Rightarrow> shared_memory \<Rightarrow> u16 result" where
  "program_read address m = shared_read_word address m"

definition program_write :: "u32 \<Rightarrow> u16 \<Rightarrow> shared_memory \<Rightarrow> shared_memory result" where
  "program_write address v m = shared_write_word address v m"

text \<open>The page a data address falls into, whatever the mode.\<close>

definition data_page :: "miu \<Rightarrow> u16 \<Rightarrow> u16" where
  "data_page u addr =
     (if miu_page_mode u = 0 then miu_z_page u
      else if unat addr \<le> unat (miu_x_size u ! 0) * XYSizeResolution then miu_x_page u
      else miu_y_page u)"

lemma convert_data_address_page:
  "convert_data_address u addr =
     (if data_page u addr < 2
      then Inr (DataMemoryOffset + ucast addr + ucast (data_page u addr) * DataMemoryBankSize)
      else Inl Abort)"
  by (simp add: convert_data_address_def data_page_def rassert_def)

lemma unat_ucast_16_32 [simp]: "unat (ucast (w :: u16) :: u32) = unat w"
  by (simp add: unsigned_ucast_eq take_bit_nat_eq_self unat_lt_2p16 [THEN less_trans])

lemma unat_data_address:
  fixes addr p :: u16
  assumes "p < 2"
  shows "unat (DataMemoryOffset + ucast addr + ucast p * DataMemoryBankSize) =
    0x20000 + unat addr + unat p * 0x10000"
proof -
  have "unat p < 2"
    using assms by (simp add: word_less_nat_alt)
  with unat_lt_2p16 [of addr] show ?thesis
    by (simp add: unat_word_ariths)
qed

lemma convert_data_address_ok:
  assumes "convert_data_address u addr = Inr a"
  shows "word_address_ok a" and "unat a = 0x20000 + unat addr + unat (data_page u addr) * 0x10000"
proof -
  from assms have p: "data_page u addr < 2" and
    a: "a = DataMemoryOffset + ucast addr + ucast (data_page u addr) * DataMemoryBankSize"
    by (auto simp: convert_data_address_page split: if_splits)
  show u: "unat a = 0x20000 + unat addr + unat (data_page u addr) * 0x10000"
    unfolding a by (rule unat_data_address [OF p])
  have "unat (data_page u addr) < 2"
    using p by (simp add: word_less_nat_alt)
  with u unat_lt_2p16 [of addr] show "word_address_ok a"
    by (simp add: word_address_ok_def word_less_nat_alt)
qed

lemma convert_data_address_inj:
  assumes "convert_data_address u addr = Inr a" and "convert_data_address u addr' = Inr a"
  shows "addr = addr'"
proof -
  note 1 = convert_data_address_ok(2) [OF assms(1)] and 2 = convert_data_address_ok(2) [OF assms(2)]
  have *: "x = y" if "x + p * 0x10000 = y + q * 0x10000" "x < 0x10000" "y < 0x10000"
    for x y p q :: nat
  proof -
    have "x = (x + p * 0x10000) mod 0x10000" and "y = (y + q * 0x10000) mod 0x10000"
      using that(2,3) by simp_all
    with that(1) show ?thesis by metis
  qed
  have "unat addr = unat addr'"
    by (rule * [of _ "unat (data_page u addr)" _ "unat (data_page u addr')",
          OF _ unat_lt_2p16 unat_lt_2p16]) (use 1 2 in linarith)
  then show ?thesis
    by (simp add: word_unat_eq_iff)
qed

lemma a32_address_ok: "word_address_ok (a32_address address)"
proof -
  have "unat (address AND mask 17) < 2 ^ 17"
    by (simp only: unsigned_take_bit_eq take_bit_nat_less_exp flip: take_bit_eq_mask)
  then show ?thesis
    by (simp add: a32_address_def numeral_masks word_address_ok_def word_less_nat_alt unat_word_ariths)
qed

section \<open>The data space is a word memory\<close>

text \<open>Lines 25-27 and 34-35 of src/src/memory_interface.cpp: data accesses past the MMIO region.\<close>

definition data_read_mem :: "miu \<Rightarrow> u16 \<Rightarrow> shared_memory \<Rightarrow> u16 result" where
  "data_read_mem u addr m = rbind (convert_data_address u addr) (\<lambda>c. shared_read_word c m)"

definition data_write_mem :: "miu \<Rightarrow> u16 \<Rightarrow> u16 \<Rightarrow> shared_memory \<Rightarrow> shared_memory result" where
  "data_write_mem u addr v m = rbind (convert_data_address u addr) (\<lambda>c. shared_write_word c v m)"

definition data_address_ok :: "miu \<Rightarrow> u16 \<Rightarrow> bool" where
  "data_address_ok u addr \<longleftrightarrow> data_page u addr < 2"

lemma data_address_ok_conv:
  "data_address_ok u addr \<Longrightarrow> \<exists>c. convert_data_address u addr = Inr c \<and> word_address_ok c"
  using convert_data_address_ok(1) [of u addr]
  by (auto simp: data_address_ok_def convert_data_address_page)

interpretation data_words: word_memory "data_read_mem u" "data_write_mem u" "data_address_ok u"
proof unfold_locales
  fix a b :: u16 and v :: u16 and m m' :: shared_memory
  assume a: "data_address_ok u a" and b: "data_address_ok u b" and w: "data_write_mem u a v m = Inr m'"
  obtain ca where ca: "convert_data_address u a = Inr ca" "word_address_ok ca"
    using data_address_ok_conv [OF a] by blast
  obtain cb where cb: "convert_data_address u b = Inr cb" "word_address_ok cb"
    using data_address_ok_conv [OF b] by blast
  have "ca = cb \<longleftrightarrow> a = b"
    using ca cb convert_data_address_inj by auto
  with w ca cb show "data_read_mem u b m' = (if a = b then Inr v else data_read_mem u b m)"
    using shared_words.rd_wr [OF ca(2) cb(2)] by (simp add: data_read_mem_def data_write_mem_def)
next
  show "\<exists>v. data_read_mem u a m = Inr v" if "data_address_ok u a" for a m
    using data_address_ok_conv [OF that] shared_words.rd_ok by (auto simp: data_read_mem_def)
next
  show "\<exists>m'. data_write_mem u a v m = Inr m'" if "data_address_ok u a" for a v m
    using data_address_ok_conv [OF that] shared_words.wr_ok by (auto simp: data_write_mem_def)
qed

section \<open>Properties\<close>

text \<open>
  C32: Every data access of the DSP stays inside the shared memory: the translation either aborts,
  when the selected page is not 0 or 1, or selects one of the data words from \<open>0x20000\<close> to
  \<open>0x3FFFF\<close>, so that reading and writing it succeed.
\<close>

theorem data_access_in_bounds:
  "case convert_data_address u addr of
     Inl e \<Rightarrow> e = Abort \<and> data_page u addr \<ge> 2
   | Inr c \<Rightarrow> 0x20000 \<le> c \<and> c < 0x40000 \<and> (\<exists>v. shared_read_word c m = Inr v) \<and>
       (\<exists>m'. shared_write_word c w m = Inr m')"
proof (cases "data_page u addr < 2")
  case True
  then obtain c where c: "convert_data_address u addr = Inr c"
    by (simp add: convert_data_address_page)
  have "0x20000 \<le> c"
    unfolding word_le_nat_alt convert_data_address_ok(2) [OF c] by simp
  with c convert_data_address_ok(1) [OF c] show ?thesis
    by (simp add: shared_read_ok shared_write_ok word_address_ok_def)
next
  case False
  then show ?thesis
    by (simp add: convert_data_address_page)
qed

text \<open>
  C33: The data space behaves as a memory of 65536 independent words in every paging mode: what is
  written to an address is read back from it, and every other address keeps its word.
\<close>

theorem data_space_read_after_write:
  assumes "data_page u a < 2" and "data_page u b < 2"
  shows "\<exists>m'. data_write_mem u a v m = Inr m' \<and>
    data_read_mem u b m' = (if a = b then Inr v else data_read_mem u b m)"
  using data_words.wr_ok [of u a v m] data_words.rd_wr [of u a b v m] assms
  by (auto simp: data_address_ok_def)

lemma data_space_read_after_write_witness:
  "\<exists>m'. data_write_mem miu_reset 0x1000 7 (\<lambda>_. 0) = Inr m' \<and>
    data_read_mem miu_reset 0x1001 m' = (if 0x1000 = (0x1001 :: u16) then Inr 7
      else data_read_mem miu_reset 0x1001 (\<lambda>_. 0))"
  by (rule data_space_read_after_write) (simp_all add: data_page_def miu_reset_def)

text \<open>
  The 32-bit access of the host reaches the two data banks in full and nothing else: it
  never fails, whatever the address.
\<close>

theorem a32_access_total:
  "(\<exists>v. data_read_a32 address m = Inr v) \<and> (\<exists>m'. data_write_a32 address w m = Inr m') \<and>
   0x20000 \<le> a32_address address \<and> a32_address address < 0x40000"
proof -
  have "unat (address AND mask 17) < 2 ^ 17"
    by (simp only: unsigned_take_bit_eq take_bit_nat_less_exp flip: take_bit_eq_mask)
  then have "0x20000 \<le> a32_address address"
    by (simp add: a32_address_def numeral_masks word_le_nat_alt unat_word_ariths)
  with a32_address_ok [of address] show ?thesis
    by (simp add: data_read_a32_def data_write_a32_def shared_read_ok shared_write_ok word_address_ok_def)
qed

end
