(* ===== verification/Ahb_Master.thy ===== *)
theory Ahb_Master
  imports Prelude
begin

unbundle bit_operations_syntax

text \<open>
  src/src/ahbm.h and src/src/ahbm.cpp: the bus master through which the DMA engine reaches the
  memory of the host, with a burst queue for each of its three channels.

  The six external memory callbacks are supplied by the user of the emulator: they are the record
  \<open>external_bus\<close>, functions over a state \<open>'x\<close> of the outside world which the component
  carries along. The code only calls callbacks that are installed.
\<close>

section \<open>State\<close>

record 'x external_bus =
  eb_read8 :: "u32 \<Rightarrow> 'x \<Rightarrow> u8 \<times> 'x"
  eb_write8 :: "u32 \<Rightarrow> u8 \<Rightarrow> 'x \<Rightarrow> 'x"
  eb_read16 :: "u32 \<Rightarrow> 'x \<Rightarrow> u16 \<times> 'x"
  eb_write16 :: "u32 \<Rightarrow> u16 \<Rightarrow> 'x \<Rightarrow> 'x"
  eb_read32 :: "u32 \<Rightarrow> 'x \<Rightarrow> u32 \<times> 'x"
  eb_write32 :: "u32 \<Rightarrow> u32 \<Rightarrow> 'x \<Rightarrow> 'x"

text \<open>The enumerations keep their underlying type, as MMIO writes store any value of the field.\<close>

abbreviation (input) UnitU8 :: u16 where "UnitU8 \<equiv> 0"
abbreviation (input) UnitU16 :: u16 where "UnitU16 \<equiv> 1"
abbreviation (input) UnitU32 :: u16 where "UnitU32 \<equiv> 2"
abbreviation (input) BurstX1 :: u16 where "BurstX1 \<equiv> 0"
abbreviation (input) BurstX4 :: u16 where "BurstX4 \<equiv> 1"
abbreviation (input) BurstX8 :: u16 where "BurstX8 \<equiv> 2"
abbreviation (input) DirectionRead :: u16 where "DirectionRead \<equiv> 0"
abbreviation (input) DirectionWrite :: u16 where "DirectionWrite \<equiv> 1"

record ahbm_channel =
  ac_unit_size :: u16
  ac_burst_size :: u16
  ac_direction :: u16
  ac_dma_channel :: u16
  ac_burst_queue :: "u32 list"
  ac_write_burst_start :: u32

record 'x ahbm =
  ah_busy_flag :: u16
  ah_channels :: "ahbm_channel list"
  ah_external :: 'x

definition ahbm_channel_initial :: ahbm_channel where
  "ahbm_channel_initial = \<lparr>ac_unit_size = UnitU8, ac_burst_size = BurstX1,
     ac_direction = DirectionRead, ac_dma_channel = 0, ac_burst_queue = [], ac_write_burst_start = 0\<rparr>"

definition ahbm_reset :: "'x ahbm \<Rightarrow> 'x ahbm" where
  "ahbm_reset a = a\<lparr>ah_busy_flag := 0, ah_channels := replicate 3 ahbm_channel_initial\<rparr>"

section \<open>Operations\<close>

definition ahbm_channel :: "u16 \<Rightarrow> 'x ahbm \<Rightarrow> ahbm_channel result" where
  "ahbm_channel i a =
     (if unat i < length (ah_channels a) then Inr (ah_channels a ! unat i) else Inl OutOfBounds)"

definition ahbm_put_channel :: "u16 \<Rightarrow> ahbm_channel \<Rightarrow> 'x ahbm \<Rightarrow> 'x ahbm" where
  "ahbm_put_channel i c a = a\<lparr>ah_channels := (ah_channels a)[unat i := c]\<rparr>"

definition ahbm_update :: "u16 \<Rightarrow> (ahbm_channel \<Rightarrow> ahbm_channel) \<Rightarrow> 'x ahbm \<Rightarrow> 'x ahbm result" where
  "ahbm_update i f a = rbind (ahbm_channel i a) (\<lambda>c. Inr (ahbm_put_channel i (f c) a))"

definition ahbm_set_unit_size :: "u16 \<Rightarrow> u16 \<Rightarrow> 'x ahbm \<Rightarrow> 'x ahbm result" where
  "ahbm_set_unit_size i v = ahbm_update i (\<lambda>c. c\<lparr>ac_unit_size := v\<rparr>)"

definition ahbm_get_unit_size :: "u16 \<Rightarrow> 'x ahbm \<Rightarrow> u16 result" where
  "ahbm_get_unit_size i a = rbind (ahbm_channel i a) (\<lambda>c. Inr (ac_unit_size c))"

definition ahbm_set_burst_size :: "u16 \<Rightarrow> u16 \<Rightarrow> 'x ahbm \<Rightarrow> 'x ahbm result" where
  "ahbm_set_burst_size i v = ahbm_update i (\<lambda>c. c\<lparr>ac_burst_size := v\<rparr>)"

definition ahbm_get_burst_size :: "u16 \<Rightarrow> 'x ahbm \<Rightarrow> u16 result" where
  "ahbm_get_burst_size i a = rbind (ahbm_channel i a) (\<lambda>c. Inr (ac_burst_size c))"

definition ahbm_set_direction :: "u16 \<Rightarrow> u16 \<Rightarrow> 'x ahbm \<Rightarrow> 'x ahbm result" where
  "ahbm_set_direction i v = ahbm_update i (\<lambda>c. c\<lparr>ac_direction := v\<rparr>)"

definition ahbm_get_direction :: "u16 \<Rightarrow> 'x ahbm \<Rightarrow> u16 result" where
  "ahbm_get_direction i a = rbind (ahbm_channel i a) (\<lambda>c. Inr (ac_direction c))"

definition ahbm_set_dma_channel :: "u16 \<Rightarrow> u16 \<Rightarrow> 'x ahbm \<Rightarrow> 'x ahbm result" where
  "ahbm_set_dma_channel i v = ahbm_update i (\<lambda>c. c\<lparr>ac_dma_channel := v\<rparr>)"

definition ahbm_get_dma_channel :: "u16 \<Rightarrow> 'x ahbm \<Rightarrow> u16 result" where
  "ahbm_get_dma_channel i a = rbind (ahbm_channel i a) (\<lambda>c. Inr (ac_dma_channel c))"

definition ahbm_burst_units :: "ahbm_channel \<Rightarrow> nat" where
  "ahbm_burst_units c =
     (if ac_burst_size c = BurstX1 then 1
      else if ac_burst_size c = BurstX4 then 4
      else if ac_burst_size c = BurstX8 then 8 else 1)"

text \<open>One unit of the burst that fills the read queue: its value, and the next address.\<close>

definition ahbm_read_unit :: "'x external_bus \<Rightarrow> u16 \<Rightarrow> u32 \<Rightarrow> 'x \<Rightarrow> u32 \<times> u32 \<times> 'x" where
  "ahbm_read_unit bus unit current x =
     (if unit = UnitU8 then
        (let (v, x') = eb_read8 bus current x; value = ucast v :: u32 in
         (if current AND 1 = 1 then push_bit 8 value else value, current + 1, x'))
      else if unit = UnitU16 then
        (let (v, x') = eb_read16 bus (current AND 0xFFFFFFFE) x in (ucast v, current + 2, x'))
      else if unit = UnitU32 then
        (let (v, x') = eb_read32 bus (current AND 0xFFFFFFFC) x in (v, current + 4, x'))
      else (0, current, x))"

fun ahbm_fill :: "'x external_bus \<Rightarrow> u16 \<Rightarrow> nat \<Rightarrow> u32 \<Rightarrow> 'x \<Rightarrow> u32 list \<times> 'x" where
  "ahbm_fill bus unit 0 current x = ([], x)"
| "ahbm_fill bus unit (Suc n) current x =
     (let (value, current', x') = ahbm_read_unit bus unit current x;
          (values, x'') = ahbm_fill bus unit n current' x'
      in (value # values, x''))"

definition ahbm_read32 :: "'x external_bus \<Rightarrow> u16 \<Rightarrow> u32 \<Rightarrow> 'x ahbm \<Rightarrow> (u32 \<times> 'x ahbm) result" where
  "ahbm_read32 bus channel address a =
     rbind (ahbm_channel channel a) (\<lambda>c.
       let (queue, x) =
             (if ac_burst_queue c = []
              then ahbm_fill bus (ac_unit_size c) (ahbm_burst_units c) address (ah_external a)
              else (ac_burst_queue c, ah_external a))
       in Inr (hd queue,
               ahbm_put_channel channel (c\<lparr>ac_burst_queue := tl queue\<rparr>) (a\<lparr>ah_external := x\<rparr>)))"

definition ahbm_read16 :: "'x external_bus \<Rightarrow> u16 \<Rightarrow> u32 \<Rightarrow> 'x ahbm \<Rightarrow> (u16 \<times> 'x ahbm) result" where
  "ahbm_read16 bus channel address a =
     rbind (ahbm_read32 bus channel address a) (\<lambda>(value32, a').
       Inr (if address AND 1 = 0 then ucast (value32 AND 0xFFFF) else ucast (drop_bit 16 value32), a'))"

text \<open>One unit of a write burst, and the next address.\<close>

definition ahbm_write_unit :: "'x external_bus \<Rightarrow> u16 \<Rightarrow> u32 \<Rightarrow> u32 \<Rightarrow> 'x \<Rightarrow> u32 \<times> 'x" where
  "ahbm_write_unit bus unit current value32 x =
     (if unit = UnitU8 then
        (current + 1,
         eb_write8 bus current
           (if current AND 1 = 1 then ucast (drop_bit 8 value32) else ucast value32) x)
      else if unit = UnitU16 then
        (let c0 = current AND 0xFFFFFFFE; c1 = c0 + 1 in
         (current + 2,
          if c0 \<ge> current then eb_write16 bus c0 (ucast value32) x
          else eb_write8 bus c1 (ucast (drop_bit 8 value32)) x))
      else if unit = UnitU32 then
        (let c0 = current AND 0xFFFFFFFC; c1 = c0 + 1; c2 = c0 + 2; c3 = c0 + 3 in
         (current + 4,
          if c0 \<ge> current \<and> c1 \<ge> current \<and> c2 \<ge> current then eb_write32 bus c0 value32 x
          else if c2 \<ge> current then
            eb_write16 bus c2 (ucast (drop_bit 16 value32))
              (if c1 \<ge> current then eb_write8 bus c1 (ucast (drop_bit 8 value32)) x else x)
          else eb_write8 bus c3 (ucast (drop_bit 24 value32)) x))
      else (current, x))"

fun ahbm_drain :: "'x external_bus \<Rightarrow> u16 \<Rightarrow> u32 list \<Rightarrow> u32 \<Rightarrow> 'x \<Rightarrow> 'x" where
  "ahbm_drain bus unit [] current x = x"
| "ahbm_drain bus unit (v # vs) current x =
     (let (current', x') = ahbm_write_unit bus unit current v x
      in ahbm_drain bus unit vs current' x')"

definition ahbm_write_internal :: "'x external_bus \<Rightarrow> u16 \<Rightarrow> u32 \<Rightarrow> u32 \<Rightarrow> 'x ahbm \<Rightarrow> 'x ahbm result" where
  "ahbm_write_internal bus channel address value a =
     rbind (ahbm_channel channel a) (\<lambda>c.
       let c1 = (if ac_burst_queue c = [] then c\<lparr>ac_write_burst_start := address\<rparr> else c);
           queue = ac_burst_queue c1 @ [value]
       in if length queue \<ge> ahbm_burst_units c1
          then Inr (ahbm_put_channel channel (c1\<lparr>ac_burst_queue := []\<rparr>)
                 (a\<lparr>ah_external :=
                      ahbm_drain bus (ac_unit_size c1) queue (ac_write_burst_start c1) (ah_external a)\<rparr>))
          else Inr (ahbm_put_channel channel (c1\<lparr>ac_burst_queue := queue\<rparr>) a))"

definition ahbm_write16 :: "'x external_bus \<Rightarrow> u16 \<Rightarrow> u32 \<Rightarrow> u16 \<Rightarrow> 'x ahbm \<Rightarrow> 'x ahbm result" where
  "ahbm_write16 bus channel address value a =
     ahbm_write_internal bus channel address (ucast value) a"

definition ahbm_write32 :: "'x external_bus \<Rightarrow> u16 \<Rightarrow> u32 \<Rightarrow> u32 \<Rightarrow> 'x ahbm \<Rightarrow> 'x ahbm result" where
  "ahbm_write32 bus channel address value a =
     ahbm_write_internal bus channel address
       (if address AND 1 = 1 then drop_bit 16 value else value) a"

definition ahbm_channel_for_dma :: "u16 \<Rightarrow> 'x ahbm \<Rightarrow> u16" where
  "ahbm_channel_for_dma dma_channel a =
     (case filter (\<lambda>i. bit (ac_dma_channel (ah_channels a ! i)) (unat dma_channel))
             [0..<length (ah_channels a)] of
        [] \<Rightarrow> 0 | i # _ \<Rightarrow> of_nat i)"

section \<open>Bursts\<close>

definition ahbm_ok :: "'x ahbm \<Rightarrow> bool" where
  "ahbm_ok a \<longleftrightarrow> length (ah_channels a) = 3"

lemma ahbm_put_ok [simp]:
  "ahbm_ok (ahbm_put_channel i c a) = ahbm_ok a"
  "ahbm_ok (a\<lparr>ah_external := x\<rparr>) = ahbm_ok a"
  by (simp_all add: ahbm_ok_def ahbm_put_channel_def)

lemma ahbm_channel_ok:
  "ahbm_ok a \<Longrightarrow> i < 3 \<Longrightarrow> ahbm_channel i a = Inr (ah_channels a ! unat i)"
  by (simp add: ahbm_channel_def ahbm_ok_def word_less_nat_alt)

lemma ahbm_channel_put [simp]:
  "ahbm_ok a \<Longrightarrow> i < 3 \<Longrightarrow> ah_channels (ahbm_put_channel i c a) ! unat i = c"
  "ah_external (ahbm_put_channel i c a) = ah_external a"
  "ahbm_put_channel i c (ahbm_put_channel i d a) = ahbm_put_channel i c a"
  "(ahbm_put_channel i c a)\<lparr>ah_external := x\<rparr> = ahbm_put_channel i c (a\<lparr>ah_external := x\<rparr>)"
  by (simp_all add: ahbm_put_channel_def ahbm_ok_def word_less_nat_alt)

lemma ahbm_fill_length: "length (fst (ahbm_fill bus unit n current x)) = n"
  by (induction n arbitrary: current x) (simp_all add: split_def Let_def)

lemma ahbm_burst_units_range: "1 \<le> ahbm_burst_units c" "ahbm_burst_units c \<le> 8"
  by (simp_all add: ahbm_burst_units_def)

lemma ahbm_burst_units_cong [simp]:
  "ahbm_burst_units (c\<lparr>ac_burst_queue := q\<rparr>) = ahbm_burst_units c"
  "ahbm_burst_units (c\<lparr>ac_write_burst_start := s\<rparr>) = ahbm_burst_units c"
  by (simp_all add: ahbm_burst_units_def)

text \<open>A sequence of reads, and of writes, on one channel.\<close>

fun ahbm_reads :: "'x external_bus \<Rightarrow> u16 \<Rightarrow> u32 list \<Rightarrow> 'x ahbm \<Rightarrow> (u32 list \<times> 'x ahbm) result" where
  "ahbm_reads bus ch [] a = Inr ([], a)"
| "ahbm_reads bus ch (address # rest) a =
     rbind (ahbm_read32 bus ch address a) (\<lambda>(v, a').
     rbind (ahbm_reads bus ch rest a') (\<lambda>(vs, a''). Inr (v # vs, a'')))"

fun ahbm_writes :: "'x external_bus \<Rightarrow> u16 \<Rightarrow> (u32 \<times> u32) list \<Rightarrow> 'x ahbm \<Rightarrow> 'x ahbm result" where
  "ahbm_writes bus ch [] a = Inr a"
| "ahbm_writes bus ch ((address, v) # rest) a =
     rbind (ahbm_write_internal bus ch address v a) (ahbm_writes bus ch rest)"

lemma ahbm_external_id [simp]: "a\<lparr>ah_external := ah_external a\<rparr> = a"
  by simp

lemma ahbm_channel_of_put [simp]:
  "ahbm_ok a \<Longrightarrow> ch < 3 \<Longrightarrow> ahbm_channel ch (ahbm_put_channel ch c a) = Inr c"
  by (simp add: ahbm_channel_ok)

lemma ahbm_put_external:
  "(ahbm_put_channel i c a)\<lparr>ah_external := ah_external a\<rparr> = ahbm_put_channel i c a"
  by (simp add: ahbm_put_channel_def)

lemma ahbm_reads_queued:
  assumes "length addresses = length vs" and "ahbm_ok a" and "ch < 3"
  shows "ahbm_reads bus ch addresses (ahbm_put_channel ch (c\<lparr>ac_burst_queue := vs\<rparr>) a) =
    Inr (vs, ahbm_put_channel ch (c\<lparr>ac_burst_queue := []\<rparr>) a)"
  using assms
proof (induction addresses vs rule: list_induct2)
  case (Cons address addresses v vs)
  then show ?case
    by (simp add: ahbm_read32_def ahbm_put_external)
qed simp

lemma ahbm_channel_swap:
  "c\<lparr>ac_write_burst_start := s, ac_burst_queue := q\<rparr> =
   c\<lparr>ac_burst_queue := q, ac_write_burst_start := s\<rparr>"
  by simp

lemma ahbm_write_internal_put:
  assumes "ahbm_ok a" and "ch < 3"
  shows "ahbm_write_internal bus ch address v
      (ahbm_put_channel ch (c\<lparr>ac_burst_queue := q, ac_write_burst_start := s\<rparr>) a) =
    (let s' = (if q = [] then address else s) in
     if Suc (length q) \<ge> ahbm_burst_units c
     then Inr (ahbm_put_channel ch (c\<lparr>ac_burst_queue := [], ac_write_burst_start := s'\<rparr>)
            (a\<lparr>ah_external := ahbm_drain bus (ac_unit_size c) (q @ [v]) s' (ah_external a)\<rparr>))
     else Inr (ahbm_put_channel ch (c\<lparr>ac_burst_queue := q @ [v], ac_write_burst_start := s'\<rparr>) a))"
  using assms by (simp add: ahbm_write_internal_def Let_def ahbm_channel_swap)

lemma ahbm_empty_queue:
  "ac_burst_queue c = [] \<Longrightarrow>
   c\<lparr>ac_burst_queue := [], ac_write_burst_start := s\<rparr> = c\<lparr>ac_write_burst_start := s\<rparr>"
  by simp

lemma ahbm_writes_filling:
  assumes "ahbm_ok a" and "ch < 3" and "q \<noteq> []"
    and "length q + length ws < ahbm_burst_units c"
  shows "ahbm_writes bus ch ws
      (ahbm_put_channel ch (c\<lparr>ac_burst_queue := q, ac_write_burst_start := s\<rparr>) a) =
    Inr (ahbm_put_channel ch (c\<lparr>ac_burst_queue := q @ map snd ws, ac_write_burst_start := s\<rparr>) a)"
  using assms(3-)
proof (induction ws arbitrary: q)
  case (Cons w ws)
  with assms(1,2) Cons.IH [of "q @ [snd w]"] show ?case
    by (cases w) (simp add: ahbm_write_internal_put)
qed simp

lemma ahbm_writes_filling_first:
  assumes "ahbm_ok a" and "ch < 3" and "c = ah_channels a ! unat ch"
    and "ac_burst_queue c = []" and "length (w # ws) < ahbm_burst_units c"
  shows "ahbm_writes bus ch (w # ws) a =
    Inr (ahbm_put_channel ch
      (c\<lparr>ac_burst_queue := map snd (w # ws), ac_write_burst_start := fst w\<rparr>) a)"
proof (cases w)
  case (Pair address v)
  have "ahbm_write_internal bus ch address v a =
      Inr (ahbm_put_channel ch (c\<lparr>ac_burst_queue := [v], ac_write_burst_start := address\<rparr>) a)"
    using assms by (simp add: ahbm_write_internal_def ahbm_channel_ok Let_def ahbm_channel_swap)
  with Pair assms show ?thesis
    by (simp add: ahbm_writes_filling)
qed

section \<open>Byte lanes\<close>

text \<open>
  An external memory made of bytes, little endian. On it one unit of a write burst stores exactly
  the bytes of the unit's aligned word that do not lie below the current address, each from its
  own position in the value.
\<close>

definition byte_bus :: "(u32 \<Rightarrow> u8) external_bus" where
  "byte_bus = \<lparr>
     eb_read8 = (\<lambda>p m. (m p, m)),
     eb_write8 = (\<lambda>p v m. m(p := v)),
     eb_read16 = (\<lambda>p m. (ucast (m p) OR push_bit 8 (ucast (m (p + 1))), m)),
     eb_write16 = (\<lambda>p v m. m(p := ucast v, p + 1 := ucast (drop_bit 8 v))),
     eb_read32 = (\<lambda>p m. (ucast (m p) OR push_bit 8 (ucast (m (p + 1)))
        OR push_bit 16 (ucast (m (p + 2))) OR push_bit 24 (ucast (m (p + 3))), m)),
     eb_write32 = (\<lambda>p v m. m(p := ucast v, p + 1 := ucast (drop_bit 8 v),
        p + 2 := ucast (drop_bit 16 v), p + 3 := ucast (drop_bit 24 v)))\<rparr>"

definition lane_write :: "nat \<Rightarrow> u32 \<Rightarrow> u32 \<Rightarrow> (u32 \<Rightarrow> u8) \<Rightarrow> (u32 \<Rightarrow> u8)" where
  "lane_write width current v m p =
     (if unat p div width = unat current div width \<and> current \<le> p
      then ucast (drop_bit (8 * (unat p mod width)) v) else m p)"

lemma clear_masks:
  "(0xFFFFFFFE :: u32) = NOT (mask 1)"
  "(0xFFFFFFFC :: u32) = NOT (mask 2)"
  by (simp_all add: mask_eq_exp_minus_1 not_eq_complement)

lemma unat_clear_low_bits:
  "unat ((w :: u32) AND 0xFFFFFFFE) = 2 * (unat w div 2)"
  "unat ((w :: u32) AND 0xFFFFFFFC) = 4 * (unat w div 4)"
proof -
  have *: "unat (w AND NOT (mask n)) = 2 ^ n * (unat w div 2 ^ n)" for n
  proof -
    have "w AND NOT (mask n) = push_bit n (drop_bit n w)"
      by (rule bit_word_eqI) (auto simp: bit_simps)
    moreover have "2 ^ n * (unat w div 2 ^ n) < 2 ^ 32"
      using unat_below [of w] by (simp add: le_less_trans [OF times_div_less_eq_dividend])
    moreover have "unat (push_bit n (drop_bit n w)) = take_bit 32 (2 ^ n * (unat w div 2 ^ n))"
      unfolding unsigned_push_bit_eq unsigned_drop_bit_eq
      by (simp add: take_bit_nat_eq_self unat_lt_2p32 push_bit_eq_mult drop_bit_eq_div mult.commute)
    ultimately show ?thesis
      by (simp only: take_bit_nat_eq_self)
  qed
  show "unat (w AND 0xFFFFFFFE) = 2 * (unat w div 2)"
    using * [of 1] by (simp add: clear_masks)
  show "unat (w AND 0xFFFFFFFC) = 4 * (unat w div 4)"
    using * [of 2] by (simp add: clear_masks)
qed

lemma byte_of_half:
  "(ucast (ucast (drop_bit 16 (v :: u32)) :: u16) :: u8) = ucast (drop_bit 16 v)"
  "(ucast (drop_bit 8 (ucast (drop_bit 16 (v :: u32)) :: u16)) :: u8) = ucast (drop_bit 24 v)"
  by (rule bit_word_eqI; auto simp: bit_simps)+

lemma bytes_of_low_half:
  "(ucast (ucast (v :: u32) :: u16) :: u8) = ucast v"
  "(ucast (drop_bit 8 (ucast (v :: u32) :: u16)) :: u8) = ucast (drop_bit 8 v)"
  by (rule bit_word_eqI; auto simp: bit_simps)+

lemma unat_add_small:
  "unat (w :: u32) + n < 4294967296 \<Longrightarrow> n < 4294967296 \<Longrightarrow> unat (w + of_nat n) = unat w + n"
  by (simp add: unat_word_ariths unat_of_nat)

lemma lane_write_u32:
  "snd (ahbm_write_unit byte_bus UnitU32 current v m) = lane_write 4 current v m"
proof
  fix p :: u32
  define q where "q = unat current div 4"
  define k where "k = unat current mod 4"
  define c0 where "c0 = current AND 0xFFFFFFFC"
  have cur: "unat current = 4 * q + k" and k: "k < 4"
    by (simp_all add: q_def k_def)
  have u0: "unat c0 = 4 * q"
    unfolding c0_def q_def by (rule unat_clear_low_bits)
  have "4 * q + 3 < 4294967296"
    using unat_lt_2p32 [of current] cur k by presburger
  with u0 have u: "unat (c0 + 1) = 4 * q + 1" "unat (c0 + 2) = 4 * q + 2" "unat (c0 + 3) = 4 * q + 3"
    using unat_add_small [of c0 1] unat_add_small [of c0 2] unat_add_small [of c0 3] by simp_all
  define r where "r = unat p mod 4"
  define s where "s = unat p div 4"
  have p: "unat p = 4 * s + r" and r: "r < 4"
    by (simp_all add: r_def s_def)
  have eqs: "p = c0 \<longleftrightarrow> s = q \<and> r = 0" "p = c0 + 1 \<longleftrightarrow> s = q \<and> r = 1"
    "p = c0 + 2 \<longleftrightarrow> s = q \<and> r = 2" "p = c0 + 3 \<longleftrightarrow> s = q \<and> r = 3"
    unfolding word_unat_eq_iff u0 u p using r by presburger+
  show "snd (ahbm_write_unit byte_bus UnitU32 current v m) p = lane_write 4 current v m p"
  proof -
    have le: "current \<le> c0 \<longleftrightarrow> k = 0" "current \<le> c0 + 1 \<longleftrightarrow> k \<le> 1" "current \<le> c0 + 2 \<longleftrightarrow> k \<le> 2"
      unfolding word_le_nat_alt cur u0 u by auto
    have lp: "current \<le> p \<longleftrightarrow> 4 * q + k \<le> 4 * s + r"
      unfolding word_le_nat_alt cur p ..
    have "ahbm_write_unit byte_bus UnitU32 current v m = (current + 4,
       if k = 0 then m(c0 := ucast v, c0 + 1 := ucast (drop_bit 8 v),
         c0 + 2 := ucast (drop_bit 16 v), c0 + 3 := ucast (drop_bit 24 v))
       else if k = 1 then m(c0 + 1 := ucast (drop_bit 8 v), c0 + 2 := ucast (drop_bit 16 v),
         c0 + 3 := ucast (drop_bit 8 (ucast (drop_bit 16 v) :: u16)))
       else if k = 2 then m(c0 + 2 := ucast (ucast (drop_bit 16 v) :: u16),
         c0 + 3 := ucast (drop_bit 8 (ucast (drop_bit 16 v) :: u16)))
       else m(c0 + 3 := ucast (drop_bit 24 v)))"
      by (auto simp: ahbm_write_unit_def byte_bus_def Let_def le byte_of_half
          add.commute [of 3 c0] simp flip: c0_def)
    moreover have "lane_write 4 current v m p =
        (if s = q \<and> k \<le> r then ucast (drop_bit (8 * r) v) else m p)"
      by (simp add: lane_write_def lp flip: r_def s_def q_def)
    moreover have "r \<in> {0, 1, 2, 3}"
      using r by auto
    ultimately show ?thesis
      using k by (auto simp: eqs byte_of_half)
  qed
qed

lemma lane_write_u16:
  "snd (ahbm_write_unit byte_bus UnitU16 current v m) = lane_write 2 current v m"
proof
  fix p :: u32
  define q where "q = unat current div 2"
  define k where "k = unat current mod 2"
  define c0 where "c0 = current AND 0xFFFFFFFE"
  have cur: "unat current = 2 * q + k" and k: "k < 2"
    by (simp_all add: q_def k_def)
  have u0: "unat c0 = 2 * q"
    unfolding c0_def q_def by (rule unat_clear_low_bits)
  have "2 * q + 1 < 4294967296"
    using unat_lt_2p32 [of current] cur k by presburger
  with u0 have u: "unat (c0 + 1) = 2 * q + 1"
    using unat_add_small [of c0 1] by simp
  define r where "r = unat p mod 2"
  define s where "s = unat p div 2"
  have p: "unat p = 2 * s + r" and r: "r < 2"
    by (simp_all add: r_def s_def)
  have eqs: "p = c0 \<longleftrightarrow> s = q \<and> r = 0" "p = c0 + 1 \<longleftrightarrow> s = q \<and> r = 1"
    unfolding word_unat_eq_iff u0 u p using r by presburger+
  have le: "current \<le> c0 \<longleftrightarrow> k = 0"
    unfolding word_le_nat_alt cur u0 by auto
  have lp: "current \<le> p \<longleftrightarrow> 2 * q + k \<le> 2 * s + r"
    unfolding word_le_nat_alt cur p ..
  have "ahbm_write_unit byte_bus UnitU16 current v m = (current + 2,
     if k = 0 then m(c0 := ucast v, c0 + 1 := ucast (drop_bit 8 v))
     else m(c0 + 1 := ucast (drop_bit 8 v)))"
    by (auto simp: ahbm_write_unit_def byte_bus_def Let_def le bytes_of_low_half simp flip: c0_def)
  moreover have "lane_write 2 current v m p =
      (if s = q \<and> k \<le> r then ucast (drop_bit (8 * r) v) else m p)"
    by (simp add: lane_write_def lp flip: r_def s_def q_def)
  moreover have "r \<in> {0, 1}"
    using r by auto
  ultimately show "snd (ahbm_write_unit byte_bus UnitU16 current v m) p = lane_write 2 current v m p"
    using k by (auto simp: eqs)
qed

section \<open>Consecutive units\<close>

text \<open>
  What a burst moves, without the loops: a unit of \<open>w\<close> bytes, its value at an address of the byte
  memory (a byte in the half of the value that belongs to its address; the aligned half or word,
  little endian), and the store of a unit there. The \<open>k\<close>-th unit of a burst lies
  \<open>k * w\<close> bytes after the first.
\<close>

definition unit_width :: "u16 \<Rightarrow> nat" where
  "unit_width unit = 2 ^ unat unit"

definition aligned_bytes :: "nat \<Rightarrow> (u32 \<Rightarrow> u8) \<Rightarrow> u32 \<Rightarrow> u8 list" where
  "aligned_bytes w m p = map (\<lambda>k. m (of_nat (unat p div w * w + k))) [0..<w]"

definition unit_value :: "nat \<Rightarrow> (u32 \<Rightarrow> u8) \<Rightarrow> u32 \<Rightarrow> u32" where
  "unit_value w m p =
     (if w = 1 then push_bit (8 * (unat p mod 2)) (ucast (m p))
      else foldr (\<lambda>b v. ucast b OR push_bit 8 v) (aligned_bytes w m p) 0)"

definition unit_store :: "nat \<Rightarrow> u32 \<Rightarrow> u32 \<Rightarrow> (u32 \<Rightarrow> u8) \<Rightarrow> (u32 \<Rightarrow> u8)" where
  "unit_store w current v m =
     (if w = 1 then m(current := ucast (drop_bit (8 * (unat current mod 2)) v))
      else lane_write w current v m)"

definition unit_address :: "nat \<Rightarrow> u32 \<Rightarrow> nat \<Rightarrow> u32" where
  "unit_address w start k = start + of_nat (w * k)"

lemma unit_address_step [simp]:
  "unit_address w start 0 = start"
  "unit_address w start (Suc k) = unit_address w (start + of_nat w) k"
  by (simp_all add: unit_address_def)

lemma unit_size_cases:
  assumes "u \<le> (2 :: u16)"
  obtains "u = UnitU8" | "u = UnitU16" | "u = UnitU32"
proof -
  have "unat u \<in> {0, 1, 2}"
    using assms by (auto simp: word_le_nat_alt)
  then have "u = 0 \<or> u = 1 \<or> u = 2"
    by (auto simp: word_unat_eq_iff)
  then show thesis
    using that by auto
qed

lemma odd_address: "(p :: u32) AND 1 = 1 \<longleftrightarrow> unat p mod 2 = 1"
  by (simp add: and_one_eq word_unat_eq_iff unat_mod)

lemma clear_low_bits_of_nat:
  "(p :: u32) AND 0xFFFFFFFE = of_nat (unat p div 2 * 2)"
  "(p :: u32) AND 0xFFFFFFFC = of_nat (unat p div 4 * 4)"
proof -
  have *: "p AND m = of_nat n" if "unat (p AND m) = n" for m n
    by (simp add: that [symmetric])
  show "p AND 0xFFFFFFFE = of_nat (unat p div 2 * 2)"
    by (rule *) (simp only: unat_clear_low_bits mult.commute)
  show "p AND 0xFFFFFFFC = of_nat (unat p div 4 * 4)"
    by (rule *) (simp only: unat_clear_low_bits mult.commute)
qed

lemma half_of_bytes:
  "(ucast (ucast (b0 :: u8) OR push_bit 8 (ucast (b1 :: u8)) :: u16) :: u32) =
   ucast b0 OR push_bit 8 (ucast b1)"
  by (rule bit_word_eqI) (auto simp: bit_simps dest: bit_imp_le_length)

lemma read_unit_byte_bus:
  assumes "unit \<le> 2"
  shows "ahbm_read_unit byte_bus unit p m =
    (unit_value (unit_width unit) m p, p + of_nat (unit_width unit), m)"
  using assms
  by (cases rule: unit_size_cases)
    (auto simp: ahbm_read_unit_def byte_bus_def unit_width_def unit_value_def aligned_bytes_def
      odd_address clear_low_bits_of_nat half_of_bytes upt_rec push_bit_or or.assoc Let_def)

lemma fill_byte_bus:
  assumes "unit \<le> 2"
  shows "ahbm_fill byte_bus unit n start m =
    (map (\<lambda>k. unit_value (unit_width unit) m (unit_address (unit_width unit) start k)) [0..<n], m)"
proof (induction n arbitrary: start)
  case (Suc n)
  then show ?case
    by (simp add: read_unit_byte_bus [OF assms] map_upt_Suc del: upt_Suc)
qed simp

lemma write_unit_address:
  assumes "unit \<le> 2"
  shows "fst (ahbm_write_unit bus unit current v x) = current + of_nat (unit_width unit)"
  using assms by (cases rule: unit_size_cases) (auto simp: ahbm_write_unit_def unit_width_def Let_def)

lemma write_unit_byte_bus:
  assumes "unit \<le> 2"
  shows "snd (ahbm_write_unit byte_bus unit current v m) = unit_store (unit_width unit) current v m"
  using assms
proof (cases rule: unit_size_cases)
  case 1
  then show ?thesis
    by (auto simp: unit_store_def unit_width_def odd_address ahbm_write_unit_def byte_bus_def)
qed (simp_all add: unit_store_def unit_width_def lane_write_u16 lane_write_u32)

definition store_units :: "nat \<Rightarrow> u32 \<Rightarrow> u32 list \<Rightarrow> (u32 \<Rightarrow> u8) \<Rightarrow> (u32 \<Rightarrow> u8)" where
  "store_units w start vs m =
     fold (\<lambda>k. unit_store w (unit_address w start k) (vs ! k)) [0..<length vs] m"

lemma store_units_Cons:
  "store_units w start (v # vs) m = store_units w (start + of_nat w) vs (unit_store w start v m)"
proof -
  have "fold (\<lambda>k. unit_store w (unit_address w start k) ((v # vs) ! k)) [Suc 0..<Suc n] m' =
      fold (\<lambda>k. unit_store w (unit_address w (start + of_nat w) k) (vs ! k)) [0..<n] m'" for n m'
    by (simp add: fold_map o_def del: upt_Suc flip: map_Suc_upt)
  then show ?thesis
    by (simp add: store_units_def upt_conv_Cons del: upt_Suc)
qed

lemma drain_byte_bus:
  assumes "unit \<le> 2"
  shows "ahbm_drain byte_bus unit vs start m = store_units (unit_width unit) start vs m"
proof (induction vs arbitrary: start m)
  case Nil
  show ?case
    by (simp add: store_units_def)
next
  case (Cons v vs)
  then show ?case
    using write_unit_address [OF assms, of byte_bus start v m]
      write_unit_byte_bus [OF assms, of start v m]
    by (simp add: store_units_Cons split_def Let_def)
qed

section \<open>Properties\<close>

text \<open>
  C34: A read burst on a little-endian byte memory: with an empty queue and a unit of 1, 2 or 4
  bytes, as many reads as the burst has units return, in order, the values of the units that lie
  at the first address read and at each unit width after it; the addresses given to the later
  reads are ignored, these reads do not access the outside world at all (they give the same on
  any bus), the memory is unchanged and the queue is empty again afterwards.
\<close>

theorem ahbm_read_burst:
  assumes "ahbm_ok a" and "ch < 3" and c: "c = ah_channels a ! unat ch"
    and "ac_burst_queue c = []" and "ac_unit_size c \<le> 2"
    and "Suc (length addresses) = ahbm_burst_units c"
    and w: "w = unit_width (ac_unit_size c)"
    and vs: "vs = map (\<lambda>k. unit_value w (ah_external a) (unit_address w address k))
                      [0..<ahbm_burst_units c]"
  shows "\<exists>a1. ahbm_read32 byte_bus ch address a = Inr (hd vs, a1) \<and>
    ahbm_reads bus ch addresses a1 = Inr (tl vs, a)"
proof -
  let ?a1 = "ahbm_put_channel ch (c\<lparr>ac_burst_queue := tl vs\<rparr>) a"
  have "ahbm_read32 byte_bus ch address a = Inr (hd vs, ?a1)"
    using assms by (simp add: ahbm_read32_def ahbm_channel_ok fill_byte_bus)
  moreover have "c\<lparr>ac_burst_queue := []\<rparr> = c"
    using assms(4) by simp
  then have "ahbm_put_channel ch (c\<lparr>ac_burst_queue := []\<rparr>) a = a"
    using c by (simp add: ahbm_put_channel_def)
  then have "ahbm_reads bus ch addresses ?a1 = Inr (tl vs, a)"
    using ahbm_reads_queued [of addresses "tl vs" a ch bus c] assms by simp
  ultimately show ?thesis
    by blast
qed

definition ahbm_example :: "u16 \<Rightarrow> (u32 \<Rightarrow> u8) ahbm" where
  "ahbm_example direction = \<lparr>ah_busy_flag = 0,
     ah_channels = replicate 3 (ahbm_channel_initial\<lparr>ac_unit_size := UnitU16,
       ac_burst_size := BurstX4, ac_direction := direction\<rparr>),
     ah_external = (\<lambda>p. ucast p)\<rparr>"

lemma ahbm_example_simps:
  "ahbm_ok (ahbm_example d)"
  "i < 3 \<Longrightarrow> ac_burst_queue (ah_channels (ahbm_example d) ! i) = []"
  "i < 3 \<Longrightarrow> ahbm_burst_units (ah_channels (ahbm_example d) ! i) = 4"
  "i < 3 \<Longrightarrow> ac_unit_size (ah_channels (ahbm_example d) ! i) = 1"
  "ah_external (ahbm_example d) = (\<lambda>p. ucast p)"
  by (simp_all add: ahbm_ok_def ahbm_example_def ahbm_channel_initial_def ahbm_burst_units_def)

lemma ahbm_read_burst_witness:
  "\<exists>a1. ahbm_read32 byte_bus 1 0x10 (ahbm_example 0) = Inr (0x1110, a1) \<and>
    ahbm_reads byte_bus 1 [0x999, 0, 5] a1 = Inr ([0x1312, 0x1514, 0x1716], ahbm_example 0)"
  using ahbm_read_burst [where a = "ahbm_example 0" and ch = 1 and addresses = "[0x999, 0, 5]"
      and address = "0x10" and bus = byte_bus, OF _ _ refl _ _ _ refl refl]
  by (simp add: ahbm_example_simps unit_width_def unit_value_def aligned_bytes_def
      unit_address_def upt_rec push_bit_eq_mult)

text \<open>
  C35: A write burst on a little-endian byte memory: with an empty queue and a unit of 1, 2 or 4
  bytes, as many writes as the burst has units leave the values in order, one in the unit at the
  first address written and one each unit width after it (a unit that begins inside its aligned
  half or word stores only the bytes from there on, each from its own lane of the value); the
  addresses given to the later writes are ignored, none but the last write changes the memory
  and the queue is empty again afterwards.
\<close>

theorem ahbm_write_burst:
  assumes "ahbm_ok a" and "ch < 3" and c: "c = ah_channels a ! unat ch"
    and "ac_burst_queue c = []" and "ac_unit_size c \<le> 2"
    and "Suc (length ws) = ahbm_burst_units c"
    and start: "start = fst (hd (ws @ [(address, v)]))"
  shows "\<exists>a1. ahbm_writes bus ch ws a = Inr a1 \<and> ah_external a1 = ah_external a \<and>
    ahbm_write_internal byte_bus ch address v a1 =
      Inr (ahbm_put_channel ch (c\<lparr>ac_write_burst_start := start\<rparr>)
        (a\<lparr>ah_external := store_units (unit_width (ac_unit_size c)) start (map snd ws @ [v])
              (ah_external a)\<rparr>))"
proof (cases ws)
  case Nil
  with assms show ?thesis
    by (simp add: ahbm_write_internal_def ahbm_channel_ok drain_byte_bus ahbm_channel_swap ahbm_empty_queue)
next
  case (Cons w0 ws')
  let ?a1 = "ahbm_put_channel ch
    (c\<lparr>ac_burst_queue := map snd ws, ac_write_burst_start := start\<rparr>) a"
  have "ahbm_writes bus ch ws a = Inr ?a1"
    using assms Cons by (simp add: ahbm_writes_filling_first)
  moreover have "ahbm_write_internal byte_bus ch address v ?a1 =
      Inr (ahbm_put_channel ch (c\<lparr>ac_write_burst_start := start\<rparr>)
        (a\<lparr>ah_external := store_units (unit_width (ac_unit_size c)) start (map snd ws @ [v])
              (ah_external a)\<rparr>))"
    using assms Cons by (simp add: ahbm_write_internal_put drain_byte_bus ahbm_empty_queue Let_def
        del: ahbm_drain.simps)
  ultimately show ?thesis
    by simp
qed

lemma ahbm_write_burst_witness:
  "\<exists>a1. ahbm_writes byte_bus 2 [(0x21, 0x1122), (0, 0x3344), (0, 0x5566)] (ahbm_example 1) = Inr a1 \<and>
    ah_external a1 = ucast \<and>
    ahbm_write_internal byte_bus 2 7 0x7788 a1 =
      Inr (ahbm_put_channel 2 ((ah_channels (ahbm_example 1) ! 2)\<lparr>ac_write_burst_start := 0x21\<rparr>)
        ((ahbm_example 1)\<lparr>ah_external := lane_write 2 0x27 0x7788 (lane_write 2 0x25 0x5566
            (lane_write 2 0x23 0x3344 (lane_write 2 0x21 0x1122 ucast)))\<rparr>))"
  using ahbm_write_burst [where a = "ahbm_example 1" and ch = 2 and address = 7 and v = "0x7788"
      and ws = "[(0x21, 0x1122), (0, 0x3344), (0, 0x5566)]" and bus = byte_bus, OF _ _ refl _ _ _ refl]
  by (simp add: ahbm_example_simps unit_width_def unit_store_def store_units_def
      unit_address_def upt_rec)

text \<open>
  The odd-address behaviour of write units, on a byte-addressed little-endian memory: a 16-bit
  or 32-bit unit stores exactly the bytes of its aligned word that do not lie below the address,
  each byte from its own lane of the value, and no other byte of memory changes.
\<close>

theorem ahbm_write_unit_lanes:
  "snd (ahbm_write_unit byte_bus UnitU32 current v m) = lane_write 4 current v m \<and>
   snd (ahbm_write_unit byte_bus UnitU16 current v m) = lane_write 2 current v m"
  by (simp add: lane_write_u32 lane_write_u16)

end
