(* ===== verification/Dma_Engine.thy ===== *)
theory Dma_Engine
  imports Shared_Mem Ahb_Master
begin

text \<open>
  src/src/dma.h and src/src/dma.cpp: the eight DMA channels, which copy words between the shared
  memory and the external bus along three nested counters.

  DoDma runs a channel to its end in a loop that need not end, so the loop is a
  \<open>partial_function (option)\<close> and a call that does not return is the error \<open>Diverges\<close>.
\<close>

section \<open>State\<close>

record dma_channel =
  dm_addr_src_low :: u16
  dm_addr_src_high :: u16
  dm_addr_dst_low :: u16
  dm_addr_dst_high :: u16
  dm_size0 :: u16
  dm_size1 :: u16
  dm_size2 :: u16
  dm_src_step0 :: u16
  dm_dst_step0 :: u16
  dm_src_step1 :: u16
  dm_dst_step1 :: u16
  dm_src_step2 :: u16
  dm_dst_step2 :: u16
  dm_src_space :: u16
  dm_dst_space :: u16
  dm_dword_mode :: u16
  dm_y :: u16
  dm_z :: u16
  dm_current_src :: u32
  dm_current_dst :: u32
  dm_counter0 :: u16
  dm_counter1 :: u16
  dm_counter2 :: u16
  dm_running :: u16
  dm_ahbm_channel :: u16

record dma =
  dma_enable_channel :: u16
  dma_active_channel :: u16
  dma_channels :: "dma_channel list"

datatype dma_event = DmaInterrupt

definition dma_channel_initial :: dma_channel where
  "dma_channel_initial = \<lparr>dm_addr_src_low = 0, dm_addr_src_high = 0, dm_addr_dst_low = 0,
     dm_addr_dst_high = 0, dm_size0 = 0, dm_size1 = 0, dm_size2 = 0, dm_src_step0 = 0,
     dm_dst_step0 = 0, dm_src_step1 = 0, dm_dst_step1 = 0, dm_src_step2 = 0, dm_dst_step2 = 0,
     dm_src_space = 0, dm_dst_space = 0, dm_dword_mode = 0, dm_y = 0, dm_z = 0,
     dm_current_src = 0, dm_current_dst = 0, dm_counter0 = 0, dm_counter1 = 0, dm_counter2 = 0,
     dm_running = 0, dm_ahbm_channel = 0\<rparr>"

definition dma_reset :: dma where
  "dma_reset = \<lparr>dma_enable_channel = 0, dma_active_channel = 0,
     dma_channels = replicate 8 dma_channel_initial\<rparr>"

section \<open>Transfers\<close>

text \<open>The memories a channel works on: the shared memory and the external bus master.\<close>

type_synonym 'x dma_world = "shared_memory \<times> 'x ahbm"

definition dma_read32 :: "'x external_bus \<Rightarrow> u16 \<Rightarrow> u16 \<Rightarrow> u32 \<Rightarrow> 'x dma_world
    \<Rightarrow> (u32 \<times> 'x dma_world) result" where
  "dma_read32 bus space ahbm_ch src w =
     (let (m, a) = w in
      if space = 0 then
        rbind (shared_read_word (DataMemoryOffset + (src AND 0xFFFFFFFE)) m) (\<lambda>l.
        rbind (shared_read_word (DataMemoryOffset + (src OR 1)) m) (\<lambda>h.
          Inr (ucast l OR push_bit 16 (ucast h), w)))
      else if space = 7 then
        rbind (ahbm_read32 bus ahbm_ch src a) (\<lambda>(v, a'). Inr (v, (m, a')))
      else Inr (0, w))"

definition dma_write32 :: "'x external_bus \<Rightarrow> u16 \<Rightarrow> u16 \<Rightarrow> u32 \<Rightarrow> u32 \<Rightarrow> 'x dma_world
    \<Rightarrow> 'x dma_world result" where
  "dma_write32 bus space ahbm_ch dst v w =
     (let (m, a) = w in
      if space = 0 then
        rbind (shared_write_word (DataMemoryOffset + (dst AND 0xFFFFFFFE)) (ucast v) m) (\<lambda>m1.
        rbind (shared_write_word (DataMemoryOffset + (dst OR 1)) (ucast (drop_bit 16 v)) m1) (\<lambda>m2.
          Inr (m2, a)))
      else if space = 7 then
        rbind (ahbm_write32 bus ahbm_ch dst v a) (\<lambda>a'. Inr (m, a'))
      else Inr w)"

definition dma_read16 :: "'x external_bus \<Rightarrow> u16 \<Rightarrow> u16 \<Rightarrow> u32 \<Rightarrow> 'x dma_world
    \<Rightarrow> (u16 \<times> 'x dma_world) result" where
  "dma_read16 bus space ahbm_ch src w =
     (let (m, a) = w in
      if space = 0 then
        rbind (shared_read_word (DataMemoryOffset + src) m) (\<lambda>v. Inr (v, w))
      else if space = 7 then
        rbind (ahbm_read16 bus ahbm_ch src a) (\<lambda>(v, a'). Inr (v, (m, a')))
      else Inr (0, w))"

definition dma_write16 :: "'x external_bus \<Rightarrow> u16 \<Rightarrow> u16 \<Rightarrow> u32 \<Rightarrow> u16 \<Rightarrow> 'x dma_world
    \<Rightarrow> 'x dma_world result" where
  "dma_write16 bus space ahbm_ch dst v w =
     (let (m, a) = w in
      if space = 0 then
        rbind (shared_write_word (DataMemoryOffset + dst) v m) (\<lambda>m'. Inr (m', a))
      else if space = 7 then
        rbind (ahbm_write16 bus ahbm_ch dst v a) (\<lambda>a'. Inr (m, a'))
      else Inr w)"

text \<open>The first part of Channel::Tick: move one word or double word.\<close>

definition dma_transfer :: "'x external_bus \<Rightarrow> dma_channel \<Rightarrow> u32 \<times> u32 \<Rightarrow> 'x dma_world
    \<Rightarrow> 'x dma_world result" where
  "dma_transfer bus c p w =
     (if dm_dword_mode c \<noteq> 0 then
        rbind (dma_read32 bus (dm_src_space c) (dm_ahbm_channel c) (fst p) w) (\<lambda>(v, w').
          dma_write32 bus (dm_dst_space c) (dm_ahbm_channel c) (snd p) v w')
      else
        rbind (dma_read16 bus (dm_src_space c) (dm_ahbm_channel c) (fst p) w) (\<lambda>(v, w').
          dma_write16 bus (dm_dst_space c) (dm_ahbm_channel c) (snd p) v w'))"

text \<open>The second part: the counters, and the step that goes with the counter that moved.\<close>

definition dma_add_step :: "u16 \<times> u16 \<Rightarrow> u32 \<times> u32 \<Rightarrow> u32 \<times> u32" where
  "dma_add_step s p = (fst p + ucast (fst s), snd p + ucast (snd s))"

definition dma_move :: "u16 \<times> u16 \<Rightarrow> dma_channel \<Rightarrow> dma_channel" where
  "dma_move s c = c\<lparr>dm_current_src := dm_current_src c + ucast (fst s),
                     dm_current_dst := dm_current_dst c + ucast (snd s)\<rparr>"

definition dma_advance :: "dma_channel \<Rightarrow> dma_channel" where
  "dma_advance c =
     (let c0 = c\<lparr>dm_counter0 := dm_counter0 c + (if dm_dword_mode c \<noteq> 0 then 2 else 1)\<rparr> in
      if dm_counter0 c0 \<ge> dm_size0 c0 then
        let c1 = c0\<lparr>dm_counter0 := 0, dm_counter1 := dm_counter1 c0 + 1\<rparr> in
        if dm_counter1 c1 \<ge> dm_size1 c1 then
          let c2 = c1\<lparr>dm_counter1 := 0, dm_counter2 := dm_counter2 c1 + 1\<rparr> in
          if dm_counter2 c2 \<ge> dm_size2 c2 then c2\<lparr>dm_running := 0\<rparr>
          else dma_move (dm_src_step2 c2, dm_dst_step2 c2) c2
        else dma_move (dm_src_step1 c1, dm_dst_step1 c1) c1
      else dma_move (dm_src_step0 c0, dm_dst_step0 c0) c0)"

definition dma_tick :: "'x external_bus \<Rightarrow> dma_channel \<Rightarrow> 'x dma_world
    \<Rightarrow> (dma_channel \<times> 'x dma_world) result" where
  "dma_tick bus c w =
     rbind (dma_transfer bus c (dm_current_src c, dm_current_dst c) w) (\<lambda>w'.
       Inr (dma_advance c, w'))"

definition dma_start :: "dma_channel \<Rightarrow> dma_channel" where
  "dma_start c = c\<lparr>dm_running := 1,
     dm_current_src := ucast (dm_addr_src_low c) OR push_bit 16 (ucast (dm_addr_src_high c)),
     dm_current_dst := ucast (dm_addr_dst_low c) OR push_bit 16 (ucast (dm_addr_dst_high c)),
     dm_counter0 := 0, dm_counter1 := 0, dm_counter2 := 0\<rparr>"

text \<open>The loop \<open>while (channels[channel].running) channels[channel].Tick(*this)\<close>.\<close>

partial_function (option) dma_loop :: "'x external_bus \<Rightarrow> dma_channel \<Rightarrow> 'x dma_world
    \<Rightarrow> (dma_channel \<times> 'x dma_world) result option" where
  [code]: "dma_loop bus c w =
     (if dm_running c = 0 then Some (Inr (c, w))
      else case dma_tick bus c w of
             Inl e \<Rightarrow> Some (Inl e)
           | Inr (c', w') \<Rightarrow> dma_loop bus c' w')"

definition dma_put :: "u16 \<Rightarrow> dma_channel \<Rightarrow> dma \<Rightarrow> dma" where
  "dma_put i c d = d\<lparr>dma_channels := (dma_channels d)[unat i := c]\<rparr>"

definition dma_get :: "u16 \<Rightarrow> dma \<Rightarrow> dma_channel result" where
  "dma_get i d =
     (if unat i < length (dma_channels d) then Inr (dma_channels d ! unat i) else Inl OutOfBounds)"

definition dma_do :: "'x external_bus \<Rightarrow> u16 \<Rightarrow> dma \<Rightarrow> 'x dma_world
    \<Rightarrow> (dma \<times> 'x dma_world \<times> dma_event list) result" where
  "dma_do bus channel d w =
     rbind (dma_get channel d) (\<lambda>c.
       let c1 = (dma_start c)\<lparr>dm_ahbm_channel := ahbm_channel_for_dma channel (snd w)\<rparr> in
       rbind (returned (dma_loop bus c1 w)) (\<lambda>(c2, w').
         Inr (dma_put channel c2 d, w', [DmaInterrupt])))"

section \<open>Registers\<close>

text \<open>
  The accessors of dma.h act on the channel the register \<open>active_channel\<close> selects. MMIO writes
  store all sixteen bits of it, and the array is indexed without a check.
\<close>

definition dma_active :: "(dma_channel \<Rightarrow> 'a) \<Rightarrow> dma \<Rightarrow> 'a result" where
  "dma_active f d = rbind (dma_get (dma_active_channel d) d) (\<lambda>c. Inr (f c))"

definition dma_set_active :: "(dma_channel \<Rightarrow> dma_channel) \<Rightarrow> dma \<Rightarrow> dma result" where
  "dma_set_active f d =
     rbind (dma_get (dma_active_channel d) d) (\<lambda>c. Inr (dma_put (dma_active_channel d) (f c) d))"

datatype dma_register =
    AddrSrcLow | AddrSrcHigh | AddrDstLow | AddrDstHigh | Size0 | Size1 | Size2
  | SrcStep0 | DstStep0 | SrcStep1 | DstStep1 | SrcStep2 | DstStep2
  | SrcSpace | DstSpace | DwordMode | YReg

fun dma_field :: "dma_register \<Rightarrow> dma_channel \<Rightarrow> u16" where
  "dma_field AddrSrcLow c = dm_addr_src_low c"
| "dma_field AddrSrcHigh c = dm_addr_src_high c"
| "dma_field AddrDstLow c = dm_addr_dst_low c"
| "dma_field AddrDstHigh c = dm_addr_dst_high c"
| "dma_field Size0 c = dm_size0 c"
| "dma_field Size1 c = dm_size1 c"
| "dma_field Size2 c = dm_size2 c"
| "dma_field SrcStep0 c = dm_src_step0 c"
| "dma_field DstStep0 c = dm_dst_step0 c"
| "dma_field SrcStep1 c = dm_src_step1 c"
| "dma_field DstStep1 c = dm_dst_step1 c"
| "dma_field SrcStep2 c = dm_src_step2 c"
| "dma_field DstStep2 c = dm_dst_step2 c"
| "dma_field SrcSpace c = dm_src_space c"
| "dma_field DstSpace c = dm_dst_space c"
| "dma_field DwordMode c = dm_dword_mode c"
| "dma_field YReg c = dm_y c"

fun dma_put_field :: "dma_register \<Rightarrow> u16 \<Rightarrow> dma_channel \<Rightarrow> dma_channel" where
  "dma_put_field AddrSrcLow v c = c\<lparr>dm_addr_src_low := v\<rparr>"
| "dma_put_field AddrSrcHigh v c = c\<lparr>dm_addr_src_high := v\<rparr>"
| "dma_put_field AddrDstLow v c = c\<lparr>dm_addr_dst_low := v\<rparr>"
| "dma_put_field AddrDstHigh v c = c\<lparr>dm_addr_dst_high := v\<rparr>"
| "dma_put_field Size0 v c = c\<lparr>dm_size0 := v\<rparr>"
| "dma_put_field Size1 v c = c\<lparr>dm_size1 := v\<rparr>"
| "dma_put_field Size2 v c = c\<lparr>dm_size2 := v\<rparr>"
| "dma_put_field SrcStep0 v c = c\<lparr>dm_src_step0 := v\<rparr>"
| "dma_put_field DstStep0 v c = c\<lparr>dm_dst_step0 := v\<rparr>"
| "dma_put_field SrcStep1 v c = c\<lparr>dm_src_step1 := v\<rparr>"
| "dma_put_field DstStep1 v c = c\<lparr>dm_dst_step1 := v\<rparr>"
| "dma_put_field SrcStep2 v c = c\<lparr>dm_src_step2 := v\<rparr>"
| "dma_put_field DstStep2 v c = c\<lparr>dm_dst_step2 := v\<rparr>"
| "dma_put_field SrcSpace v c = c\<lparr>dm_src_space := v\<rparr>"
| "dma_put_field DstSpace v c = c\<lparr>dm_dst_space := v\<rparr>"
| "dma_put_field DwordMode v c = c\<lparr>dm_dword_mode := v\<rparr>"
| "dma_put_field YReg v c = c\<lparr>dm_y := v\<rparr>"

definition dma_get_register :: "dma_register \<Rightarrow> dma \<Rightarrow> u16 result" where
  "dma_get_register r = dma_active (dma_field r)"

definition dma_set_register :: "dma_register \<Rightarrow> u16 \<Rightarrow> dma \<Rightarrow> dma result" where
  "dma_set_register r v = dma_set_active (dma_put_field r v)"

definition dma_get_z :: "dma \<Rightarrow> u16 result" where
  "dma_get_z = dma_active dm_z"

definition dma_enable_channel_write :: "u16 \<Rightarrow> dma \<Rightarrow> dma" where
  "dma_enable_channel_write v d = d\<lparr>dma_enable_channel := v\<rparr>"

definition dma_activate_channel :: "u16 \<Rightarrow> dma \<Rightarrow> dma" where
  "dma_activate_channel v d = d\<lparr>dma_active_channel := v\<rparr>"

definition dma_set_z :: "'x external_bus \<Rightarrow> u16 \<Rightarrow> dma \<Rightarrow> 'x dma_world
    \<Rightarrow> (dma \<times> 'x dma_world \<times> dma_event list) result" where
  "dma_set_z bus v d w =
     rbind (dma_set_active (\<lambda>c. c\<lparr>dm_z := v\<rparr>) d) (\<lambda>d'.
       if v = 0x40C0 then dma_do bus (dma_active_channel d') d' w else Inr (d', w, []))"

section \<open>The three nested loops\<close>

text \<open>
  The reference: the pairs of addresses a channel visits, as three nested loops. A row of
  \<open>n + 1\<close> pairs moves by the first step, consecutive rows of a plane are apart by the second
  step, counted from the last pair of a row, and consecutive planes by the third.
\<close>

type_synonym dma_addresses = "u32 \<times> u32"

fun dma_row :: "u16 \<times> u16 \<Rightarrow> nat \<Rightarrow> dma_addresses \<Rightarrow> dma_addresses list" where
  "dma_row s 0 p = [p]"
| "dma_row s (Suc n) p = p # dma_row s n (dma_add_step s p)"

fun dma_nest :: "(dma_addresses \<Rightarrow> dma_addresses list) \<Rightarrow> u16 \<times> u16 \<Rightarrow> nat \<Rightarrow> dma_addresses
    \<Rightarrow> dma_addresses list" where
  "dma_nest f s 0 p = f p"
| "dma_nest f s (Suc n) p = f p @ dma_nest f s n (dma_add_step s (last (f p)))"

text \<open>The trip counts, less one: a size of 0 counts as 1, and double words count by two.\<close>

definition dma_unit :: "dma_channel \<Rightarrow> nat" where
  "dma_unit c = (if dm_dword_mode c \<noteq> 0 then 2 else 1)"

definition dma_trips0 :: "dma_channel \<Rightarrow> nat" where
  "dma_trips0 c = (unat (dm_size0 c) - 1) div dma_unit c"

definition dma_trips1 :: "dma_channel \<Rightarrow> nat" where
  "dma_trips1 c = unat (dm_size1 c) - 1"

definition dma_trips2 :: "dma_channel \<Rightarrow> nat" where
  "dma_trips2 c = unat (dm_size2 c) - 1"

abbreviation dma_step0 :: "dma_channel \<Rightarrow> u16 \<times> u16" where
  "dma_step0 c \<equiv> (dm_src_step0 c, dm_dst_step0 c)"
abbreviation dma_step1 :: "dma_channel \<Rightarrow> u16 \<times> u16" where
  "dma_step1 c \<equiv> (dm_src_step1 c, dm_dst_step1 c)"
abbreviation dma_step2 :: "dma_channel \<Rightarrow> u16 \<times> u16" where
  "dma_step2 c \<equiv> (dm_src_step2 c, dm_dst_step2 c)"

definition dma_cube :: "dma_channel \<Rightarrow> dma_addresses \<Rightarrow> dma_addresses list" where
  "dma_cube c = dma_nest (dma_nest (dma_row (dma_step0 c) (dma_trips0 c)) (dma_step1 c) (dma_trips1 c))
     (dma_step2 c) (dma_trips2 c)"

fun dma_transfers :: "'x external_bus \<Rightarrow> dma_channel \<Rightarrow> dma_addresses list \<Rightarrow> 'x dma_world
    \<Rightarrow> 'x dma_world result" where
  "dma_transfers bus c [] w = Inr w"
| "dma_transfers bus c (p # ps) w = rbind (dma_transfer bus c p w) (dma_transfers bus c ps)"

text \<open>The two double-word trips at the end of the 16-bit counter that the code cannot finish.\<close>

definition dma_counts :: "dma_channel \<Rightarrow> bool" where
  "dma_counts c \<longleftrightarrow> \<not> (dm_dword_mode c \<noteq> 0 \<and> dm_size0 c = 0xFFFF)"

lemma dma_transfers_append:
  "dma_transfers bus c (ps @ qs) w = rbind (dma_transfers bus c ps w) (dma_transfers bus c qs)"
proof (induction ps arbitrary: w)
  case (Cons p ps)
  then show ?case
    by (cases "dma_transfer bus c p w") simp_all
qed simp

lemma dma_nest_not_empty: "(\<And>p. f p \<noteq> []) \<Longrightarrow> dma_nest f s n p \<noteq> []"
  by (cases n) simp_all

lemma dma_row_not_empty [simp]: "dma_row s n p \<noteq> []"
  by (cases n) simp_all

text \<open>A transfer reads the configuration of a channel and not its counters.\<close>

definition dma_at :: "dma_channel \<Rightarrow> nat \<Rightarrow> nat \<Rightarrow> nat \<Rightarrow> dma_addresses \<Rightarrow> dma_channel" where
  "dma_at c i j k p = c\<lparr>dm_counter0 := of_nat (dma_unit c * i), dm_counter1 := of_nat j,
     dm_counter2 := of_nat k, dm_current_src := fst p, dm_current_dst := snd p\<rparr>"

definition dma_finished :: "dma_channel \<Rightarrow> nat \<Rightarrow> dma_addresses \<Rightarrow> dma_channel" where
  "dma_finished c k p = (dma_at c 0 0 k p)\<lparr>dm_running := 0\<rparr>"

lemma dma_transfer_at [simp]: "dma_transfer bus (dma_at c i j k p) = dma_transfer bus c"
  by (intro ext) (simp add: dma_transfer_def dma_at_def)

lemma dma_at_simps [simp]:
  "dm_running (dma_at c i j k p) = dm_running c"
  "dm_current_src (dma_at c i j k p) = fst p"
  "dm_current_dst (dma_at c i j k p) = snd p"
  by (simp_all add: dma_at_def)

section \<open>The loop runs the three nested loops\<close>

definition rthen :: "'a result \<Rightarrow> ('a \<Rightarrow> 'b result option) \<Rightarrow> 'b result option" where
  "rthen r f = (case r of Inl e \<Rightarrow> Some (Inl e) | Inr x \<Rightarrow> f x)"

lemma rthen_simps [simp]:
  "rthen (Inl e) f = Some (Inl e)"
  "rthen (Inr x) f = f x"
  "rthen (rbind m g) f = rthen m (\<lambda>x. rthen (g x) f)"
  by (simp_all add: rthen_def split: sum.splits)

lemma dma_loop_step:
  "dm_running c \<noteq> 0 \<Longrightarrow> dma_loop bus (dma_at c i j k p) w =
   rthen (dma_transfer bus c p w) (dma_loop bus (dma_advance (dma_at c i j k p)))"
  by (subst dma_loop.simps)
    (cases "dma_transfer bus c p w"; simp add: dma_tick_def)

lemma u16_of_nat_less:
  "n < 65536 \<Longrightarrow> (s :: u16) \<le> of_nat n \<longleftrightarrow> unat s \<le> n"
  by (simp add: word_le_nat_alt unat_of_nat)

lemma dma_advance_at:
  "dma_advance (dma_at c i j k p) =
     (if dm_size0 c \<le> of_nat (dma_unit c * i) + (if dm_dword_mode c \<noteq> 0 then 2 else 1) then
        if dm_size1 c \<le> of_nat (Suc j) then
          if dm_size2 c \<le> of_nat (Suc k) then dma_finished c (Suc k) p
          else dma_at c 0 0 (Suc k) (dma_add_step (dma_step2 c) p)
        else dma_at c 0 (Suc j) k (dma_add_step (dma_step1 c) p)
      else dma_at c (Suc i) j k (dma_add_step (dma_step0 c) p))"
  by (simp add: dma_advance_def dma_at_def dma_finished_def Let_def dma_move_def dma_add_step_def
      dma_unit_def add.commute)

lemma dma_advance_row:
  assumes "i < dma_trips0 c"
  shows "dma_advance (dma_at c i j k p) = dma_at c (Suc i) j k (dma_add_step (dma_step0 c) p)"
proof -
  let ?n = "dma_unit c * Suc i"
  have "?n \<le> unat (dm_size0 c) - 1"
    using assms unfolding dma_trips0_def dma_unit_def
    by (auto simp: less_eq_div_iff_mult_less_eq Suc_le_eq split: if_splits)
  moreover have "0 < unat (dm_size0 c)"
    using assms by (cases "unat (dm_size0 c)") (simp_all add: dma_trips0_def)
  ultimately have "?n < unat (dm_size0 c)" and "?n < 65536"
    using unat_lt_2p16 [of "dm_size0 c"] by linarith+
  then have "\<not> dm_size0 c \<le> of_nat ?n"
    by (simp only: u16_of_nat_less)
  moreover have "of_nat (dma_unit c * i) + (if dm_dword_mode c \<noteq> 0 then 2 else 1) = (of_nat ?n :: u16)"
    by (simp add: dma_unit_def)
  ultimately show ?thesis
    by (simp only: dma_advance_at if_False)
qed

lemma dma_row_done:
  assumes "dma_counts c"
  shows "dm_size0 c \<le> of_nat (dma_unit c * dma_trips0 c) + (if dm_dword_mode c \<noteq> 0 then 2 else 1)"
proof -
  let ?n = "dma_unit c * Suc (dma_trips0 c)" and ?s = "unat (dm_size0 c)"
  have s: "?s < 65536" by (rule unat_lt_2p16)
  have "dm_dword_mode c \<noteq> 0 \<Longrightarrow> ?s \<noteq> 65535"
    using assms by (auto simp: dma_counts_def word_unat_eq_iff)
  with s have "?n < 65536" and "?s \<le> ?n"
    unfolding dma_trips0_def dma_unit_def by (auto split: if_splits)
  then have "dm_size0 c \<le> of_nat ?n"
    by (simp only: u16_of_nat_less)
  also have "of_nat ?n = of_nat (dma_unit c * dma_trips0 c)
      + (if dm_dword_mode c \<noteq> 0 then 2 else 1 :: u16)"
    by (simp add: dma_unit_def)
  finally show ?thesis .
qed

lemma dma_advance_plane:
  assumes "dma_counts c" and "j < dma_trips1 c"
  shows "dma_advance (dma_at c (dma_trips0 c) j k p) = dma_at c 0 (Suc j) k (dma_add_step (dma_step1 c) p)"
proof -
  have "Suc j < unat (dm_size1 c)" and "Suc j < 65536"
    using assms(2) unat_lt_2p16 [of "dm_size1 c"] by (simp_all add: dma_trips1_def)
  then have "\<not> dm_size1 c \<le> of_nat (Suc j)"
    by (simp only: u16_of_nat_less)
  then show ?thesis
    by (simp only: dma_advance_at dma_row_done [OF assms(1)] if_True if_False)
qed

lemma dma_size_reached:
  "(s :: u16) \<le> of_nat (Suc (unat s - 1))"
proof -
  have "Suc (unat s - 1) < 65536"
    using unat_lt_2p16 [of s] by linarith
  then show ?thesis
    by (simp only: u16_of_nat_less)
qed

lemma dma_advance_cube:
  assumes "dma_counts c" and "k < dma_trips2 c"
  shows "dma_advance (dma_at c (dma_trips0 c) (dma_trips1 c) k p) =
    dma_at c 0 0 (Suc k) (dma_add_step (dma_step2 c) p)"
proof -
  have "Suc k < unat (dm_size2 c)" and "Suc k < 65536"
    using assms(2) unat_lt_2p16 [of "dm_size2 c"] by (simp_all add: dma_trips2_def)
  then have "\<not> dm_size2 c \<le> of_nat (Suc k)"
    by (simp only: u16_of_nat_less)
  then show ?thesis
    by (simp only: dma_advance_at dma_row_done [OF assms(1)] dma_trips1_def dma_size_reached
        if_True if_False)
qed

lemma dma_advance_end:
  "dma_counts c \<Longrightarrow> dma_advance (dma_at c (dma_trips0 c) (dma_trips1 c) (dma_trips2 c) p) =
   dma_finished c (Suc (dma_trips2 c)) p"
  by (simp only: dma_advance_at dma_row_done dma_trips1_def dma_trips2_def dma_size_reached if_True)

lemma dma_loop_row:
  assumes "dm_running c \<noteq> 0" and "i \<le> dma_trips0 c"
  shows "dma_loop bus (dma_at c i j k p) w =
    rthen (dma_transfers bus c (dma_row (dma_step0 c) (dma_trips0 c - i) p) w)
      (dma_loop bus (dma_advance
        (dma_at c (dma_trips0 c) j k (last (dma_row (dma_step0 c) (dma_trips0 c - i) p)))))"
  using assms(2)
proof (induction "dma_trips0 c - i" arbitrary: i p w)
  case 0
  then have "i = dma_trips0 c" by simp
  then show ?case
    by (cases "dma_transfer bus c p w") (simp_all add: dma_loop_step assms(1))
next
  case (Suc n)
  then have i: "i < dma_trips0 c" and n: "n = dma_trips0 c - Suc i" by simp_all
  then have row: "dma_row (dma_step0 c) (dma_trips0 c - i) p =
      p # dma_row (dma_step0 c) (dma_trips0 c - Suc i) (dma_add_step (dma_step0 c) p)"
    by (simp only: Suc_diff_Suc [OF i, symmetric] dma_row.simps)
  have step: "dma_loop bus (dma_at c i j k p) w = rthen (dma_transfer bus c p w)
      (dma_loop bus (dma_at c (Suc i) j k (dma_add_step (dma_step0 c) p)))"
    by (simp only: dma_loop_step [OF assms(1)] dma_advance_row [OF i])
  show ?case
    unfolding row step
    by (cases "dma_transfer bus c p w") (simp_all add: Suc.hyps(1) [OF n] Suc_leI [OF i])
qed

abbreviation dma_plane :: "dma_channel \<Rightarrow> nat \<Rightarrow> dma_addresses \<Rightarrow> dma_addresses list" where
  "dma_plane c n \<equiv> dma_nest (dma_row (dma_step0 c) (dma_trips0 c)) (dma_step1 c) n"

lemma dma_loop_plane:
  assumes "dm_running c \<noteq> 0" and "dma_counts c" and "j \<le> dma_trips1 c"
  shows "dma_loop bus (dma_at c 0 j k p) w =
    rthen (dma_transfers bus c (dma_plane c (dma_trips1 c - j) p) w)
      (dma_loop bus (dma_advance
        (dma_at c (dma_trips0 c) (dma_trips1 c) k (last (dma_plane c (dma_trips1 c - j) p)))))"
  using assms(3)
proof (induction "dma_trips1 c - j" arbitrary: j p w)
  case 0
  then have "j = dma_trips1 c" by simp
  then show ?case
    by (simp add: dma_loop_row assms(1))
next
  case (Suc n)
  then have j: "j < dma_trips1 c" and n: "n = dma_trips1 c - Suc j" by simp_all
  let ?row = "dma_row (dma_step0 c) (dma_trips0 c) p"
  have plane: "dma_plane c (dma_trips1 c - j) p =
      ?row @ dma_plane c (dma_trips1 c - Suc j) (dma_add_step (dma_step1 c) (last ?row))"
    by (simp only: Suc_diff_Suc [OF j, symmetric] dma_nest.simps)
  have ne: "dma_plane c m q \<noteq> []" for m q
    by (rule dma_nest_not_empty) simp
  have step: "dma_loop bus (dma_at c 0 j k p) w = rthen (dma_transfers bus c ?row w)
      (dma_loop bus (dma_at c 0 (Suc j) k (dma_add_step (dma_step1 c) (last ?row))))"
    using dma_loop_row [OF assms(1), of 0 bus j k p w]
    by (simp only: dma_advance_plane [OF assms(2) j] le0 diff_zero)
  show ?case
    unfolding plane step
    by (cases "dma_transfers bus c ?row w")
      (simp_all add: Suc.hyps(1) [OF n] Suc_leI [OF j] dma_transfers_append ne)
qed

lemma dma_loop_cube:
  assumes "dm_running c \<noteq> 0" and "dma_counts c" and "k \<le> dma_trips2 c"
  defines "cube n p \<equiv> dma_nest (dma_plane c (dma_trips1 c)) (dma_step2 c) n p"
  shows "dma_loop bus (dma_at c 0 0 k p) w =
    rthen (dma_transfers bus c (cube (dma_trips2 c - k) p) w)
      (\<lambda>w'. Some (Inr (dma_finished c (Suc (dma_trips2 c)) (last (cube (dma_trips2 c - k) p)), w')))"
  using assms(3) unfolding cube_def
proof (induction "dma_trips2 c - k" arbitrary: k p w)
  case 0
  then have k: "k = dma_trips2 c" by simp
  have "dma_loop bus (dma_finished c n q) w' = Some (Inr (dma_finished c n q, w'))" for n q w'
    by (subst dma_loop.simps) (simp add: dma_finished_def)
  then show ?case
    by (cases "dma_transfers bus c (dma_plane c (dma_trips1 c) p) w")
      (simp_all add: k dma_loop_plane assms(1,2) dma_advance_end)
next
  case (Suc n)
  then have k: "k < dma_trips2 c" and n: "n = dma_trips2 c - Suc k" by simp_all
  let ?plane = "dma_plane c (dma_trips1 c) p"
  let ?cube = "\<lambda>n p. dma_nest (dma_plane c (dma_trips1 c)) (dma_step2 c) n p"
  have cube: "?cube (dma_trips2 c - k) p =
      ?plane @ ?cube (dma_trips2 c - Suc k) (dma_add_step (dma_step2 c) (last ?plane))"
    by (simp only: Suc_diff_Suc [OF k, symmetric] dma_nest.simps)
  have ne: "?cube m q \<noteq> []" for m q
    by (intro dma_nest_not_empty) simp
  have step: "dma_loop bus (dma_at c 0 0 k p) w = rthen (dma_transfers bus c ?plane w)
      (dma_loop bus (dma_at c 0 0 (Suc k) (dma_add_step (dma_step2 c) (last ?plane))))"
    using dma_loop_plane [OF assms(1,2), of 0 bus k p w]
    by (simp only: dma_advance_cube [OF assms(2) k] le0 diff_zero)
  show ?case
    unfolding cube step
    by (cases "dma_transfers bus c ?plane w")
      (simp_all add: Suc.hyps(1) [OF n] Suc_leI [OF k] dma_transfers_append ne)
qed

text \<open>The channel DoDma runs, and the pair of addresses it starts from.\<close>

definition dma_armed :: "u16 \<Rightarrow> dma \<Rightarrow> 'x dma_world \<Rightarrow> dma_channel" where
  "dma_armed channel d w =
     (dma_start (dma_channels d ! unat channel))\<lparr>dm_ahbm_channel := ahbm_channel_for_dma channel (snd w)\<rparr>"

definition dma_origin :: "dma_channel \<Rightarrow> dma_addresses" where
  "dma_origin c = (dm_current_src c, dm_current_dst c)"

lemma dma_counts_armed:
  "dma_counts (dma_armed channel d w) = dma_counts (dma_channels d ! unat channel)"
  by (simp add: dma_counts_def dma_armed_def dma_start_def)

lemma dma_armed_at: "dma_armed channel d w = dma_at (dma_armed channel d w) 0 0 0 (dma_origin (dma_armed channel d w))"
  by (simp add: dma_at_def dma_armed_def dma_start_def dma_origin_def)

lemma dma_do_armed:
  "unat channel < length (dma_channels d) \<Longrightarrow>
   dma_do bus channel d w = rbind (returned (dma_loop bus (dma_armed channel d w) w))
     (\<lambda>(c, w'). Inr (dma_put channel c d, w', [DmaInterrupt]))"
  by (simp add: dma_do_def dma_get_def dma_armed_def Let_def)

lemma dma_do_cube:
  fixes channel :: u16 and d :: dma and w :: "'x dma_world"
  assumes "unat channel < length (dma_channels d)" and "dma_counts (dma_channels d ! unat channel)"
  defines "c \<equiv> dma_armed channel d w"
  defines "ps \<equiv> dma_cube c (dma_origin c)"
  shows "dma_do bus channel d w = rbind (dma_transfers bus c ps w)
    (\<lambda>w'. Inr (dma_put channel (dma_finished c (Suc (dma_trips2 c)) (last ps)) d, w', [DmaInterrupt]))"
proof -
  have "dm_running c \<noteq> 0" and "dma_counts c"
    using assms(2) by (simp_all add: c_def dma_counts_armed) (simp add: dma_armed_def dma_start_def)
  from dma_loop_cube [OF this, of 0 bus "dma_origin c" w]
  have "dma_loop bus c w = rthen (dma_transfers bus c ps w)
      (\<lambda>w'. Some (Inr (dma_finished c (Suc (dma_trips2 c)) (last ps), w')))"
    by (simp add: ps_def dma_cube_def flip: dma_armed_at [of channel d w, folded c_def])
  then show ?thesis
    unfolding dma_do_armed [OF assms(1)] c_def [symmetric]
    by (cases "dma_transfers bus c ps w") simp_all
qed

section \<open>The counter that cannot be reached\<close>

text \<open>With double words the counter stays even, so it never reaches an end of \<open>0xFFFF\<close>.\<close>

definition dma_stuck :: "dma_channel \<Rightarrow> bool" where
  "dma_stuck c \<longleftrightarrow> dm_running c \<noteq> 0 \<and> dm_dword_mode c \<noteq> 0 \<and> dm_size0 c = 0xFFFF
     \<and> \<not> bit (dm_counter0 c) 0"

lemma dma_stuck_advance: "dma_stuck c \<Longrightarrow> dma_stuck (dma_advance c)"
proof -
  assume s: "dma_stuck c"
  then have e: "\<not> bit (dm_counter0 c + 2) 0"
    by (simp add: dma_stuck_def bit_0)
  have "\<not> (0xFFFF :: u16) \<le> dm_counter0 c + 2"
  proof
    assume "(0xFFFF :: u16) \<le> dm_counter0 c + 2"
    from this [unfolded word_le_nat_alt] have "65535 \<le> unat (dm_counter0 c + 2)"
      by simp
    then have "unat (dm_counter0 c + 2) = 65535"
      using unat_lt_2p16 [of "dm_counter0 c + 2"] by linarith
    then have "dm_counter0 c + 2 = (0xFFFF :: u16)"
      by (simp only: word_unat_eq_iff) simp
    with e show False by simp
  qed
  with s e show ?thesis
    by (simp add: dma_stuck_def dma_advance_def dma_move_def Let_def)
qed

lemma dma_loop_stuck:
  assumes "dma_loop bus c w = Some r"
  shows "dma_stuck c \<longrightarrow> (\<exists>e. r = Inl e)"
proof (rule dma_loop.raw_induct [OF _ assms])
  fix loop :: "'a external_bus \<Rightarrow> dma_channel \<Rightarrow> 'a dma_world \<Rightarrow> (dma_channel \<times> 'a dma_world) result option"
    and bus c w r
  assume IH: "\<And>bus c w r. loop bus c w = Some r \<Longrightarrow> dma_stuck c \<longrightarrow> (\<exists>e. r = Inl e)"
    and body: "(if dm_running c = 0 then Some (Inr (c, w))
      else case dma_tick bus c w of Inl e \<Rightarrow> Some (Inl e) | Inr (c', w') \<Rightarrow> loop bus c' w') = Some r"
  show "dma_stuck c \<longrightarrow> (\<exists>e. r = Inl e)"
  proof
    assume s: "dma_stuck c"
    then have "dm_running c \<noteq> 0"
      by (simp add: dma_stuck_def)
    with body IH dma_stuck_advance [OF s] show "\<exists>e. r = Inl e"
      by (cases "dma_transfer bus c (dm_current_src c, dm_current_dst c) w")
        (auto simp: dma_tick_def)
  qed
qed

lemma dma_transfer_advance [simp]: "dma_transfer bus (dma_advance c) = dma_transfer bus c"
  by (intro ext) (simp add: dma_transfer_def dma_advance_def dma_move_def Let_def)

lemma dma_loop_stuck_idle:
  assumes "\<And>p w. \<exists>w'. dma_transfer bus c p w = Inr w'" and "dma_stuck c"
  shows "dma_loop bus c w = None"
proof (rule ccontr)
  assume "dma_loop bus c w \<noteq> None"
  then obtain r where "dma_loop bus c w = Some r" by blast
  then have "dma_stuck c \<and> (\<forall>p w. \<exists>w'. dma_transfer bus c p w = Inr w') \<longrightarrow> False"
  proof (rule dma_loop.raw_induct [rotated])
    fix loop :: "'a external_bus \<Rightarrow> dma_channel \<Rightarrow> 'a dma_world \<Rightarrow> (dma_channel \<times> 'a dma_world) result option"
      and bus c w r
    assume IH: "\<And>bus c w r. loop bus c w = Some r \<Longrightarrow>
        dma_stuck c \<and> (\<forall>p w. \<exists>w'. dma_transfer bus c p w = Inr w') \<longrightarrow> False"
      and body: "(if dm_running c = 0 then Some (Inr (c, w))
        else case dma_tick bus c w of Inl e \<Rightarrow> Some (Inl e) | Inr (c', w') \<Rightarrow> loop bus c' w') = Some r"
    show "dma_stuck c \<and> (\<forall>p w. \<exists>w'. dma_transfer bus c p w = Inr w') \<longrightarrow> False"
    proof clarify
      assume s: "dma_stuck c" and t: "\<forall>p w. \<exists>w'. dma_transfer bus c p w = Inr w'"
      obtain w' where "dma_transfer bus c (dm_current_src c, dm_current_dst c) w = Inr w'"
        using t by blast
      moreover have "dm_running c \<noteq> 0"
        using s by (simp add: dma_stuck_def)
      ultimately have "loop bus (dma_advance c) w' = Some r"
        using body by (simp add: dma_tick_def)
      from IH [OF this] t dma_stuck_advance [OF s] show False
        unfolding dma_transfer_advance by blast
    qed
  qed
  with assms show False by blast
qed

lemma dma_stuck_armed:
  "unat channel < length (dma_channels d) \<Longrightarrow> \<not> dma_counts (dma_channels d ! unat channel) \<Longrightarrow>
   dma_stuck (dma_armed channel d w)"
  by (simp add: dma_stuck_def dma_counts_def dma_armed_def dma_start_def)

section \<open>Properties\<close>

text \<open>
  C6: A DMA transfer is three nested loops: DoDma returns, after moving exactly the words at the
  addresses of the reference loops in their order (a size of zero counts as one, double words count
  by two), and raises its interrupt once, unless one of the transfers fails. The one
  excluded configuration is double words with an inner size of \<open>0xFFFF\<close>.
\<close>

theorem dma_is_three_nested_loops:
  assumes "unat channel < length (dma_channels d)"
    and "\<not> (dm_dword_mode (dma_channels d ! unat channel) \<noteq> 0 \<and>
            dm_size0 (dma_channels d ! unat channel) = 0xFFFF)"
  shows "let c = dma_armed channel d w; ps = dma_cube c (dma_origin c) in
    dma_do bus channel d w = rbind (dma_transfers bus c ps w) (\<lambda>w'.
      Inr (dma_put channel (dma_finished c (Suc (dma_trips2 c)) (last ps)) d, w', [DmaInterrupt]))"
  unfolding Let_def by (rule dma_do_cube) (use assms in \<open>auto simp: dma_counts_def\<close>)

definition dma_example :: "u16 \<Rightarrow> u16 \<Rightarrow> dma" where
  "dma_example dword size0 = dma_reset\<lparr>dma_channels := replicate 8 (dma_channel_initial\<lparr>
     dm_dword_mode := dword, dm_size0 := size0, dm_size1 := 2, dm_src_step0 := 2, dm_dst_step0 := 2,
     dm_src_step1 := 4, dm_dst_step1 := 6, dm_addr_dst_low := 0x100, dm_src_space := 1,
     dm_dst_space := 1\<rparr>)\<rparr>"

definition dma_example_world :: "(u32 \<Rightarrow> u8) dma_world" where
  "dma_example_world = ((\<lambda>_. 0), ahbm_example 0)"

lemma dma_is_three_nested_loops_witness:
  "let c = dma_armed 1 (dma_example 1 4) dma_example_world; ps = dma_cube c (dma_origin c) in
    dma_do byte_bus 1 (dma_example 1 4) dma_example_world =
      rbind (dma_transfers byte_bus c ps dma_example_world) (\<lambda>w'.
        Inr (dma_put 1 (dma_finished c (Suc (dma_trips2 c)) (last ps)) (dma_example 1 4), w', [DmaInterrupt]))"
  by (rule dma_is_three_nested_loops) (simp_all add: dma_example_def)

text \<open>
  C36: The excluded configuration: with double words and an inner size of \<open>0xFFFF\<close>, DoDma never
  completes, whatever the memories hold; when no transfer fails it loops forever.
\<close>

theorem dma_double_word_never_completes:
  assumes "unat channel < length (dma_channels d)"
    and "dm_dword_mode (dma_channels d ! unat channel) \<noteq> 0"
    and "dm_size0 (dma_channels d ! unat channel) = 0xFFFF"
  shows "(\<exists>e. dma_do bus channel d w = Inl e) \<and>
    ((\<forall>p w'. \<exists>w''. dma_transfer bus (dma_armed channel d w) p w' = Inr w'') \<longrightarrow>
     dma_do bus channel d w = Inl Diverges)"
proof -
  have s: "dma_stuck (dma_armed channel d w)"
    using assms by (intro dma_stuck_armed) (simp_all add: dma_counts_def)
  have "\<exists>e. dma_do bus channel d w = Inl e"
  proof (cases "dma_loop bus (dma_armed channel d w) w")
    case (Some r)
    with dma_loop_stuck [OF Some] s show ?thesis
      by (auto simp: dma_do_armed [OF assms(1)])
  qed (simp add: dma_do_armed [OF assms(1)])
  moreover have "dma_do bus channel d w = Inl Diverges"
    if "\<forall>p w'. \<exists>w''. dma_transfer bus (dma_armed channel d w) p w' = Inr w''"
  proof -
    have "dma_loop bus (dma_armed channel d w) w = None"
      by (rule dma_loop_stuck_idle [OF _ s]) (use that in blast)
    then show ?thesis
      by (simp add: dma_do_armed [OF assms(1)])
  qed
  ultimately show ?thesis by blast
qed

lemma dma_double_word_never_completes_witness:
  "dma_do byte_bus 1 (dma_example 1 0xFFFF) dma_example_world = Inl Diverges"
proof -
  have "(\<exists>e. dma_do byte_bus 1 (dma_example 1 0xFFFF) dma_example_world = Inl e) \<and>
    ((\<forall>p w'. \<exists>w''. dma_transfer byte_bus (dma_armed 1 (dma_example 1 0xFFFF) dma_example_world) p w' = Inr w'')
      \<longrightarrow> dma_do byte_bus 1 (dma_example 1 0xFFFF) dma_example_world = Inl Diverges)"
    by (rule dma_double_word_never_completes) (simp_all add: dma_example_def)
  moreover have "\<exists>w''. dma_transfer byte_bus (dma_armed 1 (dma_example 1 0xFFFF) dma_example_world) p w' = Inr w''"
    for p w'
    by (cases w') (simp add: dma_transfer_def dma_armed_def dma_start_def dma_example_def
        dma_channel_initial_def dma_read32_def dma_write32_def)
  ultimately show ?thesis by blast
qed

section \<open>What a transfer keeps\<close>

lemma ahbm_update_ok: "ahbm_update i f a = Inr a' \<Longrightarrow> ahbm_ok a' = ahbm_ok a"
  by (auto simp: ahbm_update_def rbind_Inr_iff)

lemma ahbm_read32_ok: "ahbm_read32 bus ch p a = Inr (v, a') \<Longrightarrow> ahbm_ok a' = ahbm_ok a"
  by (auto simp: ahbm_read32_def Let_def rbind_Inr_iff split_def)

lemma ahbm_read16_ok: "ahbm_read16 bus ch p a = Inr (v, a') \<Longrightarrow> ahbm_ok a' = ahbm_ok a"
  by (auto simp: ahbm_read16_def rbind_Inr_iff dest: ahbm_read32_ok)

lemma ahbm_write_internal_ok: "ahbm_write_internal bus ch p w a = Inr a' \<Longrightarrow> ahbm_ok a' = ahbm_ok a"
  by (auto simp: ahbm_write_internal_def Let_def rbind_Inr_iff split: if_split_asm)

lemmas ahbm_ops_ok = ahbm_update_ok ahbm_read32_ok ahbm_read16_ok ahbm_write_internal_ok

lemma dma_transfer_ok:
  assumes "dma_transfer bus c p w = Inr w'"
  shows "ahbm_ok (snd w') = ahbm_ok (snd w)"
  using assms
  by (cases w; cases w')
    (auto simp: dma_transfer_def dma_read32_def dma_write32_def dma_read16_def dma_write16_def
      ahbm_write16_def ahbm_write32_def rbind_Inr_iff ahbm_ops_ok split: if_splits)

lemma dma_loop_ok:
  assumes "dma_loop bus c w = Some (Inr (c', w'))"
  shows "ahbm_ok (snd w') = ahbm_ok (snd w)"
proof -
  have "\<forall>c' w'. Inr (c', w') = r \<longrightarrow> ahbm_ok (snd w') = ahbm_ok (snd w)" if "dma_loop bus c w = Some r" for r
  proof (rule dma_loop.raw_induct [OF _ that])
    fix loop :: "'a external_bus \<Rightarrow> dma_channel \<Rightarrow> 'a dma_world \<Rightarrow> (dma_channel \<times> 'a dma_world) result option"
      and bus c w r
    assume IH: "\<And>bus c w r. loop bus c w = Some r \<Longrightarrow>
        \<forall>c' w'. Inr (c', w') = r \<longrightarrow> ahbm_ok (snd w') = ahbm_ok (snd w)"
      and body: "(if dm_running c = 0 then Some (Inr (c, w))
        else case dma_tick bus c w of Inl e \<Rightarrow> Some (Inl e) | Inr (c', w') \<Rightarrow> loop bus c' w') = Some r"
    show "\<forall>c' w'. Inr (c', w') = r \<longrightarrow> ahbm_ok (snd w') = ahbm_ok (snd w)"
    proof (cases "dm_running c = 0")
      case True
      with body show ?thesis by auto
    next
      case False
      show ?thesis
      proof (cases "dma_transfer bus c (dm_current_src c, dm_current_dst c) w")
        case (Inl e)
        with body False show ?thesis by (auto simp: dma_tick_def)
      next
        case (Inr w1)
        with body False have "loop bus (dma_advance c) w1 = Some r"
          by (simp add: dma_tick_def)
        from IH [OF this] dma_transfer_ok [OF Inr] show ?thesis by simp
      qed
    qed
  qed
  from this [OF assms] show ?thesis by (cases w') simp
qed

lemma dma_put_length [simp]: "length (dma_channels (dma_put i c d)) = length (dma_channels d)"
  by (simp add: dma_put_def)

lemma dma_put_active [simp]: "dma_active_channel (dma_put i c d) = dma_active_channel d"
  by (simp add: dma_put_def)

lemma dma_set_active_ok:
  "dma_set_active f d = Inr d' \<Longrightarrow> length (dma_channels d') = length (dma_channels d)"
  by (auto simp: dma_set_active_def rbind_Inr_iff)

lemma dma_set_z_ok:
  assumes "dma_set_z bus v d w = Inr (d', w', es)"
  shows "length (dma_channels d') = length (dma_channels d) \<and> ahbm_ok (snd w') = ahbm_ok (snd w)"
proof -
  have do_ok: "length (dma_channels e') = length (dma_channels e) \<and> ahbm_ok (snd w') = ahbm_ok (snd w)"
    if "dma_do bus ch e w = Inr (e', w', es')" for ch e e' es'
  proof -
    from that obtain c1 c2 where 1: "returned (dma_loop bus c1 w) = Inr (c2, w')" "e' = dma_put ch c2 e"
      by (auto simp: dma_do_def Let_def rbind_Inr_iff split: prod.splits)
    then have "dma_loop bus c1 w = Some (Inr (c2, w'))"
      by (cases "dma_loop bus c1 w") auto
    with 1(2) dma_loop_ok show ?thesis by simp
  qed
  from assms obtain d1 where 1: "dma_set_active (\<lambda>c. c\<lparr>dm_z := v\<rparr>) d = Inr d1"
    and 2: "(if v = 0x40C0 then dma_do bus (dma_active_channel d1) d1 w else Inr (d1, w, [])) = Inr (d', w', es)"
    by (auto simp: dma_set_z_def rbind_Inr_iff)
  from 2 do_ok [of "dma_active_channel d1" d1 d' es] dma_set_active_ok [OF 1] show ?thesis
    by (cases "v = 0x40C0") auto
qed

end
