(* ===== verification/Mmio_Region.thy ===== *)
theory Mmio_Region
  imports Timers Audio_Ports Interrupt_Controller Mailbox Dma_Engine
begin

unbundle bit_operations_syntax

text \<open>
  src/src/mmio.cpp and the wiring of src/src/teakra.cpp: the 0x800 cells of the MMIO region, each
  with a set and a get function over the peripherals, and the interrupt handlers that connect the
  peripherals with the interrupt controller.

  A cell is the record of its two functions, a bit-field cell a list of slots over a stored word, as
  in the code. A default cell is its storage. The debug printing has no model.
\<close>

section \<open>The peripherals\<close>

record 'x system =
  sys_memory :: shared_memory
  sys_miu :: miu
  sys_icu :: icu
  sys_apbp_from_cpu :: apbp
  sys_apbp_from_dsp :: apbp
  sys_timer :: "timer list"
  sys_ahbm :: "'x ahbm"
  sys_dma :: dma
  sys_btdmp :: "btdmp list"
  sys_storage :: "nat \<Rightarrow> u16"

text \<open>
  What leaves the peripherals: a signal to the processor, a call of the host's handlers for the
  mailbox towards it, and the samples of an audio port.
\<close>

datatype signal =
    ToProcessor icu_event
  | ToHostData nat
  | ToHostSemaphore bool
  | ToHostAudio nat "u16 \<times> u16"

type_synonym 'x action = "'x system \<Rightarrow> ('x system \<times> signal list) result"

definition silent :: "('x system \<Rightarrow> 'x system) \<Rightarrow> 'x action" where
  "silent f s = Inr (f s, [])"

definition nothing :: "'x action" where
  "nothing = silent id"

text \<open>The handlers of lines 36-50 of src/src/teakra.cpp: raise one request of the controller.\<close>

definition raise_irq :: "nat \<Rightarrow> 'x system \<Rightarrow> 'x system \<times> signal list" where
  "raise_irq irq s =
     (let (c, es) = icu_trigger_single irq (sys_icu s)
      in (s\<lparr>sys_icu := c\<rparr>, map ToProcessor es))"

fun raise_irqs :: "nat list \<Rightarrow> 'x system \<Rightarrow> 'x system \<times> signal list" where
  "raise_irqs [] s = (s, [])"
| "raise_irqs (irq # irqs) s =
     (let (s1, o1) = raise_irq irq s; (s2, o2) = raise_irqs irqs s1 in (s2, o1 @ o2))"

definition timer_irq :: "nat \<Rightarrow> timer_event \<Rightarrow> nat" where
  "timer_irq i e = (if i = 0 then 0xA else 0x9)"

definition apbp_from_cpu_irq :: "apbp_event \<Rightarrow> nat" where
  "apbp_from_cpu_irq e = 0xE"

definition dma_irq :: "dma_event \<Rightarrow> nat" where
  "dma_irq e = 0xF"

definition btdmp_irq :: "nat \<Rightarrow> nat" where
  "btdmp_irq i = 0xB"

fun apbp_from_dsp_signal :: "apbp_event \<Rightarrow> signal" where
  "apbp_from_dsp_signal (DataHandler i) = ToHostData i"
| "apbp_from_dsp_signal (SemaphoreHandler b) = ToHostSemaphore b"

section \<open>Cells\<close>

record 'x cell =
  cell_set :: "u16 \<Rightarrow> 'x action"
  cell_get :: "'x system \<Rightarrow> (u16 \<times> 'x system) result"

record 'x slot =
  sl_pos :: nat
  sl_length :: nat
  sl_set :: "(u16 \<Rightarrow> 'x action) option"
  sl_get :: "('x system \<Rightarrow> u16 result) option"

definition pure_get :: "('x system \<Rightarrow> u16) \<Rightarrow> 'x system \<Rightarrow> (u16 \<times> 'x system) result" where
  "pure_get f s = Inr (f s, s)"

definition checked_get :: "('x system \<Rightarrow> u16 result) \<Rightarrow> 'x system \<Rightarrow> (u16 \<times> 'x system) result" where
  "checked_get f s = rbind (f s) (\<lambda>v. Inr (v, s))"

definition set_storage :: "nat \<Rightarrow> u16 \<Rightarrow> 'x system \<Rightarrow> 'x system" where
  "set_storage index v s = s\<lparr>sys_storage := (sys_storage s)(index := v)\<rparr>"

definition default_cell :: "nat \<Rightarrow> 'x cell" where
  "default_cell index =
     \<lparr>cell_set = (\<lambda>v. silent (set_storage index v)), cell_get = pure_get (\<lambda>s. sys_storage s index)\<rparr>"

definition const_cell :: "u16 \<Rightarrow> 'x cell" where
  "const_cell constant = \<lparr>cell_set = (\<lambda>v. nothing), cell_get = pure_get (\<lambda>s. constant)\<rparr>"

text \<open>A reference cell: the two functions are the access to the referenced variable.\<close>

definition ref_cell :: "(u16 \<Rightarrow> 'x system \<Rightarrow> 'x system) \<Rightarrow> ('x system \<Rightarrow> u16) \<Rightarrow> 'x cell" where
  "ref_cell f_set f_get = \<lparr>cell_set = (\<lambda>v. silent (f_set v)), cell_get = pure_get f_get\<rparr>"

definition ref_slot :: "nat \<Rightarrow> nat \<Rightarrow> (u16 \<Rightarrow> 'x system \<Rightarrow> 'x system) \<Rightarrow> ('x system \<Rightarrow> u16) \<Rightarrow> 'x slot" where
  "ref_slot pos len f_set f_get =
     \<lparr>sl_pos = pos, sl_length = len, sl_set = Some (\<lambda>v. silent (f_set v)), sl_get = Some (\<lambda>s. Inr (f_get s))\<rparr>"

definition plain_slot :: "nat \<Rightarrow> nat \<Rightarrow> 'x slot" where
  "plain_slot pos len = \<lparr>sl_pos = pos, sl_length = len, sl_set = None, sl_get = None\<rparr>"

definition get_slot :: "nat \<Rightarrow> nat \<Rightarrow> ('x system \<Rightarrow> u16 result) \<Rightarrow> 'x slot" where
  "get_slot pos len f_get = \<lparr>sl_pos = pos, sl_length = len, sl_set = None, sl_get = Some f_get\<rparr>"

definition full_slot :: "nat \<Rightarrow> nat \<Rightarrow> (u16 \<Rightarrow> 'x action) \<Rightarrow> ('x system \<Rightarrow> u16 result) \<Rightarrow> 'x slot" where
  "full_slot pos len f_set f_get =
     \<lparr>sl_pos = pos, sl_length = len, sl_set = Some f_set, sl_get = Some f_get\<rparr>"

fun slots_set :: "'x slot list \<Rightarrow> u16 \<Rightarrow> 'x action" where
  "slots_set [] value s = Inr (s, [])"
| "slots_set (slot # slots) value s =
     (case sl_set slot of
        None \<Rightarrow> slots_set slots value s
      | Some f \<Rightarrow>
          rbind (f (drop_bit (sl_pos slot) value AND mask (sl_length slot)) s) (\<lambda>(s1, o1).
          rbind (slots_set slots value s1) (\<lambda>(s2, o2). Inr (s2, o1 @ o2))))"

fun slots_get :: "'x slot list \<Rightarrow> u16 \<Rightarrow> 'x system \<Rightarrow> u16 result" where
  "slots_get [] value s = Inr value"
| "slots_get (slot # slots) value s =
     (case sl_get slot of
        None \<Rightarrow> slots_get slots value s
      | Some f \<Rightarrow>
          rbind (f s) (\<lambda>v.
            slots_get slots
              ((value AND NOT (push_bit (sl_pos slot) (mask (sl_length slot)))) OR push_bit (sl_pos slot) v) s))"

definition bitfield_cell :: "nat \<Rightarrow> 'x slot list \<Rightarrow> 'x cell" where
  "bitfield_cell index slots =
     \<lparr>cell_set = (\<lambda>v s. rbind (slots_set slots v s) (\<lambda>(s', out). Inr (set_storage index v s', out))),
      cell_get = (\<lambda>s. rbind (slots_get slots (sys_storage s index) s) (\<lambda>v. Inr (v, s)))\<rparr>"

section \<open>Access to the peripherals\<close>

definition upd_timer :: "nat \<Rightarrow> (timer \<Rightarrow> timer) \<Rightarrow> 'x system \<Rightarrow> 'x system" where
  "upd_timer i f s = s\<lparr>sys_timer := (sys_timer s)[i := f (sys_timer s ! i)]\<rparr>"

definition upd_btdmp :: "nat \<Rightarrow> (btdmp \<Rightarrow> btdmp) \<Rightarrow> 'x system \<Rightarrow> 'x system" where
  "upd_btdmp i f s = s\<lparr>sys_btdmp := (sys_btdmp s)[i := f (sys_btdmp s ! i)]\<rparr>"

definition upd_miu :: "(miu \<Rightarrow> miu) \<Rightarrow> 'x system \<Rightarrow> 'x system" where
  "upd_miu f s = s\<lparr>sys_miu := f (sys_miu s)\<rparr>"

definition upd_icu :: "(icu \<Rightarrow> icu) \<Rightarrow> 'x system \<Rightarrow> 'x system" where
  "upd_icu f s = s\<lparr>sys_icu := f (sys_icu s)\<rparr>"

definition upd_dma :: "(dma \<Rightarrow> dma) \<Rightarrow> 'x system \<Rightarrow> 'x system" where
  "upd_dma f s = s\<lparr>sys_dma := f (sys_dma s)\<rparr>"

definition act_ahbm :: "('x ahbm \<Rightarrow> 'x ahbm result) \<Rightarrow> 'x action" where
  "act_ahbm f s = rbind (f (sys_ahbm s)) (\<lambda>a. Inr (s\<lparr>sys_ahbm := a\<rparr>, []))"

definition act_dma :: "(dma \<Rightarrow> dma result) \<Rightarrow> 'x action" where
  "act_dma f s = rbind (f (sys_dma s)) (\<lambda>d. Inr (s\<lparr>sys_dma := d\<rparr>, []))"

definition act_from_cpu :: "(apbp \<Rightarrow> apbp result) \<Rightarrow> 'x action" where
  "act_from_cpu f s = rbind (f (sys_apbp_from_cpu s)) (\<lambda>a. Inr (s\<lparr>sys_apbp_from_cpu := a\<rparr>, []))"

section \<open>The cells of the components\<close>

definition timer_restart_slot :: "nat \<Rightarrow> u16 \<Rightarrow> 'x action" where
  "timer_restart_slot i v s =
     (if v \<noteq> 0
      then rbind (timer_restart (sys_timer s ! i)) (\<lambda>t. Inr (upd_timer i (\<lambda>_. t) s, []))
      else Inr (s, []))"

definition timer_event_write :: "nat \<Rightarrow> u16 \<Rightarrow> 'x action" where
  "timer_event_write i v s =
     (if v \<noteq> 0
      then let (t, es) = timer_tick_event (sys_timer s ! i)
           in Inr (raise_irqs (map (timer_irq i) es) (upd_timer i (\<lambda>_. t) s))
      else Inr (s, []))"

definition timer_cells :: "nat \<Rightarrow> (nat \<times> 'x cell) list" where
  "timer_cells i = [
     (0x20 + i * 0x10, bitfield_cell (0x20 + i * 0x10) [
        ref_slot 0 2 (\<lambda>v. upd_timer i (\<lambda>t. t\<lparr>tm_scale := v\<rparr>)) (\<lambda>s. tm_scale (sys_timer s ! i)),
        ref_slot 2 3 (\<lambda>v. upd_timer i (\<lambda>t. t\<lparr>tm_count_mode := v\<rparr>)) (\<lambda>s. tm_count_mode (sys_timer s ! i)),
        plain_slot 6 1,
        plain_slot 7 1,
        ref_slot 8 1 (\<lambda>v. upd_timer i (\<lambda>t. t\<lparr>tm_pause := v\<rparr>)) (\<lambda>s. tm_pause (sys_timer s ! i)),
        ref_slot 9 1 (\<lambda>v. upd_timer i (\<lambda>t. t\<lparr>tm_update_mmio := v\<rparr>)) (\<lambda>s. tm_update_mmio (sys_timer s ! i)),
        full_slot 10 1 (timer_restart_slot i) (\<lambda>s. Inr 0),
        plain_slot 11 1,
        plain_slot 12 1,
        plain_slot 13 1,
        plain_slot 14 2]),
     (0x22 + i * 0x10, \<lparr>cell_set = timer_event_write i, cell_get = pure_get (\<lambda>s. 0)\<rparr>),
     (0x24 + i * 0x10, ref_cell (\<lambda>v. upd_timer i (\<lambda>t. t\<lparr>tm_start_low := v\<rparr>)) (\<lambda>s. tm_start_low (sys_timer s ! i))),
     (0x26 + i * 0x10, ref_cell (\<lambda>v. upd_timer i (\<lambda>t. t\<lparr>tm_start_high := v\<rparr>)) (\<lambda>s. tm_start_high (sys_timer s ! i))),
     (0x28 + i * 0x10, ref_cell (\<lambda>v. upd_timer i (\<lambda>t. t\<lparr>tm_counter_low := v\<rparr>)) (\<lambda>s. tm_counter_low (sys_timer s ! i))),
     (0x2A + i * 0x10, ref_cell (\<lambda>v. upd_timer i (\<lambda>t. t\<lparr>tm_counter_high := v\<rparr>)) (\<lambda>s. tm_counter_high (sys_timer s ! i)))]"

definition dsp_send_data :: "nat \<Rightarrow> u16 \<Rightarrow> 'x action" where
  "dsp_send_data i v s =
     rbind (apbp_send_data i v (sys_apbp_from_dsp s)) (\<lambda>(a, es).
       Inr (s\<lparr>sys_apbp_from_dsp := a\<rparr>, map apbp_from_dsp_signal es))"

definition dsp_recv_data :: "nat \<Rightarrow> 'x system \<Rightarrow> (u16 \<times> 'x system) result" where
  "dsp_recv_data i s =
     rbind (apbp_recv_data i (sys_apbp_from_cpu s)) (\<lambda>(v, a). Inr (v, s\<lparr>sys_apbp_from_cpu := a\<rparr>))"

definition dsp_set_semaphore :: "u16 \<Rightarrow> 'x action" where
  "dsp_set_semaphore v s =
     (let (a, es) = apbp_set_semaphore v (sys_apbp_from_dsp s)
      in Inr (s\<lparr>sys_apbp_from_dsp := a\<rparr>, map apbp_from_dsp_signal es))"

definition bool_word :: "bool result \<Rightarrow> u16 result" where
  "bool_word r = rbind r (\<lambda>b. Inr (if b then 1 else 0))"

definition disable_slot :: "nat \<Rightarrow> nat \<Rightarrow> 'x slot" where
  "disable_slot pos i = full_slot pos 1
     (\<lambda>v. act_from_cpu (apbp_set_disable_interrupt i v))
     (\<lambda>s. apbp_get_disable_interrupt i (sys_apbp_from_cpu s))"

definition dsp_ready_slot :: "nat \<Rightarrow> nat \<Rightarrow> 'x slot" where
  "dsp_ready_slot pos i = get_slot pos 1 (\<lambda>s. bool_word (apbp_is_data_ready i (sys_apbp_from_dsp s)))"

definition cpu_ready_slot :: "nat \<Rightarrow> nat \<Rightarrow> 'x slot" where
  "cpu_ready_slot pos i = get_slot pos 1 (\<lambda>s. bool_word (apbp_is_data_ready i (sys_apbp_from_cpu s)))"

definition cpu_signal_slot :: "nat \<Rightarrow> 'x slot" where
  "cpu_signal_slot pos = get_slot pos 1
     (\<lambda>s. bool_word (Inr (ap_semaphore_master_signal (sys_apbp_from_cpu s))))"

definition apbp_data_cells :: "nat \<Rightarrow> (nat \<times> 'x cell) list" where
  "apbp_data_cells i = [
     (0x0C0 + i * 4, \<lparr>cell_set = dsp_send_data i,
                      cell_get = checked_get (\<lambda>s. apbp_peek_data i (sys_apbp_from_dsp s))\<rparr>),
     (0x0C2 + i * 4, \<lparr>cell_set = (\<lambda>v. nothing), cell_get = dsp_recv_data i\<rparr>)]"

definition apbp_cells :: "(nat \<times> 'x cell) list" where
  "apbp_cells = [
     (0x0CC, \<lparr>cell_set = dsp_set_semaphore,
              cell_get = pure_get (\<lambda>s. ap_semaphore (sys_apbp_from_dsp s))\<rparr>),
     (0x0CE, \<lparr>cell_set = (\<lambda>v. act_from_cpu (\<lambda>a. Inr (apbp_mask_semaphore v a))),
              cell_get = pure_get (\<lambda>s. ap_semaphore_mask (sys_apbp_from_cpu s))\<rparr>),
     (0x0D0, \<lparr>cell_set = (\<lambda>v. act_from_cpu (\<lambda>a. Inr (apbp_clear_semaphore v a))),
              cell_get = pure_get (\<lambda>s. 0)\<rparr>),
     (0x0D2, \<lparr>cell_set = (\<lambda>v. nothing),
              cell_get = pure_get (\<lambda>s. ap_semaphore (sys_apbp_from_cpu s))\<rparr>),
     (0x0D4, bitfield_cell 0x0D4
        [plain_slot 2 1, disable_slot 8 0, disable_slot 12 1, disable_slot 13 2]),
     (0x0D6, bitfield_cell 0x0D6
        [dsp_ready_slot 5 0, dsp_ready_slot 6 1, dsp_ready_slot 7 2, cpu_ready_slot 8 0,
         cpu_signal_slot 9, cpu_ready_slot 12 1, cpu_ready_slot 13 2]),
     (0x0D8, bitfield_cell 0x0D8
        [cpu_signal_slot 9, dsp_ready_slot 10 0, dsp_ready_slot 11 1, dsp_ready_slot 12 2,
         cpu_ready_slot 13 0, cpu_ready_slot 14 1, cpu_ready_slot 15 2])]"

definition ahbm_cells :: "u16 \<Rightarrow> (nat \<times> 'x cell) list" where
  "ahbm_cells i = [
     (0x0E2 + unat i * 6, bitfield_cell (0x0E2 + unat i * 6)
        [full_slot 1 2 (\<lambda>v. act_ahbm (ahbm_set_burst_size i v)) (\<lambda>s. ahbm_get_burst_size i (sys_ahbm s)),
         full_slot 4 2 (\<lambda>v. act_ahbm (ahbm_set_unit_size i v)) (\<lambda>s. ahbm_get_unit_size i (sys_ahbm s))]),
     (0x0E4 + unat i * 6, bitfield_cell (0x0E4 + unat i * 6)
        [full_slot 8 1 (\<lambda>v. act_ahbm (ahbm_set_direction i v)) (\<lambda>s. ahbm_get_direction i (sys_ahbm s))]),
     (0x0E6 + unat i * 6, \<lparr>cell_set = (\<lambda>v. act_ahbm (ahbm_set_dma_channel i v)),
                           cell_get = checked_get (\<lambda>s. ahbm_get_dma_channel i (sys_ahbm s))\<rparr>)]"

definition ahbm_busy_cell :: "(nat \<times> 'x cell) list" where
  "ahbm_busy_cell =
     [(0x0E0, \<lparr>cell_set = (\<lambda>v. nothing), cell_get = pure_get (\<lambda>s. ah_busy_flag (sys_ahbm s))\<rparr>)]"

definition miu_size_cell :: "nat \<Rightarrow> nat \<Rightarrow> nat \<times> 'x cell" where
  "miu_size_cell addr i = (addr, bitfield_cell addr [
     ref_slot 0 6 (\<lambda>v. upd_miu (\<lambda>u. u\<lparr>miu_x_size := (miu_x_size u)[i := v]\<rparr>)) (\<lambda>s. miu_x_size (sys_miu s) ! i),
     ref_slot 8 6 (\<lambda>v. upd_miu (\<lambda>u. u\<lparr>miu_y_size := (miu_y_size u)[i := v]\<rparr>)) (\<lambda>s. miu_y_size (sys_miu s) ! i)])"

definition miu_cells :: "(nat \<times> 'x cell) list" where
  "miu_cells = [
     (0x10E, ref_cell (\<lambda>v. upd_miu (\<lambda>u. u\<lparr>miu_x_page := v\<rparr>)) (\<lambda>s. miu_x_page (sys_miu s))),
     (0x110, ref_cell (\<lambda>v. upd_miu (\<lambda>u. u\<lparr>miu_y_page := v\<rparr>)) (\<lambda>s. miu_y_page (sys_miu s))),
     (0x112, ref_cell (\<lambda>v. upd_miu (\<lambda>u. u\<lparr>miu_z_page := v\<rparr>)) (\<lambda>s. miu_z_page (sys_miu s))),
     miu_size_cell 0x114 0,
     miu_size_cell 0x116 1,
     (0x11A, bitfield_cell 0x11A [
        plain_slot 0 1,
        plain_slot 1 1,
        plain_slot 2 1,
        plain_slot 4 1,
        ref_slot 6 1 (\<lambda>v. upd_miu (\<lambda>u. u\<lparr>miu_page_mode := v\<rparr>)) (\<lambda>s. miu_page_mode (sys_miu s))]),
     (0x11E, ref_cell (\<lambda>v. upd_miu (\<lambda>u. u\<lparr>miu_mmio_base := v\<rparr>)) (\<lambda>s. miu_mmio_base (sys_miu s)))]"

definition dma_register_cell :: "nat \<Rightarrow> dma_register \<Rightarrow> nat \<times> 'x cell" where
  "dma_register_cell addr r = (addr,
     \<lparr>cell_set = (\<lambda>v. act_dma (dma_set_register r v)),
      cell_get = checked_get (\<lambda>s. dma_get_register r (sys_dma s))\<rparr>)"

definition dma_register_slot :: "nat \<Rightarrow> nat \<Rightarrow> dma_register \<Rightarrow> 'x slot" where
  "dma_register_slot pos len r =
     full_slot pos len (\<lambda>v. act_dma (dma_set_register r v)) (\<lambda>s. dma_get_register r (sys_dma s))"

definition dma_z_write :: "'x external_bus \<Rightarrow> u16 \<Rightarrow> 'x action" where
  "dma_z_write bus v s =
     rbind (dma_set_z bus v (sys_dma s) (sys_memory s, sys_ahbm s)) (\<lambda>(d, (m, a), es).
       Inr (raise_irqs (map dma_irq es) (s\<lparr>sys_dma := d, sys_memory := m, sys_ahbm := a\<rparr>)))"

definition dma_cells :: "'x external_bus \<Rightarrow> (nat \<times> 'x cell) list" where
  "dma_cells bus = [
     (0x184, ref_cell (\<lambda>v. upd_dma (dma_enable_channel_write v)) (\<lambda>s. dma_enable_channel (sys_dma s))),
     (0x18C, (default_cell 0x18C)\<lparr>cell_get := pure_get (\<lambda>s. 0xFFFF)\<rparr>),
     (0x1BE, ref_cell (\<lambda>v. upd_dma (dma_activate_channel v)) (\<lambda>s. dma_active_channel (sys_dma s))),
     dma_register_cell 0x1C0 AddrSrcLow,
     dma_register_cell 0x1C2 AddrSrcHigh,
     dma_register_cell 0x1C4 AddrDstLow,
     dma_register_cell 0x1C6 AddrDstHigh,
     dma_register_cell 0x1C8 Size0,
     dma_register_cell 0x1CA Size1,
     dma_register_cell 0x1CC Size2,
     dma_register_cell 0x1CE SrcStep0,
     dma_register_cell 0x1D0 DstStep0,
     dma_register_cell 0x1D2 SrcStep1,
     dma_register_cell 0x1D4 DstStep1,
     dma_register_cell 0x1D6 SrcStep2,
     dma_register_cell 0x1D8 DstStep2,
     (0x1DA, bitfield_cell 0x1DA [
        dma_register_slot 0 4 SrcSpace,
        dma_register_slot 4 4 DstSpace,
        dma_register_slot 10 1 DwordMode]),
     dma_register_cell 0x1DC YReg,
     (0x1DE, \<lparr>cell_set = dma_z_write bus, cell_get = checked_get (\<lambda>s. dma_get_z (sys_dma s))\<rparr>)]"

definition icu_trigger_write :: "u16 \<Rightarrow> 'x action" where
  "icu_trigger_write v s =
     (let (c, es) = icu_trigger v (sys_icu s) in Inr (s\<lparr>sys_icu := c\<rparr>, map ToProcessor es))"

definition icu_enable_cell :: "nat \<Rightarrow> nat \<Rightarrow> nat \<times> 'x cell" where
  "icu_enable_cell addr i =
     (addr, ref_cell (\<lambda>v. upd_icu (icu_set_enable i v)) (\<lambda>s. icu_get_enable i (sys_icu s)))"

definition icu_cells :: "(nat \<times> 'x cell) list" where
  "icu_cells = [
     (0x200, \<lparr>cell_set = (\<lambda>v. nothing), cell_get = pure_get (\<lambda>s. icu_request (sys_icu s))\<rparr>),
     (0x202, ref_cell (\<lambda>v. upd_icu (icu_acknowledge v)) (\<lambda>s. icu_get_acknowledge (sys_icu s))),
     (0x204, \<lparr>cell_set = icu_trigger_write, cell_get = pure_get (\<lambda>s. icu_get_trigger (sys_icu s))\<rparr>),
     icu_enable_cell 0x206 0,
     icu_enable_cell 0x208 1,
     icu_enable_cell 0x20A 2,
     (0x20C, ref_cell (\<lambda>v. upd_icu (icu_set_enable_vectored v)) (\<lambda>s. icu_vectored_enabled (sys_icu s)))]"

definition icu_vector_cells :: "nat \<Rightarrow> (nat \<times> 'x cell) list" where
  "icu_vector_cells i = [
     (0x212 + i * 4, bitfield_cell (0x212 + i * 4) [
        ref_slot 0 2 (\<lambda>v. upd_icu (\<lambda>c. c\<lparr>icu_vector_high := (icu_vector_high c)[i := v]\<rparr>))
          (\<lambda>s. icu_vector_high (sys_icu s) ! i),
        ref_slot 15 1
          (\<lambda>v. upd_icu (\<lambda>c. c\<lparr>icu_vector_context_switch := (icu_vector_context_switch c)[i := v]\<rparr>))
          (\<lambda>s. icu_vector_context_switch (sys_icu s) ! i)]),
     (0x214 + i * 4, ref_cell
        (\<lambda>v. upd_icu (\<lambda>c. c\<lparr>icu_vector_low := (icu_vector_low c)[i := v]\<rparr>))
        (\<lambda>s. icu_vector_low (sys_icu s) ! i))]"

definition btdmp_cells :: "nat \<Rightarrow> (nat \<times> 'x cell) list" where
  "btdmp_cells i = [
     (0x2A2 + i * 0x80, ref_cell (\<lambda>v. upd_btdmp i (\<lambda>b. b\<lparr>bt_transmit_clock_config := v\<rparr>))
        (\<lambda>s. bt_transmit_clock_config (sys_btdmp s ! i))),
     (0x2BE + i * 0x80, ref_cell (\<lambda>v. upd_btdmp i (\<lambda>b. b\<lparr>bt_transmit_enable := v\<rparr>))
        (\<lambda>s. bt_transmit_enable (sys_btdmp s ! i))),
     (0x2C2 + i * 0x80, bitfield_cell (0x2C2 + i * 0x80) [
        get_slot 3 1 (\<lambda>s. bool_word (Inr (bt_transmit_full (sys_btdmp s ! i)))),
        get_slot 4 1 (\<lambda>s. bool_word (Inr (bt_transmit_empty (sys_btdmp s ! i))))]),
     (0x2C6 + i * 0x80, (default_cell (0x2C6 + i * 0x80))\<lparr>
        cell_set := (\<lambda>v. silent (upd_btdmp i (btdmp_send v)))\<rparr>),
     (0x2CA + i * 0x80, ref_cell (\<lambda>v. upd_btdmp i (btdmp_set_flush v))
        (\<lambda>s. btdmp_get_flush (sys_btdmp s ! i)))]"

section \<open>The region\<close>

definition mmio_table :: "'x external_bus \<Rightarrow> (nat \<times> 'x cell) list" where
  "mmio_table bus =
     [(0x01A, const_cell 0xC902)] @
     concat (map timer_cells [0..<2]) @
     concat (map apbp_data_cells [0..<3]) @ apbp_cells @
     ahbm_busy_cell @ concat (map ahbm_cells [0, 1, 2]) @
     miu_cells @
     dma_cells bus @
     icu_cells @ concat (map icu_vector_cells [0..<16]) @
     concat (map btdmp_cells [0..<2])"

definition mmio_cell :: "'x external_bus \<Rightarrow> u16 \<Rightarrow> 'x cell result" where
  "mmio_cell bus addr =
     (if unat addr < 0x800
      then Inr (case map_of (mmio_table bus) (unat addr) of
                  Some c \<Rightarrow> c | None \<Rightarrow> default_cell (unat addr))
      else Inl OutOfBounds)"

definition mmio_read :: "'x external_bus \<Rightarrow> u16 \<Rightarrow> 'x system \<Rightarrow> (u16 \<times> 'x system) result" where
  "mmio_read bus addr s = rbind (mmio_cell bus addr) (\<lambda>c. cell_get c s)"

definition mmio_write :: "'x external_bus \<Rightarrow> u16 \<Rightarrow> u16 \<Rightarrow> 'x action" where
  "mmio_write bus addr v s = rbind (mmio_cell bus addr) (\<lambda>c. cell_set c v s)"

section \<open>The memory interface\<close>

text \<open>MemoryInterface of src/src/memory_interface.cpp, with the MMIO region attached.\<close>

definition data_read :: "'x external_bus \<Rightarrow> u16 \<Rightarrow> bool \<Rightarrow> 'x system \<Rightarrow> (u16 \<times> 'x system) result" where
  "data_read bus address bypass_mmio s =
     (if in_mmio (sys_miu s) address \<and> \<not> bypass_mmio
      then rbind (to_mmio (sys_miu s) address) (\<lambda>a. mmio_read bus a s)
      else rbind (convert_data_address (sys_miu s) address) (\<lambda>converted.
           rbind (shared_read_word converted (sys_memory s)) (\<lambda>v. Inr (v, s))))"

definition data_write :: "'x external_bus \<Rightarrow> u16 \<Rightarrow> u16 \<Rightarrow> bool \<Rightarrow> 'x action" where
  "data_write bus address v bypass_mmio s =
     (if in_mmio (sys_miu s) address \<and> \<not> bypass_mmio
      then rbind (to_mmio (sys_miu s) address) (\<lambda>a. mmio_write bus a v s)
      else rbind (convert_data_address (sys_miu s) address) (\<lambda>converted.
           rbind (shared_write_word converted v (sys_memory s)) (\<lambda>m. Inr (s\<lparr>sys_memory := m\<rparr>, []))))"

definition host_mmio_read :: "'x external_bus \<Rightarrow> u16 \<Rightarrow> 'x system \<Rightarrow> (u16 \<times> 'x system) result" where
  "host_mmio_read bus address s = mmio_read bus (address AND 0x7FF) s"

definition host_mmio_write :: "'x external_bus \<Rightarrow> u16 \<Rightarrow> u16 \<Rightarrow> 'x action" where
  "host_mmio_write bus address v s = mmio_write bus (address AND 0x7FF) v s"

section \<open>The invariant of the peripherals\<close>

definition sys_ok :: "'x system \<Rightarrow> bool" where
  "sys_ok s \<longleftrightarrow>
     icu_shape (sys_icu s) \<and> apbp_shape (sys_apbp_from_cpu s) \<and> apbp_shape (sys_apbp_from_dsp s) \<and>
     length (sys_timer s) = 2 \<and> ahbm_ok (sys_ahbm s) \<and> length (dma_channels (sys_dma s)) = 8 \<and>
     length (sys_btdmp s) = 2 \<and> (\<forall>b \<in> set (sys_btdmp s). btdmp_flags_ok b) \<and>
     length (miu_x_size (sys_miu s)) = 2 \<and> length (miu_y_size (sys_miu s)) = 2"

definition keeps :: "'x action \<Rightarrow> bool" where
  "keeps f \<longleftrightarrow> (\<forall>s s' out. sys_ok s \<longrightarrow> f s = Inr (s', out) \<longrightarrow> sys_ok s')"

definition get_keeps :: "('x system \<Rightarrow> (u16 \<times> 'x system) result) \<Rightarrow> bool" where
  "get_keeps f \<longleftrightarrow> (\<forall>s s' v. sys_ok s \<longrightarrow> f s = Inr (v, s') \<longrightarrow> sys_ok s')"

definition cell_ok :: "'x cell \<Rightarrow> bool" where
  "cell_ok c \<longleftrightarrow> (\<forall>v. keeps (cell_set c v)) \<and> get_keeps (cell_get c)"

definition slot_ok :: "'x slot \<Rightarrow> bool" where
  "slot_ok slot \<longleftrightarrow> (\<forall>f v. sl_set slot = Some f \<longrightarrow> keeps (f v))"

named_theorems keep_intros \<open>actions that keep the invariant of the peripherals\<close>

lemma keepsI: "(\<And>s s' out. sys_ok s \<Longrightarrow> f s = Inr (s', out) \<Longrightarrow> sys_ok s') \<Longrightarrow> keeps f"
  by (auto simp: keeps_def)

lemma keepsD: "keeps f \<Longrightarrow> sys_ok s \<Longrightarrow> f s = Inr (s', out) \<Longrightarrow> sys_ok s'"
  by (auto simp: keeps_def)

lemma keeps_silent [keep_intros]: "(\<And>s. sys_ok s \<Longrightarrow> sys_ok (f s)) \<Longrightarrow> keeps (silent f)"
  by (auto simp: keeps_def silent_def)

lemma keeps_nothing [keep_intros]: "keeps nothing"
  by (auto simp: keeps_def nothing_def silent_def)

lemma get_keeps_pure [keep_intros]: "get_keeps (pure_get f)"
  by (auto simp: get_keeps_def pure_get_def)

lemma get_keeps_checked [keep_intros]: "get_keeps (checked_get f)"
  by (auto simp: get_keeps_def checked_get_def rbind_Inr_iff)

lemma sys_ok_storage [simp]: "sys_ok (set_storage i v s) = sys_ok s"
  by (simp add: sys_ok_def set_storage_def)

lemma sys_ok_timer [keep_intros]: "sys_ok s \<Longrightarrow> sys_ok (upd_timer i f s)"
  by (simp add: sys_ok_def upd_timer_def)

lemma sys_ok_btdmp [keep_intros]:
  assumes "\<And>b. btdmp_flags_ok b \<Longrightarrow> btdmp_flags_ok (f b)" and "i < 2" and "sys_ok s"
  shows "sys_ok (upd_btdmp i f s)"
proof -
  from assms(3) have all: "\<forall>b \<in> set (sys_btdmp s). btdmp_flags_ok b" and "i < length (sys_btdmp s)"
    using assms(2) by (simp_all add: sys_ok_def)
  then have "btdmp_flags_ok (f (sys_btdmp s ! i))"
    by (intro assms(1)) (rule bspec [OF all nth_mem])
  from ball_list_update [OF all this] assms(3) show ?thesis
    unfolding sys_ok_def upd_btdmp_def by simp
qed

lemma sys_ok_icu [keep_intros]:
  "(\<And>c. icu_shape c \<Longrightarrow> icu_shape (f c)) \<Longrightarrow> sys_ok s \<Longrightarrow> sys_ok (upd_icu f s)"
  by (simp add: sys_ok_def upd_icu_def)

lemma sys_ok_miu [keep_intros]:
  "(\<And>u. length (miu_x_size (f u)) = length (miu_x_size u)) \<Longrightarrow>
   (\<And>u. length (miu_y_size (f u)) = length (miu_y_size u)) \<Longrightarrow> sys_ok s \<Longrightarrow> sys_ok (upd_miu f s)"
  by (simp add: sys_ok_def upd_miu_def)

lemma sys_ok_dma [keep_intros]:
  "(\<And>d. dma_channels (f d) = dma_channels d) \<Longrightarrow> sys_ok s \<Longrightarrow> sys_ok (upd_dma f s)"
  by (simp add: sys_ok_def upd_dma_def)

lemma raise_irqs_keep:
  "sys_ok s \<Longrightarrow> raise_irqs irqs s = (s', out) \<Longrightarrow> sys_ok s'"
proof (induction irqs arbitrary: s s' out)
  case (Cons irq irqs)
  obtain s1 o1 where 1: "raise_irq irq s = (s1, o1)" by fastforce
  then have "s1 = s\<lparr>sys_icu := fst (icu_trigger (push_bit irq 1) (sys_icu s))\<rparr>"
    by (auto simp: raise_irq_def icu_trigger_single_def split: prod.splits)
  with Cons.prems(1) icu_shape_ops(4) [of "sys_icu s" "push_bit irq 1"] have "sys_ok s1"
    by (simp add: sys_ok_def)
  with Cons.IH Cons.prems(2) 1 show ?case
    by (auto split: prod.splits)
qed simp

lemma keeps_act_ahbm [keep_intros]:
  "(\<And>a a'. f a = Inr a' \<Longrightarrow> ahbm_ok a' = ahbm_ok a) \<Longrightarrow> keeps (act_ahbm f)"
  by (rule keepsI) (auto simp: act_ahbm_def rbind_Inr_iff sys_ok_def)

lemma keeps_act_dma [keep_intros]:
  "(\<And>d d'. f d = Inr d' \<Longrightarrow> length (dma_channels d') = length (dma_channels d)) \<Longrightarrow> keeps (act_dma f)"
  by (rule keepsI) (auto simp: act_dma_def rbind_Inr_iff sys_ok_def)

lemma keeps_act_from_cpu [keep_intros]:
  "(\<And>a a'. f a = Inr a' \<Longrightarrow> apbp_shape a \<Longrightarrow> apbp_shape a') \<Longrightarrow> keeps (act_from_cpu f)"
  by (rule keepsI) (auto simp: act_from_cpu_def rbind_Inr_iff sys_ok_def)

lemma keeps_timer_restart [keep_intros]: "keeps (timer_restart_slot i v)"
  by (auto simp: keeps_def timer_restart_slot_def rbind_Inr_iff sys_ok_timer split: if_splits)

lemma keeps_timer_event [keep_intros]: "keeps (timer_event_write i v)"
  by (auto simp: keeps_def timer_event_write_def split: if_splits prod.splits
      intro: raise_irqs_keep [OF sys_ok_timer])

lemma keeps_send_data [keep_intros]: "keeps (dsp_send_data i v)"
  by (auto simp: keeps_def dsp_send_data_def apbp_send_data_def channel_send_def rbind_Inr_iff
      sys_ok_def split: prod.splits)

lemma get_keeps_recv_data [keep_intros]: "get_keeps (dsp_recv_data i)"
  by (auto simp: get_keeps_def dsp_recv_data_def apbp_recv_data_def channel_recv_def rbind_Inr_iff
      sys_ok_def split: prod.splits)

lemma keeps_set_semaphore [keep_intros]: "keeps (dsp_set_semaphore v)"
  by (auto simp: keeps_def dsp_set_semaphore_def apbp_set_semaphore_def apbp_shape_def sys_ok_def Let_def)

lemma keeps_icu_trigger [keep_intros]: "keeps (icu_trigger_write v)"
proof (rule keepsI)
  fix s s' :: "'a system" and out
  assume s: "sys_ok s" and w: "icu_trigger_write v s = Inr (s', out)"
  then have "s' = s\<lparr>sys_icu := fst (icu_trigger v (sys_icu s))\<rparr>"
    by (auto simp: icu_trigger_write_def split: prod.splits)
  with s icu_shape_ops(4) [of "sys_icu s" v] show "sys_ok s'"
    by (simp add: sys_ok_def)
qed

lemma keeps_dma_z [keep_intros]: "keeps (dma_z_write bus v)"
proof -
  have "sys_ok s'" if s: "sys_ok s" and w: "dma_z_write bus v s = Inr (s', out)" for s s' out
  proof -
    from w obtain d m a es where
      1: "dma_set_z bus v (sys_dma s) (sys_memory s, sys_ahbm s) = Inr (d, (m, a), es)"
      and 2: "raise_irqs (map dma_irq es) (s\<lparr>sys_dma := d, sys_memory := m, sys_ahbm := a\<rparr>) = (s', out)"
      by (auto simp: dma_z_write_def rbind_Inr_iff)
    from dma_set_z_ok [OF 1] s have "sys_ok (s\<lparr>sys_dma := d, sys_memory := m, sys_ahbm := a\<rparr>)"
      by (simp add: sys_ok_def)
    from raise_irqs_keep [OF this 2] show ?thesis .
  qed
  then show ?thesis by (auto simp: keeps_def)
qed

lemma slots_set_keep:
  "\<forall>slot \<in> set slots. slot_ok slot \<Longrightarrow> keeps (slots_set slots v)"
proof (induction slots)
  case (Cons slot slots)
  then have IH: "keeps (slots_set slots v)" and "slot_ok slot" by auto
  show ?case
  proof (cases "sl_set slot")
    case None
    with IH show ?thesis by (simp add: keeps_def)
  next
    case (Some f)
    with \<open>slot_ok slot\<close> have "keeps (f w)" for w by (simp add: slot_ok_def)
    show ?thesis
    proof (rule keepsI)
      fix s s' out
      assume s: "sys_ok s" and "slots_set (slot # slots) v s = Inr (s', out)"
      with Some obtain s1 o1 o2 where
        "f (drop_bit (sl_pos slot) v AND mask (sl_length slot)) s = Inr (s1, o1)"
        "slots_set slots v s1 = Inr (s', o2)"
        by (auto simp: rbind_Inr_iff)
      with keepsD [OF \<open>keeps (f _)\<close> s] keepsD [OF IH] show "sys_ok s'" by blast
    qed
  qed
qed (simp add: keeps_def)

lemma cell_ok_bitfield [keep_intros]:
  assumes "\<forall>slot \<in> set slots. slot_ok slot"
  shows "cell_ok (bitfield_cell i slots)"
proof -
  have "keeps (\<lambda>s. rbind (slots_set slots v s) (\<lambda>(s', out). Inr (set_storage i v s', out)))" for v
  proof (rule keepsI)
    fix s s' out
    assume s: "sys_ok s"
      and "rbind (slots_set slots v s) (\<lambda>(s', out). Inr (set_storage i v s', out)) = Inr (s', out)"
    then obtain s1 where "slots_set slots v s = Inr (s1, out)" "s' = set_storage i v s1"
      by (auto simp: rbind_Inr_iff)
    with keepsD [OF slots_set_keep [OF assms] s] show "sys_ok s'" by simp
  qed
  moreover have "get_keeps (\<lambda>s. rbind (slots_get slots (sys_storage s i) s) (\<lambda>v. Inr (v, s)))"
    by (auto simp: get_keeps_def rbind_Inr_iff)
  ultimately show ?thesis
    by (simp add: cell_ok_def bitfield_cell_def)
qed

lemma cell_ok_ref [keep_intros]:
  "(\<And>v s. sys_ok s \<Longrightarrow> sys_ok (f v s)) \<Longrightarrow> cell_ok (ref_cell f g)"
  by (simp add: cell_ok_def ref_cell_def keep_intros)

lemma cell_ok_default [keep_intros]: "cell_ok (default_cell i)"
  by (simp add: cell_ok_def default_cell_def keep_intros)

lemma cell_ok_record [keep_intros]:
  "(\<And>v. keeps (f v)) \<Longrightarrow> get_keeps g \<Longrightarrow> cell_ok \<lparr>cell_set = f, cell_get = g\<rparr>"
  by (simp add: cell_ok_def)

lemma slot_ok_kinds [keep_intros]:
  "slot_ok (plain_slot p l)"
  "slot_ok (get_slot p l g)"
  "(\<And>v. keeps (h v)) \<Longrightarrow> slot_ok (full_slot p l h g)"
  "(\<And>v s. sys_ok s \<Longrightarrow> sys_ok (f v s)) \<Longrightarrow> slot_ok (ref_slot p l f k)"
  by (simp_all add: slot_ok_def plain_slot_def get_slot_def full_slot_def ref_slot_def keeps_silent)

lemma dma_set_register_length:
  "dma_set_register r v d = Inr d' \<Longrightarrow> length (dma_channels d') = length (dma_channels d)"
  unfolding dma_set_register_def by (rule dma_set_active_ok)

lemma apbp_set_disable_shape:
  "apbp_set_disable_interrupt i v a = Inr a' \<Longrightarrow> apbp_shape a \<Longrightarrow> apbp_shape a'"
  by (auto simp: apbp_set_disable_interrupt_def rbind_Inr_iff)

lemma cell_ok_const [keep_intros]: "cell_ok (const_cell k)"
  by (simp add: cell_ok_def const_cell_def keep_intros)

lemma timer_cells_ok: "\<forall>(a, c) \<in> set (timer_cells i). cell_ok c"
  by (auto simp: timer_cells_def intro!: keep_intros)

lemma apbp_data_cells_ok: "\<forall>(a, c) \<in> set (apbp_data_cells i). cell_ok c"
  by (auto simp: apbp_data_cells_def intro!: keep_intros)

lemma apbp_cells_ok: "\<forall>(a, c) \<in> set apbp_cells. cell_ok c"
  by (auto simp: apbp_cells_def disable_slot_def dsp_ready_slot_def cpu_ready_slot_def
      cpu_signal_slot_def intro!: keep_intros dest: apbp_set_disable_shape intro: apbp_shape_ops)

lemma ahbm_cells_ok: "\<forall>(a, c) \<in> set (ahbm_cells i). cell_ok c" "\<forall>(a, c) \<in> set ahbm_busy_cell. cell_ok c"
  by (auto simp: ahbm_cells_def ahbm_busy_cell_def ahbm_set_burst_size_def ahbm_set_unit_size_def
      ahbm_set_direction_def ahbm_set_dma_channel_def ahbm_update_ok intro!: keep_intros)

lemma miu_cells_ok: "\<forall>(a, c) \<in> set miu_cells. cell_ok c"
  by (auto simp: miu_cells_def miu_size_cell_def intro!: keep_intros)

lemma dma_cells_ok: "\<forall>(a, c) \<in> set (dma_cells bus). cell_ok c"
proof -
  have r: "cell_ok (snd (dma_register_cell a r))" for a r
    by (auto simp: dma_register_cell_def dma_set_register_length intro!: keep_intros)
  have f: "fst (dma_register_cell a r) = a" for a r
    by (simp add: dma_register_cell_def)
  have t: "slot_ok (dma_register_slot p l r)" for p l r
    by (auto simp: dma_register_slot_def dma_set_register_length intro!: keep_intros)
  have d: "cell_ok ((default_cell 0x18C)\<lparr>cell_get := pure_get (\<lambda>s. 0xFFFF)\<rparr>)"
    by (auto simp: default_cell_def intro!: keep_intros)
  have "\<forall>p \<in> set (dma_cells bus). cell_ok (snd p)"
    unfolding dma_cells_def
    by (auto simp: r d intro!: keep_intros) (auto simp: t dma_enable_channel_write_def
        dma_activate_channel_def intro!: keep_intros)
  then show ?thesis by auto
qed

lemma icu_cells_ok: "\<forall>(a, c) \<in> set icu_cells. cell_ok c" "\<forall>(a, c) \<in> set (icu_vector_cells i). cell_ok c"
  by (auto simp: icu_cells_def icu_enable_cell_def icu_vector_cells_def icu_shape_ops
      intro!: keep_intros) (auto simp: icu_shape_def)

lemma btdmp_cells_ok: "i < 2 \<Longrightarrow> \<forall>(a, c) \<in> set (btdmp_cells i). cell_ok c"
  by (auto simp: btdmp_cells_def default_cell_def btdmp_send_flags btdmp_flush_flags intro!: keep_intros)
    (auto simp: btdmp_flags_ok_def)

lemma mmio_table_ok: "\<forall>(a, c) \<in> set (mmio_table bus). cell_ok c"
  unfolding mmio_table_def
  using timer_cells_ok apbp_data_cells_ok apbp_cells_ok ahbm_cells_ok miu_cells_ok dma_cells_ok
    icu_cells_ok btdmp_cells_ok
  by (fastforce simp: cell_ok_const)

lemma mmio_cell_ok: "mmio_cell bus addr = Inr c \<Longrightarrow> cell_ok c"
  using mmio_table_ok [of bus]
  by (auto simp: mmio_cell_def cell_ok_default dest: map_of_SomeD split: if_splits option.splits)

section \<open>Registers that hold a word\<close>

text \<open>A cell that returns the word last written, without a signal, as long as the DMA engine's
  active channel exists.\<close>

definition holds_word :: "'x cell \<Rightarrow> bool" where
  "holds_word c \<longleftrightarrow> (\<forall>s v. sys_ok s \<longrightarrow> dma_active_channel (sys_dma s) < 8 \<longrightarrow>
     (\<exists>s'. cell_set c v s = Inr (s', []) \<and> cell_get c s' = Inr (v, s')))"

lemma holds_word_default: "holds_word (default_cell i)"
  by (simp add: holds_word_def default_cell_def silent_def pure_get_def set_storage_def)

lemma holds_word_ref:
  "(\<And>s v. sys_ok s \<Longrightarrow> g (f v s) = v) \<Longrightarrow> holds_word (ref_cell f g)"
  by (simp add: holds_word_def ref_cell_def silent_def pure_get_def)

lemma dma_field_put_field: "dma_field r (dma_put_field r v c) = v"
  by (cases r) simp_all

lemma holds_word_dma_register: "holds_word (snd (dma_register_cell a r))"
proof -
  have "unat i < 8" if "i < 8" for i :: u16
    using that by (simp add: word_less_nat_alt)
  then show ?thesis
    by (auto simp: holds_word_def dma_register_cell_def act_dma_def dma_set_register_def
        dma_set_active_def dma_get_register_def dma_active_def checked_get_def sys_ok_def dma_get_def
        dma_put_def dma_field_put_field)
qed

lemma holds_word_ahbm:
  assumes "i < 3"
  shows "holds_word \<lparr>cell_set = (\<lambda>v. act_ahbm (ahbm_set_dma_channel i v)),
    cell_get = checked_get (\<lambda>s. ahbm_get_dma_channel i (sys_ahbm s))\<rparr>"
  using assms
  by (auto simp: holds_word_def act_ahbm_def ahbm_set_dma_channel_def ahbm_update_def
      ahbm_get_dma_channel_def checked_get_def sys_ok_def ahbm_channel_ok)

definition word_registers :: "nat list" where
  "word_registers =
     [0x24, 0x26, 0x28, 0x2A, 0x34, 0x36, 0x38, 0x3A, 0xCE, 0xE6, 0xEC, 0xF2,
      0x10E, 0x110, 0x112, 0x11E, 0x184, 0x1BE,
      0x1C0, 0x1C2, 0x1C4, 0x1C6, 0x1C8, 0x1CA, 0x1CC, 0x1CE, 0x1D0, 0x1D2, 0x1D4, 0x1D6, 0x1D8,
      0x1DC, 0x206, 0x208, 0x20A, 0x20C,
      0x214, 0x218, 0x21C, 0x220, 0x224, 0x228, 0x22C, 0x230,
      0x234, 0x238, 0x23C, 0x240, 0x244, 0x248, 0x24C, 0x250,
      0x2A2, 0x2BE, 0x322, 0x33E]"

abbreviation table_holds :: "(nat \<times> 'x cell) list \<Rightarrow> bool" where
  "table_holds t \<equiv> \<forall>(a, c) \<in> set t. a \<in> set word_registers \<longrightarrow> holds_word c"

lemma timer_cells_hold: "i < 2 \<Longrightarrow> table_holds (timer_cells i)"
  by (auto simp: timer_cells_def less_2_cases_iff word_registers_def upd_timer_def sys_ok_def
      intro!: holds_word_ref)

lemma apbp_cells_hold: "table_holds apbp_cells"
  by (auto simp: apbp_cells_def word_registers_def holds_word_def act_from_cpu_def
      apbp_mask_semaphore_def pure_get_def)

lemma apbp_data_cells_hold: "i < 3 \<Longrightarrow> table_holds (apbp_data_cells i)"
  by (auto simp: apbp_data_cells_def word_registers_def)

lemma ahbm_cells_hold: "table_holds (ahbm_cells 0)" "table_holds (ahbm_cells 1)" "table_holds (ahbm_cells 2)"
  "table_holds ahbm_busy_cell"
  by (auto simp: ahbm_cells_def ahbm_busy_cell_def word_registers_def intro!: holds_word_ahbm)

lemma miu_cells_hold: "table_holds miu_cells"
  by (auto simp: miu_cells_def miu_size_cell_def word_registers_def upd_miu_def intro!: holds_word_ref)

lemma dma_cells_hold: "table_holds (dma_cells bus)"
proof -
  have f: "fst (dma_register_cell a r) = a" for a r
    by (simp add: dma_register_cell_def)
  have "\<forall>p \<in> set (dma_cells bus). fst p \<in> set word_registers \<longrightarrow> holds_word (snd p)"
    by (auto simp: dma_cells_def holds_word_dma_register upd_dma_def dma_enable_channel_write_def
        dma_activate_channel_def intro!: holds_word_ref) (simp_all add: word_registers_def)
  then show ?thesis by auto
qed

lemma icu_cells_hold: "table_holds icu_cells" "i < 16 \<Longrightarrow> table_holds (icu_vector_cells i)"
proof -
  show "table_holds icu_cells"
    by (auto simp: icu_cells_def icu_enable_cell_def word_registers_def upd_icu_def icu_set_enable_def
        icu_get_enable_def icu_set_enable_vectored_def sys_ok_def icu_shape_def intro!: holds_word_ref)
  assume i: "i < 16"
  have "0x212 + i * 4 \<notin> set word_registers"
    using i by (simp add: word_registers_def) presburger
  with i show "table_holds (icu_vector_cells i)"
    by (auto simp: icu_vector_cells_def upd_icu_def sys_ok_def icu_shape_def intro!: holds_word_ref)
qed

lemma btdmp_cells_hold: "i < 2 \<Longrightarrow> table_holds (btdmp_cells i)"
  by (auto simp: btdmp_cells_def less_2_cases_iff word_registers_def upd_btdmp_def sys_ok_def
      intro!: holds_word_ref)

lemma table_holds_concat:
  assumes "\<And>i. i \<in> set is \<Longrightarrow> table_holds (f i)"
  shows "table_holds (concat (map f is))"
  using assms by fastforce

lemma mmio_table_holds: "table_holds (mmio_table bus)"
proof -
  have t: "table_holds (concat (map timer_cells [0..<2]))"
    by (rule table_holds_concat, rule timer_cells_hold) simp
  have p: "table_holds (concat (map apbp_data_cells [0..<3]))"
    by (rule table_holds_concat, rule apbp_data_cells_hold) simp
  have a: "table_holds (concat (map ahbm_cells [0, 1, 2]))"
  proof (rule table_holds_concat)
    fix i :: u16
    assume "i \<in> set [0, 1, 2]"
    then consider "i = 0" | "i = 1" | "i = 2" by auto
    then show "table_holds (ahbm_cells i)"
      by cases (hypsubst, rule ahbm_cells_hold)+
  qed
  have v: "table_holds (concat (map icu_vector_cells [0..<16]))"
    by (rule table_holds_concat, rule icu_cells_hold) simp
  have b: "table_holds (concat (map btdmp_cells [0..<2]))"
    by (rule table_holds_concat, rule btdmp_cells_hold) simp
  have c: "table_holds [(0x01A, const_cell 0xC902)]"
    by (simp add: word_registers_def)
  show ?thesis
    unfolding mmio_table_def set_append ball_Un
    by (intro conjI c t p apbp_cells_hold ahbm_cells_hold(4) a miu_cells_hold dma_cells_hold
        icu_cells_hold(1) v b)
qed

definition mmio_addresses :: "nat list" where
  "mmio_addresses = [
     0x1A, 0x20, 0x22, 0x24, 0x26, 0x28, 0x2A, 0x30, 0x32, 0x34, 0x36, 0x38, 0x3A, 0xC0,
     0xC2, 0xC4, 0xC6, 0xC8, 0xCA, 0xCC, 0xCE, 0xD0, 0xD2, 0xD4, 0xD6, 0xD8, 0xE0, 0xE2,
     0xE4, 0xE6, 0xE8, 0xEA, 0xEC, 0xEE, 0xF0, 0xF2, 0x10E, 0x110, 0x112, 0x114, 0x116,
     0x11A, 0x11E, 0x184, 0x18C, 0x1BE, 0x1C0, 0x1C2, 0x1C4, 0x1C6, 0x1C8, 0x1CA, 0x1CC,
     0x1CE, 0x1D0, 0x1D2, 0x1D4, 0x1D6, 0x1D8, 0x1DA, 0x1DC, 0x1DE, 0x200, 0x202, 0x204,
     0x206, 0x208, 0x20A, 0x20C, 0x212, 0x214, 0x216, 0x218, 0x21A, 0x21C, 0x21E, 0x220,
     0x222, 0x224, 0x226, 0x228, 0x22A, 0x22C, 0x22E, 0x230, 0x232, 0x234, 0x236, 0x238,
     0x23A, 0x23C, 0x23E, 0x240, 0x242, 0x244, 0x246, 0x248, 0x24A, 0x24C, 0x24E, 0x250,
     0x2A2, 0x2BE, 0x2C2, 0x2C6, 0x2CA, 0x322, 0x33E, 0x342, 0x346, 0x34A]"

section \<open>Properties\<close>

text \<open>
  No two registers of the region share an address and every register lies inside it: the
  assignments of the constructor never overwrite one another.
\<close>

theorem mmio_registers_distinct:
  "distinct (map fst (mmio_table bus)) \<and> list_all (\<lambda>a. even a \<and> a < 0x800) (map fst (mmio_table bus))"
proof -
  have "map fst (mmio_table bus) = mmio_addresses"
    by (simp add: mmio_table_def timer_cells_def apbp_data_cells_def apbp_cells_def ahbm_busy_cell_def
        ahbm_cells_def miu_cells_def miu_size_cell_def dma_cells_def dma_register_cell_def icu_cells_def
        icu_enable_cell_def icu_vector_cells_def btdmp_cells_def upt_rec mmio_addresses_def)
  moreover have "sorted_wrt (<) mmio_addresses"
    by (simp only: mmio_addresses_def sorted_wrt2 [OF transp_on_less] sorted_wrt1) simp
  moreover have "list_all (\<lambda>a. even a \<and> a < 0x800) mmio_addresses"
    by (simp add: mmio_addresses_def)
  ultimately show ?thesis
    by (simp add: strict_sorted_iff)
qed

text \<open>
  C31: The word registers of the region (timer start values and counters, semaphore mask, bus
  master channel masks, page and base registers, the DMA registers, interrupt enables, vectors
  and the audio clock and enable registers) and every cell without a register return the word last
  written to them, and writing them signals nothing, as long as the active DMA channel exists.
\<close>

theorem mmio_word_registers:
  assumes "sys_ok s" and "dma_active_channel (sys_dma s) < 8" and "unat addr < 0x800"
    and "unat addr \<in> set word_registers \<or> unat addr \<notin> fst ` set (mmio_table bus)"
  shows "\<exists>s'. mmio_write bus addr v s = Inr (s', []) \<and> mmio_read bus addr s' = Inr (v, s')"
proof -
  obtain c where c: "mmio_cell bus addr = Inr c"
    using assms(3) by (simp add: mmio_cell_def)
  have "holds_word c"
  proof (cases "map_of (mmio_table bus) (unat addr)")
    case None
    with c assms(3) show ?thesis
      by (auto simp: mmio_cell_def holds_word_default)
  next
    case (Some d)
    then have "(unat addr, d) \<in> set (mmio_table bus)"
      by (rule map_of_SomeD)
    with assms(4) mmio_table_holds [of bus] have "holds_word d" by force
    with c Some assms(3) show ?thesis
      by (simp add: mmio_cell_def)
  qed
  with assms(1,2) c show ?thesis
    by (simp add: holds_word_def mmio_write_def mmio_read_def)
qed

definition system_example :: "(u32 \<Rightarrow> u8) system" where
  "system_example = \<lparr>sys_memory = (\<lambda>_. 0), sys_miu = miu_reset, sys_icu = icu_example,
     sys_apbp_from_cpu = apbp_initial, sys_apbp_from_dsp = apbp_initial,
     sys_timer = [timer_reset, timer_reset], sys_ahbm = ahbm_example 0, sys_dma = dma_example 0 3,
     sys_btdmp = [btdmp_reset, btdmp_reset], sys_storage = (\<lambda>_. 0)\<rparr>"

lemma system_example_ok: "sys_ok system_example"
  using btdmp_reset_ok
  by (simp add: sys_ok_def system_example_def icu_example_shape apbp_shape_initial
      ahbm_example_simps dma_example_def miu_reset_def btdmp_ok_def)

lemma mmio_word_registers_witness:
  "\<exists>s'. mmio_write byte_bus 0x1C8 5 system_example = Inr (s', []) \<and>
    mmio_read byte_bus 0x1C8 s' = Inr (5, s')"
  by (rule mmio_word_registers [OF system_example_ok])
    (simp_all add: system_example_def dma_example_def dma_reset_def word_registers_def)

lemma data_write_keeps:
  assumes "sys_ok s" and "data_write bus a v b s = Inr (s', out)"
  shows "sys_ok s'"
proof (cases "in_mmio (sys_miu s) a \<and> \<not> b")
  case True
  with assms(2) obtain addr c where "mmio_cell bus addr = Inr c" "cell_set c v s = Inr (s', out)"
    by (auto simp: data_write_def mmio_write_def rbind_Inr_iff)
  with mmio_cell_ok keepsD [OF _ assms(1)] show ?thesis
    unfolding cell_ok_def by blast
next
  case False
  with assms show ?thesis
    by (auto simp: data_write_def rbind_Inr_iff sys_ok_def)
qed

lemma data_read_keeps:
  assumes "sys_ok s" and "data_read bus a b s = Inr (w, s')"
  shows "sys_ok s'"
proof (cases "in_mmio (sys_miu s) a \<and> \<not> b")
  case True
  with assms(2) obtain addr c where "mmio_cell bus addr = Inr c" "cell_get c s = Inr (w, s')"
    by (auto simp: data_read_def mmio_read_def rbind_Inr_iff)
  with mmio_cell_ok assms(1) show ?thesis
    unfolding cell_ok_def get_keeps_def by blast
next
  case False
  with assms show ?thesis
    by (auto simp: data_read_def rbind_Inr_iff)
qed

text \<open>
  C26: Whatever the DSP does through its data space, a successful read or write, memory or register,
  keeps the invariant of the peripherals: the arrays keep their sizes and the flags of the audio
  queues agree with their contents.
\<close>

theorem data_access_keeps_invariant:
  assumes "sys_ok s"
  shows "(case data_write bus a v b s of Inl e \<Rightarrow> True | Inr (s', out) \<Rightarrow> sys_ok s') \<and>
    (case data_read bus a b s of Inl e \<Rightarrow> True | Inr (w, s') \<Rightarrow> sys_ok s')"
  using data_write_keeps [OF assms] data_read_keeps [OF assms] by (auto split: sum.split)

lemma data_access_keeps_invariant_witness:
  "(case data_write byte_bus 0x8204 0x400 False system_example of Inl e \<Rightarrow> True | Inr (s', out) \<Rightarrow> sys_ok s') \<and>
   (case data_read byte_bus 0x8204 False system_example of Inl e \<Rightarrow> True | Inr (w, s') \<Rightarrow> sys_ok s')"
  by (rule data_access_keeps_invariant [OF system_example_ok])

end
