(* ===== verification/Clocked_System.thy ===== *)
theory Clocked_System
  imports Mmio_Region
begin

text \<open>
  The composition of src/src/teakra.cpp: the four components registered with the clock, in the order
  in which the members of Teakra::Impl are constructed, the delivery of their interrupts, and
  the reset of the emulator.

  A component of the clock is one of the two classes that derive from CoreTiming::Callbacks; the
  virtual calls dispatch on it.
\<close>

section \<open>Components of the clock\<close>

datatype timing_component = TimerComponent timer | BtdmpComponent btdmp

datatype timing_event = FromTimer timer_event | FromBtdmp btdmp_event

definition map_component :: "('a \<Rightarrow> timing_component) \<Rightarrow> ('b \<Rightarrow> timing_event) \<Rightarrow> ('a \<times> 'b list) result
    \<Rightarrow> (timing_component \<times> timing_event list) result" where
  "map_component c e r = rbind r (\<lambda>(x, es). Inr (c x, map e es))"

fun component_tick :: "timing_component \<Rightarrow> (timing_component \<times> timing_event list) result" where
  "component_tick (TimerComponent t) = map_component TimerComponent FromTimer (cb_tick timer_callbacks t)"
| "component_tick (BtdmpComponent b) = map_component BtdmpComponent FromBtdmp (cb_tick btdmp_callbacks b)"

fun component_max_skip :: "timing_component \<Rightarrow> nat" where
  "component_max_skip (TimerComponent t) = cb_max_skip timer_callbacks t"
| "component_max_skip (BtdmpComponent b) = cb_max_skip btdmp_callbacks b"

fun component_skip :: "nat \<Rightarrow> timing_component \<Rightarrow> (timing_component \<times> timing_event list) result" where
  "component_skip n (TimerComponent t) = map_component TimerComponent FromTimer (cb_skip timer_callbacks n t)"
| "component_skip n (BtdmpComponent b) = map_component BtdmpComponent FromBtdmp (cb_skip btdmp_callbacks n b)"

definition component_callbacks :: "(timing_component, timing_event) callbacks" where
  "component_callbacks =
     \<lparr>cb_tick = component_tick, cb_max_skip = component_max_skip, cb_skip = component_skip\<rparr>"

fun component_ok :: "timing_component \<Rightarrow> bool" where
  "component_ok (TimerComponent t) = timer_ok t"
| "component_ok (BtdmpComponent b) = btdmp_ok b"

fun is_interrupt :: "timing_event \<Rightarrow> bool" where
  "is_interrupt (FromTimer e) = True"
| "is_interrupt (FromBtdmp e) = (e = BtdmpInterrupt)"

lemma ticks_of_map:
  assumes "\<And>x. f (c x) = map_component c e (g x)"
  shows "ticks_of f n (c x) = map_component c e (ticks_of g n x)"
proof (induction n arbitrary: x)
  case (Suc n)
  then show ?case
    by (cases "g x") (auto simp: assms map_component_def rbind_assoc split_def)
qed (simp add: map_component_def)

interpretation component_clock: timing_callbacks component_callbacks component_ok is_interrupt
proof unfold_locales
  show "\<exists>s' es. cb_tick component_callbacks s = Inr (s', es) \<and> component_ok s'" if "component_ok s" for s
  proof (cases s)
    case (TimerComponent t)
    with that timer_clock.tick_ok [of t] show ?thesis
      by (auto simp: component_callbacks_def map_component_def)
  next
    case (BtdmpComponent b)
    with that btdmp_clock.tick_ok [of b] show ?thesis
      by (auto simp: component_callbacks_def map_component_def)
  qed
next
  show "cb_skip component_callbacks n s = ticks_of (cb_tick component_callbacks) n s"
    if "component_ok s" "0 < n" "n \<le> max_request" "n \<le> cb_max_skip component_callbacks s" for s n
  proof (cases s)
    case (TimerComponent t)
    with that timer_clock.skip_is_ticks [of t n] show ?thesis
      by (simp add: component_callbacks_def ticks_of_map [where g = "cb_tick timer_callbacks" and e = FromTimer])
  next
    case (BtdmpComponent b)
    with that btdmp_clock.skip_is_ticks [of b n] show ?thesis
      by (simp add: component_callbacks_def ticks_of_map [where g = "cb_tick btdmp_callbacks" and e = FromBtdmp])
  qed
next
  show "\<not> is_interrupt e"
    if "component_ok s" "0 < n" "n \<le> max_request" "n \<le> cb_max_skip component_callbacks s"
      "cb_skip component_callbacks n s = Inr (s', es)" "e \<in> set es" for s n s' es e
  proof (cases s)
    case (TimerComponent t)
    with that timer_clock.skip_quiet [of t n] show ?thesis
      by (fastforce simp: component_callbacks_def map_component_def rbind_Inr_iff)
  next
    case (BtdmpComponent b)
    with that btdmp_clock.skip_quiet [of b n] show ?thesis
      by (fastforce simp: component_callbacks_def map_component_def rbind_Inr_iff)
  qed
qed

section \<open>The clock of the emulator\<close>

definition clock_components :: "'x system \<Rightarrow> timing_component list" where
  "clock_components s = map TimerComponent (sys_timer s) @ map BtdmpComponent (sys_btdmp s)"

fun component_timer :: "timing_component \<Rightarrow> timer" where
  "component_timer (TimerComponent t) = t"
| "component_timer (BtdmpComponent b) = timer_reset"

fun component_btdmp :: "timing_component \<Rightarrow> btdmp" where
  "component_btdmp (BtdmpComponent b) = b"
| "component_btdmp (TimerComponent t) = btdmp_reset"

definition store_components :: "timing_component list \<Rightarrow> 'x system \<Rightarrow> 'x system" where
  "store_components cs s =
     s\<lparr>sys_timer := map component_timer (take (length (sys_timer s)) cs),
       sys_btdmp := map component_btdmp (drop (length (sys_timer s)) cs)\<rparr>"

text \<open>
  The handlers installed by the constructor: timers and audio ports raise their requests of the
  interrupt controller; only the first audio port has an audio callback.
\<close>

fun deliver :: "nat \<times> timing_event \<Rightarrow> 'x system \<Rightarrow> 'x system \<times> signal list" where
  "deliver (i, FromTimer e) s = raise_irq (timer_irq i e) s"
| "deliver (i, FromBtdmp BtdmpInterrupt) s = raise_irq (btdmp_irq i) s"
| "deliver (i, FromBtdmp (AudioSample v)) s = (s, if i = 2 then [ToHostAudio 0 v] else [])"

fun deliver_all :: "(nat \<times> timing_event) list \<Rightarrow> 'x system \<Rightarrow> 'x system \<times> signal list" where
  "deliver_all [] s = (s, [])"
| "deliver_all (e # es) s =
     (let (s1, o1) = deliver e s; (s2, o2) = deliver_all es s1 in (s2, o1 @ o2))"

definition system_tick :: "'x action" where
  "system_tick s =
     rbind (core_tick component_callbacks (clock_components s)) (\<lambda>(cs, es).
       Inr (deliver_all es (store_components cs s)))"

definition system_skip :: "nat \<Rightarrow> 'x system \<Rightarrow> (nat \<times> 'x system \<times> signal list) result" where
  "system_skip maximum s =
     rbind (core_skip component_callbacks maximum (clock_components s)) (\<lambda>(n, cs, es).
       Inr (n, deliver_all es (store_components cs s)))"

section \<open>Reset\<close>

text \<open>
  Teakra::Reset, for the peripherals. The interrupt controller and the stored words of the MMIO
  cells keep their contents, as do the fields the reset functions leave out.
\<close>

definition system_reset :: "'x system \<Rightarrow> 'x system" where
  "system_reset s = s\<lparr>
     sys_memory := (\<lambda>_. 0),
     sys_miu := miu_reset,
     sys_apbp_from_cpu := apbp_reset (sys_apbp_from_cpu s),
     sys_apbp_from_dsp := apbp_reset (sys_apbp_from_dsp s),
     sys_timer := map (\<lambda>_. timer_reset) (sys_timer s),
     sys_ahbm := ahbm_reset (sys_ahbm s),
     sys_dma := dma_reset,
     sys_btdmp := map (\<lambda>_. btdmp_reset) (sys_btdmp s)\<rparr>"

section \<open>Quiet stretches of time\<close>

definition quiet :: "(nat \<times> timing_event) list \<Rightarrow> bool" where
  "quiet es \<longleftrightarrow> (\<forall>(i, e) \<in> set es. \<not> is_interrupt e)"

fun host_audio :: "timing_event \<Rightarrow> signal list" where
  "host_audio (FromBtdmp (AudioSample v)) = [ToHostAudio 0 v]"
| "host_audio _ = []"

lemma quiet_append [simp]: "quiet (es @ es') \<longleftrightarrow> quiet es \<and> quiet es'"
  by (auto simp: quiet_def)

lemma quiet_outputs: "(\<forall>k. \<forall>e \<in> set (outputs_of k es). \<not> is_interrupt e) \<Longrightarrow> quiet es"
  by (force simp: quiet_def outputs_of_def)

lemma deliver_all_quiet:
  "quiet es \<Longrightarrow> deliver_all es s = (s, concat (map host_audio (outputs_of 2 es)))"
proof (induction es)
  case (Cons p es)
  obtain i e where p: "p = (i, e)" by fastforce
  with Cons.prems have "\<not> is_interrupt e" and "quiet es"
    by (auto simp: quiet_def)
  then obtain b where b: "e = FromBtdmp b" "b \<noteq> BtdmpInterrupt"
    by (cases e) simp_all
  then obtain v where "e = FromBtdmp (AudioSample v)"
    by (cases b) simp_all
  with Cons.IH [OF \<open>quiet es\<close>] p show ?case
    by (simp add: outputs_of_def)
qed simp

fun is_timer :: "timing_component \<Rightarrow> bool" where
  "is_timer (TimerComponent t) = True"
| "is_timer (BtdmpComponent b) = False"

lemma component_tick_kind: "component_tick c = Inr (c', es) \<Longrightarrow> is_timer c' = is_timer c"
  by (cases c) (auto simp: map_component_def rbind_Inr_iff)

lemma core_tick_kind:
  assumes "core_tick component_callbacks cs = Inr (cs', es)"
  shows "map is_timer cs' = map is_timer cs"
proof (rule nth_equalityI)
  have e: "each_callback component_tick 0 cs = Inr (cs', es)"
    using assms by (simp add: core_tick_def component_callbacks_def)
  show len: "length (map is_timer cs') = length (map is_timer cs)"
    using each_callback_length [OF e] by simp
  show "map is_timer cs' ! i = map is_timer cs ! i" if "i < length (map is_timer cs')" for i
    using that len component_tick_kind [OF each_callback_nth [OF e, of i]] by simp
qed

lemma clock_components_store:
  assumes "map is_timer cs = map is_timer (clock_components s)"
  shows "clock_components (store_components cs s) = cs"
proof -
  let ?n = "length (sys_timer s)"
  have len: "length cs = ?n + length (sys_btdmp s)"
    using assms by (metis clock_components_def length_append length_map)
  have "map is_timer (take ?n cs) = replicate ?n True"
    and "map is_timer (drop ?n cs) = replicate (length (sys_btdmp s)) False"
    using assms by (simp_all add: clock_components_def comp_def map_replicate_const flip: take_map drop_map)
  moreover have "map (TimerComponent \<circ> component_timer) xs = xs" if "map is_timer xs = replicate m True" for xs m
    using that
  proof (induction xs arbitrary: m)
    case (Cons x xs)
    then show ?case by (cases m; cases x) auto
  qed simp
  moreover have "map (BtdmpComponent \<circ> component_btdmp) xs = xs" if "map is_timer xs = replicate m False" for xs m
    using that
  proof (induction xs arbitrary: m)
    case (Cons x xs)
    then show ?case by (cases m; cases x) auto
  qed simp
  ultimately show ?thesis
    by (simp add: clock_components_def store_components_def)
qed

lemma store_components_again:
  "length cs = length (clock_components s) \<Longrightarrow>
   store_components cs' (store_components cs s) = store_components cs' s"
  by (simp add: store_components_def clock_components_def)

lemma store_components_same: "store_components (clock_components s) s = s"
  by (simp add: store_components_def clock_components_def comp_def)

lemma system_ticks:
  assumes "ticks_of (core_tick component_callbacks) n (clock_components s) = Inr (cs, es)" and "quiet es"
  shows "ticks_of system_tick n s =
      Inr (store_components cs s, concat (map host_audio (outputs_of 2 es))) \<and>
    map is_timer cs = map is_timer (clock_components s)"
  using assms
proof (induction n arbitrary: cs es)
  case 0
  then show ?case by (auto simp: store_components_same)
next
  case (Suc n)
  from Suc.prems(1) obtain cs1 es1 es2 where
    1: "ticks_of (core_tick component_callbacks) n (clock_components s) = Inr (cs1, es1)"
    and 2: "core_tick component_callbacks cs1 = Inr (cs, es2)" and es: "es = es1 @ es2"
    unfolding ticks_of_Suc_right by (auto simp: rbind_Inr_iff)
  from Suc.prems(2) es have q: "quiet es1" "quiet es2" by simp_all
  from Suc.IH [OF 1 q(1)] have
    IH: "ticks_of system_tick n s = Inr (store_components cs1 s, concat (map host_audio (outputs_of 2 es1)))"
    and k: "map is_timer cs1 = map is_timer (clock_components s)"
    by simp_all
  from k have len: "length cs1 = length (clock_components s)"
    by (metis length_map)
  have "system_tick (store_components cs1 s) =
      Inr (store_components cs s, concat (map host_audio (outputs_of 2 es2)))"
    by (simp add: system_tick_def clock_components_store [OF k] 2 deliver_all_quiet [OF q(2)]
        store_components_again [OF len])
  with IH es k core_tick_kind [OF 2] show ?case
    unfolding ticks_of_Suc_right by simp
qed

section \<open>Properties\<close>

definition clock_ok :: "'x system \<Rightarrow> bool" where
  "clock_ok s \<longleftrightarrow> (\<forall>t \<in> set (sys_timer s). timer_ok t) \<and> (\<forall>b \<in> set (sys_btdmp s). btdmp_ok b)"

text \<open>
  C7: Skipping with the clock of the emulator is transparent: when some tick can be skipped, the
  clock skips at least one and at most the requested number, reports how many, and the whole
  system and everything it signals are what that many single ticks of the clock produce.
  No interrupt falls into the skipped stretch.
\<close>

theorem system_skip_is_ticks:
  assumes "clock_ok s" and "m \<le> max_request"
    and "0 < core_skip_ticks component_callbacks m (clock_components s)"
  shows "\<exists>n s' out. system_skip m s = Inr (n, s', out) \<and> 0 < n \<and> n \<le> m \<and>
    ticks_of system_tick n s = Inr (s', out) \<and> (\<forall>e. ToProcessor e \<notin> set out)"
proof -
  have "\<forall>c \<in> set (clock_components s). component_ok c"
    using assms(1) by (auto simp: clock_ok_def clock_components_def)
  from component_clock.core_skip_is_ticks [OF this assms(2,3)] obtain n cs es es' where
    1: "core_skip component_callbacks m (clock_components s) = Inr (n, cs, es)" "0 < n" "n \<le> m"
    and 2: "ticks_of (core_tick component_callbacks) n (clock_components s) = Inr (cs, es')"
    and 3: "\<forall>k. outputs_of k es = outputs_of k es'" "\<forall>k. \<forall>e \<in> set (outputs_of k es). \<not> is_interrupt e"
    by blast
  from 3 have q: "quiet es" "quiet es'"
    by (simp_all add: quiet_outputs)
  have "ToProcessor e \<notin> set (concat (map host_audio xs))" for e xs
  proof -
    have "ToProcessor e \<notin> set (host_audio x)" for x
      by (cases x rule: host_audio.cases) simp_all
    then show ?thesis by simp
  qed
  with 1 system_ticks [OF 2 q(2)] 3(1) show ?thesis
    by (simp add: system_skip_def deliver_all_quiet [OF q(1)])
qed

definition clock_example :: "(u32 \<Rightarrow> u8) system" where
  "clock_example = system_example\<lparr>sys_timer := [timer_example 9, timer_reset],
     sys_btdmp := [btdmp_example, btdmp_reset]\<rparr>"

lemma system_skip_is_ticks_witness:
  "\<exists>n s' out. system_skip 100 clock_example = Inr (n, s', out) \<and> 0 < n \<and> n \<le> 100 \<and>
    ticks_of system_tick n clock_example = Inr (s', out) \<and> (\<forall>e. ToProcessor e \<notin> set out)"
  by (rule system_skip_is_ticks)
    (simp_all add: clock_example_def clock_ok_def timer_example_defs btdmp_example_def btdmp_reset_def
      btdmp_ok_def btdmp_flags_ok_def max_request_def core_skip_ticks_def clock_components_def
      component_callbacks_def timer_callbacks_def btdmp_callbacks_def btdmp_max_skip_def infinity_def)

end
