(* ===== verification/Operands.thy ===== *)
theory Operands
  imports Prelude
begin

unbundle bit_operations_syntax

text \<open>
  src/src/operand.h: the operands of the instructions. An operand is the number stored in its
  bits of the opcode; the operands that name registers, conditions or operations look that
  number up in the list of their values. The enumerators keep their order, with a prefix.

  Also the bit helpers of src/src/common_types.h and src/src/bit.h the instructions use.
\<close>

section \<open>Bit helpers\<close>

text \<open>\<open>SignExtend\<close>: copy bit \<open>n - 1\<close> of a value into all the bits above it.\<close>

definition sign_extend :: "nat \<Rightarrow> 'a::len word \<Rightarrow> 'a word" where
  "sign_extend n v = (if bit v (n - 1) then v OR NOT (mask n) else v AND mask n)"

definition bit_reverse16 :: "u16 \<Rightarrow> u16" where
  "bit_reverse16 v = foldl (\<lambda>result i. result OR push_bit (15 - i) (drop_bit i v AND 1)) 0 [0..<16]"

text \<open>\<open>log2p1\<close>: the position of the highest bit that is set, counted from one, and zero for zero.\<close>

fun log2p1_nat :: "nat \<Rightarrow> nat" where
  "log2p1_nat n = (if n = 0 then 0 else Suc (log2p1_nat (n div 2)))"

definition log2p1 :: "'a::len word \<Rightarrow> nat" where
  "log2p1 v = log2p1_nat (unat v)"

declare log2p1_nat.simps [simp del]

section \<open>Enumerations\<close>

datatype reg_name =
    Reg_a0 | Reg_a0l | Reg_a0h | Reg_a0e | Reg_a1 | Reg_a1l | Reg_a1h | Reg_a1e | Reg_b0 |
    Reg_b0l | Reg_b0h | Reg_b0e | Reg_b1 | Reg_b1l | Reg_b1h | Reg_b1e | Reg_r0 | Reg_r1 |
    Reg_r2 | Reg_r3 | Reg_r4 | Reg_r5 | Reg_r6 | Reg_r7 | Reg_y0 | Reg_p | Reg_pc | Reg_sp |
    Reg_sv | Reg_lc | Reg_ar0 | Reg_ar1 | Reg_arp0 | Reg_arp1 | Reg_arp2 | Reg_arp3 |
    Reg_ext0 | Reg_ext1 | Reg_ext2 | Reg_ext3 | Reg_stt0 | Reg_stt1 | Reg_stt2 | Reg_st0 |
    Reg_st1 | Reg_st2 | Reg_cfgi | Reg_cfgj | Reg_mod0 | Reg_mod1 | Reg_mod2 | Reg_mod3 |
    Reg_undefine

datatype sum_base =
    Sum_Zero | Sum_Acc | Sum_Sv | Sum_SvRnd

datatype swap_type =
    Swap_a0b0 | Swap_a0b1 | Swap_a1b0 | Swap_a1b1 | Swap_a0b0a1b1 | Swap_a0b1a1b0 |
    Swap_a0b0a1 | Swap_a0b1a1 | Swap_a1b0a0 | Swap_a1b1a0 | Swap_b0a0b1 | Swap_b0a1b1 |
    Swap_b1a0b0 | Swap_b1a1b0 | Swap_reserved0 | Swap_reserved1

datatype step_value =
    Step_Zero | Step_Increase | Step_Decrease | Step_PlusStep | Step_Increase2Mode1 |
    Step_Decrease2Mode1 | Step_Increase2Mode2 | Step_Decrease2Mode2

datatype alm_op =
    Alm_Or | Alm_And | Alm_Xor | Alm_Add | Alm_Tst0 | Alm_Tst1 | Alm_Cmp | Alm_Sub | Alm_Msu
    | Alm_Addh | Alm_Addl | Alm_Subh | Alm_Subl | Alm_Sqr | Alm_Sqra | Alm_Cmpu |
    Alm_Reserved

datatype alb_op =
    Alb_Set | Alb_Rst | Alb_Chng | Alb_Addv | Alb_Tst0 | Alb_Tst1 | Alb_Cmpv | Alb_Subv

datatype mul_op =
    Mul_Mpy | Mul_Mpysu | Mul_Mac | Mul_Macus | Mul_Maa | Mul_Macuu | Mul_Macsu | Mul_Maasu

datatype moda_op =
    Moda_Shr | Moda_Shr4 | Moda_Shl | Moda_Shl4 | Moda_Ror | Moda_Rol | Moda_Clr |
    Moda_Reserved | Moda_Not | Moda_Neg | Moda_Rnd | Moda_Pacr | Moda_Clrr | Moda_Inc |
    Moda_Dec | Moda_Copy

datatype cond_value =
    Cond_True | Cond_Eq | Cond_Neq | Cond_Gt | Cond_Ge | Cond_Lt | Cond_Le | Cond_Nn |
    Cond_C | Cond_V | Cond_E | Cond_L | Cond_Nr | Cond_Niu0 | Cond_Iu0 | Cond_Iu1

datatype cbs_cond_value =
    Cbs_Ge | Cbs_Gt

section \<open>Operand values\<close>

text \<open>\<open>EnumOperand\<close> and \<open>EnumAllOperand\<close>: the enumerator a stored number selects.\<close>

definition operand_name :: "'a list \<Rightarrow> u16 \<Rightarrow> 'a" where
  "operand_name vs storage = vs ! unat storage"

definition Register_values :: "reg_name list" where
  "Register_values = [
     Reg_r0, Reg_r1, Reg_r2, Reg_r3, Reg_r4, Reg_r5, Reg_r7, Reg_y0, Reg_st0, Reg_st1,
     Reg_st2, Reg_p, Reg_pc, Reg_sp, Reg_cfgi, Reg_cfgj, Reg_b0h, Reg_b1h, Reg_b0l,
     Reg_b1l, Reg_ext0, Reg_ext1, Reg_ext2, Reg_ext3, Reg_a0, Reg_a1, Reg_a0l, Reg_a1l,
     Reg_a0h, Reg_a1h, Reg_lc, Reg_sv]"

definition Ax_values :: "reg_name list" where
  "Ax_values = [
     Reg_a0, Reg_a1]"

definition Axl_values :: "reg_name list" where
  "Axl_values = [
     Reg_a0l, Reg_a1l]"

definition Axh_values :: "reg_name list" where
  "Axh_values = [
     Reg_a0h, Reg_a1h]"

definition Bx_values :: "reg_name list" where
  "Bx_values = [
     Reg_b0, Reg_b1]"

definition Bxl_values :: "reg_name list" where
  "Bxl_values = [
     Reg_b0l, Reg_b1l]"

definition Bxh_values :: "reg_name list" where
  "Bxh_values = [
     Reg_b0h, Reg_b1h]"

definition Ab_values :: "reg_name list" where
  "Ab_values = [
     Reg_b0, Reg_b1, Reg_a0, Reg_a1]"

definition Abl_values :: "reg_name list" where
  "Abl_values = [
     Reg_b0l, Reg_b1l, Reg_a0l, Reg_a1l]"

definition Abh_values :: "reg_name list" where
  "Abh_values = [
     Reg_b0h, Reg_b1h, Reg_a0h, Reg_a1h]"

definition Abe_values :: "reg_name list" where
  "Abe_values = [
     Reg_b0e, Reg_b1e, Reg_a0e, Reg_a1e]"

definition Ablh_values :: "reg_name list" where
  "Ablh_values = [
     Reg_b0l, Reg_b0h, Reg_b1l, Reg_b1h, Reg_a0l, Reg_a0h, Reg_a1l, Reg_a1h]"

definition RnOld_values :: "reg_name list" where
  "RnOld_values = [
     Reg_r0, Reg_r1, Reg_r2, Reg_r3, Reg_r4, Reg_r5, Reg_r7, Reg_y0]"

definition Rn_values :: "reg_name list" where
  "Rn_values = [
     Reg_r0, Reg_r1, Reg_r2, Reg_r3, Reg_r4, Reg_r5, Reg_r6, Reg_r7]"

definition R45_values :: "reg_name list" where
  "R45_values = [
     Reg_r4, Reg_r5]"

definition R0123_values :: "reg_name list" where
  "R0123_values = [
     Reg_r0, Reg_r1, Reg_r2, Reg_r3]"

definition ArArpSttMod_values :: "reg_name list" where
  "ArArpSttMod_values = [
     Reg_ar0, Reg_ar1, Reg_arp0, Reg_arp1, Reg_arp2, Reg_arp3, Reg_undefine, Reg_undefine,
     Reg_stt0, Reg_stt1, Reg_stt2, Reg_undefine, Reg_mod0, Reg_mod1, Reg_mod2, Reg_mod3]"

definition ArArp_values :: "reg_name list" where
  "ArArp_values = [
     Reg_ar0, Reg_ar1, Reg_arp0, Reg_arp1, Reg_arp2, Reg_arp3, Reg_undefine, Reg_undefine]"

definition SttMod_values :: "reg_name list" where
  "SttMod_values = [
     Reg_stt0, Reg_stt1, Reg_stt2, Reg_undefine, Reg_mod0, Reg_mod1, Reg_mod2, Reg_mod3]"

definition Ar_values :: "reg_name list" where
  "Ar_values = [
     Reg_ar0, Reg_ar1]"

definition Arp_values :: "reg_name list" where
  "Arp_values = [
     Reg_arp0, Reg_arp1, Reg_arp2, Reg_arp3]"

definition StepZIDS_values :: "step_value list" where
  "StepZIDS_values = [
     Step_Zero, Step_Increase, Step_Decrease, Step_PlusStep]"

definition Alm_values :: "alm_op list" where
  "Alm_values = [
     Alm_Or, Alm_And, Alm_Xor, Alm_Add, Alm_Tst0, Alm_Tst1, Alm_Cmp, Alm_Sub, Alm_Msu,
     Alm_Addh, Alm_Addl, Alm_Subh, Alm_Subl, Alm_Sqr, Alm_Sqra, Alm_Cmpu]"

definition Alu_values :: "alm_op list" where
  "Alu_values = [
     Alm_Or, Alm_And, Alm_Xor, Alm_Add, Alm_Reserved, Alm_Reserved, Alm_Cmp, Alm_Sub]"

definition Alb_values :: "alb_op list" where
  "Alb_values = [
     Alb_Set, Alb_Rst, Alb_Chng, Alb_Addv, Alb_Tst0, Alb_Tst1, Alb_Cmpv, Alb_Subv]"

definition Mul3_values :: "mul_op list" where
  "Mul3_values = [
     Mul_Mpy, Mul_Mpysu, Mul_Mac, Mul_Macus, Mul_Maa, Mul_Macuu, Mul_Macsu, Mul_Maasu]"

definition Mul2_values :: "mul_op list" where
  "Mul2_values = [
     Mul_Mpy, Mul_Mac, Mul_Maa, Mul_Macsu]"

definition Moda4_values :: "moda_op list" where
  "Moda4_values = [
     Moda_Shr, Moda_Shr4, Moda_Shl, Moda_Shl4, Moda_Ror, Moda_Rol, Moda_Clr,
     Moda_Reserved, Moda_Not, Moda_Neg, Moda_Rnd, Moda_Pacr, Moda_Clrr, Moda_Inc,
     Moda_Dec, Moda_Copy]"

definition Moda3_values :: "moda_op list" where
  "Moda3_values = [
     Moda_Shr, Moda_Shr4, Moda_Shl, Moda_Shl4, Moda_Ror, Moda_Rol, Moda_Clr, Moda_Clrr]"

definition Cond_values :: "cond_value list" where
  "Cond_values = [
     Cond_True, Cond_Eq, Cond_Neq, Cond_Gt, Cond_Ge, Cond_Lt, Cond_Le, Cond_Nn, Cond_C,
     Cond_V, Cond_E, Cond_L, Cond_Nr, Cond_Niu0, Cond_Iu0, Cond_Iu1]"

definition SwapType_values :: "swap_type list" where
  "SwapType_values = [
     Swap_a0b0, Swap_a0b1, Swap_a1b0, Swap_a1b1, Swap_a0b0a1b1, Swap_a0b1a1b0,
     Swap_a0b0a1, Swap_a0b1a1, Swap_a1b0a0, Swap_a1b1a0, Swap_b0a0b1, Swap_b0a1b1,
     Swap_b1a0b0, Swap_b1a1b0, Swap_reserved0, Swap_reserved1]"

definition CbsCond_values :: "cbs_cond_value list" where
  "CbsCond_values = [
     Cbs_Ge, Cbs_Gt]"

text \<open>\<open>Register::GetNameForMovFromP\<close>.\<close>

definition name_for_mov_from_p :: "u16 \<Rightarrow> reg_name" where
  "name_for_mov_from_p storage = (if storage AND 1 \<noteq> 0 then Reg_a1 else Reg_a0)"

definition r45_index :: "u16 \<Rightarrow> nat" where
  "r45_index storage = unat storage + 4"

definition ar_index :: "nat \<Rightarrow> u16 \<Rightarrow> nat" where
  "ar_index offset storage = unat storage + offset"

definition address18 :: "u16 \<Rightarrow> u16 \<Rightarrow> u32" where
  "address18 low high = ucast low OR push_bit 16 (ucast high)"

definition relative32 :: "u16 \<Rightarrow> u32" where
  "relative32 storage = sign_extend 7 (ucast storage)"

definition signed16 :: "nat \<Rightarrow> u16 \<Rightarrow> u16" where
  "signed16 bits storage = sign_extend bits storage"

text \<open>\<open>BankFlags\<close>: which registers a bank exchange swaps.\<close>

definition bank_cfgi :: "u16 \<Rightarrow> bool" where "bank_cfgi storage \<longleftrightarrow> storage AND 1 \<noteq> 0"
definition bank_r4 :: "u16 \<Rightarrow> bool" where "bank_r4 storage \<longleftrightarrow> storage AND 2 \<noteq> 0"
definition bank_r1 :: "u16 \<Rightarrow> bool" where "bank_r1 storage \<longleftrightarrow> storage AND 4 \<noteq> 0"
definition bank_r0 :: "u16 \<Rightarrow> bool" where "bank_r0 storage \<longleftrightarrow> storage AND 8 \<noteq> 0"
definition bank_r7 :: "u16 \<Rightarrow> bool" where "bank_r7 storage \<longleftrightarrow> storage AND 16 \<noteq> 0"
definition bank_cfgj :: "u16 \<Rightarrow> bool" where "bank_cfgj storage \<longleftrightarrow> storage AND 32 \<noteq> 0"

section \<open>Extraction from an opcode\<close>

text \<open>\<open>At\<close>: the bits of an operand, or the whole expansion word for position 16.\<close>

definition at_mask :: "nat \<Rightarrow> nat \<Rightarrow> u16" where
  "at_mask bits pos = push_bit pos (mask bits)"

definition at_extract :: "nat \<Rightarrow> nat \<Rightarrow> u16 \<Rightarrow> u16 \<Rightarrow> u16" where
  "at_extract bits pos opcode expansion =
     (if pos = 16 then expansion else drop_bit pos (opcode AND at_mask bits pos))"

definition const_extract :: "u16 \<Rightarrow> u16 \<Rightarrow> u16 \<Rightarrow> u16" where
  "const_extract v opcode expansion = v"

definition at_const_pad :: "nat \<Rightarrow> u16 \<Rightarrow> u16" where
  "at_const_pad pos v = push_bit pos v"

section \<open>Lemmas\<close>

lemma at_extract_below: "pos \<noteq> 16 \<Longrightarrow> unat (at_extract bits pos opcode expansion) < 2 ^ bits"
proof -
  assume "pos \<noteq> 16"
  then have "at_extract bits pos opcode expansion = take_bit bits (drop_bit pos opcode)"
    unfolding at_extract_def at_mask_def by simp (rule bit_word_eqI, auto simp: bit_simps dest: bit_imp_le_length)
  then show ?thesis
    by (simp add: unsigned_take_bit_eq)
qed

lemma bit_sign_extend:
  "0 < n \<Longrightarrow> bit (sign_extend n (v :: 'a::len word)) i \<longleftrightarrow> i < LENGTH('a) \<and> bit v (if i < n then i else n - 1)"
  by (auto simp: sign_extend_def bit_simps dest: bit_imp_le_length)

lemma sign_extend_signed:
  "0 < n \<Longrightarrow> n \<le> LENGTH('a) \<Longrightarrow> sign_extend n (v :: 'a::len word) = signed_take_bit (n - 1) v"
proof (rule bit_word_eqI)
  fix i assume n: "0 < n" and "n \<le> LENGTH('a)" and i: "i < LENGTH('a)"
  then have "\<not> i < n - 1 \<Longrightarrow> i < n \<Longrightarrow> i = n - 1"
    by linarith
  with n i show "bit (sign_extend n v) i = bit (signed_take_bit (n - 1) v) i"
    by (cases "i < n"; cases "i < n - 1") (auto simp: bit_sign_extend bit_signed_take_bit_iff min_def)
qed

lemma sign_extend_idem: "0 < n \<Longrightarrow> sign_extend n (sign_extend n v) = sign_extend n (v :: 'a::len word)"
  by (rule bit_word_eqI) (auto simp: bit_sign_extend)

end
