(* ===== verification/Register_File.thy ===== *)
theory Register_File
  imports Operands
begin

unbundle bit_operations_syntax

text \<open>
  src/include/teakra/impl/register.h: the registers of the processor, in the groups of the
  header, each an extension of the record before it; the shadow registers of a context switch; and
  the conditions of conditional instructions. The field names are the source's with a prefix;
  an array is the list of its elements.
\<close>

section \<open>The registers\<close>

record block_repeat_frame =
  fr_start :: u32
  fr_end :: u32
  fr_lc :: u16

record program_control_unit =
  rg_pc :: u32
  rg_prpage :: u16
  rg_cpc :: u16
  rg_repc :: u16
  rg_repcs :: u16
  rg_rep :: bool
  rg_crep :: u16
  rg_bcn :: u16
  rg_lp :: u16
  rg_bkrep_stack :: "block_repeat_frame list"

record computation_unit = program_control_unit +
  rg_a :: "u64 list"
  rg_b :: "u64 list"
  rg_a1s :: u64
  rg_b1s :: u64
  rg_ccnta :: u16
  rg_sat :: u16
  rg_sata :: u16
  rg_s :: u16
  rg_sv :: u16
  rg_fz :: u16
  rg_fm :: u16
  rg_fn :: u16
  rg_fv :: u16
  rg_fe :: u16
  rg_fc0 :: u16
  rg_fc1 :: u16
  rg_flm :: u16
  rg_fvl :: u16
  rg_fr :: u16
  rg_vtr0 :: u16
  rg_vtr1 :: u16

record multiplication_unit = computation_unit +
  rg_x :: "u16 list"
  rg_y :: "u16 list"
  rg_hwm :: u16
  rg_p :: "u32 list"
  rg_pe :: "u16 list"
  rg_ps :: "u16 list"
  rg_p0h_cbs :: u16

record address_unit = multiplication_unit +
  rg_r :: "u16 list"
  rg_mixp :: u16
  rg_sp :: u16
  rg_page :: u16
  rg_pcmhi :: u16
  rg_r0b :: u16
  rg_r1b :: u16
  rg_r4b :: u16
  rg_r7b :: u16

record step_mod_unit = address_unit +
  rg_stepi :: u16
  rg_stepj :: u16
  rg_modi :: u16
  rg_modj :: u16
  rg_stepi0 :: u16
  rg_stepj0 :: u16
  rg_stepib :: u16
  rg_stepjb :: u16
  rg_modib :: u16
  rg_modjb :: u16
  rg_stepi0b :: u16
  rg_stepj0b :: u16
  rg_m :: "u16 list"
  rg_br :: "u16 list"
  rg_stp16 :: u16
  rg_cmd :: u16
  rg_epi :: u16
  rg_epj :: u16

record indirect_unit = step_mod_unit +
  rg_arstep :: "u16 list"
  rg_arpstepi :: "u16 list"
  rg_arpstepj :: "u16 list"
  rg_aroffset :: "u16 list"
  rg_arpoffseti :: "u16 list"
  rg_arpoffsetj :: "u16 list"
  rg_arrn :: "u16 list"
  rg_arprni :: "u16 list"
  rg_arprnj :: "u16 list"

record interrupt_unit = indirect_unit +
  rg_ip :: "u16 list"
  rg_ipv :: u16
  rg_im :: "u16 list"
  rg_imv :: u16
  rg_ic :: "u16 list"
  rg_nimc :: u16
  rg_ie :: u16
  rg_ou :: "u16 list"
  rg_iu :: "u16 list"
  rg_ext :: "u16 list"
  rg_mod0_unk_const :: u16

section \<open>Shadow registers\<close>

record flag_shadows =
  sh_flm :: u16
  sh_fvl :: u16
  sh_fe :: u16
  sh_fc0 :: u16
  sh_fc1 :: u16
  sh_fv :: u16
  sh_fn :: u16
  sh_fm :: u16
  sh_fz :: u16
  sh_fr :: u16

record swap_shadows =
  sw_pcmhi :: u16
  sw_sat :: u16
  sw_sata :: u16
  sw_hwm :: u16
  sw_s :: u16
  sw_ps :: "u16 list"
  sw_page :: u16
  sw_stp16 :: u16
  sw_cmd :: u16
  sw_m :: "u16 list"
  sw_br :: "u16 list"
  sw_im :: "u16 list"
  sw_imv :: u16
  sw_epi :: u16
  sw_epj :: u16

text \<open>The members of ShadowSwapAr and of ShadowSwapArp.\<close>

record ar_shadow =
  as_rni :: u16
  as_rnj :: u16
  as_stepi :: u16
  as_stepj :: u16
  as_offseti :: u16
  as_offsetj :: u16

record registers = interrupt_unit +
  rg_shadow :: flag_shadows
  rg_shadow_swap :: swap_shadows
  rg_shadow_ar :: "ar_shadow list"
  rg_shadow_arp :: "ar_shadow list"

section \<open>Reset\<close>

definition frame_initial :: block_repeat_frame where
  "frame_initial = \<lparr>fr_start = 0, fr_end = 0, fr_lc = 0\<rparr>"

definition flag_shadows_initial :: flag_shadows where
  "flag_shadows_initial = \<lparr>
     sh_flm = 0, sh_fvl = 0, sh_fe = 0, sh_fc0 = 0, sh_fc1 = 0, sh_fv = 0, sh_fn = 0, sh_fm
     = 0, sh_fz = 0, sh_fr = 0\<rparr>"

definition swap_shadows_initial :: swap_shadows where
  "swap_shadows_initial = \<lparr>
     sw_pcmhi = 0, sw_sat = 0, sw_sata = 0, sw_hwm = 0, sw_s = 0, sw_ps = replicate 2 0,
     sw_page = 0, sw_stp16 = 0, sw_cmd = 0, sw_m = replicate 8 0, sw_br = replicate 8 0,
     sw_im = replicate 3 0, sw_imv = 0, sw_epi = 0, sw_epj = 0\<rparr>"

definition ar_shadow_initial :: ar_shadow where
  "ar_shadow_initial = \<lparr>as_rni = 0, as_rnj = 0, as_stepi = 0, as_stepj = 0,
     as_offseti = 0, as_offsetj = 0\<rparr>"

text \<open>\<open>RegisterState()\<close>: the member initialisers, over a zero-initialised object.\<close>

definition registers_reset :: registers where
  "registers_reset = \<lparr>
     rg_pc = 0, rg_prpage = 0, rg_cpc = 1, rg_repc = 0, rg_repcs = 0, rg_rep = False,
     rg_crep = 1, rg_bcn = 0, rg_lp = 0, rg_bkrep_stack = replicate 4 frame_initial, rg_a =
     replicate 2 0, rg_b = replicate 2 0, rg_a1s = 0, rg_b1s = 0, rg_ccnta = 1, rg_sat = 0,
     rg_sata = 1, rg_s = 0, rg_sv = 0, rg_fz = 0, rg_fm = 0, rg_fn = 0, rg_fv = 0, rg_fe =
     0, rg_fc0 = 0, rg_fc1 = 0, rg_flm = 0, rg_fvl = 0, rg_fr = 0, rg_vtr0 = 0, rg_vtr1 = 0,
     rg_x = replicate 2 0, rg_y = replicate 2 0, rg_hwm = 0, rg_p = replicate 2 0, rg_pe =
     replicate 2 0, rg_ps = replicate 2 0, rg_p0h_cbs = 0, rg_r = replicate 8 0, rg_mixp =
     0, rg_sp = 0, rg_page = 0, rg_pcmhi = 0, rg_r0b = 0, rg_r1b = 0, rg_r4b = 0, rg_r7b =
     0, rg_stepi = 0, rg_stepj = 0, rg_modi = 0, rg_modj = 0, rg_stepi0 = 0, rg_stepj0 = 0,
     rg_stepib = 0, rg_stepjb = 0, rg_modib = 0, rg_modjb = 0, rg_stepi0b = 0, rg_stepj0b =
     0, rg_m = replicate 8 0, rg_br = replicate 8 0, rg_stp16 = 0, rg_cmd = 1, rg_epi = 0,
     rg_epj = 0, rg_arstep = [1, 4, 5, 3], rg_arpstepi = [1, 4, 5, 3], rg_arpstepj = [1, 4,
     5, 3], rg_aroffset = [0, 1, 2, 0], rg_arpoffseti = [0, 1, 2, 0], rg_arpoffsetj = [0, 1,
     2, 0], rg_arrn = [0, 4, 2, 6], rg_arprni = [0, 1, 2, 3], rg_arprnj = [0, 1, 2, 3],
     rg_ip = replicate 3 0, rg_ipv = 0, rg_im = replicate 3 0, rg_imv = 0, rg_ic = replicate
     3 0, rg_nimc = 0, rg_ie = 0, rg_ou = replicate 5 0, rg_iu = replicate 2 0, rg_ext =
     replicate 4 0, rg_mod0_unk_const = 1, rg_shadow = flag_shadows_initial, rg_shadow_swap
     = swap_shadows_initial, rg_shadow_ar = replicate 2 ar_shadow_initial, rg_shadow_arp =
     replicate 4 ar_shadow_initial\<rparr>"

section \<open>The counter of the innermost block repeat\<close>

definition frame_at :: "nat \<Rightarrow> registers \<Rightarrow> block_repeat_frame result" where
  "frame_at i r =
     (if i < length (rg_bkrep_stack r) then Inr (rg_bkrep_stack r ! i) else Inl OutOfBounds)"

definition put_frame :: "nat \<Rightarrow> block_repeat_frame \<Rightarrow> registers \<Rightarrow> registers" where
  "put_frame i f r = r\<lparr>rg_bkrep_stack := (rg_bkrep_stack r)[i := f]\<rparr>"

text \<open>The index \<open>bcn - 1\<close> of the code wraps for \<open>bcn = 0\<close>, which is past the end of the array.\<close>

definition lc_index :: "registers \<Rightarrow> nat" where
  "lc_index r = (if rg_lp r \<noteq> 0 then unat (ucast (rg_bcn r) - 1 :: u64) else 0)"

definition get_lc :: "registers \<Rightarrow> u16 result" where
  "get_lc r = rbind (frame_at (lc_index r) r) (\<lambda>f. Inr (fr_lc f))"

definition set_lc :: "u16 \<Rightarrow> registers \<Rightarrow> registers result" where
  "set_lc v r = rbind (frame_at (lc_index r) r) (\<lambda>f. Inr (put_frame (lc_index r) (f\<lparr>fr_lc := v\<rparr>) r))"

section \<open>Context switch\<close>

definition shadow_store :: "registers \<Rightarrow> registers" where
  "shadow_store r = r\<lparr>rg_shadow := \<lparr>
     sh_flm = rg_flm r, sh_fvl = rg_fvl r, sh_fe = rg_fe r, sh_fc0 = rg_fc0 r, sh_fc1 =
     rg_fc1 r, sh_fv = rg_fv r, sh_fn = rg_fn r, sh_fm = rg_fm r, sh_fz = rg_fz r, sh_fr =
     rg_fr r\<rparr>\<rparr>"

definition shadow_restore :: "registers \<Rightarrow> registers" where
  "shadow_restore r = r\<lparr>
     rg_flm := sh_flm (rg_shadow r), rg_fvl := sh_fvl (rg_shadow r), rg_fe := sh_fe
     (rg_shadow r), rg_fc0 := sh_fc0 (rg_shadow r), rg_fc1 := sh_fc1 (rg_shadow r), rg_fv :=
     sh_fv (rg_shadow r), rg_fn := sh_fn (rg_shadow r), rg_fm := sh_fm (rg_shadow r), rg_fz
     := sh_fz (rg_shadow r), rg_fr := sh_fr (rg_shadow r)\<rparr>"

definition swap_shadow_registers :: "registers \<Rightarrow> registers" where
  "swap_shadow_registers r = (let w = rg_shadow_swap r in r\<lparr>
     rg_pcmhi := sw_pcmhi w, rg_sat := sw_sat w, rg_sata := sw_sata w, rg_hwm := sw_hwm w,
     rg_s := sw_s w, rg_ps := sw_ps w, rg_page := sw_page w, rg_stp16 := sw_stp16 w, rg_cmd
     := sw_cmd w, rg_m := sw_m w, rg_br := sw_br w, rg_im := sw_im w, rg_imv := sw_imv w,
     rg_epi := sw_epi w, rg_epj := sw_epj w,
     rg_shadow_swap := \<lparr>
     sw_pcmhi = rg_pcmhi r, sw_sat = rg_sat r, sw_sata = rg_sata r, sw_hwm = rg_hwm r, sw_s
     = rg_s r, sw_ps = rg_ps r, sw_page = rg_page r, sw_stp16 = rg_stp16 r, sw_cmd = rg_cmd
     r, sw_m = rg_m r, sw_br = rg_br r, sw_im = rg_im r, sw_imv = rg_imv r, sw_epi = rg_epi
     r, sw_epj = rg_epj r\<rparr>\<rparr>)"

definition swap_ar :: "nat \<Rightarrow> registers \<Rightarrow> registers" where
  "swap_ar i r = (let w = rg_shadow_ar r ! i; k = 2 * i; l = 2 * i + 1 in r\<lparr>
     rg_arrn := (rg_arrn r)[k := as_rni w, l := as_rnj w],
     rg_arstep := (rg_arstep r)[k := as_stepi w, l := as_stepj w],
     rg_aroffset := (rg_aroffset r)[k := as_offseti w, l := as_offsetj w],
     rg_shadow_ar := (rg_shadow_ar r)[i := \<lparr>
       as_rni = rg_arrn r ! k, as_rnj = rg_arrn r ! l,
       as_stepi = rg_arstep r ! k, as_stepj = rg_arstep r ! l,
       as_offseti = rg_aroffset r ! k, as_offsetj = rg_aroffset r ! l\<rparr>]\<rparr>)"

definition swap_arp :: "nat \<Rightarrow> registers \<Rightarrow> registers" where
  "swap_arp i r = (let w = rg_shadow_arp r ! i in r\<lparr>
     rg_arprni := (rg_arprni r)[i := as_rni w],
     rg_arprnj := (rg_arprnj r)[i := as_rnj w],
     rg_arpstepi := (rg_arpstepi r)[i := as_stepi w],
     rg_arpstepj := (rg_arpstepj r)[i := as_stepj w],
     rg_arpoffseti := (rg_arpoffseti r)[i := as_offseti w],
     rg_arpoffsetj := (rg_arpoffsetj r)[i := as_offsetj w],
     rg_shadow_arp := (rg_shadow_arp r)[i := \<lparr>
       as_rni = rg_arprni r ! i, as_rnj = rg_arprnj r ! i,
       as_stepi = rg_arpstepi r ! i, as_stepj = rg_arpstepj r ! i,
       as_offseti = rg_arpoffseti r ! i, as_offsetj = rg_arpoffsetj r ! i\<rparr>]\<rparr>)"

definition swap_all_ar_arp :: "registers \<Rightarrow> registers" where
  "swap_all_ar_arp r =
     swap_arp 3 (swap_arp 2 (swap_arp 1 (swap_arp 0 (swap_ar 1 (swap_ar 0 r)))))"

definition shadow_swap :: "registers \<Rightarrow> registers" where
  "shadow_swap r = swap_all_ar_arp (swap_shadow_registers r)"

text \<open>\<open>SwapAr\<close> and \<open>SwapArp\<close> ignore an index without a case.\<close>

definition swap_ar_index :: "u16 \<Rightarrow> registers \<Rightarrow> registers" where
  "swap_ar_index i r = (if i = 0 then swap_ar 0 r else if i = 1 then swap_ar 1 r else r)"

definition swap_arp_index :: "u16 \<Rightarrow> registers \<Rightarrow> registers" where
  "swap_arp_index i r =
     (if i = 0 then swap_arp 0 r else if i = 1 then swap_arp 1 r
      else if i = 2 then swap_arp 2 r else if i = 3 then swap_arp 3 r else r)"

section \<open>Conditions\<close>

fun condition_pass :: "cond_value \<Rightarrow> registers \<Rightarrow> bool" where
  "condition_pass Cond_True r = True"
| "condition_pass Cond_Eq r = (rg_fz r = 1)"
| "condition_pass Cond_Neq r = (rg_fz r = 0)"
| "condition_pass Cond_Gt r = (rg_fz r = 0 \<and> rg_fm r = 0)"
| "condition_pass Cond_Ge r = (rg_fm r = 0)"
| "condition_pass Cond_Lt r = (rg_fm r = 1)"
| "condition_pass Cond_Le r = (rg_fm r = 1 \<or> rg_fz r = 1)"
| "condition_pass Cond_Nn r = (rg_fn r = 0)"
| "condition_pass Cond_C r = (rg_fc0 r = 1)"
| "condition_pass Cond_V r = (rg_fv r = 1)"
| "condition_pass Cond_E r = (rg_fe r = 1)"
| "condition_pass Cond_L r = (rg_flm r = 1 \<or> rg_fvl r = 1)"
| "condition_pass Cond_Nr r = (rg_fr r = 0)"
| "condition_pass Cond_Niu0 r = (rg_iu r ! 0 = 0)"
| "condition_pass Cond_Iu0 r = (rg_iu r ! 0 = 1)"
| "condition_pass Cond_Iu1 r = (rg_iu r ! 1 = 1)"

section \<open>The shape of the registers\<close>

definition registers_ok :: "registers \<Rightarrow> bool" where
  "registers_ok r \<longleftrightarrow>
     length (rg_bkrep_stack r) = 4 \<and>
     length (rg_a r) = 2 \<and> length (rg_b r) = 2 \<and>
     length (rg_x r) = 2 \<and> length (rg_y r) = 2 \<and> length (rg_p r) = 2 \<and>
     length (rg_pe r) = 2 \<and> length (rg_ps r) = 2 \<and>
     length (rg_r r) = 8 \<and> length (rg_m r) = 8 \<and> length (rg_br r) = 8 \<and>
     length (rg_arstep r) = 4 \<and> length (rg_arpstepi r) = 4 \<and> length (rg_arpstepj r) = 4 \<and>
     length (rg_aroffset r) = 4 \<and> length (rg_arpoffseti r) = 4 \<and> length (rg_arpoffsetj r) = 4 \<and>
     length (rg_arrn r) = 4 \<and> length (rg_arprni r) = 4 \<and> length (rg_arprnj r) = 4 \<and>
     length (rg_ip r) = 3 \<and> length (rg_im r) = 3 \<and> length (rg_ic r) = 3 \<and>
     length (rg_ou r) = 5 \<and> length (rg_iu r) = 2 \<and> length (rg_ext r) = 4 \<and>
     length (rg_shadow_ar r) = 2 \<and> length (rg_shadow_arp r) = 4 \<and>
     length (sw_ps (rg_shadow_swap r)) = 2 \<and> length (sw_m (rg_shadow_swap r)) = 8 \<and>
     length (sw_br (rg_shadow_swap r)) = 8 \<and> length (sw_im (rg_shadow_swap r)) = 3"

lemma registers_reset_ok: "registers_ok registers_reset"
  by (simp add: registers_ok_def registers_reset_def swap_shadows_initial_def)

section \<open>The contract of a bank exchange\<close>

text \<open>
  An exchange of registers with their shadows: done twice it changes nothing. Two exchanges that
  commute make an exchange together.
\<close>

locale bank_exchange =
  fixes swap :: "'r \<Rightarrow> 'r" and ok :: "'r \<Rightarrow> bool"
  assumes swap_swap: "ok r \<Longrightarrow> swap (swap r) = r"
    and swap_ok: "ok r \<Longrightarrow> ok (swap r)"
begin

lemma swap_even: "ok r \<Longrightarrow> (swap ^^ (2 * n)) r = r"
  by (induction n) (simp_all add: swap_swap)

lemma swap_odd: "ok r \<Longrightarrow> (swap ^^ (2 * n + 1)) r = swap r"
  using swap_even [of r n] by simp

lemma swap_inj: "ok r \<Longrightarrow> ok r' \<Longrightarrow> swap r = swap r' \<Longrightarrow> r = r'"
  using swap_swap by metis

end

locale bank_pair = first: bank_exchange f ok + second: bank_exchange g ok
  for f g :: "'r \<Rightarrow> 'r" and ok +
  assumes commute: "ok r \<Longrightarrow> f (g r) = g (f r)"
begin

lemma pair_exchange: "bank_exchange (\<lambda>r. f (g r)) ok"
proof unfold_locales
  show "f (g (f (g r))) = r" if "ok r" for r
    using that commute [of "g r"] first.swap_swap second.swap_swap second.swap_ok by metis
  show "ok (f (g r))" if "ok r" for r
    using that first.swap_ok second.swap_ok by blast
qed

end

sublocale bank_pair \<subseteq> pair: bank_exchange "\<lambda>r. f (g r)" ok
  by (rule pair_exchange)

lemma swap_ar_ok: "registers_ok r \<Longrightarrow> registers_ok (swap_ar i r)"
  by (simp add: registers_ok_def swap_ar_def Let_def)

lemma swap_arp_ok: "registers_ok r \<Longrightarrow> registers_ok (swap_arp i r)"
  by (simp add: registers_ok_def swap_arp_def Let_def)

lemma swap_shadow_registers_ok: "registers_ok r \<Longrightarrow> registers_ok (swap_shadow_registers r)"
  by (simp add: registers_ok_def swap_shadow_registers_def Let_def)

interpretation exchange_shadow: bank_exchange swap_shadow_registers registers_ok
  by unfold_locales (simp_all add: swap_shadow_registers_ok, simp add: swap_shadow_registers_def Let_def)

lemma list_update_both [simp]:
  "k \<noteq> l \<Longrightarrow> xs[k := a, l := b, k := c] = xs[k := c, l := b]"
  by (metis list_update_overwrite list_update_swap)

lemma ar_shadow_eta [simp]:
  "\<lparr>as_rni = as_rni w, as_rnj = as_rnj w, as_stepi = as_stepi w, as_stepj = as_stepj w,
    as_offseti = as_offseti w, as_offsetj = as_offsetj w\<rparr> = w"
  by (cases w) simp

lemma swap_ar_twice: "registers_ok r \<Longrightarrow> i < 2 \<Longrightarrow> swap_ar i (swap_ar i r) = r"
  by (simp add: swap_ar_def Let_def registers_ok_def list_update_swap)

lemma swap_arp_twice: "registers_ok r \<Longrightarrow> i < 4 \<Longrightarrow> swap_arp i (swap_arp i r) = r"
  by (simp add: swap_arp_def Let_def registers_ok_def)


interpretation exchange_ar0: bank_exchange "swap_ar 0" registers_ok
  by unfold_locales (simp_all add: swap_ar_twice swap_ar_ok)

interpretation exchange_arp0: bank_exchange "swap_arp 0" registers_ok
  by unfold_locales (simp_all add: swap_arp_twice swap_arp_ok)

text \<open>The exchanges of different banks commute, so ShadowSwap is an exchange as well.\<close>

lemma swap_ar_ar_commute: "registers_ok r \<Longrightarrow> swap_ar 1 (swap_ar 0 r) = swap_ar 0 (swap_ar 1 r)"
  by (simp add: swap_ar_def Let_def registers_ok_def list_update_swap)

lemma swap_arp_arp_commute:
  "i \<noteq> j \<Longrightarrow> swap_arp i (swap_arp j r) = swap_arp j (swap_arp i r)"
  by (simp add: swap_arp_def Let_def list_update_swap)

lemma swap_ar_arp_commute: "swap_arp i (swap_ar j r) = swap_ar j (swap_arp i r)"
  by (simp add: swap_arp_def swap_ar_def Let_def)

lemma swap_arp_shadow_commute: "swap_arp i (swap_shadow_registers r) = swap_shadow_registers (swap_arp i r)"
  by (simp add: swap_arp_def swap_shadow_registers_def Let_def)

lemma swap_ar_shadow_commute: "swap_ar i (swap_shadow_registers r) = swap_shadow_registers (swap_ar i r)"
  by (simp add: swap_ar_def swap_shadow_registers_def Let_def)

interpretation exchange_1: bank_pair "swap_ar 0" swap_shadow_registers registers_ok
  by unfold_locales (simp add: swap_ar_shadow_commute)

interpretation exchange_2: bank_pair "swap_ar 1" "\<lambda>r. swap_ar 0 (swap_shadow_registers r)" registers_ok
  by unfold_locales
    (simp_all add: swap_ar_twice swap_ar_ok swap_shadow_registers_ok swap_ar_ar_commute [unfolded One_nat_def]
      swap_ar_shadow_commute)

interpretation exchange_3: bank_pair "swap_arp 0"
    "\<lambda>r. swap_ar 1 (swap_ar 0 (swap_shadow_registers r))" registers_ok
  by unfold_locales (simp add: swap_ar_arp_commute swap_arp_shadow_commute)

interpretation exchange_4: bank_pair "swap_arp 1"
    "\<lambda>r. swap_arp 0 (swap_ar 1 (swap_ar 0 (swap_shadow_registers r)))" registers_ok
  by unfold_locales
    (simp_all add: swap_arp_twice swap_arp_ok swap_ar_arp_commute swap_arp_shadow_commute
      swap_arp_arp_commute [of "Suc 0" 0])

interpretation exchange_5: bank_pair "swap_arp 2"
    "\<lambda>r. swap_arp 1 (swap_arp 0 (swap_ar 1 (swap_ar 0 (swap_shadow_registers r))))" registers_ok
  by unfold_locales
    (simp_all add: swap_arp_twice swap_arp_ok swap_ar_arp_commute swap_arp_shadow_commute
      swap_arp_arp_commute [of 2 "Suc 0"] swap_arp_arp_commute [of 2 0])

interpretation exchange_all: bank_pair "swap_arp 3"
    "\<lambda>r. swap_arp 2 (swap_arp 1 (swap_arp 0 (swap_ar 1 (swap_ar 0 (swap_shadow_registers r)))))" registers_ok
  by unfold_locales
    (simp_all add: swap_arp_twice swap_arp_ok swap_ar_arp_commute swap_arp_shadow_commute
      swap_arp_arp_commute [of 3 2] swap_arp_arp_commute [of 3 "Suc 0"] swap_arp_arp_commute [of 3 0])

lemma shadow_swap_chain:
  "shadow_swap r = swap_arp 3 (swap_arp 2 (swap_arp 1 (swap_arp 0 (swap_ar 1 (swap_ar 0 (swap_shadow_registers r))))))"
  by (simp add: shadow_swap_def swap_all_ar_arp_def)

section \<open>Properties\<close>

text \<open>
  Switching the banks of registers with their shadows on an interrupt and back on the return
  changes nothing: two exchanges cancel, for the whole set of shadowed registers, and the shape
  of the registers is kept in between.
\<close>

theorem shadow_swap_involution:
  assumes "registers_ok r"
  shows "shadow_swap (shadow_swap r) = r \<and> registers_ok (shadow_swap r)"
  unfolding shadow_swap_chain
  using exchange_all.pair.swap_swap [OF assms] exchange_all.pair.swap_ok [OF assms] by simp

lemma shadow_swap_involution_witness:
  "shadow_swap (shadow_swap registers_reset) = registers_reset \<and> registers_ok (shadow_swap registers_reset)"
  by (rule shadow_swap_involution [OF registers_reset_ok])

definition flags_of :: "registers \<Rightarrow> u16 list" where
  "flags_of r = [rg_flm r, rg_fvl r, rg_fe r, rg_fc0 r, rg_fc1 r, rg_fv r, rg_fn r, rg_fm r, rg_fz r, rg_fr r]"

text \<open>
  The flags survive a context switch: after ShadowStore, whatever the handler does to them,
  ShadowRestore brings back exactly the ten flags stored, and touches no other register.
\<close>

theorem shadow_restore_flags:
  assumes "rg_shadow r' = rg_shadow (shadow_store r)"
  shows "flags_of (shadow_restore r') = flags_of r \<and>
    (shadow_restore r')\<lparr>rg_flm := rg_flm r', rg_fvl := rg_fvl r', rg_fe := rg_fe r',
      rg_fc0 := rg_fc0 r', rg_fc1 := rg_fc1 r', rg_fv := rg_fv r', rg_fn := rg_fn r',
      rg_fm := rg_fm r', rg_fz := rg_fz r', rg_fr := rg_fr r'\<rparr> = r'"
  using assms by (simp add: flags_of_def shadow_restore_def shadow_store_def)

lemma shadow_restore_flags_witness:
  "let r = registers_reset\<lparr>rg_fz := 1, rg_fc0 := 1\<rparr>; r' = (shadow_store r)\<lparr>rg_fz := 0, rg_pc := 7\<rparr> in
   flags_of (shadow_restore r') = flags_of r"
  using shadow_restore_flags [of "(shadow_store (registers_reset\<lparr>rg_fz := 1, rg_fc0 := 1\<rparr>))\<lparr>rg_fz := 0, rg_pc := 7\<rparr>"
      "registers_reset\<lparr>rg_fz := 1, rg_fc0 := 1\<rparr>"] by simp

end
