(* ===== verification/Pseudo_Registers.thy ===== *)
theory Pseudo_Registers
  imports Register_File
begin

unbundle bit_operations_syntax

text \<open>
  The second half of src/include/teakra/impl/register.h: the status, mode and configuration words a
  program reads and writes, each a list of bit fields over registers. A proxy is the pair of
  access functions the redirector templates stand for.
\<close>

section \<open>Proxies\<close>

record proxy =
  px_get :: "registers \<Rightarrow> u16"
  px_set :: "u16 \<Rightarrow> registers \<Rightarrow> registers"

definition redirector :: "(registers \<Rightarrow> u16) \<Rightarrow> ((u16 \<Rightarrow> u16) \<Rightarrow> registers \<Rightarrow> registers) \<Rightarrow> proxy" where
  "redirector sel upd = \<lparr>px_get = sel, px_set = (\<lambda>v. upd (\<lambda>_. v))\<rparr>"

definition array_redirector :: "(registers \<Rightarrow> u16 list)
    \<Rightarrow> ((u16 list \<Rightarrow> u16 list) \<Rightarrow> registers \<Rightarrow> registers) \<Rightarrow> nat \<Rightarrow> proxy" where
  "array_redirector sel upd i = \<lparr>px_get = (\<lambda>r. sel r ! i), px_set = (\<lambda>v. upd (\<lambda>xs. xs[i := v]))\<rparr>"

definition double_redirector :: "(registers \<Rightarrow> u16) \<Rightarrow> ((u16 \<Rightarrow> u16) \<Rightarrow> registers \<Rightarrow> registers)
    \<Rightarrow> (registers \<Rightarrow> u16) \<Rightarrow> ((u16 \<Rightarrow> u16) \<Rightarrow> registers \<Rightarrow> registers) \<Rightarrow> proxy" where
  "double_redirector sel0 upd0 sel1 upd1 =
     \<lparr>px_get = (\<lambda>r. sel0 r OR sel1 r), px_set = (\<lambda>v r. upd0 (\<lambda>_. v) (upd1 (\<lambda>_. v) r))\<rparr>"

definition ro_redirector :: "(registers \<Rightarrow> u16) \<Rightarrow> proxy" where
  "ro_redirector sel = \<lparr>px_get = sel, px_set = (\<lambda>v r. r)\<rparr>"

definition array_ro_redirector :: "(registers \<Rightarrow> u16 list) \<Rightarrow> nat \<Rightarrow> proxy" where
  "array_ro_redirector sel i = \<lparr>px_get = (\<lambda>r. sel r ! i), px_set = (\<lambda>v r. r)\<rparr>"

definition acc_e_proxy :: "nat \<Rightarrow> proxy" where
  "acc_e_proxy i = \<lparr>
     px_get = (\<lambda>r. ucast (drop_bit 32 (rg_a r ! i) AND 0xF)),
     px_set = (\<lambda>v r.
       let value32 = sign_extend 4 (ucast v :: u32) in
       r\<lparr>rg_a := (rg_a r)[i := (rg_a r ! i AND 0xFFFFFFFF) OR push_bit 32 (ucast value32)]\<rparr>)\<rparr>"

definition lp_redirector :: proxy where
  "lp_redirector = \<lparr>
     px_get = rg_lp,
     px_set = (\<lambda>v r. if v \<noteq> 0 then r\<lparr>rg_lp := 0, rg_bcn := 0\<rparr> else r)\<rparr>"

section \<open>Pseudo registers\<close>

record proxy_slot =
  ps_proxy :: proxy
  ps_pos :: nat
  ps_len :: nat

definition proxy_slot_of :: "proxy \<Rightarrow> nat \<Rightarrow> nat \<Rightarrow> proxy_slot" where
  "proxy_slot_of p pos len = \<lparr>ps_proxy = p, ps_pos = pos, ps_len = len\<rparr>"

definition ps_mask :: "proxy_slot \<Rightarrow> u16" where
  "ps_mask slot = push_bit (ps_pos slot) (mask (ps_len slot))"

fun pseudo_get :: "proxy_slot list \<Rightarrow> registers \<Rightarrow> u16" where
  "pseudo_get [] r = 0"
| "pseudo_get (slot # slots) r =
     push_bit (ps_pos slot) (px_get (ps_proxy slot) r) OR pseudo_get slots r"

fun pseudo_set :: "proxy_slot list \<Rightarrow> u16 \<Rightarrow> registers \<Rightarrow> registers" where
  "pseudo_set [] v r = r"
| "pseudo_set (slot # slots) v r =
     pseudo_set slots v
       (px_set (ps_proxy slot) (drop_bit (ps_pos slot) v AND mask (ps_len slot)) r)"

definition cfgi_slots :: "proxy_slot list" where
  "cfgi_slots = [
     proxy_slot_of (redirector rg_stepi rg_stepi_update) 0 7,
     proxy_slot_of (redirector rg_modi rg_modi_update) 7 9]"

definition cfgj_slots :: "proxy_slot list" where
  "cfgj_slots = [
     proxy_slot_of (redirector rg_stepj rg_stepj_update) 0 7,
     proxy_slot_of (redirector rg_modj rg_modj_update) 7 9]"

definition stt0_slots :: "proxy_slot list" where
  "stt0_slots = [
     proxy_slot_of (redirector rg_flm rg_flm_update) 0 1,
     proxy_slot_of (redirector rg_fvl rg_fvl_update) 1 1,
     proxy_slot_of (redirector rg_fe rg_fe_update) 2 1,
     proxy_slot_of (redirector rg_fc0 rg_fc0_update) 3 1,
     proxy_slot_of (redirector rg_fv rg_fv_update) 4 1,
     proxy_slot_of (redirector rg_fn rg_fn_update) 5 1,
     proxy_slot_of (redirector rg_fm rg_fm_update) 6 1,
     proxy_slot_of (redirector rg_fz rg_fz_update) 7 1,
     proxy_slot_of (redirector rg_fc1 rg_fc1_update) 11 1]"

definition stt1_slots :: "proxy_slot list" where
  "stt1_slots = [
     proxy_slot_of (redirector rg_fr rg_fr_update) 4 1,
     proxy_slot_of (array_ro_redirector rg_iu 0) 10 1,
     proxy_slot_of (array_ro_redirector rg_iu 1) 11 1,
     proxy_slot_of (array_redirector rg_pe rg_pe_update 0) 14 1,
     proxy_slot_of (array_redirector rg_pe rg_pe_update 1) 15 1]"

definition stt2_slots :: "proxy_slot list" where
  "stt2_slots = [
     proxy_slot_of (array_ro_redirector rg_ip 0) 0 1,
     proxy_slot_of (array_ro_redirector rg_ip 1) 1 1,
     proxy_slot_of (array_ro_redirector rg_ip 2) 2 1,
     proxy_slot_of (ro_redirector rg_ipv) 3 1,
     proxy_slot_of (redirector rg_pcmhi rg_pcmhi_update) 6 2,
     proxy_slot_of (ro_redirector rg_bcn) 12 3,
     proxy_slot_of lp_redirector 15 1]"

definition mod0_slots :: "proxy_slot list" where
  "mod0_slots = [
     proxy_slot_of (redirector rg_sat rg_sat_update) 0 1,
     proxy_slot_of (redirector rg_sata rg_sata_update) 1 1,
     proxy_slot_of (ro_redirector rg_mod0_unk_const) 2 3,
     proxy_slot_of (redirector rg_hwm rg_hwm_update) 5 2,
     proxy_slot_of (redirector rg_s rg_s_update) 7 1,
     proxy_slot_of (array_redirector rg_ou rg_ou_update 0) 8 1,
     proxy_slot_of (array_redirector rg_ou rg_ou_update 1) 9 1,
     proxy_slot_of (array_redirector rg_ps rg_ps_update 0) 10 2,
     proxy_slot_of (array_redirector rg_ps rg_ps_update 1) 13 2]"

definition mod1_slots :: "proxy_slot list" where
  "mod1_slots = [
     proxy_slot_of (redirector rg_page rg_page_update) 0 8,
     proxy_slot_of (redirector rg_stp16 rg_stp16_update) 12 1,
     proxy_slot_of (redirector rg_cmd rg_cmd_update) 13 1,
     proxy_slot_of (redirector rg_epi rg_epi_update) 14 1,
     proxy_slot_of (redirector rg_epj rg_epj_update) 15 1]"

definition mod2_slots :: "proxy_slot list" where
  "mod2_slots = [
     proxy_slot_of (array_redirector rg_m rg_m_update 0) 0 1,
     proxy_slot_of (array_redirector rg_m rg_m_update 1) 1 1,
     proxy_slot_of (array_redirector rg_m rg_m_update 2) 2 1,
     proxy_slot_of (array_redirector rg_m rg_m_update 3) 3 1,
     proxy_slot_of (array_redirector rg_m rg_m_update 4) 4 1,
     proxy_slot_of (array_redirector rg_m rg_m_update 5) 5 1,
     proxy_slot_of (array_redirector rg_m rg_m_update 6) 6 1,
     proxy_slot_of (array_redirector rg_m rg_m_update 7) 7 1,
     proxy_slot_of (array_redirector rg_br rg_br_update 0) 8 1,
     proxy_slot_of (array_redirector rg_br rg_br_update 1) 9 1,
     proxy_slot_of (array_redirector rg_br rg_br_update 2) 10 1,
     proxy_slot_of (array_redirector rg_br rg_br_update 3) 11 1,
     proxy_slot_of (array_redirector rg_br rg_br_update 4) 12 1,
     proxy_slot_of (array_redirector rg_br rg_br_update 5) 13 1,
     proxy_slot_of (array_redirector rg_br rg_br_update 6) 14 1,
     proxy_slot_of (array_redirector rg_br rg_br_update 7) 15 1]"

definition mod3_slots :: "proxy_slot list" where
  "mod3_slots = [
     proxy_slot_of (redirector rg_nimc rg_nimc_update) 0 1,
     proxy_slot_of (array_redirector rg_ic rg_ic_update 0) 1 1,
     proxy_slot_of (array_redirector rg_ic rg_ic_update 1) 2 1,
     proxy_slot_of (array_redirector rg_ic rg_ic_update 2) 3 1,
     proxy_slot_of (array_redirector rg_ou rg_ou_update 2) 4 1,
     proxy_slot_of (array_redirector rg_ou rg_ou_update 3) 5 1,
     proxy_slot_of (array_redirector rg_ou rg_ou_update 4) 6 1,
     proxy_slot_of (redirector rg_ie rg_ie_update) 7 1,
     proxy_slot_of (array_redirector rg_im rg_im_update 0) 8 1,
     proxy_slot_of (array_redirector rg_im rg_im_update 1) 9 1,
     proxy_slot_of (array_redirector rg_im rg_im_update 2) 10 1,
     proxy_slot_of (redirector rg_imv rg_imv_update) 11 1,
     proxy_slot_of (redirector rg_ccnta rg_ccnta_update) 13 1,
     proxy_slot_of (redirector rg_cpc rg_cpc_update) 14 1,
     proxy_slot_of (redirector rg_crep rg_crep_update) 15 1]"

definition st0_slots :: "proxy_slot list" where
  "st0_slots = [
     proxy_slot_of (redirector rg_sat rg_sat_update) 0 1,
     proxy_slot_of (redirector rg_ie rg_ie_update) 1 1,
     proxy_slot_of (array_redirector rg_im rg_im_update 0) 2 1,
     proxy_slot_of (array_redirector rg_im rg_im_update 1) 3 1,
     proxy_slot_of (redirector rg_fr rg_fr_update) 4 1,
     proxy_slot_of (double_redirector rg_flm rg_flm_update rg_fvl rg_fvl_update) 5 1,
     proxy_slot_of (redirector rg_fe rg_fe_update) 6 1,
     proxy_slot_of (redirector rg_fc0 rg_fc0_update) 7 1,
     proxy_slot_of (redirector rg_fv rg_fv_update) 8 1,
     proxy_slot_of (redirector rg_fn rg_fn_update) 9 1,
     proxy_slot_of (redirector rg_fm rg_fm_update) 10 1,
     proxy_slot_of (redirector rg_fz rg_fz_update) 11 1,
     proxy_slot_of (acc_e_proxy 0) 12 4]"

definition st1_slots :: "proxy_slot list" where
  "st1_slots = [
     proxy_slot_of (redirector rg_page rg_page_update) 0 8,
     proxy_slot_of (array_redirector rg_ps rg_ps_update 0) 10 2,
     proxy_slot_of (acc_e_proxy 1) 12 4]"

definition st2_slots :: "proxy_slot list" where
  "st2_slots = [
     proxy_slot_of (array_redirector rg_m rg_m_update 0) 0 1,
     proxy_slot_of (array_redirector rg_m rg_m_update 1) 1 1,
     proxy_slot_of (array_redirector rg_m rg_m_update 2) 2 1,
     proxy_slot_of (array_redirector rg_m rg_m_update 3) 3 1,
     proxy_slot_of (array_redirector rg_m rg_m_update 4) 4 1,
     proxy_slot_of (array_redirector rg_m rg_m_update 5) 5 1,
     proxy_slot_of (array_redirector rg_im rg_im_update 2) 6 1,
     proxy_slot_of (redirector rg_s rg_s_update) 7 1,
     proxy_slot_of (array_redirector rg_ou rg_ou_update 0) 8 1,
     proxy_slot_of (array_redirector rg_ou rg_ou_update 1) 9 1,
     proxy_slot_of (array_ro_redirector rg_iu 0) 10 1,
     proxy_slot_of (array_ro_redirector rg_iu 1) 11 1,
     proxy_slot_of (array_ro_redirector rg_ip 2) 13 1,
     proxy_slot_of (array_ro_redirector rg_ip 0) 14 1,
     proxy_slot_of (array_ro_redirector rg_ip 1) 15 1]"

definition icr_slots :: "proxy_slot list" where
  "icr_slots = [
     proxy_slot_of (redirector rg_nimc rg_nimc_update) 0 1,
     proxy_slot_of (array_redirector rg_ic rg_ic_update 0) 1 1,
     proxy_slot_of (array_redirector rg_ic rg_ic_update 1) 2 1,
     proxy_slot_of (array_redirector rg_ic rg_ic_update 2) 3 1,
     proxy_slot_of lp_redirector 4 1,
     proxy_slot_of (ro_redirector rg_bcn) 5 3]"

definition ar_slots :: "nat \<Rightarrow> proxy_slot list" where
  "ar_slots index = [
     proxy_slot_of (array_redirector rg_arstep rg_arstep_update (index * 2 + 1)) 0 3,
     proxy_slot_of (array_redirector rg_aroffset rg_aroffset_update (index * 2 + 1)) 3 2,
     proxy_slot_of (array_redirector rg_arstep rg_arstep_update (index * 2)) 5 3,
     proxy_slot_of (array_redirector rg_aroffset rg_aroffset_update (index * 2)) 8 2,
     proxy_slot_of (array_redirector rg_arrn rg_arrn_update (index * 2 + 1)) 10 3,
     proxy_slot_of (array_redirector rg_arrn rg_arrn_update (index * 2)) 13 3]"

definition arp_slots :: "nat \<Rightarrow> proxy_slot list" where
  "arp_slots index = [
     proxy_slot_of (array_redirector rg_arpstepi rg_arpstepi_update index) 0 3,
     proxy_slot_of (array_redirector rg_arpoffseti rg_arpoffseti_update index) 3 2,
     proxy_slot_of (array_redirector rg_arpstepj rg_arpstepj_update index) 5 3,
     proxy_slot_of (array_redirector rg_arpoffsetj rg_arpoffsetj_update index) 8 2,
     proxy_slot_of (array_redirector rg_arprni rg_arprni_update index) 10 2,
     proxy_slot_of (array_redirector rg_arprnj rg_arprnj_update index) 13 2]"

section \<open>The contract of independent bit fields\<close>

fun slots_mask :: "proxy_slot list \<Rightarrow> u16" where
  "slots_mask [] = 0"
| "slots_mask (slot # slots) = ps_mask slot OR slots_mask slots"

definition slot_lens :: "proxy_slot \<Rightarrow> bool" where
  "slot_lens s \<longleftrightarrow> (\<forall>r v. registers_ok r \<longrightarrow>
     registers_ok (px_set (ps_proxy s) v r) \<and>
     px_get (ps_proxy s) (px_set (ps_proxy s) (v AND mask (ps_len s)) r) = v AND mask (ps_len s))"

definition slot_apart :: "proxy_slot \<Rightarrow> proxy_slot \<Rightarrow> bool" where
  "slot_apart s t \<longleftrightarrow> (\<forall>r v. registers_ok r \<longrightarrow>
     px_get (ps_proxy t) (px_set (ps_proxy s) v r) = px_get (ps_proxy t) r)"

fun slots_apart :: "proxy_slot list \<Rightarrow> bool" where
  "slots_apart [] = True"
| "slots_apart (s # ss) = (list_all (\<lambda>t. slot_apart s t \<and> slot_apart t s) ss \<and> slots_apart ss)"

definition slot_read_only :: "proxy_slot \<Rightarrow> bool" where
  "slot_read_only s \<longleftrightarrow> (\<forall>r v. px_set (ps_proxy s) v r = r)"

text \<open>
  The kinds of the fields of a word, in the order of its slots: \<open>True\<close> for a field a program
  writes, \<open>False\<close> for one it only reads.
\<close>

definition slots_are :: "bool list \<Rightarrow> proxy_slot list \<Rightarrow> bool" where
  "slots_are kinds slots \<longleftrightarrow>
     list_all2 (\<lambda>w s. if w then slot_lens s else slot_read_only s) kinds slots"

definition slots_of_kind :: "bool \<Rightarrow> bool list \<Rightarrow> proxy_slot list \<Rightarrow> proxy_slot list" where
  "slots_of_kind w kinds slots = map snd (filter (\<lambda>(k, s). k = w) (zip kinds slots))"

lemma slots_are_simps [simp]:
  "slots_are [] []"
  "\<not> slots_are (k # kinds) []" "\<not> slots_are [] (s # slots)"
  "slots_are (k # kinds) (s # slots) \<longleftrightarrow>
     (if k then slot_lens s else slot_read_only s) \<and> slots_are kinds slots"
  by (simp_all add: slots_are_def)

lemma slots_of_kind_simps [simp]:
  "slots_of_kind w [] [] = []"
  "slots_of_kind w (k # kinds) (s # slots) =
     (if k = w then [s] else []) @ slots_of_kind w kinds slots"
  by (simp_all add: slots_of_kind_def)

lemma slots_are_writable:
  "list_all slot_lens slots \<Longrightarrow> slots_are (replicate (length slots) True) slots"
  "slots_of_kind True (replicate (length slots) True) slots = slots"
  "slots_of_kind False (replicate (length slots) True) slots = []"
  by (induction slots) simp_all

lemma slot_set_ok:
  "(if k then slot_lens s else slot_read_only s) \<Longrightarrow> registers_ok r \<Longrightarrow>
   registers_ok (px_set (ps_proxy s) v r)"
  by (simp add: slot_lens_def slot_read_only_def split: if_splits)

lemma pseudo_set_ok:
  "slots_are kinds slots \<Longrightarrow> registers_ok r \<Longrightarrow> registers_ok (pseudo_set slots v r)"
proof (induction slots arbitrary: r kinds)
  case (Cons s ss)
  then show ?case
    by (cases kinds) (auto intro: slot_set_ok)
qed simp

lemma pseudo_set_apart:
  "slots_are kinds slots \<Longrightarrow> list_all (\<lambda>s. slot_apart s t) slots \<Longrightarrow> registers_ok r \<Longrightarrow>
   px_get (ps_proxy t) (pseudo_set slots v r) = px_get (ps_proxy t) r"
proof (induction slots arbitrary: r kinds)
  case (Cons s ss)
  then obtain k ks where k: "kinds = k # ks"
    by (cases kinds) simp_all
  have "registers_ok (px_set (ps_proxy s) (drop_bit (ps_pos s) v AND mask (ps_len s)) r)"
    using Cons.prems k slot_set_ok [of k s r] by simp
  with Cons k show ?case
    by (auto simp: slot_apart_def)
qed simp

lemma pseudo_get_apart:
  "list_all (\<lambda>t. slot_apart s t) slots \<Longrightarrow> registers_ok r \<Longrightarrow>
   pseudo_get slots (px_set (ps_proxy s) v r) = pseudo_get slots r"
  by (induction slots) (simp_all add: slot_apart_def)

lemma slots_of_kind_subset:
  "list_all P slots \<Longrightarrow> list_all P (slots_of_kind w kinds slots)"
  by (auto simp: list_all_iff slots_of_kind_def dest: set_zip_rightD)

lemma field_at_pos:
  "push_bit pos (drop_bit pos v) AND push_bit pos (mask len) = (v :: u16) AND push_bit pos (mask len)"
  by (rule bit_word_eqI) (auto simp: bit_simps)

lemma pseudo_get_set:
  "slots_are kinds slots \<Longrightarrow> slots_apart slots \<Longrightarrow> registers_ok r \<Longrightarrow>
   pseudo_get slots (pseudo_set slots v r) =
     (v AND slots_mask (slots_of_kind True kinds slots)) OR
     pseudo_get (slots_of_kind False kinds slots) r"
proof (induction slots arbitrary: r kinds)
  case (Cons s ss)
  then obtain k ks where k: "kinds = k # ks"
    by (cases kinds) simp_all
  let ?f = "drop_bit (ps_pos s) v AND mask (ps_len s)"
  let ?r = "px_set (ps_proxy s) ?f r"
  from Cons.prems k have r: "registers_ok ?r" and ks: "slots_are ks ss"
    and apart: "list_all (\<lambda>t. slot_apart t s) ss" "list_all (\<lambda>t. slot_apart s t) ss"
    using slot_set_ok [of k s r] by (simp_all add: list_all_iff)
  have g: "px_get (ps_proxy s) (pseudo_set ss v ?r) = px_get (ps_proxy s) ?r"
    using ks apart(1) r by (rule pseudo_set_apart)
  have IH: "pseudo_get ss (pseudo_set ss v ?r) =
      (v AND slots_mask (slots_of_kind True ks ss)) OR pseudo_get (slots_of_kind False ks ss) r"
    using Cons.IH [OF ks _ r] Cons.prems(2,3) apart(2)
    by (simp add: pseudo_get_apart slots_of_kind_subset)
  show ?case
  proof (cases k)
    case True
    then have "px_get (ps_proxy s) ?r = ?f"
      using Cons.prems k by (simp add: slot_lens_def)
    with True k g IH show ?thesis
      by (simp add: field_at_pos ps_mask_def bit.conj_disj_distrib or.assoc)
  next
    case False
    then have "?r = r"
      using Cons.prems k by (simp add: slot_read_only_def)
    with False k g IH show ?thesis
      by (simp add: or.left_commute)
  qed
next
  case Nil
  then show ?case
    by (cases kinds) simp_all
qed

locale guarded_fields =
  fixes slots :: "proxy_slot list" and kinds :: "bool list" and fields_mask :: u16
  assumes kinds: "slots_are kinds slots"
    and apart: "slots_apart slots"
    and covers: "slots_mask (slots_of_kind True kinds slots) = fields_mask"
begin

lemma read_after_write:
  "registers_ok r \<Longrightarrow> pseudo_get slots (pseudo_set slots v r) =
     (v AND fields_mask) OR pseudo_get (slots_of_kind False kinds slots) r"
  using pseudo_get_set [OF kinds apart] by (simp add: covers)

lemma write_keeps_ok: "registers_ok r \<Longrightarrow> registers_ok (pseudo_set slots v r)"
  by (rule pseudo_set_ok [OF kinds])

end

locale bit_fields =
  fixes slots :: "proxy_slot list" and fields_mask :: u16
  assumes lenses: "list_all slot_lens slots"
    and separate: "slots_apart slots"
    and fills: "slots_mask slots = fields_mask"

sublocale bit_fields \<subseteq> guarded_fields slots "replicate (length slots) True" fields_mask
  using lenses separate fills by unfold_locales (simp_all add: slots_are_writable)

context bit_fields begin

lemma read_back: "registers_ok r \<Longrightarrow> pseudo_get slots (pseudo_set slots v r) = v AND fields_mask"
  by (simp add: read_after_write slots_are_writable)

lemma write_ok: "registers_ok r \<Longrightarrow> registers_ok (pseudo_set slots v r)"
  by (rule write_keeps_ok)

lemma write_read_idem:
  "registers_ok r \<Longrightarrow> pseudo_get slots (pseudo_set slots (pseudo_get slots (pseudo_set slots v r)) r') =
     v AND fields_mask \<or> \<not> registers_ok r'"
  by (cases "registers_ok r'") (simp_all add: read_back)

end

named_theorems proxy_defs \<open>definitions of the proxies\<close>

lemmas [proxy_defs] = redirector_def array_redirector_def double_redirector_def acc_e_proxy_def
  ro_redirector_def array_ro_redirector_def
  proxy_slot_of_def slot_lens_def slot_read_only_def slot_apart_def ps_mask_def registers_ok_def

lemma acc_e_get_set [simp]:
  "(ucast (drop_bit 32 (push_bit 32 (ucast (sign_extend 4 (ucast (v AND 15 :: u16) :: u32)) :: u64)) AND 15) :: u16)
     = v AND 15"
proof -
  have m: "(15 :: u64) = mask 4" "(15 :: u16) = mask 4"
    by (simp_all add: mask_eq_exp_minus_1)
  show ?thesis
    unfolding m by (rule bit_word_eqI) (auto simp: bit_simps bit_sign_extend)
qed

interpretation cfgi: bit_fields cfgi_slots "0xFFFF"
  by unfold_locales (simp_all add: cfgi_slots_def proxy_defs mask_eq_exp_minus_1)

interpretation cfgj: bit_fields cfgj_slots "0xFFFF"
  by unfold_locales (simp_all add: cfgj_slots_def proxy_defs mask_eq_exp_minus_1)

interpretation stt0: bit_fields stt0_slots "0x8FF"
  by unfold_locales (simp_all add: stt0_slots_def proxy_defs mask_eq_exp_minus_1)

interpretation mod1: bit_fields mod1_slots "0xF0FF"
  by unfold_locales (simp_all add: mod1_slots_def proxy_defs mask_eq_exp_minus_1)

interpretation mod2: bit_fields mod2_slots "0xFFFF"
  by unfold_locales (simp_all add: mod2_slots_def proxy_defs mask_eq_exp_minus_1)

interpretation mod3: bit_fields mod3_slots "0xEFFF"
  by unfold_locales (simp_all add: mod3_slots_def proxy_defs mask_eq_exp_minus_1)

interpretation st0: bit_fields st0_slots "0xFFFF"
  by unfold_locales (simp_all add: st0_slots_def proxy_defs Let_def mask_eq_exp_minus_1)

interpretation st1: bit_fields st1_slots "0xFCFF"
  by unfold_locales (simp_all add: st1_slots_def proxy_defs Let_def mask_eq_exp_minus_1)

interpretation mod0: guarded_fields mod0_slots
    "[True, True, False, True, True, True, True, True, True]" "0x6FE3"
  by unfold_locales (simp_all add: mod0_slots_def proxy_defs mask_eq_exp_minus_1)

interpretation stt1: guarded_fields stt1_slots "[True, False, False, True, True]" "0xC010"
  by unfold_locales (simp_all add: stt1_slots_def proxy_defs mask_eq_exp_minus_1)

interpretation st2: guarded_fields st2_slots "[True, True, True, True, True, True, True, True, True, True,
      False, False, False, False, False]" "0x3FF"
  by unfold_locales (simp_all add: st2_slots_def proxy_defs mask_eq_exp_minus_1)

lemma ar_fields: "i < 2 \<Longrightarrow> bit_fields (ar_slots i) 0xFFFF"
  by unfold_locales (simp_all add: ar_slots_def proxy_defs mask_eq_exp_minus_1)

lemma arp_fields: "i < 4 \<Longrightarrow> bit_fields (arp_slots i) 0x6FFF"
  by unfold_locales (simp_all add: arp_slots_def proxy_defs mask_eq_exp_minus_1)

section \<open>Properties\<close>

lemma and_full_mask [simp]: "(v :: u16) AND 0xFFFF = v"
  unfolding numeral_masks by (rule bit_word_eqI) (simp add: bit_simps)

lemma flag_field: "push_bit n (drop_bit n (v :: u16) AND 1) = v AND push_bit n 1"
  by (rule bit_word_eqI) (auto simp: bit_simps)

lemma flag_selects: "drop_bit n (v :: u16) AND 1 \<noteq> 0 \<longleftrightarrow> bit v n"
  by (simp add: bit_iff_odd_drop_bit and_one_eq odd_iff_mod_2_eq_one)

text \<open>The two words that show the loop flag: writing a one there ends all block repeats.\<close>

lemma icr_read_after_write:
  assumes "registers_ok r"
  shows "pseudo_get icr_slots (pseudo_set icr_slots v r) =
    (v AND 0xF) OR (if bit v 4 then 0 else push_bit 4 (rg_lp r) OR push_bit 5 (rg_bcn r))"
proof -
  have "v AND 1 OR (v AND 2 OR (v AND 4 OR (v AND 8))) = v AND 0xF"
    unfolding bit.conj_disj_distrib [symmetric] by simp
  moreover have "v AND 1 OR (v AND 2 OR (v AND 4 OR (v AND 8 OR w))) =
      (v AND 1 OR (v AND 2 OR (v AND 4 OR (v AND 8)))) OR w" for w
    by (simp only: or.assoc)
  moreover have "(drop_bit (Suc 0) v AND 1) * 2 = v AND 2"
    using flag_field [of 1 v] by (simp only: push_bit_eq_mult One_nat_def) simp
  ultimately show ?thesis
    using assms flag_selects [of 4 v] flag_field [of 2 v] flag_field [of 3 v]
    by (simp add: icr_slots_def proxy_defs lp_redirector_def)
qed

lemma stt2_read_after_write:
  assumes "registers_ok r"
  shows "pseudo_get stt2_slots (pseudo_set stt2_slots v r) =
    (v AND 0xC0) OR
    (rg_ip r ! 0 OR push_bit 1 (rg_ip r ! 1) OR push_bit 2 (rg_ip r ! 2) OR push_bit 3 (rg_ipv r)) OR
    (if bit v 15 then 0 else push_bit 12 (rg_bcn r) OR push_bit 15 (rg_lp r))"
proof -
  have "push_bit 6 (drop_bit 6 v AND mask 2) = v AND 0xC0"
    using field_at_pos [of 6 v 2] by (simp add: mask_eq_exp_minus_1)
  then show ?thesis
    using flag_selects [of 15 v]
    by (simp add: stt2_slots_def proxy_defs lp_redirector_def mask_eq_exp_minus_1 ac_simps)
qed

text \<open>
  C40: What a program reads back from each configuration, mode and status word after writing it,
  whatever the registers held. In the words made of independent writable fields it reads the same
  word, but for the bits that no field covers; this includes the overlapping pair of limit flags
  and the accumulator extensions of the old status words. In mod0, stt1 and st2 the read-only
  fields (the constant, the user inputs and the pending interrupts) keep what they were. In stt2
  and icr the loop flag and the nesting counter are cleared if a one is written to the
  flag's bit and keep what they were otherwise, whatever else is written there.
\<close>

theorem pseudo_registers_read_back:
  assumes "registers_ok r" and "i < 2" and "j < 4"
  shows "pseudo_get cfgi_slots (pseudo_set cfgi_slots v r) = v \<and>
    pseudo_get cfgj_slots (pseudo_set cfgj_slots v r) = v \<and>
    pseudo_get stt0_slots (pseudo_set stt0_slots v r) = v AND 0x8FF \<and>
    pseudo_get stt1_slots (pseudo_set stt1_slots v r) =
      (v AND 0xC010) OR (push_bit 10 (rg_iu r ! 0) OR push_bit 11 (rg_iu r ! 1)) \<and>
    pseudo_get stt2_slots (pseudo_set stt2_slots v r) =
      (v AND 0xC0) OR
      (rg_ip r ! 0 OR push_bit 1 (rg_ip r ! 1) OR push_bit 2 (rg_ip r ! 2) OR push_bit 3 (rg_ipv r)) OR
      (if bit v 15 then 0 else push_bit 12 (rg_bcn r) OR push_bit 15 (rg_lp r)) \<and>
    pseudo_get mod0_slots (pseudo_set mod0_slots v r) =
      (v AND 0x6FE3) OR push_bit 2 (rg_mod0_unk_const r) \<and>
    pseudo_get mod1_slots (pseudo_set mod1_slots v r) = v AND 0xF0FF \<and>
    pseudo_get mod2_slots (pseudo_set mod2_slots v r) = v \<and>
    pseudo_get mod3_slots (pseudo_set mod3_slots v r) = v AND 0xEFFF \<and>
    pseudo_get st0_slots (pseudo_set st0_slots v r) = v \<and>
    pseudo_get st1_slots (pseudo_set st1_slots v r) = v AND 0xFCFF \<and>
    pseudo_get st2_slots (pseudo_set st2_slots v r) =
      (v AND 0x3FF) OR (push_bit 10 (rg_iu r ! 0) OR push_bit 11 (rg_iu r ! 1) OR
        push_bit 13 (rg_ip r ! 2) OR push_bit 14 (rg_ip r ! 0) OR push_bit 15 (rg_ip r ! 1)) \<and>
    pseudo_get icr_slots (pseudo_set icr_slots v r) =
      (v AND 0xF) OR (if bit v 4 then 0 else push_bit 4 (rg_lp r) OR push_bit 5 (rg_bcn r)) \<and>
    pseudo_get (ar_slots i) (pseudo_set (ar_slots i) v r) = v \<and>
    pseudo_get (arp_slots j) (pseudo_set (arp_slots j) v r) = v AND 0x6FFF"
proof -
  have "pseudo_get stt1_slots (pseudo_set stt1_slots v r) =
      (v AND 0xC010) OR (push_bit 10 (rg_iu r ! 0) OR push_bit 11 (rg_iu r ! 1))"
    using stt1.read_after_write [OF assms(1), of v] by (simp add: stt1_slots_def proxy_defs)
  moreover have "pseudo_get mod0_slots (pseudo_set mod0_slots v r) =
      (v AND 0x6FE3) OR push_bit 2 (rg_mod0_unk_const r)"
    using mod0.read_after_write [OF assms(1), of v] by (simp add: mod0_slots_def proxy_defs)
  moreover have "pseudo_get st2_slots (pseudo_set st2_slots v r) =
      (v AND 0x3FF) OR (push_bit 10 (rg_iu r ! 0) OR push_bit 11 (rg_iu r ! 1) OR
        push_bit 13 (rg_ip r ! 2) OR push_bit 14 (rg_ip r ! 0) OR push_bit 15 (rg_ip r ! 1))"
    using st2.read_after_write [OF assms(1), of v]
    by (simp add: st2_slots_def proxy_defs or.assoc)
  ultimately show ?thesis
    using cfgi.read_back [OF assms(1), of v] cfgj.read_back [OF assms(1), of v]
      stt0.read_back [OF assms(1), of v] mod1.read_back [OF assms(1), of v]
      mod2.read_back [OF assms(1), of v] mod3.read_back [OF assms(1), of v]
      st0.read_back [OF assms(1), of v] st1.read_back [OF assms(1), of v]
      bit_fields.read_back [OF ar_fields [OF assms(2)] assms(1), of v]
      bit_fields.read_back [OF arp_fields [OF assms(3)] assms(1), of v]
      icr_read_after_write [OF assms(1), of v] stt2_read_after_write [OF assms(1), of v]
    by (simp only: and_full_mask simp_thms)
qed

lemma pseudo_registers_read_back_witness:
  "pseudo_get st0_slots (pseudo_set st0_slots 0xA5F0 registers_reset) = 0xA5F0 \<and>
   pseudo_get mod0_slots (pseudo_set mod0_slots 0xA5F0 registers_reset) =
     0x25E0 OR push_bit 2 (rg_mod0_unk_const registers_reset)"
  using pseudo_registers_read_back [OF registers_reset_ok, of 0 0 "0xA5F0"] by simp

text \<open>
  A program cannot forge the state of the block repeat through the status words: writing stt2 or
  icr leaves the loop flag and the nesting counter as they are, or clears both, which the loop
  flag's bit selects; the pending interrupts cannot be written at all.
\<close>

theorem block_repeat_status_protected:
  "rg_lp (pseudo_set icr_slots v r) = (if bit v 4 then 0 else rg_lp r) \<and>
   rg_bcn (pseudo_set icr_slots v r) = (if bit v 4 then 0 else rg_bcn r) \<and>
   rg_lp (pseudo_set stt2_slots v r) = (if bit v 15 then 0 else rg_lp r) \<and>
   rg_bcn (pseudo_set stt2_slots v r) = (if bit v 15 then 0 else rg_bcn r) \<and>
   rg_ip (pseudo_set stt2_slots v r) = rg_ip r \<and> rg_ipv (pseudo_set stt2_slots v r) = rg_ipv r \<and>
   rg_ip (pseudo_set st2_slots v r) = rg_ip r"
  by (simp add: icr_slots_def stt2_slots_def st2_slots_def proxy_defs lp_redirector_def
      flag_selects)

end
