(* ===== verification/Accumulators.thy ===== *)
theory Accumulators
  imports Pseudo_Registers
begin

unbundle bit_operations_syntax

text \<open>
  src/src/interpreter.h, the private helpers on accumulators: reading and writing one by any of its
  names, the flags a value sets, saturation, the products as 40-bit values, and the 16-bit bus
  that every register is read and written through. They are steps over the registers alone.

  An accumulator is a 64-bit number, sign-extended from its 40 bits by every operation.
\<close>

section \<open>Names\<close>

text \<open>
  The cell a name stands for: the accumulators a0 and a1, b0 and b1. The four names of one
  accumulator (whole, low, high, extension) share it.
\<close>

datatype acc_cell = Acc_a nat | Acc_b nat

definition acc_cell_of :: "reg_name \<Rightarrow> acc_cell option" where
  "acc_cell_of name =
     (if name \<in> {Reg_a0, Reg_a0h, Reg_a0l, Reg_a0e} then Some (Acc_a 0)
      else if name \<in> {Reg_a1, Reg_a1h, Reg_a1l, Reg_a1e} then Some (Acc_a 1)
      else if name \<in> {Reg_b0, Reg_b0h, Reg_b0l, Reg_b0e} then Some (Acc_b 0)
      else if name \<in> {Reg_b1, Reg_b1h, Reg_b1l, Reg_b1e} then Some (Acc_b 1)
      else None)"

fun cell_value :: "acc_cell \<Rightarrow> registers \<Rightarrow> u64" where
  "cell_value (Acc_a i) r = rg_a r ! i"
| "cell_value (Acc_b i) r = rg_b r ! i"

fun cell_update :: "acc_cell \<Rightarrow> u64 \<Rightarrow> registers \<Rightarrow> registers" where
  "cell_update (Acc_a i) v r = r\<lparr>rg_a := (rg_a r)[i := v]\<rparr>"
| "cell_update (Acc_b i) v r = r\<lparr>rg_b := (rg_b r)[i := v]\<rparr>"

definition get_acc :: "reg_name \<Rightarrow> (registers, u64) step" where
  "get_acc name = (case acc_cell_of name of None \<Rightarrow> sfail Abort | Some c \<Rightarrow> sget (cell_value c))"

definition set_acc :: "reg_name \<Rightarrow> u64 \<Rightarrow> (registers, unit) step" where
  "set_acc name v = (case acc_cell_of name of None \<Rightarrow> sfail Abort | Some c \<Rightarrow> supd (cell_update c v))"

text \<open>\<open>CounterAcc\<close>: the other accumulator of the pair. \<open>map.at\<close> throws for any other name.\<close>

definition counter_acc_table :: "(reg_name \<times> reg_name) list" where
  "counter_acc_table = [
     (Reg_a0, Reg_a1), (Reg_a1, Reg_a0), (Reg_b0, Reg_b1), (Reg_b1, Reg_b0),
     (Reg_a0l, Reg_a1l), (Reg_a1l, Reg_a0l), (Reg_b0l, Reg_b1l), (Reg_b1l, Reg_b0l),
     (Reg_a0h, Reg_a1h), (Reg_a1h, Reg_a0h), (Reg_b0h, Reg_b1h), (Reg_b1h, Reg_b0h),
     (Reg_a0e, Reg_a1e), (Reg_a1e, Reg_a0e), (Reg_b0e, Reg_b1e), (Reg_b1e, Reg_b0e)]"

definition counter_acc :: "reg_name \<Rightarrow> reg_name result" where
  "counter_acc name = (case map_of counter_acc_table name of None \<Rightarrow> Inl OutOfBounds | Some n \<Rightarrow> Inr n)"

section \<open>Saturation and flags\<close>

definition saturate_acc_no_flag :: "u64 \<Rightarrow> u64" where
  "saturate_acc_no_flag v =
     (if v \<noteq> sign_extend 32 v
      then if drop_bit 39 v \<noteq> 0 then 0xFFFFFFFF80000000 else 0x7FFFFFFF
      else v)"

definition saturate_acc :: "u64 \<Rightarrow> (registers, u64) step" where
  "saturate_acc v =
     (if v \<noteq> sign_extend 32 v
      then sbind (supd (\<lambda>r. r\<lparr>rg_flm := 1\<rparr>)) (\<lambda>_.
           sreturn (if drop_bit 39 v \<noteq> 0 then 0xFFFFFFFF80000000 else 0x7FFFFFFF))
      else sreturn v)"

definition get_and_sat_acc :: "reg_name \<Rightarrow> (registers, u64) step" where
  "get_and_sat_acc name =
     sbind (get_acc name) (\<lambda>v.
     sbind (sget rg_sat) (\<lambda>sat.
     if sat = 0 then saturate_acc v else sreturn v))"

definition get_and_sat_acc_no_flag :: "reg_name \<Rightarrow> (registers, u64) step" where
  "get_and_sat_acc_no_flag name =
     sbind (get_acc name) (\<lambda>v.
     sbind (sget rg_sat) (\<lambda>sat.
     sreturn (if sat = 0 then saturate_acc_no_flag v else v)))"

definition set_acc_flag :: "u64 \<Rightarrow> registers \<Rightarrow> registers" where
  "set_acc_flag v r =
     (let fz = v = 0; fe = v \<noteq> sign_extend 32 v; bit31 = drop_bit 31 v AND 1; bit30 = drop_bit 30 v AND 1
      in r\<lparr>rg_fz := of_bool fz, rg_fm := of_bool (drop_bit 39 v \<noteq> 0), rg_fe := of_bool fe,
           rg_fn := of_bool (fz \<or> (\<not> fe \<and> (bit31 XOR bit30) \<noteq> 0))\<rparr>)"

definition sat_and_set_acc_and_flag :: "reg_name \<Rightarrow> u64 \<Rightarrow> (registers, unit) step" where
  "sat_and_set_acc_and_flag name v =
     sbind (supd (set_acc_flag v)) (\<lambda>_.
     sbind (sget rg_sata) (\<lambda>sata.
     sbind (if sata = 0 then saturate_acc v else sreturn v) (\<lambda>v.
     set_acc name v)))"

definition set_acc_and_flag :: "reg_name \<Rightarrow> u64 \<Rightarrow> (registers, unit) step" where
  "set_acc_and_flag name v = sseq [supd (set_acc_flag v), set_acc name v]"

section \<open>Products\<close>

definition product_to_bus32_no_shift :: "nat \<Rightarrow> registers \<Rightarrow> u32" where
  "product_to_bus32_no_shift unit r = rg_p r ! unit"

definition product_to_bus40 :: "nat \<Rightarrow> registers \<Rightarrow> u64" where
  "product_to_bus40 unit r =
     (let v = ucast (rg_p r ! unit) OR push_bit 32 (ucast (rg_pe r ! unit)); ps = rg_ps r ! unit in
      if ps = 0 then sign_extend 33 v
      else if ps = 1 then sign_extend 32 (drop_bit 1 v)
      else if ps = 2 then sign_extend 34 (push_bit 1 v)
      else if ps = 3 then sign_extend 35 (push_bit 2 v)
      else v)"

definition product_from_bus32 :: "nat \<Rightarrow> u32 \<Rightarrow> registers \<Rightarrow> registers" where
  "product_from_bus32 unit v r =
     r\<lparr>rg_p := (rg_p r)[unit := v], rg_pe := (rg_pe r)[unit := ucast (drop_bit 31 v)]\<rparr>"

section \<open>The 16-bit bus\<close>

definition reg_to_bus16 :: "reg_name \<Rightarrow> bool \<Rightarrow> (registers, u16) step" where
  "reg_to_bus16 reg enable_sat_for_mov =
     (if reg \<in> {Reg_a0, Reg_a1, Reg_b0, Reg_b1} then
        sbind (get_acc reg) (\<lambda>v. sreturn (ucast (v AND 0xFFFF)))
      else if reg \<in> {Reg_a0l, Reg_a1l, Reg_b0l, Reg_b1l} then
        sbind (if enable_sat_for_mov then get_and_sat_acc reg else get_acc reg) (\<lambda>v.
        sreturn (ucast (v AND 0xFFFF)))
      else if reg \<in> {Reg_a0h, Reg_a1h, Reg_b0h, Reg_b1h} then
        sbind (if enable_sat_for_mov then get_and_sat_acc reg else get_acc reg) (\<lambda>v.
        sreturn (ucast (drop_bit 16 v AND 0xFFFF)))
      else case reg of
        Reg_r0 \<Rightarrow> sget (\<lambda>r. rg_r r ! 0) | Reg_r1 \<Rightarrow> sget (\<lambda>r. rg_r r ! 1)
      | Reg_r2 \<Rightarrow> sget (\<lambda>r. rg_r r ! 2) | Reg_r3 \<Rightarrow> sget (\<lambda>r. rg_r r ! 3)
      | Reg_r4 \<Rightarrow> sget (\<lambda>r. rg_r r ! 4) | Reg_r5 \<Rightarrow> sget (\<lambda>r. rg_r r ! 5)
      | Reg_r6 \<Rightarrow> sget (\<lambda>r. rg_r r ! 6) | Reg_r7 \<Rightarrow> sget (\<lambda>r. rg_r r ! 7)
      | Reg_y0 \<Rightarrow> sget (\<lambda>r. rg_y r ! 0)
      | Reg_p \<Rightarrow> sget (\<lambda>r. ucast (drop_bit 16 (product_to_bus40 0 r) AND 0xFFFF))
      | Reg_sp \<Rightarrow> sget rg_sp | Reg_sv \<Rightarrow> sget rg_sv | Reg_lc \<Rightarrow> squery get_lc
      | Reg_ar0 \<Rightarrow> sget (pseudo_get (ar_slots 0)) | Reg_ar1 \<Rightarrow> sget (pseudo_get (ar_slots 1))
      | Reg_arp0 \<Rightarrow> sget (pseudo_get (arp_slots 0)) | Reg_arp1 \<Rightarrow> sget (pseudo_get (arp_slots 1))
      | Reg_arp2 \<Rightarrow> sget (pseudo_get (arp_slots 2)) | Reg_arp3 \<Rightarrow> sget (pseudo_get (arp_slots 3))
      | Reg_ext0 \<Rightarrow> sget (\<lambda>r. rg_ext r ! 0) | Reg_ext1 \<Rightarrow> sget (\<lambda>r. rg_ext r ! 1)
      | Reg_ext2 \<Rightarrow> sget (\<lambda>r. rg_ext r ! 2) | Reg_ext3 \<Rightarrow> sget (\<lambda>r. rg_ext r ! 3)
      | Reg_stt0 \<Rightarrow> sget (pseudo_get stt0_slots) | Reg_stt1 \<Rightarrow> sget (pseudo_get stt1_slots)
      | Reg_stt2 \<Rightarrow> sget (pseudo_get stt2_slots)
      | Reg_st0 \<Rightarrow> sget (pseudo_get st0_slots) | Reg_st1 \<Rightarrow> sget (pseudo_get st1_slots)
      | Reg_st2 \<Rightarrow> sget (pseudo_get st2_slots)
      | Reg_cfgi \<Rightarrow> sget (pseudo_get cfgi_slots) | Reg_cfgj \<Rightarrow> sget (pseudo_get cfgj_slots)
      | Reg_mod0 \<Rightarrow> sget (pseudo_get mod0_slots) | Reg_mod1 \<Rightarrow> sget (pseudo_get mod1_slots)
      | Reg_mod2 \<Rightarrow> sget (pseudo_get mod2_slots) | Reg_mod3 \<Rightarrow> sget (pseudo_get mod3_slots)
      | _ \<Rightarrow> sfail Abort)"

definition set_r :: "nat \<Rightarrow> u16 \<Rightarrow> registers \<Rightarrow> registers" where
  "set_r i v r = r\<lparr>rg_r := (rg_r r)[i := v]\<rparr>"

definition set_x :: "nat \<Rightarrow> u16 \<Rightarrow> registers \<Rightarrow> registers" where
  "set_x i v r = r\<lparr>rg_x := (rg_x r)[i := v]\<rparr>"

definition set_y :: "nat \<Rightarrow> u16 \<Rightarrow> registers \<Rightarrow> registers" where
  "set_y i v r = r\<lparr>rg_y := (rg_y r)[i := v]\<rparr>"

definition set_ext :: "nat \<Rightarrow> u16 \<Rightarrow> registers \<Rightarrow> registers" where
  "set_ext i v r = r\<lparr>rg_ext := (rg_ext r)[i := v]\<rparr>"

text \<open>Writing \<open>p\<close> on the bus sets the high half of the first product and its extension bit.\<close>

definition set_p0h :: "u16 \<Rightarrow> registers \<Rightarrow> registers" where
  "set_p0h v r = r\<lparr>
     rg_pe := (rg_pe r)[0 := of_bool (0x7FFF < v)],
     rg_p := (rg_p r)[0 := (rg_p r ! 0 AND 0xFFFF) OR push_bit 16 (ucast v)]\<rparr>"

definition reg_from_bus16 :: "reg_name \<Rightarrow> u16 \<Rightarrow> (registers, unit) step" where
  "reg_from_bus16 reg v =
     (if reg \<in> {Reg_a0, Reg_a1, Reg_b0, Reg_b1} then
        sat_and_set_acc_and_flag reg (sign_extend 16 (ucast v))
      else if reg \<in> {Reg_a0l, Reg_a1l, Reg_b0l, Reg_b1l} then
        sat_and_set_acc_and_flag reg (ucast v)
      else if reg \<in> {Reg_a0h, Reg_a1h, Reg_b0h, Reg_b1h} then
        sat_and_set_acc_and_flag reg (sign_extend 32 (push_bit 16 (ucast v)))
      else case reg of
        Reg_r0 \<Rightarrow> supd (set_r 0 v) | Reg_r1 \<Rightarrow> supd (set_r 1 v)
      | Reg_r2 \<Rightarrow> supd (set_r 2 v) | Reg_r3 \<Rightarrow> supd (set_r 3 v)
      | Reg_r4 \<Rightarrow> supd (set_r 4 v) | Reg_r5 \<Rightarrow> supd (set_r 5 v)
      | Reg_r6 \<Rightarrow> supd (set_r 6 v) | Reg_r7 \<Rightarrow> supd (set_r 7 v)
      | Reg_y0 \<Rightarrow> supd (set_y 0 v)
      | Reg_p \<Rightarrow> supd (set_p0h v)
      | Reg_sp \<Rightarrow> supd (\<lambda>r. r\<lparr>rg_sp := v\<rparr>) | Reg_sv \<Rightarrow> supd (\<lambda>r. r\<lparr>rg_sv := v\<rparr>)
      | Reg_lc \<Rightarrow> (\<lambda>r. rbind (set_lc v r) (\<lambda>r'. Inr ((), r')))
      | Reg_ar0 \<Rightarrow> supd (pseudo_set (ar_slots 0) v) | Reg_ar1 \<Rightarrow> supd (pseudo_set (ar_slots 1) v)
      | Reg_arp0 \<Rightarrow> supd (pseudo_set (arp_slots 0) v) | Reg_arp1 \<Rightarrow> supd (pseudo_set (arp_slots 1) v)
      | Reg_arp2 \<Rightarrow> supd (pseudo_set (arp_slots 2) v) | Reg_arp3 \<Rightarrow> supd (pseudo_set (arp_slots 3) v)
      | Reg_ext0 \<Rightarrow> supd (set_ext 0 v) | Reg_ext1 \<Rightarrow> supd (set_ext 1 v)
      | Reg_ext2 \<Rightarrow> supd (set_ext 2 v) | Reg_ext3 \<Rightarrow> supd (set_ext 3 v)
      | Reg_stt0 \<Rightarrow> supd (pseudo_set stt0_slots v) | Reg_stt1 \<Rightarrow> supd (pseudo_set stt1_slots v)
      | Reg_stt2 \<Rightarrow> supd (pseudo_set stt2_slots v)
      | Reg_st0 \<Rightarrow> supd (pseudo_set st0_slots v) | Reg_st1 \<Rightarrow> supd (pseudo_set st1_slots v)
      | Reg_st2 \<Rightarrow> supd (pseudo_set st2_slots v)
      | Reg_cfgi \<Rightarrow> supd (pseudo_set cfgi_slots v) | Reg_cfgj \<Rightarrow> supd (pseudo_set cfgj_slots v)
      | Reg_mod0 \<Rightarrow> supd (pseudo_set mod0_slots v) | Reg_mod1 \<Rightarrow> supd (pseudo_set mod1_slots v)
      | Reg_mod2 \<Rightarrow> supd (pseudo_set mod2_slots v) | Reg_mod3 \<Rightarrow> supd (pseudo_set mod3_slots v)
      | _ \<Rightarrow> sfail Abort)"

section \<open>Forty bits\<close>

text \<open>An accumulator as the operations leave it: a number of 40 bits, sign-extended.\<close>

lemma sint_sign_extend64:
  assumes "0 < n" "n \<le> 63"
  shows "sint (sign_extend n (w :: u64)) = signed_take_bit (n - 1) (uint w)"
proof -
  have "sign_extend n w = signed_take_bit (n - 1) w"
    using assms by (intro sign_extend_signed) simp_all
  moreover have "sint (signed_take_bit (n - 1) w) = signed_take_bit (n - 1) (uint w)"
    using assms by (intro bit_eqI) (auto simp: bit_simps bit_sint_iff bit_uint_iff min_def)
  ultimately show ?thesis by simp
qed

definition acc40 :: "u64 \<Rightarrow> bool" where
  "acc40 v \<longleftrightarrow> sign_extend 40 v = v"

lemma acc40_sint: "acc40 v \<longleftrightarrow> sint v = signed_take_bit 39 (uint v)"
proof -
  have "acc40 v \<longleftrightarrow> sint (sign_extend 40 v) = sint v"
    by (auto simp: acc40_def intro: signed_word_eqI)
  also have "\<dots> \<longleftrightarrow> signed_take_bit 39 (uint v) = sint v"
    by (subst sint_sign_extend64) simp_all
  finally show ?thesis by auto
qed

lemma acc40_range: "acc40 v \<longleftrightarrow> - (2 ^ 39) \<le> sint v \<and> sint v < 2 ^ 39"
proof -
  have "signed_take_bit 39 (uint v) = signed_take_bit 39 (sint v)"
    by (intro bit_eqI) (auto simp: bit_simps bit_sint_iff bit_uint_iff min_def)
  then have "acc40 v \<longleftrightarrow> signed_take_bit 39 (sint v) = sint v"
    by (auto simp: acc40_sint)
  also have "\<dots> \<longleftrightarrow> - (2 ^ 39) \<le> sint v \<and> sint v < 2 ^ 39"
    by (rule signed_take_bit_int_eq_self_iff)
  finally show ?thesis .
qed

lemma acc40_sign_extend [simp]: "acc40 (sign_extend 40 v)"
  by (simp add: acc40_def sign_extend_idem)


lemma acc40_sign_bit:
  assumes "acc40 v"
  shows "drop_bit 39 v \<noteq> 0 \<longleftrightarrow> sint v < 0"
proof -
  have "uint (drop_bit 39 v) = uint v div 2 ^ 39"
    by (simp add: drop_bit_eq_div uint_div_distrib)
  moreover have "drop_bit 39 v = 0 \<longleftrightarrow> uint (drop_bit 39 v) = 0"
    by (rule uint_0_iff [symmetric])
  ultimately have "drop_bit 39 v \<noteq> 0 \<longleftrightarrow> 2 ^ 39 \<le> uint v"
    using zdiv_eq_0_iff [of "uint v" "2 ^ 39"] uint_ge_0 [of v] by (simp add: not_less)
  moreover have "uint v = sint v mod 2 ^ 64"
    using uint_sint [of v] by (simp add: take_bit_eq_mod)
  moreover have "sint v mod 2 ^ 64 = sint v + 2 ^ 64" if "sint v < 0"
  proof -
    have "sint v mod 2 ^ 64 = (sint v + 2 ^ 64) mod 2 ^ 64" by simp
    also have "\<dots> = sint v + 2 ^ 64"
      using assms that by (intro mod_pos_pos_trivial) (simp_all add: acc40_range)
    finally show ?thesis .
  qed
  moreover have "sint v mod 2 ^ 64 = sint v" if "\<not> sint v < 0"
    using assms that by (simp add: acc40_range)
  ultimately show ?thesis
    using assms by (cases "sint v < 0") (simp_all add: acc40_range)
qed

lemma sign_extend32_range: "sign_extend 32 v = (v :: u64) \<longleftrightarrow> - (2 ^ 31) \<le> sint v \<and> sint v < 2 ^ 31"
proof -
  have "sint (sign_extend 32 v) = signed_take_bit 31 (uint v)"
    by (subst sint_sign_extend64) simp_all
  moreover have "signed_take_bit 31 (uint v) = signed_take_bit 31 (sint v)"
    by (intro bit_eqI) (auto simp: bit_simps bit_sint_iff bit_uint_iff min_def)
  ultimately have "sign_extend 32 v = v \<longleftrightarrow> signed_take_bit 31 (sint v) = sint v"
    by (metis signed_word_eqI)
  also have "\<dots> \<longleftrightarrow> - (2 ^ 31) \<le> sint v \<and> sint v < 2 ^ 31"
    by (rule signed_take_bit_int_eq_self_iff)
  finally show ?thesis .
qed

text \<open>
  Saturation is the clamp to 32 bits: of an accumulator it gives the nearest number that fits in
  32 signed bits, and the limit flag is set exactly when that changes the value.
\<close>

theorem saturation_clamps:
  assumes "acc40 v"
  shows "sint (saturate_acc_no_flag v) = max (- (2 ^ 31)) (min (2 ^ 31 - 1) (sint v)) \<and>
    saturate_acc v r = Inr (saturate_acc_no_flag v,
      if - (2 ^ 31) \<le> sint v \<and> sint v < 2 ^ 31 then r else r\<lparr>rg_flm := 1\<rparr>)"
proof -
  have "v \<noteq> sign_extend 32 v \<longleftrightarrow> \<not> (- (2 ^ 31) \<le> sint v \<and> sint v < 2 ^ 31)"
    using sign_extend32_range [of v] by auto
  moreover have "sint (0xFFFFFFFF80000000 :: u64) = - (2 ^ 31)" "sint (0x7FFFFFFF :: u64) = 2 ^ 31 - 1"
    by simp_all
  ultimately show ?thesis
    using acc40_sign_bit [OF assms] by (auto simp: saturate_acc_no_flag_def saturate_acc_def)
qed

lemma saturation_clamps_witness:
  "sint (saturate_acc_no_flag 0x1234567890) = 2 ^ 31 - 1 \<and> sint (saturate_acc_no_flag 0xFFFFFF8000000000) = - (2 ^ 31)"
proof -
  have "acc40 0x1234567890" "acc40 0xFFFFFF8000000000"
    by (simp_all add: acc40_def sign_extend_def mask_eq_exp_minus_1)
  from this [THEN saturation_clamps] show ?thesis
    by simp
qed

end
