(* ===== verification/Arithmetic.thy ===== *)
theory Arithmetic
  imports Accumulators
begin

unbundle bit_operations_syntax

text \<open>
  src/src/interpreter.h, the arithmetic the instructions share: the multiplier, the 40-bit adder, the
  sum of the two products, the arithmetic, bit-field and accumulator operations, the barrel
  shifter, the exponent, and the paired minimum and maximum. They are steps over the registers.
\<close>

section \<open>Multiplier and adder\<close>

definition do_multiplication :: "nat \<Rightarrow> bool \<Rightarrow> bool \<Rightarrow> registers \<Rightarrow> registers" where
  "do_multiplication unit x_sign y_sign r =
     (let x = ucast (rg_x r ! unit) :: u32;
          y = ucast (rg_y r ! unit) :: u32;
          hwm = rg_hwm r;
          y = (if hwm = 1 \<or> (hwm = 3 \<and> unit = 0) then drop_bit 8 y
               else if hwm = 2 \<or> (hwm = 3 \<and> unit = 1) then y AND 0xFF else y);
          x = (if x_sign then sign_extend 16 x else x);
          y = (if y_sign then sign_extend 16 y else y);
          p = x * y
      in r\<lparr>rg_p := (rg_p r)[unit := p],
           rg_pe := (rg_pe r)[unit := if x_sign \<or> y_sign then ucast (drop_bit 31 p) else 0]\<rparr>)"

text \<open>The value of the sum and its carry and overflow, over the 40 bits of the operands.\<close>

definition add_sub_result :: "u64 \<Rightarrow> u64 \<Rightarrow> bool \<Rightarrow> u64" where
  "add_sub_result a b sub =
     (let a = a AND 0xFFFFFFFFFF; b = b AND 0xFFFFFFFFFF in if sub then a - b else a + b)"

definition add_sub_overflow :: "u64 \<Rightarrow> u64 \<Rightarrow> bool \<Rightarrow> u64" where
  "add_sub_overflow a b sub =
     (let result = add_sub_result a b sub;
          a = a AND 0xFFFFFFFFFF;
          b = b AND 0xFFFFFFFFFF;
          b = (if sub then NOT b else b)
      in drop_bit 39 (NOT (a XOR b) AND (a XOR result)) AND 1)"

definition add_sub :: "u64 \<Rightarrow> u64 \<Rightarrow> bool \<Rightarrow> (registers, u64) step" where
  "add_sub a b sub =
     sbind (supd (\<lambda>r. r\<lparr>rg_fc0 := ucast (drop_bit 40 (add_sub_result a b sub) AND 1)\<rparr>)) (\<lambda>_.
     sbind (supd (\<lambda>r. r\<lparr>rg_fv := ucast (add_sub_overflow a b sub)\<rparr>)) (\<lambda>_.
     sbind (supd (\<lambda>r. if rg_fv r \<noteq> 0 then r\<lparr>rg_fvl := 1\<rparr> else r)) (\<lambda>_.
     sreturn (sign_extend 40 (add_sub_result a b sub)))))"

text \<open>The sum or difference of a value and an accumulator, into that accumulator.\<close>

definition add_sub_to :: "reg_name \<Rightarrow> u64 \<Rightarrow> bool \<Rightarrow> (registers, unit) step" where
  "add_sub_to acc v sub =
     sbind (get_acc acc) (\<lambda>w.
     sbind (add_sub w v sub) (sat_and_set_acc_and_flag acc))"

section \<open>The sum of the products\<close>

definition aligned_product :: "nat \<Rightarrow> bool \<Rightarrow> registers \<Rightarrow> u64" where
  "aligned_product unit align r =
     (let v = product_to_bus40 unit r in if align then sign_extend 24 (drop_bit 16 v) else v)"

fun sum_base_value :: "sum_base \<Rightarrow> reg_name \<Rightarrow> (registers, u64) step" where
  "sum_base_value Sum_Zero acc = sreturn 0"
| "sum_base_value Sum_Acc acc = get_acc acc"
| "sum_base_value Sum_Sv acc = sget (\<lambda>r. sign_extend 32 (push_bit 16 (ucast (rg_sv r))))"
| "sum_base_value Sum_SvRnd acc = sget (\<lambda>r. sign_extend 32 (push_bit 16 (ucast (rg_sv r))) OR 0x8000)"

definition product_sum :: "sum_base \<Rightarrow> reg_name \<Rightarrow> bool \<Rightarrow> bool \<Rightarrow> bool \<Rightarrow> bool \<Rightarrow> (registers, unit) step" where
  "product_sum base acc sub_p0 p0_align sub_p1 p1_align =
     sbind (sget (aligned_product 0 p0_align)) (\<lambda>value_a.
     sbind (sget (aligned_product 1 p1_align)) (\<lambda>value_b.
     sbind (sum_base_value base acc) (\<lambda>value_c.
     sbind (add_sub value_c value_a sub_p0) (\<lambda>result.
     sbind (sget (\<lambda>r. (rg_fc0 r, rg_fv r))) (\<lambda>(temp_c, temp_v).
     sbind (add_sub result value_b sub_p1) (\<lambda>result.
     sbind (supd (\<lambda>r.
       if sub_p0 = sub_p1
       then r\<lparr>rg_fc0 := rg_fc0 r OR temp_c, rg_fv := rg_fv r OR temp_v\<rparr>
       else r\<lparr>rg_fc0 := rg_fc0 r XOR temp_c, rg_fv := rg_fv r XOR temp_v\<rparr>)) (\<lambda>_.
     sat_and_set_acc_and_flag acc result)))))))"

section \<open>Arithmetic and logic operations\<close>

definition alm_logic :: "(u64 \<Rightarrow> u64 \<Rightarrow> u64) \<Rightarrow> u64 \<Rightarrow> reg_name \<Rightarrow> (registers, unit) step" where
  "alm_logic f a b =
     sbind (get_acc b) (\<lambda>v. set_acc_and_flag b (sign_extend 40 (f v a)))"

definition alm_test :: "u64 \<Rightarrow> reg_name \<Rightarrow> (registers, unit) step" where
  "alm_test a b =
     sbind (get_acc b) (\<lambda>v. supd (\<lambda>r. r\<lparr>rg_fz := of_bool ((v AND 0xFFFF) AND a = 0)\<rparr>))"

definition alm_sqr :: "u64 \<Rightarrow> (registers, unit) step" where
  "alm_sqr a = supd (\<lambda>r. do_multiplication 0 True True (set_y 0 (ucast (a AND 0xFFFF)) (set_x 0 (ucast (a AND 0xFFFF)) r)))"

fun alm_generic :: "alm_op \<Rightarrow> u64 \<Rightarrow> reg_name \<Rightarrow> (registers, unit) step" where
  "alm_generic Alm_Or a b = alm_logic (OR) a b"
| "alm_generic Alm_And a b = alm_logic (AND) a b"
| "alm_generic Alm_Xor a b = alm_logic (XOR) a b"
| "alm_generic Alm_Tst0 a b = alm_test a b"
| "alm_generic Alm_Tst1 a b = alm_test (NOT a) b"
| "alm_generic Alm_Cmp a b = sbind (get_acc b) (\<lambda>v. sbind (add_sub v a True) (\<lambda>w. supd (set_acc_flag w)))"
| "alm_generic Alm_Cmpu a b = sbind (get_acc b) (\<lambda>v. sbind (add_sub v a True) (\<lambda>w. supd (set_acc_flag w)))"
| "alm_generic Alm_Sub a b = add_sub_to b a True"
| "alm_generic Alm_Subl a b = add_sub_to b a True"
| "alm_generic Alm_Subh a b = add_sub_to b a True"
| "alm_generic Alm_Add a b = add_sub_to b a False"
| "alm_generic Alm_Addl a b = add_sub_to b a False"
| "alm_generic Alm_Addh a b = add_sub_to b a False"
| "alm_generic Alm_Msu a b =
     sbind (sget (product_to_bus40 0)) (\<lambda>product. sseq [
       add_sub_to b product True,
       supd (\<lambda>r. do_multiplication 0 True True (set_x 0 (ucast (a AND 0xFFFF)) r))])"
| "alm_generic Alm_Sqra a b =
     sbind (sget (product_to_bus40 0)) (\<lambda>product. sseq [add_sub_to b product False, alm_sqr a])"
| "alm_generic Alm_Sqr a b = alm_sqr a"
| "alm_generic Alm_Reserved a b = sfail Abort"

definition extend_operand_for_alm :: "alm_op \<Rightarrow> u16 \<Rightarrow> u64" where
  "extend_operand_for_alm op a =
     (if op \<in> {Alm_Cmp, Alm_Sub, Alm_Add} then sign_extend 16 (ucast a)
      else if op \<in> {Alm_Addh, Alm_Subh} then sign_extend 32 (push_bit 16 (ucast a))
      else ucast a)"

section \<open>Bit-field operations\<close>

definition alb_logic :: "u16 \<Rightarrow> (registers, u16) step" where
  "alb_logic result = sbind (supd (\<lambda>r. r\<lparr>rg_fm := drop_bit 15 result\<rparr>)) (\<lambda>_. sreturn result)"

definition alb_sum :: "u32 \<Rightarrow> u32 \<Rightarrow> (registers, u16) step" where
  "alb_sum plain with_sign =
     sbind (supd (\<lambda>r. r\<lparr>rg_fc0 := of_bool (drop_bit 16 plain \<noteq> 0), rg_fm := ucast (drop_bit 31 with_sign)\<rparr>)) (\<lambda>_.
     sreturn (ucast (plain AND 0xFFFF)))"

fun alb_result :: "alb_op \<Rightarrow> u16 \<Rightarrow> u16 \<Rightarrow> (registers, u16) step" where
  "alb_result Alb_Set a b = alb_logic (a OR b)"
| "alb_result Alb_Rst a b = alb_logic (NOT a AND b)"
| "alb_result Alb_Chng a b = alb_logic (a XOR b)"
| "alb_result Alb_Addv a b =
     alb_sum (ucast a + ucast b) (sign_extend 16 (ucast b) + sign_extend 16 (ucast a))"
| "alb_result Alb_Tst0 a b = sreturn (of_bool (a AND b \<noteq> 0))"
| "alb_result Alb_Tst1 a b = sreturn (of_bool (a AND NOT b \<noteq> 0))"
| "alb_result Alb_Cmpv a b =
     alb_sum (ucast b - ucast a) (sign_extend 16 (ucast b) - sign_extend 16 (ucast a))"
| "alb_result Alb_Subv a b =
     alb_sum (ucast b - ucast a) (sign_extend 16 (ucast b) - sign_extend 16 (ucast a))"

definition generic_alb :: "alb_op \<Rightarrow> u16 \<Rightarrow> u16 \<Rightarrow> (registers, u16) step" where
  "generic_alb op a b =
     sbind (alb_result op a b) (\<lambda>result.
     sbind (supd (\<lambda>r. r\<lparr>rg_fz := of_bool (result = 0)\<rparr>)) (\<lambda>_. sreturn result))"

definition is_alb_modifying :: "alb_op \<Rightarrow> bool" where
  "is_alb_modifying op \<longleftrightarrow> op \<in> {Alb_Set, Alb_Rst, Alb_Chng, Alb_Addv, Alb_Subv}"

section \<open>The barrel shifter\<close>

text \<open>
  \<open>ShiftBus40\<close> in its parts: the shift to the left or to the right with the flags it sets, and the
  saturation at the end. The amount is signed in two's complement. \<open>SignExtend(value, 40 - sv)\<close>
  is over the bits the shift keeps.
\<close>

definition set_fv_sticky :: "bool \<Rightarrow> registers \<Rightarrow> registers" where
  "set_fv_sticky b r = (let r = r\<lparr>rg_fv := of_bool b\<rparr> in if b then r\<lparr>rg_fvl := 1\<rparr> else r)"

definition shift_left40 :: "u64 \<Rightarrow> nat \<Rightarrow> (registers, u64) step" where
  "shift_left40 v n =
     (if 40 \<le> n then
        sbind (supd (\<lambda>r. if rg_s r = 0 then set_fv_sticky (v \<noteq> 0) r else r)) (\<lambda>_.
        sbind (supd (\<lambda>r. r\<lparr>rg_fc0 := 0\<rparr>)) (\<lambda>_. sreturn 0))
      else
        sbind (supd (\<lambda>r. if rg_s r = 0 then set_fv_sticky (sign_extend 40 v \<noteq> sign_extend (40 - n) v) r else r)) (\<lambda>_.
        sbind (supd (\<lambda>r. r\<lparr>rg_fc0 := of_bool (push_bit n v AND push_bit 40 1 \<noteq> 0)\<rparr>)) (\<lambda>_.
        sreturn (push_bit n v))))"

definition shift_right40 :: "u64 \<Rightarrow> nat \<Rightarrow> (registers, u64) step" where
  "shift_right40 v n =
     sbind (sget rg_s) (\<lambda>s.
     sbind
       (if 40 \<le> n then
          if s = 0 then
            sbind (supd (\<lambda>r. r\<lparr>rg_fc0 := ucast (drop_bit 39 v AND 1)\<rparr>)) (\<lambda>_.
            sget (\<lambda>r. if rg_fc0 r \<noteq> 0 then 0xFFFFFFFFFF else 0))
          else sbind (supd (\<lambda>r. r\<lparr>rg_fc0 := 0\<rparr>)) (\<lambda>_. sreturn 0)
        else
          sbind (supd (\<lambda>r. r\<lparr>rg_fc0 := of_bool (v AND push_bit (n - 1) 1 \<noteq> 0)\<rparr>)) (\<lambda>_.
          sreturn (if s = 0 then sign_extend (40 - n) (drop_bit n v) else drop_bit n v)))
       (\<lambda>w. sbind (supd (\<lambda>r. if s = 0 then r\<lparr>rg_fv := 0\<rparr> else r)) (\<lambda>_. sreturn w)))"

definition shift_saturate :: "u64 \<Rightarrow> u64 \<Rightarrow> (registers, u64) step" where
  "shift_saturate original_sign v =
     sbind (sget (\<lambda>r. rg_s r = 0 \<and> rg_sata r = 0 \<and> (rg_fv r \<noteq> 0 \<or> sign_extend 32 v \<noteq> v))) (\<lambda>limited.
     if limited
     then sbind (supd (\<lambda>r. r\<lparr>rg_flm := 1\<rparr>)) (\<lambda>_.
          sreturn (if original_sign = 1 then 0xFFFFFFFF80000000 else 0x7FFFFFFF))
     else sreturn v)"

definition shift_bus40 :: "u64 \<Rightarrow> u16 \<Rightarrow> reg_name \<Rightarrow> (registers, unit) step" where
  "shift_bus40 v sv dest =
     (let v = v AND 0xFFFFFFFFFF; original_sign = drop_bit 39 v in
      sbind (if drop_bit 15 sv = 0 then shift_left40 v (unat sv) else shift_right40 v (unat (NOT sv + 1))) (\<lambda>w.
      sbind (sreturn (sign_extend 40 w)) (\<lambda>w.
      sbind (supd (set_acc_flag w)) (\<lambda>_.
      sbind (shift_saturate original_sign w) (set_acc dest)))))"

section \<open>Exponent\<close>

text \<open>The number of bits below the sign that repeat it, from a bit downwards.\<close>

fun exp_count :: "u64 \<Rightarrow> u64 \<Rightarrow> nat \<Rightarrow> u16 \<Rightarrow> u16" where
  "exp_count v sign bt count =
     (if drop_bit bt v AND 1 \<noteq> sign then count
      else if bt = 0 then count + 1
      else exp_count v sign (bt - 1) (count + 1))"

definition exp_value :: "u64 \<Rightarrow> u16" where
  "exp_value v = exp_count v (drop_bit 39 v AND 1) 38 0 - 8"

definition exp_store :: "reg_name \<Rightarrow> (registers, unit) step" where
  "exp_store b = sbind (sget rg_sv) (\<lambda>sv. set_acc b (sign_extend 16 (ucast sv)))"

section \<open>Operations on an accumulator\<close>

definition rotate_right :: "reg_name \<Rightarrow> (registers, unit) step" where
  "rotate_right a =
     sbind (get_acc a) (\<lambda>v.
     sbind (sget rg_fc0) (\<lambda>old_fc.
     let v = v AND 0xFFFFFFFFFF in sseq [
       supd (\<lambda>r. r\<lparr>rg_fc0 := ucast (v AND 1)\<rparr>),
       set_acc_and_flag a (sign_extend 40 (drop_bit 1 v OR push_bit 39 (ucast old_fc)))]))"

definition rotate_left :: "reg_name \<Rightarrow> (registers, unit) step" where
  "rotate_left a =
     sbind (get_acc a) (\<lambda>v.
     sbind (sget rg_fc0) (\<lambda>old_fc. sseq [
       supd (\<lambda>r. r\<lparr>rg_fc0 := ucast (drop_bit 39 v AND 1)\<rparr>),
       set_acc_and_flag a (sign_extend 40 (push_bit 1 v OR ucast old_fc))]))"

definition moda_neg :: "reg_name \<Rightarrow> (registers, unit) step" where
  "moda_neg a =
     sbind (get_acc a) (\<lambda>v. sseq [
       supd (\<lambda>r. r\<lparr>rg_fc0 := of_bool (v \<noteq> 0)\<rparr>),
       supd (set_fv_sticky (v = 0xFFFFFF8000000000)),
       sat_and_set_acc_and_flag a (sign_extend 40 (NOT v + 1))])"

fun moda_op_step :: "moda_op \<Rightarrow> reg_name \<Rightarrow> (registers, unit) step" where
  "moda_op_step Moda_Shr a = sbind (get_acc a) (\<lambda>v. shift_bus40 v 0xFFFF a)"
| "moda_op_step Moda_Shr4 a = sbind (get_acc a) (\<lambda>v. shift_bus40 v 0xFFFC a)"
| "moda_op_step Moda_Shl a = sbind (get_acc a) (\<lambda>v. shift_bus40 v 1 a)"
| "moda_op_step Moda_Shl4 a = sbind (get_acc a) (\<lambda>v. shift_bus40 v 4 a)"
| "moda_op_step Moda_Ror a = rotate_right a"
| "moda_op_step Moda_Rol a = rotate_left a"
| "moda_op_step Moda_Clr a = sat_and_set_acc_and_flag a 0"
| "moda_op_step Moda_Not a = sbind (get_acc a) (\<lambda>v. set_acc_and_flag a (NOT v))"
| "moda_op_step Moda_Neg a = moda_neg a"
| "moda_op_step Moda_Rnd a = add_sub_to a 0x8000 False"
| "moda_op_step Moda_Pacr a =
     sbind (sget (product_to_bus40 0)) (\<lambda>v. sbind (add_sub v 0x8000 False) (sat_and_set_acc_and_flag a))"
| "moda_op_step Moda_Clrr a = sat_and_set_acc_and_flag a 0x8000"
| "moda_op_step Moda_Inc a = add_sub_to a 1 False"
| "moda_op_step Moda_Dec a = add_sub_to a 1 True"
| "moda_op_step Moda_Copy a =
     sbind (get_acc (if a = Reg_a0 then Reg_a1 else Reg_a0)) (sat_and_set_acc_and_flag a)"
| "moda_op_step Moda_Reserved a = sfail Abort"

definition moda :: "moda_op \<Rightarrow> reg_name \<Rightarrow> cond_value \<Rightarrow> (registers, unit) step" where
  "moda op a cond = sbind (sget (condition_pass cond)) (\<lambda>pass. swhen pass (moda_op_step op a))"

section \<open>Multiplication with accumulation\<close>

definition mul_generic :: "mul_op \<Rightarrow> reg_name \<Rightarrow> (registers, unit) step" where
  "mul_generic op a =
     sbind (sget (aligned_product 0 (op = Mul_Maa \<or> op = Mul_Maasu))) (\<lambda>product. sseq [
       swhen (op \<noteq> Mul_Mpy \<and> op \<noteq> Mul_Mpysu) (add_sub_to a product False),
       supd (case op of
           Mul_Mpy \<Rightarrow> do_multiplication 0 True True
         | Mul_Mac \<Rightarrow> do_multiplication 0 True True
         | Mul_Maa \<Rightarrow> do_multiplication 0 True True
         | Mul_Mpysu \<Rightarrow> do_multiplication 0 False True
         | Mul_Macsu \<Rightarrow> do_multiplication 0 False True
         | Mul_Maasu \<Rightarrow> do_multiplication 0 False True
         | Mul_Macus \<Rightarrow> do_multiplication 0 True False
         | Mul_Macuu \<Rightarrow> do_multiplication 0 False False)])"

section \<open>Paired minimum and maximum, and the Viterbi trace\<close>

definition vtrshr :: "registers \<Rightarrow> registers" where
  "vtrshr r = r\<lparr>
     rg_vtr0 := drop_bit 1 (rg_vtr0 r) OR push_bit 15 (rg_fc0 r),
     rg_vtr1 := drop_bit 1 (rg_vtr1 r) OR push_bit 15 (rg_fc1 r)\<rparr>"

definition min_max_vtr :: "reg_name \<Rightarrow> reg_name \<Rightarrow> bool \<Rightarrow> (registers, unit) step" where
  "min_max_vtr a b is_min =
     sbind (get_acc a) (\<lambda>u.
     sbind (get_acc b) (\<lambda>v.
     let uh = sign_extend 24 (drop_bit 16 u); ul = sign_extend 16 (u AND 0xFFFF);
         vh = sign_extend 24 (drop_bit 16 v); vl = sign_extend 16 (v AND 0xFFFF);
         dh = (if is_min then uh - vh else vh - uh);
         dl = (if is_min then ul - vl else vl - ul);
         c0 = drop_bit 63 dh = 0; c1 = drop_bit 63 dl = 0;
         wh = (if c0 then vh else uh);
         wl = (if c1 then vl else ul)
     in sseq [
       supd (\<lambda>r. r\<lparr>rg_fc0 := of_bool c0, rg_fc1 := of_bool c1\<rparr>),
       set_acc a (push_bit 16 wh OR (wl AND 0xFFFF)),
       supd vtrshr]))"

section \<open>Codebook search\<close>

definition codebook_cond :: "cbs_cond_value \<Rightarrow> u64 \<Rightarrow> bool" where
  "codebook_cond c diff \<longleftrightarrow>
     (case c of Cbs_Ge \<Rightarrow> drop_bit 63 diff = 0 | Cbs_Gt \<Rightarrow> drop_bit 63 diff = 0 \<and> diff \<noteq> 0)"

definition product_high :: "nat \<Rightarrow> registers \<Rightarrow> u16" where
  "product_high unit r = ucast (drop_bit 16 (product_to_bus40 unit r) AND 0xFFFF)"

definition codebook_search :: "u16 \<Rightarrow> u16 \<Rightarrow> u16 \<Rightarrow> cbs_cond_value \<Rightarrow> registers \<Rightarrow> registers" where
  "codebook_search u v rr c r0 =
     (let diff = product_to_bus40 0 r0 - product_to_bus40 1 r0;
          r1 = (if codebook_cond c diff
                then (set_x 0 (rg_y r0 ! 1) (set_x 1 (rg_p0h_cbs r0) r0))\<lparr>rg_mixp := rr\<rparr> else r0);
          r2 = set_y 0 u r1;
          x0 = rg_x r2 ! 0;
          r3 = do_multiplication 0 True True (set_x 0 (rg_y r2 ! 0) r2);
          h = product_high 0 r3;
          r4 = (set_y 0 h r3)\<lparr>rg_p0h_cbs := h\<rparr>;
          r5 = set_y 1 v (set_x 0 x0 r4)
      in do_multiplication 1 True True (do_multiplication 0 True True r5))"

section \<open>The adder\<close>

lemma mask40: "(0xFFFFFFFFFF :: u64) = mask 40"
  by (simp add: mask_eq_exp_minus_1)

text \<open>The low 40 bits of an accumulator as a natural number: what carry and borrow are about.\<close>

definition low40 :: "u64 \<Rightarrow> int" where
  "low40 v = take_bit 40 (sint v)"

lemma low40_mod: "low40 v = sint v mod 2 ^ 40"
  by (simp add: low40_def take_bit_eq_mod)

lemma uint_low40: "uint (v AND 0xFFFFFFFFFF) = low40 v"
  unfolding mask40 low40_def
  by (intro bit_eqI) (auto simp: bit_simps bit_uint_iff bit_sint_iff)

lemma add_sub_result_int:
  "add_sub_result a b sub = word_of_int (if sub then low40 a - low40 b else low40 a + low40 b)"
  by (simp add: add_sub_result_def Let_def flip: uint_low40)

lemma bit_int_div: "bit (k :: int) n \<longleftrightarrow> k div 2 ^ n mod 2 = 1"
  by (simp add: bit_iff_odd odd_iff_mod_2_eq_one)

lemma div_is: "k * n \<le> z \<Longrightarrow> z < (k + 1) * n \<Longrightarrow> z div n = (k :: int)" if "0 < n" for n :: int
  using that by (intro int_div_pos_eq [where r = "z - k * n"]) (auto simp: algebra_simps)

lemma low40_cases:
  assumes "acc40 a"
  shows "0 \<le> sint a \<and> sint a < 2 ^ 39 \<and> low40 a = sint a \<or>
    - (2 ^ 39) \<le> sint a \<and> sint a < 0 \<and> low40 a = sint a + 2 ^ 40"
proof -
  have "- (2 ^ 39) \<le> sint a" "sint a < 2 ^ 39"
    using assms by (simp_all add: acc40_range)
  moreover have "low40 a = sint a + 2 ^ 40" if "- (2 ^ 39) \<le> sint a" "sint a < 0"
  proof -
    have "sint a mod 2 ^ 40 = (sint a + 2 ^ 40) mod 2 ^ 40" by simp
    also have "\<dots> = sint a + 2 ^ 40" using that by (intro mod_pos_pos_trivial) simp_all
    finally show ?thesis by (simp add: low40_mod)
  qed
  moreover have "low40 a = sint a" if "0 \<le> sint a" "sint a < 2 ^ 39"
    using that by (simp add: low40_mod)
  ultimately show ?thesis
    by (cases "sint a < 0") simp_all
qed

text \<open>The sign bit, the carry and the overflow of an addition, over integers.\<close>

lemma add_bits:
  fixes x y :: int
  assumes "0 < N" "A = x \<and> 0 \<le> x \<and> x < N \<or> A = x + 2 * N \<and> - N \<le> x \<and> x < 0"
    and "B = y \<and> 0 \<le> y \<and> y < N \<or> B = y + 2 * N \<and> - N \<le> y \<and> y < 0"
  shows "(A div N mod 2 = 1) = (x < 0)" "(B div N mod 2 = 1) = (y < 0)"
    "((A + B) div (2 * N) mod 2 = 1) = (2 * N \<le> A + B)"
    "((A - B) div (2 * N) mod 2 = 1) = (A < B)"
    "(((A + B) div N mod 2 = 1) \<noteq> (x < 0) \<and> (x < 0) = (y < 0)) = (x + y < - N \<or> N \<le> x + y)"
    "(((A - B) div N mod 2 = 1) \<noteq> (x < 0) \<and> (x < 0) \<noteq> (y < 0)) = (x - y < - N \<or> N \<le> x - y)"
proof -
  note d = div_is [OF assms(1)]
  have N2: "0 < 2 * N" using assms(1) by simp
  note d2 = div_is [OF N2]
  show "(A div N mod 2 = 1) = (x < 0)"
    using assms d [of 0 A] d [of 1 A] d [of "-1" x] by auto
  show "(B div N mod 2 = 1) = (y < 0)"
    using assms d [of 0 B] d [of 1 B] d [of "-1" y] by auto
  show "((A + B) div (2 * N) mod 2 = 1) = (2 * N \<le> A + B)"
    using assms d2 [of 0 "A + B"] d2 [of 1 "A + B"] by (cases "2 * N \<le> A + B") auto
  show "((A - B) div (2 * N) mod 2 = 1) = (A < B)"
    using assms d2 [of 0 "A - B"] d2 [of "-1" "A - B"] by (cases "A < B") auto
  show "(((A + B) div N mod 2 = 1) \<noteq> (x < 0) \<and> (x < 0) = (y < 0)) = (x + y < - N \<or> N \<le> x + y)"
  proof -
    consider "0 \<le> x" "0 \<le> y" "A + B = x + y" "x < N" "y < N"
      | "x < 0" "y < 0" "A + B = x + y + 4 * N" "- N \<le> x" "- N \<le> y"
      | "(x < 0) \<noteq> (y < 0)" "- N \<le> x + y" "x + y < N"
      using assms by fastforce
    then show ?thesis
    proof cases
      case 1
      then show ?thesis
        using d [of 0 "A + B"] d [of 1 "A + B"] by (cases "x + y < N") auto
    next
      case 2
      have "(A + B) div N = 2" if "x + y < - N"
      proof -
        have "2 * N \<le> A + B" "A + B < 3 * N"
          using that 2 by linarith+
        then show ?thesis
          using d [of 2 "A + B"] by simp
      qed
      moreover have "(A + B) div N = 3" if "\<not> x + y < - N"
      proof -
        have "3 * N \<le> A + B" "A + B < 4 * N"
          using that 2 by linarith+
        then show ?thesis
          using d [of 3 "A + B"] by simp
      qed
      ultimately show ?thesis
        using 2(1,2,4,5) assms(1) by (cases "x + y < - N") simp_all
    next
      case 3
      then show ?thesis by auto
    qed
  qed
  show "(((A - B) div N mod 2 = 1) \<noteq> (x < 0) \<and> (x < 0) \<noteq> (y < 0)) = (x - y < - N \<or> N \<le> x - y)"
    using assms d [of 0 "A - B"] d [of 1 "A - B"] d [of "-1" "A - B"] d [of "-2" "A - B"]
    by (cases "A - B < 0"; cases "A - B < - N"; cases "A - B < N") auto
qed

lemma drop_bit_and_one: "drop_bit n w AND 1 = of_bool (bit w n)" for w :: "'a::len word"
  by (rule bit_word_eqI) (auto simp: bit_simps)

lemma bit_add_sub_result:
  "n < 64 \<Longrightarrow> bit (add_sub_result a b sub) n \<longleftrightarrow>
     (if sub then low40 a - low40 b else low40 a + low40 b) div 2 ^ n mod 2 = 1"
  by (simp add: add_sub_result_int bit_word_of_int_iff bit_int_div)

lemma bit_low40: "n < 40 \<Longrightarrow> bit a n \<longleftrightarrow> low40 a div 2 ^ n mod 2 = 1"
proof -
  assume "n < 40"
  then have "bit a n \<longleftrightarrow> bit (low40 a) n"
    by (simp add: low40_def bit_simps bit_sint_iff)
  then show ?thesis by (simp add: bit_int_div)
qed

lemma add_sub_sum:
  fixes a b :: u64 and sub :: bool
  assumes "acc40 a" "acc40 b"
  defines "z \<equiv> if sub then sint a - sint b else sint a + sint b"
  shows "sint (sign_extend 40 (add_sub_result a b sub)) = signed_take_bit 39 z"
    "bit (add_sub_result a b sub) 40 \<longleftrightarrow> (if sub then low40 a < low40 b else 2 ^ 40 \<le> low40 a + low40 b)"
    "add_sub_overflow a b sub = of_bool (z < - (2 ^ 39) \<or> 2 ^ 39 \<le> z)"
proof -
  define A B where "A = low40 a" and "B = low40 b"
  have ab: "A = sint a \<and> 0 \<le> sint a \<and> sint a < 2 ^ 39 \<or> A = sint a + 2 * 2 ^ 39 \<and> - (2 ^ 39) \<le> sint a \<and> sint a < 0"
    "B = sint b \<and> 0 \<le> sint b \<and> sint b < 2 ^ 39 \<or> B = sint b + 2 * 2 ^ 39 \<and> - (2 ^ 39) \<le> sint b \<and> sint b < 0"
    using low40_cases [OF assms(1)] low40_cases [OF assms(2)] by (auto simp: A_def B_def)
  have "0 < (2 :: int) ^ 39" by simp
  note bits = add_bits [OF this ab]
  note r = bit_add_sub_result [of _ a b sub, folded A_def B_def]
  show "bit (add_sub_result a b sub) 40 \<longleftrightarrow> (if sub then low40 a < low40 b else 2 ^ 40 \<le> low40 a + low40 b)"
    using bits(3,4) by (simp add: r flip: A_def B_def)
  have s: "bit a 39 \<longleftrightarrow> sint a < 0" "bit b 39 \<longleftrightarrow> sint b < 0"
    using bits(1,2) bit_low40 [of 39 a] bit_low40 [of 39 b] by (simp_all add: A_def B_def)
  show "add_sub_overflow a b sub = of_bool (z < - (2 ^ 39) \<or> 2 ^ 39 \<le> z)"
    unfolding add_sub_overflow_def Let_def drop_bit_and_one mask40 of_bool_eq_iff
    using bits(5,6) s r [of 39] by (cases sub) (auto simp: z_def bit_simps)
  have "signed_take_bit 39 (uint (word_of_int k :: u64)) = signed_take_bit 39 k" for k
    by (intro bit_eqI) (auto simp: bit_simps bit_uint_iff bit_word_of_int_iff min_def)
  moreover have "signed_take_bit 39 (if sub then A - B else A + B) = signed_take_bit 39 z"
    by (simp add: z_def A_def B_def low40_def signed_take_bit_eq_iff_take_bit_eq take_bit_eq_mod mod_simps)
  ultimately show "sint (sign_extend 40 (add_sub_result a b sub)) = signed_take_bit 39 z"
    by (subst sint_sign_extend64) (simp_all add: add_sub_result_int flip: A_def B_def, cases sub, simp_all)
qed


lemma signed_take_bit_within: "- (2 ^ 39) \<le> z \<Longrightarrow> z < 2 ^ 39 \<Longrightarrow> signed_take_bit 39 z = (z :: int)"
  by (rule signed_take_bit_int_eq_self)

text \<open>
  C24: The adder of the accumulators is exact: over 40-bit accumulators AddSub gives the signed sum or
  difference, wrapped to 40 bits; the overflow flag is set exactly when the true result does not
  fit and is sticky in fvl; the carry flag is the carry out of the low 40 bits, or the borrow.
\<close>

theorem add_sub_exact:
  assumes "acc40 a" "acc40 b"
  shows "\<exists>v r'. add_sub a b sub r = Inr (v, r') \<and> acc40 v \<and>
    (let z = (if sub then sint a - sint b else sint a + sint b);
         overflow = z < - (2 ^ 39) \<or> 2 ^ 39 \<le> z in
      sint v = signed_take_bit 39 z \<and> (\<not> overflow \<longrightarrow> sint v = z) \<and>
      r' = r\<lparr>rg_fv := of_bool overflow,
        rg_fvl := (if overflow then 1 else rg_fvl r),
        rg_fc0 := of_bool (if sub then low40 a < low40 b else 2 ^ 40 \<le> low40 a + low40 b)\<rparr>)"
proof -
  let ?z = "if sub then sint a - sint b else sint a + sint b"
  note s = add_sub_sum [OF assms, of sub]
  have "\<not> (?z < - (2 ^ 39) \<or> 2 ^ 39 \<le> ?z) \<Longrightarrow> sint (sign_extend 40 (add_sub_result a b sub)) = ?z"
    using s(1) signed_take_bit_within [of ?z] by simp
  then show ?thesis
    using s by (simp add: add_sub_def drop_bit_and_one Let_def)
qed

lemma add_sub_exact_witness:
  "\<exists>v r'. add_sub 0x7FFFFFFFFF 1 False registers_reset = Inr (v, r') \<and> sint v = - (2 ^ 39) \<and> rg_fv r' = 1 \<and> rg_fvl r' = 1"
proof -
  have "acc40 0x7FFFFFFFFF" "acc40 1"
    by (simp_all add: acc40_def sign_extend_def mask_eq_exp_minus_1)
  from add_sub_exact [OF this, of False registers_reset] show ?thesis
    by (auto simp: signed_take_bit_eq_if_negative)
qed

section \<open>The multiplier\<close>

text \<open>What a factor stands for, and the second factor after the half-word mode.\<close>

definition mul_factor :: "bool \<Rightarrow> u16 \<Rightarrow> int" where
  "mul_factor is_signed w = (if is_signed then sint w else uint w)"

definition mul_y :: "nat \<Rightarrow> registers \<Rightarrow> u16" where
  "mul_y unit r =
     (let y = rg_y r ! unit; hwm = rg_hwm r in
      if hwm = 1 \<or> (hwm = 3 \<and> unit = 0) then drop_bit 8 y
      else if hwm = 2 \<or> (hwm = 3 \<and> unit = 1) then y AND 0xFF else y)"

lemma ucast_drop8: "(ucast (drop_bit 8 (w :: u16)) :: u32) = drop_bit 8 (ucast w)"
  by (rule bit_word_eqI) (auto simp: bit_simps dest: bit_imp_le_length)

lemma mul_y_32:
  "(let y = ucast (rg_y r ! unit) :: u32; hwm = rg_hwm r in
      if hwm = 1 \<or> (hwm = 3 \<and> unit = 0) then drop_bit 8 y
      else if hwm = 2 \<or> (hwm = 3 \<and> unit = 1) then y AND 0xFF else y) = ucast (mul_y unit r)"
  by (simp add: mul_y_def Let_def unsigned_and_eq ucast_drop8)

lemma sint_factor:
  "sint (if s then sign_extend 16 (ucast w) else (ucast w :: u32)) = mul_factor s w"
proof (cases s)
  case True
  have "sint (sign_extend 16 (ucast w :: u32)) = sint w"
    by (subst sign_extend_signed) (simp_all, intro bit_eqI, auto simp: bit_simps bit_sint_iff min_def)
  then show ?thesis by (simp add: True mul_factor_def)
next
  case False
  have "sint (ucast w :: u32) = uint w"
    by (intro bit_eqI) (auto simp: bit_simps bit_sint_iff bit_uint_iff min_def dest: bit_imp_le_length)
  then show ?thesis by (simp add: False mul_factor_def)
qed

lemma mul_factor_bounds:
  "\<bar>mul_factor s w\<bar> \<le> 2 ^ 16 - 1" "s \<Longrightarrow> \<bar>mul_factor s w\<bar> \<le> 2 ^ 15" "\<not> s \<Longrightarrow> 0 \<le> mul_factor s w"
proof -
  have "- (2 ^ 15) \<le> sint w" "sint w < 2 ^ 15"
    using sint_greater_eq [of w] sint_less [of w] by simp_all
  moreover have "0 \<le> uint w" "uint w < 2 ^ 16"
    using uint_ge_0 [of w] uint_lt2p [of w] by simp_all
  ultimately show "\<bar>mul_factor s w\<bar> \<le> 2 ^ 16 - 1" "s \<Longrightarrow> \<bar>mul_factor s w\<bar> \<le> 2 ^ 15"
      "\<not> s \<Longrightarrow> 0 \<le> mul_factor s w"
    by (auto simp: mul_factor_def)
qed

lemma mul_factor_product:
  "xs \<or> ys \<Longrightarrow> \<bar>mul_factor xs x * mul_factor ys y\<bar> < 2 ^ 31"
  "\<not> xs \<Longrightarrow> \<not> ys \<Longrightarrow> 0 \<le> mul_factor xs x * mul_factor ys y \<and> mul_factor xs x * mul_factor ys y < 2 ^ 32"
proof -
  note b = mul_factor_bounds [of xs x] mul_factor_bounds [of ys y]
  have le: "\<bar>mul_factor xs x\<bar> * \<bar>mul_factor ys y\<bar> \<le> m * n"
    if "\<bar>mul_factor xs x\<bar> \<le> m" "\<bar>mul_factor ys y\<bar> \<le> n" "0 \<le> m" for m n
    using that by (intro mult_mono) auto
  show "\<bar>mul_factor xs x * mul_factor ys y\<bar> < 2 ^ 31" if "xs \<or> ys"
    using that le [of "2 ^ 15" "2 ^ 16 - 1"] le [of "2 ^ 16 - 1" "2 ^ 15"] b by (auto simp: abs_mult)
  show "0 \<le> mul_factor xs x * mul_factor ys y \<and> mul_factor xs x * mul_factor ys y < 2 ^ 32"
    if "\<not> xs" "\<not> ys"
    using that le [of "2 ^ 16 - 1" "2 ^ 16 - 1"] b by (auto simp: abs_mult)
qed

text \<open>The product with its extension bit, as a number of 33 bits.\<close>

definition product33 :: "u32 \<Rightarrow> u16 \<Rightarrow> u64" where
  "product33 p pe = ucast p OR push_bit 32 (ucast pe)"

lemma bit_product33: "bit (product33 p pe) i \<longleftrightarrow> (if i < 32 then bit p i else i < 64 \<and> bit pe (i - 32))"
  by (auto simp: product33_def bit_simps dest: bit_imp_le_length)

lemma bit_sign_digit: "bit (ucast (drop_bit 31 (p :: u32)) :: u16) i \<longleftrightarrow> i = 0 \<and> bit p 31"
  by (cases i) (auto simp: bit_simps dest: bit_imp_le_length)

lemma product33_value:
  assumes "p = x * y" "sint (x :: u32) = mul_factor xs v" "sint y = mul_factor ys w"
  shows "signed_take_bit 32 (uint (product33 p (if xs \<or> ys then ucast (drop_bit 31 p) else 0)))
    = mul_factor xs v * mul_factor ys w"
proof -
  let ?z = "mul_factor xs v * mul_factor ys w"
  have p: "p = word_of_int ?z"
    by (simp add: assms(1) flip: assms(2,3))
  show ?thesis
  proof (cases "xs \<or> ys")
    case True
    have "signed_take_bit 32 (uint (product33 p (ucast (drop_bit 31 p)))) = sint p"
    proof (intro bit_eqI)
      fix i
      show "bit (signed_take_bit 32 (uint (product33 p (ucast (drop_bit 31 p))))) i = bit (sint p) i"
        by (cases "i < 32") (auto simp: bit_signed_take_bit_iff bit_uint_iff bit_product33 bit_sign_digit
            bit_sint_iff min_def dest: bit_imp_le_length)
    qed
    also have "\<dots> = signed_take_bit 31 ?z"
      unfolding p by (subst sint_sbintrunc') simp
    also have "\<dots> = ?z"
      using mul_factor_product(1) [OF True, of v w] by (intro signed_take_bit_int_eq_self) auto
    finally show ?thesis
      using True by simp
  next
    case False
    have "signed_take_bit 32 (uint (product33 p 0)) = uint p"
      by (intro bit_eqI) (auto simp: product33_def bit_simps bit_uint_iff min_def dest: bit_imp_le_length)
    also have "\<dots> = take_bit 32 ?z"
      unfolding p by (subst uint_word_of_int_eq) simp
    also have "\<dots> = ?z"
      using mul_factor_product(2) [of xs ys v w] False by (intro take_bit_int_eq_self) auto
    finally show ?thesis
      using False by simp
  qed
qed

lemma product_shift:
  fixes v :: u64
  assumes "drop_bit 33 v = 0"
  shows "sint (sign_extend 33 v) = signed_take_bit 32 (uint v)"
    "sint (sign_extend 32 (drop_bit 1 v)) = signed_take_bit 32 (uint v) div 2"
    "sint (sign_extend 34 (push_bit 1 v)) = 2 * signed_take_bit 32 (uint v)"
    "sint (sign_extend 35 (push_bit 2 v)) = 4 * signed_take_bit 32 (uint v)"
proof -
  have v: "\<not> bit v n" if "33 \<le> n" for n
  proof -
    have "bit v n = bit (drop_bit 33 v) (n - 33)"
      using that by (simp only: bit_drop_bit_eq o_apply le_add_diff_inverse)
    then show ?thesis
      by (simp only: assms bit_0_eq bot_apply bot_bool_def not_False_eq_True)
  qed
  show "sint (sign_extend 33 v) = signed_take_bit 32 (uint v)"
    by (simp add: sint_sign_extend64)
  have "sint (sign_extend 32 (drop_bit 1 v)) = drop_bit 1 (signed_take_bit 32 (uint v))"
    by (subst sint_sign_extend64, simp_all, intro bit_eqI)
      (auto simp: bit_simps bit_uint_iff min_def v)
  then show "sint (sign_extend 32 (drop_bit 1 v)) = signed_take_bit 32 (uint v) div 2"
    by (simp add: drop_bit_eq_div)
  have push: "signed_take_bit (32 + k) (push_bit k (uint v)) = push_bit k (signed_take_bit 32 (uint v))" for k
    by (intro bit_eqI) (auto simp: bit_push_bit_iff bit_signed_take_bit_iff min_def)
  have "sint (sign_extend (33 + k) (push_bit k v)) = 2 ^ k * signed_take_bit 32 (uint v)" if "k \<le> 2" for k
  proof -
    have "sint (sign_extend (33 + k) (push_bit k v)) = signed_take_bit (32 + k) (uint (push_bit k v))"
      using that by (subst sint_sign_extend64) simp_all
    also have "\<dots> = signed_take_bit (32 + k) (push_bit k (uint v))"
      using that by (simp add: unsigned_push_bit_eq signed_take_bit_take_bit)
    finally show ?thesis
      by (simp only: push) (simp add: push_bit_eq_mult mult.commute)
  qed
  from this [of 1] this [of 2] show "sint (sign_extend 34 (push_bit 1 v)) = 2 * signed_take_bit 32 (uint v)"
    "sint (sign_extend 35 (push_bit 2 v)) = 4 * signed_take_bit 32 (uint v)"
    by simp_all
qed


definition product_word :: "nat \<Rightarrow> bool \<Rightarrow> bool \<Rightarrow> registers \<Rightarrow> u32" where
  "product_word unit x_sign y_sign r =
     (if x_sign then sign_extend 16 (ucast (rg_x r ! unit)) else ucast (rg_x r ! unit)) *
     (if y_sign then sign_extend 16 (ucast (mul_y unit r)) else ucast (mul_y unit r))"

lemma do_multiplication_word:
  "do_multiplication unit xs ys r =
     r\<lparr>rg_p := (rg_p r)[unit := product_word unit xs ys r],
       rg_pe := (rg_pe r)[unit := if xs \<or> ys then ucast (drop_bit 31 (product_word unit xs ys r)) else 0]\<rparr>"
  using mul_y_32 [of r unit] by (simp only: do_multiplication_def product_word_def Let_def)

lemma do_multiplication_fields:
  "rg_p (do_multiplication unit xs ys r) = (rg_p r)[unit := product_word unit xs ys r]"
  "rg_pe (do_multiplication unit xs ys r) =
     (rg_pe r)[unit := if xs \<or> ys then ucast (drop_bit 31 (product_word unit xs ys r)) else 0]"
  "rg_ps (do_multiplication unit xs ys r) = rg_ps r"
  by (simp_all add: do_multiplication_word)

lemma product_to_bus40_multiplication:
  fixes xs ys :: bool
  assumes "registers_ok r" "unit < 2"
  defines "v \<equiv> product33 (product_word unit xs ys r) (if xs \<or> ys then ucast (drop_bit 31 (product_word unit xs ys r)) else 0)"
  shows "product_to_bus40 unit (do_multiplication unit xs ys r) =
    (let ps = rg_ps r ! unit in
     if ps = 0 then sign_extend 33 v else if ps = 1 then sign_extend 32 (drop_bit 1 v)
     else if ps = 2 then sign_extend 34 (push_bit 1 v) else if ps = 3 then sign_extend 35 (push_bit 2 v) else v)"
proof -
  have "unit < length (rg_p r)" "unit < length (rg_pe r)"
    using assms(1,2) by (simp_all add: registers_ok_def)
  then show ?thesis
    unfolding product_to_bus40_def Let_def v_def product33_def
    by (simp only: do_multiplication_fields nth_list_update_eq)
qed

lemma word_below_4: "(w :: u16) < 4 \<Longrightarrow> w = 0 \<or> w = 1 \<or> w = 2 \<or> w = 3"
  by unat_arith

lemma product_shift_cases:
  fixes v :: u64 and ps :: u16
  assumes "drop_bit 33 v = 0" "signed_take_bit 32 (uint v) = z" "ps < 4"
  shows "sint (if ps = 0 then sign_extend 33 v else if ps = 1 then sign_extend 32 (drop_bit 1 v)
      else if ps = 2 then sign_extend 34 (push_bit 1 v) else if ps = 3 then sign_extend 35 (push_bit 2 v) else v)
    = (if ps = 0 then z else if ps = 1 then z div 2 else if ps = 2 then 2 * z else 4 * z)"
  using word_below_4 [OF assms(3)] product_shift [OF assms(1), unfolded assms(2)] by auto

text \<open>
  C25: The multiplier is exact: whatever the signs of the two factors, the product register with its
  extension bit holds the product of the two numbers, and the bus reads it scaled by the product
  shifter: as it is, halved (rounded down), doubled or times four.
\<close>

theorem product_exact:
  assumes "registers_ok r" "unit < 2" "rg_ps r ! unit < 4"
  shows "sint (product_to_bus40 unit (do_multiplication unit xs ys r)) =
    (let product = mul_factor xs (rg_x r ! unit) * mul_factor ys (mul_y unit r); ps = rg_ps r ! unit in
     if ps = 0 then product else if ps = 1 then product div 2 else if ps = 2 then 2 * product else 4 * product)"
  unfolding product_to_bus40_multiplication [OF assms(1,2)] Let_def
proof (rule product_shift_cases [OF _ _ assms(3)])
  show "drop_bit 33 (product33 p (if xs \<or> ys then ucast (drop_bit 31 p) else 0)) = 0" for p
    by (rule bit_word_eqI) (auto simp: bit_drop_bit_eq bit_product33 bit_sign_digit)
qed (rule product33_value [OF product_word_def sint_factor sint_factor])

lemma product_exact_witness:
  "let r = registers_reset\<lparr>rg_x := [0x8000, 0], rg_y := [0xFFFF, 0], rg_ps := [2, 0]\<rparr> in
   sint (product_to_bus40 0 (do_multiplication 0 True False r)) = 2 * (- 32768 * 65535)"
  using product_exact [of "registers_reset\<lparr>rg_x := [0x8000, 0], rg_y := [0xFFFF, 0], rg_ps := [2, 0]\<rparr>" 0 True False]
  by (simp add: registers_reset_def registers_ok_def swap_shadows_initial_def mul_factor_def mul_y_def Let_def)

end
