(* ===== verification/Addressing.thy ===== *)
theory Addressing
  imports Register_File
begin

unbundle bit_operations_syntax

text \<open>
  src/src/interpreter.h, the private helpers on addresses: the address registers r0 to r7, the way an
  operand names one of them together with a step and an offset, and the arithmetic of a step with
  its modulo and bit-reversed modes.

  The unit of an address register is below 8 whenever the indirect registers hold what their
  fields can hold; an access past the eighth register is the failure \<open>OutOfBounds\<close>.
\<close>

section \<open>Operands that name a unit\<close>

text \<open>\<open>GetArRnUnit\<close>, \<open>GetArpRnUnit\<close>, with the index of the operand.\<close>

definition get_ar_rn_unit :: "nat \<Rightarrow> registers \<Rightarrow> nat" where
  "get_ar_rn_unit i r = unat (rg_arrn r ! i)"

definition get_arp_rn_unit :: "nat \<Rightarrow> registers \<Rightarrow> nat \<times> nat" where
  "get_arp_rn_unit i r = (unat (rg_arprni r ! i), unat (rg_arprnj r ! i + 4))"

definition convert_ar_step :: "u16 \<Rightarrow> step_value result" where
  "convert_ar_step v =
     (if v = 0 then Inr Step_Zero else if v = 1 then Inr Step_Increase
      else if v = 2 then Inr Step_Decrease else if v = 3 then Inr Step_PlusStep
      else if v = 4 then Inr Step_Increase2Mode1 else if v = 5 then Inr Step_Decrease2Mode1
      else if v = 6 then Inr Step_Increase2Mode2 else if v = 7 then Inr Step_Decrease2Mode2
      else Inl Abort)"

definition get_ar_step :: "nat \<Rightarrow> registers \<Rightarrow> step_value result" where
  "get_ar_step i r = convert_ar_step (rg_arstep r ! i)"

definition get_arp_step :: "nat \<Rightarrow> nat \<Rightarrow> registers \<Rightarrow> (step_value \<times> step_value) result" where
  "get_arp_step i j r =
     rbind (convert_ar_step (rg_arpstepi r ! i)) (\<lambda>si.
     rbind (convert_ar_step (rg_arpstepj r ! j)) (\<lambda>sj.
     Inr (si, sj)))"

text \<open>
  \<open>OffsetValue\<close> is an enumeration over 16 bits, cast from the field: a value the enumeration does
  not name is kept.
\<close>

definition Offset_Zero :: u16 where "Offset_Zero = 0"
definition Offset_PlusOne :: u16 where "Offset_PlusOne = 1"
definition Offset_MinusOne :: u16 where "Offset_MinusOne = 2"
definition Offset_MinusOneDmod :: u16 where "Offset_MinusOneDmod = 3"

lemmas offset_values = Offset_Zero_def Offset_PlusOne_def Offset_MinusOne_def Offset_MinusOneDmod_def

definition get_ar_offset :: "nat \<Rightarrow> registers \<Rightarrow> u16" where
  "get_ar_offset i r = rg_aroffset r ! i"

definition get_arp_offset :: "nat \<Rightarrow> nat \<Rightarrow> registers \<Rightarrow> u16 \<times> u16" where
  "get_arp_offset i j r = (rg_arpoffseti r ! i, rg_arpoffsetj r ! j)"

section \<open>Addresses\<close>

definition rn_address :: "nat \<Rightarrow> u16 \<Rightarrow> registers \<Rightarrow> u16 result" where
  "rn_address unit v r =
     (if 8 \<le> unit then Inl OutOfBounds
      else Inr (if rg_br r ! unit \<noteq> 0 \<and> rg_m r ! unit = 0 then bit_reverse16 v else v))"

definition unit_mod :: "nat \<Rightarrow> registers \<Rightarrow> u16" where
  "unit_mod unit r = (if unit < 4 then rg_modi r else rg_modj r)"

text \<open>The mask of an offset: the bits at and below the highest one of the modulus, at least one.\<close>

definition offset_mask :: "u16 \<Rightarrow> u16" where
  "offset_mask md = foldl (\<lambda>msk i. msk OR drop_bit i md) 1 [0..<9]"

definition offset_address :: "nat \<Rightarrow> u16 \<Rightarrow> u16 \<Rightarrow> bool \<Rightarrow> registers \<Rightarrow> u16 result" where
  "offset_address unit address offset dmod r =
     (if offset = Offset_Zero then Inr address
      else if offset = Offset_MinusOneDmod then Inr (address - 1)
      else if 8 \<le> unit then Inl OutOfBounds
      else
        let emod = rg_m r ! unit AND of_bool (rg_br r ! unit = 0) AND of_bool (\<not> dmod) \<noteq> 0;
            md = unit_mod unit r;
            msk = offset_mask md
        in if offset = Offset_PlusOne then
             if \<not> emod then Inr (address + 1)
             else if address AND msk = md then Inr (address AND NOT msk)
             else Inr (address + 1)
           else
             if \<not> emod then Inr (address - 1) else Inl Unimplemented)"

section \<open>Steps\<close>

text \<open>The amount of a step, and whether it is a step by two in one of its two modes.\<close>

definition plus_step :: "nat \<Rightarrow> registers \<Rightarrow> u16" where
  "plus_step unit r =
     (let step0 = (if unit < 4 then rg_stepi0 r else rg_stepj0 r);
          s = (if rg_br r ! unit \<noteq> 0 \<and> rg_m r ! unit = 0 then step0
               else sign_extend 7 (if unit < 4 then rg_stepi r else rg_stepj r))
      in if rg_stp16 r = 1 \<and> rg_cmd r = 0
         then if rg_m r ! unit \<noteq> 0 then sign_extend 9 step0 else step0
         else s)"

fun step_amount :: "nat \<Rightarrow> step_value \<Rightarrow> registers \<Rightarrow> u16" where
  "step_amount unit Step_Zero r = 0"
| "step_amount unit Step_Increase r = 1"
| "step_amount unit Step_Decrease r = 0xFFFF"
| "step_amount unit Step_Increase2Mode1 r = 2"
| "step_amount unit Step_Decrease2Mode1 r = 0xFFFE"
| "step_amount unit Step_Increase2Mode2 r = 2"
| "step_amount unit Step_Decrease2Mode2 r = 0xFFFE"
| "step_amount unit Step_PlusStep r = plus_step unit r"

definition is_mode1 :: "step_value \<Rightarrow> bool" where
  "is_mode1 step \<longleftrightarrow> step = Step_Increase2Mode1 \<or> step = Step_Decrease2Mode1"

definition is_mode2 :: "step_value \<Rightarrow> bool" where
  "is_mode2 step \<longleftrightarrow> step = Step_Increase2Mode2 \<or> step = Step_Decrease2Mode2"

text \<open>One round of the modulo arithmetic: as the older processor does it, and as the new one does.\<close>

definition modulo_mask :: "u16 \<Rightarrow> u16" where
  "modulo_mask m = push_bit (log2p1 m) 1 - 1"

definition step_legacy :: "bool \<Rightarrow> u16 \<Rightarrow> u16 \<Rightarrow> u16 \<Rightarrow> u16" where
  "step_legacy step2_mode2 md s address =
     (let negative = drop_bit 15 s \<noteq> 0;
          msk = modulo_mask (md OR (if negative then NOT s else s));
          next =
            (if \<not> negative
             then if address AND msk = md \<and> (\<not> step2_mode2 \<or> md \<noteq> msk) then 0 else (address + s) AND msk
             else if address AND msk = 0 \<and> (\<not> step2_mode2 \<or> md \<noteq> msk) then md else (address + s) AND msk)
      in (address AND NOT msk) OR next)"

definition step_modulo :: "u16 \<Rightarrow> u16 \<Rightarrow> u16 \<Rightarrow> u16" where
  "step_modulo md s address =
     (let msk = modulo_mask md;
          next =
            (if s < 0x8000
             then let n = (address + s) AND msk in if n = (md + 1) AND msk then 0 else n
             else let n = address AND msk in ((if n = 0 then md + 1 else n) + s) AND msk)
      in (address AND NOT msk) OR next)"

definition step_address :: "nat \<Rightarrow> u16 \<Rightarrow> step_value \<Rightarrow> bool \<Rightarrow> registers \<Rightarrow> u16" where
  "step_address unit address step dmod r =
     (let legacy = rg_cmd r \<noteq> 0;
          step2_mode1 = is_mode1 step \<and> \<not> legacy;
          step2_mode2 = is_mode2 step \<and> \<not> legacy;
          s = step_amount unit step r
      in if s = 0 then address
         else if \<not> dmod \<and> rg_br r ! unit = 0 \<and> rg_m r ! unit \<noteq> 0 then
           let md = unit_mod unit r in
             if md = 0 then address
             else if md = 1 \<and> step2_mode2 then address
             else
               let s = (if step2_mode1 then sign_extend 15 (drop_bit 1 s) else s);
                   round = (if legacy \<or> step2_mode2 then step_legacy step2_mode2 md s else step_modulo md s)
               in if step2_mode1 then round (round address) else round address
         else address + s)"

section \<open>Modification\<close>

definition rn_and_modify :: "nat \<Rightarrow> step_value \<Rightarrow> bool \<Rightarrow> (registers, u16) step" where
  "rn_and_modify unit step dmod r =
     (if 8 \<le> unit then Inl OutOfBounds
      else
        let ret = rg_r r ! unit;
            ends = ((unit = 3 \<and> rg_epi r \<noteq> 0) \<or> (unit = 7 \<and> rg_epj r \<noteq> 0)) \<and> \<not> is_mode1 step \<and> \<not> is_mode2 step
        in Inr (ret, r\<lparr>rg_r := (rg_r r)[unit := if ends then 0 else step_address unit ret step dmod r]\<rparr>))"

definition rn_address_and_modify :: "nat \<Rightarrow> step_value \<Rightarrow> bool \<Rightarrow> (registers, u16) step" where
  "rn_address_and_modify unit step dmod =
     sbind (rn_and_modify unit step dmod) (\<lambda>v. squery (rn_address unit v))"

end
