(* ===== verification/Machine.thy ===== *)
theory Machine
  imports Clocked_System Arithmetic Addressing
begin

unbundle bit_operations_syntax

text \<open>
  The machine of src/src/interpreter.h: the registers, the peripherals it reaches through the memory
  interface, the interrupts that were signalled to it, and the accesses every instruction is made
  of. It also holds what instructions share: the program counter on the stack, the block
  repeat, and the context switch.

  The callbacks the host installed into the bus master are a field, as they are in the code. What
  leaves the emulator towards the host is appended to a list.
\<close>

section \<open>State\<close>

record 'x machine =
  mc_regs :: registers
  mc_sys :: "'x system"
  mc_bus :: "'x external_bus"
  mc_interrupt_pending :: "bool list"
  mc_vinterrupt_pending :: bool
  mc_vinterrupt_context_switch :: bool
  mc_vinterrupt_address :: u32
  mc_idle :: bool
  mc_out :: "signal list"

type_synonym ('x, 'a) mstep = "('x machine, 'a) step"
type_synonym 'x instr = "('x machine, unit) step"

text \<open>A step over the registers, as a step of the machine.\<close>

definition on_regs :: "(registers, 'a) step \<Rightarrow> ('x, 'a) mstep" where
  "on_regs m s = rbind (m (mc_regs s)) (\<lambda>(x, r). Inr (x, s\<lparr>mc_regs := r\<rparr>))"

definition rget :: "(registers \<Rightarrow> 'a) \<Rightarrow> ('x, 'a) mstep" where
  "rget f = on_regs (sget f)"

definition rupd :: "(registers \<Rightarrow> registers) \<Rightarrow> 'x instr" where
  "rupd f = on_regs (supd f)"

section \<open>Signals\<close>

definition signal_interrupt :: "nat \<Rightarrow> 'x instr" where
  "signal_interrupt i s =
     (if i < length (mc_interrupt_pending s)
      then Inr ((), s\<lparr>mc_interrupt_pending := (mc_interrupt_pending s)[i := True]\<rparr>)
      else Inl OutOfBounds)"

definition signal_vectored_interrupt :: "u32 \<Rightarrow> bool \<Rightarrow> 'x instr" where
  "signal_vectored_interrupt address context_switch = supd (\<lambda>s. s\<lparr>
     mc_vinterrupt_address := address,
     mc_vinterrupt_pending := True,
     mc_vinterrupt_context_switch := context_switch\<rparr>)"

fun deliver_signal :: "signal \<Rightarrow> 'x instr" where
  "deliver_signal (ToProcessor (OnInterrupt i)) = signal_interrupt i"
| "deliver_signal (ToProcessor (OnVectoredInterrupt address c)) = signal_vectored_interrupt address c"
| "deliver_signal e = supd (\<lambda>s. s\<lparr>mc_out := mc_out s @ [e]\<rparr>)"

definition deliver_signals :: "signal list \<Rightarrow> 'x instr" where
  "deliver_signals es = sseq (map deliver_signal es)"

text \<open>An action of the peripherals: its signals reach the processor at once.\<close>

definition sys_action :: "'x action \<Rightarrow> 'x instr" where
  "sys_action f s =
     rbind (f (mc_sys s)) (\<lambda>(t, out). deliver_signals out (s\<lparr>mc_sys := t\<rparr>))"

section \<open>Memory\<close>

definition mem_data_read :: "u16 \<Rightarrow> ('x, u16) mstep" where
  "mem_data_read address s =
     rbind (data_read (mc_bus s) address False (mc_sys s)) (\<lambda>(v, t). Inr (v, s\<lparr>mc_sys := t\<rparr>))"

definition mem_data_write :: "u16 \<Rightarrow> u16 \<Rightarrow> 'x instr" where
  "mem_data_write address v s = sys_action (data_write (mc_bus s) address v False) s"

definition mem_program_read :: "u32 \<Rightarrow> ('x, u16) mstep" where
  "mem_program_read address = squery (\<lambda>s. program_read address (sys_memory (mc_sys s)))"

definition mem_program_write :: "u32 \<Rightarrow> u16 \<Rightarrow> 'x instr" where
  "mem_program_write address v s =
     rbind (program_write address v (sys_memory (mc_sys s))) (\<lambda>m.
       Inr ((), s\<lparr>mc_sys := (mc_sys s)\<lparr>sys_memory := m\<rparr>\<rparr>))"

text \<open>\<open>DataWrite(--sp, v)\<close> and \<open>DataRead(sp++)\<close>.\<close>

definition push_word :: "u16 \<Rightarrow> 'x instr" where
  "push_word v =
     sbind (rupd (\<lambda>r. r\<lparr>rg_sp := rg_sp r - 1\<rparr>)) (\<lambda>_.
     sbind (rget rg_sp) (\<lambda>sp. mem_data_write sp v))"

definition pop_word :: "('x, u16) mstep" where
  "pop_word =
     sbind (rget rg_sp) (\<lambda>sp.
     sbind (rupd (\<lambda>r. r\<lparr>rg_sp := rg_sp r + 1\<rparr>)) (\<lambda>_. mem_data_read sp))"

section \<open>The program counter\<close>

definition set_pc :: "u32 \<Rightarrow> 'x instr" where
  "set_pc new_pc = (if new_pc < 0x40000 then rupd (\<lambda>r. r\<lparr>rg_pc := new_pc\<rparr>) else sfail Abort)"

definition push_pc :: "'x instr" where
  "push_pc =
     sbind (rget rg_pc) (\<lambda>pc.
     sbind (rget rg_cpc) (\<lambda>cpc.
     let l = ucast (pc AND 0xFFFF); h = ucast (drop_bit 16 pc) in
     if cpc = 1 then sseq [push_word h, push_word l] else sseq [push_word l, push_word h]))"

definition pop_pc :: "'x instr" where
  "pop_pc =
     sbind (rget rg_cpc) (\<lambda>cpc.
     sbind pop_word (\<lambda>first.
     sbind pop_word (\<lambda>second.
     let l = (if cpc = 1 then first else second); h = (if cpc = 1 then second else first)
     in set_pc (ucast l OR push_bit 16 (ucast h)))))"

section \<open>Block repeat\<close>

text \<open>\<open>bkrep_stack\<close> has four frames; \<open>bcn\<close> counts those in use.\<close>

definition block_repeat :: "u16 \<Rightarrow> u32 \<Rightarrow> (registers, unit) step" where
  "block_repeat lc address =
     sbind (sget (\<lambda>r. rg_bcn r \<le> 3)) (\<lambda>room.
     if room then supd (\<lambda>r.
       (put_frame (unat (rg_bcn r)) \<lparr>fr_start = rg_pc r, fr_end = address, fr_lc = lc\<rparr> r)\<lparr>
         rg_lp := 1, rg_bcn := rg_bcn r + 1\<rparr>)
     else sfail Abort)"

text \<open>\<open>std::copy_backward\<close> and \<open>std::copy\<close> over the frames in use.\<close>

definition frames_down :: "nat \<Rightarrow> block_repeat_frame list \<Rightarrow> block_repeat_frame list" where
  "frames_down n fs = take 1 fs @ take n fs @ drop (n + 1) fs"

definition frames_up :: "nat \<Rightarrow> block_repeat_frame list \<Rightarrow> block_repeat_frame list" where
  "frames_up n fs = take (n - 1) (drop 1 fs) @ drop (n - 1) fs"

text \<open>The block repeat is stored and restored through a register that holds an address.\<close>

definition read_next :: "(registers \<Rightarrow> u16) \<Rightarrow> (u16 \<Rightarrow> registers \<Rightarrow> registers) \<Rightarrow> ('x, u16) mstep" where
  "read_next get put =
     sbind (rget get) (\<lambda>address.
     sbind (rupd (put (address + 1))) (\<lambda>_. mem_data_read address))"

definition write_previous :: "(registers \<Rightarrow> u16) \<Rightarrow> (u16 \<Rightarrow> registers \<Rightarrow> registers) \<Rightarrow> u16 \<Rightarrow> 'x instr" where
  "write_previous get put v =
     sbind (rget get) (\<lambda>address.
     sbind (rupd (put (address - 1))) (\<lambda>_. mem_data_write (address - 1) v))"

definition outer_frames :: "(registers, unit) step" where
  "outer_frames =
     sbind (sget (\<lambda>r. rg_bcn r \<le> 3)) (\<lambda>room.
     if room then supd (\<lambda>r. r\<lparr>
       rg_bkrep_stack := frames_down (unat (rg_bcn r)) (rg_bkrep_stack r),
       rg_bcn := rg_bcn r + 1\<rparr>)
     else sfail Abort)"

definition restore_block_repeat :: "(registers \<Rightarrow> u16) \<Rightarrow> (u16 \<Rightarrow> registers \<Rightarrow> registers) \<Rightarrow> 'x instr" where
  "restore_block_repeat get put =
     sbind (rget rg_lp) (\<lambda>lp.
     sbind (swhen (lp \<noteq> 0) (on_regs outer_frames)) (\<lambda>_.
     sbind (read_next get put) (\<lambda>flag16.
     let flag = ucast flag16 :: u32; valid = drop_bit 15 flag16 in
     sbind (if lp \<noteq> 0 then (if valid \<noteq> 0 then sreturn () else sfail Abort)
            else swhen (valid \<noteq> 0) (rupd (\<lambda>r. r\<lparr>rg_lp := 1, rg_bcn := 1\<rparr>))) (\<lambda>_.
     sbind (read_next get put) (\<lambda>v.
     sbind (rupd (\<lambda>r. put_frame 0 ((rg_bkrep_stack r ! 0)\<lparr>fr_end := ucast v OR push_bit 16 (drop_bit 8 flag AND 3)\<rparr>) r)) (\<lambda>_.
     sbind (read_next get put) (\<lambda>v.
     sbind (rupd (\<lambda>r. put_frame 0 ((rg_bkrep_stack r ! 0)\<lparr>fr_start := ucast v OR push_bit 16 (flag AND 3)\<rparr>) r)) (\<lambda>_.
     sbind (read_next get put) (\<lambda>v.
     rupd (\<lambda>r. put_frame 0 ((rg_bkrep_stack r ! 0)\<lparr>fr_lc := v\<rparr>) r))))))))))"

text \<open>
  With the loop flag set and no frame in use, which no instruction produces, the copy of the code
  would run past the array.
\<close>

definition inner_frames :: "(registers, unit) step" where
  "inner_frames =
     sbind (sget rg_bcn) (\<lambda>bcn.
     if bcn = 0 \<or> 4 < bcn then sfail OutOfBounds
     else sseq [
       supd (\<lambda>r. r\<lparr>rg_bkrep_stack := frames_up (unat bcn) (rg_bkrep_stack r), rg_bcn := bcn - 1\<rparr>),
       supd (\<lambda>r. if rg_bcn r = 0 then r\<lparr>rg_lp := 0\<rparr> else r)])"

definition store_block_repeat :: "(registers \<Rightarrow> u16) \<Rightarrow> (u16 \<Rightarrow> registers \<Rightarrow> registers) \<Rightarrow> 'x instr" where
  "store_block_repeat get put =
     sbind (rget (\<lambda>r. rg_bkrep_stack r ! 0)) (\<lambda>f.
     sbind (rget rg_lp) (\<lambda>lp. sseq [
       write_previous get put (fr_lc f),
       write_previous get put (ucast (fr_start f AND 0xFFFF)),
       write_previous get put (ucast (fr_end f AND 0xFFFF)),
       write_previous get put
         (push_bit 15 lp OR ucast (drop_bit 16 (fr_start f)) OR ucast (push_bit 8 (drop_bit 16 (fr_end f)))),
       swhen (lp \<noteq> 0) (on_regs inner_frames)]))"

section \<open>Context switch\<close>

definition context_store :: "(registers, unit) step" where
  "context_store = sseq [
     supd (\<lambda>r. shadow_swap (shadow_store r)),
     supd (\<lambda>r. if rg_crep r = 0 then r\<lparr>rg_repcs := rg_repc r\<rparr> else r),
     sbind (sget rg_ccnta) (\<lambda>ccnta.
       if ccnta = 0 then supd (\<lambda>r. r\<lparr>rg_a1s := rg_a r ! 1, rg_b1s := rg_b r ! 1\<rparr>)
       else
         sbind (sget (\<lambda>r. (rg_a r ! 1, rg_b r ! 1))) (\<lambda>(a, b). sseq [
           supd (\<lambda>r. r\<lparr>rg_b := (rg_b r)[1 := a]\<rparr>),
           set_acc_and_flag Reg_a1 b]))]"

definition context_restore :: "registers \<Rightarrow> registers" where
  "context_restore r =
     (let r = shadow_swap (shadow_restore r);
          r = (if rg_crep r = 0 then r\<lparr>rg_repc := rg_repcs r\<rparr> else r)
      in if rg_ccnta r = 0 then r\<lparr>rg_a := (rg_a r)[1 := rg_a1s r], rg_b := (rg_b r)[1 := rg_b1s r]\<rparr>
         else r\<lparr>rg_a := (rg_a r)[1 := rg_b r ! 1], rg_b := (rg_b r)[1 := rg_a r ! 1]\<rparr>)"

end
