(* ===== verification/Instr_Support.thy ===== *)
theory Instr_Support
  imports Machine
begin

unbundle bit_operations_syntax

text \<open>
  What the instructions of src/src/interpreter.h share: the names their operands select, the loads and
  stores of the direct and indexed addressing modes, and the address registers they step. An
  operand is the number the decoder extracts from its bits of the opcode.
\<close>

section \<open>Operands\<close>

abbreviation Ax :: "u16 \<Rightarrow> reg_name" where "Ax \<equiv> operand_name Ax_values"
abbreviation Axl :: "u16 \<Rightarrow> reg_name" where "Axl \<equiv> operand_name Axl_values"
abbreviation Axh :: "u16 \<Rightarrow> reg_name" where "Axh \<equiv> operand_name Axh_values"
abbreviation Bx :: "u16 \<Rightarrow> reg_name" where "Bx \<equiv> operand_name Bx_values"
abbreviation Bxl :: "u16 \<Rightarrow> reg_name" where "Bxl \<equiv> operand_name Bxl_values"
abbreviation Bxh :: "u16 \<Rightarrow> reg_name" where "Bxh \<equiv> operand_name Bxh_values"
abbreviation Ab :: "u16 \<Rightarrow> reg_name" where "Ab \<equiv> operand_name Ab_values"
abbreviation Abl :: "u16 \<Rightarrow> reg_name" where "Abl \<equiv> operand_name Abl_values"
abbreviation Abh :: "u16 \<Rightarrow> reg_name" where "Abh \<equiv> operand_name Abh_values"
abbreviation Abe :: "u16 \<Rightarrow> reg_name" where "Abe \<equiv> operand_name Abe_values"
abbreviation Ablh :: "u16 \<Rightarrow> reg_name" where "Ablh \<equiv> operand_name Ablh_values"
abbreviation RnOld :: "u16 \<Rightarrow> reg_name" where "RnOld \<equiv> operand_name RnOld_values"
abbreviation Register :: "u16 \<Rightarrow> reg_name" where "Register \<equiv> operand_name Register_values"
abbreviation ArArpSttMod :: "u16 \<Rightarrow> reg_name" where "ArArpSttMod \<equiv> operand_name ArArpSttMod_values"
abbreviation ArArp :: "u16 \<Rightarrow> reg_name" where "ArArp \<equiv> operand_name ArArp_values"
abbreviation SttMod :: "u16 \<Rightarrow> reg_name" where "SttMod \<equiv> operand_name SttMod_values"
abbreviation StepZIDS :: "u16 \<Rightarrow> step_value" where "StepZIDS \<equiv> operand_name StepZIDS_values"
abbreviation Alm :: "u16 \<Rightarrow> alm_op" where "Alm \<equiv> operand_name Alm_values"
abbreviation Alu :: "u16 \<Rightarrow> alm_op" where "Alu \<equiv> operand_name Alu_values"
abbreviation Alb :: "u16 \<Rightarrow> alb_op" where "Alb \<equiv> operand_name Alb_values"
abbreviation Mul3 :: "u16 \<Rightarrow> mul_op" where "Mul3 \<equiv> operand_name Mul3_values"
abbreviation Mul2 :: "u16 \<Rightarrow> mul_op" where "Mul2 \<equiv> operand_name Mul2_values"
abbreviation Moda4 :: "u16 \<Rightarrow> moda_op" where "Moda4 \<equiv> operand_name Moda4_values"
abbreviation Moda3 :: "u16 \<Rightarrow> moda_op" where "Moda3 \<equiv> operand_name Moda3_values"
abbreviation Cond :: "u16 \<Rightarrow> cond_value" where "Cond \<equiv> operand_name Cond_values"
abbreviation SwapType :: "u16 \<Rightarrow> swap_type" where "SwapType \<equiv> operand_name SwapType_values"
abbreviation CbsCond :: "u16 \<Rightarrow> cbs_cond_value" where "CbsCond \<equiv> operand_name CbsCond_values"

section \<open>Conditions and values\<close>

definition if_cond :: "u16 \<Rightarrow> 'x instr \<Rightarrow> 'x instr" where
  "if_cond cond m = sbind (rget (condition_pass (Cond cond))) (\<lambda>pass. swhen pass m)"

abbreviation acc_value :: "reg_name \<Rightarrow> ('x, u64) mstep" where
  "acc_value name \<equiv> on_regs (get_acc name)"

text \<open>The bus value of a register: without the saturation of moves, and with it.\<close>

abbreviation bus_value :: "reg_name \<Rightarrow> ('x, u16) mstep" where
  "bus_value name \<equiv> on_regs (reg_to_bus16 name False)"

abbreviation bus_value_sat :: "reg_name \<Rightarrow> ('x, u16) mstep" where
  "bus_value_sat name \<equiv> on_regs (reg_to_bus16 name True)"

abbreviation to_bus :: "reg_name \<Rightarrow> u16 \<Rightarrow> 'x instr" where
  "to_bus name v \<equiv> on_regs (reg_from_bus16 name v)"

text \<open>The low and the high word of an accumulator.\<close>

definition low16 :: "u64 \<Rightarrow> u16" where
  "low16 v = ucast (v AND 0xFFFF)"

definition high16 :: "u64 \<Rightarrow> u16" where
  "high16 v = ucast (drop_bit 16 v AND 0xFFFF)"

text \<open>A word in the upper half, with its sign.\<close>

definition upper_word :: "u16 \<Rightarrow> u64" where
  "upper_word v = sign_extend 32 (push_bit 16 (ucast v))"

definition word_pair :: "u16 \<Rightarrow> u16 \<Rightarrow> u64" where
  "word_pair h l = sign_extend 32 (push_bit 16 (ucast h) OR ucast l)"

section \<open>Loads and stores\<close>

definition mem_imm8 :: "u16 \<Rightarrow> ('x, u16) mstep" where
  "mem_imm8 addr = rget (\<lambda>r. addr + push_bit 8 (rg_page r))"

definition mem_r7_imm16 :: "u16 \<Rightarrow> ('x, u16) mstep" where
  "mem_r7_imm16 addr = rget (\<lambda>r. addr + rg_r r ! 7)"

definition mem_r7_imm7s :: "u16 \<Rightarrow> ('x, u16) mstep" where
  "mem_r7_imm7s addr = rget (\<lambda>r. signed16 7 addr + rg_r r ! 7)"

definition load_imm8 :: "u16 \<Rightarrow> ('x, u16) mstep" where
  "load_imm8 addr = sbind (mem_imm8 addr) mem_data_read"

definition load_imm16 :: "u16 \<Rightarrow> ('x, u16) mstep" where
  "load_imm16 addr = mem_data_read addr"

definition load_r7_imm16 :: "u16 \<Rightarrow> ('x, u16) mstep" where
  "load_r7_imm16 addr = sbind (mem_r7_imm16 addr) mem_data_read"

definition load_r7_imm7s :: "u16 \<Rightarrow> ('x, u16) mstep" where
  "load_r7_imm7s addr = sbind (mem_r7_imm7s addr) mem_data_read"

definition store_imm8 :: "u16 \<Rightarrow> u16 \<Rightarrow> 'x instr" where
  "store_imm8 addr v = sbind (mem_imm8 addr) (\<lambda>a. mem_data_write a v)"

definition store_imm16 :: "u16 \<Rightarrow> u16 \<Rightarrow> 'x instr" where
  "store_imm16 addr v = mem_data_write addr v"

definition store_r7_imm16 :: "u16 \<Rightarrow> u16 \<Rightarrow> 'x instr" where
  "store_r7_imm16 addr v = sbind (mem_r7_imm16 addr) (\<lambda>a. mem_data_write a v)"

definition store_r7_imm7s :: "u16 \<Rightarrow> u16 \<Rightarrow> 'x instr" where
  "store_r7_imm7s addr v = sbind (mem_r7_imm7s addr) (\<lambda>a. mem_data_write a v)"

section \<open>Address registers\<close>

text \<open>The address a unit points to, modified by its step; and the word it addresses.\<close>

definition step_unit :: "nat \<Rightarrow> step_value \<Rightarrow> bool \<Rightarrow> ('x, u16) mstep" where
  "step_unit unit step dmod = on_regs (rn_address_and_modify unit step dmod)"

definition step_rn :: "u16 \<Rightarrow> u16 \<Rightarrow> ('x, u16) mstep" where
  "step_rn rn as = step_unit (unat rn) (StepZIDS as) False"

definition read_rn :: "u16 \<Rightarrow> u16 \<Rightarrow> ('x, u16) mstep" where
  "read_rn rn as = sbind (step_rn rn as) mem_data_read"

text \<open>\<open>GetArRnUnit\<close> and \<open>GetArStep\<close>: the unit, and its address before the step.\<close>

definition step_ar :: "u16 \<Rightarrow> nat \<Rightarrow> ('x, nat \<times> u16) mstep" where
  "step_ar rn step_index =
     sbind (rget (get_ar_rn_unit (unat rn))) (\<lambda>unit.
     sbind (on_regs (squery (get_ar_step step_index))) (\<lambda>step.
     sbind (step_unit unit step False) (\<lambda>address. sreturn (unit, address))))"

definition read_ar :: "u16 \<Rightarrow> u16 \<Rightarrow> ('x, u16) mstep" where
  "read_ar rn as = sbind (step_ar rn (unat as)) (\<lambda>(unit, address). mem_data_read address)"

definition write_ar :: "u16 \<Rightarrow> u16 \<Rightarrow> u16 \<Rightarrow> 'x instr" where
  "write_ar rn as v = sbind (step_ar rn (unat as)) (\<lambda>(unit, address). mem_data_write address v)"

text \<open>The second address of a pair: the first one moved by the offset.\<close>

definition offset_unit :: "nat \<Rightarrow> u16 \<Rightarrow> u16 \<Rightarrow> bool \<Rightarrow> ('x, u16) mstep" where
  "offset_unit unit address offset dmod = on_regs (squery (offset_address unit address offset dmod))"

definition step_ar_pair :: "u16 \<Rightarrow> u16 \<Rightarrow> ('x, u16 \<times> u16) mstep" where
  "step_ar_pair rn as =
     sbind (step_ar rn (unat as)) (\<lambda>(unit, address).
     sbind (rget (get_ar_offset (unat as))) (\<lambda>offset.
     sbind (offset_unit unit address offset False) (\<lambda>address2. sreturn (address, address2))))"

text \<open>\<open>GetArpRnUnit\<close> and \<open>GetArpStep\<close>: two units, stepped one after the other.\<close>

definition arp_units :: "u16 \<Rightarrow> u16 \<Rightarrow> u16 \<Rightarrow> ('x, (nat \<times> nat) \<times> (step_value \<times> step_value)) mstep" where
  "arp_units rn asi asj =
     sbind (rget (get_arp_rn_unit (unat rn))) (\<lambda>units.
     sbind (on_regs (squery (get_arp_step (unat asi) (unat asj)))) (\<lambda>steps.
     sreturn (units, steps)))"

definition step_arp :: "u16 \<Rightarrow> u16 \<Rightarrow> u16 \<Rightarrow> bool \<Rightarrow> bool \<Rightarrow> ('x, (nat \<times> nat) \<times> (u16 \<times> u16)) mstep" where
  "step_arp rn asi asj dmodi dmodj =
     sbind (arp_units rn asi asj) (\<lambda>((ui, uj), (si, sj)).
     sbind (step_unit ui si dmodi) (\<lambda>i.
     sbind (step_unit uj sj dmodj) (\<lambda>j.
     sreturn ((ui, uj), (i, j)))))"

end
