(* ===== verification/Instr_Arith.thy ===== *)
theory Instr_Arith
  imports Instr_Support
begin

unbundle bit_operations_syntax

text \<open>
  The arithmetic and logic instructions of src/src/interpreter.h, one definition per method, in its
  order. Overloads of a method have the kind of their operands in the name. Where C++ leaves the
  order of two reads open, the left one is first.
\<close>

section \<open>Normalisation and swaps\<close>

definition discard :: "('s, 'a) step \<Rightarrow> ('s, unit) step" where
  "discard m = sbind m (\<lambda>_. sreturn ())"

definition set_fr :: "nat \<Rightarrow> registers \<Rightarrow> registers" where
  "set_fr unit r = r\<lparr>rg_fr := of_bool (rg_r r ! unit = 0)\<rparr>"

definition nop :: "'x instr" where
  "nop = sreturn ()"

definition norm :: "u16 \<Rightarrow> u16 \<Rightarrow> u16 \<Rightarrow> 'x instr" where
  "norm a b bs = on_regs (
     sbind (sget rg_fn) (\<lambda>fn. swhen (fn = 0) (
     sbind (get_acc (Ax a)) (\<lambda>v. sseq [
       supd (set_fv_sticky (v \<noteq> sign_extend 39 v)),
       supd (\<lambda>r. r\<lparr>rg_fc0 := of_bool (push_bit 1 v AND push_bit 40 1 \<noteq> 0)\<rparr>),
       set_acc_and_flag (Ax a) (sign_extend 40 (push_bit 1 v)),
       discard (rn_and_modify (unat b) (StepZIDS bs) False),
       supd (set_fr (unat b))]))))"

text \<open>Two moves at once, each with saturation; only the second one's flags remain.\<close>

definition move_pair :: "reg_name \<Rightarrow> reg_name \<Rightarrow> reg_name \<Rightarrow> reg_name \<Rightarrow> (registers, unit) step" where
  "move_pair s0 d0 s1 d1 =
     sbind (get_acc s0) (\<lambda>u.
     sbind (get_acc s1) (\<lambda>v. sseq [sat_and_set_acc_and_flag d0 u, sat_and_set_acc_and_flag d1 v]))"

fun swap_moves :: "swap_type \<Rightarrow> (registers, unit) step" where
  "swap_moves Swap_a0b0 = move_pair Reg_a0 Reg_b0 Reg_b0 Reg_a0"
| "swap_moves Swap_a0b1 = move_pair Reg_a0 Reg_b1 Reg_b1 Reg_a0"
| "swap_moves Swap_a1b0 = move_pair Reg_a1 Reg_b0 Reg_b0 Reg_a1"
| "swap_moves Swap_a1b1 = move_pair Reg_a1 Reg_b1 Reg_b1 Reg_a1"
| "swap_moves Swap_a0b0a1b1 =
     sseq [move_pair Reg_b1 Reg_a1 Reg_a1 Reg_b1, move_pair Reg_a0 Reg_b0 Reg_b0 Reg_a0]"
| "swap_moves Swap_a0b1a1b0 =
     sseq [move_pair Reg_b0 Reg_a1 Reg_a1 Reg_b0, move_pair Reg_a0 Reg_b1 Reg_b1 Reg_a0]"
| "swap_moves Swap_a0b0a1 = move_pair Reg_a0 Reg_b0 Reg_b0 Reg_a1"
| "swap_moves Swap_a0b1a1 = move_pair Reg_a0 Reg_b1 Reg_b1 Reg_a1"
| "swap_moves Swap_a1b0a0 = move_pair Reg_a1 Reg_b0 Reg_b0 Reg_a0"
| "swap_moves Swap_a1b1a0 = move_pair Reg_a1 Reg_b1 Reg_b1 Reg_a0"
| "swap_moves Swap_b0a0b1 = move_pair Reg_a0 Reg_b1 Reg_b0 Reg_a0"
| "swap_moves Swap_b0a1b1 = move_pair Reg_a1 Reg_b1 Reg_b0 Reg_a1"
| "swap_moves Swap_b1a0b0 = move_pair Reg_a0 Reg_b0 Reg_b1 Reg_a0"
| "swap_moves Swap_b1a1b0 = move_pair Reg_a1 Reg_b0 Reg_b1 Reg_a1"
| "swap_moves Swap_reserved0 = sfail Abort"
| "swap_moves Swap_reserved1 = sfail Abort"

definition swap_accs :: "u16 \<Rightarrow> 'x instr" where
  "swap_accs swap = on_regs (swap_moves (SwapType swap))"

definition trap :: "'x instr" where
  "trap = sfail Unimplemented"

section \<open>alm and alu\<close>

definition alm_word :: "alm_op \<Rightarrow> u16 \<Rightarrow> u16 \<Rightarrow> 'x instr" where
  "alm_word op v b = on_regs (alm_generic op (extend_operand_for_alm op v) (Ax b))"

definition alm_mem_imm8 :: "u16 \<Rightarrow> u16 \<Rightarrow> u16 \<Rightarrow> 'x instr" where
  "alm_mem_imm8 op a b = sbind (load_imm8 a) (\<lambda>v. alm_word (Alm op) v b)"

definition alm_rn :: "u16 \<Rightarrow> u16 \<Rightarrow> u16 \<Rightarrow> u16 \<Rightarrow> 'x instr" where
  "alm_rn op a as b = sbind (read_rn a as) (\<lambda>v. alm_word (Alm op) v b)"

definition bus40_operand_allowed :: "alm_op \<Rightarrow> bool" where
  "bus40_operand_allowed op \<longleftrightarrow> op \<in> {Alm_Or, Alm_And, Alm_Xor, Alm_Add, Alm_Cmp, Alm_Sub}"

definition alm_register :: "u16 \<Rightarrow> u16 \<Rightarrow> u16 \<Rightarrow> 'x instr" where
  "alm_register op a b = on_regs (
     sbind
       (if Register a = Reg_p then
          if bus40_operand_allowed (Alm op) then sget (product_to_bus40 0) else sfail Unimplemented
        else if Register a = Reg_a0 \<or> Register a = Reg_a1 then
          if bus40_operand_allowed (Alm op) then get_acc (Register a) else sfail Unimplemented
        else
          sbind (reg_to_bus16 (Register a) False) (\<lambda>v. sreturn (extend_operand_for_alm (Alm op) v)))
       (\<lambda>v. alm_generic (Alm op) v (Ax b)))"

definition alm_r6 :: "u16 \<Rightarrow> u16 \<Rightarrow> 'x instr" where
  "alm_r6 op b = sbind (rget (\<lambda>r. rg_r r ! 6)) (\<lambda>v. alm_word (Alm op) v b)"

definition alu_mem_imm16 :: "u16 \<Rightarrow> u16 \<Rightarrow> u16 \<Rightarrow> 'x instr" where
  "alu_mem_imm16 op a b = sbind (load_imm16 a) (\<lambda>v. alm_word (Alu op) v b)"

definition alu_mem_r7_imm16 :: "u16 \<Rightarrow> u16 \<Rightarrow> u16 \<Rightarrow> 'x instr" where
  "alu_mem_r7_imm16 op a b = sbind (load_r7_imm16 a) (\<lambda>v. alm_word (Alu op) v b)"

definition alu_imm16 :: "u16 \<Rightarrow> u16 \<Rightarrow> u16 \<Rightarrow> 'x instr" where
  "alu_imm16 op a b = alm_word (Alu op) a b"

text \<open>The and with a short immediate leaves bits 8 to 15 of the accumulator alone, but not its flags.\<close>

definition alu_imm8 :: "u16 \<Rightarrow> u16 \<Rightarrow> u16 \<Rightarrow> 'x instr" where
  "alu_imm8 op a b =
     (if Alu op = Alm_And then
        sbind (acc_value (Ax b)) (\<lambda>v.
        let and_backup = v AND 0xFF00 in
        sbind (alm_word (Alu op) a b) (\<lambda>_.
        sbind (acc_value (Ax b)) (\<lambda>w.
        on_regs (set_acc (Ax b) (and_backup OR (w AND 0xFFFFFFFFFFFF00FF))))))
      else alm_word (Alu op) a b)"

definition alu_mem_r7_imm7s :: "u16 \<Rightarrow> u16 \<Rightarrow> u16 \<Rightarrow> 'x instr" where
  "alu_mem_r7_imm7s op a b = sbind (load_r7_imm7s a) (\<lambda>v. alm_word (Alu op) v b)"

definition acc_logic :: "(u64 \<Rightarrow> u64 \<Rightarrow> u64) \<Rightarrow> reg_name \<Rightarrow> reg_name \<Rightarrow> reg_name \<Rightarrow> 'x instr" where
  "acc_logic f a b c = on_regs (
     sbind (get_acc a) (\<lambda>v. sbind (get_acc b) (\<lambda>w. set_acc_and_flag c (f v w))))"

definition or_ab_ax :: "u16 \<Rightarrow> u16 \<Rightarrow> u16 \<Rightarrow> 'x instr" where
  "or_ab_ax a b c = acc_logic (OR) (Ab a) (Ax b) (Ax c)"

definition or_ax_bx :: "u16 \<Rightarrow> u16 \<Rightarrow> u16 \<Rightarrow> 'x instr" where
  "or_ax_bx a b c = acc_logic (OR) (Ax a) (Bx b) (Ax c)"

definition or_bx_bx :: "u16 \<Rightarrow> u16 \<Rightarrow> u16 \<Rightarrow> 'x instr" where
  "or_bx_bx a b c = acc_logic (OR) (Bx a) (Bx b) (Ax c)"

definition and_acc :: "u16 \<Rightarrow> u16 \<Rightarrow> u16 \<Rightarrow> 'x instr" where
  "and_acc a b c = acc_logic (AND) (Ab a) (Ab b) (Ax c)"

section \<open>alb\<close>

definition alb_mem_imm8 :: "u16 \<Rightarrow> u16 \<Rightarrow> u16 \<Rightarrow> 'x instr" where
  "alb_mem_imm8 op a b =
     sbind (load_imm8 b) (\<lambda>bv.
     sbind (on_regs (generic_alb (Alb op) a bv)) (\<lambda>result.
     swhen (is_alb_modifying (Alb op)) (store_imm8 b result)))"

definition alb_rn :: "u16 \<Rightarrow> u16 \<Rightarrow> u16 \<Rightarrow> u16 \<Rightarrow> 'x instr" where
  "alb_rn op a b bs =
     sbind (step_rn b bs) (\<lambda>address.
     sbind (mem_data_read address) (\<lambda>bv.
     sbind (on_regs (generic_alb (Alb op) a bv)) (\<lambda>result.
     swhen (is_alb_modifying (Alb op)) (mem_data_write address result))))"

text \<open>The result goes straight into the word of an accumulator, not through the bus.\<close>

definition put_acc_word :: "reg_name \<Rightarrow> u16 \<Rightarrow> (registers, unit) step" where
  "put_acc_word name result =
     (if name \<in> {Reg_a0, Reg_a1} then sfail Abort
      else if name \<in> {Reg_a0l, Reg_a1l, Reg_b0l, Reg_b1l} then
        sbind (get_acc name) (\<lambda>v. set_acc name ((v AND 0xFFFFFFFFFFFF0000) OR ucast result))
      else if name \<in> {Reg_a0h, Reg_a1h, Reg_b0h, Reg_b1h} then
        sbind (get_acc name) (\<lambda>v. set_acc name ((v AND 0xFFFFFFFF0000FFFF) OR push_bit 16 (ucast result)))
      else reg_from_bus16 name result)"

definition alb_register :: "u16 \<Rightarrow> u16 \<Rightarrow> u16 \<Rightarrow> 'x instr" where
  "alb_register op a b = on_regs (
     sbind
       (if Register b = Reg_p then sget (product_high 0)
        else if Register b = Reg_a0 \<or> Register b = Reg_a1 then sfail Unimplemented
        else reg_to_bus16 (Register b) False) (\<lambda>bv.
     sbind (generic_alb (Alb op) a bv) (\<lambda>result.
     swhen (is_alb_modifying (Alb op)) (put_acc_word (Register b) result))))"

definition alb_r6 :: "u16 \<Rightarrow> u16 \<Rightarrow> 'x instr" where
  "alb_r6 op a = on_regs (
     sbind (sget (\<lambda>r. rg_r r ! 6)) (\<lambda>bv.
     sbind (generic_alb (Alb op) a bv) (\<lambda>result.
     swhen (is_alb_modifying (Alb op)) (supd (set_r 6 result)))))"

definition alb_stt_mod :: "u16 \<Rightarrow> u16 \<Rightarrow> u16 \<Rightarrow> 'x instr" where
  "alb_stt_mod op a b = on_regs (
     sbind (reg_to_bus16 (SttMod b) False) (\<lambda>bv.
     sbind (generic_alb (Alb op) a bv) (\<lambda>result.
     swhen (is_alb_modifying (Alb op)) (reg_from_bus16 (SttMod b) result))))"

section \<open>Additions and comparisons of accumulators\<close>

definition add_acc :: "reg_name \<Rightarrow> reg_name \<Rightarrow> bool \<Rightarrow> 'x instr" where
  "add_acc a b sub = on_regs (sbind (get_acc a) (\<lambda>v. add_sub_to b v sub))"

definition add_product :: "nat \<Rightarrow> reg_name \<Rightarrow> bool \<Rightarrow> 'x instr" where
  "add_product unit b sub = on_regs (sbind (sget (product_to_bus40 unit)) (\<lambda>v. add_sub_to b v sub))"

definition add_ab_bx :: "u16 \<Rightarrow> u16 \<Rightarrow> 'x instr" where
  "add_ab_bx a b = add_acc (Ab a) (Bx b) False"

definition add_bx_ax :: "u16 \<Rightarrow> u16 \<Rightarrow> 'x instr" where
  "add_bx_ax a b = add_acc (Bx a) (Ax b) False"

definition add_p1 :: "u16 \<Rightarrow> 'x instr" where
  "add_p1 b = add_product 1 (Ax b) False"

definition add_px_bx :: "u16 \<Rightarrow> u16 \<Rightarrow> 'x instr" where
  "add_px_bx a b = add_product (unat a) (Bx b) False"

definition sub_ab_bx :: "u16 \<Rightarrow> u16 \<Rightarrow> 'x instr" where
  "sub_ab_bx a b = add_acc (Ab a) (Bx b) True"

definition sub_bx_ax :: "u16 \<Rightarrow> u16 \<Rightarrow> 'x instr" where
  "sub_bx_ax a b = add_acc (Bx a) (Ax b) True"

definition sub_p1_acc :: "u16 \<Rightarrow> 'x instr" where
  "sub_p1_acc b = add_product 1 (Ax b) True"

definition sub_px_bx :: "u16 \<Rightarrow> u16 \<Rightarrow> 'x instr" where
  "sub_px_bx a b = add_product (unat a) (Bx b) True"

definition app :: "u16 \<Rightarrow> sum_base \<Rightarrow> bool \<Rightarrow> bool \<Rightarrow> bool \<Rightarrow> bool \<Rightarrow> 'x instr" where
  "app c base sub_p0 p0_align sub_p1 p1_align =
     on_regs (product_sum base (Ab c) sub_p0 p0_align sub_p1 p1_align)"

definition compare_with :: "u64 \<Rightarrow> reg_name \<Rightarrow> (registers, unit) step" where
  "compare_with va b = sbind (get_acc b) (\<lambda>vb. sbind (add_sub vb va True) (\<lambda>w. supd (set_acc_flag w)))"

definition cmp_acc :: "reg_name \<Rightarrow> reg_name \<Rightarrow> 'x instr" where
  "cmp_acc a b = on_regs (sbind (get_acc a) (\<lambda>va. compare_with va b))"

definition cmp_ax_bx :: "u16 \<Rightarrow> u16 \<Rightarrow> 'x instr" where
  "cmp_ax_bx a b = cmp_acc (Ax a) (Bx b)"

definition cmp_b0_b1 :: "'x instr" where
  "cmp_b0_b1 = cmp_acc Reg_b0 Reg_b1"

definition cmp_b1_b0 :: "'x instr" where
  "cmp_b1_b0 = cmp_acc Reg_b1 Reg_b0"

definition cmp_bx_ax :: "u16 \<Rightarrow> u16 \<Rightarrow> 'x instr" where
  "cmp_bx_ax a b = cmp_acc (Bx a) (Ax b)"

definition cmp_p1_to :: "u16 \<Rightarrow> 'x instr" where
  "cmp_p1_to b = on_regs (sbind (sget (product_to_bus40 1)) (\<lambda>va. compare_with va (Ax b)))"

section \<open>Additions of pairs of words in memory\<close>

text \<open>The sums of the high and of the low words, which make an accumulator without flags.\<close>

definition sum_words :: "bool \<Rightarrow> u16 \<Rightarrow> u16 \<Rightarrow> bool \<Rightarrow> u16 \<Rightarrow> u16 \<Rightarrow> u64" where
  "sum_words sub_high ha hb sub_low la lb =
     (let x = sign_extend 16 (ucast ha); y = sign_extend 16 (ucast hb);
          high = (if sub_high then x - y else x + y);
          low = (if sub_low then la - lb else la + lb)
      in push_bit 16 high OR ucast low)"

definition sum_pairs :: "bool \<Rightarrow> bool \<Rightarrow> u16 \<Rightarrow> u16 \<Rightarrow> u16 \<Rightarrow> u16 \<Rightarrow> 'x instr" where
  "sum_pairs sub_high sub_low a asi asj b =
     sbind (step_arp a asi asj False False) (\<lambda>((ui, uj), (i, j)).
     sbind (rget (get_arp_offset (unat asi) (unat asj))) (\<lambda>(oi, oj).
     sbind (mem_data_read j) (\<lambda>hj.
     sbind (mem_data_read i) (\<lambda>hi.
     sbind (offset_unit uj j oj False) (\<lambda>j2.
     sbind (mem_data_read j2) (\<lambda>lj.
     sbind (offset_unit ui i oi False) (\<lambda>i2.
     sbind (mem_data_read i2) (\<lambda>li.
     on_regs (set_acc (Ab b) (sum_words sub_high hj hi sub_low lj li))))))))))"

definition add_add :: "u16 \<Rightarrow> u16 \<Rightarrow> u16 \<Rightarrow> u16 \<Rightarrow> 'x instr" where
  "add_add = sum_pairs False False"

definition add_sub_pairs :: "u16 \<Rightarrow> u16 \<Rightarrow> u16 \<Rightarrow> u16 \<Rightarrow> 'x instr" where
  "add_sub_pairs = sum_pairs False True"

definition sub_add :: "u16 \<Rightarrow> u16 \<Rightarrow> u16 \<Rightarrow> u16 \<Rightarrow> 'x instr" where
  "sub_add = sum_pairs True False"

definition sub_sub :: "u16 \<Rightarrow> u16 \<Rightarrow> u16 \<Rightarrow> u16 \<Rightarrow> 'x instr" where
  "sub_sub = sum_pairs True True"

definition sum_with_sv :: "bool \<Rightarrow> bool \<Rightarrow> nat \<Rightarrow> u16 \<Rightarrow> u16 \<Rightarrow> ('x, u64) mstep" where
  "sum_with_sv sub_high sub_low unit address offset =
     sbind (mem_data_read address) (\<lambda>h.
     sbind (offset_unit unit address offset False) (\<lambda>address2.
     sbind (mem_data_read address2) (\<lambda>l.
     rget (\<lambda>r. sum_words sub_high h (rg_sv r) sub_low l (rg_sv r)))))"

definition sum_ar_sv :: "bool \<Rightarrow> bool \<Rightarrow> u16 \<Rightarrow> u16 \<Rightarrow> u16 \<Rightarrow> 'x instr" where
  "sum_ar_sv sub_high sub_low a as b =
     sbind (step_ar a (unat as)) (\<lambda>(unit, address).
     sbind (rget (get_ar_offset (unat as))) (\<lambda>offset.
     sbind (sum_with_sv sub_high sub_low unit address offset) (\<lambda>v. on_regs (set_acc (Ab b) v))))"

definition add_sub_sv :: "u16 \<Rightarrow> u16 \<Rightarrow> u16 \<Rightarrow> 'x instr" where
  "add_sub_sv = sum_ar_sv False True"

definition sub_add_sv :: "u16 \<Rightarrow> u16 \<Rightarrow> u16 \<Rightarrow> 'x instr" where
  "sub_add_sv = sum_ar_sv True False"

definition sub_add_i_mov_j_sv :: "u16 \<Rightarrow> u16 \<Rightarrow> u16 \<Rightarrow> u16 \<Rightarrow> 'x instr" where
  "sub_add_i_mov_j_sv a asi asj b =
     sbind (step_arp a asi asj False False) (\<lambda>((ui, uj), (i, j)).
     sbind (rget (get_arp_offset (unat asi) (unat asj))) (\<lambda>(oi, oj).
     sbind (sum_with_sv True False ui i oi) (\<lambda>v.
     sbind (on_regs (set_acc (Ab b) v)) (\<lambda>_.
     sbind (mem_data_read j) (\<lambda>w. rupd (\<lambda>r. r\<lparr>rg_sv := w\<rparr>))))))"

definition sub_add_j_mov_i_sv :: "u16 \<Rightarrow> u16 \<Rightarrow> u16 \<Rightarrow> u16 \<Rightarrow> 'x instr" where
  "sub_add_j_mov_i_sv a asi asj b =
     sbind (step_arp a asi asj False False) (\<lambda>((ui, uj), (i, j)).
     sbind (rget (get_arp_offset (unat asi) (unat asj))) (\<lambda>(oi, oj).
     sbind (sum_with_sv True False uj j oj) (\<lambda>v.
     sbind (on_regs (set_acc (Ab b) v)) (\<lambda>_.
     sbind (mem_data_read i) (\<lambda>w. rupd (\<lambda>r. r\<lparr>rg_sv := w\<rparr>))))))"

definition exchange_low :: "reg_name \<Rightarrow> u64 \<Rightarrow> u16 \<Rightarrow> 'x instr" where
  "exchange_low b v address =
     sbind (on_regs (get_and_sat_acc_no_flag b)) (\<lambda>old.
     sbind (on_regs (set_acc b v)) (\<lambda>_. mem_data_write address (low16 old)))"

definition add_sub_i_mov_j :: "u16 \<Rightarrow> u16 \<Rightarrow> u16 \<Rightarrow> u16 \<Rightarrow> 'x instr" where
  "add_sub_i_mov_j a asi asj b =
     sbind (step_arp a asi asj False False) (\<lambda>((ui, uj), (i, j)).
     sbind (rget (get_arp_offset (unat asi) (unat asj))) (\<lambda>(oi, oj).
     sbind (sum_with_sv False True ui i oi) (\<lambda>v. exchange_low (Ab b) v j)))"

definition add_sub_j_mov_i :: "u16 \<Rightarrow> u16 \<Rightarrow> u16 \<Rightarrow> u16 \<Rightarrow> 'x instr" where
  "add_sub_j_mov_i a asi asj b =
     sbind (step_arp a asi asj False False) (\<lambda>((ui, uj), (i, j)).
     sbind (rget (get_arp_offset (unat asi) (unat asj))) (\<lambda>(oi, oj).
     sbind (sum_with_sv False True uj j oj) (\<lambda>v. exchange_low (Ab b) v i)))"

section \<open>Operations on an accumulator\<close>

definition moda4 :: "u16 \<Rightarrow> u16 \<Rightarrow> u16 \<Rightarrow> 'x instr" where
  "moda4 op a cond = on_regs (moda (Moda4 op) (Ax a) (Cond cond))"

definition moda3 :: "u16 \<Rightarrow> u16 \<Rightarrow> u16 \<Rightarrow> 'x instr" where
  "moda3 op a cond = on_regs (moda (Moda3 op) (Bx a) (Cond cond))"

definition rounded_to :: "u64 \<Rightarrow> reg_name \<Rightarrow> (registers, unit) step" where
  "rounded_to v a = sbind (add_sub v 0x8000 False) (sat_and_set_acc_and_flag a)"

definition pacr1 :: "u16 \<Rightarrow> 'x instr" where
  "pacr1 a = on_regs (sbind (sget (product_to_bus40 1)) (\<lambda>v. rounded_to v (Ax a)))"

definition filter_double_clr :: "reg_name \<Rightarrow> reg_name \<Rightarrow> reg_name" where
  "filter_double_clr a b =
     (if a = Reg_b0 then Reg_b1
      else if a = Reg_b1 then Reg_b0
      else if a = Reg_a0 then (if b = Reg_a0 then Reg_a1 else b)
      else if b = Reg_b1 then Reg_b1 else Reg_b0)"

definition clear_pair :: "u64 \<Rightarrow> reg_name \<Rightarrow> reg_name \<Rightarrow> 'x instr" where
  "clear_pair v a b = on_regs (sseq [
     sat_and_set_acc_and_flag a v, sat_and_set_acc_and_flag (filter_double_clr a b) v])"

definition clr :: "u16 \<Rightarrow> u16 \<Rightarrow> 'x instr" where
  "clr a b = clear_pair 0 (Ab a) (Ab b)"

definition clrr :: "u16 \<Rightarrow> u16 \<Rightarrow> 'x instr" where
  "clrr a b = clear_pair 0x8000 (Ab a) (Ab b)"

definition lim :: "u16 \<Rightarrow> u16 \<Rightarrow> 'x instr" where
  "lim a b = on_regs (
     sbind (get_acc (Ax a)) (\<lambda>v. sbind (saturate_acc v) (set_acc_and_flag (Ax b))))"

section \<open>Shifts\<close>

definition shift_by_sv :: "u64 \<Rightarrow> reg_name \<Rightarrow> (registers, unit) step" where
  "shift_by_sv v dest = sbind (sget rg_sv) (\<lambda>sv. shift_bus40 v sv dest)"

definition signed_word :: "u16 \<Rightarrow> u64" where
  "signed_word v = sign_extend 16 (ucast v)"

definition shfc :: "u16 \<Rightarrow> u16 \<Rightarrow> u16 \<Rightarrow> 'x instr" where
  "shfc a b cond = if_cond cond (on_regs (sbind (get_acc (Ab a)) (\<lambda>v. shift_by_sv v (Ab b))))"

definition shfi :: "u16 \<Rightarrow> u16 \<Rightarrow> u16 \<Rightarrow> 'x instr" where
  "shfi a b s = on_regs (sbind (get_acc (Ab a)) (\<lambda>v. shift_bus40 v (signed16 6 s) (Ab b)))"

definition movs_mem_imm8 :: "u16 \<Rightarrow> u16 \<Rightarrow> 'x instr" where
  "movs_mem_imm8 a b = sbind (load_imm8 a) (\<lambda>v. on_regs (shift_by_sv (signed_word v) (Ab b)))"

definition movs_rn :: "u16 \<Rightarrow> u16 \<Rightarrow> u16 \<Rightarrow> 'x instr" where
  "movs_rn a as b = sbind (read_rn a as) (\<lambda>v. on_regs (shift_by_sv (signed_word v) (Ab b)))"

definition movs_register :: "u16 \<Rightarrow> u16 \<Rightarrow> 'x instr" where
  "movs_register a b = sbind (bus_value (Register a)) (\<lambda>v. on_regs (shift_by_sv (signed_word v) (Ab b)))"

definition movs_r6_to :: "u16 \<Rightarrow> 'x instr" where
  "movs_r6_to b = sbind (rget (\<lambda>r. rg_r r ! 6)) (\<lambda>v. on_regs (shift_by_sv (signed_word v) (Ax b)))"

definition movsi :: "u16 \<Rightarrow> u16 \<Rightarrow> u16 \<Rightarrow> 'x instr" where
  "movsi a b s = sbind (bus_value (RnOld a)) (\<lambda>v. on_regs (shift_bus40 (signed_word v) (signed16 5 s) (Ab b)))"

section \<open>Rounding moves\<close>

text \<open>The sum over 16 bits, with the carry out of bit 15 and never an overflow.\<close>

definition round_word :: "u16 \<Rightarrow> reg_name \<Rightarrow> (registers, unit) step" where
  "round_word v b =
     (let result = ucast v + 0x8000 :: u64 in sseq [
       supd (\<lambda>r. r\<lparr>rg_fc0 := ucast (drop_bit 16 result), rg_fv := 0\<rparr>),
       sat_and_set_acc_and_flag b (result AND 0xFFFF)])"

definition movr_ar :: "u16 \<Rightarrow> u16 \<Rightarrow> u16 \<Rightarrow> 'x instr" where
  "movr_ar a as b = sbind (read_ar a as) (\<lambda>v. on_regs (rounded_to (upper_word v) (Abh b)))"

definition movr_rn :: "u16 \<Rightarrow> u16 \<Rightarrow> u16 \<Rightarrow> 'x instr" where
  "movr_rn a as b = sbind (read_rn a as) (\<lambda>v. on_regs (round_word v (Ax b)))"

definition movr_register :: "u16 \<Rightarrow> u16 \<Rightarrow> 'x instr" where
  "movr_register a b = on_regs (
     if Register a = Reg_a0 \<or> Register a = Reg_a1 then
       sbind (get_acc (Register a)) (\<lambda>v. rounded_to v (Ax b))
     else if Register a = Reg_p then sbind (sget (product_to_bus40 0)) (\<lambda>v. rounded_to v (Ax b))
     else sbind (reg_to_bus16 (Register a) False) (\<lambda>v. round_word v (Ax b)))"

definition movr_bx :: "u16 \<Rightarrow> u16 \<Rightarrow> 'x instr" where
  "movr_bx a b = on_regs (sbind (get_acc (Bx a)) (\<lambda>v. rounded_to v (Ax b)))"

definition movr_r6_to :: "u16 \<Rightarrow> 'x instr" where
  "movr_r6_to b = on_regs (sbind (sget (\<lambda>r. rg_r r ! 6)) (\<lambda>v. round_word v (Ax b)))"

section \<open>Exponent\<close>

definition set_sv :: "u16 \<Rightarrow> registers \<Rightarrow> registers" where
  "set_sv v r = r\<lparr>rg_sv := v\<rparr>"

definition exp_bx :: "u16 \<Rightarrow> 'x instr" where
  "exp_bx a = on_regs (sbind (get_acc (Bx a)) (\<lambda>v. supd (set_sv (exp_value v))))"

definition exp_bx_ax :: "u16 \<Rightarrow> u16 \<Rightarrow> 'x instr" where
  "exp_bx_ax a b = sseq [exp_bx a, on_regs (exp_store (Ax b))]"

definition exp_rn :: "u16 \<Rightarrow> u16 \<Rightarrow> 'x instr" where
  "exp_rn a as = sbind (read_rn a as) (\<lambda>v. rupd (set_sv (exp_value (upper_word v))))"

definition exp_rn_ax :: "u16 \<Rightarrow> u16 \<Rightarrow> u16 \<Rightarrow> 'x instr" where
  "exp_rn_ax a as b = sseq [exp_rn a as, on_regs (exp_store (Ax b))]"

definition exp_register :: "u16 \<Rightarrow> 'x instr" where
  "exp_register a = on_regs (
     sbind
       (if Register a = Reg_a0 \<or> Register a = Reg_a1 then get_acc (Register a)
        else sbind (reg_to_bus16 (Register a) False) (\<lambda>v. sreturn (upper_word v)))
       (\<lambda>v. supd (set_sv (exp_value v))))"

definition exp_register_ax :: "u16 \<Rightarrow> u16 \<Rightarrow> 'x instr" where
  "exp_register_ax a b = sseq [exp_register a, on_regs (exp_store (Ax b))]"

definition exp_r6 :: "'x instr" where
  "exp_r6 = sbind (bus_value Reg_r6) (\<lambda>v. rupd (set_sv (exp_value (upper_word v))))"

definition exp_r6_ax :: "u16 \<Rightarrow> 'x instr" where
  "exp_r6_ax b = sseq [exp_r6, on_regs (exp_store (Ax b))]"

section \<open>Tests of bits\<close>

definition set_fz_bit :: "u16 \<Rightarrow> nat \<Rightarrow> registers \<Rightarrow> registers" where
  "set_fz_bit v n r = r\<lparr>rg_fz := drop_bit n v AND 1\<rparr>"

definition set_fz_fc0_bit :: "u16 \<Rightarrow> u64 \<Rightarrow> registers \<Rightarrow> registers" where
  "set_fz_fc0_bit v n r = r\<lparr>rg_fc0 := drop_bit (unat n) v AND 1, rg_fz := drop_bit (unat n) v AND 1\<rparr>"

definition tst4b :: "u16 \<Rightarrow> u16 \<Rightarrow> 'x instr" where
  "tst4b b bs =
     sbind (read_ar b bs) (\<lambda>v.
     sbind (acc_value Reg_a0) (\<lambda>a. rupd (set_fz_fc0_bit v (a AND 0xF))))"

definition tst4b_ax :: "u16 \<Rightarrow> u16 \<Rightarrow> u16 \<Rightarrow> 'x instr" where
  "tst4b_ax b bs c =
     sbind (acc_value Reg_a0) (\<lambda>a.
     sbind (rget id) (\<lambda>r0.
     sbind (on_regs (shift_by_sv a (Ax c))) (\<lambda>_.
     sbind (rupd (\<lambda>r. r\<lparr>rg_fc1 := rg_fc0 r, rg_fv := rg_fv r0, rg_fvl := rg_fvl r0, rg_fm := rg_fm r0,
       rg_fn := rg_fn r0, rg_fe := rg_fe r0\<rparr>)) (\<lambda>_.
     sbind (read_ar b bs) (\<lambda>v. rupd (set_fz_fc0_bit v (a AND 0xF)))))))"

definition tstb_mem_imm8 :: "u16 \<Rightarrow> u16 \<Rightarrow> 'x instr" where
  "tstb_mem_imm8 a b = sbind (load_imm8 a) (\<lambda>v. rupd (set_fz_bit v (unat b)))"

definition tstb_rn :: "u16 \<Rightarrow> u16 \<Rightarrow> u16 \<Rightarrow> 'x instr" where
  "tstb_rn a as b = sbind (read_rn a as) (\<lambda>v. rupd (set_fz_bit v (unat b)))"

definition tstb_register :: "u16 \<Rightarrow> u16 \<Rightarrow> 'x instr" where
  "tstb_register a b = sbind (bus_value (Register a)) (\<lambda>v. rupd (set_fz_bit v (unat b)))"

definition tstb_r6 :: "u16 \<Rightarrow> 'x instr" where
  "tstb_r6 b = sbind (rget (\<lambda>r. rg_r r ! 6)) (\<lambda>v. rupd (set_fz_bit v (unat b)))"

text \<open>
  The bit number is a whole word here. A shift by 32 or more has no defined result; it is the
  failure of an access out of range.
\<close>

definition tstb_stt_mod :: "u16 \<Rightarrow> u16 \<Rightarrow> 'x instr" where
  "tstb_stt_mod a b =
     sbind (bus_value (SttMod a)) (\<lambda>v.
     if b < 32 then rupd (set_fz_bit v (unat b)) else sfail OutOfBounds)"

end
