(* ===== verification/Instr_Product.thy ===== *)
theory Instr_Product
  imports Instr_Arith
begin

unbundle bit_operations_syntax

text \<open>
  The instructions of src/src/interpreter.h around the multiplier: multiplication with accumulation,
  minimum and maximum, the Viterbi trace, squares, codebook search, and the instructions that sum
  and compute both products at once. One definition per method, as in the other groups.
\<close>

section \<open>Multiplication with accumulation\<close>

definition mul_rn_imm16 :: "u16 \<Rightarrow> u16 \<Rightarrow> u16 \<Rightarrow> u16 \<Rightarrow> u16 \<Rightarrow> 'x instr" where
  "mul_rn_imm16 op y ys x a =
     sbind (read_rn y ys) (\<lambda>v.
     sbind (rupd (\<lambda>r. set_x 0 x (set_y 0 v r))) (\<lambda>_. on_regs (mul_generic (Mul3 op) (Ax a))))"

definition mul_y0_rn :: "u16 \<Rightarrow> u16 \<Rightarrow> u16 \<Rightarrow> u16 \<Rightarrow> 'x instr" where
  "mul_y0_rn op x xs a =
     sbind (read_rn x xs) (\<lambda>v.
     sbind (rupd (set_x 0 v)) (\<lambda>_. on_regs (mul_generic (Mul3 op) (Ax a))))"

definition mul_y0_register :: "u16 \<Rightarrow> u16 \<Rightarrow> u16 \<Rightarrow> 'x instr" where
  "mul_y0_register op x a =
     sbind (bus_value (Register x)) (\<lambda>v.
     sbind (rupd (set_x 0 v)) (\<lambda>_. on_regs (mul_generic (Mul3 op) (Ax a))))"

text \<open>Two address registers, stepped before the words are read.\<close>

definition step_r45_r0123 :: "u16 \<Rightarrow> u16 \<Rightarrow> u16 \<Rightarrow> u16 \<Rightarrow> ('x, u16 \<times> u16) mstep" where
  "step_r45_r0123 y ys x xs =
     sbind (step_unit (r45_index y) (StepZIDS ys) False) (\<lambda>address_y.
     sbind (step_unit (unat x) (StepZIDS xs) False) (\<lambda>address_x. sreturn (address_y, address_x)))"

definition load_y0_x0 :: "u16 \<Rightarrow> u16 \<Rightarrow> 'x instr" where
  "load_y0_x0 address_y address_x =
     sbind (mem_data_read address_y) (\<lambda>v.
     sbind (rupd (set_y 0 v)) (\<lambda>_.
     sbind (mem_data_read address_x) (\<lambda>w. rupd (set_x 0 w))))"

definition mul_r45_r0123 :: "u16 \<Rightarrow> u16 \<Rightarrow> u16 \<Rightarrow> u16 \<Rightarrow> u16 \<Rightarrow> u16 \<Rightarrow> 'x instr" where
  "mul_r45_r0123 op y ys x xs a =
     sbind (step_r45_r0123 y ys x xs) (\<lambda>(address_y, address_x).
     sseq [load_y0_x0 address_y address_x, on_regs (mul_generic (Mul3 op) (Ax a))])"

definition mul_y0_r6 :: "u16 \<Rightarrow> u16 \<Rightarrow> 'x instr" where
  "mul_y0_r6 op a = sseq [rupd (\<lambda>r. set_x 0 (rg_r r ! 6) r), on_regs (mul_generic (Mul3 op) (Ax a))]"

definition mul_y0_mem_imm8 :: "u16 \<Rightarrow> u16 \<Rightarrow> u16 \<Rightarrow> 'x instr" where
  "mul_y0_mem_imm8 op x a =
     sbind (load_imm8 x) (\<lambda>v.
     sbind (rupd (set_x 0 v)) (\<lambda>_. on_regs (mul_generic (Mul2 op) (Ax a))))"

definition mpyi :: "u16 \<Rightarrow> 'x instr" where
  "mpyi x = rupd (\<lambda>r. do_multiplication 0 True True (set_x 0 (signed16 8 x) r))"

definition msu_r45_r0123 :: "u16 \<Rightarrow> u16 \<Rightarrow> u16 \<Rightarrow> u16 \<Rightarrow> u16 \<Rightarrow> 'x instr" where
  "msu_r45_r0123 y ys x xs a =
     sbind (step_r45_r0123 y ys x xs) (\<lambda>(yi, xi). sseq [
       add_product 0 (Ax a) True,
       load_y0_x0 yi xi,
       rupd (do_multiplication 0 True True)])"

definition msu_rn_imm16 :: "u16 \<Rightarrow> u16 \<Rightarrow> u16 \<Rightarrow> u16 \<Rightarrow> 'x instr" where
  "msu_rn_imm16 y ys x a =
     sbind (step_rn y ys) (\<lambda>yi.
     sbind (add_product 0 (Ax a) True) (\<lambda>_.
     sbind (mem_data_read yi) (\<lambda>v.
     rupd (\<lambda>r. do_multiplication 0 True True (set_x 0 x (set_y 0 v r))))))"

definition msusu :: "u16 \<Rightarrow> u16 \<Rightarrow> u16 \<Rightarrow> 'x instr" where
  "msusu x xs a =
     sbind (step_ar x (unat xs)) (\<lambda>(unit, xi).
     sbind (add_product 0 (Ax a) True) (\<lambda>_.
     sbind (mem_data_read xi) (\<lambda>v.
     rupd (\<lambda>r. do_multiplication 0 False True (set_x 0 v r)))))"

definition mac_x1to0 :: "u16 \<Rightarrow> 'x instr" where
  "mac_x1to0 a = sseq [
     add_product 0 (Ax a) False,
     rupd (\<lambda>r. do_multiplication 0 True True (set_x 0 (rg_x r ! 1) r))]"

definition mac1 :: "u16 \<Rightarrow> u16 \<Rightarrow> u16 \<Rightarrow> u16 \<Rightarrow> 'x instr" where
  "mac1 xy xis yjs a =
     sbind (step_arp xy xis yjs False False) (\<lambda>(units, (i, j)).
     sbind (add_product 1 (Ax a) False) (\<lambda>_.
     sbind (mem_data_read i) (\<lambda>v.
     sbind (rupd (set_x 1 v)) (\<lambda>_.
     sbind (mem_data_read j) (\<lambda>w.
     rupd (\<lambda>r. do_multiplication 1 True True (set_y 1 w r)))))))"

definition addhp :: "u16 \<Rightarrow> u16 \<Rightarrow> u16 \<Rightarrow> u16 \<Rightarrow> 'x instr" where
  "addhp a as b c =
     sbind (read_ar a as) (\<lambda>w.
     sbind (rget (product_to_bus40 (unat b))) (\<lambda>p.
     on_regs (sbind (add_sub (sign_extend 32 (push_bit 16 (ucast w) OR 0x8000)) p False)
       (sat_and_set_acc_and_flag (Ax c)))))"

definition clrp0 :: "'x instr" where
  "clrp0 = rupd (product_from_bus32 0 0)"

definition clrp1 :: "'x instr" where
  "clrp1 = rupd (product_from_bus32 1 0)"

definition clrp :: "'x instr" where
  "clrp = sseq [rupd (product_from_bus32 0 0), rupd (product_from_bus32 1 0)]"

section \<open>Minimum and maximum\<close>

text \<open>
  The conditions on the difference of the candidate and the accumulator. The candidate replaces the
  accumulator when it holds, and the address register of the candidate goes to mixp.
\<close>

definition not_below :: "u64 \<Rightarrow> bool" where "not_below d \<longleftrightarrow> drop_bit 63 d AND 1 = 0"
definition above :: "u64 \<Rightarrow> bool" where "above d \<longleftrightarrow> drop_bit 63 d AND 1 = 0 \<and> d \<noteq> 0"
definition not_above :: "u64 \<Rightarrow> bool" where "not_above d \<longleftrightarrow> drop_bit 63 d AND 1 = 1 \<or> d = 0"
definition below :: "u64 \<Rightarrow> bool" where "below d \<longleftrightarrow> drop_bit 63 d AND 1 = 1"

definition take_candidate :: "(u64 \<Rightarrow> bool) \<Rightarrow> reg_name \<Rightarrow> u64 \<Rightarrow> u64 \<Rightarrow> u16 \<Rightarrow> (registers, unit) step" where
  "take_candidate better a u v r0 =
     (if better (v - u)
      then sseq [supd (\<lambda>r. r\<lparr>rg_fm := 1, rg_mixp := r0\<rparr>), set_acc a v]
      else supd (\<lambda>r. r\<lparr>rg_fm := 0\<rparr>))"

definition other_acc :: "reg_name \<Rightarrow> (registers, reg_name) step" where
  "other_acc a = squery (\<lambda>r. counter_acc a)"

definition min_max_acc :: "(u64 \<Rightarrow> bool) \<Rightarrow> u16 \<Rightarrow> u16 \<Rightarrow> 'x instr" where
  "min_max_acc better a bs = on_regs (
     sbind (get_acc (Ax a)) (\<lambda>u.
     sbind (other_acc (Ax a)) (\<lambda>b.
     sbind (get_acc b) (\<lambda>v.
     sbind (rn_and_modify 0 (StepZIDS bs) False) (\<lambda>r0. take_candidate better (Ax a) u v r0)))))"

definition max_ge :: "u16 \<Rightarrow> u16 \<Rightarrow> 'x instr" where "max_ge = min_max_acc not_below"
definition max_gt :: "u16 \<Rightarrow> u16 \<Rightarrow> 'x instr" where "max_gt = min_max_acc above"
definition min_le :: "u16 \<Rightarrow> u16 \<Rightarrow> 'x instr" where "min_le = min_max_acc not_above"
definition min_lt :: "u16 \<Rightarrow> u16 \<Rightarrow> 'x instr" where "min_lt = min_max_acc below"

definition min_max_r0 :: "(u64 \<Rightarrow> bool) \<Rightarrow> u16 \<Rightarrow> u16 \<Rightarrow> 'x instr" where
  "min_max_r0 better a bs =
     sbind (acc_value (Ax a)) (\<lambda>u.
     sbind (on_regs (rn_and_modify 0 (StepZIDS bs) False)) (\<lambda>r0.
     sbind (on_regs (squery (rn_address 0 r0))) (\<lambda>address.
     sbind (mem_data_read address) (\<lambda>w. on_regs (take_candidate better (Ax a) u (signed_word w) r0)))))"

definition max_ge_r0 :: "u16 \<Rightarrow> u16 \<Rightarrow> 'x instr" where "max_ge_r0 = min_max_r0 not_below"
definition max_gt_r0 :: "u16 \<Rightarrow> u16 \<Rightarrow> 'x instr" where "max_gt_r0 = min_max_r0 above"
definition min_le_r0 :: "u16 \<Rightarrow> u16 \<Rightarrow> 'x instr" where "min_le_r0 = min_max_r0 not_above"
definition min_lt_r0 :: "u16 \<Rightarrow> u16 \<Rightarrow> 'x instr" where "min_lt_r0 = min_max_r0 below"

section \<open>Division step\<close>

definition divs_acc :: "u16 \<Rightarrow> reg_name \<Rightarrow> (registers, unit) step" where
  "divs_acc da b =
     sbind (get_acc b) (\<lambda>db.
     let v = db - push_bit 15 (ucast da) in
     set_acc_and_flag b (sign_extend 40 (if drop_bit 63 v \<noteq> 0 then push_bit 1 db else push_bit 1 v + 1)))"

definition divs :: "u16 \<Rightarrow> u16 \<Rightarrow> 'x instr" where
  "divs a b = sbind (load_imm8 a) (\<lambda>da. on_regs (divs_acc da (Ax b)))"

section \<open>Viterbi trace\<close>

definition vtrclr0 :: "'x instr" where "vtrclr0 = rupd (\<lambda>r. r\<lparr>rg_vtr0 := 0\<rparr>)"
definition vtrclr1 :: "'x instr" where "vtrclr1 = rupd (\<lambda>r. r\<lparr>rg_vtr1 := 0\<rparr>)"
definition vtrclr :: "'x instr" where "vtrclr = rupd (\<lambda>r. r\<lparr>rg_vtr0 := 0, rg_vtr1 := 0\<rparr>)"

definition vtrmov_value :: "(registers \<Rightarrow> u16) \<Rightarrow> u16 \<Rightarrow> 'x instr" where
  "vtrmov_value f a = on_regs (sbind (sget f) (\<lambda>v. sat_and_set_acc_and_flag (Axl a) (ucast v)))"

definition vtrmov0 :: "u16 \<Rightarrow> 'x instr" where "vtrmov0 = vtrmov_value rg_vtr0"
definition vtrmov1 :: "u16 \<Rightarrow> 'x instr" where "vtrmov1 = vtrmov_value rg_vtr1"
definition vtrmov :: "u16 \<Rightarrow> 'x instr" where
  "vtrmov = vtrmov_value (\<lambda>r. (rg_vtr1 r AND 0xFF00) OR drop_bit 8 (rg_vtr0 r))"

definition vtrshr_instr :: "'x instr" where "vtrshr_instr = rupd vtrshr"

definition min_max_pair :: "bool \<Rightarrow> reg_name \<Rightarrow> (registers, unit) step" where
  "min_max_pair is_min a = sbind (other_acc a) (\<lambda>b. min_max_vtr a b is_min)"

definition max2_vtr_ax :: "u16 \<Rightarrow> 'x instr" where "max2_vtr_ax a = on_regs (min_max_pair False (Ax a))"
definition min2_vtr_ax :: "u16 \<Rightarrow> 'x instr" where "min2_vtr_ax a = on_regs (min_max_pair True (Ax a))"
definition max2_vtr_ax_bx :: "u16 \<Rightarrow> u16 \<Rightarrow> 'x instr" where
  "max2_vtr_ax_bx a b = on_regs (min_max_vtr (Ax a) (Bx b) False)"
definition min2_vtr_ax_bx :: "u16 \<Rightarrow> u16 \<Rightarrow> 'x instr" where
  "min2_vtr_ax_bx a b = on_regs (min_max_vtr (Ax a) (Bx b) True)"

text \<open>With a store of a word of the other accumulator of the first one's pair.\<close>

definition other_value :: "reg_name \<Rightarrow> (registers, u64) step" where
  "other_value a = sbind (other_acc a) get_and_sat_acc_no_flag"

definition vtr_mov :: "bool \<Rightarrow> (u64 \<Rightarrow> u16) \<Rightarrow> reg_name \<Rightarrow> reg_name \<Rightarrow> u16 \<Rightarrow> u16 \<Rightarrow> 'x instr" where
  "vtr_mov is_min part a b c cs =
     sbind (on_regs (min_max_vtr a b is_min)) (\<lambda>_.
     sbind (on_regs (other_value a)) (\<lambda>v. write_ar c cs (part v)))"

definition max2_vtr_movl_ax_bx :: "u16 \<Rightarrow> u16 \<Rightarrow> u16 \<Rightarrow> u16 \<Rightarrow> 'x instr" where
  "max2_vtr_movl_ax_bx a b = vtr_mov False low16 (Ax a) (Bx b)"
definition max2_vtr_movh_ax_bx :: "u16 \<Rightarrow> u16 \<Rightarrow> u16 \<Rightarrow> u16 \<Rightarrow> 'x instr" where
  "max2_vtr_movh_ax_bx a b = vtr_mov False high16 (Ax a) (Bx b)"
definition max2_vtr_movl_bx_ax :: "u16 \<Rightarrow> u16 \<Rightarrow> u16 \<Rightarrow> u16 \<Rightarrow> 'x instr" where
  "max2_vtr_movl_bx_ax a b = vtr_mov False low16 (Bx a) (Ax b)"
definition max2_vtr_movh_bx_ax :: "u16 \<Rightarrow> u16 \<Rightarrow> u16 \<Rightarrow> u16 \<Rightarrow> 'x instr" where
  "max2_vtr_movh_bx_ax a b = vtr_mov False high16 (Bx a) (Ax b)"
definition min2_vtr_movl_ax_bx :: "u16 \<Rightarrow> u16 \<Rightarrow> u16 \<Rightarrow> u16 \<Rightarrow> 'x instr" where
  "min2_vtr_movl_ax_bx a b = vtr_mov True low16 (Ax a) (Bx b)"
definition min2_vtr_movh_ax_bx :: "u16 \<Rightarrow> u16 \<Rightarrow> u16 \<Rightarrow> u16 \<Rightarrow> 'x instr" where
  "min2_vtr_movh_ax_bx a b = vtr_mov True high16 (Ax a) (Bx b)"
definition min2_vtr_movl_bx_ax :: "u16 \<Rightarrow> u16 \<Rightarrow> u16 \<Rightarrow> u16 \<Rightarrow> 'x instr" where
  "min2_vtr_movl_bx_ax a b = vtr_mov True low16 (Bx a) (Ax b)"
definition min2_vtr_movh_bx_ax :: "u16 \<Rightarrow> u16 \<Rightarrow> u16 \<Rightarrow> u16 \<Rightarrow> 'x instr" where
  "min2_vtr_movh_bx_ax a b = vtr_mov True high16 (Bx a) (Ax b)"

definition vtr_mov_pair :: "bool \<Rightarrow> (u64 \<Rightarrow> u16) \<Rightarrow> (u64 \<Rightarrow> u16) \<Rightarrow> u16 \<Rightarrow> u16 \<Rightarrow> u16 \<Rightarrow> u16 \<Rightarrow> u16 \<Rightarrow> 'x instr" where
  "vtr_mov_pair is_min to_i to_j a b c csi csj =
     sbind (on_regs (min_max_vtr (Ax a) (Bx b) is_min)) (\<lambda>_.
     sbind (on_regs (other_value (Ax a))) (\<lambda>v.
     sbind (step_arp c csi csj False False) (\<lambda>(units, (i, j)).
     sseq [mem_data_write i (to_i v), mem_data_write j (to_j v)])))"

definition max2_vtr_movij :: "u16 \<Rightarrow> u16 \<Rightarrow> u16 \<Rightarrow> u16 \<Rightarrow> u16 \<Rightarrow> 'x instr" where
  "max2_vtr_movij = vtr_mov_pair False high16 low16"
definition max2_vtr_movji :: "u16 \<Rightarrow> u16 \<Rightarrow> u16 \<Rightarrow> u16 \<Rightarrow> u16 \<Rightarrow> 'x instr" where
  "max2_vtr_movji = vtr_mov_pair False low16 high16"
definition min2_vtr_movij :: "u16 \<Rightarrow> u16 \<Rightarrow> u16 \<Rightarrow> u16 \<Rightarrow> u16 \<Rightarrow> 'x instr" where
  "min2_vtr_movij = vtr_mov_pair True high16 low16"
definition min2_vtr_movji :: "u16 \<Rightarrow> u16 \<Rightarrow> u16 \<Rightarrow> u16 \<Rightarrow> u16 \<Rightarrow> 'x instr" where
  "min2_vtr_movji = vtr_mov_pair True low16 high16"

section \<open>Squares\<close>

definition both_products :: "bool \<Rightarrow> bool \<Rightarrow> bool \<Rightarrow> bool \<Rightarrow> registers \<Rightarrow> registers" where
  "both_products x0_sign y0_sign x1_sign y1_sign r =
     do_multiplication 1 x1_sign y1_sign (do_multiplication 0 x0_sign y0_sign r)"

definition set_square :: "nat \<Rightarrow> u16 \<Rightarrow> registers \<Rightarrow> registers" where
  "set_square unit v r = set_x unit v (set_y unit v r)"

definition sqr_sqr_add3_ab :: "u16 \<Rightarrow> u16 \<Rightarrow> 'x instr" where
  "sqr_sqr_add3_ab a b = on_regs (
     sbind (get_acc (Ab a)) (\<lambda>v. sseq [
       product_sum Sum_Acc (Ab b) False False False False,
       supd (\<lambda>r. both_products True True True True (set_square 1 (low16 v) (set_square 0 (high16 v) r)))]))"

definition sqr_sqr_add3_ar :: "u16 \<Rightarrow> u16 \<Rightarrow> u16 \<Rightarrow> 'x instr" where
  "sqr_sqr_add3_ar a as b =
     sbind (app b Sum_Acc False False False False) (\<lambda>_.
     sbind (step_ar_pair a as) (\<lambda>(address0, address1).
     sbind (mem_data_read address0) (\<lambda>v.
     sbind (rupd (set_square 0 v)) (\<lambda>_.
     sbind (mem_data_read address1) (\<lambda>w.
     rupd (\<lambda>r. both_products True True True True (set_square 1 w r)))))))"

definition sqr_mpysu_add3a :: "u16 \<Rightarrow> u16 \<Rightarrow> 'x instr" where
  "sqr_mpysu_add3a a b = on_regs (
     sbind (get_acc (Ab a)) (\<lambda>v. sseq [
       product_sum Sum_Acc (Ab b) False False False True,
       supd (\<lambda>r. both_products True True False True
         (set_x 1 (low16 v) (set_y 1 (high16 v) (set_square 0 (high16 v) r))))]))"

section \<open>Codebook search\<close>

definition cbs_axh :: "u16 \<Rightarrow> u16 \<Rightarrow> 'x instr" where
  "cbs_axh a c = on_regs (
     sbind (get_acc (Axh a)) (\<lambda>u.
     sbind (other_acc (Axh a)) (\<lambda>b.
     sbind (get_acc b) (\<lambda>v.
     supd (\<lambda>r. codebook_search (high16 u) (high16 v) (rg_r r ! 0) (CbsCond c) r)))))"

definition cbs_axh_bxh :: "u16 \<Rightarrow> u16 \<Rightarrow> u16 \<Rightarrow> 'x instr" where
  "cbs_axh_bxh a b c = on_regs (
     sbind (get_acc (Axh a)) (\<lambda>u.
     sbind (get_acc (Bxh b)) (\<lambda>v.
     supd (\<lambda>r. codebook_search (high16 u) (high16 v) (rg_r r ! 0) (CbsCond c) r))))"

definition cbs_arp :: "u16 \<Rightarrow> u16 \<Rightarrow> u16 \<Rightarrow> u16 \<Rightarrow> 'x instr" where
  "cbs_arp a asi asj c =
     sbind (arp_units a asi asj) (\<lambda>((ui, uj), (si, sj)).
     sbind (on_regs (rn_and_modify ui si False)) (\<lambda>aip.
     sbind (on_regs (squery (rn_address ui aip))) (\<lambda>ai.
     sbind (step_unit uj sj False) (\<lambda>aj.
     sbind (mem_data_read ai) (\<lambda>u.
     sbind (mem_data_read aj) (\<lambda>v. rupd (codebook_search u v aip (CbsCond c))))))))"

section \<open>Sums of both products\<close>

definition swap_x :: "registers \<Rightarrow> registers" where
  "swap_x r = r\<lparr>rg_x := (rg_x r)[0 := rg_x r ! 1, 1 := rg_x r ! 0]\<rparr>"

definition mov_sv_app :: "u16 \<Rightarrow> nat \<Rightarrow> u16 \<Rightarrow> sum_base \<Rightarrow> bool \<Rightarrow> bool \<Rightarrow> bool \<Rightarrow> bool \<Rightarrow> 'x instr" where
  "mov_sv_app a step_index b base sub_p0 p0_align sub_p1 p1_align =
     sbind (step_ar a step_index) (\<lambda>(unit, address).
     sbind (mem_data_read address) (\<lambda>v.
     sbind (rupd (set_sv v)) (\<lambda>_.
     on_regs (product_sum base (Bx b) sub_p0 p0_align sub_p1 p1_align))))"

definition mma_swapped :: "reg_name \<Rightarrow> bool \<Rightarrow> bool \<Rightarrow> bool \<Rightarrow> bool \<Rightarrow> sum_base \<Rightarrow> bool \<Rightarrow> bool \<Rightarrow> bool \<Rightarrow> bool \<Rightarrow> 'x instr" where
  "mma_swapped a x0_sign y0_sign x1_sign y1_sign base sub_p0 p0_align sub_p1 p1_align = on_regs (sseq [
     product_sum base a sub_p0 p0_align sub_p1 p1_align,
     supd swap_x,
     supd (both_products x0_sign y0_sign x1_sign y1_sign)])"

text \<open>Reads a word into a factor.\<close>

definition load_factor :: "u16 \<Rightarrow> (u16 \<Rightarrow> registers \<Rightarrow> registers) \<Rightarrow> 'x instr" where
  "load_factor address set_factor = sbind (mem_data_read address) (\<lambda>v. rupd (set_factor v))"

definition mma_arp :: "u16 \<Rightarrow> u16 \<Rightarrow> u16 \<Rightarrow> bool \<Rightarrow> bool \<Rightarrow> reg_name \<Rightarrow> bool \<Rightarrow> bool \<Rightarrow> bool \<Rightarrow> bool \<Rightarrow> sum_base
    \<Rightarrow> bool \<Rightarrow> bool \<Rightarrow> bool \<Rightarrow> bool \<Rightarrow> 'x instr" where
  "mma_arp xy i j dmodi dmodj a x0_sign y0_sign x1_sign y1_sign base sub_p0 p0_align sub_p1 p1_align =
     sbind (on_regs (product_sum base a sub_p0 p0_align sub_p1 p1_align)) (\<lambda>_.
     sbind (step_arp xy i j dmodi dmodj) (\<lambda>((ui, uj), (x, y)).
     sbind (rget (get_arp_offset (unat i) (unat j))) (\<lambda>(oi, oj).
     sbind (load_factor x (set_x 0)) (\<lambda>_.
     sbind (load_factor y (set_y 0)) (\<lambda>_.
     sbind (offset_unit ui x oi dmodi) (\<lambda>x2.
     sbind (load_factor x2 (set_x 1)) (\<lambda>_.
     sbind (offset_unit uj y oj dmodj) (\<lambda>y2.
     sbind (load_factor y2 (set_y 1)) (\<lambda>_.
     rupd (both_products x0_sign y0_sign x1_sign y1_sign))))))))))"

definition mma_load_y :: "nat \<Rightarrow> u16 \<Rightarrow> u16 \<Rightarrow> reg_name \<Rightarrow> bool \<Rightarrow> bool \<Rightarrow> bool \<Rightarrow> bool \<Rightarrow> sum_base
    \<Rightarrow> bool \<Rightarrow> bool \<Rightarrow> bool \<Rightarrow> bool \<Rightarrow> 'x instr" where
  "mma_load_y unit y ys a x0_sign y0_sign x1_sign y1_sign base sub_p0 p0_align sub_p1 p1_align =
     sbind (on_regs (product_sum base a sub_p0 p0_align sub_p1 p1_align)) (\<lambda>_.
     sbind (rupd swap_x) (\<lambda>_.
     sbind (read_ar y ys) (\<lambda>v.
     rupd (\<lambda>r. both_products x0_sign y0_sign x1_sign y1_sign (set_y unit v r)))))"

definition mma_mx_xy :: "u16 \<Rightarrow> u16 \<Rightarrow> reg_name \<Rightarrow> bool \<Rightarrow> bool \<Rightarrow> bool \<Rightarrow> bool \<Rightarrow> sum_base
    \<Rightarrow> bool \<Rightarrow> bool \<Rightarrow> bool \<Rightarrow> bool \<Rightarrow> 'x instr" where
  "mma_mx_xy = mma_load_y 0"

definition mma_xy_mx :: "u16 \<Rightarrow> u16 \<Rightarrow> reg_name \<Rightarrow> bool \<Rightarrow> bool \<Rightarrow> bool \<Rightarrow> bool \<Rightarrow> sum_base
    \<Rightarrow> bool \<Rightarrow> bool \<Rightarrow> bool \<Rightarrow> bool \<Rightarrow> 'x instr" where
  "mma_xy_mx = mma_load_y 1"

definition mma_my_my :: "u16 \<Rightarrow> u16 \<Rightarrow> reg_name \<Rightarrow> bool \<Rightarrow> bool \<Rightarrow> bool \<Rightarrow> bool \<Rightarrow> sum_base
    \<Rightarrow> bool \<Rightarrow> bool \<Rightarrow> bool \<Rightarrow> bool \<Rightarrow> 'x instr" where
  "mma_my_my x xs a x0_sign y0_sign x1_sign y1_sign base sub_p0 p0_align sub_p1 p1_align =
     sbind (on_regs (product_sum base a sub_p0 p0_align sub_p1 p1_align)) (\<lambda>_.
     sbind (step_ar x (unat xs)) (\<lambda>(unit, address).
     sbind (load_factor address (set_x 0)) (\<lambda>_.
     sbind (rget (get_ar_offset (unat xs))) (\<lambda>offset.
     sbind (offset_unit unit address offset False) (\<lambda>address2.
     sbind (load_factor address2 (set_x 1)) (\<lambda>_.
     rupd (both_products x0_sign y0_sign x1_sign y1_sign)))))))"

text \<open>With the high words of two accumulators stored before, in this order.\<close>

definition store_high_pair :: "reg_name \<Rightarrow> reg_name \<Rightarrow> u16 \<Rightarrow> u16 \<Rightarrow> 'x instr" where
  "store_high_pair u v w ws =
     sbind (step_ar w (unat ws)) (\<lambda>(unit, address).
     sbind (on_regs (get_and_sat_acc_no_flag u)) (\<lambda>u_value.
     sbind (on_regs (get_and_sat_acc_no_flag v)) (\<lambda>v_value.
     sbind (rget (get_ar_offset (unat ws))) (\<lambda>offset.
     sbind (offset_unit unit address offset False) (\<lambda>address2.
     sseq [mem_data_write address2 (high16 v_value), mem_data_write address (high16 u_value)])))))"

definition mma_mov_axh :: "u16 \<Rightarrow> u16 \<Rightarrow> u16 \<Rightarrow> u16 \<Rightarrow> reg_name \<Rightarrow> bool \<Rightarrow> bool \<Rightarrow> bool \<Rightarrow> bool \<Rightarrow> sum_base
    \<Rightarrow> bool \<Rightarrow> bool \<Rightarrow> bool \<Rightarrow> bool \<Rightarrow> 'x instr" where
  "mma_mov_axh u v w ws a x0_sign y0_sign x1_sign y1_sign base sub_p0 p0_align sub_p1 p1_align = sseq [
     store_high_pair (Axh u) (Bxh v) w ws,
     mma_swapped a x0_sign y0_sign x1_sign y1_sign base sub_p0 p0_align sub_p1 p1_align]"

definition mma_mov_ar :: "u16 \<Rightarrow> u16 \<Rightarrow> reg_name \<Rightarrow> bool \<Rightarrow> bool \<Rightarrow> bool \<Rightarrow> bool \<Rightarrow> sum_base
    \<Rightarrow> bool \<Rightarrow> bool \<Rightarrow> bool \<Rightarrow> bool \<Rightarrow> 'x instr" where
  "mma_mov_ar w ws a x0_sign y0_sign x1_sign y1_sign base sub_p0 p0_align sub_p1 p1_align =
     sbind (on_regs (other_acc a)) (\<lambda>b. sseq [
       store_high_pair a b w ws,
       mma_swapped a x0_sign y0_sign x1_sign y1_sign base sub_p0 p0_align sub_p1 p1_align])"

end
