(* ===== verification/Instr_Move.thy ===== *)
theory Instr_Move
  imports Instr_Support
begin

unbundle bit_operations_syntax

text \<open>
  The instructions of src/src/interpreter.h that move values: immediate loads of control fields, the
  stack, moves between registers and memory in every addressing mode, moves of words pairs, and
  moves from and to program memory. One definition per method, as in the other groups.
\<close>

section \<open>Immediate loads\<close>

definition load_ps :: "u16 \<Rightarrow> 'x instr" where
  "load_ps a = rupd (\<lambda>r. r\<lparr>rg_ps := (rg_ps r)[0 := a]\<rparr>)"
definition load_stepi :: "u16 \<Rightarrow> 'x instr" where
  "load_stepi a = rupd (\<lambda>r. r\<lparr>rg_stepi := signed16 7 a AND 0x7F\<rparr>)"
definition load_stepj :: "u16 \<Rightarrow> 'x instr" where
  "load_stepj a = rupd (\<lambda>r. r\<lparr>rg_stepj := signed16 7 a AND 0x7F\<rparr>)"
definition load_page :: "u16 \<Rightarrow> 'x instr" where
  "load_page a = rupd (\<lambda>r. r\<lparr>rg_page := a\<rparr>)"
definition load_modi :: "u16 \<Rightarrow> 'x instr" where
  "load_modi a = rupd (\<lambda>r. r\<lparr>rg_modi := a\<rparr>)"
definition load_modj :: "u16 \<Rightarrow> 'x instr" where
  "load_modj a = rupd (\<lambda>r. r\<lparr>rg_modj := a\<rparr>)"
definition load_movpd :: "u16 \<Rightarrow> 'x instr" where
  "load_movpd a = rupd (\<lambda>r. r\<lparr>rg_pcmhi := a\<rparr>)"
definition load_ps01 :: "u16 \<Rightarrow> 'x instr" where
  "load_ps01 a = rupd (\<lambda>r. r\<lparr>rg_ps := (rg_ps r)[0 := a AND 3, 1 := drop_bit 2 a]\<rparr>)"

section \<open>Stack\<close>

definition push_imm16 :: "u16 \<Rightarrow> 'x instr" where
  "push_imm16 a = push_word a"
definition push_register :: "u16 \<Rightarrow> 'x instr" where
  "push_register a = sbind (bus_value_sat (Register a)) push_word"
definition push_abe :: "u16 \<Rightarrow> 'x instr" where
  "push_abe a =
     sbind (on_regs (get_and_sat_acc (Abe a))) (\<lambda>v. push_word (ucast (drop_bit 32 v AND 0xFFFF)))"
definition push_ar_arp_stt_mod :: "u16 \<Rightarrow> 'x instr" where
  "push_ar_arp_stt_mod a = sbind (bus_value (ArArpSttMod a)) push_word"
definition push_prpage :: "'x instr" where
  "push_prpage = sbind (rget rg_prpage) push_word"

text \<open>The low word first, so the high one is on top.\<close>

definition push_long :: "u32 \<Rightarrow> 'x instr" where
  "push_long v = sseq [push_word (ucast (v AND 0xFFFF)), push_word (ucast (drop_bit 16 v))]"

definition push_px :: "u16 \<Rightarrow> 'x instr" where
  "push_px a = sbind (rget (product_to_bus40 (unat a))) (\<lambda>v. push_long (ucast v))"
definition push_r6 :: "'x instr" where
  "push_r6 = sbind (rget (\<lambda>r. rg_r r ! 6)) push_word"
definition push_repc :: "'x instr" where
  "push_repc = sbind (rget rg_repc) push_word"
definition push_x0 :: "'x instr" where
  "push_x0 = sbind (rget (\<lambda>r. rg_x r ! 0)) push_word"
definition push_x1 :: "'x instr" where
  "push_x1 = sbind (rget (\<lambda>r. rg_x r ! 1)) push_word"
definition push_y1 :: "'x instr" where
  "push_y1 = sbind (rget (\<lambda>r. rg_y r ! 1)) push_word"
definition pusha_ax :: "u16 \<Rightarrow> 'x instr" where
  "pusha_ax a = sbind (on_regs (get_and_sat_acc (Ax a))) (\<lambda>v. push_long (ucast (v AND 0xFFFFFFFF)))"
definition pusha_bx :: "u16 \<Rightarrow> 'x instr" where
  "pusha_bx a = sbind (on_regs (get_and_sat_acc (Bx a))) (\<lambda>v. push_long (ucast (v AND 0xFFFFFFFF)))"

definition pop_register :: "u16 \<Rightarrow> 'x instr" where
  "pop_register a = sbind pop_word (to_bus (Register a))"

definition set_acc_extension :: "reg_name \<Rightarrow> u16 \<Rightarrow> (registers, unit) step" where
  "set_acc_extension name v =
     (let value32 = sign_extend 8 (ucast (v AND 0xFF) :: u32) in
      sbind (get_acc name) (\<lambda>acc.
      set_acc_and_flag name ((acc AND 0xFFFFFFFF) OR push_bit 32 (ucast value32))))"

definition pop_abe :: "u16 \<Rightarrow> 'x instr" where
  "pop_abe a = sbind pop_word (\<lambda>v. on_regs (set_acc_extension (Abe a) v))"
definition pop_ar_arp_stt_mod :: "u16 \<Rightarrow> 'x instr" where
  "pop_ar_arp_stt_mod a = sbind pop_word (to_bus (ArArpSttMod a))"
definition pop_bx :: "u16 \<Rightarrow> 'x instr" where
  "pop_bx a = sbind pop_word (to_bus (Bx a))"
definition pop_prpage :: "'x instr" where
  "pop_prpage = sbind pop_word (\<lambda>v. rupd (\<lambda>r. r\<lparr>rg_prpage := v\<rparr>))"
definition pop_px :: "u16 \<Rightarrow> 'x instr" where
  "pop_px a =
     sbind pop_word (\<lambda>h. sbind pop_word (\<lambda>l.
     rupd (product_from_bus32 (unat a) (push_bit 16 (ucast h) OR ucast l))))"
definition pop_r6 :: "'x instr" where
  "pop_r6 = sbind pop_word (\<lambda>v. rupd (set_r 6 v))"
definition pop_repc :: "'x instr" where
  "pop_repc = sbind pop_word (\<lambda>v. rupd (\<lambda>r. r\<lparr>rg_repc := v\<rparr>))"
definition pop_x0 :: "'x instr" where
  "pop_x0 = sbind pop_word (\<lambda>v. rupd (set_x 0 v))"
definition pop_x1 :: "'x instr" where
  "pop_x1 = sbind pop_word (\<lambda>v. rupd (set_x 1 v))"
definition pop_y1 :: "'x instr" where
  "pop_y1 = sbind pop_word (\<lambda>v. rupd (set_y 1 v))"
definition popa :: "u16 \<Rightarrow> 'x instr" where
  "popa a =
     sbind pop_word (\<lambda>h. sbind pop_word (\<lambda>l. on_regs (set_acc_and_flag (Ab a) (word_pair h l))))"

section \<open>Program memory\<close>

definition program_address :: "u16 \<Rightarrow> registers \<Rightarrow> u32" where
  "program_address a r = ucast a OR push_bit 16 (ucast (rg_pcmhi r))"

definition movd :: "u16 \<Rightarrow> u16 \<Rightarrow> u16 \<Rightarrow> u16 \<Rightarrow> 'x instr" where
  "movd a as b bs =
     sbind (step_unit (unat a) (StepZIDS as) False) (\<lambda>address_s.
     sbind (step_unit (r45_index b) (StepZIDS bs) False) (\<lambda>address_d.
     sbind (rget (program_address address_d)) (\<lambda>address_d.
     sbind (mem_data_read address_s) (mem_program_write address_d))))"

definition movp_axl :: "u16 \<Rightarrow> u16 \<Rightarrow> 'x instr" where
  "movp_axl a b =
     sbind (bus_value (Axl a)) (\<lambda>v.
     sbind (rget (program_address v)) (\<lambda>address.
     sbind (mem_program_read address) (to_bus (Register b))))"

definition movp_ax :: "u16 \<Rightarrow> u16 \<Rightarrow> 'x instr" where
  "movp_ax a b =
     sbind (acc_value (Ax a)) (\<lambda>v.
     sbind (mem_program_read (ucast (v AND 0x3FFFF))) (to_bus (Register b)))"

definition movp_rn :: "u16 \<Rightarrow> u16 \<Rightarrow> u16 \<Rightarrow> u16 \<Rightarrow> 'x instr" where
  "movp_rn a as b bs =
     sbind (step_rn a as) (\<lambda>address_s.
     sbind (step_unit (unat b) (StepZIDS bs) False) (\<lambda>address_d.
     sbind (rget (program_address address_s)) (\<lambda>address_s.
     sbind (mem_program_read address_s) (mem_data_write address_d))))"

definition movpdw :: "u16 \<Rightarrow> 'x instr" where
  "movpdw a =
     sbind (acc_value (Ax a)) (\<lambda>v.
     let address = ucast (v AND 0x3FFFF) in
     sbind (mem_program_read address) (\<lambda>h.
     sbind (mem_program_read (address + 1)) (\<lambda>l.
     set_pc (ucast l OR push_bit 16 (ucast h)))))"

section \<open>Moves from registers\<close>

definition mov_ab_ab :: "u16 \<Rightarrow> u16 \<Rightarrow> 'x instr" where
  "mov_ab_ab a b = on_regs (sbind (get_acc (Ab a)) (sat_and_set_acc_and_flag (Ab b)))"
definition mov_dvm :: "u16 \<Rightarrow> 'x instr" where
  "mov_dvm a = sfail Abort"
definition mov_x0 :: "u16 \<Rightarrow> 'x instr" where
  "mov_x0 a = sbind (bus_value_sat (Abl a)) (\<lambda>v. rupd (set_x 0 v))"
definition mov_x1 :: "u16 \<Rightarrow> 'x instr" where
  "mov_x1 a = sbind (bus_value_sat (Abl a)) (\<lambda>v. rupd (set_x 1 v))"
definition mov_y1 :: "u16 \<Rightarrow> 'x instr" where
  "mov_y1 a = sbind (bus_value_sat (Abl a)) (\<lambda>v. rupd (set_y 1 v))"

definition mov_ablh_mem_imm8 :: "u16 \<Rightarrow> u16 \<Rightarrow> 'x instr" where
  "mov_ablh_mem_imm8 a b = sbind (bus_value_sat (Ablh a)) (store_imm8 b)"
definition mov_axl_mem_imm16 :: "u16 \<Rightarrow> u16 \<Rightarrow> 'x instr" where
  "mov_axl_mem_imm16 a b = sbind (bus_value_sat (Axl a)) (store_imm16 b)"
definition mov_axl_mem_r7_imm16 :: "u16 \<Rightarrow> u16 \<Rightarrow> 'x instr" where
  "mov_axl_mem_r7_imm16 a b = sbind (bus_value_sat (Axl a)) (store_r7_imm16 b)"
definition mov_axl_mem_r7_imm7s :: "u16 \<Rightarrow> u16 \<Rightarrow> 'x instr" where
  "mov_axl_mem_r7_imm7s a b = sbind (bus_value_sat (Axl a)) (store_r7_imm7s b)"

definition mov_mem_imm16_ax :: "u16 \<Rightarrow> u16 \<Rightarrow> 'x instr" where
  "mov_mem_imm16_ax a b = sbind (load_imm16 a) (to_bus (Ax b))"
definition mov_mem_imm8_ab :: "u16 \<Rightarrow> u16 \<Rightarrow> 'x instr" where
  "mov_mem_imm8_ab a b = sbind (load_imm8 a) (to_bus (Ab b))"
definition mov_mem_imm8_ablh :: "u16 \<Rightarrow> u16 \<Rightarrow> 'x instr" where
  "mov_mem_imm8_ablh a b = sbind (load_imm8 a) (to_bus (Ablh b))"

definition mov_eu :: "u16 \<Rightarrow> u16 \<Rightarrow> 'x instr" where
  "mov_eu a b =
     sbind (load_imm8 a) (\<lambda>v. on_regs (
     sbind (get_acc (Axh b)) (\<lambda>acc.
     set_acc_and_flag (Axh b) ((acc AND 0xFFFFFFFF00000000) OR push_bit 16 (ucast v)))))"

definition mov_mem_imm8_rn_old :: "u16 \<Rightarrow> u16 \<Rightarrow> 'x instr" where
  "mov_mem_imm8_rn_old a b = sbind (load_imm8 a) (to_bus (RnOld b))"
definition mov_sv_mem_imm8 :: "u16 \<Rightarrow> 'x instr" where
  "mov_sv_mem_imm8 a = sbind (load_imm8 a) (\<lambda>v. rupd (\<lambda>r. r\<lparr>rg_sv := v\<rparr>))"
definition mov_dvm_to :: "u16 \<Rightarrow> 'x instr" where
  "mov_dvm_to b = sfail Abort"
definition mov_icr_to :: "u16 \<Rightarrow> 'x instr" where
  "mov_icr_to b = sbind (rget (pseudo_get icr_slots)) (to_bus (Ab b))"
definition mov_imm16_bx :: "u16 \<Rightarrow> u16 \<Rightarrow> 'x instr" where
  "mov_imm16_bx a b = to_bus (Bx b) a"
definition mov_imm16_register :: "u16 \<Rightarrow> u16 \<Rightarrow> 'x instr" where
  "mov_imm16_register a b = to_bus (Register b) a"
definition mov_icr_imm5 :: "u16 \<Rightarrow> 'x instr" where
  "mov_icr_imm5 a = rupd (\<lambda>r. pseudo_set icr_slots ((pseudo_get icr_slots r AND NOT 0x1F) OR a) r)"
definition mov_imm8s_axh :: "u16 \<Rightarrow> u16 \<Rightarrow> 'x instr" where
  "mov_imm8s_axh a b = to_bus (Axh b) (signed16 8 a)"
definition mov_imm8s_rn_old :: "u16 \<Rightarrow> u16 \<Rightarrow> 'x instr" where
  "mov_imm8s_rn_old a b = to_bus (RnOld b) (signed16 8 a)"
definition mov_sv_imm8s :: "u16 \<Rightarrow> 'x instr" where
  "mov_sv_imm8s a = rupd (\<lambda>r. r\<lparr>rg_sv := signed16 8 a\<rparr>)"
definition mov_imm8_axl :: "u16 \<Rightarrow> u16 \<Rightarrow> 'x instr" where
  "mov_imm8_axl a b = to_bus (Axl b) a"
definition mov_mem_r7_imm16_ax :: "u16 \<Rightarrow> u16 \<Rightarrow> 'x instr" where
  "mov_mem_r7_imm16_ax a b = sbind (load_r7_imm16 a) (to_bus (Ax b))"
definition mov_mem_r7_imm7s_ax :: "u16 \<Rightarrow> u16 \<Rightarrow> 'x instr" where
  "mov_mem_r7_imm7s_ax a b = sbind (load_r7_imm7s a) (to_bus (Ax b))"
definition mov_rn_bx :: "u16 \<Rightarrow> u16 \<Rightarrow> u16 \<Rightarrow> 'x instr" where
  "mov_rn_bx a as b = sbind (read_rn a as) (to_bus (Bx b))"
definition mov_rn_register :: "u16 \<Rightarrow> u16 \<Rightarrow> u16 \<Rightarrow> 'x instr" where
  "mov_rn_register a as b = sbind (read_rn a as) (to_bus (Register b))"
definition mov_memsp_to :: "u16 \<Rightarrow> 'x instr" where
  "mov_memsp_to b = sbind (rget rg_sp) (\<lambda>sp. sbind (mem_data_read sp) (to_bus (Register b)))"
definition mov_mixp_to_register :: "u16 \<Rightarrow> 'x instr" where
  "mov_mixp_to_register b = sbind (rget rg_mixp) (to_bus (Register b))"
definition mov_rn_old_mem_imm8 :: "u16 \<Rightarrow> u16 \<Rightarrow> 'x instr" where
  "mov_rn_old_mem_imm8 a b = sbind (bus_value (RnOld a)) (store_imm8 b)"
definition mov_icr_register :: "u16 \<Rightarrow> 'x instr" where
  "mov_icr_register a = sbind (bus_value_sat (Register a)) (\<lambda>v. rupd (pseudo_set icr_slots v))"
definition mov_mixp_register :: "u16 \<Rightarrow> 'x instr" where
  "mov_mixp_register a = sbind (bus_value_sat (Register a)) (\<lambda>v. rupd (\<lambda>r. r\<lparr>rg_mixp := v\<rparr>))"
definition mov_register_rn :: "u16 \<Rightarrow> u16 \<Rightarrow> u16 \<Rightarrow> 'x instr" where
  "mov_register_rn a b bs =
     sbind (bus_value_sat (Register a)) (\<lambda>v. sbind (step_rn b bs) (\<lambda>address. mem_data_write address v))"

definition mov_register_bx :: "u16 \<Rightarrow> u16 \<Rightarrow> 'x instr" where
  "mov_register_bx a b = on_regs (
     if Register a = Reg_p then sbind (sget (product_to_bus40 0)) (sat_and_set_acc_and_flag (Bx b))
     else if Register a = Reg_a0 \<or> Register a = Reg_a1 then
       sbind (get_acc (Register a)) (sat_and_set_acc_and_flag (Bx b))
     else sbind (reg_to_bus16 (Register a) True) (reg_from_bus16 (Bx b)))"

text \<open>From p the target operand has its own meaning; the whole program counter fits an accumulator only.\<close>

definition mov_register_register :: "u16 \<Rightarrow> u16 \<Rightarrow> 'x instr" where
  "mov_register_register a b = on_regs (
     if Register a = Reg_p then
       sbind (sget (product_to_bus40 0)) (sat_and_set_acc_and_flag (name_for_mov_from_p b))
     else if Register a = Reg_pc then
       if Register b = Reg_a0 \<or> Register b = Reg_a1 then
         sbind (sget (\<lambda>r. ucast (rg_pc r))) (sat_and_set_acc_and_flag (Register b))
       else sbind (sget (\<lambda>r. ucast (rg_pc r AND 0xFFFF))) (reg_from_bus16 (Register b))
     else sbind (reg_to_bus16 (Register a) True) (reg_from_bus16 (Register b)))"

definition mov_repc_to_ab :: "u16 \<Rightarrow> 'x instr" where
  "mov_repc_to_ab b = sbind (rget rg_repc) (to_bus (Ab b))"
definition mov_sv_to :: "u16 \<Rightarrow> 'x instr" where
  "mov_sv_to b = sbind (rget rg_sv) (store_imm8 b)"
definition mov_x0_to :: "u16 \<Rightarrow> 'x instr" where
  "mov_x0_to b = sbind (rget (\<lambda>r. rg_x r ! 0)) (to_bus (Ab b))"
definition mov_x1_to :: "u16 \<Rightarrow> 'x instr" where
  "mov_x1_to b = sbind (rget (\<lambda>r. rg_x r ! 1)) (to_bus (Ab b))"
definition mov_y1_to :: "u16 \<Rightarrow> 'x instr" where
  "mov_y1_to b = sbind (rget (\<lambda>r. rg_y r ! 1)) (to_bus (Ab b))"
definition mov_imm16_ar_arp :: "u16 \<Rightarrow> u16 \<Rightarrow> 'x instr" where
  "mov_imm16_ar_arp a b = to_bus (ArArp b) a"
definition mov_r6_imm16 :: "u16 \<Rightarrow> 'x instr" where
  "mov_r6_imm16 a = rupd (set_r 6 a)"
definition mov_repc_imm16 :: "u16 \<Rightarrow> 'x instr" where
  "mov_repc_imm16 a = rupd (\<lambda>r. r\<lparr>rg_repc := a\<rparr>)"
definition mov_stepi0_imm16 :: "u16 \<Rightarrow> 'x instr" where
  "mov_stepi0_imm16 a = rupd (\<lambda>r. r\<lparr>rg_stepi0 := a\<rparr>)"
definition mov_stepj0_imm16 :: "u16 \<Rightarrow> 'x instr" where
  "mov_stepj0_imm16 a = rupd (\<lambda>r. r\<lparr>rg_stepj0 := a\<rparr>)"
definition mov_imm16_stt_mod :: "u16 \<Rightarrow> u16 \<Rightarrow> 'x instr" where
  "mov_imm16_stt_mod a b = to_bus (SttMod b) a"
definition mov_prpage_imm4 :: "u16 \<Rightarrow> 'x instr" where
  "mov_prpage_imm4 a = rupd (\<lambda>r. r\<lparr>rg_prpage := a\<rparr>)"
definition mov_a0h_stepi0 :: "'x instr" where
  "mov_a0h_stepi0 = sbind (bus_value_sat Reg_a0h) (\<lambda>v. rupd (\<lambda>r. r\<lparr>rg_stepi0 := v\<rparr>))"
definition mov_a0h_stepj0 :: "'x instr" where
  "mov_a0h_stepj0 = sbind (bus_value_sat Reg_a0h) (\<lambda>v. rupd (\<lambda>r. r\<lparr>rg_stepj0 := v\<rparr>))"
definition mov_stepi0_a0h :: "'x instr" where
  "mov_stepi0_a0h = sbind (rget rg_stepi0) (to_bus Reg_a0h)"
definition mov_stepj0_a0h :: "'x instr" where
  "mov_stepj0_a0h = sbind (rget rg_stepj0) (to_bus Reg_a0h)"
definition mov_prpage_abl :: "u16 \<Rightarrow> 'x instr" where
  "mov_prpage_abl a = sbind (acc_value (Abl a)) (\<lambda>v. rupd (\<lambda>r. r\<lparr>rg_prpage := ucast (v AND 0xF)\<rparr>))"
definition mov_repc_abl :: "u16 \<Rightarrow> 'x instr" where
  "mov_repc_abl a = sbind (bus_value_sat (Abl a)) (\<lambda>v. rupd (\<lambda>r. r\<lparr>rg_repc := v\<rparr>))"
definition mov_abl_ar_arp :: "u16 \<Rightarrow> u16 \<Rightarrow> 'x instr" where
  "mov_abl_ar_arp a b = sbind (bus_value_sat (Abl a)) (to_bus (ArArp b))"
definition mov_abl_stt_mod :: "u16 \<Rightarrow> u16 \<Rightarrow> 'x instr" where
  "mov_abl_stt_mod a b = sbind (bus_value_sat (Abl a)) (to_bus (SttMod b))"
definition mov_prpage_to_abl :: "u16 \<Rightarrow> 'x instr" where
  "mov_prpage_to_abl b = sbind (rget rg_prpage) (to_bus (Abl b))"
definition mov_repc_to_abl :: "u16 \<Rightarrow> 'x instr" where
  "mov_repc_to_abl b = sbind (rget rg_repc) (to_bus (Abl b))"
definition mov_ar_arp_abl :: "u16 \<Rightarrow> u16 \<Rightarrow> 'x instr" where
  "mov_ar_arp_abl a b = sbind (bus_value (ArArp a)) (to_bus (Abl b))"
definition mov_stt_mod_abl :: "u16 \<Rightarrow> u16 \<Rightarrow> 'x instr" where
  "mov_stt_mod_abl a b = sbind (bus_value (SttMod a)) (to_bus (Abl b))"

section \<open>Moves through address registers\<close>

definition mov_repc_to_ar_rn1 :: "u16 \<Rightarrow> u16 \<Rightarrow> 'x instr" where
  "mov_repc_to_ar_rn1 b bs =
     sbind (step_ar b (unat bs)) (\<lambda>(unit, address).
     sbind (rget rg_repc) (mem_data_write address))"
definition mov_bus_to_ar :: "reg_name \<Rightarrow> u16 \<Rightarrow> u16 \<Rightarrow> 'x instr" where
  "mov_bus_to_ar name b bs =
     sbind (step_ar b (unat bs)) (\<lambda>(unit, address).
     sbind (bus_value name) (mem_data_write address))"
definition mov_ar_arp_ar_rn1 :: "u16 \<Rightarrow> u16 \<Rightarrow> u16 \<Rightarrow> 'x instr" where
  "mov_ar_arp_ar_rn1 a b bs = mov_bus_to_ar (ArArp a) b bs"
definition mov_stt_mod_ar_rn1 :: "u16 \<Rightarrow> u16 \<Rightarrow> u16 \<Rightarrow> 'x instr" where
  "mov_stt_mod_ar_rn1 a b bs = mov_bus_to_ar (SttMod a) b bs"
definition mov_repc_ar_rn1 :: "u16 \<Rightarrow> u16 \<Rightarrow> 'x instr" where
  "mov_repc_ar_rn1 a as = sbind (read_ar a as) (\<lambda>v. rupd (\<lambda>r. r\<lparr>rg_repc := v\<rparr>))"
definition mov_ar_rn1_ar_arp :: "u16 \<Rightarrow> u16 \<Rightarrow> u16 \<Rightarrow> 'x instr" where
  "mov_ar_rn1_ar_arp a as b = sbind (read_ar a as) (to_bus (ArArp b))"
definition mov_ar_rn1_stt_mod :: "u16 \<Rightarrow> u16 \<Rightarrow> u16 \<Rightarrow> 'x instr" where
  "mov_ar_rn1_stt_mod a as b = sbind (read_ar a as) (to_bus (SttMod b))"
definition mov_repc_to_mem_r7_imm16 :: "u16 \<Rightarrow> 'x instr" where
  "mov_repc_to_mem_r7_imm16 b = sbind (rget rg_repc) (store_r7_imm16 b)"
definition mov_ar_arp_stt_mod_mem_r7_imm16 :: "u16 \<Rightarrow> u16 \<Rightarrow> 'x instr" where
  "mov_ar_arp_stt_mod_mem_r7_imm16 a b = sbind (bus_value (ArArpSttMod a)) (store_r7_imm16 b)"
definition mov_repc_mem_r7_imm16 :: "u16 \<Rightarrow> 'x instr" where
  "mov_repc_mem_r7_imm16 a = sbind (load_r7_imm16 a) (\<lambda>v. rupd (\<lambda>r. r\<lparr>rg_repc := v\<rparr>))"
definition mov_mem_r7_imm16_ar_arp_stt_mod :: "u16 \<Rightarrow> u16 \<Rightarrow> 'x instr" where
  "mov_mem_r7_imm16_ar_arp_stt_mod a b = sbind (load_r7_imm16 a) (to_bus (ArArpSttMod b))"

definition mov_pc_ax :: "u16 \<Rightarrow> 'x instr" where
  "mov_pc_ax a = sbind (acc_value (Ax a)) (\<lambda>v. set_pc (ucast (v AND 0xFFFFFFFF)))"
definition mov_pc_bx :: "u16 \<Rightarrow> 'x instr" where
  "mov_pc_bx a = sbind (acc_value (Bx a)) (\<lambda>v. set_pc (ucast (v AND 0xFFFFFFFF)))"
definition mov_mixp_to_bx :: "u16 \<Rightarrow> 'x instr" where
  "mov_mixp_to_bx b = sbind (rget rg_mixp) (to_bus (Bx b))"
definition mov_mixp_r6 :: "'x instr" where
  "mov_mixp_r6 = rupd (\<lambda>r. set_r 6 (rg_mixp r) r)"
definition mov_p0h_to_bx :: "u16 \<Rightarrow> 'x instr" where
  "mov_p0h_to_bx b = sbind (rget (product_high 0)) (to_bus (Bx b))"
definition mov_p0h_r6 :: "'x instr" where
  "mov_p0h_r6 = rupd (\<lambda>r. set_r 6 (product_high 0 r) r)"
definition mov_p0h_to_register :: "u16 \<Rightarrow> 'x instr" where
  "mov_p0h_to_register b = sbind (rget (product_high 0)) (to_bus (Register b))"
definition mov_p0 :: "u16 \<Rightarrow> 'x instr" where
  "mov_p0 a = sbind (on_regs (get_and_sat_acc (Ab a))) (\<lambda>v. rupd (product_from_bus32 0 (ucast (v AND 0xFFFFFFFF))))"
definition mov_p1_to :: "u16 \<Rightarrow> 'x instr" where
  "mov_p1_to b = on_regs (sbind (sget (product_to_bus40 1)) (sat_and_set_acc_and_flag (Ab b)))"

section \<open>Pairs of words\<close>

text \<open>The low word goes to the second address first: with a zero offset the high one replaces it.\<close>

definition write_ar_pair :: "u16 \<Rightarrow> u16 \<Rightarrow> u16 \<Rightarrow> u16 \<Rightarrow> 'x instr" where
  "write_ar_pair h l b bs =
     sbind (step_ar_pair b bs) (\<lambda>(address, address2).
     sseq [mem_data_write address2 l, mem_data_write address h])"

definition read_ar_pair :: "u16 \<Rightarrow> u16 \<Rightarrow> ('x, u16 \<times> u16) mstep" where
  "read_ar_pair a as =
     sbind (step_ar_pair a as) (\<lambda>(address, address2).
     sbind (mem_data_read address2) (\<lambda>l.
     sbind (mem_data_read address) (\<lambda>h. sreturn (h, l))))"

definition mov2_px_ar :: "u16 \<Rightarrow> u16 \<Rightarrow> u16 \<Rightarrow> 'x instr" where
  "mov2_px_ar a b bs =
     sbind (rget (product_to_bus32_no_shift (unat a))) (\<lambda>v.
     write_ar_pair (ucast (drop_bit 16 v AND 0xFFFF)) (ucast (v AND 0xFFFF)) b bs)"
definition mov2s :: "u16 \<Rightarrow> u16 \<Rightarrow> u16 \<Rightarrow> 'x instr" where
  "mov2s a b bs =
     sbind (rget (product_to_bus40 (unat a))) (\<lambda>v. write_ar_pair (high16 v) (low16 v) b bs)"
definition mov2_ar_px :: "u16 \<Rightarrow> u16 \<Rightarrow> u16 \<Rightarrow> 'x instr" where
  "mov2_ar_px a as b =
     sbind (read_ar_pair a as) (\<lambda>(h, l).
     rupd (product_from_bus32 (unat b) (push_bit 16 (ucast h) OR ucast l)))"
definition mova_ab_ar :: "u16 \<Rightarrow> u16 \<Rightarrow> u16 \<Rightarrow> 'x instr" where
  "mova_ab_ar a b bs =
     sbind (on_regs (get_and_sat_acc (Ab a))) (\<lambda>v. write_ar_pair (high16 v) (low16 v) b bs)"
definition mova_ar_ab :: "u16 \<Rightarrow> u16 \<Rightarrow> u16 \<Rightarrow> 'x instr" where
  "mova_ar_ab a as b =
     sbind (read_ar_pair a as) (\<lambda>(h, l). on_regs (sat_and_set_acc_and_flag (Ab b) (word_pair h l)))"

definition mov_r6_to_bx :: "u16 \<Rightarrow> 'x instr" where
  "mov_r6_to_bx b = sbind (rget (\<lambda>r. rg_r r ! 6)) (to_bus (Bx b))"
definition mov_r6_mixp :: "'x instr" where
  "mov_r6_mixp = rupd (\<lambda>r. r\<lparr>rg_mixp := rg_r r ! 6\<rparr>)"
definition mov_r6_to_register :: "u16 \<Rightarrow> 'x instr" where
  "mov_r6_to_register b = sbind (rget (\<lambda>r. rg_r r ! 6)) (to_bus (Register b))"
definition mov_r6_register :: "u16 \<Rightarrow> 'x instr" where
  "mov_r6_register a = sbind (bus_value_sat (Register a)) (\<lambda>v. rupd (set_r 6 v))"
definition mov_memsp_r6 :: "'x instr" where
  "mov_memsp_r6 = sbind (rget rg_sp) (\<lambda>sp. sbind (mem_data_read sp) (\<lambda>v. rupd (set_r 6 v)))"
definition mov_r6_to_rn :: "u16 \<Rightarrow> u16 \<Rightarrow> 'x instr" where
  "mov_r6_to_rn b bs =
     sbind (rget (\<lambda>r. rg_r r ! 6)) (\<lambda>v. sbind (step_rn b bs) (\<lambda>address. mem_data_write address v))"
definition mov_r6_rn :: "u16 \<Rightarrow> u16 \<Rightarrow> 'x instr" where
  "mov_r6_rn a as = sbind (read_rn a as) (\<lambda>v. rupd (set_r 6 v))"

definition high_no_flag :: "reg_name \<Rightarrow> ('x, u16) mstep" where
  "high_no_flag name = sbind (on_regs (get_and_sat_acc_no_flag name)) (\<lambda>v. sreturn (high16 v))"

definition mov2_axh_m_y0_m :: "u16 \<Rightarrow> u16 \<Rightarrow> u16 \<Rightarrow> 'x instr" where
  "mov2_axh_m_y0_m a b bs =
     sbind (high_no_flag (Axh a)) (\<lambda>u.
     sbind (rget (\<lambda>r. rg_y r ! 0)) (\<lambda>v. write_ar_pair u v b bs))"

definition mov2_ax_words :: "(u64 \<Rightarrow> u16) \<Rightarrow> (u64 \<Rightarrow> u16) \<Rightarrow> bool \<Rightarrow> u16 \<Rightarrow> u16 \<Rightarrow> u16 \<Rightarrow> u16 \<Rightarrow> 'x instr" where
  "mov2_ax_words to_i to_j i_first a b bsi bsj =
     sbind (step_arp b bsi bsj False False) (\<lambda>(units, (i, j)).
     sbind (on_regs (get_and_sat_acc_no_flag (Ab a))) (\<lambda>v.
     if i_first then sseq [mem_data_write i (to_i v), mem_data_write j (to_j v)]
     else sseq [mem_data_write j (to_j v), mem_data_write i (to_i v)]))"
definition mov2_ax_mij :: "u16 \<Rightarrow> u16 \<Rightarrow> u16 \<Rightarrow> u16 \<Rightarrow> 'x instr" where
  "mov2_ax_mij = mov2_ax_words high16 low16 True"
definition mov2_ax_mji :: "u16 \<Rightarrow> u16 \<Rightarrow> u16 \<Rightarrow> u16 \<Rightarrow> 'x instr" where
  "mov2_ax_mji = mov2_ax_words low16 high16 False"

text \<open>Each unit is stepped right before its word is read.\<close>

definition mov2_words_ax :: "bool \<Rightarrow> u16 \<Rightarrow> u16 \<Rightarrow> u16 \<Rightarrow> u16 \<Rightarrow> 'x instr" where
  "mov2_words_ax i_high a asi asj b =
     sbind (arp_units a asi asj) (\<lambda>((ui, uj), (si, sj)).
     sbind (step_unit ui si False) (\<lambda>i.
     sbind (mem_data_read i) (\<lambda>v.
     sbind (step_unit uj sj False) (\<lambda>j.
     sbind (mem_data_read j) (\<lambda>w.
     on_regs (set_acc (Ab b) (if i_high then word_pair v w else word_pair w v)))))))"
definition mov2_mij_ax :: "u16 \<Rightarrow> u16 \<Rightarrow> u16 \<Rightarrow> u16 \<Rightarrow> 'x instr" where
  "mov2_mij_ax = mov2_words_ax True"
definition mov2_mji_ax :: "u16 \<Rightarrow> u16 \<Rightarrow> u16 \<Rightarrow> u16 \<Rightarrow> 'x instr" where
  "mov2_mji_ax = mov2_words_ax False"

definition mov2_abh_m :: "u16 \<Rightarrow> u16 \<Rightarrow> u16 \<Rightarrow> u16 \<Rightarrow> 'x instr" where
  "mov2_abh_m ax ay b bs =
     sbind (high_no_flag (Abh ax)) (\<lambda>u.
     sbind (high_no_flag (Abh ay)) (\<lambda>v. write_ar_pair u v b bs))"

text \<open>The high word of an accumulator goes out at one address and its new value comes in from the other.\<close>

definition exchange_words :: "bool \<Rightarrow> bool \<Rightarrow> u16 \<Rightarrow> u16 \<Rightarrow> u16 \<Rightarrow> u16 \<Rightarrow> 'x instr" where
  "exchange_words out_at_j rounded a b bsi bsj =
     sbind (step_arp b bsi bsj False False) (\<lambda>(units, (i, j)).
     sbind (on_regs (get_and_sat_acc_no_flag (Axh a))) (\<lambda>v.
     sbind (mem_data_write (if out_at_j then j else i) (high16 v)) (\<lambda>_.
     sbind (mem_data_read (if out_at_j then i else j)) (\<lambda>w.
     on_regs (set_acc (Axh a) (sign_extend 32 (push_bit 16 (ucast w) OR (if rounded then 0x8000 else 0))))))))"
definition exchange_iaj :: "u16 \<Rightarrow> u16 \<Rightarrow> u16 \<Rightarrow> u16 \<Rightarrow> 'x instr" where
  "exchange_iaj = exchange_words True False"
definition exchange_riaj :: "u16 \<Rightarrow> u16 \<Rightarrow> u16 \<Rightarrow> u16 \<Rightarrow> 'x instr" where
  "exchange_riaj = exchange_words True True"
definition exchange_jai :: "u16 \<Rightarrow> u16 \<Rightarrow> u16 \<Rightarrow> u16 \<Rightarrow> 'x instr" where
  "exchange_jai = exchange_words False False"
definition exchange_rjai :: "u16 \<Rightarrow> u16 \<Rightarrow> u16 \<Rightarrow> u16 \<Rightarrow> 'x instr" where
  "exchange_rjai = exchange_words False True"

section \<open>Fixed extension registers\<close>

definition mov_ext0 :: "u16 \<Rightarrow> 'x instr" where
  "mov_ext0 a = rupd (set_ext 0 (signed16 8 a))"
definition mov_ext1 :: "u16 \<Rightarrow> 'x instr" where
  "mov_ext1 a = rupd (set_ext 1 (signed16 8 a))"
definition mov_ext2 :: "u16 \<Rightarrow> 'x instr" where
  "mov_ext2 a = rupd (set_ext 2 (signed16 8 a))"
definition mov_ext3 :: "u16 \<Rightarrow> 'x instr" where
  "mov_ext3 a = rupd (set_ext 3 (signed16 8 a))"

end
