(* ===== verification/Instr_Control.thy ===== *)
theory Instr_Control
  imports Instr_Arith
begin

unbundle bit_operations_syntax

text \<open>
  The instructions of src/src/interpreter.h that steer the processor: block and single repeats, the banks
  of registers, branches, calls and returns, the context switch, the interrupt enable, and the
  instructions that only modify address registers. One definition per method.
\<close>

section \<open>Repeats\<close>

definition bkrep_imm8 :: "u16 \<Rightarrow> u16 \<Rightarrow> 'x instr" where
  "bkrep_imm8 a addr =
     sbind (rget rg_pc) (\<lambda>pc. on_regs (block_repeat a (ucast addr OR (pc AND 0x30000))))"

definition bkrep_register :: "u16 \<Rightarrow> u16 \<Rightarrow> u16 \<Rightarrow> 'x instr" where
  "bkrep_register a addr_low addr_high =
     sbind (bus_value (Register a)) (\<lambda>lc. on_regs (block_repeat lc (address18 addr_low addr_high)))"

definition bkrep_r6 :: "u16 \<Rightarrow> u16 \<Rightarrow> 'x instr" where
  "bkrep_r6 addr_low addr_high =
     sbind (rget (\<lambda>r. rg_r r ! 6)) (\<lambda>lc. on_regs (block_repeat lc (address18 addr_low addr_high)))"

definition with_ar_unit :: "u16 \<Rightarrow> ((registers \<Rightarrow> u16) \<Rightarrow> (u16 \<Rightarrow> registers \<Rightarrow> registers) \<Rightarrow> 'x instr) \<Rightarrow> 'x instr" where
  "with_ar_unit a f =
     sbind (rget (get_ar_rn_unit (unat a))) (\<lambda>unit.
     if unit < 8 then f (\<lambda>r. rg_r r ! unit) (set_r unit) else sfail OutOfBounds)"

definition set_sp :: "u16 \<Rightarrow> registers \<Rightarrow> registers" where
  "set_sp v r = r\<lparr>rg_sp := v\<rparr>"

definition bkreprst :: "u16 \<Rightarrow> 'x instr" where
  "bkreprst a = with_ar_unit a restore_block_repeat"
definition bkreprst_memsp :: "'x instr" where
  "bkreprst_memsp = restore_block_repeat rg_sp set_sp"
definition bkrepsto :: "u16 \<Rightarrow> 'x instr" where
  "bkrepsto a = with_ar_unit a store_block_repeat"
definition bkrepsto_memsp :: "'x instr" where
  "bkrepsto_memsp = store_block_repeat rg_sp set_sp"

definition break_loop :: "(registers, unit) step" where
  "break_loop =
     sbind (sget rg_lp) (\<lambda>lp.
     if lp = 0 then sfail Abort
     else supd (\<lambda>r. r\<lparr>rg_bcn := rg_bcn r - 1, rg_lp := of_bool (rg_bcn r - 1 \<noteq> 0)\<rparr>))"

definition break_instr :: "'x instr" where
  "break_instr = on_regs break_loop"

definition repeat_next :: "u16 \<Rightarrow> registers \<Rightarrow> registers" where
  "repeat_next repc r = r\<lparr>rg_repc := repc, rg_rep := True\<rparr>"

definition rep_imm8 :: "u16 \<Rightarrow> 'x instr" where
  "rep_imm8 a = rupd (repeat_next a)"
definition rep_register :: "u16 \<Rightarrow> 'x instr" where
  "rep_register a = sbind (bus_value (Register a)) (\<lambda>v. rupd (repeat_next v))"
definition rep_r6 :: "'x instr" where
  "rep_r6 = rupd (\<lambda>r. repeat_next (rg_r r ! 6) r)"

section \<open>Banks\<close>

definition banke_cfgi :: "registers \<Rightarrow> registers" where
  "banke_cfgi r =
     (let r' = r\<lparr>rg_stepi := rg_stepib r, rg_stepib := rg_stepi r, rg_modi := rg_modib r, rg_modib := rg_modi r\<rparr>
      in if rg_stp16 r \<noteq> 0 then r'\<lparr>rg_stepi0 := rg_stepi0b r, rg_stepi0b := rg_stepi0 r\<rparr> else r')"
definition banke_cfgj :: "registers \<Rightarrow> registers" where
  "banke_cfgj r =
     (let r' = r\<lparr>rg_stepj := rg_stepjb r, rg_stepjb := rg_stepj r, rg_modj := rg_modjb r, rg_modjb := rg_modj r\<rparr>
      in if rg_stp16 r \<noteq> 0 then r'\<lparr>rg_stepj0 := rg_stepj0b r, rg_stepj0b := rg_stepj0 r\<rparr> else r')"
definition banke_r4 :: "registers \<Rightarrow> registers" where
  "banke_r4 r = (set_r 4 (rg_r4b r) r)\<lparr>rg_r4b := rg_r r ! 4\<rparr>"
definition banke_r1 :: "registers \<Rightarrow> registers" where
  "banke_r1 r = (set_r 1 (rg_r1b r) r)\<lparr>rg_r1b := rg_r r ! 1\<rparr>"
definition banke_r0 :: "registers \<Rightarrow> registers" where
  "banke_r0 r = (set_r 0 (rg_r0b r) r)\<lparr>rg_r0b := rg_r r ! 0\<rparr>"
definition banke_r7 :: "registers \<Rightarrow> registers" where
  "banke_r7 r = (set_r 7 (rg_r7b r) r)\<lparr>rg_r7b := rg_r r ! 7\<rparr>"

definition apply_if :: "bool \<Rightarrow> ('a \<Rightarrow> 'a) \<Rightarrow> 'a \<Rightarrow> 'a" where
  "apply_if b f x = (if b then f x else x)"

definition bank_exchange_regs :: "u16 \<Rightarrow> registers \<Rightarrow> registers" where
  "bank_exchange_regs flags r =
     apply_if (bank_cfgj flags) banke_cfgj
     (apply_if (bank_r7 flags) banke_r7
     (apply_if (bank_r0 flags) banke_r0
     (apply_if (bank_r1 flags) banke_r1
     (apply_if (bank_r4 flags) banke_r4
     (apply_if (bank_cfgi flags) banke_cfgi r)))))"

definition banke :: "u16 \<Rightarrow> 'x instr" where
  "banke flags = rupd (bank_exchange_regs flags)"
definition bankr :: "'x instr" where
  "bankr = rupd swap_all_ar_arp"
definition bankr_ar :: "u16 \<Rightarrow> 'x instr" where
  "bankr_ar a = rupd (swap_ar_index a)"
definition bankr_ar_arp :: "u16 \<Rightarrow> u16 \<Rightarrow> 'x instr" where
  "bankr_ar_arp a b = rupd (\<lambda>r. swap_arp_index b (swap_ar_index a r))"
definition bankr_arp :: "u16 \<Rightarrow> 'x instr" where
  "bankr_arp a = rupd (swap_arp_index a)"

section \<open>Address registers\<close>

definition reverse_rn :: "nat \<Rightarrow> registers \<Rightarrow> registers" where
  "reverse_rn unit r = set_r unit (bit_reverse16 (rg_r r ! unit)) r"
definition set_br :: "nat \<Rightarrow> u16 \<Rightarrow> registers \<Rightarrow> registers" where
  "set_br unit v r = r\<lparr>rg_br := (rg_br r)[unit := v]\<rparr>"

definition bitrev :: "u16 \<Rightarrow> 'x instr" where
  "bitrev a = rupd (reverse_rn (unat a))"
definition bitrev_dbrv :: "u16 \<Rightarrow> 'x instr" where
  "bitrev_dbrv a = rupd (\<lambda>r. set_br (unat a) 0 (reverse_rn (unat a) r))"
definition bitrev_ebrv :: "u16 \<Rightarrow> 'x instr" where
  "bitrev_ebrv a = rupd (\<lambda>r. set_br (unat a) 1 (reverse_rn (unat a) r))"

definition modify_unit :: "nat \<Rightarrow> step_value \<Rightarrow> bool \<Rightarrow> 'x instr" where
  "modify_unit unit step dmod = on_regs (discard (rn_and_modify unit step dmod))"
definition modify_rn :: "u16 \<Rightarrow> step_value \<Rightarrow> bool \<Rightarrow> 'x instr" where
  "modify_rn a step dmod = sseq [modify_unit (unat a) step dmod, rupd (set_fr (unat a))]"

definition modr :: "u16 \<Rightarrow> u16 \<Rightarrow> 'x instr" where
  "modr a as = modify_rn a (StepZIDS as) False"
definition modr_dmod :: "u16 \<Rightarrow> u16 \<Rightarrow> 'x instr" where
  "modr_dmod a as = modify_rn a (StepZIDS as) True"
definition modr_i2 :: "u16 \<Rightarrow> 'x instr" where
  "modr_i2 a = modify_rn a Step_Increase2Mode1 False"
definition modr_i2_dmod :: "u16 \<Rightarrow> 'x instr" where
  "modr_i2_dmod a = modify_rn a Step_Increase2Mode1 True"
definition modr_d2 :: "u16 \<Rightarrow> 'x instr" where
  "modr_d2 a = modify_rn a Step_Decrease2Mode1 False"
definition modr_d2_dmod :: "u16 \<Rightarrow> 'x instr" where
  "modr_d2_dmod a = modify_rn a Step_Decrease2Mode1 True"

definition modify_arp :: "bool \<Rightarrow> bool \<Rightarrow> u16 \<Rightarrow> u16 \<Rightarrow> u16 \<Rightarrow> 'x instr" where
  "modify_arp dmodi dmodj a asi asj =
     sbind (arp_units a asi asj) (\<lambda>((ui, uj), (si, sj)).
     sseq [modify_unit ui si dmodi, modify_unit uj sj dmodj])"
definition modr_eemod :: "u16 \<Rightarrow> u16 \<Rightarrow> u16 \<Rightarrow> 'x instr" where
  "modr_eemod = modify_arp False False"
definition modr_edmod :: "u16 \<Rightarrow> u16 \<Rightarrow> u16 \<Rightarrow> 'x instr" where
  "modr_edmod = modify_arp False True"
definition modr_demod :: "u16 \<Rightarrow> u16 \<Rightarrow> u16 \<Rightarrow> 'x instr" where
  "modr_demod = modify_arp True False"
definition modr_ddmod :: "u16 \<Rightarrow> u16 \<Rightarrow> u16 \<Rightarrow> 'x instr" where
  "modr_ddmod = modify_arp True True"

section \<open>Branches\<close>

definition br :: "u16 \<Rightarrow> u16 \<Rightarrow> u16 \<Rightarrow> 'x instr" where
  "br addr_low addr_high cond = if_cond cond (set_pc (address18 addr_low addr_high))"

text \<open>A branch to itself is the idle loop: the processor waits for an interrupt.\<close>

definition brr :: "u16 \<Rightarrow> u16 \<Rightarrow> 'x instr" where
  "brr addr cond = if_cond cond (sseq [
     rupd (\<lambda>r. r\<lparr>rg_pc := rg_pc r + relative32 addr\<rparr>),
     swhen (relative32 addr = 0xFFFFFFFF) (supd (\<lambda>s. s\<lparr>mc_idle := True\<rparr>))])"

definition call :: "u16 \<Rightarrow> u16 \<Rightarrow> u16 \<Rightarrow> 'x instr" where
  "call addr_low addr_high cond = if_cond cond (sseq [push_pc, set_pc (address18 addr_low addr_high)])"

definition calla_axl :: "u16 \<Rightarrow> 'x instr" where
  "calla_axl a = sseq [push_pc, sbind (bus_value (Axl a)) (\<lambda>v. set_pc (ucast v))]"

definition calla_ax :: "u16 \<Rightarrow> 'x instr" where
  "calla_ax a = sseq [push_pc, sbind (acc_value (Ax a)) (\<lambda>v. set_pc (ucast (v AND 0x3FFFF)))]"

definition callr :: "u16 \<Rightarrow> u16 \<Rightarrow> 'x instr" where
  "callr addr cond = if_cond cond (sseq [push_pc, rupd (\<lambda>r. r\<lparr>rg_pc := rg_pc r + relative32 addr\<rparr>)])"

definition cntx_s :: "'x instr" where
  "cntx_s = on_regs context_store"

definition cntx_r :: "'x instr" where
  "cntx_r = rupd context_restore"

definition set_ie :: "u16 \<Rightarrow> registers \<Rightarrow> registers" where
  "set_ie v r = r\<lparr>rg_ie := v\<rparr>"

definition ret :: "u16 \<Rightarrow> 'x instr" where
  "ret c = if_cond c pop_pc"
definition retd :: "'x instr" where
  "retd = sfail Unimplemented"
definition reti :: "u16 \<Rightarrow> 'x instr" where
  "reti c = if_cond c (sseq [pop_pc, rupd (set_ie 1)])"
definition retic :: "u16 \<Rightarrow> 'x instr" where
  "retic c = if_cond c (sseq [pop_pc, rupd (set_ie 1), rupd context_restore])"
definition retid :: "'x instr" where
  "retid = sfail Abort"
definition retidc :: "'x instr" where
  "retidc = sfail Abort"
definition rets :: "u16 \<Rightarrow> 'x instr" where
  "rets a = sseq [pop_pc, rupd (\<lambda>r. r\<lparr>rg_sp := rg_sp r + a\<rparr>)]"

definition dint :: "'x instr" where
  "dint = rupd (set_ie 0)"
definition eint :: "'x instr" where
  "eint = rupd (set_ie 1)"

section \<open>Undefined opcodes\<close>

definition undefined_instr :: "u16 \<Rightarrow> 'x instr" where
  "undefined_instr opcode = sfail Abort"

end
