(* ===== verification/Decoder.thy ===== *)
theory Decoder
  imports Instr_Product Instr_Move Instr_Control
begin

unbundle bit_operations_syntax

text \<open>
  src/src/matcher.h and src/src/decoder.h: the instruction table and how an opcode is looked up in it. The table is
  split by the sections the code marks with comments, in their order. An entry lists where its
  operands are in the opcode; the template parameters of the code are the arguments of
  \<open>inst\<close>, and the member function it calls gets the values extracted there, by position.

  The decoder aborts when two entries match one opcode. The last section shows that this
  never happens, whatever the opcode.
\<close>

section \<open>Operand positions\<close>

text \<open>
  \<open>At bits pos\<close> is the code's \<open>At\<close> or \<open>AtNamed\<close> with an operand of that many bits; position 16 is
  the word that follows the opcode.
\<close>

datatype operand_at = At nat nat | Unused nat | Const u16

fun operand_mask :: "operand_at \<Rightarrow> u16" where
  "operand_mask (At bits pos) = at_mask bits pos"
| "operand_mask (Unused pos) = push_bit pos 1"
| "operand_mask (Const v) = 0"

fun operand_needs_expansion :: "operand_at \<Rightarrow> bool" where
  "operand_needs_expansion (At bits pos) = (pos = 16)"
| "operand_needs_expansion (Unused pos) = False"
| "operand_needs_expansion (Const v) = False"

fun pass_as_parameter :: "operand_at \<Rightarrow> bool" where
  "pass_as_parameter (At bits pos) = True"
| "pass_as_parameter (Unused pos) = False"
| "pass_as_parameter (Const v) = True"

fun operand_extract :: "operand_at \<Rightarrow> u16 \<Rightarrow> u16 \<Rightarrow> u16" where
  "operand_extract (At bits pos) opcode expansion = at_extract bits pos opcode expansion"
| "operand_extract (Unused pos) opcode expansion = 0"
| "operand_extract (Const v) opcode expansion = const_extract v opcode expansion"

section \<open>Matchers\<close>

text \<open>
  The matchers are generic in what the handlers of a visitor give: the interpreter's are instructions,
  the disassembler's are lists of tokens. \<open>failure\<close> is what a failed assertion is for the visitor.
\<close>

record rejector =
  rj_mask :: u16
  rj_unexpected :: u16

definition rejects :: "rejector \<Rightarrow> u16 \<Rightarrow> bool" where
  "rejects rj instruction = (instruction AND rj_mask rj = rj_unexpected rj)"

record 'r matcher =
  mt_mask :: u16
  mt_expected :: u16
  mt_expanded :: bool
  mt_fn :: "u16 \<Rightarrow> u16 \<Rightarrow> 'r"
  mt_rejectors :: "rejector list"

definition all_matcher :: "(u16 \<Rightarrow> u16 \<Rightarrow> 'r) \<Rightarrow> 'r matcher" where
  "all_matcher f = \<lparr>mt_mask = 0, mt_expected = 0, mt_expanded = False, mt_fn = f, mt_rejectors = []\<rparr>"

definition matches :: "'r matcher \<Rightarrow> u16 \<Rightarrow> bool" where
  "matches m instruction \<longleftrightarrow>
     instruction AND mt_mask m = mt_expected m \<and>
     \<not> list_ex (\<lambda>rj. rejects rj instruction) (mt_rejectors m)"

definition except_matcher :: "rejector \<Rightarrow> 'r matcher \<Rightarrow> 'r matcher" where
  "except_matcher rj m = m\<lparr>mt_rejectors := mt_rejectors m @ [rj]\<rparr>"

definition call_matcher :: "'r \<Rightarrow> 'r matcher \<Rightarrow> u16 \<Rightarrow> u16 \<Rightarrow> 'r" where
  "call_matcher failure m instruction expansion =
     (if matches m instruction then mt_fn m instruction expansion else failure)"

text \<open>\<open>MatcherCreator::Create\<close> and \<open>RejectorCreator\<close>.\<close>

definition inst :: "u16 \<Rightarrow> operand_at list \<Rightarrow> ((nat \<Rightarrow> u16) \<Rightarrow> 'r) \<Rightarrow> 'r matcher" where
  "inst expected operands f =
     (let parameters = filter pass_as_parameter operands in
      \<lparr>mt_mask = foldr (\<lambda>a acc. NOT (operand_mask a) AND acc) operands 0xFFFF,
       mt_expected = expected,
       mt_expanded = list_ex operand_needs_expansion operands,
       mt_fn = (\<lambda>opcode expansion. f (\<lambda>k. operand_extract (parameters ! k) opcode expansion)),
       mt_rejectors = []\<rparr>)"

definition except_const :: "nat \<Rightarrow> nat \<Rightarrow> u16 \<Rightarrow> 'r matcher \<Rightarrow> 'r matcher" where
  "except_const bits pos v =
     except_matcher \<lparr>rj_mask = at_mask bits pos, rj_unexpected = at_const_pad pos v\<rparr>"

section \<open>The instruction table\<close>

definition misc_table :: "'x instr matcher list" where
  "misc_table = [
     inst 0x0000 [] (\<lambda>x. nop),
     inst 0x94C0 [At 1 8, At 3 0, At 2 3] (\<lambda>x. norm (x 0) (x 1) (x 2)),
     inst 0x4980 [At 4 0] (\<lambda>x. swap_accs (x 0)),
     inst 0x0020 [] (\<lambda>x. trap)]"

definition alm_table :: "'x instr matcher list" where
  "alm_table = [
     inst 0xA000 [At 4 9, At 8 0, At 1 8] (\<lambda>x. alm_mem_imm8 (x 0) (x 1) (x 2)),
     inst 0x8080 [At 4 9, At 3 0, At 2 3, At 1 8] (\<lambda>x. alm_rn (x 0) (x 1) (x 2) (x 3)),
     inst 0x80A0 [At 4 9, At 5 0, At 1 8] (\<lambda>x. alm_register (x 0) (x 1) (x 2)),
     inst 0xD388 [Const 0, At 1 4] (\<lambda>x. alm_r6 (x 0) (x 1)),
     inst 0xD389 [Const 1, At 1 4] (\<lambda>x. alm_r6 (x 0) (x 1)),
     inst 0xD38A [Const 2, At 1 4] (\<lambda>x. alm_r6 (x 0) (x 1)),
     inst 0xD38B [Const 3, At 1 4] (\<lambda>x. alm_r6 (x 0) (x 1)),
     inst 0xD38C [Const 4, At 1 4] (\<lambda>x. alm_r6 (x 0) (x 1)),
     inst 0xD38D [Const 5, At 1 4] (\<lambda>x. alm_r6 (x 0) (x 1)),
     inst 0xD38E [Const 6, At 1 4] (\<lambda>x. alm_r6 (x 0) (x 1)),
     inst 0xD38F [Const 7, At 1 4] (\<lambda>x. alm_r6 (x 0) (x 1)),
     inst 0x9462 [Const 8, At 1 0] (\<lambda>x. alm_r6 (x 0) (x 1)),
     inst 0x9464 [Const 9, At 1 0] (\<lambda>x. alm_r6 (x 0) (x 1)),
     inst 0x9466 [Const 10, At 1 0] (\<lambda>x. alm_r6 (x 0) (x 1)),
     inst 0x5E23 [Const 11, At 1 8] (\<lambda>x. alm_r6 (x 0) (x 1)),
     inst 0x5E22 [Const 12, At 1 8] (\<lambda>x. alm_r6 (x 0) (x 1)),
     inst 0x5F41 [Const 13, Const 0] (\<lambda>x. alm_r6 (x 0) (x 1)),
     inst 0x9062 [Const 14, At 1 8, Unused 0] (\<lambda>x. alm_r6 (x 0) (x 1)),
     inst 0x8A63 [Const 15, At 1 3] (\<lambda>x. alm_r6 (x 0) (x 1))]"

definition alu_table :: "'x instr matcher list" where
  "alu_table = [
     except_const 3 0 5 (except_const 3 0 4 (inst 0xD4F8 [At 3 0, At 16 16, At 1 8]
       (\<lambda>x. alu_mem_imm16 (x 0) (x 1) (x 2)))),
     except_const 3 0 5 (except_const 3 0 4 (inst 0xD4D8 [At 3 0, At 16 16, At 1 8]
       (\<lambda>x. alu_mem_r7_imm16 (x 0) (x 1) (x 2)))),
     except_const 3 9 5 (except_const 3 9 4 (inst 0x80C0 [At 3 9, At 16 16, At 1 8]
       (\<lambda>x. alu_imm16 (x 0) (x 1) (x 2)))),
     except_const 3 9 5 (except_const 3 9 4 (inst 0xC000 [At 3 9, At 8 0, At 1 8]
       (\<lambda>x. alu_imm8 (x 0) (x 1) (x 2)))),
     except_const 3 9 5 (except_const 3 9 4 (inst 0x4000 [At 3 9, At 7 0, At 1 8]
       (\<lambda>x. alu_mem_r7_imm7s (x 0) (x 1) (x 2))))]"

definition or_table :: "'x instr matcher list" where
  "or_table = [
     inst 0xD291 [At 2 10, At 1 6, At 1 5] (\<lambda>x. or_ab_ax (x 0) (x 1) (x 2)),
     inst 0xD4A4 [At 1 8, At 1 1, At 1 0] (\<lambda>x. or_ax_bx (x 0) (x 1) (x 2)),
     inst 0xD3C4 [At 1 10, At 1 1, At 1 0] (\<lambda>x. or_bx_bx (x 0) (x 1) (x 2))]"

definition alb_table :: "'x instr matcher list" where
  "alb_table = [
     inst 0xE100 [At 3 9, At 16 16, At 8 0] (\<lambda>x. alb_mem_imm8 (x 0) (x 1) (x 2)),
     inst 0x80E0 [At 3 9, At 16 16, At 3 0, At 2 3] (\<lambda>x. alb_rn (x 0) (x 1) (x 2) (x 3)),
     inst 0x81E0 [At 3 9, At 16 16, At 5 0] (\<lambda>x. alb_register (x 0) (x 1) (x 2)),
     inst 0x47B8 [At 3 0, At 16 16] (\<lambda>x. alb_r6 (x 0) (x 1)),
     inst 0x43C8 [Const 0, At 16 16, At 3 0] (\<lambda>x. alb_stt_mod (x 0) (x 1) (x 2)),
     inst 0x4388 [Const 1, At 16 16, At 3 0] (\<lambda>x. alb_stt_mod (x 0) (x 1) (x 2)),
     inst 0x0038 [Const 2, At 16 16, At 3 0] (\<lambda>x. alb_stt_mod (x 0) (x 1) (x 2)),
     inst 0x9470 [Const 4, At 16 16, At 3 0] (\<lambda>x. alb_stt_mod (x 0) (x 1) (x 2)),
     inst 0x9478 [Const 5, At 16 16, At 3 0] (\<lambda>x. alb_stt_mod (x 0) (x 1) (x 2))]"

definition add_table :: "'x instr matcher list" where
  "add_table = [
     inst 0xD2DA [At 2 10, At 1 0] (\<lambda>x. add_ab_bx (x 0) (x 1)),
     inst 0x5DF0 [At 1 1, At 1 0] (\<lambda>x. add_bx_ax (x 0) (x 1)),
     inst 0xD782 [At 1 0] (\<lambda>x. add_p1 (x 0)),
     inst 0x5DF8 [At 1 1, At 1 0] (\<lambda>x. add_px_bx (x 0) (x 1)),
     inst 0x8A61 [At 2 3, At 1 8] (\<lambda>x. sub_ab_bx (x 0) (x 1)),
     inst 0x8861 [At 1 4, At 1 3] (\<lambda>x. sub_bx_ax (x 0) (x 1)),
     inst 0xD4B9 [At 1 8] (\<lambda>x. sub_p1_acc (x 0)),
     inst 0x8FD0 [At 1 1, At 1 0] (\<lambda>x. sub_px_bx (x 0) (x 1)),
     inst 0x5DC0 [At 2 2] (\<lambda>x. app (x 0) Sum_Zero False False False False),
     inst 0x5DC1 [At 2 2] (\<lambda>x. app (x 0) Sum_Zero False False False True),
     inst 0x4590 [At 2 2] (\<lambda>x. app (x 0) Sum_Acc False False False False),
     inst 0x4592 [At 2 2] (\<lambda>x. app (x 0) Sum_Acc False False False True),
     inst 0x4593 [At 2 2] (\<lambda>x. app (x 0) Sum_Acc False True False True),
     inst 0x5DC2 [At 2 2] (\<lambda>x. app (x 0) Sum_Zero False False True False),
     inst 0x5DC3 [At 2 2] (\<lambda>x. app (x 0) Sum_Zero False False True True),
     inst 0x80C6 [At 2 10] (\<lambda>x. app (x 0) Sum_Acc True False True False),
     inst 0x82C6 [At 2 10] (\<lambda>x. app (x 0) Sum_Acc True False True True),
     inst 0x83C6 [At 2 10] (\<lambda>x. app (x 0) Sum_Acc True True True True),
     inst 0x906C [At 2 0] (\<lambda>x. app (x 0) Sum_Acc False False True False),
     inst 0x49C2 [At 2 4] (\<lambda>x. app (x 0) Sum_Acc True False False False),
     inst 0x916C [At 2 0] (\<lambda>x. app (x 0) Sum_Acc False False True True),
     inst 0x49C3 [At 2 4] (\<lambda>x. app (x 0) Sum_Acc True False False True),
     inst 0x6F80 [At 1 2, At 1 0, At 1 1, At 2 3] (\<lambda>x. add_add (x 0) (x 1) (x 2) (x 3)),
     inst 0x6FA0 [At 1 2, At 1 0, At 1 1, At 2 3]
       (\<lambda>x. add_sub_pairs (x 0) (x 1) (x 2) (x 3)),
     inst 0x6FC0 [At 1 2, At 1 0, At 1 1, At 2 3] (\<lambda>x. sub_add (x 0) (x 1) (x 2) (x 3)),
     inst 0x6FE0 [At 1 2, At 1 0, At 1 1, At 2 3] (\<lambda>x. sub_sub (x 0) (x 1) (x 2) (x 3)),
     inst 0x5DB0 [At 1 1, At 1 0, At 2 2] (\<lambda>x. add_sub_sv (x 0) (x 1) (x 2)),
     inst 0x5DE0 [At 1 1, At 1 0, At 2 2] (\<lambda>x. sub_add_sv (x 0) (x 1) (x 2)),
     inst 0x8064 [At 1 8, At 1 0, At 1 1, At 2 3]
       (\<lambda>x. sub_add_i_mov_j_sv (x 0) (x 1) (x 2) (x 3)),
     inst 0x5D80 [At 1 2, At 1 0, At 1 1, At 2 3]
       (\<lambda>x. sub_add_j_mov_i_sv (x 0) (x 1) (x 2) (x 3)),
     inst 0x9070 [At 1 8, At 1 0, At 1 1, At 2 2]
       (\<lambda>x. add_sub_i_mov_j (x 0) (x 1) (x 2) (x 3)),
     inst 0x5E30 [At 1 8, At 1 0, At 1 1, At 2 2]
       (\<lambda>x. add_sub_j_mov_i (x 0) (x 1) (x 2) (x 3))]"

definition mul_table :: "'x instr matcher list" where
  "mul_table = [
     inst 0x8000 [At 3 8, At 3 0, At 2 3, At 16 16, At 1 11]
       (\<lambda>x. mul_rn_imm16 (x 0) (x 1) (x 2) (x 3) (x 4)),
     inst 0x8020 [At 3 8, At 3 0, At 2 3, At 1 11] (\<lambda>x. mul_y0_rn (x 0) (x 1) (x 2) (x 3)),
     inst 0x8040 [At 3 8, At 5 0, At 1 11] (\<lambda>x. mul_y0_register (x 0) (x 1) (x 2)),
     inst 0xD000 [At 3 8, At 1 2, At 2 5, At 2 0, At 2 3, At 1 11]
       (\<lambda>x. mul_r45_r0123 (x 0) (x 1) (x 2) (x 3) (x 4) (x 5)),
     inst 0x5EA0 [At 3 1, At 1 0] (\<lambda>x. mul_y0_r6 (x 0) (x 1)),
     inst 0xE000 [At 2 9, At 8 0, At 1 11] (\<lambda>x. mul_y0_mem_imm8 (x 0) (x 1) (x 2)),
     inst 0x0800 [At 8 0] (\<lambda>x. mpyi (x 0)),
     inst 0xD080 [At 1 2, At 2 5, At 2 0, At 2 3, At 1 8]
       (\<lambda>x. msu_r45_r0123 (x 0) (x 1) (x 2) (x 3) (x 4)),
     inst 0x90C0 [At 3 0, At 2 3, At 16 16, At 1 8]
       (\<lambda>x. msu_rn_imm16 (x 0) (x 1) (x 2) (x 3)),
     inst 0x8264 [At 2 3, At 2 0, At 1 8] (\<lambda>x. msusu (x 0) (x 1) (x 2)),
     inst 0x4D84 [At 1 1, Unused 0] (\<lambda>x. mac_x1to0 (x 0)),
     inst 0x5E28 [At 1 2, At 1 0, At 1 1, At 1 8] (\<lambda>x. mac1 (x 0) (x 1) (x 2) (x 3))]"

definition moda_table :: "'x instr matcher list" where
  "moda_table = [
     except_const 4 4 7 (inst 0x6700 [At 4 4, At 1 12, At 4 0]
       (\<lambda>x. moda4 (x 0) (x 1) (x 2))),
     inst 0x6F00 [At 3 4, At 1 12, At 4 0] (\<lambda>x. moda3 (x 0) (x 1) (x 2)),
     inst 0xD7C2 [At 1 0] (\<lambda>x. pacr1 (x 0)),
     inst 0x8ED0 [At 2 2, At 2 0] (\<lambda>x. clr (x 0) (x 1)),
     inst 0x8DD0 [At 2 2, At 2 0] (\<lambda>x. clrr (x 0) (x 1))]"

definition bkrep_table :: "'x instr matcher list" where
  "bkrep_table = [
     inst 0x5C00 [At 8 0, At 16 16] (\<lambda>x. bkrep_imm8 (x 0) (x 1)),
     inst 0x5D00 [At 5 0, At 16 16, At 2 5] (\<lambda>x. bkrep_register (x 0) (x 1) (x 2)),
     inst 0x8FDC [At 16 16, At 2 0] (\<lambda>x. bkrep_r6 (x 0) (x 1)),
     inst 0xDA9C [At 2 0] (\<lambda>x. bkreprst (x 0)),
     inst 0x5F48 [Unused 0, Unused 1] (\<lambda>x. bkreprst_memsp),
     inst 0xDADC [At 2 0, Unused 10] (\<lambda>x. bkrepsto (x 0)),
     inst 0x9468 [Unused 0, Unused 1, Unused 2] (\<lambda>x. bkrepsto_memsp)]"

definition bank_table :: "'x instr matcher list" where
  "bank_table = [
     inst 0x4B80 [At 6 0] (\<lambda>x. banke (x 0)),
     inst 0x8CDF [] (\<lambda>x. bankr),
     inst 0x8CDC [At 1 0] (\<lambda>x. bankr_ar (x 0)),
     inst 0x8CD0 [At 1 2, At 2 0] (\<lambda>x. bankr_ar_arp (x 0) (x 1)),
     inst 0x8CD8 [At 2 0] (\<lambda>x. bankr_arp (x 0)),
     inst 0x5EB8 [At 3 0] (\<lambda>x. bitrev (x 0)),
     inst 0xD7E8 [At 3 0] (\<lambda>x. bitrev_dbrv (x 0)),
     inst 0xD7E0 [At 3 0] (\<lambda>x. bitrev_ebrv (x 0))]"

definition branch_table :: "'x instr matcher list" where
  "branch_table = [
     inst 0x4180 [At 16 16, At 2 4, At 4 0] (\<lambda>x. br (x 0) (x 1) (x 2)),
     inst 0x5000 [At 7 4, At 4 0] (\<lambda>x. brr (x 0) (x 1)),
     inst 0xD3C0 [] (\<lambda>x. break_instr),
     inst 0x41C0 [At 16 16, At 2 4, At 4 0] (\<lambda>x. call (x 0) (x 1) (x 2)),
     inst 0xD480 [At 1 8] (\<lambda>x. calla_axl (x 0)),
     inst 0xD381 [At 1 4] (\<lambda>x. calla_ax (x 0)),
     inst 0x1000 [At 7 4, At 4 0] (\<lambda>x. callr (x 0) (x 1)),
     inst 0xD380 [] (\<lambda>x. cntx_s),
     inst 0xD390 [] (\<lambda>x. cntx_r),
     inst 0x4580 [At 4 0] (\<lambda>x. ret (x 0)),
     inst 0xD780 [] (\<lambda>x. retd),
     inst 0x45C0 [At 4 0] (\<lambda>x. reti (x 0)),
     inst 0x45D0 [At 4 0] (\<lambda>x. retic (x 0)),
     inst 0xD7C0 [] (\<lambda>x. retid),
     inst 0xD3C3 [] (\<lambda>x. retidc),
     inst 0x0900 [At 8 0] (\<lambda>x. rets (x 0))]"

definition load_table :: "'x instr matcher list" where
  "load_table = [
     inst 0x4D80 [At 2 0] (\<lambda>x. load_ps (x 0)),
     inst 0xDB80 [At 7 0] (\<lambda>x. load_stepi (x 0)),
     inst 0xDF80 [At 7 0] (\<lambda>x. load_stepj (x 0)),
     inst 0x0400 [At 8 0] (\<lambda>x. load_page (x 0)),
     inst 0x0200 [At 9 0] (\<lambda>x. load_modi (x 0)),
     inst 0x0A00 [At 9 0] (\<lambda>x. load_modj (x 0)),
     inst 0xD7D8 [At 2 1, Unused 0] (\<lambda>x. load_movpd (x 0)),
     inst 0x0010 [At 4 0] (\<lambda>x. load_ps01 (x 0))]"

definition stack_table :: "'x instr matcher list" where
  "stack_table = [
     inst 0x5F40 [At 16 16] (\<lambda>x. push_imm16 (x 0)),
     inst 0x5E40 [At 5 0] (\<lambda>x. push_register (x 0)),
     inst 0xD7C8 [At 2 1, Unused 0] (\<lambda>x. push_abe (x 0)),
     inst 0xD3D0 [At 4 0] (\<lambda>x. push_ar_arp_stt_mod (x 0)),
     inst 0xD7FC [Unused 0, Unused 1] (\<lambda>x. push_prpage),
     inst 0xD78C [At 1 1, Unused 0] (\<lambda>x. push_px (x 0)),
     inst 0xD4D7 [Unused 5] (\<lambda>x. push_r6),
     inst 0xD7F8 [Unused 0, Unused 1] (\<lambda>x. push_repc),
     inst 0xD4D4 [Unused 5] (\<lambda>x. push_x0),
     inst 0xD4D5 [Unused 5] (\<lambda>x. push_x1),
     inst 0xD4D6 [Unused 5] (\<lambda>x. push_y1),
     inst 0x4384 [At 1 6, Unused 0, Unused 1] (\<lambda>x. pusha_ax (x 0)),
     inst 0xD788 [At 1 1, Unused 0] (\<lambda>x. pusha_bx (x 0)),
     inst 0x5E60 [At 5 0] (\<lambda>x. pop_register (x 0)),
     inst 0x47B4 [At 2 0] (\<lambda>x. pop_abe (x 0)),
     inst 0x80C7 [At 4 8] (\<lambda>x. pop_ar_arp_stt_mod (x 0)),
     inst 0x0006 [At 1 5, Unused 0] (\<lambda>x. pop_bx (x 0)),
     inst 0xD7F4 [Unused 0, Unused 1] (\<lambda>x. pop_prpage),
     inst 0xD496 [At 1 0] (\<lambda>x. pop_px (x 0)),
     inst 0x0024 [Unused 0] (\<lambda>x. pop_r6),
     inst 0xD7F0 [Unused 0, Unused 1] (\<lambda>x. pop_repc),
     inst 0xD494 [] (\<lambda>x. pop_x0),
     inst 0xD495 [] (\<lambda>x. pop_x1),
     inst 0x0004 [Unused 0] (\<lambda>x. pop_y1),
     inst 0x47B0 [At 2 0] (\<lambda>x. popa (x 0))]"

definition shift_table :: "'x instr matcher list" where
  "shift_table = [
     inst 0x0C00 [At 8 0] (\<lambda>x. rep_imm8 (x 0)),
     inst 0x0D00 [At 5 0] (\<lambda>x. rep_register (x 0)),
     inst 0x0002 [Unused 0] (\<lambda>x. rep_r6),
     inst 0xD280 [At 2 10, At 2 5, At 4 0] (\<lambda>x. shfc (x 0) (x 1) (x 2)),
     inst 0x9240 [At 2 10, At 2 7, At 6 0] (\<lambda>x. shfi (x 0) (x 1) (x 2))]"

definition bit_test_table :: "'x instr matcher list" where
  "bit_test_table = [
     inst 0x80C1 [At 2 10, At 2 8] (\<lambda>x. tst4b (x 0) (x 1)),
     inst 0x4780 [At 2 2, At 2 0, At 1 4] (\<lambda>x. tst4b_ax (x 0) (x 1) (x 2)),
     inst 0xF000 [At 8 0, At 4 8] (\<lambda>x. tstb_mem_imm8 (x 0) (x 1)),
     inst 0x9020 [At 3 0, At 2 3, At 4 8] (\<lambda>x. tstb_rn (x 0) (x 1) (x 2)),
     except_const 5 0 24 (inst 0x9000 [At 5 0, At 4 8] (\<lambda>x. tstb_register (x 0) (x 1))),
     inst 0x9018 [At 4 8] (\<lambda>x. tstb_r6 (x 0)),
     inst 0x0028 [At 3 0, At 16 16] (\<lambda>x. tstb_stt_mod (x 0) (x 1)),
     inst 0x6770 [At 2 2, At 2 0, At 1 12] (\<lambda>x. and_acc (x 0) (x 1) (x 2)),
     inst 0x43C0 [] (\<lambda>x. dint),
     inst 0x4380 [] (\<lambda>x. eint)]"

definition modr_table :: "'x instr matcher list" where
  "modr_table = [
     inst 0x9460 [At 1 0] (\<lambda>x. exp_bx (x 0)),
     inst 0x9060 [At 1 0, At 1 8] (\<lambda>x. exp_bx_ax (x 0) (x 1)),
     inst 0x9C40 [At 3 0, At 2 3] (\<lambda>x. exp_rn (x 0) (x 1)),
     inst 0x9840 [At 3 0, At 2 3, At 1 8] (\<lambda>x. exp_rn_ax (x 0) (x 1) (x 2)),
     inst 0x9440 [At 5 0] (\<lambda>x. exp_register (x 0)),
     inst 0x9040 [At 5 0, At 1 8] (\<lambda>x. exp_register_ax (x 0) (x 1)),
     inst 0xD7C1 [] (\<lambda>x. exp_r6),
     inst 0xD382 [At 1 4] (\<lambda>x. exp_r6_ax (x 0)),
     inst 0x0080 [At 3 0, At 2 3] (\<lambda>x. modr (x 0) (x 1)),
     inst 0x00A0 [At 3 0, At 2 3] (\<lambda>x. modr_dmod (x 0) (x 1)),
     inst 0x4990 [At 3 0] (\<lambda>x. modr_i2 (x 0)),
     inst 0x4998 [At 3 0] (\<lambda>x. modr_i2_dmod (x 0)),
     inst 0x5DA0 [At 3 0] (\<lambda>x. modr_d2 (x 0)),
     inst 0x5DA8 [At 3 0] (\<lambda>x. modr_d2_dmod (x 0)),
     inst 0xD294 [At 2 10, At 2 0, At 2 5] (\<lambda>x. modr_eemod (x 0) (x 1) (x 2)),
     inst 0x0D80 [At 2 5, At 2 1, At 2 3] (\<lambda>x. modr_edmod (x 0) (x 1) (x 2)),
     inst 0x8464 [At 2 8, At 2 0, At 2 3] (\<lambda>x. modr_demod (x 0) (x 1) (x 2)),
     inst 0x0D81 [At 2 5, At 2 1, At 2 3] (\<lambda>x. modr_ddmod (x 0) (x 1) (x 2))]"

definition mov_table :: "'x instr matcher list" where
  "mov_table = [
     inst 0xD290 [At 2 10, At 2 5] (\<lambda>x. mov_ab_ab (x 0) (x 1)),
     inst 0xD298 [At 2 10] (\<lambda>x. mov_dvm (x 0)),
     inst 0xD2D8 [At 2 10] (\<lambda>x. mov_x0 (x 0)),
     inst 0xD394 [At 2 0] (\<lambda>x. mov_x1 (x 0)),
     inst 0xD384 [At 2 0] (\<lambda>x. mov_y1 (x 0)),
     inst 0x3000 [At 3 9, At 8 0] (\<lambda>x. mov_ablh_mem_imm8 (x 0) (x 1)),
     inst 0xD4BC [At 1 8, At 16 16] (\<lambda>x. mov_axl_mem_imm16 (x 0) (x 1)),
     inst 0xD49C [At 1 8, At 16 16] (\<lambda>x. mov_axl_mem_r7_imm16 (x 0) (x 1)),
     inst 0xDC80 [At 1 8, At 7 0] (\<lambda>x. mov_axl_mem_r7_imm7s (x 0) (x 1)),
     inst 0xD4B8 [At 16 16, At 1 8] (\<lambda>x. mov_mem_imm16_ax (x 0) (x 1)),
     inst 0x6100 [At 8 0, At 2 11] (\<lambda>x. mov_mem_imm8_ab (x 0) (x 1)),
     inst 0x6200 [At 8 0, At 3 10] (\<lambda>x. mov_mem_imm8_ablh (x 0) (x 1)),
     inst 0x6500 [At 8 0, At 1 12] (\<lambda>x. mov_eu (x 0) (x 1)),
     inst 0x6000 [At 8 0, At 3 10] (\<lambda>x. mov_mem_imm8_rn_old (x 0) (x 1)),
     inst 0x6D00 [At 8 0] (\<lambda>x. mov_sv_mem_imm8 (x 0)),
     inst 0xD491 [At 2 5] (\<lambda>x. mov_dvm_to (x 0)),
     inst 0xD492 [At 2 5] (\<lambda>x. mov_icr_to (x 0)),
     inst 0x5E20 [At 16 16, At 1 8] (\<lambda>x. mov_imm16_bx (x 0) (x 1)),
     inst 0x5E00 [At 16 16, At 5 0] (\<lambda>x. mov_imm16_register (x 0) (x 1)),
     inst 0x4F80 [At 5 0] (\<lambda>x. mov_icr_imm5 (x 0)),
     inst 0x2500 [At 8 0, At 1 12] (\<lambda>x. mov_imm8s_axh (x 0) (x 1)),
     inst 0x2900 [At 8 0] (\<lambda>x. mov_ext0 (x 0)),
     inst 0x2D00 [At 8 0] (\<lambda>x. mov_ext1 (x 0)),
     inst 0x3900 [At 8 0] (\<lambda>x. mov_ext2 (x 0)),
     inst 0x3D00 [At 8 0] (\<lambda>x. mov_ext3 (x 0)),
     inst 0x2300 [At 8 0, At 3 10] (\<lambda>x. mov_imm8s_rn_old (x 0) (x 1)),
     inst 0x0500 [At 8 0] (\<lambda>x. mov_sv_imm8s (x 0)),
     inst 0x2100 [At 8 0, At 1 12] (\<lambda>x. mov_imm8_axl (x 0) (x 1)),
     inst 0xD498 [At 16 16, At 1 8] (\<lambda>x. mov_mem_r7_imm16_ax (x 0) (x 1)),
     inst 0xD880 [At 7 0, At 1 8] (\<lambda>x. mov_mem_r7_imm7s_ax (x 0) (x 1)),
     inst 0x98C0 [At 3 0, At 2 3, At 1 8] (\<lambda>x. mov_rn_bx (x 0) (x 1) (x 2)),
     inst 0x1C00 [At 3 0, At 2 3, At 5 5] (\<lambda>x. mov_rn_register (x 0) (x 1) (x 2)),
     inst 0x47E0 [At 5 0] (\<lambda>x. mov_memsp_to (x 0)),
     inst 0x47C0 [At 5 0] (\<lambda>x. mov_mixp_to_register (x 0)),
     inst 0x2000 [At 3 9, At 8 0] (\<lambda>x. mov_rn_old_mem_imm8 (x 0) (x 1)),
     inst 0x4FC0 [At 5 0] (\<lambda>x. mov_icr_register (x 0)),
     inst 0x5E80 [At 5 0] (\<lambda>x. mov_mixp_register (x 0)),
     except_const 5 5 25 (except_const 5 5 24 (inst 0x1800 [At 5 5, At 3 0, At 2 3]
       (\<lambda>x. mov_register_rn (x 0) (x 1) (x 2)))),
     inst 0x5EC0 [At 5 0, At 1 5] (\<lambda>x. mov_register_bx (x 0) (x 1)),
     except_const 5 0 25 (except_const 5 0 24 (inst 0x5800 [At 5 0, At 5 5]
       (\<lambda>x. mov_register_register (x 0) (x 1)))),
     inst 0xD490 [At 2 5] (\<lambda>x. mov_repc_to_ab (x 0)),
     inst 0x7D00 [At 8 0] (\<lambda>x. mov_sv_to (x 0)),
     inst 0xD493 [At 2 5] (\<lambda>x. mov_x0_to (x 0)),
     inst 0x49C1 [At 2 4] (\<lambda>x. mov_x1_to (x 0)),
     inst 0xD299 [At 2 10] (\<lambda>x. mov_y1_to (x 0)),
     inst 0x0008 [At 16 16, At 3 0] (\<lambda>x. mov_imm16_ar_arp (x 0) (x 1)),
     inst 0x0023 [At 16 16] (\<lambda>x. mov_r6_imm16 (x 0)),
     inst 0x0001 [At 16 16] (\<lambda>x. mov_repc_imm16 (x 0)),
     inst 0x8971 [At 16 16] (\<lambda>x. mov_stepi0_imm16 (x 0)),
     inst 0x8979 [At 16 16] (\<lambda>x. mov_stepj0_imm16 (x 0)),
     inst 0x0030 [At 16 16, At 3 0] (\<lambda>x. mov_imm16_stt_mod (x 0) (x 1)),
     inst 0x5DD0 [At 4 0] (\<lambda>x. mov_prpage_imm4 (x 0))]"

definition mov_status_table :: "'x instr matcher list" where
  "mov_status_table = [
     inst 0x5F80 [At 2 0, At 2 3, At 1 2, At 2 5] (\<lambda>x. movd (x 0) (x 1) (x 2) (x 3)),
     inst 0x0040 [At 1 5, At 5 0] (\<lambda>x. movp_axl (x 0) (x 1)),
     inst 0x0D40 [At 1 5, At 5 0] (\<lambda>x. movp_ax (x 0) (x 1)),
     inst 0x0600 [At 3 0, At 2 3, At 2 5, At 2 7] (\<lambda>x. movp_rn (x 0) (x 1) (x 2) (x 3)),
     inst 0xD499 [At 1 8] (\<lambda>x. movpdw (x 0)),
     inst 0xD49B [] (\<lambda>x. mov_a0h_stepi0),
     inst 0xD59B [] (\<lambda>x. mov_a0h_stepj0),
     inst 0xD482 [] (\<lambda>x. mov_stepi0_a0h),
     inst 0xD582 [] (\<lambda>x. mov_stepj0_a0h),
     inst 0x9164 [At 2 0] (\<lambda>x. mov_prpage_abl (x 0)),
     inst 0x9064 [At 2 0] (\<lambda>x. mov_repc_abl (x 0)),
     inst 0x9540 [At 2 3, At 3 0] (\<lambda>x. mov_abl_ar_arp (x 0) (x 1)),
     inst 0x9C60 [At 2 3, At 3 0] (\<lambda>x. mov_abl_stt_mod (x 0) (x 1)),
     inst 0x5EB0 [At 2 0] (\<lambda>x. mov_prpage_to_abl (x 0)),
     inst 0xD2D9 [At 2 10] (\<lambda>x. mov_repc_to_abl (x 0)),
     inst 0x9560 [At 3 0, At 2 3] (\<lambda>x. mov_ar_arp_abl (x 0) (x 1)),
     inst 0xD2F8 [At 3 0, At 2 10] (\<lambda>x. mov_stt_mod_abl (x 0) (x 1)),
     inst 0xD7D0 [At 1 1, At 1 0] (\<lambda>x. mov_repc_to_ar_rn1 (x 0) (x 1)),
     inst 0xD488 [At 3 0, At 1 8, At 1 5] (\<lambda>x. mov_ar_arp_ar_rn1 (x 0) (x 1) (x 2)),
     inst 0x49A0 [At 3 0, At 1 4, At 1 3] (\<lambda>x. mov_stt_mod_ar_rn1 (x 0) (x 1) (x 2)),
     inst 0xD7D4 [At 1 1, At 1 0] (\<lambda>x. mov_repc_ar_rn1 (x 0) (x 1)),
     inst 0x8062 [At 1 4, At 1 3, At 3 8] (\<lambda>x. mov_ar_rn1_ar_arp (x 0) (x 1) (x 2)),
     inst 0x8063 [At 1 4, At 1 3, At 3 8] (\<lambda>x. mov_ar_rn1_stt_mod (x 0) (x 1) (x 2)),
     inst 0xD3C8 [At 16 16, Unused 0, Unused 1, Unused 2]
       (\<lambda>x. mov_repc_to_mem_r7_imm16 (x 0)),
     inst 0x5F50 [At 4 0, At 16 16] (\<lambda>x. mov_ar_arp_stt_mod_mem_r7_imm16 (x 0) (x 1)),
     inst 0xD2DC [At 16 16, Unused 0, Unused 1, Unused 10]
       (\<lambda>x. mov_repc_mem_r7_imm16 (x 0)),
     inst 0x4D90 [At 16 16, At 4 0] (\<lambda>x. mov_mem_r7_imm16_ar_arp_stt_mod (x 0) (x 1)),
     inst 0x886B [At 1 8] (\<lambda>x. mov_pc_ax (x 0)),
     inst 0x8863 [At 1 8] (\<lambda>x. mov_pc_bx (x 0)),
     inst 0x8A73 [At 1 3] (\<lambda>x. mov_mixp_to_bx (x 0)),
     inst 0x4381 [] (\<lambda>x. mov_mixp_r6),
     inst 0x4382 [At 1 0] (\<lambda>x. mov_p0h_to_bx (x 0)),
     inst 0xD3C2 [] (\<lambda>x. mov_p0h_r6),
     inst 0x4B60 [At 5 0] (\<lambda>x. mov_p0h_to_register (x 0)),
     inst 0x8FD4 [At 2 0] (\<lambda>x. mov_p0 (x 0)),
     inst 0x8FD8 [At 2 0] (\<lambda>x. mov_p1_to (x 0)),
     inst 0x88D0 [At 1 1, At 2 8, At 2 2] (\<lambda>x. mov2_px_ar (x 0) (x 1) (x 2)),
     inst 0x88D1 [At 1 1, At 2 8, At 2 2] (\<lambda>x. mov2s (x 0) (x 1) (x 2)),
     inst 0xD292 [At 2 10, At 2 5, At 1 0] (\<lambda>x. mov2_ar_px (x 0) (x 1) (x 2)),
     inst 0x4DC0 [At 2 4, At 2 2, At 2 0] (\<lambda>x. mova_ab_ar (x 0) (x 1) (x 2)),
     inst 0x4BC0 [At 2 2, At 2 0, At 2 4] (\<lambda>x. mova_ar_ab (x 0) (x 1) (x 2)),
     inst 0xD481 [At 1 8] (\<lambda>x. mov_r6_to_bx (x 0)),
     inst 0x43C1 [] (\<lambda>x. mov_r6_mixp),
     inst 0x5F00 [At 5 0] (\<lambda>x. mov_r6_to_register (x 0)),
     inst 0x5F60 [At 5 0] (\<lambda>x. mov_r6_register (x 0)),
     inst 0xD29C [Unused 0, Unused 1, Unused 10] (\<lambda>x. mov_memsp_r6),
     inst 0x1B00 [At 3 0, At 2 3] (\<lambda>x. mov_r6_to_rn (x 0) (x 1)),
     inst 0x1B20 [At 3 0, At 2 3] (\<lambda>x. mov_r6_rn (x 0) (x 1)),
     inst 0x6300 [At 8 0, At 2 11] (\<lambda>x. movs_mem_imm8 (x 0) (x 1)),
     inst 0x0180 [At 3 0, At 2 3, At 2 5] (\<lambda>x. movs_rn (x 0) (x 1) (x 2)),
     inst 0x0100 [At 5 0, At 2 5] (\<lambda>x. movs_register (x 0) (x 1)),
     inst 0x5F42 [At 1 0] (\<lambda>x. movs_r6_to (x 0)),
     inst 0x4080 [At 3 9, At 2 5, At 5 0] (\<lambda>x. movsi (x 0) (x 1) (x 2))]"

definition mov2_table :: "'x instr matcher list" where
  "mov2_table = [
     inst 0x4390 [At 1 6, At 2 2, At 2 0] (\<lambda>x. mov2_axh_m_y0_m (x 0) (x 1) (x 2)),
     inst 0x43A0 [At 2 3, At 1 2, At 1 0, At 1 1] (\<lambda>x. mov2_ax_mij (x 0) (x 1) (x 2) (x 3)),
     inst 0x43E0 [At 2 3, At 1 2, At 1 0, At 1 1] (\<lambda>x. mov2_ax_mji (x 0) (x 1) (x 2) (x 3)),
     inst 0x80C4 [At 1 9, At 1 0, At 1 8, At 2 10]
       (\<lambda>x. mov2_mij_ax (x 0) (x 1) (x 2) (x 3)),
     inst 0xD4C0 [At 1 5, At 1 0, At 1 1, At 2 2] (\<lambda>x. mov2_mji_ax (x 0) (x 1) (x 2) (x 3)),
     inst 0x9D40 [At 2 4, At 2 2, At 1 1, At 1 0] (\<lambda>x. mov2_abh_m (x 0) (x 1) (x 2) (x 3)),
     inst 0x8C60 [At 1 4, At 2 8, At 2 0, At 2 2]
       (\<lambda>x. exchange_iaj (x 0) (x 1) (x 2) (x 3)),
     inst 0x7F80 [At 1 6, At 2 4, At 2 0, At 2 2]
       (\<lambda>x. exchange_riaj (x 0) (x 1) (x 2) (x 3)),
     inst 0x4900 [At 1 6, At 2 4, At 2 0, At 2 2]
       (\<lambda>x. exchange_jai (x 0) (x 1) (x 2) (x 3)),
     inst 0x4800 [At 1 6, At 2 4, At 2 0, At 2 2]
       (\<lambda>x. exchange_rjai (x 0) (x 1) (x 2) (x 3)),
     inst 0x8864 [At 2 3, At 2 0, At 2 8] (\<lambda>x. movr_ar (x 0) (x 1) (x 2)),
     inst 0x9CE0 [At 3 0, At 2 3, At 1 8] (\<lambda>x. movr_rn (x 0) (x 1) (x 2)),
     inst 0x9CC0 [At 5 0, At 1 8] (\<lambda>x. movr_register (x 0) (x 1)),
     inst 0x5DF4 [At 1 1, At 1 0] (\<lambda>x. movr_bx (x 0) (x 1)),
     inst 0x8961 [At 1 3] (\<lambda>x. movr_r6_to (x 0)),
     inst 0x49C0 [At 1 5, At 1 4] (\<lambda>x. lim (x 0) (x 1))]"

definition viterbi_table :: "'x instr matcher list" where
  "viterbi_table = [
     inst 0x5F45 [] (\<lambda>x. vtrclr0),
     inst 0x5F46 [] (\<lambda>x. vtrclr1),
     inst 0x5F47 [] (\<lambda>x. vtrclr),
     inst 0xD29A [At 1 0] (\<lambda>x. vtrmov0 (x 0)),
     inst 0xD69A [At 1 0] (\<lambda>x. vtrmov1 (x 0)),
     inst 0xD383 [At 1 4] (\<lambda>x. vtrmov (x 0)),
     inst 0xD781 [] (\<lambda>x. vtrshr_instr)]"

definition minmax_table :: "'x instr matcher list" where
  "minmax_table = [
     inst 0x5DFE [] (\<lambda>x. clrp0),
     inst 0x5DFD [] (\<lambda>x. clrp1),
     inst 0x5DFF [] (\<lambda>x. clrp),
     inst 0x8460 [At 1 8, At 2 3] (\<lambda>x. max_ge (x 0) (x 1)),
     inst 0x8660 [At 1 8, At 2 3] (\<lambda>x. max_gt (x 0) (x 1)),
     inst 0x8860 [At 1 8, At 2 3] (\<lambda>x. min_le (x 0) (x 1)),
     inst 0x8A60 [At 1 8, At 2 3] (\<lambda>x. min_lt (x 0) (x 1)),
     inst 0x8060 [At 1 8, At 2 3] (\<lambda>x. max_ge_r0 (x 0) (x 1)),
     inst 0x8260 [At 1 8, At 2 3] (\<lambda>x. max_gt_r0 (x 0) (x 1)),
     inst 0x47A0 [At 1 3, At 2 0] (\<lambda>x. min_le_r0 (x 0) (x 1)),
     inst 0x47A4 [At 1 3, At 2 0] (\<lambda>x. min_lt_r0 (x 0) (x 1)),
     inst 0x0E00 [At 8 0, At 1 8] (\<lambda>x. divs (x 0) (x 1)),
     inst 0xD790 [At 2 2, At 2 0] (\<lambda>x. sqr_sqr_add3_ab (x 0) (x 1)),
     inst 0x4B00 [At 2 4, At 2 2, At 2 0] (\<lambda>x. sqr_sqr_add3_ar (x 0) (x 1) (x 2)),
     inst 0x49C4 [At 2 4, At 2 0] (\<lambda>x. sqr_mpysu_add3a (x 0) (x 1))]"

definition cmp_table :: "'x instr matcher list" where
  "cmp_table = [
     inst 0x4D8C [At 1 1, At 1 0] (\<lambda>x. cmp_ax_bx (x 0) (x 1)),
     inst 0xD483 [] (\<lambda>x. cmp_b0_b1),
     inst 0xD583 [] (\<lambda>x. cmp_b1_b0),
     inst 0xDA9A [At 1 10, At 1 0] (\<lambda>x. cmp_bx_ax (x 0) (x 1)),
     inst 0x8B63 [At 1 4] (\<lambda>x. cmp_p1_to (x 0)),
     inst 0x5E21 [At 1 8] (\<lambda>x. max2_vtr_ax (x 0)),
     inst 0x43C2 [At 1 0] (\<lambda>x. min2_vtr_ax (x 0)),
     inst 0xD784 [At 1 1, At 1 0] (\<lambda>x. max2_vtr_ax_bx (x 0) (x 1)),
     inst 0xD4BA [At 1 8, At 1 0] (\<lambda>x. min2_vtr_ax_bx (x 0) (x 1)),
     inst 0x4A40 [At 1 3, At 1 4, At 1 1, At 1 0]
       (\<lambda>x. max2_vtr_movl_ax_bx (x 0) (x 1) (x 2) (x 3)),
     inst 0x4A44 [At 1 3, At 1 4, At 1 1, At 1 0]
       (\<lambda>x. max2_vtr_movh_ax_bx (x 0) (x 1) (x 2) (x 3)),
     inst 0x4A60 [At 1 4, At 1 3, At 1 1, At 1 0]
       (\<lambda>x. max2_vtr_movl_bx_ax (x 0) (x 1) (x 2) (x 3)),
     inst 0x4A64 [At 1 4, At 1 3, At 1 1, At 1 0]
       (\<lambda>x. max2_vtr_movh_bx_ax (x 0) (x 1) (x 2) (x 3)),
     inst 0x4A00 [At 1 3, At 1 4, At 1 1, At 1 0]
       (\<lambda>x. min2_vtr_movl_ax_bx (x 0) (x 1) (x 2) (x 3)),
     inst 0x4A04 [At 1 3, At 1 4, At 1 1, At 1 0]
       (\<lambda>x. min2_vtr_movh_ax_bx (x 0) (x 1) (x 2) (x 3)),
     inst 0x4A20 [At 1 4, At 1 3, At 1 1, At 1 0]
       (\<lambda>x. min2_vtr_movl_bx_ax (x 0) (x 1) (x 2) (x 3)),
     inst 0x4A24 [At 1 4, At 1 3, At 1 1, At 1 0]
       (\<lambda>x. min2_vtr_movh_bx_ax (x 0) (x 1) (x 2) (x 3)),
     inst 0xD590 [At 1 6, At 1 5, At 1 2, At 1 0, At 1 1]
       (\<lambda>x. max2_vtr_movij (x 0) (x 1) (x 2) (x 3) (x 4)),
     inst 0x45A0 [At 1 4, At 1 3, At 1 2, At 1 0, At 1 1]
       (\<lambda>x. max2_vtr_movji (x 0) (x 1) (x 2) (x 3) (x 4)),
     inst 0xD2B8 [At 1 11, At 1 10, At 1 2, At 1 0, At 1 1]
       (\<lambda>x. min2_vtr_movij (x 0) (x 1) (x 2) (x 3) (x 4)),
     inst 0x45E0 [At 1 4, At 1 3, At 1 2, At 1 0, At 1 1]
       (\<lambda>x. min2_vtr_movji (x 0) (x 1) (x 2) (x 3) (x 4))]"

definition cbs_table :: "'x instr matcher list" where
  "cbs_table = [
     inst 0x4B40 [At 1 3, At 1 2, At 1 0]
       (\<lambda>x. mov_sv_app (x 0) (ar_index 0 (x 1)) (x 2) Sum_Sv True False False False),
     inst 0x9960 [At 1 4, At 1 3, At 1 2]
       (\<lambda>x. mov_sv_app (x 0) (ar_index 2 (x 1)) (x 2) Sum_Sv True False False False),
     inst 0x4B42 [At 1 3, At 1 2, At 1 0]
       (\<lambda>x. mov_sv_app (x 0) (ar_index 0 (x 1)) (x 2) Sum_SvRnd True False False False),
     inst 0x99E0 [At 1 4, At 1 3, At 1 2]
       (\<lambda>x. mov_sv_app (x 0) (ar_index 2 (x 1)) (x 2) Sum_SvRnd True False False False),
     inst 0x5F4C [At 1 1, At 1 0, Const 0]
       (\<lambda>x. mov_sv_app (x 0) (ar_index 0 (x 1)) (x 2) Sum_Sv True False True False),
     inst 0x8873 [At 1 8, At 1 3, Const 1]
       (\<lambda>x. mov_sv_app (x 0) (ar_index 0 (x 1)) (x 2) Sum_Sv True False True False),
     inst 0x9860 [At 1 4, At 1 3, At 1 2]
       (\<lambda>x. mov_sv_app (x 0) (ar_index 2 (x 1)) (x 2) Sum_Sv True False True False),
     inst 0xDE9C [At 1 1, At 1 0, Const 0]
       (\<lambda>x. mov_sv_app (x 0) (ar_index 0 (x 1)) (x 2) Sum_SvRnd True False True False),
     inst 0xD4B4 [At 1 1, At 1 0, Const 1]
       (\<lambda>x. mov_sv_app (x 0) (ar_index 0 (x 1)) (x 2) Sum_SvRnd True False True False),
     inst 0x98E0 [At 1 4, At 1 3, At 1 2]
       (\<lambda>x. mov_sv_app (x 0) (ar_index 2 (x 1)) (x 2) Sum_SvRnd True False True False),
     inst 0x9068 [At 1 0, At 1 8] (\<lambda>x. cbs_axh (x 0) (x 1)),
     inst 0xD49E [At 1 8, At 1 5, At 1 0] (\<lambda>x. cbs_axh_bxh (x 0) (x 1) (x 2)),
     inst 0xD5C0 [At 1 2, At 1 0, At 1 1, At 1 3] (\<lambda>x. cbs_arp (x 0) (x 1) (x 2) (x 3))]"

definition mma_table :: "'x instr matcher list" where
  "mma_table = [
     inst 0x4D88 [At 1 1]
       (\<lambda>x. mma_swapped (Ax (x 0)) True True True True Sum_Zero False False True False),
     inst 0xD49D [At 1 5]
       (\<lambda>x. mma_swapped (Bx (x 0)) True True True True Sum_Zero False False True False),
     inst 0x5E24 [At 2 0]
       (\<lambda>x. mma_swapped (Ab (x 0)) True True True True Sum_Zero False False False False),
     inst 0x8061 [At 2 8]
       (\<lambda>x. mma_swapped (Ab (x 0)) True True True True Sum_Acc False False False False),
     inst 0x8071 [At 2 8]
       (\<lambda>x. mma_swapped (Ab (x 0)) True True True True Sum_Acc False False False True),
     inst 0x8461 [At 2 8]
       (\<lambda>x. mma_swapped (Ab (x 0)) True True True True Sum_Acc True False True False),
     inst 0x8471 [At 2 8]
       (\<lambda>x. mma_swapped (Ab (x 0)) True True True True Sum_Acc True False True True),
     inst 0xD484 [At 2 0]
       (\<lambda>x. mma_swapped (Ab (x 0)) True True True True Sum_Acc False True False True),
     inst 0xD4A0 [At 2 0]
       (\<lambda>x. mma_swapped (Ab (x 0)) True True True True Sum_Acc False False True False),
     inst 0x4D89 [At 1 1]
       (\<lambda>x. mma_swapped (Ax (x 0)) True True True False Sum_Zero False False True False),
     inst 0xD59D [At 1 5]
       (\<lambda>x. mma_swapped (Bx (x 0)) True True True False Sum_Zero False False True False),
     inst 0x5F24 [At 2 0]
       (\<lambda>x. mma_swapped (Ab (x 0)) True True True False Sum_Zero False False False False),
     inst 0x8069 [At 2 8]
       (\<lambda>x. mma_swapped (Ab (x 0)) True True True False Sum_Acc False False False False),
     inst 0x8079 [At 2 8]
       (\<lambda>x. mma_swapped (Ab (x 0)) True True True False Sum_Acc False False False True),
     inst 0x8469 [At 2 8]
       (\<lambda>x. mma_swapped (Ab (x 0)) True True True False Sum_Acc True False True False),
     inst 0x8479 [At 2 8]
       (\<lambda>x. mma_swapped (Ab (x 0)) True True True False Sum_Acc True False True True),
     inst 0xD584 [At 2 0]
       (\<lambda>x. mma_swapped (Ab (x 0)) True True True False Sum_Acc False True False True),
     inst 0xD5A0 [At 2 0]
       (\<lambda>x. mma_swapped (Ab (x 0)) True True True False Sum_Acc False False True False)]"

definition mma_mov_table :: "'x instr matcher list" where
  "mma_mov_table = [
     inst 0xCA00 [At 1 5, At 1 3, At 1 4, At 2 6]
       (\<lambda>x. mma_arp (x 0) (x 1) (x 2) False False (Ab (x 3)) False True False True Sum_Acc True False True True),
     inst 0xCA01 [At 1 5, At 1 3, At 1 4, At 2 6]
       (\<lambda>x. mma_arp (x 0) (x 1) (x 2) False False (Ab (x 3)) False True True False Sum_Acc True False True True),
     inst 0xCA02 [At 1 5, At 1 3, At 1 4, At 2 6]
       (\<lambda>x. mma_arp (x 0) (x 1) (x 2) False False (Ab (x 3)) False True False True Sum_Acc True True True True),
     inst 0xCA03 [At 1 5, At 1 3, At 1 4, At 2 6]
       (\<lambda>x. mma_arp (x 0) (x 1) (x 2) False False (Ab (x 3)) False True True False Sum_Acc True True True True),
     inst 0xCA04 [At 1 5, At 1 3, At 1 4, At 2 6]
       (\<lambda>x. mma_arp (x 0) (x 1) (x 2) False False (Ab (x 3)) False True False True Sum_Acc False False False True),
     inst 0xCA05 [At 1 5, At 1 3, At 1 4, At 2 6]
       (\<lambda>x. mma_arp (x 0) (x 1) (x 2) False False (Ab (x 3)) False True True False Sum_Acc False False False True),
     inst 0xCA06 [At 1 5, At 1 3, At 1 4, At 2 6]
       (\<lambda>x. mma_arp (x 0) (x 1) (x 2) False False (Ab (x 3)) False True False True Sum_Acc False True False True),
     inst 0xCA07 [At 1 5, At 1 3, At 1 4, At 2 6]
       (\<lambda>x. mma_arp (x 0) (x 1) (x 2) False False (Ab (x 3)) False True True False Sum_Acc False True False True),
     inst 0xCB00 [At 1 5, At 1 3, At 1 4, At 2 6]
       (\<lambda>x. mma_arp (x 0) (x 1) (x 2) False False (Ab (x 3)) True True False True Sum_Acc True False True False),
     inst 0xCB01 [At 1 5, At 1 3, At 1 4, At 2 6]
       (\<lambda>x. mma_arp (x 0) (x 1) (x 2) False False (Ab (x 3)) True True True False Sum_Acc True False True False),
     inst 0xCB02 [At 1 5, At 1 3, At 1 4, At 2 6]
       (\<lambda>x. mma_arp (x 0) (x 1) (x 2) False False (Ab (x 3)) True True False True Sum_Acc True False True True),
     inst 0xCB03 [At 1 5, At 1 3, At 1 4, At 2 6]
       (\<lambda>x. mma_arp (x 0) (x 1) (x 2) False False (Ab (x 3)) True True True False Sum_Acc True False True True),
     inst 0xCB04 [At 1 5, At 1 3, At 1 4, At 2 6]
       (\<lambda>x. mma_arp (x 0) (x 1) (x 2) False False (Ab (x 3)) True True False True Sum_Acc False False False False),
     inst 0xCB05 [At 1 5, At 1 3, At 1 4, At 2 6]
       (\<lambda>x. mma_arp (x 0) (x 1) (x 2) False False (Ab (x 3)) True True True False Sum_Acc False False False False),
     inst 0xCB06 [At 1 5, At 1 3, At 1 4, At 2 6]
       (\<lambda>x. mma_arp (x 0) (x 1) (x 2) False False (Ab (x 3)) True True False True Sum_Acc False False False True),
     inst 0xCB07 [At 1 5, At 1 3, At 1 4, At 2 6]
       (\<lambda>x. mma_arp (x 0) (x 1) (x 2) False False (Ab (x 3)) True True True False Sum_Acc False False False True),
     inst 0x0D30 [At 1 3, At 1 1, At 1 2, At 1 0]
       (\<lambda>x. mma_arp (x 0) (x 1) (x 2) False True (Ax (x 3)) True True True False Sum_Acc False False False True),
     inst 0x0D20 [At 1 3, At 1 1, At 1 2, At 1 0]
       (\<lambda>x. mma_arp (x 0) (x 1) (x 2) True False (Ax (x 3)) True True True False Sum_Acc False False False True),
     inst 0x4B50 [At 1 3, At 1 1, At 1 2, At 1 0]
       (\<lambda>x. mma_arp (x 0) (x 1) (x 2) True True (Ax (x 3)) True True True False Sum_Acc False False False True),
     inst 0x9861 [At 1 4, At 1 2, At 1 3, At 1 8]
       (\<lambda>x. mma_arp (x 0) (x 1) (x 2) False True (Ax (x 3)) True True True True Sum_Acc False False False False),
     inst 0x9862 [At 1 4, At 1 2, At 1 3, At 1 8]
       (\<lambda>x. mma_arp (x 0) (x 1) (x 2) True False (Ax (x 3)) True True True True Sum_Acc False False False False),
     inst 0x9863 [At 1 4, At 1 2, At 1 3, At 1 8]
       (\<lambda>x. mma_arp (x 0) (x 1) (x 2) True True (Ax (x 3)) True True True True Sum_Acc False False False False),
     inst 0x98E1 [At 1 4, At 1 2, At 1 3, At 1 8]
       (\<lambda>x. mma_arp (x 0) (x 1) (x 2) False True (Ax (x 3)) True True True True Sum_Acc False False False True),
     inst 0x98E2 [At 1 4, At 1 2, At 1 3, At 1 8]
       (\<lambda>x. mma_arp (x 0) (x 1) (x 2) True False (Ax (x 3)) True True True True Sum_Acc False False False True),
     inst 0x98E3 [At 1 4, At 1 2, At 1 3, At 1 8]
       (\<lambda>x. mma_arp (x 0) (x 1) (x 2) True True (Ax (x 3)) True True True True Sum_Acc False False False True),
     inst 0x80C8 [At 1 2, At 1 0, At 1 1, At 2 10]
       (\<lambda>x. mma_arp (x 0) (x 1) (x 2) False False (Ab (x 3)) True True True True Sum_Acc False False True False),
     inst 0x81C8 [At 1 2, At 1 0, At 1 1, At 2 10]
       (\<lambda>x. mma_arp (x 0) (x 1) (x 2) False False (Ab (x 3)) True True True True Sum_Acc False False True True),
     inst 0x82C8 [At 1 2, At 1 0, At 1 1, At 2 10]
       (\<lambda>x. mma_arp (x 0) (x 1) (x 2) False False (Ab (x 3)) True True True True Sum_Zero False False False False),
     inst 0x83C8 [At 1 2, At 1 0, At 1 1, At 2 10]
       (\<lambda>x. mma_arp (x 0) (x 1) (x 2) False False (Ab (x 3)) True True True True Sum_Zero False False False True),
     inst 0x80C2 [At 1 0, At 1 8, At 1 9, At 2 10]
       (\<lambda>x. mma_arp (x 0) (x 1) (x 2) False False (Ab (x 3)) True True True True Sum_Acc False False False True),
     inst 0x49C8 [At 1 2, At 1 0, At 1 1, At 2 4]
       (\<lambda>x. mma_arp (x 0) (x 1) (x 2) False False (Ab (x 3)) True True True True Sum_Acc True False True True),
     inst 0x00C0 [At 1 3, At 1 1, At 1 2, At 2 4]
       (\<lambda>x. mma_arp (x 0) (x 1) (x 2) False False (Ab (x 3)) True True True True Sum_Zero False False True False),
     inst 0x00C1 [At 1 3, At 1 1, At 1 2, At 2 4]
       (\<lambda>x. mma_arp (x 0) (x 1) (x 2) False False (Ab (x 3)) True True True True Sum_Zero False False True True),
     inst 0xD7A0 [At 1 3, At 1 1, At 1 2, At 1 4]
       (\<lambda>x. mma_arp (x 0) (x 1) (x 2) False False (Ax (x 3)) True True True True Sum_Sv False False False False),
     inst 0xD7A1 [At 1 3, At 1 1, At 1 2, At 1 4]
       (\<lambda>x. mma_arp (x 0) (x 1) (x 2) False False (Ax (x 3)) True True True True Sum_SvRnd False False False False),
     inst 0xC800 [At 2 4, At 2 0, At 2 2, At 2 6]
       (\<lambda>x. mma_arp (x 0) (x 1) (x 2) False False (Ab (x 3)) True True True True Sum_Acc False False False False),
     inst 0xC900 [At 2 4, At 2 0, At 2 2, At 2 6]
       (\<lambda>x. mma_arp (x 0) (x 1) (x 2) False False (Ab (x 3)) True True True True Sum_Acc True False True False)]"

definition addhp_table :: "'x instr matcher list" where
  "addhp_table = [
     inst 0xD5E0 [At 1 1, At 1 0, At 1 3]
       (\<lambda>x. mma_mx_xy (x 0) (x 1) (Ax (x 2)) True True True True Sum_Acc True False True False),
     inst 0xD5E4 [At 1 1, At 1 0, At 1 3]
       (\<lambda>x. mma_mx_xy (x 0) (x 1) (Ax (x 2)) True True True True Sum_Acc False False False False),
     inst 0x8862 [At 1 4, At 1 3, At 1 8]
       (\<lambda>x. mma_xy_mx (x 0) (x 1) (Ax (x 2)) True True True True Sum_Acc True False True False),
     inst 0x8A62 [At 1 4, At 1 3, At 1 8]
       (\<lambda>x. mma_xy_mx (x 0) (x 1) (Ax (x 2)) True True True True Sum_Acc False False False False),
     inst 0x4DA0 [At 1 3, At 1 2, At 1 4]
       (\<lambda>x. mma_my_my (x 0) (x 1) (Ax (x 2)) True True True False Sum_Acc True False True False),
     inst 0x4DA1 [At 1 3, At 1 2, At 1 4]
       (\<lambda>x. mma_my_my (x 0) (x 1) (Ax (x 2)) True True True False Sum_Acc True False True True),
     inst 0x4DA2 [At 1 3, At 1 2, At 1 4]
       (\<lambda>x. mma_my_my (x 0) (x 1) (Ax (x 2)) True True True False Sum_Acc False False False False),
     inst 0x4DA3 [At 1 3, At 1 2, At 1 4]
       (\<lambda>x. mma_my_my (x 0) (x 1) (Ax (x 2)) True True True False Sum_Acc False False False True),
     inst 0x94E0 [At 1 4, At 1 3, At 1 8]
       (\<lambda>x. mma_my_my (x 0) (x 1) (Ax (x 2)) True True True True Sum_Acc True False True False),
     inst 0x94E1 [At 1 4, At 1 3, At 1 8]
       (\<lambda>x. mma_my_my (x 0) (x 1) (Ax (x 2)) True True False True Sum_Acc True False True False),
     inst 0x94E2 [At 1 4, At 1 3, At 1 8]
       (\<lambda>x. mma_my_my (x 0) (x 1) (Ax (x 2)) True True True True Sum_Acc True False True True),
     inst 0x94E3 [At 1 4, At 1 3, At 1 8]
       (\<lambda>x. mma_my_my (x 0) (x 1) (Ax (x 2)) True True False True Sum_Acc True False True True),
     inst 0x94E4 [At 1 4, At 1 3, At 1 8]
       (\<lambda>x. mma_my_my (x 0) (x 1) (Ax (x 2)) True True True True Sum_Acc False False False False),
     inst 0x94E5 [At 1 4, At 1 3, At 1 8]
       (\<lambda>x. mma_my_my (x 0) (x 1) (Ax (x 2)) True True False True Sum_Acc False False False False),
     inst 0x94E6 [At 1 4, At 1 3, At 1 8]
       (\<lambda>x. mma_my_my (x 0) (x 1) (Ax (x 2)) True True True True Sum_Acc False False False True),
     inst 0x94E7 [At 1 4, At 1 3, At 1 8]
       (\<lambda>x. mma_my_my (x 0) (x 1) (Ax (x 2)) True True False True Sum_Acc False False False True),
     inst 0x4FA0 [At 1 6, At 1 2, At 1 1, At 1 0, At 2 3]
       (\<lambda>x. mma_mov_axh (x 0) (x 1) (x 2) (x 3) (Ab (x 4)) True True True True Sum_Acc False False False False),
     inst 0xD3A0 [At 1 6, At 1 2, At 1 1, At 1 0, At 2 3]
       (\<lambda>x. mma_mov_axh (x 0) (x 1) (x 2) (x 3) (Ab (x 4)) True True True True Sum_Acc False False True False),
     inst 0x80D0 [At 1 9, At 1 8, At 1 3, At 1 2, At 1 10]
       (\<lambda>x. mma_mov_axh (x 0) (x 1) (x 2) (x 3) (Ax (x 4)) True True True True Sum_Sv False False True False),
     inst 0x80D1 [At 1 9, At 1 8, At 1 3, At 1 2, At 1 10]
       (\<lambda>x. mma_mov_axh (x 0) (x 1) (x 2) (x 3) (Ax (x 4)) True True True True Sum_SvRnd False False True False),
     inst 0x80D2 [At 1 9, At 1 8, At 1 3, At 1 2, At 1 10]
       (\<lambda>x. mma_mov_axh (x 0) (x 1) (x 2) (x 3) (Ax (x 4)) True True True True Sum_Sv False False False False),
     inst 0x80D3 [At 1 9, At 1 8, At 1 3, At 1 2, At 1 10]
       (\<lambda>x. mma_mov_axh (x 0) (x 1) (x 2) (x 3) (Ax (x 4)) True True True True Sum_SvRnd False False False False),
     inst 0x5818 [At 2 7, At 1 6, At 1 0]
       (\<lambda>x. mma_mov_ar (x 0) (x 1) (Ax (x 2)) True True True True Sum_Sv False False True False),
     inst 0x5838 [At 2 7, At 1 6, At 1 0]
       (\<lambda>x. mma_mov_ar (x 0) (x 1) (Ax (x 2)) True True True True Sum_SvRnd False False True False),
     inst 0x90E0 [At 2 2, At 2 0, At 1 4, At 1 8] (\<lambda>x. addhp (x 0) (x 1) (x 2) (x 3))]"

definition decode_table :: "'x instr matcher list" where
  "decode_table = concat [
     misc_table, alm_table, alu_table, or_table, alb_table,
     add_table, mul_table, moda_table, bkrep_table, bank_table,
     branch_table, load_table, stack_table, shift_table, bit_test_table,
     modr_table, mov_table, mov_status_table, mov2_table, viterbi_table,
     minmax_table, cmp_table, cbs_table, mma_table, mma_mov_table,
     addhp_table]"

section \<open>Decoding\<close>

text \<open>
  \<open>std::find_if\<close> from the front; a second entry that matches aborts, and an opcode that no entry
  matches is the undefined instruction.
\<close>

definition decode_in :: "(u16 \<Rightarrow> 'r) \<Rightarrow> 'r matcher list \<Rightarrow> u16 \<Rightarrow> 'r matcher result" where
  "decode_in undefined_fn table instruction =
     (case dropWhile (\<lambda>m. \<not> matches m instruction) table of
        [] \<Rightarrow> Inr (all_matcher (\<lambda>opcode _. undefined_fn opcode))
      | m # others \<Rightarrow>
          if list_ex (\<lambda>other. matches other instruction) others then Inl Abort else Inr m)"

definition decode :: "u16 \<Rightarrow> 'x instr matcher result" where
  "decode instruction = decode_in undefined_instr decode_table instruction"

end
