(* ===== verification/Decoding.thy ===== *)
theory Decoding
  imports Decoder
begin

unbundle bit_operations_syntax

text \<open>
  No opcode matches two entries of the instruction table of src/src/decoder.h, so the assertion of
  \<open>Decode\<close> never fires. An entry is read as a pattern of sixteen bits, some of them free, and
  the table is split bit by bit until one entry is left, which is computed once for the whole table.
\<close>

section \<open>Patterns\<close>

type_synonym pattern = "bool option list"

fun pattern_matches :: "pattern \<Rightarrow> bool list \<Rightarrow> bool" where
  "pattern_matches (None # p) (b # bs) = pattern_matches p bs"
| "pattern_matches (Some c # p) (b # bs) = (b = c \<and> pattern_matches p bs)"
| "pattern_matches _ _ = True"

definition accepts :: "pattern \<times> pattern list \<Rightarrow> bool list \<Rightarrow> bool" where
  "accepts e bs \<longleftrightarrow> pattern_matches (fst e) bs \<and> \<not> list_ex (\<lambda>r. pattern_matches r bs) (snd e)"

fun head_allows :: "bool \<Rightarrow> pattern \<Rightarrow> bool" where
  "head_allows b (Some c # p) = (b = c)"
| "head_allows b _ = True"

lemma pattern_matches_Cons:
  "pattern_matches p (b # bs) \<longleftrightarrow> head_allows b p \<and> pattern_matches (tl p) bs"
proof (cases p)
  case (Cons a q)
  then show ?thesis
    by (cases a) auto
qed simp

definition drop_head :: "bool \<Rightarrow> (pattern \<times> pattern list) \<Rightarrow> pattern \<times> pattern list" where
  "drop_head b e = (tl (fst e), map tl (filter (head_allows b) (snd e)))"

lemma accepts_Cons: "accepts e (b # bs) \<longleftrightarrow> head_allows b (fst e) \<and> accepts (drop_head b e) bs"
  by (auto simp: accepts_def drop_head_def pattern_matches_Cons list_ex_iff)

definition live :: "pattern \<times> pattern list \<Rightarrow> bool" where
  "live e = (\<not> list_ex (list_all Option.is_none) (snd e))"

lemma all_free_matches: "list_all Option.is_none p \<Longrightarrow> pattern_matches p bs"
  by (induction p bs rule: pattern_matches.induct) auto

lemma accepts_live: "accepts e bs \<Longrightarrow> live e"
  by (auto simp: accepts_def live_def list_ex_iff dest: all_free_matches)

lemma count_live: "filter (\<lambda>e. accepts e bs) (filter live es) = filter (\<lambda>e. accepts e bs) es"
  by (induction es) (auto dest: accepts_live)

definition restrict_head :: "bool \<Rightarrow> (pattern \<times> pattern list) list \<Rightarrow> (pattern \<times> pattern list) list" where
  "restrict_head b es = filter live (map (drop_head b) (filter (\<lambda>e. head_allows b (fst e)) es))"

lemma restrict_head_code [code]:
  "restrict_head b [] = []"
  "restrict_head True ((Some False # p, rs) # es) = restrict_head True es"
  "restrict_head False ((Some True # p, rs) # es) = restrict_head False es"
  "restrict_head True ((Some True # p, []) # es) = (p, []) # restrict_head True es"
  "restrict_head False ((Some False # p, []) # es) = (p, []) # restrict_head False es"
  "restrict_head b ((None # p, []) # es) = (p, []) # restrict_head b es"
  "restrict_head b (([], []) # es) = ([], []) # restrict_head b es"
  "restrict_head True ((Some True # p, r # rs) # es) =
     filter live [drop_head True (Some True # p, r # rs)] @ restrict_head True es"
  "restrict_head False ((Some False # p, r # rs) # es) =
     filter live [drop_head False (Some False # p, r # rs)] @ restrict_head False es"
  "restrict_head b ((None # p, r # rs) # es) =
     filter live [drop_head b (None # p, r # rs)] @ restrict_head b es"
  "restrict_head b (([], r # rs) # es) = filter live [drop_head b ([], r # rs)] @ restrict_head b es"
  by (simp_all add: restrict_head_def drop_head_def live_def)

lemma count_restrict_head:
  "length (filter (\<lambda>e. accepts e (b # bs)) es) = length (filter (\<lambda>e. accepts e bs) (restrict_head b es))"
  by (simp only: restrict_head_def count_live)
    (simp add: filter_map comp_def accepts_Cons conj_commute)

fun separated :: "nat \<Rightarrow> (pattern \<times> pattern list) list \<Rightarrow> bool" where
  "separated n [] = True"
| "separated n [e] = True"
| "separated 0 (e # f # es) = False"
| "separated (Suc n) (e # f # es) =
     (separated n (restrict_head False (e # f # es)) \<and> separated n (restrict_head True (e # f # es)))"

lemma separated_at_most_one:
  "separated n es \<Longrightarrow> length bs = n \<Longrightarrow> length (filter (\<lambda>e. accepts e bs) es) \<le> 1"
proof (induction n es arbitrary: bs rule: separated.induct)
  case (4 n e f es)
  obtain b cs where bs: "bs = b # cs" "length cs = n"
    using "4.prems"(2) by (cases bs) auto
  show ?case
    unfolding bs(1) count_restrict_head using 4 bs(2) by (cases b) auto
qed auto

section \<open>The table as patterns\<close>

definition word_bits :: "u16 \<Rightarrow> bool list" where
  "word_bits w = map (bit w) (rev [0..<16])"

fun num_bits :: "num \<Rightarrow> bool list" where
  "num_bits num.One = [True]"
| "num_bits (num.Bit0 k) = False # num_bits k"
| "num_bits (num.Bit1 k) = True # num_bits k"

lemma num_bits_bit: "bit (numeral k :: int) i \<longleftrightarrow> i < length (num_bits k) \<and> num_bits k ! i"
proof (induction k arbitrary: i)
  case One
  then show ?case by (cases i) auto
next
  case (Bit0 k)
  then show ?case by (cases i) (auto simp: bit_Suc)
next
  case (Bit1 k)
  then show ?case by (cases i) (auto simp: bit_Suc)
qed

definition int_bits :: "int \<Rightarrow> bool list" where
  "int_bits v = map (bit v) (rev [0..<16])"

lemma int_bits_0: "int_bits 0 = replicate 16 False"
  by (rule nth_equalityI) (auto simp: int_bits_def rev_nth)

lemma int_bits_Pos: "int_bits (Int.Pos k) = rev (take 16 (num_bits k @ replicate 16 False))"
  unfolding int_bits_def Int.Pos_def rev_map [symmetric]
  by (rule arg_cong [where f = rev], rule nth_equalityI)
    (auto simp: num_bits_bit nth_append)

lemma int_bits_Neg: "int_bits (Int.Neg k) = map (bit (Int.Neg k)) (rev [0..<16])"
  by (fact int_bits_def)

lemmas int_bits_code [code] = int_bits_0 int_bits_Pos int_bits_Neg

lemma word_bits_code [code]: "word_bits w = int_bits (uint w)"
  by (simp add: word_bits_def int_bits_def bit_uint_iff)

definition pattern_of :: "u16 \<Rightarrow> u16 \<Rightarrow> pattern" where
  "pattern_of m v = map2 (\<lambda>c b. if c then Some b else None) (word_bits m) (word_bits v)"

lemma pattern_matches_map:
  "pattern_matches (map (\<lambda>i. if f i then Some (g i) else None) is) (map h is) \<longleftrightarrow>
   list_all (\<lambda>i. f i \<longrightarrow> h i = g i) is"
  by (induction "is") auto

lemma pattern_of_matches:
  "pattern_matches (pattern_of m v) (word_bits w) \<longleftrightarrow> (\<forall>i < 16. bit m i \<longrightarrow> bit w i = bit v i)"
  by (simp add: pattern_of_def word_bits_def zip_map_map comp_def zip_same_conv_map
      pattern_matches_map list_all_iff Ball_def)

text \<open>What of an entry decides whether it matches: all but the function it calls.\<close>

type_synonym shape = "u16 \<times> u16 \<times> (u16 \<times> u16) list"

definition matcher_shape :: "'r matcher \<Rightarrow> shape" where
  "matcher_shape m =
     (mt_mask m, mt_expected m, map (\<lambda>rj. (rj_mask rj, rj_unexpected rj)) (mt_rejectors m))"

definition inst_shape :: "u16 \<Rightarrow> operand_at list \<Rightarrow> shape" where
  "inst_shape expected operands =
     (foldr (\<lambda>a acc. NOT (operand_mask a) AND acc) operands 0xFFFF, expected, [])"

definition except_shape :: "nat \<Rightarrow> nat \<Rightarrow> u16 \<Rightarrow> shape \<Rightarrow> shape" where
  "except_shape bits pos v s =
     (fst s, fst (snd s), snd (snd s) @ [(at_mask bits pos, at_const_pad pos v)])"

lemma matcher_shape_inst: "matcher_shape (inst expected operands f) = inst_shape expected operands"
  by (simp add: matcher_shape_def inst_def inst_shape_def Let_def)

lemma matcher_shape_except:
  "matcher_shape (except_const bits pos v m) = except_shape bits pos v (matcher_shape m)"
  by (simp add: matcher_shape_def except_const_def except_matcher_def except_shape_def)

definition shape_pattern :: "shape \<Rightarrow> pattern \<times> pattern list" where
  "shape_pattern s =
     (pattern_of (fst s) (fst (snd s)), map (\<lambda>r. pattern_of (fst r) (snd r)) (snd (snd s)))"

text \<open>The bits a rejector compares with lie within its mask.\<close>

definition shape_ok :: "shape \<Rightarrow> bool" where
  "shape_ok s = list_all (\<lambda>r. snd r AND NOT (fst r) = 0) (snd (snd s))"

lemma masked_pattern:
  fixes m v w :: u16
  shows "w AND m = v \<Longrightarrow> pattern_matches (pattern_of m v) (word_bits w)"
  by (auto simp: pattern_of_matches bit_and_iff)

lemma pattern_masked:
  fixes m v w :: u16
  assumes "pattern_matches (pattern_of m v) (word_bits w)" "v AND NOT m = 0"
  shows "w AND m = v"
proof (rule bit_word_eqI)
  fix i :: nat
  assume "i < LENGTH(16)"
  then have i: "i < 16" by simp
  have "bit (v AND NOT m) i = False"
    using assms(2) by simp
  then have "bit v i \<Longrightarrow> bit m i"
    using i by (simp add: bit_and_iff bit_not_iff)
  then show "bit (w AND m) i = bit v i"
    using assms(1) i by (auto simp: pattern_of_matches bit_and_iff)
qed

lemma matches_accepts:
  assumes "matches m w" "shape_ok (matcher_shape m)"
  shows "accepts (shape_pattern (matcher_shape m)) (word_bits w)"
proof -
  have *: "\<not> pattern_matches (pattern_of (rj_mask rj) (rj_unexpected rj)) (word_bits w)"
    if "rj \<in> set (mt_rejectors m)" for rj
    using assms that pattern_masked
    by (auto simp: matches_def rejects_def shape_ok_def matcher_shape_def list_ex_iff list_all_iff)
  then show ?thesis
    using assms(1) masked_pattern [of w "mt_mask m" "mt_expected m"]
    by (auto simp: accepts_def shape_pattern_def matcher_shape_def matches_def list_ex_iff)
qed

text \<open>The pattern of an entry is read off its operands: the bits they take are free.\<close>

lemma length_pattern_of [simp]: "length (pattern_of m v) = 16"
  by (simp add: pattern_of_def word_bits_def)

lemma pattern_of_nth:
  "j < 16 \<Longrightarrow> pattern_of m v ! j = (if bit m (15 - j) then Some (bit v (15 - j)) else None)"
  by (simp add: pattern_of_def word_bits_def rev_nth)

definition free_range :: "nat \<Rightarrow> nat \<Rightarrow> pattern \<Rightarrow> pattern" where
  "free_range n pos p = take (16 - pos - n) p @ replicate n None @ drop (16 - pos) p"

lemma pattern_of_free_range:
  assumes "n + pos \<le> 16"
  shows "pattern_of (NOT (at_mask n pos) AND m) v = free_range n pos (pattern_of m v)"
proof (rule nth_equalityI)
  fix j
  assume "j < length (pattern_of (NOT (at_mask n pos) AND m) v)"
  then have j: "j < 16" by simp
  then have "bit (NOT (at_mask n pos) AND m) (15 - j) \<longleftrightarrow>
      bit m (15 - j) \<and> \<not> (16 - pos - n \<le> j \<and> j < 16 - pos)"
    using assms by (auto simp: at_mask_def bit_simps)
  then show "pattern_of (NOT (at_mask n pos) AND m) v ! j = free_range n pos (pattern_of m v) ! j"
    using assms j by (auto simp: free_range_def pattern_of_nth nth_append min_def)
qed (use assms in \<open>simp add: free_range_def\<close>)

fun free_operand :: "operand_at \<Rightarrow> pattern \<Rightarrow> pattern" where
  "free_operand (At n pos) p = (if pos = 16 then p else free_range n pos p)"
| "free_operand (Unused pos) p = free_range 1 pos p"
| "free_operand (Const v) p = p"

text \<open>The static assertions of \<open>At\<close> and \<open>Unused\<close>.\<close>

fun operand_ok :: "operand_at \<Rightarrow> bool" where
  "operand_ok (At n pos) = (pos = 16 \<and> n = 16 \<or> n + pos \<le> 16)"
| "operand_ok (Unused pos) = (pos < 16)"
| "operand_ok (Const v) = True"

lemma pattern_of_free_operand:
  assumes "operand_ok a"
  shows "pattern_of (NOT (operand_mask a) AND m) v = free_operand a (pattern_of m v)"
proof (cases a)
  case (At n pos)
  moreover have "at_mask n 16 = 0"
    by (simp add: at_mask_def)
  ultimately show ?thesis
    using assms pattern_of_free_range by auto
next
  case (Unused pos)
  moreover have "push_bit pos 1 = at_mask 1 pos"
    by (simp add: at_mask_def)
  ultimately show ?thesis
    using assms pattern_of_free_range [of 1 pos] by simp
qed simp

definition inst_pattern :: "u16 \<Rightarrow> operand_at list \<Rightarrow> pattern \<times> pattern list" where
  "inst_pattern expected operands =
     (foldr free_operand operands (map Some (word_bits expected)), [])"

lemma shape_pattern_inst:
  assumes "list_all operand_ok operands"
  shows "shape_pattern (inst_shape expected operands) = inst_pattern expected operands"
proof -
  have ones: "(0xFFFF :: u16) = NOT 0"
    by simp
  have start: "pattern_of 0xFFFF expected = map Some (word_bits expected)"
    unfolding ones by (rule nth_equalityI) (simp_all add: pattern_of_nth word_bits_def rev_nth)
  have "pattern_of (foldr (\<lambda>a acc. NOT (operand_mask a) AND acc) operands 0xFFFF) expected =
      foldr free_operand operands (map Some (word_bits expected))"
    using assms by (induction operands) (simp_all add: start pattern_of_free_operand)
  then show ?thesis
    by (simp add: shape_pattern_def inst_shape_def inst_pattern_def)
qed

definition except_pattern ::
    "nat \<Rightarrow> nat \<Rightarrow> u16 \<Rightarrow> pattern \<times> pattern list \<Rightarrow> pattern \<times> pattern list" where
  "except_pattern n pos v e = (fst e, snd e @ [pattern_of (at_mask n pos) (at_const_pad pos v)])"

lemma shape_pattern_except:
  "shape_pattern (except_shape n pos v s) = except_pattern n pos v (shape_pattern s)"
  by (simp add: shape_pattern_def except_shape_def except_pattern_def)

lemmas table_defs =
  misc_table_def alm_table_def alu_table_def or_table_def alb_table_def add_table_def mul_table_def
  moda_table_def bkrep_table_def bank_table_def branch_table_def load_table_def stack_table_def
  shift_table_def bit_test_table_def modr_table_def mov_table_def mov_status_table_def
  mov2_table_def viterbi_table_def minmax_table_def cmp_table_def cbs_table_def mma_table_def
  mma_mov_table_def addhp_table_def

lemma separated_split:
  "separated n (restrict_head False es) \<Longrightarrow> separated n (restrict_head True es) \<Longrightarrow> separated (Suc n) es"
  by (cases "(Suc n, es)" rule: separated.cases) auto

lemma table_separated:
  "separated (Suc (Suc (Suc (Suc (Suc (Suc (Suc (Suc (Suc (Suc (Suc (Suc (Suc (Suc (Suc (Suc 0))))))))))))))))
     (filter live (map shape_pattern (map matcher_shape (decode_table :: 'x instr matcher list))))"
  unfolding decode_table_def table_defs
  apply (simp only: concat.simps append.simps list.map matcher_shape_inst matcher_shape_except
    shape_pattern_except shape_pattern_inst list.pred_inject operand_ok.simps arith_simps rel_simps simp_thms)
  apply code_simp
  done

lemma shape_ok_inst: "shape_ok (inst_shape expected operands)"
  by (simp add: shape_ok_def inst_shape_def)

lemma shape_ok_except:
  "shape_ok (except_shape n pos v s) \<longleftrightarrow>
   shape_ok s \<and> at_const_pad pos v AND NOT (at_mask n pos) = 0"
  by (simp add: shape_ok_def except_shape_def)

lemma table_ok: "list_all (shape_ok \<circ> matcher_shape) (decode_table :: 'x instr matcher list)"
  unfolding decode_table_def table_defs
  apply (simp only: concat.simps append.simps list.pred_inject o_apply matcher_shape_inst
    matcher_shape_except shape_ok_inst shape_ok_except simp_thms)
  apply code_simp
  done

section \<open>Decoding\<close>

lemma filter_accepts_matches:
  assumes "list_all (shape_ok \<circ> matcher_shape) ms"
  shows "length (filter (\<lambda>m. matches m w) ms) \<le>
    length (filter (\<lambda>e. accepts e (word_bits w)) (map shape_pattern (map matcher_shape ms)))"
  using assms by (induction ms) (auto dest: matches_accepts)

lemma table_at_most_one: "length (filter (\<lambda>m. matches m w) (decode_table :: 'x instr matcher list)) \<le> 1"
proof -
  have "length (word_bits w) =
      Suc (Suc (Suc (Suc (Suc (Suc (Suc (Suc (Suc (Suc (Suc (Suc (Suc (Suc (Suc (Suc 0)))))))))))))))"
    by (simp add: word_bits_def)
  from separated_at_most_one [OF table_separated this]
  show ?thesis
    unfolding count_live using filter_accepts_matches [OF table_ok] le_trans by blast
qed

lemma decode_in_unique:
  "length (filter (\<lambda>m. matches m w) ms) \<le> 1 \<Longrightarrow>
   \<exists>m. decode_in undefined_fn ms w = Inr m \<and> matches m w \<and> filter (\<lambda>m. matches m w) ms \<in> {[], [m]}"
proof (induction ms)
  case Nil
  then show ?case
    by (simp add: decode_in_def all_matcher_def matches_def)
next
  case (Cons a ms)
  show ?case
  proof (cases "matches a w")
    case True
    then have "filter (\<lambda>m. matches m w) ms = []"
      using Cons.prems by simp
    then show ?thesis
      using True by (auto simp: decode_in_def list_ex_iff filter_empty_conv)
  next
    case False
    then show ?thesis
      using Cons by (simp add: decode_in_def)
  qed
qed

lemma matches_shape:
  "matches m w \<longleftrightarrow> (case matcher_shape m of (mk, e, rs) \<Rightarrow> w AND mk = e \<and> \<not> list_ex (\<lambda>(k, u). w AND k = u) rs)"
  by (simp add: matches_def matcher_shape_def list_ex_iff rejects_def)

lemma decode_in_matching:
  assumes "decode_in f ms w = Inr m'" "m \<in> set ms" "matches m w"
  shows "m' = m"
proof (cases "dropWhile (\<lambda>m. \<not> matches m w) ms")
  case Nil
  with assms(2,3) show ?thesis
    by simp
next
  case (Cons a others)
  have "m \<in> set (a # others)"
    using assms(2,3) unfolding Cons [symmetric] by (induction ms) auto
  with Cons assms(1,3) show ?thesis
    by (auto simp: decode_in_def list_ex_iff split: if_splits)
qed

text \<open>Decoding an instruction of the table.\<close>

lemma decode_inst:
  assumes "m \<in> set (decode_table :: 'x instr matcher list)" and "matches m w"
  shows "decode w = Inr m"
  using decode_in_unique [OF table_at_most_one, where w = w and undefined_fn = undefined_instr] decode_in_matching [OF _ assms]
  unfolding decode_def by blast

lemma decode_nop: "decode 0 = Inr (inst 0 [] (\<lambda>x. nop))"
  by (rule decode_inst)
    (simp_all add: decode_table_def misc_table_def matches_shape matcher_shape_inst inst_shape_def)

text \<open>
  C2: The instruction table is unambiguous: decoding never aborts, for any of the 65536 opcodes. The entry it
  returns matches the opcode, and it is the only entry of the table that does; when no entry does,
  the undefined instruction is returned.
\<close>

theorem decode_unambiguous:
  "\<exists>m. decode w = Inr (m :: 'x instr matcher) \<and> matches m w \<and>
     filter (\<lambda>m. matches m w) decode_table \<in> {[], [m]}"
  unfolding decode_def by (rule decode_in_unique) (rule table_at_most_one)

end
