(* ===== verification/Processor.thy ===== *)
theory Processor
  imports Decoding
begin

unbundle bit_operations_syntax

text \<open>
  The run loop of src/src/interpreter.h, src/src/processor.cpp and the whole emulator as src/src/teakra.cpp puts
  it together: an iteration takes the interrupts that were signalled, fetches and decodes an
  opcode, steps the repeat counters, executes, enters an interrupt handler when one is due,
  and advances the clock by one cycle.
\<close>

section \<open>One cycle\<close>

text \<open>The pending flags are read and cleared, and the enabled-or-not request bits are set.\<close>

definition latch_interrupts :: "'x instr" where
  "latch_interrupts = supd (\<lambda>s.
     let r = mc_regs s;
         ip = map2 (\<lambda>pending old. if pending then 1 else old) (mc_interrupt_pending s) (rg_ip r);
         r = r\<lparr>rg_ip := ip\<rparr>;
         r = (if mc_vinterrupt_pending s then r\<lparr>rg_ipv := 1\<rparr> else r)
     in s\<lparr>mc_regs := r,
          mc_interrupt_pending := map (\<lambda>_. False) (mc_interrupt_pending s),
          mc_vinterrupt_pending := False\<rparr>)"

definition fetch_word :: "('x, u16) mstep" where
  "fetch_word =
     sbind (rget (\<lambda>r. rg_pc r OR push_bit 18 (ucast (rg_prpage r)))) (\<lambda>address.
     sbind (rupd (\<lambda>r. r\<lparr>rg_pc := rg_pc r + 1\<rparr>)) (\<lambda>_. mem_program_read address))"

definition fetch_instruction :: "('x, 'x instr) mstep" where
  "fetch_instruction =
     sbind fetch_word (\<lambda>opcode.
     sbind (squery (\<lambda>_. decode opcode)) (\<lambda>m.
     sbind (if mt_expanded m then fetch_word else sreturn 0) (\<lambda>expand_value.
     sreturn (call_matcher (sfail Abort) m opcode expand_value))))"

definition step_rep :: "registers \<Rightarrow> registers" where
  "step_rep r =
     (if rg_rep r then
        (if rg_repc r = 0 then r\<lparr>rg_rep := False\<rparr>
         else r\<lparr>rg_repc := rg_repc r - 1, rg_pc := rg_pc r - 1\<rparr>)
      else r)"

definition step_block_repeat :: "(registers, unit) step" where
  "step_block_repeat =
     sbind (sget rg_lp) (\<lambda>lp.
     swhen (lp \<noteq> 0)
       (sbind (sget lc_index) (\<lambda>i.
        sbind (squery (frame_at i)) (\<lambda>f.
        supd (\<lambda>r.
          if fr_end f + 1 = rg_pc r then
            (if fr_lc f = 0 then
               r\<lparr>rg_bcn := rg_bcn r - 1, rg_lp := (if rg_bcn r - 1 \<noteq> 0 then 1 else 0)\<rparr>
             else
               (put_frame i (f\<lparr>fr_lc := fr_lc f - 1\<rparr>) r)\<lparr>rg_pc := fr_start f\<rparr>)
          else r)))))"

text \<open>The lowest of the three interrupts that is both enabled and requested.\<close>

definition due_interrupt :: "registers \<Rightarrow> nat option" where
  "due_interrupt r = List.find (\<lambda>i. rg_im r ! i \<noteq> 0 \<and> rg_ip r ! i \<noteq> 0) [0..<length (rg_im r)]"

definition enter_interrupt :: "nat \<Rightarrow> 'x instr" where
  "enter_interrupt i = sseq [
     rupd (\<lambda>r. r\<lparr>rg_ip := (rg_ip r)[i := 0], rg_ie := 0\<rparr>),
     push_pc,
     rupd (\<lambda>r. r\<lparr>rg_pc := 6 + of_nat i * 8\<rparr>),
     supd (\<lambda>s. s\<lparr>mc_idle := False\<rparr>),
     sbind (rget (\<lambda>r. rg_ic r ! i)) (\<lambda>ic. swhen (ic \<noteq> 0) (on_regs context_store))]"

definition enter_vectored_interrupt :: "'x instr" where
  "enter_vectored_interrupt = sseq [
     rupd (\<lambda>r. r\<lparr>rg_ipv := 0, rg_ie := 0\<rparr>),
     push_pc,
     supd (\<lambda>s. s\<lparr>mc_regs := (mc_regs s)\<lparr>rg_pc := mc_vinterrupt_address s\<rparr>, mc_idle := False\<rparr>),
     sbind (sget mc_vinterrupt_context_switch) (\<lambda>c. swhen c (on_regs context_store))]"

definition take_interrupt :: "'x instr" where
  "take_interrupt =
     sbind (rget (\<lambda>r. rg_ie r \<noteq> 0 \<and> \<not> rg_rep r)) (\<lambda>enabled.
     swhen enabled
       (sbind (rget due_interrupt) (\<lambda>due.
        case due of
          Some i \<Rightarrow> enter_interrupt i
        | None \<Rightarrow>
            sbind (rget (\<lambda>r. rg_imv r \<noteq> 0 \<and> rg_ipv r \<noteq> 0)) (\<lambda>vectored.
            swhen vectored enter_vectored_interrupt))))"

definition run_cycle :: "'x instr" where
  "run_cycle =
     sbind latch_interrupts (\<lambda>_.
     sbind fetch_instruction (\<lambda>execute. sseq [
       rupd step_rep,
       on_regs step_block_repeat,
       execute,
       take_interrupt,
       sys_action system_tick]))"

section \<open>The loop\<close>

definition skip_time :: "nat \<Rightarrow> ('x, nat) mstep" where
  "skip_time maximum s =
     rbind (system_skip maximum (mc_sys s)) (\<lambda>(n, t, out).
     rbind (deliver_signals out (s\<lparr>mc_sys := t\<rparr>)) (\<lambda>(u, s'). Inr (n, s')))"

text \<open>
  Before a cycle with \<open>remaining\<close> cycles left, an idle machine lets time pass; the value is the
  number of cycles gone by.
\<close>

definition idle_time :: "nat \<Rightarrow> ('x, nat) mstep" where
  "idle_time remaining =
     sbind (sget mc_idle) (\<lambda>idle.
     if \<not> idle then sreturn 0
     else
       sbind (skip_time (remaining - 1)) (\<lambda>skipped.
       if skipped + 1 < remaining then
         sbind (sys_action system_tick) (\<lambda>_. sreturn (skipped + 1))
       else sreturn skipped))"

function run_cycles :: "nat \<Rightarrow> 'x instr" where
  "run_cycles remaining s =
     (if remaining = 0 then Inr ((), s)
      else case idle_time remaining s of
        Inl e \<Rightarrow> Inl e
      | Inr (passed, s1) \<Rightarrow>
          (case run_cycle s1 of
             Inl e \<Rightarrow> Inl e
           | Inr (u, s2) \<Rightarrow> run_cycles (remaining - passed - 1) s2))"
  by pat_completeness auto

termination
  by (relation "measure fst") auto

declare run_cycles.simps [simp del]

definition interpreter_run :: "nat \<Rightarrow> 'x instr" where
  "interpreter_run cycles =
     sbind (supd (\<lambda>s. s\<lparr>mc_idle := False\<rparr>)) (\<lambda>_. run_cycles cycles)"

section \<open>The emulator\<close>

definition processor_reset :: "'x instr" where
  "processor_reset = rupd (\<lambda>_. registers_reset)"

text \<open>\<open>Teakra::Reset\<close> and \<open>Teakra::Run\<close>; what is pending in the interpreter outlives a reset.\<close>

definition teakra_reset :: "'x instr" where
  "teakra_reset =
     sseq [supd (\<lambda>s. s\<lparr>mc_sys := system_reset (mc_sys s)\<rparr>), processor_reset]"

definition teakra_run :: "u32 \<Rightarrow> 'x instr" where
  "teakra_run cycles = interpreter_run (unat cycles)"

end
