(* ===== verification/Well_Formed.thy ===== *)
theory Well_Formed
  imports Processor
begin

unbundle bit_operations_syntax

text \<open>
  The invariant of the machine and the rules by which instructions keep it: the registers have their
  sizes, every accumulator is the sign extension of its 40 bits, the configured address
  registers, steps and offsets are in range, and the block repeat counts its frames. The
  invariant of the peripherals and the three interrupt lines are part of it.
\<close>

section \<open>Accumulator values\<close>

lemma bit_sign_extend64:
  "n < 64 \<Longrightarrow> 0 < k \<Longrightarrow> bit (sign_extend k (v :: u64)) n \<longleftrightarrow> (if n < k then bit v n else bit v (k - 1))"
  by (auto simp: sign_extend_def bit_simps)

lemma acc40_bits: "acc40 v \<longleftrightarrow> (\<forall>n < 64. 39 \<le> n \<longrightarrow> bit v n = bit v 39)"
proof
  assume "acc40 v"
  then have eq: "sign_extend 40 v = v"
    by (simp add: acc40_def)
  have "bit v n = bit v 39" if "n < 64" "39 \<le> n" for n
    using that bit_sign_extend64 [of n 40 v] unfolding eq by (cases "n = 39") simp_all
  then show "\<forall>n < 64. 39 \<le> n \<longrightarrow> bit v n = bit v 39"
    by blast
next
  assume b: "\<forall>n < 64. 39 \<le> n \<longrightarrow> bit v n = bit v 39"
  have "sign_extend 40 v = v"
  proof (rule bit_word_eqI)
    fix n :: nat
    assume "n < LENGTH(64)"
    then have n: "n < 64" by simp
    show "bit (sign_extend 40 v) n = bit v n"
      using b [rule_format, OF n] by (simp add: bit_sign_extend64 n)
  qed
  then show "acc40 v"
    by (simp add: acc40_def)
qed

named_theorems acc40_intros \<open>values that are sign-extended from 40 bits\<close>

lemma acc40_sign_extend_upto [acc40_intros]: "n \<le> 40 \<Longrightarrow> 0 < n \<Longrightarrow> acc40 (sign_extend n v)"
proof -
  assume n: "n \<le> 40" "0 < n"
  show ?thesis
    unfolding acc40_bits
  proof (intro allI impI)
    fix k :: nat
    assume k: "k < 64" "39 \<le> k"
    show "bit (sign_extend n v) k = bit (sign_extend n v) 39"
      using n k by (cases "k = 39"; cases "n = 40") (simp_all add: bit_sign_extend64)
  qed
qed

lemma acc40_logic [acc40_intros]:
  "acc40 v \<Longrightarrow> acc40 w \<Longrightarrow> acc40 (v AND w)"
  "acc40 v \<Longrightarrow> acc40 w \<Longrightarrow> acc40 (v OR w)"
  "acc40 v \<Longrightarrow> acc40 w \<Longrightarrow> acc40 (v XOR w)"
  unfolding acc40_bits bit_and_iff bit_or_iff bit_xor_iff by blast+

lemma acc40_not [acc40_intros]: "acc40 (NOT v)" if "acc40 v"
proof -
  have "acc40 (- 1)"
    by (simp add: acc40_def sign_extend_def mask_eq_exp_minus_1)
  with that have "acc40 (v XOR - 1)"
    by (rule acc40_logic)
  then show ?thesis by simp
qed

lemma acc40_ucast16 [acc40_intros]: "acc40 (ucast (v :: u16))"
  by (auto simp: acc40_bits bit_simps dest: bit_imp_le_length)

lemma acc40_ucast32 [acc40_intros]: "acc40 (ucast (v :: u32))"
  by (auto simp: acc40_bits bit_simps dest: bit_imp_le_length)

lemma acc40_push16 [acc40_intros]: "acc40 (push_bit 16 (ucast (v :: u16)))"
  by (auto simp: acc40_bits bit_simps dest: bit_imp_le_length)

lemma acc40_low [acc40_intros]: "acc40 (v AND mask n)" if "n \<le> 39"
  using that by (auto simp: acc40_bits bit_simps)

lemma acc40_numerals [acc40_intros]:
  "acc40 0" "acc40 1" "acc40 0x7FFFFFFF" "acc40 0x8000" "acc40 0xFFFFFFFF80000000" "acc40 0xFFFF"
  "acc40 0xFFFFFFFF" "acc40 0xFFFFFFFFFFFF0000" "acc40 0xFFFFFFFF0000FFFF" "acc40 0xFFFFFFFFFFFF00FF"
  "acc40 0xFFFFFFFF00000000"
  by (simp_all add: acc40_def sign_extend_def mask_eq_exp_minus_1)

lemma acc40_if [acc40_intros]: "acc40 v \<Longrightarrow> acc40 w \<Longrightarrow> acc40 (if b then v else w)"
  by simp

section \<open>The registers\<close>

definition accs_ok :: "registers \<Rightarrow> bool" where
  "accs_ok r \<longleftrightarrow> (\<forall>v \<in> set (rg_a r). acc40 v) \<and> (\<forall>v \<in> set (rg_b r). acc40 v) \<and>
     acc40 (rg_a1s r) \<and> acc40 (rg_b1s r)"

definition all_below :: "u16 \<Rightarrow> u16 list \<Rightarrow> bool" where
  "all_below n vs \<longleftrightarrow> (\<forall>v \<in> set vs. v < n)"

definition ar_shadow_below :: "u16 \<Rightarrow> ar_shadow \<Rightarrow> bool" where
  "ar_shadow_below n w \<longleftrightarrow> as_rni w < n \<and> as_rnj w < n \<and> as_stepi w < 8 \<and> as_stepj w < 8 \<and>
     as_offseti w < 4 \<and> as_offsetj w < 4"

definition indirect_ok :: "registers \<Rightarrow> bool" where
  "indirect_ok r \<longleftrightarrow>
     all_below 8 (rg_arstep r) \<and> all_below 8 (rg_arpstepi r) \<and> all_below 8 (rg_arpstepj r) \<and>
     all_below 4 (rg_aroffset r) \<and> all_below 4 (rg_arpoffseti r) \<and> all_below 4 (rg_arpoffsetj r) \<and>
     all_below 8 (rg_arrn r) \<and> all_below 4 (rg_arprni r) \<and> all_below 4 (rg_arprnj r) \<and>
     (\<forall>w \<in> set (rg_shadow_ar r). ar_shadow_below 8 w) \<and>
     (\<forall>w \<in> set (rg_shadow_arp r). ar_shadow_below 4 w)"

definition loops_ok :: "registers \<Rightarrow> bool" where
  "loops_ok r \<longleftrightarrow> rg_bcn r \<le> 4 \<and> (rg_lp r = 0 \<longleftrightarrow> rg_bcn r = 0)"

definition shifts_ok :: "registers \<Rightarrow> bool" where
  "shifts_ok r \<longleftrightarrow> all_below 4 (rg_ps r) \<and> all_below 4 (sw_ps (rg_shadow_swap r))"

definition regs_wf :: "registers \<Rightarrow> bool" where
  "regs_wf r \<longleftrightarrow> registers_ok r \<and> accs_ok r \<and> indirect_ok r \<and> loops_ok r \<and> shifts_ok r"

lemmas regs_wf_defs = regs_wf_def registers_ok_def accs_ok_def indirect_ok_def loops_ok_def shifts_ok_def

text \<open>Registers the invariant does not restrict.\<close>

named_theorems wf_simps \<open>updates the invariant of the registers ignores\<close>

lemma wf_scalars [wf_simps]:
  "regs_wf (rg_pc_update f r) = regs_wf r"
  "regs_wf (rg_prpage_update g r) = regs_wf r"
  "regs_wf (rg_cpc_update g r) = regs_wf r"
  "regs_wf (rg_repc_update g r) = regs_wf r"
  "regs_wf (rg_repcs_update g r) = regs_wf r"
  "regs_wf (rg_rep_update h r) = regs_wf r"
  "regs_wf (rg_crep_update g r) = regs_wf r"
  "regs_wf (rg_ccnta_update g r) = regs_wf r"
  "regs_wf (rg_sat_update g r) = regs_wf r"
  "regs_wf (rg_sata_update g r) = regs_wf r"
  "regs_wf (rg_s_update g r) = regs_wf r"
  "regs_wf (rg_sv_update g r) = regs_wf r"
  "regs_wf (rg_fz_update g r) = regs_wf r"
  "regs_wf (rg_fm_update g r) = regs_wf r"
  "regs_wf (rg_fn_update g r) = regs_wf r"
  "regs_wf (rg_fv_update g r) = regs_wf r"
  "regs_wf (rg_fe_update g r) = regs_wf r"
  "regs_wf (rg_fc0_update g r) = regs_wf r"
  "regs_wf (rg_fc1_update g r) = regs_wf r"
  "regs_wf (rg_flm_update g r) = regs_wf r"
  "regs_wf (rg_fvl_update g r) = regs_wf r"
  "regs_wf (rg_fr_update g r) = regs_wf r"
  "regs_wf (rg_vtr0_update g r) = regs_wf r"
  "regs_wf (rg_vtr1_update g r) = regs_wf r"
  "regs_wf (rg_hwm_update g r) = regs_wf r"
  "regs_wf (rg_p0h_cbs_update g r) = regs_wf r"
  "regs_wf (rg_mixp_update g r) = regs_wf r"
  "regs_wf (rg_sp_update g r) = regs_wf r"
  "regs_wf (rg_page_update g r) = regs_wf r"
  "regs_wf (rg_pcmhi_update g r) = regs_wf r"
  "regs_wf (rg_r0b_update g r) = regs_wf r"
  "regs_wf (rg_r1b_update g r) = regs_wf r"
  "regs_wf (rg_r4b_update g r) = regs_wf r"
  "regs_wf (rg_r7b_update g r) = regs_wf r"
  "regs_wf (rg_stepi_update g r) = regs_wf r"
  "regs_wf (rg_stepj_update g r) = regs_wf r"
  "regs_wf (rg_modi_update g r) = regs_wf r"
  "regs_wf (rg_modj_update g r) = regs_wf r"
  "regs_wf (rg_stepi0_update g r) = regs_wf r"
  "regs_wf (rg_stepj0_update g r) = regs_wf r"
  "regs_wf (rg_stepib_update g r) = regs_wf r"
  "regs_wf (rg_stepjb_update g r) = regs_wf r"
  "regs_wf (rg_modib_update g r) = regs_wf r"
  "regs_wf (rg_modjb_update g r) = regs_wf r"
  "regs_wf (rg_stepi0b_update g r) = regs_wf r"
  "regs_wf (rg_stepj0b_update g r) = regs_wf r"
  "regs_wf (rg_stp16_update g r) = regs_wf r"
  "regs_wf (rg_cmd_update g r) = regs_wf r"
  "regs_wf (rg_epi_update g r) = regs_wf r"
  "regs_wf (rg_epj_update g r) = regs_wf r"
  "regs_wf (rg_ipv_update g r) = regs_wf r"
  "regs_wf (rg_imv_update g r) = regs_wf r"
  "regs_wf (rg_nimc_update g r) = regs_wf r"
  "regs_wf (rg_ie_update g r) = regs_wf r"
  "regs_wf (rg_mod0_unk_const_update g r) = regs_wf r"
  "regs_wf (rg_shadow_update k r) = regs_wf r"
  by (simp_all only: regs_wf_defs) simp_all

lemma wf_arrays [wf_simps]:
  "length (f (rg_x r)) = length (rg_x r) \<Longrightarrow> regs_wf (rg_x_update f r) = regs_wf r"
  "length (f (rg_y r)) = length (rg_y r) \<Longrightarrow> regs_wf (rg_y_update f r) = regs_wf r"
  "length (g (rg_p r)) = length (rg_p r) \<Longrightarrow> regs_wf (rg_p_update g r) = regs_wf r"
  "length (f (rg_pe r)) = length (rg_pe r) \<Longrightarrow> regs_wf (rg_pe_update f r) = regs_wf r"
  "length (f (rg_r r)) = length (rg_r r) \<Longrightarrow> regs_wf (rg_r_update f r) = regs_wf r"
  "length (f (rg_m r)) = length (rg_m r) \<Longrightarrow> regs_wf (rg_m_update f r) = regs_wf r"
  "length (f (rg_br r)) = length (rg_br r) \<Longrightarrow> regs_wf (rg_br_update f r) = regs_wf r"
  "length (f (rg_ip r)) = length (rg_ip r) \<Longrightarrow> regs_wf (rg_ip_update f r) = regs_wf r"
  "length (f (rg_im r)) = length (rg_im r) \<Longrightarrow> regs_wf (rg_im_update f r) = regs_wf r"
  "length (f (rg_ic r)) = length (rg_ic r) \<Longrightarrow> regs_wf (rg_ic_update f r) = regs_wf r"
  "length (f (rg_ou r)) = length (rg_ou r) \<Longrightarrow> regs_wf (rg_ou_update f r) = regs_wf r"
  "length (f (rg_iu r)) = length (rg_iu r) \<Longrightarrow> regs_wf (rg_iu_update f r) = regs_wf r"
  "length (f (rg_ext r)) = length (rg_ext r) \<Longrightarrow> regs_wf (rg_ext_update f r) = regs_wf r"
  by (simp_all only: regs_wf_defs) simp_all

lemma all_below_update:
  "all_below n vs \<Longrightarrow> v < n \<Longrightarrow> all_below n (vs[i := v])"
  unfolding all_below_def by (rule ball_list_update)

lemma all_below_nth: "all_below n vs \<Longrightarrow> i < length vs \<Longrightarrow> vs ! i < n"
  by (auto simp: all_below_def)

lemma wf_set_a: "regs_wf r \<Longrightarrow> acc40 v \<Longrightarrow> regs_wf (r\<lparr>rg_a := (rg_a r)[i := v]\<rparr>)"
  and wf_set_b: "regs_wf r \<Longrightarrow> acc40 v \<Longrightarrow> regs_wf (r\<lparr>rg_b := (rg_b r)[i := v]\<rparr>)"
  by (auto simp: regs_wf_def registers_ok_def accs_ok_def indirect_ok_def loops_ok_def shifts_ok_def
      dest!: set_update_subset_insert [THEN subsetD])

lemma wf_saved: "regs_wf r \<Longrightarrow> acc40 v \<Longrightarrow> acc40 w \<Longrightarrow> regs_wf (r\<lparr>rg_a1s := v, rg_b1s := w\<rparr>)"
  unfolding regs_wf_defs by simp

lemma wf_accs:
  assumes "regs_wf r"
  shows "i < 2 \<Longrightarrow> acc40 (rg_a r ! i)" "i < 2 \<Longrightarrow> acc40 (rg_b r ! i)" "acc40 (rg_a1s r)" "acc40 (rg_b1s r)"
  using assms by (simp_all add: regs_wf_def registers_ok_def accs_ok_def)

lemma wf_ranges:
  assumes "regs_wf r"
  shows "i < 4 \<Longrightarrow> rg_arrn r ! i < 8" "i < 4 \<Longrightarrow> rg_arprni r ! i < 4" "i < 4 \<Longrightarrow> rg_arprnj r ! i < 4"
    "i < 4 \<Longrightarrow> rg_arstep r ! i < 8" "i < 4 \<Longrightarrow> rg_arpstepi r ! i < 8" "i < 4 \<Longrightarrow> rg_arpstepj r ! i < 8"
    "i < 4 \<Longrightarrow> rg_aroffset r ! i < 4" "i < 4 \<Longrightarrow> rg_arpoffseti r ! i < 4" "i < 4 \<Longrightarrow> rg_arpoffsetj r ! i < 4"
    "i < 2 \<Longrightarrow> rg_ps r ! i < 4"
  using assms unfolding regs_wf_defs by (simp_all add: all_below_nth)

lemma wf_loops: "regs_wf r \<Longrightarrow> rg_bcn r \<le> 4" "regs_wf r \<Longrightarrow> rg_lp r = 0 \<longleftrightarrow> rg_bcn r = 0"
  unfolding regs_wf_defs by simp_all

section \<open>Steps over the registers\<close>

abbreviation rsafe :: "(registers, 'a) step \<Rightarrow> bool" where
  "rsafe m \<equiv> step_safe regs_wf m"

lemma gives_acc_value: "step_gives regs_wf (get_acc n) acc40"
  unfolding get_acc_def acc_cell_of_def
  by (auto simp: step_gives_def wf_accs)

lemma safe_set_acc: "acc40 v \<Longrightarrow> rsafe (set_acc n v)"
  unfolding set_acc_def acc_cell_of_def
  by (auto simp: step_gives_def wf_set_a wf_set_b)

lemma wf_set_acc_flag [wf_simps]: "regs_wf (set_acc_flag v r) = regs_wf r"
  by (simp add: set_acc_flag_def Let_def wf_simps)

lemma gives_saturate: "acc40 v \<Longrightarrow> step_gives regs_wf (saturate_acc v) acc40"
  unfolding saturate_acc_def
  by (intro gives_basic acc40_intros) (simp_all add: wf_simps)

lemma safe_sat_and_set: "acc40 v \<Longrightarrow> rsafe (sat_and_set_acc_and_flag n v)"
  unfolding sat_and_set_acc_and_flag_def
  by (intro gives_sbind_any [OF gives_supd] gives_sbind_any [OF gives_sget] gives_sbind [where B = acc40])
    (auto simp: wf_simps intro: gives_if gives_saturate gives_sreturn safe_set_acc)

lemma safe_set_and_flag: "acc40 v \<Longrightarrow> rsafe (set_acc_and_flag n v)"
  unfolding set_acc_and_flag_def by (intro gives_basic safe_set_acc) (simp_all add: wf_simps)

lemma gives_get_and_sat: "step_gives regs_wf (get_and_sat_acc n) acc40"
  unfolding get_and_sat_acc_def
  by (rule gives_sbind [OF gives_acc_value], rule gives_sbind_any)
    (auto intro: gives_basic gives_saturate)

lemma gives_product: "i < 2 \<Longrightarrow> step_gives regs_wf (sget (product_to_bus40 i)) acc40"
proof (rule gives_sget)
  fix r
  assume "i < 2" and "regs_wf r"
  then have "rg_ps r ! i < 4"
    by (intro wf_ranges(10))
  then have "rg_ps r ! i \<in> {0, 1, 2, 3}"
    by (auto dest: word_below_4)
  then show "acc40 (product_to_bus40 i r)"
    by (auto simp: product_to_bus40_def Let_def acc40_intros)
qed

section \<open>Updates of the registers\<close>

lemma wf_setters [wf_simps]:
  "regs_wf (set_r i v r) = regs_wf r" "regs_wf (set_x i v r) = regs_wf r"
  "regs_wf (set_y i v r) = regs_wf r" "regs_wf (set_ext i v r) = regs_wf r"
  "regs_wf (set_p0h v r) = regs_wf r" "regs_wf (product_from_bus32 i w r) = regs_wf r"
  "regs_wf (do_multiplication i sx sy r) = regs_wf r" "regs_wf (vtrshr r) = regs_wf r"
  "regs_wf (set_fv_sticky b r) = regs_wf r"
  by (simp_all add: set_r_def set_x_def set_y_def set_ext_def set_p0h_def product_from_bus32_def
      do_multiplication_def Let_def vtrshr_def set_fv_sticky_def wf_simps)

lemma wf_codebook_search [wf_simps]: "regs_wf (codebook_search u v rr c r) = regs_wf r"
  by (simp add: codebook_search_def Let_def wf_simps)

lemma wf_put_frame [wf_simps]: "regs_wf (put_frame i f r) = regs_wf r"
  by (simp add: put_frame_def regs_wf_defs)

lemma wf_set_loop: "regs_wf r \<Longrightarrow> n \<le> 4 \<Longrightarrow> (l = 0 \<longleftrightarrow> n = 0) \<Longrightarrow> regs_wf (r\<lparr>rg_bcn := n, rg_lp := l\<rparr>)"
  and wf_set_loop': "regs_wf r \<Longrightarrow> n \<le> 4 \<Longrightarrow> (l = 0 \<longleftrightarrow> n = 0) \<Longrightarrow> regs_wf (r\<lparr>rg_lp := l, rg_bcn := n\<rparr>)"
  by (simp_all add: regs_wf_defs)

subsection \<open>Status and configuration words\<close>

definition slot_wf :: "proxy_slot \<Rightarrow> bool" where
  "slot_wf s \<longleftrightarrow> (\<forall>v r. regs_wf r \<longrightarrow> regs_wf (px_set (ps_proxy s) (v AND mask (ps_len s)) r))"

lemma wf_pseudo_set: "list_all slot_wf slots \<Longrightarrow> regs_wf r \<Longrightarrow> regs_wf (pseudo_set slots v r)"
  by (induction slots arbitrary: r) (simp_all add: slot_wf_def)

lemma masked_below: "(v :: u16) AND mask 2 < 4" "(v :: u16) AND mask 3 < 8"
  using and_mask_less' [of 2 v] and_mask_less' [of 3 v] by simp_all

lemma wf_range_updates:
  "regs_wf r \<Longrightarrow> v < 4 \<Longrightarrow> regs_wf (rg_ps_update (\<lambda>xs. xs[i := v]) r)"
  "regs_wf r \<Longrightarrow> v < 8 \<Longrightarrow> regs_wf (rg_arstep_update (\<lambda>xs. xs[i := v]) r)"
  "regs_wf r \<Longrightarrow> v < 8 \<Longrightarrow> regs_wf (rg_arpstepi_update (\<lambda>xs. xs[i := v]) r)"
  "regs_wf r \<Longrightarrow> v < 8 \<Longrightarrow> regs_wf (rg_arpstepj_update (\<lambda>xs. xs[i := v]) r)"
  "regs_wf r \<Longrightarrow> v < 4 \<Longrightarrow> regs_wf (rg_aroffset_update (\<lambda>xs. xs[i := v]) r)"
  "regs_wf r \<Longrightarrow> v < 4 \<Longrightarrow> regs_wf (rg_arpoffseti_update (\<lambda>xs. xs[i := v]) r)"
  "regs_wf r \<Longrightarrow> v < 4 \<Longrightarrow> regs_wf (rg_arpoffsetj_update (\<lambda>xs. xs[i := v]) r)"
  "regs_wf r \<Longrightarrow> v < 8 \<Longrightarrow> regs_wf (rg_arrn_update (\<lambda>xs. xs[i := v]) r)"
  "regs_wf r \<Longrightarrow> v < 4 \<Longrightarrow> regs_wf (rg_arprni_update (\<lambda>xs. xs[i := v]) r)"
  "regs_wf r \<Longrightarrow> v < 4 \<Longrightarrow> regs_wf (rg_arprnj_update (\<lambda>xs. xs[i := v]) r)"
  unfolding regs_wf_defs by (simp_all add: all_below_update)

lemma wf_acc_e:
  assumes "regs_wf r"
  shows "regs_wf (px_set (acc_e_proxy i) v r)"
proof -
  have "acc40 ((w AND 0xFFFFFFFF) OR push_bit 32 (ucast (sign_extend 4 u :: u32)))" for w :: u64 and u
  proof -
    have m: "(0xFFFFFFFF :: u64) = mask 32"
      by (simp add: mask_eq_exp_minus_1)
    have b: "bit (sign_extend 4 u) n = bit (sign_extend 4 u) 7" if "7 \<le> n" "n < 32" for n
      using that by (auto simp: sign_extend_def bit_simps)
    have "bit (push_bit 32 (ucast (sign_extend 4 u :: u32)) :: u64) n = bit (sign_extend 4 u) 7"
      if "39 \<le> n" "n < 64" for n
      using that b [of "n - 32"] less_imp_diff_less [of n 64 32] by (simp add: bit_push_bit_iff bit_unsigned_iff)
    moreover have "\<not> bit (w AND mask 32) n" if "39 \<le> n" for n
      using that by (simp add: bit_and_iff bit_mask_iff)
    ultimately show ?thesis
      unfolding acc40_bits m bit_or_iff by simp
  qed
  then show ?thesis
    unfolding acc_e_proxy_def by (simp add: Let_def wf_set_a assms)
qed

lemma slots_wf:
  "list_all slot_wf cfgi_slots" "list_all slot_wf cfgj_slots" "list_all slot_wf stt0_slots"
  "list_all slot_wf stt1_slots" "list_all slot_wf stt2_slots" "list_all slot_wf mod0_slots"
  "list_all slot_wf mod1_slots" "list_all slot_wf mod2_slots" "list_all slot_wf mod3_slots"
  "list_all slot_wf st0_slots" "list_all slot_wf st1_slots" "list_all slot_wf st2_slots"
  "list_all slot_wf icr_slots" "list_all slot_wf (ar_slots i)" "list_all slot_wf (arp_slots i)"
  unfolding cfgi_slots_def cfgj_slots_def stt0_slots_def stt1_slots_def stt2_slots_def mod0_slots_def
    mod1_slots_def mod2_slots_def mod3_slots_def st0_slots_def st1_slots_def st2_slots_def icr_slots_def
    ar_slots_def arp_slots_def
  by (simp_all add: slot_wf_def proxy_slot_of_def redirector_def array_redirector_def double_redirector_def
      ro_redirector_def array_ro_redirector_def lp_redirector_def wf_simps wf_acc_e wf_set_loop'
      wf_range_updates masked_below)

lemmas wf_words = slots_wf [THEN wf_pseudo_set]

section \<open>Operations on the registers\<close>

lemma safe_rn_and_modify: "rsafe (rn_and_modify unit step dmod)"
  by (rule step_givesI) (auto simp: rn_and_modify_def Let_def wf_simps split: if_splits)

lemma safe_rn_address_and_modify: "rsafe (rn_address_and_modify unit step dmod)"
  unfolding rn_address_and_modify_def by (intro gives_basic safe_rn_and_modify) simp

lemma gives_add_sub: "step_gives regs_wf (add_sub a b sub) acc40"
  unfolding add_sub_def by (intro gives_basic) (simp_all add: wf_simps)

lemma gives_sum_base: "step_gives regs_wf (sum_base_value base acc) acc40"
  by (cases base) (auto intro!: gives_basic gives_acc_value acc40_intros)

lemma gives_get_and_sat_no_flag: "step_gives regs_wf (get_and_sat_acc_no_flag n) acc40"
  unfolding get_and_sat_acc_no_flag_def
  by (rule gives_sbind [OF gives_acc_value], rule gives_sbind_any)
    (auto intro!: gives_basic acc40_intros simp: saturate_acc_no_flag_def)

text \<open>Sequencing after a step whose value is an accumulator.\<close>

lemmas gives_acc_binds =
  gives_sbind [OF gives_acc_value] gives_sbind [OF gives_add_sub] gives_sbind [OF gives_sum_base]
  gives_sbind [OF gives_get_and_sat] gives_sbind [OF gives_get_and_sat_no_flag]
  gives_sbind [OF gives_product]

lemma safe_add_sub_to: "rsafe (add_sub_to acc v sub)"
  unfolding add_sub_to_def by (intro gives_acc_binds safe_sat_and_set)

lemmas safe_acc = safe_set_acc safe_sat_and_set safe_set_and_flag safe_add_sub_to

lemma safe_product_sum: "rsafe (product_sum base acc sub0 align0 sub1 align1)"
  unfolding product_sum_def
  by (rule gives_acc_binds gives_basic safe_acc | simp add: wf_simps)+

lemma safe_alm_parts: "rsafe (alm_logic f a b)" "rsafe (alm_test a b)" "rsafe (alm_sqr a)"
  unfolding alm_logic_def alm_test_def alm_sqr_def
  by (rule gives_acc_binds gives_basic safe_acc | simp add: wf_simps)+

lemma safe_alm_generic: "rsafe (alm_generic op a b)"
  by (cases op) (simp_all only: alm_generic.simps,
    (rule gives_acc_binds gives_basic safe_acc safe_alm_parts | simp add: wf_simps)+)

lemma safe_alb_result: "rsafe (alb_result op a b)"
  by (cases op) (simp_all only: alb_result.simps alb_logic_def alb_sum_def,
    (rule gives_basic | simp add: wf_simps)+)

lemma safe_generic_alb: "rsafe (generic_alb op a b)"
  unfolding generic_alb_def by (rule gives_basic safe_alb_result | simp add: wf_simps)+

lemma safe_shifts: "rsafe (shift_left40 v n)" "rsafe (shift_right40 v n)"
  unfolding shift_left40_def shift_right40_def by (rule gives_basic | simp add: wf_simps)+

lemma gives_shift_saturate: "acc40 v \<Longrightarrow> step_gives regs_wf (shift_saturate sign v) acc40"
  unfolding shift_saturate_def by (rule gives_basic acc40_intros | simp add: wf_simps)+

lemma safe_shift_bus40: "rsafe (shift_bus40 v sv dest)"
  unfolding shift_bus40_def Let_def
  by (intro gives_sbind_any [OF gives_if [OF safe_shifts]] gives_sbind [where B = acc40 and m = "sreturn w" for w]
      gives_sbind_any [OF gives_supd] gives_sbind [OF gives_shift_saturate] gives_sreturn safe_set_acc)
    (simp_all add: wf_simps)

lemma safe_exp_store: "rsafe (exp_store b)"
  unfolding exp_store_def by (rule gives_basic safe_acc acc40_intros | simp)+

lemma safe_rotates: "rsafe (rotate_right a)" "rsafe (rotate_left a)" "rsafe (moda_neg a)"
  unfolding rotate_right_def rotate_left_def moda_neg_def Let_def
  by (rule gives_acc_binds gives_basic safe_acc | simp add: wf_simps)+

lemma safe_moda_op: "rsafe (moda_op_step op a)"
  by (cases op) (simp_all only: moda_op_step.simps,
    (rule gives_acc_binds gives_basic safe_acc safe_rotates safe_shift_bus40 acc40_intros
      | assumption | simp add: wf_simps)+)

lemma safe_moda: "rsafe (moda op a cond)"
  unfolding moda_def by (rule gives_basic safe_moda_op | simp)+

lemma safe_mul_generic: "rsafe (mul_generic op a)"
  unfolding mul_generic_def
  by (rule gives_basic safe_acc | simp add: wf_simps split: mul_op.split)+

lemma acc40_push_sign_extend [acc40_intros]: "acc40 (push_bit 16 (sign_extend 24 v))"
proof -
  have "bit (push_bit 16 (sign_extend 24 v)) n = bit v 23" if "39 \<le> n" "n < 64" for n
  proof (cases "n = 39")
    case False
    then have "\<not> n - 16 < 24" "16 \<le> n" "n - 16 < 64"
      using that by linarith+
    then show ?thesis
      using that by (simp add: bit_push_bit_iff bit_sign_extend64)
  qed (simp add: bit_push_bit_iff bit_sign_extend64)
  then show ?thesis
    by (simp add: acc40_bits)
qed

lemma acc40_low16 [acc40_intros]: "acc40 (v AND 0xFFFF)"
  using acc40_low [of 16 v] by (simp add: mask_eq_exp_minus_1)

lemma safe_min_max_vtr: "rsafe (min_max_vtr a b is_min)"
  unfolding min_max_vtr_def Let_def
  by (rule gives_acc_binds gives_basic safe_acc acc40_logic acc40_low16 | simp add: wf_simps acc40_push_sign_extend)+

text \<open>The 16-bit bus.\<close>

lemma safe_reg_to_bus16: "rsafe (reg_to_bus16 reg sat)"
  unfolding reg_to_bus16_def
  by (intro gives_if gives_sbind [OF gives_acc_value] gives_sbind [OF gives_if [OF gives_get_and_sat gives_acc_value]]
      gives_sreturn)
    (cases reg; auto intro!: gives_basic)+

lemma safe_set_lc: "set_lc v r = Inr r' \<Longrightarrow> regs_wf r \<Longrightarrow> regs_wf r'"
  by (auto simp: set_lc_def rbind_Inr_iff wf_simps)

lemma safe_reg_from_bus16: "rsafe (reg_from_bus16 reg v)"
proof -
  have lc: "rsafe (\<lambda>r. rbind (set_lc v r) (\<lambda>r'. Inr ((), r')))"
    by (rule step_givesI) (auto simp: rbind_Inr_iff dest: safe_set_lc)
  show ?thesis
    unfolding reg_from_bus16_def
    by (intro gives_if safe_acc acc40_intros)
      (cases reg; auto intro!: gives_supd gives_sfail lc simp: wf_simps wf_words)+
qed

section \<open>Block repeat and context switch\<close>

lemma word_le_Suc4: "(n :: u16) \<le> 3 \<Longrightarrow> n + 1 \<le> 4 \<and> n + 1 \<noteq> 0"
  by (simp add: word_le_nat_alt unat_word_ariths word_unat_eq_iff)

lemma safe_block_repeat: "rsafe (block_repeat lc address)"
proof -
  have "regs_wf ((put_frame i f r)\<lparr>rg_lp := 1, rg_bcn := rg_bcn r + 1\<rparr>)"
    if "regs_wf r" "rg_bcn r \<le> 3" for i f r
    using that word_le_Suc4 [of "rg_bcn r"] by (intro wf_set_loop') (simp_all add: wf_simps)
  then show ?thesis
    by (intro step_givesI) (auto simp: block_repeat_def split: if_splits)
qed

lemma length_frames_down: "n < length fs \<Longrightarrow> length (frames_down n fs) = length fs"
  by (simp add: frames_down_def)

lemma length_frames_up: "n \<le> length fs \<Longrightarrow> length (frames_up n fs) = length fs"
  by (cases n) (auto simp: frames_up_def min_def)

lemma wf_frames:
  "regs_wf r \<Longrightarrow> length fs = 4 \<Longrightarrow> regs_wf (r\<lparr>rg_bkrep_stack := fs\<rparr>)"
  by (simp add: regs_wf_defs)

lemma wf_frames_length: "regs_wf r \<Longrightarrow> length (rg_bkrep_stack r) = 4"
  by (simp add: regs_wf_defs)

section \<open>The peripherals over time\<close>

fun component_flags :: "timing_component \<Rightarrow> bool" where
  "component_flags (TimerComponent t) = True"
| "component_flags (BtdmpComponent b) = btdmp_flags_ok b"

lemma btdmp_skip_flags:
  assumes "btdmp_flags_ok b" and "btdmp_skip n b = Inr (b', es)"
  shows "btdmp_flags_ok b'"
proof -
  have take: "btdmp_flags_ok b'" if "btdmp_flags_ok b" "btdmp_skip_take b = Inr (v, b')" for b v b'
    using that by (auto simp: btdmp_skip_take_def btdmp_flags_ok_def rbind_Inr_iff split: list.splits)
  have "btdmp_flags_ok b'" if "btdmp_flags_ok b" "btdmp_skip_cycles c b = Inr (b', es)" for c b b' es
    using that
  proof (induction c arbitrary: b es)
    case (Suc c)
    from Suc.prems(2) obtain l b1 r b2 es2 where "btdmp_skip_take b = Inr (l, b1)"
      "btdmp_skip_take b1 = Inr (r, b2)" "btdmp_skip_cycles c b2 = Inr (b', es2)"
      by (auto simp: rbind_Inr_iff)
    with Suc.prems(1) Suc.IH take show ?case
      by blast
  qed simp
  note cycles = this
  show ?thesis
    using assms by (auto simp: btdmp_skip_def Let_def split: if_splits dest: cycles [rotated])
qed

lemma component_skip_kind: "component_skip n c = Inr (c', es) \<Longrightarrow> is_timer c' = is_timer c"
  by (cases c) (auto simp: map_component_def rbind_Inr_iff)

lemma component_skip_flags: "component_skip n c = Inr (c', es) \<Longrightarrow> component_flags c \<Longrightarrow> component_flags c'"
  by (cases c) (auto simp: map_component_def rbind_Inr_iff btdmp_callbacks_def dest: btdmp_skip_flags)

lemma component_tick_flags: "component_tick c = Inr (c', es) \<Longrightarrow> component_flags c \<Longrightarrow> component_flags c'"
  by (cases c) (auto simp: map_component_def rbind_Inr_iff btdmp_callbacks_def btdmp_tick_def Let_def
      dest: btdmp_transmit_flags [rotated] split: if_splits prod.splits)

lemma each_callback_keeps:
  assumes "sys_ok s" and e: "each_callback f 0 (clock_components s) = Inr (cs, es)"
    and kind: "\<And>c c' es. f c = Inr (c', es) \<Longrightarrow> is_timer c' = is_timer c"
    and flags: "\<And>c c' es. f c = Inr (c', es) \<Longrightarrow> component_flags c \<Longrightarrow> component_flags c'"
  shows "sys_ok (store_components cs s)"
proof -
  have len: "length cs = length (clock_components s)"
    using each_callback_length [OF e] .
  have "map is_timer cs = map is_timer (clock_components s)"
    using len kind [OF each_callback_nth [OF e]] by (intro nth_equalityI) simp_all
  then have cs: "clock_components (store_components cs s) = cs"
    by (rule clock_components_store)
  have "component_flags c" if "c \<in> set (clock_components s)" for c
    using that assms(1) by (auto simp: clock_components_def sys_ok_def)
  then have "component_flags c" if "c \<in> set cs" for c
    using that len flags [OF each_callback_nth [OF e]] by (auto simp: in_set_conv_nth)
  moreover have "BtdmpComponent b \<in> set cs" if "b \<in> set (sys_btdmp (store_components cs s))" for b
  proof -
    from that have "BtdmpComponent b \<in> set (clock_components (store_components cs s))"
      by (simp add: clock_components_def)
    then show ?thesis
      by (simp only: cs)
  qed
  ultimately have "\<forall>b \<in> set (sys_btdmp (store_components cs s)). btdmp_flags_ok b"
    by fastforce
  then show ?thesis
    using assms(1) len by (simp add: sys_ok_def store_components_def clock_components_def)
qed

lemma deliver_keeps:
  assumes "sys_ok s" and "deliver e s = (s', out)"
  shows "sys_ok s'"
proof -
  have "sys_ok s'" if "raise_irq irq s = (s', out)" for irq
    using raise_irqs_keep [of s "[irq]" s' out] assms(1) that by simp
  with assms show ?thesis
    by (cases "(e, s)" rule: deliver.cases) auto
qed

lemma deliver_all_keeps: "sys_ok s \<Longrightarrow> deliver_all es s = (s', out) \<Longrightarrow> sys_ok s'"
proof (induction es arbitrary: s s' out)
  case (Cons e es)
  obtain s1 o1 where 1: "deliver e s = (s1, o1)" by fastforce
  with Cons.prems(1) have "sys_ok s1" by (rule deliver_keeps)
  with Cons 1 show ?case by (auto split: prod.splits)
qed simp

lemma system_tick_keeps: "sys_ok s \<Longrightarrow> system_tick s = Inr (s', out) \<Longrightarrow> sys_ok s'"
  by (auto simp: system_tick_def core_tick_def component_callbacks_def rbind_Inr_iff
      dest: component_tick_kind component_tick_flags intro: deliver_all_keeps each_callback_keeps)

lemma system_skip_keeps: "sys_ok s \<Longrightarrow> system_skip m s = Inr (n, s', out) \<Longrightarrow> sys_ok s'"
  by (auto simp: system_skip_def core_skip_def Let_def component_callbacks_def rbind_Inr_iff
      dest: component_skip_kind component_skip_flags intro: deliver_all_keeps each_callback_keeps)

section \<open>The machine\<close>

definition machine_wf :: "'x machine \<Rightarrow> bool" where
  "machine_wf s \<longleftrightarrow> regs_wf (mc_regs s) \<and> sys_ok (mc_sys s) \<and> length (mc_interrupt_pending s) = 3"

abbreviation msafe :: "('x, 'a) mstep \<Rightarrow> bool" where
  "msafe m \<equiv> step_safe machine_wf m"

lemma gives_on_regs: "step_gives regs_wf m A \<Longrightarrow> step_gives machine_wf (on_regs m) A"
  by (rule step_givesI) (auto simp: on_regs_def rbind_Inr_iff machine_wf_def dest: step_givesD)

lemma safe_rget: "msafe (rget f)"
  unfolding rget_def by (intro gives_on_regs gives_sget) simp

lemma gives_rget_product: "i < 2 \<Longrightarrow> step_gives machine_wf (rget (product_to_bus40 i)) acc40"
  unfolding rget_def by (intro gives_on_regs gives_product)

lemma safe_rupd: "(\<And>r. regs_wf r \<Longrightarrow> regs_wf (f r)) \<Longrightarrow> msafe (rupd f)"
  unfolding rupd_def by (intro gives_on_regs gives_supd)

lemma safe_deliver_signal: "msafe (deliver_signal e)"
  by (rule step_givesI, induction e rule: deliver_signal.induct)
    (auto simp: signal_interrupt_def signal_vectored_interrupt_def machine_wf_def split: if_splits)

lemma safe_deliver_signals: "msafe (deliver_signals es)"
  unfolding deliver_signals_def
  by (induction es) (simp_all only: list.map gives_sseq_Nil gives_sseq_Cons safe_deliver_signal)

lemma safe_sys_action:
  assumes "\<And>s s' out. sys_ok s \<Longrightarrow> f s = Inr (s', out) \<Longrightarrow> sys_ok s'"
  shows "msafe (sys_action f)"
proof (rule step_givesI)
  fix s x s'
  assume s: "machine_wf s" and r: "sys_action f s = Inr (x :: unit, s')"
  then obtain t out where "f (mc_sys s) = Inr (t, out)" "deliver_signals out (s\<lparr>mc_sys := t\<rparr>) = Inr (x, s')"
    by (auto simp: sys_action_def rbind_Inr_iff)
  with s assms step_givesD [OF safe_deliver_signals, of "s\<lparr>mc_sys := t\<rparr>"]
  show "machine_wf s' \<and> True"
    by (auto simp: machine_wf_def)
qed

lemma safe_memory: "msafe (mem_data_read address)" "msafe (mem_data_write address v)"
    "msafe (mem_program_read p)" "msafe (mem_program_write p v)"
proof -
  show "msafe (mem_data_read address)"
    by (rule step_givesI) (auto simp: mem_data_read_def rbind_Inr_iff machine_wf_def intro: data_read_keeps)
  show "msafe (mem_data_write address v)"
    by (rule step_givesI, rule step_givesD [OF safe_sys_action [OF data_write_keeps]])
      (simp_all only: mem_data_write_def)
  show "msafe (mem_program_read p)"
    unfolding mem_program_read_def by (rule gives_squery) simp
  show "msafe (mem_program_write p v)"
    by (rule step_givesI) (auto simp: mem_program_write_def rbind_Inr_iff machine_wf_def sys_ok_def)
qed

lemmas safe_machine = gives_on_regs safe_memory

lemma safe_stack: "msafe (push_word v)" "msafe pop_word" "msafe (set_pc a)"
  unfolding push_word_def pop_word_def set_pc_def
  by (rule gives_basic safe_memory safe_rget safe_rupd | simp add: wf_simps)+

lemma safe_pc: "msafe push_pc" "msafe pop_pc"
  unfolding push_pc_def pop_pc_def Let_def
  by (rule gives_basic safe_stack safe_rget | simp)+

lemma safe_read_next: "(\<And>v r. regs_wf r \<Longrightarrow> regs_wf (put v r)) \<Longrightarrow> msafe (read_next get put)"
  and safe_write_previous: "(\<And>v r. regs_wf r \<Longrightarrow> regs_wf (put v r)) \<Longrightarrow> msafe (write_previous get put w)"
  unfolding read_next_def write_previous_def
  by (rule gives_basic safe_memory safe_rget safe_rupd | simp)+

lemma wf_step_idle [simp]: "machine_wf (s\<lparr>mc_idle := b\<rparr>) = machine_wf s"
  by (simp add: machine_wf_def)

section \<open>Block repeat and context switch of the machine\<close>

lemma safe_outer_frames:
  assumes "\<And>lp. msafe (k lp)"
  shows "msafe (sbind (rget rg_lp) (\<lambda>lp. sbind (swhen (lp \<noteq> 0) (on_regs outer_frames)) (\<lambda>_. k lp)))"
proof (rule step_givesI)
  fix s x s'
  assume s: "machine_wf s"
    and r: "sbind (rget rg_lp) (\<lambda>lp. sbind (swhen (lp \<noteq> 0) (on_regs outer_frames)) (\<lambda>_. k lp)) s = Inr (x, s')"
  let ?r = "mc_regs s" let ?lp = "rg_lp ?r"
  let ?r' = "?r\<lparr>rg_bkrep_stack := frames_down (unat (rg_bcn ?r)) (rg_bkrep_stack ?r), rg_bcn := rg_bcn ?r + 1\<rparr>"
  from r obtain t where k: "k ?lp t = Inr (x, s')" and t: "t = s \<or> ?lp \<noteq> 0 \<and> rg_bcn ?r \<le> 3 \<and> t = s\<lparr>mc_regs := ?r'\<rparr>"
    by (cases "?lp = 0") (auto simp: rget_def on_regs_def rbind_Inr_iff outer_frames_def split: if_splits)
  have "machine_wf t"
    using t
  proof
    assume *: "?lp \<noteq> 0 \<and> rg_bcn ?r \<le> 3 \<and> t = s\<lparr>mc_regs := ?r'\<rparr>"
    have w: "regs_wf ?r"
      using s by (simp add: machine_wf_def)
    have "unat (rg_bcn ?r) < length (rg_bkrep_stack ?r)"
      using * wf_frames_length [OF w] by (simp add: word_le_nat_alt)
    then have "regs_wf (?r\<lparr>rg_bkrep_stack := frames_down (unat (rg_bcn ?r)) (rg_bkrep_stack ?r)\<rparr>)"
      using w wf_frames_length [OF w] by (intro wf_frames) (simp_all add: length_frames_down)
    from wf_set_loop' [OF this, of "rg_bcn ?r + 1" ?lp] have "regs_wf ?r'"
      using * word_le_Suc4 [of "rg_bcn ?r"] by simp
    with s * show ?thesis
      by (simp add: machine_wf_def)
  qed (use s in simp)
  with assms k show "machine_wf s' \<and> True"
    by (blast dest: step_givesD)
qed

lemma safe_inner_frames: "rsafe inner_frames"
proof (rule step_givesI)
  fix r x r'
  assume r: "regs_wf r" and i: "inner_frames r = Inr (x, r')"
  let ?n = "rg_bcn r"
  let ?fs = "frames_up (unat ?n) (rg_bkrep_stack r)"
  from i have n: "?n \<noteq> 0" "?n \<le> 4"
    and r': "r' = r\<lparr>rg_bkrep_stack := ?fs, rg_bcn := ?n - 1, rg_lp := (if ?n - 1 = 0 then 0 else rg_lp r)\<rparr>"
    by (auto simp: inner_frames_def not_less split: if_splits)
  have "unat ?n \<le> length (rg_bkrep_stack r)"
    using n wf_frames_length [OF r] by (simp add: word_le_nat_alt)
  then have "regs_wf (r\<lparr>rg_bkrep_stack := ?fs\<rparr>)"
    using r wf_frames_length [OF r] by (intro wf_frames) (simp_all add: length_frames_up)
  moreover have "?n - 1 \<le> 4"
    using n by (simp add: word_le_nat_alt unat_minus_one)
  ultimately show "regs_wf r' \<and> True"
    unfolding r' using wf_loops(2) [OF r] n by (intro conjI wf_set_loop) auto
qed

lemma wf_shadow_flags [wf_simps]:
  "regs_wf (shadow_store r) = regs_wf r" "regs_wf (shadow_restore r) = regs_wf r"
  by (simp_all add: shadow_store_def shadow_restore_def wf_simps)

lemma wf_swap_shadow_registers: "regs_wf r \<Longrightarrow> regs_wf (swap_shadow_registers r)"
  by (simp add: swap_shadow_registers_def Let_def regs_wf_defs)

lemma shadow_below_nth:
  "\<forall>w \<in> set ws. ar_shadow_below n w \<Longrightarrow> i < length ws \<Longrightarrow>
   as_rni (ws ! i) < n \<and> as_rnj (ws ! i) < n \<and> as_stepi (ws ! i) < 8 \<and> as_stepj (ws ! i) < 8 \<and>
   as_offseti (ws ! i) < 4 \<and> as_offsetj (ws ! i) < 4"
  using nth_mem [of i ws] by (auto simp: ar_shadow_below_def)

lemma wf_swap_ar:
  assumes "regs_wf r" "i < 2"
  shows "regs_wf (swap_ar i r)"
proof -
  let ?w = "rg_shadow_ar r ! i"
  let ?v = "\<lparr>as_rni = rg_arrn r ! (2 * i), as_rnj = rg_arrn r ! (2 * i + 1),
       as_stepi = rg_arstep r ! (2 * i), as_stepj = rg_arstep r ! (2 * i + 1),
       as_offseti = rg_aroffset r ! (2 * i), as_offsetj = rg_aroffset r ! (2 * i + 1)\<rparr>"
  have ws: "\<forall>w \<in> set (rg_shadow_ar r). ar_shadow_below 8 w" "length (rg_shadow_ar r) = 2"
    using assms(1) by (simp_all add: regs_wf_defs)
  have w: "as_rni ?w < 8 \<and> as_rnj ?w < 8 \<and> as_stepi ?w < 8 \<and> as_stepj ?w < 8 \<and>
      as_offseti ?w < 4 \<and> as_offsetj ?w < 4"
    using shadow_below_nth [OF ws(1)] ws(2) assms(2) by simp
  have "ar_shadow_below 8 ?v"
    using wf_ranges [OF assms(1)] assms(2) by (simp add: ar_shadow_below_def)
  then have "\<forall>u \<in> set ((rg_shadow_ar r)[i := ?v]). ar_shadow_below 8 u"
    using ws(1) by (intro ball_list_update)
  with assms(1) w show ?thesis
    unfolding swap_ar_def Let_def regs_wf_defs by (simp add: all_below_update)
qed

lemma wf_swap_arp:
  assumes "regs_wf r" "i < 4"
  shows "regs_wf (swap_arp i r)"
proof -
  let ?w = "rg_shadow_arp r ! i"
  let ?v = "\<lparr>as_rni = rg_arprni r ! i, as_rnj = rg_arprnj r ! i,
       as_stepi = rg_arpstepi r ! i, as_stepj = rg_arpstepj r ! i,
       as_offseti = rg_arpoffseti r ! i, as_offsetj = rg_arpoffsetj r ! i\<rparr>"
  have ws: "\<forall>w \<in> set (rg_shadow_arp r). ar_shadow_below 4 w" "length (rg_shadow_arp r) = 4"
    using assms(1) by (simp_all add: regs_wf_defs)
  have w: "as_rni ?w < 4 \<and> as_rnj ?w < 4 \<and> as_stepi ?w < 8 \<and> as_stepj ?w < 8 \<and>
      as_offseti ?w < 4 \<and> as_offsetj ?w < 4"
    using shadow_below_nth [OF ws(1)] ws(2) assms(2) by simp
  have "ar_shadow_below 4 ?v"
    using wf_ranges [OF assms(1)] assms(2) by (simp add: ar_shadow_below_def)
  then have "\<forall>u \<in> set ((rg_shadow_arp r)[i := ?v]). ar_shadow_below 4 u"
    using ws(1) by (intro ball_list_update)
  with assms(1) w show ?thesis
    unfolding swap_arp_def Let_def regs_wf_defs by (simp add: all_below_update)
qed

lemma wf_shadow_swap: "regs_wf r \<Longrightarrow> regs_wf (shadow_swap r)"
  by (simp add: shadow_swap_def swap_all_ar_arp_def wf_swap_shadow_registers wf_swap_ar wf_swap_arp)

lemma wf_swap_index: "regs_wf r \<Longrightarrow> regs_wf (swap_ar_index i r)" "regs_wf r \<Longrightarrow> regs_wf (swap_arp_index i r)"
  by (simp_all add: swap_ar_index_def swap_arp_index_def wf_swap_ar wf_swap_arp)

lemma safe_context_store: "rsafe context_store"
proof -
  have both: "step_gives regs_wf (sget (\<lambda>r. (rg_a r ! 1, rg_b r ! 1))) (\<lambda>(a, b). acc40 a \<and> acc40 b)"
    by (rule gives_sget) (simp add: wf_accs)
  have swap: "rsafe (sbind (sget (\<lambda>r. (rg_a r ! 1, rg_b r ! 1))) (\<lambda>(a, b). sseq [
      supd (\<lambda>r. r\<lparr>rg_b := (rg_b r)[1 := a]\<rparr>), set_acc_and_flag Reg_a1 b]))"
    by (rule gives_sbind [OF both], split prod.splits, clarify)
      (rule gives_basic safe_acc | simp add: wf_set_b)+
  show ?thesis
    unfolding context_store_def
    by (rule swap gives_basic safe_acc | simp add: wf_simps wf_shadow_swap wf_saved wf_accs)+
qed

lemma wf_set_pair:
  "regs_wf r \<Longrightarrow> acc40 v \<Longrightarrow> acc40 w \<Longrightarrow>
   regs_wf (r\<lparr>rg_a := (rg_a r)[i := v], rg_b := (rg_b r)[j := w]\<rparr>)"
  using wf_set_b [OF wf_set_a] by simp

lemma wf_context_restore:
  assumes "regs_wf r"
  shows "regs_wf (context_restore r)"
proof -
  let ?q = "shadow_swap (shadow_restore r)"
  have q: "regs_wf ?q"
    using assms by (simp add: wf_simps wf_shadow_swap)
  then have q': "regs_wf (?q\<lparr>rg_repc := rg_repcs ?q\<rparr>)"
    by (simp add: wf_simps)
  show ?thesis
    using wf_set_pair [OF q, where i = 1 and j = 1] wf_set_pair [OF q', where i = 1 and j = 1]
      wf_accs(1,2) [OF q, of 1] wf_accs(3,4) [OF q]
    by (cases "rg_crep ?q = 0") (simp_all add: context_restore_def Let_def)
qed

lemma safe_restore_block_repeat:
  "(\<And>v r. regs_wf r \<Longrightarrow> regs_wf (put v r)) \<Longrightarrow> msafe (restore_block_repeat get put)"
  unfolding restore_block_repeat_def Let_def
  by (rule safe_outer_frames safe_read_next gives_basic safe_rupd
      | simp add: wf_simps wf_set_loop')+

lemma safe_store_block_repeat:
  "(\<And>v r. regs_wf r \<Longrightarrow> regs_wf (put v r)) \<Longrightarrow> msafe (store_block_repeat get put)"
  unfolding store_block_repeat_def Let_def
  by (rule safe_write_previous safe_rget gives_basic gives_on_regs safe_inner_frames | simp)+

end
