(* ===== verification/Instr_Invariant.thy ===== *)
theory Instr_Invariant
  imports Well_Formed
begin

unbundle bit_operations_syntax

text \<open>
  Every instruction of src/src/interpreter.h keeps the invariant of the machine: a lemma for each section
  of the instructions, by the rules for the steps they are made of, and one for each section
  of the instruction table.
\<close>

section \<open>Values\<close>

lemma sign_extend_range:
  fixes v :: u64
  assumes "0 < n" "n \<le> 63"
  shows "sign_extend n v = v \<longleftrightarrow> - (2 ^ (n - 1)) \<le> sint v \<and> sint v < 2 ^ (n - 1)"
proof -
  have "signed_take_bit (n - 1) (uint v) = signed_take_bit (n - 1) (sint v)"
    using assms by (intro bit_eqI) (auto simp: bit_simps bit_sint_iff bit_uint_iff min_def)
  then have "sign_extend n v = v \<longleftrightarrow> signed_take_bit (n - 1) (sint v) = sint v"
    using sint_sign_extend64 [OF assms] by (metis signed_word_eqI)
  also have "\<dots> \<longleftrightarrow> - (2 ^ (n - 1)) \<le> sint v \<and> sint v < 2 ^ (n - 1)"
    by (rule signed_take_bit_int_eq_self_iff)
  finally show ?thesis .
qed

lemma acc40_push_small:
  assumes "- (2 ^ 23) \<le> sint v" "sint v < 2 ^ 23"
  shows "acc40 (push_bit 16 v)"
proof -
  have "sign_extend 24 v = v"
    using sign_extend_range [of 24 v] assms by simp
  then show ?thesis
    using acc40_push_sign_extend [of v] by simp
qed

lemma sint_extended: "- (2 ^ 15) \<le> sint (sign_extend 16 (w :: u64)) \<and> sint (sign_extend 16 w) < 2 ^ 15"
  using signed_take_bit_int_greater_eq_minus_exp [of 15 "uint w"] signed_take_bit_int_less_exp [of 15 "uint w"]
  by (subst (1 2) sint_sign_extend64) simp_all

lemma acc40_sum_words [acc40_intros]: "acc40 (sum_words sub_high ha hb sub_low la lb)"
proof -
  let ?x = "sign_extend 16 (ucast ha) :: u64" let ?y = "sign_extend 16 (ucast hb) :: u64"
  note r = sint_extended [of "ucast ha"] sint_extended [of "ucast hb"]
  have "sint (?x + ?y) = sint ?x + sint ?y" "sint (?x - ?y) = sint ?x - sint ?y"
    using r by (simp_all add: sint_word_ariths signed_take_bit_int_eq_self)
  then have "acc40 (push_bit 16 (?x + ?y))" "acc40 (push_bit 16 (?x - ?y))"
    using r by (auto intro!: acc40_push_small)
  then show ?thesis
    unfolding sum_words_def Let_def by (auto intro!: acc40_intros split: if_splits)
qed

lemma acc40_extension: "acc40 (push_bit 32 (ucast (sign_extend 8 w :: u32)))"
proof -
  have b: "bit (sign_extend 8 w) n = bit w 7" if "7 \<le> n" "n < 32" for n
    using that by (cases "n = 7") (auto simp: sign_extend_def bit_simps)
  have "bit (push_bit 32 (ucast (sign_extend 8 w :: u32)) :: u64) n = bit w 7" if "39 \<le> n" "n < 64" for n
  proof -
    have "7 \<le> n - 32" "n - 32 < 32" "32 \<le> n" "n - 32 < 64"
      using that by linarith+
    then show ?thesis
      using that b [of "n - 32"] by (simp add: bit_push_bit_iff bit_unsigned_iff)
  qed
  then show ?thesis
    by (simp add: acc40_bits)
qed

lemma acc40_words [acc40_intros]: "acc40 (word_pair h l)" "acc40 (upper_word h)" "acc40 (signed_word h)"
  unfolding word_pair_def upper_word_def signed_word_def by (intro acc40_sign_extend_upto; simp)+

lemma acc40_numerals_more [acc40_intros]: "acc40 0xFF00"
  by (simp add: acc40_def sign_extend_def mask_eq_exp_minus_1)

lemma wf_ps: "regs_wf r \<Longrightarrow> v < 4 \<Longrightarrow> regs_wf (r\<lparr>rg_ps := (rg_ps r)[0 := v]\<rparr>)"
  and wf_ps_pair: "regs_wf r \<Longrightarrow> v < 16 \<Longrightarrow> regs_wf (r\<lparr>rg_ps := (rg_ps r)[0 := v AND 3, Suc 0 := drop_bit 2 v]\<rparr>)"
proof -
  show "regs_wf (r\<lparr>rg_ps := (rg_ps r)[0 := v]\<rparr>)" if "regs_wf r" "v < 4"
    using that unfolding regs_wf_defs by (simp add: all_below_update)
  assume r: "regs_wf r" and v: "v < 16"
  have "v AND 3 < 4"
    using masked_below(1) [of v] by (simp add: mask_eq_exp_minus_1)
  moreover have "drop_bit 2 v < 4"
    using v by (simp add: word_less_nat_alt drop_bit_eq_div unat_div)
  ultimately show "regs_wf (r\<lparr>rg_ps := (rg_ps r)[0 := v AND 3, Suc 0 := drop_bit 2 v]\<rparr>)"
    using r unfolding regs_wf_defs by (simp add: all_below_update)
qed

section \<open>Rules\<close>

named_theorems safe_steps \<open>steps that keep the invariant\<close>

lemma gives_pc: "step_gives regs_wf (sget (\<lambda>r. ucast (rg_pc r))) acc40"
  by (intro gives_sget acc40_intros)

lemmas acc_binds = gives_acc_binds gives_sbind [OF gives_saturate] gives_sbind [OF gives_pc]
  gives_sbind [OF gives_on_regs [OF gives_acc_value]] gives_sbind [OF gives_on_regs [OF gives_add_sub]]
  gives_sbind [OF gives_on_regs [OF gives_get_and_sat]]
  gives_sbind [OF gives_on_regs [OF gives_get_and_sat_no_flag]]
  gives_sbind [OF gives_rget_product]

lemmas safe_values [safe_steps] =
  gives_acc_value [THEN gives_weaken] gives_get_and_sat_no_flag [THEN gives_weaken]

declare safe_memory [safe_steps] safe_rget [safe_steps] safe_rupd [safe_steps] safe_stack [safe_steps]
  safe_pc [safe_steps] safe_read_next [safe_steps] safe_write_previous [safe_steps]
  gives_on_regs [safe_steps] safe_reg_to_bus16 [safe_steps] safe_reg_from_bus16 [safe_steps]
  safe_acc [safe_steps] safe_rn_and_modify [safe_steps] safe_rn_address_and_modify [safe_steps]
  safe_product_sum [safe_steps] safe_alm_generic [safe_steps] safe_generic_alb [safe_steps]
  safe_shift_bus40 [safe_steps] safe_exp_store [safe_steps] safe_moda [safe_steps]
  safe_mul_generic [safe_steps] safe_min_max_vtr [safe_steps] safe_block_repeat [safe_steps]
  safe_context_store [safe_steps] safe_restore_block_repeat [safe_steps]
  safe_store_block_repeat [safe_steps] acc40_intros [safe_steps] gives_prod2 [safe_steps]

declare wf_words [wf_simps] wf_swap_index [wf_simps] wf_shadow_swap [wf_simps]
  wf_context_restore [wf_simps]

lemma wf_swap_all [wf_simps]: "regs_wf r \<Longrightarrow> regs_wf (swap_all_ar_arp r)"
  by (simp add: swap_all_ar_arp_def wf_swap_ar wf_swap_arp)

section \<open>Instructions\<close>

subsection \<open>Conditions and values\<close>

lemma safe_if_cond [safe_steps]: "msafe m \<Longrightarrow> msafe (if_cond cond m)"
  unfolding if_cond_def by (rule safe_steps gives_basic | assumption)+

subsection \<open>Loads and stores\<close>

lemma keeps_loads_and_stores [safe_steps]:
  "msafe (mem_imm8 a)" "msafe (mem_r7_imm16 a)" "msafe (mem_r7_imm7s a)" "msafe (load_imm8 a)"
  "msafe (load_imm16 a)" "msafe (load_r7_imm16 a)" "msafe (load_r7_imm7s a)"
  "msafe (store_imm8 a b)" "msafe (store_imm16 a b)" "msafe (store_r7_imm16 a b)"
  "msafe (store_r7_imm7s a b)"
  unfolding Let_def
    mem_imm8_def mem_r7_imm16_def mem_r7_imm7s_def load_imm8_def load_imm16_def
    load_r7_imm16_def load_r7_imm7s_def store_imm8_def store_imm16_def store_r7_imm16_def
    store_r7_imm7s_def
  by (rule acc_binds safe_steps gives_basic | assumption | simp add: wf_simps)+

subsection \<open>Address registers\<close>

lemma keeps_address_registers [safe_steps]:
  "msafe (step_unit i step_value_1 s0)" "msafe (step_rn a b)" "msafe (read_rn a b)"
  "msafe (step_ar a i)" "msafe (read_ar a b)" "msafe (write_ar a b c)"
  "msafe (offset_unit i a b s0)" "msafe (step_ar_pair a b)" "msafe (arp_units a b c)"
  "msafe (step_arp a b c s0 s1)"
  unfolding Let_def
    step_unit_def step_rn_def read_rn_def step_ar_def read_ar_def write_ar_def offset_unit_def
    step_ar_pair_def arp_units_def step_arp_def
  by (rule acc_binds safe_steps gives_basic | assumption | simp add: wf_simps)+

subsection \<open>Normalisation and swaps\<close>

lemma wf_normalisation_and_swaps [wf_simps]:
  "regs_wf (set_fr i r) = regs_wf r"
  unfolding set_fr_def Let_def
  by (simp_all add: wf_simps)

lemma safe_discard [safe_steps]: "rsafe m \<Longrightarrow> rsafe (discard m)"
  unfolding discard_def by (rule gives_basic | assumption | simp)+

lemma safe_move_pair [safe_steps]: "rsafe (move_pair s0 d0 s1 d1)"
  unfolding move_pair_def by (rule acc_binds safe_steps gives_basic | assumption | simp add: wf_simps)+

lemma safe_swap_moves [safe_steps]: "rsafe (swap_moves t)"
  by (cases t) (simp_all only: swap_moves.simps, (rule safe_steps gives_basic)+)

lemma safe_swap_accs [safe_steps]: "msafe (swap_accs t)"
  unfolding swap_accs_def by (rule safe_steps)+

lemma keeps_normalisation_and_swaps [safe_steps]:
  "msafe nop" "msafe (norm a b c)" "msafe trap"
  unfolding Let_def
    nop_def norm_def trap_def
  by (rule acc_binds safe_steps gives_basic | assumption | simp add: wf_simps)+

subsection \<open>alm and alu\<close>

lemma safe_acc_logic [safe_steps]:
  "(\<And>v w. acc40 v \<Longrightarrow> acc40 w \<Longrightarrow> acc40 (f v w)) \<Longrightarrow> msafe (acc_logic f a b c)"
  unfolding acc_logic_def by (rule acc_binds safe_steps gives_basic | assumption | simp add: wf_simps)+

lemma keeps_alm_and_alu [safe_steps]:
  "msafe (alm_word alm_op_1 a b)" "msafe (alm_mem_imm8 a b c)" "msafe (alm_rn a b c d)"
  "msafe (alm_register a b c)" "msafe (alm_r6 a b)" "msafe (alu_mem_imm16 a b c)"
  "msafe (alu_mem_r7_imm16 a b c)" "msafe (alu_imm16 a b c)" "msafe (alu_imm8 a b c)"
  "msafe (alu_mem_r7_imm7s a b c)" "msafe (or_ab_ax a b c)" "msafe (or_ax_bx a b c)"
  "msafe (or_bx_bx a b c)" "msafe (and_acc a b c)"
  unfolding Let_def
    alm_word_def alm_mem_imm8_def alm_rn_def alm_register_def alm_r6_def alu_mem_imm16_def
    alu_mem_r7_imm16_def alu_imm16_def alu_imm8_def alu_mem_r7_imm7s_def or_ab_ax_def
    or_ax_bx_def or_bx_bx_def and_acc_def
  by (rule acc_binds safe_steps gives_basic | assumption | simp add: wf_simps)+

subsection \<open>alb\<close>

lemma keeps_alb [safe_steps]:
  "msafe (alb_mem_imm8 a b c)" "msafe (alb_rn a b c d)" "rsafe (put_acc_word n a)"
  "msafe (alb_register a b c)" "msafe (alb_r6 a b)" "msafe (alb_stt_mod a b c)"
  unfolding Let_def
    alb_mem_imm8_def alb_rn_def put_acc_word_def alb_register_def alb_r6_def alb_stt_mod_def
  by (rule acc_binds safe_steps gives_basic | assumption | simp add: wf_simps)+

subsection \<open>Additions and comparisons of accumulators\<close>

lemma keeps_additions_and_comparisons_of_accumulators [safe_steps]:
  "msafe (add_acc n m s0)" "msafe (add_product i n s0)" "msafe (add_ab_bx a b)"
  "msafe (add_bx_ax a b)" "msafe (add_p1 a)" "msafe (add_px_bx a b)" "msafe (sub_ab_bx a b)"
  "msafe (sub_bx_ax a b)" "msafe (sub_p1_acc a)" "msafe (sub_px_bx a b)"
  "msafe (app a sum_base_1 s0 s1 s2 s3)" "rsafe (compare_with v n)" "msafe (cmp_acc n m)"
  "msafe (cmp_ax_bx a b)" "msafe cmp_b0_b1" "msafe cmp_b1_b0" "msafe (cmp_bx_ax a b)"
  "msafe (cmp_p1_to a)"
  unfolding Let_def
    add_acc_def add_product_def add_ab_bx_def add_bx_ax_def add_p1_def add_px_bx_def
    sub_ab_bx_def sub_bx_ax_def sub_p1_acc_def sub_px_bx_def app_def compare_with_def
    cmp_acc_def cmp_ax_bx_def cmp_b0_b1_def cmp_b1_b0_def cmp_bx_ax_def cmp_p1_to_def
  by (rule acc_binds safe_steps gives_basic | assumption | simp add: wf_simps)+

subsection \<open>Additions of pairs of words in memory\<close>

lemma gives_sum_with_sv:
  "step_gives machine_wf (sum_with_sv sub_high sub_low unit address offset) acc40"
  unfolding sum_with_sv_def rget_def
  by (rule safe_steps gives_sbind_any gives_sget acc40_sum_words | simp)+

lemmas sum_binds = gives_sbind [OF gives_sum_with_sv]

lemma safe_exchange_low [safe_steps]: "acc40 v \<Longrightarrow> msafe (exchange_low b v address)"
  unfolding exchange_low_def by (rule acc_binds safe_steps gives_basic | assumption | simp add: wf_simps)+

lemma keeps_additions_of_pairs_of_words_in_memory [safe_steps]:
  "msafe (sum_pairs s0 s1 a b c d)" "msafe (add_add a b c d)" "msafe (add_sub_pairs a b c d)"
  "msafe (sub_add a b c d)" "msafe (sub_sub a b c d)" "msafe (sum_ar_sv s0 s1 a b c)"
  "msafe (add_sub_sv a b c)" "msafe (sub_add_sv a b c)" "msafe (sub_add_i_mov_j_sv a b c d)"
  "msafe (sub_add_j_mov_i_sv a b c d)" "msafe (add_sub_i_mov_j a b c d)"
  "msafe (add_sub_j_mov_i a b c d)"
  unfolding Let_def
    sum_pairs_def add_add_def add_sub_pairs_def sub_add_def sub_sub_def sum_ar_sv_def
    add_sub_sv_def sub_add_sv_def sub_add_i_mov_j_sv_def sub_add_j_mov_i_sv_def
    add_sub_i_mov_j_def add_sub_j_mov_i_def
  by (rule sum_binds acc_binds safe_steps gives_basic | assumption | simp add: wf_simps)+

subsection \<open>Operations on an accumulator\<close>

lemma safe_clear_pair [safe_steps]: "acc40 v \<Longrightarrow> msafe (clear_pair v a b)"
  unfolding clear_pair_def by (rule acc_binds safe_steps gives_basic | assumption | simp add: wf_simps)+

lemma keeps_operations_on_an_accumulator [safe_steps]:
  "msafe (moda4 a b c)" "msafe (moda3 a b c)" "rsafe (rounded_to v n)" "msafe (pacr1 a)"
  "msafe (clr a b)" "msafe (clrr a b)" "msafe (lim a b)"
  unfolding Let_def
    moda4_def moda3_def rounded_to_def pacr1_def clr_def clrr_def lim_def
  by (rule sum_binds acc_binds safe_steps gives_basic | assumption | simp add: wf_simps)+

subsection \<open>Shifts\<close>

lemma keeps_shifts [safe_steps]:
  "rsafe (shift_by_sv v n)" "msafe (shfc a b c)" "msafe (shfi a b c)" "msafe (movs_mem_imm8 a b)"
  "msafe (movs_rn a b c)" "msafe (movs_register a b)" "msafe (movs_r6_to a)" "msafe (movsi a b c)"
  unfolding Let_def
    shift_by_sv_def shfc_def shfi_def movs_mem_imm8_def movs_rn_def movs_register_def
    movs_r6_to_def movsi_def
  by (rule sum_binds acc_binds safe_steps gives_basic | assumption | simp add: wf_simps)+

subsection \<open>Rounding moves\<close>

lemma keeps_rounding_moves [safe_steps]:
  "rsafe (round_word a n)" "msafe (movr_ar a b c)" "msafe (movr_rn a b c)"
  "msafe (movr_register a b)" "msafe (movr_bx a b)" "msafe (movr_r6_to a)"
  unfolding Let_def
    round_word_def movr_ar_def movr_rn_def movr_register_def movr_bx_def movr_r6_to_def
  by (rule sum_binds acc_binds safe_steps gives_basic | assumption | simp add: wf_simps)+

subsection \<open>Exponent\<close>

lemma wf_exponent [wf_simps]:
  "regs_wf (set_sv a r) = regs_wf r"
  unfolding set_sv_def Let_def
  by (simp_all add: wf_simps)

lemma keeps_exponent [safe_steps]:
  "msafe (exp_bx a)" "msafe (exp_bx_ax a b)" "msafe (exp_rn a b)" "msafe (exp_rn_ax a b c)"
  "msafe (exp_register a)" "msafe (exp_register_ax a b)" "msafe exp_r6" "msafe (exp_r6_ax a)"
  unfolding Let_def
    exp_bx_def exp_bx_ax_def exp_rn_def exp_rn_ax_def exp_register_def exp_register_ax_def
    exp_r6_def exp_r6_ax_def
  by (rule sum_binds acc_binds safe_steps gives_basic | assumption | simp add: wf_simps)+

subsection \<open>Tests of bits\<close>

lemma wf_tests_of_bits [wf_simps]:
  "regs_wf (set_fz_bit a i r) = regs_wf r"
  "regs_wf (set_fz_fc0_bit a v r) = regs_wf r"
  unfolding set_fz_bit_def set_fz_fc0_bit_def Let_def
  by (simp_all add: wf_simps)

lemma keeps_tests_of_bits [safe_steps]:
  "msafe (tst4b a b)" "msafe (tst4b_ax a b c)" "msafe (tstb_mem_imm8 a b)" "msafe (tstb_rn a b c)"
  "msafe (tstb_register a b)" "msafe (tstb_r6 a)" "msafe (tstb_stt_mod a b)"
  unfolding Let_def
    tst4b_def tst4b_ax_def tstb_mem_imm8_def tstb_rn_def tstb_register_def tstb_r6_def
    tstb_stt_mod_def
  by (rule sum_binds acc_binds safe_steps gives_basic | assumption | simp add: wf_simps)+

subsection \<open>Multiplication with accumulation\<close>

lemma keeps_multiplication_with_accumulation [safe_steps]:
  "msafe (mul_rn_imm16 a b c d e)" "msafe (mul_y0_rn a b c d)" "msafe (mul_y0_register a b c)"
  "msafe (step_r45_r0123 a b c d)" "msafe (load_y0_x0 a b)" "msafe (mul_r45_r0123 a b c d e g)"
  "msafe (mul_y0_r6 a b)" "msafe (mul_y0_mem_imm8 a b c)" "msafe (mpyi a)"
  "msafe (msu_r45_r0123 a b c d e)" "msafe (msu_rn_imm16 a b c d)" "msafe (msusu a b c)"
  "msafe (mac_x1to0 a)" "msafe (mac1 a b c d)" "msafe (addhp a b c d)" "msafe clrp0" "msafe clrp1"
  "msafe clrp"
  unfolding Let_def
    mul_rn_imm16_def mul_y0_rn_def mul_y0_register_def step_r45_r0123_def load_y0_x0_def
    mul_r45_r0123_def mul_y0_r6_def mul_y0_mem_imm8_def mpyi_def msu_r45_r0123_def
    msu_rn_imm16_def msusu_def mac_x1to0_def mac1_def addhp_def clrp0_def clrp1_def clrp_def
  by (rule sum_binds acc_binds safe_steps gives_basic | assumption | simp add: wf_simps)+

subsection \<open>Minimum and maximum\<close>

lemma safe_take_candidate [safe_steps]: "acc40 v \<Longrightarrow> rsafe (take_candidate better a u v r0)"
  unfolding take_candidate_def by (rule acc_binds safe_steps gives_basic | assumption | simp add: wf_simps)+

lemma keeps_minimum_and_maximum [safe_steps]:
  "rsafe (other_acc n)" "msafe (min_max_acc better a b)" "msafe (max_ge a b)" "msafe (max_gt a b)"
  "msafe (min_le a b)" "msafe (min_lt a b)" "msafe (min_max_r0 better a b)" "msafe (max_ge_r0 a b)"
  "msafe (max_gt_r0 a b)" "msafe (min_le_r0 a b)" "msafe (min_lt_r0 a b)"
  unfolding Let_def
    other_acc_def min_max_acc_def max_ge_def max_gt_def min_le_def min_lt_def min_max_r0_def
    max_ge_r0_def max_gt_r0_def min_le_r0_def min_lt_r0_def
  by (rule sum_binds acc_binds safe_steps gives_basic | assumption | simp add: wf_simps)+

subsection \<open>Division step\<close>

lemma keeps_division_step [safe_steps]:
  "rsafe (divs_acc a n)" "msafe (divs a b)"
  unfolding Let_def
    divs_acc_def divs_def
  by (rule sum_binds acc_binds safe_steps gives_basic | assumption | simp add: wf_simps)+

subsection \<open>Viterbi trace\<close>

lemma keeps_viterbi_trace [safe_steps]:
  "msafe vtrclr0" "msafe vtrclr1" "msafe vtrclr" "msafe (vtrmov_value registersRightarrowu16_1 a)"
  "msafe (vtrmov0 a)" "msafe (vtrmov1 a)" "msafe (vtrmov a)" "msafe vtrshr_instr"
  "rsafe (min_max_pair s0 n)" "msafe (max2_vtr_ax a)" "msafe (min2_vtr_ax a)"
  "msafe (max2_vtr_ax_bx a b)" "msafe (min2_vtr_ax_bx a b)" "rsafe (other_value n)"
  "msafe (vtr_mov s0 u64Rightarrowu16_1 n m a b)" "msafe (max2_vtr_movl_ax_bx a b c d)"
  "msafe (max2_vtr_movh_ax_bx a b c d)" "msafe (max2_vtr_movl_bx_ax a b c d)"
  "msafe (max2_vtr_movh_bx_ax a b c d)" "msafe (min2_vtr_movl_ax_bx a b c d)"
  "msafe (min2_vtr_movh_ax_bx a b c d)" "msafe (min2_vtr_movl_bx_ax a b c d)"
  "msafe (min2_vtr_movh_bx_ax a b c d)"
  "msafe (vtr_mov_pair s0 u64Rightarrowu16_1 u64Rightarrowu16_2 a b c d e)"
  "msafe (max2_vtr_movij a b c d e)" "msafe (max2_vtr_movji a b c d e)"
  "msafe (min2_vtr_movij a b c d e)" "msafe (min2_vtr_movji a b c d e)"
  unfolding Let_def
    vtrclr0_def vtrclr1_def vtrclr_def vtrmov_value_def vtrmov0_def vtrmov1_def vtrmov_def
    vtrshr_instr_def min_max_pair_def max2_vtr_ax_def min2_vtr_ax_def max2_vtr_ax_bx_def
    min2_vtr_ax_bx_def other_value_def vtr_mov_def max2_vtr_movl_ax_bx_def
    max2_vtr_movh_ax_bx_def max2_vtr_movl_bx_ax_def max2_vtr_movh_bx_ax_def
    min2_vtr_movl_ax_bx_def min2_vtr_movh_ax_bx_def min2_vtr_movl_bx_ax_def
    min2_vtr_movh_bx_ax_def vtr_mov_pair_def max2_vtr_movij_def max2_vtr_movji_def
    min2_vtr_movij_def min2_vtr_movji_def
  by (rule sum_binds acc_binds safe_steps gives_basic | assumption | simp add: wf_simps)+

subsection \<open>Squares\<close>

lemma wf_squares [wf_simps]:
  "regs_wf (both_products s0 s1 s2 s3 r) = regs_wf r"
  "regs_wf (set_square i a r) = regs_wf r"
  unfolding both_products_def set_square_def Let_def
  by (simp_all add: wf_simps)

lemma keeps_squares [safe_steps]:
  "msafe (sqr_sqr_add3_ab a b)" "msafe (sqr_sqr_add3_ar a b c)" "msafe (sqr_mpysu_add3a a b)"
  unfolding Let_def
    sqr_sqr_add3_ab_def sqr_sqr_add3_ar_def sqr_mpysu_add3a_def
  by (rule sum_binds acc_binds safe_steps gives_basic | assumption | simp add: wf_simps)+

subsection \<open>Codebook search\<close>

lemma keeps_codebook_search [safe_steps]:
  "msafe (cbs_axh a b)" "msafe (cbs_axh_bxh a b c)" "msafe (cbs_arp a b c d)"
  unfolding Let_def
    cbs_axh_def cbs_axh_bxh_def cbs_arp_def
  by (rule sum_binds acc_binds safe_steps gives_basic | assumption | simp add: wf_simps)+

subsection \<open>Sums of both products\<close>

lemma wf_sums_of_both_products [wf_simps]:
  "regs_wf (swap_x r) = regs_wf r"
  unfolding swap_x_def Let_def
  by (simp_all add: wf_simps)

lemma safe_load_factor [safe_steps]:
  "(\<And>v r. regs_wf r \<Longrightarrow> regs_wf (set_factor v r)) \<Longrightarrow> msafe (load_factor address set_factor)"
  unfolding load_factor_def by (rule acc_binds safe_steps gives_basic | assumption | simp add: wf_simps)+

lemma keeps_sums_of_both_products [safe_steps]:
  "msafe (mov_sv_app a i b sum_base_1 s0 s1 s2 s3)"
  "msafe (mma_swapped n s0 s1 s2 s3 sum_base_1 s4 s5 s6 s7)"
  "msafe (mma_arp a b c s0 s1 n s2 s3 s4 s5 sum_base_1 s6 s7 s8 s9)"
  "msafe (mma_load_y i a b n s0 s1 s2 s3 sum_base_1 s4 s5 s6 s7)"
  "msafe (mma_mx_xy a b n s0 s1 s2 s3 sum_base_1 s4 s5 s6 s7)"
  "msafe (mma_xy_mx a b n s0 s1 s2 s3 sum_base_1 s4 s5 s6 s7)"
  "msafe (mma_my_my a b n s0 s1 s2 s3 sum_base_1 s4 s5 s6 s7)" "msafe (store_high_pair n m a b)"
  "msafe (mma_mov_axh a b c d n s0 s1 s2 s3 sum_base_1 s4 s5 s6 s7)"
  "msafe (mma_mov_ar a b n s0 s1 s2 s3 sum_base_1 s4 s5 s6 s7)"
  unfolding Let_def
    mov_sv_app_def mma_swapped_def mma_arp_def mma_load_y_def mma_mx_xy_def mma_xy_mx_def
    mma_my_my_def store_high_pair_def mma_mov_axh_def mma_mov_ar_def
  by (rule sum_binds acc_binds safe_steps gives_basic | assumption | simp add: wf_simps)+

subsection \<open>Immediate loads\<close>

lemma safe_load_ps [safe_steps]: "a < 4 \<Longrightarrow> msafe (load_ps a)"
  unfolding load_ps_def by (rule safe_rupd) (simp add: wf_ps)

lemma safe_load_ps01 [safe_steps]: "a < 16 \<Longrightarrow> msafe (load_ps01 a)"
  unfolding load_ps01_def by (rule safe_rupd) (simp add: wf_ps_pair)

lemma keeps_immediate_loads [safe_steps]:
  "msafe (load_stepi a)" "msafe (load_stepj a)" "msafe (load_page a)" "msafe (load_modi a)"
  "msafe (load_modj a)" "msafe (load_movpd a)"
  unfolding Let_def
    load_stepi_def load_stepj_def load_page_def load_modi_def load_modj_def load_movpd_def
  by (rule sum_binds acc_binds safe_steps gives_basic | assumption | simp add: wf_simps)+

subsection \<open>Stack\<close>

lemma safe_set_acc_extension [safe_steps]: "rsafe (set_acc_extension n v)"
  unfolding set_acc_extension_def Let_def
  by (rule acc_binds safe_acc acc40_logic acc40_extension acc40_intros | assumption)+

lemma keeps_stack [safe_steps]:
  "msafe (push_imm16 a)" "msafe (push_register a)" "msafe (push_abe a)"
  "msafe (push_ar_arp_stt_mod a)" "msafe push_prpage" "msafe (push_long u32_1)" "msafe (push_px a)"
  "msafe push_r6" "msafe push_repc" "msafe push_x0" "msafe push_x1" "msafe push_y1"
  "msafe (pusha_ax a)" "msafe (pusha_bx a)" "msafe (pop_register a)" "msafe (pop_abe a)"
  "msafe (pop_ar_arp_stt_mod a)" "msafe (pop_bx a)" "msafe pop_prpage" "msafe (pop_px a)"
  "msafe pop_r6" "msafe pop_repc" "msafe pop_x0" "msafe pop_x1" "msafe pop_y1" "msafe (popa a)"
  unfolding Let_def
    push_imm16_def push_register_def push_abe_def push_ar_arp_stt_mod_def push_prpage_def
    push_long_def push_px_def push_r6_def push_repc_def push_x0_def push_x1_def push_y1_def
    pusha_ax_def pusha_bx_def pop_register_def pop_abe_def pop_ar_arp_stt_mod_def pop_bx_def
    pop_prpage_def pop_px_def pop_r6_def pop_repc_def pop_x0_def pop_x1_def pop_y1_def popa_def
  by (rule sum_binds acc_binds safe_steps gives_basic | assumption | simp add: wf_simps)+

subsection \<open>Program memory\<close>

lemma keeps_program_memory [safe_steps]:
  "msafe (movd a b c d)" "msafe (movp_axl a b)" "msafe (movp_ax a b)" "msafe (movp_rn a b c d)"
  "msafe (movpdw a)"
  unfolding Let_def
    movd_def movp_axl_def movp_ax_def movp_rn_def movpdw_def
  by (rule sum_binds acc_binds safe_steps gives_basic | assumption | simp add: wf_simps)+

subsection \<open>Moves from registers\<close>

lemma keeps_moves_from_registers [safe_steps]:
  "msafe (mov_ab_ab a b)" "msafe (mov_dvm a)" "msafe (mov_x0 a)" "msafe (mov_x1 a)"
  "msafe (mov_y1 a)" "msafe (mov_ablh_mem_imm8 a b)" "msafe (mov_axl_mem_imm16 a b)"
  "msafe (mov_axl_mem_r7_imm16 a b)" "msafe (mov_axl_mem_r7_imm7s a b)"
  "msafe (mov_mem_imm16_ax a b)" "msafe (mov_mem_imm8_ab a b)" "msafe (mov_mem_imm8_ablh a b)"
  "msafe (mov_eu a b)" "msafe (mov_mem_imm8_rn_old a b)" "msafe (mov_sv_mem_imm8 a)"
  "msafe (mov_dvm_to a)" "msafe (mov_icr_to a)" "msafe (mov_imm16_bx a b)"
  "msafe (mov_imm16_register a b)" "msafe (mov_icr_imm5 a)" "msafe (mov_imm8s_axh a b)"
  "msafe (mov_imm8s_rn_old a b)" "msafe (mov_sv_imm8s a)" "msafe (mov_imm8_axl a b)"
  "msafe (mov_mem_r7_imm16_ax a b)" "msafe (mov_mem_r7_imm7s_ax a b)" "msafe (mov_rn_bx a b c)"
  "msafe (mov_rn_register a b c)" "msafe (mov_memsp_to a)" "msafe (mov_mixp_to_register a)"
  unfolding Let_def
    mov_ab_ab_def mov_dvm_def mov_x0_def mov_x1_def mov_y1_def mov_ablh_mem_imm8_def
    mov_axl_mem_imm16_def mov_axl_mem_r7_imm16_def mov_axl_mem_r7_imm7s_def
    mov_mem_imm16_ax_def mov_mem_imm8_ab_def mov_mem_imm8_ablh_def mov_eu_def
    mov_mem_imm8_rn_old_def mov_sv_mem_imm8_def mov_dvm_to_def mov_icr_to_def mov_imm16_bx_def
    mov_imm16_register_def mov_icr_imm5_def mov_imm8s_axh_def mov_imm8s_rn_old_def
    mov_sv_imm8s_def mov_imm8_axl_def mov_mem_r7_imm16_ax_def mov_mem_r7_imm7s_ax_def
    mov_rn_bx_def mov_rn_register_def mov_memsp_to_def mov_mixp_to_register_def
  by (rule sum_binds acc_binds safe_steps gives_basic | assumption | simp add: wf_simps)+

lemma keeps_moves_from_registers_2 [safe_steps]:
  "msafe (mov_rn_old_mem_imm8 a b)" "msafe (mov_icr_register a)" "msafe (mov_mixp_register a)"
  "msafe (mov_register_rn a b c)" "msafe (mov_register_bx a b)" "msafe (mov_register_register a b)"
  "msafe (mov_repc_to_ab a)" "msafe (mov_sv_to a)" "msafe (mov_x0_to a)" "msafe (mov_x1_to a)"
  "msafe (mov_y1_to a)" "msafe (mov_imm16_ar_arp a b)" "msafe (mov_r6_imm16 a)"
  "msafe (mov_repc_imm16 a)" "msafe (mov_stepi0_imm16 a)" "msafe (mov_stepj0_imm16 a)"
  "msafe (mov_imm16_stt_mod a b)" "msafe (mov_prpage_imm4 a)" "msafe mov_a0h_stepi0"
  "msafe mov_a0h_stepj0" "msafe mov_stepi0_a0h" "msafe mov_stepj0_a0h" "msafe (mov_prpage_abl a)"
  "msafe (mov_repc_abl a)" "msafe (mov_abl_ar_arp a b)" "msafe (mov_abl_stt_mod a b)"
  "msafe (mov_prpage_to_abl a)" "msafe (mov_repc_to_abl a)" "msafe (mov_ar_arp_abl a b)"
  "msafe (mov_stt_mod_abl a b)"
  unfolding Let_def
    mov_rn_old_mem_imm8_def mov_icr_register_def mov_mixp_register_def mov_register_rn_def
    mov_register_bx_def mov_register_register_def mov_repc_to_ab_def mov_sv_to_def
    mov_x0_to_def mov_x1_to_def mov_y1_to_def mov_imm16_ar_arp_def mov_r6_imm16_def
    mov_repc_imm16_def mov_stepi0_imm16_def mov_stepj0_imm16_def mov_imm16_stt_mod_def
    mov_prpage_imm4_def mov_a0h_stepi0_def mov_a0h_stepj0_def mov_stepi0_a0h_def
    mov_stepj0_a0h_def mov_prpage_abl_def mov_repc_abl_def mov_abl_ar_arp_def
    mov_abl_stt_mod_def mov_prpage_to_abl_def mov_repc_to_abl_def mov_ar_arp_abl_def
    mov_stt_mod_abl_def
  by (rule sum_binds acc_binds safe_steps gives_basic | assumption | simp add: wf_simps)+

subsection \<open>Moves through address registers\<close>

lemma keeps_moves_through_address_registers [safe_steps]:
  "msafe (mov_repc_to_ar_rn1 a b)" "msafe (mov_bus_to_ar n a b)" "msafe (mov_ar_arp_ar_rn1 a b c)"
  "msafe (mov_stt_mod_ar_rn1 a b c)" "msafe (mov_repc_ar_rn1 a b)"
  "msafe (mov_ar_rn1_ar_arp a b c)" "msafe (mov_ar_rn1_stt_mod a b c)"
  "msafe (mov_repc_to_mem_r7_imm16 a)" "msafe (mov_ar_arp_stt_mod_mem_r7_imm16 a b)"
  "msafe (mov_repc_mem_r7_imm16 a)" "msafe (mov_mem_r7_imm16_ar_arp_stt_mod a b)"
  "msafe (mov_pc_ax a)" "msafe (mov_pc_bx a)" "msafe (mov_mixp_to_bx a)" "msafe mov_mixp_r6"
  "msafe (mov_p0h_to_bx a)" "msafe mov_p0h_r6" "msafe (mov_p0h_to_register a)" "msafe (mov_p0 a)"
  "msafe (mov_p1_to a)"
  unfolding Let_def
    mov_repc_to_ar_rn1_def mov_bus_to_ar_def mov_ar_arp_ar_rn1_def mov_stt_mod_ar_rn1_def
    mov_repc_ar_rn1_def mov_ar_rn1_ar_arp_def mov_ar_rn1_stt_mod_def
    mov_repc_to_mem_r7_imm16_def mov_ar_arp_stt_mod_mem_r7_imm16_def mov_repc_mem_r7_imm16_def
    mov_mem_r7_imm16_ar_arp_stt_mod_def mov_pc_ax_def mov_pc_bx_def mov_mixp_to_bx_def
    mov_mixp_r6_def mov_p0h_to_bx_def mov_p0h_r6_def mov_p0h_to_register_def mov_p0_def
    mov_p1_to_def
  by (rule sum_binds acc_binds safe_steps gives_basic | assumption | simp add: wf_simps)+

subsection \<open>Pairs of words\<close>

lemma keeps_pairs_of_words [safe_steps]:
  "msafe (write_ar_pair a b c d)" "msafe (read_ar_pair a b)" "msafe (mov2_px_ar a b c)"
  "msafe (mov2s a b c)" "msafe (mov2_ar_px a b c)" "msafe (mova_ab_ar a b c)"
  "msafe (mova_ar_ab a b c)" "msafe (mov_r6_to_bx a)" "msafe mov_r6_mixp"
  "msafe (mov_r6_to_register a)" "msafe (mov_r6_register a)" "msafe mov_memsp_r6"
  "msafe (mov_r6_to_rn a b)" "msafe (mov_r6_rn a b)" "msafe (high_no_flag n)"
  "msafe (mov2_axh_m_y0_m a b c)"
  "msafe (mov2_ax_words u64Rightarrowu16_1 u64Rightarrowu16_2 s0 a b c d)"
  "msafe (mov2_ax_mij a b c d)" "msafe (mov2_ax_mji a b c d)" "msafe (mov2_words_ax s0 a b c d)"
  "msafe (mov2_mij_ax a b c d)" "msafe (mov2_mji_ax a b c d)" "msafe (mov2_abh_m a b c d)"
  "msafe (exchange_words s0 s1 a b c d)" "msafe (exchange_iaj a b c d)"
  "msafe (exchange_riaj a b c d)" "msafe (exchange_jai a b c d)" "msafe (exchange_rjai a b c d)"
  unfolding Let_def
    write_ar_pair_def read_ar_pair_def mov2_px_ar_def mov2s_def mov2_ar_px_def mova_ab_ar_def
    mova_ar_ab_def mov_r6_to_bx_def mov_r6_mixp_def mov_r6_to_register_def mov_r6_register_def
    mov_memsp_r6_def mov_r6_to_rn_def mov_r6_rn_def high_no_flag_def mov2_axh_m_y0_m_def
    mov2_ax_words_def mov2_ax_mij_def mov2_ax_mji_def mov2_words_ax_def mov2_mij_ax_def
    mov2_mji_ax_def mov2_abh_m_def exchange_words_def exchange_iaj_def exchange_riaj_def
    exchange_jai_def exchange_rjai_def
  by (rule sum_binds acc_binds safe_steps gives_basic | assumption | simp add: wf_simps)+

subsection \<open>Fixed extension registers\<close>

lemma keeps_fixed_extension_registers [safe_steps]:
  "msafe (mov_ext0 a)" "msafe (mov_ext1 a)" "msafe (mov_ext2 a)" "msafe (mov_ext3 a)"
  unfolding Let_def
    mov_ext0_def mov_ext1_def mov_ext2_def mov_ext3_def
  by (rule sum_binds acc_binds safe_steps gives_basic | assumption | simp add: wf_simps)+

subsection \<open>Repeats\<close>

lemma wf_repeats [wf_simps]:
  "regs_wf (set_sp a r) = regs_wf r"
  "regs_wf (repeat_next a r) = regs_wf r"
  unfolding set_sp_def repeat_next_def Let_def
  by (simp_all add: wf_simps)

lemma safe_with_ar_unit [safe_steps]:
  "(\<And>get put. (\<And>v r. regs_wf r \<Longrightarrow> regs_wf (put v r)) \<Longrightarrow> msafe (f get put)) \<Longrightarrow> msafe (with_ar_unit a f)"
  unfolding with_ar_unit_def by (rule acc_binds safe_steps gives_basic | assumption | simp add: wf_simps)+

lemma safe_break_loop [safe_steps]: "rsafe break_loop"
proof (rule step_givesI)
  fix r x r'
  assume r: "regs_wf r" and b: "break_loop r = Inr (x, r')"
  let ?n = "rg_bcn r"
  from b have lp: "rg_lp r \<noteq> 0"
    and r': "r' = r\<lparr>rg_bcn := ?n - 1, rg_lp := of_bool (?n - 1 \<noteq> 0)\<rparr>"
    by (auto simp: break_loop_def split: if_splits)
  have "?n \<noteq> 0" "?n \<le> 4"
    using lp wf_loops [OF r] by auto
  then have "?n - 1 \<le> 4"
    by (simp add: word_le_nat_alt unat_minus_one)
  then show "regs_wf r' \<and> True"
    unfolding r' using r by (intro conjI wf_set_loop) simp_all
qed

lemma keeps_repeats [safe_steps]:
  "msafe (bkrep_imm8 a b)" "msafe (bkrep_register a b c)" "msafe (bkrep_r6 a b)"
  "msafe (bkreprst a)" "msafe bkreprst_memsp" "msafe (bkrepsto a)" "msafe bkrepsto_memsp"
  "msafe break_instr" "msafe (rep_imm8 a)" "msafe (rep_register a)" "msafe rep_r6"
  unfolding Let_def
    bkrep_imm8_def bkrep_register_def bkrep_r6_def bkreprst_def bkreprst_memsp_def bkrepsto_def
    bkrepsto_memsp_def break_instr_def rep_imm8_def rep_register_def rep_r6_def
  by (rule sum_binds acc_binds safe_steps gives_basic | assumption | simp add: wf_simps)+

subsection \<open>Banks\<close>

lemma wf_apply_if [wf_simps]: "(\<And>r. regs_wf (f r) = regs_wf r) \<Longrightarrow> regs_wf (apply_if b f r) = regs_wf r"
  by (simp add: apply_if_def)

lemma wf_banks [wf_simps]:
  "regs_wf (banke_cfgi r) = regs_wf r"
  "regs_wf (banke_cfgj r) = regs_wf r"
  "regs_wf (banke_r4 r) = regs_wf r"
  "regs_wf (banke_r1 r) = regs_wf r"
  "regs_wf (banke_r0 r) = regs_wf r"
  "regs_wf (banke_r7 r) = regs_wf r"
  "regs_wf (bank_exchange_regs a r) = regs_wf r"
  unfolding banke_cfgi_def banke_cfgj_def banke_r4_def banke_r1_def banke_r0_def banke_r7_def
    bank_exchange_regs_def Let_def
  by (simp_all add: wf_simps)

lemma keeps_banks [safe_steps]:
  "msafe (banke a)" "msafe bankr" "msafe (bankr_ar a)" "msafe (bankr_ar_arp a b)"
  "msafe (bankr_arp a)"
  unfolding Let_def
    banke_def bankr_def bankr_ar_def bankr_ar_arp_def bankr_arp_def
  by (rule sum_binds acc_binds safe_steps gives_basic | assumption | simp add: wf_simps)+

subsection \<open>Modification of address registers\<close>

lemma wf_address_registers [wf_simps]:
  "regs_wf (reverse_rn i r) = regs_wf r"
  "regs_wf (set_br i a r) = regs_wf r"
  unfolding reverse_rn_def set_br_def Let_def
  by (simp_all add: wf_simps)

lemma keeps_modr [safe_steps]:
  "msafe (bitrev a)" "msafe (bitrev_dbrv a)" "msafe (bitrev_ebrv a)"
  "msafe (modify_unit i step_value_1 s0)" "msafe (modify_rn a step_value_1 s0)" "msafe (modr a b)"
  "msafe (modr_dmod a b)" "msafe (modr_i2 a)" "msafe (modr_i2_dmod a)" "msafe (modr_d2 a)"
  "msafe (modr_d2_dmod a)" "msafe (modify_arp s0 s1 a b c)" "msafe (modr_eemod a b c)"
  "msafe (modr_edmod a b c)" "msafe (modr_demod a b c)" "msafe (modr_ddmod a b c)"
  unfolding Let_def
    bitrev_def bitrev_dbrv_def bitrev_ebrv_def modify_unit_def modify_rn_def modr_def
    modr_dmod_def modr_i2_def modr_i2_dmod_def modr_d2_def modr_d2_dmod_def modify_arp_def
    modr_eemod_def modr_edmod_def modr_demod_def modr_ddmod_def
  by (rule sum_binds acc_binds safe_steps gives_basic | assumption | simp add: wf_simps)+

subsection \<open>Branches\<close>

lemma wf_branches [wf_simps]:
  "regs_wf (set_ie a r) = regs_wf r"
  unfolding set_ie_def Let_def
  by (simp_all add: wf_simps)

lemma keeps_branches [safe_steps]:
  "msafe (br a b c)" "msafe (brr a b)" "msafe (call a b c)" "msafe (calla_axl a)"
  "msafe (calla_ax a)" "msafe (callr a b)" "msafe cntx_s" "msafe cntx_r" "msafe (ret a)"
  "msafe retd" "msafe (reti a)" "msafe (retic a)" "msafe retid" "msafe retidc" "msafe (rets a)"
  "msafe dint" "msafe eint"
  unfolding Let_def
    br_def brr_def call_def calla_axl_def calla_ax_def callr_def cntx_s_def cntx_r_def ret_def
    retd_def reti_def retic_def retid_def retidc_def rets_def dint_def eint_def
  by (rule sum_binds acc_binds safe_steps gives_basic | assumption | simp add: wf_simps)+

subsection \<open>Undefined opcodes\<close>

lemma keeps_undefined_opcodes [safe_steps]:
  "msafe (undefined_instr a)"
  unfolding Let_def
    undefined_instr_def
  by (rule sum_binds acc_binds safe_steps gives_basic | assumption | simp add: wf_simps)+

section \<open>The instruction table\<close>

lemma mt_fn_inst: "mt_fn (inst e ops f) opcode expansion =
    f (\<lambda>k. operand_extract (filter pass_as_parameter ops ! k) opcode expansion)"
  by (simp add: inst_def Let_def)

lemma mt_fn_except: "mt_fn (except_const n pos v m) = mt_fn m"
  by (simp add: except_const_def except_matcher_def)

definition table_safe :: "'x instr matcher list \<Rightarrow> bool" where
  "table_safe ms \<longleftrightarrow> (\<forall>m \<in> set ms. \<forall>opcode expansion. msafe (mt_fn m opcode expansion))"

lemma table_safe_Nil: "table_safe []"
  and table_safe_Cons: "(\<And>opcode expansion. msafe (mt_fn m opcode expansion)) \<Longrightarrow> table_safe ms \<Longrightarrow> table_safe (m # ms)"
  and table_safe_append: "table_safe ms \<Longrightarrow> table_safe ns \<Longrightarrow> table_safe (ms @ ns)"
  by (auto simp: table_safe_def)

lemma safe_entry:
  "(\<And>x. msafe (f x)) \<Longrightarrow> msafe (mt_fn (inst e ops f) opcode expansion)"
  "msafe (mt_fn m opcode expansion) \<Longrightarrow> msafe (mt_fn (except_const n pos v m) opcode expansion)"
  by (simp_all add: mt_fn_inst mt_fn_except)

text \<open>The two loads of the product shift rely on the width of their operand.\<close>

lemma safe_load_entries:
  assumes "p < 16"
  shows "msafe (mt_fn (inst e [At 2 p] (\<lambda>x. load_ps (x 0))) opcode expansion)"
    "msafe (mt_fn (inst e [At 4 p] (\<lambda>x. load_ps01 (x 0))) opcode expansion)"
proof -
  have "at_extract 2 p opcode expansion < 4" "at_extract 4 p opcode expansion < 16"
    using assms at_extract_below [of p 2 opcode expansion] at_extract_below [of p 4 opcode expansion]
    by (simp_all add: word_less_nat_alt)
  then show "msafe (mt_fn (inst e [At 2 p] (\<lambda>x. load_ps (x 0))) opcode expansion)"
    "msafe (mt_fn (inst e [At 4 p] (\<lambda>x. load_ps01 (x 0))) opcode expansion)"
    by (simp_all add: mt_fn_inst safe_load_ps safe_load_ps01)
qed

lemma tables_safe:
  "table_safe misc_table" "table_safe alm_table" "table_safe alu_table" "table_safe or_table"
  "table_safe alb_table" "table_safe add_table" "table_safe mul_table" "table_safe moda_table"
  "table_safe bkrep_table" "table_safe bank_table" "table_safe branch_table"
  "table_safe load_table" "table_safe stack_table" "table_safe shift_table"
  "table_safe bit_test_table" "table_safe modr_table" "table_safe mov_table"
  "table_safe mov_status_table" "table_safe mov2_table" "table_safe viterbi_table"
  "table_safe minmax_table" "table_safe cmp_table" "table_safe cbs_table"
  "table_safe mma_table" "table_safe mma_mov_table" "table_safe addhp_table"
  unfolding misc_table_def alm_table_def alu_table_def or_table_def alb_table_def add_table_def
    mul_table_def moda_table_def bkrep_table_def bank_table_def branch_table_def load_table_def
    stack_table_def shift_table_def bit_test_table_def modr_table_def mov_table_def
    mov_status_table_def mov2_table_def viterbi_table_def minmax_table_def cmp_table_def
    cbs_table_def mma_table_def mma_mov_table_def addhp_table_def
  by (rule table_safe_Nil table_safe_Cons safe_load_entries safe_entry safe_steps
      | simp; fail)+

end
