(* ===== verification/Run_Invariant.thy ===== *)
theory Run_Invariant
  imports Instr_Invariant
begin

unbundle bit_operations_syntax

text \<open>
  The invariant of the machine over whole runs: decoding returns an instruction that keeps it, so a
  cycle keeps it, and so does Teakra::Run for any number of cycles; Teakra::Reset establishes it.
\<close>

section \<open>A cycle\<close>

lemma safe_tick: "msafe (sys_action system_tick)"
  by (rule safe_sys_action) (rule system_tick_keeps)

lemma decode_table_safe: "table_safe decode_table"
  unfolding decode_table_def by (simp add: tables_safe table_safe_append table_safe_Nil)

lemma decode_safe:
  fixes m :: "'x instr matcher"
  assumes d: "decode w = Inr m"
  shows "msafe (mt_fn m opcode expansion)"
proof -
  have "m \<in> set decode_table \<or> m = all_matcher (\<lambda>opcode _. undefined_instr opcode)"
  proof (cases "dropWhile (\<lambda>m. \<not> matches m w) (decode_table :: 'x instr matcher list)")
    case Nil
    then show ?thesis
      using d unfolding decode_def decode_in_def Nil by simp
  next
    case (Cons a ms)
    then have "a \<in> set decode_table"
      using set_dropWhileD [of a "\<lambda>m. \<not> matches m w" "decode_table :: 'x instr matcher list"] by simp
    then show ?thesis
      using d unfolding decode_def decode_in_def Cons by (simp split: if_splits)
  qed
  then show ?thesis
    using decode_table_safe by (auto simp: table_safe_def all_matcher_def safe_steps)
qed

lemma safe_fetch_word: "msafe fetch_word"
  unfolding fetch_word_def by (rule safe_steps gives_basic | simp add: wf_simps)+

lemma gives_instruction: "step_gives machine_wf fetch_instruction msafe"
  unfolding fetch_instruction_def
  by (rule gives_sbind_any [OF safe_fetch_word] gives_sbind [where B = "\<lambda>m. \<forall>opcode expansion. msafe (mt_fn m opcode expansion)"]
      gives_sbind_any [OF gives_if] gives_squery gives_sreturn safe_fetch_word | simp add: call_matcher_def gives_sfail decode_safe)+

lemma safe_latch: "msafe latch_interrupts"
  unfolding latch_interrupts_def
  by (rule gives_supd) (auto simp: machine_wf_def Let_def regs_wf_defs)

lemma wf_step_rep: "regs_wf r \<Longrightarrow> regs_wf (step_rep r)"
  by (simp add: step_rep_def wf_simps)

lemma safe_step_block_repeat: "rsafe step_block_repeat"
proof -
  have pop: "regs_wf (r\<lparr>rg_bcn := rg_bcn r - 1, rg_lp := 1\<rparr>)"
    if "regs_wf r" "rg_lp r \<noteq> 0" "rg_bcn r \<noteq> 1" for r
  proof -
    have "rg_bcn r \<noteq> 0" "rg_bcn r \<le> 4"
      using that wf_loops [of r] by auto
    then have "rg_bcn r - 1 \<le> 4"
      by (simp add: word_le_nat_alt unat_minus_one)
    then show ?thesis
      using that(1,3) by (intro wf_set_loop) simp_all
  qed
  have "regs_wf (r\<lparr>rg_bcn := 0, rg_lp := 0\<rparr>)" if "regs_wf r" for r
    using that by (simp add: regs_wf_defs)
  then show ?thesis
    using pop by (intro step_givesI)
      (auto simp: step_block_repeat_def rbind_Inr_iff swhen_if wf_simps split: if_splits)
qed

lemma safe_enter_interrupt: "msafe (enter_interrupt i)"
  unfolding enter_interrupt_def
  by (rule safe_steps gives_basic | simp add: wf_simps)+

lemma safe_enter_vectored: "msafe enter_vectored_interrupt"
  unfolding enter_vectored_interrupt_def
  by (rule safe_steps gives_basic | simp add: wf_simps machine_wf_def)+

lemma safe_take_interrupt: "msafe take_interrupt"
  unfolding take_interrupt_def
  by (rule safe_enter_interrupt safe_enter_vectored safe_steps gives_basic | simp)+

lemma safe_run_cycle: "msafe run_cycle"
  unfolding run_cycle_def
  by (rule gives_sbind_any [OF safe_latch] gives_sbind [OF gives_instruction] gives_sseq_Nil gives_sseq_Cons
      safe_rupd wf_step_rep gives_on_regs safe_step_block_repeat safe_take_interrupt
      safe_tick | assumption)+

section \<open>The loop\<close>

lemma safe_skip_time: "msafe (skip_time m)"
proof (rule step_givesI)
  fix s n s'
  assume s: "machine_wf s" and r: "skip_time m s = Inr (n, s')"
  then obtain t out u where "system_skip m (mc_sys s) = Inr (n, t, out)"
    "deliver_signals out (s\<lparr>mc_sys := t\<rparr>) = Inr (u, s')"
    by (auto simp: skip_time_def rbind_Inr_iff)
  moreover have "machine_wf (s\<lparr>mc_sys := t\<rparr>)"
    using s system_skip_keeps calculation(1) by (auto simp: machine_wf_def)
  ultimately show "machine_wf s' \<and> True"
    using step_givesD [OF safe_deliver_signals] by blast
qed

lemma safe_idle_time: "msafe (idle_time n)"
  unfolding idle_time_def
  by (rule safe_skip_time safe_tick gives_basic | assumption | simp)+

lemma safe_run_cycles: "msafe (run_cycles n)"
proof (rule step_givesI)
  fix s x s'
  show "machine_wf s \<Longrightarrow> run_cycles n s = Inr (x, s') \<Longrightarrow> machine_wf s' \<and> True"
  proof (induction n s rule: run_cycles.induct)
    case (1 n s)
    show ?case
    proof (cases "n = 0")
      case True
      with 1 show ?thesis by (simp add: run_cycles.simps [of 0])
    next
      case False
      with "1.prems"(2) obtain k s1 u s2 where
        *: "idle_time n s = Inr (k, s1)" "run_cycle s1 = Inr (u, s2)" "run_cycles (n - k - 1) s2 = Inr (x, s')"
        by (auto simp: run_cycles.simps [of n s] split: sum.splits)
      have "machine_wf s2"
        using step_givesD [OF safe_idle_time "1.prems"(1) *(1)] step_givesD [OF safe_run_cycle _ *(2)] by simp
      with "1.IH" [OF False *(1) refl *(2) refl] *(3) show ?thesis by simp
    qed
  qed
qed

lemma safe_teakra_run: "msafe (teakra_run n)"
  unfolding teakra_run_def interpreter_run_def
  by (rule safe_run_cycles gives_basic | simp)+

definition machine_example :: "(u32 \<Rightarrow> u8) machine" where
  "machine_example = \<lparr>mc_regs = registers_reset, mc_sys = system_example, mc_bus = byte_bus,
     mc_interrupt_pending = [False, False, False], mc_vinterrupt_pending = False,
     mc_vinterrupt_context_switch = False, mc_vinterrupt_address = 0, mc_idle = False, mc_out = []\<rparr>"

lemma registers_reset_wf: "regs_wf registers_reset"
  by (simp add: regs_wf_def registers_reset_ok)
    (simp add: registers_reset_def accs_ok_def indirect_ok_def loops_ok_def shifts_ok_def all_below_def
      ar_shadow_below_def ar_shadow_initial_def swap_shadows_initial_def acc40_numerals)

lemma machine_example_wf: "machine_wf machine_example"
  by (simp add: machine_wf_def machine_example_def registers_reset_wf system_example_ok)

text \<open>
  C1: The machine keeps its shape: whatever program the DSP runs, for any number of cycles, a run that
  returns leaves every register array at its size, every accumulator (the saved ones too) sign-extended
  from its 40 bits, the configured address registers, steps, offsets and product shifts within
  the ranges their uses index with, the number of nested block repeats at most four and zero
  exactly when the loop flag is clear, and the invariant of the peripherals intact.
\<close>

theorem run_keeps_machine:
  assumes "machine_wf s"
  shows "case teakra_run cycles s of Inl e \<Rightarrow> True | Inr (u, s') \<Rightarrow> machine_wf s'"
  using step_givesD [OF safe_teakra_run assms] by (auto split: sum.split)

lemma run_keeps_machine_witness:
  "case teakra_run 3 machine_example of Inl e \<Rightarrow> True | Inr (u, s') \<Rightarrow> machine_wf s'"
  by (rule run_keeps_machine [OF machine_example_wf])

end
