(* ===== verification/Loops.thy ===== *)
theory Loops
  imports Run_Invariant
begin

unbundle bit_operations_syntax

text \<open>
  The hardware loops of src/src/interpreter.h: the nested block repeats kept in an array of four frames
  with a counter and a flag refine a bounded stack of loops, and both kinds of repeat run their
  instructions the requested number of times.
\<close>

section \<open>The stack of loops\<close>

text \<open>
  What the block repeat promises: a list of the active loops, outermost first, of at most four. The
  innermost loop is the one that turns.
\<close>

definition loop_enter :: "block_repeat_frame \<Rightarrow> block_repeat_frame list \<Rightarrow> block_repeat_frame list result" where
  "loop_enter f fs = (if length fs < 4 then Inr (fs @ [f]) else Inl Abort)"

definition loop_leave :: "block_repeat_frame list \<Rightarrow> block_repeat_frame list result" where
  "loop_leave fs = (if fs = [] then Inl Abort else Inr (butlast fs))"

text \<open>A turn at the address the next instruction would come from; the value is where it does come from.\<close>

definition loop_turn :: "u32 \<Rightarrow> block_repeat_frame list \<Rightarrow> u32 \<times> block_repeat_frame list" where
  "loop_turn pc fs =
     (if fs = [] then (pc, fs)
      else let f = last fs in
        if fr_end f + 1 \<noteq> pc then (pc, fs)
        else if fr_lc f = 0 then (pc, butlast fs)
        else (fr_start f, butlast fs @ [f\<lparr>fr_lc := fr_lc f - 1\<rparr>]))"

definition loops_of :: "registers \<Rightarrow> block_repeat_frame list" where
  "loops_of r = take (unat (rg_bcn r)) (rg_bkrep_stack r)"

definition result_map :: "('a \<Rightarrow> 'b) \<Rightarrow> 'a result \<Rightarrow> 'b result" where
  "result_map f x = rbind x (\<lambda>y. Inr (f y))"

lemma result_map_simps [simp]:
  "result_map f (Inl e) = Inl e" "result_map f (Inr x) = Inr (f x)"
  by (simp_all add: result_map_def)

section \<open>The refinement\<close>

lemma wf_count:
  assumes "regs_wf r"
  shows "unat (rg_bcn r) \<le> 4" "length (rg_bkrep_stack r) = 4" "length (loops_of r) = unat (rg_bcn r)"
    "rg_lp r = 0 \<longleftrightarrow> loops_of r = []"
proof -
  show *: "unat (rg_bcn r) \<le> 4" "length (rg_bkrep_stack r) = 4"
    using wf_loops(1) [OF assms] wf_frames_length [OF assms] by (simp_all add: word_le_nat_alt)
  then show "length (loops_of r) = unat (rg_bcn r)"
    by (simp add: loops_of_def)
  then have "loops_of r = [] \<longleftrightarrow> rg_bcn r = 0"
    by (metis length_0_conv unat_eq_zero)
  then show "rg_lp r = 0 \<longleftrightarrow> loops_of r = []"
    using wf_loops(2) [OF assms] by simp
qed

lemma take_Suc_update: "n < length xs \<Longrightarrow> take (Suc n) (xs[n := x]) = take n xs @ [x]"
  by (simp add: take_Suc_conv_app_nth)

lemma unat_Suc4: "unat (n :: u16) < 4 \<Longrightarrow> unat (n + 1) = Suc (unat n)"
  by (simp add: unat_word_ariths)

lemma block_repeat_refines:
  assumes "regs_wf r"
  shows "result_map (loops_of \<circ> snd) (block_repeat lc address r) =
    loop_enter \<lparr>fr_start = rg_pc r, fr_end = address, fr_lc = lc\<rparr> (loops_of r)"
proof -
  have "rg_bcn r \<le> 3 \<longleftrightarrow> unat (rg_bcn r) < 4"
    unfolding word_le_nat_alt by simp arith
  then show ?thesis
    using wf_count [OF assms]
    by (auto simp: block_repeat_def loop_enter_def loops_of_def put_frame_def unat_Suc4 take_Suc_update
        simp del: take_Suc)
qed

lemma break_refines:
  assumes "regs_wf r"
  shows "result_map (loops_of \<circ> snd) (break_loop r) = loop_leave (loops_of r)"
proof (cases "loops_of r = []")
  case True
  then show ?thesis
    using wf_count(4) [OF assms] by (simp add: break_loop_def loop_leave_def)
next
  case False
  then have "rg_bcn r \<noteq> 0"
    using wf_count(3) [OF assms] by auto
  then have n: "unat (rg_bcn r - 1) = unat (rg_bcn r) - 1"
    by (rule unat_minus_one)
  have "butlast (take (unat (rg_bcn r)) (rg_bkrep_stack r)) = take (unat (rg_bcn r) - 1) (rg_bkrep_stack r)"
    using wf_count [OF assms] by (simp add: butlast_take)
  then show ?thesis
    using False wf_count(4) [OF assms] n by (simp add: break_loop_def loop_leave_def loops_of_def)
qed

lemma turn_refines:
  assumes "regs_wf r"
  shows "result_map (\<lambda>(u, r'). (rg_pc r', loops_of r')) (step_block_repeat r) =
    Inr (loop_turn (rg_pc r) (loops_of r))"
proof (cases "loops_of r = []")
  case True
  then show ?thesis
    using wf_count(4) [OF assms] by (simp add: step_block_repeat_def loop_turn_def)
next
  case False
  let ?n = "unat (rg_bcn r)"
  have lp: "rg_lp r \<noteq> 0" and nz: "rg_bcn r \<noteq> 0" and le: "?n \<le> 4" and len: "length (rg_bkrep_stack r) = 4"
    using False wf_count [OF assms] by auto
  have pos: "0 < ?n"
    using nz by (simp add: unat_gt_0)
  have n: "unat (rg_bcn r - 1) = ?n - 1"
    using nz by (rule unat_minus_one)
  have "lc_index r = ?n - 1"
  proof -
    have "unat (ucast (rg_bcn r) :: u64) = ?n"
      using unat_lt_2p16 [of "rg_bcn r"] by (simp add: unsigned_ucast_eq take_bit_nat_eq_self)
    moreover from this pos have "(ucast (rg_bcn r) :: u64) \<noteq> 0"
      by (metis less_numeral_extra(3) unat_0)
    ultimately show ?thesis
      using lp by (simp add: lc_index_def unat_minus_one)
  qed
  moreover have "last (take ?n (rg_bkrep_stack r)) = rg_bkrep_stack r ! (?n - 1)"
    using pos le len by (subst last_conv_nth) auto
  ultimately have top: "frame_at (lc_index r) r = Inr (last (loops_of r))"
    using pos le len by (simp add: frame_at_def loops_of_def)
  have bl: "butlast (take ?n (rg_bkrep_stack r)) = take (?n - 1) (rg_bkrep_stack r)"
    using le len by (simp add: butlast_take)
  have up: "take ?n ((rg_bkrep_stack r)[?n - 1 := f]) = take (?n - 1) (rg_bkrep_stack r) @ [f]" for f
    using pos le len take_Suc_update [of "?n - 1" "rg_bkrep_stack r" f] by simp
  show ?thesis
    using False lp top bl up n \<open>lc_index r = ?n - 1\<close>
    by (auto simp: step_block_repeat_def loop_turn_def Let_def loops_of_def put_frame_def)
qed

definition loop_save :: "block_repeat_frame list \<Rightarrow> block_repeat_frame list result" where
  "loop_save fs = (if fs = [] then Inl OutOfBounds else Inr (tl fs))"

lemma inner_refines:
  assumes "regs_wf r"
  shows "result_map (loops_of \<circ> snd) (inner_frames r) = loop_save (loops_of r)"
proof (cases "loops_of r = []")
  case True
  then have "rg_bcn r = 0"
    using wf_count(3) [OF assms] by (simp add: unat_eq_zero)
  with True show ?thesis
    by (simp add: inner_frames_def loop_save_def)
next
  case False
  let ?n = "unat (rg_bcn r)"
  have c: "?n \<le> 4" "length (rg_bkrep_stack r) = 4" "rg_bcn r \<noteq> 0" "rg_bcn r \<le> 4"
    using False wf_count [OF assms] wf_loops(1) [OF assms] by auto
  have n: "unat (rg_bcn r - 1) = ?n - 1"
    using c(3) by (rule unat_minus_one)
  have "take (?n - 1) (frames_up ?n (rg_bkrep_stack r)) = tl (take ?n (rg_bkrep_stack r))"
    using c(1,2) by (simp add: frames_up_def tl_take drop_Suc)
  then show ?thesis
    using False c n by (auto simp: inner_frames_def loop_save_def loops_of_def not_less)
qed

text \<open>
  C4: The block repeat of the interpreter implements a bounded stack of loops. Seen through the frames
  in use, entering a loop pushes a frame or aborts when four are active; break pops the innermost
  loop or aborts when there is none; storing a loop removes the outermost one; and the test at
  the end of an instruction is one turn of the innermost loop: it goes back to the start while
  the count lasts, with one turn less to go, and leaves the loop after it.
\<close>

theorem block_repeat_refines_stack:
  assumes "regs_wf r"
  shows "result_map (loops_of \<circ> snd) (block_repeat lc address r) =
      loop_enter \<lparr>fr_start = rg_pc r, fr_end = address, fr_lc = lc\<rparr> (loops_of r)
    \<and> result_map (loops_of \<circ> snd) (break_loop r) = loop_leave (loops_of r)
    \<and> result_map (loops_of \<circ> snd) (inner_frames r) = loop_save (loops_of r)
    \<and> result_map (\<lambda>(u, r'). (rg_pc r', loops_of r')) (step_block_repeat r) =
      Inr (loop_turn (rg_pc r) (loops_of r))"
  by (intro conjI block_repeat_refines [OF assms] break_refines [OF assms] inner_refines [OF assms]
      turn_refines [OF assms])

lemma block_repeat_refines_stack_witness:
  "result_map (loops_of \<circ> snd) (block_repeat 2 0x120 registers_reset) =
      loop_enter \<lparr>fr_start = rg_pc registers_reset, fr_end = 0x120, fr_lc = 2\<rparr> (loops_of registers_reset)
    \<and> result_map (loops_of \<circ> snd) (break_loop registers_reset) = loop_leave (loops_of registers_reset)
    \<and> result_map (loops_of \<circ> snd) (inner_frames registers_reset) = loop_save (loops_of registers_reset)
    \<and> result_map (\<lambda>(u, r'). (rg_pc r', loops_of r')) (step_block_repeat registers_reset) =
      Inr (loop_turn (rg_pc registers_reset) (loops_of registers_reset))"
  by (rule block_repeat_refines_stack [OF registers_reset_wf])

section \<open>The clock at the end of a cycle\<close>

text \<open>
  Delivering the events of a tick reaches the interrupt controller and the pending interrupts only,
  so with components that are in order the tick returns and leaves the registers as they are.
\<close>

lemma deliver_effect:
  assumes "deliver e s = (s', out)" and "icu_shape (sys_icu s)"
  shows "sys_memory s' = sys_memory s \<and> clock_components s' = clock_components s \<and>
    icu_shape (sys_icu s') \<and> (\<forall>i. ToProcessor (OnInterrupt i) \<in> set out \<longrightarrow> i < 3)"
proof -
  have raised: ?thesis if r: "raise_irq irq s = (s', out)" and i: "irq < 16" for irq
  proof -
    let ?c = "fst (icu_trigger_single irq (sys_icu s))"
    have "s' = s\<lparr>sys_icu := ?c\<rparr>" and "out = map ToProcessor (icu_route (sys_icu s) irq)"
      using r icu_trigger_single_events [OF i, of "sys_icu s"] by (auto simp: raise_irq_def split: prod.splits)
    moreover have "icu_shape ?c"
      by (simp add: icu_trigger_single_def icu_shape_ops assms(2))
    moreover have "\<forall>k. OnInterrupt k \<in> set (icu_route (sys_icu s) irq) \<longrightarrow> k < 3"
      using assms(2) by (simp add: icu_route_interrupt icu_shape_def)
    ultimately show ?thesis
      by (auto simp: clock_components_def)
  qed
  show ?thesis
    using assms(1)
  proof (cases "(e, s)" rule: deliver.cases)
    case (1 i e s)
    then show ?thesis using assms raised by (simp add: timer_irq_def split: if_splits)
  next
    case (2 i s)
    then show ?thesis using assms raised by (simp add: btdmp_irq_def split: if_splits)
  next
    case (3 i v s)
    then show ?thesis using assms by auto
  qed
qed

lemma deliver_all_effect:
  "deliver_all es s = (s', out) \<Longrightarrow> icu_shape (sys_icu s) \<Longrightarrow>
    sys_memory s' = sys_memory s \<and> clock_components s' = clock_components s \<and>
    icu_shape (sys_icu s') \<and> (\<forall>i. ToProcessor (OnInterrupt i) \<in> set out \<longrightarrow> i < 3)"
proof (induction es arbitrary: s s' out)
  case (Cons e es)
  obtain s1 o1 where 1: "deliver e s = (s1, o1)" by fastforce
  obtain s2 o2 where 2: "deliver_all es s1 = (s2, o2)" by fastforce
  from deliver_effect [OF 1 Cons.prems(2)] Cons.IH [OF 2] 1 2 Cons.prems(1) show ?case
    by auto
qed auto

lemma deliver_signals_total:
  "\<forall>i. ToProcessor (OnInterrupt i) \<in> set out \<longrightarrow> i < length (mc_interrupt_pending s) \<Longrightarrow>
   \<exists>s'. deliver_signals out s = Inr ((), s') \<and> mc_regs s' = mc_regs s \<and> mc_sys s' = mc_sys s \<and>
     mc_idle s' = mc_idle s"
proof (induction out arbitrary: s)
  case Nil
  show ?case by (simp add: deliver_signals_def)
next
  case (Cons e out)
  have "\<exists>s1. deliver_signal e s = Inr ((), s1) \<and> mc_regs s1 = mc_regs s \<and> mc_sys s1 = mc_sys s \<and>
      mc_idle s1 = mc_idle s \<and> length (mc_interrupt_pending s1) = length (mc_interrupt_pending s)"
    using Cons.prems
    by (cases e rule: deliver_signal.cases) (auto simp: signal_interrupt_def signal_vectored_interrupt_def)
  then obtain s1 where s1: "deliver_signal e s = Inr ((), s1)" "mc_regs s1 = mc_regs s" "mc_sys s1 = mc_sys s"
      "mc_idle s1 = mc_idle s" "length (mc_interrupt_pending s1) = length (mc_interrupt_pending s)"
    by blast
  with Cons.IH [of s1] Cons.prems show ?case
    by (simp add: deliver_signals_def)
qed

lemma clock_ok_components: "clock_ok s \<longleftrightarrow> (\<forall>c \<in> set (clock_components s). component_ok c)"
  by (simp add: clock_ok_def clock_components_def ball_Un)

lemma tick_total:
  assumes "machine_wf s" and "clock_ok (mc_sys s)"
  shows "\<exists>s'. sys_action system_tick s = Inr ((), s') \<and> mc_regs s' = mc_regs s \<and> mc_idle s' = mc_idle s \<and>
    clock_ok (mc_sys s') \<and> sys_memory (mc_sys s') = sys_memory (mc_sys s)"
proof -
  let ?t = "mc_sys s"
  obtain cs es where cs: "core_tick component_callbacks (clock_components ?t) = Inr (cs, es)"
      "\<forall>c \<in> set cs. component_ok c"
    using component_clock.core_tick_ok assms(2) unfolding clock_ok_components by blast
  obtain t out where t: "deliver_all es (store_components cs ?t) = (t, out)"
    by fastforce
  have "icu_shape (sys_icu (store_components cs ?t))"
    using assms(1) by (simp add: store_components_def machine_wf_def sys_ok_def)
  from deliver_all_effect [OF t this] clock_components_store [OF core_tick_kind [OF cs(1)]]
  have e: "sys_memory t = sys_memory ?t" "clock_components t = cs"
      "\<forall>i. ToProcessor (OnInterrupt i) \<in> set out \<longrightarrow> i < 3"
    by (simp_all add: store_components_def)
  moreover have "length (mc_interrupt_pending (s\<lparr>mc_sys := t\<rparr>)) = 3"
    using assms(1) by (simp add: machine_wf_def)
  ultimately obtain s' where "deliver_signals out (s\<lparr>mc_sys := t\<rparr>) = Inr ((), s')" "mc_regs s' = mc_regs s"
      "mc_sys s' = t" "mc_idle s' = mc_idle s"
    using deliver_signals_total [of out "s\<lparr>mc_sys := t\<rparr>"] by auto
  with cs t e show ?thesis
    by (simp add: sys_action_def system_tick_def clock_ok_components)
qed

section \<open>A cycle inside a loop\<close>

text \<open>
  What the cycle does before the instruction executes, once the instruction is fetched; the
  registers that decide what the next cycle fetches; and the instructions that can stand in a
  loop: of one word, and in the state the cycle prepares for them they return, leave those
  registers alone and leave the clocked components in order.
\<close>

definition prepare_cycle :: "'x instr" where
  "prepare_cycle = sseq [
     latch_interrupts,
     rupd (\<lambda>r. r\<lparr>rg_pc := rg_pc r + 1\<rparr>),
     rupd step_rep,
     on_regs step_block_repeat]"

definition control_of :: "registers \<Rightarrow> u32 \<times> bool \<times> u16 \<times> block_repeat_frame list \<times> u16" where
  "control_of r = (rg_pc r, rg_rep r, rg_repc r, loops_of r, rg_ie r)"

definition word_at_pc :: "'x machine \<Rightarrow> u16 result" where
  "word_at_pc s =
     program_read (rg_pc (mc_regs s) OR push_bit 18 (ucast (rg_prpage (mc_regs s)))) (sys_memory (mc_sys s))"

definition inline_at :: "'x machine \<Rightarrow> bool" where
  "inline_at s \<longleftrightarrow> (\<exists>w (m :: 'x instr matcher). word_at_pc s = Inr w \<and> decode w = Inr m \<and> \<not> mt_expanded m \<and>
     (\<forall>s1. prepare_cycle s = Inr ((), s1) \<longrightarrow>
        (\<exists>s2. call_matcher (sfail Abort) m w 0 s1 = Inr ((), s2) \<and>
           control_of (mc_regs s2) = control_of (mc_regs s1) \<and> mc_idle s2 = mc_idle s1 \<and>
           clock_ok (mc_sys s2))))"

text \<open>The control registers after the cycle: the repeat decides first, then the innermost loop.\<close>

definition next_control :: "registers \<Rightarrow> u32 \<times> bool \<times> u16 \<times> block_repeat_frame list \<times> u16" where
  "next_control r =
     (let q = step_rep (r\<lparr>rg_pc := rg_pc r + 1\<rparr>); (pc, fs) = loop_turn (rg_pc q) (loops_of r)
      in (pc, rg_rep q, rg_repc q, fs, rg_ie r))"

definition in_order :: "'x machine \<Rightarrow> bool" where
  "in_order s \<longleftrightarrow> machine_wf s \<and> clock_ok (mc_sys s) \<and> rg_ie (mc_regs s) = 0 \<and> \<not> mc_idle s"

lemma step_block_repeat_control:
  assumes "regs_wf r"
  obtains r' where "step_block_repeat r = Inr ((), r')" "regs_wf r'"
    "(rg_pc r', loops_of r') = loop_turn (rg_pc r) (loops_of r)"
    "rg_rep r' = rg_rep r" "rg_repc r' = rg_repc r" "rg_ie r' = rg_ie r" "rg_prpage r' = rg_prpage r"
proof -
  obtain r' where r': "step_block_repeat r = Inr ((), r')"
      "(rg_pc r', loops_of r') = loop_turn (rg_pc r) (loops_of r)"
    using turn_refines [OF assms] by (cases "step_block_repeat r") auto
  moreover have "rg_rep r' = rg_rep r \<and> rg_repc r' = rg_repc r \<and> rg_ie r' = rg_ie r \<and>
      rg_prpage r' = rg_prpage r"
    using r'(1) by (auto simp: step_block_repeat_def rbind_Inr_iff swhen_if put_frame_def split: if_splits)
  moreover have "regs_wf r'"
    using step_givesD [OF safe_step_block_repeat assms r'(1)] by simp
  ultimately show thesis
    using that by blast
qed

lemma prepare_cycle_control:
  assumes "in_order s"
  obtains s1 where "prepare_cycle s = Inr ((), s1)" "machine_wf s1" "control_of (mc_regs s1) = next_control (mc_regs s)"
    "mc_idle s1 = mc_idle s" "mc_sys s1 = mc_sys s" "rg_prpage (mc_regs s1) = rg_prpage (mc_regs s)"
proof -
  obtain s0 where s0: "latch_interrupts s = Inr ((), s0)" "mc_sys s0 = mc_sys s" "mc_idle s0 = mc_idle s"
      "rg_prpage (mc_regs s0) = rg_prpage (mc_regs s)" "control_of (mc_regs s0) = control_of (mc_regs s)"
    by (simp add: latch_interrupts_def Let_def control_of_def loops_of_def)
  let ?q = "step_rep ((mc_regs s0)\<lparr>rg_pc := rg_pc (mc_regs s0) + 1\<rparr>)"
  have wf: "machine_wf s0"
    using step_givesD [OF safe_latch _ s0(1)] assms by (simp add: in_order_def)
  then have "regs_wf ?q"
    by (intro wf_step_rep) (simp add: machine_wf_def wf_simps)
  from step_block_repeat_control [OF this] obtain r' where r': "step_block_repeat ?q = Inr ((), r')" "regs_wf r'"
      "(rg_pc r', loops_of r') = loop_turn (rg_pc ?q) (loops_of ?q)"
      "rg_rep r' = rg_rep ?q" "rg_repc r' = rg_repc ?q" "rg_ie r' = rg_ie ?q" "rg_prpage r' = rg_prpage ?q"
    by blast
  have q: "loops_of ?q = loops_of (mc_regs s)" "rg_ie ?q = rg_ie (mc_regs s)"
      "rg_pc ?q = rg_pc (step_rep ((mc_regs s)\<lparr>rg_pc := rg_pc (mc_regs s) + 1\<rparr>))"
      "rg_rep ?q = rg_rep (step_rep ((mc_regs s)\<lparr>rg_pc := rg_pc (mc_regs s) + 1\<rparr>))"
      "rg_repc ?q = rg_repc (step_rep ((mc_regs s)\<lparr>rg_pc := rg_pc (mc_regs s) + 1\<rparr>))"
    using s0(5) by (auto simp: step_rep_def control_of_def loops_of_def)
  have page: "rg_prpage ?q = rg_prpage (mc_regs s)"
    using s0(4) by (simp add: step_rep_def)
  have "prepare_cycle s = Inr ((), s0\<lparr>mc_regs := r'\<rparr>)"
    using s0(1) r'(1) by (simp add: prepare_cycle_def rupd_def on_regs_def)
  moreover have "control_of r' = next_control (mc_regs s)"
    using r'(3-6) q by (auto simp: control_of_def next_control_def Let_def split: prod.splits)
  ultimately show thesis
    using that [of "s0\<lparr>mc_regs := r'\<rparr>"] wf r'(2,7) s0 page by (simp add: machine_wf_def)
qed

lemma run_cycle_prepared:
  assumes "word_at_pc s = Inr w" and "decode w = Inr m" and "\<not> mt_expanded m"
  shows "run_cycle s = rbind (prepare_cycle s) (\<lambda>(u, s1).
    sseq [call_matcher (sfail Abort) m w 0, take_interrupt, sys_action system_tick] s1)"
proof -
  obtain s0 where s0: "latch_interrupts s = Inr ((), s0)" "word_at_pc s0 = word_at_pc s"
    by (simp add: latch_interrupts_def Let_def word_at_pc_def)
  let ?s1 = "s0\<lparr>mc_regs := (mc_regs s0)\<lparr>rg_pc := rg_pc (mc_regs s0) + 1\<rparr>\<rparr>"
  have "fetch_instruction s0 = Inr (call_matcher (sfail Abort) m w 0, ?s1)"
    using s0(2) assms
    by (simp add: fetch_instruction_def fetch_word_def rget_def rupd_def on_regs_def mem_program_read_def word_at_pc_def)
  then show ?thesis
    by (simp add: run_cycle_def prepare_cycle_def s0(1) rupd_def on_regs_def rbind_assoc split_def)
qed

lemma cycle_inline:
  assumes "in_order s" and "inline_at s"
  obtains s' where "run_cycle s = Inr ((), s')" "in_order s'" "control_of (mc_regs s') = next_control (mc_regs s)"
proof -
  obtain s1 where s1: "prepare_cycle s = Inr ((), s1)" "machine_wf s1"
      "control_of (mc_regs s1) = next_control (mc_regs s)" "mc_idle s1 = mc_idle s"
    using prepare_cycle_control [OF assms(1)] by metis
  obtain w m s2 where m: "word_at_pc s = Inr w" "decode w = Inr m" "\<not> mt_expanded m"
    and s2: "call_matcher (sfail Abort) m w 0 s1 = Inr ((), s2)" "control_of (mc_regs s2) = control_of (mc_regs s1)"
      "mc_idle s2 = mc_idle s1" "clock_ok (mc_sys s2)"
    using assms(2) s1(1) unfolding inline_at_def by blast
  have wf: "machine_wf s2"
    using step_givesD [OF decode_safe [OF m(2)] s1(2)] s2(1) by (auto simp: call_matcher_def split: if_splits)
  have ie: "rg_ie (mc_regs s2) = 0"
    using s2(2) s1(3) assms(1)
    by (simp add: control_of_def next_control_def in_order_def Let_def split: prod.splits)
  then have "take_interrupt s2 = Inr ((), s2)"
    by (simp add: take_interrupt_def rget_def on_regs_def)
  moreover obtain s' where s': "sys_action system_tick s2 = Inr ((), s')" "mc_regs s' = mc_regs s2"
      "mc_idle s' = mc_idle s2" "clock_ok (mc_sys s')"
    using tick_total [OF wf s2(4)] by blast
  ultimately have run: "run_cycle s = Inr ((), s')"
    using run_cycle_prepared [OF m] s1(1) s2(1) by simp
  moreover have "machine_wf s'"
    using step_givesD [OF safe_tick wf s'(1)] by simp
  ultimately show thesis
    using that s' s2 s1 ie assms(1) by (simp add: in_order_def)
qed

section \<open>Counting the cycles of a loop\<close>

fun cycles :: "nat \<Rightarrow> 'x instr" where
  "cycles 0 s = Inr ((), s)"
| "cycles (Suc i) s = rbind (cycles i s) (\<lambda>(u, s'). run_cycle s')"

lemma cycles_first: "cycles (Suc i) s = rbind (run_cycle s) (\<lambda>(u, s'). cycles i s')"
proof (induction i)
  case (Suc i)
  have "cycles (Suc (Suc i)) s = rbind (cycles (Suc i) s) (\<lambda>(u, s'). run_cycle s')"
    by simp
  also have "\<dots> = rbind (run_cycle s) (\<lambda>(u, s'). cycles (Suc i) s')"
    unfolding Suc by (simp add: rbind_assoc split_def)
  finally show ?case .
qed (cases "run_cycle s"; auto)

text \<open>A machine that is awake before every cycle lets no time pass in between.\<close>

lemma run_cycles_awake:
  "\<forall>j < i. \<forall>s'. cycles j s = Inr ((), s') \<longrightarrow> \<not> mc_idle s' \<Longrightarrow> run_cycles i s = cycles i s"
proof (induction i arbitrary: s)
  case 0
  show ?case by (simp add: run_cycles.simps)
next
  case (Suc i)
  have awake: "\<not> mc_idle s"
    using Suc.prems [rule_format, of 0 s] by simp
  show ?case
  proof (cases "run_cycle s")
    case (Inl e)
    then show ?thesis
      using awake by (simp only: run_cycles.simps [of "Suc i"] cycles_first) (simp add: idle_time_def)
  next
    case (Inr y)
    then obtain s1 where s1: "run_cycle s = Inr ((), s1)"
      by (cases y) auto
    have "\<not> mc_idle s'" if "j < i" "cycles j s1 = Inr ((), s')" for j s'
      using Suc.prems [rule_format, of "Suc j" s'] that s1 by (simp only: cycles_first) simp
    then have "run_cycles i s1 = cycles i s1"
      by (intro Suc.IH) blast
    then show ?thesis
      using awake s1 by (simp only: run_cycles.simps [of "Suc i"] cycles_first) (simp add: idle_time_def)
  qed
qed

text \<open>
  The course of a loop: the control registers before each of its cycles. As long as the
  instructions it reaches are inline, the machine follows it.
\<close>

definition course :: "(nat \<Rightarrow> u32 \<times> bool \<times> u16 \<times> block_repeat_frame list \<times> u16) \<Rightarrow> nat \<Rightarrow> bool" where
  "course C N \<longleftrightarrow> (\<forall>i < N. \<forall>r. control_of r = C i \<longrightarrow> next_control r = C (Suc i))"

lemma course_prefix: "course C N \<Longrightarrow> M \<le> N \<Longrightarrow> course C M"
  by (simp add: course_def)

definition inline_run :: "nat \<Rightarrow> 'x machine \<Rightarrow> bool" where
  "inline_run N s \<longleftrightarrow> (\<forall>i < N. \<forall>s'. run_cycles i s = Inr ((), s') \<longrightarrow> inline_at s')"

lemma follows_course:
  assumes "in_order s" "control_of (mc_regs s) = C 0" "course C N" "inline_run N s"
  shows "i \<le> N \<Longrightarrow> run_cycles i s = cycles i s \<and>
    (\<exists>s'. cycles i s = Inr ((), s') \<and> in_order s' \<and> control_of (mc_regs s') = C i)"
proof (induction i rule: less_induct)
  case (less i)
  have "run_cycles i s = cycles i s"
  proof (rule run_cycles_awake, intro allI impI)
    show "\<not> mc_idle s'" if "j < i" "cycles j s = Inr ((), s')" for j s'
      using less.IH [of j] that less.prems by (auto simp: in_order_def)
  qed
  moreover have "\<exists>s'. cycles i s = Inr ((), s') \<and> in_order s' \<and> control_of (mc_regs s') = C i"
  proof (cases i)
    case 0
    with assms(1,2) show ?thesis by simp
  next
    case (Suc j)
    obtain s1 where s1: "run_cycles j s = Inr ((), s1)" "cycles j s = Inr ((), s1)" "in_order s1"
        "control_of (mc_regs s1) = C j"
      using less.IH [of j] less.prems Suc by auto
    have "inline_at s1"
      using assms(4) [unfolded inline_run_def, rule_format, of j s1] s1(1) less.prems Suc by simp
    with s1(3) obtain s2 where "run_cycle s1 = Inr ((), s2)" "in_order s2"
        "control_of (mc_regs s2) = next_control (mc_regs s1)"
      by (rule cycle_inline)
    moreover have "next_control (mc_regs s1) = C (Suc j)"
      using assms(3) s1(4) less.prems Suc by (simp add: course_def)
    ultimately show ?thesis
      using s1(2) Suc by simp
  qed
  ultimately show ?case ..
qed

text \<open>The courses of the two loops.\<close>

definition block_course :: "u16 \<Rightarrow> block_repeat_frame list \<Rightarrow> block_repeat_frame \<Rightarrow> nat \<Rightarrow> nat
    \<Rightarrow> u32 \<times> bool \<times> u16 \<times> block_repeat_frame list \<times> u16" where
  "block_course repc fs f n i =
     (if i = n * (unat (fr_lc f) + 1) then (fr_end f + 1, False, repc, fs, 0)
      else (fr_start f + of_nat (i mod n), False, repc, fs @ [f\<lparr>fr_lc := fr_lc f - of_nat (i div n)\<rparr>], 0))"

lemma count_left:
  assumes "k \<le> unat (w :: u16)"
  shows "w - of_nat k = 0 \<longleftrightarrow> k = unat w"
proof -
  have "unat (w - of_nat k) = unat w - k"
    using assms by (rule unat_minus_of_nat)
  then show ?thesis
    using assms by (auto simp: unat_eq_zero [symmetric] simp del: unat_eq_zero)
qed

lemma block_course_course:
  assumes "fr_start f \<le> fr_end f" and n: "n = unat (fr_end f) + 1 - unat (fr_start f)"
  shows "course (block_course repc fs f n) (n * (unat (fr_lc f) + 1))"
  unfolding course_def
proof (intro allI impI)
  fix i r
  assume i: "i < n * (unat (fr_lc f) + 1)" and r: "control_of r = block_course repc fs f n i"
  let ?lc = "unat (fr_lc f)"
  let ?g = "f\<lparr>fr_lc := fr_lc f - of_nat (i div n)\<rparr>"
  have npos: "0 < n" and le: "unat (fr_start f) \<le> unat (fr_end f)"
    using assms by (auto simp: word_le_nat_alt)
  have k: "i div n \<le> ?lc"
    using i npos by (simp add: less_mult_imp_div_less mult.commute flip: less_Suc_eq_le)
  have m: "i mod n < n"
    using npos by simp
  have r': "rg_pc r = fr_start f + of_nat (i mod n)" "\<not> rg_rep r" "rg_repc r = repc"
      "loops_of r = fs @ [?g]" "rg_ie r = 0"
    using r i by (simp_all add: block_course_def control_of_def)
  have "unat (fr_start f) + i mod n < 4294967296"
    using m n le unat_lt_2p32 [of "fr_end f"] by linarith
  then have "unat (fr_start f + of_nat (i mod n)) = unat (fr_start f) + i mod n"
    using unat_add_small [of "fr_start f" "i mod n"] by simp
  then have at_end: "fr_start f + of_nat (i mod n) = fr_end f \<longleftrightarrow> i mod n = n - 1"
    using n le by (auto simp: word_unat_eq_iff)
  have ends: "fr_end f + 1 = rg_pc r + 1 \<longleftrightarrow> i mod n = n - 1"
    unfolding r'(1) at_end [symmetric] by auto
  have turn: "loop_turn (rg_pc r + 1) (fs @ [?g]) =
      (if i mod n = n - 1 then (if i div n = ?lc then (fr_end f + 1, fs)
          else (fr_start f, fs @ [?g\<lparr>fr_lc := fr_lc ?g - 1\<rparr>]))
       else (rg_pc r + 1, fs @ [?g]))"
  proof (cases "i mod n = n - 1")
    case True
    then have "fr_end f = rg_pc r"
      using ends by simp
    with True show ?thesis
      using count_left [OF k] by (simp add: loop_turn_def Let_def)
  next
    case False
    then have "fr_end f \<noteq> rg_pc r"
      using ends by simp
    with False show ?thesis
      by (simp add: loop_turn_def Let_def)
  qed
  have "step_rep (r\<lparr>rg_pc := rg_pc r + 1\<rparr>) = r\<lparr>rg_pc := rg_pc r + 1\<rparr>"
    using r'(2) by (simp add: step_rep_def)
  then have nc: "next_control r =
      (case loop_turn (rg_pc r + 1) (fs @ [?g]) of (pc, fs) \<Rightarrow> (pc, False, repc, fs, 0))"
    using r'(2-5) by (simp add: next_control_def Let_def loops_of_def)
  have next_c: "next_control r =
      (if i mod n = n - 1 then (if i div n = ?lc then (fr_end f + 1, False, repc, fs, 0)
          else (fr_start f, False, repc, fs @ [?g\<lparr>fr_lc := fr_lc ?g - 1\<rparr>], 0))
       else (rg_pc r + 1, False, repc, fs @ [?g], 0))"
    unfolding nc turn by (simp split: if_split)
  have parts: "i = n * (i div n) + i mod n"
    by simp
  show "next_control r = block_course repc fs f n (Suc i)"
  proof (cases "i mod n = n - 1")
    case True
    then have s: "Suc i mod n = 0" "Suc i div n = Suc (i div n)"
      using npos by (simp_all add: mod_Suc div_Suc)
    show ?thesis
    proof (cases "i div n = ?lc")
      case last: True
      then have "Suc i = n * (?lc + 1)"
        using True parts npos by (simp add: algebra_simps)
      then show ?thesis
        unfolding next_c block_course_def using True last by simp
    next
      case False
      then have "Suc i div n \<noteq> ?lc + 1"
        using s by simp
      then have "Suc i \<noteq> n * (?lc + 1)"
        using npos by (metis nonzero_mult_div_cancel_left less_numeral_extra(3))
      then show ?thesis
        unfolding next_c block_course_def using True False s by (simp add: algebra_simps)
    qed
  next
    case False
    then have "Suc i mod n = Suc (i mod n)" "Suc i div n = i div n"
      using npos m by (simp_all add: mod_Suc div_Suc)
    moreover from this have "Suc i \<noteq> n * (?lc + 1)"
      by (metis mod_mult_self1_is_0 nat.distinct(1))
    ultimately show ?thesis
      unfolding next_c block_course_def r'(1) using False by (simp add: ac_simps)
  qed
qed

definition rep_course :: "u32 \<Rightarrow> u16 \<Rightarrow> block_repeat_frame list \<Rightarrow> nat
    \<Rightarrow> u32 \<times> bool \<times> u16 \<times> block_repeat_frame list \<times> u16" where
  "rep_course pc repc fs i =
     (if i \<le> unat repc then (pc, True, repc - of_nat i, fs, 0)
      else (fst (loop_turn (pc + 1) fs), False, 0, snd (loop_turn (pc + 1) fs), 0))"

lemma rep_course_course:
  assumes "fs = [] \<or> fr_end (last fs) + 1 \<noteq> pc"
  shows "course (rep_course pc repc fs) (unat repc + 1)"
  unfolding course_def
proof (intro allI impI)
  fix i r
  assume i: "i < unat repc + 1" and r: "control_of r = rep_course pc repc fs i"
  have r': "rg_pc r = pc" "rg_rep r" "rg_repc r = repc - of_nat i" "loops_of r = fs" "rg_ie r = 0"
    using r i by (simp_all add: rep_course_def control_of_def)
  have c: "repc - of_nat i = 0 \<longleftrightarrow> i = unat repc"
    using i by (intro count_left) simp
  have turn: "loop_turn pc fs = (pc, fs)"
    using assms by (auto simp: loop_turn_def Let_def)
  show "next_control r = rep_course pc repc fs (Suc i)"
  proof (cases "i = unat repc")
    case True
    then have "rg_repc r = 0"
      using c r'(3) by simp
    with True r' show ?thesis
      by (simp add: next_control_def step_rep_def rep_course_def Let_def loops_of_def split_def)
  next
    case False
    then have "rg_repc r \<noteq> 0"
      using c r'(3) by simp
    moreover have "loops_of (step_rep (r\<lparr>rg_pc := rg_pc r + 1\<rparr>)) = fs"
      using r'(4) by (simp add: step_rep_def loops_of_def)
    moreover have "rg_repc r - 1 = repc - of_nat (Suc i)"
      using r'(3) by simp
    ultimately show ?thesis
      using False i r'(1,2,4,5) turn
      by (simp add: next_control_def step_rep_def rep_course_def Let_def del: of_nat_Suc)
  qed
qed

lemma follows_block:
  assumes "in_order s" "\<not> rg_rep (mc_regs s)" "loops_of (mc_regs s) = fs @ [f]" "rg_pc (mc_regs s) = fr_start f"
    and "fr_start f \<le> fr_end f" "n = unat (fr_end f) + 1 - unat (fr_start f)"
    and "inline_run (n * (unat (fr_lc f) + 1)) s" and "i \<le> n * (unat (fr_lc f) + 1)"
  obtains s' where "run_cycles i s = Inr ((), s')"
    "control_of (mc_regs s') = block_course (rg_repc (mc_regs s)) fs f n i"
proof -
  have "control_of (mc_regs s) = block_course (rg_repc (mc_regs s)) fs f n 0"
    using assms(1-6) by (auto simp: control_of_def block_course_def in_order_def word_le_nat_alt)
  from follows_course [OF assms(1) this block_course_course [OF assms(5,6)] assms(7,8)] show thesis
    using that by auto
qed

lemma follows_rep:
  assumes "in_order s" "rg_rep (mc_regs s)"
    and "loops_of (mc_regs s) = [] \<or> fr_end (last (loops_of (mc_regs s))) + 1 \<noteq> rg_pc (mc_regs s)"
    and "inline_run (unat (rg_repc (mc_regs s)) + 1) s" and "i \<le> unat (rg_repc (mc_regs s)) + 1"
  obtains s' where "run_cycles i s = Inr ((), s')"
    "control_of (mc_regs s') =
       rep_course (rg_pc (mc_regs s)) (rg_repc (mc_regs s)) (loops_of (mc_regs s)) i"
proof -
  have "control_of (mc_regs s) =
      rep_course (rg_pc (mc_regs s)) (rg_repc (mc_regs s)) (loops_of (mc_regs s)) 0"
    using assms(1,2) by (simp add: control_of_def rep_course_def in_order_def)
  from follows_course [OF assms(1) this rep_course_course [OF assms(3)] assms(4,5)] show thesis
    using that by auto
qed

lemma block_position:
  assumes "k \<le> l" and "j < (n :: nat)"
  shows "k * n + j < n * (l + 1)" "(k * n + j) mod n = j" "(k * n + j) div n = k"
proof -
  have "k * n + j < (k + 1) * n"
    using assms(2) by simp
  also have "\<dots> \<le> (l + 1) * n"
    using assms(1) by (intro mult_le_mono1) simp
  finally show "k * n + j < n * (l + 1)"
    by (simp only: mult.commute)
qed (use assms in simp_all)

text \<open>
  C20: The hardware loops end, after one pass more than their count. The machine is well formed, its
  clocked components are in order, interrupts are off, it is awake, and every instruction
  the run reaches in the loop has one word, returns, and leaves the program counter, the repeats,
  the interrupt enable and the clocked components' contract alone. Then, without a repeat of a
  single instruction in progress, a machine at the start of its innermost block repeat, whose
  body has n words, is after k n + j cycles at the j-th word of the body with the loop count k
  lower, for each k up to the count, and after n times the count plus one cycles it is at the
  word after the end with the loop left and the outer loops as they were. With a repeat in
  progress it stays at the instruction for as many cycles as the repeat count says, counting it
  down, and after one more cycle the repeat is over and the machine goes on to the next word, which
  may be a turn of the enclosing block repeat.
\<close>

theorem hardware_loops_end:
  assumes "in_order s" and "inline_run N s" and r: "r = mc_regs s"
  shows "(\<not> rg_rep r \<and> loops_of r = fs @ [f] \<and> rg_pc r = fr_start f \<and> fr_start f \<le> fr_end f \<and>
      n = unat (fr_end f) + 1 - unat (fr_start f) \<and> N = n * (unat (fr_lc f) + 1) \<longrightarrow>
      (\<forall>k \<le> unat (fr_lc f). \<forall>j < n. \<exists>s'. run_cycles (k * n + j) s = Inr ((), s') \<and>
        rg_pc (mc_regs s') = fr_start f + of_nat j \<and>
        loops_of (mc_regs s') = fs @ [f\<lparr>fr_lc := fr_lc f - of_nat k\<rparr>]) \<and>
      (\<exists>s'. run_cycles N s = Inr ((), s') \<and> rg_pc (mc_regs s') = fr_end f + 1 \<and> loops_of (mc_regs s') = fs))
    \<and> (rg_rep r \<and> (loops_of r = [] \<or> fr_end (last (loops_of r)) + 1 \<noteq> rg_pc r) \<and> N = unat (rg_repc r) + 1 \<longrightarrow>
      (\<forall>k \<le> unat (rg_repc r). \<exists>s'. run_cycles k s = Inr ((), s') \<and> rg_rep (mc_regs s') \<and>
        rg_repc (mc_regs s') = rg_repc r - of_nat k \<and> rg_pc (mc_regs s') = rg_pc r \<and>
        loops_of (mc_regs s') = loops_of r) \<and>
      (\<exists>s'. run_cycles N s = Inr ((), s') \<and> \<not> rg_rep (mc_regs s') \<and>
        (rg_pc (mc_regs s'), loops_of (mc_regs s')) = loop_turn (rg_pc r + 1) (loops_of r)))"
    (is "(?block \<longrightarrow> ?passes \<and> ?left) \<and> (?repeat \<longrightarrow> ?stays \<and> ?over)")
proof (intro conjI impI)
  show ?passes if b: ?block
  proof (intro allI impI)
    fix k j
    assume k: "k \<le> unat (fr_lc f)" and j: "j < n"
    note at = block_position [OF k j]
    from b have start: "\<not> rg_rep (mc_regs s)" "loops_of (mc_regs s) = fs @ [f]" "rg_pc (mc_regs s) = fr_start f"
        "fr_start f \<le> fr_end f" "n = unat (fr_end f) + 1 - unat (fr_start f)"
      and inline: "inline_run (n * (unat (fr_lc f) + 1)) s"
      using assms(2) unfolding r by blast+
    obtain s' where s': "run_cycles (k * n + j) s = Inr ((), s')"
        "control_of (mc_regs s') = block_course (rg_repc (mc_regs s)) fs f n (k * n + j)"
      using follows_block [OF assms(1) start inline, of "k * n + j", OF less_imp_le [OF at(1)]] by blast
    moreover have "control_of (mc_regs s') =
        (fr_start f + of_nat j, False, rg_repc (mc_regs s), fs @ [f\<lparr>fr_lc := fr_lc f - of_nat k\<rparr>], 0)"
      using s'(2) at by (simp only: block_course_def) simp
    ultimately show "\<exists>s'. run_cycles (k * n + j) s = Inr ((), s') \<and> rg_pc (mc_regs s') = fr_start f + of_nat j \<and>
        loops_of (mc_regs s') = fs @ [f\<lparr>fr_lc := fr_lc f - of_nat k\<rparr>]"
      by (auto simp: control_of_def)
  qed
  show ?left if b: ?block
  proof -
    from b have start: "\<not> rg_rep (mc_regs s)" "loops_of (mc_regs s) = fs @ [f]" "rg_pc (mc_regs s) = fr_start f"
        "fr_start f \<le> fr_end f" "n = unat (fr_end f) + 1 - unat (fr_start f)"
      and inline: "inline_run (n * (unat (fr_lc f) + 1)) s"
      using assms(2) unfolding r by blast+
    obtain s' where "run_cycles N s = Inr ((), s')"
        "control_of (mc_regs s') = block_course (rg_repc (mc_regs s)) fs f n N"
      using follows_block [OF assms(1) start inline, of N] b by blast
    moreover have "block_course (rg_repc (mc_regs s)) fs f n N = (fr_end f + 1, False, rg_repc (mc_regs s), fs, 0)"
      using b by (simp only: block_course_def if_True simp_thms)
    ultimately show ?thesis
      by (auto simp: control_of_def)
  qed
  show ?stays if b: ?repeat
  proof (intro allI impI)
    fix k
    assume k: "k \<le> unat (rg_repc r)"
    obtain s' where "run_cycles k s = Inr ((), s')"
        "control_of (mc_regs s') = rep_course (rg_pc r) (rg_repc r) (loops_of r) k"
      using follows_rep [of s k] assms b k by auto
    with k show "\<exists>s'. run_cycles k s = Inr ((), s') \<and> rg_rep (mc_regs s') \<and>
        rg_repc (mc_regs s') = rg_repc r - of_nat k \<and> rg_pc (mc_regs s') = rg_pc r \<and>
        loops_of (mc_regs s') = loops_of r"
      by (auto simp: control_of_def rep_course_def)
  qed
  show ?over if b: ?repeat
  proof -
    obtain s' where "run_cycles N s = Inr ((), s')"
        "control_of (mc_regs s') = rep_course (rg_pc r) (rg_repc r) (loops_of r) N"
      using follows_rep [of s N] assms b by auto
    with b show ?thesis
      by (auto simp: control_of_def rep_course_def)
  qed
qed

text \<open>Loops of nops, in a machine whose memory is all zero.\<close>

definition nops :: "'x machine \<Rightarrow> bool" where
  "nops s \<longleftrightarrow> sys_memory (mc_sys s) = (\<lambda>_. 0) \<and> rg_prpage (mc_regs s) = 0"

lemma nop_word: "nops s \<Longrightarrow> rg_pc (mc_regs s) < 0x1000 \<Longrightarrow> word_at_pc s = Inr 0"
  by (simp add: nops_def word_at_pc_def program_read_def shared_read_word_def dsp_memory_size_def
      Let_def word_less_nat_alt unat_word_ariths)

lemma nop_runs: "call_matcher (sfail Abort) (inst 0 [] (\<lambda>x. nop)) 0 0 s = Inr ((), s)"
  by (simp add: inst_def call_matcher_def matches_def nop_def)

lemma nop_expanded: "\<not> mt_expanded (inst 0 [] (\<lambda>x. nop))"
  by (simp add: inst_def)

lemma nop_inline:
  assumes "nops s" "in_order s" "rg_pc (mc_regs s) < 0x1000"
  shows "inline_at s"
proof -
  have "clock_ok (mc_sys s1)" if "prepare_cycle s = Inr ((), s1)" for s1
    using prepare_cycle_control [OF assms(2)] that assms(2) by (metis in_order_def Inr_inject prod.inject)
  with nop_word [OF assms(1,3)] decode_nop nop_runs nop_expanded show ?thesis
    unfolding inline_at_def by blast
qed

lemma nop_cycle:
  assumes "nops s" "in_order s" "rg_pc (mc_regs s) < 0x1000" "run_cycle s = Inr ((), s')"
  shows "nops s'"
proof -
  obtain s1 where s1: "prepare_cycle s = Inr ((), s1)" "machine_wf s1" "mc_sys s1 = mc_sys s"
      "control_of (mc_regs s1) = next_control (mc_regs s)" "rg_prpage (mc_regs s1) = rg_prpage (mc_regs s)"
    using prepare_cycle_control [OF assms(2)] by metis
  have "rg_ie (mc_regs s1) = 0"
    using s1(4) assms(2) by (simp add: control_of_def next_control_def in_order_def Let_def split: prod.splits)
  then have "take_interrupt s1 = Inr ((), s1)"
    by (simp add: take_interrupt_def rget_def on_regs_def)
  moreover obtain s2 where s2: "sys_action system_tick s1 = Inr ((), s2)" "mc_regs s2 = mc_regs s1"
      "sys_memory (mc_sys s2) = sys_memory (mc_sys s1)"
    using tick_total [OF s1(2)] assms(2) s1(3) by (auto simp: in_order_def)
  ultimately have "run_cycle s = Inr ((), s2)"
    using run_cycle_prepared [OF nop_word [OF assms(1,3)] decode_nop nop_expanded] s1(1) nop_runs [of s1] by simp
  with assms(1,4) s1 s2 show ?thesis
    by (simp add: nops_def)
qed

lemma nops_inline_run:
  assumes "in_order s" "nops s" "control_of (mc_regs s) = C 0" "course C N" and pc: "\<And>i. i < N \<Longrightarrow> fst (C i) < 0x1000"
  shows "inline_run N s"
proof -
  have "i \<le> N \<Longrightarrow> inline_run i s \<and> (\<forall>s'. cycles i s = Inr ((), s') \<longrightarrow> nops s')" for i
  proof (induction i)
    case 0
    with assms(2) show ?case by (simp add: inline_run_def)
  next
    case (Suc j)
    have j: "inline_run j s" "course C j"
      using Suc assms(4) course_prefix [of C N j] by simp_all
    from follows_course [where i = j, OF assms(1,3) j(2,1)] obtain s1 where
      s1: "run_cycles j s = Inr ((), s1)" "cycles j s = Inr ((), s1)" "in_order s1" "control_of (mc_regs s1) = C j"
      by auto
    then have n: "nops s1" "rg_pc (mc_regs s1) < 0x1000"
      using Suc pc [of j] by (simp_all add: control_of_def prod_eq_iff)
    have "inline_run (Suc j) s"
      using j(1) s1(1) nop_inline [OF n(1) s1(3) n(2)] by (auto simp: inline_run_def less_Suc_eq)
    with s1(2) nop_cycle [OF n(1) s1(3) n(2)] show ?case
      by simp
  qed
  then show ?thesis
    by blast
qed

definition block_example :: "(u32 \<Rightarrow> u8) machine" where
  "block_example = machine_example\<lparr>mc_regs := registers_reset\<lparr>rg_pc := 0x100, rg_lp := 1, rg_bcn := 1,
     rg_bkrep_stack := (rg_bkrep_stack registers_reset)[0 := \<lparr>fr_start = 0x100, fr_end = 0x101, fr_lc = 1\<rparr>]\<rparr>\<rparr>"

definition rep_example :: "(u32 \<Rightarrow> u8) machine" where
  "rep_example = machine_example\<lparr>mc_regs := registers_reset\<lparr>rg_pc := 0x100, rg_rep := True, rg_repc := 5\<rparr>\<rparr>"

lemma loop_examples_wf:
  "machine_wf block_example" "machine_wf rep_example"
proof -
  have "regs_wf (mc_regs block_example)" "regs_wf (mc_regs rep_example)"
    by code_simp+
  then show "machine_wf block_example" "machine_wf rep_example"
    using machine_example_wf by (simp_all add: machine_wf_def block_example_def rep_example_def)
qed

lemma loop_controls:
  "control_of (mc_regs block_example) = (0x100, False, 0, [\<lparr>fr_start = 0x100, fr_end = 0x101, fr_lc = 1\<rparr>], 0)"
  "control_of (mc_regs rep_example) = (0x100, True, 5, [], 0)"
proof -
  obtain f fs where "rg_bkrep_stack registers_reset = f # fs"
    using wf_count(2) [OF registers_reset_wf] by (cases "rg_bkrep_stack registers_reset") simp_all
  moreover have "rg_rep registers_reset = False" "rg_repc registers_reset = 0" "rg_ie registers_reset = 0"
      "rg_bcn registers_reset = 0"
    by (simp_all add: registers_reset_def)
  ultimately show
    "control_of (mc_regs block_example) = (0x100, False, 0, [\<lparr>fr_start = 0x100, fr_end = 0x101, fr_lc = 1\<rparr>], 0)"
    "control_of (mc_regs rep_example) = (0x100, True, 5, [], 0)"
    by (simp_all add: control_of_def loops_of_def block_example_def rep_example_def)
qed

lemma loop_examples:
  "in_order block_example" "nops block_example" "in_order rep_example" "nops rep_example"
  using loop_examples_wf btdmp_reset_ok
  by (simp_all add: in_order_def nops_def block_example_def rep_example_def machine_example_def clock_ok_def
      system_example_def timer_ok_def timer_reset_def registers_reset_def)

lemma hardware_loops_end_witness:
  "(\<exists>s'. run_cycles (1 * 2 + 1) block_example = Inr ((), s') \<and> rg_pc (mc_regs s') = 0x101 \<and>
      loops_of (mc_regs s') = [\<lparr>fr_start = 0x100, fr_end = 0x101, fr_lc = 0\<rparr>])
    \<and> (\<exists>s'. run_cycles 4 block_example = Inr ((), s') \<and> rg_pc (mc_regs s') = 0x102 \<and> loops_of (mc_regs s') = [])
    \<and> (\<exists>s'. run_cycles 6 rep_example = Inr ((), s') \<and> \<not> rg_rep (mc_regs s') \<and> rg_pc (mc_regs s') = 0x101)"
proof -
  let ?f = "\<lparr>fr_start = 0x100, fr_end = 0x101, fr_lc = 1\<rparr>"
  have n: "2 = unat (fr_end ?f) + 1 - unat (fr_start ?f)" and count: "2 * (unat (fr_lc ?f) + 1) = 4"
    by simp_all
  have "course (block_course 0 [] ?f 2) (2 * (unat (fr_lc ?f) + 1))"
    by (rule block_course_course [OF _ n]) simp
  then have "course (block_course 0 [] ?f 2) 4"
    by (simp only: count)
  moreover have "fst (block_course 0 [] ?f 2 i) < 0x1000" if "i < 4" for i
  proof -
    have "i mod 2 = 0 \<or> i mod 2 = 1"
      by auto
    with that show ?thesis
      by (elim disjE) (simp_all add: block_course_def)
  qed
  moreover have "control_of (mc_regs block_example) = block_course 0 [] ?f 2 0"
    unfolding loop_controls(1) by (simp add: block_course_def)
  ultimately have b: "inline_run 4 block_example"
    by (intro nops_inline_run [OF loop_examples(1,2), of "block_course 0 [] ?f 2" 4])
  have six: "unat (5 :: u16) + 1 = 6"
    by simp
  have "course (rep_course 0x100 5 []) (unat (5 :: u16) + 1)"
    by (rule rep_course_course) simp
  then have "course (rep_course 0x100 5 []) 6"
    by (simp only: six)
  moreover have "fst (rep_course 0x100 5 [] i) < 0x1000" if "i < 6" for i
    using that by (simp add: rep_course_def)
  moreover have "control_of (mc_regs rep_example) = rep_course 0x100 5 [] 0"
    unfolding loop_controls(2) by (simp add: rep_course_def)
  ultimately have r: "inline_run 6 rep_example"
    by (intro nops_inline_run [OF loop_examples(3,4), of "rep_course 0x100 5 []" 6])
  have bc: "\<not> rg_rep (mc_regs block_example)" "loops_of (mc_regs block_example) = [] @ [?f]"
      "rg_pc (mc_regs block_example) = 0x100"
    and rc: "rg_rep (mc_regs rep_example)" "loops_of (mc_regs rep_example) = []"
      "rg_pc (mc_regs rep_example) = 0x100" "rg_repc (mc_regs rep_example) = 5"
    using loop_controls by (simp_all add: control_of_def)
  from hardware_loops_end [OF loop_examples(1) b refl, of "[]" ?f 2] bc
  have passes: "\<forall>k \<le> 1. \<forall>j < 2. \<exists>s'. run_cycles (k * 2 + j) block_example = Inr ((), s') \<and>
        rg_pc (mc_regs s') = 0x100 + of_nat j \<and> loops_of (mc_regs s') = [?f\<lparr>fr_lc := 1 - of_nat k\<rparr>]"
    and left: "\<exists>s'. run_cycles 4 block_example = Inr ((), s') \<and> rg_pc (mc_regs s') = 0x102 \<and> loops_of (mc_regs s') = []"
    by simp_all
  from hardware_loops_end [OF loop_examples(3) r refl] rc
  have "\<exists>s'. run_cycles 6 rep_example = Inr ((), s') \<and> \<not> rg_rep (mc_regs s') \<and> rg_pc (mc_regs s') = 0x101"
    by (auto simp: loop_turn_def)
  with passes [rule_format, of 1 1] left show ?thesis
    by simp
qed

end
