(* ===== verification/Shifter.thy ===== *)
theory Shifter
  imports Arithmetic
begin

unbundle bit_operations_syntax

text \<open>
  The barrel shifter of src/src/interpreter.h, \<open>ShiftBus40\<close>, against the arithmetic shift of a signed
  number of 40 bits: a multiplication by a power of two, or a division that rounds down.
\<close>

section \<open>The shift of a number\<close>

definition value40 :: "u64 \<Rightarrow> int" where
  "value40 v = signed_take_bit 39 (uint v)"

definition arithmetic_shift :: "int \<Rightarrow> int \<Rightarrow> int" where
  "arithmetic_shift n z = (if 0 \<le> n then z * 2 ^ nat n else z div 2 ^ nat (- n))"

definition fits40 :: "int \<Rightarrow> bool" where
  "fits40 z \<longleftrightarrow> - (2 ^ 39) \<le> z \<and> z < 2 ^ 39"

lemma value40_low: "value40 (v AND 0xFFFFFFFFFF) = value40 v"
  unfolding mask40 value40_def by (intro bit_eqI) (auto simp: bit_simps bit_uint_iff min_def)

lemma value40_range: "- (2 ^ 39) \<le> value40 v" "value40 v < 2 ^ 39"
  using signed_take_bit_int_greater_eq_minus_exp [of 39 "uint v"] signed_take_bit_int_less_exp [of 39 "uint v"]
  by (simp_all add: value40_def)

lemma value40_fits: "fits40 (value40 v)"
  using value40_range by (simp add: fits40_def)

lemma sint_sign_extend40: "sint (sign_extend 40 v) = value40 v"
  by (subst sint_sign_extend64) (simp_all add: value40_def)

lemma value40_left: "n < 40 \<Longrightarrow> value40 (push_bit n v) = signed_take_bit 39 (value40 v * 2 ^ n)"
  unfolding value40_def push_bit_eq_mult [symmetric]
  by (cases "n = 0"; intro bit_eqI) (auto simp: bit_simps bit_uint_iff min_def dest: bit_imp_le_length)

lemma left_overflow:
  assumes "n < 40"
  shows "sign_extend 40 v \<noteq> sign_extend (40 - n) v \<longleftrightarrow> \<not> fits40 (value40 v * 2 ^ n)"
proof -
  have p: "(2 :: int) ^ (39 - n) * 2 ^ n = 2 ^ 39"
    using assms by (simp only: power_add [symmetric]) simp
  have "sint (sign_extend (40 - n) v) = signed_take_bit (39 - n) (uint v)"
    using assms by (subst sint_sign_extend64) simp_all
  also have "\<dots> = signed_take_bit (39 - n) (value40 v)"
    unfolding value40_def by (intro bit_eqI) (auto simp: bit_simps min_def)
  finally have "sign_extend 40 v = sign_extend (40 - n) v
      \<longleftrightarrow> signed_take_bit (39 - n) (value40 v) = value40 v"
    by (metis signed_word_eqI sint_sign_extend40)
  also have "\<dots> \<longleftrightarrow> - (2 ^ (39 - n)) \<le> value40 v \<and> value40 v < 2 ^ (39 - n)"
    by (rule signed_take_bit_int_eq_self_iff)
  also have "\<dots> \<longleftrightarrow> - (2 ^ (39 - n)) * 2 ^ n \<le> value40 v * 2 ^ n \<and> value40 v * 2 ^ n < 2 ^ (39 - n) * 2 ^ n"
    by (simp only: mult_le_cancel_right mult_less_cancel_right) simp
  also have "\<dots> \<longleftrightarrow> fits40 (value40 v * 2 ^ n)"
    unfolding fits40_def mult_minus_left p by simp
  finally show ?thesis
    by simp
qed

lemma left_overflow_far: "40 \<le> n \<Longrightarrow> v AND 0xFFFFFFFFFF \<noteq> 0 \<longleftrightarrow> \<not> fits40 (value40 v * 2 ^ n)"
proof -
  assume n: "40 \<le> n"
  have "v AND 0xFFFFFFFFFF = 0 \<longleftrightarrow> value40 v = 0"
    
  proof
    assume "v AND 0xFFFFFFFFFF = 0"
    then show "value40 v = 0"
      using value40_low [of v] by (simp add: value40_def)
  next
    assume "value40 v = 0"
    moreover have "take_bit 40 (value40 v) = take_bit 40 (uint v)"
      unfolding value40_def by (rule take_bit_signed_take_bit) simp
    moreover have "take_bit 40 (uint v) = uint (v AND 0xFFFFFFFFFF)"
      unfolding mask40 by (simp add: take_bit_eq_mask [symmetric] unsigned_take_bit_eq)
    ultimately show "v AND 0xFFFFFFFFFF = 0"
      by (simp add: uint_0_iff)
  qed
  moreover have "fits40 (value40 v * 2 ^ n) \<longleftrightarrow> value40 v = 0"
  proof (cases "value40 v = 0")
    case False
    have "(2 :: int) ^ 40 \<le> 2 ^ n"
      using n by (rule power_increasing) simp
    moreover have "1 \<le> \<bar>value40 v\<bar>"
      using False by simp
    ultimately have "1 * 2 ^ 40 \<le> \<bar>value40 v\<bar> * 2 ^ n"
      by (intro mult_mono) auto
    then have "2 ^ 40 \<le> \<bar>value40 v * 2 ^ n\<bar>"
      by (simp add: abs_mult)
    with False show ?thesis
      by (auto simp: fits40_def)
  qed (simp add: fits40_def)
  ultimately show ?thesis
    by simp
qed

lemma value40_left_far: "40 \<le> n \<Longrightarrow> signed_take_bit 39 (value40 v * 2 ^ n) = 0"
  unfolding push_bit_eq_mult [symmetric] by (intro bit_eqI) (auto simp: bit_simps min_def)

lemma value40_right:
  assumes "0 < n" "n < 40"
  shows "value40 (sign_extend (40 - n) (drop_bit n (v AND 0xFFFFFFFFFF))) = value40 v div 2 ^ n"
  unfolding value40_def drop_bit_eq_div [symmetric] mask40
proof (rule bit_eqI)
  fix i
  show "bit (signed_take_bit 39 (uint (sign_extend (40 - n) (drop_bit n (v AND mask 40))))) i
      = bit (drop_bit n (signed_take_bit 39 (uint v))) i"
    using assms by (cases "n + i = 39") (auto simp: bit_simps bit_uint_iff bit_sign_extend min_def)
qed

lemma value40_right_far:
  assumes "40 \<le> n"
  shows "value40 v div 2 ^ n = (if bit v 39 then - 1 else 0)"
  unfolding value40_def drop_bit_eq_div [symmetric] using assms
  by (intro bit_eqI) (auto simp: bit_simps bit_uint_iff min_def)

section \<open>The two directions\<close>

lemma shift_left40_value:
  assumes "rg_s r = 0" "u = v AND 0xFFFFFFFFFF"
  shows "\<exists>w r'. shift_left40 u n r = Inr (w, r') \<and> value40 w = signed_take_bit 39 (value40 v * 2 ^ n)
    \<and> rg_fv r' = of_bool (\<not> fits40 (value40 v * 2 ^ n))
    \<and> rg_fvl r' = (if fits40 (value40 v * 2 ^ n) then rg_fvl r else 1)
    \<and> rg_s r' = 0 \<and> rg_sata r' = rg_sata r \<and> rg_flm r' = rg_flm r"
proof (cases "n < 40")
  case True
  then show ?thesis
    using left_overflow [OF True, of u] value40_left [OF True, of u] assms
    by (auto simp: shift_left40_def set_fv_sticky_def Let_def value40_low)
next
  case False
  then have n: "40 \<le> n"
    by simp
  show ?thesis
    using n left_overflow_far [OF n, of v] value40_left_far [OF n, of v] assms
    by (auto simp: shift_left40_def set_fv_sticky_def Let_def value40_def)
qed

lemma shift_right40_value:
  assumes "rg_s r = 0" "u = v AND 0xFFFFFFFFFF" "0 < n"
  shows "\<exists>w r'. shift_right40 u n r = Inr (w, r') \<and> value40 w = value40 v div 2 ^ n \<and> rg_fv r' = 0
    \<and> rg_fvl r' = rg_fvl r \<and> rg_s r' = 0 \<and> rg_sata r' = rg_sata r \<and> rg_flm r' = rg_flm r"
proof (cases "n < 40")
  case True
  then show ?thesis
    using value40_right [OF assms(3) True, of v] assms by (simp add: shift_right40_def)
next
  case False
  then have n: "40 \<le> n"
    by simp
  have "(ucast (drop_bit 39 u AND 1) :: u16) \<noteq> 0 \<longleftrightarrow> bit v 39"
    unfolding assms(2) mask40 drop_bit_and_one by (simp add: bit_simps)
  moreover have "value40 0xFFFFFFFFFF = - 1" "value40 0 = 0"
    by code_simp+
  ultimately show ?thesis
    using n value40_right_far [OF n, of v] assms by (simp add: shift_right40_def)
qed

section \<open>The shifter\<close>

lemma arithmetic_shift_negative: "arithmetic_shift n z < 0 \<longleftrightarrow> z < 0"
  by (auto simp: arithmetic_shift_def mult_less_0_iff pos_imp_zdiv_neg_iff)

lemma shift_amount: "drop_bit 15 sv = 0 \<Longrightarrow> sint sv = int (unat sv)" for sv :: u16
proof -
  assume "drop_bit 15 sv = 0"
  then have "\<not> bit (drop_bit 15 sv) 0"
    by simp
  then have "\<not> bit sv 15"
    by (simp add: bit_simps)
  then have "sint sv = uint sv"
    by (intro bit_eqI) (auto simp: bit_sint_iff bit_uint_iff min_def dest: bit_imp_le_length)
  then show ?thesis
    by simp
qed

lemma shift_amount_negative:
  fixes sv :: u16
  assumes "drop_bit 15 sv \<noteq> 0"
  shows "sint sv < 0" "nat (- sint sv) = unat (NOT sv + 1)" "0 < unat (NOT sv + 1)"
proof -
  have "bit sv 15"
  proof (rule ccontr)
    assume n: "\<not> bit sv 15"
    have "drop_bit 15 sv = 0"
    proof (rule bit_word_eqI)
      fix i
      show "bit (drop_bit 15 sv) i = bit 0 i"
        using n by (cases i) (auto simp: bit_simps dest: bit_imp_le_length)
    qed
    with assms show False ..
  qed
  then show neg: "sint sv < 0"
    using bit_last_iff [of sv] by simp
  have "- (2 ^ 15) \<le> sint sv"
    using sint_greater_eq [of sv] by simp
  have "NOT sv + 1 = (word_of_int (- sint sv) :: u16)"
    by (simp add: minus_eq_not_plus_1 [symmetric])
  then have "uint (NOT sv + 1) = uint (word_of_int (- sint sv) :: u16)"
    by (rule arg_cong)
  also have "\<dots> = - sint sv mod 2 ^ 16"
    by (subst uint_word_of_int) simp
  also have "\<dots> = - sint sv"
    using neg \<open>- (2 ^ 15) \<le> sint sv\<close> by (intro mod_pos_pos_trivial) simp_all
  finally have u: "uint (NOT sv + 1) = - sint sv" .
  then show "nat (- sint sv) = unat (NOT sv + 1)"
    by (simp add: unat_eq_nat_uint)
  then show "0 < unat (NOT sv + 1)"
    using neg by linarith
qed

lemma div_shrinks: "0 < m \<Longrightarrow> min k 0 \<le> k div m \<and> k div m \<le> max k 0" for k m :: int
  using zdiv_mono2 [of k 1 m] zdiv_mono2_neg [of k 1 m] pos_imp_zdiv_neg_iff [of m k]
  by (cases "k < 0") (auto simp: min_def max_def)

lemma sign_digit: "drop_bit 39 (v AND 0xFFFFFFFFFF) = 1 \<longleftrightarrow> value40 v < 0"
proof -
  have "drop_bit 39 (v AND 0xFFFFFFFFFF) = of_bool (bit v 39)"
    unfolding mask40 by (rule bit_word_eqI) (auto simp: bit_simps)
  then show ?thesis
    by (simp add: value40_def bit_simps)
qed

lemma shift_bus40_run:
  assumes "(if drop_bit 15 sv = 0 then shift_left40 u (unat sv) else shift_right40 u (unat (NOT sv + 1))) r = Inr (w, r1)"
    and "u = v AND 0xFFFFFFFFFF" "x = sign_extend 40 w" "r2 = set_acc_flag x r1"
  shows "shift_bus40 v sv dest r =
    (if rg_s r2 = 0 \<and> rg_sata r2 = 0 \<and> (rg_fv r2 \<noteq> 0 \<or> sign_extend 32 x \<noteq> x)
     then set_acc dest (if drop_bit 39 u = 1 then 0xFFFFFFFF80000000 else 0x7FFFFFFF) (r2\<lparr>rg_flm := 1\<rparr>)
     else set_acc dest x r2)"
  using assms(1) unfolding assms(2-4)
  by (simp add: shift_bus40_def Let_def sbind_def shift_saturate_def split del: if_split) auto

lemma shift_direction:
  fixes sv :: u16
  assumes "rg_s r = 0" "u = v AND 0xFFFFFFFFFF" "z = arithmetic_shift (sint sv) (value40 v)"
  shows "\<exists>w r'. (if drop_bit 15 sv = 0 then shift_left40 u (unat sv) else shift_right40 u (unat (NOT sv + 1))) r
      = Inr (w, r') \<and> value40 w = signed_take_bit 39 z \<and> rg_fv r' = of_bool (\<not> fits40 z)
    \<and> rg_fvl r' = (if fits40 z then rg_fvl r else 1)
    \<and> rg_s r' = 0 \<and> rg_sata r' = rg_sata r \<and> rg_flm r' = rg_flm r"
proof (cases "drop_bit 15 sv = 0")
  case True
  have "sint sv = int (unat sv)"
    using True by (rule shift_amount)
  then show ?thesis
    using shift_left40_value [OF assms(1,2), of "unat sv"] True by (simp add: assms(3) arithmetic_shift_def)
next
  case False
  note sv = shift_amount_negative [OF False]
  have "- (2 ^ 39) \<le> value40 v div 2 ^ n" "value40 v div 2 ^ n < 2 ^ 39" for n
    using value40_range [of v] div_shrinks [of "2 ^ n" "value40 v"] by auto
  then have "fits40 z" "signed_take_bit 39 z = z"
    using sv(1) by (simp_all add: assms(3) arithmetic_shift_def fits40_def signed_take_bit_int_eq_self)
  then show ?thesis
    using shift_right40_value [OF assms(1,2) sv(3)] sv False by (auto simp: assms(3) arithmetic_shift_def)
qed

text \<open>
  C17: The barrel shifter is the arithmetic shift: of a value taken as 40 signed bits and a signed
  amount it stores, in the destination, the exact product with the power of two (to the left) or the
  quotient rounded down (to the right): clamped to 32 bits when saturation is on, else wrapped to
  40 bits. The overflow flag is set exactly when the exact result does not fit in 40 bits and is
  sticky in fvl; the limit flag is set exactly when the clamp changes the result.
\<close>

theorem shift_bus40_exact:
  assumes "rg_s r = 0"
  shows "\<exists>w r'. shift_bus40 v sv dest r = set_acc dest w r' \<and>
    (let z = arithmetic_shift (sint sv) (value40 v); clamped = max (- (2 ^ 31)) (min (2 ^ 31 - 1) z) in
      sint w = (if rg_sata r = 0 then clamped else signed_take_bit 39 z)
      \<and> rg_fv r' = of_bool (\<not> fits40 z)
      \<and> rg_fvl r' = (if fits40 z then rg_fvl r else 1)
      \<and> rg_flm r' = (if rg_sata r = 0 \<and> clamped \<noteq> z then 1 else rg_flm r))"
proof -
  let ?u = "v AND 0xFFFFFFFFFF" and ?z = "arithmetic_shift (sint sv) (value40 v)"
  obtain w r1 where w:
    "(if drop_bit 15 sv = 0 then shift_left40 ?u (unat sv) else shift_right40 ?u (unat (NOT sv + 1))) r = Inr (w, r1)"
    "value40 w = signed_take_bit 39 ?z" "rg_fv r1 = of_bool (\<not> fits40 ?z)"
    "rg_fvl r1 = (if fits40 ?z then rg_fvl r else 1)"
    "rg_s r1 = 0" "rg_sata r1 = rg_sata r" "rg_flm r1 = rg_flm r"
    using shift_direction [OF assms refl refl] by blast
  have sign: "drop_bit 39 ?u = 1 \<longleftrightarrow> ?z < 0"
    unfolding arithmetic_shift_negative by (rule sign_digit)
  have narrow: "sign_extend 32 (sign_extend 40 w) = sign_extend 40 w
      \<longleftrightarrow> - (2 ^ 31) \<le> signed_take_bit 39 ?z \<and> signed_take_bit 39 ?z < 2 ^ 31"
    unfolding sign_extend32_range sint_sign_extend40 w(2) ..
  have fit: "signed_take_bit 39 ?z = ?z" if "fits40 ?z"
    using that unfolding fits40_def by (simp add: signed_take_bit_int_eq_self)
  let ?r2 = "set_acc_flag (sign_extend 40 w) r1"
  let ?limited = "rg_sata r = 0 \<and> \<not> (- (2 ^ 31) \<le> ?z \<and> ?z < 2 ^ 31)"
  have flags: "rg_s ?r2 = 0" "rg_sata ?r2 = rg_sata r" "rg_fv ?r2 = rg_fv r1" "rg_fvl ?r2 = rg_fvl r1" "rg_flm ?r2 = rg_flm r1"
    by (simp_all add: set_acc_flag_def Let_def w(5,6))
  have limited: "rg_s ?r2 = 0 \<and> rg_sata ?r2 = 0 \<and> (rg_fv ?r2 \<noteq> 0 \<or> sign_extend 32 (sign_extend 40 w) \<noteq> sign_extend 40 w)
      \<longleftrightarrow> ?limited"
    unfolding narrow flags w(3) using fit by (auto simp: fits40_def)
  have run: "shift_bus40 v sv dest r =
     (if ?limited then set_acc dest (if ?z < 0 then 0xFFFFFFFF80000000 else 0x7FFFFFFF) (?r2\<lparr>rg_flm := 1\<rparr>)
      else set_acc dest (sign_extend 40 w) ?r2)"
    unfolding limited [symmetric] sign [symmetric] by (rule shift_bus40_run [OF w(1) refl refl refl])
  show ?thesis
  proof (cases ?limited)
    case True
    then show ?thesis
      unfolding run Let_def by (intro exI conjI) (auto simp: flags w(3,4))
  next
    case False
    then show ?thesis
      unfolding run Let_def using fit by (intro exI conjI) (auto simp: flags w(2,3,4,7) sint_sign_extend40 fits40_def)
  qed
qed

lemma shift_bus40_exact_witness:
  "\<exists>w r'. shift_bus40 0x0012345678 0x0008 Reg_a0 (registers_reset\<lparr>rg_sata := 0\<rparr>) = set_acc Reg_a0 w r'
     \<and> sint w = 2 ^ 31 - 1 \<and> rg_flm r' = 1 \<and> rg_fv r' = 0"
proof -
  have "rg_s (registers_reset\<lparr>rg_sata := 0\<rparr>) = 0"
    by (simp add: registers_reset_def)
  moreover have "arithmetic_shift (sint (0x0008 :: u16)) (value40 0x0012345678) = 0x1234567800"
    by (simp add: arithmetic_shift_def value40_def signed_take_bit_int_eq_self)
  ultimately show ?thesis
    using shift_bus40_exact [of "registers_reset\<lparr>rg_sata := 0\<rparr>" "0x0012345678" "0x0008" Reg_a0]
    by (auto simp: Let_def fits40_def)
qed

end
