(* ===== verification/Interrupt_Return.thy ===== *)
theory Interrupt_Return
  imports Processor
begin

unbundle bit_operations_syntax

text \<open>
  Calls, interrupts and the context switch of src/src/interpreter.h, with the way back: what the
  hardware puts on the stack and into the shadows is what the return takes from them.
\<close>

section \<open>The stack\<close>

text \<open>An address of the data space that is memory, and a memory word put there.\<close>

definition plain_word :: "'x machine \<Rightarrow> u16 \<Rightarrow> bool" where
  "plain_word s a \<longleftrightarrow> \<not> in_mmio (sys_miu (mc_sys s)) a \<and> data_address_ok (sys_miu (mc_sys s)) a"

definition with_memory :: "'x machine \<Rightarrow> shared_memory \<Rightarrow> 'x machine" where
  "with_memory s m = s\<lparr>mc_sys := (mc_sys s)\<lparr>sys_memory := m\<rparr>\<rparr>"

definition word_at :: "'x machine \<Rightarrow> u16 \<Rightarrow> u16 result" where
  "word_at s a = data_read_mem (sys_miu (mc_sys s)) a (sys_memory (mc_sys s))"

lemma plain_word_regs [simp]:
  "plain_word (s\<lparr>mc_regs := r\<rparr>) a = plain_word s a" "word_at (s\<lparr>mc_regs := r\<rparr>) a = word_at s a"
  "plain_word (s\<lparr>mc_idle := b\<rparr>) a = plain_word s a" "word_at (s\<lparr>mc_idle := b\<rparr>) a = word_at s a"
  by (simp_all add: plain_word_def word_at_def)

lemma mem_read_plain: "plain_word s a \<Longrightarrow> mem_data_read a s = rbind (word_at s a) (\<lambda>v. Inr (v, s))"
  by (simp add: mem_data_read_def data_read_def plain_word_def word_at_def data_read_mem_def rbind_assoc)

lemma mem_write_plain:
  assumes "plain_word s a"
  obtains m where "mem_data_write a v s = Inr ((), with_memory s m)"
    "\<And>b. data_address_ok (sys_miu (mc_sys s)) b \<Longrightarrow>
      word_at (with_memory s m) b = (if a = b then Inr v else word_at s b)"
proof -
  obtain m where m: "data_write_mem (sys_miu (mc_sys s)) a v (sys_memory (mc_sys s)) = Inr m"
    using data_words.wr_ok assms unfolding plain_word_def by blast
  then have "mem_data_write a v s = Inr ((), with_memory s m)"
    using assms by (auto simp: mem_data_write_def sys_action_def data_write_def plain_word_def data_write_mem_def
        with_memory_def deliver_signals_def rbind_assoc rbind_Inr_iff)
  moreover have "word_at (with_memory s m) b = (if a = b then Inr v else word_at s b)"
    if "data_address_ok (sys_miu (mc_sys s)) b" for b
    using data_words.rd_wr [OF _ that m] assms by (simp add: word_at_def with_memory_def plain_word_def)
  ultimately show thesis ..
qed

definition stack_free :: "'x machine \<Rightarrow> bool" where
  "stack_free s \<longleftrightarrow> plain_word s (rg_sp (mc_regs s) - 1) \<and> plain_word s (rg_sp (mc_regs s) - 2)"

lemma push_word_plain:
  assumes "plain_word s (rg_sp (mc_regs s) - 1)"
  obtains m where "push_word v s = Inr ((), with_memory (s\<lparr>mc_regs := (mc_regs s)\<lparr>rg_sp := rg_sp (mc_regs s) - 1\<rparr>\<rparr>) m)"
    "\<And>b. data_address_ok (sys_miu (mc_sys s)) b \<Longrightarrow>
      word_at (with_memory s m) b = (if rg_sp (mc_regs s) - 1 = b then Inr v else word_at s b)"
proof -
  let ?s = "s\<lparr>mc_regs := (mc_regs s)\<lparr>rg_sp := rg_sp (mc_regs s) - 1\<rparr>\<rparr>" and ?a = "rg_sp (mc_regs s) - 1"
  have p: "plain_word ?s ?a"
    using assms by (simp add: plain_word_def)
  from mem_write_plain [OF p] obtain m where m: "mem_data_write ?a v ?s = Inr ((), with_memory ?s m)"
    "\<And>b. data_address_ok (sys_miu (mc_sys ?s)) b \<Longrightarrow>
      word_at (with_memory ?s m) b = (if ?a = b then Inr v else word_at ?s b)"
    by blast
  show thesis
  proof
    show "push_word v s = Inr ((), with_memory ?s m)"
      using m(1) by (simp add: push_word_def rupd_def rget_def on_regs_def)
    show "word_at (with_memory s m) b = (if ?a = b then Inr v else word_at s b)"
      if "data_address_ok (sys_miu (mc_sys s)) b" for b
      using m(2) [of b] that by (simp add: word_at_def with_memory_def)
  qed
qed

text \<open>The words of a return address, in the order the configuration asks for.\<close>

definition return_words :: "registers \<Rightarrow> u16 \<times> u16" where
  "return_words r =
     (let l = ucast (rg_pc r AND 0xFFFF); h = ucast (drop_bit 16 (rg_pc r))
      in if rg_cpc r = 1 then (l, h) else (h, l))"

text \<open>The return address is on top of the stack.\<close>

definition returns_to :: "u32 \<Rightarrow> 'x machine \<Rightarrow> bool" where
  "returns_to pc s \<longleftrightarrow>
     (let sp = rg_sp (mc_regs s); (top, next) = return_words ((mc_regs s)\<lparr>rg_pc := pc\<rparr>) in
      plain_word s sp \<and> plain_word s (sp + 1) \<and> word_at s sp = Inr top \<and> word_at s (sp + 1) = Inr next)"

lemma push_pc_returns:
  assumes "stack_free s"
  obtains m where
    "push_pc s = Inr ((), with_memory (s\<lparr>mc_regs := (mc_regs s)\<lparr>rg_sp := rg_sp (mc_regs s) - 2\<rparr>\<rparr>) m)"
    "returns_to (rg_pc (mc_regs s)) (with_memory (s\<lparr>mc_regs := (mc_regs s)\<lparr>rg_sp := rg_sp (mc_regs s) - 2\<rparr>\<rparr>) m)"
    "\<And>b. data_address_ok (sys_miu (mc_sys s)) b \<Longrightarrow> b \<noteq> rg_sp (mc_regs s) - 1 \<Longrightarrow> b \<noteq> rg_sp (mc_regs s) - 2 \<Longrightarrow>
      word_at (with_memory s m) b = word_at s b"
proof -
  let ?sp = "rg_sp (mc_regs s)" and ?ws = "return_words (mc_regs s)"
  let ?s1 = "\<lambda>m. with_memory (s\<lparr>mc_regs := (mc_regs s)\<lparr>rg_sp := ?sp - 1\<rparr>\<rparr>) m"
  have p: "plain_word s (?sp - 1)" "plain_word s (?sp - 2)"
    using assms by (simp_all add: stack_free_def)
  from push_word_plain [OF p(1)] obtain m where
    m: "push_word (snd ?ws) s = Inr ((), ?s1 m)"
      "\<And>b. data_address_ok (sys_miu (mc_sys s)) b \<Longrightarrow>
        word_at (with_memory s m) b = (if ?sp - 1 = b then Inr (snd ?ws) else word_at s b)"
    by blast
  have p2: "plain_word (?s1 m) (rg_sp (mc_regs (?s1 m)) - 1)"
    using p(2) by (simp add: plain_word_def with_memory_def)
  from push_word_plain [OF p2] obtain m2 where
    m2: "push_word (fst ?ws) (?s1 m) = Inr ((), with_memory (?s1 m\<lparr>mc_regs := (mc_regs (?s1 m))\<lparr>rg_sp := rg_sp (mc_regs (?s1 m)) - 1\<rparr>\<rparr>) m2)"
      "\<And>b. data_address_ok (sys_miu (mc_sys (?s1 m))) b \<Longrightarrow>
        word_at (with_memory (?s1 m) m2) b = (if rg_sp (mc_regs (?s1 m)) - 1 = b then Inr (fst ?ws) else word_at (?s1 m) b)"
    by blast
  let ?t = "with_memory (s\<lparr>mc_regs := (mc_regs s)\<lparr>rg_sp := ?sp - 2\<rparr>\<rparr>) m2"
  have words: "word_at ?t b = (if ?sp - 2 = b then Inr (fst ?ws) else if ?sp - 1 = b then Inr (snd ?ws) else word_at s b)"
    if "data_address_ok (sys_miu (mc_sys s)) b" for b
    using that m(2) [of b] m2(2) [of b] by (simp add: word_at_def with_memory_def)
  show thesis
  proof
    show "push_pc s = Inr ((), ?t)"
      using m(1) m2(1)
      by (simp add: push_pc_def rget_def on_regs_def return_words_def Let_def with_memory_def sseq_Cons split: if_splits)
    show "returns_to (rg_pc (mc_regs s)) ?t"
      using words [of "?sp - 2"] words [of "?sp - 1"] p
      by (simp add: returns_to_def return_words_def Let_def plain_word_def with_memory_def split: if_splits)
    show "word_at (with_memory s m2) b = word_at s b"
      if "data_address_ok (sys_miu (mc_sys s)) b" "b \<noteq> ?sp - 1" "b \<noteq> ?sp - 2" for b
      using words [OF that(1)] that(2,3) by (simp add: word_at_def with_memory_def)
  qed
qed

lemma join_words: "ucast (ucast (w AND 0xFFFF) :: u16) OR push_bit 16 (ucast (ucast (drop_bit 16 w) :: u16)) = (w :: u32)"
  by (rule bit_word_eqI) (auto simp: bit_simps numeral_masks)

lemma pop_pc_returns:
  assumes "returns_to pc s" "pc < 0x40000"
  shows "pop_pc s = Inr ((), s\<lparr>mc_regs := (mc_regs s)\<lparr>rg_sp := rg_sp (mc_regs s) + 2, rg_pc := pc\<rparr>\<rparr>)"
  using assms join_words [of pc] unfolding returns_to_def return_words_def
  by (cases "rg_cpc (mc_regs s) = 1")
    (simp_all add: pop_pc_def pop_word_def rget_def rupd_def on_regs_def Let_def mem_read_plain set_pc_def)

section \<open>Interrupts\<close>

text \<open>The interrupt line that is served: enabled, requested, and the lowest such line.\<close>

definition serves :: "registers \<Rightarrow> nat \<Rightarrow> bool" where
  "serves r i \<longleftrightarrow> rg_ie r \<noteq> 0 \<and> \<not> rg_rep r \<and> i < length (rg_im r) \<and> rg_im r ! i \<noteq> 0 \<and> rg_ip r ! i \<noteq> 0
     \<and> (\<forall>j < i. rg_im r ! j = 0 \<or> rg_ip r ! j = 0)"

lemma always: "condition_pass (Cond 0) r"
  by (simp add: Cond_values_def operand_name_def)

lemma due_served: "serves r i \<Longrightarrow> due_interrupt r = Some i"
  unfolding due_interrupt_def find_Some_iff serves_def by (intro exI [of _ i]) auto

definition interrupted :: "nat \<Rightarrow> registers \<Rightarrow> registers" where
  "interrupted i r = r\<lparr>rg_ip := (rg_ip r)[i := 0], rg_ie := 0, rg_sp := rg_sp r - 2, rg_pc := 6 + of_nat i * 8\<rparr>"

text \<open>
  C5: An interrupt and the return from it. With interrupts enabled and no repeat running, the lowest
  line that is enabled and requested is served: its request is cleared, interrupts are disabled,
  the machine wakes up and goes on at the vector of the line, after the context switch when the line
  asks for one. The return address is on top of the stack and no other word of memory
  changed; from whatever the handler left, with the stack as it was, the return goes back to the
  instruction that was due, with interrupts enabled.
\<close>

theorem interrupt_returns:
  assumes "serves (mc_regs s) i" "stack_free s" "rg_pc (mc_regs s) < 0x40000"
  shows "\<exists>t. take_interrupt s = swhen (rg_ic (mc_regs s) ! i \<noteq> 0) (on_regs context_store) t
    \<and> mc_regs t = interrupted i (mc_regs s) \<and> \<not> mc_idle t
    \<and> (\<forall>b. data_address_ok (sys_miu (mc_sys s)) b \<longrightarrow> b \<noteq> rg_sp (mc_regs s) - 1 \<longrightarrow> b \<noteq> rg_sp (mc_regs s) - 2 \<longrightarrow>
        word_at t b = word_at s b)
    \<and> (\<forall>u. mc_sys u = mc_sys t \<and> rg_sp (mc_regs u) = rg_sp (mc_regs t) \<and> rg_cpc (mc_regs u) = rg_cpc (mc_regs t) \<longrightarrow>
        reti 0 u = Inr ((), u\<lparr>mc_regs := (mc_regs u)\<lparr>
          rg_sp := rg_sp (mc_regs s), rg_pc := rg_pc (mc_regs s), rg_ie := 1\<rparr>\<rparr>))"
proof -
  let ?r = "mc_regs s"
  let ?s = "s\<lparr>mc_regs := ?r\<lparr>rg_ip := (rg_ip ?r)[i := 0], rg_ie := 0\<rparr>\<rparr>"
  have due: "due_interrupt ?r = Some i" "rg_ie ?r \<noteq> 0" "\<not> rg_rep ?r"
    using assms(1) due_served by (simp_all add: serves_def)
  have "stack_free ?s"
    using assms(2) by (simp add: stack_free_def)
  from push_pc_returns [OF this] obtain m where m:
    "push_pc ?s = Inr ((), with_memory (?s\<lparr>mc_regs := (mc_regs ?s)\<lparr>rg_sp := rg_sp (mc_regs ?s) - 2\<rparr>\<rparr>) m)"
    "returns_to (rg_pc (mc_regs ?s)) (with_memory (?s\<lparr>mc_regs := (mc_regs ?s)\<lparr>rg_sp := rg_sp (mc_regs ?s) - 2\<rparr>\<rparr>) m)"
    "\<And>b. data_address_ok (sys_miu (mc_sys ?s)) b \<Longrightarrow> b \<noteq> rg_sp (mc_regs ?s) - 1 \<Longrightarrow> b \<noteq> rg_sp (mc_regs ?s) - 2 \<Longrightarrow>
      word_at (with_memory ?s m) b = word_at ?s b"
    by blast
  let ?t = "(with_memory s m)\<lparr>mc_idle := False, mc_regs := interrupted i ?r\<rparr>"
  have take: "take_interrupt s = swhen (rg_ic ?r ! i \<noteq> 0) (on_regs context_store) ?t"
    using due m(1) by (simp add: take_interrupt_def enter_interrupt_def sseq_Cons rget_def rupd_def on_regs_def
        swhen_if with_memory_def interrupted_def rbind_assoc case_prod_unfold)
  have way_back: "reti 0 u = Inr ((), u\<lparr>mc_regs := (mc_regs u)\<lparr>rg_sp := rg_sp ?r, rg_pc := rg_pc ?r, rg_ie := 1\<rparr>\<rparr>)"
    if "mc_sys u = mc_sys ?t" "rg_sp (mc_regs u) = rg_sp (mc_regs ?t)" "rg_cpc (mc_regs u) = rg_cpc (mc_regs ?t)" for u
  proof -
    have "returns_to (rg_pc ?r) u"
      using m(2) that by (simp add: returns_to_def return_words_def Let_def plain_word_def word_at_def with_memory_def
          interrupted_def)
    from pop_pc_returns [OF this assms(3)] show ?thesis
      using always that(2)
      by (simp add: reti_def if_cond_def rget_def rupd_def on_regs_def sseq_Cons set_ie_def with_memory_def interrupted_def)
  qed
  show ?thesis
    using take way_back m(3) by (intro exI [of _ ?t]) (simp add: word_at_def with_memory_def)
qed

definition interrupt_example :: "(u32 \<Rightarrow> u8) machine" where
  "interrupt_example = \<lparr>mc_regs = registers_reset\<lparr>rg_ie := 1, rg_im := [0, 1, 1], rg_ip := [1, 1, 1],
       rg_sp := 0x400, rg_pc := 0x1234\<rparr>, mc_sys = system_example, mc_bus = byte_bus,
     mc_interrupt_pending = [False, False, False], mc_vinterrupt_pending = False,
     mc_vinterrupt_context_switch = False, mc_vinterrupt_address = 0, mc_idle = True, mc_out = []\<rparr>"

lemma interrupt_returns_witness:
  "\<exists>t. take_interrupt interrupt_example = Inr ((), t) \<and> rg_pc (mc_regs t) = 0x0E
    \<and> reti 0 t = Inr ((), t\<lparr>mc_regs := (mc_regs t)\<lparr>rg_sp := 0x400, rg_pc := 0x1234, rg_ie := 1\<rparr>\<rparr>)"
proof -
  have "serves (mc_regs interrupt_example) 1" "stack_free interrupt_example"
    by (simp_all add: serves_def interrupt_example_def registers_reset_def stack_free_def plain_word_def in_mmio_def
        data_address_ok_def data_page_def system_example_def miu_reset_def)
  from interrupt_returns [OF this] show ?thesis
    by (auto simp: interrupt_example_def interrupted_def registers_reset_def swhen_if)
qed

section \<open>The context switch\<close>

text \<open>What the handler may use freely: the flags, the second accumulators, the repeat counter if it is saved.\<close>

definition flags_clear :: "registers \<Rightarrow> registers" where
  "flags_clear r = r\<lparr>rg_flm := 0, rg_fvl := 0, rg_fe := 0, rg_fc0 := 0, rg_fc1 := 0, rg_fv := 0,
     rg_fn := 0, rg_fm := 0, rg_fz := 0, rg_fr := 0\<rparr>"

definition kept_by_handler :: "registers \<Rightarrow> registers" where
  "kept_by_handler r =
     (let r = flags_clear r\<lparr>rg_a := (rg_a r)[1 := 0], rg_b := (rg_b r)[1 := 0]\<rparr>
      in if rg_crep r = 0 then r\<lparr>rg_repc := 0\<rparr> else r)"

text \<open>The registers after the way there and back: the saved copies stay behind.\<close>

definition context_copied :: "registers \<Rightarrow> registers" where
  "context_copied r =
     (let q = shadow_store r;
          q = (if rg_crep r = 0 then q\<lparr>rg_repcs := rg_repc r\<rparr> else q)
      in if rg_ccnta r = 0 then q\<lparr>rg_a1s := rg_a r ! 1, rg_b1s := rg_b r ! 1\<rparr> else q)"

text \<open>The second accumulators, given: they take part in the switch in both of its modes.\<close>

definition with_second :: "u64 \<Rightarrow> u64 \<Rightarrow> registers \<Rightarrow> registers" where
  "with_second a1 b1 r = r\<lparr>rg_a := (rg_a r)[1 := a1], rg_b := (rg_b r)[1 := b1]\<rparr>"

lemma shadow_swap_twice: "registers_ok r \<Longrightarrow> shadow_swap (shadow_swap r) = r"
  unfolding shadow_swap_chain by (rule exchange_all.pair.swap_swap)

lemma shadow_swap_keeps:
  "flags_clear (shadow_swap r) = shadow_swap (flags_clear r)"
  "rg_shadow (shadow_swap r) = rg_shadow r" "rg_crep (shadow_swap r) = rg_crep r" "rg_ccnta (shadow_swap r) = rg_ccnta r"
  "rg_repc (shadow_swap r) = rg_repc r" "rg_a (shadow_swap r) = rg_a r" "rg_b (shadow_swap r) = rg_b r"
  by (simp_all add: shadow_swap_def swap_all_ar_arp_def swap_arp_def swap_ar_def swap_shadow_registers_def Let_def
      flags_clear_def)

lemma shadow_swap_updates:
  "shadow_swap (r\<lparr>rg_a1s := v, rg_b1s := w\<rparr>) = (shadow_swap r)\<lparr>rg_a1s := v, rg_b1s := w\<rparr>"
  "shadow_swap (r\<lparr>rg_repcs := x\<rparr>) = (shadow_swap r)\<lparr>rg_repcs := x\<rparr>"
  "shadow_swap (r\<lparr>rg_repc := x\<rparr>) = (shadow_swap r)\<lparr>rg_repc := x\<rparr>"
  "shadow_swap (r\<lparr>rg_a := as, rg_b := bs\<rparr>) = (shadow_swap r)\<lparr>rg_a := as, rg_b := bs\<rparr>"
  by (simp_all add: shadow_swap_def swap_all_ar_arp_def swap_arp_def swap_ar_def swap_shadow_registers_def Let_def)

lemma shadow_swap_shadow_store: "shadow_restore (shadow_swap (shadow_store r)) = shadow_swap (shadow_store r)"
  by (simp add: shadow_swap_def swap_all_ar_arp_def swap_arp_def swap_ar_def swap_shadow_registers_def Let_def
      shadow_restore_def shadow_store_def)

lemma shadow_restore_updates:
  "shadow_restore (r\<lparr>rg_a1s := v, rg_b1s := w\<rparr>) = (shadow_restore r)\<lparr>rg_a1s := v, rg_b1s := w\<rparr>"
  "shadow_restore (r\<lparr>rg_repcs := x\<rparr>) = (shadow_restore r)\<lparr>rg_repcs := x\<rparr>"
  "shadow_restore (r\<lparr>rg_repc := x\<rparr>) = (shadow_restore r)\<lparr>rg_repc := x\<rparr>"
  "shadow_restore (r\<lparr>rg_a := as, rg_b := bs\<rparr>) = (shadow_restore r)\<lparr>rg_a := as, rg_b := bs\<rparr>"
  "shadow_restore (flags_clear r) = shadow_restore r"
  by (simp_all add: shadow_restore_def flags_clear_def)

lemma shadow_restore_keeps:
  "rg_crep (shadow_restore r) = rg_crep r" "rg_ccnta (shadow_restore r) = rg_ccnta r"
  "rg_repc (shadow_restore r) = rg_repc r" "rg_a (shadow_restore r) = rg_a r" "rg_b (shadow_restore r) = rg_b r"
  by (simp_all add: shadow_restore_def)

lemma flags_clear_keeps:
  "rg_crep (flags_clear r) = rg_crep r" "rg_a (flags_clear r) = rg_a r" "rg_b (flags_clear r) = rg_b r"
  "rg_ccnta (flags_clear r) = rg_ccnta r"
  by (simp_all add: flags_clear_def)

lemmas context_parts = shadow_swap_updates shadow_restore_updates shadow_swap_keeps(2-7) shadow_restore_keeps
  flags_clear_keeps

lemma swap_saved: "rg_a1s (shadow_swap r) = rg_a1s r" "rg_b1s (shadow_swap r) = rg_b1s r" "rg_repcs (shadow_swap r) = rg_repcs r"
  by (simp_all add: shadow_swap_def swap_all_ar_arp_def swap_arp_def swap_ar_def swap_shadow_registers_def Let_def)

lemma restore_saved:
  "rg_a1s (shadow_restore r) = rg_a1s r" "rg_b1s (shadow_restore r) = rg_b1s r" "rg_repcs (shadow_restore r) = rg_repcs r"
  by (simp_all add: shadow_restore_def)

text \<open>
  The switch back does not depend on the flags or a saved repeat counter, and it depends on the
  second accumulators only as the last step shows.
\<close>

lemma kept_parts:
  "rg_crep (kept_by_handler r) = rg_crep r" "rg_ccnta (kept_by_handler r) = rg_ccnta r"
  by (simp_all add: kept_by_handler_def flags_clear_def Let_def)

lemma with_second_same: "with_second (rg_a r ! 1) (rg_b r ! 1) r = r"
  by (simp add: with_second_def)

lemma with_second_twice: "with_second x y (with_second x' y' r) = with_second x y r"
  by (simp add: with_second_def)

lemma with_second_kept:
  "with_second x y (kept_by_handler r) =
     (let q = flags_clear (with_second x y r) in if rg_crep r = 0 then q\<lparr>rg_repc := 0\<rparr> else q)"
  by (simp add: with_second_def kept_by_handler_def flags_clear_def Let_def)

lemma restore_without_flags:
  "context_restore (let q = flags_clear r in if rg_crep r = 0 then q\<lparr>rg_repc := 0\<rparr> else q) = context_restore r"
proof -
  obtain q where q: "q = shadow_swap (shadow_restore r)"
    by blast
  then have crep: "rg_crep q = rg_crep r"
    by (simp only: context_parts)
  have "shadow_swap (shadow_restore ((flags_clear r)\<lparr>rg_repc := 0\<rparr>)) = q\<lparr>rg_repc := 0\<rparr>"
    "shadow_swap (shadow_restore (flags_clear r)) = q"
    by (simp_all only: context_parts q)
  with q crep show ?thesis
    by (simp add: context_restore_def Let_def)
qed

lemma restore_from_kept:
  assumes "kept_by_handler r2 = kept_by_handler s"
  shows "context_restore r2 = context_restore (with_second (rg_a r2 ! 1) (rg_b r2 ! 1) s)"
proof -
  let ?w = "with_second (rg_a r2 ! 1) (rg_b r2 ! 1)"
  have crep: "rg_crep (?w s) = rg_crep s"
    by (simp add: with_second_def)
  have "context_restore r2 = context_restore (?w (kept_by_handler r2))"
    by (simp only: with_second_kept with_second_same restore_without_flags)
  also have "\<dots> = context_restore (?w (kept_by_handler s))"
    by (simp only: assms)
  also have "\<dots> = context_restore (?w s)"
    unfolding with_second_kept using restore_without_flags [of "?w s"] by (simp only: crep)
  finally show ?thesis .
qed

lemma context_copied_ok: "registers_ok r \<Longrightarrow> registers_ok (context_copied r)"
  by (simp add: context_copied_def shadow_store_def registers_ok_def Let_def)

lemma context_copied_values:
  "rg_a (context_copied r) = rg_a r" "rg_b (context_copied r) = rg_b r"
  "rg_ccnta r = 0 \<Longrightarrow> rg_a1s (context_copied r) = rg_a r ! 1"
  "rg_ccnta r = 0 \<Longrightarrow> rg_b1s (context_copied r) = rg_b r ! 1"
  "rg_crep (context_copied r) = rg_crep r" "rg_ccnta (context_copied r) = rg_ccnta r"
  "rg_repc (context_copied r) = rg_repc r"
  "rg_crep r = 0 \<Longrightarrow> rg_repcs (context_copied r) = rg_repc r"
  by (simp_all add: context_copied_def shadow_store_def Let_def)

lemma same_repeat: "rg_repcs c = rg_repc c \<Longrightarrow> c\<lparr>rg_repc := rg_repcs c\<rparr> = c"
  by (cases c) simp

lemma context_restore_steps:
  "context_restore r =
     (let q = shadow_swap (shadow_restore r);
          q = (if rg_crep q = 0 then q\<lparr>rg_repc := rg_repcs q\<rparr> else q)
      in if rg_ccnta q = 0 then with_second (rg_a1s q) (rg_b1s q) q
         else with_second (rg_b q ! 1) (rg_a q ! 1) q)"
  by (simp add: context_restore_def with_second_def Let_def)

lemma with_second_parts:
  "rg_crep (with_second x y r) = rg_crep r" "rg_ccnta (with_second x y r) = rg_ccnta r"
  "rg_a1s (with_second x y r) = rg_a1s r" "rg_b1s (with_second x y r) = rg_b1s r"
  "registers_ok r \<Longrightarrow> rg_a (with_second x y r) ! 1 = x"
  "registers_ok r \<Longrightarrow> rg_b (with_second x y r) ! 1 = y"
  by (simp_all add: with_second_def registers_ok_def)

lemma restore_copied:
  assumes "registers_ok r"
  shows "context_restore (with_second x y (shadow_swap (context_copied r))) =
    (if rg_ccnta r = 0 then context_copied r else with_second y x (context_copied r))"
proof -
  obtain c where c: "c = context_copied r"
    by blast
  have "shadow_restore (shadow_swap c) = shadow_swap c"
    unfolding c by (cases "rg_crep r = 0"; cases "rg_ccnta r = 0")
      (simp_all only: context_copied_def Let_def if_True if_False context_parts shadow_swap_shadow_store refl)
  then have "shadow_swap (shadow_restore (shadow_swap c)) = c"
    using shadow_swap_twice [OF context_copied_ok [OF assms]] c by simp
  then have "shadow_swap (shadow_restore (with_second x y (shadow_swap c))) = with_second x y c"
    by (simp only: with_second_def context_parts)
  moreover have "(if rg_crep c = 0 then c\<lparr>rg_repc := rg_repcs c\<rparr> else c) = c"
    using context_copied_values [of r] c by (simp add: same_repeat)
  then have "rg_crep c = 0 \<Longrightarrow>
      (with_second x y c)\<lparr>rg_repc := rg_repcs (with_second x y c)\<rparr> = with_second x y c"
    using context_copied_values(7,8) [of r] context_copied_values(5) [of r] c
    by (simp add: with_second_def same_repeat)
  moreover have "with_second (rg_a1s c) (rg_b1s c) c = c" if "rg_ccnta r = 0"
    using with_second_same [of c] context_copied_values [of r] c that by simp
  moreover have "registers_ok c" "rg_ccnta c = rg_ccnta r"
    using context_copied_values(6) [of r] context_copied_ok [OF assms] c by simp_all
  ultimately show ?thesis
    unfolding c [symmetric] context_restore_steps Let_def
    by (simp add: with_second_parts with_second_twice del: One_nat_def)
qed

lemma set_acc_flag_accumulators [simp]:
  "rg_a (set_acc_flag v r) = rg_a r" "rg_b (set_acc_flag v r) = rg_b r"
  by (simp_all add: set_acc_flag_def Let_def)

lemma kept_swapped:
  "kept_by_handler ((set_acc_flag v (r\<lparr>rg_b := (rg_b r)[1 := x]\<rparr>))\<lparr>rg_a := (rg_a r)[1 := y]\<rparr>) =
   kept_by_handler r"
  by (simp add: set_acc_flag_def kept_by_handler_def flags_clear_def Let_def)

lemma context_store_value:
  assumes "registers_ok r"
  obtains r1 where "context_store r = Inr ((), r1)"
    "kept_by_handler r1 = kept_by_handler (shadow_swap (context_copied r))"
    "(rg_a r1 ! 1, rg_b r1 ! 1) =
       (if rg_ccnta r = 0 then (rg_a r ! 1, rg_b r ! 1) else (rg_b r ! 1, rg_a r ! 1))"
proof -
  obtain q where q: "q = shadow_swap (shadow_store r)"
    by blast
  define p where "p = (if rg_crep r = 0 then q\<lparr>rg_repcs := rg_repc r\<rparr> else q)"
  have k: "rg_a q = rg_a r" "rg_b q = rg_b r" "rg_crep q = rg_crep r" "rg_ccnta q = rg_ccnta r"
      "rg_repc q = rg_repc r"
    unfolding q context_parts by (simp_all add: shadow_store_def)
  then have p: "rg_a p = rg_a r" "rg_b p = rg_b r" "rg_ccnta p = rg_ccnta r"
    by (simp_all add: p_def)
  have copied: "shadow_swap (context_copied r) =
      (if rg_ccnta r = 0 then p\<lparr>rg_a1s := rg_a r ! 1, rg_b1s := rg_b r ! 1\<rparr> else p)"
    by (cases "rg_crep r = 0"; cases "rg_ccnta r = 0")
      (simp_all only: context_copied_def Let_def if_True if_False context_parts q [symmetric] p_def refl simp_thms)
  have first: "(if rg_crep q = 0 then q\<lparr>rg_repcs := rg_repc q\<rparr> else q) = p"
    by (simp add: p_def k)
  show thesis
  proof (cases "rg_ccnta r = 0")
    case True
    have "context_store r = Inr ((), p\<lparr>rg_a1s := rg_a r ! 1, rg_b1s := rg_b r ! 1\<rparr>)"
      using True p by (simp add: context_store_def sseq_Cons q [symmetric] first)
    then show thesis
      by (rule that) (use True copied p in simp_all)
  next
    case False
    have "context_store r = Inr ((), (set_acc_flag (rg_b r ! 1)
        (p\<lparr>rg_b := (rg_b p)[1 := rg_a r ! 1]\<rparr>))\<lparr>rg_a := (rg_a p)[1 := rg_b r ! 1]\<rparr>)"
      using False p
      by (simp add: context_store_def sseq_Cons q [symmetric] first set_acc_and_flag_def
          set_acc_def acc_cell_of_def)
    then show thesis
      by (rule that)
        (use False copied p assms in \<open>simp_all add: registers_ok_def kept_swapped [where r = p, unfolded p One_nat_def]\<close>)
  qed
qed

text \<open>
  C21: The context survives an interrupt, in both modes of the switch. The switch there succeeds;
  it leaves a1 and b1 as they are when they are saved aside (ccnta = 0) and exchanges them when
  they are not. After a handler that changed the flags, the second accumulators a1 and b1 and (when it
  is saved) the repeat counter at will, the switch back brings back every register as it was, but
  that with ccnta set a1 and b1 are exchanged again and so show what the handler left in b1 and
  a1 (the old values, if it left them alone); only the copies kept for the switch stay behind.
\<close>

theorem context_switch_restores:
  assumes "registers_ok r"
  shows "\<exists>r1. context_store r = Inr ((), r1) \<and>
    (rg_a r1 ! 1, rg_b r1 ! 1) =
      (if rg_ccnta r = 0 then (rg_a r ! 1, rg_b r ! 1) else (rg_b r ! 1, rg_a r ! 1)) \<and>
    (\<forall>r2. kept_by_handler r2 = kept_by_handler r1 \<longrightarrow>
      context_restore r2 =
        (if rg_ccnta r = 0 then context_copied r
         else (context_copied r)\<lparr>rg_a := (rg_a r)[1 := rg_b r2 ! 1], rg_b := (rg_b r)[1 := rg_a r2 ! 1]\<rparr>))"
proof -
  obtain r1 where r1: "context_store r = Inr ((), r1)"
    "kept_by_handler r1 = kept_by_handler (shadow_swap (context_copied r))"
    "(rg_a r1 ! 1, rg_b r1 ! 1) =
       (if rg_ccnta r = 0 then (rg_a r ! 1, rg_b r ! 1) else (rg_b r ! 1, rg_a r ! 1))"
    by (rule context_store_value [OF assms])
  have "context_restore r2 =
      (if rg_ccnta r = 0 then context_copied r else with_second (rg_b r2 ! 1) (rg_a r2 ! 1) (context_copied r))"
    if "kept_by_handler r2 = kept_by_handler r1" for r2
    using restore_from_kept [of r2 "shadow_swap (context_copied r)"] restore_copied [OF assms] that r1(2)
    by simp
  with r1 show ?thesis
    by (auto simp: with_second_def context_copied_values)
qed

lemma context_switch_restores_witness:
  "let r = registers_reset\<lparr>rg_fz := 1, rg_a := [3, 7], rg_b := [4, 8]\<rparr> in
   rg_ccnta r \<noteq> 0 \<and>
   (\<exists>r1. context_store r = Inr ((), r1) \<and> rg_a r1 ! 1 = 8 \<and>
      context_restore (r1\<lparr>rg_fz := 0, rg_fm := 1\<rparr>) = (context_copied r)\<lparr>rg_a := [3, 7], rg_b := [4, 8]\<rparr>)"
proof -
  let ?r = "registers_reset\<lparr>rg_fz := 1, rg_a := [3, 7], rg_b := [4, 8]\<rparr>"
  have ok: "registers_ok ?r" and c: "rg_ccnta ?r \<noteq> 0"
    using registers_reset_ok by (simp_all add: registers_ok_def registers_reset_def)
  from context_switch_restores [OF ok] c obtain r1 where r1: "context_store ?r = Inr ((), r1)"
    "rg_a r1 ! 1 = 8" "rg_b r1 ! 1 = 7"
    "\<And>r2. kept_by_handler r2 = kept_by_handler r1 \<Longrightarrow> context_restore r2 =
      (context_copied ?r)\<lparr>rg_a := [3, 7][1 := rg_b r2 ! 1], rg_b := [4, 8][1 := rg_a r2 ! 1]\<rparr>"
    by auto
  have "kept_by_handler (r1\<lparr>rg_fz := 0, rg_fm := 1\<rparr>) = kept_by_handler r1"
    by (simp add: kept_by_handler_def flags_clear_def Let_def)
  from r1(4) [OF this] r1(1-3) c show ?thesis
    by (simp add: Let_def)
qed

end
