(* ===== verification/Host_Interface.thy ===== *)
theory Host_Interface
  imports Run_Invariant
begin

unbundle bit_operations_syntax

text \<open>
  The interface of the host: src/src/teakra.cpp and, with the same calls behind C linkage,
  src/src/teakra_c.cpp. Each method is a step of the machine; a session is a sequence of calls with
  their answers. The handlers the host installs are what receives \<open>mc_out\<close>.
\<close>

section \<open>The mailbox\<close>

definition host_send_data_is_empty :: "u8 \<Rightarrow> ('x, bool) mstep" where
  "host_send_data_is_empty i = squery (\<lambda>s.
     rbind (apbp_is_data_ready (unat i) (sys_apbp_from_cpu (mc_sys s))) (\<lambda>ready. Inr (\<not> ready)))"

text \<open>What the mailbox towards the DSP raises is the request \<open>0xE\<close> of the interrupt controller.\<close>

definition cpu_send_data :: "nat \<Rightarrow> u16 \<Rightarrow> 'x action" where
  "cpu_send_data i v s =
     rbind (apbp_send_data i v (sys_apbp_from_cpu s)) (\<lambda>(a, es).
       Inr (raise_irqs (map apbp_from_cpu_irq es) (s\<lparr>sys_apbp_from_cpu := a\<rparr>)))"

definition cpu_set_semaphore :: "u16 \<Rightarrow> 'x action" where
  "cpu_set_semaphore v s =
     (let (a, es) = apbp_set_semaphore v (sys_apbp_from_cpu s)
      in Inr (raise_irqs (map apbp_from_cpu_irq es) (s\<lparr>sys_apbp_from_cpu := a\<rparr>)))"

definition host_send_data :: "u8 \<Rightarrow> u16 \<Rightarrow> 'x instr" where
  "host_send_data i v = sys_action (cpu_send_data (unat i) v)"

definition host_recv_data_is_ready :: "u8 \<Rightarrow> ('x, bool) mstep" where
  "host_recv_data_is_ready i = squery (\<lambda>s. apbp_is_data_ready (unat i) (sys_apbp_from_dsp (mc_sys s)))"

definition host_recv_data :: "u8 \<Rightarrow> ('x, u16) mstep" where
  "host_recv_data i s =
     rbind (apbp_recv_data (unat i) (sys_apbp_from_dsp (mc_sys s))) (\<lambda>(v, a).
       Inr (v, s\<lparr>mc_sys := (mc_sys s)\<lparr>sys_apbp_from_dsp := a\<rparr>\<rparr>))"

definition host_peek_recv_data :: "u8 \<Rightarrow> ('x, u16) mstep" where
  "host_peek_recv_data i = squery (\<lambda>s. apbp_peek_data (unat i) (sys_apbp_from_dsp (mc_sys s)))"

definition host_set_semaphore :: "u16 \<Rightarrow> 'x instr" where
  "host_set_semaphore v = sys_action (cpu_set_semaphore v)"

definition host_get_semaphore :: "('x, u16) mstep" where
  "host_get_semaphore = sget (\<lambda>s. ap_semaphore (sys_apbp_from_dsp (mc_sys s)))"

definition upd_from_dsp :: "(apbp \<Rightarrow> apbp) \<Rightarrow> 'x instr" where
  "upd_from_dsp f = supd (\<lambda>s. s\<lparr>mc_sys := (mc_sys s)\<lparr>sys_apbp_from_dsp := f (sys_apbp_from_dsp (mc_sys s))\<rparr>\<rparr>)"

definition host_clear_semaphore :: "u16 \<Rightarrow> 'x instr" where
  "host_clear_semaphore v = upd_from_dsp (apbp_clear_semaphore v)"

definition host_mask_semaphore :: "u16 \<Rightarrow> 'x instr" where
  "host_mask_semaphore v = upd_from_dsp (apbp_mask_semaphore v)"

section \<open>The bus master\<close>

definition host_set_ahbm_callback :: "'x external_bus \<Rightarrow> 'x instr" where
  "host_set_ahbm_callback bus = supd (\<lambda>s. s\<lparr>mc_bus := bus\<rparr>)"

definition on_ahbm :: "('x ahbm \<Rightarrow> ('a \<times> 'x ahbm) result) \<Rightarrow> ('x, 'a) mstep" where
  "on_ahbm f s = rbind (f (sys_ahbm (mc_sys s))) (\<lambda>(v, a). Inr (v, s\<lparr>mc_sys := (mc_sys s)\<lparr>sys_ahbm := a\<rparr>\<rparr>))"

definition host_ahbm_get_unit_size :: "u16 \<Rightarrow> ('x, u16) mstep" where
  "host_ahbm_get_unit_size i = squery (\<lambda>s. ahbm_get_unit_size i (sys_ahbm (mc_sys s)))"

definition host_ahbm_get_direction :: "u16 \<Rightarrow> ('x, u16) mstep" where
  "host_ahbm_get_direction i = squery (\<lambda>s. ahbm_get_direction i (sys_ahbm (mc_sys s)))"

definition host_ahbm_get_dma_channel :: "u16 \<Rightarrow> ('x, u16) mstep" where
  "host_ahbm_get_dma_channel i = squery (\<lambda>s. ahbm_get_dma_channel i (sys_ahbm (mc_sys s)))"

definition host_ahbm_read16 :: "u32 \<Rightarrow> ('x, u16) mstep" where
  "host_ahbm_read16 address s = on_ahbm (ahbm_read16 (mc_bus s) 0 address) s"

definition host_ahbm_write16 :: "u32 \<Rightarrow> u16 \<Rightarrow> 'x instr" where
  "host_ahbm_write16 address v s =
     on_ahbm (\<lambda>a. rbind (ahbm_write16 (mc_bus s) 0 address v a) (\<lambda>a. Inr ((), a))) s"

text \<open>\<open>AHBMRead32\<close> is declared to return 16 bits.\<close>

definition host_ahbm_read32 :: "u32 \<Rightarrow> ('x, u16) mstep" where
  "host_ahbm_read32 address s =
     on_ahbm (\<lambda>a. rbind (ahbm_read32 (mc_bus s) 0 address a) (\<lambda>(v, a). Inr (ucast v, a))) s"

definition host_ahbm_write32 :: "u32 \<Rightarrow> u32 \<Rightarrow> 'x instr" where
  "host_ahbm_write32 address v s =
     on_ahbm (\<lambda>a. rbind (ahbm_write32 (mc_bus s) 0 address v a) (\<lambda>a. Inr ((), a))) s"

section \<open>The memories\<close>

definition host_data_read :: "u16 \<Rightarrow> bool \<Rightarrow> ('x, u16) mstep" where
  "host_data_read address bypass_mmio s =
     rbind (data_read (mc_bus s) address bypass_mmio (mc_sys s)) (\<lambda>(v, t). Inr (v, s\<lparr>mc_sys := t\<rparr>))"

definition host_data_write :: "u16 \<Rightarrow> u16 \<Rightarrow> bool \<Rightarrow> 'x instr" where
  "host_data_write address v bypass_mmio s = sys_action (data_write (mc_bus s) address v bypass_mmio) s"

definition host_data_read_a32 :: "u32 \<Rightarrow> ('x, u16) mstep" where
  "host_data_read_a32 address = squery (\<lambda>s. data_read_a32 address (sys_memory (mc_sys s)))"

definition host_data_write_a32 :: "u32 \<Rightarrow> u16 \<Rightarrow> 'x instr" where
  "host_data_write_a32 address v s =
     rbind (data_write_a32 address v (sys_memory (mc_sys s))) (\<lambda>m.
       Inr ((), s\<lparr>mc_sys := (mc_sys s)\<lparr>sys_memory := m\<rparr>\<rparr>))"

definition host_read_mmio :: "u16 \<Rightarrow> ('x, u16) mstep" where
  "host_read_mmio address s =
     rbind (host_mmio_read (mc_bus s) address (mc_sys s)) (\<lambda>(v, t). Inr (v, s\<lparr>mc_sys := t\<rparr>))"

definition host_write_mmio :: "u16 \<Rightarrow> u16 \<Rightarrow> 'x instr" where
  "host_write_mmio address v s = sys_action (host_mmio_write (mc_bus s) address v) s"

text \<open>The host holds the pointer to the memory and writes any byte of it.\<close>

definition host_poke :: "u32 \<Rightarrow> u8 \<Rightarrow> 'x instr" where
  "host_poke address v s =
     (if address < dsp_memory_size
      then Inr ((), s\<lparr>mc_sys := (mc_sys s)\<lparr>sys_memory := (sys_memory (mc_sys s))(address := v)\<rparr>\<rparr>)
      else Inl OutOfBounds)"

text \<open>The two queries of channel 0 of the DMA engine switch the active channel back and forth.\<close>

definition dma_chan0 :: "(dma_channel \<Rightarrow> u16) \<Rightarrow> ('x, u16) mstep" where
  "dma_chan0 field s =
     (let active_bak = dma_active_channel (sys_dma (mc_sys s));
          d = (sys_dma (mc_sys s))\<lparr>dma_active_channel := 0\<rparr> in
      rbind (dma_active field d) (\<lambda>ret.
        Inr (ret, s\<lparr>mc_sys := (mc_sys s)\<lparr>sys_dma := d\<lparr>dma_active_channel := active_bak\<rparr>\<rparr>\<rparr>)))"

definition dma_chan0_get_src_high :: "('x, u16) mstep" where
  "dma_chan0_get_src_high = dma_chan0 dm_addr_src_high"

definition dma_chan0_get_dst_high :: "('x, u16) mstep" where
  "dma_chan0_get_dst_high = dma_chan0 dm_addr_dst_high"


section \<open>Construction\<close>

text \<open>
  A constructed emulator. The host owns the memory; the vectors of the interrupt controller and the
  two fields of the vectored interrupt have no initial value in the code, nor have the shadows
  of the address configuration in the registers: these are the arguments.
\<close>

definition icu_constructed :: "u16 list \<Rightarrow> u16 list \<Rightarrow> u16 list \<Rightarrow> icu" where
  "icu_constructed low high context_switch = \<lparr>icu_request = 0, icu_enabled = [0, 0, 0], icu_vectored_enabled = 0,
     icu_vector_low = low, icu_vector_high = high, icu_vector_context_switch = context_switch\<rparr>"

definition system_constructed :: "shared_memory \<Rightarrow> icu \<Rightarrow> 'x \<Rightarrow> 'x system" where
  "system_constructed memory controller outside = \<lparr>sys_memory = memory, sys_miu = miu_reset, sys_icu = controller,
     sys_apbp_from_cpu = apbp_initial, sys_apbp_from_dsp = apbp_initial,
     sys_timer = [timer_reset, timer_reset],
     sys_ahbm = \<lparr>ah_busy_flag = 0, ah_channels = replicate 3 ahbm_channel_initial, ah_external = outside\<rparr>,
     sys_dma = dma_reset, sys_btdmp = [btdmp_reset, btdmp_reset], sys_storage = (\<lambda>_. 0)\<rparr>"

definition machine_constructed :: "'x external_bus \<Rightarrow> registers \<Rightarrow> 'x system \<Rightarrow> bool \<Rightarrow> u32 \<Rightarrow> 'x machine" where
  "machine_constructed bus regs sys context_switch address = \<lparr>mc_regs = regs, mc_sys = sys, mc_bus = bus,
     mc_interrupt_pending = [False, False, False], mc_vinterrupt_pending = False,
     mc_vinterrupt_context_switch = context_switch, mc_vinterrupt_address = address,
     mc_idle = False, mc_out = []\<rparr>"

section \<open>Sessions\<close>

datatype 'x host_call =
    CallReset | CallRun u32
  | CallSendDataIsEmpty u8 | CallSendData u8 u16 | CallRecvDataIsReady u8 | CallRecvData u8 | CallPeekRecvData u8
  | CallSetSemaphore u16 | CallGetSemaphore | CallClearSemaphore u16 | CallMaskSemaphore u16
  | CallSetAHBMCallback "'x external_bus"
  | CallAHBMGetUnitSize u16 | CallAHBMGetDirection u16 | CallAHBMGetDmaChannel u16
  | CallAHBMRead16 u32 | CallAHBMWrite16 u32 u16 | CallAHBMRead32 u32 | CallAHBMWrite32 u32 u32
  | CallProgramRead u32 | CallProgramWrite u32 u16
  | CallDataRead u16 bool | CallDataWrite u16 u16 bool | CallDataReadA32 u32 | CallDataWriteA32 u32 u16
  | CallMMIORead u16 | CallMMIOWrite u16 u16
  | CallDMAChan0GetSrcHigh | CallDMAChan0GetDstHigh
  | CallPoke u32 u8

datatype answer = Done | Flag bool | Word u16

definition reply_done :: "('x, unit) mstep \<Rightarrow> ('x, answer) mstep" where
  "reply_done m = sbind m (\<lambda>_. sreturn Done)"

definition reply_flag :: "('x, bool) mstep \<Rightarrow> ('x, answer) mstep" where
  "reply_flag m = sbind m (\<lambda>b. sreturn (Flag b))"

definition reply_word :: "('x, u16) mstep \<Rightarrow> ('x, answer) mstep" where
  "reply_word m = sbind m (\<lambda>v. sreturn (Word v))"

fun host_step :: "'x host_call \<Rightarrow> ('x, answer) mstep" where
  "host_step CallReset = reply_done teakra_reset"
| "host_step (CallRun cycles) = reply_done (teakra_run cycles)"
| "host_step (CallSendDataIsEmpty i) = reply_flag (host_send_data_is_empty i)"
| "host_step (CallSendData i v) = reply_done (host_send_data i v)"
| "host_step (CallRecvDataIsReady i) = reply_flag (host_recv_data_is_ready i)"
| "host_step (CallRecvData i) = reply_word (host_recv_data i)"
| "host_step (CallPeekRecvData i) = reply_word (host_peek_recv_data i)"
| "host_step (CallSetSemaphore v) = reply_done (host_set_semaphore v)"
| "host_step CallGetSemaphore = reply_word host_get_semaphore"
| "host_step (CallClearSemaphore v) = reply_done (host_clear_semaphore v)"
| "host_step (CallMaskSemaphore v) = reply_done (host_mask_semaphore v)"
| "host_step (CallSetAHBMCallback bus) = reply_done (host_set_ahbm_callback bus)"
| "host_step (CallAHBMGetUnitSize i) = reply_word (host_ahbm_get_unit_size i)"
| "host_step (CallAHBMGetDirection i) = reply_word (host_ahbm_get_direction i)"
| "host_step (CallAHBMGetDmaChannel i) = reply_word (host_ahbm_get_dma_channel i)"
| "host_step (CallAHBMRead16 address) = reply_word (host_ahbm_read16 address)"
| "host_step (CallAHBMWrite16 address v) = reply_done (host_ahbm_write16 address v)"
| "host_step (CallAHBMRead32 address) = reply_word (host_ahbm_read32 address)"
| "host_step (CallAHBMWrite32 address v) = reply_done (host_ahbm_write32 address v)"
| "host_step (CallProgramRead address) = reply_word (mem_program_read address)"
| "host_step (CallProgramWrite address v) = reply_done (mem_program_write address v)"
| "host_step (CallDataRead address bypass) = reply_word (host_data_read address bypass)"
| "host_step (CallDataWrite address v bypass) = reply_done (host_data_write address v bypass)"
| "host_step (CallDataReadA32 address) = reply_word (host_data_read_a32 address)"
| "host_step (CallDataWriteA32 address v) = reply_done (host_data_write_a32 address v)"
| "host_step (CallMMIORead address) = reply_word (host_read_mmio address)"
| "host_step (CallMMIOWrite address v) = reply_done (host_write_mmio address v)"
| "host_step CallDMAChan0GetSrcHigh = reply_word dma_chan0_get_src_high"
| "host_step CallDMAChan0GetDstHigh = reply_word dma_chan0_get_dst_high"
| "host_step (CallPoke address v) = reply_done (host_poke address v)"

fun host_session :: "'x host_call list \<Rightarrow> ('x, answer list) mstep" where
  "host_session [] = sreturn []"
| "host_session (c # cs) =
     sbind (host_step c) (\<lambda>a. sbind (host_session cs) (\<lambda>as. sreturn (a # as)))"

section \<open>Sessions keep the machine\<close>

lemma mmio_access_keeps:
  "sys_ok s \<Longrightarrow> host_mmio_read bus address s = Inr (v, s') \<Longrightarrow> sys_ok s'"
  "keeps (host_mmio_write bus address w)"
proof -
  show "sys_ok s'" if "sys_ok s" "host_mmio_read bus address s = Inr (v, s')"
  proof -
    from that(2) obtain c where "mmio_cell bus (address AND 0x7FF) = Inr c" "cell_get c s = Inr (v, s')"
      by (auto simp: host_mmio_read_def mmio_read_def rbind_Inr_iff)
    with that(1) mmio_cell_ok show ?thesis
      unfolding cell_ok_def get_keeps_def by blast
  qed
  show "keeps (host_mmio_write bus address w)"
  proof (rule keepsI)
    fix s s' :: "'a system" and out
    assume "sys_ok s" "host_mmio_write bus address w s = Inr (s', out)"
    then obtain c where "mmio_cell bus (address AND 0x7FF) = Inr c" "cell_set c w s = Inr (s', out)"
      by (auto simp: host_mmio_write_def mmio_write_def rbind_Inr_iff)
    with \<open>sys_ok s\<close> mmio_cell_ok show "sys_ok s'"
      unfolding cell_ok_def by (blast intro: keepsD)
  qed
qed

lemma keeps_cpu_send: "keeps (cpu_send_data i v)"
proof (rule keepsI)
  fix s s' :: "'a system" and out
  assume s: "sys_ok s" and "cpu_send_data i v s = Inr (s', out)"
  then obtain a es where a: "apbp_send_data i v (sys_apbp_from_cpu s) = Inr (a, es)"
    and r: "raise_irqs (map apbp_from_cpu_irq es) (s\<lparr>sys_apbp_from_cpu := a\<rparr>) = (s', out)"
    by (auto simp: cpu_send_data_def rbind_Inr_iff)
  from a s have "sys_ok (s\<lparr>sys_apbp_from_cpu := a\<rparr>)"
    by (auto simp: apbp_send_data_def channel_send_def rbind_Inr_iff sys_ok_def)
  from raise_irqs_keep [OF this r] show "sys_ok s'" .
qed

lemma keeps_cpu_semaphore: "keeps (cpu_set_semaphore v)"
proof (rule keepsI)
  fix s s' :: "'a system" and out
  assume s: "sys_ok s" and "cpu_set_semaphore v s = Inr (s', out)"
  then obtain a es where a: "apbp_set_semaphore v (sys_apbp_from_cpu s) = (a, es)"
    and r: "raise_irqs (map apbp_from_cpu_irq es) (s\<lparr>sys_apbp_from_cpu := a\<rparr>) = (s', out)"
    by (auto simp: cpu_set_semaphore_def split: prod.splits)
  from a s apbp_shape_ops(2) [of "sys_apbp_from_cpu s" v] have "sys_ok (s\<lparr>sys_apbp_from_cpu := a\<rparr>)"
    by (simp add: sys_ok_def)
  from raise_irqs_keep [OF this r] show "sys_ok s'" .
qed

lemma keeps_sys_action: "keeps f \<Longrightarrow> msafe (sys_action f)"
  by (rule safe_sys_action) (rule keepsD)

lemma safe_update_sys: "(\<And>t. sys_ok t \<Longrightarrow> sys_ok (f t)) \<Longrightarrow> msafe (supd (\<lambda>s. s\<lparr>mc_sys := f (mc_sys s)\<rparr>))"
  by (rule gives_supd) (simp add: machine_wf_def)

lemma safe_on_ahbm: "(\<And>a v a'. f a = Inr (v, a') \<Longrightarrow> ahbm_ok a' = ahbm_ok a) \<Longrightarrow> msafe (on_ahbm f)"
  by (rule step_givesI) (auto simp: on_ahbm_def rbind_Inr_iff machine_wf_def sys_ok_def)

lemma system_reset_ok: "sys_ok s \<Longrightarrow> sys_ok (system_reset s)"
  using btdmp_reset_ok
  by (auto simp: sys_ok_def system_reset_def apbp_shape_def miu_reset_def dma_reset_def ahbm_ok_def ahbm_reset_def
      btdmp_ok_def apbp_reset_def)

lemma safe_host_mailbox:
  "msafe (host_send_data_is_empty i)" "msafe (host_send_data i v)" "msafe (host_recv_data_is_ready i)"
  "msafe (host_recv_data i)" "msafe (host_peek_recv_data i)" "msafe (host_set_semaphore w)"
  "msafe host_get_semaphore" "msafe (host_clear_semaphore w)" "msafe (host_mask_semaphore w)"
proof -
  show "msafe (host_recv_data i)"
    by (rule step_givesI)
      (auto simp: host_recv_data_def apbp_recv_data_def channel_recv_def rbind_Inr_iff machine_wf_def sys_ok_def)
  show "msafe (host_clear_semaphore w)" "msafe (host_mask_semaphore w)"
    unfolding host_clear_semaphore_def host_mask_semaphore_def upd_from_dsp_def
    by (rule safe_update_sys, simp add: sys_ok_def apbp_shape_ops)+
qed (auto simp: host_send_data_is_empty_def host_recv_data_is_ready_def host_peek_recv_data_def host_get_semaphore_def
      host_send_data_def host_set_semaphore_def intro!: gives_squery gives_sget keeps_sys_action keeps_cpu_send keeps_cpu_semaphore)

lemma safe_host_ahbm:
  "msafe (host_set_ahbm_callback bus)" "msafe (host_ahbm_get_unit_size i)" "msafe (host_ahbm_get_direction i)"
  "msafe (host_ahbm_get_dma_channel i)" "msafe (host_ahbm_read16 a)" "msafe (host_ahbm_write16 a v)"
  "msafe (host_ahbm_read32 a)" "msafe (host_ahbm_write32 a w)"
proof -
  show "msafe (host_ahbm_read16 a)"
    by (rule step_givesI, rule step_givesD [OF safe_on_ahbm]) (auto simp: host_ahbm_read16_def dest: ahbm_read16_ok)
  show "msafe (host_ahbm_read32 a)"
    by (rule step_givesI, rule step_givesD [OF safe_on_ahbm])
      (auto simp: host_ahbm_read32_def rbind_Inr_iff dest: ahbm_read32_ok)
  show "msafe (host_ahbm_write16 a v)"
    by (rule step_givesI, rule step_givesD [OF safe_on_ahbm])
      (auto simp: host_ahbm_write16_def ahbm_write16_def rbind_Inr_iff dest: ahbm_write_internal_ok)
  show "msafe (host_ahbm_write32 a w)"
    by (rule step_givesI, rule step_givesD [OF safe_on_ahbm])
      (auto simp: host_ahbm_write32_def ahbm_write32_def rbind_Inr_iff dest: ahbm_write_internal_ok)
qed (auto simp: host_set_ahbm_callback_def host_ahbm_get_unit_size_def host_ahbm_get_direction_def
      host_ahbm_get_dma_channel_def machine_wf_def intro!: gives_squery gives_supd)

lemma safe_host_memory:
  "msafe (host_data_read a b)" "msafe (host_data_write a v b)" "msafe (host_data_read_a32 p)"
  "msafe (host_data_write_a32 p v)" "msafe (host_read_mmio a)" "msafe (host_write_mmio a v)"
  "msafe (host_poke p w)" "msafe dma_chan0_get_src_high" "msafe dma_chan0_get_dst_high"
proof -
  show "msafe (host_data_read a b)"
    by (rule step_givesI) (auto simp: host_data_read_def rbind_Inr_iff machine_wf_def intro: data_read_keeps)
  show "msafe (host_data_write a v b)"
    by (rule step_givesI, rule step_givesD [OF safe_sys_action [OF data_write_keeps]])
      (simp_all only: host_data_write_def)
  show "msafe (host_read_mmio a)"
    by (rule step_givesI) (auto simp: host_read_mmio_def rbind_Inr_iff machine_wf_def intro: mmio_access_keeps)
  show "msafe (host_write_mmio a v)"
    by (rule step_givesI, rule step_givesD [OF keeps_sys_action [OF mmio_access_keeps(2)]])
      (simp_all only: host_write_mmio_def)
  show "msafe dma_chan0_get_src_high" "msafe dma_chan0_get_dst_high"
    unfolding dma_chan0_get_src_high_def dma_chan0_get_dst_high_def
    by (rule step_givesI, auto simp: dma_chan0_def rbind_Inr_iff machine_wf_def sys_ok_def)+
qed (auto simp: host_data_read_a32_def host_data_write_a32_def host_poke_def rbind_Inr_iff machine_wf_def sys_ok_def
      intro!: step_givesI split: if_splits)

lemma safe_reset: "msafe teakra_reset"
  unfolding teakra_reset_def processor_reset_def
  by (rule gives_sseq_Cons gives_sseq_Nil safe_update_sys system_reset_ok safe_rupd registers_reset_wf | assumption)+

lemma safe_answers: "msafe m \<Longrightarrow> msafe (reply_done m)" "msafe n \<Longrightarrow> msafe (reply_flag n)" "msafe k \<Longrightarrow> msafe (reply_word k)"
  unfolding reply_done_def reply_flag_def reply_word_def by (rule gives_sbind_any gives_sreturn | assumption | rule TrueI)+

lemma safe_host_step: "msafe (host_step c)"
  by (cases c) (auto intro!: safe_answers safe_host_mailbox safe_host_ahbm safe_host_memory safe_memory safe_reset
      safe_teakra_run)

lemma safe_session: "step_gives machine_wf (host_session cs) (\<lambda>answers. length answers = length cs)"
proof (induction cs)
  case (Cons c cs)
  show ?case
    unfolding host_session.simps
    by (rule gives_sbind_any [OF safe_host_step], rule gives_sbind [OF Cons.IH], rule gives_sreturn) simp
qed (simp only: host_session.simps gives_sreturn list.size)

lemma machine_constructed_wf_sys:
  assumes "length low = 16" "length high = 16" "length sw = 16"
  shows "sys_ok (system_constructed memory (icu_constructed low high sw) outside)"
  using assms btdmp_reset_ok
  by (simp add: sys_ok_def system_constructed_def icu_constructed_def icu_shape_def apbp_shape_initial ahbm_ok_def
      dma_reset_def btdmp_ok_def miu_reset_def)

lemma reset_constructed:
  assumes "sys_ok sys"
  obtains s where "teakra_reset (machine_constructed bus r sys c a) = Inr ((), s)" "machine_wf s"
  using assms
  by (auto simp: teakra_reset_def processor_reset_def machine_constructed_def rupd_def on_regs_def machine_wf_def
      registers_reset_wf system_reset_ok)

section \<open>Signals on their way to the processor\<close>

lemma deliver_route:
  assumes "\<forall>i. OnInterrupt i \<in> set es \<longrightarrow> i < length (mc_interrupt_pending s)"
  obtains s' where "deliver_signals (map ToProcessor es) s = Inr ((), s')" "mc_sys s' = mc_sys s" "mc_out s' = mc_out s"
    "\<And>k. k < length (mc_interrupt_pending s) \<Longrightarrow>
       mc_interrupt_pending s' ! k \<longleftrightarrow> mc_interrupt_pending s ! k \<or> OnInterrupt k \<in> set es"
  using assms
proof (induction es arbitrary: s thesis)
  case Nil
  then show ?case
    by (simp add: deliver_signals_def)
next
  case (Cons e es)
  obtain s1 where s1: "deliver_signal (ToProcessor e) s = Inr ((), s1)" "mc_sys s1 = mc_sys s" "mc_out s1 = mc_out s"
    "length (mc_interrupt_pending s1) = length (mc_interrupt_pending s)"
    "\<And>k. k < length (mc_interrupt_pending s) \<Longrightarrow>
       mc_interrupt_pending s1 ! k \<longleftrightarrow> mc_interrupt_pending s ! k \<or> e = OnInterrupt k"
  proof (cases e)
    case (OnInterrupt i)
    with Cons.prems(2) show ?thesis
      by (intro that [of "s\<lparr>mc_interrupt_pending := (mc_interrupt_pending s)[i := True]\<rparr>"])
        (auto simp: signal_interrupt_def nth_list_update)
  next
    case (OnVectoredInterrupt address c)
    then show ?thesis
      by (intro that [of "s\<lparr>mc_vinterrupt_address := address, mc_vinterrupt_pending := True, mc_vinterrupt_context_switch := c\<rparr>"])
        (auto simp: signal_vectored_interrupt_def)
  qed
  with Cons.prems(2) obtain s' where "deliver_signals (map ToProcessor es) s1 = Inr ((), s')" "mc_sys s' = mc_sys s1"
    "mc_out s' = mc_out s1" "\<And>k. k < length (mc_interrupt_pending s1) \<Longrightarrow>
       mc_interrupt_pending s' ! k \<longleftrightarrow> mc_interrupt_pending s1 ! k \<or> OnInterrupt k \<in> set es"
    using Cons.IH [of s1] by auto
  with s1 Cons.prems(1) [of s'] show ?case
    by (simp add: deliver_signals_def) blast
qed

lemma mailbox_cells:
  assumes "i < 3"
  shows "mmio_cell bus (0xC0 + 4 * of_nat i) = Inr \<lparr>cell_set = dsp_send_data i,
      cell_get = checked_get (\<lambda>s. apbp_peek_data i (sys_apbp_from_dsp s))\<rparr>"
    and "mmio_cell bus (0xC2 + 4 * of_nat i) = Inr \<lparr>cell_set = (\<lambda>v. nothing), cell_get = dsp_recv_data i\<rparr>"
proof -
  have "i = 0 \<or> i = 1 \<or> i = 2"
    using assms by auto
  then show "mmio_cell bus (0xC0 + 4 * of_nat i) = Inr \<lparr>cell_set = dsp_send_data i,
      cell_get = checked_get (\<lambda>s. apbp_peek_data i (sys_apbp_from_dsp s))\<rparr>"
    and "mmio_cell bus (0xC2 + 4 * of_nat i) = Inr \<lparr>cell_set = (\<lambda>v. nothing), cell_get = dsp_recv_data i\<rparr>"
    by (auto simp: mmio_cell_def mmio_table_def timer_cells_def apbp_data_cells_def upt_rec numeral_2_eq_2 [symmetric])
qed

text \<open>
  C16: Whatever the host does, the machine keeps its shape. After a reset of a newly constructed
  emulator, whatever the memory, the vectors, the outside world and the indeterminate
  registers are, any sequence of calls that returns leaves a machine with its invariant, and
  has given one answer for each call.
\<close>

theorem session_keeps_machine:
  assumes "length low = 16" "length high = 16" "length switches = 16"
    and "s = machine_constructed bus r (system_constructed memory (icu_constructed low high switches) outside) sw address"
  shows "\<exists>s0. host_step CallReset s = Inr (Done, s0) \<and> machine_wf s0 \<and>
    (case host_session cs s0 of
       Inl e \<Rightarrow> True
     | Inr (answers, s') \<Rightarrow> machine_wf s' \<and> length answers = length cs)"
proof -
  obtain s0 where s0: "teakra_reset s = Inr ((), s0)" "machine_wf s0"
    using reset_constructed [OF machine_constructed_wf_sys [OF assms(1-3)]] assms(4) by metis
  have "machine_wf s' \<and> length answers = length cs" if "host_session cs s0 = Inr (answers, s')" for answers s'
    by (rule step_givesD [OF safe_session s0(2) that])
  with s0 show ?thesis
    by (auto simp: reply_done_def split: sum.split)
qed

lemma session_keeps_machine_witness:
  "\<exists>s0. host_step CallReset (machine_constructed byte_bus registers_reset (system_constructed (\<lambda>_. 0)
      (icu_constructed (replicate 16 0) (replicate 16 0) (replicate 16 0)) (\<lambda>_. 0)) False 0) = Inr (Done, s0) \<and> machine_wf s0 \<and>
    (case host_session [CallSendData 0 7, CallRun 3] s0 of
       Inl e \<Rightarrow> True
     | Inr (answers, s') \<Rightarrow> machine_wf s' \<and> length answers = length [CallSendData 0 7, CallRun 3 :: (u32 \<Rightarrow> u8) host_call])"
  by (rule session_keeps_machine [OF _ _ _ refl]) simp_all

text \<open>The address a program reaches the mailbox of a channel at.\<close>

lemma mailbox_address:
  assumes "miu_z_page u = 0" "miu_mmio_base u \<le> 0xF800" "i < 3" "k = 0xC0 \<or> k = 0xC2"
  shows "in_mmio u (miu_mmio_base u + (k + 4 * of_nat i))" "to_mmio u (miu_mmio_base u + (k + 4 * of_nat i)) = Inr (k + 4 * of_nat i)"
proof -
  have "i = 0 \<or> i = 1 \<or> i = 2"
    using assms(3) by auto
  with assms(4) have w: "unat (k + 4 * of_nat i :: u16) < 0x800" "(k + 4 * of_nat i :: u16) AND 0x7FF = k + 4 * of_nat i"
    by auto
  have "unat (miu_mmio_base u) \<le> 0xF800"
    using assms(2) by (simp add: word_le_nat_alt)
  with w(1) have "unat (miu_mmio_base u + (k + 4 * of_nat i)) = unat (miu_mmio_base u) + unat (k + 4 * of_nat i :: u16)"
    by (intro unat_add_lem [THEN iffD1]) simp
  with w assms(1) show "in_mmio u (miu_mmio_base u + (k + 4 * of_nat i))"
    "to_mmio u (miu_mmio_base u + (k + 4 * of_nat i)) = Inr (k + 4 * of_nat i)"
    by (simp_all add: in_mmio_def to_mmio_def word_le_nat_alt)
qed

lemma cpu_send_data_ok:
  assumes "sys_ok t" "i < 3"
  obtains t' where "cpu_send_data i v t = Inr (t',
      if dc_disable_interrupt (ap_data_channels (sys_apbp_from_cpu t) ! i) = 0
      then map ToProcessor (icu_route (sys_icu t) 14) else [])"
    "apbp_channel i (sys_apbp_from_cpu t') = Inr ((ap_data_channels (sys_apbp_from_cpu t) ! i)\<lparr>dc_ready := True, dc_data := v\<rparr>)"
    "sys_miu t' = sys_miu t"
proof -
  let ?a = "sys_apbp_from_cpu t" and ?c = "icu_trigger_single 14 (sys_icu t)"
  let ?d = "(ap_data_channels ?a ! i)\<lparr>dc_ready := True, dc_data := v\<rparr>"
  let ?t = "t\<lparr>sys_apbp_from_cpu := apbp_put_channel i ?d ?a\<rparr>"
  have a: "apbp_shape ?a"
    using assms(1) by (simp add: sys_ok_def)
  have "snd ?c = icu_route (sys_icu t) 14"
    by (rule icu_trigger_single_events) simp
  then have r: "raise_irqs [0xE] ?t = (?t\<lparr>sys_icu := fst ?c\<rparr>, map ToProcessor (icu_route (sys_icu t) 14))"
    by (simp add: raise_irq_def split_def)
  show thesis
    by (rule that [of "if dc_disable_interrupt (ap_data_channels ?a ! i) = 0 then ?t\<lparr>sys_icu := fst ?c\<rparr> else ?t"])
      (use a assms(2) r in \<open>simp_all add: cpu_send_data_def apbp_data_defs apbp_from_cpu_irq_def apbp_channel_put\<close>)
qed

lemma host_send_data_ok:
  assumes "machine_wf s" "unat i < 3"
  obtains s1 where "host_send_data i v s = Inr ((), s1)"
    "apbp_channel (unat i) (sys_apbp_from_cpu (mc_sys s1)) =
       Inr ((ap_data_channels (sys_apbp_from_cpu (mc_sys s)) ! unat i)\<lparr>dc_ready := True, dc_data := v\<rparr>)"
    "sys_miu (mc_sys s1) = sys_miu (mc_sys s)"
    "\<And>k. k < 3 \<Longrightarrow> mc_interrupt_pending s1 ! k \<longleftrightarrow> mc_interrupt_pending s ! k \<or>
       dc_disable_interrupt (ap_data_channels (sys_apbp_from_cpu (mc_sys s)) ! unat i) = 0 \<and>
       bit (icu_enabled (sys_icu (mc_sys s)) ! k) 14"
proof -
  have s: "sys_ok (mc_sys s)" "length (mc_interrupt_pending s) = 3" "length (icu_enabled (sys_icu (mc_sys s))) = 3"
    using assms(1) by (simp_all add: machine_wf_def sys_ok_def icu_shape_def)
  let ?on = "dc_disable_interrupt (ap_data_channels (sys_apbp_from_cpu (mc_sys s)) ! unat i) = 0"
  let ?es = "if ?on then icu_route (sys_icu (mc_sys s)) 14 else []"
  obtain t' where t': "cpu_send_data (unat i) v (mc_sys s) = Inr (t', map ToProcessor ?es)"
    "apbp_channel (unat i) (sys_apbp_from_cpu t') =
       Inr ((ap_data_channels (sys_apbp_from_cpu (mc_sys s)) ! unat i)\<lparr>dc_ready := True, dc_data := v\<rparr>)"
    "sys_miu t' = sys_miu (mc_sys s)"
    using cpu_send_data_ok [OF s(1) assms(2)] by (metis list.simps(8))
  have es: "OnInterrupt k \<in> set ?es \<longleftrightarrow> ?on \<and> k < 3 \<and> bit (icu_enabled (sys_icu (mc_sys s)) ! k) 14" for k
    by (simp add: icu_route_interrupt s(3))
  then have "\<forall>k. OnInterrupt k \<in> set ?es \<longrightarrow> k < length (mc_interrupt_pending (s\<lparr>mc_sys := t'\<rparr>))"
    using s(2) by simp
  from deliver_route [OF this] obtain s1 where s1: "deliver_signals (map ToProcessor ?es) (s\<lparr>mc_sys := t'\<rparr>) = Inr ((), s1)"
    "mc_sys s1 = mc_sys (s\<lparr>mc_sys := t'\<rparr>)" "mc_out s1 = mc_out (s\<lparr>mc_sys := t'\<rparr>)"
    "\<And>k. k < length (mc_interrupt_pending (s\<lparr>mc_sys := t'\<rparr>)) \<Longrightarrow>
       mc_interrupt_pending s1 ! k \<longleftrightarrow> mc_interrupt_pending (s\<lparr>mc_sys := t'\<rparr>) ! k \<or> OnInterrupt k \<in> set ?es"
    by blast
  have "host_send_data i v s = Inr ((), s1)"
    using t'(1) s1(1) by (simp only: host_send_data_def sys_action_def rbind_simps prod.case)
  moreover have "mc_sys s1 = t'"
    using s1(2) by simp
  moreover have "mc_interrupt_pending s1 ! k \<longleftrightarrow> mc_interrupt_pending s ! k \<or> OnInterrupt k \<in> set ?es" if "k < 3" for k
    using s1(4) [of k] that s(2) by simp
  ultimately show thesis
    using t'(2,3) es by (intro that [of s1]) simp_all
qed

lemma apbp_channel_put_same: "apbp_channel i a = Inr x \<Longrightarrow> apbp_channel i (apbp_put_channel i c a) = Inr c"
  by (auto simp: apbp_channel_def apbp_put_channel_def split: if_splits)

text \<open>
  C3: The mailbox connects the host and the DSP. A word the host sends is what the program reads at
  the channel's register; the host sees the channel full until then and empty after; the
  processor lines enabled for request \<open>0xE\<close> are raised unless the channel's interrupt is disabled.
  A word the program writes to the reply register is what the host receives; the host's handler
  is called unless disabled, and the channel is ready until the word is taken.
\<close>

theorem mailbox_connects:
  assumes "machine_wf s" "unat i < 3" "miu_z_page (sys_miu (mc_sys s)) = 0" "miu_mmio_base (sys_miu (mc_sys s)) \<le> 0xF800"
  shows "(\<exists>s1 s2. host_send_data i v s = Inr ((), s1) \<and> host_send_data_is_empty i s1 = Inr (False, s1) \<and>
      (\<forall>k < 3. mc_interrupt_pending s1 ! k \<longleftrightarrow> mc_interrupt_pending s ! k \<or>
         dc_disable_interrupt (ap_data_channels (sys_apbp_from_cpu (mc_sys s)) ! unat i) = 0 \<and>
         bit (icu_enabled (sys_icu (mc_sys s)) ! k) 14) \<and>
      mem_data_read (miu_mmio_base (sys_miu (mc_sys s)) + (0xC2 + 4 * ucast i)) s1 = Inr (v, s2) \<and>
      host_send_data_is_empty i s2 = Inr (True, s2)) \<and>
    (\<exists>s1 s2. mem_data_write (miu_mmio_base (sys_miu (mc_sys s)) + (0xC0 + 4 * ucast i)) v s = Inr ((), s1) \<and>
      mc_out s1 = mc_out s @
        (if dc_disable_interrupt (ap_data_channels (sys_apbp_from_dsp (mc_sys s)) ! unat i) = 0 then [ToHostData (unat i)] else []) \<and>
      host_recv_data_is_ready i s1 = Inr (True, s1) \<and>
      host_recv_data i s1 = Inr (v, s2) \<and> host_recv_data_is_ready i s2 = Inr (False, s2))"
    (is "?cpu \<and> ?dsp")
proof
  have i: "ucast i = (of_nat (unat i) :: u16)"
    by simp
  note cells = mailbox_cells [OF assms(2)] and address = mailbox_address [OF assms(3,4,2)]
  have shape: "apbp_shape (sys_apbp_from_cpu (mc_sys s))" "apbp_shape (sys_apbp_from_dsp (mc_sys s))"
    using assms(1) by (simp_all add: machine_wf_def sys_ok_def)
  show ?cpu
  proof -
    obtain s1 where s1: "host_send_data i v s = Inr ((), s1)"
      "apbp_channel (unat i) (sys_apbp_from_cpu (mc_sys s1)) =
         Inr ((ap_data_channels (sys_apbp_from_cpu (mc_sys s)) ! unat i)\<lparr>dc_ready := True, dc_data := v\<rparr>)"
      "sys_miu (mc_sys s1) = sys_miu (mc_sys s)"
      "\<forall>k < 3. mc_interrupt_pending s1 ! k \<longleftrightarrow> mc_interrupt_pending s ! k \<or>
         dc_disable_interrupt (ap_data_channels (sys_apbp_from_cpu (mc_sys s)) ! unat i) = 0 \<and>
         bit (icu_enabled (sys_icu (mc_sys s)) ! k) 14"
      using host_send_data_ok [OF assms(1,2)] by metis
    let ?c = "ap_data_channels (sys_apbp_from_cpu (mc_sys s)) ! unat i"
    let ?t = "(mc_sys s1)\<lparr>sys_apbp_from_cpu := apbp_put_channel (unat i) (?c\<lparr>dc_data := v, dc_ready := False\<rparr>)
        (sys_apbp_from_cpu (mc_sys s1))\<rparr>"
    have "dsp_recv_data (unat i) (mc_sys s1) = Inr (v, ?t)"
      using s1(2) by (simp add: dsp_recv_data_def apbp_data_defs)
    then have "data_read (mc_bus s1) (miu_mmio_base (sys_miu (mc_sys s)) + (0xC2 + 4 * ucast i)) False (mc_sys s1) = Inr (v, ?t)"
      using address [of "0xC2"] s1(3) by (simp add: i data_read_def mmio_read_def cells(2) del: of_nat_unat)
    then have "mem_data_read (miu_mmio_base (sys_miu (mc_sys s)) + (0xC2 + 4 * ucast i)) s1 = Inr (v, s1\<lparr>mc_sys := ?t\<rparr>)"
      by (simp add: mem_data_read_def)
    moreover have "host_send_data_is_empty i (s1\<lparr>mc_sys := ?t\<rparr>) = Inr (True, s1\<lparr>mc_sys := ?t\<rparr>)"
      "host_send_data_is_empty i s1 = Inr (False, s1)"
      using s1(2) apbp_channel_put_same [OF s1(2)] by (simp_all add: host_send_data_is_empty_def apbp_data_defs)
    ultimately show ?thesis
      using s1(1,4) by blast
  qed
  show ?dsp
  proof -
    let ?c = "ap_data_channels (sys_apbp_from_dsp (mc_sys s)) ! unat i"
    let ?out = "if dc_disable_interrupt ?c = 0 then [ToHostData (unat i)] else []"
    let ?a = "apbp_put_channel (unat i) (?c\<lparr>dc_ready := True, dc_data := v\<rparr>) (sys_apbp_from_dsp (mc_sys s))"
    let ?t = "(mc_sys s)\<lparr>sys_apbp_from_dsp := ?a\<rparr>"
    let ?s1 = "s\<lparr>mc_sys := ?t, mc_out := mc_out s @ ?out\<rparr>"
    let ?b = "apbp_put_channel (unat i) (?c\<lparr>dc_data := v, dc_ready := False\<rparr>) ?a"
    have a: "apbp_channel (unat i) ?a = Inr (?c\<lparr>dc_ready := True, dc_data := v\<rparr>)"
      "apbp_channel (unat i) (sys_apbp_from_dsp (mc_sys s)) = Inr ?c"
      using shape(2) assms(2) by (simp_all add: apbp_channel_put)
    have "dsp_send_data (unat i) v (mc_sys s) = Inr (?t, ?out)"
      using a(2) by (simp add: dsp_send_data_def apbp_data_defs)
    then have "data_write (mc_bus s) (miu_mmio_base (sys_miu (mc_sys s)) + (0xC0 + 4 * ucast i)) v False (mc_sys s) = Inr (?t, ?out)"
      using address [of "0xC0"] by (simp add: i data_write_def mmio_write_def cells(1) del: of_nat_unat)
    moreover have "deliver_signals ?out (s\<lparr>mc_sys := ?t\<rparr>) = Inr ((), ?s1)"
      by (simp add: deliver_signals_def)
    ultimately have "mem_data_write (miu_mmio_base (sys_miu (mc_sys s)) + (0xC0 + 4 * ucast i)) v s = Inr ((), ?s1)"
      by (simp only: mem_data_write_def sys_action_def rbind_simps prod.case)
    moreover have "host_recv_data_is_ready i ?s1 = Inr (True, ?s1)"
      using a(1) by (simp add: host_recv_data_is_ready_def apbp_data_defs)
    moreover have "host_recv_data i ?s1 = Inr (v, ?s1\<lparr>mc_sys := ?t\<lparr>sys_apbp_from_dsp := ?b\<rparr>\<rparr>)"
      using a(1) by (simp add: host_recv_data_def apbp_data_defs)
    moreover have "host_recv_data_is_ready i (?s1\<lparr>mc_sys := ?t\<lparr>sys_apbp_from_dsp := ?b\<rparr>\<rparr>) = Inr (False, ?s1\<lparr>mc_sys := ?t\<lparr>sys_apbp_from_dsp := ?b\<rparr>\<rparr>)"
      using apbp_channel_put_same [OF a(1)] by (simp add: host_recv_data_is_ready_def apbp_data_defs)
    ultimately show ?thesis
      by (intro exI conjI) (assumption | simp)+
  qed
qed

lemma mailbox_connects_witness:
  "\<exists>s1 s2. host_send_data 2 7 machine_example = Inr ((), s1) \<and> host_send_data_is_empty 2 s1 = Inr (False, s1) \<and>
     mem_data_read (0x8000 + (0xC2 + 4 * ucast (2 :: u8))) s1 = Inr (7, s2) \<and> host_send_data_is_empty 2 s2 = Inr (True, s2)"
proof -
  have "miu_z_page (sys_miu (mc_sys machine_example)) = 0" "miu_mmio_base (sys_miu (mc_sys machine_example)) = 0x8000"
    by (simp_all add: machine_example_def system_example_def miu_reset_def)
  then show ?thesis
    using mailbox_connects [OF machine_example_wf, of 2 7] by fastforce
qed

end
