(* ===== verification/Disasm_Text.thy ===== *)
theory Disasm_Text
  imports Instr_Support
begin

unbundle bit_operations_syntax

text \<open>
  src/src/disassembler.cpp, up to the visitor: how numbers, registers, operations, conditions, addresses
  and memory operands are written. A string is a list of characters.
\<close>

section \<open>Numbers\<close>

text \<open>The digits of a number, without leading zeros; \<open>setw\<close> with \<open>setfill\<close> pads them.\<close>

definition digit :: "nat \<Rightarrow> char" where
  "digit n = ''0123456789abcdef'' ! n"

fun digits :: "nat \<Rightarrow> nat \<Rightarrow> string" where
  "digits base n =
     (if base < 2 \<or> n < base then [digit n] else digits base (n div base) @ [digit (n mod base)])"

declare digits.simps [simp del]

definition to_string :: "nat \<Rightarrow> string" where
  "to_string n = digits 10 n"

definition pad_left :: "nat \<Rightarrow> string \<Rightarrow> string" where
  "pad_left width s = replicate (width - length s) (CHR ''0'') @ s"

definition to_hex :: "'a::len word \<Rightarrow> string" where
  "to_hex v = ''0x'' @ pad_left (LENGTH('a) div 4) (digits 16 (unat v))"

section \<open>Immediates and addresses\<close>

definition text_imm :: "nat \<Rightarrow> u16 \<Rightarrow> string" where
  "text_imm bits a = to_hex a @ (if bits = 8 then ''u8'' else [])"

definition text_imms :: "nat \<Rightarrow> u16 \<Rightarrow> string" where
  "text_imms bits a =
     (let v = signed16 bits a; negative = drop_bit 15 v \<noteq> 0;
          v = (if negative then NOT v + 1 else v)
      in (if negative then ''-'' else ''+'') @ to_hex v)"

definition text_mem_imm8 :: "u16 \<Rightarrow> string" where
  "text_mem_imm8 a = ''[page:'' @ text_imm 8 a @ '']''"

definition text_mem_imm16 :: "u16 \<Rightarrow> string" where
  "text_mem_imm16 a = ''['' @ text_imm 16 a @ '']''"

definition text_mem_r7_imm16 :: "u16 \<Rightarrow> string" where
  "text_mem_r7_imm16 a = ''[r7+'' @ text_imm 16 a @ '']''"

definition text_mem_r7_imm7s :: "u16 \<Rightarrow> string" where
  "text_mem_r7_imm7s a = ''[r7'' @ text_imms 7 a @ ''s7]''"

definition text_address16 :: "u16 \<Rightarrow> string" where
  "text_address16 a = to_hex (ucast a :: u32)"

definition text_address18 :: "u16 \<Rightarrow> u16 \<Rightarrow> string" where
  "text_address18 low high = to_hex (address18 low high)"

section \<open>Names\<close>

text \<open>The number behind an enumerator of \<open>RegName\<close>, which names the registers without a text.\<close>

definition reg_numbers :: "reg_name list" where
  "reg_numbers = [
     Reg_a0, Reg_a0l, Reg_a0h, Reg_a0e, Reg_a1, Reg_a1l, Reg_a1h, Reg_a1e, Reg_b0,
     Reg_b0l, Reg_b0h, Reg_b0e, Reg_b1, Reg_b1l, Reg_b1h, Reg_b1e, Reg_r0, Reg_r1, Reg_r2,
     Reg_r3, Reg_r4, Reg_r5, Reg_r6, Reg_r7, Reg_y0, Reg_p, Reg_pc, Reg_sp, Reg_sv,
     Reg_lc, Reg_ar0, Reg_ar1, Reg_arp0, Reg_arp1, Reg_arp2, Reg_arp3, Reg_ext0, Reg_ext1,
     Reg_ext2, Reg_ext3, Reg_stt0, Reg_stt1, Reg_stt2, Reg_st0, Reg_st1, Reg_st2,
     Reg_cfgi, Reg_cfgj, Reg_mod0, Reg_mod1, Reg_mod2, Reg_mod3, Reg_undefine]"

definition reg_number :: "reg_name \<Rightarrow> nat" where
  "reg_number a = length (takeWhile (\<lambda>b. b \<noteq> a) reg_numbers)"

definition text_reg :: "reg_name \<Rightarrow> string" where
  "text_reg a =
     (case a of
         Reg_a0 \<Rightarrow> ''a0'' | Reg_a0l \<Rightarrow> ''a0l'' | Reg_a0h \<Rightarrow> ''a0h''
       | Reg_a0e \<Rightarrow> ''a0e'' | Reg_a1 \<Rightarrow> ''a1'' | Reg_a1l \<Rightarrow> ''a1l''
       | Reg_a1h \<Rightarrow> ''a1h'' | Reg_a1e \<Rightarrow> ''a1e'' | Reg_b0 \<Rightarrow> ''b0''
       | Reg_b0l \<Rightarrow> ''b0l'' | Reg_b0h \<Rightarrow> ''b0h''
       | Reg_b0e \<Rightarrow> ''b0e'' | Reg_b1 \<Rightarrow> ''b1'' | Reg_b1l \<Rightarrow> ''b1l''
       | Reg_b1h \<Rightarrow> ''b1h'' | Reg_b1e \<Rightarrow> ''b1e'' | Reg_r0 \<Rightarrow> ''r0''
       | Reg_r1 \<Rightarrow> ''r1'' | Reg_r2 \<Rightarrow> ''r2'' | Reg_r3 \<Rightarrow> ''r3''
       | Reg_r4 \<Rightarrow> ''r4'' | Reg_r5 \<Rightarrow> ''r5'' | Reg_r6 \<Rightarrow> ''r6''
       | Reg_r7 \<Rightarrow> ''r7'' | Reg_ar0 \<Rightarrow> ''ar0'' | Reg_ar1 \<Rightarrow> ''ar1''
       | Reg_arp0 \<Rightarrow> ''arp0'' | Reg_arp1 \<Rightarrow> ''arp1''
       | Reg_arp2 \<Rightarrow> ''arp2'' | Reg_arp3 \<Rightarrow> ''arp3''
       | Reg_stt0 \<Rightarrow> ''stt0'' | Reg_stt1 \<Rightarrow> ''stt1''
       | Reg_stt2 \<Rightarrow> ''stt2'' | Reg_mod0 \<Rightarrow> ''mod0''
       | Reg_mod1 \<Rightarrow> ''mod1'' | Reg_mod2 \<Rightarrow> ''mod2''
       | Reg_mod3 \<Rightarrow> ''mod3'' | Reg_cfgi \<Rightarrow> ''cfgi''
       | Reg_cfgj \<Rightarrow> ''cfgj'' | Reg_y0 \<Rightarrow> ''y0'' | Reg_p \<Rightarrow> ''p*''
       | Reg_pc \<Rightarrow> ''pc'' | Reg_sp \<Rightarrow> ''sp'' | Reg_sv \<Rightarrow> ''sv''
       | Reg_lc \<Rightarrow> ''lc'' | Reg_st0 \<Rightarrow> ''st0'' | Reg_st1 \<Rightarrow> ''st1''
       | Reg_st2 \<Rightarrow> ''st2'' | _ \<Rightarrow> ''[ERROR]'' @ to_string (reg_number a))"

definition text_alm :: "alm_op \<Rightarrow> string" where
  "text_alm a =
     (case a of
         Alm_Or \<Rightarrow> ''or'' | Alm_And \<Rightarrow> ''and'' | Alm_Xor \<Rightarrow> ''xor''
       | Alm_Add \<Rightarrow> ''add'' | Alm_Tst0 \<Rightarrow> ''tst0''
       | Alm_Tst1 \<Rightarrow> ''tst1'' | Alm_Cmp \<Rightarrow> ''cmp''
       | Alm_Sub \<Rightarrow> ''sub'' | Alm_Msu \<Rightarrow> ''msu''
       | Alm_Addh \<Rightarrow> ''addh'' | Alm_Addl \<Rightarrow> ''addl''
       | Alm_Subh \<Rightarrow> ''subh'' | Alm_Subl \<Rightarrow> ''subl''
       | Alm_Sqr \<Rightarrow> ''sqr'' | Alm_Sqra \<Rightarrow> ''sqra''
       | Alm_Cmpu \<Rightarrow> ''cmpu'' | _ \<Rightarrow> ''[ERROR]'')"

definition text_alu :: "alm_op \<Rightarrow> string" where
  "text_alu a =
     (case a of
         Alm_Or \<Rightarrow> ''or'' | Alm_And \<Rightarrow> ''and'' | Alm_Xor \<Rightarrow> ''xor''
       | Alm_Add \<Rightarrow> ''add'' | Alm_Cmp \<Rightarrow> ''cmp''
       | Alm_Sub \<Rightarrow> ''sub'' | _ \<Rightarrow> ''[ERROR]'')"

definition text_alb :: "alb_op \<Rightarrow> string" where
  "text_alb a =
     (case a of
         Alb_Set \<Rightarrow> ''set'' | Alb_Rst \<Rightarrow> ''rst''
       | Alb_Chng \<Rightarrow> ''chng'' | Alb_Addv \<Rightarrow> ''addv''
       | Alb_Tst0 \<Rightarrow> ''tst0'' | Alb_Tst1 \<Rightarrow> ''tst1''
       | Alb_Cmpv \<Rightarrow> ''cmpv'' | Alb_Subv \<Rightarrow> ''subv'')"

definition text_moda4 :: "moda_op \<Rightarrow> string" where
  "text_moda4 a =
     (case a of
         Moda_Shr \<Rightarrow> ''shr'' | Moda_Shr4 \<Rightarrow> ''shr4''
       | Moda_Shl \<Rightarrow> ''shl'' | Moda_Shl4 \<Rightarrow> ''shl4''
       | Moda_Ror \<Rightarrow> ''ror'' | Moda_Rol \<Rightarrow> ''rol''
       | Moda_Clr \<Rightarrow> ''clr'' | Moda_Not \<Rightarrow> ''not''
       | Moda_Neg \<Rightarrow> ''neg'' | Moda_Rnd \<Rightarrow> ''rnd''
       | Moda_Pacr \<Rightarrow> ''pacr'' | Moda_Clrr \<Rightarrow> ''clrr''
       | Moda_Inc \<Rightarrow> ''inc'' | Moda_Dec \<Rightarrow> ''dec''
       | Moda_Copy \<Rightarrow> ''copy'' | _ \<Rightarrow> ''[ERROR]'')"

definition text_moda3 :: "moda_op \<Rightarrow> string" where
  "text_moda3 a =
     (case a of
         Moda_Shr \<Rightarrow> ''shr'' | Moda_Shr4 \<Rightarrow> ''shr4''
       | Moda_Shl \<Rightarrow> ''shl'' | Moda_Shl4 \<Rightarrow> ''shl4''
       | Moda_Ror \<Rightarrow> ''ror'' | Moda_Rol \<Rightarrow> ''rol''
       | Moda_Clr \<Rightarrow> ''clr'' | Moda_Clrr \<Rightarrow> ''clrr''
       | _ \<Rightarrow> ''[ERROR]'')"

definition text_mul3 :: "mul_op \<Rightarrow> string" where
  "text_mul3 a =
     (case a of
         Mul_Mpy \<Rightarrow> ''mpy'' | Mul_Mpysu \<Rightarrow> ''mpysu''
       | Mul_Mac \<Rightarrow> ''mac'' | Mul_Macus \<Rightarrow> ''macus''
       | Mul_Maa \<Rightarrow> ''maa'' | Mul_Macuu \<Rightarrow> ''macuu''
       | Mul_Macsu \<Rightarrow> ''macsu'' | Mul_Maasu \<Rightarrow> ''maasu'')"

definition text_mul2 :: "mul_op \<Rightarrow> string" where
  "text_mul2 a =
     (case a of
         Mul_Mpy \<Rightarrow> ''mpy'' | Mul_Mac \<Rightarrow> ''mac''
       | Mul_Maa \<Rightarrow> ''maa'' | Mul_Macsu \<Rightarrow> ''macsu''
       | _ \<Rightarrow> ''[ERROR]'')"

definition text_cond :: "cond_value \<Rightarrow> string" where
  "text_cond a =
     (case a of
         Cond_True \<Rightarrow> ''always'' | Cond_Eq \<Rightarrow> ''eq''
       | Cond_Neq \<Rightarrow> ''neq'' | Cond_Gt \<Rightarrow> ''gt'' | Cond_Ge \<Rightarrow> ''ge''
       | Cond_Lt \<Rightarrow> ''lt'' | Cond_Le \<Rightarrow> ''le'' | Cond_Nn \<Rightarrow> ''mn''
       | Cond_C \<Rightarrow> ''c'' | Cond_V \<Rightarrow> ''v'' | Cond_E \<Rightarrow> ''e''
       | Cond_L \<Rightarrow> ''l'' | Cond_Nr \<Rightarrow> ''nr'' | Cond_Niu0 \<Rightarrow> ''niu0''
       | Cond_Iu0 \<Rightarrow> ''iu0'' | Cond_Iu1 \<Rightarrow> ''iu1'')"

definition text_step_zids :: "step_value \<Rightarrow> string" where
  "text_step_zids a =
     (case a of
         Step_Zero \<Rightarrow> [] | Step_Increase \<Rightarrow> ''++''
       | Step_Decrease \<Rightarrow> ''--'' | Step_PlusStep \<Rightarrow> ''++s''
       | _ \<Rightarrow> ''[ERROR]'')"

definition text_cbs_cond :: "cbs_cond_value \<Rightarrow> string" where
  "text_cbs_cond a =
     (case a of
         Cbs_Ge \<Rightarrow> ''ge'' | Cbs_Gt \<Rightarrow> ''gt'')"

definition text_px :: "u16 \<Rightarrow> string" where
  "text_px a = ''p'' @ to_string (unat a)"

section \<open>Memory operands\<close>

definition mem_r :: "reg_name \<Rightarrow> step_value \<Rightarrow> string" where
  "mem_r reg step = ''['' @ text_reg reg @ text_step_zids step @ '']''"

definition mem_g :: "reg_name \<Rightarrow> string" where
  "mem_g reg = ''['' @ text_reg reg @ '']''"

definition text_mul_signs :: "bool \<Rightarrow> bool \<Rightarrow> string" where
  "text_mul_signs x_sign y_sign =
     ''mpy'' @ (if x_sign then ''sx'' else ''ux'') @ (if y_sign then ''sy'' else ''uy'')"

definition text_sum_base :: "sum_base \<Rightarrow> string" where
  "text_sum_base base =
     (case base of Sum_Zero \<Rightarrow> ''0'' | Sum_Acc \<Rightarrow> ''acc'' | Sum_Sv \<Rightarrow> ''sv'' | Sum_SvRnd \<Rightarrow> ''svr'')"

definition text_sum :: "sum_base \<Rightarrow> bool \<Rightarrow> bool \<Rightarrow> bool \<Rightarrow> bool \<Rightarrow> string" where
  "text_sum base sub_p0 p0_align sub_p1 p1_align =
     text_sum_base base @ (if sub_p0 then ''-'' else ''+'') @ ''p0'' @ (if p0_align then ''a'' else []) @
     (if sub_p1 then ''-'' else ''+'') @ ''p1'' @ (if p1_align then ''a'' else [])"

section \<open>Operands behind the address configuration\<close>

text \<open>
  With the configuration words of the program at hand the disassembler shows what an operand stands
  for; without them it shows the index of the field.
\<close>

record ar_arp_settings =
  set_ar :: "u16 list"
  set_arp :: "u16 list"

definition text_ar_rn :: "ar_arp_settings option \<Rightarrow> nat \<Rightarrow> string" where
  "text_ar_rn settings i =
     (case settings of
        Some s \<Rightarrow> ''%r'' @ to_string (unat (drop_bit (13 - 3 * (i mod 2)) (set_ar s ! (i div 2)) AND 7))
      | None \<Rightarrow> ''arrn'' @ to_string i)"

definition step_names :: "string list" where
  "step_names = [''++0'', ''++1'', ''--1'', ''++s'', ''++2'', ''--2'', ''++2*'', ''--2*'']"

definition offset_names :: "string list" where
  "offset_names = [''+0'', ''+1'', ''-1'', ''-1*'']"

definition convert_ar_step_and_offset :: "u16 \<Rightarrow> string" where
  "convert_ar_step_and_offset v = offset_names ! unat (drop_bit 3 v) @ step_names ! unat (v AND 7)"

definition text_ar_step :: "ar_arp_settings option \<Rightarrow> nat \<Rightarrow> string" where
  "text_ar_step settings i =
     (case settings of
        Some s \<Rightarrow> convert_ar_step_and_offset (drop_bit (5 - 5 * (i mod 2)) (set_ar s ! (i div 2)) AND 31)
      | None \<Rightarrow> ''+ars'' @ to_string i)"

definition text_arp_rni :: "ar_arp_settings option \<Rightarrow> nat \<Rightarrow> string" where
  "text_arp_rni settings i =
     (case settings of
        Some s \<Rightarrow> ''%r'' @ to_string (unat (drop_bit 10 (set_arp s ! i) AND 3))
      | None \<Rightarrow> ''arprni'' @ to_string i)"

definition text_arp_stepi :: "ar_arp_settings option \<Rightarrow> nat \<Rightarrow> string" where
  "text_arp_stepi settings i =
     (case settings of
        Some s \<Rightarrow> convert_ar_step_and_offset (set_arp s ! i AND 31)
      | None \<Rightarrow> ''+arpsi'' @ to_string i)"

definition text_arp_rnj :: "ar_arp_settings option \<Rightarrow> nat \<Rightarrow> string" where
  "text_arp_rnj settings i =
     (case settings of
        Some s \<Rightarrow> ''%r'' @ to_string (unat (drop_bit 13 (set_arp s ! i) AND 3) + 4)
      | None \<Rightarrow> ''arprnj'' @ to_string i)"

definition text_arp_stepj :: "ar_arp_settings option \<Rightarrow> nat \<Rightarrow> string" where
  "text_arp_stepj settings i =
     (case settings of
        Some s \<Rightarrow> convert_ar_step_and_offset (drop_bit 5 (set_arp s ! i) AND 31)
      | None \<Rightarrow> ''+arpsj'' @ to_string i)"

definition mem_ars :: "ar_arp_settings option \<Rightarrow> nat \<Rightarrow> nat \<Rightarrow> string" where
  "mem_ars settings reg step = ''['' @ text_ar_rn settings reg @ text_ar_step settings step @ '']''"

definition mem_arpsi :: "ar_arp_settings option \<Rightarrow> nat \<Rightarrow> nat \<Rightarrow> string" where
  "mem_arpsi settings reg step = ''['' @ text_arp_rni settings reg @ text_arp_stepi settings step @ '']''"

definition mem_arpsj :: "ar_arp_settings option \<Rightarrow> nat \<Rightarrow> nat \<Rightarrow> string" where
  "mem_arpsj settings reg step = ''['' @ text_arp_rnj settings reg @ text_arp_stepj settings step @ '']''"

definition mem_ar :: "ar_arp_settings option \<Rightarrow> nat \<Rightarrow> string" where
  "mem_ar settings reg = ''['' @ text_ar_rn settings reg @ '']''"

section \<open>The visitor\<close>

text \<open>A handler has the configuration words the visitor was given; \<open>D\<close> lists the tokens.\<close>

type_synonym dsm = "ar_arp_settings option \<Rightarrow> string list result"

named_theorems dsm_defs \<open>the handlers of the disassembler\<close>

abbreviation D :: "string list \<Rightarrow> string list result" where
  "D tokens \<equiv> Inr tokens"

abbreviation Rn :: "u16 \<Rightarrow> reg_name" where "Rn \<equiv> operand_name Rn_values"
abbreviation R45 :: "u16 \<Rightarrow> reg_name" where "R45 \<equiv> operand_name R45_values"
abbreviation R0123 :: "u16 \<Rightarrow> reg_name" where "R0123 \<equiv> operand_name R0123_values"
abbreviation Ar :: "u16 \<Rightarrow> reg_name" where "Ar \<equiv> operand_name Ar_values"
abbreviation Arp :: "u16 \<Rightarrow> reg_name" where "Arp \<equiv> operand_name Arp_values"

end
