(* ===== verification/Disasm_Arithmetic.thy ===== *)
theory Disasm_Arithmetic
  imports Disasm_Text
begin

text \<open>
  src/src/disassembler.cpp, the member functions of the visitor class for
  the arithmetic and logic of accumulators, single operations and their conditions. Each gives the tokens of an instruction from its operands and the configuration words the
  disassembler was given.
\<close>

definition text_swap_type :: "swap_type \<Rightarrow> string" where
  "text_swap_type a =
     (case a of
         Swap_a0b0 \<Rightarrow> ''a0<->b0''
       | Swap_a0b1 \<Rightarrow> ''a0<->b1''
       | Swap_a1b0 \<Rightarrow> ''a1<->b0''
       | Swap_a1b1 \<Rightarrow> ''a1<->b1''
       | Swap_a0b0a1b1 \<Rightarrow> ''a<->b''
       | Swap_a0b1a1b0 \<Rightarrow> ''a-x-b''
       | Swap_a0b0a1 \<Rightarrow> ''a0->b0->a1''
       | Swap_a0b1a1 \<Rightarrow> ''a0->b1->a1''
       | Swap_a1b0a0 \<Rightarrow> ''a1->b0->a0''
       | Swap_a1b1a0 \<Rightarrow> ''a1->b1->a0''
       | Swap_b0a0b1 \<Rightarrow> ''b0->a0->b1''
       | Swap_b0a1b1 \<Rightarrow> ''b0->a1->b1''
       | Swap_b1a0b0 \<Rightarrow> ''b1->a0->b0''
       | Swap_b1a1b0 \<Rightarrow> ''b1->a1->b0''
       | _ \<Rightarrow> ''[ERROR]'')"

definition dsm_nop :: "dsm" where [dsm_defs]:
  "dsm_nop settings =
     D [''nop'']"

definition dsm_norm :: "u16 \<Rightarrow> u16 \<Rightarrow> u16 \<Rightarrow> dsm" where [dsm_defs]:
  "dsm_norm a b bs settings =
     D [''norm'', text_reg (Ax a), mem_r (Rn b) (StepZIDS bs)]"

definition dsm_swap_accs :: "u16 \<Rightarrow> dsm" where [dsm_defs]:
  "dsm_swap_accs swap settings =
     D [''swap'', text_swap_type (SwapType swap)]"

definition dsm_trap :: "dsm" where [dsm_defs]:
  "dsm_trap settings =
     D [''trap'']"

definition dsm_alm_mem_imm8 :: "u16 \<Rightarrow> u16 \<Rightarrow> u16 \<Rightarrow> dsm" where [dsm_defs]:
  "dsm_alm_mem_imm8 op a b settings =
     D [text_alm (Alm op), text_mem_imm8 a, text_reg (Ax b)]"

definition dsm_alm_rn :: "u16 \<Rightarrow> u16 \<Rightarrow> u16 \<Rightarrow> u16 \<Rightarrow> dsm" where [dsm_defs]:
  "dsm_alm_rn op a as b settings =
     D [text_alm (Alm op), mem_r (Rn a) (StepZIDS as), text_reg (Ax b)]"

definition dsm_alm_register :: "u16 \<Rightarrow> u16 \<Rightarrow> u16 \<Rightarrow> dsm" where [dsm_defs]:
  "dsm_alm_register op a b settings =
     D [text_alm (Alm op), text_reg (Register a), text_reg (Ax b)]"

definition dsm_alm_r6 :: "u16 \<Rightarrow> u16 \<Rightarrow> dsm" where [dsm_defs]:
  "dsm_alm_r6 op b settings =
     D [text_alm (Alm op), ''r6'', text_reg (Ax b)]"

definition dsm_alu_mem_imm16 :: "u16 \<Rightarrow> u16 \<Rightarrow> u16 \<Rightarrow> dsm" where [dsm_defs]:
  "dsm_alu_mem_imm16 op a b settings =
     D [text_alu (Alu op), text_mem_imm16 a, text_reg (Ax b)]"

definition dsm_alu_mem_r7_imm16 :: "u16 \<Rightarrow> u16 \<Rightarrow> u16 \<Rightarrow> dsm" where [dsm_defs]:
  "dsm_alu_mem_r7_imm16 op a b settings =
     D [text_alu (Alu op), text_mem_r7_imm16 a, text_reg (Ax b)]"

definition dsm_alu_imm16 :: "u16 \<Rightarrow> u16 \<Rightarrow> u16 \<Rightarrow> dsm" where [dsm_defs]:
  "dsm_alu_imm16 op a b settings =
     D [text_alu (Alu op), text_imm 16 a, text_reg (Ax b)]"

definition dsm_alu_imm8 :: "u16 \<Rightarrow> u16 \<Rightarrow> u16 \<Rightarrow> dsm" where [dsm_defs]:
  "dsm_alu_imm8 op a b settings =
     D [text_alu (Alu op), text_imm 8 a, text_reg (Ax b)]"

definition dsm_alu_mem_r7_imm7s :: "u16 \<Rightarrow> u16 \<Rightarrow> u16 \<Rightarrow> dsm" where [dsm_defs]:
  "dsm_alu_mem_r7_imm7s op a b settings =
     D [text_alu (Alu op), text_mem_r7_imm7s a, text_reg (Ax b)]"

definition dsm_or_ab_ax :: "u16 \<Rightarrow> u16 \<Rightarrow> u16 \<Rightarrow> dsm" where [dsm_defs]:
  "dsm_or_ab_ax a b c settings =
     D [''or'', text_reg (Ab a), text_reg (Ax b), text_reg (Ax c)]"

definition dsm_or_ax_bx :: "u16 \<Rightarrow> u16 \<Rightarrow> u16 \<Rightarrow> dsm" where [dsm_defs]:
  "dsm_or_ax_bx a b c settings =
     D [''or'', text_reg (Ax a), text_reg (Bx b), text_reg (Ax c)]"

definition dsm_or_bx_bx :: "u16 \<Rightarrow> u16 \<Rightarrow> u16 \<Rightarrow> dsm" where [dsm_defs]:
  "dsm_or_bx_bx a b c settings =
     D [''or'', text_reg (Bx a), text_reg (Bx b), text_reg (Ax c)]"

definition dsm_alb_mem_imm8 :: "u16 \<Rightarrow> u16 \<Rightarrow> u16 \<Rightarrow> dsm" where [dsm_defs]:
  "dsm_alb_mem_imm8 op a b settings =
     D [text_alb (Alb op), text_imm 16 a, text_mem_imm8 b]"

definition dsm_alb_rn :: "u16 \<Rightarrow> u16 \<Rightarrow> u16 \<Rightarrow> u16 \<Rightarrow> dsm" where [dsm_defs]:
  "dsm_alb_rn op a b bs settings =
     D [text_alb (Alb op), text_imm 16 a, mem_r (Rn b) (StepZIDS bs)]"

definition dsm_alb_register :: "u16 \<Rightarrow> u16 \<Rightarrow> u16 \<Rightarrow> dsm" where [dsm_defs]:
  "dsm_alb_register op a b settings =
     D [text_alb (Alb op), text_imm 16 a, text_reg (Register b)]"

definition dsm_alb_r6 :: "u16 \<Rightarrow> u16 \<Rightarrow> dsm" where [dsm_defs]:
  "dsm_alb_r6 op a settings =
     D [text_alb (Alb op), text_imm 16 a, ''r6'']"

definition dsm_alb_stt_mod :: "u16 \<Rightarrow> u16 \<Rightarrow> u16 \<Rightarrow> dsm" where [dsm_defs]:
  "dsm_alb_stt_mod op a b settings =
     D [text_alb (Alb op), text_imm 16 a, text_reg (SttMod b)]"

definition dsm_add_ab_bx :: "u16 \<Rightarrow> u16 \<Rightarrow> dsm" where [dsm_defs]:
  "dsm_add_ab_bx a b settings =
     D [''add'', text_reg (Ab a), text_reg (Bx b)]"

definition dsm_add_bx_ax :: "u16 \<Rightarrow> u16 \<Rightarrow> dsm" where [dsm_defs]:
  "dsm_add_bx_ax a b settings =
     D [''add'', text_reg (Bx a), text_reg (Ax b)]"

definition dsm_add_p1 :: "u16 \<Rightarrow> dsm" where [dsm_defs]:
  "dsm_add_p1 b settings =
     D [''add'', ''p1'', text_reg (Ax b)]"

definition dsm_add_px_bx :: "u16 \<Rightarrow> u16 \<Rightarrow> dsm" where [dsm_defs]:
  "dsm_add_px_bx a b settings =
     D [''add'', text_px a, text_reg (Bx b)]"

definition dsm_sub_ab_bx :: "u16 \<Rightarrow> u16 \<Rightarrow> dsm" where [dsm_defs]:
  "dsm_sub_ab_bx a b settings =
     D [''sub'', text_reg (Ab a), text_reg (Bx b)]"

definition dsm_sub_bx_ax :: "u16 \<Rightarrow> u16 \<Rightarrow> dsm" where [dsm_defs]:
  "dsm_sub_bx_ax a b settings =
     D [''sub'', text_reg (Bx a), text_reg (Ax b)]"

definition dsm_sub_p1_acc :: "u16 \<Rightarrow> dsm" where [dsm_defs]:
  "dsm_sub_p1_acc b settings =
     D [''sub'', ''p1'', text_reg (Ax b)]"

definition dsm_sub_px_bx :: "u16 \<Rightarrow> u16 \<Rightarrow> dsm" where [dsm_defs]:
  "dsm_sub_px_bx a b settings =
     D [''sub'', text_px a, text_reg (Bx b)]"

definition dsm_app :: "u16 \<Rightarrow> sum_base \<Rightarrow> bool \<Rightarrow> bool \<Rightarrow> bool \<Rightarrow> bool \<Rightarrow> dsm" where [dsm_defs]:
  "dsm_app c base sub_p0 p0_align sub_p1 p1_align settings =
     D [text_sum base sub_p0 p0_align sub_p1 p1_align, text_reg (Ab c)]"

definition dsm_add_add :: "u16 \<Rightarrow> u16 \<Rightarrow> u16 \<Rightarrow> u16 \<Rightarrow> dsm" where [dsm_defs]:
  "dsm_add_add a asi asj b settings =
     D [''add||add'', mem_arpsj settings (ar_index 0 a) (ar_index 0 asj),
        mem_arpsi settings (ar_index 0 a) (ar_index 0 asi), text_reg (Ab b)]"

definition dsm_add_sub_pairs :: "u16 \<Rightarrow> u16 \<Rightarrow> u16 \<Rightarrow> u16 \<Rightarrow> dsm" where [dsm_defs]:
  "dsm_add_sub_pairs a asi asj b settings =
     D [''add||sub'', mem_arpsj settings (ar_index 0 a) (ar_index 0 asj),
        mem_arpsi settings (ar_index 0 a) (ar_index 0 asi), text_reg (Ab b)]"

definition dsm_sub_add :: "u16 \<Rightarrow> u16 \<Rightarrow> u16 \<Rightarrow> u16 \<Rightarrow> dsm" where [dsm_defs]:
  "dsm_sub_add a asi asj b settings =
     D [''sub||add'', mem_arpsj settings (ar_index 0 a) (ar_index 0 asj),
        mem_arpsi settings (ar_index 0 a) (ar_index 0 asi), text_reg (Ab b)]"

definition dsm_sub_sub :: "u16 \<Rightarrow> u16 \<Rightarrow> u16 \<Rightarrow> u16 \<Rightarrow> dsm" where [dsm_defs]:
  "dsm_sub_sub a asi asj b settings =
     D [''sub||sub'', mem_arpsj settings (ar_index 0 a) (ar_index 0 asj),
        mem_arpsi settings (ar_index 0 a) (ar_index 0 asi), text_reg (Ab b)]"

definition dsm_add_sub_sv :: "u16 \<Rightarrow> u16 \<Rightarrow> u16 \<Rightarrow> dsm" where [dsm_defs]:
  "dsm_add_sub_sv a as b settings =
     D [''add||sub'', mem_ars settings (ar_index 0 a) (ar_index 0 as), ''sv'', text_reg (Ab b)]"

definition dsm_sub_add_sv :: "u16 \<Rightarrow> u16 \<Rightarrow> u16 \<Rightarrow> dsm" where [dsm_defs]:
  "dsm_sub_add_sv a as b settings =
     D [''sub||add'', mem_ars settings (ar_index 0 a) (ar_index 0 as), ''sv'', text_reg (Ab b)]"

definition dsm_sub_add_i_mov_j_sv :: "u16 \<Rightarrow> u16 \<Rightarrow> u16 \<Rightarrow> u16 \<Rightarrow> dsm" where [dsm_defs]:
  "dsm_sub_add_i_mov_j_sv a asi asj b settings =
     D [''sub||add'', mem_arpsi settings (ar_index 0 a) (ar_index 0 asi), text_reg (Ab b), ''||mov'',
        mem_arpsj settings (ar_index 0 a) (ar_index 0 asj), ''sv'']"

definition dsm_sub_add_j_mov_i_sv :: "u16 \<Rightarrow> u16 \<Rightarrow> u16 \<Rightarrow> u16 \<Rightarrow> dsm" where [dsm_defs]:
  "dsm_sub_add_j_mov_i_sv a asi asj b settings =
     D [''sub||add'', mem_arpsj settings (ar_index 0 a) (ar_index 0 asj), text_reg (Ab b), ''||mov'',
        mem_arpsi settings (ar_index 0 a) (ar_index 0 asi), ''sv'']"

definition dsm_add_sub_i_mov_j :: "u16 \<Rightarrow> u16 \<Rightarrow> u16 \<Rightarrow> u16 \<Rightarrow> dsm" where [dsm_defs]:
  "dsm_add_sub_i_mov_j a asi asj b settings =
     D [''add_sub'', mem_arpsi settings (ar_index 0 a) (ar_index 0 asi), text_reg (Ab b), ''||mov'',
        text_reg (Ab b), mem_arpsj settings (ar_index 0 a) (ar_index 0 asj)]"

definition dsm_add_sub_j_mov_i :: "u16 \<Rightarrow> u16 \<Rightarrow> u16 \<Rightarrow> u16 \<Rightarrow> dsm" where [dsm_defs]:
  "dsm_add_sub_j_mov_i a asi asj b settings =
     D [''add_sub'', mem_arpsj settings (ar_index 0 a) (ar_index 0 asj), text_reg (Ab b), ''||mov'',
        text_reg (Ab b), mem_arpsi settings (ar_index 0 a) (ar_index 0 asi)]"

definition dsm_moda4 :: "u16 \<Rightarrow> u16 \<Rightarrow> u16 \<Rightarrow> dsm" where [dsm_defs]:
  "dsm_moda4 op a cond settings =
     D [text_moda4 (Moda4 op), text_reg (Ax a), text_cond (Cond cond)]"

definition dsm_moda3 :: "u16 \<Rightarrow> u16 \<Rightarrow> u16 \<Rightarrow> dsm" where [dsm_defs]:
  "dsm_moda3 op a cond settings =
     D [text_moda3 (Moda3 op), text_reg (Bx a), text_cond (Cond cond)]"

definition dsm_pacr1 :: "u16 \<Rightarrow> dsm" where [dsm_defs]:
  "dsm_pacr1 a settings =
     D [''pacr p1'', text_reg (Ax a)]"

definition dsm_clr :: "u16 \<Rightarrow> u16 \<Rightarrow> dsm" where [dsm_defs]:
  "dsm_clr a b settings =
     D [''clr'', text_reg (Ab a), text_reg (Ab b)]"

definition dsm_clrr :: "u16 \<Rightarrow> u16 \<Rightarrow> dsm" where [dsm_defs]:
  "dsm_clrr a b settings =
     D [''clrr'', text_reg (Ab a), text_reg (Ab b)]"

end
