(* ===== verification/Disasm_Control.thy ===== *)
theory Disasm_Control
  imports Disasm_Text
begin

text \<open>
  src/src/disassembler.cpp, the member functions of the visitor class for
  repeats, banks, branches, the stack, shifts, tests, multiplications and steps. Each gives the tokens of an instruction from its operands and the configuration words the
  disassembler was given.
\<close>

definition dsm_bkrep_imm8 :: "u16 \<Rightarrow> u16 \<Rightarrow> dsm" where [dsm_defs]:
  "dsm_bkrep_imm8 a addr settings =
     D [''bkrep'', text_imm 8 a, text_address16 addr]"

definition dsm_bkrep_register :: "u16 \<Rightarrow> u16 \<Rightarrow> u16 \<Rightarrow> dsm" where [dsm_defs]:
  "dsm_bkrep_register a addr_low addr_high settings =
     D [''bkrep'', text_reg (Register a), text_address18 addr_low addr_high]"

definition dsm_bkrep_r6 :: "u16 \<Rightarrow> u16 \<Rightarrow> dsm" where [dsm_defs]:
  "dsm_bkrep_r6 addr_low addr_high settings =
     D [''bkrep'', ''r6'', text_address18 addr_low addr_high]"

definition dsm_bkreprst :: "u16 \<Rightarrow> dsm" where [dsm_defs]:
  "dsm_bkreprst a settings =
     D [''bkreprst'', mem_ar settings (ar_index 0 a)]"

definition dsm_bkreprst_memsp :: "dsm" where [dsm_defs]:
  "dsm_bkreprst_memsp settings =
     D [''bkreprst'', ''[sp]'']"

definition dsm_bkrepsto :: "u16 \<Rightarrow> dsm" where [dsm_defs]:
  "dsm_bkrepsto a settings =
     D [''bkrepsto'', mem_ar settings (ar_index 0 a)]"

definition dsm_bkrepsto_memsp :: "dsm" where [dsm_defs]:
  "dsm_bkrepsto_memsp settings =
     D [''bkrepsto'', ''[sp]'']"

definition dsm_banke :: "u16 \<Rightarrow> dsm" where [dsm_defs]:
  "dsm_banke flags settings =
     D ([''banke''] @ (if bank_r0 flags then [''r0''] else []) @
       (if bank_r1 flags then [''r1''] else []) @
       (if bank_r4 flags then [''r4''] else []) @
       (if bank_cfgi flags then [''cfgi''] else []) @
       (if bank_r7 flags then [''r7''] else []) @
       (if bank_cfgj flags then [''cfgj''] else []))"

definition dsm_bankr :: "dsm" where [dsm_defs]:
  "dsm_bankr settings =
     D [''bankr'']"

definition dsm_bankr_ar :: "u16 \<Rightarrow> dsm" where [dsm_defs]:
  "dsm_bankr_ar a settings =
     D [''bankr'', text_reg (Ar a)]"

definition dsm_bankr_ar_arp :: "u16 \<Rightarrow> u16 \<Rightarrow> dsm" where [dsm_defs]:
  "dsm_bankr_ar_arp a b settings =
     D [''bankr'', text_reg (Ar a), text_reg (Arp b)]"

definition dsm_bankr_arp :: "u16 \<Rightarrow> dsm" where [dsm_defs]:
  "dsm_bankr_arp a settings =
     D [''bankr'', text_reg (Arp a)]"

definition dsm_bitrev :: "u16 \<Rightarrow> dsm" where [dsm_defs]:
  "dsm_bitrev a settings =
     D [''bitrev'', text_reg (Rn a)]"

definition dsm_bitrev_dbrv :: "u16 \<Rightarrow> dsm" where [dsm_defs]:
  "dsm_bitrev_dbrv a settings =
     D [''bitrev'', text_reg (Rn a), ''dbrv'']"

definition dsm_bitrev_ebrv :: "u16 \<Rightarrow> dsm" where [dsm_defs]:
  "dsm_bitrev_ebrv a settings =
     D [''bitrev'', text_reg (Rn a), ''ebrv'']"

definition dsm_br :: "u16 \<Rightarrow> u16 \<Rightarrow> u16 \<Rightarrow> dsm" where [dsm_defs]:
  "dsm_br addr_low addr_high cond settings =
     D [''br'', text_address18 addr_low addr_high, text_cond (Cond cond)]"

definition dsm_brr :: "u16 \<Rightarrow> u16 \<Rightarrow> dsm" where [dsm_defs]:
  "dsm_brr addr cond settings =
     D [''brr'', to_hex (ucast (relative32 addr) :: u16), text_cond (Cond cond)]"

definition dsm_break_instr :: "dsm" where [dsm_defs]:
  "dsm_break_instr settings =
     D [''break'']"

definition dsm_call :: "u16 \<Rightarrow> u16 \<Rightarrow> u16 \<Rightarrow> dsm" where [dsm_defs]:
  "dsm_call addr_low addr_high cond settings =
     D [''call'', text_address18 addr_low addr_high, text_cond (Cond cond)]"

definition dsm_calla_axl :: "u16 \<Rightarrow> dsm" where [dsm_defs]:
  "dsm_calla_axl a settings =
     D [''calla'', text_reg (Axl a)]"

definition dsm_calla_ax :: "u16 \<Rightarrow> dsm" where [dsm_defs]:
  "dsm_calla_ax a settings =
     D [''calla'', text_reg (Ax a)]"

definition dsm_callr :: "u16 \<Rightarrow> u16 \<Rightarrow> dsm" where [dsm_defs]:
  "dsm_callr addr cond settings =
     D [''callr'', to_hex (ucast (relative32 addr) :: u16), text_cond (Cond cond)]"

definition dsm_cntx_s :: "dsm" where [dsm_defs]:
  "dsm_cntx_s settings =
     D [''cntx'', ''s'']"

definition dsm_cntx_r :: "dsm" where [dsm_defs]:
  "dsm_cntx_r settings =
     D [''cntx'', ''r'']"

definition dsm_ret :: "u16 \<Rightarrow> dsm" where [dsm_defs]:
  "dsm_ret c settings =
     D [''ret'', text_cond (Cond c)]"

definition dsm_retd :: "dsm" where [dsm_defs]:
  "dsm_retd settings =
     D [''retd'']"

definition dsm_reti :: "u16 \<Rightarrow> dsm" where [dsm_defs]:
  "dsm_reti c settings =
     D [''reti'', text_cond (Cond c)]"

definition dsm_retic :: "u16 \<Rightarrow> dsm" where [dsm_defs]:
  "dsm_retic c settings =
     D [''retic'', text_cond (Cond c)]"

definition dsm_retid :: "dsm" where [dsm_defs]:
  "dsm_retid settings =
     D [''retid'']"

definition dsm_retidc :: "dsm" where [dsm_defs]:
  "dsm_retidc settings =
     D [''retidc'']"

definition dsm_rets :: "u16 \<Rightarrow> dsm" where [dsm_defs]:
  "dsm_rets a settings =
     D [''rets'', text_imm 8 a]"

definition dsm_load_ps :: "u16 \<Rightarrow> dsm" where [dsm_defs]:
  "dsm_load_ps a settings =
     D [''load'', text_imm 2 a, ''ps'']"

definition dsm_load_stepi :: "u16 \<Rightarrow> dsm" where [dsm_defs]:
  "dsm_load_stepi a settings =
     D [''load'', text_imms 7 a, ''stepi'']"

definition dsm_load_stepj :: "u16 \<Rightarrow> dsm" where [dsm_defs]:
  "dsm_load_stepj a settings =
     D [''load'', text_imms 7 a, ''stepj'']"

definition dsm_load_page :: "u16 \<Rightarrow> dsm" where [dsm_defs]:
  "dsm_load_page a settings =
     D [''load'', text_imm 8 a, ''page'']"

definition dsm_load_modi :: "u16 \<Rightarrow> dsm" where [dsm_defs]:
  "dsm_load_modi a settings =
     D [''load'', text_imm 9 a, ''modi'']"

definition dsm_load_modj :: "u16 \<Rightarrow> dsm" where [dsm_defs]:
  "dsm_load_modj a settings =
     D [''load'', text_imm 9 a, ''modj'']"

definition dsm_load_movpd :: "u16 \<Rightarrow> dsm" where [dsm_defs]:
  "dsm_load_movpd a settings =
     D [''load'', text_imm 2 a, ''movpd'']"

definition dsm_load_ps01 :: "u16 \<Rightarrow> dsm" where [dsm_defs]:
  "dsm_load_ps01 a settings =
     D [''load'', text_imm 4 a, ''ps01'']"

definition dsm_push_imm16 :: "u16 \<Rightarrow> dsm" where [dsm_defs]:
  "dsm_push_imm16 a settings =
     D [''push'', text_imm 16 a]"

definition dsm_push_register :: "u16 \<Rightarrow> dsm" where [dsm_defs]:
  "dsm_push_register a settings =
     D [''push'', text_reg (Register a)]"

definition dsm_push_abe :: "u16 \<Rightarrow> dsm" where [dsm_defs]:
  "dsm_push_abe a settings =
     D [''push'', text_reg (Abe a)]"

definition dsm_push_ar_arp_stt_mod :: "u16 \<Rightarrow> dsm" where [dsm_defs]:
  "dsm_push_ar_arp_stt_mod a settings =
     D [''push'', text_reg (ArArpSttMod a)]"

definition dsm_push_prpage :: "dsm" where [dsm_defs]:
  "dsm_push_prpage settings =
     D [''push'', ''prpage'']"

definition dsm_push_px :: "u16 \<Rightarrow> dsm" where [dsm_defs]:
  "dsm_push_px a settings =
     D [''push'', text_px a]"

definition dsm_push_r6 :: "dsm" where [dsm_defs]:
  "dsm_push_r6 settings =
     D [''push'', ''r6'']"

definition dsm_push_repc :: "dsm" where [dsm_defs]:
  "dsm_push_repc settings =
     D [''push'', ''repc'']"

definition dsm_push_x0 :: "dsm" where [dsm_defs]:
  "dsm_push_x0 settings =
     D [''push'', ''x0'']"

definition dsm_push_x1 :: "dsm" where [dsm_defs]:
  "dsm_push_x1 settings =
     D [''push'', ''x1'']"

definition dsm_push_y1 :: "dsm" where [dsm_defs]:
  "dsm_push_y1 settings =
     D [''push'', ''y1'']"

definition dsm_pusha_ax :: "u16 \<Rightarrow> dsm" where [dsm_defs]:
  "dsm_pusha_ax a settings =
     D [''pusha'', text_reg (Ax a)]"

definition dsm_pusha_bx :: "u16 \<Rightarrow> dsm" where [dsm_defs]:
  "dsm_pusha_bx a settings =
     D [''pusha'', text_reg (Bx a)]"

definition dsm_pop_register :: "u16 \<Rightarrow> dsm" where [dsm_defs]:
  "dsm_pop_register a settings =
     D [''pop'', text_reg (Register a)]"

definition dsm_pop_abe :: "u16 \<Rightarrow> dsm" where [dsm_defs]:
  "dsm_pop_abe a settings =
     D [''pop'', text_reg (Abe a)]"

definition dsm_pop_ar_arp_stt_mod :: "u16 \<Rightarrow> dsm" where [dsm_defs]:
  "dsm_pop_ar_arp_stt_mod a settings =
     D [''pop'', text_reg (ArArpSttMod a)]"

definition dsm_pop_bx :: "u16 \<Rightarrow> dsm" where [dsm_defs]:
  "dsm_pop_bx a settings =
     D [''pop'', text_reg (Bx a)]"

definition dsm_pop_prpage :: "dsm" where [dsm_defs]:
  "dsm_pop_prpage settings =
     D [''pop'', ''prpage'']"

definition dsm_pop_px :: "u16 \<Rightarrow> dsm" where [dsm_defs]:
  "dsm_pop_px a settings =
     D [''pop'', text_px a]"

definition dsm_pop_r6 :: "dsm" where [dsm_defs]:
  "dsm_pop_r6 settings =
     D [''pop'', ''r6'']"

definition dsm_pop_repc :: "dsm" where [dsm_defs]:
  "dsm_pop_repc settings =
     D [''pop'', ''repc'']"

definition dsm_pop_x0 :: "dsm" where [dsm_defs]:
  "dsm_pop_x0 settings =
     D [''pop'', ''x0'']"

definition dsm_pop_x1 :: "dsm" where [dsm_defs]:
  "dsm_pop_x1 settings =
     D [''pop'', ''x1'']"

definition dsm_pop_y1 :: "dsm" where [dsm_defs]:
  "dsm_pop_y1 settings =
     D [''pop'', ''y1'']"

definition dsm_popa :: "u16 \<Rightarrow> dsm" where [dsm_defs]:
  "dsm_popa a settings =
     D [''popa'', text_reg (Ab a)]"

definition dsm_rep_imm8 :: "u16 \<Rightarrow> dsm" where [dsm_defs]:
  "dsm_rep_imm8 a settings =
     D [''rep'', text_imm 8 a]"

definition dsm_rep_register :: "u16 \<Rightarrow> dsm" where [dsm_defs]:
  "dsm_rep_register a settings =
     D [''rep'', text_reg (Register a)]"

definition dsm_rep_r6 :: "dsm" where [dsm_defs]:
  "dsm_rep_r6 settings =
     D [''rep'', ''r6'']"

definition dsm_shfc :: "u16 \<Rightarrow> u16 \<Rightarrow> u16 \<Rightarrow> dsm" where [dsm_defs]:
  "dsm_shfc a b cond settings =
     D [''shfc'', text_reg (Ab a), text_reg (Ab b), text_cond (Cond cond)]"

definition dsm_shfi :: "u16 \<Rightarrow> u16 \<Rightarrow> u16 \<Rightarrow> dsm" where [dsm_defs]:
  "dsm_shfi a b s settings =
     D [''shfi'', text_reg (Ab a), text_reg (Ab b), text_imms 6 s]"

definition dsm_tst4b :: "u16 \<Rightarrow> u16 \<Rightarrow> dsm" where [dsm_defs]:
  "dsm_tst4b b bs settings =
     D [''tst4b'', ''a0l'', mem_ars settings (ar_index 0 b) (ar_index 0 bs)]"

definition dsm_tst4b_ax :: "u16 \<Rightarrow> u16 \<Rightarrow> u16 \<Rightarrow> dsm" where [dsm_defs]:
  "dsm_tst4b_ax b bs c settings =
     D [''tst4b'', ''a0l'', mem_ars settings (ar_index 0 b) (ar_index 0 bs), text_reg (Ax c)]"

definition dsm_tstb_mem_imm8 :: "u16 \<Rightarrow> u16 \<Rightarrow> dsm" where [dsm_defs]:
  "dsm_tstb_mem_imm8 a b settings =
     D [''tstb'', text_mem_imm8 a, text_imm 4 b]"

definition dsm_tstb_rn :: "u16 \<Rightarrow> u16 \<Rightarrow> u16 \<Rightarrow> dsm" where [dsm_defs]:
  "dsm_tstb_rn a as b settings =
     D [''tstb'', mem_r (Rn a) (StepZIDS as), text_imm 4 b]"

definition dsm_tstb_register :: "u16 \<Rightarrow> u16 \<Rightarrow> dsm" where [dsm_defs]:
  "dsm_tstb_register a b settings =
     D [''tstb'', text_reg (Register a), text_imm 4 b]"

definition dsm_tstb_r6 :: "u16 \<Rightarrow> dsm" where [dsm_defs]:
  "dsm_tstb_r6 b settings =
     D [''tstb'', ''r6'', text_imm 4 b]"

definition dsm_tstb_stt_mod :: "u16 \<Rightarrow> u16 \<Rightarrow> dsm" where [dsm_defs]:
  "dsm_tstb_stt_mod a b settings =
     D [''tstb'', text_reg (SttMod a), text_imm 16 b]"

definition dsm_and_acc :: "u16 \<Rightarrow> u16 \<Rightarrow> u16 \<Rightarrow> dsm" where [dsm_defs]:
  "dsm_and_acc a b c settings =
     D [''and'', text_reg (Ab a), text_reg (Ab b), text_reg (Ax c)]"

definition dsm_dint :: "dsm" where [dsm_defs]:
  "dsm_dint settings =
     D [''dint'']"

definition dsm_eint :: "dsm" where [dsm_defs]:
  "dsm_eint settings =
     D [''eint'']"

definition dsm_mul_rn_imm16 :: "u16 \<Rightarrow> u16 \<Rightarrow> u16 \<Rightarrow> u16 \<Rightarrow> u16 \<Rightarrow> dsm" where [dsm_defs]:
  "dsm_mul_rn_imm16 op y ys x a settings =
     D [text_mul3 (Mul3 op), mem_r (Rn y) (StepZIDS ys), text_imm 16 x, text_reg (Ax a)]"

definition dsm_mul_y0_rn :: "u16 \<Rightarrow> u16 \<Rightarrow> u16 \<Rightarrow> u16 \<Rightarrow> dsm" where [dsm_defs]:
  "dsm_mul_y0_rn op x xs a settings =
     D [text_mul3 (Mul3 op), ''y0'', mem_r (Rn x) (StepZIDS xs), text_reg (Ax a)]"

definition dsm_mul_y0_register :: "u16 \<Rightarrow> u16 \<Rightarrow> u16 \<Rightarrow> dsm" where [dsm_defs]:
  "dsm_mul_y0_register op x a settings =
     D [text_mul3 (Mul3 op), ''y0'', text_reg (Register x), text_reg (Ax a)]"

definition dsm_mul_r45_r0123 :: "u16 \<Rightarrow> u16 \<Rightarrow> u16 \<Rightarrow> u16 \<Rightarrow> u16 \<Rightarrow> u16 \<Rightarrow> dsm" where [dsm_defs]:
  "dsm_mul_r45_r0123 op y ys x xs a settings =
     D [text_mul3 (Mul3 op), mem_r (R45 y) (StepZIDS ys), mem_r (R0123 x) (StepZIDS xs), text_reg (Ax a)]"

definition dsm_mul_y0_r6 :: "u16 \<Rightarrow> u16 \<Rightarrow> dsm" where [dsm_defs]:
  "dsm_mul_y0_r6 op a settings =
     D [text_mul3 (Mul3 op), ''y0'', ''r6'', text_reg (Ax a)]"

definition dsm_mul_y0_mem_imm8 :: "u16 \<Rightarrow> u16 \<Rightarrow> u16 \<Rightarrow> dsm" where [dsm_defs]:
  "dsm_mul_y0_mem_imm8 op x a settings =
     D [text_mul2 (Mul2 op), ''y0'', text_mem_imm8 x, text_reg (Ax a)]"

definition dsm_mpyi :: "u16 \<Rightarrow> dsm" where [dsm_defs]:
  "dsm_mpyi x settings =
     D [''mpyi'', ''y0'', text_imms 8 x]"

definition dsm_msu_r45_r0123 :: "u16 \<Rightarrow> u16 \<Rightarrow> u16 \<Rightarrow> u16 \<Rightarrow> u16 \<Rightarrow> dsm" where [dsm_defs]:
  "dsm_msu_r45_r0123 y ys x xs a settings =
     D [''msu'', mem_r (R45 y) (StepZIDS ys), mem_r (R0123 x) (StepZIDS xs), text_reg (Ax a)]"

definition dsm_msu_rn_imm16 :: "u16 \<Rightarrow> u16 \<Rightarrow> u16 \<Rightarrow> u16 \<Rightarrow> dsm" where [dsm_defs]:
  "dsm_msu_rn_imm16 y ys x a settings =
     D [''msu'', mem_r (Rn y) (StepZIDS ys), text_imm 16 x, text_reg (Ax a)]"

definition dsm_msusu :: "u16 \<Rightarrow> u16 \<Rightarrow> u16 \<Rightarrow> dsm" where [dsm_defs]:
  "dsm_msusu x xs a settings =
     D [''msusu'', ''y0'', mem_ars settings (ar_index 0 x) (ar_index 0 xs), text_reg (Ax a)]"

definition dsm_mac_x1to0 :: "u16 \<Rightarrow> dsm" where [dsm_defs]:
  "dsm_mac_x1to0 a settings =
     D [''mac'', ''y0'', ''x1->x0'', text_reg (Ax a)]"

definition dsm_mac1 :: "u16 \<Rightarrow> u16 \<Rightarrow> u16 \<Rightarrow> u16 \<Rightarrow> dsm" where [dsm_defs]:
  "dsm_mac1 xy xis yjs a settings =
     D [''mac1'', mem_arpsj settings (ar_index 0 xy) (ar_index 0 yjs),
        mem_arpsi settings (ar_index 0 xy) (ar_index 0 xis), text_reg (Ax a)]"

definition dsm_modr :: "u16 \<Rightarrow> u16 \<Rightarrow> dsm" where [dsm_defs]:
  "dsm_modr a as settings =
     D [''modr'', mem_r (Rn a) (StepZIDS as)]"

definition dsm_modr_dmod :: "u16 \<Rightarrow> u16 \<Rightarrow> dsm" where [dsm_defs]:
  "dsm_modr_dmod a as settings =
     D [''modr'', mem_r (Rn a) (StepZIDS as), ''dmod'']"

definition dsm_modr_i2 :: "u16 \<Rightarrow> dsm" where [dsm_defs]:
  "dsm_modr_i2 a settings =
     D [''modr'', text_reg (Rn a), ''+2'']"

definition dsm_modr_i2_dmod :: "u16 \<Rightarrow> dsm" where [dsm_defs]:
  "dsm_modr_i2_dmod a settings =
     D [''modr'', text_reg (Rn a), ''+2'', ''dmod'']"

definition dsm_modr_d2 :: "u16 \<Rightarrow> dsm" where [dsm_defs]:
  "dsm_modr_d2 a settings =
     D [''modr'', text_reg (Rn a), ''-2'']"

definition dsm_modr_d2_dmod :: "u16 \<Rightarrow> dsm" where [dsm_defs]:
  "dsm_modr_d2_dmod a settings =
     D [''modr'', text_reg (Rn a), ''-2'', ''dmod'']"

definition dsm_modr_eemod :: "u16 \<Rightarrow> u16 \<Rightarrow> u16 \<Rightarrow> dsm" where [dsm_defs]:
  "dsm_modr_eemod a asi asj settings =
     D [''modr'', mem_arpsi settings (ar_index 0 a) (ar_index 0 asi),
        mem_arpsj settings (ar_index 0 a) (ar_index 0 asj), ''eemod'']"

definition dsm_modr_edmod :: "u16 \<Rightarrow> u16 \<Rightarrow> u16 \<Rightarrow> dsm" where [dsm_defs]:
  "dsm_modr_edmod a asi asj settings =
     D [''modr'', mem_arpsi settings (ar_index 0 a) (ar_index 0 asi),
        mem_arpsj settings (ar_index 0 a) (ar_index 0 asj), ''edmod'']"

definition dsm_modr_demod :: "u16 \<Rightarrow> u16 \<Rightarrow> u16 \<Rightarrow> dsm" where [dsm_defs]:
  "dsm_modr_demod a asi asj settings =
     D [''modr'', mem_arpsi settings (ar_index 0 a) (ar_index 0 asi),
        mem_arpsj settings (ar_index 0 a) (ar_index 0 asj), ''demod'']"

definition dsm_modr_ddmod :: "u16 \<Rightarrow> u16 \<Rightarrow> u16 \<Rightarrow> dsm" where [dsm_defs]:
  "dsm_modr_ddmod a asi asj settings =
     D [''modr'', mem_arpsi settings (ar_index 0 a) (ar_index 0 asi),
        mem_arpsj settings (ar_index 0 a) (ar_index 0 asj), ''ddmod'']"

end
