(* ===== verification/Disasm_Moves.thy ===== *)
theory Disasm_Moves
  imports Disasm_Text
begin

text \<open>
  src/src/disassembler.cpp, the member functions of the visitor class for
  the moves. Each gives the tokens of an instruction from its operands and the configuration words the
  disassembler was given.
\<close>

definition dsm_movd :: "u16 \<Rightarrow> u16 \<Rightarrow> u16 \<Rightarrow> u16 \<Rightarrow> dsm" where [dsm_defs]:
  "dsm_movd a as b bs settings =
     D [''mov d->p'', mem_r (R0123 a) (StepZIDS as), mem_r (R45 b) (StepZIDS bs)]"

definition dsm_movp_axl :: "u16 \<Rightarrow> u16 \<Rightarrow> dsm" where [dsm_defs]:
  "dsm_movp_axl a b settings =
     D [''mov p->r'', mem_g (Axl a), text_reg (Register b)]"

definition dsm_movp_ax :: "u16 \<Rightarrow> u16 \<Rightarrow> dsm" where [dsm_defs]:
  "dsm_movp_ax a b settings =
     D [''mov p->r'', mem_g (Ax a), text_reg (Register b)]"

definition dsm_movp_rn :: "u16 \<Rightarrow> u16 \<Rightarrow> u16 \<Rightarrow> u16 \<Rightarrow> dsm" where [dsm_defs]:
  "dsm_movp_rn a as b bs settings =
     D [''mov p->d'', mem_r (Rn a) (StepZIDS as), mem_r (R0123 b) (StepZIDS bs)]"

definition dsm_movpdw :: "u16 \<Rightarrow> dsm" where [dsm_defs]:
  "dsm_movpdw a settings =
     D [''mov p->pc'', mem_g (Ax a)]"

definition dsm_mov_ab_ab :: "u16 \<Rightarrow> u16 \<Rightarrow> dsm" where [dsm_defs]:
  "dsm_mov_ab_ab a b settings =
     D [''mov'', text_reg (Ab a), text_reg (Ab b)]"

definition dsm_mov_dvm :: "u16 \<Rightarrow> dsm" where [dsm_defs]:
  "dsm_mov_dvm a settings =
     D [''mov'', text_reg (Abl a), ''dvm'']"

definition dsm_mov_x0 :: "u16 \<Rightarrow> dsm" where [dsm_defs]:
  "dsm_mov_x0 a settings =
     D [''mov'', text_reg (Abl a), ''x0'']"

definition dsm_mov_x1 :: "u16 \<Rightarrow> dsm" where [dsm_defs]:
  "dsm_mov_x1 a settings =
     D [''mov'', text_reg (Abl a), ''x1'']"

definition dsm_mov_y1 :: "u16 \<Rightarrow> dsm" where [dsm_defs]:
  "dsm_mov_y1 a settings =
     D [''mov'', text_reg (Abl a), ''y1'']"

definition dsm_mov_ablh_mem_imm8 :: "u16 \<Rightarrow> u16 \<Rightarrow> dsm" where [dsm_defs]:
  "dsm_mov_ablh_mem_imm8 a b settings =
     D [''mov'', text_reg (Ablh a), text_mem_imm8 b]"

definition dsm_mov_axl_mem_imm16 :: "u16 \<Rightarrow> u16 \<Rightarrow> dsm" where [dsm_defs]:
  "dsm_mov_axl_mem_imm16 a b settings =
     D [''mov'', text_reg (Axl a), text_mem_imm16 b]"

definition dsm_mov_axl_mem_r7_imm16 :: "u16 \<Rightarrow> u16 \<Rightarrow> dsm" where [dsm_defs]:
  "dsm_mov_axl_mem_r7_imm16 a b settings =
     D [''mov'', text_reg (Axl a), text_mem_r7_imm16 b]"

definition dsm_mov_axl_mem_r7_imm7s :: "u16 \<Rightarrow> u16 \<Rightarrow> dsm" where [dsm_defs]:
  "dsm_mov_axl_mem_r7_imm7s a b settings =
     D [''mov'', text_reg (Axl a), text_mem_r7_imm7s b]"

definition dsm_mov_mem_imm16_ax :: "u16 \<Rightarrow> u16 \<Rightarrow> dsm" where [dsm_defs]:
  "dsm_mov_mem_imm16_ax a b settings =
     D [''mov'', text_mem_imm16 a, text_reg (Ax b)]"

definition dsm_mov_mem_imm8_ab :: "u16 \<Rightarrow> u16 \<Rightarrow> dsm" where [dsm_defs]:
  "dsm_mov_mem_imm8_ab a b settings =
     D [''mov'', text_mem_imm8 a, text_reg (Ab b)]"

definition dsm_mov_mem_imm8_ablh :: "u16 \<Rightarrow> u16 \<Rightarrow> dsm" where [dsm_defs]:
  "dsm_mov_mem_imm8_ablh a b settings =
     D [''mov'', text_mem_imm8 a, text_reg (Ablh b)]"

definition dsm_mov_eu :: "u16 \<Rightarrow> u16 \<Rightarrow> dsm" where [dsm_defs]:
  "dsm_mov_eu a b settings =
     D [''mov'', text_mem_imm8 a, text_reg (Axh b), ''eu'']"

definition dsm_mov_mem_imm8_rn_old :: "u16 \<Rightarrow> u16 \<Rightarrow> dsm" where [dsm_defs]:
  "dsm_mov_mem_imm8_rn_old a b settings =
     D [''mov'', text_mem_imm8 a, text_reg (RnOld b)]"

definition dsm_mov_sv_mem_imm8 :: "u16 \<Rightarrow> dsm" where [dsm_defs]:
  "dsm_mov_sv_mem_imm8 a settings =
     D [''mov'', text_mem_imm8 a, ''sv'']"

definition dsm_mov_dvm_to :: "u16 \<Rightarrow> dsm" where [dsm_defs]:
  "dsm_mov_dvm_to b settings =
     D [''mov'', ''dvm'', text_reg (Ab b)]"

definition dsm_mov_icr_to :: "u16 \<Rightarrow> dsm" where [dsm_defs]:
  "dsm_mov_icr_to b settings =
     D [''mov'', ''icr'', text_reg (Ab b)]"

definition dsm_mov_imm16_bx :: "u16 \<Rightarrow> u16 \<Rightarrow> dsm" where [dsm_defs]:
  "dsm_mov_imm16_bx a b settings =
     D [''mov'', text_imm 16 a, text_reg (Bx b)]"

definition dsm_mov_imm16_register :: "u16 \<Rightarrow> u16 \<Rightarrow> dsm" where [dsm_defs]:
  "dsm_mov_imm16_register a b settings =
     D [''mov'', text_imm 16 a, text_reg (Register b)]"

definition dsm_mov_icr_imm5 :: "u16 \<Rightarrow> dsm" where [dsm_defs]:
  "dsm_mov_icr_imm5 a settings =
     D [''mov'', text_imm 5 a, ''icr'']"

definition dsm_mov_imm8s_axh :: "u16 \<Rightarrow> u16 \<Rightarrow> dsm" where [dsm_defs]:
  "dsm_mov_imm8s_axh a b settings =
     D [''mov'', text_imms 8 a, text_reg (Axh b)]"

definition dsm_mov_imm8s_rn_old :: "u16 \<Rightarrow> u16 \<Rightarrow> dsm" where [dsm_defs]:
  "dsm_mov_imm8s_rn_old a b settings =
     D [''mov'', text_imms 8 a, text_reg (RnOld b)]"

definition dsm_mov_sv_imm8s :: "u16 \<Rightarrow> dsm" where [dsm_defs]:
  "dsm_mov_sv_imm8s a settings =
     D [''mov'', text_imms 8 a, ''sv'']"

definition dsm_mov_imm8_axl :: "u16 \<Rightarrow> u16 \<Rightarrow> dsm" where [dsm_defs]:
  "dsm_mov_imm8_axl a b settings =
     D [''mov'', text_imm 8 a, text_reg (Axl b)]"

definition dsm_mov_mem_r7_imm16_ax :: "u16 \<Rightarrow> u16 \<Rightarrow> dsm" where [dsm_defs]:
  "dsm_mov_mem_r7_imm16_ax a b settings =
     D [''mov'', text_mem_r7_imm16 a, text_reg (Ax b)]"

definition dsm_mov_mem_r7_imm7s_ax :: "u16 \<Rightarrow> u16 \<Rightarrow> dsm" where [dsm_defs]:
  "dsm_mov_mem_r7_imm7s_ax a b settings =
     D [''mov'', text_mem_r7_imm7s a, text_reg (Ax b)]"

definition dsm_mov_rn_bx :: "u16 \<Rightarrow> u16 \<Rightarrow> u16 \<Rightarrow> dsm" where [dsm_defs]:
  "dsm_mov_rn_bx a as b settings =
     D [''mov'', mem_r (Rn a) (StepZIDS as), text_reg (Bx b)]"

definition dsm_mov_rn_register :: "u16 \<Rightarrow> u16 \<Rightarrow> u16 \<Rightarrow> dsm" where [dsm_defs]:
  "dsm_mov_rn_register a as b settings =
     D [''mov'', mem_r (Rn a) (StepZIDS as), text_reg (Register b)]"

definition dsm_mov_memsp_to :: "u16 \<Rightarrow> dsm" where [dsm_defs]:
  "dsm_mov_memsp_to b settings =
     D [''mov'', ''[sp]'', text_reg (Register b)]"

definition dsm_mov_mixp_to_register :: "u16 \<Rightarrow> dsm" where [dsm_defs]:
  "dsm_mov_mixp_to_register b settings =
     D [''mov'', ''mixp'', text_reg (Register b)]"

definition dsm_mov_rn_old_mem_imm8 :: "u16 \<Rightarrow> u16 \<Rightarrow> dsm" where [dsm_defs]:
  "dsm_mov_rn_old_mem_imm8 a b settings =
     D [''mov'', text_reg (RnOld a), text_mem_imm8 b]"

definition dsm_mov_icr_register :: "u16 \<Rightarrow> dsm" where [dsm_defs]:
  "dsm_mov_icr_register a settings =
     D [''mov'', text_reg (Register a), ''icr'']"

definition dsm_mov_mixp_register :: "u16 \<Rightarrow> dsm" where [dsm_defs]:
  "dsm_mov_mixp_register a settings =
     D [''mov'', text_reg (Register a), ''mixp'']"

definition dsm_mov_register_rn :: "u16 \<Rightarrow> u16 \<Rightarrow> u16 \<Rightarrow> dsm" where [dsm_defs]:
  "dsm_mov_register_rn a b bs settings =
     D [''mov'', text_reg (Register a), mem_r (Rn b) (StepZIDS bs)]"

definition dsm_mov_register_bx :: "u16 \<Rightarrow> u16 \<Rightarrow> dsm" where [dsm_defs]:
  "dsm_mov_register_bx a b settings =
     (let a_mark = (if Register a = Reg_a0 \<or> Register a = Reg_a1 then ''?'' else [])
      in D [''mov'' @ a_mark, text_reg (Register a), text_reg (Bx b)])"

definition dsm_mov_register_register :: "u16 \<Rightarrow> u16 \<Rightarrow> dsm" where [dsm_defs]:
  "dsm_mov_register_register a b settings =
     D [''mov'', text_reg (Register a), text_reg (Register b)]"

definition dsm_mov_repc_to_ab :: "u16 \<Rightarrow> dsm" where [dsm_defs]:
  "dsm_mov_repc_to_ab b settings =
     D [''mov'', ''repc'', text_reg (Ab b)]"

definition dsm_mov_sv_to :: "u16 \<Rightarrow> dsm" where [dsm_defs]:
  "dsm_mov_sv_to b settings =
     D [''mov'', ''sv'', text_mem_imm8 b]"

definition dsm_mov_x0_to :: "u16 \<Rightarrow> dsm" where [dsm_defs]:
  "dsm_mov_x0_to b settings =
     D [''mov'', ''x0'', text_reg (Ab b)]"

definition dsm_mov_x1_to :: "u16 \<Rightarrow> dsm" where [dsm_defs]:
  "dsm_mov_x1_to b settings =
     D [''mov'', ''x1'', text_reg (Ab b)]"

definition dsm_mov_y1_to :: "u16 \<Rightarrow> dsm" where [dsm_defs]:
  "dsm_mov_y1_to b settings =
     D [''mov'', ''y1'', text_reg (Ab b)]"

definition dsm_mov_imm16_ar_arp :: "u16 \<Rightarrow> u16 \<Rightarrow> dsm" where [dsm_defs]:
  "dsm_mov_imm16_ar_arp a b settings =
     D [''mov'', text_imm 16 a, text_reg (ArArp b)]"

definition dsm_mov_r6_imm16 :: "u16 \<Rightarrow> dsm" where [dsm_defs]:
  "dsm_mov_r6_imm16 a settings =
     D [''mov'', text_imm 16 a, ''r6'']"

definition dsm_mov_repc_imm16 :: "u16 \<Rightarrow> dsm" where [dsm_defs]:
  "dsm_mov_repc_imm16 a settings =
     D [''mov'', text_imm 16 a, ''repc'']"

definition dsm_mov_stepi0_imm16 :: "u16 \<Rightarrow> dsm" where [dsm_defs]:
  "dsm_mov_stepi0_imm16 a settings =
     D [''mov'', text_imm 16 a, ''stepi0'']"

definition dsm_mov_stepj0_imm16 :: "u16 \<Rightarrow> dsm" where [dsm_defs]:
  "dsm_mov_stepj0_imm16 a settings =
     D [''mov'', text_imm 16 a, ''stepj0'']"

definition dsm_mov_imm16_stt_mod :: "u16 \<Rightarrow> u16 \<Rightarrow> dsm" where [dsm_defs]:
  "dsm_mov_imm16_stt_mod a b settings =
     D [''mov'', text_imm 16 a, text_reg (SttMod b)]"

definition dsm_mov_prpage_imm4 :: "u16 \<Rightarrow> dsm" where [dsm_defs]:
  "dsm_mov_prpage_imm4 a settings =
     D [''mov'', text_imm 4 a, ''prpage'']"

definition dsm_mov_a0h_stepi0 :: "dsm" where [dsm_defs]:
  "dsm_mov_a0h_stepi0 settings =
     D [''mov'', ''a0h'', ''stepi0'']"

definition dsm_mov_a0h_stepj0 :: "dsm" where [dsm_defs]:
  "dsm_mov_a0h_stepj0 settings =
     D [''mov'', ''a0h'', ''stepj0'']"

definition dsm_mov_stepi0_a0h :: "dsm" where [dsm_defs]:
  "dsm_mov_stepi0_a0h settings =
     D [''mov'', ''stepi0'', ''a0h'']"

definition dsm_mov_stepj0_a0h :: "dsm" where [dsm_defs]:
  "dsm_mov_stepj0_a0h settings =
     D [''mov'', ''stepj0'', ''a0h'']"

definition dsm_mov_prpage_abl :: "u16 \<Rightarrow> dsm" where [dsm_defs]:
  "dsm_mov_prpage_abl a settings =
     D [''mov'', text_reg (Abl a), ''prpage'']"

definition dsm_mov_repc_abl :: "u16 \<Rightarrow> dsm" where [dsm_defs]:
  "dsm_mov_repc_abl a settings =
     D [''mov'', text_reg (Abl a), ''repc'']"

definition dsm_mov_abl_ar_arp :: "u16 \<Rightarrow> u16 \<Rightarrow> dsm" where [dsm_defs]:
  "dsm_mov_abl_ar_arp a b settings =
     D [''mov'', text_reg (Abl a), text_reg (ArArp b)]"

definition dsm_mov_abl_stt_mod :: "u16 \<Rightarrow> u16 \<Rightarrow> dsm" where [dsm_defs]:
  "dsm_mov_abl_stt_mod a b settings =
     D [''mov'', text_reg (Abl a), text_reg (SttMod b)]"

definition dsm_mov_prpage_to_abl :: "u16 \<Rightarrow> dsm" where [dsm_defs]:
  "dsm_mov_prpage_to_abl b settings =
     D [''mov'', ''prpage'', text_reg (Abl b)]"

definition dsm_mov_repc_to_abl :: "u16 \<Rightarrow> dsm" where [dsm_defs]:
  "dsm_mov_repc_to_abl b settings =
     D [''mov'', ''repc'', text_reg (Abl b)]"

definition dsm_mov_ar_arp_abl :: "u16 \<Rightarrow> u16 \<Rightarrow> dsm" where [dsm_defs]:
  "dsm_mov_ar_arp_abl a b settings =
     D [''mov'', text_reg (ArArp a), text_reg (Abl b)]"

definition dsm_mov_stt_mod_abl :: "u16 \<Rightarrow> u16 \<Rightarrow> dsm" where [dsm_defs]:
  "dsm_mov_stt_mod_abl a b settings =
     D [''mov'', text_reg (SttMod a), text_reg (Abl b)]"

definition dsm_mov_repc_to_ar_rn1 :: "u16 \<Rightarrow> u16 \<Rightarrow> dsm" where [dsm_defs]:
  "dsm_mov_repc_to_ar_rn1 b bs settings =
     D [''mov'', ''repc'', mem_ars settings (ar_index 0 b) (ar_index 0 bs)]"

definition dsm_mov_ar_arp_ar_rn1 :: "u16 \<Rightarrow> u16 \<Rightarrow> u16 \<Rightarrow> dsm" where [dsm_defs]:
  "dsm_mov_ar_arp_ar_rn1 a b bs settings =
     D [''mov'', text_reg (ArArp a), mem_ars settings (ar_index 0 b) (ar_index 0 bs)]"

definition dsm_mov_stt_mod_ar_rn1 :: "u16 \<Rightarrow> u16 \<Rightarrow> u16 \<Rightarrow> dsm" where [dsm_defs]:
  "dsm_mov_stt_mod_ar_rn1 a b bs settings =
     D [''mov'', text_reg (SttMod a), mem_ars settings (ar_index 0 b) (ar_index 0 bs)]"

definition dsm_mov_repc_ar_rn1 :: "u16 \<Rightarrow> u16 \<Rightarrow> dsm" where [dsm_defs]:
  "dsm_mov_repc_ar_rn1 a as settings =
     D [''mov'', mem_ars settings (ar_index 0 a) (ar_index 0 as), ''repc'']"

definition dsm_mov_ar_rn1_ar_arp :: "u16 \<Rightarrow> u16 \<Rightarrow> u16 \<Rightarrow> dsm" where [dsm_defs]:
  "dsm_mov_ar_rn1_ar_arp a as b settings =
     D [''mov'', mem_ars settings (ar_index 0 a) (ar_index 0 as), text_reg (ArArp b)]"

definition dsm_mov_ar_rn1_stt_mod :: "u16 \<Rightarrow> u16 \<Rightarrow> u16 \<Rightarrow> dsm" where [dsm_defs]:
  "dsm_mov_ar_rn1_stt_mod a as b settings =
     D [''mov'', mem_ars settings (ar_index 0 a) (ar_index 0 as), text_reg (SttMod b)]"

definition dsm_mov_repc_to_mem_r7_imm16 :: "u16 \<Rightarrow> dsm" where [dsm_defs]:
  "dsm_mov_repc_to_mem_r7_imm16 b settings =
     D [''mov'', ''repc'', text_mem_r7_imm16 b]"

definition dsm_mov_ar_arp_stt_mod_mem_r7_imm16 :: "u16 \<Rightarrow> u16 \<Rightarrow> dsm" where [dsm_defs]:
  "dsm_mov_ar_arp_stt_mod_mem_r7_imm16 a b settings =
     D [''mov'', text_reg (ArArpSttMod a), text_mem_r7_imm16 b]"

definition dsm_mov_repc_mem_r7_imm16 :: "u16 \<Rightarrow> dsm" where [dsm_defs]:
  "dsm_mov_repc_mem_r7_imm16 a settings =
     D [''mov'', text_mem_r7_imm16 a, ''repc'']"

definition dsm_mov_mem_r7_imm16_ar_arp_stt_mod :: "u16 \<Rightarrow> u16 \<Rightarrow> dsm" where [dsm_defs]:
  "dsm_mov_mem_r7_imm16_ar_arp_stt_mod a b settings =
     D [''mov'', text_mem_r7_imm16 a, text_reg (ArArpSttMod b)]"

definition dsm_mov_pc_ax :: "u16 \<Rightarrow> dsm" where [dsm_defs]:
  "dsm_mov_pc_ax a settings =
     D [''mov'', text_reg (Ax a), ''pc'']"

definition dsm_mov_pc_bx :: "u16 \<Rightarrow> dsm" where [dsm_defs]:
  "dsm_mov_pc_bx a settings =
     D [''mov'', text_reg (Bx a), ''pc'']"

definition dsm_mov_mixp_to_bx :: "u16 \<Rightarrow> dsm" where [dsm_defs]:
  "dsm_mov_mixp_to_bx b settings =
     D [''mov'', ''mixp'', text_reg (Bx b)]"

definition dsm_mov_mixp_r6 :: "dsm" where [dsm_defs]:
  "dsm_mov_mixp_r6 settings =
     D [''mov'', ''mixp'', ''r6'']"

definition dsm_mov_p0h_to_bx :: "u16 \<Rightarrow> dsm" where [dsm_defs]:
  "dsm_mov_p0h_to_bx b settings =
     D [''mov'', ''p0h'', text_reg (Bx b)]"

definition dsm_mov_p0h_r6 :: "dsm" where [dsm_defs]:
  "dsm_mov_p0h_r6 settings =
     D [''mov'', ''p0h'', ''r6'']"

definition dsm_mov_p0h_to_register :: "u16 \<Rightarrow> dsm" where [dsm_defs]:
  "dsm_mov_p0h_to_register b settings =
     D [''mov'', ''p0h'', text_reg (Register b)]"

definition dsm_mov_p0 :: "u16 \<Rightarrow> dsm" where [dsm_defs]:
  "dsm_mov_p0 a settings =
     D [''mov'', text_reg (Ab a), ''p0'']"

definition dsm_mov_p1_to :: "u16 \<Rightarrow> dsm" where [dsm_defs]:
  "dsm_mov_p1_to b settings =
     D [''mov'', ''p1'', text_reg (Ab b)]"

definition dsm_mov2_px_ar :: "u16 \<Rightarrow> u16 \<Rightarrow> u16 \<Rightarrow> dsm" where [dsm_defs]:
  "dsm_mov2_px_ar a b bs settings =
     D [''mov'', text_px a, mem_ars settings (ar_index 0 b) (ar_index 0 bs)]"

definition dsm_mov2s :: "u16 \<Rightarrow> u16 \<Rightarrow> u16 \<Rightarrow> dsm" where [dsm_defs]:
  "dsm_mov2s a b bs settings =
     D [''mov s'', text_px a, mem_ars settings (ar_index 0 b) (ar_index 0 bs)]"

definition dsm_mov2_ar_px :: "u16 \<Rightarrow> u16 \<Rightarrow> u16 \<Rightarrow> dsm" where [dsm_defs]:
  "dsm_mov2_ar_px a as b settings =
     D [''mov'', mem_ars settings (ar_index 0 a) (ar_index 0 as), text_px b]"

definition dsm_mova_ab_ar :: "u16 \<Rightarrow> u16 \<Rightarrow> u16 \<Rightarrow> dsm" where [dsm_defs]:
  "dsm_mova_ab_ar a b bs settings =
     D [''mov'', text_reg (Ab a), mem_ars settings (ar_index 0 b) (ar_index 0 bs)]"

definition dsm_mova_ar_ab :: "u16 \<Rightarrow> u16 \<Rightarrow> u16 \<Rightarrow> dsm" where [dsm_defs]:
  "dsm_mova_ar_ab a as b settings =
     D [''mov'', mem_ars settings (ar_index 0 a) (ar_index 0 as), text_reg (Ab b)]"

definition dsm_mov_r6_to_bx :: "u16 \<Rightarrow> dsm" where [dsm_defs]:
  "dsm_mov_r6_to_bx b settings =
     D [''mov'', ''r6'', text_reg (Bx b)]"

definition dsm_mov_r6_mixp :: "dsm" where [dsm_defs]:
  "dsm_mov_r6_mixp settings =
     D [''mov'', ''r6'', ''mixp'']"

definition dsm_mov_r6_to_register :: "u16 \<Rightarrow> dsm" where [dsm_defs]:
  "dsm_mov_r6_to_register b settings =
     D [''mov'', ''r6'', text_reg (Register b)]"

definition dsm_mov_r6_register :: "u16 \<Rightarrow> dsm" where [dsm_defs]:
  "dsm_mov_r6_register a settings =
     D [''mov'', text_reg (Register a), ''r6'']"

definition dsm_mov_memsp_r6 :: "dsm" where [dsm_defs]:
  "dsm_mov_memsp_r6 settings =
     D [''mov'', ''[sp]'', ''r6'']"

definition dsm_mov_r6_to_rn :: "u16 \<Rightarrow> u16 \<Rightarrow> dsm" where [dsm_defs]:
  "dsm_mov_r6_to_rn b bs settings =
     D [''mov'', ''r6'', mem_r (Rn b) (StepZIDS bs)]"

definition dsm_mov_r6_rn :: "u16 \<Rightarrow> u16 \<Rightarrow> dsm" where [dsm_defs]:
  "dsm_mov_r6_rn a as settings =
     D [''mov'', mem_r (Rn a) (StepZIDS as), ''r6'']"

definition dsm_movs_mem_imm8 :: "u16 \<Rightarrow> u16 \<Rightarrow> dsm" where [dsm_defs]:
  "dsm_movs_mem_imm8 a b settings =
     D [''movs'', text_mem_imm8 a, text_reg (Ab b)]"

definition dsm_movs_rn :: "u16 \<Rightarrow> u16 \<Rightarrow> u16 \<Rightarrow> dsm" where [dsm_defs]:
  "dsm_movs_rn a as b settings =
     D [''movs'', mem_r (Rn a) (StepZIDS as), text_reg (Ab b)]"

definition dsm_movs_register :: "u16 \<Rightarrow> u16 \<Rightarrow> dsm" where [dsm_defs]:
  "dsm_movs_register a b settings =
     D [''movs'', text_reg (Register a), text_reg (Ab b)]"

definition dsm_movs_r6_to :: "u16 \<Rightarrow> dsm" where [dsm_defs]:
  "dsm_movs_r6_to b settings =
     D [''movs'', ''r6'', text_reg (Ax b)]"

definition dsm_movsi :: "u16 \<Rightarrow> u16 \<Rightarrow> u16 \<Rightarrow> dsm" where [dsm_defs]:
  "dsm_movsi a b s settings =
     D [''movsi'', text_reg (RnOld a), text_reg (Ab b), text_imms 5 s]"

definition dsm_mov2_axh_m_y0_m :: "u16 \<Rightarrow> u16 \<Rightarrow> u16 \<Rightarrow> dsm" where [dsm_defs]:
  "dsm_mov2_axh_m_y0_m a b bs settings =
     D [''mov||mov'', text_reg (Axh a), ''y0'', mem_ars settings (ar_index 0 b) (ar_index 0 bs)]"

definition dsm_mov2_ax_mij :: "u16 \<Rightarrow> u16 \<Rightarrow> u16 \<Rightarrow> u16 \<Rightarrow> dsm" where [dsm_defs]:
  "dsm_mov2_ax_mij a b bsi bsj settings =
     D [''mov hilj'', text_reg (Ab a), mem_arpsi settings (ar_index 0 b) (ar_index 0 bsi),
        mem_arpsj settings (ar_index 0 b) (ar_index 0 bsj)]"

definition dsm_mov2_ax_mji :: "u16 \<Rightarrow> u16 \<Rightarrow> u16 \<Rightarrow> u16 \<Rightarrow> dsm" where [dsm_defs]:
  "dsm_mov2_ax_mji a b bsi bsj settings =
     D [''mov lihj'', text_reg (Ab a), mem_arpsi settings (ar_index 0 b) (ar_index 0 bsi),
        mem_arpsj settings (ar_index 0 b) (ar_index 0 bsj)]"

definition dsm_mov2_mij_ax :: "u16 \<Rightarrow> u16 \<Rightarrow> u16 \<Rightarrow> u16 \<Rightarrow> dsm" where [dsm_defs]:
  "dsm_mov2_mij_ax a asi asj b settings =
     D [''mov hilj'', mem_arpsi settings (ar_index 0 a) (ar_index 0 asi),
        mem_arpsj settings (ar_index 0 a) (ar_index 0 asj), text_reg (Ab b)]"

definition dsm_mov2_mji_ax :: "u16 \<Rightarrow> u16 \<Rightarrow> u16 \<Rightarrow> u16 \<Rightarrow> dsm" where [dsm_defs]:
  "dsm_mov2_mji_ax a asi asj b settings =
     D [''mov lihj'', mem_arpsi settings (ar_index 0 a) (ar_index 0 asi),
        mem_arpsj settings (ar_index 0 a) (ar_index 0 asj), text_reg (Ab b)]"

definition dsm_mov2_abh_m :: "u16 \<Rightarrow> u16 \<Rightarrow> u16 \<Rightarrow> u16 \<Rightarrow> dsm" where [dsm_defs]:
  "dsm_mov2_abh_m ax ay b bs settings =
     D [''mov||mov'', text_reg (Abh ax), text_reg (Abh ay),
        mem_ars settings (ar_index 0 b) (ar_index 0 bs)]"

definition dsm_exchange_iaj :: "u16 \<Rightarrow> u16 \<Rightarrow> u16 \<Rightarrow> u16 \<Rightarrow> dsm" where [dsm_defs]:
  "dsm_exchange_iaj a b bsi bsj settings =
     D [''exchange i->a->j'', text_reg (Axh a), mem_arpsi settings (ar_index 0 b) (ar_index 0 bsi),
        mem_arpsj settings (ar_index 0 b) (ar_index 0 bsj)]"

definition dsm_exchange_riaj :: "u16 \<Rightarrow> u16 \<Rightarrow> u16 \<Rightarrow> u16 \<Rightarrow> dsm" where [dsm_defs]:
  "dsm_exchange_riaj a b bsi bsj settings =
     D [''exchange ri->a->j'', text_reg (Axh a), mem_arpsi settings (ar_index 0 b) (ar_index 0 bsi),
        mem_arpsj settings (ar_index 0 b) (ar_index 0 bsj)]"

definition dsm_exchange_jai :: "u16 \<Rightarrow> u16 \<Rightarrow> u16 \<Rightarrow> u16 \<Rightarrow> dsm" where [dsm_defs]:
  "dsm_exchange_jai a b bsi bsj settings =
     D [''exchange j->a->i'', text_reg (Axh a), mem_arpsi settings (ar_index 0 b) (ar_index 0 bsi),
        mem_arpsj settings (ar_index 0 b) (ar_index 0 bsj)]"

definition dsm_exchange_rjai :: "u16 \<Rightarrow> u16 \<Rightarrow> u16 \<Rightarrow> u16 \<Rightarrow> dsm" where [dsm_defs]:
  "dsm_exchange_rjai a b bsi bsj settings =
     D [''exchange rj->a->i'', text_reg (Axh a), mem_arpsi settings (ar_index 0 b) (ar_index 0 bsi),
        mem_arpsj settings (ar_index 0 b) (ar_index 0 bsj)]"

definition dsm_movr_ar :: "u16 \<Rightarrow> u16 \<Rightarrow> u16 \<Rightarrow> dsm" where [dsm_defs]:
  "dsm_movr_ar a as b settings =
     D [''movr'', mem_ars settings (ar_index 0 a) (ar_index 0 as), text_reg (Abh b)]"

definition dsm_movr_rn :: "u16 \<Rightarrow> u16 \<Rightarrow> u16 \<Rightarrow> dsm" where [dsm_defs]:
  "dsm_movr_rn a as b settings =
     D [''movr'', mem_r (Rn a) (StepZIDS as), text_reg (Ax b)]"

definition dsm_movr_register :: "u16 \<Rightarrow> u16 \<Rightarrow> dsm" where [dsm_defs]:
  "dsm_movr_register a b settings =
     D [''movr'', text_reg (Register a), text_reg (Ax b)]"

definition dsm_movr_bx :: "u16 \<Rightarrow> u16 \<Rightarrow> dsm" where [dsm_defs]:
  "dsm_movr_bx a b settings =
     D [''movr'', text_reg (Bx a), text_reg (Ax b)]"

definition dsm_movr_r6_to :: "u16 \<Rightarrow> dsm" where [dsm_defs]:
  "dsm_movr_r6_to b settings =
     D [''movr'', ''r6'', text_reg (Ax b)]"

end
