(* ===== verification/Disasm_Pairs.thy ===== *)
theory Disasm_Pairs
  imports Disasm_Text
begin

text \<open>
  src/src/disassembler.cpp, the member functions of the visitor class for
  exponents, paired minimum and maximum, products and sums in parallel. Each gives the tokens of an instruction from its operands and the configuration words the
  disassembler was given.
\<close>

definition dsm_exp_bx :: "u16 \<Rightarrow> dsm" where [dsm_defs]:
  "dsm_exp_bx a settings =
     D [''exp'', text_reg (Bx a)]"

definition dsm_exp_bx_ax :: "u16 \<Rightarrow> u16 \<Rightarrow> dsm" where [dsm_defs]:
  "dsm_exp_bx_ax a b settings =
     D [''exp'', text_reg (Bx a), text_reg (Ax b)]"

definition dsm_exp_rn :: "u16 \<Rightarrow> u16 \<Rightarrow> dsm" where [dsm_defs]:
  "dsm_exp_rn a as settings =
     D [''exp'', mem_r (Rn a) (StepZIDS as)]"

definition dsm_exp_rn_ax :: "u16 \<Rightarrow> u16 \<Rightarrow> u16 \<Rightarrow> dsm" where [dsm_defs]:
  "dsm_exp_rn_ax a as b settings =
     D [''exp'', mem_r (Rn a) (StepZIDS as), text_reg (Ax b)]"

definition dsm_exp_register :: "u16 \<Rightarrow> dsm" where [dsm_defs]:
  "dsm_exp_register a settings =
     D [''exp'', text_reg (Register a)]"

definition dsm_exp_register_ax :: "u16 \<Rightarrow> u16 \<Rightarrow> dsm" where [dsm_defs]:
  "dsm_exp_register_ax a b settings =
     D [''exp'', text_reg (Register a), text_reg (Ax b)]"

definition dsm_exp_r6 :: "dsm" where [dsm_defs]:
  "dsm_exp_r6 settings =
     D [''exp'', ''r6'']"

definition dsm_exp_r6_ax :: "u16 \<Rightarrow> dsm" where [dsm_defs]:
  "dsm_exp_r6_ax b settings =
     D [''exp'', ''r6'', text_reg (Ax b)]"

definition dsm_lim :: "u16 \<Rightarrow> u16 \<Rightarrow> dsm" where [dsm_defs]:
  "dsm_lim a b settings =
     D [''lim'', text_reg (Ax a), text_reg (Ax b)]"

definition dsm_vtrclr0 :: "dsm" where [dsm_defs]:
  "dsm_vtrclr0 settings =
     D [''vtrclr0'']"

definition dsm_vtrclr1 :: "dsm" where [dsm_defs]:
  "dsm_vtrclr1 settings =
     D [''vtrclr1'']"

definition dsm_vtrclr :: "dsm" where [dsm_defs]:
  "dsm_vtrclr settings =
     D [''vtrclr'']"

definition dsm_vtrmov0 :: "u16 \<Rightarrow> dsm" where [dsm_defs]:
  "dsm_vtrmov0 a settings =
     D [''vtrmov0'', text_reg (Axl a)]"

definition dsm_vtrmov1 :: "u16 \<Rightarrow> dsm" where [dsm_defs]:
  "dsm_vtrmov1 a settings =
     D [''vtrmov1'', text_reg (Axl a)]"

definition dsm_vtrmov :: "u16 \<Rightarrow> dsm" where [dsm_defs]:
  "dsm_vtrmov a settings =
     D [''vtrmov'', text_reg (Axl a)]"

definition dsm_vtrshr_instr :: "dsm" where [dsm_defs]:
  "dsm_vtrshr_instr settings =
     D [''vtrshr'']"

definition dsm_clrp0 :: "dsm" where [dsm_defs]:
  "dsm_clrp0 settings =
     D [''clr0'']"

definition dsm_clrp1 :: "dsm" where [dsm_defs]:
  "dsm_clrp1 settings =
     D [''clr1'']"

definition dsm_clrp :: "dsm" where [dsm_defs]:
  "dsm_clrp settings =
     D [''clr'']"

definition dsm_max_ge :: "u16 \<Rightarrow> u16 \<Rightarrow> dsm" where [dsm_defs]:
  "dsm_max_ge a bs settings =
     D [''max_ge'', text_reg (Ax a), ''^'', ''r0'', text_step_zids (StepZIDS bs)]"

definition dsm_max_gt :: "u16 \<Rightarrow> u16 \<Rightarrow> dsm" where [dsm_defs]:
  "dsm_max_gt a bs settings =
     D [''max_gt'', text_reg (Ax a), ''^'', ''r0'', text_step_zids (StepZIDS bs)]"

definition dsm_min_le :: "u16 \<Rightarrow> u16 \<Rightarrow> dsm" where [dsm_defs]:
  "dsm_min_le a bs settings =
     D [''min_le'', text_reg (Ax a), ''^'', ''r0'', text_step_zids (StepZIDS bs)]"

definition dsm_min_lt :: "u16 \<Rightarrow> u16 \<Rightarrow> dsm" where [dsm_defs]:
  "dsm_min_lt a bs settings =
     D [''min_lt'', text_reg (Ax a), ''^'', ''r0'', text_step_zids (StepZIDS bs)]"

definition dsm_max_ge_r0 :: "u16 \<Rightarrow> u16 \<Rightarrow> dsm" where [dsm_defs]:
  "dsm_max_ge_r0 a bs settings =
     D [''max_ge'', text_reg (Ax a), ''[r0]'', text_step_zids (StepZIDS bs)]"

definition dsm_max_gt_r0 :: "u16 \<Rightarrow> u16 \<Rightarrow> dsm" where [dsm_defs]:
  "dsm_max_gt_r0 a bs settings =
     D [''max_gt'', text_reg (Ax a), ''[r0]'', text_step_zids (StepZIDS bs)]"

definition dsm_min_le_r0 :: "u16 \<Rightarrow> u16 \<Rightarrow> dsm" where [dsm_defs]:
  "dsm_min_le_r0 a bs settings =
     D [''min_le'', text_reg (Ax a), ''[r0]'', text_step_zids (StepZIDS bs)]"

definition dsm_min_lt_r0 :: "u16 \<Rightarrow> u16 \<Rightarrow> dsm" where [dsm_defs]:
  "dsm_min_lt_r0 a bs settings =
     D [''min_lt'', text_reg (Ax a), ''[r0]'', text_step_zids (StepZIDS bs)]"

definition dsm_divs :: "u16 \<Rightarrow> u16 \<Rightarrow> dsm" where [dsm_defs]:
  "dsm_divs a b settings =
     D [''divs'', text_mem_imm8 a, text_reg (Ax b)]"

definition dsm_sqr_sqr_add3_ab :: "u16 \<Rightarrow> u16 \<Rightarrow> dsm" where [dsm_defs]:
  "dsm_sqr_sqr_add3_ab a b settings =
     D [''sqr h||l'', text_reg (Ab a), ''||add3'', text_reg (Ab b)]"

definition dsm_sqr_sqr_add3_ar :: "u16 \<Rightarrow> u16 \<Rightarrow> u16 \<Rightarrow> dsm" where [dsm_defs]:
  "dsm_sqr_sqr_add3_ar a as b settings =
     D [''sqr h||l'', mem_ars settings (ar_index 0 a) (ar_index 0 as), ''||add3'', text_reg (Ab b)]"

definition dsm_sqr_mpysu_add3a :: "u16 \<Rightarrow> u16 \<Rightarrow> dsm" where [dsm_defs]:
  "dsm_sqr_mpysu_add3a a b settings =
     D [''sqr h||mpysu hl'', text_reg (Ab a), ''||add3a'', text_reg (Ab b)]"

definition dsm_cmp_ax_bx :: "u16 \<Rightarrow> u16 \<Rightarrow> dsm" where [dsm_defs]:
  "dsm_cmp_ax_bx a b settings =
     D [''cmp'', text_reg (Ax a), text_reg (Bx b)]"

definition dsm_cmp_b0_b1 :: "dsm" where [dsm_defs]:
  "dsm_cmp_b0_b1 settings =
     D [''cmp'', ''b0'', ''b1'']"

definition dsm_cmp_b1_b0 :: "dsm" where [dsm_defs]:
  "dsm_cmp_b1_b0 settings =
     D [''cmp'', ''b1'', ''b0'']"

definition dsm_cmp_bx_ax :: "u16 \<Rightarrow> u16 \<Rightarrow> dsm" where [dsm_defs]:
  "dsm_cmp_bx_ax a b settings =
     D [''cmp'', text_reg (Bx a), text_reg (Ax b)]"

definition dsm_cmp_p1_to :: "u16 \<Rightarrow> dsm" where [dsm_defs]:
  "dsm_cmp_p1_to b settings =
     D [''cmp'', ''p1'', text_reg (Ax b)]"

definition dsm_max2_vtr_ax :: "u16 \<Rightarrow> dsm" where [dsm_defs]:
  "dsm_max2_vtr_ax a settings =
     D [''max h||l'', text_reg (Ax a), ''||vtrshr'']"

definition dsm_min2_vtr_ax :: "u16 \<Rightarrow> dsm" where [dsm_defs]:
  "dsm_min2_vtr_ax a settings =
     D [''min h||l'', text_reg (Ax a), ''||vtrshr'']"

definition dsm_max2_vtr_ax_bx :: "u16 \<Rightarrow> u16 \<Rightarrow> dsm" where [dsm_defs]:
  "dsm_max2_vtr_ax_bx a b settings =
     D [''max h||l'', text_reg (Ax a), text_reg (Bx b), ''||vtrshr'']"

definition dsm_min2_vtr_ax_bx :: "u16 \<Rightarrow> u16 \<Rightarrow> dsm" where [dsm_defs]:
  "dsm_min2_vtr_ax_bx a b settings =
     D [''min h||l'', text_reg (Ax a), text_reg (Bx b), ''||vtrshr'']"

definition dsm_max2_vtr_movl_ax_bx :: "u16 \<Rightarrow> u16 \<Rightarrow> u16 \<Rightarrow> u16 \<Rightarrow> dsm" where [dsm_defs]:
  "dsm_max2_vtr_movl_ax_bx a b c cs settings =
     D [''max h||l'', text_reg (Ax a), text_reg (Bx b), ''||vtrshr'', ''||mov^l'', text_reg (Ax a),
        mem_ars settings (ar_index 0 c) (ar_index 0 cs)]"

definition dsm_max2_vtr_movh_ax_bx :: "u16 \<Rightarrow> u16 \<Rightarrow> u16 \<Rightarrow> u16 \<Rightarrow> dsm" where [dsm_defs]:
  "dsm_max2_vtr_movh_ax_bx a b c cs settings =
     D [''max h||l'', text_reg (Ax a), text_reg (Bx b), ''||vtrshr'', ''||mov^h'', text_reg (Ax a),
        mem_ars settings (ar_index 0 c) (ar_index 0 cs)]"

definition dsm_max2_vtr_movl_bx_ax :: "u16 \<Rightarrow> u16 \<Rightarrow> u16 \<Rightarrow> u16 \<Rightarrow> dsm" where [dsm_defs]:
  "dsm_max2_vtr_movl_bx_ax a b c cs settings =
     D [''max h||l'', text_reg (Bx a), text_reg (Ax b), ''||vtrshr'', ''||mov^l'', text_reg (Bx a),
        mem_ars settings (ar_index 0 c) (ar_index 0 cs)]"

definition dsm_max2_vtr_movh_bx_ax :: "u16 \<Rightarrow> u16 \<Rightarrow> u16 \<Rightarrow> u16 \<Rightarrow> dsm" where [dsm_defs]:
  "dsm_max2_vtr_movh_bx_ax a b c cs settings =
     D [''max h||l'', text_reg (Bx a), text_reg (Ax b), ''||vtrshr'', ''||mov^h'', text_reg (Bx a),
        mem_ars settings (ar_index 0 c) (ar_index 0 cs)]"

definition dsm_min2_vtr_movl_ax_bx :: "u16 \<Rightarrow> u16 \<Rightarrow> u16 \<Rightarrow> u16 \<Rightarrow> dsm" where [dsm_defs]:
  "dsm_min2_vtr_movl_ax_bx a b c cs settings =
     D [''min h||l'', text_reg (Ax a), text_reg (Bx b), ''||vtrshr'', ''||mov^l'', text_reg (Ax a),
        mem_ars settings (ar_index 0 c) (ar_index 0 cs)]"

definition dsm_min2_vtr_movh_ax_bx :: "u16 \<Rightarrow> u16 \<Rightarrow> u16 \<Rightarrow> u16 \<Rightarrow> dsm" where [dsm_defs]:
  "dsm_min2_vtr_movh_ax_bx a b c cs settings =
     D [''min h||l'', text_reg (Ax a), text_reg (Bx b), ''||vtrshr'', ''||mov^h'', text_reg (Ax a),
        mem_ars settings (ar_index 0 c) (ar_index 0 cs)]"

definition dsm_min2_vtr_movl_bx_ax :: "u16 \<Rightarrow> u16 \<Rightarrow> u16 \<Rightarrow> u16 \<Rightarrow> dsm" where [dsm_defs]:
  "dsm_min2_vtr_movl_bx_ax a b c cs settings =
     D [''min h||l'', text_reg (Bx a), text_reg (Ax b), ''||vtrshr'', ''||mov^l'', text_reg (Bx a),
        mem_ars settings (ar_index 0 c) (ar_index 0 cs)]"

definition dsm_min2_vtr_movh_bx_ax :: "u16 \<Rightarrow> u16 \<Rightarrow> u16 \<Rightarrow> u16 \<Rightarrow> dsm" where [dsm_defs]:
  "dsm_min2_vtr_movh_bx_ax a b c cs settings =
     D [''min h||l'', text_reg (Bx a), text_reg (Ax b), ''||vtrshr'', ''||mov^h'', text_reg (Bx a),
        mem_ars settings (ar_index 0 c) (ar_index 0 cs)]"

definition dsm_max2_vtr_movij :: "u16 \<Rightarrow> u16 \<Rightarrow> u16 \<Rightarrow> u16 \<Rightarrow> u16 \<Rightarrow> dsm" where [dsm_defs]:
  "dsm_max2_vtr_movij a b c csi csj settings =
     D [''max h||l'', text_reg (Ax a), text_reg (Bx b), ''||vtrshr'', ''||mov^hilj'', text_reg (Ax a),
        mem_arpsi settings (ar_index 0 c) (ar_index 0 csi),
        mem_arpsj settings (ar_index 0 c) (ar_index 0 csj)]"

definition dsm_max2_vtr_movji :: "u16 \<Rightarrow> u16 \<Rightarrow> u16 \<Rightarrow> u16 \<Rightarrow> u16 \<Rightarrow> dsm" where [dsm_defs]:
  "dsm_max2_vtr_movji a b c csi csj settings =
     D [''max h||l'', text_reg (Ax a), text_reg (Bx b), ''||vtrshr'', ''||mov^hjli'', text_reg (Ax a),
        mem_arpsi settings (ar_index 0 c) (ar_index 0 csi),
        mem_arpsj settings (ar_index 0 c) (ar_index 0 csj)]"

definition dsm_min2_vtr_movij :: "u16 \<Rightarrow> u16 \<Rightarrow> u16 \<Rightarrow> u16 \<Rightarrow> u16 \<Rightarrow> dsm" where [dsm_defs]:
  "dsm_min2_vtr_movij a b c csi csj settings =
     D [''min h||l'', text_reg (Ax a), text_reg (Bx b), ''||vtrshr'', ''||mov^hilj'', text_reg (Ax a),
        mem_arpsi settings (ar_index 0 c) (ar_index 0 csi),
        mem_arpsj settings (ar_index 0 c) (ar_index 0 csj)]"

definition dsm_min2_vtr_movji :: "u16 \<Rightarrow> u16 \<Rightarrow> u16 \<Rightarrow> u16 \<Rightarrow> u16 \<Rightarrow> dsm" where [dsm_defs]:
  "dsm_min2_vtr_movji a b c csi csj settings =
     D [''min h||l'', text_reg (Ax a), text_reg (Bx b), ''||vtrshr'', ''||mov^hjli'', text_reg (Ax a),
        mem_arpsi settings (ar_index 0 c) (ar_index 0 csi),
        mem_arpsj settings (ar_index 0 c) (ar_index 0 csj)]"

definition dsm_mov_sv_app :: "u16 \<Rightarrow> nat \<Rightarrow> u16 \<Rightarrow> sum_base \<Rightarrow> bool \<Rightarrow> bool \<Rightarrow> bool \<Rightarrow> bool \<Rightarrow> dsm" where [dsm_defs]:
  "dsm_mov_sv_app a as b base sub_p0 p0_align sub_p1 p1_align settings =
     D [''mov'', mem_ars settings (ar_index 0 a) as, ''sv'',
        text_sum base sub_p0 p0_align sub_p1 p1_align, text_reg (Bx b)]"

definition dsm_cbs_axh :: "u16 \<Rightarrow> u16 \<Rightarrow> dsm" where [dsm_defs]:
  "dsm_cbs_axh a c settings =
     D [''cbs'', text_reg (Axh a), ''r0'', text_cbs_cond (CbsCond c)]"

definition dsm_cbs_axh_bxh :: "u16 \<Rightarrow> u16 \<Rightarrow> u16 \<Rightarrow> dsm" where [dsm_defs]:
  "dsm_cbs_axh_bxh a b c settings =
     D [''cbs'', text_reg (Axh a), text_reg (Bxh b), ''r0'', text_cbs_cond (CbsCond c)]"

definition dsm_cbs_arp :: "u16 \<Rightarrow> u16 \<Rightarrow> u16 \<Rightarrow> u16 \<Rightarrow> dsm" where [dsm_defs]:
  "dsm_cbs_arp a asi asj c settings =
     D [''cbs'', mem_arpsi settings (ar_index 0 a) (ar_index 0 asi),
        mem_arpsj settings (ar_index 0 a) (ar_index 0 asj), text_cbs_cond (CbsCond c)]"

definition dsm_mma_swapped :: "reg_name \<Rightarrow> bool \<Rightarrow> bool \<Rightarrow> bool \<Rightarrow> bool \<Rightarrow> sum_base \<Rightarrow> bool \<Rightarrow> bool \<Rightarrow> bool \<Rightarrow> bool \<Rightarrow> dsm" where [dsm_defs]:
  "dsm_mma_swapped a x0_sign y0_sign x1_sign y1_sign base sub_p0 p0_align sub_p1 p1_align settings =
     D [''x0<->x1'', text_sum base sub_p0 p0_align sub_p1 p1_align, text_reg a,
        text_mul_signs x0_sign y0_sign, text_mul_signs x1_sign y1_sign]"

definition dsm_mma_arp :: "u16 \<Rightarrow> u16 \<Rightarrow> u16 \<Rightarrow> bool \<Rightarrow> bool \<Rightarrow> reg_name \<Rightarrow> bool \<Rightarrow> bool \<Rightarrow> bool \<Rightarrow> bool \<Rightarrow> sum_base \<Rightarrow> bool \<Rightarrow> bool \<Rightarrow> bool \<Rightarrow> bool \<Rightarrow> dsm" where [dsm_defs]:
  "dsm_mma_arp xy i j dmodi dmodj a x0_sign y0_sign x1_sign y1_sign base sub_p0 p0_align sub_p1 p1_align settings =
     D [''xy<-'', mem_arpsi settings (ar_index 0 xy) (ar_index 0 i),
        mem_arpsj settings (ar_index 0 xy) (ar_index 0 j),
        text_sum base sub_p0 p0_align sub_p1 p1_align, text_reg a,
        text_mul_signs x0_sign y0_sign, text_mul_signs x1_sign y1_sign,
        (if dmodi then ''dmodi'' else []), (if dmodj then ''dmodj'' else [])]"

definition dsm_mma_mx_xy :: "u16 \<Rightarrow> u16 \<Rightarrow> reg_name \<Rightarrow> bool \<Rightarrow> bool \<Rightarrow> bool \<Rightarrow> bool \<Rightarrow> sum_base \<Rightarrow> bool \<Rightarrow> bool \<Rightarrow> bool \<Rightarrow> bool \<Rightarrow> dsm" where [dsm_defs]:
  "dsm_mma_mx_xy y ys a x0_sign y0_sign x1_sign y1_sign base sub_p0 p0_align sub_p1 p1_align settings =
     D [''x0<->x1, y0<-'', mem_ars settings (ar_index 0 y) (ar_index 0 ys),
        text_sum base sub_p0 p0_align sub_p1 p1_align, text_reg a,
        text_mul_signs x0_sign y0_sign, text_mul_signs x1_sign y1_sign]"

definition dsm_mma_xy_mx :: "u16 \<Rightarrow> u16 \<Rightarrow> reg_name \<Rightarrow> bool \<Rightarrow> bool \<Rightarrow> bool \<Rightarrow> bool \<Rightarrow> sum_base \<Rightarrow> bool \<Rightarrow> bool \<Rightarrow> bool \<Rightarrow> bool \<Rightarrow> dsm" where [dsm_defs]:
  "dsm_mma_xy_mx y ys a x0_sign y0_sign x1_sign y1_sign base sub_p0 p0_align sub_p1 p1_align settings =
     D [''x0<->x1, y1<-'', mem_ars settings (ar_index 0 y) (ar_index 0 ys),
        text_sum base sub_p0 p0_align sub_p1 p1_align, text_reg a,
        text_mul_signs x0_sign y0_sign, text_mul_signs x1_sign y1_sign]"

definition dsm_mma_my_my :: "u16 \<Rightarrow> u16 \<Rightarrow> reg_name \<Rightarrow> bool \<Rightarrow> bool \<Rightarrow> bool \<Rightarrow> bool \<Rightarrow> sum_base \<Rightarrow> bool \<Rightarrow> bool \<Rightarrow> bool \<Rightarrow> bool \<Rightarrow> dsm" where [dsm_defs]:
  "dsm_mma_my_my x xs a x0_sign y0_sign x1_sign y1_sign base sub_p0 p0_align sub_p1 p1_align settings =
     D [''x<-'', mem_ars settings (ar_index 0 x) (ar_index 0 xs),
        text_sum base sub_p0 p0_align sub_p1 p1_align, text_reg a,
        text_mul_signs x0_sign y0_sign, text_mul_signs x1_sign y1_sign]"

definition dsm_mma_mov_axh :: "u16 \<Rightarrow> u16 \<Rightarrow> u16 \<Rightarrow> u16 \<Rightarrow> reg_name \<Rightarrow> bool \<Rightarrow> bool \<Rightarrow> bool \<Rightarrow> bool \<Rightarrow> sum_base \<Rightarrow> bool \<Rightarrow> bool \<Rightarrow> bool \<Rightarrow> bool \<Rightarrow> dsm" where [dsm_defs]:
  "dsm_mma_mov_axh u v w ws a x0_sign y0_sign x1_sign y1_sign base sub_p0 p0_align sub_p1 p1_align settings =
     D [''mov'', text_reg (Axh u), text_reg (Bxh v), mem_ars settings (ar_index 0 w) (ar_index 0 ws),
        ''x0<->x1'', text_sum base sub_p0 p0_align sub_p1 p1_align, text_reg a,
        text_mul_signs x0_sign y0_sign, text_mul_signs x1_sign y1_sign]"

definition dsm_mma_mov_ar :: "u16 \<Rightarrow> u16 \<Rightarrow> reg_name \<Rightarrow> bool \<Rightarrow> bool \<Rightarrow> bool \<Rightarrow> bool \<Rightarrow> sum_base \<Rightarrow> bool \<Rightarrow> bool \<Rightarrow> bool \<Rightarrow> bool \<Rightarrow> dsm" where [dsm_defs]:
  "dsm_mma_mov_ar w ws a x0_sign y0_sign x1_sign y1_sign base sub_p0 p0_align sub_p1 p1_align settings =
     D [''mov,^'', text_reg a, mem_ars settings (ar_index 0 w) (ar_index 0 ws), ''x0<->x1'',
        text_sum base sub_p0 p0_align sub_p1 p1_align, text_reg a,
        text_mul_signs x0_sign y0_sign, text_mul_signs x1_sign y1_sign]"

definition dsm_addhp :: "u16 \<Rightarrow> u16 \<Rightarrow> u16 \<Rightarrow> u16 \<Rightarrow> dsm" where [dsm_defs]:
  "dsm_addhp a as b c settings =
     D [''addhp'', mem_ars settings (ar_index 0 a) (ar_index 0 as), text_px b, text_reg (Ax c)]"

definition dsm_mov_ext0 :: "u16 \<Rightarrow> dsm" where [dsm_defs]:
  "dsm_mov_ext0 a settings =
     D [''mov'', text_imms 8 a, ''ext0'']"

definition dsm_mov_ext1 :: "u16 \<Rightarrow> dsm" where [dsm_defs]:
  "dsm_mov_ext1 a settings =
     D [''mov'', text_imms 8 a, ''ext1'']"

definition dsm_mov_ext2 :: "u16 \<Rightarrow> dsm" where [dsm_defs]:
  "dsm_mov_ext2 a settings =
     D [''mov'', text_imms 8 a, ''ext2'']"

definition dsm_mov_ext3 :: "u16 \<Rightarrow> dsm" where [dsm_defs]:
  "dsm_mov_ext3 a settings =
     D [''mov'', text_imms 8 a, ''ext3'']"

end
