(* ===== verification/Disassembler.thy ===== *)
theory Disassembler
  imports Disasm_Arithmetic Disasm_Control Disasm_Moves Disasm_Pairs Decoding
begin

unbundle bit_operations_syntax

text \<open>
  src/src/decoder.h with the disassembler of src/src/disassembler.cpp as its visitor, and the
  functions of include/teakra/disassembler.h. The table is the interpreter's, entry by
  entry, with the handlers of the other visitor.
\<close>

section \<open>The instruction table\<close>

definition dsm_misc_table :: "dsm matcher list" where
  "dsm_misc_table = [
     inst 0x0000 [] (\<lambda>x. dsm_nop),
     inst 0x94C0 [At 1 8, At 3 0, At 2 3] (\<lambda>x. dsm_norm (x 0) (x 1) (x 2)),
     inst 0x4980 [At 4 0] (\<lambda>x. dsm_swap_accs (x 0)),
     inst 0x0020 [] (\<lambda>x. dsm_trap)]"

definition dsm_alm_table :: "dsm matcher list" where
  "dsm_alm_table = [
     inst 0xA000 [At 4 9, At 8 0, At 1 8] (\<lambda>x. dsm_alm_mem_imm8 (x 0) (x 1) (x 2)),
     inst 0x8080 [At 4 9, At 3 0, At 2 3, At 1 8] (\<lambda>x. dsm_alm_rn (x 0) (x 1) (x 2) (x 3)),
     inst 0x80A0 [At 4 9, At 5 0, At 1 8] (\<lambda>x. dsm_alm_register (x 0) (x 1) (x 2)),
     inst 0xD388 [Const 0, At 1 4] (\<lambda>x. dsm_alm_r6 (x 0) (x 1)),
     inst 0xD389 [Const 1, At 1 4] (\<lambda>x. dsm_alm_r6 (x 0) (x 1)),
     inst 0xD38A [Const 2, At 1 4] (\<lambda>x. dsm_alm_r6 (x 0) (x 1)),
     inst 0xD38B [Const 3, At 1 4] (\<lambda>x. dsm_alm_r6 (x 0) (x 1)),
     inst 0xD38C [Const 4, At 1 4] (\<lambda>x. dsm_alm_r6 (x 0) (x 1)),
     inst 0xD38D [Const 5, At 1 4] (\<lambda>x. dsm_alm_r6 (x 0) (x 1)),
     inst 0xD38E [Const 6, At 1 4] (\<lambda>x. dsm_alm_r6 (x 0) (x 1)),
     inst 0xD38F [Const 7, At 1 4] (\<lambda>x. dsm_alm_r6 (x 0) (x 1)),
     inst 0x9462 [Const 8, At 1 0] (\<lambda>x. dsm_alm_r6 (x 0) (x 1)),
     inst 0x9464 [Const 9, At 1 0] (\<lambda>x. dsm_alm_r6 (x 0) (x 1)),
     inst 0x9466 [Const 10, At 1 0] (\<lambda>x. dsm_alm_r6 (x 0) (x 1)),
     inst 0x5E23 [Const 11, At 1 8] (\<lambda>x. dsm_alm_r6 (x 0) (x 1)),
     inst 0x5E22 [Const 12, At 1 8] (\<lambda>x. dsm_alm_r6 (x 0) (x 1)),
     inst 0x5F41 [Const 13, Const 0] (\<lambda>x. dsm_alm_r6 (x 0) (x 1)),
     inst 0x9062 [Const 14, At 1 8, Unused 0] (\<lambda>x. dsm_alm_r6 (x 0) (x 1)),
     inst 0x8A63 [Const 15, At 1 3] (\<lambda>x. dsm_alm_r6 (x 0) (x 1))]"

definition dsm_alu_table :: "dsm matcher list" where
  "dsm_alu_table = [
     except_const 3 0 5 (except_const 3 0 4 (inst 0xD4F8 [At 3 0, At 16 16, At 1 8]
       (\<lambda>x. dsm_alu_mem_imm16 (x 0) (x 1) (x 2)))),
     except_const 3 0 5 (except_const 3 0 4 (inst 0xD4D8 [At 3 0, At 16 16, At 1 8]
       (\<lambda>x. dsm_alu_mem_r7_imm16 (x 0) (x 1) (x 2)))),
     except_const 3 9 5 (except_const 3 9 4 (inst 0x80C0 [At 3 9, At 16 16, At 1 8]
       (\<lambda>x. dsm_alu_imm16 (x 0) (x 1) (x 2)))),
     except_const 3 9 5 (except_const 3 9 4 (inst 0xC000 [At 3 9, At 8 0, At 1 8]
       (\<lambda>x. dsm_alu_imm8 (x 0) (x 1) (x 2)))),
     except_const 3 9 5 (except_const 3 9 4 (inst 0x4000 [At 3 9, At 7 0, At 1 8]
       (\<lambda>x. dsm_alu_mem_r7_imm7s (x 0) (x 1) (x 2))))]"

definition dsm_or_table :: "dsm matcher list" where
  "dsm_or_table = [
     inst 0xD291 [At 2 10, At 1 6, At 1 5] (\<lambda>x. dsm_or_ab_ax (x 0) (x 1) (x 2)),
     inst 0xD4A4 [At 1 8, At 1 1, At 1 0] (\<lambda>x. dsm_or_ax_bx (x 0) (x 1) (x 2)),
     inst 0xD3C4 [At 1 10, At 1 1, At 1 0] (\<lambda>x. dsm_or_bx_bx (x 0) (x 1) (x 2))]"

definition dsm_alb_table :: "dsm matcher list" where
  "dsm_alb_table = [
     inst 0xE100 [At 3 9, At 16 16, At 8 0] (\<lambda>x. dsm_alb_mem_imm8 (x 0) (x 1) (x 2)),
     inst 0x80E0 [At 3 9, At 16 16, At 3 0, At 2 3] (\<lambda>x. dsm_alb_rn (x 0) (x 1) (x 2) (x 3)),
     inst 0x81E0 [At 3 9, At 16 16, At 5 0] (\<lambda>x. dsm_alb_register (x 0) (x 1) (x 2)),
     inst 0x47B8 [At 3 0, At 16 16] (\<lambda>x. dsm_alb_r6 (x 0) (x 1)),
     inst 0x43C8 [Const 0, At 16 16, At 3 0] (\<lambda>x. dsm_alb_stt_mod (x 0) (x 1) (x 2)),
     inst 0x4388 [Const 1, At 16 16, At 3 0] (\<lambda>x. dsm_alb_stt_mod (x 0) (x 1) (x 2)),
     inst 0x0038 [Const 2, At 16 16, At 3 0] (\<lambda>x. dsm_alb_stt_mod (x 0) (x 1) (x 2)),
     inst 0x9470 [Const 4, At 16 16, At 3 0] (\<lambda>x. dsm_alb_stt_mod (x 0) (x 1) (x 2)),
     inst 0x9478 [Const 5, At 16 16, At 3 0] (\<lambda>x. dsm_alb_stt_mod (x 0) (x 1) (x 2))]"

definition dsm_add_table :: "dsm matcher list" where
  "dsm_add_table = [
     inst 0xD2DA [At 2 10, At 1 0] (\<lambda>x. dsm_add_ab_bx (x 0) (x 1)),
     inst 0x5DF0 [At 1 1, At 1 0] (\<lambda>x. dsm_add_bx_ax (x 0) (x 1)),
     inst 0xD782 [At 1 0] (\<lambda>x. dsm_add_p1 (x 0)),
     inst 0x5DF8 [At 1 1, At 1 0] (\<lambda>x. dsm_add_px_bx (x 0) (x 1)),
     inst 0x8A61 [At 2 3, At 1 8] (\<lambda>x. dsm_sub_ab_bx (x 0) (x 1)),
     inst 0x8861 [At 1 4, At 1 3] (\<lambda>x. dsm_sub_bx_ax (x 0) (x 1)),
     inst 0xD4B9 [At 1 8] (\<lambda>x. dsm_sub_p1_acc (x 0)),
     inst 0x8FD0 [At 1 1, At 1 0] (\<lambda>x. dsm_sub_px_bx (x 0) (x 1)),
     inst 0x5DC0 [At 2 2] (\<lambda>x. dsm_app (x 0) Sum_Zero False False False False),
     inst 0x5DC1 [At 2 2] (\<lambda>x. dsm_app (x 0) Sum_Zero False False False True),
     inst 0x4590 [At 2 2] (\<lambda>x. dsm_app (x 0) Sum_Acc False False False False),
     inst 0x4592 [At 2 2] (\<lambda>x. dsm_app (x 0) Sum_Acc False False False True),
     inst 0x4593 [At 2 2] (\<lambda>x. dsm_app (x 0) Sum_Acc False True False True),
     inst 0x5DC2 [At 2 2] (\<lambda>x. dsm_app (x 0) Sum_Zero False False True False),
     inst 0x5DC3 [At 2 2] (\<lambda>x. dsm_app (x 0) Sum_Zero False False True True),
     inst 0x80C6 [At 2 10] (\<lambda>x. dsm_app (x 0) Sum_Acc True False True False),
     inst 0x82C6 [At 2 10] (\<lambda>x. dsm_app (x 0) Sum_Acc True False True True),
     inst 0x83C6 [At 2 10] (\<lambda>x. dsm_app (x 0) Sum_Acc True True True True),
     inst 0x906C [At 2 0] (\<lambda>x. dsm_app (x 0) Sum_Acc False False True False),
     inst 0x49C2 [At 2 4] (\<lambda>x. dsm_app (x 0) Sum_Acc True False False False),
     inst 0x916C [At 2 0] (\<lambda>x. dsm_app (x 0) Sum_Acc False False True True),
     inst 0x49C3 [At 2 4] (\<lambda>x. dsm_app (x 0) Sum_Acc True False False True),
     inst 0x6F80 [At 1 2, At 1 0, At 1 1, At 2 3] (\<lambda>x. dsm_add_add (x 0) (x 1) (x 2) (x 3)),
     inst 0x6FA0 [At 1 2, At 1 0, At 1 1, At 2 3]
       (\<lambda>x. dsm_add_sub_pairs (x 0) (x 1) (x 2) (x 3)),
     inst 0x6FC0 [At 1 2, At 1 0, At 1 1, At 2 3] (\<lambda>x. dsm_sub_add (x 0) (x 1) (x 2) (x 3)),
     inst 0x6FE0 [At 1 2, At 1 0, At 1 1, At 2 3] (\<lambda>x. dsm_sub_sub (x 0) (x 1) (x 2) (x 3)),
     inst 0x5DB0 [At 1 1, At 1 0, At 2 2] (\<lambda>x. dsm_add_sub_sv (x 0) (x 1) (x 2)),
     inst 0x5DE0 [At 1 1, At 1 0, At 2 2] (\<lambda>x. dsm_sub_add_sv (x 0) (x 1) (x 2)),
     inst 0x8064 [At 1 8, At 1 0, At 1 1, At 2 3]
       (\<lambda>x. dsm_sub_add_i_mov_j_sv (x 0) (x 1) (x 2) (x 3)),
     inst 0x5D80 [At 1 2, At 1 0, At 1 1, At 2 3]
       (\<lambda>x. dsm_sub_add_j_mov_i_sv (x 0) (x 1) (x 2) (x 3)),
     inst 0x9070 [At 1 8, At 1 0, At 1 1, At 2 2]
       (\<lambda>x. dsm_add_sub_i_mov_j (x 0) (x 1) (x 2) (x 3)),
     inst 0x5E30 [At 1 8, At 1 0, At 1 1, At 2 2]
       (\<lambda>x. dsm_add_sub_j_mov_i (x 0) (x 1) (x 2) (x 3))]"

definition dsm_mul_table :: "dsm matcher list" where
  "dsm_mul_table = [
     inst 0x8000 [At 3 8, At 3 0, At 2 3, At 16 16, At 1 11]
       (\<lambda>x. dsm_mul_rn_imm16 (x 0) (x 1) (x 2) (x 3) (x 4)),
     inst 0x8020 [At 3 8, At 3 0, At 2 3, At 1 11] (\<lambda>x. dsm_mul_y0_rn (x 0) (x 1) (x 2) (x 3)),
     inst 0x8040 [At 3 8, At 5 0, At 1 11] (\<lambda>x. dsm_mul_y0_register (x 0) (x 1) (x 2)),
     inst 0xD000 [At 3 8, At 1 2, At 2 5, At 2 0, At 2 3, At 1 11]
       (\<lambda>x. dsm_mul_r45_r0123 (x 0) (x 1) (x 2) (x 3) (x 4) (x 5)),
     inst 0x5EA0 [At 3 1, At 1 0] (\<lambda>x. dsm_mul_y0_r6 (x 0) (x 1)),
     inst 0xE000 [At 2 9, At 8 0, At 1 11] (\<lambda>x. dsm_mul_y0_mem_imm8 (x 0) (x 1) (x 2)),
     inst 0x0800 [At 8 0] (\<lambda>x. dsm_mpyi (x 0)),
     inst 0xD080 [At 1 2, At 2 5, At 2 0, At 2 3, At 1 8]
       (\<lambda>x. dsm_msu_r45_r0123 (x 0) (x 1) (x 2) (x 3) (x 4)),
     inst 0x90C0 [At 3 0, At 2 3, At 16 16, At 1 8]
       (\<lambda>x. dsm_msu_rn_imm16 (x 0) (x 1) (x 2) (x 3)),
     inst 0x8264 [At 2 3, At 2 0, At 1 8] (\<lambda>x. dsm_msusu (x 0) (x 1) (x 2)),
     inst 0x4D84 [At 1 1, Unused 0] (\<lambda>x. dsm_mac_x1to0 (x 0)),
     inst 0x5E28 [At 1 2, At 1 0, At 1 1, At 1 8] (\<lambda>x. dsm_mac1 (x 0) (x 1) (x 2) (x 3))]"

definition dsm_moda_table :: "dsm matcher list" where
  "dsm_moda_table = [
     except_const 4 4 7 (inst 0x6700 [At 4 4, At 1 12, At 4 0]
       (\<lambda>x. dsm_moda4 (x 0) (x 1) (x 2))),
     inst 0x6F00 [At 3 4, At 1 12, At 4 0] (\<lambda>x. dsm_moda3 (x 0) (x 1) (x 2)),
     inst 0xD7C2 [At 1 0] (\<lambda>x. dsm_pacr1 (x 0)),
     inst 0x8ED0 [At 2 2, At 2 0] (\<lambda>x. dsm_clr (x 0) (x 1)),
     inst 0x8DD0 [At 2 2, At 2 0] (\<lambda>x. dsm_clrr (x 0) (x 1))]"

definition dsm_bkrep_table :: "dsm matcher list" where
  "dsm_bkrep_table = [
     inst 0x5C00 [At 8 0, At 16 16] (\<lambda>x. dsm_bkrep_imm8 (x 0) (x 1)),
     inst 0x5D00 [At 5 0, At 16 16, At 2 5] (\<lambda>x. dsm_bkrep_register (x 0) (x 1) (x 2)),
     inst 0x8FDC [At 16 16, At 2 0] (\<lambda>x. dsm_bkrep_r6 (x 0) (x 1)),
     inst 0xDA9C [At 2 0] (\<lambda>x. dsm_bkreprst (x 0)),
     inst 0x5F48 [Unused 0, Unused 1] (\<lambda>x. dsm_bkreprst_memsp),
     inst 0xDADC [At 2 0, Unused 10] (\<lambda>x. dsm_bkrepsto (x 0)),
     inst 0x9468 [Unused 0, Unused 1, Unused 2] (\<lambda>x. dsm_bkrepsto_memsp)]"

definition dsm_bank_table :: "dsm matcher list" where
  "dsm_bank_table = [
     inst 0x4B80 [At 6 0] (\<lambda>x. dsm_banke (x 0)),
     inst 0x8CDF [] (\<lambda>x. dsm_bankr),
     inst 0x8CDC [At 1 0] (\<lambda>x. dsm_bankr_ar (x 0)),
     inst 0x8CD0 [At 1 2, At 2 0] (\<lambda>x. dsm_bankr_ar_arp (x 0) (x 1)),
     inst 0x8CD8 [At 2 0] (\<lambda>x. dsm_bankr_arp (x 0)),
     inst 0x5EB8 [At 3 0] (\<lambda>x. dsm_bitrev (x 0)),
     inst 0xD7E8 [At 3 0] (\<lambda>x. dsm_bitrev_dbrv (x 0)),
     inst 0xD7E0 [At 3 0] (\<lambda>x. dsm_bitrev_ebrv (x 0))]"

definition dsm_branch_table :: "dsm matcher list" where
  "dsm_branch_table = [
     inst 0x4180 [At 16 16, At 2 4, At 4 0] (\<lambda>x. dsm_br (x 0) (x 1) (x 2)),
     inst 0x5000 [At 7 4, At 4 0] (\<lambda>x. dsm_brr (x 0) (x 1)),
     inst 0xD3C0 [] (\<lambda>x. dsm_break_instr),
     inst 0x41C0 [At 16 16, At 2 4, At 4 0] (\<lambda>x. dsm_call (x 0) (x 1) (x 2)),
     inst 0xD480 [At 1 8] (\<lambda>x. dsm_calla_axl (x 0)),
     inst 0xD381 [At 1 4] (\<lambda>x. dsm_calla_ax (x 0)),
     inst 0x1000 [At 7 4, At 4 0] (\<lambda>x. dsm_callr (x 0) (x 1)),
     inst 0xD380 [] (\<lambda>x. dsm_cntx_s),
     inst 0xD390 [] (\<lambda>x. dsm_cntx_r),
     inst 0x4580 [At 4 0] (\<lambda>x. dsm_ret (x 0)),
     inst 0xD780 [] (\<lambda>x. dsm_retd),
     inst 0x45C0 [At 4 0] (\<lambda>x. dsm_reti (x 0)),
     inst 0x45D0 [At 4 0] (\<lambda>x. dsm_retic (x 0)),
     inst 0xD7C0 [] (\<lambda>x. dsm_retid),
     inst 0xD3C3 [] (\<lambda>x. dsm_retidc),
     inst 0x0900 [At 8 0] (\<lambda>x. dsm_rets (x 0))]"

definition dsm_load_table :: "dsm matcher list" where
  "dsm_load_table = [
     inst 0x4D80 [At 2 0] (\<lambda>x. dsm_load_ps (x 0)),
     inst 0xDB80 [At 7 0] (\<lambda>x. dsm_load_stepi (x 0)),
     inst 0xDF80 [At 7 0] (\<lambda>x. dsm_load_stepj (x 0)),
     inst 0x0400 [At 8 0] (\<lambda>x. dsm_load_page (x 0)),
     inst 0x0200 [At 9 0] (\<lambda>x. dsm_load_modi (x 0)),
     inst 0x0A00 [At 9 0] (\<lambda>x. dsm_load_modj (x 0)),
     inst 0xD7D8 [At 2 1, Unused 0] (\<lambda>x. dsm_load_movpd (x 0)),
     inst 0x0010 [At 4 0] (\<lambda>x. dsm_load_ps01 (x 0))]"

definition dsm_stack_table :: "dsm matcher list" where
  "dsm_stack_table = [
     inst 0x5F40 [At 16 16] (\<lambda>x. dsm_push_imm16 (x 0)),
     inst 0x5E40 [At 5 0] (\<lambda>x. dsm_push_register (x 0)),
     inst 0xD7C8 [At 2 1, Unused 0] (\<lambda>x. dsm_push_abe (x 0)),
     inst 0xD3D0 [At 4 0] (\<lambda>x. dsm_push_ar_arp_stt_mod (x 0)),
     inst 0xD7FC [Unused 0, Unused 1] (\<lambda>x. dsm_push_prpage),
     inst 0xD78C [At 1 1, Unused 0] (\<lambda>x. dsm_push_px (x 0)),
     inst 0xD4D7 [Unused 5] (\<lambda>x. dsm_push_r6),
     inst 0xD7F8 [Unused 0, Unused 1] (\<lambda>x. dsm_push_repc),
     inst 0xD4D4 [Unused 5] (\<lambda>x. dsm_push_x0),
     inst 0xD4D5 [Unused 5] (\<lambda>x. dsm_push_x1),
     inst 0xD4D6 [Unused 5] (\<lambda>x. dsm_push_y1),
     inst 0x4384 [At 1 6, Unused 0, Unused 1] (\<lambda>x. dsm_pusha_ax (x 0)),
     inst 0xD788 [At 1 1, Unused 0] (\<lambda>x. dsm_pusha_bx (x 0)),
     inst 0x5E60 [At 5 0] (\<lambda>x. dsm_pop_register (x 0)),
     inst 0x47B4 [At 2 0] (\<lambda>x. dsm_pop_abe (x 0)),
     inst 0x80C7 [At 4 8] (\<lambda>x. dsm_pop_ar_arp_stt_mod (x 0)),
     inst 0x0006 [At 1 5, Unused 0] (\<lambda>x. dsm_pop_bx (x 0)),
     inst 0xD7F4 [Unused 0, Unused 1] (\<lambda>x. dsm_pop_prpage),
     inst 0xD496 [At 1 0] (\<lambda>x. dsm_pop_px (x 0)),
     inst 0x0024 [Unused 0] (\<lambda>x. dsm_pop_r6),
     inst 0xD7F0 [Unused 0, Unused 1] (\<lambda>x. dsm_pop_repc),
     inst 0xD494 [] (\<lambda>x. dsm_pop_x0),
     inst 0xD495 [] (\<lambda>x. dsm_pop_x1),
     inst 0x0004 [Unused 0] (\<lambda>x. dsm_pop_y1),
     inst 0x47B0 [At 2 0] (\<lambda>x. dsm_popa (x 0))]"

definition dsm_shift_table :: "dsm matcher list" where
  "dsm_shift_table = [
     inst 0x0C00 [At 8 0] (\<lambda>x. dsm_rep_imm8 (x 0)),
     inst 0x0D00 [At 5 0] (\<lambda>x. dsm_rep_register (x 0)),
     inst 0x0002 [Unused 0] (\<lambda>x. dsm_rep_r6),
     inst 0xD280 [At 2 10, At 2 5, At 4 0] (\<lambda>x. dsm_shfc (x 0) (x 1) (x 2)),
     inst 0x9240 [At 2 10, At 2 7, At 6 0] (\<lambda>x. dsm_shfi (x 0) (x 1) (x 2))]"

definition dsm_bit_test_table :: "dsm matcher list" where
  "dsm_bit_test_table = [
     inst 0x80C1 [At 2 10, At 2 8] (\<lambda>x. dsm_tst4b (x 0) (x 1)),
     inst 0x4780 [At 2 2, At 2 0, At 1 4] (\<lambda>x. dsm_tst4b_ax (x 0) (x 1) (x 2)),
     inst 0xF000 [At 8 0, At 4 8] (\<lambda>x. dsm_tstb_mem_imm8 (x 0) (x 1)),
     inst 0x9020 [At 3 0, At 2 3, At 4 8] (\<lambda>x. dsm_tstb_rn (x 0) (x 1) (x 2)),
     except_const 5 0 24 (inst 0x9000 [At 5 0, At 4 8] (\<lambda>x. dsm_tstb_register (x 0) (x 1))),
     inst 0x9018 [At 4 8] (\<lambda>x. dsm_tstb_r6 (x 0)),
     inst 0x0028 [At 3 0, At 16 16] (\<lambda>x. dsm_tstb_stt_mod (x 0) (x 1)),
     inst 0x6770 [At 2 2, At 2 0, At 1 12] (\<lambda>x. dsm_and_acc (x 0) (x 1) (x 2)),
     inst 0x43C0 [] (\<lambda>x. dsm_dint),
     inst 0x4380 [] (\<lambda>x. dsm_eint)]"

definition dsm_modr_table :: "dsm matcher list" where
  "dsm_modr_table = [
     inst 0x9460 [At 1 0] (\<lambda>x. dsm_exp_bx (x 0)),
     inst 0x9060 [At 1 0, At 1 8] (\<lambda>x. dsm_exp_bx_ax (x 0) (x 1)),
     inst 0x9C40 [At 3 0, At 2 3] (\<lambda>x. dsm_exp_rn (x 0) (x 1)),
     inst 0x9840 [At 3 0, At 2 3, At 1 8] (\<lambda>x. dsm_exp_rn_ax (x 0) (x 1) (x 2)),
     inst 0x9440 [At 5 0] (\<lambda>x. dsm_exp_register (x 0)),
     inst 0x9040 [At 5 0, At 1 8] (\<lambda>x. dsm_exp_register_ax (x 0) (x 1)),
     inst 0xD7C1 [] (\<lambda>x. dsm_exp_r6),
     inst 0xD382 [At 1 4] (\<lambda>x. dsm_exp_r6_ax (x 0)),
     inst 0x0080 [At 3 0, At 2 3] (\<lambda>x. dsm_modr (x 0) (x 1)),
     inst 0x00A0 [At 3 0, At 2 3] (\<lambda>x. dsm_modr_dmod (x 0) (x 1)),
     inst 0x4990 [At 3 0] (\<lambda>x. dsm_modr_i2 (x 0)),
     inst 0x4998 [At 3 0] (\<lambda>x. dsm_modr_i2_dmod (x 0)),
     inst 0x5DA0 [At 3 0] (\<lambda>x. dsm_modr_d2 (x 0)),
     inst 0x5DA8 [At 3 0] (\<lambda>x. dsm_modr_d2_dmod (x 0)),
     inst 0xD294 [At 2 10, At 2 0, At 2 5] (\<lambda>x. dsm_modr_eemod (x 0) (x 1) (x 2)),
     inst 0x0D80 [At 2 5, At 2 1, At 2 3] (\<lambda>x. dsm_modr_edmod (x 0) (x 1) (x 2)),
     inst 0x8464 [At 2 8, At 2 0, At 2 3] (\<lambda>x. dsm_modr_demod (x 0) (x 1) (x 2)),
     inst 0x0D81 [At 2 5, At 2 1, At 2 3] (\<lambda>x. dsm_modr_ddmod (x 0) (x 1) (x 2))]"

definition dsm_mov_table :: "dsm matcher list" where
  "dsm_mov_table = [
     inst 0xD290 [At 2 10, At 2 5] (\<lambda>x. dsm_mov_ab_ab (x 0) (x 1)),
     inst 0xD298 [At 2 10] (\<lambda>x. dsm_mov_dvm (x 0)),
     inst 0xD2D8 [At 2 10] (\<lambda>x. dsm_mov_x0 (x 0)),
     inst 0xD394 [At 2 0] (\<lambda>x. dsm_mov_x1 (x 0)),
     inst 0xD384 [At 2 0] (\<lambda>x. dsm_mov_y1 (x 0)),
     inst 0x3000 [At 3 9, At 8 0] (\<lambda>x. dsm_mov_ablh_mem_imm8 (x 0) (x 1)),
     inst 0xD4BC [At 1 8, At 16 16] (\<lambda>x. dsm_mov_axl_mem_imm16 (x 0) (x 1)),
     inst 0xD49C [At 1 8, At 16 16] (\<lambda>x. dsm_mov_axl_mem_r7_imm16 (x 0) (x 1)),
     inst 0xDC80 [At 1 8, At 7 0] (\<lambda>x. dsm_mov_axl_mem_r7_imm7s (x 0) (x 1)),
     inst 0xD4B8 [At 16 16, At 1 8] (\<lambda>x. dsm_mov_mem_imm16_ax (x 0) (x 1)),
     inst 0x6100 [At 8 0, At 2 11] (\<lambda>x. dsm_mov_mem_imm8_ab (x 0) (x 1)),
     inst 0x6200 [At 8 0, At 3 10] (\<lambda>x. dsm_mov_mem_imm8_ablh (x 0) (x 1)),
     inst 0x6500 [At 8 0, At 1 12] (\<lambda>x. dsm_mov_eu (x 0) (x 1)),
     inst 0x6000 [At 8 0, At 3 10] (\<lambda>x. dsm_mov_mem_imm8_rn_old (x 0) (x 1)),
     inst 0x6D00 [At 8 0] (\<lambda>x. dsm_mov_sv_mem_imm8 (x 0)),
     inst 0xD491 [At 2 5] (\<lambda>x. dsm_mov_dvm_to (x 0)),
     inst 0xD492 [At 2 5] (\<lambda>x. dsm_mov_icr_to (x 0)),
     inst 0x5E20 [At 16 16, At 1 8] (\<lambda>x. dsm_mov_imm16_bx (x 0) (x 1)),
     inst 0x5E00 [At 16 16, At 5 0] (\<lambda>x. dsm_mov_imm16_register (x 0) (x 1)),
     inst 0x4F80 [At 5 0] (\<lambda>x. dsm_mov_icr_imm5 (x 0)),
     inst 0x2500 [At 8 0, At 1 12] (\<lambda>x. dsm_mov_imm8s_axh (x 0) (x 1)),
     inst 0x2900 [At 8 0] (\<lambda>x. dsm_mov_ext0 (x 0)),
     inst 0x2D00 [At 8 0] (\<lambda>x. dsm_mov_ext1 (x 0)),
     inst 0x3900 [At 8 0] (\<lambda>x. dsm_mov_ext2 (x 0)),
     inst 0x3D00 [At 8 0] (\<lambda>x. dsm_mov_ext3 (x 0)),
     inst 0x2300 [At 8 0, At 3 10] (\<lambda>x. dsm_mov_imm8s_rn_old (x 0) (x 1)),
     inst 0x0500 [At 8 0] (\<lambda>x. dsm_mov_sv_imm8s (x 0)),
     inst 0x2100 [At 8 0, At 1 12] (\<lambda>x. dsm_mov_imm8_axl (x 0) (x 1)),
     inst 0xD498 [At 16 16, At 1 8] (\<lambda>x. dsm_mov_mem_r7_imm16_ax (x 0) (x 1)),
     inst 0xD880 [At 7 0, At 1 8] (\<lambda>x. dsm_mov_mem_r7_imm7s_ax (x 0) (x 1)),
     inst 0x98C0 [At 3 0, At 2 3, At 1 8] (\<lambda>x. dsm_mov_rn_bx (x 0) (x 1) (x 2)),
     inst 0x1C00 [At 3 0, At 2 3, At 5 5] (\<lambda>x. dsm_mov_rn_register (x 0) (x 1) (x 2)),
     inst 0x47E0 [At 5 0] (\<lambda>x. dsm_mov_memsp_to (x 0)),
     inst 0x47C0 [At 5 0] (\<lambda>x. dsm_mov_mixp_to_register (x 0)),
     inst 0x2000 [At 3 9, At 8 0] (\<lambda>x. dsm_mov_rn_old_mem_imm8 (x 0) (x 1)),
     inst 0x4FC0 [At 5 0] (\<lambda>x. dsm_mov_icr_register (x 0)),
     inst 0x5E80 [At 5 0] (\<lambda>x. dsm_mov_mixp_register (x 0)),
     except_const 5 5 25 (except_const 5 5 24 (inst 0x1800 [At 5 5, At 3 0, At 2 3]
       (\<lambda>x. dsm_mov_register_rn (x 0) (x 1) (x 2)))),
     inst 0x5EC0 [At 5 0, At 1 5] (\<lambda>x. dsm_mov_register_bx (x 0) (x 1)),
     except_const 5 0 25 (except_const 5 0 24 (inst 0x5800 [At 5 0, At 5 5]
       (\<lambda>x. dsm_mov_register_register (x 0) (x 1)))),
     inst 0xD490 [At 2 5] (\<lambda>x. dsm_mov_repc_to_ab (x 0)),
     inst 0x7D00 [At 8 0] (\<lambda>x. dsm_mov_sv_to (x 0)),
     inst 0xD493 [At 2 5] (\<lambda>x. dsm_mov_x0_to (x 0)),
     inst 0x49C1 [At 2 4] (\<lambda>x. dsm_mov_x1_to (x 0)),
     inst 0xD299 [At 2 10] (\<lambda>x. dsm_mov_y1_to (x 0)),
     inst 0x0008 [At 16 16, At 3 0] (\<lambda>x. dsm_mov_imm16_ar_arp (x 0) (x 1)),
     inst 0x0023 [At 16 16] (\<lambda>x. dsm_mov_r6_imm16 (x 0)),
     inst 0x0001 [At 16 16] (\<lambda>x. dsm_mov_repc_imm16 (x 0)),
     inst 0x8971 [At 16 16] (\<lambda>x. dsm_mov_stepi0_imm16 (x 0)),
     inst 0x8979 [At 16 16] (\<lambda>x. dsm_mov_stepj0_imm16 (x 0)),
     inst 0x0030 [At 16 16, At 3 0] (\<lambda>x. dsm_mov_imm16_stt_mod (x 0) (x 1)),
     inst 0x5DD0 [At 4 0] (\<lambda>x. dsm_mov_prpage_imm4 (x 0))]"

definition dsm_mov_status_table :: "dsm matcher list" where
  "dsm_mov_status_table = [
     inst 0x5F80 [At 2 0, At 2 3, At 1 2, At 2 5] (\<lambda>x. dsm_movd (x 0) (x 1) (x 2) (x 3)),
     inst 0x0040 [At 1 5, At 5 0] (\<lambda>x. dsm_movp_axl (x 0) (x 1)),
     inst 0x0D40 [At 1 5, At 5 0] (\<lambda>x. dsm_movp_ax (x 0) (x 1)),
     inst 0x0600 [At 3 0, At 2 3, At 2 5, At 2 7] (\<lambda>x. dsm_movp_rn (x 0) (x 1) (x 2) (x 3)),
     inst 0xD499 [At 1 8] (\<lambda>x. dsm_movpdw (x 0)),
     inst 0xD49B [] (\<lambda>x. dsm_mov_a0h_stepi0),
     inst 0xD59B [] (\<lambda>x. dsm_mov_a0h_stepj0),
     inst 0xD482 [] (\<lambda>x. dsm_mov_stepi0_a0h),
     inst 0xD582 [] (\<lambda>x. dsm_mov_stepj0_a0h),
     inst 0x9164 [At 2 0] (\<lambda>x. dsm_mov_prpage_abl (x 0)),
     inst 0x9064 [At 2 0] (\<lambda>x. dsm_mov_repc_abl (x 0)),
     inst 0x9540 [At 2 3, At 3 0] (\<lambda>x. dsm_mov_abl_ar_arp (x 0) (x 1)),
     inst 0x9C60 [At 2 3, At 3 0] (\<lambda>x. dsm_mov_abl_stt_mod (x 0) (x 1)),
     inst 0x5EB0 [At 2 0] (\<lambda>x. dsm_mov_prpage_to_abl (x 0)),
     inst 0xD2D9 [At 2 10] (\<lambda>x. dsm_mov_repc_to_abl (x 0)),
     inst 0x9560 [At 3 0, At 2 3] (\<lambda>x. dsm_mov_ar_arp_abl (x 0) (x 1)),
     inst 0xD2F8 [At 3 0, At 2 10] (\<lambda>x. dsm_mov_stt_mod_abl (x 0) (x 1)),
     inst 0xD7D0 [At 1 1, At 1 0] (\<lambda>x. dsm_mov_repc_to_ar_rn1 (x 0) (x 1)),
     inst 0xD488 [At 3 0, At 1 8, At 1 5] (\<lambda>x. dsm_mov_ar_arp_ar_rn1 (x 0) (x 1) (x 2)),
     inst 0x49A0 [At 3 0, At 1 4, At 1 3] (\<lambda>x. dsm_mov_stt_mod_ar_rn1 (x 0) (x 1) (x 2)),
     inst 0xD7D4 [At 1 1, At 1 0] (\<lambda>x. dsm_mov_repc_ar_rn1 (x 0) (x 1)),
     inst 0x8062 [At 1 4, At 1 3, At 3 8] (\<lambda>x. dsm_mov_ar_rn1_ar_arp (x 0) (x 1) (x 2)),
     inst 0x8063 [At 1 4, At 1 3, At 3 8] (\<lambda>x. dsm_mov_ar_rn1_stt_mod (x 0) (x 1) (x 2)),
     inst 0xD3C8 [At 16 16, Unused 0, Unused 1, Unused 2]
       (\<lambda>x. dsm_mov_repc_to_mem_r7_imm16 (x 0)),
     inst 0x5F50 [At 4 0, At 16 16] (\<lambda>x. dsm_mov_ar_arp_stt_mod_mem_r7_imm16 (x 0) (x 1)),
     inst 0xD2DC [At 16 16, Unused 0, Unused 1, Unused 10]
       (\<lambda>x. dsm_mov_repc_mem_r7_imm16 (x 0)),
     inst 0x4D90 [At 16 16, At 4 0] (\<lambda>x. dsm_mov_mem_r7_imm16_ar_arp_stt_mod (x 0) (x 1)),
     inst 0x886B [At 1 8] (\<lambda>x. dsm_mov_pc_ax (x 0)),
     inst 0x8863 [At 1 8] (\<lambda>x. dsm_mov_pc_bx (x 0)),
     inst 0x8A73 [At 1 3] (\<lambda>x. dsm_mov_mixp_to_bx (x 0)),
     inst 0x4381 [] (\<lambda>x. dsm_mov_mixp_r6),
     inst 0x4382 [At 1 0] (\<lambda>x. dsm_mov_p0h_to_bx (x 0)),
     inst 0xD3C2 [] (\<lambda>x. dsm_mov_p0h_r6),
     inst 0x4B60 [At 5 0] (\<lambda>x. dsm_mov_p0h_to_register (x 0)),
     inst 0x8FD4 [At 2 0] (\<lambda>x. dsm_mov_p0 (x 0)),
     inst 0x8FD8 [At 2 0] (\<lambda>x. dsm_mov_p1_to (x 0)),
     inst 0x88D0 [At 1 1, At 2 8, At 2 2] (\<lambda>x. dsm_mov2_px_ar (x 0) (x 1) (x 2)),
     inst 0x88D1 [At 1 1, At 2 8, At 2 2] (\<lambda>x. dsm_mov2s (x 0) (x 1) (x 2)),
     inst 0xD292 [At 2 10, At 2 5, At 1 0] (\<lambda>x. dsm_mov2_ar_px (x 0) (x 1) (x 2)),
     inst 0x4DC0 [At 2 4, At 2 2, At 2 0] (\<lambda>x. dsm_mova_ab_ar (x 0) (x 1) (x 2)),
     inst 0x4BC0 [At 2 2, At 2 0, At 2 4] (\<lambda>x. dsm_mova_ar_ab (x 0) (x 1) (x 2)),
     inst 0xD481 [At 1 8] (\<lambda>x. dsm_mov_r6_to_bx (x 0)),
     inst 0x43C1 [] (\<lambda>x. dsm_mov_r6_mixp),
     inst 0x5F00 [At 5 0] (\<lambda>x. dsm_mov_r6_to_register (x 0)),
     inst 0x5F60 [At 5 0] (\<lambda>x. dsm_mov_r6_register (x 0)),
     inst 0xD29C [Unused 0, Unused 1, Unused 10] (\<lambda>x. dsm_mov_memsp_r6),
     inst 0x1B00 [At 3 0, At 2 3] (\<lambda>x. dsm_mov_r6_to_rn (x 0) (x 1)),
     inst 0x1B20 [At 3 0, At 2 3] (\<lambda>x. dsm_mov_r6_rn (x 0) (x 1)),
     inst 0x6300 [At 8 0, At 2 11] (\<lambda>x. dsm_movs_mem_imm8 (x 0) (x 1)),
     inst 0x0180 [At 3 0, At 2 3, At 2 5] (\<lambda>x. dsm_movs_rn (x 0) (x 1) (x 2)),
     inst 0x0100 [At 5 0, At 2 5] (\<lambda>x. dsm_movs_register (x 0) (x 1)),
     inst 0x5F42 [At 1 0] (\<lambda>x. dsm_movs_r6_to (x 0)),
     inst 0x4080 [At 3 9, At 2 5, At 5 0] (\<lambda>x. dsm_movsi (x 0) (x 1) (x 2))]"

definition dsm_mov2_table :: "dsm matcher list" where
  "dsm_mov2_table = [
     inst 0x4390 [At 1 6, At 2 2, At 2 0] (\<lambda>x. dsm_mov2_axh_m_y0_m (x 0) (x 1) (x 2)),
     inst 0x43A0 [At 2 3, At 1 2, At 1 0, At 1 1] (\<lambda>x. dsm_mov2_ax_mij (x 0) (x 1) (x 2) (x 3)),
     inst 0x43E0 [At 2 3, At 1 2, At 1 0, At 1 1] (\<lambda>x. dsm_mov2_ax_mji (x 0) (x 1) (x 2) (x 3)),
     inst 0x80C4 [At 1 9, At 1 0, At 1 8, At 2 10]
       (\<lambda>x. dsm_mov2_mij_ax (x 0) (x 1) (x 2) (x 3)),
     inst 0xD4C0 [At 1 5, At 1 0, At 1 1, At 2 2] (\<lambda>x. dsm_mov2_mji_ax (x 0) (x 1) (x 2) (x 3)),
     inst 0x9D40 [At 2 4, At 2 2, At 1 1, At 1 0] (\<lambda>x. dsm_mov2_abh_m (x 0) (x 1) (x 2) (x 3)),
     inst 0x8C60 [At 1 4, At 2 8, At 2 0, At 2 2]
       (\<lambda>x. dsm_exchange_iaj (x 0) (x 1) (x 2) (x 3)),
     inst 0x7F80 [At 1 6, At 2 4, At 2 0, At 2 2]
       (\<lambda>x. dsm_exchange_riaj (x 0) (x 1) (x 2) (x 3)),
     inst 0x4900 [At 1 6, At 2 4, At 2 0, At 2 2]
       (\<lambda>x. dsm_exchange_jai (x 0) (x 1) (x 2) (x 3)),
     inst 0x4800 [At 1 6, At 2 4, At 2 0, At 2 2]
       (\<lambda>x. dsm_exchange_rjai (x 0) (x 1) (x 2) (x 3)),
     inst 0x8864 [At 2 3, At 2 0, At 2 8] (\<lambda>x. dsm_movr_ar (x 0) (x 1) (x 2)),
     inst 0x9CE0 [At 3 0, At 2 3, At 1 8] (\<lambda>x. dsm_movr_rn (x 0) (x 1) (x 2)),
     inst 0x9CC0 [At 5 0, At 1 8] (\<lambda>x. dsm_movr_register (x 0) (x 1)),
     inst 0x5DF4 [At 1 1, At 1 0] (\<lambda>x. dsm_movr_bx (x 0) (x 1)),
     inst 0x8961 [At 1 3] (\<lambda>x. dsm_movr_r6_to (x 0)),
     inst 0x49C0 [At 1 5, At 1 4] (\<lambda>x. dsm_lim (x 0) (x 1))]"

definition dsm_viterbi_table :: "dsm matcher list" where
  "dsm_viterbi_table = [
     inst 0x5F45 [] (\<lambda>x. dsm_vtrclr0),
     inst 0x5F46 [] (\<lambda>x. dsm_vtrclr1),
     inst 0x5F47 [] (\<lambda>x. dsm_vtrclr),
     inst 0xD29A [At 1 0] (\<lambda>x. dsm_vtrmov0 (x 0)),
     inst 0xD69A [At 1 0] (\<lambda>x. dsm_vtrmov1 (x 0)),
     inst 0xD383 [At 1 4] (\<lambda>x. dsm_vtrmov (x 0)),
     inst 0xD781 [] (\<lambda>x. dsm_vtrshr_instr)]"

definition dsm_minmax_table :: "dsm matcher list" where
  "dsm_minmax_table = [
     inst 0x5DFE [] (\<lambda>x. dsm_clrp0),
     inst 0x5DFD [] (\<lambda>x. dsm_clrp1),
     inst 0x5DFF [] (\<lambda>x. dsm_clrp),
     inst 0x8460 [At 1 8, At 2 3] (\<lambda>x. dsm_max_ge (x 0) (x 1)),
     inst 0x8660 [At 1 8, At 2 3] (\<lambda>x. dsm_max_gt (x 0) (x 1)),
     inst 0x8860 [At 1 8, At 2 3] (\<lambda>x. dsm_min_le (x 0) (x 1)),
     inst 0x8A60 [At 1 8, At 2 3] (\<lambda>x. dsm_min_lt (x 0) (x 1)),
     inst 0x8060 [At 1 8, At 2 3] (\<lambda>x. dsm_max_ge_r0 (x 0) (x 1)),
     inst 0x8260 [At 1 8, At 2 3] (\<lambda>x. dsm_max_gt_r0 (x 0) (x 1)),
     inst 0x47A0 [At 1 3, At 2 0] (\<lambda>x. dsm_min_le_r0 (x 0) (x 1)),
     inst 0x47A4 [At 1 3, At 2 0] (\<lambda>x. dsm_min_lt_r0 (x 0) (x 1)),
     inst 0x0E00 [At 8 0, At 1 8] (\<lambda>x. dsm_divs (x 0) (x 1)),
     inst 0xD790 [At 2 2, At 2 0] (\<lambda>x. dsm_sqr_sqr_add3_ab (x 0) (x 1)),
     inst 0x4B00 [At 2 4, At 2 2, At 2 0] (\<lambda>x. dsm_sqr_sqr_add3_ar (x 0) (x 1) (x 2)),
     inst 0x49C4 [At 2 4, At 2 0] (\<lambda>x. dsm_sqr_mpysu_add3a (x 0) (x 1))]"

definition dsm_cmp_table :: "dsm matcher list" where
  "dsm_cmp_table = [
     inst 0x4D8C [At 1 1, At 1 0] (\<lambda>x. dsm_cmp_ax_bx (x 0) (x 1)),
     inst 0xD483 [] (\<lambda>x. dsm_cmp_b0_b1),
     inst 0xD583 [] (\<lambda>x. dsm_cmp_b1_b0),
     inst 0xDA9A [At 1 10, At 1 0] (\<lambda>x. dsm_cmp_bx_ax (x 0) (x 1)),
     inst 0x8B63 [At 1 4] (\<lambda>x. dsm_cmp_p1_to (x 0)),
     inst 0x5E21 [At 1 8] (\<lambda>x. dsm_max2_vtr_ax (x 0)),
     inst 0x43C2 [At 1 0] (\<lambda>x. dsm_min2_vtr_ax (x 0)),
     inst 0xD784 [At 1 1, At 1 0] (\<lambda>x. dsm_max2_vtr_ax_bx (x 0) (x 1)),
     inst 0xD4BA [At 1 8, At 1 0] (\<lambda>x. dsm_min2_vtr_ax_bx (x 0) (x 1)),
     inst 0x4A40 [At 1 3, At 1 4, At 1 1, At 1 0]
       (\<lambda>x. dsm_max2_vtr_movl_ax_bx (x 0) (x 1) (x 2) (x 3)),
     inst 0x4A44 [At 1 3, At 1 4, At 1 1, At 1 0]
       (\<lambda>x. dsm_max2_vtr_movh_ax_bx (x 0) (x 1) (x 2) (x 3)),
     inst 0x4A60 [At 1 4, At 1 3, At 1 1, At 1 0]
       (\<lambda>x. dsm_max2_vtr_movl_bx_ax (x 0) (x 1) (x 2) (x 3)),
     inst 0x4A64 [At 1 4, At 1 3, At 1 1, At 1 0]
       (\<lambda>x. dsm_max2_vtr_movh_bx_ax (x 0) (x 1) (x 2) (x 3)),
     inst 0x4A00 [At 1 3, At 1 4, At 1 1, At 1 0]
       (\<lambda>x. dsm_min2_vtr_movl_ax_bx (x 0) (x 1) (x 2) (x 3)),
     inst 0x4A04 [At 1 3, At 1 4, At 1 1, At 1 0]
       (\<lambda>x. dsm_min2_vtr_movh_ax_bx (x 0) (x 1) (x 2) (x 3)),
     inst 0x4A20 [At 1 4, At 1 3, At 1 1, At 1 0]
       (\<lambda>x. dsm_min2_vtr_movl_bx_ax (x 0) (x 1) (x 2) (x 3)),
     inst 0x4A24 [At 1 4, At 1 3, At 1 1, At 1 0]
       (\<lambda>x. dsm_min2_vtr_movh_bx_ax (x 0) (x 1) (x 2) (x 3)),
     inst 0xD590 [At 1 6, At 1 5, At 1 2, At 1 0, At 1 1]
       (\<lambda>x. dsm_max2_vtr_movij (x 0) (x 1) (x 2) (x 3) (x 4)),
     inst 0x45A0 [At 1 4, At 1 3, At 1 2, At 1 0, At 1 1]
       (\<lambda>x. dsm_max2_vtr_movji (x 0) (x 1) (x 2) (x 3) (x 4)),
     inst 0xD2B8 [At 1 11, At 1 10, At 1 2, At 1 0, At 1 1]
       (\<lambda>x. dsm_min2_vtr_movij (x 0) (x 1) (x 2) (x 3) (x 4)),
     inst 0x45E0 [At 1 4, At 1 3, At 1 2, At 1 0, At 1 1]
       (\<lambda>x. dsm_min2_vtr_movji (x 0) (x 1) (x 2) (x 3) (x 4))]"

definition dsm_cbs_table :: "dsm matcher list" where
  "dsm_cbs_table = [
     inst 0x4B40 [At 1 3, At 1 2, At 1 0]
       (\<lambda>x. dsm_mov_sv_app (x 0) (ar_index 0 (x 1)) (x 2) Sum_Sv True False False False),
     inst 0x9960 [At 1 4, At 1 3, At 1 2]
       (\<lambda>x. dsm_mov_sv_app (x 0) (ar_index 2 (x 1)) (x 2) Sum_Sv True False False False),
     inst 0x4B42 [At 1 3, At 1 2, At 1 0]
       (\<lambda>x. dsm_mov_sv_app (x 0) (ar_index 0 (x 1)) (x 2) Sum_SvRnd True False False False),
     inst 0x99E0 [At 1 4, At 1 3, At 1 2]
       (\<lambda>x. dsm_mov_sv_app (x 0) (ar_index 2 (x 1)) (x 2) Sum_SvRnd True False False False),
     inst 0x5F4C [At 1 1, At 1 0, Const 0]
       (\<lambda>x. dsm_mov_sv_app (x 0) (ar_index 0 (x 1)) (x 2) Sum_Sv True False True False),
     inst 0x8873 [At 1 8, At 1 3, Const 1]
       (\<lambda>x. dsm_mov_sv_app (x 0) (ar_index 0 (x 1)) (x 2) Sum_Sv True False True False),
     inst 0x9860 [At 1 4, At 1 3, At 1 2]
       (\<lambda>x. dsm_mov_sv_app (x 0) (ar_index 2 (x 1)) (x 2) Sum_Sv True False True False),
     inst 0xDE9C [At 1 1, At 1 0, Const 0]
       (\<lambda>x. dsm_mov_sv_app (x 0) (ar_index 0 (x 1)) (x 2) Sum_SvRnd True False True False),
     inst 0xD4B4 [At 1 1, At 1 0, Const 1]
       (\<lambda>x. dsm_mov_sv_app (x 0) (ar_index 0 (x 1)) (x 2) Sum_SvRnd True False True False),
     inst 0x98E0 [At 1 4, At 1 3, At 1 2]
       (\<lambda>x. dsm_mov_sv_app (x 0) (ar_index 2 (x 1)) (x 2) Sum_SvRnd True False True False),
     inst 0x9068 [At 1 0, At 1 8] (\<lambda>x. dsm_cbs_axh (x 0) (x 1)),
     inst 0xD49E [At 1 8, At 1 5, At 1 0] (\<lambda>x. dsm_cbs_axh_bxh (x 0) (x 1) (x 2)),
     inst 0xD5C0 [At 1 2, At 1 0, At 1 1, At 1 3] (\<lambda>x. dsm_cbs_arp (x 0) (x 1) (x 2) (x 3))]"

definition dsm_mma_table :: "dsm matcher list" where
  "dsm_mma_table = [
     inst 0x4D88 [At 1 1]
       (\<lambda>x. dsm_mma_swapped (Ax (x 0)) True True True True Sum_Zero False False True False),
     inst 0xD49D [At 1 5]
       (\<lambda>x. dsm_mma_swapped (Bx (x 0)) True True True True Sum_Zero False False True False),
     inst 0x5E24 [At 2 0]
       (\<lambda>x. dsm_mma_swapped (Ab (x 0)) True True True True Sum_Zero False False False False),
     inst 0x8061 [At 2 8]
       (\<lambda>x. dsm_mma_swapped (Ab (x 0)) True True True True Sum_Acc False False False False),
     inst 0x8071 [At 2 8]
       (\<lambda>x. dsm_mma_swapped (Ab (x 0)) True True True True Sum_Acc False False False True),
     inst 0x8461 [At 2 8]
       (\<lambda>x. dsm_mma_swapped (Ab (x 0)) True True True True Sum_Acc True False True False),
     inst 0x8471 [At 2 8]
       (\<lambda>x. dsm_mma_swapped (Ab (x 0)) True True True True Sum_Acc True False True True),
     inst 0xD484 [At 2 0]
       (\<lambda>x. dsm_mma_swapped (Ab (x 0)) True True True True Sum_Acc False True False True),
     inst 0xD4A0 [At 2 0]
       (\<lambda>x. dsm_mma_swapped (Ab (x 0)) True True True True Sum_Acc False False True False),
     inst 0x4D89 [At 1 1]
       (\<lambda>x. dsm_mma_swapped (Ax (x 0)) True True True False Sum_Zero False False True False),
     inst 0xD59D [At 1 5]
       (\<lambda>x. dsm_mma_swapped (Bx (x 0)) True True True False Sum_Zero False False True False),
     inst 0x5F24 [At 2 0]
       (\<lambda>x. dsm_mma_swapped (Ab (x 0)) True True True False Sum_Zero False False False False),
     inst 0x8069 [At 2 8]
       (\<lambda>x. dsm_mma_swapped (Ab (x 0)) True True True False Sum_Acc False False False False),
     inst 0x8079 [At 2 8]
       (\<lambda>x. dsm_mma_swapped (Ab (x 0)) True True True False Sum_Acc False False False True),
     inst 0x8469 [At 2 8]
       (\<lambda>x. dsm_mma_swapped (Ab (x 0)) True True True False Sum_Acc True False True False),
     inst 0x8479 [At 2 8]
       (\<lambda>x. dsm_mma_swapped (Ab (x 0)) True True True False Sum_Acc True False True True),
     inst 0xD584 [At 2 0]
       (\<lambda>x. dsm_mma_swapped (Ab (x 0)) True True True False Sum_Acc False True False True),
     inst 0xD5A0 [At 2 0]
       (\<lambda>x. dsm_mma_swapped (Ab (x 0)) True True True False Sum_Acc False False True False)]"

definition dsm_mma_mov_table :: "dsm matcher list" where
  "dsm_mma_mov_table = [
     inst 0xCA00 [At 1 5, At 1 3, At 1 4, At 2 6]
       (\<lambda>x. dsm_mma_arp (x 0) (x 1) (x 2) False False (Ab (x 3)) False True False True Sum_Acc True False True True),
     inst 0xCA01 [At 1 5, At 1 3, At 1 4, At 2 6]
       (\<lambda>x. dsm_mma_arp (x 0) (x 1) (x 2) False False (Ab (x 3)) False True True False Sum_Acc True False True True),
     inst 0xCA02 [At 1 5, At 1 3, At 1 4, At 2 6]
       (\<lambda>x. dsm_mma_arp (x 0) (x 1) (x 2) False False (Ab (x 3)) False True False True Sum_Acc True True True True),
     inst 0xCA03 [At 1 5, At 1 3, At 1 4, At 2 6]
       (\<lambda>x. dsm_mma_arp (x 0) (x 1) (x 2) False False (Ab (x 3)) False True True False Sum_Acc True True True True),
     inst 0xCA04 [At 1 5, At 1 3, At 1 4, At 2 6]
       (\<lambda>x. dsm_mma_arp (x 0) (x 1) (x 2) False False (Ab (x 3)) False True False True Sum_Acc False False False True),
     inst 0xCA05 [At 1 5, At 1 3, At 1 4, At 2 6]
       (\<lambda>x. dsm_mma_arp (x 0) (x 1) (x 2) False False (Ab (x 3)) False True True False Sum_Acc False False False True),
     inst 0xCA06 [At 1 5, At 1 3, At 1 4, At 2 6]
       (\<lambda>x. dsm_mma_arp (x 0) (x 1) (x 2) False False (Ab (x 3)) False True False True Sum_Acc False True False True),
     inst 0xCA07 [At 1 5, At 1 3, At 1 4, At 2 6]
       (\<lambda>x. dsm_mma_arp (x 0) (x 1) (x 2) False False (Ab (x 3)) False True True False Sum_Acc False True False True),
     inst 0xCB00 [At 1 5, At 1 3, At 1 4, At 2 6]
       (\<lambda>x. dsm_mma_arp (x 0) (x 1) (x 2) False False (Ab (x 3)) True True False True Sum_Acc True False True False),
     inst 0xCB01 [At 1 5, At 1 3, At 1 4, At 2 6]
       (\<lambda>x. dsm_mma_arp (x 0) (x 1) (x 2) False False (Ab (x 3)) True True True False Sum_Acc True False True False),
     inst 0xCB02 [At 1 5, At 1 3, At 1 4, At 2 6]
       (\<lambda>x. dsm_mma_arp (x 0) (x 1) (x 2) False False (Ab (x 3)) True True False True Sum_Acc True False True True),
     inst 0xCB03 [At 1 5, At 1 3, At 1 4, At 2 6]
       (\<lambda>x. dsm_mma_arp (x 0) (x 1) (x 2) False False (Ab (x 3)) True True True False Sum_Acc True False True True),
     inst 0xCB04 [At 1 5, At 1 3, At 1 4, At 2 6]
       (\<lambda>x. dsm_mma_arp (x 0) (x 1) (x 2) False False (Ab (x 3)) True True False True Sum_Acc False False False False),
     inst 0xCB05 [At 1 5, At 1 3, At 1 4, At 2 6]
       (\<lambda>x. dsm_mma_arp (x 0) (x 1) (x 2) False False (Ab (x 3)) True True True False Sum_Acc False False False False),
     inst 0xCB06 [At 1 5, At 1 3, At 1 4, At 2 6]
       (\<lambda>x. dsm_mma_arp (x 0) (x 1) (x 2) False False (Ab (x 3)) True True False True Sum_Acc False False False True),
     inst 0xCB07 [At 1 5, At 1 3, At 1 4, At 2 6]
       (\<lambda>x. dsm_mma_arp (x 0) (x 1) (x 2) False False (Ab (x 3)) True True True False Sum_Acc False False False True),
     inst 0x0D30 [At 1 3, At 1 1, At 1 2, At 1 0]
       (\<lambda>x. dsm_mma_arp (x 0) (x 1) (x 2) False True (Ax (x 3)) True True True False Sum_Acc False False False True),
     inst 0x0D20 [At 1 3, At 1 1, At 1 2, At 1 0]
       (\<lambda>x. dsm_mma_arp (x 0) (x 1) (x 2) True False (Ax (x 3)) True True True False Sum_Acc False False False True),
     inst 0x4B50 [At 1 3, At 1 1, At 1 2, At 1 0]
       (\<lambda>x. dsm_mma_arp (x 0) (x 1) (x 2) True True (Ax (x 3)) True True True False Sum_Acc False False False True),
     inst 0x9861 [At 1 4, At 1 2, At 1 3, At 1 8]
       (\<lambda>x. dsm_mma_arp (x 0) (x 1) (x 2) False True (Ax (x 3)) True True True True Sum_Acc False False False False),
     inst 0x9862 [At 1 4, At 1 2, At 1 3, At 1 8]
       (\<lambda>x. dsm_mma_arp (x 0) (x 1) (x 2) True False (Ax (x 3)) True True True True Sum_Acc False False False False),
     inst 0x9863 [At 1 4, At 1 2, At 1 3, At 1 8]
       (\<lambda>x. dsm_mma_arp (x 0) (x 1) (x 2) True True (Ax (x 3)) True True True True Sum_Acc False False False False),
     inst 0x98E1 [At 1 4, At 1 2, At 1 3, At 1 8]
       (\<lambda>x. dsm_mma_arp (x 0) (x 1) (x 2) False True (Ax (x 3)) True True True True Sum_Acc False False False True),
     inst 0x98E2 [At 1 4, At 1 2, At 1 3, At 1 8]
       (\<lambda>x. dsm_mma_arp (x 0) (x 1) (x 2) True False (Ax (x 3)) True True True True Sum_Acc False False False True),
     inst 0x98E3 [At 1 4, At 1 2, At 1 3, At 1 8]
       (\<lambda>x. dsm_mma_arp (x 0) (x 1) (x 2) True True (Ax (x 3)) True True True True Sum_Acc False False False True),
     inst 0x80C8 [At 1 2, At 1 0, At 1 1, At 2 10]
       (\<lambda>x. dsm_mma_arp (x 0) (x 1) (x 2) False False (Ab (x 3)) True True True True Sum_Acc False False True False),
     inst 0x81C8 [At 1 2, At 1 0, At 1 1, At 2 10]
       (\<lambda>x. dsm_mma_arp (x 0) (x 1) (x 2) False False (Ab (x 3)) True True True True Sum_Acc False False True True),
     inst 0x82C8 [At 1 2, At 1 0, At 1 1, At 2 10]
       (\<lambda>x. dsm_mma_arp (x 0) (x 1) (x 2) False False (Ab (x 3)) True True True True Sum_Zero False False False False),
     inst 0x83C8 [At 1 2, At 1 0, At 1 1, At 2 10]
       (\<lambda>x. dsm_mma_arp (x 0) (x 1) (x 2) False False (Ab (x 3)) True True True True Sum_Zero False False False True),
     inst 0x80C2 [At 1 0, At 1 8, At 1 9, At 2 10]
       (\<lambda>x. dsm_mma_arp (x 0) (x 1) (x 2) False False (Ab (x 3)) True True True True Sum_Acc False False False True),
     inst 0x49C8 [At 1 2, At 1 0, At 1 1, At 2 4]
       (\<lambda>x. dsm_mma_arp (x 0) (x 1) (x 2) False False (Ab (x 3)) True True True True Sum_Acc True False True True),
     inst 0x00C0 [At 1 3, At 1 1, At 1 2, At 2 4]
       (\<lambda>x. dsm_mma_arp (x 0) (x 1) (x 2) False False (Ab (x 3)) True True True True Sum_Zero False False True False),
     inst 0x00C1 [At 1 3, At 1 1, At 1 2, At 2 4]
       (\<lambda>x. dsm_mma_arp (x 0) (x 1) (x 2) False False (Ab (x 3)) True True True True Sum_Zero False False True True),
     inst 0xD7A0 [At 1 3, At 1 1, At 1 2, At 1 4]
       (\<lambda>x. dsm_mma_arp (x 0) (x 1) (x 2) False False (Ax (x 3)) True True True True Sum_Sv False False False False),
     inst 0xD7A1 [At 1 3, At 1 1, At 1 2, At 1 4]
       (\<lambda>x. dsm_mma_arp (x 0) (x 1) (x 2) False False (Ax (x 3)) True True True True Sum_SvRnd False False False False),
     inst 0xC800 [At 2 4, At 2 0, At 2 2, At 2 6]
       (\<lambda>x. dsm_mma_arp (x 0) (x 1) (x 2) False False (Ab (x 3)) True True True True Sum_Acc False False False False),
     inst 0xC900 [At 2 4, At 2 0, At 2 2, At 2 6]
       (\<lambda>x. dsm_mma_arp (x 0) (x 1) (x 2) False False (Ab (x 3)) True True True True Sum_Acc True False True False)]"

definition dsm_addhp_table :: "dsm matcher list" where
  "dsm_addhp_table = [
     inst 0xD5E0 [At 1 1, At 1 0, At 1 3]
       (\<lambda>x. dsm_mma_mx_xy (x 0) (x 1) (Ax (x 2)) True True True True Sum_Acc True False True False),
     inst 0xD5E4 [At 1 1, At 1 0, At 1 3]
       (\<lambda>x. dsm_mma_mx_xy (x 0) (x 1) (Ax (x 2)) True True True True Sum_Acc False False False False),
     inst 0x8862 [At 1 4, At 1 3, At 1 8]
       (\<lambda>x. dsm_mma_xy_mx (x 0) (x 1) (Ax (x 2)) True True True True Sum_Acc True False True False),
     inst 0x8A62 [At 1 4, At 1 3, At 1 8]
       (\<lambda>x. dsm_mma_xy_mx (x 0) (x 1) (Ax (x 2)) True True True True Sum_Acc False False False False),
     inst 0x4DA0 [At 1 3, At 1 2, At 1 4]
       (\<lambda>x. dsm_mma_my_my (x 0) (x 1) (Ax (x 2)) True True True False Sum_Acc True False True False),
     inst 0x4DA1 [At 1 3, At 1 2, At 1 4]
       (\<lambda>x. dsm_mma_my_my (x 0) (x 1) (Ax (x 2)) True True True False Sum_Acc True False True True),
     inst 0x4DA2 [At 1 3, At 1 2, At 1 4]
       (\<lambda>x. dsm_mma_my_my (x 0) (x 1) (Ax (x 2)) True True True False Sum_Acc False False False False),
     inst 0x4DA3 [At 1 3, At 1 2, At 1 4]
       (\<lambda>x. dsm_mma_my_my (x 0) (x 1) (Ax (x 2)) True True True False Sum_Acc False False False True),
     inst 0x94E0 [At 1 4, At 1 3, At 1 8]
       (\<lambda>x. dsm_mma_my_my (x 0) (x 1) (Ax (x 2)) True True True True Sum_Acc True False True False),
     inst 0x94E1 [At 1 4, At 1 3, At 1 8]
       (\<lambda>x. dsm_mma_my_my (x 0) (x 1) (Ax (x 2)) True True False True Sum_Acc True False True False),
     inst 0x94E2 [At 1 4, At 1 3, At 1 8]
       (\<lambda>x. dsm_mma_my_my (x 0) (x 1) (Ax (x 2)) True True True True Sum_Acc True False True True),
     inst 0x94E3 [At 1 4, At 1 3, At 1 8]
       (\<lambda>x. dsm_mma_my_my (x 0) (x 1) (Ax (x 2)) True True False True Sum_Acc True False True True),
     inst 0x94E4 [At 1 4, At 1 3, At 1 8]
       (\<lambda>x. dsm_mma_my_my (x 0) (x 1) (Ax (x 2)) True True True True Sum_Acc False False False False),
     inst 0x94E5 [At 1 4, At 1 3, At 1 8]
       (\<lambda>x. dsm_mma_my_my (x 0) (x 1) (Ax (x 2)) True True False True Sum_Acc False False False False),
     inst 0x94E6 [At 1 4, At 1 3, At 1 8]
       (\<lambda>x. dsm_mma_my_my (x 0) (x 1) (Ax (x 2)) True True True True Sum_Acc False False False True),
     inst 0x94E7 [At 1 4, At 1 3, At 1 8]
       (\<lambda>x. dsm_mma_my_my (x 0) (x 1) (Ax (x 2)) True True False True Sum_Acc False False False True),
     inst 0x4FA0 [At 1 6, At 1 2, At 1 1, At 1 0, At 2 3]
       (\<lambda>x. dsm_mma_mov_axh (x 0) (x 1) (x 2) (x 3) (Ab (x 4)) True True True True Sum_Acc False False False False),
     inst 0xD3A0 [At 1 6, At 1 2, At 1 1, At 1 0, At 2 3]
       (\<lambda>x. dsm_mma_mov_axh (x 0) (x 1) (x 2) (x 3) (Ab (x 4)) True True True True Sum_Acc False False True False),
     inst 0x80D0 [At 1 9, At 1 8, At 1 3, At 1 2, At 1 10]
       (\<lambda>x. dsm_mma_mov_axh (x 0) (x 1) (x 2) (x 3) (Ax (x 4)) True True True True Sum_Sv False False True False),
     inst 0x80D1 [At 1 9, At 1 8, At 1 3, At 1 2, At 1 10]
       (\<lambda>x. dsm_mma_mov_axh (x 0) (x 1) (x 2) (x 3) (Ax (x 4)) True True True True Sum_SvRnd False False True False),
     inst 0x80D2 [At 1 9, At 1 8, At 1 3, At 1 2, At 1 10]
       (\<lambda>x. dsm_mma_mov_axh (x 0) (x 1) (x 2) (x 3) (Ax (x 4)) True True True True Sum_Sv False False False False),
     inst 0x80D3 [At 1 9, At 1 8, At 1 3, At 1 2, At 1 10]
       (\<lambda>x. dsm_mma_mov_axh (x 0) (x 1) (x 2) (x 3) (Ax (x 4)) True True True True Sum_SvRnd False False False False),
     inst 0x5818 [At 2 7, At 1 6, At 1 0]
       (\<lambda>x. dsm_mma_mov_ar (x 0) (x 1) (Ax (x 2)) True True True True Sum_Sv False False True False),
     inst 0x5838 [At 2 7, At 1 6, At 1 0]
       (\<lambda>x. dsm_mma_mov_ar (x 0) (x 1) (Ax (x 2)) True True True True Sum_SvRnd False False True False),
     inst 0x90E0 [At 2 2, At 2 0, At 1 4, At 1 8] (\<lambda>x. dsm_addhp (x 0) (x 1) (x 2) (x 3))]"

definition dsm_table :: "dsm matcher list" where
  "dsm_table = concat [
     dsm_misc_table, dsm_alm_table, dsm_alu_table, dsm_or_table, dsm_alb_table,
     dsm_add_table, dsm_mul_table, dsm_moda_table, dsm_bkrep_table, dsm_bank_table,
     dsm_branch_table, dsm_load_table, dsm_stack_table, dsm_shift_table, dsm_bit_test_table,
     dsm_modr_table, dsm_mov_table, dsm_mov_status_table, dsm_mov2_table, dsm_viterbi_table,
     dsm_minmax_table, dsm_cmp_table, dsm_cbs_table, dsm_mma_table, dsm_mma_mov_table,
     dsm_addhp_table]"

section \<open>The disassembler\<close>

definition dsm_undefined :: "u16 \<Rightarrow> dsm" where
  "dsm_undefined opcode settings = D [''[ERROR]'']"

definition dsm_decode :: "u16 \<Rightarrow> dsm matcher result" where
  "dsm_decode opcode = decode_in dsm_undefined dsm_table opcode"

definition need_expansion :: "u16 \<Rightarrow> bool result" where
  "need_expansion opcode = rbind (dsm_decode opcode) (\<lambda>m. Inr (mt_expanded m))"

definition get_token_list :: "u16 \<Rightarrow> u16 \<Rightarrow> ar_arp_settings option \<Rightarrow> string list result" where
  "get_token_list opcode expansion settings =
     rbind (dsm_decode opcode) (\<lambda>m. call_matcher (\<lambda>_. Inl Abort) m opcode expansion settings)"

definition disassemble :: "u16 \<Rightarrow> u16 \<Rightarrow> ar_arp_settings option \<Rightarrow> string result" where
  "disassemble opcode expansion settings =
     rbind (get_token_list opcode expansion settings) (\<lambda>v.
       Inr (concat (map (\<lambda>s. s @ ''    '') (butlast v)) @ last v))"

section \<open>The same table\<close>

text \<open>What decides which entry an opcode selects, and whether it takes a second word.\<close>

definition matcher_head :: "'r matcher \<Rightarrow> shape \<times> bool" where
  "matcher_head m = (matcher_shape m, mt_expanded m)"

lemma matcher_head_inst:
  "matcher_head (inst expected operands f) = (inst_shape expected operands, list_ex operand_needs_expansion operands)"
  by (simp add: matcher_head_def matcher_shape_inst) (simp add: inst_def Let_def)

lemma matcher_head_except:
  "matcher_head (except_const n pos v m) = (except_shape n pos v (fst (matcher_head m)), snd (matcher_head m))"
  by (simp add: matcher_head_def matcher_shape_except) (simp add: except_const_def except_matcher_def)

lemmas dsm_table_defs =
  dsm_misc_table_def dsm_alm_table_def dsm_alu_table_def dsm_or_table_def dsm_alb_table_def
  dsm_add_table_def dsm_mul_table_def dsm_moda_table_def dsm_bkrep_table_def dsm_bank_table_def
  dsm_branch_table_def dsm_load_table_def dsm_stack_table_def dsm_shift_table_def
  dsm_bit_test_table_def dsm_modr_table_def dsm_mov_table_def dsm_mov_status_table_def
  dsm_mov2_table_def dsm_viterbi_table_def dsm_minmax_table_def dsm_cmp_table_def dsm_cbs_table_def
  dsm_mma_table_def dsm_mma_mov_table_def dsm_addhp_table_def

lemma same_heads: "map matcher_head dsm_table = map matcher_head decode_table"
  unfolding dsm_table_def decode_table_def dsm_table_defs table_defs
  by (simp only: concat.simps append.simps list.map matcher_head_inst matcher_head_except)

lemma map_eq_all2: "map f xs = map g ys \<Longrightarrow> list_all2 (\<lambda>x y. f x = g y) xs ys"
proof (induction xs arbitrary: ys)
  case (Cons x xs)
  then show ?case
    by (cases ys) auto
qed simp

lemma matches_head: "matcher_head m = matcher_head m' \<Longrightarrow> matches m w = matches m' w"
  by (simp add: matches_shape matcher_head_def)

lemma decode_in_heads:
  assumes "list_all2 (\<lambda>m m'. matcher_head m = matcher_head m') ms ms'"
  shows "rel_sum (=) (\<lambda>m m'. matcher_head m = matcher_head m') (decode_in f ms w) (decode_in g ms' w)"
  using assms
proof (induction rule: list_all2_induct)
  case Nil
  then show ?case
    by (simp add: decode_in_def matcher_head_def all_matcher_def matcher_shape_def)
next
  case (Cons m ms m' ms')
  have "list_ex (\<lambda>other. matches other w) ms = list_ex (\<lambda>other. matches other w) ms'"
    using Cons.hyps(2) by (induction rule: list_all2_induct) (auto dest: matches_head)
  with Cons show ?case
    using matches_head [OF Cons.hyps(1)] by (auto simp: decode_in_def)
qed

lemma dsm_decode_agrees:
  obtains m m' where "decode w = Inr (m :: 'x instr matcher)" "dsm_decode w = Inr m'"
    "matcher_head m' = matcher_head m" "matches m w"
proof -
  have "list_all2 (\<lambda>m m'. matcher_head m = matcher_head m') dsm_table (decode_table :: 'x instr matcher list)"
    by (rule map_eq_all2 [OF same_heads])
  from decode_in_heads [OF this] have
    "rel_sum (=) (\<lambda>m m'. matcher_head m = matcher_head m') (dsm_decode w) (decode w :: 'x instr matcher result)"
    by (simp add: dsm_decode_def decode_def)
  moreover obtain m where "decode w = Inr (m :: 'x instr matcher)" "matches m w"
    using decode_in_unique [OF table_at_most_one, where w = w and undefined_fn = undefined_instr] unfolding decode_def by blast
  ultimately show thesis
    using that by (auto elim: rel_sum.cases)
qed

section \<open>The handlers give tokens\<close>

definition gives_tokens :: "dsm \<Rightarrow> bool" where
  "gives_tokens f \<longleftrightarrow> (\<forall>settings. \<exists>ts. f settings = Inr ts \<and> ts \<noteq> [])"

definition emits :: "dsm matcher \<Rightarrow> bool" where
  "emits m \<longleftrightarrow> (\<forall>opcode expansion. gives_tokens (mt_fn m opcode expansion))"

lemma emits_inst: "(\<And>x. gives_tokens (f x)) \<Longrightarrow> emits (inst expected operands f)"
  by (simp add: emits_def inst_def Let_def)

lemma emits_except: "emits m \<Longrightarrow> emits (except_const n pos v m)"
  by (simp add: emits_def except_const_def except_matcher_def)

lemma table_emits: "list_all emits dsm_table"
  unfolding dsm_table_def dsm_table_defs
  apply (simp only: concat.simps append.simps list.pred_inject simp_thms)
  apply (intro conjI emits_except emits_inst)
  apply (simp_all add: gives_tokens_def dsm_defs Let_def)
  done

section \<open>Properties\<close>

lemma dsm_decode_emits: "dsm_decode w = Inr m \<Longrightarrow> emits m"
proof -
  assume d: "dsm_decode w = Inr m"
  show ?thesis
  proof (cases "dropWhile (\<lambda>m. \<not> matches m w) dsm_table")
    case Nil
    with d have "m = all_matcher (\<lambda>opcode _. dsm_undefined opcode)"
      unfolding dsm_decode_def decode_in_def by simp
    then show ?thesis
      by (simp add: emits_def gives_tokens_def all_matcher_def dsm_undefined_def)
  next
    case (Cons a ms)
    with d have "m = a"
      unfolding dsm_decode_def decode_in_def by (simp split: if_splits)
    moreover have "a \<in> set dsm_table"
      using set_dropWhileD [of a "\<lambda>m. \<not> matches m w" dsm_table] Cons by simp
    ultimately show ?thesis
      using table_emits by (simp add: list_all_iff)
  qed
qed

lemma get_token_list_total:
  obtains ts where "get_token_list w expansion settings = Inr ts" "ts \<noteq> []"
proof -
  obtain m' where m': "dsm_decode w = Inr m'" "matches m' w"
    using dsm_decode_agrees [of w] matches_head by metis
  with dsm_decode_emits [OF m'(1)] that show thesis
    by (auto simp: get_token_list_def call_matcher_def emits_def gives_tokens_def)
qed

text \<open>
  C8: The disassembler reads the instruction set of the interpreter. For every opcode the two select
  entries with the same pattern, so that the disassembler asks for a second word exactly when the
  interpreter fetches one; and disassembling never aborts: it gives at least one token, for every
  opcode, second word and address configuration.
\<close>

theorem disassembler_agrees:
  "\<exists>m m' tokens. decode w = Inr (m :: 'x instr matcher) \<and> dsm_decode w = Inr m' \<and>
     matcher_shape m' = matcher_shape m \<and> need_expansion w = Inr (mt_expanded m) \<and>
     get_token_list w expansion settings = Inr tokens \<and> tokens \<noteq> []"
proof -
  obtain m m' where m: "decode w = Inr (m :: 'x instr matcher)" "dsm_decode w = Inr m'" "matcher_head m' = matcher_head m"
    by (rule dsm_decode_agrees)
  obtain ts where "get_token_list w expansion settings = Inr ts" "ts \<noteq> []"
    by (rule get_token_list_total)
  with m show ?thesis
    by (simp add: matcher_head_def need_expansion_def)
qed

end
