(* ===== verification/Modulo_Addressing.thy ===== *)
theory Modulo_Addressing
  imports Addressing
begin

unbundle bit_operations_syntax

text \<open>
  The modulo addressing of src/src/interpreter.h as a cyclic buffer: the steps by one of \<open>StepAddress\<close>,
  in the scheme of the older processor and in the new one, stay in the aligned block of the
  address and count modulo the size of the buffer.
\<close>

section \<open>The block of an address\<close>

lemma log2p1_nat_bound: "n < 2 ^ log2p1_nat n"
proof (induction n rule: log2p1_nat.induct)
  case (1 n)
  then show ?case
    by (cases "n = 0") (use log2p1_nat.simps [of n] in auto)
qed

lemma log2p1_nat_odd: "0 < n \<Longrightarrow> even n \<Longrightarrow> log2p1_nat (Suc n) = log2p1_nat n"
  by (simp add: log2p1_nat.simps [of n] log2p1_nat.simps [of "Suc n"])

lemma log2p1_nat_le: "n < 2 ^ k \<Longrightarrow> log2p1_nat n \<le> k"
proof (induction n arbitrary: k rule: log2p1_nat.induct)
  case (1 n)
  show ?case
  proof (cases "n = 0")
    case False
    with "1.prems" obtain j where j: "k = Suc j"
      by (cases k) auto
    with "1.prems" have "n div 2 < 2 ^ j" by auto
    with 1(1) False j show ?thesis by (simp add: log2p1_nat.simps [of n])
  qed (simp add: log2p1_nat.simps)
qed

lemma log2p1_bounds: "unat (m :: u16) < 2 ^ log2p1 m" "log2p1 (m :: u16) \<le> 16"
  unfolding log2p1_def using log2p1_nat_le [of "unat m" 16] unat_lt_2p16 [of m] by (simp_all add: log2p1_nat_bound)

lemma log2p1_or_1: "m \<noteq> 0 \<Longrightarrow> log2p1 (m OR 1 :: u16) = log2p1 m"
proof -
  assume nz: "m \<noteq> 0"
  have u: "unat (m OR 1) = unat m + of_bool (even (unat m))"
    by (simp add: unsigned_or_eq or_one_eq [of "unat m", simplified])
  show ?thesis
    using nz log2p1_nat_odd [of "unat m"] unfolding log2p1_def u by (simp add: unat_gt_0)
qed

lemma modulo_mask_mask: "modulo_mask m = mask (log2p1 m)"
  by (simp add: modulo_mask_def mask_eq_exp_minus_1)

lemma unat_and_mask: "k \<le> 16 \<Longrightarrow> unat (w AND mask k :: u16) = unat w mod 2 ^ k"
  unfolding take_bit_eq_mask [symmetric] by (simp only: unsigned_take_bit_eq) (simp add: take_bit_eq_mod)

lemma splice:
  fixes w x :: u16
  assumes "x AND mask k = x"
  shows "(w AND NOT (mask k) OR x) AND mask k = x"
    "(w AND NOT (mask k) OR x) AND NOT (mask k) = w AND NOT (mask k)"
    "unat (w AND NOT (mask k) OR x) = unat (w AND NOT (mask k)) + unat x"
proof -
  have x: "bit x n \<Longrightarrow> n < k" for n
    using assms by (metis bit_and_iff bit_mask_iff)
  show "(w AND NOT (mask k) OR x) AND mask k = x"
    using x by (auto simp: bit_eq_iff bit_simps)
  show "(w AND NOT (mask k) OR x) AND NOT (mask k) = w AND NOT (mask k)"
    using x by (auto simp: bit_eq_iff bit_simps)
  have "unat (w AND NOT (mask k)) AND unat x = 0"
    using x by (auto simp: bit_eq_iff bit_simps unsigned_and_eq [symmetric] simp del: unsigned_and_eq)
  then show "unat (w AND NOT (mask k) OR x) = unat (w AND NOT (mask k)) + unat x"
    by (simp add: unsigned_or_eq disjunctive_add_eq_or)
qed

section \<open>A step by one\<close>

text \<open>The buffer is the part of the block up to the modulus; a step replaces the offset in it.\<close>

definition buffer_base :: "u16 \<Rightarrow> u16 \<Rightarrow> u16" where
  "buffer_base md address = address AND NOT (modulo_mask md)"

definition buffer_offset :: "u16 \<Rightarrow> u16 \<Rightarrow> u16" where
  "buffer_offset md address = address AND modulo_mask md"

definition at_offset :: "u16 \<Rightarrow> u16 \<Rightarrow> u16 \<Rightarrow> u16" where
  "at_offset md address x = buffer_base md address OR x"

lemma low_and_mask: "k \<le> 16 \<Longrightarrow> unat (x :: u16) < 2 ^ k \<Longrightarrow> x AND mask k = x"
  by (rule word_unat_eq_iff [THEN iffD2]) (simp add: unat_and_mask)

lemma at_offset_facts:
  assumes "unat x \<le> unat md"
  shows "buffer_offset md (at_offset md a x) = x"
    "buffer_base md (at_offset md a x) = buffer_base md a"
    "unat (at_offset md a x) = unat (buffer_base md a) + unat x"
proof -
  have x: "x AND mask (log2p1 md) = x"
    using assms log2p1_bounds [of md] by (intro low_and_mask) linarith+
  then show "buffer_offset md (at_offset md a x) = x"
    "buffer_base md (at_offset md a x) = buffer_base md a"
    "unat (at_offset md a x) = unat (buffer_base md a) + unat x"
    unfolding buffer_offset_def buffer_base_def at_offset_def modulo_mask_mask by (rule splice)+
qed

lemma at_own_offset: "at_offset md a (buffer_offset md a) = a"
  unfolding at_offset_def buffer_base_def buffer_offset_def by (simp add: bit_eq_iff bit_simps) blast

definition offset_up :: "u16 \<Rightarrow> u16 \<Rightarrow> u16" where
  "offset_up md x = (if x = md then 0 else x + 1)"

definition offset_down :: "u16 \<Rightarrow> u16 \<Rightarrow> u16" where
  "offset_down md x = (if x = 0 then md else x - 1)"

lemma unat_plus_and_mask:
  "k \<le> 16 \<Longrightarrow> unat ((a + b :: u16) AND mask k) = (unat a + unat b) mod 2 ^ k"
  using le_imp_power_dvd [of k 16 "2 :: nat"] by (simp add: unat_and_mask unat_word_ariths mod_mod_cancel)

lemma add_and_mask: "k \<le> 16 \<Longrightarrow> (a + b :: u16) AND mask k = ((a AND mask k) + b) AND mask k"
  by (rule word_unat_eq_iff [THEN iffD2]) (simp only: unat_plus_and_mask, simp only: unat_and_mask mod_add_left_eq)

lemma offset_inside:
  fixes x :: u16
  assumes "x \<le> md"
  shows "x \<noteq> md \<Longrightarrow> unat (x + 1) = unat x + 1" "x \<noteq> md \<Longrightarrow> x + 1 \<le> md"
    "x \<noteq> 0 \<Longrightarrow> unat (x - 1) = unat x - 1" "x \<noteq> 0 \<Longrightarrow> x - 1 \<le> md"
proof -
  have le: "unat x \<le> unat md" "unat md < 65536"
    using assms unat_lt_2p16 [of md] by (simp_all add: word_le_nat_alt)
  show up: "x \<noteq> md \<Longrightarrow> unat (x + 1) = unat x + 1"
    using le by (subst unat_word_ariths) (auto simp: word_unat_eq_iff)
  show "x \<noteq> md \<Longrightarrow> x + 1 \<le> md"
    using le up by (auto simp: word_le_nat_alt word_unat_eq_iff)
  show down: "x \<noteq> 0 \<Longrightarrow> unat (x - 1) = unat x - 1"
    by (rule unat_minus_one)
  show "x \<noteq> 0 \<Longrightarrow> x - 1 \<le> md"
    using le down by (simp add: word_le_nat_alt)
qed

lemma offset_in_mask:
  assumes "x \<le> md"
  shows "x AND modulo_mask md = x"
  unfolding modulo_mask_mask
  using assms log2p1_bounds [of md] by (intro low_and_mask) (simp_all add: word_le_nat_alt)

lemma next_in_mask:
  assumes "x \<le> md"
  shows "(x + 1) AND modulo_mask md = (md + 1) AND modulo_mask md \<longleftrightarrow> x = md"
proof (cases "x = md")
  case False
  let ?k = "log2p1 md"
  have u: "unat (x + 1) = unat x + 1" "unat x < unat md" "unat (x + 1) \<le> unat md"
    using offset_inside [OF assms] False assms by (auto simp: word_le_nat_alt word_unat_eq_iff)
  have "unat ((md + 1) AND modulo_mask md) = (unat md + 1) mod 2 ^ ?k"
    unfolding modulo_mask_mask using unat_plus_and_mask [OF log2p1_bounds(2)] by simp
  moreover have "(unat md + 1) mod 2 ^ ?k = (if unat md + 1 = 2 ^ ?k then 0 else unat md + 1)"
    using log2p1_bounds(1) [of md] by auto
  moreover have "unat ((x + 1) AND modulo_mask md) = unat x + 1"
    using offset_in_mask [of "x + 1" md] offset_inside [OF assms] False u(1) by simp
  ultimately show ?thesis
    using False u(2) by (auto simp: word_unat_eq_iff)
qed simp

lemma minus_one_u16:
  "(0xFFFF :: u16) = - 1" "\<not> (- 1 :: u16) < 0x8000" "drop_bit 15 (- 1 :: u16) \<noteq> 0"
  by code_simp+

lemma step_modulo_by_one:
  assumes "buffer_offset md a \<le> md"
  shows "step_modulo md 1 a = at_offset md a (offset_up md (buffer_offset md a))"
    "step_modulo md 0xFFFF a = at_offset md a (offset_down md (buffer_offset md a))"
proof -
  let ?x = "a AND modulo_mask md"
  have x: "?x \<le> md"
    using assms by (simp add: buffer_offset_def)
  have up: "(a + 1) AND modulo_mask md = (?x + 1) AND modulo_mask md"
    unfolding modulo_mask_mask by (rule add_and_mask [OF log2p1_bounds(2)])
  show "step_modulo md 1 a = at_offset md a (offset_up md (buffer_offset md a))"
    using next_in_mask [OF x] offset_in_mask [of "?x + 1" md] offset_inside(2) [OF x]
    by (simp add: step_modulo_def Let_def up at_offset_def buffer_base_def buffer_offset_def offset_up_def)
  show "step_modulo md 0xFFFF a = at_offset md a (offset_down md (buffer_offset md a))"
    using offset_in_mask [of "?x - 1" md] offset_in_mask [of md md] offset_inside(4) [OF x]
    unfolding minus_one_u16(1)
    by (simp add: step_modulo_def Let_def minus_one_u16(2) at_offset_def buffer_base_def buffer_offset_def
        offset_down_def)
qed

lemma step_legacy_by_one:
  assumes "buffer_offset md a \<le> md" "md \<noteq> 0"
  shows "step_legacy False md 1 a = at_offset md a (offset_up md (buffer_offset md a))"
    "step_legacy False md 0xFFFF a = at_offset md a (offset_down md (buffer_offset md a))"
proof -
  let ?x = "a AND modulo_mask md"
  have x: "?x \<le> md"
    using assms by (simp add: buffer_offset_def)
  have mask1: "modulo_mask (md OR 1) = modulo_mask md"
    using assms(2) by (simp add: modulo_mask_def log2p1_or_1)
  have plus: "(a + s) AND modulo_mask md = (?x + s) AND modulo_mask md" for s
    unfolding modulo_mask_mask by (rule add_and_mask [OF log2p1_bounds(2)])
  show "step_legacy False md 1 a = at_offset md a (offset_up md (buffer_offset md a))"
    using offset_in_mask [of "?x + 1" md] offset_inside(2) [OF x] plus [of 1]
    by (simp add: step_legacy_def Let_def mask1 at_offset_def buffer_base_def buffer_offset_def offset_up_def)
  show "step_legacy False md 0xFFFF a = at_offset md a (offset_down md (buffer_offset md a))"
    using offset_in_mask [of "?x - 1" md] offset_inside(4) [OF x] plus [of "- 1"]
    unfolding minus_one_u16(1)
    by (simp add: step_legacy_def Let_def minus_one_u16(3) at_offset_def buffer_base_def buffer_offset_def
        offset_down_def)
qed

section \<open>The cyclic buffer\<close>

definition in_buffer :: "nat \<Rightarrow> registers \<Rightarrow> u16 \<Rightarrow> bool" where
  "in_buffer unit r address \<longleftrightarrow> rg_br r ! unit = 0 \<and> rg_m r ! unit \<noteq> 0 \<and> unit_mod unit r \<noteq> 0
     \<and> buffer_offset (unit_mod unit r) address \<le> unit_mod unit r"

lemma step_address_by_one:
  assumes "in_buffer unit r a"
  shows "step_address unit a Step_Increase False r
      = at_offset (unit_mod unit r) a (offset_up (unit_mod unit r) (buffer_offset (unit_mod unit r) a))"
    and "step_address unit a Step_Decrease False r
      = at_offset (unit_mod unit r) a (offset_down (unit_mod unit r) (buffer_offset (unit_mod unit r) a))"
  using assms step_modulo_by_one [of "unit_mod unit r" a] step_legacy_by_one [of "unit_mod unit r" a]
  by (simp_all add: in_buffer_def step_address_def is_mode1_def is_mode2_def Let_def)

lemma offset_up_le: "x \<le> md \<Longrightarrow> offset_up md x \<le> md"
  and unat_offset_up: "x \<le> md \<Longrightarrow> unat (offset_up md x) = (unat x + 1) mod (unat md + 1)"
  and offset_down_up: "x \<le> md \<Longrightarrow> offset_down md (offset_up md x) = x"
  using offset_inside [of x md] by (auto simp: offset_up_def offset_down_def word_le_nat_alt word_unat_eq_iff)

lemma steps_up:
  assumes "in_buffer unit r a"
  shows "\<exists>x \<le> unit_mod unit r. ((\<lambda>a. step_address unit a Step_Increase False r) ^^ n) a = at_offset (unit_mod unit r) a x
    \<and> unat x = (unat (buffer_offset (unit_mod unit r) a) + n) mod (unat (unit_mod unit r) + 1)"
proof (induction n)
  case 0
  show ?case
    using assms by (intro exI [of _ "buffer_offset (unit_mod unit r) a"])
      (simp add: in_buffer_def at_own_offset word_le_nat_alt)
next
  case (Suc n)
  let ?md = "unit_mod unit r"
  from Suc obtain x where x: "x \<le> ?md"
    "((\<lambda>a. step_address unit a Step_Increase False r) ^^ n) a = at_offset ?md a x"
    "unat x = (unat (buffer_offset ?md a) + n) mod (unat ?md + 1)"
    by blast
  have f: "buffer_offset ?md (at_offset ?md a x) = x" "buffer_base ?md (at_offset ?md a x) = buffer_base ?md a"
    using at_offset_facts [of x ?md a] x(1) by (simp_all add: word_le_nat_alt)
  then have "in_buffer unit r (at_offset ?md a x)"
    using assms x(1) by (simp add: in_buffer_def)
  from step_address_by_one(1) [OF this] f x(2)
  have "((\<lambda>a. step_address unit a Step_Increase False r) ^^ Suc n) a = at_offset ?md a (offset_up ?md x)"
    by (simp add: at_offset_def)
  moreover have "unat (offset_up ?md x) = (unat (buffer_offset ?md a) + Suc n) mod (unat ?md + 1)"
    using unat_offset_up [OF x(1)] x(3) by (simp add: mod_Suc_eq)
  ultimately show ?case
    using offset_up_le [OF x(1)] by blast
qed

text \<open>
  C18: Modulo addressing is a cyclic buffer, in the scheme of the older processor and in the new one
  alike. For an address whose offset in its aligned block is within the modulus, n steps up leave
  the block as it is and the offset at the sum modulo the size of the buffer, and a step down
  undoes a step up.
\<close>

theorem modulo_addressing_cycles:
  assumes "in_buffer unit r address"
  shows "unat (((\<lambda>a. step_address unit a Step_Increase False r) ^^ n) address)
      = unat (buffer_base (unit_mod unit r) address)
        + (unat (buffer_offset (unit_mod unit r) address) + n) mod (unat (unit_mod unit r) + 1)
    \<and> step_address unit (step_address unit address Step_Increase False r) Step_Decrease False r = address"
proof
  let ?md = "unit_mod unit r" and ?x = "buffer_offset (unit_mod unit r) address"
  from steps_up [OF assms] obtain x where "x \<le> ?md"
    "((\<lambda>a. step_address unit a Step_Increase False r) ^^ n) address = at_offset ?md address x"
    "unat x = (unat ?x + n) mod (unat ?md + 1)"
    by blast
  then show "unat (((\<lambda>a. step_address unit a Step_Increase False r) ^^ n) address)
      = unat (buffer_base ?md address) + (unat ?x + n) mod (unat ?md + 1)"
    using at_offset_facts(3) [of x ?md address] by (simp add: word_le_nat_alt)
  have le: "?x \<le> ?md"
    using assms by (simp add: in_buffer_def)
  have f: "buffer_offset ?md (at_offset ?md address (offset_up ?md ?x)) = offset_up ?md ?x"
    "buffer_base ?md (at_offset ?md address (offset_up ?md ?x)) = buffer_base ?md address"
    using at_offset_facts [of "offset_up ?md ?x" ?md address] offset_up_le [OF le] by (simp_all add: word_le_nat_alt)
  then have "in_buffer unit r (at_offset ?md address (offset_up ?md ?x))"
    using assms offset_up_le [OF le] by (simp add: in_buffer_def)
  from step_address_by_one(2) [OF this] step_address_by_one(1) [OF assms] f offset_down_up [OF le] at_own_offset [of ?md address]
  show "step_address unit (step_address unit address Step_Increase False r) Step_Decrease False r = address"
    by (simp add: at_offset_def)
qed

definition buffer_registers :: registers where
  "buffer_registers = registers_reset\<lparr>rg_modi := 9, rg_m := (rg_m registers_reset)[1 := 1]\<rparr>"

lemma modulo_addressing_cycles_witness:
  "unat (((\<lambda>a. step_address 1 a Step_Increase False buffer_registers) ^^ 5) 0x0127) = 0x0120 + (7 + 5) mod 10
    \<and> step_address 1 (step_address 1 0x0127 Step_Increase False buffer_registers) Step_Decrease False
        buffer_registers = 0x0127"
proof -
  have "in_buffer 1 buffer_registers 0x0127" "unat (buffer_base (unit_mod 1 buffer_registers) 0x0127) = 0x0120"
    "unat (buffer_offset (unit_mod 1 buffer_registers) 0x0127) = 7" "unat (unit_mod 1 buffer_registers) = 9"
    by code_simp+
  with modulo_addressing_cycles [of 1 buffer_registers "0x0127" 5] show ?thesis
    by simp
qed

end
