(* ===== verification/Disasm_Settings.thy ===== *)
theory Disasm_Settings
  imports Disassembler Run_Invariant Modulo_Addressing
begin

unbundle bit_operations_syntax

text \<open>
  The disassembler takes the words of the address configuration apart on its own; the interpreter
  reads the same words through the bit fields of its register file. The two agree.
\<close>

section \<open>The configuration words of the registers\<close>

definition settings_of :: "registers \<Rightarrow> ar_arp_settings" where
  "settings_of r = \<lparr>set_ar = map (\<lambda>i. pseudo_get (ar_slots i) r) [0..<2],
     set_arp = map (\<lambda>i. pseudo_get (arp_slots i) r) [0..<4]\<rparr>"

text \<open>What the interpreter does with an operand, in the words of the disassembler.\<close>

fun step_text :: "step_value \<Rightarrow> string" where
  "step_text Step_Zero = ''++0''"
| "step_text Step_Increase = ''++1''"
| "step_text Step_Decrease = ''--1''"
| "step_text Step_PlusStep = ''++s''"
| "step_text Step_Increase2Mode1 = ''++2''"
| "step_text Step_Decrease2Mode1 = ''--2''"
| "step_text Step_Increase2Mode2 = ''++2*''"
| "step_text Step_Decrease2Mode2 = ''--2*''"

definition offset_text :: "u16 \<Rightarrow> string" where
  "offset_text v =
     (if v = Offset_Zero then ''+0'' else if v = Offset_PlusOne then ''+1''
      else if v = Offset_MinusOne then ''-1'' else ''-1*'')"

section \<open>Taking the words apart\<close>

lemma bits_below:
  assumes "v < 4 \<or> v < 8" "bit (v :: u16) k"
  shows "k < 3" "v < 4 \<Longrightarrow> k < 2"
proof -
  have "v AND mask 3 = v"
    using assms(1) by (intro low_and_mask) (auto simp: word_less_nat_alt)
  with assms(2) show "k < 3"
    by (metis bit_and_iff bit_mask_iff)
  assume "v < 4"
  then have "v AND mask 2 = v"
    by (intro low_and_mask) (simp_all add: word_less_nat_alt)
  with assms(2) show "k < 2"
    by (metis bit_and_iff bit_mask_iff)
qed

lemma word_fields:
  fixes s0 s1 o0 o1 n0 n1 :: u16
  assumes "s0 < 8" "s1 < 8" "o0 < 4" "o1 < 4" "n0 < 8" "n1 < 8"
    and "w = push_bit 0 s0 OR (push_bit 3 o0 OR (push_bit 5 s1 OR (push_bit 8 o1 OR (push_bit 10 n0 OR push_bit 13 n1))))"
  shows "w AND 31 = s0 OR push_bit 3 o0" "drop_bit 5 w AND 31 = s1 OR push_bit 3 o1"
    "drop_bit 10 w AND 7 = n0" "drop_bit 13 w AND 7 = n1"
    "n0 < 4 \<Longrightarrow> drop_bit 10 w AND 3 = n0" "n1 < 4 \<Longrightarrow> drop_bit 13 w AND 3 = n1"
proof -
  have b: "bit s0 k \<Longrightarrow> k < 3" "bit s1 k \<Longrightarrow> k < 3" "bit o0 k \<Longrightarrow> k < 2" "bit o1 k \<Longrightarrow> k < 2"
    "bit n0 k \<Longrightarrow> k < 3" "bit n1 k \<Longrightarrow> k < 3" for k
    using bits_below [of s0 k] bits_below [of s1 k] bits_below [of o0 k] bits_below [of o1 k] bits_below [of n0 k]
      bits_below [of n1 k] assms(1-6) by blast+
  have b': "n0 < 4 \<Longrightarrow> bit n0 k \<Longrightarrow> k < 2" "n1 < 4 \<Longrightarrow> bit n1 k \<Longrightarrow> k < 2" for k
    using bits_below by blast+
  have m: "(31 :: u16) = mask 5" "(7 :: u16) = mask 3" "(3 :: u16) = mask 2"
    by (simp_all add: mask_eq_exp_minus_1)
  note bits = assms(7) bit_simps
  show "w AND 31 = s0 OR push_bit 3 o0" "drop_bit 5 w AND 31 = s1 OR push_bit 3 o1"
    "drop_bit 10 w AND 7 = n0" "drop_bit 13 w AND 7 = n1"
    "n0 < 4 \<Longrightarrow> drop_bit 10 w AND 3 = n0" "n1 < 4 \<Longrightarrow> drop_bit 13 w AND 3 = n1"
    unfolding m by (rule bit_word_eqI, auto simp: bits dest: b b' bit_imp_le_length)+
qed

lemma text_fields:
  assumes "s < 8" "v < 4"
  shows "convert_ar_step_and_offset (s OR push_bit 3 v) = offset_names ! unat v @ step_names ! unat s"
proof -
  have b: "bit s k \<Longrightarrow> k < 3" "bit v k \<Longrightarrow> k < 2" for k
    using bits_below [of s k] bits_below [of v k] assms by blast+
  have m: "(7 :: u16) = mask 3"
    by (simp add: mask_eq_exp_minus_1)
  have "drop_bit 3 (s OR push_bit 3 v) = v" "(s OR push_bit 3 v) AND 7 = s"
    unfolding m by (rule bit_word_eqI, auto simp: bit_simps dest: b)+
  then show ?thesis
    by (simp add: convert_ar_step_and_offset_def)
qed

lemma small_words:
  "(v :: u16) < 4 \<Longrightarrow> v \<in> {0, 1, 2, 3}" "(v :: u16) < 8 \<Longrightarrow> v \<in> {0, 1, 2, 3, 4, 5, 6, 7}"
proof -
  have "v = of_nat (unat v)" by simp
  show "v < 4 \<Longrightarrow> v \<in> {0, 1, 2, 3}"
    using word_below_4 by blast
  show "v < 8 \<Longrightarrow> v \<in> {0, 1, 2, 3, 4, 5, 6, 7}"
    by (simp add: word_less_nat_alt word_unat_eq_iff) arith
qed

lemma offset_name: "v < 4 \<Longrightarrow> offset_names ! unat v = offset_text v"
  by (drule small_words) (auto simp: offset_names_def offset_text_def offset_values)

lemma step_name: "s < 8 \<Longrightarrow> \<exists>step. convert_ar_step s = Inr step \<and> step_names ! unat s = step_text step"
  by (drule small_words) (auto simp: step_names_def convert_ar_step_def)

section \<open>The two readings agree\<close>

lemma ar_word:
  assumes "regs_wf r" "k < 2" "w = set_ar (settings_of r) ! k"
  shows "w AND 31 = rg_arstep r ! (2 * k + 1) OR push_bit 3 (rg_aroffset r ! (2 * k + 1))"
    "drop_bit 5 w AND 31 = rg_arstep r ! (2 * k) OR push_bit 3 (rg_aroffset r ! (2 * k))"
    "drop_bit 10 w AND 7 = rg_arrn r ! (2 * k + 1)" "drop_bit 13 w AND 7 = rg_arrn r ! (2 * k)"
proof -
  have lt: "2 * k < 4" "2 * k + 1 < 4"
    using assms(2) by simp_all
  note r = wf_ranges [OF assms(1)]
  have "w = push_bit 0 (rg_arstep r ! (2 * k + 1)) OR (push_bit 3 (rg_aroffset r ! (2 * k + 1)) OR
      (push_bit 5 (rg_arstep r ! (2 * k)) OR (push_bit 8 (rg_aroffset r ! (2 * k)) OR
      (push_bit 10 (rg_arrn r ! (2 * k + 1)) OR push_bit 13 (rg_arrn r ! (2 * k))))))"
    using assms(2,3) by (simp add: settings_of_def ar_slots_def proxy_slot_of_def array_redirector_def mult.commute)
  from word_fields [OF r(4) [OF lt(2)] r(4) [OF lt(1)] r(7) [OF lt(2)] r(7) [OF lt(1)] r(1) [OF lt(2)] r(1) [OF lt(1)] this]
  show "w AND 31 = rg_arstep r ! (2 * k + 1) OR push_bit 3 (rg_aroffset r ! (2 * k + 1))"
    "drop_bit 5 w AND 31 = rg_arstep r ! (2 * k) OR push_bit 3 (rg_aroffset r ! (2 * k))"
    "drop_bit 10 w AND 7 = rg_arrn r ! (2 * k + 1)" "drop_bit 13 w AND 7 = rg_arrn r ! (2 * k)"
    by simp_all
qed

lemma arp_word:
  assumes "regs_wf r" "i < 4" "w = set_arp (settings_of r) ! i"
  shows "w AND 31 = rg_arpstepi r ! i OR push_bit 3 (rg_arpoffseti r ! i)"
    "drop_bit 5 w AND 31 = rg_arpstepj r ! i OR push_bit 3 (rg_arpoffsetj r ! i)"
    "drop_bit 10 w AND 3 = rg_arprni r ! i" "drop_bit 13 w AND 3 = rg_arprnj r ! i"
proof -
  note r = wf_ranges [OF assms(1)]
  have r8: "rg_arprni r ! i < 8" "rg_arprnj r ! i < 8"
    using r(2,3) [OF assms(2)] by (auto elim: less_trans)
  have "w = push_bit 0 (rg_arpstepi r ! i) OR (push_bit 3 (rg_arpoffseti r ! i) OR
      (push_bit 5 (rg_arpstepj r ! i) OR (push_bit 8 (rg_arpoffsetj r ! i) OR
      (push_bit 10 (rg_arprni r ! i) OR push_bit 13 (rg_arprnj r ! i)))))"
    using assms(2,3) by (simp add: settings_of_def arp_slots_def proxy_slot_of_def array_redirector_def)
  from word_fields [OF r(5) [OF assms(2)] r(6) [OF assms(2)] r(8) [OF assms(2)] r(9) [OF assms(2)] r8 this]
  show "w AND 31 = rg_arpstepi r ! i OR push_bit 3 (rg_arpoffseti r ! i)"
    "drop_bit 5 w AND 31 = rg_arpstepj r ! i OR push_bit 3 (rg_arpoffsetj r ! i)"
    "drop_bit 10 w AND 3 = rg_arprni r ! i" "drop_bit 13 w AND 3 = rg_arprnj r ! i"
    using r(2,3) [OF assms(2)] by simp_all
qed

lemma ar_text:
  assumes "regs_wf r" "i < 4"
  shows "text_ar_rn (Some (settings_of r)) i = ''%r'' @ to_string (unat (rg_arrn r ! i))"
    "text_ar_step (Some (settings_of r)) i = convert_ar_step_and_offset (rg_arstep r ! i OR push_bit 3 (rg_aroffset r ! i))"
proof -
  have k: "i div 2 < 2" "i = 2 * (i div 2) + i mod 2"
    using assms(2) by auto
  note w = ar_word [OF assms(1) k(1) refl]
  show "text_ar_rn (Some (settings_of r)) i = ''%r'' @ to_string (unat (rg_arrn r ! i))"
    "text_ar_step (Some (settings_of r)) i = convert_ar_step_and_offset (rg_arstep r ! i OR push_bit 3 (rg_aroffset r ! i))"
    using w k(2) by (cases "even i"; simp add: text_ar_rn_def text_ar_step_def odd_iff_mod_2_eq_one even_iff_mod_2_eq_zero)+
qed

text \<open>
  C19: The disassembler shows what the interpreter does. Given the configuration words as a program
  reads them from the registers, the text of an indirect operand names the address register, the
  offset and the step the interpreter uses for it, for single operands and for pairs.
\<close>

theorem disassembler_shows_configuration:
  assumes "regs_wf r" "i < 4"
  shows "text_ar_rn (Some (settings_of r)) i = ''%r'' @ to_string (get_ar_rn_unit i r)
    \<and> (\<exists>step. get_ar_step i r = Inr step \<and>
        text_ar_step (Some (settings_of r)) i = offset_text (get_ar_offset i r) @ step_text step)
    \<and> text_arp_rni (Some (settings_of r)) i = ''%r'' @ to_string (fst (get_arp_rn_unit i r))
    \<and> text_arp_rnj (Some (settings_of r)) i = ''%r'' @ to_string (snd (get_arp_rn_unit i r))
    \<and> (\<exists>stepi stepj. get_arp_step i i r = Inr (stepi, stepj) \<and>
        text_arp_stepi (Some (settings_of r)) i = offset_text (fst (get_arp_offset i i r)) @ step_text stepi \<and>
        text_arp_stepj (Some (settings_of r)) i = offset_text (snd (get_arp_offset i i r)) @ step_text stepj)"
proof -
  note r = wf_ranges [OF assms(1)]
  have "unat (rg_arprnj r ! i + 4) = unat (rg_arprnj r ! i) + 4"
    using r(3) [OF assms(2)] by (simp add: word_less_nat_alt unat_word_ariths)
  then show ?thesis
    using step_name [OF r(4) [OF assms(2)]] step_name [OF r(5) [OF assms(2)]] step_name [OF r(6) [OF assms(2)]]
      offset_name r(7-9) [OF assms(2)]
    by (auto simp: ar_text [OF assms] text_fields r assms(2) get_ar_rn_unit_def get_ar_step_def get_ar_offset_def
        text_arp_rni_def text_arp_rnj_def text_arp_stepi_def text_arp_stepj_def arp_word [OF assms refl]
        get_arp_rn_unit_def get_arp_step_def get_arp_offset_def)
qed

lemma disassembler_shows_configuration_witness:
  "\<exists>step. get_ar_step 3 registers_reset = Inr step \<and>
     text_ar_step (Some (settings_of registers_reset)) 3 = offset_text (get_ar_offset 3 registers_reset) @ step_text step"
  using disassembler_shows_configuration [OF registers_reset_wf, of 3] by simp

end
