(* ===== verification/C_Bindings.thy ===== *)
theory C_Bindings
  imports Disassembler
begin

text \<open>
  src/src/disassembler_c.cpp: the disassembler behind C linkage, which copies the text into a buffer
  of the caller. A store past the end of the buffer is the failure \<open>OutOfBounds\<close>. The other C
  functions, in src/src/teakra_c.cpp, are the calls of the host one to one.
\<close>

section \<open>The buffer\<close>

definition store_char :: "nat \<Rightarrow> char \<Rightarrow> char list \<Rightarrow> char list result" where
  "store_char i c dst = (if i < length dst then Inr (dst[i := c]) else Inl OutOfBounds)"

text \<open>The loop: \<open>limit\<close> is \<open>dstlen - 1\<close> at its width, which wraps for an empty buffer.\<close>

function copy_text :: "u64 \<Rightarrow> string \<Rightarrow> nat \<Rightarrow> char list \<Rightarrow> char list result" where
  "copy_text limit r i dst =
     (if i < unat limit \<and> i < length r
      then rbind (store_char i (r ! i) dst) (copy_text limit r (i + 1))
      else Inr dst)"
  by auto

termination
  by (relation "measure (\<lambda>(limit, r, i, dst). length r - i)") auto

definition disasm_do :: "char list option \<Rightarrow> u64 \<Rightarrow> u16 \<Rightarrow> u16 \<Rightarrow> (nat \<times> char list option) result" where
  "disasm_do dst dstlen opcode expansion =
     rbind (disassemble opcode expansion None) (\<lambda>r.
     case dst of
       None \<Rightarrow> Inr (length r, None)
     | Some buffer \<Rightarrow>
         rbind (copy_text (dstlen - 1) r 0 buffer) (\<lambda>buffer.
         rbind (store_char (unat (dstlen - 1)) (CHR 0x00) buffer) (\<lambda>buffer.
           Inr (length r, Some buffer))))"

section \<open>Lemmas\<close>

declare copy_text.simps [simp del]

lemma copy_text_fits:
  "i \<le> length r \<Longrightarrow> unat limit \<le> length dst \<Longrightarrow>
   copy_text limit r i dst = Inr (take i dst @ take (unat limit - i) (drop i r) @ drop (max i (min (unat limit) (length r))) dst)"
proof (induction limit r i dst rule: copy_text.induct)
  case (1 limit r i dst)
  show ?case
  proof (cases "i < unat limit \<and> i < length r")
    case True
    then have "i < length dst"
      using 1 by simp
    moreover have "take (unat limit - i) (drop i r) = r ! i # take (unat limit - (i + 1)) (drop (i + 1) r)"
      using True by (simp add: Cons_nth_drop_Suc [symmetric] take_Cons' Suc_diff_Suc)
    ultimately show ?thesis
      using True 1 by (subst copy_text.simps) (simp add: store_char_def take_Suc_conv_app_nth max_def min_def)
  next
    case False
    with 1 show ?thesis
      by (subst copy_text.simps) (auto simp: max_def min_def)
  qed
qed

lemma copy_text_length: "copy_text limit r i dst = Inr dst' \<Longrightarrow> length dst' = length dst"
proof (induction limit r i dst rule: copy_text.induct)
  case (1 limit r i dst)
  from "1.prems" "1.IH" show ?case
    by (subst (asm) copy_text.simps) (auto simp: store_char_def split: if_splits)
qed

lemma copy_text_error: "copy_text limit r i dst = Inl e \<Longrightarrow> e = OutOfBounds"
proof (induction limit r i dst rule: copy_text.induct)
  case (1 limit r i dst)
  from "1.prems" "1.IH" show ?case
    by (subst (asm) copy_text.simps) (auto simp: store_char_def split: if_splits)
qed

section \<open>Properties\<close>

text \<open>
  C39: What the C function leaves in the caller's buffer. A buffer of its stated, nonzero length gets
  as much of the text as fits before the last byte, keeps its old contents between the end of
  the text and the last byte, and ends with a zero there; so the text has no terminator of its own.
  With a length of zero the function writes outside any buffer. The length of the whole text is
  returned, with or without a buffer.
\<close>

theorem disasm_do_buffer:
  assumes "0 < length dst" "length dst < 2 ^ 64"
  shows "\<exists>r. disassemble opcode expansion None = Inr r \<and>
    disasm_do None n opcode expansion = Inr (length r, None) \<and>
    disasm_do (Some dst) (of_nat (length dst)) opcode expansion =
      Inr (length r, Some (take (length dst - 1) (r @ drop (length r) dst) @ [CHR 0x00])) \<and>
    disasm_do (Some dst) 0 opcode expansion = Inl OutOfBounds"
proof -
  obtain ts where "get_token_list opcode expansion None = Inr ts"
    by (rule get_token_list_total)
  then obtain r where r: "disassemble opcode expansion None = Inr r"
    by (simp add: disassemble_def)
  define limit :: u64 where "limit = of_nat (length dst) - 1"
  have limit: "unat limit = length dst - 1"
    unfolding limit_def using assms by (subst unat_minus_one) (auto simp: unat_of_nat take_bit_nat_eq_self word_of_nat_eq_0_iff dest: nat_dvd_not_less)
  let ?copied = "take (unat limit) r @ drop (min (unat limit) (length r)) dst"
  have c: "copy_text limit r 0 dst = Inr ?copied"
    using copy_text_fits [of 0 r limit dst] limit by simp
  have "length ?copied = length dst"
    using limit by simp
  then have "store_char (unat limit) (CHR 0x00) ?copied = Inr (take (unat limit) ?copied @ [CHR 0x00])"
    using limit assms(1) by (simp only: store_char_def upd_conv_take_nth_drop) (simp add: min_def)
  moreover have "take (unat limit) ?copied = take (length dst - 1) (r @ drop (length r) dst)"
    using limit by (cases "length r \<le> unat limit") (simp_all add: min_def)
  ultimately have full: "disasm_do (Some dst) (of_nat (length dst)) opcode expansion =
      Inr (length r, Some (take (length dst - 1) (r @ drop (length r) dst) @ [CHR 0x00]))"
    using r c by (simp add: disasm_do_def limit_def [symmetric])
  have "unat (- 1 :: u64) = 2 ^ 64 - 1"
    by (simp add: unsigned_minus_1_eq_mask mask_eq_exp_minus_1)
  then have "store_char (unat (- 1 :: u64)) (CHR 0x00) d = Inl OutOfBounds" if "length d = length dst" for d
    using that assms(2) by (simp add: store_char_def)
  then have "disasm_do (Some dst) 0 opcode expansion = Inl OutOfBounds"
    using r copy_text_length [of "- 1" r 0 dst] copy_text_error [of "- 1" r 0 dst]
    by (cases "copy_text (- 1) r 0 dst") (simp_all add: disasm_do_def)
  with r full show ?thesis
    by (simp add: disasm_do_def)
qed

lemma disasm_do_buffer_witness:
  "\<exists>r. disassemble 0 0 None = Inr r \<and> disasm_do None 0 0 0 = Inr (length r, None) \<and>
    disasm_do (Some ''abcdefgh'') (of_nat (length ''abcdefgh'')) 0 0 =
      Inr (length r, Some (take (length ''abcdefgh'' - 1) (r @ drop (length r) ''abcdefgh'') @ [CHR 0x00])) \<and>
    disasm_do (Some ''abcdefgh'') 0 0 0 = Inl OutOfBounds"
  by (rule disasm_do_buffer) simp_all

end
