(* ===== verification/Assembler_Parser.thy ===== *)
theory Assembler_Parser
  imports Disassembler "HOL-Library.Sublist"
begin

unbundle bit_operations_syntax

text \<open>
  src/src/parser.h and src/src/parser.cpp: the parser of the assembler. It is a tree of tokens, filled
  with the disassembly of every opcode in ascending order, so that of several opcodes with the same
  text the least one is found.
\<close>

section \<open>The tree\<close>

text \<open>
  A node has a mark, the opcode that ends there, whether it takes a second word, and the nodes
  below it by token. The keys for expansions, which the code declares and never inserts, are left out.
\<close>

datatype node = Node (nd_end: bool) (nd_opcode: u16) (nd_expansion: bool) (nd_children: "string \<Rightarrow> node option")

definition empty_node :: node where
  "empty_node = Node False 0 False (\<lambda>_. None)"

datatype opcode_status = Invalid | Valid | ValidWithExpansion

record parsed_opcode =
  po_status :: opcode_status
  po_opcode :: u16

definition invalid_opcode :: parsed_opcode where
  "invalid_opcode = \<lparr>po_status = Invalid, po_opcode = 0\<rparr>"

section \<open>Parsing\<close>

fun parse_from :: "node \<Rightarrow> string list \<Rightarrow> parsed_opcode" where
  "parse_from current [] =
     (if \<not> nd_end current then invalid_opcode
      else \<lparr>po_status = (if nd_expansion current then ValidWithExpansion else Valid), po_opcode = nd_opcode current\<rparr>)"
| "parse_from current (token # tokens) =
     (case nd_children current token of
        None \<Rightarrow> invalid_opcode
      | Some child \<Rightarrow> parse_from child tokens)"

section \<open>Generating the tree\<close>

fun add_tokens :: "u16 \<Rightarrow> bool \<Rightarrow> string list \<Rightarrow> node \<Rightarrow> node result" where
  "add_tokens opcode expansion [] current =
     (if nd_end current then rbind (rassert (nd_opcode current AND NOT opcode = 0)) (\<lambda>_. Inr current)
      else Inr (Node True opcode expansion (nd_children current)))"
| "add_tokens opcode expansion (token # tokens) current =
     (let child = (case nd_children current token of None \<Rightarrow> empty_node | Some n \<Rightarrow> n) in
      rbind (add_tokens opcode expansion tokens child) (\<lambda>child'.
        Inr (Node (nd_end current) (nd_opcode current) (nd_expansion current)
               ((nd_children current)(token \<mapsto> child')))))"

definition has_error :: "string list \<Rightarrow> bool" where
  "has_error tokens = list_ex (\<lambda>token. sublist ''[ERROR]'' token) tokens"

definition add_opcode :: "u16 \<Rightarrow> node \<Rightarrow> node result" where
  "add_opcode opcode root =
     rbind (need_expansion opcode) (\<lambda>expansion.
     rbind (get_token_list opcode 0 None) (\<lambda>tokens.
     if has_error tokens then Inr root else add_tokens opcode expansion tokens root))"

fun add_opcodes :: "u16 list \<Rightarrow> node \<Rightarrow> node result" where
  "add_opcodes [] root = Inr root"
| "add_opcodes (opcode # opcodes) root = rbind (add_opcode opcode root) (add_opcodes opcodes)"

definition generate_parser :: "node result" where
  "generate_parser = add_opcodes (map of_nat [0..<0x10000]) empty_node"

section \<open>The tree as a dictionary\<close>

text \<open>What a tree holds under a list of tokens, and the answer of the parser in these terms.\<close>

fun entry :: "node \<Rightarrow> string list \<Rightarrow> (u16 \<times> bool) option" where
  "entry n [] = (if nd_end n then Some (nd_opcode n, nd_expansion n) else None)"
| "entry n (t # ts) = (case nd_children n t of None \<Rightarrow> None | Some c \<Rightarrow> entry c ts)"

definition parsed :: "(u16 \<times> bool) option \<Rightarrow> parsed_opcode" where
  "parsed found = (case found of
     None \<Rightarrow> invalid_opcode
   | Some (opcode, expansion) \<Rightarrow>
       \<lparr>po_status = (if expansion then ValidWithExpansion else Valid), po_opcode = opcode\<rparr>)"

lemma parse_from_entry: "parse_from n ts = parsed (entry n ts)"
  by (induction n ts rule: parse_from.induct) (auto simp: parsed_def split: option.splits)

lemma entry_empty [simp]: "entry empty_node ts = None"
  by (cases ts) (simp_all add: empty_node_def)

lemma add_tokens_present:
  "entry n ts = Some (v, x) \<Longrightarrow> add_tokens opcode expansion ts n = (if v AND NOT opcode = 0 then Inr n else Inl Abort)"
proof (induction opcode expansion ts n rule: add_tokens.induct)
  case (2 opcode expansion token tokens current)
  then obtain c where c: "nd_children current token = Some c" "entry c tokens = Some (v, x)"
    by (auto split: option.splits)
  with 2 have "add_tokens opcode expansion tokens c = (if v AND NOT opcode = 0 then Inr c else Inl Abort)"
    by simp
  with c show ?case
    by (cases current) (simp add: fun_upd_idem)
qed (auto split: if_splits)

lemma add_tokens_absent:
  "entry n ts = None \<Longrightarrow> \<exists>n'. add_tokens opcode expansion ts n = Inr n' \<and> entry n' = (entry n)(ts \<mapsto> (opcode, expansion))"
proof (induction opcode expansion ts n rule: add_tokens.induct)
  case (1 opcode expansion current)
  have "entry (Node True opcode expansion (nd_children current)) ts = ((entry current)([] \<mapsto> (opcode, expansion))) ts" for ts
    by (cases ts) simp_all
  with 1 show ?case
    by (auto simp: fun_eq_iff split: if_splits)
next
  case (2 opcode expansion token tokens current)
  define child where "child = (case nd_children current token of None \<Rightarrow> empty_node | Some n \<Rightarrow> n)"
  have "entry child tokens = None"
    using 2(2) by (simp add: child_def split: option.splits)
  with 2(1) [OF child_def] obtain c where c:
    "add_tokens opcode expansion tokens child = Inr c" "entry c = (entry child)(tokens \<mapsto> (opcode, expansion))"
    by blast
  have "entry (Node (nd_end current) (nd_opcode current) (nd_expansion current) ((nd_children current)(token \<mapsto> c))) ts
    = ((entry current)(token # tokens \<mapsto> (opcode, expansion))) ts" for ts
    using c(2) by (cases ts) (auto simp: child_def split: option.splits)
  with c(1) show ?case
    by (simp add: child_def [symmetric] Let_def fun_eq_iff)
qed

section \<open>The text of an opcode\<close>

text \<open>The tokens of an opcode without a second word, for an opcode whose text has no error mark.\<close>

definition opcode_text :: "u16 \<Rightarrow> string list option" where
  "opcode_text opcode = (case get_token_list opcode 0 None of
     Inl e \<Rightarrow> None
   | Inr tokens \<Rightarrow> (if has_error tokens then None else Some tokens))"

definition takes_second_word :: "u16 \<Rightarrow> bool" where
  "takes_second_word opcode \<longleftrightarrow> need_expansion opcode = Inr True"

definition first_opcode :: "u16 list \<Rightarrow> string list \<Rightarrow> u16 option" where
  "first_opcode opcodes tokens = find (\<lambda>opcode. opcode_text opcode = Some tokens) opcodes"

lemma first_opcode_simps [simp]:
  "first_opcode [] tokens = None"
  "first_opcode (opcode # opcodes) tokens =
     (if opcode_text opcode = Some tokens then Some opcode else first_opcode opcodes tokens)"
  by (simp_all add: first_opcode_def)

lemma add_opcode_alt:
  "add_opcode opcode root = (case opcode_text opcode of
     None \<Rightarrow> Inr root
   | Some tokens \<Rightarrow> add_tokens opcode (takes_second_word opcode) tokens root)"
proof -
  obtain ts where "get_token_list opcode 0 None = Inr ts"
    by (rule get_token_list_total)
  moreover obtain x where "need_expansion opcode = Inr x"
    by (rule dsm_decode_agrees [of opcode]) (simp add: need_expansion_def)
  ultimately show ?thesis
    by (simp add: add_opcode_def opcode_text_def takes_second_word_def)
qed

text \<open>
  The tree after the opcodes of a list: what it held before, or else the first opcode of the list
  with the text. The assertion fails only for an opcode after another one with the same text.
\<close>

definition found_before :: "node \<Rightarrow> u16 list \<Rightarrow> string list \<Rightarrow> (u16 \<times> bool) option" where
  "found_before root opcodes tokens = (case entry root tokens of
     Some x \<Rightarrow> Some x
   | None \<Rightarrow> map_option (\<lambda>opcode. (opcode, takes_second_word opcode)) (first_opcode opcodes tokens))"

definition texts_clash :: "node \<Rightarrow> u16 list \<Rightarrow> bool" where
  "texts_clash root opcodes \<longleftrightarrow> (\<exists>pre o2 post tokens o1 x. opcodes = pre @ o2 # post \<and>
     opcode_text o2 = Some tokens \<and> found_before root pre tokens = Some (o1, x) \<and> o1 AND NOT o2 \<noteq> 0)"

lemma texts_clash_Cons:
  assumes "texts_clash root' opcodes" and "\<And>pre. found_before root' pre = found_before root (opcode # pre)"
  shows "texts_clash root (opcode # opcodes)"
  using assms unfolding texts_clash_def by (metis append_Cons)

lemma add_opcodes_entry:
  "case add_opcodes opcodes root of
     Inl e \<Rightarrow> e = Abort \<and> texts_clash root opcodes
   | Inr root' \<Rightarrow> entry root' = found_before root opcodes"
proof (induction opcodes arbitrary: root)
  case Nil
  then show ?case
    by (simp add: found_before_def fun_eq_iff split: option.split)
next
  case (Cons opcode opcodes)
  show ?case
  proof (cases "opcode_text opcode")
    case None
    then have "found_before root pre = found_before root (opcode # pre)" for pre
      by (simp add: found_before_def fun_eq_iff split: option.split)
    with None Cons.IH [of root] show ?thesis
      by (auto simp: add_opcode_alt intro: texts_clash_Cons split: sum.splits)
  next
    case (Some tokens)
    show ?thesis
    proof (cases "entry root tokens")
      case None
      then obtain root' where r: "add_tokens opcode (takes_second_word opcode) tokens root = Inr root'"
        "entry root' = (entry root)(tokens \<mapsto> (opcode, takes_second_word opcode))"
        using add_tokens_absent by blast
      have "found_before root' pre = found_before root (opcode # pre)" for pre
        using None Some r(2) by (auto simp: found_before_def fun_eq_iff split: option.split)
      with Some r(1) Cons.IH [of root'] show ?thesis
        by (auto simp: add_opcode_alt intro: texts_clash_Cons split: sum.splits)
    next
      case (Some x)
      obtain v e where x: "x = (v, e)"
        by (cases x)
      have same: "found_before root pre = found_before root (opcode # pre)" for pre
        using \<open>opcode_text opcode = Some tokens\<close> Some by (auto simp: found_before_def fun_eq_iff split: option.splits)
      have "texts_clash root (opcode # opcodes)" if "v AND NOT opcode \<noteq> 0"
        unfolding texts_clash_def
        by (rule exI [of _ "[]"])
           (use that x Some \<open>opcode_text opcode = Some tokens\<close> in \<open>auto simp: found_before_def\<close>)
      with Some x \<open>opcode_text opcode = Some tokens\<close> same Cons.IH [of root] show ?thesis
        by (auto simp: add_opcode_alt add_tokens_present intro: texts_clash_Cons split: sum.splits)
    qed
  qed
qed

section \<open>Properties\<close>

text \<open>Two opcodes with the same text of which the least is not contained, bit by bit, in the other.\<close>

definition ambiguous :: "u16 list \<Rightarrow> bool" where
  "ambiguous opcodes \<longleftrightarrow> (\<exists>o1 \<in> set opcodes. \<exists>o2 \<in> set opcodes. \<exists>tokens.
     opcode_text o1 = Some tokens \<and> opcode_text o2 = Some tokens \<and> o1 \<noteq> o2 \<and>
     first_opcode opcodes tokens = Some o1 \<and> o1 AND NOT o2 \<noteq> 0)"

lemma first_opcode_Some:
  "first_opcode opcodes tokens = Some o1 \<Longrightarrow> o1 \<in> set opcodes \<and> opcode_text o1 = Some tokens"
  by (induction opcodes) (auto split: if_splits)

lemma first_opcode_append:
  "first_opcode (pre @ post) tokens = (case first_opcode pre tokens of Some o1 \<Rightarrow> Some o1 | None \<Rightarrow> first_opcode post tokens)"
  by (induction pre) auto

lemma texts_clash_ambiguous: "texts_clash empty_node opcodes \<Longrightarrow> ambiguous opcodes"
proof -
  assume "texts_clash empty_node opcodes"
  then obtain pre o2 post tokens o1 where c: "opcodes = pre @ o2 # post" "opcode_text o2 = Some tokens"
    "first_opcode pre tokens = Some o1" "o1 AND NOT o2 \<noteq> 0"
    by (auto simp: texts_clash_def found_before_def)
  then have "o1 \<noteq> o2"
    by auto
  with c first_opcode_Some [OF c(3)] show ?thesis
    by (auto simp: ambiguous_def first_opcode_append)
qed

definition all_opcodes :: "u16 list" where
  "all_opcodes = map of_nat [0..<0x10000]"

text \<open>
  C13: The parser is the inverse of the disassembler. If it is generated, it gives for every list of
  tokens the least opcode whose text, free of error marks, it is, with the mark whether that opcode
  takes a second word, and refuses a list that is the text of no opcode. The generation aborts only
  if two opcodes share a text and the least has a bit the other does not have.
\<close>

theorem parser_inverts_disassembler:
  "case generate_parser of
     Inl e \<Rightarrow> e = Abort \<and> ambiguous all_opcodes
   | Inr root \<Rightarrow> parse_from root tokens =
       (case first_opcode all_opcodes tokens of
          None \<Rightarrow> invalid_opcode
        | Some opcode \<Rightarrow>
            \<lparr>po_status = (if takes_second_word opcode then ValidWithExpansion else Valid), po_opcode = opcode\<rparr>)"
  using add_opcodes_entry [of empty_node all_opcodes] texts_clash_ambiguous [of all_opcodes]
  by (auto simp: generate_parser_def all_opcodes_def [symmetric] parse_from_entry found_before_def parsed_def
      split: sum.splits option.splits)

end
