(* ===== verification/Firmware_Assembler.thy ===== *)
theory Firmware_Assembler
  imports Assembler_Parser
begin

unbundle bit_operations_syntax

text \<open>
  src/src/makedsp1/main.cpp, the assembler: lines of text become segments of words. What the program
  prints before it gives up, the exception of \<open>std::stoi\<close>, and the access to the last segment
  when there is none are its errors.
\<close>

section \<open>Tokens\<close>

definition is_blank :: "char \<Rightarrow> bool" where
  "is_blank c \<longleftrightarrow> c = CHR '' '' \<or> c = CHR 0x09"

text \<open>The loop of \<open>StringToTokens\<close> with its two variables.\<close>

fun tokens_from :: "string \<Rightarrow> bool \<Rightarrow> string list \<Rightarrow> string list" where
  "tokens_from [] need_new out = out"
| "tokens_from (c # rest) need_new out =
     (if is_blank c then tokens_from rest True out
      else let out1 = (if need_new then out @ [''''] else out) in
           tokens_from rest False (butlast out1 @ [last out1 @ [c]]))"

definition string_to_tokens :: "string \<Rightarrow> string list" where
  "string_to_tokens s = tokens_from s True []"

section \<open>Numbers\<close>

text \<open>\<open>std::stoi(s, 0, 16)\<close> on a 32-bit \<open>int\<close>; None is one of its two exceptions.\<close>

definition is_space :: "char \<Rightarrow> bool" where
  "is_space c \<longleftrightarrow> c = CHR '' '' \<or> 9 \<le> (of_char c :: nat) \<and> (of_char c :: nat) \<le> 13"

definition hex_digit :: "char \<Rightarrow> nat option" where
  "hex_digit c =
     (let n = (of_char c :: nat) in
      if 48 \<le> n \<and> n \<le> 57 then Some (n - 48)
      else if 97 \<le> n \<and> n \<le> 102 then Some (n - 87)
      else if 65 \<le> n \<and> n \<le> 70 then Some (n - 55)
      else None)"

fun skip_0x :: "string \<Rightarrow> string" where
  "skip_0x (a # x # d # rest) =
     (if a = CHR ''0'' \<and> (x = CHR ''x'' \<or> x = CHR ''X'') \<and> hex_digit d \<noteq> None then d # rest else a # x # d # rest)"
| "skip_0x s = s"

definition stoi16 :: "string \<Rightarrow> int option" where
  "stoi16 s =
     (let s1 = dropWhile is_space s;
          negative = (s1 \<noteq> [] \<and> hd s1 = CHR ''-'');
          s2 = (if negative \<or> s1 \<noteq> [] \<and> hd s1 = CHR ''+'' then tl s1 else s1);
          digits = takeWhile (\<lambda>c. hex_digit c \<noteq> None) (skip_0x s2);
          v = foldl (\<lambda>v c. 16 * v + int (the (hex_digit c))) 0 digits;
          r = (if negative then - v else v) in
      if digits = [] \<or> r < - 0x80000000 \<or> 0x80000000 \<le> r then None else Some r)"

section \<open>Lines\<close>

record segment =
  sg_data :: "u16 list"
  sg_memory_type :: u8
  sg_target :: u32

datatype line_error =
    UnexpectedLineBreak | WrongSegmentParameters | UnknownSegmentType | WrongDataParameters
  | CouldNotParse | NeedsExpansion | UnexpectedExpansion

datatype make_error = Reported line_error nat | BadNumber | NoSegment | ParserAborted

fun find_text :: "string \<Rightarrow> string \<Rightarrow> nat option" where
  "find_text pat [] = (if pat = [] then Some 0 else None)"
| "find_text pat (c # s) = (if prefix pat (c # s) then Some 0 else map_option Suc (find_text pat s))"

definition strip_comment :: "string \<Rightarrow> string" where
  "strip_comment line = (case find_text ''//'' line of None \<Rightarrow> line | Some p \<Rightarrow> take p line)"

definition number :: "string \<Rightarrow> make_error + int" where
  "number s = (case stoi16 s of None \<Rightarrow> Inl BadNumber | Some v \<Rightarrow> Inr v)"

definition ebind :: "make_error + 'a \<Rightarrow> ('a \<Rightarrow> make_error + 'b) \<Rightarrow> make_error + 'b" where
  "ebind m f = (case m of Inl e \<Rightarrow> Inl e | Inr x \<Rightarrow> f x)"

text \<open>The expansion of a line: the four digits after the mark, which are read as zeros in the text.\<close>

definition split_expansion :: "nat \<Rightarrow> string \<Rightarrow> make_error + string \<times> u16 option" where
  "split_expansion line_number line =
     (case find_text ''$'' line of
        None \<Rightarrow> Inr (line, None)
      | Some p \<Rightarrow>
          if length line - p < 5 then Inl (Reported UnexpectedLineBreak line_number)
          else ebind (number (take 4 (drop (p + 1) line))) (\<lambda>v.
                 Inr (take p line @ ''0000'' @ drop (p + 5) line, Some (of_int v))))"

text \<open>\<open>segments.back().data.push_back(v)\<close>\<close>

definition push_data :: "u16 \<Rightarrow> segment list \<Rightarrow> make_error + segment list" where
  "push_data v segments =
     (if segments = [] then Inl NoSegment
      else Inr (butlast segments @ [(last segments)\<lparr>sg_data := sg_data (last segments) @ [v]\<rparr>]))"

definition segment_line :: "nat \<Rightarrow> string list \<Rightarrow> segment list \<Rightarrow> make_error + segment list" where
  "segment_line line_number tokens segments =
     (if length tokens \<noteq> 3 then Inl (Reported WrongSegmentParameters line_number)
      else ebind (if tokens ! 1 = ''p'' then Inr 0 else if tokens ! 1 = ''d'' then Inr 2
                  else Inl (Reported UnknownSegmentType line_number)) (\<lambda>memory_type.
           ebind (number (tokens ! 2)) (\<lambda>target.
             Inr (segments @ [\<lparr>sg_data = [], sg_memory_type = memory_type, sg_target = of_int target\<rparr>]))))"

definition data_line :: "nat \<Rightarrow> string list \<Rightarrow> segment list \<Rightarrow> make_error + segment list" where
  "data_line line_number tokens segments =
     (if length tokens \<noteq> 2 then Inl (Reported WrongDataParameters line_number)
      else ebind (number (tokens ! 1)) (\<lambda>v. push_data (of_int v) segments))"

definition opcode_line :: "node \<Rightarrow> nat \<Rightarrow> u16 option \<Rightarrow> string list \<Rightarrow> segment list \<Rightarrow> make_error + segment list" where
  "opcode_line root line_number expansion tokens segments =
     (let maybe_v = parse_from root tokens in
      if po_status maybe_v = Invalid then Inl (Reported CouldNotParse line_number)
      else ebind (push_data (po_opcode maybe_v) segments) (\<lambda>segments.
        if po_status maybe_v = ValidWithExpansion
        then (case expansion of None \<Rightarrow> Inl (Reported NeedsExpansion line_number) | Some v \<Rightarrow> push_data v segments)
        else (case expansion of None \<Rightarrow> Inr segments | Some v \<Rightarrow> Inl (Reported UnexpectedExpansion line_number))))"

definition assemble_line :: "node \<Rightarrow> nat \<Rightarrow> string \<Rightarrow> segment list \<Rightarrow> make_error + segment list" where
  "assemble_line root line_number line segments =
     ebind (split_expansion line_number (strip_comment line)) (\<lambda>(line, expansion).
       let tokens = string_to_tokens line in
       if length tokens = 0 then Inr segments
       else if tokens ! 0 = ''segment'' then segment_line line_number tokens segments
       else if tokens ! 0 = ''data'' then data_line line_number tokens segments
       else opcode_line root line_number expansion tokens segments)"

fun assemble_lines :: "node \<Rightarrow> nat \<Rightarrow> string list \<Rightarrow> segment list \<Rightarrow> make_error + segment list" where
  "assemble_lines root line_number [] segments = Inr segments"
| "assemble_lines root line_number (line # rest) segments =
     ebind (assemble_line root (line_number + 1) line segments) (assemble_lines root (line_number + 1) rest)"

definition assemble :: "string list \<Rightarrow> make_error + segment list" where
  "assemble text = (case generate_parser of
     Inl e \<Rightarrow> Inl ParserAborted
   | Inr root \<Rightarrow> assemble_lines root 0 text [])"

section \<open>What the tokens are\<close>

definition clean :: "string \<Rightarrow> bool" where
  "clean t \<longleftrightarrow> t \<noteq> [] \<and> \<not> list_ex is_blank t"

lemma tokens_from_clean:
  "list_all clean out \<Longrightarrow> need_new \<or> out \<noteq> [] \<Longrightarrow> list_all clean (tokens_from s need_new out)"
proof (induction s need_new out rule: tokens_from.induct)
  case (2 c rest need_new out)
  show ?case
  proof (cases "is_blank c")
    case False
    define out1 where "out1 = (if need_new then out @ [''''] else out)"
    have "list_all clean (butlast out1)" "need_new \<Longrightarrow> last out1 = ''''" "\<not> need_new \<Longrightarrow> clean (last out1)"
      using 2(3,4) by (auto simp: out1_def list_all_iff dest: in_set_butlastD)
    with False have "list_all clean (butlast out1 @ [last out1 @ [c]])"
      by (cases need_new) (auto simp: clean_def)
    with 2(2) [OF False out1_def] False show ?thesis
      by (simp add: out1_def [symmetric] Let_def)
  qed (use 2 in simp)
qed simp

lemma string_to_tokens_clean: "list_all clean (string_to_tokens s)"
  by (simp add: string_to_tokens_def tokens_from_clean)

lemma tokens_from_word: "\<not> list_ex is_blank w \<Longrightarrow> tokens_from (w @ rest) False (out @ [v]) = tokens_from rest False (out @ [v @ w])"
  by (induction w arbitrary: v) auto

lemma tokens_from_token: "clean t \<Longrightarrow> tokens_from (t @ rest) True out = tokens_from rest False (out @ [t])"
  by (cases t) (auto simp: clean_def tokens_from_word [of _ _ out, simplified])

lemma tokens_from_joined:
  "list_all clean ts \<Longrightarrow> tokens_from (concat (map (\<lambda>s. s @ ''    '') ts) @ rest) True out = tokens_from rest True (out @ ts)"
proof (induction ts arbitrary: out)
  case (Cons t ts)
  have blank: "tokens_from (''    '' @ rest') b out' = tokens_from rest' True out'" for rest' b out'
    by (simp add: is_blank_def)
  have "tokens_from (t @ ''    '' @ concat (map (\<lambda>s. s @ ''    '') ts) @ rest) True out =
      tokens_from (concat (map (\<lambda>s. s @ ''    '') ts) @ rest) True (out @ [t])"
    using Cons.prems by (simp only: list.pred_inject tokens_from_token blank)
  with Cons show ?case
    by simp
qed simp

lemma string_to_tokens_joined:
  assumes "list_all clean ts" "ts \<noteq> []"
  shows "string_to_tokens (concat (map (\<lambda>s. s @ ''    '') (butlast ts)) @ last ts) = ts"
proof -
  have "clean (last ts)" "list_all clean (butlast ts)"
    using assms by (auto simp: list_all_iff dest: in_set_butlastD)
  then show ?thesis
    using assms(2) tokens_from_joined [of "butlast ts" "last ts" "[]"] tokens_from_token [of "last ts" "[]" "butlast ts"]
    by (simp add: string_to_tokens_def)
qed

section \<open>Properties\<close>

lemma all_opcodes_sorted: "sorted all_opcodes"
proof -
  have "sorted_wrt (\<lambda>m n. (of_nat m :: u16) \<le> of_nat n) [0..<0x10000]"
    by (rule sorted_wrt_mono_rel [of _ "(<)"]) (auto simp: word_le_nat_alt unat_of_nat)
  then show ?thesis
    by (simp only: all_opcodes_def sorted_wrt_map)
qed

lemma first_opcode_least:
  "sorted opcodes \<Longrightarrow> w \<in> set opcodes \<Longrightarrow> opcode_text w = Some ts \<Longrightarrow> \<exists>v. first_opcode opcodes ts = Some v \<and> v \<le> w"
  by (induction opcodes) auto

lemma in_all_opcodes: "w \<in> set all_opcodes"
proof -
  have "unat w < 2 ^ LENGTH(16)"
    by (rule unsigned_less)
  then have "w = of_nat (unat w)" "unat w \<in> set [0..<0x10000]"
    by (simp_all only: set_upt of_nat_unat ucast_id) simp
  then show ?thesis
    unfolding all_opcodes_def set_map by (rule image_eqI)
qed

text \<open>The opcodes the assembler can be brought to give: their text has no error mark and its tokens are whole.\<close>

definition assemblable :: "u16 \<Rightarrow> bool" where
  "assemblable w \<longleftrightarrow> (case opcode_text w of None \<Rightarrow> False | Some ts \<Rightarrow> list_all clean ts)"

lemma get_token_list_inst:
  assumes "m \<in> set dsm_table" "matches m w" "mt_fn m w 0 settings = Inr ts" "\<not> mt_expanded m"
  shows "get_token_list w 0 settings = Inr ts"
proof -
  obtain m' where "dsm_decode w = Inr m'"
    by (rule dsm_decode_agrees)
  with assms(1,2) have "dsm_decode w = Inr m"
    using decode_in_matching unfolding dsm_decode_def by blast
  with assms(2,3) show ?thesis
    by (simp add: get_token_list_def call_matcher_def)
qed

lemma pacr_not_assemblable: "\<not> assemblable 0xD7C2"
proof -
  let ?m = "inst 0xD7C2 [At 1 0] (\<lambda>x. dsm_pacr1 (x 0))"
  have "?m \<in> set dsm_table"
    by (simp add: dsm_table_def dsm_moda_table_def)
  moreover have "matches ?m 0xD7C2"
    by (simp add: matches_shape matcher_shape_inst inst_shape_def at_mask_def)
  moreover have "mt_fn ?m 0xD7C2 0 None = Inr [''pacr p1'', text_reg (Ax 0)]" "\<not> mt_expanded ?m"
    by (simp_all add: inst_def Let_def dsm_pacr1_def at_extract_def at_mask_def)
  ultimately have "get_token_list 0xD7C2 0 None = Inr [''pacr p1'', text_reg (Ax 0)]"
    by (rule get_token_list_inst)
  moreover have "\<not> clean ''pacr p1''"
    by (simp add: clean_def is_blank_def)
  ultimately show ?thesis
    by (simp add: assemblable_def opcode_text_def)
qed

text \<open>
  C10: The assembler reads what the disassembler writes. If the parser is generated, then the text of
  an opcode, with a second word of zero where it takes one, given as a line is parsed as an
  opcode with the same text that is not above it, unless the text has an error mark or one of its
  tokens is empty or has a blank inside: such an opcode cannot be assembled, as no line of text at
  all is parsed as it. One of these is \<open>pacr p1\<close>.
\<close>

theorem assembler_reads_text:
  "\<not> assemblable 0xD7C2 \<and>
   (case generate_parser of
      Inl e \<Rightarrow> e = Abort \<and> ambiguous all_opcodes
    | Inr root \<Rightarrow>
        if assemblable w
        then \<exists>v text. disassemble w 0 None = Inr text \<and> opcode_text v = opcode_text w \<and> v \<le> w \<and>
          parse_from root (string_to_tokens text) =
            \<lparr>po_status = (if takes_second_word v then ValidWithExpansion else Valid), po_opcode = v\<rparr>
        else \<not> (po_opcode (parse_from root (string_to_tokens line)) = w \<and>
          po_status (parse_from root (string_to_tokens line)) \<noteq> Invalid))"
  (is "_ \<and> (case generate_parser of Inl e \<Rightarrow> _ | Inr root \<Rightarrow> ?reads root)")
proof (intro conjI pacr_not_assemblable)
  have e: "case generate_parser of Inl e \<Rightarrow> e = Abort \<and> texts_clash empty_node all_opcodes
    | Inr root \<Rightarrow> entry root = found_before empty_node all_opcodes"
    using add_opcodes_entry [of empty_node all_opcodes] by (simp add: generate_parser_def all_opcodes_def)
  show "case generate_parser of Inl e \<Rightarrow> e = Abort \<and> ambiguous all_opcodes | Inr root \<Rightarrow> ?reads root"
  proof (cases generate_parser)
    case (Inl a)
    show ?thesis
      using e unfolding Inl by (simp add: texts_clash_ambiguous)
  next
    case (Inr root)
    have parse: "parse_from root ts = parsed (map_option (\<lambda>v. (v, takes_second_word v)) (first_opcode all_opcodes ts))" for ts
      using e unfolding Inr by (simp add: parse_from_entry found_before_def)
    have "?reads root"
    proof (cases "assemblable w")
      case True
      then obtain ts where ts: "get_token_list w 0 None = Inr ts" "opcode_text w = Some ts" "list_all clean ts"
        by (auto simp: assemblable_def opcode_text_def split: sum.splits if_splits)
      obtain v where v: "first_opcode all_opcodes ts = Some v" "v \<le> w"
        using first_opcode_least [OF all_opcodes_sorted in_all_opcodes ts(2)] by blast
      have "ts \<noteq> []"
        using get_token_list_total [of w 0 None] ts(1) by fastforce
      then have "\<exists>text. disassemble w 0 None = Inr text \<and> string_to_tokens text = ts"
        using ts(1) string_to_tokens_joined [OF ts(3)] by (simp add: disassemble_def)
      with True ts(2) v first_opcode_Some [OF v(1)] show ?thesis
        by (auto simp: parse parsed_def)
    next
      case False
      have "\<not> (po_opcode (parse_from root ts) = w \<and> po_status (parse_from root ts) \<noteq> Invalid)" if "list_all clean ts" for ts
      proof (cases "first_opcode all_opcodes ts")
        case None
        then show ?thesis
          by (simp add: parse parsed_def invalid_opcode_def)
      next
        case (Some v)
        with first_opcode_Some [OF Some] False that have "v \<noteq> w"
          by (auto simp: assemblable_def)
        with Some show ?thesis
          by (simp add: parse parsed_def)
      qed
      with False string_to_tokens_clean show ?thesis
        by simp
    qed
    then show ?thesis
      unfolding Inr by simp
  qed
qed

end
