(* ===== verification/Sha256.thy ===== *)
theory Sha256
  imports Prelude
begin

unbundle bit_operations_syntax

text \<open>
  src/src/makedsp1/sha256.cpp: the hash of a segment. The context is updated byte by byte; a full
  buffer of 64 bytes is compressed into the state at once.
\<close>

section \<open>The functions of the hash\<close>

definition rotright :: "u32 \<Rightarrow> nat \<Rightarrow> u32" where
  "rotright a b = drop_bit b a OR push_bit (32 - b) a"

definition ch :: "u32 \<Rightarrow> u32 \<Rightarrow> u32 \<Rightarrow> u32" where
  "ch x y z = (x AND y) XOR (NOT x AND z)"

definition maj :: "u32 \<Rightarrow> u32 \<Rightarrow> u32 \<Rightarrow> u32" where
  "maj x y z = (x AND y) XOR (x AND z) XOR (y AND z)"

definition ep0 :: "u32 \<Rightarrow> u32" where
  "ep0 x = rotright x 2 XOR rotright x 13 XOR rotright x 22"

definition ep1 :: "u32 \<Rightarrow> u32" where
  "ep1 x = rotright x 6 XOR rotright x 11 XOR rotright x 25"

definition sig0 :: "u32 \<Rightarrow> u32" where
  "sig0 x = rotright x 7 XOR rotright x 18 XOR drop_bit 3 x"

definition sig1 :: "u32 \<Rightarrow> u32" where
  "sig1 x = rotright x 17 XOR rotright x 19 XOR drop_bit 10 x"

definition sha_k :: "u32 list" where
  "sha_k = [
     0x428a2f98, 0x71374491, 0xb5c0fbcf, 0xe9b5dba5, 0x3956c25b, 0x59f111f1, 0x923f82a4, 0xab1c5ed5,
     0xd807aa98, 0x12835b01, 0x243185be, 0x550c7dc3, 0x72be5d74, 0x80deb1fe, 0x9bdc06a7, 0xc19bf174,
     0xe49b69c1, 0xefbe4786, 0x0fc19dc6, 0x240ca1cc, 0x2de92c6f, 0x4a7484aa, 0x5cb0a9dc, 0x76f988da,
     0x983e5152, 0xa831c66d, 0xb00327c8, 0xbf597fc7, 0xc6e00bf3, 0xd5a79147, 0x06ca6351, 0x14292967,
     0x27b70a85, 0x2e1b2138, 0x4d2c6dfc, 0x53380d13, 0x650a7354, 0x766a0abb, 0x81c2c92e, 0x92722c85,
     0xa2bfe8a1, 0xa81a664b, 0xc24b8b70, 0xc76c51a3, 0xd192e819, 0xd6990624, 0xf40e3585, 0x106aa070,
     0x19a4c116, 0x1e376c08, 0x2748774c, 0x34b0bcb5, 0x391c0cb3, 0x4ed8aa4a, 0x5b9cca4f, 0x682e6ff3,
     0x748f82ee, 0x78a5636f, 0x84c87814, 0x8cc70208, 0x90befffa, 0xa4506ceb, 0xbef9a3f7, 0xc67178f2]"

section \<open>The context\<close>

record sha_ctx =
  sha_data :: "u8 list"
  sha_datalen :: u32
  sha_bitlen :: u64
  sha_state :: "u32 list"

definition sha_word :: "u8 list \<Rightarrow> nat \<Rightarrow> u32" where
  "sha_word data j =
     push_bit 24 (ucast (data ! j)) OR push_bit 16 (ucast (data ! (j + 1))) OR
     push_bit 8 (ucast (data ! (j + 2))) OR ucast (data ! (j + 3))"

text \<open>The two loops that fill \<open>m\<close>: 16 words of the data, 48 more from those before.\<close>

fun sha_extend :: "nat \<Rightarrow> u32 list \<Rightarrow> u32 list" where
  "sha_extend 0 m = m"
| "sha_extend (Suc n) m =
     (let i = length m in
      sha_extend n (m @ [sig1 (m ! (i - 2)) + m ! (i - 7) + sig0 (m ! (i - 15)) + m ! (i - 16)]))"

definition sha_schedule :: "u8 list \<Rightarrow> u32 list" where
  "sha_schedule data = sha_extend 48 (map (\<lambda>i. sha_word data (4 * i)) [0..<16])"

text \<open>The variables \<open>a\<close> to \<open>h\<close> of the main loop.\<close>

type_synonym sha_vars = "u32 \<times> u32 \<times> u32 \<times> u32 \<times> u32 \<times> u32 \<times> u32 \<times> u32"

fun sha_round :: "u32 \<times> u32 \<Rightarrow> sha_vars \<Rightarrow> sha_vars" where
  "sha_round (k, m) (a, b, c, d, e, f, g, h) =
     (let t1 = h + ep1 e + ch e f g + k + m;
          t2 = ep0 a + maj a b c
      in (t1 + t2, a, b, c, d + t1, e, f, g))"

definition sha_vars_of :: "u32 list \<Rightarrow> sha_vars" where
  "sha_vars_of s = (s ! 0, s ! 1, s ! 2, s ! 3, s ! 4, s ! 5, s ! 6, s ! 7)"

definition sha_add_vars :: "u32 list \<Rightarrow> sha_vars \<Rightarrow> u32 list" where
  "sha_add_vars s v = (case v of (a, b, c, d, e, f, g, h) \<Rightarrow>
     [s ! 0 + a, s ! 1 + b, s ! 2 + c, s ! 3 + d, s ! 4 + e, s ! 5 + f, s ! 6 + g, s ! 7 + h])"

definition sha_compress :: "u8 list \<Rightarrow> u32 list \<Rightarrow> u32 list" where
  "sha_compress data s = sha_add_vars s (fold sha_round (zip sha_k (sha_schedule data)) (sha_vars_of s))"

definition sha256_transform :: "sha_ctx \<Rightarrow> sha_ctx" where
  "sha256_transform ctx = ctx\<lparr>sha_state := sha_compress (sha_data ctx) (sha_state ctx)\<rparr>"

definition sha_initial_state :: "u32 list" where
  "sha_initial_state = [0x6a09e667, 0xbb67ae85, 0x3c6ef372, 0xa54ff53a, 0x510e527f, 0x9b05688c, 0x1f83d9ab, 0x5be0cd19]"

text \<open>The buffer of a new context has no defined contents.\<close>

definition sha256_init :: "u8 list \<Rightarrow> sha_ctx" where
  "sha256_init buffer = \<lparr>sha_data = buffer, sha_datalen = 0, sha_bitlen = 0, sha_state = sha_initial_state\<rparr>"

definition sha_update_byte :: "u8 \<Rightarrow> sha_ctx \<Rightarrow> sha_ctx" where
  "sha_update_byte b ctx =
     (let ctx1 = ctx\<lparr>sha_data := (sha_data ctx)[unat (sha_datalen ctx) := b], sha_datalen := sha_datalen ctx + 1\<rparr> in
      if sha_datalen ctx1 = 64
      then (sha256_transform ctx1)\<lparr>sha_bitlen := sha_bitlen ctx1 + 512, sha_datalen := 0\<rparr>
      else ctx1)"

text \<open>The index of the loop has 32 bits: for \<open>2^32\<close> bytes or more it never reaches the length.\<close>

definition sha256_update :: "sha_ctx \<Rightarrow> u8 list \<Rightarrow> sha_ctx result" where
  "sha256_update ctx data =
     (if length data < 2 ^ 32 then Inr (fold sha_update_byte data ctx) else Inl Diverges)"

text \<open>\<open>data[i++] = 0x80\<close> and the zeros up to the end \<open>n\<close>.\<close>

definition sha_fill :: "nat \<Rightarrow> nat \<Rightarrow> u8 list \<Rightarrow> u8 list" where
  "sha_fill i n data = fold (\<lambda>j d. d[j := 0]) [i + 1..<n] (data[i := 0x80])"

definition sha_pad :: "sha_ctx \<Rightarrow> sha_ctx" where
  "sha_pad ctx =
     (let i = unat (sha_datalen ctx) in
      if sha_datalen ctx < 56 then ctx\<lparr>sha_data := sha_fill i 56 (sha_data ctx)\<rparr>
      else let ctx1 = sha256_transform (ctx\<lparr>sha_data := sha_fill i 64 (sha_data ctx)\<rparr>) in
           ctx1\<lparr>sha_data := fold (\<lambda>j d. d[j := 0]) [0..<56] (sha_data ctx1)\<rparr>)"

definition sha_put_length :: "u64 \<Rightarrow> u8 list \<Rightarrow> u8 list" where
  "sha_put_length n data = fold (\<lambda>k d. d[63 - k := ucast (drop_bit (8 * k) n)]) [0..<8] data"

definition sha_digest :: "u32 list \<Rightarrow> u8 list" where
  "sha_digest s = concat (map (\<lambda>x. map (\<lambda>i. ucast (drop_bit (24 - i * 8) x AND 0xff)) [0..<4]) s)"

definition sha256_final :: "sha_ctx \<Rightarrow> u8 list" where
  "sha256_final ctx =
     (let bits = sha_bitlen ctx + ucast (sha_datalen ctx * 8);
          ctx1 = (sha_pad ctx)\<lparr>sha_bitlen := bits\<rparr>;
          ctx2 = sha256_transform (ctx1\<lparr>sha_data := sha_put_length bits (sha_data ctx1)\<rparr>)
      in sha_digest (sha_state ctx2))"

definition sha256 :: "u8 list \<Rightarrow> u8 list \<Rightarrow> u8 list result" where
  "sha256 buffer data = rbind (sha256_update (sha256_init buffer) data) (\<lambda>ctx. Inr (sha256_final ctx))"

section \<open>The standard\<close>

text \<open>
  SHA-256 as the standard has it: the message with a one, the fewest zeros and its length in bits
  padded to whole blocks, and the compression of one block after the other.
\<close>

definition sha_blocks :: "u8 list \<Rightarrow> u8 list list" where
  "sha_blocks xs = map (\<lambda>i. take 64 (drop (64 * i) xs)) [0..<length xs div 64]"

definition big_endian64 :: "u64 \<Rightarrow> u8 list" where
  "big_endian64 n = rev (map (\<lambda>k. ucast (drop_bit (8 * k) n)) [0..<8])"

definition sha_padding :: "nat \<Rightarrow> u8 list" where
  "sha_padding n = [0x80] @ replicate ((119 - n mod 64) mod 64) 0 @ big_endian64 (of_nat (8 * n))"

definition sha256_standard :: "u8 list \<Rightarrow> u8 list" where
  "sha256_standard msg = sha_digest (fold sha_compress (sha_blocks (msg @ sha_padding (length msg))) sha_initial_state)"

lemma sha_blocks_append:
  assumes "64 dvd length xs"
  shows "sha_blocks (xs @ ys) = sha_blocks xs @ sha_blocks ys"
proof -
  obtain k where k: "length xs = 64 * k"
    using assms by (auto simp: dvd_def)
  have "take 64 (drop (64 * i) (xs @ ys)) = take 64 (drop (64 * i) xs)" if "i < k" for i
    using that k by simp
  then have 1: "map (\<lambda>i. take 64 (drop (64 * i) (xs @ ys))) [0..<k] = sha_blocks xs"
    by (simp add: sha_blocks_def k)
  have "drop (64 * (i + k)) (xs @ ys) = drop (64 * i) ys" for i
    by (simp add: k)
  then have 2: "map (\<lambda>i. take 64 (drop (64 * i) (xs @ ys))) (map (\<lambda>i. i + k) [0..<length ys div 64]) = sha_blocks ys"
    by (simp only: sha_blocks_def map_map comp_def)
  have "[0..<length (xs @ ys) div 64] = [0..<k] @ map (\<lambda>i. i + k) [0..<length ys div 64]"
  proof -
    have "length (xs @ ys) div 64 = k + length ys div 64"
      by (simp add: k)
    moreover have "[0..<k + length ys div 64] = [0..<k] @ [k..<k + length ys div 64]"
      by (rule upt_add_eq_append) simp
    moreover have "map (\<lambda>i. i + k) [0..<length ys div 64] = [k..<k + length ys div 64]"
      by (simp only: map_add_upt add.commute)
    ultimately show ?thesis
      by (simp only:)
  qed
  then show ?thesis
    using 1 2 by (simp only: sha_blocks_def [of "xs @ ys"] map_append)
qed

lemma sha_blocks_short: "length xs < 64 \<Longrightarrow> sha_blocks xs = []" "length xs = 64 \<Longrightarrow> sha_blocks xs = [xs]"
  by (simp_all add: sha_blocks_def)

section \<open>The buffer\<close>

lemma fold_zero:
  "a \<le> b \<Longrightarrow> b \<le> length d \<Longrightarrow> fold (\<lambda>j d. d[j := 0]) [a..<b] d = take a d @ replicate (b - a) 0 @ drop b d"
proof (induction b)
  case (Suc b)
  show ?case
  proof (cases "a \<le> b")
    case True
    then have "replicate (Suc b - a) (0 :: 'a) = replicate (b - a) 0 @ [0]"
      by (simp add: Suc_diff_le replicate_append_same)
    with True Suc show ?thesis
      by (simp add: list_update_append Cons_nth_drop_Suc [symmetric])
  next
    case False
    with Suc.prems have "a = Suc b"
      by simp
    then show ?thesis
      by simp
  qed
qed simp

lemma sha_fill_alt:
  "i < n \<Longrightarrow> n \<le> length d \<Longrightarrow> sha_fill i n d = take i d @ [0x80] @ replicate (n - i - 1) 0 @ drop n d"
  by (simp add: sha_fill_def fold_zero take_Suc_conv_app_nth)

lemma fold_downwards:
  "c \<le> m + 1 \<Longrightarrow> m < length d \<Longrightarrow>
   fold (\<lambda>k d. d[m - k := f k]) [0..<c] d = take (m + 1 - c) d @ rev (map f [0..<c]) @ drop (m + 1) d"
proof (induction c)
  case (Suc c)
  then have "take (m + 1 - c) d = take (m - c) d @ [d ! (m - c)]"
    by (simp add: Suc_diff_le take_Suc_conv_app_nth)
  with Suc show ?case
    by (simp add: list_update_append)
qed simp

lemma sha_put_length_alt: "length d = 64 \<Longrightarrow> sha_put_length n d = take 56 d @ big_endian64 n"
  using fold_downwards [of 8 63 d "\<lambda>k. ucast (drop_bit (8 * k) n)"]
  by (simp add: sha_put_length_def big_endian64_def)

lemma unat_numeral_32: "unat (64 :: u32) = 64"
  by simp

section \<open>The context after a prefix\<close>

definition sha_holds :: "sha_ctx \<Rightarrow> u8 list \<Rightarrow> bool" where
  "sha_holds ctx msg \<longleftrightarrow> (\<exists>full rest. msg = full @ rest \<and> 64 dvd length full \<and> length rest < 64 \<and>
     length (sha_data ctx) = 64 \<and> take (length rest) (sha_data ctx) = rest \<and>
     sha_datalen ctx = of_nat (length rest) \<and> sha_bitlen ctx = of_nat (8 * length full) \<and>
     sha_state ctx = fold sha_compress (sha_blocks full) sha_initial_state)"

lemma sha_holds_update: 
  assumes "sha_holds ctx msg"
  shows "sha_holds (sha_update_byte b ctx) (msg @ [b])"
proof -
  obtain full rest where h: "msg = full @ rest" "64 dvd length full" "length rest < 64" "length (sha_data ctx) = 64"
    "take (length rest) (sha_data ctx) = rest" "sha_datalen ctx = of_nat (length rest)"
    "sha_bitlen ctx = of_nat (8 * length full)" "sha_state ctx = fold sha_compress (sha_blocks full) sha_initial_state"
    using assms by (auto simp: sha_holds_def)
  let ?data = "(sha_data ctx)[length rest := b]"
  have len: "unat (sha_datalen ctx) = length rest" "sha_datalen ctx + 1 = of_nat (length rest + 1)"
    using h(3) by (simp_all add: h(6) unat_of_nat)
  have data: "take (length rest + 1) ?data = rest @ [b]"
    using h(3,4,5) by (simp add: take_Suc_conv_app_nth)
  have "unat (of_nat (length rest + 1) :: u32) = length rest + 1"
    using h(3) by (subst unat_of_nat) simp
  then have full: "of_nat (length rest + 1) = (64 :: u32) \<longleftrightarrow> length rest + 1 = 64"
    by (metis of_nat_numeral unat_numeral_32)
  show ?thesis
  proof (cases "length rest + 1 = 64")
    case True
    with data h(4) have d: "?data = rest @ [b]"
      by simp
    have "sha_blocks (full @ rest @ [b]) = sha_blocks full @ [rest @ [b]]"
      using True sha_blocks_append [OF h(2), of "rest @ [b]"] sha_blocks_short(2) [of "rest @ [b]"] by simp
    with True h len d show ?thesis
      unfolding sha_holds_def
      by (intro exI [of _ "full @ rest @ [b]"] exI [of _ "[]"])
        (simp add: sha_update_byte_def sha256_transform_def Let_def full [simplified])
  next
    case False
    with h len data full show ?thesis
      unfolding sha_holds_def
      by (intro exI [of _ full] exI [of _ "rest @ [b]"]) (simp add: sha_update_byte_def Let_def)
  qed
qed

lemma sha_holds_fold: "sha_holds ctx msg \<Longrightarrow> sha_holds (fold sha_update_byte data ctx) (msg @ data)"
proof (induction data arbitrary: ctx msg)
  case (Cons b data)
  from Cons.IH [OF sha_holds_update [OF Cons.prems, of b]] show ?case
    by simp
qed simp

section \<open>The last blocks\<close>

lemma big_endian64_length [simp]: "length (big_endian64 n) = 8"
  by (simp add: big_endian64_def)

lemma take_exact: "length xs = n \<Longrightarrow> take n (xs @ ys) = xs"
  by simp

lemma sha_final_bits:
  "r < 64 \<Longrightarrow> of_nat (8 * n) + ucast (of_nat r * 8 :: u32) = (of_nat (8 * (n + r)) :: u64)"
proof -
  assume "r < 64"
  then have "unat (of_nat r * 8 :: u32) = 8 * r"
    by (simp add: unat_word_ariths unat_of_nat)
  then have "(ucast (of_nat r * 8 :: u32) :: u64) = of_nat (8 * r)"
    by (metis of_nat_unat)
  then show ?thesis
    by (simp add: algebra_simps)
qed

lemma sha_final_standard:
  assumes "sha_holds ctx msg"
  shows "sha256_final ctx = sha256_standard msg"
proof -
  obtain full rest where h: "msg = full @ rest" "64 dvd length full" "length rest < 64" "length (sha_data ctx) = 64"
    "take (length rest) (sha_data ctx) = rest" "sha_datalen ctx = of_nat (length rest)"
    "sha_bitlen ctx = of_nat (8 * length full)" "sha_state ctx = fold sha_compress (sha_blocks full) sha_initial_state"
    using assms by (auto simp: sha_holds_def)
  let ?r = "length rest" and ?bits = "of_nat (8 * length msg) :: u64"
  have bits: "sha_bitlen ctx + ucast (sha_datalen ctx * 8) = ?bits"
    using sha_final_bits [OF h(3), of "length full"] by (simp only: h(1,6,7) length_append)
  have r: "unat (sha_datalen ctx) = ?r" "length msg mod 64 = ?r"
    using h(1,2,3) by (auto simp: h(6) unat_of_nat)
  then have small: "sha_datalen ctx < 56 \<longleftrightarrow> ?r < 56"
    by (simp add: word_less_nat_alt)
  have blocks: "sha_blocks (msg @ sha_padding (length msg)) = sha_blocks full @ sha_blocks (rest @ sha_padding (length msg))"
    using sha_blocks_append [OF h(2)] by (simp add: h(1))
  have standard: "sha256_standard msg = sha_digest (fold sha_compress (sha_blocks (rest @ sha_padding (length msg))) (sha_state ctx))"
    by (simp only: sha256_standard_def blocks fold_append comp_def h(8))
  have data: "sha_fill ?r n (sha_data ctx) = rest @ [0x80] @ replicate (n - ?r - 1) 0 @ drop n (sha_data ctx)"
    if "?r < n" "n \<le> 64" for n
    using that h(4,5) by (simp add: sha_fill_alt)
  show ?thesis
  proof (cases "?r < 56")
    case True
    then have "(119 - ?r) mod 64 = 55 - ?r"
      by (simp add: mod_if)
    then have "rest @ sha_padding (length msg) = rest @ [0x80] @ replicate (55 - ?r) 0 @ big_endian64 ?bits"
      by (simp add: sha_padding_def r(2))
    moreover have "sha_put_length ?bits (sha_fill ?r 56 (sha_data ctx)) = rest @ [0x80] @ replicate (55 - ?r) 0 @ big_endian64 ?bits"
    proof -
      have "take 56 ((rest @ [0x80] @ replicate (55 - ?r) 0) @ drop 56 (sha_data ctx)) = rest @ [0x80] @ replicate (55 - ?r) 0"
        using True by (intro take_exact) simp
      then show ?thesis
        using True h(4) data [of 56] by (simp add: sha_put_length_alt)
    qed
    ultimately show ?thesis
      using True sha_blocks_short(2) [of "rest @ sha_padding (length msg)"]
      by (simp add: standard sha256_final_def sha_pad_def small r(1) bits sha256_transform_def Let_def)
  next
    case False
    let ?first = "rest @ [0x80] @ replicate (63 - ?r) 0"
    have "(119 - ?r) mod 64 = (63 - ?r) + 56"
      using False h(3) by simp
    then have pad: "rest @ sha_padding (length msg) = ?first @ replicate 56 0 @ big_endian64 ?bits"
      by (simp only: sha_padding_def r(2) replicate_add append_assoc)
    have first: "sha_fill ?r 64 (sha_data ctx) = ?first" "length ?first = 64"
      using h(3,4) by (simp_all add: data)
    have "sha_put_length ?bits (fold (\<lambda>j d. d[j := 0]) [0..<56] ?first) = replicate 56 0 @ big_endian64 ?bits"
    proof -
      have "fold (\<lambda>j d. d[j := 0]) [0..<56] ?first = replicate 56 0 @ drop 56 ?first"
        using first(2) fold_zero [of 0 56 ?first] by simp
      moreover have "length (replicate 56 0 @ drop 56 ?first) = 64"
        using first(2) by (simp only: length_append length_replicate length_drop)
      ultimately show ?thesis
        using take_exact [of "replicate 56 0" 56 "drop 56 ?first"] by (simp only: sha_put_length_alt length_replicate)
    qed
    moreover have "sha_blocks (rest @ sha_padding (length msg)) = [?first, replicate 56 0 @ big_endian64 ?bits]"
      using sha_blocks_append [of ?first] sha_blocks_short(2) [of ?first] sha_blocks_short(2) [of "replicate 56 0 @ big_endian64 ?bits"] first(2)
      by (simp add: pad)
    ultimately show ?thesis
      using False first(1)
      by (simp add: standard sha256_final_def sha_pad_def small r(1) bits sha256_transform_def Let_def)
  qed
qed

lemma sha256_result:
  assumes "length buffer = 64"
  shows "sha256 buffer msg = (if length msg < 2 ^ 32 then Inr (sha256_standard msg) else Inl Diverges)"
proof -
  have "sha_holds (sha256_init buffer) []"
    using assms by (auto simp: sha_holds_def sha256_init_def sha_blocks_def)
  then have "sha_holds (fold sha_update_byte msg (sha256_init buffer)) msg"
    using sha_holds_fold [of "sha256_init buffer" "[]" msg] by simp
  then show ?thesis
    by (simp add: sha256_def sha256_update_def sha_final_standard)
qed

lemma sha256_standard_length [simp]: "length (sha256_standard msg) = 32"
proof -
  have "length (fold sha_compress bs s) = 8" if "length s = 8" for bs s
    using that by (induction bs arbitrary: s) (simp_all add: sha_compress_def sha_add_vars_def split: prod.split)
  then have "length (sha_digest (fold sha_compress bs sha_initial_state)) = 32" for bs
    by (simp add: sha_digest_def length_concat comp_def sum_list_triv sha_initial_state_def)
  then show ?thesis
    by (simp add: sha256_standard_def)
qed

section \<open>Properties\<close>

text \<open>
  C12: The hash is SHA-256 as the standard defines it on whole messages: hashing a message of fewer
  than \<open>2^32\<close> bytes byte by byte, with whatever the buffer held, compresses the padded message
  block by block; a longer message is never finished.
\<close>

theorem sha256_is_standard:
  assumes "length buffer = 64"
  shows "sha256 buffer msg = (if length msg < 2 ^ 32 then Inr (sha256_standard msg) else Inl Diverges)"
  by (rule sha256_result [OF assms])

lemma sha256_is_standard_witness:
  "sha256 (replicate 64 7) [0x61, 0x62, 0x63] =
     (if length [0x61, 0x62, 0x63 :: u8] < 2 ^ 32 then Inr (sha256_standard [0x61, 0x62, 0x63]) else Inl Diverges)"
  by (rule sha256_is_standard) simp

end
