(* ===== verification/Dsp1_File.thy ===== *)
theory Dsp1_File
  imports Firmware_Assembler Sha256
begin

unbundle bit_operations_syntax

text \<open>
  The firmware file: the second half of src/src/makedsp1/main.cpp, which writes the segments, and
  src/src/dsp1_reader/main.cpp, which reads them back and lists them. A file is the list of its bytes.
  Both programs write and read their integers in the order of the host, which is taken to be
  little-endian.
\<close>

section \<open>Bytes\<close>

definition le16 :: "u16 \<Rightarrow> u8 list" where
  "le16 v = [ucast v, ucast (drop_bit 8 v)]"

definition le32 :: "u32 \<Rightarrow> u8 list" where
  "le32 v = [ucast v, ucast (drop_bit 8 v), ucast (drop_bit 16 v), ucast (drop_bit 24 v)]"

definition u16_at :: "u8 list \<Rightarrow> nat \<Rightarrow> u16" where
  "u16_at raw p = ucast (raw ! p) OR push_bit 8 (ucast (raw ! (p + 1)))"

definition u32_at :: "u8 list \<Rightarrow> nat \<Rightarrow> u32" where
  "u32_at raw p =
     ucast (raw ! p) OR push_bit 8 (ucast (raw ! (p + 1))) OR
     push_bit 16 (ucast (raw ! (p + 2))) OR push_bit 24 (ucast (raw ! (p + 3)))"

section \<open>Writing\<close>

text \<open>\<open>fseek\<close> and the \<open>fwrite\<close>s that follow it; a gap past the end is filled with zeros.\<close>

definition file_write :: "nat \<Rightarrow> u8 list \<Rightarrow> u8 list \<Rightarrow> u8 list" where
  "file_write pos bytes raw =
     (if bytes = [] then raw
      else let padded = raw @ replicate (pos + length bytes - length raw) 0
           in take pos padded @ bytes @ drop (pos + length bytes) padded)"

definition segment_bytes :: "segment \<Rightarrow> u8 list" where
  "segment_bytes s = concat (map le16 (sg_data s))"

definition segment_entry :: "u32 \<Rightarrow> u8 list \<Rightarrow> segment \<Rightarrow> u8 list" where
  "segment_entry data_ptr sha s =
     le32 data_ptr @ le32 (sg_target s) @ le32 (of_nat (length (sg_data s)) * 2) @
     le32 (push_bit 24 (ucast (sg_memory_type s))) @ sha"

fun write_segments :: "u8 list \<Rightarrow> nat \<Rightarrow> segment list \<Rightarrow> u32 \<Rightarrow> u8 list \<Rightarrow> (u32 \<times> u8 list) result" where
  "write_segments buffer i [] data_ptr raw = Inr (data_ptr, raw)"
| "write_segments buffer i (s # segments) data_ptr raw =
     rbind (sha256 buffer (segment_bytes s)) (\<lambda>sha.
       let size = of_nat (length (sg_data s)) * 2;
           file1 = file_write (0x120 + i * 0x30) (segment_entry data_ptr sha s) raw;
           file2 = file_write (unat data_ptr) (take (unat size) (segment_bytes s)) file1
       in write_segments buffer (i + 1) segments (data_ptr + size) file2)"

definition file_header :: "u32 \<Rightarrow> nat \<Rightarrow> u8 list" where
  "file_header data_ptr n =
     [0x44, 0x53, 0x50, 0x31] @ le32 data_ptr @ le32 0x0000FFFF @ le32 (push_bit 16 (of_nat n)) @
     le32 0 @ le32 0 @ le32 0 @ le32 0"

definition write_dsp1 :: "u8 list \<Rightarrow> segment list \<Rightarrow> u8 list result" where
  "write_dsp1 buffer segments =
     rbind (write_segments buffer 0 segments 0x300 []) (\<lambda>(data_ptr, raw).
       Inr (file_write 0x100 (file_header data_ptr (length segments)) raw))"

section \<open>Reading\<close>

record read_segment =
  rs_data :: "u8 list"
  rs_memory_type :: u8
  rs_target :: u32

record dsp1 =
  dsp1_segments :: "read_segment list"
  dsp1_recv_data_on_start :: bool

text \<open>The header has room for ten segments; the data must lie in the file.\<close>

definition read_segment_at :: "u8 list \<Rightarrow> nat \<Rightarrow> read_segment result" where
  "read_segment_at raw i =
     (let base = 0x120 + i * 0x30;
          offset = unat (u32_at raw base); size = unat (u32_at raw (base + 8)) in
      if 10 \<le> i \<or> length raw < offset + size then Inl OutOfBounds
      else Inr \<lparr>rs_data = take size (drop offset raw), rs_memory_type = raw ! (base + 15),
             rs_target = u32_at raw (base + 4)\<rparr>)"

fun read_segments :: "u8 list \<Rightarrow> nat list \<Rightarrow> read_segment list result" where
  "read_segments raw [] = Inr []"
| "read_segments raw (i # is) =
     rbind (read_segment_at raw i) (\<lambda>s. rbind (read_segments raw is) (\<lambda>ss. Inr (s # ss)))"

definition read_dsp1 :: "u8 list \<Rightarrow> dsp1 result" where
  "read_dsp1 raw =
     (if length raw < 0x300 then Inl OutOfBounds
      else rbind (read_segments raw [0..<unat (raw ! 0x10E)]) (\<lambda>segments.
             Inr \<lparr>dsp1_segments = segments, dsp1_recv_data_on_start = (raw ! 0x10F AND 1 \<noteq> 0)\<rparr>))"

section \<open>Listing\<close>

text \<open>What is printed for an instruction or a word of data: its address, the words and the text.\<close>

datatype listed = ListedSegment bool | ListedCode u32 u16 string | ListedExpansion u32 u16 | ListedData u32 u16

definition word_at :: "u8 list \<Rightarrow> nat \<Rightarrow> u16 result" where
  "word_at data pos = (if pos + 1 < length data then Inr (u16_at data pos) else Inl OutOfBounds)"

function list_code :: "u32 \<Rightarrow> u8 list \<Rightarrow> nat \<Rightarrow> listed list result" where
  "list_code target data pos =
     (if pos < length data then
        rbind (word_at data pos) (\<lambda>opcode.
        rbind (need_expansion opcode) (\<lambda>expand.
        if expand then
          rbind (word_at data (pos + 2)) (\<lambda>expand_value.
          rbind (disassemble opcode expand_value None) (\<lambda>text.
          rbind (list_code target data (pos + 4)) (\<lambda>rest.
            Inr (ListedCode (target + of_nat (pos div 2)) opcode text #
                 ListedExpansion (target + of_nat ((pos + 2) div 2)) expand_value # rest))))
        else
          rbind (disassemble opcode 0 None) (\<lambda>text.
          rbind (list_code target data (pos + 2)) (\<lambda>rest.
            Inr (ListedCode (target + of_nat (pos div 2)) opcode text # rest)))))
      else Inr [])"
  by auto

termination
  by (relation "measure (\<lambda>(target, data, pos). length data - pos)") auto

function list_data :: "u32 \<Rightarrow> u8 list \<Rightarrow> nat \<Rightarrow> listed list result" where
  "list_data target data pos =
     (if pos < length data then
        rbind (word_at data pos) (\<lambda>v.
        rbind (list_data target data (pos + 2)) (\<lambda>rest.
          Inr (ListedData (target + of_nat (pos div 2)) v # rest)))
      else Inr [])"
  by auto

termination
  by (relation "measure (\<lambda>(target, data, pos). length data - pos)") auto

declare list_code.simps [simp del] list_data.simps [simp del]

definition list_segment :: "read_segment \<Rightarrow> listed list result" where
  "list_segment s =
     (if rs_memory_type s = 0 \<or> rs_memory_type s = 1
      then rbind (list_code (rs_target s) (rs_data s) 0) (\<lambda>ls. Inr (ListedSegment False # ls))
      else if rs_memory_type s = 2
      then rbind (list_data (rs_target s) (rs_data s) 0) (\<lambda>ls. Inr (ListedSegment True # ls))
      else Inr [])"

fun list_segments :: "read_segment list \<Rightarrow> listed list result" where
  "list_segments [] = Inr []"
| "list_segments (s # ss) =
     rbind (list_segment s) (\<lambda>ls. rbind (list_segments ss) (\<lambda>rest. Inr (ls @ rest)))"

definition list_dsp1 :: "u8 list \<Rightarrow> listed list result" where
  "list_dsp1 raw = rbind (read_dsp1 raw) (\<lambda>dsp. list_segments (dsp1_segments dsp))"

section \<open>Bytes at a position\<close>

definition at :: "u8 list \<Rightarrow> nat \<Rightarrow> u8 list \<Rightarrow> bool" where
  "at raw p bs \<longleftrightarrow> take (length bs) (drop p raw) = bs"

lemma at_nth: "at raw p bs \<longleftrightarrow> (\<forall>k < length bs. p + k < length raw \<and> raw ! (p + k) = bs ! k)"
proof
  assume "at raw p bs"
  then obtain zs where z: "drop p raw = bs @ zs"
    unfolding at_def by (metis append_take_drop_id)
  show "\<forall>k < length bs. p + k < length raw \<and> raw ! (p + k) = bs ! k"
  proof (intro allI impI)
    fix k
    assume k: "k < length bs"
    have "length raw - p = length bs + length zs"
      using arg_cong [OF z, of length] by simp
    with k have less: "p + k < length raw"
      by simp
    then have "raw ! (p + k) = drop p raw ! k"
      by simp
    with less k show "p + k < length raw \<and> raw ! (p + k) = bs ! k"
      by (simp add: z nth_append)
  qed
next
  assume n: "\<forall>k < length bs. p + k < length raw \<and> raw ! (p + k) = bs ! k"
  have "length bs \<le> length (drop p raw)"
  proof (cases "length bs")
    case (Suc m)
    with n have "p + m < length raw" by simp
    with Suc show ?thesis by simp
  qed simp
  with n show "at raw p bs"
    unfolding at_def by (intro nth_equalityI) auto
qed

lemma file_write_length: "bs \<noteq> [] \<Longrightarrow> length (file_write p bs raw) = max (length raw) (p + length bs)"
  by (simp add: file_write_def Let_def)

lemma file_write_grows: "length raw \<le> length (file_write p bs raw)"
  by (cases "bs = []") (simp_all add: file_write_length, simp add: file_write_def)

lemma at_file_write: "at (file_write p bs raw) p bs"
  by (cases "bs = []") (auto simp: at_def file_write_def Let_def)

lemma file_write_nth:
  assumes "k < p \<or> p + length bs \<le> k" "k < length raw"
  shows "file_write p bs raw ! k = raw ! k"
  using assms by (auto simp: file_write_def Let_def nth_append)

lemma at_other:
  assumes "at raw q cs" "q + length cs \<le> p \<or> p + length bs \<le> q"
  shows "at (file_write p bs raw) q cs"
  unfolding at_nth
proof (intro allI impI)
  fix k
  assume k: "k < length cs"
  with assms(1) have "q + k < length raw" "raw ! (q + k) = cs ! k"
    by (simp_all add: at_nth)
  moreover have "q + k < p \<or> p + length bs \<le> q + k"
    using assms(2) k by auto
  ultimately show "q + k < length (file_write p bs raw) \<and> file_write p bs raw ! (q + k) = cs ! k"
    using file_write_nth file_write_grows less_le_trans by metis
qed

lemma at_append: "at raw p (bs @ cs) \<longleftrightarrow> at raw p bs \<and> at raw (p + length bs) cs"
proof
  assume a: "at raw p (bs @ cs)"
  have "p + (length bs + k) < length raw \<and> raw ! (p + (length bs + k)) = cs ! k" if "k < length cs" for k
    using a that unfolding at_nth by (auto dest!: spec [of _ "length bs + k"] simp: nth_append)
  with a show "at raw p bs \<and> at raw (p + length bs) cs"
    unfolding at_nth by (auto simp: nth_append add.assoc)
next
  assume a: "at raw p bs \<and> at raw (p + length bs) cs"
  show "at raw p (bs @ cs)"
    unfolding at_nth
  proof (intro allI impI)
    fix k
    assume "k < length (bs @ cs)"
    then consider "k < length bs" | m where "k = length bs + m" "m < length cs"
      by (metis add_diff_inverse_nat length_append nat_add_left_cancel_less)
    then show "p + k < length raw \<and> raw ! (p + k) = (bs @ cs) ! k"
      using a by cases (auto simp: at_nth nth_append add.assoc)
  qed
qed

section \<open>Integers\<close>

lemma le32_length [simp]: "length (le32 v) = 4"
  by (simp add: le32_def)

lemma u32_at_le32: "at raw p (le32 v) \<Longrightarrow> u32_at raw p = v"
proof -
  assume "at raw p (le32 v)"
  then have k: "raw ! (p + k) = le32 v ! k" if "k < 4" for k
    using that by (simp add: at_nth)
  have b: "raw ! p = ucast v" "raw ! (p + 1) = ucast (drop_bit 8 v)" "raw ! (p + 2) = ucast (drop_bit 16 v)"
      "raw ! (p + 3) = ucast (drop_bit 24 v)"
    using k [of 0] k [of 1] k [of 2] k [of 3] by (simp_all add: le32_def)
  show ?thesis
    unfolding u32_at_def b
  proof (rule bit_word_eqI)
    fix n
    assume "n < LENGTH(32)"
    then consider "n < 8" | "8 \<le> n" "n < 16" | "16 \<le> n" "n < 24" | "24 \<le> n" "n < 32"
      by fastforce
    then show "bit (ucast (ucast v :: u8) OR push_bit 8 (ucast (ucast (drop_bit 8 v) :: u8)) OR
        push_bit 16 (ucast (ucast (drop_bit 16 v) :: u8)) OR push_bit 24 (ucast (ucast (drop_bit 24 v) :: u8)) :: u32) n = bit v n"
      by cases (auto simp: bit_simps)
  qed
qed

lemma unat_twice: "2 * n < 2 ^ 32 \<Longrightarrow> unat (of_nat n * 2 :: u32) = 2 * n"
  by (simp add: unat_word_ariths unat_of_nat)

section \<open>The written file\<close>

definition words_in :: "segment list \<Rightarrow> nat" where
  "words_in segments = sum_list (map (\<lambda>s. length (sg_data s)) segments)"

lemma words_in_simps [simp]:
  "words_in [] = 0" "words_in (s # ss) = length (sg_data s) + words_in ss"
  by (simp_all add: words_in_def)

lemma segment_bytes_length [simp]: "length (segment_bytes s) = 2 * length (sg_data s)"
  by (simp add: segment_bytes_def length_concat comp_def le16_def sum_list_triv)

lemma segment_entry_length: "length sha = 32 \<Longrightarrow> length (segment_entry p sha s) = 0x30"
  by (simp add: segment_entry_def)

text \<open>An entry and its data, as they stand in the file.\<close>

definition has_segment :: "u8 list \<Rightarrow> nat \<Rightarrow> u32 \<Rightarrow> segment \<Rightarrow> bool" where
  "has_segment raw i p s \<longleftrightarrow>
     at raw (0x120 + i * 0x30) (segment_entry p (sha256_standard (segment_bytes s)) s) \<and> at raw (unat p) (segment_bytes s)"

lemma write_segments_ok:
  assumes "length buffer = 64" "unat p + 2 * words_in segments < 2 ^ 32" "0x300 \<le> unat p" "i + length segments \<le> 10"
  shows "\<exists>p' raw'. write_segments buffer i segments p raw = Inr (p', raw') \<and> unat p' = unat p + 2 * words_in segments \<and>
    (\<forall>q cs. at raw q cs \<longrightarrow> q + length cs \<le> 0x120 + i * 0x30 \<or> 0x300 \<le> q \<and> q + length cs \<le> unat p \<longrightarrow> at raw' q cs) \<and>
    length raw \<le> length raw' \<and> (0 < words_in segments \<longrightarrow> unat p' \<le> length raw') \<and>
    (\<forall>j < length segments. has_segment raw' (i + j) (p + of_nat (2 * words_in (take j segments))) (segments ! j))"
  using assms(2-)
proof (induction segments arbitrary: i p raw)
  case Nil
  then show ?case
    by simp
next
  case (Cons s segments)
  let ?n = "length (sg_data s)" and ?size = "of_nat (length (sg_data s)) * 2 :: u32"
  let ?sha = "sha256_standard (segment_bytes s)"
  let ?file1 = "file_write (0x120 + i * 0x30) (segment_entry p ?sha s) raw"
  let ?file2 = "file_write (unat p) (segment_bytes s) ?file1"
  have n: "2 * ?n < 2 ^ 32" "unat p + 2 * ?n < 2 ^ 32"
    using Cons.prems(1) by simp_all
  have size: "unat ?size = 2 * ?n" "unat (p + ?size) = unat p + 2 * ?n"
    using unat_twice [OF n(1)] n(2) by (simp_all add: unat_word_ariths)
  have entry: "length (segment_entry p ?sha s) = 0x30"
    by (simp add: segment_entry_length)
  have step: "write_segments buffer i (s # segments) p raw = write_segments buffer (i + 1) segments (p + ?size) ?file2"
    using n(1) by (simp add: sha256_result [OF assms(1)] size(1) Let_def)
  have "\<exists>p' raw'. write_segments buffer (i + 1) segments (p + ?size) ?file2 = Inr (p', raw') \<and>
      unat p' = unat (p + ?size) + 2 * words_in segments \<and>
      (\<forall>q cs. at ?file2 q cs \<longrightarrow> q + length cs \<le> 0x120 + (i + 1) * 0x30 \<or> 0x300 \<le> q \<and> q + length cs \<le> unat (p + ?size) \<longrightarrow>
        at raw' q cs) \<and>
      length ?file2 \<le> length raw' \<and> (0 < words_in segments \<longrightarrow> unat p' \<le> length raw') \<and>
      (\<forall>j < length segments. has_segment raw' (i + 1 + j) (p + ?size + of_nat (2 * words_in (take j segments))) (segments ! j))"
    by (rule Cons.IH) (use Cons.prems in \<open>simp_all add: size(2)\<close>)
  then obtain p' raw' where w: "write_segments buffer (i + 1) segments (p + ?size) ?file2 = Inr (p', raw')"
    "unat p' = unat p + 2 * ?n + 2 * words_in segments"
    "\<forall>q cs. at ?file2 q cs \<longrightarrow> q + length cs \<le> 0x120 + (i + 1) * 0x30 \<or> 0x300 \<le> q \<and> q + length cs \<le> unat p + 2 * ?n \<longrightarrow> at raw' q cs"
    "length ?file2 \<le> length raw'" "0 < words_in segments \<longrightarrow> unat p' \<le> length raw'"
    "\<forall>j < length segments. has_segment raw' (i + 1 + j) (p + ?size + of_nat (2 * words_in (take j segments))) (segments ! j)"
    unfolding size(2) by (elim exE conjE) (rule that)
  have kept: "at raw' q cs" if "at raw q cs" "q + length cs \<le> 0x120 + i * 0x30 \<or> 0x300 \<le> q \<and> q + length cs \<le> unat p" for q cs
  proof (rule w(3) [rule_format])
    show "at ?file2 q cs"
      using that Cons.prems(2,3) by (intro at_other) (auto simp: entry)
    show "q + length cs \<le> 0x120 + (i + 1) * 0x30 \<or> 0x300 \<le> q \<and> q + length cs \<le> unat p + 2 * ?n"
      using that(2) by auto
  qed
  have first: "has_segment raw' i p s"
    unfolding has_segment_def
  proof
    show "at raw' (0x120 + i * 0x30) (segment_entry p ?sha s)"
      using Cons.prems(2,3) by (intro w(3) [rule_format] at_other at_file_write) (auto simp: entry)
    show "at raw' (unat p) (segment_bytes s)"
      using Cons.prems(2) by (intro w(3) [rule_format] at_file_write) auto
  qed
  have "has_segment raw' (i + j) (p + of_nat (2 * words_in (take j (s # segments)))) ((s # segments) ! j)"
    if "j < length (s # segments)" for j
  proof (cases j)
    case 0
    with first show ?thesis
      by simp
  next
    case (Suc k)
    with that w(6) [rule_format, of k] show ?thesis
      by (simp add: algebra_simps)
  qed
  moreover have "unat p' \<le> length raw'" if "0 < words_in (s # segments)"
  proof (cases "words_in segments")
    case 0
    with that have "length (segment_bytes s) \<noteq> 0"
      by simp
    then have "segment_bytes s \<noteq> []"
      by fastforce
    with 0 w(2,4) show ?thesis
      by (simp add: file_write_length)
  qed (use w(5) in simp)
  moreover have "length raw \<le> length raw'"
    by (rule le_trans [OF le_trans [OF file_write_grows file_write_grows] w(4)])
  moreover have "unat p' = unat p + 2 * words_in (s # segments)"
    using w(2) by simp
  ultimately show ?case
    unfolding step using w(1) kept by (intro exI [of _ p'] exI [of _ raw'] conjI allI impI) assumption+
qed

section \<open>Reading it back\<close>

lemma read_segment_ok:
  assumes "has_segment raw i p s" "i < 10" "unat p + 2 * length (sg_data s) \<le> length raw" "2 * length (sg_data s) < 2 ^ 32"
  shows "read_segment_at raw i =
    Inr \<lparr>rs_data = segment_bytes s, rs_memory_type = sg_memory_type s, rs_target = sg_target s\<rparr>"
proof -
  define b where "b = 0x120 + i * 0x30"
  let ?type = "push_bit 24 (ucast (sg_memory_type s)) :: u32"
  have entry: "at raw b (le32 p)" "at raw (b + 4) (le32 (sg_target s))"
    "at raw (b + 8) (le32 (of_nat (length (sg_data s)) * 2))" "at raw (b + 12) (le32 ?type)"
    using assms(1) unfolding has_segment_def segment_entry_def at_append b_def [symmetric] by (simp_all add: add.assoc)
  have "raw ! (b + 15) = le32 ?type ! 3"
    using entry(4) unfolding at_nth by (auto dest: spec [of _ 3] simp: add.assoc)
  also have "\<dots> = sg_memory_type s"
    by (simp add: le32_def) (rule bit_word_eqI, auto simp: bit_simps)
  finally have type: "raw ! (b + 15) = sg_memory_type s" .
  have "take (2 * length (sg_data s)) (drop (unat p) raw) = segment_bytes s"
    using assms(1) by (simp add: has_segment_def at_def)
  then show ?thesis
    unfolding read_segment_at_def b_def [symmetric] Let_def u32_at_le32 [OF entry(1)] u32_at_le32 [OF entry(2)]
      u32_at_le32 [OF entry(3)] type unat_twice [OF assms(4)]
    using assms(2,3) by simp
qed

lemma read_segments_map:
  "\<forall>i \<in> set is. read_segment_at raw i = Inr (f i) \<Longrightarrow> read_segments raw is = Inr (map f is)"
  by (induction "is") simp_all

lemma read_header:
  assumes "at raw 0x100 (file_header p n)" "n \<le> 10"
  shows "unat (raw ! 0x10E) = n" "raw ! 0x10F AND 1 = 0"
proof -
  let ?misc = "push_bit 16 (of_nat n) :: u32"
  have "at raw (0x10C) (le32 ?misc)"
    using assms(1) unfolding file_header_def at_append by simp
  then have "raw ! (0x10C + 2) = le32 ?misc ! 2" "raw ! (0x10C + 3) = le32 ?misc ! 3"
    unfolding at_nth by (auto dest: spec [of _ 2] spec [of _ 3])
  moreover have "n = 0 \<or> n = 1 \<or> n = 2 \<or> n = 3 \<or> n = 4 \<or> n = 5 \<or> n = 6 \<or> n = 7 \<or> n = 8 \<or> n = 9 \<or> n = 10"
    using assms(2) by presburger
  ultimately show "unat (raw ! 0x10E) = n" "raw ! 0x10F AND 1 = 0"
    by (auto simp: le32_def)
qed

section \<open>Properties\<close>

lemma words_in_take: "j < length segments \<Longrightarrow> words_in (take j segments) + length (sg_data (segments ! j)) \<le> words_in segments"
proof (induction segments arbitrary: j)
  case (Cons s segments)
  then show ?case
    by (cases j) auto
qed simp

text \<open>
  C11: What the packer writes the reader reads. For at most ten segments, not all of them empty, whose
  words fit the 32-bit offsets, the file holds in every entry the standard SHA-256 of the
  segment, and reading it gives the segments in order with their words, kinds and targets.
\<close>

theorem dsp1_round_trip:
  assumes "length buffer = 64" "length segments \<le> 10" "0 < words_in segments" "0x300 + 2 * words_in segments < 2 ^ 32"
  shows "\<exists>raw. write_dsp1 buffer segments = Inr raw \<and>
    read_dsp1 raw = Inr \<lparr>dsp1_segments = map (\<lambda>s. \<lparr>rs_data = segment_bytes s, rs_memory_type = sg_memory_type s,
        rs_target = sg_target s\<rparr>) segments, dsp1_recv_data_on_start = False\<rparr> \<and>
    (\<forall>j < length segments. take 32 (drop (0x130 + j * 0x30) raw) = sha256_standard (segment_bytes (segments ! j)))"
proof -
  let ?p = "\<lambda>j. 0x300 + of_nat (2 * words_in (take j segments)) :: u32"
  obtain p' content where w: "write_segments buffer 0 segments 0x300 [] = Inr (p', content)"
    "unat p' = 0x300 + 2 * words_in segments" "unat p' \<le> length content"
    "\<And>j. j < length segments \<Longrightarrow> has_segment content j (?p j) (segments ! j)"
    using write_segments_ok [OF assms(1), of "0x300" segments 0 "[]"] assms(2-) by auto
  let ?raw = "file_write 0x100 (file_header p' (length segments)) content"
  have header: "length (file_header p' (length segments)) = 0x20"
    by (simp add: file_header_def)
  have len: "0x300 + 2 * words_in segments \<le> length ?raw"
    using file_write_grows [of content] w(2,3) by (metis le_trans)
  have offset: "unat (?p j) = 0x300 + 2 * words_in (take j segments)" if "j < length segments" for j
    using words_in_take [OF that] assms(4) by (simp add: unat_word_ariths unat_of_nat)
  have seg: "has_segment ?raw j (?p j) (segments ! j)" if "j < length segments" for j
    using w(4) [OF that] offset [OF that] unfolding has_segment_def by (auto simp: header intro!: at_other)
  have "read_segment_at ?raw j = Inr ((\<lambda>s. \<lparr>rs_data = segment_bytes s, rs_memory_type = sg_memory_type s,
      rs_target = sg_target s\<rparr>) (segments ! j))" if "j < length segments" for j
  proof (rule read_segment_ok [OF seg [OF that]])
    show "unat (?p j) + 2 * length (sg_data (segments ! j)) \<le> length ?raw"
      using words_in_take [OF that] len unfolding offset [OF that] by linarith
    show "j < 10" "2 * length (sg_data (segments ! j)) < 2 ^ 32"
      using words_in_take [OF that] that assms(2,4) by linarith+
  qed
  then have "read_segments ?raw [0..<length segments] = Inr (map (\<lambda>j. (\<lambda>s. \<lparr>rs_data = segment_bytes s,
      rs_memory_type = sg_memory_type s, rs_target = sg_target s\<rparr>) (segments ! j)) [0..<length segments])"
    by (intro read_segments_map) simp
  also have "\<dots> = Inr (map (\<lambda>s. \<lparr>rs_data = segment_bytes s, rs_memory_type = sg_memory_type s,
      rs_target = sg_target s\<rparr>) segments)"
    by (subst (2) map_nth [of segments, symmetric]) (simp only: map_map comp_def)
  finally have segs: "read_segments ?raw [0..<length segments] = Inr (map (\<lambda>s. \<lparr>rs_data = segment_bytes s,
      rs_memory_type = sg_memory_type s, rs_target = sg_target s\<rparr>) segments)" .
  note head = read_header [OF at_file_write assms(2)]
  have sha: "take 32 (drop (0x130 + j * 0x30) ?raw) = sha256_standard (segment_bytes (segments ! j))" if "j < length segments" for j
  proof -
    have "at ?raw (0x120 + j * 0x30 + 0x10) (sha256_standard (segment_bytes (segments ! j)))"
      using seg [OF that] unfolding has_segment_def segment_entry_def at_append by simp
    then show ?thesis
      by (simp add: at_def add.commute)
  qed
  show ?thesis
    using w(1) len segs head sha by (intro exI [of _ ?raw]) (simp add: write_dsp1_def read_dsp1_def)
qed

lemma dsp1_round_trip_witness:
  "\<exists>raw. write_dsp1 (replicate 64 0) [\<lparr>sg_data = [0x4180, 7], sg_memory_type = 0, sg_target = 0x800\<rparr>] = Inr raw \<and>
    read_dsp1 raw = Inr \<lparr>dsp1_segments = map (\<lambda>s. \<lparr>rs_data = segment_bytes s, rs_memory_type = sg_memory_type s,
        rs_target = sg_target s\<rparr>) [\<lparr>sg_data = [0x4180, 7], sg_memory_type = 0, sg_target = 0x800\<rparr>],
      dsp1_recv_data_on_start = False\<rparr> \<and>
    (\<forall>j < length [\<lparr>sg_data = [0x4180, 7], sg_memory_type = 0, sg_target = 0x800 :: u32\<rparr>].
      take 32 (drop (0x130 + j * 0x30) raw) =
        sha256_standard (segment_bytes ([\<lparr>sg_data = [0x4180, 7], sg_memory_type = 0, sg_target = 0x800\<rparr>] ! j)))"
  by (rule dsp1_round_trip) simp_all

end
