(* ===== verification/Test_Format.thy ===== *)
theory Test_Format
  imports Dsp1_File
begin

unbundle bit_operations_syntax

text \<open>
  src/src/test.h: the test vectors for the instruction set. A vector is a state of the registers
  and of two windows of the data space, the state after one instruction, and the words of the
  instruction; a file of vectors holds their records one after the other, as the host lays
  them out in memory: little-endian, with the four bytes of padding that the asserted size asks for.
\<close>

section \<open>States and cases\<close>

abbreviation TestSpaceX :: u16 where "TestSpaceX \<equiv> 0x6400"
abbreviation TestSpaceY :: u16 where "TestSpaceY \<equiv> 0xCC00"
abbreviation TestSpaceSize :: nat where "TestSpaceSize \<equiv> 0x200"

record test_state =
  ts_a :: "u64 list"
  ts_b :: "u64 list"
  ts_p :: "u32 list"
  ts_r :: "u16 list"
  ts_x :: "u16 list"
  ts_y :: "u16 list"
  ts_stepi0 :: u16
  ts_stepj0 :: u16
  ts_mixp :: u16
  ts_sv :: u16
  ts_repc :: u16
  ts_lc :: u16
  ts_cfgi :: u16
  ts_cfgj :: u16
  ts_stt0 :: u16
  ts_stt1 :: u16
  ts_stt2 :: u16
  ts_mod0 :: u16
  ts_mod1 :: u16
  ts_mod2 :: u16
  ts_ar :: "u16 list"
  ts_arp :: "u16 list"
  ts_space_x :: "u16 list"
  ts_space_y :: "u16 list"

record test_case =
  tc_before :: test_state
  tc_after :: test_state
  tc_opcode :: u16
  tc_expand :: u16

text \<open>The sizes of the arrays, and the state and the case with every member zero.\<close>

definition state_shape :: "test_state \<Rightarrow> bool" where
  "state_shape s \<longleftrightarrow>
     length (ts_a s) = 2 \<and> length (ts_b s) = 2 \<and> length (ts_p s) = 2 \<and> length (ts_r s) = 8 \<and>
     length (ts_x s) = 2 \<and> length (ts_y s) = 2 \<and> length (ts_ar s) = 2 \<and> length (ts_arp s) = 4 \<and>
     length (ts_space_x s) = TestSpaceSize \<and> length (ts_space_y s) = TestSpaceSize"

definition case_shape :: "test_case \<Rightarrow> bool" where
  "case_shape c \<longleftrightarrow> state_shape (tc_before c) \<and> state_shape (tc_after c)"

definition zero_state :: test_state where
  "zero_state = \<lparr>ts_a = [0, 0], ts_b = [0, 0], ts_p = [0, 0], ts_r = replicate 8 0, ts_x = [0, 0],
     ts_y = [0, 0], ts_stepi0 = 0, ts_stepj0 = 0, ts_mixp = 0, ts_sv = 0, ts_repc = 0, ts_lc = 0,
     ts_cfgi = 0, ts_cfgj = 0, ts_stt0 = 0, ts_stt1 = 0, ts_stt2 = 0, ts_mod0 = 0, ts_mod1 = 0,
     ts_mod2 = 0, ts_ar = [0, 0], ts_arp = replicate 4 0, ts_space_x = replicate TestSpaceSize 0,
     ts_space_y = replicate TestSpaceSize 0\<rparr>"

definition zero_case :: test_case where
  "zero_case = \<lparr>tc_before = zero_state, tc_after = zero_state, tc_opcode = 0, tc_expand = 0\<rparr>"

section \<open>Records in a file\<close>

definition le64 :: "u64 \<Rightarrow> u8 list" where
  "le64 v = le32 (ucast v) @ le32 (ucast (drop_bit 32 v))"

text \<open>The 16-bit members, in the order of the declaration.\<close>

definition state_words :: "test_state \<Rightarrow> u16 list" where
  "state_words s = ts_r s @ ts_x s @ ts_y s @
     [ts_stepi0 s, ts_stepj0 s, ts_mixp s, ts_sv s, ts_repc s, ts_lc s, ts_cfgi s, ts_cfgj s,
      ts_stt0 s, ts_stt1 s, ts_stt2 s, ts_mod0 s, ts_mod1 s, ts_mod2 s] @
     ts_ar s @ ts_arp s @ ts_space_x s @ ts_space_y s"

definition state_bytes :: "test_state \<Rightarrow> u8 list" where
  "state_bytes s =
     concat (map le64 (ts_a s @ ts_b s)) @ concat (map le32 (ts_p s)) @ concat (map le16 (state_words s))"

definition case_bytes :: "test_case \<Rightarrow> u8 list" where
  "case_bytes c =
     state_bytes (tc_before c) @ state_bytes (tc_after c) @ le16 (tc_opcode c) @ le16 (tc_expand c) @
     replicate 4 0"

text \<open>Reading: the members are taken from the bytes at their offsets.\<close>

definition u64_at :: "u8 list \<Rightarrow> nat \<Rightarrow> u64" where
  "u64_at raw p = ucast (u32_at raw p) OR push_bit 32 (ucast (u32_at raw (p + 4)))"

definition u64s_at :: "u8 list \<Rightarrow> nat \<Rightarrow> nat \<Rightarrow> u64 list" where
  "u64s_at raw p n = map (\<lambda>i. u64_at raw (p + 8 * i)) [0..<n]"

definition u32s_at :: "u8 list \<Rightarrow> nat \<Rightarrow> nat \<Rightarrow> u32 list" where
  "u32s_at raw p n = map (\<lambda>i. u32_at raw (p + 4 * i)) [0..<n]"

definition u16s_at :: "u8 list \<Rightarrow> nat \<Rightarrow> nat \<Rightarrow> u16 list" where
  "u16s_at raw p n = map (\<lambda>i. u16_at raw (p + 2 * i)) [0..<n]"

definition state_at :: "u8 list \<Rightarrow> nat \<Rightarrow> test_state" where
  "state_at raw p = \<lparr>
     ts_a = u64s_at raw p 2, ts_b = u64s_at raw (p + 16) 2, ts_p = u32s_at raw (p + 32) 2,
     ts_r = u16s_at raw (p + 40) 8, ts_x = u16s_at raw (p + 56) 2, ts_y = u16s_at raw (p + 60) 2,
     ts_stepi0 = u16_at raw (p + 64), ts_stepj0 = u16_at raw (p + 66), ts_mixp = u16_at raw (p + 68),
     ts_sv = u16_at raw (p + 70), ts_repc = u16_at raw (p + 72), ts_lc = u16_at raw (p + 74),
     ts_cfgi = u16_at raw (p + 76), ts_cfgj = u16_at raw (p + 78), ts_stt0 = u16_at raw (p + 80),
     ts_stt1 = u16_at raw (p + 82), ts_stt2 = u16_at raw (p + 84), ts_mod0 = u16_at raw (p + 86),
     ts_mod1 = u16_at raw (p + 88), ts_mod2 = u16_at raw (p + 90), ts_ar = u16s_at raw (p + 92) 2,
     ts_arp = u16s_at raw (p + 96) 4, ts_space_x = u16s_at raw (p + 104) TestSpaceSize,
     ts_space_y = u16s_at raw (p + 104 + 2 * TestSpaceSize) TestSpaceSize\<rparr>"

abbreviation state_size :: nat where "state_size \<equiv> 2152"
abbreviation case_size :: nat where "case_size \<equiv> 4312"

definition case_of_bytes :: "u8 list \<Rightarrow> test_case" where
  "case_of_bytes raw = \<lparr>
     tc_before = state_at raw 0, tc_after = state_at raw state_size,
     tc_opcode = u16_at raw (2 * state_size), tc_expand = u16_at raw (2 * state_size + 2)\<rparr>"

text \<open>\<open>fwrite\<close> of one case after the other; \<open>fread\<close> of whole records until fewer bytes are left.\<close>

definition write_cases :: "test_case list \<Rightarrow> u8 list" where
  "write_cases cs = concat (map case_bytes cs)"

function read_cases :: "u8 list \<Rightarrow> test_case list" where
  "read_cases raw =
     (if length raw < case_size then []
      else case_of_bytes (take case_size raw) # read_cases (drop case_size raw))"
  by pat_completeness auto

termination
  by (relation "measure length") auto

declare read_cases.simps [simp del]

section \<open>Words at their offsets\<close>

lemma le16_length [simp]: "length (le16 v) = 2"
  by (simp add: le16_def)

lemma le64_length [simp]: "length (le64 v) = 8"
  by (simp add: le64_def)

lemma u16_at_le16: "at raw p (le16 v) \<Longrightarrow> u16_at raw p = v"
proof -
  assume "at raw p (le16 v)"
  then have k: "raw ! (p + k) = le16 v ! k" if "k < 2" for k
    using that by (simp add: at_nth)
  have b: "raw ! p = ucast v" "raw ! (p + 1) = ucast (drop_bit 8 v)"
    using k [of 0] k [of 1] by (simp_all add: le16_def)
  show ?thesis
    unfolding u16_at_def b by (rule bit_word_eqI) (auto simp: bit_simps)
qed

lemma u64_at_le64: "at raw p (le64 v) \<Longrightarrow> u64_at raw p = v"
  unfolding u64_at_def le64_def at_append
  by (auto dest!: u32_at_le32 intro!: bit_word_eqI simp: bit_simps)

lemma at_concat:
  assumes "\<And>v. length (f v) = n" and "at raw p (concat (map f vs))" and "i < length vs"
  shows "at raw (p + n * i) (f (vs ! i))"
  using assms(2, 3)
proof (induction vs arbitrary: p i)
  case (Cons v vs)
  then show ?case
    using Cons.IH [of "p + n" "i - 1"] assms(1)
    by (cases i) (auto simp: at_append add.assoc)
qed simp

lemma u16s_at_words: "at raw p (concat (map le16 vs)) \<Longrightarrow> n = length vs \<Longrightarrow> u16s_at raw p n = vs"
  by (rule nth_equalityI) (auto simp: u16s_at_def intro: u16_at_le16 at_concat [of le16, OF le16_length])

lemma u32s_at_words: "at raw p (concat (map le32 vs)) \<Longrightarrow> n = length vs \<Longrightarrow> u32s_at raw p n = vs"
  by (rule nth_equalityI) (auto simp: u32s_at_def intro: u32_at_le32 at_concat [of le32, OF le32_length])

lemma u64s_at_words: "at raw p (concat (map le64 vs)) \<Longrightarrow> n = length vs \<Longrightarrow> u64s_at raw p n = vs"
  by (rule nth_equalityI) (auto simp: u64s_at_def intro: u64_at_le64 at_concat [of le64, OF le64_length])

lemma concat_length: "(\<And>v. length (f v) = n) \<Longrightarrow> length (concat (map f vs)) = n * length vs"
  by (induction vs) simp_all

lemmas words_length = concat_length [of le16, OF le16_length] concat_length [of le32, OF le32_length]
  concat_length [of le64, OF le64_length]

section \<open>The state and the case\<close>

lemma state_bytes_length: "state_shape s \<Longrightarrow> length (state_bytes s) = state_size"
  by (simp add: state_bytes_def state_words_def state_shape_def words_length del: length_concat)

lemma state_at_bytes:
  assumes "at raw p (state_bytes s)" and "state_shape s"
  shows "state_at raw p = s"
  using assms unfolding state_bytes_def state_words_def state_shape_def
  by (cases s)
    (simp add: state_at_def at_append words_length u64s_at_words u32s_at_words u16s_at_words u16_at_le16
      add.assoc add.commute [of p] del: length_concat)

lemma case_bytes_length: "case_shape c \<Longrightarrow> length (case_bytes c) = case_size"
  by (simp add: case_bytes_def case_shape_def state_bytes_length)

lemma case_of_case_bytes:
  assumes "case_shape c"
  shows "case_of_bytes (case_bytes c) = c"
proof -
  have "at (case_bytes c) 0 (case_bytes c)"
    by (simp add: at_nth)
  then have "at (case_bytes c) 0 (state_bytes (tc_before c)) \<and>
      at (case_bytes c) state_size (state_bytes (tc_after c)) \<and>
      at (case_bytes c) (2 * state_size) (le16 (tc_opcode c)) \<and>
      at (case_bytes c) (2 * state_size + 2) (le16 (tc_expand c))"
    using assms unfolding case_bytes_def at_append by (simp add: case_shape_def state_bytes_length)
  then show ?thesis
    using assms by (simp add: case_of_bytes_def case_shape_def state_at_bytes u16_at_le16)
qed

text \<open>
  The record of a case has the size that src/src/test.h asserts, and a file of records, whatever
  incomplete record it ends with, is read back as the cases that were written.
\<close>

lemma read_written_cases:
  assumes "list_all case_shape cs" and "length rest < case_size"
  shows "length (write_cases cs) = case_size * length cs" and "read_cases (write_cases cs @ rest) = cs"
  using assms(1)
proof (induction cs)
  case Nil
  case 1
  show ?case
    by (simp add: write_cases_def)
  case 2
  show ?case
    using assms(2) by (simp add: write_cases_def read_cases.simps)
next
  case (Cons c cs)
  then have "length (write_cases (c # cs)) = case_size * length (c # cs) \<and> read_cases (write_cases (c # cs) @ rest) = c # cs"
    if "list_all case_shape (c # cs)"
  proof -
    from that have "case_shape c"
      by simp
    note c = case_bytes_length [OF this] case_of_case_bytes [OF this]
    have "write_cases (c # cs) @ rest = case_bytes c @ (write_cases cs @ rest)"
      by (simp add: write_cases_def)
    then have "read_cases (write_cases (c # cs) @ rest) = c # read_cases (write_cases cs @ rest)"
      using c by (simp add: read_cases.simps)
    with Cons.IH that c show ?thesis
      by (simp add: write_cases_def)
  qed
  then show "list_all case_shape (c # cs) \<Longrightarrow> length (write_cases (c # cs)) = case_size * length (c # cs)"
    "list_all case_shape (c # cs) \<Longrightarrow> read_cases (write_cases (c # cs) @ rest) = c # cs"
    by blast+
qed

lemma zero_case_shape: "case_shape zero_case"
  by (simp add: case_shape_def state_shape_def zero_case_def zero_state_def)

end
