(* ===== verification/Test_Config.thy ===== *)
theory Test_Config
  imports Test_Format Run_Invariant
begin

unbundle bit_operations_syntax

text \<open>
  The first part of src/src/test_generator.cpp: the random numbers, the configuration an instruction asks
  of a test case, and the random state that suits a configuration.

  The random numbers come from \<open>std::uniform_int_distribution\<close> over a seeded engine. The engine
  is a state nothing looks into and the distribution a function on it, an argument of everything
  that draws; the only thing used of it is that a draw from a range is in the range.
\<close>

section \<open>Random numbers\<close>

type_synonym 'g uniform = "u64 \<Rightarrow> u64 \<Rightarrow> ('g, u64) step"

definition uniform_ok :: "'g uniform \<Rightarrow> bool" where
  "uniform_ok uniform \<longleftrightarrow>
     (\<forall>a b g. a \<le> b \<longrightarrow> (\<exists>v g'. uniform a b g = Inr (v, g') \<and> a \<le> v \<and> v \<le> b))"

definition random_bit40 :: "'g uniform \<Rightarrow> ('g, u64) step" where
  "random_bit40 uniform =
     sbind (uniform 0 0xFFFFFFFFFF) (\<lambda>v.
     sbind (uniform 0 4) (\<lambda>kind. sreturn (
       if kind = 0 then sign_extend 40 v
       else if kind = 1 then v AND 0xFFFF
       else if kind = 2 then v AND 0xFFFFFFFF
       else if kind = 3 then sign_extend 32 v
       else if kind = 4 then sign_extend 16 v
       else v)))"

definition random_bit32 :: "'g uniform \<Rightarrow> ('g, u32) step" where
  "random_bit32 uniform = sbind (uniform 0 0xFFFFFFFF) (\<lambda>v. sreturn (ucast v))"

definition random_bit16 :: "'g uniform \<Rightarrow> ('g, u16) step" where
  "random_bit16 uniform = sbind (uniform 0 0xFFFF) (\<lambda>v. sreturn (ucast v))"

text \<open>\<open>std::generate\<close> over an array.\<close>

fun draws :: "nat \<Rightarrow> ('g, 'a) step \<Rightarrow> ('g, 'a list) step" where
  "draws 0 m = sreturn []"
| "draws (Suc n) m = sbind m (\<lambda>v. sbind (draws n m) (\<lambda>vs. sreturn (v # vs)))"

section \<open>Configurations\<close>

datatype reg_config = Reg_Any | Reg_Memory

datatype expand_config = Expand_None | Expand_Any | Expand_Memory

record config =
  gc_enable :: bool
  gc_lock_page :: bool
  gc_lock_r7 :: bool
  gc_r :: "reg_config list"
  gc_ar :: "reg_config list"
  gc_arp :: "reg_config list"
  gc_expand :: expand_config

definition config_of :: "bool \<Rightarrow> config" where
  "config_of enable = \<lparr>gc_enable = enable, gc_lock_page = False, gc_lock_r7 = False,
     gc_r = replicate 8 Reg_Any, gc_ar = replicate 4 Reg_Any, gc_arp = replicate 4 Reg_Any,
     gc_expand = Expand_None\<rparr>"

definition with_any_expand :: "config \<Rightarrow> config" where
  "with_any_expand c = c\<lparr>gc_expand := Expand_Any\<rparr>"

definition with_memory_expand :: "config \<Rightarrow> config" where
  "with_memory_expand c = c\<lparr>gc_expand := Expand_Memory\<rparr>"

definition disabled_config :: config where
  "disabled_config = config_of False"

definition any_config :: config where
  "any_config = config_of True"

text \<open>The index of an operand is the number the decoder extracts.\<close>

definition config_with_address :: "u16 \<Rightarrow> config" where
  "config_with_address r = (config_of True)\<lparr>gc_r := (gc_r (config_of True))[unat r := Reg_Memory]\<rparr>"

definition config_with_ar_address :: "u16 \<Rightarrow> config" where
  "config_with_ar_address r = (config_of True)\<lparr>gc_ar := (gc_ar (config_of True))[unat r := Reg_Memory]\<rparr>"

definition config_with_arp_address :: "u16 \<Rightarrow> config" where
  "config_with_arp_address r = (config_of True)\<lparr>gc_arp := (gc_arp (config_of True))[unat r := Reg_Memory]\<rparr>"

definition config_with_imm8 :: "u16 \<Rightarrow> config" where
  "config_with_imm8 imm = (if imm \<in> set [0, 35, 0xE3] then any_config else disabled_config)"

definition config_with_mem_imm8 :: "u16 \<Rightarrow> config" where
  "config_with_mem_imm8 mem =
     (if mem \<in> set [0, 0x88, 0xFF] then any_config\<lparr>gc_lock_page := True\<rparr> else disabled_config)"

definition config_with_mem_r7_imm16 :: config where
  "config_with_mem_r7_imm16 = any_config\<lparr>gc_lock_r7 := True\<rparr>"

definition config_with_mem_r7_imm7s :: "u16 \<Rightarrow> config" where
  "config_with_mem_r7_imm7s mem =
     (if signed16 7 mem \<in> set [0, 4, 0xFFFE] then any_config\<lparr>gc_lock_r7 := True\<rparr> else disabled_config)"

definition is_unimplemented_register :: "reg_name \<Rightarrow> bool" where
  "is_unimplemented_register r \<longleftrightarrow>
     r = Reg_pc \<or> r = Reg_undefine \<or> r = Reg_st0 \<or> r = Reg_st1 \<or> r = Reg_st2 \<or> r = Reg_stt2 \<or>
     r = Reg_ext0 \<or> r = Reg_ext1 \<or> r = Reg_ext2 \<or> r = Reg_ext3 \<or> r = Reg_mod3 \<or> r = Reg_sp"

text \<open>What the generator's handlers give: the configuration of an instruction, or a failed assertion.\<close>

type_synonym tg = "config result"

named_theorems tg_defs \<open>definitions of the handlers of the test generator\<close>

section \<open>The random state of a configuration\<close>

text \<open>The address registers that are to hold an address: those of the operands, and those the indirect operands name.\<close>

definition mark_ar :: "reg_config list \<Rightarrow> u16 list \<Rightarrow> reg_config list \<Rightarrow> nat \<Rightarrow> reg_config list" where
  "mark_ar config ar rp i =
     (if config ! i = Reg_Memory
      then rp[unat (drop_bit (13 - 3 * (i mod 2)) (ar ! (i div 2)) AND 7) := Reg_Memory] else rp)"

definition mark_arp :: "reg_config list \<Rightarrow> u16 list \<Rightarrow> reg_config list \<Rightarrow> nat \<Rightarrow> reg_config list" where
  "mark_arp config arp rp i =
     (if config ! i = Reg_Memory
      then rp[unat (drop_bit 10 (arp ! i) AND 3) := Reg_Memory,
              unat ((drop_bit 13 (arp ! i) AND 3) + 4) := Reg_Memory] else rp)"

definition marked_registers :: "config \<Rightarrow> u16 list \<Rightarrow> u16 list \<Rightarrow> reg_config list" where
  "marked_registers c ar arp =
     foldl (mark_arp (gc_arp c) arp) (foldl (mark_ar (gc_ar c) ar) (gc_r c) [0..<4]) [0..<4]"

definition random_address :: "'g uniform \<Rightarrow> u16 \<Rightarrow> ('g, u16) step" where
  "random_address uniform space =
     sbind (uniform 10 (of_nat TestSpaceSize - 10)) (\<lambda>v. sreturn (space + ucast v))"

fun place_registers :: "'g uniform \<Rightarrow> u16 \<Rightarrow> reg_config list \<Rightarrow> nat list \<Rightarrow> u16 list \<Rightarrow> ('g, u16 list) step" where
  "place_registers uniform mod2 rp [] r = sreturn r"
| "place_registers uniform mod2 rp (i # is) r =
     (if rp ! i = Reg_Memory then
        sbind (random_address uniform (if i < 4 then TestSpaceX else TestSpaceY)) (\<lambda>v.
          place_registers uniform mod2 rp is
            (r[i := if drop_bit i mod2 AND 1 = 0 \<and> drop_bit (i + 8) mod2 AND 1 \<noteq> 0
                    then bit_reverse16 v else v]))
      else place_registers uniform mod2 rp is r)"

definition random_sv :: "'g uniform \<Rightarrow> ('g, u16) step" where
  "random_sv uniform =
     sbind (random_bit16 uniform) (\<lambda>sv.
     sbind (uniform 0 1) (\<lambda>small. sreturn (if small = 1 then sign_extend 7 (sv AND 128) else sv)))"

definition generate_random_state :: "'g uniform \<Rightarrow> config \<Rightarrow> ('g, test_state) step" where
  "generate_random_state uniform c =
     sbind (random_bit16 uniform) (\<lambda>stepi0.
     sbind (random_bit16 uniform) (\<lambda>stepj0.
     sbind (random_bit16 uniform) (\<lambda>mixp.
     sbind (random_sv uniform) (\<lambda>sv.
     sbind (random_bit16 uniform) (\<lambda>repc.
     sbind (random_bit16 uniform) (\<lambda>lc.
     sbind (random_bit16 uniform) (\<lambda>cfgi.
     sbind (random_bit16 uniform) (\<lambda>cfgj.
     sbind (random_bit16 uniform) (\<lambda>stt0.
     sbind (random_bit16 uniform) (\<lambda>stt1.
     sbind (random_bit16 uniform) (\<lambda>stt2.
     sbind (random_bit16 uniform) (\<lambda>mod0.
     sbind (random_bit16 uniform) (\<lambda>mod1.
     sbind (random_bit16 uniform) (\<lambda>mod2.
     let mod1 = (if gc_lock_page c then (mod1 AND 0xFF00) OR drop_bit 8 TestSpaceX else mod1) in
     sbind (draws 2 (random_bit16 uniform)) (\<lambda>ar.
     sbind (draws 4 (random_bit16 uniform)) (\<lambda>arp.
     sbind (draws 2 (random_bit16 uniform)) (\<lambda>x.
     sbind (draws 2 (random_bit16 uniform)) (\<lambda>y.
     sbind (draws 2 (random_bit32 uniform)) (\<lambda>p.
     sbind (draws 2 (random_bit40 uniform)) (\<lambda>a.
     sbind (draws 2 (random_bit40 uniform)) (\<lambda>b.
     sbind (draws 8 (random_bit16 uniform)) (\<lambda>r.
     sbind (draws TestSpaceSize (random_bit16 uniform)) (\<lambda>space_x.
     sbind (draws TestSpaceSize (random_bit16 uniform)) (\<lambda>space_y.
     sbind (place_registers uniform mod2 (marked_registers c ar arp) [0..<8] r) (\<lambda>r.
     sbind (if gc_lock_r7 c
            then sbind (random_address uniform TestSpaceY) (\<lambda>v. sreturn (r[7 := v]))
            else sreturn r) (\<lambda>r.
     sreturn \<lparr>ts_a = a, ts_b = b, ts_p = p, ts_r = r, ts_x = x, ts_y = y, ts_stepi0 = stepi0,
       ts_stepj0 = stepj0, ts_mixp = mixp, ts_sv = sv, ts_repc = repc, ts_lc = lc, ts_cfgi = cfgi,
       ts_cfgj = cfgj, ts_stt0 = stt0, ts_stt1 = stt1, ts_stt2 = stt2, ts_mod0 = mod0,
       ts_mod1 = mod1, ts_mod2 = mod2, ts_ar = ar, ts_arp = arp, ts_space_x = space_x,
       ts_space_y = space_y\<rparr>))))))))))))))))))))))))))"

section \<open>What a draw yields\<close>

text \<open>A step that always returns, with a value of a kind.\<close>

definition yields :: "('a \<Rightarrow> bool) \<Rightarrow> ('g, 'a) step \<Rightarrow> bool" where
  "yields P m \<longleftrightarrow> (\<forall>g. \<exists>v g'. m g = Inr (v, g') \<and> P v)"

lemma yieldsD: "yields P m \<Longrightarrow> m g = Inr (v, g') \<Longrightarrow> P v"
  unfolding yields_def by (metis Inr_inject Pair_inject)

lemma yields_sreturn: "P v \<Longrightarrow> yields P (sreturn v)"
  by (simp add: yields_def)

lemma yields_return [simp]: "yields P (\<lambda>g. Inr (v, g)) \<longleftrightarrow> P v"
  by (simp add: yields_def)

lemma yields_sbind:
  assumes "yields Q m" and "\<And>v. Q v \<Longrightarrow> yields P (f v)"
  shows "yields P (sbind m f)"
  unfolding yields_def
proof
  fix g
  obtain v g' where v: "m g = Inr (v, g')" "Q v"
    using assms(1) unfolding yields_def by blast
  then obtain w g'' where "f v g' = Inr (w, g'')" "P w"
    using assms(2) [of v] unfolding yields_def by blast
  with v show "\<exists>w g'. sbind m f g = Inr (w, g') \<and> P w"
    by (auto simp: sbind_def)
qed

lemma yields_weaken: "yields Q m \<Longrightarrow> (\<And>v. Q v \<Longrightarrow> P v) \<Longrightarrow> yields P m"
  unfolding yields_def by blast

lemma yields_if: "(b \<Longrightarrow> yields P m) \<Longrightarrow> (\<not> b \<Longrightarrow> yields P n) \<Longrightarrow> yields P (if b then m else n)"
  by simp

lemma yields_draws: "yields P m \<Longrightarrow> yields (\<lambda>vs. length vs = n \<and> (\<forall>v \<in> set vs. P v)) (draws n m)"
  by (induction n) (auto intro!: yields_sreturn elim!: yields_sbind)

lemma yields_uniform: "uniform_ok uniform \<Longrightarrow> a \<le> b \<Longrightarrow> yields (\<lambda>v. a \<le> v \<and> v \<le> b) (uniform a b)"
  unfolding uniform_ok_def yields_def by blast

lemma yields_bit16: "uniform_ok uniform \<Longrightarrow> yields (\<lambda>_. True) (random_bit16 uniform)"
  unfolding random_bit16_def by (rule yields_sbind [OF yields_uniform]) auto

lemma yields_bit32: "uniform_ok uniform \<Longrightarrow> yields (\<lambda>_. True) (random_bit32 uniform)"
  unfolding random_bit32_def by (rule yields_sbind [OF yields_uniform]) auto

lemma yields_bit40: "uniform_ok uniform \<Longrightarrow> yields acc40 (random_bit40 uniform)"
proof -
  assume u: "uniform_ok uniform"
  have m: "(0xFFFFFFFF :: u64) = mask 32" "(4 :: u64) = of_nat 4"
    by (simp_all add: mask_eq_exp_minus_1)
  have k: "kind \<le> 4 \<Longrightarrow> kind \<noteq> 0 \<Longrightarrow> kind \<noteq> 1 \<Longrightarrow> kind \<noteq> 2 \<Longrightarrow> kind \<noteq> 3 \<Longrightarrow> kind = 4" for kind :: u64
    by (simp add: word_le_nat_alt word_unat_eq_iff)
  show ?thesis
    unfolding random_bit40_def
    by (intro yields_sbind [OF yields_uniform [OF u]] yields_sreturn)
      (auto simp: m(1) intro!: acc40_low acc40_low16 acc40_sign_extend_upto dest: k)
qed

lemma yields_sv: "uniform_ok uniform \<Longrightarrow> yields (\<lambda>_. True) (random_sv uniform)"
  unfolding random_sv_def
  by (auto intro!: yields_sreturn yields_sbind [OF yields_bit16] yields_sbind [OF yields_uniform])

definition in_space :: "u16 \<Rightarrow> u16 \<Rightarrow> bool" where
  "in_space space v \<longleftrightarrow> space + 10 \<le> v \<and> v \<le> space + (of_nat TestSpaceSize - 10)"

lemma yields_address:
  assumes "uniform_ok uniform" and "space = TestSpaceX \<or> space = TestSpaceY"
  shows "yields (in_space space) (random_address uniform space)"
  unfolding random_address_def
proof (rule yields_sbind [OF yields_uniform [OF assms(1)]])
  fix v :: u64
  assume "10 \<le> v \<and> v \<le> of_nat TestSpaceSize - 10"
  then have v: "10 \<le> unat v" "unat v \<le> 502"
    by (simp_all add: word_le_nat_alt)
  then have "unat (ucast v :: u16) = unat v"
    by (simp add: unsigned_ucast_eq take_bit_nat_eq_self)
  moreover from this have "unat (space + ucast v) = unat space + unat v"
    using assms(2) v by (auto simp: unat_word_ariths)
  ultimately show "yields (in_space space) (sreturn (space + ucast v))"
    using assms(2) v by (intro yields_sreturn) (auto simp: in_space_def word_le_nat_alt)
qed simp

section \<open>What a generated state holds\<close>

definition home_space :: "nat \<Rightarrow> u16" where
  "home_space i = (if i < 4 then TestSpaceX else TestSpaceY)"

text \<open>The address an address register stands for, reversed when its bits of mod2 say so.\<close>

definition state_address :: "u16 \<Rightarrow> nat \<Rightarrow> u16 \<Rightarrow> u16" where
  "state_address mod2 i v =
     (if drop_bit i mod2 AND 1 = 0 \<and> drop_bit (i + 8) mod2 AND 1 \<noteq> 0 then bit_reverse16 v else v)"

lemma bit_reverse_fold:
  "k \<le> 16 \<Longrightarrow> n < 16 \<Longrightarrow>
   bit (foldl (\<lambda>result i. result OR push_bit (15 - i) (drop_bit i v AND 1)) 0 [0..<k] :: u16) n \<longleftrightarrow>
   15 - n < k \<and> bit v (15 - n)"
proof (induction k)
  case (Suc k)
  moreover have "bit (push_bit (15 - k) (drop_bit k v AND 1)) n \<longleftrightarrow> n = 15 - k \<and> bit v k"
    using Suc.prems by (auto simp: bit_simps)
  moreover have "n = 15 - k \<longleftrightarrow> 15 - n = k"
    using Suc.prems by auto
  ultimately show ?case
    by (auto simp: bit_or_iff less_Suc_eq)
qed simp

lemma bit_bit_reverse16: "n < 16 \<Longrightarrow> bit (bit_reverse16 v) n = bit v (15 - n)"
  unfolding bit_reverse16_def by (subst bit_reverse_fold) auto

lemma bit_reverse16_twice [simp]: "bit_reverse16 (bit_reverse16 v) = v"
  by (rule bit_word_eqI) (simp add: bit_bit_reverse16)

lemma state_address_twice [simp]: "state_address mod2 i (state_address mod2 i v) = v"
  by (simp add: state_address_def)

lemma yields_place:
  assumes u: "uniform_ok uniform" and "distinct is" and "\<forall>i \<in> set is. i < length r"
  shows "yields (\<lambda>r'. length r' = length r \<and>
      (\<forall>i \<in> set is. rp ! i = Reg_Memory \<longrightarrow> in_space (home_space i) (state_address mod2 i (r' ! i))) \<and>
      (\<forall>i. i \<notin> set is \<longrightarrow> r' ! i = r ! i)) (place_registers uniform mod2 rp is r)"
  using assms(2, 3)
proof (induction "is" arbitrary: r)
  case Nil
  then show ?case
    by simp
next
  case (Cons i "is")
  show ?case
  proof (cases "rp ! i = Reg_Memory")
    case False
    with Cons.IH [of r] Cons.prems show ?thesis
      by (auto elim!: yields_weaken)
  next
    case True
    have "yields (\<lambda>r'. length r' = length r \<and>
        (\<forall>j \<in> set (i # is). rp ! j = Reg_Memory \<longrightarrow> in_space (home_space j) (state_address mod2 j (r' ! j))) \<and>
        (\<forall>j. j \<notin> set (i # is) \<longrightarrow> r' ! j = r ! j))
      (place_registers uniform mod2 rp is (r[i := state_address mod2 i v]))"
      if "in_space (home_space i) v" for v
      using Cons.IH [of "r[i := state_address mod2 i v]"] Cons.prems that
      by (auto elim!: yields_weaken)
    moreover have "home_space i = TestSpaceX \<or> home_space i = TestSpaceY"
      by (simp add: home_space_def)
    ultimately show ?thesis
      unfolding place_registers.simps state_address_def [symmetric] home_space_def [symmetric]
      by (simp only: True simp_thms if_True) (rule yields_sbind [OF yields_address [OF u]])
  qed
qed

text \<open>Marking only adds registers, and adds those it is asked to.\<close>

definition adds_marks :: "reg_config list \<Rightarrow> reg_config list \<Rightarrow> bool" where
  "adds_marks rp rp' \<longleftrightarrow> length rp' = length rp \<and>
     (\<forall>i < length rp. rp ! i = Reg_Memory \<longrightarrow> rp' ! i = Reg_Memory)"

lemma adds_marks_refl: "adds_marks rp rp"
  by (simp add: adds_marks_def)

lemma adds_marks_trans: "adds_marks a b \<Longrightarrow> adds_marks b c \<Longrightarrow> adds_marks a c"
  by (simp add: adds_marks_def)

lemma adds_marks_update: "adds_marks rp (rp[i := Reg_Memory])"
  unfolding adds_marks_def by (metis length_list_update nth_list_update nth_list_update_neq)

lemma adds_marks_foldl: "(\<And>rp i. adds_marks rp (f rp i)) \<Longrightarrow> adds_marks rp (foldl f rp ks)"
  by (induction ks arbitrary: rp) (auto intro: adds_marks_refl adds_marks_trans)

lemma adds_marks_ar: "adds_marks rp (mark_ar config ar rp i)"
  by (simp add: mark_ar_def adds_marks_refl adds_marks_update)

lemma adds_marks_arp: "adds_marks rp (mark_arp config arp rp i)"
  unfolding mark_arp_def by (auto intro: adds_marks_refl adds_marks_trans [OF adds_marks_update adds_marks_update])

lemma foldl_marks:
  assumes "\<And>rp i. adds_marks rp (f rp i)" and "i \<in> set ks" and "k < length rp"
    and "\<And>rp. k < length rp \<Longrightarrow> f rp i ! k = Reg_Memory"
  shows "foldl f rp ks ! k = Reg_Memory"
  using assms(2, 3)
proof (induction ks arbitrary: rp)
  case (Cons j ks)
  have l: "k < length (f rp j)"
    using assms(1) [of rp j] Cons.prems(2) by (simp add: adds_marks_def)
  show ?case
  proof (cases "i = j")
    case True
    with assms(4) [of rp] Cons.prems have "f rp j ! k = Reg_Memory"
      by simp
    with l adds_marks_foldl [where f = f and rp = "f rp j" and ks = ks, OF assms(1)] show ?thesis
      by (simp add: adds_marks_def)
  next
    case False
    with Cons l show ?thesis
      by simp
  qed
qed simp

definition config_shape :: "config \<Rightarrow> bool" where
  "config_shape c \<longleftrightarrow> length (gc_r c) = 8 \<and> length (gc_ar c) = 4 \<and> length (gc_arp c) = 4 \<and>
     (gc_lock_r7 c \<longrightarrow> gc_r c = replicate 8 Reg_Any \<and> gc_ar c = replicate 4 Reg_Any \<and>
        gc_arp c = replicate 4 Reg_Any)"

lemma marked_operand:
  assumes "config_shape c" and "i < 8" and "gc_r c ! i = Reg_Memory"
  shows "marked_registers c ar arp ! i = Reg_Memory"
proof -
  have "adds_marks (gc_r c) (marked_registers c ar arp)"
    unfolding marked_registers_def
    by (intro adds_marks_trans [OF adds_marks_foldl adds_marks_foldl] adds_marks_ar adds_marks_arp)
  with assms show ?thesis
    by (simp add: adds_marks_def config_shape_def)
qed

lemma unat_and_mask_less: "unat (v AND mask n :: u16) < 2 ^ n"
  by (simp add: unsigned_take_bit_eq flip: take_bit_eq_mask)

lemma marked_ar:
  assumes "config_shape c" and "i < 4" and "gc_ar c ! i = Reg_Memory"
  shows "marked_registers c ar arp ! unat (drop_bit (13 - 3 * (i mod 2)) (ar ! (i div 2)) AND 7) = Reg_Memory"
    (is "_ ! ?k = _")
proof -
  have k: "?k < 8"
    using unat_and_mask_less [where n = 3] by (simp add: mask_eq_exp_minus_1)
  have "foldl (mark_ar (gc_ar c) ar) (gc_r c) [0..<4] ! ?k = Reg_Memory"
    using assms k by (intro foldl_marks [of _ i] adds_marks_ar) (auto simp: mark_ar_def config_shape_def)
  moreover have "adds_marks (gc_r c) (foldl (mark_ar (gc_ar c) ar) (gc_r c) [0..<4])"
    by (intro adds_marks_foldl adds_marks_ar)
  moreover have "adds_marks rp (foldl (mark_arp (gc_arp c) arp) rp [0..<4])" for rp
    by (intro adds_marks_foldl adds_marks_arp)
  ultimately show ?thesis
    using k assms(1) unfolding marked_registers_def adds_marks_def config_shape_def by metis
qed

lemma marked_arp:
  assumes "config_shape c" and "i < 4" and "gc_arp c ! i = Reg_Memory"
  shows "marked_registers c ar arp ! unat (drop_bit 10 (arp ! i) AND 3) = Reg_Memory"
    and "marked_registers c ar arp ! unat ((drop_bit 13 (arp ! i) AND 3) + 4) = Reg_Memory"
proof -
  let ?rp = "foldl (mark_ar (gc_ar c) ar) (gc_r c) [0..<4]"
  have l: "length ?rp = 8"
    using adds_marks_foldl [where f = "mark_ar (gc_ar c) ar", OF adds_marks_ar] assms(1)
    by (simp add: adds_marks_def config_shape_def)
  have k: "unat (drop_bit n (arp ! i) AND 3) < 4" for n
    using unat_and_mask_less [where n = 2] by (simp add: mask_eq_exp_minus_1)
  have k4: "unat ((drop_bit n (arp ! i) AND 3) + 4) = unat (drop_bit n (arp ! i) AND 3) + 4" for n
    using k [of n] by (simp add: unat_word_ariths)
  have k8: "unat (drop_bit n (arp ! i) AND 3) < 8" "unat (drop_bit n (arp ! i) AND 3) + 4 < 8" for n
    using k [of n] by simp_all
  have apart: "rp[unat (drop_bit 10 (arp ! i) AND 3) := v, unat (drop_bit 13 (arp ! i) AND 3) + 4 := v] !
      unat (drop_bit 10 (arp ! i) AND 3) = v" if "unat (drop_bit 10 (arp ! i) AND 3) < length rp" for rp and v :: reg_config
    using k [of 10] that by simp
  show "marked_registers c ar arp ! unat (drop_bit 10 (arp ! i) AND 3) = Reg_Memory"
    "marked_registers c ar arp ! unat ((drop_bit 13 (arp ! i) AND 3) + 4) = Reg_Memory"
    unfolding marked_registers_def
    using assms(2, 3) l k4 k8 apart
    by (auto intro!: foldl_marks [of _ i] adds_marks_arp simp: mark_arp_def)
qed

text \<open>What the random state of a configuration holds.\<close>

definition memory_register :: "config \<Rightarrow> test_state \<Rightarrow> nat \<Rightarrow> bool" where
  "memory_register c s i \<longleftrightarrow>
     marked_registers c (ts_ar s) (ts_arp s) ! i = Reg_Memory \<and> \<not> (gc_lock_r7 c \<and> i = 7)"

definition state_suits :: "config \<Rightarrow> test_state \<Rightarrow> bool" where
  "state_suits c s \<longleftrightarrow>
     state_shape s \<and> (\<forall>v \<in> set (ts_a s). acc40 v) \<and> (\<forall>v \<in> set (ts_b s). acc40 v) \<and>
     (\<forall>i < 8. memory_register c s i \<longrightarrow>
        in_space (home_space i) (state_address (ts_mod2 s) i (ts_r s ! i))) \<and>
     (gc_lock_r7 c \<longrightarrow> in_space TestSpaceY (ts_r s ! 7)) \<and>
     (gc_lock_page c \<longrightarrow> ts_mod1 s AND 0xFF = drop_bit 8 TestSpaceX)"

lemma page_locked: "((mod1 AND 0xFF00) OR 0x64) AND 0xFF = (0x64 :: u16)"
proof -
  have "((mod1 AND 0xFF00) OR 0x64) AND 0xFF = (mod1 AND (0xFF00 AND 0xFF)) OR (0x64 AND 0xFF :: u16)"
    by (simp only: bit.conj_disj_distrib2 and.assoc)
  then show ?thesis
    by simp
qed

lemma generated_state_suits:
  assumes u: "uniform_ok uniform" and c: "config_shape c"
  shows "yields (state_suits c) (generate_random_state uniform c)"
proof -
  have place: "yields (\<lambda>r'. length r' = 8 \<and>
      (\<forall>i < 8. rp ! i = Reg_Memory \<longrightarrow> in_space (home_space i) (state_address mod2 i (r' ! i))))
      (place_registers uniform mod2 rp [0..<8] r)" if "length r = 8" for mod2 rp r
    by (rule yields_weaken [OF yields_place [OF u]]) (use that in auto)
  have lock: "yields (\<lambda>r'. length r' = length r \<and> (gc_lock_r7 c \<longrightarrow> in_space TestSpaceY (r' ! 7)) \<and>
      (\<forall>i. \<not> (gc_lock_r7 c \<and> i = 7) \<longrightarrow> r' ! i = r ! i))
      (if gc_lock_r7 c then sbind (random_address uniform TestSpaceY) (\<lambda>v. sreturn (r[7 := v])) else sreturn r)"
    if "length r = 8" for r
    using that by (auto intro!: yields_sbind [OF yields_address [OF u]] yields_sreturn)
  show ?thesis
    unfolding generate_random_state_def Let_def
    apply (intro yields_sbind [OF yields_bit16 [OF u]] yields_sbind [OF yields_sv [OF u]]
      yields_sbind [OF yields_draws [OF yields_bit16 [OF u]]] yields_sbind [OF yields_draws [OF yields_bit32 [OF u]]]
      yields_sbind [OF yields_draws [OF yields_bit40 [OF u]]] yields_sbind [OF place] yields_sbind [OF lock] yields_sreturn)
      apply simp_all
    apply (auto simp: state_suits_def state_shape_def memory_register_def page_locked)
    done
qed

end
