(* ===== verification/Test_Handlers_Compute.thy ===== *)
theory Test_Handlers_Compute
  imports Test_Config
begin

text \<open>
  src/src/test_generator.cpp, the member functions of the visitor class for
  arithmetic, control flow, the stack, shifts, tests, products and address steps.
  Each gives the configuration of the test cases of an instruction.
\<close>

definition tg_nop :: "tg" where [tg_defs]:
  "tg_nop = Inr disabled_config"

definition tg_norm :: "u16 \<Rightarrow> u16 \<Rightarrow> u16 \<Rightarrow> tg" where [tg_defs]:
  "tg_norm a b bs = Inr any_config"

definition tg_swap_accs :: "u16 \<Rightarrow> tg" where [tg_defs]:
  "tg_swap_accs swap =
     (if SwapType swap = Swap_reserved0 \<or> SwapType swap = Swap_reserved1 then Inr disabled_config
      else Inr any_config)"

definition tg_trap :: "tg" where [tg_defs]:
  "tg_trap = Inr disabled_config"

definition tg_alm_mem_imm8 :: "u16 \<Rightarrow> u16 \<Rightarrow> u16 \<Rightarrow> tg" where [tg_defs]:
  "tg_alm_mem_imm8 op a b =
     (if Alm op = Alm_Sqr \<and> Ax b \<noteq> Reg_a0 then Inr disabled_config
      else Inr (config_with_mem_imm8 a))"

definition tg_alm_rn :: "u16 \<Rightarrow> u16 \<Rightarrow> u16 \<Rightarrow> u16 \<Rightarrow> tg" where [tg_defs]:
  "tg_alm_rn op a as b =
     (if Alm op = Alm_Sqr \<and> Ax b \<noteq> Reg_a0 then Inr disabled_config
      else Inr (config_with_address a))"

definition tg_alm_register :: "u16 \<Rightarrow> u16 \<Rightarrow> u16 \<Rightarrow> tg" where [tg_defs]:
  "tg_alm_register op a b =
     (if Alm op = Alm_Sqr \<and> Ax b \<noteq> Reg_a0 then Inr disabled_config
      else if is_unimplemented_register (Register a) then Inr disabled_config
      else (let allowed = (if Alm op \<in> set [Alm_Or, Alm_And, Alm_Xor, Alm_Add, Alm_Cmp, Alm_Sub]
                     then Inr any_config else Inr disabled_config)
      in case Register a of
         Reg_p \<Rightarrow> allowed | Reg_a0 \<Rightarrow> allowed | Reg_a1 \<Rightarrow> allowed
       | _ \<Rightarrow> Inr any_config))"

definition tg_alm_r6 :: "u16 \<Rightarrow> u16 \<Rightarrow> tg" where [tg_defs]:
  "tg_alm_r6 op b = Inr any_config"

definition tg_alu_mem_imm16 :: "u16 \<Rightarrow> u16 \<Rightarrow> u16 \<Rightarrow> tg" where [tg_defs]:
  "tg_alu_mem_imm16 op a b = Inr (with_memory_expand any_config)"

definition tg_alu_mem_r7_imm16 :: "u16 \<Rightarrow> u16 \<Rightarrow> u16 \<Rightarrow> tg" where [tg_defs]:
  "tg_alu_mem_r7_imm16 op a b = Inr config_with_mem_r7_imm16"

definition tg_alu_imm16 :: "u16 \<Rightarrow> u16 \<Rightarrow> u16 \<Rightarrow> tg" where [tg_defs]:
  "tg_alu_imm16 op a b = Inr (with_any_expand any_config)"

definition tg_alu_imm8 :: "u16 \<Rightarrow> u16 \<Rightarrow> u16 \<Rightarrow> tg" where [tg_defs]:
  "tg_alu_imm8 op a b = Inr (config_with_imm8 a)"

definition tg_alu_mem_r7_imm7s :: "u16 \<Rightarrow> u16 \<Rightarrow> u16 \<Rightarrow> tg" where [tg_defs]:
  "tg_alu_mem_r7_imm7s op a b = Inr (config_with_mem_r7_imm7s a)"

definition tg_or_ab_ax :: "u16 \<Rightarrow> u16 \<Rightarrow> u16 \<Rightarrow> tg" where [tg_defs]:
  "tg_or_ab_ax a b c = Inr any_config"

definition tg_or_ax_bx :: "u16 \<Rightarrow> u16 \<Rightarrow> u16 \<Rightarrow> tg" where [tg_defs]:
  "tg_or_ax_bx a b c = Inr any_config"

definition tg_or_bx_bx :: "u16 \<Rightarrow> u16 \<Rightarrow> u16 \<Rightarrow> tg" where [tg_defs]:
  "tg_or_bx_bx a b c = Inr any_config"

definition tg_alb_mem_imm8 :: "u16 \<Rightarrow> u16 \<Rightarrow> u16 \<Rightarrow> tg" where [tg_defs]:
  "tg_alb_mem_imm8 op a b = Inr (with_any_expand (config_with_mem_imm8 b))"

definition tg_alb_rn :: "u16 \<Rightarrow> u16 \<Rightarrow> u16 \<Rightarrow> u16 \<Rightarrow> tg" where [tg_defs]:
  "tg_alb_rn op a b bs = Inr (with_any_expand (config_with_address b))"

definition tg_alb_register :: "u16 \<Rightarrow> u16 \<Rightarrow> u16 \<Rightarrow> tg" where [tg_defs]:
  "tg_alb_register op a b =
     (if is_unimplemented_register (Register b) then Inr disabled_config
      else (case Register b of
         Reg_a0 \<Rightarrow> Inr disabled_config | Reg_a1 \<Rightarrow> Inr disabled_config
       | _ \<Rightarrow> Inr (with_any_expand any_config)))"

definition tg_alb_r6 :: "u16 \<Rightarrow> u16 \<Rightarrow> tg" where [tg_defs]:
  "tg_alb_r6 op a = Inr (with_any_expand any_config)"

definition tg_alb_stt_mod :: "u16 \<Rightarrow> u16 \<Rightarrow> u16 \<Rightarrow> tg" where [tg_defs]:
  "tg_alb_stt_mod op a b =
     (if is_unimplemented_register (SttMod b) then Inr disabled_config
      else Inr (with_any_expand any_config))"

definition tg_add_ab_bx :: "u16 \<Rightarrow> u16 \<Rightarrow> tg" where [tg_defs]:
  "tg_add_ab_bx a b = Inr any_config"

definition tg_add_bx_ax :: "u16 \<Rightarrow> u16 \<Rightarrow> tg" where [tg_defs]:
  "tg_add_bx_ax a b = Inr any_config"

definition tg_add_p1 :: "u16 \<Rightarrow> tg" where [tg_defs]:
  "tg_add_p1 b = Inr any_config"

definition tg_add_px_bx :: "u16 \<Rightarrow> u16 \<Rightarrow> tg" where [tg_defs]:
  "tg_add_px_bx a b = Inr any_config"

definition tg_sub_ab_bx :: "u16 \<Rightarrow> u16 \<Rightarrow> tg" where [tg_defs]:
  "tg_sub_ab_bx a b = Inr any_config"

definition tg_sub_bx_ax :: "u16 \<Rightarrow> u16 \<Rightarrow> tg" where [tg_defs]:
  "tg_sub_bx_ax a b = Inr any_config"

definition tg_sub_p1_acc :: "u16 \<Rightarrow> tg" where [tg_defs]:
  "tg_sub_p1_acc b = Inr any_config"

definition tg_sub_px_bx :: "u16 \<Rightarrow> u16 \<Rightarrow> tg" where [tg_defs]:
  "tg_sub_px_bx a b = Inr any_config"

definition tg_app :: "u16 \<Rightarrow> sum_base \<Rightarrow> bool \<Rightarrow> bool \<Rightarrow> bool \<Rightarrow> bool \<Rightarrow> tg" where [tg_defs]:
  "tg_app c base sub_p0 p0_align sub_p1 p1_align = Inr any_config"

definition tg_add_add :: "u16 \<Rightarrow> u16 \<Rightarrow> u16 \<Rightarrow> u16 \<Rightarrow> tg" where [tg_defs]:
  "tg_add_add a asi asj b = Inr (config_with_arp_address a)"

definition tg_add_sub_pairs :: "u16 \<Rightarrow> u16 \<Rightarrow> u16 \<Rightarrow> u16 \<Rightarrow> tg" where [tg_defs]:
  "tg_add_sub_pairs a asi asj b = Inr (config_with_arp_address a)"

definition tg_sub_add :: "u16 \<Rightarrow> u16 \<Rightarrow> u16 \<Rightarrow> u16 \<Rightarrow> tg" where [tg_defs]:
  "tg_sub_add a asi asj b = Inr (config_with_arp_address a)"

definition tg_sub_sub :: "u16 \<Rightarrow> u16 \<Rightarrow> u16 \<Rightarrow> u16 \<Rightarrow> tg" where [tg_defs]:
  "tg_sub_sub a asi asj b = Inr (config_with_arp_address a)"

definition tg_add_sub_sv :: "u16 \<Rightarrow> u16 \<Rightarrow> u16 \<Rightarrow> tg" where [tg_defs]:
  "tg_add_sub_sv a as b = Inr (config_with_ar_address a)"

definition tg_sub_add_sv :: "u16 \<Rightarrow> u16 \<Rightarrow> u16 \<Rightarrow> tg" where [tg_defs]:
  "tg_sub_add_sv a as b = Inr (config_with_ar_address a)"

definition tg_sub_add_i_mov_j_sv :: "u16 \<Rightarrow> u16 \<Rightarrow> u16 \<Rightarrow> u16 \<Rightarrow> tg" where [tg_defs]:
  "tg_sub_add_i_mov_j_sv a asi asj b = Inr (config_with_arp_address a)"

definition tg_sub_add_j_mov_i_sv :: "u16 \<Rightarrow> u16 \<Rightarrow> u16 \<Rightarrow> u16 \<Rightarrow> tg" where [tg_defs]:
  "tg_sub_add_j_mov_i_sv a asi asj b = Inr (config_with_arp_address a)"

definition tg_add_sub_i_mov_j :: "u16 \<Rightarrow> u16 \<Rightarrow> u16 \<Rightarrow> u16 \<Rightarrow> tg" where [tg_defs]:
  "tg_add_sub_i_mov_j a asi asj b = Inr (config_with_arp_address a)"

definition tg_add_sub_j_mov_i :: "u16 \<Rightarrow> u16 \<Rightarrow> u16 \<Rightarrow> u16 \<Rightarrow> tg" where [tg_defs]:
  "tg_add_sub_j_mov_i a asi asj b = Inr (config_with_arp_address a)"

definition tg_moda4 :: "u16 \<Rightarrow> u16 \<Rightarrow> u16 \<Rightarrow> tg" where [tg_defs]:
  "tg_moda4 op a cond = Inr any_config"

definition tg_moda3 :: "u16 \<Rightarrow> u16 \<Rightarrow> u16 \<Rightarrow> tg" where [tg_defs]:
  "tg_moda3 op a cond = Inr any_config"

definition tg_pacr1 :: "u16 \<Rightarrow> tg" where [tg_defs]:
  "tg_pacr1 a = Inr any_config"

definition tg_clr :: "u16 \<Rightarrow> u16 \<Rightarrow> tg" where [tg_defs]:
  "tg_clr a b = Inr any_config"

definition tg_clrr :: "u16 \<Rightarrow> u16 \<Rightarrow> tg" where [tg_defs]:
  "tg_clrr a b = Inr any_config"

definition tg_bkrep_imm8 :: "u16 \<Rightarrow> u16 \<Rightarrow> tg" where [tg_defs]:
  "tg_bkrep_imm8 a addr = Inr disabled_config"

definition tg_bkrep_register :: "u16 \<Rightarrow> u16 \<Rightarrow> u16 \<Rightarrow> tg" where [tg_defs]:
  "tg_bkrep_register a addr_low addr_high = Inr disabled_config"

definition tg_bkrep_r6 :: "u16 \<Rightarrow> u16 \<Rightarrow> tg" where [tg_defs]:
  "tg_bkrep_r6 addr_low addr_high = Inr disabled_config"

definition tg_bkreprst :: "u16 \<Rightarrow> tg" where [tg_defs]:
  "tg_bkreprst a = Inr disabled_config"

definition tg_bkreprst_memsp :: "tg" where [tg_defs]:
  "tg_bkreprst_memsp = Inr disabled_config"

definition tg_bkrepsto :: "u16 \<Rightarrow> tg" where [tg_defs]:
  "tg_bkrepsto a = Inr disabled_config"

definition tg_bkrepsto_memsp :: "tg" where [tg_defs]:
  "tg_bkrepsto_memsp = Inr disabled_config"

definition tg_banke :: "u16 \<Rightarrow> tg" where [tg_defs]:
  "tg_banke flags = Inr disabled_config"

definition tg_bankr :: "tg" where [tg_defs]:
  "tg_bankr = Inr disabled_config"

definition tg_bankr_ar :: "u16 \<Rightarrow> tg" where [tg_defs]:
  "tg_bankr_ar a = Inr disabled_config"

definition tg_bankr_ar_arp :: "u16 \<Rightarrow> u16 \<Rightarrow> tg" where [tg_defs]:
  "tg_bankr_ar_arp a b = Inr disabled_config"

definition tg_bankr_arp :: "u16 \<Rightarrow> tg" where [tg_defs]:
  "tg_bankr_arp a = Inr disabled_config"

definition tg_bitrev :: "u16 \<Rightarrow> tg" where [tg_defs]:
  "tg_bitrev a = Inr any_config"

definition tg_bitrev_dbrv :: "u16 \<Rightarrow> tg" where [tg_defs]:
  "tg_bitrev_dbrv a = Inr any_config"

definition tg_bitrev_ebrv :: "u16 \<Rightarrow> tg" where [tg_defs]:
  "tg_bitrev_ebrv a = Inr any_config"

definition tg_br :: "u16 \<Rightarrow> u16 \<Rightarrow> u16 \<Rightarrow> tg" where [tg_defs]:
  "tg_br addr_low addr_high cond = Inr disabled_config"

definition tg_brr :: "u16 \<Rightarrow> u16 \<Rightarrow> tg" where [tg_defs]:
  "tg_brr addr cond = Inr disabled_config"

definition tg_break_instr :: "tg" where [tg_defs]:
  "tg_break_instr = Inr disabled_config"

definition tg_call :: "u16 \<Rightarrow> u16 \<Rightarrow> u16 \<Rightarrow> tg" where [tg_defs]:
  "tg_call addr_low addr_high cond = Inr disabled_config"

definition tg_calla_axl :: "u16 \<Rightarrow> tg" where [tg_defs]:
  "tg_calla_axl a = Inr disabled_config"

definition tg_calla_ax :: "u16 \<Rightarrow> tg" where [tg_defs]:
  "tg_calla_ax a = Inr disabled_config"

definition tg_callr :: "u16 \<Rightarrow> u16 \<Rightarrow> tg" where [tg_defs]:
  "tg_callr addr cond = Inr disabled_config"

definition tg_cntx_s :: "tg" where [tg_defs]:
  "tg_cntx_s = Inr disabled_config"

definition tg_cntx_r :: "tg" where [tg_defs]:
  "tg_cntx_r = Inr disabled_config"

definition tg_ret :: "u16 \<Rightarrow> tg" where [tg_defs]:
  "tg_ret c = Inr disabled_config"

definition tg_retd :: "tg" where [tg_defs]:
  "tg_retd = Inr disabled_config"

definition tg_reti :: "u16 \<Rightarrow> tg" where [tg_defs]:
  "tg_reti c = Inr disabled_config"

definition tg_retic :: "u16 \<Rightarrow> tg" where [tg_defs]:
  "tg_retic c = Inr disabled_config"

definition tg_retid :: "tg" where [tg_defs]:
  "tg_retid = Inr disabled_config"

definition tg_retidc :: "tg" where [tg_defs]:
  "tg_retidc = Inr disabled_config"

definition tg_rets :: "u16 \<Rightarrow> tg" where [tg_defs]:
  "tg_rets a = Inr disabled_config"

definition tg_load_ps :: "u16 \<Rightarrow> tg" where [tg_defs]:
  "tg_load_ps a = Inr any_config"

definition tg_load_stepi :: "u16 \<Rightarrow> tg" where [tg_defs]:
  "tg_load_stepi a = Inr any_config"

definition tg_load_stepj :: "u16 \<Rightarrow> tg" where [tg_defs]:
  "tg_load_stepj a = Inr any_config"

definition tg_load_page :: "u16 \<Rightarrow> tg" where [tg_defs]:
  "tg_load_page a = Inr any_config"

definition tg_load_modi :: "u16 \<Rightarrow> tg" where [tg_defs]:
  "tg_load_modi a = Inr any_config"

definition tg_load_modj :: "u16 \<Rightarrow> tg" where [tg_defs]:
  "tg_load_modj a = Inr any_config"

definition tg_load_movpd :: "u16 \<Rightarrow> tg" where [tg_defs]:
  "tg_load_movpd a = Inr disabled_config"

definition tg_load_ps01 :: "u16 \<Rightarrow> tg" where [tg_defs]:
  "tg_load_ps01 a = Inr any_config"

definition tg_push_imm16 :: "u16 \<Rightarrow> tg" where [tg_defs]:
  "tg_push_imm16 a = Inr disabled_config"

definition tg_push_register :: "u16 \<Rightarrow> tg" where [tg_defs]:
  "tg_push_register a = Inr disabled_config"

definition tg_push_abe :: "u16 \<Rightarrow> tg" where [tg_defs]:
  "tg_push_abe a = Inr disabled_config"

definition tg_push_ar_arp_stt_mod :: "u16 \<Rightarrow> tg" where [tg_defs]:
  "tg_push_ar_arp_stt_mod a = Inr disabled_config"

definition tg_push_prpage :: "tg" where [tg_defs]:
  "tg_push_prpage = Inr disabled_config"

definition tg_push_px :: "u16 \<Rightarrow> tg" where [tg_defs]:
  "tg_push_px a = Inr disabled_config"

definition tg_push_r6 :: "tg" where [tg_defs]:
  "tg_push_r6 = Inr disabled_config"

definition tg_push_repc :: "tg" where [tg_defs]:
  "tg_push_repc = Inr disabled_config"

definition tg_push_x0 :: "tg" where [tg_defs]:
  "tg_push_x0 = Inr disabled_config"

definition tg_push_x1 :: "tg" where [tg_defs]:
  "tg_push_x1 = Inr disabled_config"

definition tg_push_y1 :: "tg" where [tg_defs]:
  "tg_push_y1 = Inr disabled_config"

definition tg_pusha_ax :: "u16 \<Rightarrow> tg" where [tg_defs]:
  "tg_pusha_ax a = Inr disabled_config"

definition tg_pusha_bx :: "u16 \<Rightarrow> tg" where [tg_defs]:
  "tg_pusha_bx a = Inr disabled_config"

definition tg_pop_register :: "u16 \<Rightarrow> tg" where [tg_defs]:
  "tg_pop_register a = Inr disabled_config"

definition tg_pop_abe :: "u16 \<Rightarrow> tg" where [tg_defs]:
  "tg_pop_abe a = Inr disabled_config"

definition tg_pop_ar_arp_stt_mod :: "u16 \<Rightarrow> tg" where [tg_defs]:
  "tg_pop_ar_arp_stt_mod a = Inr disabled_config"

definition tg_pop_bx :: "u16 \<Rightarrow> tg" where [tg_defs]:
  "tg_pop_bx a = Inr disabled_config"

definition tg_pop_prpage :: "tg" where [tg_defs]:
  "tg_pop_prpage = Inr disabled_config"

definition tg_pop_px :: "u16 \<Rightarrow> tg" where [tg_defs]:
  "tg_pop_px a = Inr disabled_config"

definition tg_pop_r6 :: "tg" where [tg_defs]:
  "tg_pop_r6 = Inr disabled_config"

definition tg_pop_repc :: "tg" where [tg_defs]:
  "tg_pop_repc = Inr disabled_config"

definition tg_pop_x0 :: "tg" where [tg_defs]:
  "tg_pop_x0 = Inr disabled_config"

definition tg_pop_x1 :: "tg" where [tg_defs]:
  "tg_pop_x1 = Inr disabled_config"

definition tg_pop_y1 :: "tg" where [tg_defs]:
  "tg_pop_y1 = Inr disabled_config"

definition tg_popa :: "u16 \<Rightarrow> tg" where [tg_defs]:
  "tg_popa a = Inr disabled_config"

definition tg_rep_imm8 :: "u16 \<Rightarrow> tg" where [tg_defs]:
  "tg_rep_imm8 a = Inr disabled_config"

definition tg_rep_register :: "u16 \<Rightarrow> tg" where [tg_defs]:
  "tg_rep_register a = Inr disabled_config"

definition tg_rep_r6 :: "tg" where [tg_defs]:
  "tg_rep_r6 = Inr disabled_config"

definition tg_shfc :: "u16 \<Rightarrow> u16 \<Rightarrow> u16 \<Rightarrow> tg" where [tg_defs]:
  "tg_shfc a b cond = Inr any_config"

definition tg_shfi :: "u16 \<Rightarrow> u16 \<Rightarrow> u16 \<Rightarrow> tg" where [tg_defs]:
  "tg_shfi a b s = Inr any_config"

definition tg_tst4b :: "u16 \<Rightarrow> u16 \<Rightarrow> tg" where [tg_defs]:
  "tg_tst4b b bs = Inr (config_with_ar_address b)"

definition tg_tst4b_ax :: "u16 \<Rightarrow> u16 \<Rightarrow> u16 \<Rightarrow> tg" where [tg_defs]:
  "tg_tst4b_ax b bs c = Inr (config_with_ar_address b)"

definition tg_tstb_mem_imm8 :: "u16 \<Rightarrow> u16 \<Rightarrow> tg" where [tg_defs]:
  "tg_tstb_mem_imm8 a b = Inr (config_with_mem_imm8 a)"

definition tg_tstb_rn :: "u16 \<Rightarrow> u16 \<Rightarrow> u16 \<Rightarrow> tg" where [tg_defs]:
  "tg_tstb_rn a as b = Inr (config_with_address a)"

definition tg_tstb_register :: "u16 \<Rightarrow> u16 \<Rightarrow> tg" where [tg_defs]:
  "tg_tstb_register a b =
     (if is_unimplemented_register (Register a) then Inr disabled_config
      else Inr any_config)"

definition tg_tstb_r6 :: "u16 \<Rightarrow> tg" where [tg_defs]:
  "tg_tstb_r6 b = Inr any_config"

definition tg_tstb_stt_mod :: "u16 \<Rightarrow> u16 \<Rightarrow> tg" where [tg_defs]:
  "tg_tstb_stt_mod a b = Inr disabled_config"

definition tg_and_acc :: "u16 \<Rightarrow> u16 \<Rightarrow> u16 \<Rightarrow> tg" where [tg_defs]:
  "tg_and_acc a b c = Inr any_config"

definition tg_dint :: "tg" where [tg_defs]:
  "tg_dint = Inr disabled_config"

definition tg_eint :: "tg" where [tg_defs]:
  "tg_eint = Inr disabled_config"

definition tg_mul_rn_imm16 :: "u16 \<Rightarrow> u16 \<Rightarrow> u16 \<Rightarrow> u16 \<Rightarrow> u16 \<Rightarrow> tg" where [tg_defs]:
  "tg_mul_rn_imm16 op y ys x a = Inr (config_with_address y)"

definition tg_mul_y0_rn :: "u16 \<Rightarrow> u16 \<Rightarrow> u16 \<Rightarrow> u16 \<Rightarrow> tg" where [tg_defs]:
  "tg_mul_y0_rn op x xs a = Inr (config_with_address x)"

definition tg_mul_y0_register :: "u16 \<Rightarrow> u16 \<Rightarrow> u16 \<Rightarrow> tg" where [tg_defs]:
  "tg_mul_y0_register op x a =
     (if is_unimplemented_register (Register x) then Inr disabled_config
      else Inr any_config)"

definition tg_mul_r45_r0123 :: "u16 \<Rightarrow> u16 \<Rightarrow> u16 \<Rightarrow> u16 \<Rightarrow> u16 \<Rightarrow> u16 \<Rightarrow> tg" where [tg_defs]:
  "tg_mul_r45_r0123 op y ys x xs a = Inr disabled_config"

definition tg_mul_y0_r6 :: "u16 \<Rightarrow> u16 \<Rightarrow> tg" where [tg_defs]:
  "tg_mul_y0_r6 op a = Inr any_config"

definition tg_mul_y0_mem_imm8 :: "u16 \<Rightarrow> u16 \<Rightarrow> u16 \<Rightarrow> tg" where [tg_defs]:
  "tg_mul_y0_mem_imm8 op x a = Inr (config_with_mem_imm8 x)"

definition tg_mpyi :: "u16 \<Rightarrow> tg" where [tg_defs]:
  "tg_mpyi x = Inr any_config"

definition tg_msu_r45_r0123 :: "u16 \<Rightarrow> u16 \<Rightarrow> u16 \<Rightarrow> u16 \<Rightarrow> u16 \<Rightarrow> tg" where [tg_defs]:
  "tg_msu_r45_r0123 y ys x xs a = Inr disabled_config"

definition tg_msu_rn_imm16 :: "u16 \<Rightarrow> u16 \<Rightarrow> u16 \<Rightarrow> u16 \<Rightarrow> tg" where [tg_defs]:
  "tg_msu_rn_imm16 y ys x a = Inr (with_any_expand (config_with_address y))"

definition tg_msusu :: "u16 \<Rightarrow> u16 \<Rightarrow> u16 \<Rightarrow> tg" where [tg_defs]:
  "tg_msusu x xs a = Inr (config_with_ar_address x)"

definition tg_mac_x1to0 :: "u16 \<Rightarrow> tg" where [tg_defs]:
  "tg_mac_x1to0 a = Inr any_config"

definition tg_mac1 :: "u16 \<Rightarrow> u16 \<Rightarrow> u16 \<Rightarrow> u16 \<Rightarrow> tg" where [tg_defs]:
  "tg_mac1 xy xis yjs a = Inr (config_with_arp_address xy)"

definition tg_modr :: "u16 \<Rightarrow> u16 \<Rightarrow> tg" where [tg_defs]:
  "tg_modr a as = Inr any_config"

definition tg_modr_dmod :: "u16 \<Rightarrow> u16 \<Rightarrow> tg" where [tg_defs]:
  "tg_modr_dmod a as = Inr any_config"

definition tg_modr_i2 :: "u16 \<Rightarrow> tg" where [tg_defs]:
  "tg_modr_i2 a = Inr any_config"

definition tg_modr_i2_dmod :: "u16 \<Rightarrow> tg" where [tg_defs]:
  "tg_modr_i2_dmod a = Inr any_config"

definition tg_modr_d2 :: "u16 \<Rightarrow> tg" where [tg_defs]:
  "tg_modr_d2 a = Inr any_config"

definition tg_modr_d2_dmod :: "u16 \<Rightarrow> tg" where [tg_defs]:
  "tg_modr_d2_dmod a = Inr any_config"

definition tg_modr_eemod :: "u16 \<Rightarrow> u16 \<Rightarrow> u16 \<Rightarrow> tg" where [tg_defs]:
  "tg_modr_eemod a asi asj = Inr any_config"

definition tg_modr_edmod :: "u16 \<Rightarrow> u16 \<Rightarrow> u16 \<Rightarrow> tg" where [tg_defs]:
  "tg_modr_edmod a asi asj = Inr any_config"

definition tg_modr_demod :: "u16 \<Rightarrow> u16 \<Rightarrow> u16 \<Rightarrow> tg" where [tg_defs]:
  "tg_modr_demod a asi asj = Inr any_config"

definition tg_modr_ddmod :: "u16 \<Rightarrow> u16 \<Rightarrow> u16 \<Rightarrow> tg" where [tg_defs]:
  "tg_modr_ddmod a asi asj = Inr any_config"

end
