(* ===== verification/Test_Handlers_Move.thy ===== *)
theory Test_Handlers_Move
  imports Test_Config
begin

text \<open>
  src/src/test_generator.cpp, the member functions of the visitor class for
  moves, exponents, minimum and maximum, comparisons, and products and sums in parallel.
  Each gives the configuration of the test cases of an instruction.
\<close>

definition tg_movd :: "u16 \<Rightarrow> u16 \<Rightarrow> u16 \<Rightarrow> u16 \<Rightarrow> tg" where [tg_defs]:
  "tg_movd a as b bs = Inr disabled_config"

definition tg_movp_axl :: "u16 \<Rightarrow> u16 \<Rightarrow> tg" where [tg_defs]:
  "tg_movp_axl a b = Inr disabled_config"

definition tg_movp_ax :: "u16 \<Rightarrow> u16 \<Rightarrow> tg" where [tg_defs]:
  "tg_movp_ax a b = Inr disabled_config"

definition tg_movp_rn :: "u16 \<Rightarrow> u16 \<Rightarrow> u16 \<Rightarrow> u16 \<Rightarrow> tg" where [tg_defs]:
  "tg_movp_rn a as b bs = Inr disabled_config"

definition tg_movpdw :: "u16 \<Rightarrow> tg" where [tg_defs]:
  "tg_movpdw a = Inr disabled_config"

definition tg_mov_ab_ab :: "u16 \<Rightarrow> u16 \<Rightarrow> tg" where [tg_defs]:
  "tg_mov_ab_ab a b = Inr any_config"

definition tg_mov_dvm :: "u16 \<Rightarrow> tg" where [tg_defs]:
  "tg_mov_dvm a = Inr disabled_config"

definition tg_mov_x0 :: "u16 \<Rightarrow> tg" where [tg_defs]:
  "tg_mov_x0 a = Inr any_config"

definition tg_mov_x1 :: "u16 \<Rightarrow> tg" where [tg_defs]:
  "tg_mov_x1 a = Inr any_config"

definition tg_mov_y1 :: "u16 \<Rightarrow> tg" where [tg_defs]:
  "tg_mov_y1 a = Inr any_config"

definition tg_mov_ablh_mem_imm8 :: "u16 \<Rightarrow> u16 \<Rightarrow> tg" where [tg_defs]:
  "tg_mov_ablh_mem_imm8 a b = Inr (config_with_mem_imm8 b)"

definition tg_mov_axl_mem_imm16 :: "u16 \<Rightarrow> u16 \<Rightarrow> tg" where [tg_defs]:
  "tg_mov_axl_mem_imm16 a b = Inr (with_memory_expand any_config)"

definition tg_mov_axl_mem_r7_imm16 :: "u16 \<Rightarrow> u16 \<Rightarrow> tg" where [tg_defs]:
  "tg_mov_axl_mem_r7_imm16 a b = Inr config_with_mem_r7_imm16"

definition tg_mov_axl_mem_r7_imm7s :: "u16 \<Rightarrow> u16 \<Rightarrow> tg" where [tg_defs]:
  "tg_mov_axl_mem_r7_imm7s a b = Inr (config_with_mem_r7_imm7s b)"

definition tg_mov_mem_imm16_ax :: "u16 \<Rightarrow> u16 \<Rightarrow> tg" where [tg_defs]:
  "tg_mov_mem_imm16_ax a b = Inr (with_memory_expand any_config)"

definition tg_mov_mem_imm8_ab :: "u16 \<Rightarrow> u16 \<Rightarrow> tg" where [tg_defs]:
  "tg_mov_mem_imm8_ab a b = Inr (config_with_mem_imm8 a)"

definition tg_mov_mem_imm8_ablh :: "u16 \<Rightarrow> u16 \<Rightarrow> tg" where [tg_defs]:
  "tg_mov_mem_imm8_ablh a b = Inr (config_with_mem_imm8 a)"

definition tg_mov_eu :: "u16 \<Rightarrow> u16 \<Rightarrow> tg" where [tg_defs]:
  "tg_mov_eu a b = Inr disabled_config"

definition tg_mov_mem_imm8_rn_old :: "u16 \<Rightarrow> u16 \<Rightarrow> tg" where [tg_defs]:
  "tg_mov_mem_imm8_rn_old a b = Inr (config_with_mem_imm8 a)"

definition tg_mov_sv_mem_imm8 :: "u16 \<Rightarrow> tg" where [tg_defs]:
  "tg_mov_sv_mem_imm8 a = Inr (config_with_mem_imm8 a)"

definition tg_mov_dvm_to :: "u16 \<Rightarrow> tg" where [tg_defs]:
  "tg_mov_dvm_to b = Inr disabled_config"

definition tg_mov_icr_to :: "u16 \<Rightarrow> tg" where [tg_defs]:
  "tg_mov_icr_to b = Inr disabled_config"

definition tg_mov_imm16_bx :: "u16 \<Rightarrow> u16 \<Rightarrow> tg" where [tg_defs]:
  "tg_mov_imm16_bx a b = Inr (with_any_expand any_config)"

definition tg_mov_imm16_register :: "u16 \<Rightarrow> u16 \<Rightarrow> tg" where [tg_defs]:
  "tg_mov_imm16_register a b =
     (if is_unimplemented_register (Register b) then Inr disabled_config
      else Inr (with_any_expand any_config))"

definition tg_mov_icr_imm5 :: "u16 \<Rightarrow> tg" where [tg_defs]:
  "tg_mov_icr_imm5 a = Inr disabled_config"

definition tg_mov_imm8s_axh :: "u16 \<Rightarrow> u16 \<Rightarrow> tg" where [tg_defs]:
  "tg_mov_imm8s_axh a b = Inr any_config"

definition tg_mov_imm8s_rn_old :: "u16 \<Rightarrow> u16 \<Rightarrow> tg" where [tg_defs]:
  "tg_mov_imm8s_rn_old a b = Inr any_config"

definition tg_mov_sv_imm8s :: "u16 \<Rightarrow> tg" where [tg_defs]:
  "tg_mov_sv_imm8s a = Inr any_config"

definition tg_mov_imm8_axl :: "u16 \<Rightarrow> u16 \<Rightarrow> tg" where [tg_defs]:
  "tg_mov_imm8_axl a b = Inr any_config"

definition tg_mov_mem_r7_imm16_ax :: "u16 \<Rightarrow> u16 \<Rightarrow> tg" where [tg_defs]:
  "tg_mov_mem_r7_imm16_ax a b = Inr config_with_mem_r7_imm16"

definition tg_mov_mem_r7_imm7s_ax :: "u16 \<Rightarrow> u16 \<Rightarrow> tg" where [tg_defs]:
  "tg_mov_mem_r7_imm7s_ax a b = Inr (config_with_mem_r7_imm7s a)"

definition tg_mov_rn_bx :: "u16 \<Rightarrow> u16 \<Rightarrow> u16 \<Rightarrow> tg" where [tg_defs]:
  "tg_mov_rn_bx a as b = Inr (config_with_address a)"

definition tg_mov_rn_register :: "u16 \<Rightarrow> u16 \<Rightarrow> u16 \<Rightarrow> tg" where [tg_defs]:
  "tg_mov_rn_register a as b =
     (if is_unimplemented_register (Register b) then Inr disabled_config
      else Inr (config_with_address a))"

definition tg_mov_memsp_to :: "u16 \<Rightarrow> tg" where [tg_defs]:
  "tg_mov_memsp_to b = Inr disabled_config"

definition tg_mov_mixp_to_register :: "u16 \<Rightarrow> tg" where [tg_defs]:
  "tg_mov_mixp_to_register b =
     (if is_unimplemented_register (Register b) then Inr disabled_config
      else Inr any_config)"

definition tg_mov_rn_old_mem_imm8 :: "u16 \<Rightarrow> u16 \<Rightarrow> tg" where [tg_defs]:
  "tg_mov_rn_old_mem_imm8 a b = Inr (config_with_mem_imm8 b)"

definition tg_mov_icr_register :: "u16 \<Rightarrow> tg" where [tg_defs]:
  "tg_mov_icr_register a = Inr disabled_config"

definition tg_mov_mixp_register :: "u16 \<Rightarrow> tg" where [tg_defs]:
  "tg_mov_mixp_register a =
     (if is_unimplemented_register (Register a) then Inr disabled_config
      else Inr any_config)"

definition tg_mov_register_rn :: "u16 \<Rightarrow> u16 \<Rightarrow> u16 \<Rightarrow> tg" where [tg_defs]:
  "tg_mov_register_rn a b bs =
     (if is_unimplemented_register (Register a) then Inr disabled_config
      else Inr (config_with_address b))"

definition tg_mov_register_bx :: "u16 \<Rightarrow> u16 \<Rightarrow> tg" where [tg_defs]:
  "tg_mov_register_bx a b =
     (if is_unimplemented_register (Register a) then Inr disabled_config
      else Inr any_config)"

definition tg_mov_register_register :: "u16 \<Rightarrow> u16 \<Rightarrow> tg" where [tg_defs]:
  "tg_mov_register_register a b =
     (if is_unimplemented_register (Register a) then Inr disabled_config
      else if is_unimplemented_register (Register b) then Inr disabled_config
      else Inr any_config)"

definition tg_mov_repc_to_ab :: "u16 \<Rightarrow> tg" where [tg_defs]:
  "tg_mov_repc_to_ab b = Inr any_config"

definition tg_mov_sv_to :: "u16 \<Rightarrow> tg" where [tg_defs]:
  "tg_mov_sv_to b = Inr (config_with_mem_imm8 b)"

definition tg_mov_x0_to :: "u16 \<Rightarrow> tg" where [tg_defs]:
  "tg_mov_x0_to b = Inr any_config"

definition tg_mov_x1_to :: "u16 \<Rightarrow> tg" where [tg_defs]:
  "tg_mov_x1_to b = Inr any_config"

definition tg_mov_y1_to :: "u16 \<Rightarrow> tg" where [tg_defs]:
  "tg_mov_y1_to b = Inr any_config"

definition tg_mov_imm16_ar_arp :: "u16 \<Rightarrow> u16 \<Rightarrow> tg" where [tg_defs]:
  "tg_mov_imm16_ar_arp a b =
     (if is_unimplemented_register (ArArp b) then Inr disabled_config
      else Inr (with_any_expand any_config))"

definition tg_mov_r6_imm16 :: "u16 \<Rightarrow> tg" where [tg_defs]:
  "tg_mov_r6_imm16 a = Inr (with_any_expand any_config)"

definition tg_mov_repc_imm16 :: "u16 \<Rightarrow> tg" where [tg_defs]:
  "tg_mov_repc_imm16 a = Inr (with_any_expand any_config)"

definition tg_mov_stepi0_imm16 :: "u16 \<Rightarrow> tg" where [tg_defs]:
  "tg_mov_stepi0_imm16 a = Inr (with_any_expand any_config)"

definition tg_mov_stepj0_imm16 :: "u16 \<Rightarrow> tg" where [tg_defs]:
  "tg_mov_stepj0_imm16 a = Inr (with_any_expand any_config)"

definition tg_mov_imm16_stt_mod :: "u16 \<Rightarrow> u16 \<Rightarrow> tg" where [tg_defs]:
  "tg_mov_imm16_stt_mod a b =
     (if is_unimplemented_register (SttMod b) then Inr disabled_config
      else Inr (with_any_expand any_config))"

definition tg_mov_prpage_imm4 :: "u16 \<Rightarrow> tg" where [tg_defs]:
  "tg_mov_prpage_imm4 a = Inr disabled_config"

definition tg_mov_a0h_stepi0 :: "tg" where [tg_defs]:
  "tg_mov_a0h_stepi0 = Inr any_config"

definition tg_mov_a0h_stepj0 :: "tg" where [tg_defs]:
  "tg_mov_a0h_stepj0 = Inr any_config"

definition tg_mov_stepi0_a0h :: "tg" where [tg_defs]:
  "tg_mov_stepi0_a0h = Inr any_config"

definition tg_mov_stepj0_a0h :: "tg" where [tg_defs]:
  "tg_mov_stepj0_a0h = Inr any_config"

definition tg_mov_prpage_abl :: "u16 \<Rightarrow> tg" where [tg_defs]:
  "tg_mov_prpage_abl a = Inr disabled_config"

definition tg_mov_repc_abl :: "u16 \<Rightarrow> tg" where [tg_defs]:
  "tg_mov_repc_abl a = Inr any_config"

definition tg_mov_abl_ar_arp :: "u16 \<Rightarrow> u16 \<Rightarrow> tg" where [tg_defs]:
  "tg_mov_abl_ar_arp a b =
     (if is_unimplemented_register (ArArp b) then Inr disabled_config
      else Inr any_config)"

definition tg_mov_abl_stt_mod :: "u16 \<Rightarrow> u16 \<Rightarrow> tg" where [tg_defs]:
  "tg_mov_abl_stt_mod a b =
     (if is_unimplemented_register (SttMod b) then Inr disabled_config
      else Inr any_config)"

definition tg_mov_prpage_to_abl :: "u16 \<Rightarrow> tg" where [tg_defs]:
  "tg_mov_prpage_to_abl b = Inr disabled_config"

definition tg_mov_repc_to_abl :: "u16 \<Rightarrow> tg" where [tg_defs]:
  "tg_mov_repc_to_abl b = Inr any_config"

definition tg_mov_ar_arp_abl :: "u16 \<Rightarrow> u16 \<Rightarrow> tg" where [tg_defs]:
  "tg_mov_ar_arp_abl a b =
     (if is_unimplemented_register (ArArp a) then Inr disabled_config
      else Inr any_config)"

definition tg_mov_stt_mod_abl :: "u16 \<Rightarrow> u16 \<Rightarrow> tg" where [tg_defs]:
  "tg_mov_stt_mod_abl a b =
     (if is_unimplemented_register (SttMod a) then Inr disabled_config
      else Inr any_config)"

definition tg_mov_repc_to_ar_rn1 :: "u16 \<Rightarrow> u16 \<Rightarrow> tg" where [tg_defs]:
  "tg_mov_repc_to_ar_rn1 b bs = Inr (config_with_ar_address b)"

definition tg_mov_ar_arp_ar_rn1 :: "u16 \<Rightarrow> u16 \<Rightarrow> u16 \<Rightarrow> tg" where [tg_defs]:
  "tg_mov_ar_arp_ar_rn1 a b bs =
     (if is_unimplemented_register (ArArp a) then Inr disabled_config
      else Inr (config_with_ar_address b))"

definition tg_mov_stt_mod_ar_rn1 :: "u16 \<Rightarrow> u16 \<Rightarrow> u16 \<Rightarrow> tg" where [tg_defs]:
  "tg_mov_stt_mod_ar_rn1 a b bs =
     (if is_unimplemented_register (SttMod a) then Inr disabled_config
      else Inr (config_with_ar_address b))"

definition tg_mov_repc_ar_rn1 :: "u16 \<Rightarrow> u16 \<Rightarrow> tg" where [tg_defs]:
  "tg_mov_repc_ar_rn1 a as = Inr (config_with_ar_address a)"

definition tg_mov_ar_rn1_ar_arp :: "u16 \<Rightarrow> u16 \<Rightarrow> u16 \<Rightarrow> tg" where [tg_defs]:
  "tg_mov_ar_rn1_ar_arp a as b =
     (if is_unimplemented_register (ArArp b) then Inr disabled_config
      else Inr (config_with_ar_address a))"

definition tg_mov_ar_rn1_stt_mod :: "u16 \<Rightarrow> u16 \<Rightarrow> u16 \<Rightarrow> tg" where [tg_defs]:
  "tg_mov_ar_rn1_stt_mod a as b =
     (if is_unimplemented_register (SttMod b) then Inr disabled_config
      else Inr (config_with_ar_address a))"

definition tg_mov_repc_to_mem_r7_imm16 :: "u16 \<Rightarrow> tg" where [tg_defs]:
  "tg_mov_repc_to_mem_r7_imm16 b = Inr config_with_mem_r7_imm16"

definition tg_mov_ar_arp_stt_mod_mem_r7_imm16 :: "u16 \<Rightarrow> u16 \<Rightarrow> tg" where [tg_defs]:
  "tg_mov_ar_arp_stt_mod_mem_r7_imm16 a b =
     (if is_unimplemented_register (ArArpSttMod a) then Inr disabled_config
      else Inr config_with_mem_r7_imm16)"

definition tg_mov_repc_mem_r7_imm16 :: "u16 \<Rightarrow> tg" where [tg_defs]:
  "tg_mov_repc_mem_r7_imm16 a = Inr config_with_mem_r7_imm16"

definition tg_mov_mem_r7_imm16_ar_arp_stt_mod :: "u16 \<Rightarrow> u16 \<Rightarrow> tg" where [tg_defs]:
  "tg_mov_mem_r7_imm16_ar_arp_stt_mod a b =
     (if is_unimplemented_register (ArArpSttMod b) then Inr disabled_config
      else Inr config_with_mem_r7_imm16)"

definition tg_mov_pc_ax :: "u16 \<Rightarrow> tg" where [tg_defs]:
  "tg_mov_pc_ax a = Inr disabled_config"

definition tg_mov_pc_bx :: "u16 \<Rightarrow> tg" where [tg_defs]:
  "tg_mov_pc_bx a = Inr disabled_config"

definition tg_mov_mixp_to_bx :: "u16 \<Rightarrow> tg" where [tg_defs]:
  "tg_mov_mixp_to_bx b = Inr any_config"

definition tg_mov_mixp_r6 :: "tg" where [tg_defs]:
  "tg_mov_mixp_r6 = Inr any_config"

definition tg_mov_p0h_to_bx :: "u16 \<Rightarrow> tg" where [tg_defs]:
  "tg_mov_p0h_to_bx b = Inr any_config"

definition tg_mov_p0h_r6 :: "tg" where [tg_defs]:
  "tg_mov_p0h_r6 = Inr any_config"

definition tg_mov_p0h_to_register :: "u16 \<Rightarrow> tg" where [tg_defs]:
  "tg_mov_p0h_to_register b =
     (if is_unimplemented_register (Register b) then Inr disabled_config
      else Inr any_config)"

definition tg_mov_p0 :: "u16 \<Rightarrow> tg" where [tg_defs]:
  "tg_mov_p0 a = Inr any_config"

definition tg_mov_p1_to :: "u16 \<Rightarrow> tg" where [tg_defs]:
  "tg_mov_p1_to b = Inr any_config"

definition tg_mov2_px_ar :: "u16 \<Rightarrow> u16 \<Rightarrow> u16 \<Rightarrow> tg" where [tg_defs]:
  "tg_mov2_px_ar a b bs = Inr (config_with_ar_address b)"

definition tg_mov2s :: "u16 \<Rightarrow> u16 \<Rightarrow> u16 \<Rightarrow> tg" where [tg_defs]:
  "tg_mov2s a b bs = Inr (config_with_ar_address b)"

definition tg_mov2_ar_px :: "u16 \<Rightarrow> u16 \<Rightarrow> u16 \<Rightarrow> tg" where [tg_defs]:
  "tg_mov2_ar_px a as b = Inr (config_with_ar_address a)"

definition tg_mova_ab_ar :: "u16 \<Rightarrow> u16 \<Rightarrow> u16 \<Rightarrow> tg" where [tg_defs]:
  "tg_mova_ab_ar a b bs = Inr (config_with_ar_address b)"

definition tg_mova_ar_ab :: "u16 \<Rightarrow> u16 \<Rightarrow> u16 \<Rightarrow> tg" where [tg_defs]:
  "tg_mova_ar_ab a as b = Inr (config_with_ar_address a)"

definition tg_mov_r6_to_bx :: "u16 \<Rightarrow> tg" where [tg_defs]:
  "tg_mov_r6_to_bx b = Inr any_config"

definition tg_mov_r6_mixp :: "tg" where [tg_defs]:
  "tg_mov_r6_mixp = Inr any_config"

definition tg_mov_r6_to_register :: "u16 \<Rightarrow> tg" where [tg_defs]:
  "tg_mov_r6_to_register b =
     (if is_unimplemented_register (Register b) then Inr disabled_config
      else Inr any_config)"

definition tg_mov_r6_register :: "u16 \<Rightarrow> tg" where [tg_defs]:
  "tg_mov_r6_register a =
     (if is_unimplemented_register (Register a) then Inr disabled_config
      else Inr any_config)"

definition tg_mov_memsp_r6 :: "tg" where [tg_defs]:
  "tg_mov_memsp_r6 = Inr disabled_config"

definition tg_mov_r6_to_rn :: "u16 \<Rightarrow> u16 \<Rightarrow> tg" where [tg_defs]:
  "tg_mov_r6_to_rn b bs = Inr (config_with_address b)"

definition tg_mov_r6_rn :: "u16 \<Rightarrow> u16 \<Rightarrow> tg" where [tg_defs]:
  "tg_mov_r6_rn a as = Inr (config_with_address a)"

definition tg_movs_mem_imm8 :: "u16 \<Rightarrow> u16 \<Rightarrow> tg" where [tg_defs]:
  "tg_movs_mem_imm8 a b = Inr (config_with_mem_imm8 a)"

definition tg_movs_rn :: "u16 \<Rightarrow> u16 \<Rightarrow> u16 \<Rightarrow> tg" where [tg_defs]:
  "tg_movs_rn a as b = Inr (config_with_address a)"

definition tg_movs_register :: "u16 \<Rightarrow> u16 \<Rightarrow> tg" where [tg_defs]:
  "tg_movs_register a b =
     (if is_unimplemented_register (Register a) then Inr disabled_config
      else Inr any_config)"

definition tg_movs_r6_to :: "u16 \<Rightarrow> tg" where [tg_defs]:
  "tg_movs_r6_to b = Inr any_config"

definition tg_movsi :: "u16 \<Rightarrow> u16 \<Rightarrow> u16 \<Rightarrow> tg" where [tg_defs]:
  "tg_movsi a b s = Inr any_config"

definition tg_mov2_axh_m_y0_m :: "u16 \<Rightarrow> u16 \<Rightarrow> u16 \<Rightarrow> tg" where [tg_defs]:
  "tg_mov2_axh_m_y0_m a b bs = Inr (config_with_ar_address b)"

definition tg_mov2_ax_mij :: "u16 \<Rightarrow> u16 \<Rightarrow> u16 \<Rightarrow> u16 \<Rightarrow> tg" where [tg_defs]:
  "tg_mov2_ax_mij a b bsi bsj = Inr (config_with_arp_address b)"

definition tg_mov2_ax_mji :: "u16 \<Rightarrow> u16 \<Rightarrow> u16 \<Rightarrow> u16 \<Rightarrow> tg" where [tg_defs]:
  "tg_mov2_ax_mji a b bsi bsj = Inr (config_with_arp_address b)"

definition tg_mov2_mij_ax :: "u16 \<Rightarrow> u16 \<Rightarrow> u16 \<Rightarrow> u16 \<Rightarrow> tg" where [tg_defs]:
  "tg_mov2_mij_ax a asi asj b = Inr (config_with_arp_address a)"

definition tg_mov2_mji_ax :: "u16 \<Rightarrow> u16 \<Rightarrow> u16 \<Rightarrow> u16 \<Rightarrow> tg" where [tg_defs]:
  "tg_mov2_mji_ax a asi asj b = Inr (config_with_arp_address a)"

definition tg_mov2_abh_m :: "u16 \<Rightarrow> u16 \<Rightarrow> u16 \<Rightarrow> u16 \<Rightarrow> tg" where [tg_defs]:
  "tg_mov2_abh_m ax ay b bs = Inr (config_with_ar_address b)"

definition tg_exchange_iaj :: "u16 \<Rightarrow> u16 \<Rightarrow> u16 \<Rightarrow> u16 \<Rightarrow> tg" where [tg_defs]:
  "tg_exchange_iaj a b bsi bsj = Inr (config_with_arp_address b)"

definition tg_exchange_riaj :: "u16 \<Rightarrow> u16 \<Rightarrow> u16 \<Rightarrow> u16 \<Rightarrow> tg" where [tg_defs]:
  "tg_exchange_riaj a b bsi bsj = Inr (config_with_arp_address b)"

definition tg_exchange_jai :: "u16 \<Rightarrow> u16 \<Rightarrow> u16 \<Rightarrow> u16 \<Rightarrow> tg" where [tg_defs]:
  "tg_exchange_jai a b bsi bsj = Inr (config_with_arp_address b)"

definition tg_exchange_rjai :: "u16 \<Rightarrow> u16 \<Rightarrow> u16 \<Rightarrow> u16 \<Rightarrow> tg" where [tg_defs]:
  "tg_exchange_rjai a b bsi bsj = Inr (config_with_arp_address b)"

definition tg_movr_ar :: "u16 \<Rightarrow> u16 \<Rightarrow> u16 \<Rightarrow> tg" where [tg_defs]:
  "tg_movr_ar a as b = Inr (config_with_ar_address a)"

definition tg_movr_rn :: "u16 \<Rightarrow> u16 \<Rightarrow> u16 \<Rightarrow> tg" where [tg_defs]:
  "tg_movr_rn a as b = Inr (config_with_address a)"

definition tg_movr_register :: "u16 \<Rightarrow> u16 \<Rightarrow> tg" where [tg_defs]:
  "tg_movr_register a b =
     (if is_unimplemented_register (Register a) then Inr disabled_config
      else Inr any_config)"

definition tg_movr_bx :: "u16 \<Rightarrow> u16 \<Rightarrow> tg" where [tg_defs]:
  "tg_movr_bx a b = Inr any_config"

definition tg_movr_r6_to :: "u16 \<Rightarrow> tg" where [tg_defs]:
  "tg_movr_r6_to b = Inr any_config"

definition tg_exp_bx :: "u16 \<Rightarrow> tg" where [tg_defs]:
  "tg_exp_bx a = Inr any_config"

definition tg_exp_bx_ax :: "u16 \<Rightarrow> u16 \<Rightarrow> tg" where [tg_defs]:
  "tg_exp_bx_ax a b = Inr any_config"

definition tg_exp_rn :: "u16 \<Rightarrow> u16 \<Rightarrow> tg" where [tg_defs]:
  "tg_exp_rn a as = Inr (config_with_address a)"

definition tg_exp_rn_ax :: "u16 \<Rightarrow> u16 \<Rightarrow> u16 \<Rightarrow> tg" where [tg_defs]:
  "tg_exp_rn_ax a as b = Inr (config_with_address a)"

definition tg_exp_register :: "u16 \<Rightarrow> tg" where [tg_defs]:
  "tg_exp_register a =
     (if is_unimplemented_register (Register a) then Inr disabled_config
      else Inr any_config)"

definition tg_exp_register_ax :: "u16 \<Rightarrow> u16 \<Rightarrow> tg" where [tg_defs]:
  "tg_exp_register_ax a b =
     (if is_unimplemented_register (Register a) then Inr disabled_config
      else Inr any_config)"

definition tg_exp_r6 :: "tg" where [tg_defs]:
  "tg_exp_r6 = Inr any_config"

definition tg_exp_r6_ax :: "u16 \<Rightarrow> tg" where [tg_defs]:
  "tg_exp_r6_ax b = Inr any_config"

definition tg_lim :: "u16 \<Rightarrow> u16 \<Rightarrow> tg" where [tg_defs]:
  "tg_lim a b = Inr any_config"

definition tg_vtrclr0 :: "tg" where [tg_defs]:
  "tg_vtrclr0 = Inr disabled_config"

definition tg_vtrclr1 :: "tg" where [tg_defs]:
  "tg_vtrclr1 = Inr disabled_config"

definition tg_vtrclr :: "tg" where [tg_defs]:
  "tg_vtrclr = Inr disabled_config"

definition tg_vtrmov0 :: "u16 \<Rightarrow> tg" where [tg_defs]:
  "tg_vtrmov0 a = Inr disabled_config"

definition tg_vtrmov1 :: "u16 \<Rightarrow> tg" where [tg_defs]:
  "tg_vtrmov1 a = Inr disabled_config"

definition tg_vtrmov :: "u16 \<Rightarrow> tg" where [tg_defs]:
  "tg_vtrmov a = Inr disabled_config"

definition tg_vtrshr_instr :: "tg" where [tg_defs]:
  "tg_vtrshr_instr = Inr disabled_config"

definition tg_clrp0 :: "tg" where [tg_defs]:
  "tg_clrp0 = Inr any_config"

definition tg_clrp1 :: "tg" where [tg_defs]:
  "tg_clrp1 = Inr any_config"

definition tg_clrp :: "tg" where [tg_defs]:
  "tg_clrp = Inr any_config"

definition tg_max_ge :: "u16 \<Rightarrow> u16 \<Rightarrow> tg" where [tg_defs]:
  "tg_max_ge a bs = Inr any_config"

definition tg_max_gt :: "u16 \<Rightarrow> u16 \<Rightarrow> tg" where [tg_defs]:
  "tg_max_gt a bs = Inr any_config"

definition tg_min_le :: "u16 \<Rightarrow> u16 \<Rightarrow> tg" where [tg_defs]:
  "tg_min_le a bs = Inr any_config"

definition tg_min_lt :: "u16 \<Rightarrow> u16 \<Rightarrow> tg" where [tg_defs]:
  "tg_min_lt a bs = Inr any_config"

definition tg_max_ge_r0 :: "u16 \<Rightarrow> u16 \<Rightarrow> tg" where [tg_defs]:
  "tg_max_ge_r0 a bs = Inr (config_with_address 0)"

definition tg_max_gt_r0 :: "u16 \<Rightarrow> u16 \<Rightarrow> tg" where [tg_defs]:
  "tg_max_gt_r0 a bs = Inr (config_with_address 0)"

definition tg_min_le_r0 :: "u16 \<Rightarrow> u16 \<Rightarrow> tg" where [tg_defs]:
  "tg_min_le_r0 a bs = Inr (config_with_address 0)"

definition tg_min_lt_r0 :: "u16 \<Rightarrow> u16 \<Rightarrow> tg" where [tg_defs]:
  "tg_min_lt_r0 a bs = Inr (config_with_address 0)"

definition tg_divs :: "u16 \<Rightarrow> u16 \<Rightarrow> tg" where [tg_defs]:
  "tg_divs a b = Inr (config_with_mem_imm8 a)"

definition tg_sqr_sqr_add3_ab :: "u16 \<Rightarrow> u16 \<Rightarrow> tg" where [tg_defs]:
  "tg_sqr_sqr_add3_ab a b = Inr any_config"

definition tg_sqr_sqr_add3_ar :: "u16 \<Rightarrow> u16 \<Rightarrow> u16 \<Rightarrow> tg" where [tg_defs]:
  "tg_sqr_sqr_add3_ar a as b = Inr (config_with_ar_address a)"

definition tg_sqr_mpysu_add3a :: "u16 \<Rightarrow> u16 \<Rightarrow> tg" where [tg_defs]:
  "tg_sqr_mpysu_add3a a b = Inr any_config"

definition tg_cmp_ax_bx :: "u16 \<Rightarrow> u16 \<Rightarrow> tg" where [tg_defs]:
  "tg_cmp_ax_bx a b = Inr any_config"

definition tg_cmp_b0_b1 :: "tg" where [tg_defs]:
  "tg_cmp_b0_b1 = Inr any_config"

definition tg_cmp_b1_b0 :: "tg" where [tg_defs]:
  "tg_cmp_b1_b0 = Inr any_config"

definition tg_cmp_bx_ax :: "u16 \<Rightarrow> u16 \<Rightarrow> tg" where [tg_defs]:
  "tg_cmp_bx_ax a b = Inr any_config"

definition tg_cmp_p1_to :: "u16 \<Rightarrow> tg" where [tg_defs]:
  "tg_cmp_p1_to b = Inr any_config"

definition tg_max2_vtr_ax :: "u16 \<Rightarrow> tg" where [tg_defs]:
  "tg_max2_vtr_ax a = Inr any_config"

definition tg_min2_vtr_ax :: "u16 \<Rightarrow> tg" where [tg_defs]:
  "tg_min2_vtr_ax a = Inr any_config"

definition tg_max2_vtr_ax_bx :: "u16 \<Rightarrow> u16 \<Rightarrow> tg" where [tg_defs]:
  "tg_max2_vtr_ax_bx a b = Inr any_config"

definition tg_min2_vtr_ax_bx :: "u16 \<Rightarrow> u16 \<Rightarrow> tg" where [tg_defs]:
  "tg_min2_vtr_ax_bx a b = Inr any_config"

definition tg_max2_vtr_movl_ax_bx :: "u16 \<Rightarrow> u16 \<Rightarrow> u16 \<Rightarrow> u16 \<Rightarrow> tg" where [tg_defs]:
  "tg_max2_vtr_movl_ax_bx a b c cs = Inr (config_with_ar_address c)"

definition tg_max2_vtr_movh_ax_bx :: "u16 \<Rightarrow> u16 \<Rightarrow> u16 \<Rightarrow> u16 \<Rightarrow> tg" where [tg_defs]:
  "tg_max2_vtr_movh_ax_bx a b c cs = Inr (config_with_ar_address c)"

definition tg_max2_vtr_movl_bx_ax :: "u16 \<Rightarrow> u16 \<Rightarrow> u16 \<Rightarrow> u16 \<Rightarrow> tg" where [tg_defs]:
  "tg_max2_vtr_movl_bx_ax a b c cs = Inr (config_with_ar_address c)"

definition tg_max2_vtr_movh_bx_ax :: "u16 \<Rightarrow> u16 \<Rightarrow> u16 \<Rightarrow> u16 \<Rightarrow> tg" where [tg_defs]:
  "tg_max2_vtr_movh_bx_ax a b c cs = Inr (config_with_ar_address c)"

definition tg_min2_vtr_movl_ax_bx :: "u16 \<Rightarrow> u16 \<Rightarrow> u16 \<Rightarrow> u16 \<Rightarrow> tg" where [tg_defs]:
  "tg_min2_vtr_movl_ax_bx a b c cs = Inr (config_with_ar_address c)"

definition tg_min2_vtr_movh_ax_bx :: "u16 \<Rightarrow> u16 \<Rightarrow> u16 \<Rightarrow> u16 \<Rightarrow> tg" where [tg_defs]:
  "tg_min2_vtr_movh_ax_bx a b c cs = Inr (config_with_ar_address c)"

definition tg_min2_vtr_movl_bx_ax :: "u16 \<Rightarrow> u16 \<Rightarrow> u16 \<Rightarrow> u16 \<Rightarrow> tg" where [tg_defs]:
  "tg_min2_vtr_movl_bx_ax a b c cs = Inr (config_with_ar_address c)"

definition tg_min2_vtr_movh_bx_ax :: "u16 \<Rightarrow> u16 \<Rightarrow> u16 \<Rightarrow> u16 \<Rightarrow> tg" where [tg_defs]:
  "tg_min2_vtr_movh_bx_ax a b c cs = Inr (config_with_ar_address c)"

definition tg_max2_vtr_movij :: "u16 \<Rightarrow> u16 \<Rightarrow> u16 \<Rightarrow> u16 \<Rightarrow> u16 \<Rightarrow> tg" where [tg_defs]:
  "tg_max2_vtr_movij a b c csi csj = Inr (config_with_arp_address c)"

definition tg_max2_vtr_movji :: "u16 \<Rightarrow> u16 \<Rightarrow> u16 \<Rightarrow> u16 \<Rightarrow> u16 \<Rightarrow> tg" where [tg_defs]:
  "tg_max2_vtr_movji a b c csi csj = Inr (config_with_arp_address c)"

definition tg_min2_vtr_movij :: "u16 \<Rightarrow> u16 \<Rightarrow> u16 \<Rightarrow> u16 \<Rightarrow> u16 \<Rightarrow> tg" where [tg_defs]:
  "tg_min2_vtr_movij a b c csi csj = Inr (config_with_arp_address c)"

definition tg_min2_vtr_movji :: "u16 \<Rightarrow> u16 \<Rightarrow> u16 \<Rightarrow> u16 \<Rightarrow> u16 \<Rightarrow> tg" where [tg_defs]:
  "tg_min2_vtr_movji a b c csi csj = Inr (config_with_arp_address c)"

definition tg_mov_sv_app :: "u16 \<Rightarrow> nat \<Rightarrow> u16 \<Rightarrow> sum_base \<Rightarrow> bool \<Rightarrow> bool \<Rightarrow> bool \<Rightarrow> bool \<Rightarrow> tg" where [tg_defs]:
  "tg_mov_sv_app a as b base sub_p0 p0_align sub_p1 p1_align = Inr (config_with_ar_address a)"

definition tg_cbs_axh :: "u16 \<Rightarrow> u16 \<Rightarrow> tg" where [tg_defs]:
  "tg_cbs_axh a c = Inr disabled_config"

definition tg_cbs_axh_bxh :: "u16 \<Rightarrow> u16 \<Rightarrow> u16 \<Rightarrow> tg" where [tg_defs]:
  "tg_cbs_axh_bxh a b c = Inr disabled_config"

definition tg_cbs_arp :: "u16 \<Rightarrow> u16 \<Rightarrow> u16 \<Rightarrow> u16 \<Rightarrow> tg" where [tg_defs]:
  "tg_cbs_arp a asi asj c = Inr disabled_config"

definition tg_mma_swapped :: "reg_name \<Rightarrow> bool \<Rightarrow> bool \<Rightarrow> bool \<Rightarrow> bool \<Rightarrow> sum_base \<Rightarrow> bool \<Rightarrow> bool \<Rightarrow> bool \<Rightarrow> bool \<Rightarrow> tg" where [tg_defs]:
  "tg_mma_swapped a x0_sign y0_sign x1_sign y1_sign base sub_p0 p0_align sub_p1 p1_align =
     Inr any_config"

definition tg_mma_arp :: "u16 \<Rightarrow> u16 \<Rightarrow> u16 \<Rightarrow> bool \<Rightarrow> bool \<Rightarrow> reg_name \<Rightarrow> bool \<Rightarrow> bool \<Rightarrow> bool \<Rightarrow> bool \<Rightarrow> sum_base \<Rightarrow> bool \<Rightarrow> bool \<Rightarrow> bool \<Rightarrow> bool \<Rightarrow> tg" where [tg_defs]:
  "tg_mma_arp xy i j dmodi dmodj a x0_sign y0_sign x1_sign y1_sign base sub_p0 p0_align sub_p1 p1_align =
     Inr (config_with_arp_address xy)"

definition tg_mma_mx_xy :: "u16 \<Rightarrow> u16 \<Rightarrow> reg_name \<Rightarrow> bool \<Rightarrow> bool \<Rightarrow> bool \<Rightarrow> bool \<Rightarrow> sum_base \<Rightarrow> bool \<Rightarrow> bool \<Rightarrow> bool \<Rightarrow> bool \<Rightarrow> tg" where [tg_defs]:
  "tg_mma_mx_xy y ys a x0_sign y0_sign x1_sign y1_sign base sub_p0 p0_align sub_p1 p1_align =
     Inr (config_with_ar_address y)"

definition tg_mma_xy_mx :: "u16 \<Rightarrow> u16 \<Rightarrow> reg_name \<Rightarrow> bool \<Rightarrow> bool \<Rightarrow> bool \<Rightarrow> bool \<Rightarrow> sum_base \<Rightarrow> bool \<Rightarrow> bool \<Rightarrow> bool \<Rightarrow> bool \<Rightarrow> tg" where [tg_defs]:
  "tg_mma_xy_mx y ys a x0_sign y0_sign x1_sign y1_sign base sub_p0 p0_align sub_p1 p1_align =
     Inr (config_with_ar_address y)"

definition tg_mma_my_my :: "u16 \<Rightarrow> u16 \<Rightarrow> reg_name \<Rightarrow> bool \<Rightarrow> bool \<Rightarrow> bool \<Rightarrow> bool \<Rightarrow> sum_base \<Rightarrow> bool \<Rightarrow> bool \<Rightarrow> bool \<Rightarrow> bool \<Rightarrow> tg" where [tg_defs]:
  "tg_mma_my_my x xs a x0_sign y0_sign x1_sign y1_sign base sub_p0 p0_align sub_p1 p1_align =
     Inr (config_with_ar_address x)"

definition tg_mma_mov_axh :: "u16 \<Rightarrow> u16 \<Rightarrow> u16 \<Rightarrow> u16 \<Rightarrow> reg_name \<Rightarrow> bool \<Rightarrow> bool \<Rightarrow> bool \<Rightarrow> bool \<Rightarrow> sum_base \<Rightarrow> bool \<Rightarrow> bool \<Rightarrow> bool \<Rightarrow> bool \<Rightarrow> tg" where [tg_defs]:
  "tg_mma_mov_axh u v w ws a x0_sign y0_sign x1_sign y1_sign base sub_p0 p0_align sub_p1 p1_align =
     Inr (config_with_ar_address w)"

definition tg_mma_mov_ar :: "u16 \<Rightarrow> u16 \<Rightarrow> reg_name \<Rightarrow> bool \<Rightarrow> bool \<Rightarrow> bool \<Rightarrow> bool \<Rightarrow> sum_base \<Rightarrow> bool \<Rightarrow> bool \<Rightarrow> bool \<Rightarrow> bool \<Rightarrow> tg" where [tg_defs]:
  "tg_mma_mov_ar w ws a x0_sign y0_sign x1_sign y1_sign base sub_p0 p0_align sub_p1 p1_align =
     Inr (config_with_ar_address w)"

definition tg_addhp :: "u16 \<Rightarrow> u16 \<Rightarrow> u16 \<Rightarrow> u16 \<Rightarrow> tg" where [tg_defs]:
  "tg_addhp a as b c = Inr (config_with_ar_address a)"

definition tg_mov_ext0 :: "u16 \<Rightarrow> tg" where [tg_defs]:
  "tg_mov_ext0 a = Inr disabled_config"

definition tg_mov_ext1 :: "u16 \<Rightarrow> tg" where [tg_defs]:
  "tg_mov_ext1 a = Inr disabled_config"

definition tg_mov_ext2 :: "u16 \<Rightarrow> tg" where [tg_defs]:
  "tg_mov_ext2 a = Inr disabled_config"

definition tg_mov_ext3 :: "u16 \<Rightarrow> tg" where [tg_defs]:
  "tg_mov_ext3 a = Inr disabled_config"

end
