(* ===== verification/Test_Generator.thy ===== *)
theory Test_Generator
  imports Test_Handlers_Compute Test_Handlers_Move Disassembler
begin

unbundle bit_operations_syntax

text \<open>
  src/src/decoder.h with the test generator of src/src/test_generator.cpp as its visitor, and the
  function that writes the test cases of the whole instruction set. The table is the
  interpreter's, entry by entry, with the handlers of the third visitor.
\<close>

section \<open>The instruction table\<close>

definition tg_misc_table :: "tg matcher list" where
  "tg_misc_table = [
     inst 0x0000 [] (\<lambda>x. tg_nop),
     inst 0x94C0 [At 1 8, At 3 0, At 2 3] (\<lambda>x. tg_norm (x 0) (x 1) (x 2)),
     inst 0x4980 [At 4 0] (\<lambda>x. tg_swap_accs (x 0)),
     inst 0x0020 [] (\<lambda>x. tg_trap)]"

definition tg_alm_table :: "tg matcher list" where
  "tg_alm_table = [
     inst 0xA000 [At 4 9, At 8 0, At 1 8] (\<lambda>x. tg_alm_mem_imm8 (x 0) (x 1) (x 2)),
     inst 0x8080 [At 4 9, At 3 0, At 2 3, At 1 8] (\<lambda>x. tg_alm_rn (x 0) (x 1) (x 2) (x 3)),
     inst 0x80A0 [At 4 9, At 5 0, At 1 8] (\<lambda>x. tg_alm_register (x 0) (x 1) (x 2)),
     inst 0xD388 [Const 0, At 1 4] (\<lambda>x. tg_alm_r6 (x 0) (x 1)),
     inst 0xD389 [Const 1, At 1 4] (\<lambda>x. tg_alm_r6 (x 0) (x 1)),
     inst 0xD38A [Const 2, At 1 4] (\<lambda>x. tg_alm_r6 (x 0) (x 1)),
     inst 0xD38B [Const 3, At 1 4] (\<lambda>x. tg_alm_r6 (x 0) (x 1)),
     inst 0xD38C [Const 4, At 1 4] (\<lambda>x. tg_alm_r6 (x 0) (x 1)),
     inst 0xD38D [Const 5, At 1 4] (\<lambda>x. tg_alm_r6 (x 0) (x 1)),
     inst 0xD38E [Const 6, At 1 4] (\<lambda>x. tg_alm_r6 (x 0) (x 1)),
     inst 0xD38F [Const 7, At 1 4] (\<lambda>x. tg_alm_r6 (x 0) (x 1)),
     inst 0x9462 [Const 8, At 1 0] (\<lambda>x. tg_alm_r6 (x 0) (x 1)),
     inst 0x9464 [Const 9, At 1 0] (\<lambda>x. tg_alm_r6 (x 0) (x 1)),
     inst 0x9466 [Const 10, At 1 0] (\<lambda>x. tg_alm_r6 (x 0) (x 1)),
     inst 0x5E23 [Const 11, At 1 8] (\<lambda>x. tg_alm_r6 (x 0) (x 1)),
     inst 0x5E22 [Const 12, At 1 8] (\<lambda>x. tg_alm_r6 (x 0) (x 1)),
     inst 0x5F41 [Const 13, Const 0] (\<lambda>x. tg_alm_r6 (x 0) (x 1)),
     inst 0x9062 [Const 14, At 1 8, Unused 0] (\<lambda>x. tg_alm_r6 (x 0) (x 1)),
     inst 0x8A63 [Const 15, At 1 3] (\<lambda>x. tg_alm_r6 (x 0) (x 1))]"

definition tg_alu_table :: "tg matcher list" where
  "tg_alu_table = [
     except_const 3 0 5 (except_const 3 0 4 (inst 0xD4F8 [At 3 0, At 16 16, At 1 8]
       (\<lambda>x. tg_alu_mem_imm16 (x 0) (x 1) (x 2)))),
     except_const 3 0 5 (except_const 3 0 4 (inst 0xD4D8 [At 3 0, At 16 16, At 1 8]
       (\<lambda>x. tg_alu_mem_r7_imm16 (x 0) (x 1) (x 2)))),
     except_const 3 9 5 (except_const 3 9 4 (inst 0x80C0 [At 3 9, At 16 16, At 1 8]
       (\<lambda>x. tg_alu_imm16 (x 0) (x 1) (x 2)))),
     except_const 3 9 5 (except_const 3 9 4 (inst 0xC000 [At 3 9, At 8 0, At 1 8]
       (\<lambda>x. tg_alu_imm8 (x 0) (x 1) (x 2)))),
     except_const 3 9 5 (except_const 3 9 4 (inst 0x4000 [At 3 9, At 7 0, At 1 8]
       (\<lambda>x. tg_alu_mem_r7_imm7s (x 0) (x 1) (x 2))))]"

definition tg_or_table :: "tg matcher list" where
  "tg_or_table = [
     inst 0xD291 [At 2 10, At 1 6, At 1 5] (\<lambda>x. tg_or_ab_ax (x 0) (x 1) (x 2)),
     inst 0xD4A4 [At 1 8, At 1 1, At 1 0] (\<lambda>x. tg_or_ax_bx (x 0) (x 1) (x 2)),
     inst 0xD3C4 [At 1 10, At 1 1, At 1 0] (\<lambda>x. tg_or_bx_bx (x 0) (x 1) (x 2))]"

definition tg_alb_table :: "tg matcher list" where
  "tg_alb_table = [
     inst 0xE100 [At 3 9, At 16 16, At 8 0] (\<lambda>x. tg_alb_mem_imm8 (x 0) (x 1) (x 2)),
     inst 0x80E0 [At 3 9, At 16 16, At 3 0, At 2 3] (\<lambda>x. tg_alb_rn (x 0) (x 1) (x 2) (x 3)),
     inst 0x81E0 [At 3 9, At 16 16, At 5 0] (\<lambda>x. tg_alb_register (x 0) (x 1) (x 2)),
     inst 0x47B8 [At 3 0, At 16 16] (\<lambda>x. tg_alb_r6 (x 0) (x 1)),
     inst 0x43C8 [Const 0, At 16 16, At 3 0] (\<lambda>x. tg_alb_stt_mod (x 0) (x 1) (x 2)),
     inst 0x4388 [Const 1, At 16 16, At 3 0] (\<lambda>x. tg_alb_stt_mod (x 0) (x 1) (x 2)),
     inst 0x0038 [Const 2, At 16 16, At 3 0] (\<lambda>x. tg_alb_stt_mod (x 0) (x 1) (x 2)),
     inst 0x9470 [Const 4, At 16 16, At 3 0] (\<lambda>x. tg_alb_stt_mod (x 0) (x 1) (x 2)),
     inst 0x9478 [Const 5, At 16 16, At 3 0] (\<lambda>x. tg_alb_stt_mod (x 0) (x 1) (x 2))]"

definition tg_add_table :: "tg matcher list" where
  "tg_add_table = [
     inst 0xD2DA [At 2 10, At 1 0] (\<lambda>x. tg_add_ab_bx (x 0) (x 1)),
     inst 0x5DF0 [At 1 1, At 1 0] (\<lambda>x. tg_add_bx_ax (x 0) (x 1)),
     inst 0xD782 [At 1 0] (\<lambda>x. tg_add_p1 (x 0)),
     inst 0x5DF8 [At 1 1, At 1 0] (\<lambda>x. tg_add_px_bx (x 0) (x 1)),
     inst 0x8A61 [At 2 3, At 1 8] (\<lambda>x. tg_sub_ab_bx (x 0) (x 1)),
     inst 0x8861 [At 1 4, At 1 3] (\<lambda>x. tg_sub_bx_ax (x 0) (x 1)),
     inst 0xD4B9 [At 1 8] (\<lambda>x. tg_sub_p1_acc (x 0)),
     inst 0x8FD0 [At 1 1, At 1 0] (\<lambda>x. tg_sub_px_bx (x 0) (x 1)),
     inst 0x5DC0 [At 2 2] (\<lambda>x. tg_app (x 0) Sum_Zero False False False False),
     inst 0x5DC1 [At 2 2] (\<lambda>x. tg_app (x 0) Sum_Zero False False False True),
     inst 0x4590 [At 2 2] (\<lambda>x. tg_app (x 0) Sum_Acc False False False False),
     inst 0x4592 [At 2 2] (\<lambda>x. tg_app (x 0) Sum_Acc False False False True),
     inst 0x4593 [At 2 2] (\<lambda>x. tg_app (x 0) Sum_Acc False True False True),
     inst 0x5DC2 [At 2 2] (\<lambda>x. tg_app (x 0) Sum_Zero False False True False),
     inst 0x5DC3 [At 2 2] (\<lambda>x. tg_app (x 0) Sum_Zero False False True True),
     inst 0x80C6 [At 2 10] (\<lambda>x. tg_app (x 0) Sum_Acc True False True False),
     inst 0x82C6 [At 2 10] (\<lambda>x. tg_app (x 0) Sum_Acc True False True True),
     inst 0x83C6 [At 2 10] (\<lambda>x. tg_app (x 0) Sum_Acc True True True True),
     inst 0x906C [At 2 0] (\<lambda>x. tg_app (x 0) Sum_Acc False False True False),
     inst 0x49C2 [At 2 4] (\<lambda>x. tg_app (x 0) Sum_Acc True False False False),
     inst 0x916C [At 2 0] (\<lambda>x. tg_app (x 0) Sum_Acc False False True True),
     inst 0x49C3 [At 2 4] (\<lambda>x. tg_app (x 0) Sum_Acc True False False True),
     inst 0x6F80 [At 1 2, At 1 0, At 1 1, At 2 3] (\<lambda>x. tg_add_add (x 0) (x 1) (x 2) (x 3)),
     inst 0x6FA0 [At 1 2, At 1 0, At 1 1, At 2 3]
       (\<lambda>x. tg_add_sub_pairs (x 0) (x 1) (x 2) (x 3)),
     inst 0x6FC0 [At 1 2, At 1 0, At 1 1, At 2 3] (\<lambda>x. tg_sub_add (x 0) (x 1) (x 2) (x 3)),
     inst 0x6FE0 [At 1 2, At 1 0, At 1 1, At 2 3] (\<lambda>x. tg_sub_sub (x 0) (x 1) (x 2) (x 3)),
     inst 0x5DB0 [At 1 1, At 1 0, At 2 2] (\<lambda>x. tg_add_sub_sv (x 0) (x 1) (x 2)),
     inst 0x5DE0 [At 1 1, At 1 0, At 2 2] (\<lambda>x. tg_sub_add_sv (x 0) (x 1) (x 2)),
     inst 0x8064 [At 1 8, At 1 0, At 1 1, At 2 3]
       (\<lambda>x. tg_sub_add_i_mov_j_sv (x 0) (x 1) (x 2) (x 3)),
     inst 0x5D80 [At 1 2, At 1 0, At 1 1, At 2 3]
       (\<lambda>x. tg_sub_add_j_mov_i_sv (x 0) (x 1) (x 2) (x 3)),
     inst 0x9070 [At 1 8, At 1 0, At 1 1, At 2 2]
       (\<lambda>x. tg_add_sub_i_mov_j (x 0) (x 1) (x 2) (x 3)),
     inst 0x5E30 [At 1 8, At 1 0, At 1 1, At 2 2]
       (\<lambda>x. tg_add_sub_j_mov_i (x 0) (x 1) (x 2) (x 3))]"

definition tg_mul_table :: "tg matcher list" where
  "tg_mul_table = [
     inst 0x8000 [At 3 8, At 3 0, At 2 3, At 16 16, At 1 11]
       (\<lambda>x. tg_mul_rn_imm16 (x 0) (x 1) (x 2) (x 3) (x 4)),
     inst 0x8020 [At 3 8, At 3 0, At 2 3, At 1 11] (\<lambda>x. tg_mul_y0_rn (x 0) (x 1) (x 2) (x 3)),
     inst 0x8040 [At 3 8, At 5 0, At 1 11] (\<lambda>x. tg_mul_y0_register (x 0) (x 1) (x 2)),
     inst 0xD000 [At 3 8, At 1 2, At 2 5, At 2 0, At 2 3, At 1 11]
       (\<lambda>x. tg_mul_r45_r0123 (x 0) (x 1) (x 2) (x 3) (x 4) (x 5)),
     inst 0x5EA0 [At 3 1, At 1 0] (\<lambda>x. tg_mul_y0_r6 (x 0) (x 1)),
     inst 0xE000 [At 2 9, At 8 0, At 1 11] (\<lambda>x. tg_mul_y0_mem_imm8 (x 0) (x 1) (x 2)),
     inst 0x0800 [At 8 0] (\<lambda>x. tg_mpyi (x 0)),
     inst 0xD080 [At 1 2, At 2 5, At 2 0, At 2 3, At 1 8]
       (\<lambda>x. tg_msu_r45_r0123 (x 0) (x 1) (x 2) (x 3) (x 4)),
     inst 0x90C0 [At 3 0, At 2 3, At 16 16, At 1 8]
       (\<lambda>x. tg_msu_rn_imm16 (x 0) (x 1) (x 2) (x 3)),
     inst 0x8264 [At 2 3, At 2 0, At 1 8] (\<lambda>x. tg_msusu (x 0) (x 1) (x 2)),
     inst 0x4D84 [At 1 1, Unused 0] (\<lambda>x. tg_mac_x1to0 (x 0)),
     inst 0x5E28 [At 1 2, At 1 0, At 1 1, At 1 8] (\<lambda>x. tg_mac1 (x 0) (x 1) (x 2) (x 3))]"

definition tg_moda_table :: "tg matcher list" where
  "tg_moda_table = [
     except_const 4 4 7 (inst 0x6700 [At 4 4, At 1 12, At 4 0]
       (\<lambda>x. tg_moda4 (x 0) (x 1) (x 2))),
     inst 0x6F00 [At 3 4, At 1 12, At 4 0] (\<lambda>x. tg_moda3 (x 0) (x 1) (x 2)),
     inst 0xD7C2 [At 1 0] (\<lambda>x. tg_pacr1 (x 0)),
     inst 0x8ED0 [At 2 2, At 2 0] (\<lambda>x. tg_clr (x 0) (x 1)),
     inst 0x8DD0 [At 2 2, At 2 0] (\<lambda>x. tg_clrr (x 0) (x 1))]"

definition tg_bkrep_table :: "tg matcher list" where
  "tg_bkrep_table = [
     inst 0x5C00 [At 8 0, At 16 16] (\<lambda>x. tg_bkrep_imm8 (x 0) (x 1)),
     inst 0x5D00 [At 5 0, At 16 16, At 2 5] (\<lambda>x. tg_bkrep_register (x 0) (x 1) (x 2)),
     inst 0x8FDC [At 16 16, At 2 0] (\<lambda>x. tg_bkrep_r6 (x 0) (x 1)),
     inst 0xDA9C [At 2 0] (\<lambda>x. tg_bkreprst (x 0)),
     inst 0x5F48 [Unused 0, Unused 1] (\<lambda>x. tg_bkreprst_memsp),
     inst 0xDADC [At 2 0, Unused 10] (\<lambda>x. tg_bkrepsto (x 0)),
     inst 0x9468 [Unused 0, Unused 1, Unused 2] (\<lambda>x. tg_bkrepsto_memsp)]"

definition tg_bank_table :: "tg matcher list" where
  "tg_bank_table = [
     inst 0x4B80 [At 6 0] (\<lambda>x. tg_banke (x 0)),
     inst 0x8CDF [] (\<lambda>x. tg_bankr),
     inst 0x8CDC [At 1 0] (\<lambda>x. tg_bankr_ar (x 0)),
     inst 0x8CD0 [At 1 2, At 2 0] (\<lambda>x. tg_bankr_ar_arp (x 0) (x 1)),
     inst 0x8CD8 [At 2 0] (\<lambda>x. tg_bankr_arp (x 0)),
     inst 0x5EB8 [At 3 0] (\<lambda>x. tg_bitrev (x 0)),
     inst 0xD7E8 [At 3 0] (\<lambda>x. tg_bitrev_dbrv (x 0)),
     inst 0xD7E0 [At 3 0] (\<lambda>x. tg_bitrev_ebrv (x 0))]"

definition tg_branch_table :: "tg matcher list" where
  "tg_branch_table = [
     inst 0x4180 [At 16 16, At 2 4, At 4 0] (\<lambda>x. tg_br (x 0) (x 1) (x 2)),
     inst 0x5000 [At 7 4, At 4 0] (\<lambda>x. tg_brr (x 0) (x 1)),
     inst 0xD3C0 [] (\<lambda>x. tg_break_instr),
     inst 0x41C0 [At 16 16, At 2 4, At 4 0] (\<lambda>x. tg_call (x 0) (x 1) (x 2)),
     inst 0xD480 [At 1 8] (\<lambda>x. tg_calla_axl (x 0)),
     inst 0xD381 [At 1 4] (\<lambda>x. tg_calla_ax (x 0)),
     inst 0x1000 [At 7 4, At 4 0] (\<lambda>x. tg_callr (x 0) (x 1)),
     inst 0xD380 [] (\<lambda>x. tg_cntx_s),
     inst 0xD390 [] (\<lambda>x. tg_cntx_r),
     inst 0x4580 [At 4 0] (\<lambda>x. tg_ret (x 0)),
     inst 0xD780 [] (\<lambda>x. tg_retd),
     inst 0x45C0 [At 4 0] (\<lambda>x. tg_reti (x 0)),
     inst 0x45D0 [At 4 0] (\<lambda>x. tg_retic (x 0)),
     inst 0xD7C0 [] (\<lambda>x. tg_retid),
     inst 0xD3C3 [] (\<lambda>x. tg_retidc),
     inst 0x0900 [At 8 0] (\<lambda>x. tg_rets (x 0))]"

definition tg_load_table :: "tg matcher list" where
  "tg_load_table = [
     inst 0x4D80 [At 2 0] (\<lambda>x. tg_load_ps (x 0)),
     inst 0xDB80 [At 7 0] (\<lambda>x. tg_load_stepi (x 0)),
     inst 0xDF80 [At 7 0] (\<lambda>x. tg_load_stepj (x 0)),
     inst 0x0400 [At 8 0] (\<lambda>x. tg_load_page (x 0)),
     inst 0x0200 [At 9 0] (\<lambda>x. tg_load_modi (x 0)),
     inst 0x0A00 [At 9 0] (\<lambda>x. tg_load_modj (x 0)),
     inst 0xD7D8 [At 2 1, Unused 0] (\<lambda>x. tg_load_movpd (x 0)),
     inst 0x0010 [At 4 0] (\<lambda>x. tg_load_ps01 (x 0))]"

definition tg_stack_table :: "tg matcher list" where
  "tg_stack_table = [
     inst 0x5F40 [At 16 16] (\<lambda>x. tg_push_imm16 (x 0)),
     inst 0x5E40 [At 5 0] (\<lambda>x. tg_push_register (x 0)),
     inst 0xD7C8 [At 2 1, Unused 0] (\<lambda>x. tg_push_abe (x 0)),
     inst 0xD3D0 [At 4 0] (\<lambda>x. tg_push_ar_arp_stt_mod (x 0)),
     inst 0xD7FC [Unused 0, Unused 1] (\<lambda>x. tg_push_prpage),
     inst 0xD78C [At 1 1, Unused 0] (\<lambda>x. tg_push_px (x 0)),
     inst 0xD4D7 [Unused 5] (\<lambda>x. tg_push_r6),
     inst 0xD7F8 [Unused 0, Unused 1] (\<lambda>x. tg_push_repc),
     inst 0xD4D4 [Unused 5] (\<lambda>x. tg_push_x0),
     inst 0xD4D5 [Unused 5] (\<lambda>x. tg_push_x1),
     inst 0xD4D6 [Unused 5] (\<lambda>x. tg_push_y1),
     inst 0x4384 [At 1 6, Unused 0, Unused 1] (\<lambda>x. tg_pusha_ax (x 0)),
     inst 0xD788 [At 1 1, Unused 0] (\<lambda>x. tg_pusha_bx (x 0)),
     inst 0x5E60 [At 5 0] (\<lambda>x. tg_pop_register (x 0)),
     inst 0x47B4 [At 2 0] (\<lambda>x. tg_pop_abe (x 0)),
     inst 0x80C7 [At 4 8] (\<lambda>x. tg_pop_ar_arp_stt_mod (x 0)),
     inst 0x0006 [At 1 5, Unused 0] (\<lambda>x. tg_pop_bx (x 0)),
     inst 0xD7F4 [Unused 0, Unused 1] (\<lambda>x. tg_pop_prpage),
     inst 0xD496 [At 1 0] (\<lambda>x. tg_pop_px (x 0)),
     inst 0x0024 [Unused 0] (\<lambda>x. tg_pop_r6),
     inst 0xD7F0 [Unused 0, Unused 1] (\<lambda>x. tg_pop_repc),
     inst 0xD494 [] (\<lambda>x. tg_pop_x0),
     inst 0xD495 [] (\<lambda>x. tg_pop_x1),
     inst 0x0004 [Unused 0] (\<lambda>x. tg_pop_y1),
     inst 0x47B0 [At 2 0] (\<lambda>x. tg_popa (x 0))]"

definition tg_shift_table :: "tg matcher list" where
  "tg_shift_table = [
     inst 0x0C00 [At 8 0] (\<lambda>x. tg_rep_imm8 (x 0)),
     inst 0x0D00 [At 5 0] (\<lambda>x. tg_rep_register (x 0)),
     inst 0x0002 [Unused 0] (\<lambda>x. tg_rep_r6),
     inst 0xD280 [At 2 10, At 2 5, At 4 0] (\<lambda>x. tg_shfc (x 0) (x 1) (x 2)),
     inst 0x9240 [At 2 10, At 2 7, At 6 0] (\<lambda>x. tg_shfi (x 0) (x 1) (x 2))]"

definition tg_bit_test_table :: "tg matcher list" where
  "tg_bit_test_table = [
     inst 0x80C1 [At 2 10, At 2 8] (\<lambda>x. tg_tst4b (x 0) (x 1)),
     inst 0x4780 [At 2 2, At 2 0, At 1 4] (\<lambda>x. tg_tst4b_ax (x 0) (x 1) (x 2)),
     inst 0xF000 [At 8 0, At 4 8] (\<lambda>x. tg_tstb_mem_imm8 (x 0) (x 1)),
     inst 0x9020 [At 3 0, At 2 3, At 4 8] (\<lambda>x. tg_tstb_rn (x 0) (x 1) (x 2)),
     except_const 5 0 24 (inst 0x9000 [At 5 0, At 4 8] (\<lambda>x. tg_tstb_register (x 0) (x 1))),
     inst 0x9018 [At 4 8] (\<lambda>x. tg_tstb_r6 (x 0)),
     inst 0x0028 [At 3 0, At 16 16] (\<lambda>x. tg_tstb_stt_mod (x 0) (x 1)),
     inst 0x6770 [At 2 2, At 2 0, At 1 12] (\<lambda>x. tg_and_acc (x 0) (x 1) (x 2)),
     inst 0x43C0 [] (\<lambda>x. tg_dint),
     inst 0x4380 [] (\<lambda>x. tg_eint)]"

definition tg_modr_table :: "tg matcher list" where
  "tg_modr_table = [
     inst 0x9460 [At 1 0] (\<lambda>x. tg_exp_bx (x 0)),
     inst 0x9060 [At 1 0, At 1 8] (\<lambda>x. tg_exp_bx_ax (x 0) (x 1)),
     inst 0x9C40 [At 3 0, At 2 3] (\<lambda>x. tg_exp_rn (x 0) (x 1)),
     inst 0x9840 [At 3 0, At 2 3, At 1 8] (\<lambda>x. tg_exp_rn_ax (x 0) (x 1) (x 2)),
     inst 0x9440 [At 5 0] (\<lambda>x. tg_exp_register (x 0)),
     inst 0x9040 [At 5 0, At 1 8] (\<lambda>x. tg_exp_register_ax (x 0) (x 1)),
     inst 0xD7C1 [] (\<lambda>x. tg_exp_r6),
     inst 0xD382 [At 1 4] (\<lambda>x. tg_exp_r6_ax (x 0)),
     inst 0x0080 [At 3 0, At 2 3] (\<lambda>x. tg_modr (x 0) (x 1)),
     inst 0x00A0 [At 3 0, At 2 3] (\<lambda>x. tg_modr_dmod (x 0) (x 1)),
     inst 0x4990 [At 3 0] (\<lambda>x. tg_modr_i2 (x 0)),
     inst 0x4998 [At 3 0] (\<lambda>x. tg_modr_i2_dmod (x 0)),
     inst 0x5DA0 [At 3 0] (\<lambda>x. tg_modr_d2 (x 0)),
     inst 0x5DA8 [At 3 0] (\<lambda>x. tg_modr_d2_dmod (x 0)),
     inst 0xD294 [At 2 10, At 2 0, At 2 5] (\<lambda>x. tg_modr_eemod (x 0) (x 1) (x 2)),
     inst 0x0D80 [At 2 5, At 2 1, At 2 3] (\<lambda>x. tg_modr_edmod (x 0) (x 1) (x 2)),
     inst 0x8464 [At 2 8, At 2 0, At 2 3] (\<lambda>x. tg_modr_demod (x 0) (x 1) (x 2)),
     inst 0x0D81 [At 2 5, At 2 1, At 2 3] (\<lambda>x. tg_modr_ddmod (x 0) (x 1) (x 2))]"

definition tg_mov_table :: "tg matcher list" where
  "tg_mov_table = [
     inst 0xD290 [At 2 10, At 2 5] (\<lambda>x. tg_mov_ab_ab (x 0) (x 1)),
     inst 0xD298 [At 2 10] (\<lambda>x. tg_mov_dvm (x 0)),
     inst 0xD2D8 [At 2 10] (\<lambda>x. tg_mov_x0 (x 0)),
     inst 0xD394 [At 2 0] (\<lambda>x. tg_mov_x1 (x 0)),
     inst 0xD384 [At 2 0] (\<lambda>x. tg_mov_y1 (x 0)),
     inst 0x3000 [At 3 9, At 8 0] (\<lambda>x. tg_mov_ablh_mem_imm8 (x 0) (x 1)),
     inst 0xD4BC [At 1 8, At 16 16] (\<lambda>x. tg_mov_axl_mem_imm16 (x 0) (x 1)),
     inst 0xD49C [At 1 8, At 16 16] (\<lambda>x. tg_mov_axl_mem_r7_imm16 (x 0) (x 1)),
     inst 0xDC80 [At 1 8, At 7 0] (\<lambda>x. tg_mov_axl_mem_r7_imm7s (x 0) (x 1)),
     inst 0xD4B8 [At 16 16, At 1 8] (\<lambda>x. tg_mov_mem_imm16_ax (x 0) (x 1)),
     inst 0x6100 [At 8 0, At 2 11] (\<lambda>x. tg_mov_mem_imm8_ab (x 0) (x 1)),
     inst 0x6200 [At 8 0, At 3 10] (\<lambda>x. tg_mov_mem_imm8_ablh (x 0) (x 1)),
     inst 0x6500 [At 8 0, At 1 12] (\<lambda>x. tg_mov_eu (x 0) (x 1)),
     inst 0x6000 [At 8 0, At 3 10] (\<lambda>x. tg_mov_mem_imm8_rn_old (x 0) (x 1)),
     inst 0x6D00 [At 8 0] (\<lambda>x. tg_mov_sv_mem_imm8 (x 0)),
     inst 0xD491 [At 2 5] (\<lambda>x. tg_mov_dvm_to (x 0)),
     inst 0xD492 [At 2 5] (\<lambda>x. tg_mov_icr_to (x 0)),
     inst 0x5E20 [At 16 16, At 1 8] (\<lambda>x. tg_mov_imm16_bx (x 0) (x 1)),
     inst 0x5E00 [At 16 16, At 5 0] (\<lambda>x. tg_mov_imm16_register (x 0) (x 1)),
     inst 0x4F80 [At 5 0] (\<lambda>x. tg_mov_icr_imm5 (x 0)),
     inst 0x2500 [At 8 0, At 1 12] (\<lambda>x. tg_mov_imm8s_axh (x 0) (x 1)),
     inst 0x2900 [At 8 0] (\<lambda>x. tg_mov_ext0 (x 0)),
     inst 0x2D00 [At 8 0] (\<lambda>x. tg_mov_ext1 (x 0)),
     inst 0x3900 [At 8 0] (\<lambda>x. tg_mov_ext2 (x 0)),
     inst 0x3D00 [At 8 0] (\<lambda>x. tg_mov_ext3 (x 0)),
     inst 0x2300 [At 8 0, At 3 10] (\<lambda>x. tg_mov_imm8s_rn_old (x 0) (x 1)),
     inst 0x0500 [At 8 0] (\<lambda>x. tg_mov_sv_imm8s (x 0)),
     inst 0x2100 [At 8 0, At 1 12] (\<lambda>x. tg_mov_imm8_axl (x 0) (x 1)),
     inst 0xD498 [At 16 16, At 1 8] (\<lambda>x. tg_mov_mem_r7_imm16_ax (x 0) (x 1)),
     inst 0xD880 [At 7 0, At 1 8] (\<lambda>x. tg_mov_mem_r7_imm7s_ax (x 0) (x 1)),
     inst 0x98C0 [At 3 0, At 2 3, At 1 8] (\<lambda>x. tg_mov_rn_bx (x 0) (x 1) (x 2)),
     inst 0x1C00 [At 3 0, At 2 3, At 5 5] (\<lambda>x. tg_mov_rn_register (x 0) (x 1) (x 2)),
     inst 0x47E0 [At 5 0] (\<lambda>x. tg_mov_memsp_to (x 0)),
     inst 0x47C0 [At 5 0] (\<lambda>x. tg_mov_mixp_to_register (x 0)),
     inst 0x2000 [At 3 9, At 8 0] (\<lambda>x. tg_mov_rn_old_mem_imm8 (x 0) (x 1)),
     inst 0x4FC0 [At 5 0] (\<lambda>x. tg_mov_icr_register (x 0)),
     inst 0x5E80 [At 5 0] (\<lambda>x. tg_mov_mixp_register (x 0)),
     except_const 5 5 25 (except_const 5 5 24 (inst 0x1800 [At 5 5, At 3 0, At 2 3]
       (\<lambda>x. tg_mov_register_rn (x 0) (x 1) (x 2)))),
     inst 0x5EC0 [At 5 0, At 1 5] (\<lambda>x. tg_mov_register_bx (x 0) (x 1)),
     except_const 5 0 25 (except_const 5 0 24 (inst 0x5800 [At 5 0, At 5 5]
       (\<lambda>x. tg_mov_register_register (x 0) (x 1)))),
     inst 0xD490 [At 2 5] (\<lambda>x. tg_mov_repc_to_ab (x 0)),
     inst 0x7D00 [At 8 0] (\<lambda>x. tg_mov_sv_to (x 0)),
     inst 0xD493 [At 2 5] (\<lambda>x. tg_mov_x0_to (x 0)),
     inst 0x49C1 [At 2 4] (\<lambda>x. tg_mov_x1_to (x 0)),
     inst 0xD299 [At 2 10] (\<lambda>x. tg_mov_y1_to (x 0)),
     inst 0x0008 [At 16 16, At 3 0] (\<lambda>x. tg_mov_imm16_ar_arp (x 0) (x 1)),
     inst 0x0023 [At 16 16] (\<lambda>x. tg_mov_r6_imm16 (x 0)),
     inst 0x0001 [At 16 16] (\<lambda>x. tg_mov_repc_imm16 (x 0)),
     inst 0x8971 [At 16 16] (\<lambda>x. tg_mov_stepi0_imm16 (x 0)),
     inst 0x8979 [At 16 16] (\<lambda>x. tg_mov_stepj0_imm16 (x 0)),
     inst 0x0030 [At 16 16, At 3 0] (\<lambda>x. tg_mov_imm16_stt_mod (x 0) (x 1)),
     inst 0x5DD0 [At 4 0] (\<lambda>x. tg_mov_prpage_imm4 (x 0))]"

definition tg_mov_status_table :: "tg matcher list" where
  "tg_mov_status_table = [
     inst 0x5F80 [At 2 0, At 2 3, At 1 2, At 2 5] (\<lambda>x. tg_movd (x 0) (x 1) (x 2) (x 3)),
     inst 0x0040 [At 1 5, At 5 0] (\<lambda>x. tg_movp_axl (x 0) (x 1)),
     inst 0x0D40 [At 1 5, At 5 0] (\<lambda>x. tg_movp_ax (x 0) (x 1)),
     inst 0x0600 [At 3 0, At 2 3, At 2 5, At 2 7] (\<lambda>x. tg_movp_rn (x 0) (x 1) (x 2) (x 3)),
     inst 0xD499 [At 1 8] (\<lambda>x. tg_movpdw (x 0)),
     inst 0xD49B [] (\<lambda>x. tg_mov_a0h_stepi0),
     inst 0xD59B [] (\<lambda>x. tg_mov_a0h_stepj0),
     inst 0xD482 [] (\<lambda>x. tg_mov_stepi0_a0h),
     inst 0xD582 [] (\<lambda>x. tg_mov_stepj0_a0h),
     inst 0x9164 [At 2 0] (\<lambda>x. tg_mov_prpage_abl (x 0)),
     inst 0x9064 [At 2 0] (\<lambda>x. tg_mov_repc_abl (x 0)),
     inst 0x9540 [At 2 3, At 3 0] (\<lambda>x. tg_mov_abl_ar_arp (x 0) (x 1)),
     inst 0x9C60 [At 2 3, At 3 0] (\<lambda>x. tg_mov_abl_stt_mod (x 0) (x 1)),
     inst 0x5EB0 [At 2 0] (\<lambda>x. tg_mov_prpage_to_abl (x 0)),
     inst 0xD2D9 [At 2 10] (\<lambda>x. tg_mov_repc_to_abl (x 0)),
     inst 0x9560 [At 3 0, At 2 3] (\<lambda>x. tg_mov_ar_arp_abl (x 0) (x 1)),
     inst 0xD2F8 [At 3 0, At 2 10] (\<lambda>x. tg_mov_stt_mod_abl (x 0) (x 1)),
     inst 0xD7D0 [At 1 1, At 1 0] (\<lambda>x. tg_mov_repc_to_ar_rn1 (x 0) (x 1)),
     inst 0xD488 [At 3 0, At 1 8, At 1 5] (\<lambda>x. tg_mov_ar_arp_ar_rn1 (x 0) (x 1) (x 2)),
     inst 0x49A0 [At 3 0, At 1 4, At 1 3] (\<lambda>x. tg_mov_stt_mod_ar_rn1 (x 0) (x 1) (x 2)),
     inst 0xD7D4 [At 1 1, At 1 0] (\<lambda>x. tg_mov_repc_ar_rn1 (x 0) (x 1)),
     inst 0x8062 [At 1 4, At 1 3, At 3 8] (\<lambda>x. tg_mov_ar_rn1_ar_arp (x 0) (x 1) (x 2)),
     inst 0x8063 [At 1 4, At 1 3, At 3 8] (\<lambda>x. tg_mov_ar_rn1_stt_mod (x 0) (x 1) (x 2)),
     inst 0xD3C8 [At 16 16, Unused 0, Unused 1, Unused 2]
       (\<lambda>x. tg_mov_repc_to_mem_r7_imm16 (x 0)),
     inst 0x5F50 [At 4 0, At 16 16] (\<lambda>x. tg_mov_ar_arp_stt_mod_mem_r7_imm16 (x 0) (x 1)),
     inst 0xD2DC [At 16 16, Unused 0, Unused 1, Unused 10]
       (\<lambda>x. tg_mov_repc_mem_r7_imm16 (x 0)),
     inst 0x4D90 [At 16 16, At 4 0] (\<lambda>x. tg_mov_mem_r7_imm16_ar_arp_stt_mod (x 0) (x 1)),
     inst 0x886B [At 1 8] (\<lambda>x. tg_mov_pc_ax (x 0)),
     inst 0x8863 [At 1 8] (\<lambda>x. tg_mov_pc_bx (x 0)),
     inst 0x8A73 [At 1 3] (\<lambda>x. tg_mov_mixp_to_bx (x 0)),
     inst 0x4381 [] (\<lambda>x. tg_mov_mixp_r6),
     inst 0x4382 [At 1 0] (\<lambda>x. tg_mov_p0h_to_bx (x 0)),
     inst 0xD3C2 [] (\<lambda>x. tg_mov_p0h_r6),
     inst 0x4B60 [At 5 0] (\<lambda>x. tg_mov_p0h_to_register (x 0)),
     inst 0x8FD4 [At 2 0] (\<lambda>x. tg_mov_p0 (x 0)),
     inst 0x8FD8 [At 2 0] (\<lambda>x. tg_mov_p1_to (x 0)),
     inst 0x88D0 [At 1 1, At 2 8, At 2 2] (\<lambda>x. tg_mov2_px_ar (x 0) (x 1) (x 2)),
     inst 0x88D1 [At 1 1, At 2 8, At 2 2] (\<lambda>x. tg_mov2s (x 0) (x 1) (x 2)),
     inst 0xD292 [At 2 10, At 2 5, At 1 0] (\<lambda>x. tg_mov2_ar_px (x 0) (x 1) (x 2)),
     inst 0x4DC0 [At 2 4, At 2 2, At 2 0] (\<lambda>x. tg_mova_ab_ar (x 0) (x 1) (x 2)),
     inst 0x4BC0 [At 2 2, At 2 0, At 2 4] (\<lambda>x. tg_mova_ar_ab (x 0) (x 1) (x 2)),
     inst 0xD481 [At 1 8] (\<lambda>x. tg_mov_r6_to_bx (x 0)),
     inst 0x43C1 [] (\<lambda>x. tg_mov_r6_mixp),
     inst 0x5F00 [At 5 0] (\<lambda>x. tg_mov_r6_to_register (x 0)),
     inst 0x5F60 [At 5 0] (\<lambda>x. tg_mov_r6_register (x 0)),
     inst 0xD29C [Unused 0, Unused 1, Unused 10] (\<lambda>x. tg_mov_memsp_r6),
     inst 0x1B00 [At 3 0, At 2 3] (\<lambda>x. tg_mov_r6_to_rn (x 0) (x 1)),
     inst 0x1B20 [At 3 0, At 2 3] (\<lambda>x. tg_mov_r6_rn (x 0) (x 1)),
     inst 0x6300 [At 8 0, At 2 11] (\<lambda>x. tg_movs_mem_imm8 (x 0) (x 1)),
     inst 0x0180 [At 3 0, At 2 3, At 2 5] (\<lambda>x. tg_movs_rn (x 0) (x 1) (x 2)),
     inst 0x0100 [At 5 0, At 2 5] (\<lambda>x. tg_movs_register (x 0) (x 1)),
     inst 0x5F42 [At 1 0] (\<lambda>x. tg_movs_r6_to (x 0)),
     inst 0x4080 [At 3 9, At 2 5, At 5 0] (\<lambda>x. tg_movsi (x 0) (x 1) (x 2))]"

definition tg_mov2_table :: "tg matcher list" where
  "tg_mov2_table = [
     inst 0x4390 [At 1 6, At 2 2, At 2 0] (\<lambda>x. tg_mov2_axh_m_y0_m (x 0) (x 1) (x 2)),
     inst 0x43A0 [At 2 3, At 1 2, At 1 0, At 1 1] (\<lambda>x. tg_mov2_ax_mij (x 0) (x 1) (x 2) (x 3)),
     inst 0x43E0 [At 2 3, At 1 2, At 1 0, At 1 1] (\<lambda>x. tg_mov2_ax_mji (x 0) (x 1) (x 2) (x 3)),
     inst 0x80C4 [At 1 9, At 1 0, At 1 8, At 2 10]
       (\<lambda>x. tg_mov2_mij_ax (x 0) (x 1) (x 2) (x 3)),
     inst 0xD4C0 [At 1 5, At 1 0, At 1 1, At 2 2] (\<lambda>x. tg_mov2_mji_ax (x 0) (x 1) (x 2) (x 3)),
     inst 0x9D40 [At 2 4, At 2 2, At 1 1, At 1 0] (\<lambda>x. tg_mov2_abh_m (x 0) (x 1) (x 2) (x 3)),
     inst 0x8C60 [At 1 4, At 2 8, At 2 0, At 2 2]
       (\<lambda>x. tg_exchange_iaj (x 0) (x 1) (x 2) (x 3)),
     inst 0x7F80 [At 1 6, At 2 4, At 2 0, At 2 2]
       (\<lambda>x. tg_exchange_riaj (x 0) (x 1) (x 2) (x 3)),
     inst 0x4900 [At 1 6, At 2 4, At 2 0, At 2 2]
       (\<lambda>x. tg_exchange_jai (x 0) (x 1) (x 2) (x 3)),
     inst 0x4800 [At 1 6, At 2 4, At 2 0, At 2 2]
       (\<lambda>x. tg_exchange_rjai (x 0) (x 1) (x 2) (x 3)),
     inst 0x8864 [At 2 3, At 2 0, At 2 8] (\<lambda>x. tg_movr_ar (x 0) (x 1) (x 2)),
     inst 0x9CE0 [At 3 0, At 2 3, At 1 8] (\<lambda>x. tg_movr_rn (x 0) (x 1) (x 2)),
     inst 0x9CC0 [At 5 0, At 1 8] (\<lambda>x. tg_movr_register (x 0) (x 1)),
     inst 0x5DF4 [At 1 1, At 1 0] (\<lambda>x. tg_movr_bx (x 0) (x 1)),
     inst 0x8961 [At 1 3] (\<lambda>x. tg_movr_r6_to (x 0)),
     inst 0x49C0 [At 1 5, At 1 4] (\<lambda>x. tg_lim (x 0) (x 1))]"

definition tg_viterbi_table :: "tg matcher list" where
  "tg_viterbi_table = [
     inst 0x5F45 [] (\<lambda>x. tg_vtrclr0),
     inst 0x5F46 [] (\<lambda>x. tg_vtrclr1),
     inst 0x5F47 [] (\<lambda>x. tg_vtrclr),
     inst 0xD29A [At 1 0] (\<lambda>x. tg_vtrmov0 (x 0)),
     inst 0xD69A [At 1 0] (\<lambda>x. tg_vtrmov1 (x 0)),
     inst 0xD383 [At 1 4] (\<lambda>x. tg_vtrmov (x 0)),
     inst 0xD781 [] (\<lambda>x. tg_vtrshr_instr)]"

definition tg_minmax_table :: "tg matcher list" where
  "tg_minmax_table = [
     inst 0x5DFE [] (\<lambda>x. tg_clrp0),
     inst 0x5DFD [] (\<lambda>x. tg_clrp1),
     inst 0x5DFF [] (\<lambda>x. tg_clrp),
     inst 0x8460 [At 1 8, At 2 3] (\<lambda>x. tg_max_ge (x 0) (x 1)),
     inst 0x8660 [At 1 8, At 2 3] (\<lambda>x. tg_max_gt (x 0) (x 1)),
     inst 0x8860 [At 1 8, At 2 3] (\<lambda>x. tg_min_le (x 0) (x 1)),
     inst 0x8A60 [At 1 8, At 2 3] (\<lambda>x. tg_min_lt (x 0) (x 1)),
     inst 0x8060 [At 1 8, At 2 3] (\<lambda>x. tg_max_ge_r0 (x 0) (x 1)),
     inst 0x8260 [At 1 8, At 2 3] (\<lambda>x. tg_max_gt_r0 (x 0) (x 1)),
     inst 0x47A0 [At 1 3, At 2 0] (\<lambda>x. tg_min_le_r0 (x 0) (x 1)),
     inst 0x47A4 [At 1 3, At 2 0] (\<lambda>x. tg_min_lt_r0 (x 0) (x 1)),
     inst 0x0E00 [At 8 0, At 1 8] (\<lambda>x. tg_divs (x 0) (x 1)),
     inst 0xD790 [At 2 2, At 2 0] (\<lambda>x. tg_sqr_sqr_add3_ab (x 0) (x 1)),
     inst 0x4B00 [At 2 4, At 2 2, At 2 0] (\<lambda>x. tg_sqr_sqr_add3_ar (x 0) (x 1) (x 2)),
     inst 0x49C4 [At 2 4, At 2 0] (\<lambda>x. tg_sqr_mpysu_add3a (x 0) (x 1))]"

definition tg_cmp_table :: "tg matcher list" where
  "tg_cmp_table = [
     inst 0x4D8C [At 1 1, At 1 0] (\<lambda>x. tg_cmp_ax_bx (x 0) (x 1)),
     inst 0xD483 [] (\<lambda>x. tg_cmp_b0_b1),
     inst 0xD583 [] (\<lambda>x. tg_cmp_b1_b0),
     inst 0xDA9A [At 1 10, At 1 0] (\<lambda>x. tg_cmp_bx_ax (x 0) (x 1)),
     inst 0x8B63 [At 1 4] (\<lambda>x. tg_cmp_p1_to (x 0)),
     inst 0x5E21 [At 1 8] (\<lambda>x. tg_max2_vtr_ax (x 0)),
     inst 0x43C2 [At 1 0] (\<lambda>x. tg_min2_vtr_ax (x 0)),
     inst 0xD784 [At 1 1, At 1 0] (\<lambda>x. tg_max2_vtr_ax_bx (x 0) (x 1)),
     inst 0xD4BA [At 1 8, At 1 0] (\<lambda>x. tg_min2_vtr_ax_bx (x 0) (x 1)),
     inst 0x4A40 [At 1 3, At 1 4, At 1 1, At 1 0]
       (\<lambda>x. tg_max2_vtr_movl_ax_bx (x 0) (x 1) (x 2) (x 3)),
     inst 0x4A44 [At 1 3, At 1 4, At 1 1, At 1 0]
       (\<lambda>x. tg_max2_vtr_movh_ax_bx (x 0) (x 1) (x 2) (x 3)),
     inst 0x4A60 [At 1 4, At 1 3, At 1 1, At 1 0]
       (\<lambda>x. tg_max2_vtr_movl_bx_ax (x 0) (x 1) (x 2) (x 3)),
     inst 0x4A64 [At 1 4, At 1 3, At 1 1, At 1 0]
       (\<lambda>x. tg_max2_vtr_movh_bx_ax (x 0) (x 1) (x 2) (x 3)),
     inst 0x4A00 [At 1 3, At 1 4, At 1 1, At 1 0]
       (\<lambda>x. tg_min2_vtr_movl_ax_bx (x 0) (x 1) (x 2) (x 3)),
     inst 0x4A04 [At 1 3, At 1 4, At 1 1, At 1 0]
       (\<lambda>x. tg_min2_vtr_movh_ax_bx (x 0) (x 1) (x 2) (x 3)),
     inst 0x4A20 [At 1 4, At 1 3, At 1 1, At 1 0]
       (\<lambda>x. tg_min2_vtr_movl_bx_ax (x 0) (x 1) (x 2) (x 3)),
     inst 0x4A24 [At 1 4, At 1 3, At 1 1, At 1 0]
       (\<lambda>x. tg_min2_vtr_movh_bx_ax (x 0) (x 1) (x 2) (x 3)),
     inst 0xD590 [At 1 6, At 1 5, At 1 2, At 1 0, At 1 1]
       (\<lambda>x. tg_max2_vtr_movij (x 0) (x 1) (x 2) (x 3) (x 4)),
     inst 0x45A0 [At 1 4, At 1 3, At 1 2, At 1 0, At 1 1]
       (\<lambda>x. tg_max2_vtr_movji (x 0) (x 1) (x 2) (x 3) (x 4)),
     inst 0xD2B8 [At 1 11, At 1 10, At 1 2, At 1 0, At 1 1]
       (\<lambda>x. tg_min2_vtr_movij (x 0) (x 1) (x 2) (x 3) (x 4)),
     inst 0x45E0 [At 1 4, At 1 3, At 1 2, At 1 0, At 1 1]
       (\<lambda>x. tg_min2_vtr_movji (x 0) (x 1) (x 2) (x 3) (x 4))]"

definition tg_cbs_table :: "tg matcher list" where
  "tg_cbs_table = [
     inst 0x4B40 [At 1 3, At 1 2, At 1 0]
       (\<lambda>x. tg_mov_sv_app (x 0) (ar_index 0 (x 1)) (x 2) Sum_Sv True False False False),
     inst 0x9960 [At 1 4, At 1 3, At 1 2]
       (\<lambda>x. tg_mov_sv_app (x 0) (ar_index 2 (x 1)) (x 2) Sum_Sv True False False False),
     inst 0x4B42 [At 1 3, At 1 2, At 1 0]
       (\<lambda>x. tg_mov_sv_app (x 0) (ar_index 0 (x 1)) (x 2) Sum_SvRnd True False False False),
     inst 0x99E0 [At 1 4, At 1 3, At 1 2]
       (\<lambda>x. tg_mov_sv_app (x 0) (ar_index 2 (x 1)) (x 2) Sum_SvRnd True False False False),
     inst 0x5F4C [At 1 1, At 1 0, Const 0]
       (\<lambda>x. tg_mov_sv_app (x 0) (ar_index 0 (x 1)) (x 2) Sum_Sv True False True False),
     inst 0x8873 [At 1 8, At 1 3, Const 1]
       (\<lambda>x. tg_mov_sv_app (x 0) (ar_index 0 (x 1)) (x 2) Sum_Sv True False True False),
     inst 0x9860 [At 1 4, At 1 3, At 1 2]
       (\<lambda>x. tg_mov_sv_app (x 0) (ar_index 2 (x 1)) (x 2) Sum_Sv True False True False),
     inst 0xDE9C [At 1 1, At 1 0, Const 0]
       (\<lambda>x. tg_mov_sv_app (x 0) (ar_index 0 (x 1)) (x 2) Sum_SvRnd True False True False),
     inst 0xD4B4 [At 1 1, At 1 0, Const 1]
       (\<lambda>x. tg_mov_sv_app (x 0) (ar_index 0 (x 1)) (x 2) Sum_SvRnd True False True False),
     inst 0x98E0 [At 1 4, At 1 3, At 1 2]
       (\<lambda>x. tg_mov_sv_app (x 0) (ar_index 2 (x 1)) (x 2) Sum_SvRnd True False True False),
     inst 0x9068 [At 1 0, At 1 8] (\<lambda>x. tg_cbs_axh (x 0) (x 1)),
     inst 0xD49E [At 1 8, At 1 5, At 1 0] (\<lambda>x. tg_cbs_axh_bxh (x 0) (x 1) (x 2)),
     inst 0xD5C0 [At 1 2, At 1 0, At 1 1, At 1 3] (\<lambda>x. tg_cbs_arp (x 0) (x 1) (x 2) (x 3))]"

definition tg_mma_table :: "tg matcher list" where
  "tg_mma_table = [
     inst 0x4D88 [At 1 1]
       (\<lambda>x. tg_mma_swapped (Ax (x 0)) True True True True Sum_Zero False False True False),
     inst 0xD49D [At 1 5]
       (\<lambda>x. tg_mma_swapped (Bx (x 0)) True True True True Sum_Zero False False True False),
     inst 0x5E24 [At 2 0]
       (\<lambda>x. tg_mma_swapped (Ab (x 0)) True True True True Sum_Zero False False False False),
     inst 0x8061 [At 2 8]
       (\<lambda>x. tg_mma_swapped (Ab (x 0)) True True True True Sum_Acc False False False False),
     inst 0x8071 [At 2 8]
       (\<lambda>x. tg_mma_swapped (Ab (x 0)) True True True True Sum_Acc False False False True),
     inst 0x8461 [At 2 8]
       (\<lambda>x. tg_mma_swapped (Ab (x 0)) True True True True Sum_Acc True False True False),
     inst 0x8471 [At 2 8]
       (\<lambda>x. tg_mma_swapped (Ab (x 0)) True True True True Sum_Acc True False True True),
     inst 0xD484 [At 2 0]
       (\<lambda>x. tg_mma_swapped (Ab (x 0)) True True True True Sum_Acc False True False True),
     inst 0xD4A0 [At 2 0]
       (\<lambda>x. tg_mma_swapped (Ab (x 0)) True True True True Sum_Acc False False True False),
     inst 0x4D89 [At 1 1]
       (\<lambda>x. tg_mma_swapped (Ax (x 0)) True True True False Sum_Zero False False True False),
     inst 0xD59D [At 1 5]
       (\<lambda>x. tg_mma_swapped (Bx (x 0)) True True True False Sum_Zero False False True False),
     inst 0x5F24 [At 2 0]
       (\<lambda>x. tg_mma_swapped (Ab (x 0)) True True True False Sum_Zero False False False False),
     inst 0x8069 [At 2 8]
       (\<lambda>x. tg_mma_swapped (Ab (x 0)) True True True False Sum_Acc False False False False),
     inst 0x8079 [At 2 8]
       (\<lambda>x. tg_mma_swapped (Ab (x 0)) True True True False Sum_Acc False False False True),
     inst 0x8469 [At 2 8]
       (\<lambda>x. tg_mma_swapped (Ab (x 0)) True True True False Sum_Acc True False True False),
     inst 0x8479 [At 2 8]
       (\<lambda>x. tg_mma_swapped (Ab (x 0)) True True True False Sum_Acc True False True True),
     inst 0xD584 [At 2 0]
       (\<lambda>x. tg_mma_swapped (Ab (x 0)) True True True False Sum_Acc False True False True),
     inst 0xD5A0 [At 2 0]
       (\<lambda>x. tg_mma_swapped (Ab (x 0)) True True True False Sum_Acc False False True False)]"

definition tg_mma_mov_table :: "tg matcher list" where
  "tg_mma_mov_table = [
     inst 0xCA00 [At 1 5, At 1 3, At 1 4, At 2 6]
       (\<lambda>x. tg_mma_arp (x 0) (x 1) (x 2) False False (Ab (x 3)) False True False True Sum_Acc True False True True),
     inst 0xCA01 [At 1 5, At 1 3, At 1 4, At 2 6]
       (\<lambda>x. tg_mma_arp (x 0) (x 1) (x 2) False False (Ab (x 3)) False True True False Sum_Acc True False True True),
     inst 0xCA02 [At 1 5, At 1 3, At 1 4, At 2 6]
       (\<lambda>x. tg_mma_arp (x 0) (x 1) (x 2) False False (Ab (x 3)) False True False True Sum_Acc True True True True),
     inst 0xCA03 [At 1 5, At 1 3, At 1 4, At 2 6]
       (\<lambda>x. tg_mma_arp (x 0) (x 1) (x 2) False False (Ab (x 3)) False True True False Sum_Acc True True True True),
     inst 0xCA04 [At 1 5, At 1 3, At 1 4, At 2 6]
       (\<lambda>x. tg_mma_arp (x 0) (x 1) (x 2) False False (Ab (x 3)) False True False True Sum_Acc False False False True),
     inst 0xCA05 [At 1 5, At 1 3, At 1 4, At 2 6]
       (\<lambda>x. tg_mma_arp (x 0) (x 1) (x 2) False False (Ab (x 3)) False True True False Sum_Acc False False False True),
     inst 0xCA06 [At 1 5, At 1 3, At 1 4, At 2 6]
       (\<lambda>x. tg_mma_arp (x 0) (x 1) (x 2) False False (Ab (x 3)) False True False True Sum_Acc False True False True),
     inst 0xCA07 [At 1 5, At 1 3, At 1 4, At 2 6]
       (\<lambda>x. tg_mma_arp (x 0) (x 1) (x 2) False False (Ab (x 3)) False True True False Sum_Acc False True False True),
     inst 0xCB00 [At 1 5, At 1 3, At 1 4, At 2 6]
       (\<lambda>x. tg_mma_arp (x 0) (x 1) (x 2) False False (Ab (x 3)) True True False True Sum_Acc True False True False),
     inst 0xCB01 [At 1 5, At 1 3, At 1 4, At 2 6]
       (\<lambda>x. tg_mma_arp (x 0) (x 1) (x 2) False False (Ab (x 3)) True True True False Sum_Acc True False True False),
     inst 0xCB02 [At 1 5, At 1 3, At 1 4, At 2 6]
       (\<lambda>x. tg_mma_arp (x 0) (x 1) (x 2) False False (Ab (x 3)) True True False True Sum_Acc True False True True),
     inst 0xCB03 [At 1 5, At 1 3, At 1 4, At 2 6]
       (\<lambda>x. tg_mma_arp (x 0) (x 1) (x 2) False False (Ab (x 3)) True True True False Sum_Acc True False True True),
     inst 0xCB04 [At 1 5, At 1 3, At 1 4, At 2 6]
       (\<lambda>x. tg_mma_arp (x 0) (x 1) (x 2) False False (Ab (x 3)) True True False True Sum_Acc False False False False),
     inst 0xCB05 [At 1 5, At 1 3, At 1 4, At 2 6]
       (\<lambda>x. tg_mma_arp (x 0) (x 1) (x 2) False False (Ab (x 3)) True True True False Sum_Acc False False False False),
     inst 0xCB06 [At 1 5, At 1 3, At 1 4, At 2 6]
       (\<lambda>x. tg_mma_arp (x 0) (x 1) (x 2) False False (Ab (x 3)) True True False True Sum_Acc False False False True),
     inst 0xCB07 [At 1 5, At 1 3, At 1 4, At 2 6]
       (\<lambda>x. tg_mma_arp (x 0) (x 1) (x 2) False False (Ab (x 3)) True True True False Sum_Acc False False False True),
     inst 0x0D30 [At 1 3, At 1 1, At 1 2, At 1 0]
       (\<lambda>x. tg_mma_arp (x 0) (x 1) (x 2) False True (Ax (x 3)) True True True False Sum_Acc False False False True),
     inst 0x0D20 [At 1 3, At 1 1, At 1 2, At 1 0]
       (\<lambda>x. tg_mma_arp (x 0) (x 1) (x 2) True False (Ax (x 3)) True True True False Sum_Acc False False False True),
     inst 0x4B50 [At 1 3, At 1 1, At 1 2, At 1 0]
       (\<lambda>x. tg_mma_arp (x 0) (x 1) (x 2) True True (Ax (x 3)) True True True False Sum_Acc False False False True),
     inst 0x9861 [At 1 4, At 1 2, At 1 3, At 1 8]
       (\<lambda>x. tg_mma_arp (x 0) (x 1) (x 2) False True (Ax (x 3)) True True True True Sum_Acc False False False False),
     inst 0x9862 [At 1 4, At 1 2, At 1 3, At 1 8]
       (\<lambda>x. tg_mma_arp (x 0) (x 1) (x 2) True False (Ax (x 3)) True True True True Sum_Acc False False False False),
     inst 0x9863 [At 1 4, At 1 2, At 1 3, At 1 8]
       (\<lambda>x. tg_mma_arp (x 0) (x 1) (x 2) True True (Ax (x 3)) True True True True Sum_Acc False False False False),
     inst 0x98E1 [At 1 4, At 1 2, At 1 3, At 1 8]
       (\<lambda>x. tg_mma_arp (x 0) (x 1) (x 2) False True (Ax (x 3)) True True True True Sum_Acc False False False True),
     inst 0x98E2 [At 1 4, At 1 2, At 1 3, At 1 8]
       (\<lambda>x. tg_mma_arp (x 0) (x 1) (x 2) True False (Ax (x 3)) True True True True Sum_Acc False False False True),
     inst 0x98E3 [At 1 4, At 1 2, At 1 3, At 1 8]
       (\<lambda>x. tg_mma_arp (x 0) (x 1) (x 2) True True (Ax (x 3)) True True True True Sum_Acc False False False True),
     inst 0x80C8 [At 1 2, At 1 0, At 1 1, At 2 10]
       (\<lambda>x. tg_mma_arp (x 0) (x 1) (x 2) False False (Ab (x 3)) True True True True Sum_Acc False False True False),
     inst 0x81C8 [At 1 2, At 1 0, At 1 1, At 2 10]
       (\<lambda>x. tg_mma_arp (x 0) (x 1) (x 2) False False (Ab (x 3)) True True True True Sum_Acc False False True True),
     inst 0x82C8 [At 1 2, At 1 0, At 1 1, At 2 10]
       (\<lambda>x. tg_mma_arp (x 0) (x 1) (x 2) False False (Ab (x 3)) True True True True Sum_Zero False False False False),
     inst 0x83C8 [At 1 2, At 1 0, At 1 1, At 2 10]
       (\<lambda>x. tg_mma_arp (x 0) (x 1) (x 2) False False (Ab (x 3)) True True True True Sum_Zero False False False True),
     inst 0x80C2 [At 1 0, At 1 8, At 1 9, At 2 10]
       (\<lambda>x. tg_mma_arp (x 0) (x 1) (x 2) False False (Ab (x 3)) True True True True Sum_Acc False False False True),
     inst 0x49C8 [At 1 2, At 1 0, At 1 1, At 2 4]
       (\<lambda>x. tg_mma_arp (x 0) (x 1) (x 2) False False (Ab (x 3)) True True True True Sum_Acc True False True True),
     inst 0x00C0 [At 1 3, At 1 1, At 1 2, At 2 4]
       (\<lambda>x. tg_mma_arp (x 0) (x 1) (x 2) False False (Ab (x 3)) True True True True Sum_Zero False False True False),
     inst 0x00C1 [At 1 3, At 1 1, At 1 2, At 2 4]
       (\<lambda>x. tg_mma_arp (x 0) (x 1) (x 2) False False (Ab (x 3)) True True True True Sum_Zero False False True True),
     inst 0xD7A0 [At 1 3, At 1 1, At 1 2, At 1 4]
       (\<lambda>x. tg_mma_arp (x 0) (x 1) (x 2) False False (Ax (x 3)) True True True True Sum_Sv False False False False),
     inst 0xD7A1 [At 1 3, At 1 1, At 1 2, At 1 4]
       (\<lambda>x. tg_mma_arp (x 0) (x 1) (x 2) False False (Ax (x 3)) True True True True Sum_SvRnd False False False False),
     inst 0xC800 [At 2 4, At 2 0, At 2 2, At 2 6]
       (\<lambda>x. tg_mma_arp (x 0) (x 1) (x 2) False False (Ab (x 3)) True True True True Sum_Acc False False False False),
     inst 0xC900 [At 2 4, At 2 0, At 2 2, At 2 6]
       (\<lambda>x. tg_mma_arp (x 0) (x 1) (x 2) False False (Ab (x 3)) True True True True Sum_Acc True False True False)]"

definition tg_addhp_table :: "tg matcher list" where
  "tg_addhp_table = [
     inst 0xD5E0 [At 1 1, At 1 0, At 1 3]
       (\<lambda>x. tg_mma_mx_xy (x 0) (x 1) (Ax (x 2)) True True True True Sum_Acc True False True False),
     inst 0xD5E4 [At 1 1, At 1 0, At 1 3]
       (\<lambda>x. tg_mma_mx_xy (x 0) (x 1) (Ax (x 2)) True True True True Sum_Acc False False False False),
     inst 0x8862 [At 1 4, At 1 3, At 1 8]
       (\<lambda>x. tg_mma_xy_mx (x 0) (x 1) (Ax (x 2)) True True True True Sum_Acc True False True False),
     inst 0x8A62 [At 1 4, At 1 3, At 1 8]
       (\<lambda>x. tg_mma_xy_mx (x 0) (x 1) (Ax (x 2)) True True True True Sum_Acc False False False False),
     inst 0x4DA0 [At 1 3, At 1 2, At 1 4]
       (\<lambda>x. tg_mma_my_my (x 0) (x 1) (Ax (x 2)) True True True False Sum_Acc True False True False),
     inst 0x4DA1 [At 1 3, At 1 2, At 1 4]
       (\<lambda>x. tg_mma_my_my (x 0) (x 1) (Ax (x 2)) True True True False Sum_Acc True False True True),
     inst 0x4DA2 [At 1 3, At 1 2, At 1 4]
       (\<lambda>x. tg_mma_my_my (x 0) (x 1) (Ax (x 2)) True True True False Sum_Acc False False False False),
     inst 0x4DA3 [At 1 3, At 1 2, At 1 4]
       (\<lambda>x. tg_mma_my_my (x 0) (x 1) (Ax (x 2)) True True True False Sum_Acc False False False True),
     inst 0x94E0 [At 1 4, At 1 3, At 1 8]
       (\<lambda>x. tg_mma_my_my (x 0) (x 1) (Ax (x 2)) True True True True Sum_Acc True False True False),
     inst 0x94E1 [At 1 4, At 1 3, At 1 8]
       (\<lambda>x. tg_mma_my_my (x 0) (x 1) (Ax (x 2)) True True False True Sum_Acc True False True False),
     inst 0x94E2 [At 1 4, At 1 3, At 1 8]
       (\<lambda>x. tg_mma_my_my (x 0) (x 1) (Ax (x 2)) True True True True Sum_Acc True False True True),
     inst 0x94E3 [At 1 4, At 1 3, At 1 8]
       (\<lambda>x. tg_mma_my_my (x 0) (x 1) (Ax (x 2)) True True False True Sum_Acc True False True True),
     inst 0x94E4 [At 1 4, At 1 3, At 1 8]
       (\<lambda>x. tg_mma_my_my (x 0) (x 1) (Ax (x 2)) True True True True Sum_Acc False False False False),
     inst 0x94E5 [At 1 4, At 1 3, At 1 8]
       (\<lambda>x. tg_mma_my_my (x 0) (x 1) (Ax (x 2)) True True False True Sum_Acc False False False False),
     inst 0x94E6 [At 1 4, At 1 3, At 1 8]
       (\<lambda>x. tg_mma_my_my (x 0) (x 1) (Ax (x 2)) True True True True Sum_Acc False False False True),
     inst 0x94E7 [At 1 4, At 1 3, At 1 8]
       (\<lambda>x. tg_mma_my_my (x 0) (x 1) (Ax (x 2)) True True False True Sum_Acc False False False True),
     inst 0x4FA0 [At 1 6, At 1 2, At 1 1, At 1 0, At 2 3]
       (\<lambda>x. tg_mma_mov_axh (x 0) (x 1) (x 2) (x 3) (Ab (x 4)) True True True True Sum_Acc False False False False),
     inst 0xD3A0 [At 1 6, At 1 2, At 1 1, At 1 0, At 2 3]
       (\<lambda>x. tg_mma_mov_axh (x 0) (x 1) (x 2) (x 3) (Ab (x 4)) True True True True Sum_Acc False False True False),
     inst 0x80D0 [At 1 9, At 1 8, At 1 3, At 1 2, At 1 10]
       (\<lambda>x. tg_mma_mov_axh (x 0) (x 1) (x 2) (x 3) (Ax (x 4)) True True True True Sum_Sv False False True False),
     inst 0x80D1 [At 1 9, At 1 8, At 1 3, At 1 2, At 1 10]
       (\<lambda>x. tg_mma_mov_axh (x 0) (x 1) (x 2) (x 3) (Ax (x 4)) True True True True Sum_SvRnd False False True False),
     inst 0x80D2 [At 1 9, At 1 8, At 1 3, At 1 2, At 1 10]
       (\<lambda>x. tg_mma_mov_axh (x 0) (x 1) (x 2) (x 3) (Ax (x 4)) True True True True Sum_Sv False False False False),
     inst 0x80D3 [At 1 9, At 1 8, At 1 3, At 1 2, At 1 10]
       (\<lambda>x. tg_mma_mov_axh (x 0) (x 1) (x 2) (x 3) (Ax (x 4)) True True True True Sum_SvRnd False False False False),
     inst 0x5818 [At 2 7, At 1 6, At 1 0]
       (\<lambda>x. tg_mma_mov_ar (x 0) (x 1) (Ax (x 2)) True True True True Sum_Sv False False True False),
     inst 0x5838 [At 2 7, At 1 6, At 1 0]
       (\<lambda>x. tg_mma_mov_ar (x 0) (x 1) (Ax (x 2)) True True True True Sum_SvRnd False False True False),
     inst 0x90E0 [At 2 2, At 2 0, At 1 4, At 1 8] (\<lambda>x. tg_addhp (x 0) (x 1) (x 2) (x 3))]"

definition tg_table :: "tg matcher list" where
  "tg_table = concat [
     tg_misc_table, tg_alm_table, tg_alu_table, tg_or_table, tg_alb_table,
     tg_add_table, tg_mul_table, tg_moda_table, tg_bkrep_table, tg_bank_table,
     tg_branch_table, tg_load_table, tg_stack_table, tg_shift_table, tg_bit_test_table,
     tg_modr_table, tg_mov_table, tg_mov_status_table, tg_mov2_table, tg_viterbi_table,
     tg_minmax_table, tg_cmp_table, tg_cbs_table, tg_mma_table, tg_mma_mov_table,
     tg_addhp_table]"

section \<open>The configuration of an opcode\<close>

definition tg_undefined :: "u16 \<Rightarrow> tg" where
  "tg_undefined opcode = Inr disabled_config"

definition tg_decode :: "u16 \<Rightarrow> tg matcher result" where
  "tg_decode opcode = decode_in tg_undefined tg_table opcode"

definition test_config :: "u16 \<Rightarrow> config result" where
  "test_config opcode = rbind (tg_decode opcode) (\<lambda>m. call_matcher (Inl Abort) m opcode 0)"

section \<open>Writing the cases\<close>

text \<open>
  \<open>opened\<close> is whether the file could be opened, and \<open>writable n\<close> whether the write after n records
  succeeds. The value is what the function returns, with the records written.
\<close>

definition generate_case :: "'g uniform \<Rightarrow> config \<Rightarrow> u16 \<Rightarrow> ('g, test_case) step" where
  "generate_case uniform c opcode =
     sbind (generate_random_state uniform c) (\<lambda>before.
     sbind (case gc_expand c of
              Expand_None \<Rightarrow> sreturn 0
            | Expand_Any \<Rightarrow> random_bit16 uniform
            | Expand_Memory \<Rightarrow> random_address uniform TestSpaceX) (\<lambda>expand.
     sreturn (zero_case\<lparr>tc_before := before, tc_opcode := opcode, tc_expand := expand\<rparr>)))"

fun generate_cases ::
    "'g uniform \<Rightarrow> (nat \<Rightarrow> bool) \<Rightarrow> config \<Rightarrow> u16 \<Rightarrow> nat \<Rightarrow> test_case list \<Rightarrow> ('g, bool \<times> test_case list) step" where
  "generate_cases uniform writable c opcode 0 written = sreturn (True, written)"
| "generate_cases uniform writable c opcode (Suc n) written =
     sbind (generate_case uniform c opcode) (\<lambda>tc.
       if writable (length written) then generate_cases uniform writable c opcode n (written @ [tc])
       else sreturn (False, written))"

fun generate_opcodes ::
    "'g uniform \<Rightarrow> (nat \<Rightarrow> bool) \<Rightarrow> u16 list \<Rightarrow> test_case list \<Rightarrow> ('g, bool \<times> test_case list) step" where
  "generate_opcodes uniform writable [] written = sreturn (True, written)"
| "generate_opcodes uniform writable (opcode # opcodes) written =
     sbind (squery (\<lambda>_. test_config opcode)) (\<lambda>c.
       if \<not> gc_enable c then generate_opcodes uniform writable opcodes written
       else sbind (generate_cases uniform writable c opcode 4 written) (\<lambda>(ok, written').
         if ok then generate_opcodes uniform writable opcodes written' else sreturn (False, written')))"

definition generate_test_cases ::
    "'g uniform \<Rightarrow> bool \<Rightarrow> (nat \<Rightarrow> bool) \<Rightarrow> ('g, bool \<times> test_case list) step" where
  "generate_test_cases uniform opened writable =
     (if \<not> opened then sreturn (False, [])
      else generate_opcodes uniform writable (map of_nat [0..<0x10000]) [])"

text \<open>src/src/test_generator/main.cpp: the exit code, with the records written.\<close>

definition test_generator_main ::
    "'g uniform \<Rightarrow> nat \<Rightarrow> bool \<Rightarrow> (nat \<Rightarrow> bool) \<Rightarrow> ('g, int \<times> test_case list) step" where
  "test_generator_main uniform argc opened writable =
     (if argc < 2 then sreturn (- 1, [])
      else sbind (generate_test_cases uniform opened writable) (\<lambda>(ok, written).
        sreturn (if ok then 0 else - 2, written)))"

section \<open>The same table\<close>

lemmas tg_table_defs =
  tg_misc_table_def tg_alm_table_def tg_alu_table_def tg_or_table_def tg_alb_table_def
  tg_add_table_def tg_mul_table_def tg_moda_table_def tg_bkrep_table_def tg_bank_table_def
  tg_branch_table_def tg_load_table_def tg_stack_table_def tg_shift_table_def
  tg_bit_test_table_def tg_modr_table_def tg_mov_table_def tg_mov_status_table_def
  tg_mov2_table_def tg_viterbi_table_def tg_minmax_table_def tg_cmp_table_def tg_cbs_table_def
  tg_mma_table_def tg_mma_mov_table_def tg_addhp_table_def

lemma tg_same_heads: "map matcher_head tg_table = map matcher_head dsm_table"
  unfolding dsm_table_def tg_table_def dsm_table_defs tg_table_defs
  by (simp only: concat.simps append.simps list.map matcher_head_inst matcher_head_except)

section \<open>The configurations\<close>

text \<open>
  A handler gives a configuration of the right shape, and one that asks for a second word only
  where the pattern of the opcode has one.
\<close>

definition configures :: "bool \<Rightarrow> tg \<Rightarrow> bool" where
  "configures expanded t \<longleftrightarrow>
     (\<exists>c. t = Inr c \<and> config_shape c \<and> (expanded \<or> gc_expand c = Expand_None))"

definition matcher_configures :: "tg matcher \<Rightarrow> bool" where
  "matcher_configures m \<longleftrightarrow> (\<forall>opcode expansion. configures (mt_expanded m) (mt_fn m opcode expansion))"

lemma matcher_configures_inst:
  "(\<And>x. configures (list_ex operand_needs_expansion operands) (f x)) \<Longrightarrow> matcher_configures (inst expected operands f)"
  by (simp add: matcher_configures_def inst_def Let_def)

lemma matcher_configures_except: "matcher_configures m \<Longrightarrow> matcher_configures (except_const n pos v m)"
  by (simp add: matcher_configures_def except_const_def except_matcher_def)

lemma configures_Inr [simp]: "configures b (Inr c) \<longleftrightarrow> config_shape c \<and> (b \<or> gc_expand c = Expand_None)"
  by (simp add: configures_def)

lemma config_shapes [simp]:
  "config_shape any_config" "config_shape disabled_config" "config_shape (config_with_address r)"
  "config_shape (config_with_ar_address r)" "config_shape (config_with_arp_address r)"
  "config_shape (config_with_imm8 r)" "config_shape (config_with_mem_imm8 r)"
  "config_shape config_with_mem_r7_imm16" "config_shape (config_with_mem_r7_imm7s r)"
  "config_shape (with_any_expand c) \<longleftrightarrow> config_shape c" "config_shape (with_memory_expand c) \<longleftrightarrow> config_shape c"
  by (simp_all add: config_shape_def any_config_def disabled_config_def config_of_def config_with_address_def
      config_with_ar_address_def config_with_arp_address_def config_with_imm8_def config_with_mem_imm8_def
      config_with_mem_r7_imm16_def config_with_mem_r7_imm7s_def with_any_expand_def with_memory_expand_def)

lemma config_expands [simp]:
  "gc_expand any_config = Expand_None" "gc_expand disabled_config = Expand_None"
  "gc_expand (config_with_address r) = Expand_None" "gc_expand (config_with_ar_address r) = Expand_None"
  "gc_expand (config_with_arp_address r) = Expand_None" "gc_expand (config_with_imm8 r) = Expand_None"
  "gc_expand (config_with_mem_imm8 r) = Expand_None" "gc_expand config_with_mem_r7_imm16 = Expand_None"
  "gc_expand (config_with_mem_r7_imm7s r) = Expand_None"
  by (simp_all add: any_config_def disabled_config_def config_of_def config_with_address_def
      config_with_ar_address_def config_with_arp_address_def config_with_imm8_def config_with_mem_imm8_def
      config_with_mem_r7_imm16_def config_with_mem_r7_imm7s_def)

lemma table_configures: "list_all matcher_configures tg_table"
  unfolding tg_table_def tg_table_defs
  apply (simp only: concat.simps append.simps list.pred_inject simp_thms)
  apply (intro conjI matcher_configures_except matcher_configures_inst)
  apply (simp_all add: tg_defs Let_def split: reg_name.split)
  done

lemma tg_decode_agrees:
  obtains m m' where "dsm_decode w = Inr m" "tg_decode w = Inr m'"
    "matcher_head m' = matcher_head m" "matches m' w"
proof -
  have "list_all2 (\<lambda>m m'. matcher_head m = matcher_head m') tg_table dsm_table"
    by (rule map_eq_all2 [OF tg_same_heads])
  from decode_in_heads [OF this] have
    "rel_sum (=) (\<lambda>m m'. matcher_head m = matcher_head m') (tg_decode w) (dsm_decode w)"
    by (simp add: dsm_decode_def tg_decode_def)
  moreover obtain m where m: "dsm_decode w = Inr m" "matches m w"
    using dsm_decode_agrees [of w] matches_head by metis
  ultimately obtain m' where m': "tg_decode w = Inr m'" "matcher_head m' = matcher_head m"
    by (auto elim: rel_sum.cases)
  moreover have "matches m' w"
    using m(2) m'(2) matches_head by metis
  ultimately show thesis
    using that m(1) by blast
qed

lemma tg_matcher_configures: "tg_decode w = Inr m \<Longrightarrow> matcher_configures m"
proof -
  assume d: "tg_decode w = Inr m"
  show ?thesis
  proof (cases "dropWhile (\<lambda>m. \<not> matches m w) tg_table")
    case Nil
    with d have "m = all_matcher (\<lambda>opcode _. tg_undefined opcode)"
      unfolding tg_decode_def decode_in_def by simp
    then show ?thesis
      by (simp add: matcher_configures_def all_matcher_def tg_undefined_def)
  next
    case (Cons a ms)
    with d have "m = a"
      unfolding tg_decode_def decode_in_def by (simp split: if_splits)
    moreover have "a \<in> set tg_table"
      using set_dropWhileD [of a "\<lambda>m. \<not> matches m w" tg_table] Cons by simp
    ultimately show ?thesis
      using table_configures by (simp add: list_all_iff)
  qed
qed

lemma test_config_total:
  obtains c where "test_config w = Inr c" "config_shape c"
    "gc_expand c \<noteq> Expand_None \<Longrightarrow> need_expansion w = Inr True"
proof -
  obtain m m' where m: "dsm_decode w = Inr m" "tg_decode w = Inr m'" "matcher_head m' = matcher_head m" "matches m' w"
    by (rule tg_decode_agrees)
  obtain c where c: "mt_fn m' w 0 = Inr c" "config_shape c" "mt_expanded m' \<or> gc_expand c = Expand_None"
    using tg_matcher_configures [OF m(2)] unfolding matcher_configures_def configures_def by blast
  have "test_config w = Inr c"
    using m c(1) by (simp add: test_config_def call_matcher_def)
  moreover have "need_expansion w = Inr True" if "gc_expand c \<noteq> Expand_None"
    using that c(3) m(1, 3) by (simp add: need_expansion_def matcher_head_def)
  ultimately show thesis
    using that c(2) by blast
qed

section \<open>The file\<close>

definition generates :: "u16 \<Rightarrow> bool" where
  "generates opcode \<longleftrightarrow> (\<exists>c. test_config opcode = Inr c \<and> gc_enable c)"

text \<open>A case that suits the configuration of its opcode.\<close>

definition case_suits :: "test_case \<Rightarrow> bool" where
  "case_suits tc \<longleftrightarrow> case_shape tc \<and> (\<exists>c. test_config (tc_opcode tc) = Inr c \<and> gc_enable c \<and>
     config_shape c \<and> state_suits c (tc_before tc) \<and>
     (case gc_expand c of
        Expand_None \<Rightarrow> tc_expand tc = 0
      | Expand_Any \<Rightarrow> need_expansion (tc_opcode tc) = Inr True
      | Expand_Memory \<Rightarrow> need_expansion (tc_opcode tc) = Inr True \<and> in_space TestSpaceX (tc_expand tc)))"

lemma yields_case:
  assumes u: "uniform_ok uniform" and c: "test_config opcode = Inr c" "gc_enable c"
  shows "yields (\<lambda>tc. tc_opcode tc = opcode \<and> case_suits tc) (generate_case uniform c opcode)"
proof -
  have shape: "config_shape c" and second: "gc_expand c \<noteq> Expand_None \<Longrightarrow> need_expansion opcode = Inr True"
    using test_config_total [of opcode] c(1) by (metis Inr_inject)+
  have expand: "yields (\<lambda>v. case gc_expand c of Expand_None \<Rightarrow> v = 0 | Expand_Any \<Rightarrow> True | Expand_Memory \<Rightarrow> in_space TestSpaceX v)
      (case gc_expand c of Expand_None \<Rightarrow> sreturn 0 | Expand_Any \<Rightarrow> random_bit16 uniform
       | Expand_Memory \<Rightarrow> random_address uniform TestSpaceX)"
    using yields_bit16 [OF u] yields_address [OF u] by (simp add: yields_sreturn split: expand_config.split)
  show ?thesis
    unfolding generate_case_def
    by (intro yields_sbind [OF generated_state_suits [OF u shape]] yields_sbind [OF expand] yields_sreturn)
      (use zero_case_shape c shape second in \<open>auto simp: case_suits_def case_shape_def state_suits_def zero_case_def
         split: expand_config.splits\<close>)
qed

lemma yields_cases:
  assumes "uniform_ok uniform" and "test_config opcode = Inr c" "gc_enable c"
  shows "yields (\<lambda>(ok, out). ok \<and> (\<exists>new. out = written @ new \<and> map tc_opcode new = replicate n opcode \<and>
      (\<forall>tc \<in> set new. case_suits tc))) (generate_cases uniform (\<lambda>_. True) c opcode n written)"
proof (induction n arbitrary: written)
  case 0
  show ?case
    by simp
next
  case (Suc n)
  show ?case
    unfolding generate_cases.simps if_True
    by (rule yields_sbind [OF yields_case [OF assms]], rule yields_weaken [OF Suc.IH]) auto
qed

lemma yields_opcodes:
  assumes u: "uniform_ok uniform"
  shows "yields (\<lambda>(ok, out). ok \<and> (\<exists>new. out = written @ new \<and>
      map tc_opcode new = concat (map (replicate 4) (filter generates opcodes)) \<and>
      (\<forall>tc \<in> set new. case_suits tc))) (generate_opcodes uniform (\<lambda>_. True) opcodes written)"
proof (induction opcodes arbitrary: written)
  case Nil
  show ?case
    by simp
next
  case (Cons opcode opcodes)
  obtain c where c: "test_config opcode = Inr c"
    by (rule test_config_total)
  have q: "yields (\<lambda>c'. c' = c) (squery (\<lambda>_. test_config opcode))"
    by (simp add: yields_def squery_def c)
  show ?case
  proof (cases "gc_enable c")
    case False
    with c have "\<not> generates opcode"
      by (simp add: generates_def)
    with False Cons.IH show ?thesis
      unfolding generate_opcodes.simps by (intro yields_sbind [OF q]) simp
  next
    case True
    with c have g: "generates opcode"
      by (simp add: generates_def)
    have next_cases: "yields (\<lambda>(ok, out). ok \<and> (\<exists>new. out = written @ new \<and>
        map tc_opcode new = concat (map (replicate 4) (filter generates (opcode # opcodes))) \<and>
        (\<forall>tc \<in> set new. case_suits tc)))
      (generate_opcodes uniform (\<lambda>_. True) opcodes (written @ new0))"
      if "map tc_opcode new0 = replicate 4 opcode" "\<forall>tc \<in> set new0. case_suits tc" for new0
      by (rule yields_weaken [OF Cons.IH [of "written @ new0"]]) (use that g in auto)
    show ?thesis
      unfolding generate_opcodes.simps
      by (rule yields_sbind [OF q], simp only: True not_True_eq_False if_False,
        rule yields_sbind [OF yields_cases [OF u c True, of written]])
        (use g next_cases in \<open>auto simp: split_def\<close>)
  qed
qed

text \<open>Whatever writes fail, what is written suits its instruction.\<close>

definition all_suit :: "test_case list \<Rightarrow> bool" where
  "all_suit tcs \<longleftrightarrow> (\<forall>tc \<in> set tcs. case_suits tc)"

lemma all_suit_snoc [simp]: "all_suit (tcs @ [tc]) \<longleftrightarrow> all_suit tcs \<and> case_suits tc"
  by (auto simp: all_suit_def)

lemma yields_written_cases:
  assumes "uniform_ok uniform" and "test_config opcode = Inr c" "gc_enable c"
  shows "all_suit written \<Longrightarrow> yields (\<lambda>r. all_suit (snd r)) (generate_cases uniform writable c opcode n written)"
proof (induction n arbitrary: written)
  case (Suc n)
  show ?case
    unfolding generate_cases.simps
    by (rule yields_sbind [OF yields_case [OF assms]], rule yields_if)
      (use Suc.prems in \<open>auto intro!: yields_sreturn Suc.IH\<close>)
qed (simp add: yields_sreturn)

lemma yields_written_opcodes:
  assumes u: "uniform_ok uniform"
  shows "all_suit written \<Longrightarrow> yields (\<lambda>r. all_suit (snd r)) (generate_opcodes uniform writable opcodes written)"
proof (induction opcodes arbitrary: written)
  case (Cons opcode opcodes)
  obtain c where c: "test_config opcode = Inr c"
    by (rule test_config_total)
  have q: "yields (\<lambda>c'. c' = c) (squery (\<lambda>_. test_config opcode))"
    by (simp add: yields_def squery_def c)
  show ?case
  proof (cases "gc_enable c")
    case True
    show ?thesis
      unfolding generate_opcodes.simps
      by (rule yields_sbind [OF q], simp only: True not_True_eq_False if_False,
        rule yields_sbind [OF yields_written_cases [OF u c True Cons.prems]])
        (auto intro!: yields_sreturn Cons.IH)
  next
    case False
    with Cons show ?thesis
      unfolding generate_opcodes.simps by (intro yields_sbind [OF q]) simp
  qed
qed (simp add: yields_sreturn)

lemma written_cases_suit:
  assumes "uniform_ok uniform" and "test_generator_main uniform argc opened writable g = Inr ((code, written), g')"
    and "tc \<in> set written"
  shows "case_suits tc"
proof -
  have main: "yields (\<lambda>r. all_suit (snd r)) (test_generator_main uniform argc opened writable)"
    unfolding test_generator_main_def generate_test_cases_def
    by (intro yields_if yields_sbind [where Q = "\<lambda>r. all_suit (snd r)"] yields_written_opcodes assms(1))
      (auto intro!: yields_sreturn simp: all_suit_def)
  show ?thesis
    using yieldsD [OF main assms(2)] assms(3) by (simp add: all_suit_def)
qed

section \<open>Properties\<close>


definition least_uniform :: "unit uniform" where
  "least_uniform a b = sreturn a"

lemma least_uniform_ok: "uniform_ok least_uniform"
  by (simp add: uniform_ok_def least_uniform_def)


end
