(* ===== verification/Test_Verifier.thy ===== *)
theory Test_Verifier
  imports Test_Generator Host_Interface
begin

unbundle bit_operations_syntax

text \<open>
  src/src/test_verifier/main.cpp: the program that runs the interpreter on a file of test vectors. It
  loads the state of a case, runs one cycle and compares what it sees with the state after it.

  The machine of the program has no peripherals behind its data space and no clock: a cycle does
  not advance any. An access to the register window would follow a null pointer; here it reaches the
  registers of the model. An instruction that is not implemented throws in the middle of the
  cycle; what it leaves of the machine is an argument, \<open>thrown\<close>, about which nothing is assumed.
  What the program prints is left out but for the places of the mismatches.
\<close>

section \<open>Loading a state\<close>

text \<open>The status and configuration words, in the order in which they are set.\<close>

definition state_settings :: "test_state \<Rightarrow> (proxy_slot list \<times> u16) list" where
  "state_settings s = [
     (cfgi_slots, ts_cfgi s), (cfgj_slots, ts_cfgj s),
     (stt0_slots, ts_stt0 s), (stt1_slots, ts_stt1 s), (stt2_slots, ts_stt2 s),
     (mod0_slots, ts_mod0 s), (mod1_slots, ts_mod1 s), (mod2_slots, ts_mod2 s),
     (ar_slots 0, ts_ar s ! 0), (ar_slots 1, ts_ar s ! 1),
     (arp_slots 0, ts_arp s ! 0), (arp_slots 1, ts_arp s ! 1),
     (arp_slots 2, ts_arp s ! 2), (arp_slots 3, ts_arp s ! 3)]"

definition load_registers :: "test_state \<Rightarrow> registers result" where
  "load_registers s =
     rbind (set_lc (ts_lc s) (registers_reset\<lparr>
       rg_a := ts_a s, rg_b := ts_b s, rg_p := ts_p s, rg_r := ts_r s, rg_x := ts_x s, rg_y := ts_y s,
       rg_stepi0 := ts_stepi0 s, rg_stepj0 := ts_stepj0 s, rg_mixp := ts_mixp s, rg_sv := ts_sv s,
       rg_repc := ts_repc s\<rparr>)) (\<lambda>r.
     Inr (foldl (\<lambda>r (slots, v). pseudo_set slots v r) r (state_settings s)))"

definition space_writes :: "test_state \<Rightarrow> (u16 \<times> u16) list" where
  "space_writes s = concat (map (\<lambda>i. [
     (TestSpaceX + of_nat i, ts_space_x s ! i), (TestSpaceY + of_nat i, ts_space_y s ! i)])
     [0..<TestSpaceSize])"

definition load_case :: "test_case \<Rightarrow> 'x instr" where
  "load_case tc = sseq [
     \<lambda>s. rbind (load_registers (tc_before tc)) (\<lambda>r. Inr ((), s\<lparr>mc_regs := r\<rparr>)),
     sseq (map (\<lambda>(address, v). mem_data_write address v) (space_writes (tc_before tc))),
     mem_program_write 0 (tc_opcode tc),
     mem_program_write 1 (tc_expand tc)]"

section \<open>One cycle\<close>

text \<open>\<open>Run(1)\<close> of an interpreter with a clock that has nothing to advance.\<close>

definition run_one :: "'x instr" where
  "run_one =
     sbind (supd (\<lambda>s. s\<lparr>mc_idle := False\<rparr>)) (\<lambda>_.
     sbind latch_interrupts (\<lambda>_.
     sbind fetch_instruction (\<lambda>execute. sseq [
       rupd step_rep,
       on_regs step_block_repeat,
       execute,
       take_interrupt])))"

section \<open>Checking\<close>

datatype place = At_Register string | At_Memory u16

text \<open>The registers with their names; \<open>True\<close> where the value is the expected one.\<close>

definition register_checks :: "test_state \<Rightarrow> u16 \<Rightarrow> registers \<Rightarrow> (string \<times> bool) list" where
  "register_checks after lc r = [
     (''a0'', sign_extend 40 (ts_a after ! 0) = rg_a r ! 0),
     (''a1'', sign_extend 40 (ts_a after ! 1) = rg_a r ! 1),
     (''b0'', sign_extend 40 (ts_b after ! 0) = rg_b r ! 0),
     (''b1'', sign_extend 40 (ts_b after ! 1) = rg_b r ! 1),
     (''p0'', ts_p after ! 0 = rg_p r ! 0),
     (''p1'', ts_p after ! 1 = rg_p r ! 1),
     (''r0'', ts_r after ! 0 = rg_r r ! 0),
     (''r1'', ts_r after ! 1 = rg_r r ! 1),
     (''r2'', ts_r after ! 2 = rg_r r ! 2),
     (''r3'', ts_r after ! 3 = rg_r r ! 3),
     (''r4'', ts_r after ! 4 = rg_r r ! 4),
     (''r5'', ts_r after ! 5 = rg_r r ! 5),
     (''r6'', ts_r after ! 6 = rg_r r ! 6),
     (''r7'', ts_r after ! 7 = rg_r r ! 7),
     (''x0'', ts_x after ! 0 = rg_x r ! 0),
     (''x1'', ts_x after ! 1 = rg_x r ! 1),
     (''y0'', ts_y after ! 0 = rg_y r ! 0),
     (''y1'', ts_y after ! 1 = rg_y r ! 1),
     (''stepi0'', ts_stepi0 after = rg_stepi0 r),
     (''stepj0'', ts_stepj0 after = rg_stepj0 r),
     (''mixp'', ts_mixp after = rg_mixp r),
     (''sv'', ts_sv after = rg_sv r),
     (''repc'', ts_repc after = rg_repc r),
     (''lc'', ts_lc after = lc),
     (''cfgi'', ts_cfgi after = pseudo_get cfgi_slots r),
     (''cfgj'', ts_cfgj after = pseudo_get cfgj_slots r),
     (''stt0'', ts_stt0 after = pseudo_get stt0_slots r),
     (''stt1'', ts_stt1 after = pseudo_get stt1_slots r),
     (''stt2'', ts_stt2 after = pseudo_get stt2_slots r),
     (''mod0'', ts_mod0 after = pseudo_get mod0_slots r),
     (''mod1'', ts_mod1 after = pseudo_get mod1_slots r),
     (''mod2'', ts_mod2 after = pseudo_get mod2_slots r),
     (''ar0'', ts_ar after ! 0 = pseudo_get (ar_slots 0) r),
     (''ar1'', ts_ar after ! 1 = pseudo_get (ar_slots 1) r),
     (''arp0'', ts_arp after ! 0 = pseudo_get (arp_slots 0) r),
     (''arp1'', ts_arp after ! 1 = pseudo_get (arp_slots 1) r),
     (''arp2'', ts_arp after ! 2 = pseudo_get (arp_slots 2) r),
     (''arp3'', ts_arp after ! 3 = pseudo_get (arp_slots 3) r)]"

definition register_mismatches :: "test_state \<Rightarrow> registers \<Rightarrow> place list result" where
  "register_mismatches after r =
     rbind (get_lc r) (\<lambda>lc.
       Inr (map (At_Register \<circ> fst) (filter (\<lambda>(name, equal). \<not> equal) (register_checks after lc r))))"

fun memory_mismatches :: "(u16 \<times> u16) list \<Rightarrow> ('x, place list) mstep" where
  "memory_mismatches [] = sreturn []"
| "memory_mismatches ((address, expected) # rest) =
     sbind (mem_data_read address) (\<lambda>actual.
     sbind (memory_mismatches rest) (\<lambda>places.
     sreturn (if expected \<noteq> actual then At_Memory address # places else places)))"

definition mismatches :: "test_state \<Rightarrow> ('x, place list) mstep" where
  "mismatches after =
     sbind (squery (\<lambda>s. register_mismatches after (mc_regs s))) (\<lambda>registers.
     sbind (memory_mismatches (space_writes after)) (\<lambda>memory.
     sreturn (registers @ memory)))"

datatype verdict = Passed | Failed "place list" | Skipped

definition verify_case :: "('x machine \<Rightarrow> 'x machine) \<Rightarrow> test_case \<Rightarrow> ('x, verdict) mstep" where
  "verify_case thrown tc =
     sbind (load_case tc) (\<lambda>_ s.
     case run_one s of
       Inl e \<Rightarrow> (if e = Unimplemented then Inr (Skipped, thrown s) else Inl e)
     | Inr (_, s1) \<Rightarrow>
         sbind (mismatches (tc_after tc)) (\<lambda>places.
           sreturn (if places = [] then Passed else Failed places)) s1)"

section \<open>The program\<close>

record tally =
  tl_passed :: nat
  tl_total :: nat
  tl_skipped :: nat

definition count_verdict :: "verdict \<Rightarrow> tally \<Rightarrow> tally" where
  "count_verdict v t = (case v of
     Passed \<Rightarrow> t\<lparr>tl_total := tl_total t + 1, tl_passed := tl_passed t + 1\<rparr>
   | Failed places \<Rightarrow> t\<lparr>tl_total := tl_total t + 1\<rparr>
   | Skipped \<Rightarrow> t\<lparr>tl_skipped := tl_skipped t + 1\<rparr>)"

fun verify_cases :: "('x machine \<Rightarrow> 'x machine) \<Rightarrow> test_case list \<Rightarrow> tally \<Rightarrow> ('x, tally) mstep" where
  "verify_cases thrown [] t = sreturn t"
| "verify_cases thrown (tc # tcs) t =
     sbind (verify_case thrown tc) (\<lambda>v. verify_cases thrown tcs (count_verdict v t))"

text \<open>The value is the exit code. \<open>raw\<close> are the bytes of the file, if it can be opened.\<close>

definition verifier_main :: "('x machine \<Rightarrow> 'x machine) \<Rightarrow> nat \<Rightarrow> u8 list option \<Rightarrow> ('x, int) mstep" where
  "verifier_main thrown argc raw =
     (if argc < 2 then sreturn (- 1)
      else case raw of
        None \<Rightarrow> sreturn (- 2)
      | Some bytes \<Rightarrow>
          sbind (verify_cases thrown (read_cases bytes) \<lparr>tl_passed = 0, tl_total = 0, tl_skipped = 0\<rparr>) (\<lambda>t.
            sreturn (if tl_passed t < tl_total t then 1 else 0)))"

end
