(* ===== verification/Test_Loading.thy ===== *)
theory Test_Loading
  imports Test_Verifier
begin

unbundle bit_operations_syntax

text \<open>
  The registers that src/src/test_verifier/main.cpp loads for a test case, member by member, and
  what is read back of the status and configuration words.
\<close>

section \<open>What is seen of a machine\<close>

definition observed :: "u16 \<Rightarrow> u16 list \<Rightarrow> u16 list \<Rightarrow> registers \<Rightarrow> test_state" where
  "observed lc x y r = \<lparr>
     ts_a = rg_a r, ts_b = rg_b r, ts_p = rg_p r, ts_r = rg_r r, ts_x = rg_x r, ts_y = rg_y r,
     ts_stepi0 = rg_stepi0 r, ts_stepj0 = rg_stepj0 r, ts_mixp = rg_mixp r, ts_sv = rg_sv r,
     ts_repc = rg_repc r, ts_lc = lc, ts_cfgi = pseudo_get cfgi_slots r, ts_cfgj = pseudo_get cfgj_slots r,
     ts_stt0 = pseudo_get stt0_slots r, ts_stt1 = pseudo_get stt1_slots r, ts_stt2 = pseudo_get stt2_slots r,
     ts_mod0 = pseudo_get mod0_slots r, ts_mod1 = pseudo_get mod1_slots r, ts_mod2 = pseudo_get mod2_slots r,
     ts_ar = [pseudo_get (ar_slots 0) r, pseudo_get (ar_slots 1) r],
     ts_arp = [pseudo_get (arp_slots 0) r, pseudo_get (arp_slots 1) r, pseudo_get (arp_slots 2) r,
       pseudo_get (arp_slots 3) r],
     ts_space_x = x, ts_space_y = y\<rparr>"

text \<open>What of a state the registers can hold: the bits that a field covers, and the constant of mod0.\<close>

definition held_state :: "test_state \<Rightarrow> test_state" where
  "held_state s = s\<lparr>
     ts_stt0 := ts_stt0 s AND 0x08FF, ts_stt1 := ts_stt1 s AND 0xC010, ts_stt2 := ts_stt2 s AND 0x00C0,
     ts_mod0 := (ts_mod0 s AND 0x6FE3) OR 0x0004, ts_mod1 := ts_mod1 s AND 0xF0FF,
     ts_arp := map (\<lambda>v. v AND 0x6FFF) (ts_arp s)\<rparr>"

lemmas setting_defs = cfgi_slots_def cfgj_slots_def stt0_slots_def stt1_slots_def stt2_slots_def mod0_slots_def
  mod1_slots_def mod2_slots_def ar_slots_def arp_slots_def redirector_def array_redirector_def proxy_slot_of_def
  ro_redirector_def array_ro_redirector_def lp_redirector_def

definition loaded_registers :: "test_state \<Rightarrow> registers" where
  "loaded_registers s =
     foldl (\<lambda>r (slots, v). pseudo_set slots v r) (registers_reset\<lparr>
       rg_a := ts_a s, rg_b := ts_b s, rg_p := ts_p s, rg_r := ts_r s, rg_x := ts_x s, rg_y := ts_y s,
       rg_stepi0 := ts_stepi0 s, rg_stepj0 := ts_stepj0 s, rg_mixp := ts_mixp s, rg_sv := ts_sv s,
       rg_repc := ts_repc s,
       rg_bkrep_stack := (replicate 4 frame_initial)[0 := frame_initial\<lparr>fr_lc := ts_lc s\<rparr>]\<rparr>) (state_settings s)"

lemma load_registers_ok: "load_registers s = Inr (loaded_registers s)"
  by (simp add: load_registers_def loaded_registers_def set_lc_def registers_reset_def lc_index_def frame_at_def put_frame_def)

lemmas loaded_defs = loaded_registers_def state_settings_def registers_reset_def setting_defs

lemma loaded_plain:
  "rg_a (loaded_registers s) = ts_a s" "rg_b (loaded_registers s) = ts_b s" "rg_p (loaded_registers s) = ts_p s"
  "rg_r (loaded_registers s) = ts_r s" "rg_x (loaded_registers s) = ts_x s" "rg_y (loaded_registers s) = ts_y s"
  "rg_stepi0 (loaded_registers s) = ts_stepi0 s" "rg_stepj0 (loaded_registers s) = ts_stepj0 s"
  "rg_mixp (loaded_registers s) = ts_mixp s" "rg_sv (loaded_registers s) = ts_sv s"
  "rg_repc (loaded_registers s) = ts_repc s" "get_lc (loaded_registers s) = Inr (ts_lc s)"
  by (simp_all add: loaded_defs get_lc_def lc_index_def frame_at_def eval_nat_numeral)

lemma loaded_loop: "rg_lp (loaded_registers s) = 0" "rg_bcn (loaded_registers s) = 0"
  "rg_bkrep_stack (loaded_registers s) = (replicate 4 frame_initial)[0 := frame_initial\<lparr>fr_lc := ts_lc s\<rparr>]"
  by (simp_all add: loaded_defs)

lemma loaded_modes:
  "rg_m (loaded_registers s) = map (\<lambda>i. drop_bit i (ts_mod2 s) AND 1) [0..<8]"
  "rg_br (loaded_registers s) = map (\<lambda>i. drop_bit (i + 8) (ts_mod2 s) AND 1) [0..<8]"
  "rg_page (loaded_registers s) = ts_mod1 s AND 0xFF"
  by (simp_all add: loaded_defs mask_eq_exp_minus_1 eval_nat_numeral)

lemma loaded_indirect:
  "rg_arrn (loaded_registers s) = [drop_bit 13 (ts_ar s ! 0) AND 7, drop_bit 10 (ts_ar s ! 0) AND 7,
     drop_bit 13 (ts_ar s ! 1) AND 7, drop_bit 10 (ts_ar s ! 1) AND 7]"
  "rg_arprni (loaded_registers s) = map (\<lambda>i. drop_bit 10 (ts_arp s ! i) AND 3) [0..<4]"
  "rg_arprnj (loaded_registers s) = map (\<lambda>i. drop_bit 13 (ts_arp s ! i) AND 3) [0..<4]"
  by (simp_all add: loaded_defs mask_eq_exp_minus_1 eval_nat_numeral)

text \<open>A word put together from its fields is the word, but for the bits no field covers.\<close>

lemma field_in_place: "push_bit n (drop_bit n v) = (v :: u16) AND push_bit n (mask (16 - n))"
  by (rule bit_word_eqI) (auto simp: bit_simps)

lemma field_at_one: "(drop_bit (Suc 0) v AND 1) * 2 = (v AND 2 :: u16)"
proof -
  have "(drop_bit (Suc 0) v AND 1) * 2 = push_bit 1 (drop_bit 1 v AND mask 1)"
    by (simp add: push_bit_eq_mult)
  also have "... = v AND push_bit 1 (mask 1)"
    by (rule bit_word_eqI) (simp only: bit_simps, auto)
  finally show ?thesis
    by simp
qed

lemma fields_join: "(v AND b) OR ((v AND c) OR w) = (v AND (b OR c)) OR (w :: u16)"
  "(v AND b) OR (v AND c) = v AND (b OR c :: u16)"
  "(v AND b) OR (d OR (v AND c)) = (v AND (b OR c)) OR (d :: u16)"
  by (simp_all only: bit.conj_disj_distrib ac_simps)

lemmas fields_simps = field_in_place field_at_one fields_join and.assoc mask_eq_exp_minus_1

lemma loaded_words:
  "pseudo_get cfgi_slots (loaded_registers s) = ts_cfgi s"
  "pseudo_get cfgj_slots (loaded_registers s) = ts_cfgj s"
  "pseudo_get stt0_slots (loaded_registers s) = ts_stt0 s AND 0x08FF"
  "pseudo_get stt1_slots (loaded_registers s) = ts_stt1 s AND 0xC010"
  "pseudo_get stt2_slots (loaded_registers s) = ts_stt2 s AND 0x00C0"
  "pseudo_get mod0_slots (loaded_registers s) = (ts_mod0 s AND 0x6FE3) OR 0x0004"
  "pseudo_get mod1_slots (loaded_registers s) = ts_mod1 s AND 0xF0FF"
  "pseudo_get mod2_slots (loaded_registers s) = ts_mod2 s"
  "pseudo_get (ar_slots 0) (loaded_registers s) = ts_ar s ! 0"
  "pseudo_get (ar_slots 1) (loaded_registers s) = ts_ar s ! 1"
  "pseudo_get (arp_slots 0) (loaded_registers s) = ts_arp s ! 0 AND 0x6FFF"
  "pseudo_get (arp_slots 1) (loaded_registers s) = ts_arp s ! 1 AND 0x6FFF"
  "pseudo_get (arp_slots 2) (loaded_registers s) = ts_arp s ! 2 AND 0x6FFF"
  "pseudo_get (arp_slots 3) (loaded_registers s) = ts_arp s ! 3 AND 0x6FFF"
  by (simp_all add: loaded_defs fields_simps)

end
