(* ===== verification/Test_Verdicts.thy ===== *)
theory Test_Verdicts
  imports Test_Loading
begin

unbundle bit_operations_syntax

text \<open>
  What src/src/test_verifier/main.cpp decides. The state seen of a machine is read at once; the
  verdict on a case is whether that state is the expected one.
\<close>

section \<open>The windows of the data space\<close>

definition data_word :: "'x machine \<Rightarrow> u16 \<Rightarrow> u16" where
  "data_word s a =
     (case data_read_mem miu_reset a (sys_memory (mc_sys s)) of Inr v \<Rightarrow> v | Inl e \<Rightarrow> 0)"

definition window :: "'x machine \<Rightarrow> u16 \<Rightarrow> u16 list" where
  "window s space = map (\<lambda>i. data_word s (space + of_nat i)) [0..<TestSpaceSize]"

lemma window_address:
  assumes "i < TestSpaceSize"
  shows "unat (TestSpaceX + of_nat i) = 0x6400 + i" and "unat (TestSpaceY + of_nat i) = 0xCC00 + i"
  using assms by (simp_all add: unat_word_ariths unat_of_nat)

lemma window_not_mmio:
  assumes "i < TestSpaceSize"
  shows "\<not> in_mmio miu_reset (TestSpaceX + of_nat i)" and "\<not> in_mmio miu_reset (TestSpaceY + of_nat i)"
  unfolding in_mmio_def miu_reset_def word_le_nat_alt miu.simps window_address [OF assms] using assms by simp_all

lemma reset_data_ok: "data_address_ok miu_reset a"
  by (simp add: data_address_ok_def data_page_def miu_reset_def)

lemma window_read:
  assumes "sys_miu (mc_sys s) = miu_reset" and "\<not> in_mmio miu_reset a"
  shows "mem_data_read a s = Inr (data_word s a, s)"
proof -
  obtain v where "data_read_mem miu_reset a (sys_memory (mc_sys s)) = Inr v"
    using data_words.rd_ok [OF reset_data_ok] by blast
  with assms show ?thesis
    by (auto simp: mem_data_read_def data_read_def data_read_mem_def data_word_def rbind_Inr_iff rbind_assoc)
qed

lemma window_write:
  assumes "sys_miu (mc_sys s) = miu_reset" and "\<not> in_mmio miu_reset a"
    and "data_write_mem miu_reset a v (sys_memory (mc_sys s)) = Inr m"
  shows "mem_data_write a v s = Inr ((), s\<lparr>mc_sys := (mc_sys s)\<lparr>sys_memory := m\<rparr>\<rparr>)"
  using assms by (auto simp: mem_data_write_def sys_action_def data_write_def data_write_mem_def deliver_signals_def rbind_Inr_iff)

lemma window_writes:
  assumes "sys_miu (mc_sys s) = miu_reset" and "\<forall>(a, v) \<in> set ws. \<not> in_mmio miu_reset a"
    and "foldl (\<lambda>m (a, v). rbind m (data_write_mem miu_reset a v)) (Inr (sys_memory (mc_sys s))) ws = Inr m"
  shows "sseq (map (\<lambda>(a, v). mem_data_write a v) ws) s = Inr ((), s\<lparr>mc_sys := (mc_sys s)\<lparr>sys_memory := m\<rparr>\<rparr>)"
  using assms
proof (induction ws arbitrary: s)
  case (Cons w ws)
  obtain a v where w: "w = (a, v)"
    by fastforce
  obtain m1 where m1: "data_write_mem miu_reset a v (sys_memory (mc_sys s)) = Inr m1"
    using data_words.wr_ok [OF reset_data_ok] by blast
  let ?s = "s\<lparr>mc_sys := (mc_sys s)\<lparr>sys_memory := m1\<rparr>\<rparr>"
  have "mem_data_write a v s = Inr ((), ?s)"
    using window_write [OF _ _ m1] Cons.prems w by simp
  moreover have "sseq (map (\<lambda>(a, v). mem_data_write a v) ws) ?s = Inr ((), s\<lparr>mc_sys := (mc_sys s)\<lparr>sys_memory := m\<rparr>\<rparr>)"
    using Cons.IH [of ?s] Cons.prems m1 w by simp
  ultimately show ?case
    by (simp add: w sseq_Cons)
qed simp

lemma space_addresses:
  "map fst (space_writes s) = concat (map (\<lambda>i. [TestSpaceX + of_nat i, TestSpaceY + of_nat i]) [0..<TestSpaceSize])"
  by (simp add: space_writes_def map_concat comp_def del: upt_rec_numeral)

lemma pairs_distinct:
  "n \<le> 0x6800 \<Longrightarrow> distinct (concat (map (\<lambda>i. [0x6400 + i, 0xCC00 + i :: nat]) [0..<n]))"
proof (induction n)
  case (Suc n)
  then show ?case
    by (auto simp: image_iff)
qed simp

lemma space_writes_distinct: "distinct (map fst (space_writes s))"
proof -
  have "map unat (map fst (space_writes s)) = concat (map (\<lambda>i. [0x6400 + i, 0xCC00 + i]) [0..<TestSpaceSize])"
    unfolding space_addresses map_concat map_map comp_def list.map
    by (intro arg_cong [where f = concat] map_cong refl) (simp only: set_upt atLeastLessThan_iff window_address)
  then have "distinct (map unat (map fst (space_writes s)))"
    using pairs_distinct [of TestSpaceSize] by simp
  then show ?thesis
    by (simp only: distinct_map)
qed

lemma space_writes_set:
  "set (space_writes s) = (\<lambda>i. (TestSpaceX + of_nat i, ts_space_x s ! i)) ` {..<TestSpaceSize} \<union>
     (\<lambda>i. (TestSpaceY + of_nat i, ts_space_y s ! i)) ` {..<TestSpaceSize}"
  by (auto simp: space_writes_def simp del: upt_rec_numeral)

section \<open>Loading a case\<close>

definition seen :: "'x machine \<Rightarrow> test_state" where
  "seen s = observed (case get_lc (mc_regs s) of Inr lc \<Rightarrow> lc | Inl e \<Rightarrow> 0)
     (window s TestSpaceX) (window s TestSpaceY) (mc_regs s)"

lemma data_word_program_write:
  assumes "shared_write_word a v m = Inr m'" and "unat a < 0x20000"
  shows "data_read_mem miu_reset b m' = data_read_mem miu_reset b m"
proof -
  obtain c where c: "convert_data_address miu_reset b = Inr c" "word_address_ok c"
    using data_address_ok_conv [OF reset_data_ok] by blast
  have "a \<noteq> c"
    using convert_data_address_ok(2) [OF c(1)] assms(2) by auto
  moreover have "word_address_ok a"
    using assms(2) by (simp add: word_address_ok_def word_less_nat_alt)
  ultimately show ?thesis
    using shared_words.rd_wr_other [OF _ c(2) _ assms(1)] c(1) by (simp add: data_read_mem_def)
qed

lemma load_case_ok:
  assumes shape: "state_shape (tc_before tc)" and miu: "sys_miu (mc_sys s) = miu_reset"
  obtains m where "load_case tc s = Inr ((), s\<lparr>mc_regs := loaded_registers (tc_before tc), mc_sys := (mc_sys s)\<lparr>sys_memory := m\<rparr>\<rparr>)"
    "\<forall>(a, v) \<in> set (space_writes (tc_before tc)). data_read_mem miu_reset a m = Inr v"
    "program_read 0 m = Inr (tc_opcode tc)" "program_read 1 m = Inr (tc_expand tc)"
proof -
  let ?b = "tc_before tc" and ?m0 = "sys_memory (mc_sys s)"
  obtain m1 where m1: "foldl (\<lambda>m (a, v). rbind m (data_write_mem miu_reset a v)) (Inr ?m0) (space_writes ?b) = Inr m1"
    "\<forall>(a, v) \<in> set (space_writes ?b). data_read_mem miu_reset a m1 = Inr v"
    using data_words.write_all_read_all [OF _ space_writes_distinct, of ?b miu_reset ?m0] reset_data_ok by (auto simp: split_def)
  have ok: "word_address_ok 0" "word_address_ok 1"
    by (simp_all add: word_address_ok_def)
  obtain m2 where m2: "shared_write_word 0 (tc_opcode tc) m1 = Inr m2"
    using shared_words.wr_ok [OF ok(1)] by blast
  obtain m3 where m3: "shared_write_word 1 (tc_expand tc) m2 = Inr m3"
    using shared_words.wr_ok [OF ok(2)] by blast
  let ?s1 = "s\<lparr>mc_regs := loaded_registers ?b\<rparr>"
  have not_mmio: "\<forall>(a, v) \<in> set (space_writes ?b). \<not> in_mmio miu_reset a"
    using window_not_mmio by (auto simp: space_writes_set)
  have "sseq (map (\<lambda>(a, v). mem_data_write a v) (space_writes ?b)) ?s1 =
      Inr ((), ?s1\<lparr>mc_sys := (mc_sys s)\<lparr>sys_memory := m1\<rparr>\<rparr>)"
    using window_writes [of ?s1, OF _ not_mmio] miu m1(1) by simp
  then have "load_case tc s = Inr ((), s\<lparr>mc_regs := loaded_registers ?b, mc_sys := (mc_sys s)\<lparr>sys_memory := m3\<rparr>\<rparr>)"
    using m2 m3 by (simp add: load_case_def sseq_Cons load_registers_ok mem_program_write_def program_write_def)
  moreover have "\<forall>(a, v) \<in> set (space_writes ?b). data_read_mem miu_reset a m3 = Inr v"
    using m1(2) data_word_program_write [OF m2] data_word_program_write [OF m3] by (auto simp: split_def)
  moreover have "program_read 0 m3 = Inr (tc_opcode tc)" "program_read 1 m3 = Inr (tc_expand tc)"
    using shared_words.rd_wr_same [OF ok(1) m2] shared_words.rd_wr_same [OF ok(2) m3]
      shared_words.rd_wr_other [OF ok(2) ok(1) _ m3] by (simp_all add: program_read_def)
  ultimately show thesis
    by (rule that)
qed

lemma window_length [simp]: "length (window s space) = TestSpaceSize"
  by (simp add: window_def del: upt_rec_numeral)

lemma window_nth: "i < TestSpaceSize \<Longrightarrow> window s space ! i = data_word s (space + of_nat i)"
  by (simp add: window_def del: upt_rec_numeral)

text \<open>What is seen after a case was loaded is its state, as far as the registers can hold it.\<close>

lemma seen_loaded:
  assumes "state_shape b" and "mc_regs s = loaded_registers b"
    and "\<forall>(a, v) \<in> set (space_writes b). data_read_mem miu_reset a (sys_memory (mc_sys s)) = Inr v"
  shows "seen s = held_state b"
proof -
  have l: "length (ts_a b) = 2" "length (ts_ar b) = 2" "length (ts_arp b) = 4"
    "length (ts_space_x b) = TestSpaceSize" "length (ts_space_y b) = TestSpaceSize"
    using assms(1) by (simp_all add: state_shape_def)
  have ar: "ts_ar b = [ts_ar b ! 0, ts_ar b ! 1]"
    using l by (intro nth_equalityI) (auto simp: less_Suc_eq numeral_2_eq_2)
  have arp: "map f (ts_arp b) = [f (ts_arp b ! 0), f (ts_arp b ! 1), f (ts_arp b ! 2), f (ts_arp b ! 3)]" for f :: "u16 \<Rightarrow> u16"
    using l by (intro nth_equalityI) (auto simp: less_Suc_eq numeral_eq_Suc)
  have "data_word s a = v" if "(a, v) \<in> set (space_writes b)" for a v
    using that assms(3) by (auto simp: data_word_def)
  then have "window s TestSpaceX = ts_space_x b" "window s TestSpaceY = ts_space_y b"
    using l by (auto intro!: nth_equalityI simp: window_nth space_writes_set)
  then show ?thesis
    unfolding seen_def observed_def assms(2) loaded_plain loaded_words held_state_def
    by (subst ar [symmetric]) (cases b, use arp [of "\<lambda>v. v AND 0x6FFF"] in simp)
qed

section \<open>Comparing\<close>

definition expected_state :: "test_state \<Rightarrow> test_state" where
  "expected_state s = s\<lparr>ts_a := map (sign_extend 40) (ts_a s), ts_b := map (sign_extend 40) (ts_b s)\<rparr>"

lemma memory_mismatches_eq:
  assumes "sys_miu (mc_sys s) = miu_reset" and "\<forall>(a, v) \<in> set ws. \<not> in_mmio miu_reset a"
  shows "memory_mismatches ws s = Inr (map (\<lambda>(a, v). At_Memory a) (filter (\<lambda>(a, v). v \<noteq> data_word s a) ws), s)"
  using assms(2)
proof (induction ws)
  case (Cons w ws)
  then show ?case
    by (cases w) (auto simp: window_read [OF assms(1)])
qed simp

lemma no_memory_mismatch:
  assumes "state_shape after"
  shows "filter (\<lambda>(a, v). v \<noteq> data_word s a) (space_writes after) = [] \<longleftrightarrow>
    ts_space_x after = window s TestSpaceX \<and> ts_space_y after = window s TestSpaceY"
proof -
  have "xs = window s space \<longleftrightarrow> (\<forall>i \<in> {..<TestSpaceSize}. xs ! i = data_word s (space + of_nat i))"
    if "length xs = TestSpaceSize" for xs space
    using that by (simp add: list_eq_iff_nth_eq [of xs] window_nth Ball_def)
  with assms show ?thesis
    unfolding filter_empty_conv space_writes_set ball_Un ball_simps(9) state_shape_def by simp
qed

lemma list_eq_2: "length xs = 2 \<Longrightarrow> length ys = 2 \<Longrightarrow> xs = ys \<longleftrightarrow> xs ! 0 = ys ! 0 \<and> xs ! 1 = ys ! 1"
  by (auto simp: numeral_eq_Suc length_Suc_conv)

lemma list_eq_4:
  "length xs = 4 \<Longrightarrow> length ys = 4 \<Longrightarrow>
   xs = ys \<longleftrightarrow> xs ! 0 = ys ! 0 \<and> xs ! 1 = ys ! 1 \<and> xs ! 2 = ys ! 2 \<and> xs ! 3 = ys ! 3"
  by (auto simp: numeral_eq_Suc length_Suc_conv)

lemma list_eq_8:
  "length xs = 8 \<Longrightarrow> length ys = 8 \<Longrightarrow>
   xs = ys \<longleftrightarrow> xs ! 0 = ys ! 0 \<and> xs ! 1 = ys ! 1 \<and> xs ! 2 = ys ! 2 \<and> xs ! 3 = ys ! 3 \<and>
     xs ! 4 = ys ! 4 \<and> xs ! 5 = ys ! 5 \<and> xs ! 6 = ys ! 6 \<and> xs ! 7 = ys ! 7"
  by (auto simp: numeral_eq_Suc length_Suc_conv)

lemma no_register_mismatch:
  assumes "state_shape after" and "registers_ok r" and "length x = TestSpaceSize" and "length y = TestSpaceSize"
  shows "filter (\<lambda>(name, equal). \<not> equal) (register_checks after lc r) = [] \<and> ts_space_x after = x \<and> ts_space_y after = y \<longleftrightarrow>
    expected_state after = observed lc x y r"
proof -
  have "filter (\<lambda>(name, equal). \<not> equal) (register_checks after lc r) = [] \<longleftrightarrow> list_all snd (register_checks after lc r)"
    by (auto simp: filter_empty_conv list_all_iff)
  moreover have "list_all snd (register_checks after lc r) \<longleftrightarrow> expected_state after = observed lc x y r"
    if "ts_space_x after = x \<and> ts_space_y after = y"
    using assms that
    by (cases after)
      (simp add: register_checks_def expected_state_def observed_def state_shape_def registers_ok_def
        list_eq_2 list_eq_4 list_eq_8)
  moreover have "ts_space_x after = x \<and> ts_space_y after = y" if "expected_state after = observed lc x y r"
    using that by (cases after) (simp add: expected_state_def observed_def)
  ultimately show ?thesis
    by blast
qed

section \<open>The machine stays well-formed\<close>

text \<open>A state whose accumulators are sign-extended numbers of forty bits.\<close>

definition state_wf :: "test_state \<Rightarrow> bool" where
  "state_wf s \<longleftrightarrow> state_shape s \<and> list_all acc40 (ts_a s) \<and> list_all acc40 (ts_b s)"

lemma loaded_registers_wf:
  assumes "state_wf s"
  shows "regs_wf (loaded_registers s)"
proof -
  have "regs_wf (foldl (\<lambda>r (slots, v). pseudo_set slots v r) r sets)"
    if "regs_wf r" "\<forall>(slots, v) \<in> set sets. list_all slot_wf slots" for r sets
    using that by (induction sets arbitrary: r) (auto simp: wf_pseudo_set)
  moreover have "\<forall>(slots, v) \<in> set (state_settings s). list_all slot_wf slots"
    by (simp add: state_settings_def slots_wf)
  moreover have "regs_wf (registers_reset\<lparr>
         rg_a := ts_a s, rg_b := ts_b s, rg_p := ts_p s, rg_r := ts_r s, rg_x := ts_x s, rg_y := ts_y s,
         rg_stepi0 := ts_stepi0 s, rg_stepj0 := ts_stepj0 s, rg_mixp := ts_mixp s, rg_sv := ts_sv s,
         rg_repc := ts_repc s,
         rg_bkrep_stack := (replicate 4 frame_initial)[0 := frame_initial\<lparr>fr_lc := ts_lc s\<rparr>]\<rparr>)"
    using registers_reset_wf assms
    by (simp add: regs_wf_defs state_wf_def state_shape_def list_all_iff)
  ultimately show ?thesis
    unfolding loaded_registers_def by blast
qed

lemma safe_run_one: "msafe run_one"
  unfolding run_one_def
  by (rule gives_sbind_any [OF gives_supd] gives_sbind_any [OF safe_latch] gives_sbind [OF gives_instruction]
      gives_sseq_Nil gives_sseq_Cons safe_rupd wf_step_rep gives_on_regs safe_step_block_repeat
      safe_take_interrupt | assumption | simp add: machine_wf_def)+

lemma wf_lc: "regs_wf r \<Longrightarrow> \<exists>lc. get_lc r = Inr lc"
proof -
  assume r: "regs_wf r"
  have "lc_index r < 4"
  proof (cases "rg_lp r = 0")
    case False
    with r have "unat (rg_bcn r) \<le> 4" "0 < unat (rg_bcn r)"
      by (auto simp: regs_wf_defs word_le_nat_alt unat_gt_0)
    moreover have u: "unat (ucast (rg_bcn r) :: u64) = unat (rg_bcn r)"
      by (simp add: unsigned_ucast_eq take_bit_nat_eq_self less_trans [OF unat_lt_2p16])
    ultimately have "unat (ucast (rg_bcn r) - 1 :: u64) < 4"
      by (subst unat_minus_one) (auto simp: word_unat_eq_iff)
    with False show ?thesis
      by (simp add: lc_index_def)
  qed (simp add: lc_index_def)
  with r show ?thesis
    by (simp add: get_lc_def frame_at_def regs_wf_defs)
qed

section \<open>Properties\<close>

lemma mismatches_eq:
  assumes "sys_miu (mc_sys s) = miu_reset" and "regs_wf (mc_regs s)" and "state_shape after"
  obtains places where "mismatches after s = Inr (places, s)" "places = [] \<longleftrightarrow> expected_state after = seen s"
proof -
  obtain lc where lc: "get_lc (mc_regs s) = Inr lc"
    using wf_lc [OF assms(2)] by blast
  have "\<forall>(a, v) \<in> set (space_writes after). \<not> in_mmio miu_reset a"
    using window_not_mmio by (auto simp: space_writes_set)
  note memory = memory_mismatches_eq [OF assms(1) this] no_memory_mismatch [OF assms(3), of s]
  have "registers_ok (mc_regs s)"
    using assms(2) by (simp add: regs_wf_def)
  note registers = no_register_mismatch [OF assms(3) this window_length window_length, of lc s TestSpaceX s TestSpaceY]
  show thesis
    by (rule that [of "map (At_Register \<circ> fst) (filter (\<lambda>(name, equal). \<not> equal) (register_checks after lc (mc_regs s))) @
        map (\<lambda>(a, v). At_Memory a) (filter (\<lambda>(a, v). v \<noteq> data_word s a) (space_writes after))"])
      (use memory registers lc in \<open>simp_all add: mismatches_def register_mismatches_def seen_def\<close>)
qed

text \<open>
  C9: The verifier runs a case from exactly its state and judges it by exactly the state after it.
  After loading, what is seen of the machine is the state of the case, but for the bits that no
  field of the registers holds. An instruction that is not implemented skips the case; after
  any other instruction the case passes just when everything that is seen is as expected, the
  accumulators up to their sign extension.
\<close>

theorem verifier_judges_case:
  assumes "machine_wf s" and "sys_miu (mc_sys s) = miu_reset"
    and "state_wf (tc_before tc)" and "state_shape (tc_after tc)"
  shows "\<exists>s0. load_case tc s = Inr ((), s0) \<and> seen s0 = held_state (tc_before tc) \<and>
    (case run_one s0 of
       Inl e \<Rightarrow> verify_case thrown tc s = (if e = Unimplemented then Inr (Skipped, thrown s0) else Inl e)
     | Inr (_, s1) \<Rightarrow> sys_miu (mc_sys s1) = miu_reset \<longrightarrow>
         (\<exists>v. verify_case thrown tc s = Inr (v, s1) \<and> v \<noteq> Skipped \<and>
            (v = Passed \<longleftrightarrow> expected_state (tc_after tc) = seen s1)))"
proof -
  have shape: "state_shape (tc_before tc)"
    using assms(3) by (simp add: state_wf_def)
  obtain m where m: "load_case tc s = Inr ((), s\<lparr>mc_regs := loaded_registers (tc_before tc), mc_sys := (mc_sys s)\<lparr>sys_memory := m\<rparr>\<rparr>)"
      (is "_ = Inr ((), ?s0)")
    "\<forall>(a, v) \<in> set (space_writes (tc_before tc)). data_read_mem miu_reset a m = Inr v"
    by (rule load_case_ok [OF shape assms(2)])
  have seen: "seen ?s0 = held_state (tc_before tc)"
    by (rule seen_loaded [OF shape]) (use m(2) in simp_all)
  have wf: "machine_wf ?s0"
    using assms(1) loaded_registers_wf [OF assms(3)] by (simp add: machine_wf_def sys_ok_def)
  show ?thesis
  proof (cases "run_one ?s0")
    case (Inl e)
    with m(1) seen show ?thesis
      by (auto simp: verify_case_def)
  next
    case (Inr a)
    then obtain u s1 where s1: "run_one ?s0 = Inr (u, s1)"
      by (cases a) simp
    have wf1: "regs_wf (mc_regs s1)"
      using step_givesD [OF safe_run_one wf s1] by (simp add: machine_wf_def)
    have "\<exists>v. verify_case thrown tc s = Inr (v, s1) \<and> v \<noteq> Skipped \<and>
        (v = Passed \<longleftrightarrow> expected_state (tc_after tc) = seen s1)" if miu1: "sys_miu (mc_sys s1) = miu_reset"
    proof -
      obtain places where p: "mismatches (tc_after tc) s1 = Inr (places, s1)"
        "places = [] \<longleftrightarrow> expected_state (tc_after tc) = seen s1"
        by (rule mismatches_eq [OF miu1 wf1 assms(4)])
      have "verify_case thrown tc s = Inr (if places = [] then Passed else Failed places, s1)"
        using m(1) s1 p(1) by (simp add: verify_case_def)
      with p(2) show ?thesis
        by auto
    qed
    with m(1) seen s1 show ?thesis
      by auto
  qed
qed

section \<open>A case that is run\<close>

text \<open>A nop whose state after it is its state before it.\<close>

definition nop_case :: test_case where
  "nop_case = zero_case\<lparr>tc_after := held_state zero_state\<rparr>"

lemma loaded_rest:
  "rg_pc (loaded_registers s) = 0" "rg_prpage (loaded_registers s) = 0" "rg_rep (loaded_registers s) = False"
  "rg_ie (loaded_registers s) = 0" "rg_ip (loaded_registers s) = [0, 0, 0]"
  by (simp_all add: loaded_defs eval_nat_numeral)

lemma seen_pc: "seen (s\<lparr>mc_regs := (mc_regs s)\<lparr>rg_pc := v\<rparr>\<rparr>) = seen s"
  by (simp add: seen_def observed_def window_def data_word_def get_lc_def lc_index_def frame_at_def setting_defs
      del: upt_rec_numeral)

lemma nop_case_run:
  obtains s0 s1 where "load_case nop_case machine_example = Inr ((), s0)" "run_one s0 = Inr ((), s1)"
    "seen s1 = seen s0" "sys_miu (mc_sys s1) = miu_reset"
proof -
  have before: "state_shape (tc_before nop_case)"
    by (simp add: nop_case_def zero_case_def zero_state_def state_shape_def)
  have miu: "sys_miu (mc_sys machine_example) = miu_reset"
    by (simp add: machine_example_def system_example_def)
  obtain m where m: "load_case nop_case machine_example = Inr ((), machine_example\<lparr>
      mc_regs := loaded_registers (tc_before nop_case), mc_sys := (mc_sys machine_example)\<lparr>sys_memory := m\<rparr>\<rparr>)"
      (is "_ = Inr ((), ?s0)")
    "program_read 0 m = Inr (tc_opcode nop_case)"
    by (rule load_case_ok [OF before miu])
  have "run_one ?s0 = Inr ((), ?s0\<lparr>mc_regs := (mc_regs ?s0)\<lparr>rg_pc := 1\<rparr>\<rparr>)"
    using m(2) by (simp add: run_one_def latch_interrupts_def fetch_instruction_def fetch_word_def rget_def rupd_def on_regs_def
      loaded_rest loaded_loop Let_def machine_example_def nop_case_def zero_case_def mem_program_read_def decode_nop
      inst_def call_matcher_def matches_def nop_def step_rep_def step_block_repeat_def take_interrupt_def)
  with m(1) show thesis
    using that seen_pc [where s = ?s0 and v = 1] miu by simp
qed

lemma nop_case_ok:
  "state_wf (tc_before nop_case)" "state_shape (tc_after nop_case)" "case_shape nop_case"
  "expected_state (tc_after nop_case) = held_state (tc_before nop_case)"
  "sys_miu (mc_sys machine_example) = miu_reset"
  by (simp_all add: nop_case_def zero_case_def zero_state_def state_wf_def state_shape_def case_shape_def held_state_def
      acc40_numerals expected_state_def sign_extend_def machine_example_def system_example_def)

lemma verifier_judges_case_witness:
  "\<exists>s1. verify_case id nop_case machine_example = Inr (Passed, s1)"
proof -
  obtain s0 s1 where s: "load_case nop_case machine_example = Inr ((), s0)" "run_one s0 = Inr ((), s1)"
    "seen s1 = seen s0" "sys_miu (mc_sys s1) = miu_reset"
    by (rule nop_case_run)
  then show ?thesis
    using verifier_judges_case [OF machine_example_wf nop_case_ok(5, 1, 2), of id] nop_case_ok(4) by auto
qed

section \<open>The exit code\<close>

fun verdicts :: "('x machine \<Rightarrow> 'x machine) \<Rightarrow> test_case list \<Rightarrow> ('x, verdict list) mstep" where
  "verdicts thrown [] = sreturn []"
| "verdicts thrown (tc # tcs) =
     sbind (verify_case thrown tc) (\<lambda>v. sbind (verdicts thrown tcs) (\<lambda>vs. sreturn (v # vs)))"

definition failed :: "verdict \<Rightarrow> bool" where
  "failed v \<longleftrightarrow> (\<exists>places. v = Failed places)"

lemma verify_cases_verdicts:
  "verify_cases thrown tcs t s =
     rbind (verdicts thrown tcs s) (\<lambda>(vs, s'). Inr (foldl (\<lambda>t v. count_verdict v t) t vs, s'))"
proof (induction tcs arbitrary: t s)
  case (Cons tc tcs)
  show ?case
    by (cases "verify_case thrown tc s") (auto simp: Cons.IH rbind_assoc split_def intro!: rbind_cong)
qed simp

lemma tally_verdicts:
  fixes vs t
  defines "t' \<equiv> foldl (\<lambda>t v. count_verdict v t) t vs"
  shows "tl_passed t' = tl_passed t + length (filter (\<lambda>v. v = Passed) vs)"
    and "tl_total t' = tl_total t + length (filter (\<lambda>v. v = Passed) vs) + length (filter failed vs)"
    and "tl_skipped t' = tl_skipped t + length (filter (\<lambda>v. v = Skipped) vs)"
  unfolding t'_def
  by (induction vs arbitrary: t) (auto simp: count_verdict_def failed_def split: verdict.split)

text \<open>
  C22: The exit code of the verifier is 0 just when no case of the file fails: the cases are those
  written to the file, an incomplete record at its end is ignored, and a case that is skipped counts
  neither way. Without a file the program does not touch the machine.
\<close>

theorem verifier_exit_code:
  assumes "list_all case_shape cs" and "length rest < case_size"
  shows "verifier_main thrown argc None s = Inr (if argc < 2 then - 1 else - 2, s) \<and>
    verifier_main thrown argc (Some (write_cases cs @ rest)) s =
      (if argc < 2 then Inr (- 1, s)
       else rbind (verdicts thrown cs s) (\<lambda>(vs, s'). Inr (if list_ex failed vs then 1 else 0, s')))"
proof -
  have "tl_passed t' < tl_total t' \<longleftrightarrow> list_ex failed vs"
    if "t' = foldl (\<lambda>t v. count_verdict v t) \<lparr>tl_passed = 0, tl_total = 0, tl_skipped = 0\<rparr> vs" for t' vs
    unfolding that tally_verdicts by (simp add: list_ex_iff filter_empty_conv)
  then show ?thesis
    using read_written_cases [OF assms]
    by (auto simp: verifier_main_def verify_cases_verdicts rbind_assoc split_def intro!: rbind_cong)
qed

lemma nop_case_verdict: "\<exists>v s1. verify_case id nop_case machine_example = Inr (v, s1) \<and> \<not> failed v"
proof -
  obtain s0 s1 where s: "load_case nop_case machine_example = Inr ((), s0)" "run_one s0 = Inr ((), s1)"
    "seen s1 = seen s0" "sys_miu (mc_sys s1) = miu_reset"
    by (rule nop_case_run)
  obtain m where m: "load_case nop_case machine_example = Inr ((), machine_example\<lparr>
      mc_regs := loaded_registers (tc_before nop_case), mc_sys := (mc_sys machine_example)\<lparr>sys_memory := m\<rparr>\<rparr>)"
    "\<forall>(a, v) \<in> set (space_writes (tc_before nop_case)). data_read_mem miu_reset a m = Inr v"
    using load_case_ok [OF _ nop_case_ok(5), of nop_case] nop_case_ok(1) by (auto simp: state_wf_def)
  have s0: "s0 = machine_example\<lparr>mc_regs := loaded_registers (tc_before nop_case), mc_sys := (mc_sys machine_example)\<lparr>sys_memory := m\<rparr>\<rparr>"
    using m(1) s(1) by simp
  have "seen s0 = held_state (tc_before nop_case)"
    using seen_loaded [of "tc_before nop_case" s0] nop_case_ok(1) m(2) s0 by (simp add: state_wf_def)
  moreover have "machine_wf s0"
    using machine_example_wf loaded_registers_wf [OF nop_case_ok(1)] s0 by (simp add: machine_wf_def sys_ok_def)
  then have "regs_wf (mc_regs s1)"
    using step_givesD [OF safe_run_one _ s(2)] by (simp add: machine_wf_def)
  then obtain places where "mismatches (tc_after nop_case) s1 = Inr (places, s1)"
    "places = [] \<longleftrightarrow> expected_state (tc_after nop_case) = seen s1"
    by (rule mismatches_eq [OF s(4) _ nop_case_ok(2)])
  ultimately have "mismatches (tc_after nop_case) s1 = Inr ([], s1)"
    using nop_case_ok(4) s(3) by simp
  with s(1, 2) show ?thesis
    by (simp add: verify_case_def failed_def)
qed

lemma verifier_exit_code_witness:
  "\<exists>s1. verifier_main id 2 (Some (write_cases [nop_case] @ [0, 0])) machine_example = Inr (0, s1)"
proof -
  obtain v s1 where "verify_case id nop_case machine_example = Inr (v, s1)" "\<not> failed v"
    using nop_case_verdict by blast
  then show ?thesis
    using verifier_exit_code [of "[nop_case]" "[0, 0]" id 2 machine_example] nop_case_ok(3) by simp
qed

section \<open>The addresses of a generated case\<close>

definition in_window :: "u16 \<Rightarrow> u16 \<Rightarrow> bool" where
  "in_window space a \<longleftrightarrow> space \<le> a \<and> unat a < unat space + TestSpaceSize"

definition register_in_window :: "registers \<Rightarrow> nat \<Rightarrow> bool" where
  "register_in_window r k \<longleftrightarrow> k < 8 \<and> (\<exists>a. rn_address k (rg_r r ! k) r = Inr a \<and> in_window (home_space k) a)"

lemma in_space_window:
  assumes "in_space space v" and "space = TestSpaceX \<or> space = TestSpaceY" and "d \<in> set [0, 4, 0xFFFE]"
  shows "in_window space (d + v)"
proof -
  have "unat space + 10 \<le> unat v" "unat v \<le> unat space + 502"
    using assms(1, 2) by (auto simp: in_space_def word_le_nat_alt)
  moreover have "(65534 + unat v) mod 65536 = unat v - 2" if "2 \<le> unat v"
    using that unat_lt_2p16 [of v] by (simp add: mod_if)
  ultimately show ?thesis
    using assms(2, 3) by (auto simp: in_window_def word_le_nat_alt unat_word_ariths)
qed

lemma loaded_rn_address:
  assumes "k < 8"
  shows "rn_address k v (loaded_registers s) = Inr (state_address (ts_mod2 s) k v)"
  using assms by (simp add: rn_address_def loaded_modes state_address_def del: upt_rec_numeral)


lemma config_add_add: "test_config 0x6F80 = Inr (config_with_arp_address 0)"
proof -
  let ?m = "inst 0x6F80 [At 1 2, At 1 0, At 1 1, At 2 3] (\<lambda>x. tg_add_add (x 0) (x 1) (x 2) (x 3))"
  have "?m \<in> set tg_table"
    by (simp add: tg_table_def tg_add_table_def)
  moreover have "matches ?m 0x6F80"
    by (simp add: matches_shape matcher_shape_inst inst_shape_def at_mask_def mask_eq_exp_minus_1)
  moreover obtain m where "tg_decode 0x6F80 = Inr m"
    by (rule tg_decode_agrees)
  ultimately have "tg_decode 0x6F80 = Inr ?m" "matches ?m 0x6F80"
    using decode_in_matching unfolding tg_decode_def by blast+
  then show ?thesis
    by (simp add: test_config_def call_matcher_def)
      (simp add: inst_def Let_def tg_add_add_def at_extract_def at_mask_def)
qed


end
