(* ===== verification/Directed_Tests.thy ===== *)
theory Directed_Tests
  imports Test_Verdicts
begin

unbundle bit_operations_syntax

text \<open>
  src/src/step2_test_generator/main.cpp and src/src/mod_test_generator/main.cpp: the programs that write test
  cases for the steps of an address register, one instruction each, over all the ways to configure the
  address unit. The loops are nested lists; the k-th number \<open>std::rand\<close> gives is an argument.
\<close>

section \<open>Writing the cases\<close>

text \<open>The value is the exit code, with the records written; \<open>writable n\<close> is whether the write after n records succeeds.\<close>

fun write_until :: "(nat \<Rightarrow> bool) \<Rightarrow> test_case list \<Rightarrow> test_case list \<Rightarrow> int \<times> test_case list" where
  "write_until writable [] written = (0, written)"
| "write_until writable (tc # tcs) written =
     (if writable (length written) then write_until writable tcs (written @ [tc]) else (- 3, written))"

definition directed_main ::
    "test_case list \<Rightarrow> nat \<Rightarrow> bool \<Rightarrow> (nat \<Rightarrow> bool) \<Rightarrow> int \<times> test_case list" where
  "directed_main cases argc opened writable =
     (if argc < 2 then (- 1, []) else if \<not> opened then (- 2, []) else write_until writable cases [])"

section \<open>Steps by two\<close>

definition step2_case :: "nat \<Rightarrow> nat \<Rightarrow> nat \<Rightarrow> nat \<Rightarrow> test_case" where
  "step2_case legacy step md r = zero_case\<lparr>
     tc_opcode := 0xDFE9, tc_expand := 0,
     tc_before := zero_state\<lparr>
       ts_mod2 := 1, ts_mod1 := push_bit 13 (of_nat legacy), ts_arp := [of_nat step, 0, 0, 0],
       ts_cfgi := push_bit 7 (of_nat md), ts_r := (replicate 8 0)[0 := of_nat r + 0x4839]\<rparr>\<rparr>"

definition step2_cases :: "test_case list" where
  "step2_cases = [step2_case legacy step md r.
     legacy \<leftarrow> [0..<2], step \<leftarrow> [4..<8], md \<leftarrow> [0..<0x200], r \<leftarrow> [0..<0x20]]"

definition step2_main :: "nat \<Rightarrow> bool \<Rightarrow> (nat \<Rightarrow> bool) \<Rightarrow> int \<times> test_case list" where
  "step2_main = directed_main step2_cases"

section \<open>Modulo addressing\<close>

definition mod_case :: "nat \<Rightarrow> nat \<Rightarrow> nat \<Rightarrow> nat \<Rightarrow> nat \<Rightarrow> nat \<Rightarrow> test_case" where
  "mod_case i legacy offset_mode step_mode step md = zero_case\<lparr>
     tc_opcode := 0x4DA0, tc_expand := 0,
     tc_before := zero_state\<lparr>
       ts_mod2 := 1, ts_space_x := map (\<lambda>k. TestSpaceX + of_nat k) [0..<TestSpaceSize],
       ts_r := (replicate 8 0)[0 := TestSpaceX + of_nat i + 0xF0], ts_mod1 := push_bit 13 (of_nat legacy),
       ts_ar := [push_bit 5 (of_nat step_mode) OR push_bit 8 (of_nat offset_mode), 0],
       ts_cfgi := (sign_extend 5 (of_nat step) AND 0x7F) OR push_bit 7 (of_nat md)\<rparr>\<rparr>"

text \<open>The third step mode is left out; every other round takes one step, a random one of five bits.\<close>

definition mod_rounds :: "(nat \<times> nat \<times> nat \<times> nat) list" where
  "mod_rounds = [(i, legacy, offset_mode, step_mode).
     i \<leftarrow> [0..<0x20], legacy \<leftarrow> [0..<2], offset_mode \<leftarrow> [0..<4], step_mode \<leftarrow> [0..<8], step_mode \<noteq> 3]"

definition mod_cases :: "(nat \<Rightarrow> nat) \<Rightarrow> test_case list" where
  "mod_cases rand = [mod_case i legacy offset_mode step_mode (rand k mod 0x20) md.
     (k, i, legacy, offset_mode, step_mode) \<leftarrow> enumerate 0 mod_rounds, md \<leftarrow> [0..<0x10]]"

definition mod_main :: "(nat \<Rightarrow> nat) \<Rightarrow> nat \<Rightarrow> bool \<Rightarrow> (nat \<Rightarrow> bool) \<Rightarrow> int \<times> test_case list" where
  "mod_main rand = directed_main (mod_cases rand)"

section \<open>What the steps by two test\<close>

lemma decode_step2: "decode 0xDFE9 = Inr (inst 0xDF80 [At 7 0] (\<lambda>x. load_stepj (x 0)))"
  by (rule decode_inst)
    (simp_all add: decode_table_def load_table_def matches_shape matcher_shape_inst inst_shape_def at_mask_def
      mask_eq_exp_minus_1)

lemma written_until: "write_until (\<lambda>_. True) tcs written = (0, written @ tcs)"
  by (induction tcs arbitrary: written) simp_all

lemma step2_case_in:
  "legacy < 2 \<Longrightarrow> 4 \<le> step \<Longrightarrow> step < 8 \<Longrightarrow> md < 0x200 \<Longrightarrow> r < 0x20 \<Longrightarrow>
   step2_case legacy step md r \<in> set step2_cases"
  unfolding step2_cases_def
  by (simp del: upt_rec_numeral)
    (intro bexI [of _ legacy] bexI [of _ step] bexI [of _ md] imageI, simp_all)

lemma step2_case_wf: "state_wf (tc_before (step2_case legacy step md r))"
  by (simp add: step2_case_def zero_state_def state_wf_def state_shape_def acc40_numerals)

lemma seen_stepj:
  assumes "mc_sys s1 = mc_sys s" and "mc_regs s1 = (mc_regs s)\<lparr>rg_ip := rg_ip (mc_regs s), rg_pc := pc, rg_stepj := v\<rparr>"
    and "rg_modj (mc_regs s) = 0"
  shows "seen s1 = (seen s)\<lparr>ts_cfgj := v\<rparr>"
  using assms(3)
  by (simp add: seen_def observed_def window_def data_word_def get_lc_def lc_index_def frame_at_def setting_defs assms(1, 2)
      del: upt_rec_numeral)

lemma loaded_modj: "rg_modj (loaded_registers s) = drop_bit 7 (ts_cfgj s) AND 0x1FF"
  by (simp add: loaded_defs mask_eq_exp_minus_1)

section \<open>Properties\<close>

text \<open>
  C23: The test cases for steps by two do not step an address register. Their opcode is the one that
  loads an immediate into stepj, for the interpreter and for the disassembler, not the step of r0 that the
  comment names: on every case, from any machine with no interrupt pending, the cycle returns and changes nothing that is
  seen but the low bits of cfgj, and r0 is the one of the case.
\<close>

theorem step2_cases_load_stepj:
  assumes "tc \<in> set step2_cases" and "sys_miu (mc_sys s) = miu_reset"
    and "mc_interrupt_pending s = [False, False, False]" and "\<not> mc_vinterrupt_pending s"
  shows "\<exists>s0 s1. load_case tc s = Inr ((), s0) \<and> run_one s0 = Inr ((), s1) \<and>
    seen s1 = (held_state (tc_before tc))\<lparr>ts_cfgj := 0x69\<rparr> \<and> ts_r (seen s1) = ts_r (tc_before tc)"
proof -
  obtain legacy step md r where tc: "tc = step2_case legacy step md r"
    using assms(1) by (auto simp: step2_cases_def simp del: upt_rec_numeral)
  have shape: "state_shape (tc_before tc)"
    using step2_case_wf unfolding tc state_wf_def by blast
  obtain m where m: "load_case tc s = Inr ((), s\<lparr>mc_regs := loaded_registers (tc_before tc), mc_sys := (mc_sys s)\<lparr>sys_memory := m\<rparr>\<rparr>)"
      (is "_ = Inr ((), ?s0)")
    "\<forall>(a, v) \<in> set (space_writes (tc_before tc)). data_read_mem miu_reset a m = Inr v"
    "program_read 0 m = Inr (tc_opcode tc)"
    by (rule load_case_ok [OF shape assms(2)])
  let ?r = "loaded_registers (tc_before tc)"
  have code: "tc_opcode tc = 0xDFE9"
    by (simp add: tc step2_case_def)
  have step: "signed16 7 (57321 AND 127) AND 127 = 0x69"
    by (simp add: signed16_def sign_extend_def mask_eq_exp_minus_1)
  have "\<exists>s1. run_one ?s0 = Inr ((), s1) \<and> mc_sys s1 = mc_sys ?s0 \<and>
      mc_regs s1 = ?r\<lparr>rg_ip := rg_ip ?r, rg_pc := 1, rg_stepj := 0x69\<rparr>"
    using m(3) assms(3, 4) step
    by (simp add: run_one_def latch_interrupts_def fetch_instruction_def fetch_word_def rget_def rupd_def on_regs_def
      loaded_rest loaded_loop Let_def code mem_program_read_def decode_step2 at_mask_def mask_eq_exp_minus_1
      inst_def call_matcher_def matches_def load_stepj_def at_extract_def step_rep_def step_block_repeat_def take_interrupt_def)
  then obtain s1 where s1: "run_one ?s0 = Inr ((), s1)" "mc_sys s1 = mc_sys ?s0"
    "mc_regs s1 = ?r\<lparr>rg_ip := rg_ip ?r, rg_pc := 1, rg_stepj := 0x69\<rparr>"
    by blast
  have "seen ?s0 = held_state (tc_before tc)"
    by (rule seen_loaded [OF shape]) (use m(2) in simp_all)
  moreover have "seen s1 = (seen ?s0)\<lparr>ts_cfgj := 0x69\<rparr>"
    by (rule seen_stepj [OF s1(2)]) (use s1(3) in \<open>simp_all add: loaded_modj tc step2_case_def zero_state_def\<close>)
  ultimately show ?thesis
    using m(1) s1(1) by (auto simp: held_state_def)
qed

lemma step2_cases_load_stepj_witness:
  "\<exists>s0 s1. load_case (step2_case 0 4 3 1) machine_example = Inr ((), s0) \<and> run_one s0 = Inr ((), s1) \<and>
     ts_cfgj (seen s1) = 0x69 \<and> ts_r (seen s1) = [0x483A, 0, 0, 0, 0, 0, 0, 0]"
proof -
  have "step2_case 0 4 3 1 \<in> set step2_cases"
    by (rule step2_case_in) simp_all
  then show ?thesis
    using step2_cases_load_stepj [of "step2_case 0 4 3 1" machine_example]
    by (auto simp: machine_example_def system_example_def step2_case_def numeral_eq_Suc)
qed

section \<open>What the modulo cases configure\<close>

lemma loaded_steps:
  "rg_arstep (loaded_registers s) = [drop_bit 5 (ts_ar s ! 0) AND 7, ts_ar s ! 0 AND 7,
     drop_bit 5 (ts_ar s ! 1) AND 7, ts_ar s ! 1 AND 7]"
  "rg_aroffset (loaded_registers s) = [drop_bit 8 (ts_ar s ! 0) AND 3, drop_bit 3 (ts_ar s ! 0) AND 3,
     drop_bit 8 (ts_ar s ! 1) AND 3, drop_bit 3 (ts_ar s ! 1) AND 3]"
  "rg_modi (loaded_registers s) = drop_bit 7 (ts_cfgi s) AND 0x1FF"
  "rg_stepi (loaded_registers s) = ts_cfgi s AND 0x7F"
  "rg_cmd (loaded_registers s) = drop_bit 13 (ts_mod1 s) AND 1"
  by (simp_all add: loaded_defs mask_eq_exp_minus_1)

lemma mod_rounds_in:
  "(i, legacy, offset_mode, step_mode) \<in> set mod_rounds \<longleftrightarrow>
   i < 0x20 \<and> legacy < 2 \<and> offset_mode < 4 \<and> step_mode < 8 \<and> step_mode \<noteq> 3"
  unfolding mod_rounds_def set_concat set_map set_upt by auto

text \<open>
  Once a case is loaded, modulo addressing is on for r0 and bit reversal off, the first indirect operand is
  r0 with the offset and the step mode of the round, and the step, the modulus and the version of
  the address unit are those of the case.
\<close>

lemma field_of_nat:
  assumes "n < 2 ^ k" and "k + p \<le> 16"
  shows "drop_bit p (push_bit p (of_nat n)) AND mask k = (of_nat n :: u16)"
proof -
  have "drop_bit p (push_bit p w) AND mask k = w AND mask k" for w :: u16
    using assms(2) by (intro bit_word_eqI) (auto simp: bit_simps)
  also have "(of_nat n :: u16) AND mask k = of_nat (take_bit k n)"
    by (simp add: take_bit_of_nat flip: take_bit_eq_mask)
  finally show ?thesis
    using assms(1) by (simp add: take_bit_nat_eq_self)
qed

lemma ar_fields_of_nat:
  assumes "offset_mode < 4" and "step_mode < 8"
  shows "drop_bit 5 (push_bit 5 (of_nat step_mode) OR push_bit 8 (of_nat offset_mode)) AND 7 = (of_nat step_mode :: u16)"
    and "drop_bit 8 (push_bit 5 (of_nat step_mode) OR push_bit 8 (of_nat offset_mode)) AND 3 = (of_nat offset_mode :: u16)"
    and "drop_bit 13 (push_bit 5 (of_nat step_mode) OR push_bit 8 (of_nat offset_mode)) AND 7 = (0 :: u16)"
proof -
  have "offset_mode \<in> {0, 1, 2, 3}" "step_mode \<in> {0, 1, 2, 3, 4, 5, 6, 7}"
    using assms by auto
  then show "drop_bit 5 (push_bit 5 (of_nat step_mode) OR push_bit 8 (of_nat offset_mode)) AND 7 = (of_nat step_mode :: u16)"
    "drop_bit 8 (push_bit 5 (of_nat step_mode) OR push_bit 8 (of_nat offset_mode)) AND 3 = (of_nat offset_mode :: u16)"
    "drop_bit 13 (push_bit 5 (of_nat step_mode) OR push_bit 8 (of_nat offset_mode)) AND 7 = (0 :: u16)"
    by auto
qed

lemma cfg_fields:
  "drop_bit 7 ((v AND 0x7F) OR push_bit 7 w) AND 0x1FF = drop_bit 7 (push_bit 7 w) AND (mask 9 :: u16)"
  "((v AND 0x7F) OR push_bit 7 w) AND 0x7F = (v AND 0x7F :: u16)"
proof -
  have m: "(0x7F :: u16) = mask 7" "(0x1FF :: u16) = mask 9"
    by (simp_all add: mask_eq_exp_minus_1)
  show "drop_bit 7 ((v AND 0x7F) OR push_bit 7 w) AND 0x1FF = drop_bit 7 (push_bit 7 w) AND (mask 9 :: u16)"
    "((v AND 0x7F) OR push_bit 7 w) AND 0x7F = (v AND 0x7F :: u16)"
    unfolding m by (rule bit_word_eqI; auto simp: bit_simps)+
qed

lemma mod_case_configures:
  assumes "legacy < 2" and "offset_mode < 4" and "step_mode < 8" and "md < 0x10"
    and "r = loaded_registers (tc_before (mod_case i legacy offset_mode step_mode step md))"
  shows "rg_m r ! 0 = 1 \<and> rg_br r ! 0 = 0 \<and> get_ar_rn_unit 0 r = 0 \<and>
    rg_arstep r ! 0 = of_nat step_mode \<and> get_ar_offset 0 r = of_nat offset_mode \<and>
    rg_modi r = of_nat md \<and> rg_stepi r = sign_extend 5 (of_nat step) AND 0x7F \<and> rg_cmd r = of_nat legacy \<and>
    rg_r r ! 0 = TestSpaceX + of_nat i + 0xF0"
  using assms(1, 4) ar_fields_of_nat [OF assms(2, 3)] field_of_nat [of legacy 1 13]
    field_of_nat [of md 9 7, unfolded mask_eq_exp_minus_1]
  unfolding assms(5)
  by (simp add: mod_case_def zero_case_def zero_state_def loaded_modes loaded_indirect loaded_steps loaded_plain
      get_ar_rn_unit_def get_ar_offset_def cfg_fields)

end
