(* ===== verification/Coff_File.thy ===== *)
theory Coff_File
  imports Dsp1_File
begin

unbundle bit_operations_syntax

text \<open>
  src/src/coff_reader/coff.h: the reader of COFF object files. A file is the list of its bytes, read at
  positions as \<open>fseek\<close> and \<open>fread\<close> do on a little-endian host with 64-bit sizes; reading past the end fails.

  The C strings the code throws, the exception of \<open>unordered_map::at\<close>, and accesses out of a vector are
  errors. \<open>std::sort\<close> and \<open>std::partition\<close> leave the order of equal elements open: they are
  arguments of the reader, of which only what the standard promises is used.
\<close>

section \<open>Errors\<close>

datatype coff_error = Threw string | NoSuchKey | Fault teakra_error

type_synonym 'a coff_result = "coff_error + 'a"

definition cbind :: "'a coff_result \<Rightarrow> ('a \<Rightarrow> 'b coff_result) \<Rightarrow> 'b coff_result" where
  "cbind m f = (case m of Inl e \<Rightarrow> Inl e | Inr x \<Rightarrow> f x)"

definition cassert :: "string \<Rightarrow> bool \<Rightarrow> unit coff_result" where
  "cassert message b = (if b then Inr () else Inl (Threw message))"

definition at_index :: "'a list \<Rightarrow> nat \<Rightarrow> 'a coff_result" where
  "at_index xs i = (if i < length xs then Inr (xs ! i) else Inl (Fault OutOfBounds))"

lemma cbind_simps [simp]:
  "cbind (Inl e) f = Inl e"
  "cbind (Inr x) f = f x"
  by (simp_all add: cbind_def)

lemma cbind_Inr_iff: "cbind m f = Inr y \<longleftrightarrow> (\<exists>x. m = Inr x \<and> f x = Inr y)"
  by (cases m) auto

lemma cassert_iff [simp]: "cassert message b = Inr u \<longleftrightarrow> b"
  by (simp add: cassert_def)

lemma at_index_iff: "at_index xs i = Inr x \<longleftrightarrow> i < length xs \<and> xs ! i = x"
  by (simp add: at_index_def)

section \<open>Records of the file\<close>

definition read_record :: "u8 list \<Rightarrow> nat \<Rightarrow> nat \<Rightarrow> string \<Rightarrow> u8 list coff_result" where
  "read_record raw pos count message =
     (if pos + count \<le> length raw then Inr (take count (drop pos raw)) else Inl (Threw message))"

record coff_header =
  ch_magic :: u16
  ch_num_section :: u16
  ch_time :: u32
  ch_offset_symbol :: u32
  ch_num_symbol :: u32
  ch_optheader_size :: u16
  ch_flags :: u16

definition coff_header_of :: "u8 list \<Rightarrow> coff_header" where
  "coff_header_of b = \<lparr>ch_magic = u16_at b 0, ch_num_section = u16_at b 2, ch_time = u32_at b 4,
     ch_offset_symbol = u32_at b 8, ch_num_symbol = u32_at b 12, ch_optheader_size = u16_at b 16,
     ch_flags = u16_at b 18\<rparr>"

record section_header =
  sh_name :: "u8 list"
  sh_prog_addr :: u32
  sh_data_addr :: u32
  sh_size :: u32
  sh_offset_data :: u32
  sh_offset_rel :: u32
  sh_offset_line :: u32
  sh_num_rel :: u16
  sh_num_line :: u16
  sh_flags :: u32

definition section_header_of :: "u8 list \<Rightarrow> section_header" where
  "section_header_of b = \<lparr>sh_name = take 8 b, sh_prog_addr = u32_at b 8, sh_data_addr = u32_at b 12,
     sh_size = u32_at b 16, sh_offset_data = u32_at b 20, sh_offset_rel = u32_at b 24,
     sh_offset_line = u32_at b 28, sh_num_rel = u16_at b 32, sh_num_line = u16_at b 34,
     sh_flags = u32_at b 36\<rparr>"

record coff_symbol =
  sy_name :: "u8 list"
  sy_value :: u32
  sy_section_index :: u16
  sy_type :: u16
  sy_storage :: u8
  sy_num_aux :: u8

definition coff_symbol_of :: "u8 list \<Rightarrow> coff_symbol" where
  "coff_symbol_of b = \<lparr>sy_name = take 8 b, sy_value = u32_at b 8, sy_section_index = u16_at b 12,
     sy_type = u16_at b 14, sy_storage = b ! 16, sy_num_aux = b ! 17\<rparr>"

record relocation =
  rl_addr :: u32
  rl_symbol :: u32
  rl_type :: u32

definition relocation_of :: "u8 list \<Rightarrow> relocation" where
  "relocation_of b = \<lparr>rl_addr = u32_at b 0, rl_symbol = u32_at b 4, rl_type = u32_at b 8\<rparr>"

abbreviation SFlag_Exec :: u32 where "SFlag_Exec \<equiv> 0x0001"
abbreviation SFlag_Prog :: u32 where "SFlag_Prog \<equiv> 0x0008"
abbreviation SFlag_Data :: u32 where "SFlag_Data \<equiv> 0x0010"
abbreviation SFlag_RegionMask :: u32 where "SFlag_RegionMask \<equiv> 0x0018"
abbreviation SFlag_Dupl :: u32 where "SFlag_Dupl \<equiv> 0x0080"

section \<open>Names\<close>

text \<open>A name of up to eight characters in place, or the index of a string in the table at the end of the file.\<close>

definition characters :: "u8 list \<Rightarrow> string" where
  "characters b = map (\<lambda>c. char_of (unat c)) (takeWhile (\<lambda>c. c \<noteq> 0) b)"

definition name_get :: "u8 list \<Rightarrow> string + u32" where
  "name_get value = (if u32_at value 0 = 0 then Inr (u32_at value 4) else Inl (characters value))"

definition string_at :: "u8 list \<Rightarrow> nat \<Rightarrow> string coff_result" where
  "string_at raw pos =
     (if 0 \<in> set (drop pos raw) then Inr (characters (drop pos raw)) else Inl (Threw ''unexpected end''))"

definition name_get_string :: "u8 list \<Rightarrow> u32 \<Rightarrow> u8 list \<Rightarrow> string coff_result" where
  "name_get_string raw offset value =
     (case name_get value of Inr i \<Rightarrow> string_at raw (unat (offset + i)) | Inl s \<Rightarrow> Inr s)"

section \<open>Sections\<close>

text \<open>A map from addresses to vectors is the list of what was inserted, in the order of insertion.\<close>

record line_entry =
  ln_symbol :: u32
  ln_line :: u16

record coff_section =
  cs_name :: string
  cs_prog_addr :: u32
  cs_data_addr :: u32
  cs_data :: "u8 list"
  cs_num_rel :: u16
  cs_flags :: u32
  cs_line_numbers :: "(u32 \<times> line_entry) list"
  cs_relocations :: "(u32 \<times> relocation) list"

definition entries_at :: "u32 \<Rightarrow> (u32 \<times> 'a) list \<Rightarrow> 'a list" where
  "entries_at addr m = map snd (filter (\<lambda>(a, x). a = addr) m)"

text \<open>The entries of line numbers: one with line 0 names the symbol of those that follow.\<close>

fun read_lines :: "u8 list \<Rightarrow> u32 \<Rightarrow> nat \<Rightarrow> nat \<Rightarrow> nat \<Rightarrow> u32 \<Rightarrow> (u32 \<times> line_entry) list coff_result" where
  "read_lines raw prog_addr count pos 0 current_symbol = Inr []"
| "read_lines raw prog_addr count pos (Suc n) current_symbol =
     cbind (read_record raw pos 6 ''failed to read line'') (\<lambda>b.
       let addr = u32_at b 0; line = u16_at b 4 in
       if line = 0 then read_lines raw prog_addr count (pos + 6) n addr
       else if (addr < prog_addr \<or> unat prog_addr + count div 2 \<le> unat addr) \<and>
         addr \<noteq> 0xFFFFFFFF \<and> addr \<noteq> 0xFFFFFFFE \<and> addr \<noteq> 0xFFFFFFFD
       then Inl (Threw ''line out of range'')
       else cbind (read_lines raw prog_addr count (pos + 6) n current_symbol) (\<lambda>rest.
              Inr ((addr, \<lparr>ln_symbol = current_symbol, ln_line = line\<rparr>) # rest)))"

fun read_relocations :: "u8 list \<Rightarrow> nat \<Rightarrow> nat \<Rightarrow> (u32 \<times> relocation) list coff_result" where
  "read_relocations raw pos 0 = Inr []"
| "read_relocations raw pos (Suc n) =
     cbind (read_record raw pos 12 ''failed to read relocation'') (\<lambda>b.
     cbind (read_relocations raw (pos + 12) n) (\<lambda>rest.
       Inr ((rl_addr (relocation_of b), relocation_of b) # rest)))"

text \<open>The data of a section, which one marked as a duplicate does not have in the file, and the offset expected of the next one.\<close>

definition read_section_data :: "u8 list \<Rightarrow> section_header \<Rightarrow> u32 \<Rightarrow> (u8 list \<times> u32) coff_result" where
  "read_section_data raw sh expected =
     (if sh_flags sh AND SFlag_Dupl = 0 then
        cbind (if sh_size sh \<noteq> 0
               then read_record raw (unat (sh_offset_data sh)) (unat (sh_size sh)) ''failed to read section''
               else Inr []) (\<lambda>data.
          Inr (data, expected + sh_size sh))
      else Inr (replicate (unat (sh_size sh)) 0, expected))"

definition check_region :: "section_header \<Rightarrow> unit coff_result" where
  "check_region sh =
     (let region = sh_flags sh AND SFlag_RegionMask in
      if region = 0 then Inl (Threw ''no region type'')
      else if region = SFlag_Prog then cassert ''prog section has data addr'' (sh_data_addr sh = 0)
      else if region = SFlag_Data then cassert ''data section has prog addr'' (sh_prog_addr sh = 0)
      else Inr ())"

definition read_section :: "u8 list \<Rightarrow> coff_header \<Rightarrow> u32 \<Rightarrow> nat \<Rightarrow> u32 \<Rightarrow> (coff_section \<times> u32) coff_result" where
  "read_section raw header string_offset i expected =
     cbind (read_record raw (20 + unat (ch_optheader_size header) + i * 40) 40 ''failed to read sheader'') (\<lambda>b.
     let sh = section_header_of b in
     cbind (name_get_string raw string_offset (sh_name sh)) (\<lambda>name.
     let expected = (if expected = 0 then sh_offset_data sh else expected) in
     cbind (cassert '''' (expected = sh_offset_data sh)) (\<lambda>_.
     cbind (read_section_data raw sh expected) (\<lambda>(data, expected).
     cbind (check_region sh) (\<lambda>_.
     cbind (read_lines raw (sh_prog_addr sh) (length data) (unat (sh_offset_line sh)) (unat (sh_num_line sh)) 0) (\<lambda>lines.
     cbind (read_relocations raw (unat (sh_offset_rel sh)) (unat (sh_num_rel sh))) (\<lambda>relocations.
       Inr (\<lparr>cs_name = name, cs_prog_addr = sh_prog_addr sh, cs_data_addr = sh_data_addr sh,
              cs_data = data, cs_num_rel = sh_num_rel sh, cs_flags = sh_flags sh,
              cs_line_numbers = lines, cs_relocations = relocations\<rparr>, expected))))))))"

fun read_sections :: "u8 list \<Rightarrow> coff_header \<Rightarrow> u32 \<Rightarrow> nat list \<Rightarrow> u32 \<Rightarrow> coff_section list coff_result" where
  "read_sections raw header string_offset [] expected = Inr []"
| "read_sections raw header string_offset (i # is) expected =
     cbind (read_section raw header string_offset i expected) (\<lambda>(s, expected).
     cbind (read_sections raw header string_offset is expected) (\<lambda>ss. Inr (s # ss)))"

section \<open>Symbols\<close>

datatype region = Region_Aux | Region_Absolute | Region_Prog | Region_Data

record symbol_ex =
  se_name :: string
  se_region :: region
  se_value :: u32
  se_type :: u16
  se_storage :: u8

text \<open>The symbols, the table from addresses to indices of symbols, and the lines that are printed.\<close>

record symbol_table =
  st_symbols :: "symbol_ex list"
  st_lut :: "(u32 \<times> nat) list"
  st_printed :: "string list"

text \<open>The formats \<open>%0nX\<close>.\<close>

definition upper_digit :: "char \<Rightarrow> char" where
  "upper_digit c = (if 97 \<le> (of_char c :: nat) then char_of ((of_char c :: nat) - 32) else c)"

definition hex_text :: "nat \<Rightarrow> 'a::len word \<Rightarrow> string" where
  "hex_text width v = pad_left width (map upper_digit (digits 16 (unat v)))"

definition symbol_line :: "coff_symbol \<Rightarrow> string" where
  "symbol_line sy = ''value = '' @ hex_text 8 (sy_value sy) @ '', section = '' @ hex_text 4 (sy_section_index sy) @
     '', type = '' @ hex_text 4 (sy_type sy) @ '', storage = '' @ hex_text 2 (sy_storage sy) @
     '', aux = '' @ hex_text 2 (sy_num_aux sy)"

text \<open>The region and the address of a symbol: those of its section, if its index names one.\<close>

definition symbol_place :: "coff_section list \<Rightarrow> coff_symbol \<Rightarrow> (region \<times> u32) coff_result" where
  "symbol_place sections sy =
     (if 0 < sy_section_index sy \<and> sy_section_index sy < 0x7FFF then
        cbind (at_index sections (unat (sy_section_index sy - 1))) (\<lambda>s.
          if cs_flags s AND SFlag_Prog \<noteq> 0 then Inr (Region_Prog, sy_value sy + cs_prog_addr s)
          else Inr (Region_Data, sy_value sy + cs_data_addr s))
      else Inr (Region_Absolute, sy_value sy))"

definition add_symbol :: "symbol_ex \<Rightarrow> nat \<Rightarrow> string list \<Rightarrow> symbol_table \<Rightarrow> symbol_table" where
  "add_symbol se num_aux printed st = \<lparr>
     st_symbols = st_symbols st @ se # replicate num_aux (se\<lparr>se_region := Region_Aux\<rparr>),
     st_lut = st_lut st @ (if se_region se = Region_Prog \<or> se_region se = Region_Data
                           then [(se_value se, length (st_symbols st))] else []),
     st_printed = st_printed st @ printed\<rparr>"

definition read_symbol ::
    "u8 list \<Rightarrow> coff_header \<Rightarrow> u32 \<Rightarrow> coff_section list \<Rightarrow> u32 \<Rightarrow> symbol_table \<Rightarrow> (u8 \<times> symbol_table) coff_result" where
  "read_symbol raw header string_offset sections i st =
     cbind (read_record raw (unat (ch_offset_symbol header) + unat i * 18) 18 ''failed to read symbol'') (\<lambda>b.
     let sy = coff_symbol_of b in
     cbind (name_get_string raw string_offset (sy_name sy)) (\<lambda>name.
     cbind (symbol_place sections sy) (\<lambda>(region, value).
       Inr (sy_num_aux sy,
            add_symbol \<lparr>se_name = name, se_region = region, se_value = value, se_type = sy_type sy,
                         se_storage = sy_storage sy\<rparr>
              (unat (sy_num_aux sy)) [name, symbol_line sy] st))))"

text \<open>The index is a 32-bit number, so the loop over the symbols need not end.\<close>

partial_function (option) read_symbols ::
    "u8 list \<Rightarrow> coff_header \<Rightarrow> u32 \<Rightarrow> coff_section list \<Rightarrow> u32 \<Rightarrow> symbol_table \<Rightarrow> symbol_table coff_result option" where
  [code]: "read_symbols raw header string_offset sections i st =
     (if \<not> i < ch_num_symbol header then Some (Inr st)
      else case read_symbol raw header string_offset sections i st of
             Inl e \<Rightarrow> Some (Inl e)
           | Inr (num_aux, st') \<Rightarrow>
               read_symbols raw header string_offset sections (i + ucast num_aux + 1) st')"

section \<open>Arranging the sections\<close>

text \<open>The order of strings, by their characters as unsigned numbers.\<close>

fun string_less :: "string \<Rightarrow> string \<Rightarrow> bool" where
  "string_less s [] = False"
| "string_less [] (b # bs) = True"
| "string_less (a # as) (b # bs) =
     ((of_char a :: nat) < of_char b \<or> a = b \<and> string_less as bs)"

definition duplicate_before :: "coff_section \<Rightarrow> coff_section \<Rightarrow> bool" where
  "duplicate_before left right =
     (let lm = cs_flags left AND SFlag_Dupl; rm = cs_flags right AND SFlag_Dupl in
      if lm = rm then string_less (cs_name left) (cs_name right) else lm < rm)"

definition check_duplicate :: "coff_section \<Rightarrow> coff_section \<Rightarrow> unit coff_result" where
  "check_duplicate a b =
     (if cs_name a \<noteq> cs_name b \<or> cs_prog_addr a \<noteq> cs_prog_addr b \<or> cs_data_addr a \<noteq> cs_data_addr b \<or>
         length (cs_data a) \<noteq> length (cs_data b) \<or> cs_flags a + SFlag_Dupl \<noteq> cs_flags b
      then Inl (Threw ''mismatch'')
      else if cs_line_numbers b \<noteq> [] then Inl (Threw ''dup has line numbers'')
      else if cs_num_rel b \<noteq> 0 then Inl (Threw ''dup has relocations'')
      else Inr ())"

fun check_duplicates :: "(coff_section \<times> coff_section) list \<Rightarrow> unit coff_result" where
  "check_duplicates [] = Inr ()"
| "check_duplicates ((a, b) # pairs) = cbind (check_duplicate a b) (\<lambda>_. check_duplicates pairs)"

definition merge_duplicates :: "coff_section list \<Rightarrow> coff_section list coff_result" where
  "merge_duplicates sections =
     (let mid = length sections div 2 in
      cbind (check_duplicates (zip (take mid sections) (drop mid sections))) (\<lambda>_. Inr (take mid sections)))"

type_synonym sorter = "(coff_section \<Rightarrow> coff_section \<Rightarrow> bool) \<Rightarrow> coff_section list \<Rightarrow> coff_section list"
type_synonym partitioner = "(coff_section \<Rightarrow> bool) \<Rightarrow> coff_section list \<Rightarrow> coff_section list \<times> coff_section list"

definition separate_regions :: "partitioner \<Rightarrow> coff_section list \<Rightarrow> coff_section list" where
  "separate_regions partition_by sections =
     (let (one, both) = partition_by (\<lambda>s. cs_flags s AND SFlag_RegionMask \<noteq> SFlag_RegionMask) sections in
      one @ map (\<lambda>s. s\<lparr>cs_flags := cs_flags s AND NOT SFlag_Prog, cs_prog_addr := 0\<rparr>) both @
      map (\<lambda>s. s\<lparr>cs_flags := cs_flags s AND NOT SFlag_Data, cs_data_addr := 0\<rparr>) both)"

definition in_prog :: "coff_section \<Rightarrow> bool" where
  "in_prog s \<longleftrightarrow> cs_flags s AND SFlag_RegionMask = SFlag_Prog"

definition address_before :: "coff_section \<Rightarrow> coff_section \<Rightarrow> bool" where
  "address_before left right =
     (if in_prog left then
        if in_prog right then
          if cs_prog_addr left = cs_prog_addr right then length (cs_data left) < length (cs_data right)
          else cs_prog_addr left < cs_prog_addr right
        else True
      else
        if in_prog right then False
        else if cs_data_addr left = cs_data_addr right then length (cs_data left) < length (cs_data right)
        else cs_data_addr left < cs_data_addr right)"

record coff =
  co_sections :: "coff_section list"
  co_symbols :: "symbol_ex list"
  co_lut :: "(u32 \<times> nat) list"
  co_printed :: "string list"

definition empty_table :: symbol_table where
  "empty_table = \<lparr>st_symbols = [], st_lut = [], st_printed = []\<rparr>"

definition read_coff :: "sorter \<Rightarrow> partitioner \<Rightarrow> u8 list \<Rightarrow> coff coff_result" where
  "read_coff sort_by partition_by raw =
     cbind (read_record raw 0 20 ''failed to read header'') (\<lambda>b.
     let header = coff_header_of b;
         string_offset = ch_offset_symbol header + ch_num_symbol header * 18 in
     cbind (read_sections raw header string_offset [0..<unat (ch_num_section header)] 0) (\<lambda>sections.
     cbind (case read_symbols raw header string_offset sections 0 empty_table of
              None \<Rightarrow> Inl (Fault Diverges) | Some r \<Rightarrow> r) (\<lambda>st.
     cbind (merge_duplicates (sort_by duplicate_before sections)) (\<lambda>merged.
       Inr \<lparr>co_sections = sort_by address_before (separate_regions partition_by merged),
             co_symbols = st_symbols st, co_lut = st_lut st, co_printed = st_printed st\<rparr>))))"

end
