(* ===== verification/Coff_Listing.thy ===== *)
theory Coff_Listing
  imports Coff_File
begin

unbundle bit_operations_syntax

text \<open>
  src/src/coff_reader/main.cpp: the program that lists the sections of a COFF file word by word, with the symbols,
  the line numbers and the relocations of each address, and the disassembly of the words that are code.
  A listing is a list of items; \<open>item_text\<close> is how each of them is printed.
\<close>

section \<open>Items\<close>

datatype code = Plain | Broken_Expansion | Instruction "u16 option" string

datatype item =
    Section_Item string bool u32 u32
  | Symbol_Item string string
  | Line_Item u16 string string
  | Word_Item u32 u16 code "(u32 \<times> string \<times> string) list"

definition storage_names :: "(nat \<times> string) list" where
  "storage_names = [
     (0, ''label''), (1, ''auto''), (2, ''external''), (3, ''static''), (4, ''register''), (8, ''struct''),
     (9, ''arg''), (10, ''struct-tag''), (11, ''union''), (12, ''union-tag''), (13, ''typedef''),
     (15, ''enum-tag''), (16, ''enum''), (18, ''bitfield''), (19, ''auto-arg''), (98, ''start''),
     (99, ''end''), (100, ''block''), (101, ''func''), (102, ''struct-size''), (103, ''file''),
     (107, ''ar''), (108, ''ar''), (109, ''ar''), (110, ''ar''), (111, ''ar''), (112, ''ar''),
     (255, ''physical-function-end'')]"

definition storage_name :: "u8 \<Rightarrow> string coff_result" where
  "storage_name storage =
     (case map_of storage_names (unat storage) of None \<Rightarrow> Inl NoSuchKey | Some name \<Rightarrow> Inr name)"

definition reference_text :: "string \<Rightarrow> string \<Rightarrow> string" where
  "reference_text storage name = ''$['' @ storage @ '']'' @ name"

definition code_text :: "code \<Rightarrow> string" where
  "code_text c = (case c of
     Plain \<Rightarrow> []
   | Broken_Expansion \<Rightarrow> ''[broken expansion]''
   | Instruction expansion dsm \<Rightarrow>
       (case expansion of None \<Rightarrow> ''      '' | Some v \<Rightarrow> '' '' @ hex_text 4 v @ '' '') @ dsm @ ''  ;'')"

definition item_text :: "item \<Rightarrow> string" where
  "item_text item = (case item of
     Section_Item name is_prog addr flags \<Rightarrow>
       ''\<newline>===Section===\<newline>name: '' @ name @ ''\<newline>addr: '' @ (if is_prog then ''Prog'' else ''Data'') @ ''.'' @
       hex_text 8 addr @ ''\<newline>flag: '' @ hex_text 8 flags @ ''\<newline>\<newline>''
   | Symbol_Item storage name \<Rightarrow> reference_text storage name @ ''\<newline>''
   | Line_Item line storage name \<Rightarrow>
       ''#'' @ to_string (unat line) @ '' + '' @ reference_text storage name @ ''\<newline>''
   | Word_Item addr v code relocations \<Rightarrow>
       ''.'' @ hex_text 8 addr @ ''    '' @ hex_text 4 v @ code_text code @
       concat (map (\<lambda>(type, storage, name).
         ''{@'' @ hex_text 8 type @ '' + '' @ reference_text storage name @ ''}'') relocations) @ ''\<newline>'')"

section \<open>What stands at an address\<close>

text \<open>A symbol of the table with the name of its storage class.\<close>

definition named_symbol :: "coff \<Rightarrow> nat \<Rightarrow> (string \<times> string) coff_result" where
  "named_symbol co i =
     cbind (at_index (co_symbols co) i) (\<lambda>se.
     cbind (storage_name (se_storage se)) (\<lambda>storage. Inr (storage, se_name se)))"

text \<open>The predicate of \<open>std::find_if\<close>, which throws where the table does not fit the symbols.\<close>

definition stands_at :: "bool \<Rightarrow> u32 \<Rightarrow> symbol_ex \<Rightarrow> bool coff_result" where
  "stands_at is_prog current_addr se =
     (if se_region se = Region_Absolute \<or> se_region se = Region_Aux then Inl (Threw ''what'')
      else if se_region se = Region_Prog \<and> \<not> is_prog then Inr False
      else if se_region se = Region_Data \<and> is_prog then Inr False
      else if se_value se \<noteq> current_addr then Inl (Threw ''what'')
      else Inr True)"

fun symbol_items :: "coff \<Rightarrow> bool \<Rightarrow> u32 \<Rightarrow> nat list \<Rightarrow> item list coff_result" where
  "symbol_items co is_prog current_addr [] = Inr []"
| "symbol_items co is_prog current_addr (i # is) =
     cbind (at_index (co_symbols co) i) (\<lambda>se.
     cbind (stands_at is_prog current_addr se) (\<lambda>found.
     if found then
       cbind (named_symbol co i) (\<lambda>(storage, name).
       cbind (symbol_items co is_prog current_addr is) (\<lambda>rest. Inr (Symbol_Item storage name # rest)))
     else symbol_items co is_prog current_addr is))"

fun line_items :: "coff \<Rightarrow> line_entry list \<Rightarrow> item list coff_result" where
  "line_items co [] = Inr []"
| "line_items co (ln # lns) =
     cbind (named_symbol co (unat (ln_symbol ln))) (\<lambda>(storage, name).
     cbind (line_items co lns) (\<lambda>rest. Inr (Line_Item (ln_line ln) storage name # rest)))"

fun relocation_texts :: "coff \<Rightarrow> relocation list \<Rightarrow> (u32 \<times> string \<times> string) list coff_result" where
  "relocation_texts co [] = Inr []"
| "relocation_texts co (rl # rls) =
     cbind (named_symbol co (unat (rl_symbol rl))) (\<lambda>(storage, name).
     cbind (relocation_texts co rls) (\<lambda>rest. Inr ((rl_type rl, storage, name) # rest)))"

section \<open>A section\<close>

text \<open>What the disassembler is called for: the words, whether there are two, and the text.\<close>

definition fault :: "'a result \<Rightarrow> 'a coff_result" where
  "fault r = (case r of Inl e \<Rightarrow> Inl (Fault e) | Inr x \<Rightarrow> Inr x)"

definition code_at :: "u32 \<Rightarrow> u16 list \<Rightarrow> nat \<Rightarrow> code coff_result" where
  "code_at flags data k =
     (if flags AND SFlag_Exec = 0 then Inr Plain
      else cbind (fault (need_expansion (data ! k))) (\<lambda>expansion.
        if expansion then
          if k + 1 = length data then Inr Broken_Expansion
          else cbind (fault (disassemble (data ! k) (data ! (k + 1)) None)) (\<lambda>dsm.
                 Inr (Instruction (Some (data ! (k + 1))) dsm))
        else cbind (fault (disassemble (data ! k) 0 None)) (\<lambda>dsm. Inr (Instruction None dsm))))"

definition code_words :: "code \<Rightarrow> nat" where
  "code_words c = (case c of Instruction (Some v) dsm \<Rightarrow> 2 | _ \<Rightarrow> 1)"

function list_words :: "coff \<Rightarrow> coff_section \<Rightarrow> bool \<Rightarrow> u32 \<Rightarrow> u16 list \<Rightarrow> nat \<Rightarrow> item list coff_result" where
  "list_words co s is_prog addr data k =
     (if k < length data then
        let current_addr = of_nat k + addr in
        cbind (symbol_items co is_prog current_addr (entries_at current_addr (co_lut co))) (\<lambda>symbols.
        cbind (line_items co (entries_at current_addr (cs_line_numbers s))) (\<lambda>lines.
        cbind (code_at (cs_flags s) data k) (\<lambda>code.
        if code = Broken_Expansion then Inr (symbols @ lines @ [Word_Item current_addr (data ! k) code []])
        else
          cbind (relocation_texts co (entries_at (of_nat k) (cs_relocations s))) (\<lambda>relocations.
          cbind (list_words co s is_prog addr data (k + code_words code)) (\<lambda>rest.
            Inr (symbols @ lines @ [Word_Item current_addr (data ! k) code relocations] @ rest))))))
      else Inr [])"
  by pat_completeness auto

termination
  by (relation "measure (\<lambda>(co, s, is_prog, addr, data, k). length data - k)")
    (auto simp: code_words_def split: code.split option.split)

declare list_words.simps [simp del]

text \<open>
  The vector of words has room for half the bytes of the section, rounded down, and \<open>memcpy\<close> copies
  them all: an odd section does not fit.
\<close>

definition section_words :: "coff_section \<Rightarrow> u16 list coff_result" where
  "section_words s =
     (if length (cs_data s) div 2 * 2 < length (cs_data s) then Inl (Fault OutOfBounds)
      else Inr (map (\<lambda>k. u16_at (cs_data s) (2 * k)) [0..<length (cs_data s) div 2]))"

section \<open>The program\<close>

definition section_addr :: "coff_section \<Rightarrow> u32" where
  "section_addr s = (if in_prog s then cs_prog_addr s else cs_data_addr s)"

definition section_end :: "coff_section \<Rightarrow> u32" where
  "section_end s = section_addr s + of_nat (length (cs_data s)) div 2"

fun list_sections :: "coff \<Rightarrow> coff_section list \<Rightarrow> u32 \<Rightarrow> u32 \<Rightarrow> item list coff_result" where
  "list_sections co [] prog_grow data_grow = Inr []"
| "list_sections co (s # ss) prog_grow data_grow =
     cbind (cassert ''overlap'' (\<not> section_addr s < (if in_prog s then prog_grow else data_grow))) (\<lambda>_.
     cbind (section_words s) (\<lambda>data.
     cbind (list_words co s (in_prog s) (section_addr s) data 0) (\<lambda>items.
     cbind (if in_prog s then list_sections co ss (section_end s) data_grow
            else list_sections co ss prog_grow (section_end s)) (\<lambda>rest.
       Inr (Section_Item (cs_name s) (in_prog s) (section_addr s) (cs_flags s) # items @ rest)))))"

definition list_coff :: "coff \<Rightarrow> item list coff_result" where
  "list_coff co = list_sections co (co_sections co) 0 0"

text \<open>
  The exit code, with the lines the constructor prints and the listing. \<open>raw\<close> are the bytes of the file, if it
  opens, and \<open>out\<close> is whether the file of the listing does.
\<close>

definition coff_reader_main ::
    "sorter \<Rightarrow> partitioner \<Rightarrow> nat \<Rightarrow> u8 list option \<Rightarrow> bool \<Rightarrow> (int \<times> string list \<times> string) coff_result" where
  "coff_reader_main sort_by partition_by argc raw out =
     (if argc < 2 then Inr (- 1, [''Please input a file''], [])
      else case raw of
        None \<Rightarrow> Inr (- 1, [''Failed to open input file''], [])
      | Some bytes \<Rightarrow>
          if \<not> out then Inr (- 1, [''Failed to open output file''], [])
          else
            cbind (read_coff sort_by partition_by bytes) (\<lambda>co.
            cbind (list_coff co) (\<lambda>items.
              Inr (0, co_printed co, concat (map item_text items)))))"

end
