(* ===== verification/Coff_Sections.thy ===== *)
theory Coff_Sections
  imports Coff_Listing "HOL-Library.Multiset"
begin

unbundle bit_operations_syntax

text \<open>
  What the COFF reader makes of the sections of a file. Every pair of a section and its duplicate becomes the
  section; one that lies in both memories is split; and the sections are sorted by memory and address.
\<close>

section \<open>Sorting and partitioning\<close>

text \<open>What the standard promises of \<open>std::sort\<close> for a strict weak order, and of \<open>std::partition\<close>.\<close>

definition strict_weak :: "('a \<Rightarrow> 'a \<Rightarrow> bool) \<Rightarrow> bool" where
  "strict_weak before \<longleftrightarrow> (\<forall>a. \<not> before a a) \<and> (\<forall>a b c. before a b \<longrightarrow> before b c \<longrightarrow> before a c) \<and>
     (\<forall>a b c. \<not> before a b \<longrightarrow> \<not> before b c \<longrightarrow> \<not> before a c)"

definition sorts :: "sorter \<Rightarrow> bool" where
  "sorts sort_by \<longleftrightarrow> (\<forall>before xs. strict_weak before \<longrightarrow>
     mset (sort_by before xs) = mset xs \<and> sorted_wrt (\<lambda>a b. \<not> before b a) (sort_by before xs))"

definition partitions :: "partitioner \<Rightarrow> bool" where
  "partitions partition_by \<longleftrightarrow> (\<forall>P xs. case partition_by P xs of (ys, zs) \<Rightarrow>
     mset (ys @ zs) = mset xs \<and> list_all P ys \<and> list_all (\<lambda>x. \<not> P x) zs)"

lemma of_char_inject: "(of_char a :: nat) = of_char b \<longleftrightarrow> a = b"
  by (rule of_char_eq_iff)

lemma string_less_irrefl: "\<not> string_less a a"
  by (induction a) auto

lemma string_less_trans: "string_less a b \<Longrightarrow> string_less b c \<Longrightarrow> string_less a c"
proof (induction a b arbitrary: c rule: string_less.induct)
  case (3 x xs y ys)
  then show ?case
    by (cases c) auto
next
  case (2 b bs)
  then show ?case
    by (cases c) auto
qed auto

lemma string_less_total: "\<not> string_less a b \<Longrightarrow> a \<noteq> b \<Longrightarrow> string_less b a"
proof (induction a b rule: string_less.induct)
  case (1 s)
  then show ?case
    by (cases s) auto
next
  case (3 x xs y ys)
  then show ?case
    using of_char_inject [of x y] by (auto simp: not_less le_less)
qed simp

lemma string_less_weak: "\<not> string_less a b \<Longrightarrow> \<not> string_less b c \<Longrightarrow> \<not> string_less a c"
  using string_less_total string_less_trans by metis

lemma strict_weak_duplicate: "strict_weak duplicate_before"
  unfolding strict_weak_def duplicate_before_def Let_def
  by (intro conjI allI)
    (auto split: if_splits intro: string_less_trans dest: string_less_weak simp: string_less_irrefl)

lemma strict_weak_address: "strict_weak address_before"
  unfolding strict_weak_def address_before_def
  by (intro conjI allI) (auto split: if_splits)

lemma sorts_orders:
  assumes "sorts sort_by"
  shows "mset (sort_by duplicate_before xs) = mset xs"
    and "sorted_wrt (\<lambda>a b. \<not> duplicate_before b a) (sort_by duplicate_before xs)"
    and "mset (sort_by address_before xs) = mset xs"
    and "sorted_wrt (\<lambda>a b. \<not> address_before b a) (sort_by address_before xs)"
  using assms strict_weak_duplicate strict_weak_address unfolding sorts_def by blast+

section \<open>Duplicates\<close>

definition is_dup :: "coff_section \<Rightarrow> bool" where
  "is_dup s \<longleftrightarrow> cs_flags s AND SFlag_Dupl \<noteq> 0"

lemma and_dup: "(v :: u32) AND SFlag_Dupl = (if bit v 7 then SFlag_Dupl else 0)"
proof -
  have "v AND push_bit 7 1 = (if bit v 7 then push_bit 7 1 else 0)"
    by (rule bit_word_eqI) (auto simp: bit_simps simp del: push_bit_of_1)
  then show ?thesis
    by simp
qed

lemma bit_7_unat: "bit (v :: u32) 7 \<longleftrightarrow> odd (unat v div 128)"
proof -
  have "bit (unat v) 7 = bit v 7"
    by (simp add: bit_unsigned_iff)
  then show ?thesis
    by (simp add: bit_iff_odd)
qed

lemma dup_added: "bit (v + SFlag_Dupl :: u32) 7 \<longleftrightarrow> \<not> bit v 7"
proof (cases "unat v + 128 < 2 ^ 32")
  case True
  then have "unat (v + SFlag_Dupl) = unat v + 128"
    by (simp add: unat_word_ariths)
  moreover have "(unat v + 128) div 128 = unat v div 128 + 1"
    by (rule div_add_self2) simp
  ultimately show ?thesis
    by (simp add: bit_7_unat)
next
  case False
  then have "unat (v + SFlag_Dupl) = unat v + 128 - 2 ^ 32"
    using unat_lt_2p32 [of v] by (simp add: unat_word_ariths mod_if)
  then have "unat (v + SFlag_Dupl) div 128 = 0"
    using unat_lt_2p32 [of v] by simp
  moreover have "unat v div 128 = 33554431"
    using False unat_lt_2p32 [of v] by (intro div_nat_eqI) simp_all
  ultimately show ?thesis
    by (simp add: bit_7_unat)
qed

lemma dup_order: "\<not> duplicate_before b a \<Longrightarrow> is_dup a \<Longrightarrow> is_dup b"
  by (auto simp: duplicate_before_def is_dup_def and_dup split: if_splits)

lemma check_duplicates_iff:
  "check_duplicates pairs = Inr u \<longleftrightarrow> (\<forall>(a, b) \<in> set pairs. check_duplicate a b = Inr ())"
  by (induction pairs rule: check_duplicates.induct) (auto simp: cbind_Inr_iff)

text \<open>The sections that are kept are those without the mark, and the others are their duplicates.\<close>

lemma merge_duplicates_ok:
  assumes "merge_duplicates xs = Inr ms" and "sorted_wrt (\<lambda>a b. \<not> duplicate_before b a) xs"
  shows "set ms \<subseteq> set xs" and "\<forall>s \<in> set ms. \<not> is_dup s"
    and "length xs \<noteq> 1 \<Longrightarrow> s \<in> set xs \<Longrightarrow> \<not> is_dup s \<Longrightarrow> s \<in> set ms"
proof -
  define mid where "mid = length xs div 2"
  have ms: "ms = take mid xs" and pairs: "\<forall>(a, b) \<in> set (zip (take mid xs) (drop mid xs)). check_duplicate a b = Inr ()"
    using assms(1) unfolding merge_duplicates_def Let_def mid_def [symmetric]
    by (auto simp: cbind_Inr_iff check_duplicates_iff)
  have half: "\<not> is_dup (xs ! i) \<and> is_dup (xs ! (mid + i))" if "i < mid" for i
  proof -
    have "mid + i < length xs"
      using that by (simp add: mid_def)
    moreover have "(take mid xs ! i, drop mid xs ! i) \<in> set (zip (take mid xs) (drop mid xs))"
      using that calculation by (auto simp: in_set_zip mid_def intro!: exI [of _ i])
    ultimately have "check_duplicate (xs ! i) (xs ! (mid + i)) = Inr ()"
      using pairs that by auto
    then have "cs_flags (xs ! i) + SFlag_Dupl = cs_flags (xs ! (mid + i))"
      by (auto simp: check_duplicate_def split: if_splits)
    then have "is_dup (xs ! (mid + i)) \<longleftrightarrow> \<not> is_dup (xs ! i)"
      using dup_added [of "cs_flags (xs ! i)"] by (auto simp: is_dup_def and_dup)
    moreover have "is_dup (xs ! i) \<longrightarrow> is_dup (xs ! (mid + i))"
      using sorted_wrt_nth_less [OF assms(2), of i "mid + i"] that \<open>mid + i < length xs\<close> dup_order by auto
    ultimately show ?thesis
      by blast
  qed
  show "set ms \<subseteq> set xs"
    by (simp add: ms set_take_subset)
  show "\<forall>s \<in> set ms. \<not> is_dup s"
    using half by (auto simp: ms in_set_conv_nth mid_def)
  assume one: "length xs \<noteq> 1" and s: "s \<in> set xs" "\<not> is_dup s"
  obtain k where k: "k < length xs" "xs ! k = s"
    using s(1) by (auto simp: in_set_conv_nth)
  have "k < mid"
  proof (rule ccontr)
    assume "\<not> k < mid"
    have "is_dup (xs ! k)"
    proof (cases "k < 2 * mid")
      case True
      with half [of "k - mid"] \<open>\<not> k < mid\<close> show ?thesis
        by simp
    next
      case False
      then have "0 < mid" "mid + (mid - 1) < k"
        using one k(1) by (auto simp: mid_def)
      then show ?thesis
        using sorted_wrt_nth_less [OF assms(2), of "mid + (mid - 1)" k] k(1) half [of "mid - 1"] dup_order by auto
    qed
    with k s show False
      by simp
  qed
  with k show "s \<in> set ms"
    by (auto simp: ms in_set_conv_nth intro!: exI [of _ k])
qed

section \<open>Reading\<close>

lemma read_sections_all2:
  "read_sections raw header string_offset is expected = Inr ss \<Longrightarrow>
   list_all2 (\<lambda>i s. \<exists>e e'. read_section raw header string_offset i e = Inr (s, e')) is ss"
  by (induction raw header string_offset "is" expected arbitrary: ss rule: read_sections.induct)
    (auto simp: cbind_Inr_iff)

text \<open>The header of a section in the file, and a section that has the name, the addresses and the data it gives.\<close>

definition file_string_offset :: "coff_header \<Rightarrow> u32" where
  "file_string_offset header = ch_offset_symbol header + ch_num_symbol header * 18"

definition file_section :: "u8 list \<Rightarrow> coff_header \<Rightarrow> nat \<Rightarrow> section_header" where
  "file_section raw header i =
     section_header_of (take 40 (drop (20 + unat (ch_optheader_size header) + i * 40) raw))"

definition has_file_data :: "u8 list \<Rightarrow> coff_header \<Rightarrow> nat \<Rightarrow> coff_section \<Rightarrow> bool" where
  "has_file_data raw header i s \<longleftrightarrow>
     (let sh = file_section raw header i; p = unat (sh_offset_data sh); n = unat (sh_size sh) in
      name_get_string raw (file_string_offset header) (sh_name sh) = Inr (cs_name s) \<and>
      length (cs_data s) = n \<and> cs_data s = take n (drop p raw) \<and>
      section_addr s = (if in_prog s then sh_prog_addr sh else sh_data_addr sh))"

text \<open>A section lies in one memory, and has no address in the other one.\<close>

definition one_region :: "coff_section \<Rightarrow> bool" where
  "one_region s \<longleftrightarrow>
     (if in_prog s then cs_data_addr s = 0
      else cs_flags s AND SFlag_RegionMask = SFlag_Data \<and> cs_prog_addr s = 0)"

text \<open>What is read for one header, before the sections are arranged.\<close>

definition as_read :: "u8 list \<Rightarrow> coff_header \<Rightarrow> nat \<Rightarrow> coff_section \<Rightarrow> bool" where
  "as_read raw header i s \<longleftrightarrow>
     (let sh = file_section raw header i; p = unat (sh_offset_data sh); n = unat (sh_size sh) in
      name_get_string raw (file_string_offset header) (sh_name sh) = Inr (cs_name s) \<and>
      cs_flags s = sh_flags sh \<and> cs_prog_addr s = sh_prog_addr sh \<and> cs_data_addr s = sh_data_addr sh \<and>
      (\<not> is_dup s \<longrightarrow> length (cs_data s) = n \<and> cs_data s = take n (drop p raw)) \<and>
      cs_flags s AND SFlag_RegionMask \<noteq> 0 \<and>
      (in_prog s \<longrightarrow> cs_data_addr s = 0) \<and>
      (cs_flags s AND SFlag_RegionMask = SFlag_Data \<longrightarrow> cs_prog_addr s = 0))"

lemma read_section_data_ok:
  assumes "read_section_data raw sh e = Inr (data, e')" and "sh_flags sh AND SFlag_Dupl = 0"
  shows "length data = unat (sh_size sh)" and "data = take (unat (sh_size sh)) (drop (unat (sh_offset_data sh)) raw)"
  using assms by (auto simp: read_section_data_def cbind_Inr_iff read_record_def split: if_splits)

lemma check_region_ok:
  assumes "check_region sh = Inr u"
  shows "sh_flags sh AND SFlag_RegionMask \<noteq> 0"
    and "sh_flags sh AND SFlag_RegionMask = SFlag_Prog \<Longrightarrow> sh_data_addr sh = 0"
    and "sh_flags sh AND SFlag_RegionMask = SFlag_Data \<Longrightarrow> sh_prog_addr sh = 0"
  using assms by (auto simp: check_region_def Let_def split: if_splits)

lemma read_section_ok:
  assumes "read_section raw header (file_string_offset header) i e = Inr (s, e')"
  shows "as_read raw header i s"
proof -
  define sh where "sh = file_section raw header i"
  obtain name e1 data lines relocations u where r:
    "name_get_string raw (file_string_offset header) (sh_name sh) = Inr name"
    "read_section_data raw sh e1 = Inr (data, e')" "check_region sh = Inr u"
    "s = \<lparr>cs_name = name, cs_prog_addr = sh_prog_addr sh, cs_data_addr = sh_data_addr sh, cs_data = data,
       cs_num_rel = sh_num_rel sh, cs_flags = sh_flags sh, cs_line_numbers = lines, cs_relocations = relocations\<rparr>"
    using assms unfolding read_section_def Let_def
    by (auto simp: cbind_Inr_iff read_record_def sh_def file_section_def split: if_splits)
  show ?thesis
    using r read_section_data_ok [OF r(2)] check_region_ok [OF r(3)]
    unfolding as_read_def Let_def sh_def [symmetric] by (simp add: is_dup_def in_prog_def)
qed

section \<open>Regions\<close>

lemma region_cases: "(v :: u32) AND SFlag_RegionMask = (if bit v 3 then SFlag_Prog else 0) OR (if bit v 4 then SFlag_Data else 0)"
proof -
  have "v AND (push_bit 3 1 OR push_bit 4 1) = (if bit v 3 then push_bit 3 1 else 0) OR (if bit v 4 then push_bit 4 1 else 0)"
    by (rule bit_word_eqI) (auto simp: bit_simps simp del: push_bit_of_1)
  then show ?thesis
    by simp
qed

lemma region_bits:
  "in_prog s \<longleftrightarrow> bit (cs_flags s) 3 \<and> \<not> bit (cs_flags s) 4"
  "cs_flags s AND SFlag_RegionMask = SFlag_Data \<longleftrightarrow> \<not> bit (cs_flags s) 3 \<and> bit (cs_flags s) 4"
  "cs_flags s AND SFlag_RegionMask = SFlag_RegionMask \<longleftrightarrow> bit (cs_flags s) 3 \<and> bit (cs_flags s) 4"
  "cs_flags s AND SFlag_RegionMask = 0 \<longleftrightarrow> \<not> bit (cs_flags s) 3 \<and> \<not> bit (cs_flags s) 4"
  by (simp_all add: in_prog_def region_cases)

lemma flag_bits: "(v :: u32) AND SFlag_Prog \<noteq> 0 \<longleftrightarrow> bit v 3" "(v :: u32) AND SFlag_Data \<noteq> 0 \<longleftrightarrow> bit v 4"
  using and_exp_eq_0_iff_not_bit [of v 3] and_exp_eq_0_iff_not_bit [of v 4] by simp_all

lemma cleared_bits:
  "bit (v AND NOT SFlag_Prog :: u32) n \<longleftrightarrow> bit v n \<and> n \<noteq> 3"
  "bit (v AND NOT SFlag_Data :: u32) n \<longleftrightarrow> bit v n \<and> n \<noteq> 4"
proof -
  have p: "(SFlag_Prog :: u32) = push_bit 3 1" "(SFlag_Data :: u32) = push_bit 4 1"
    by simp_all
  show "bit (v AND NOT SFlag_Prog :: u32) n \<longleftrightarrow> bit v n \<and> n \<noteq> 3" "bit (v AND NOT SFlag_Data :: u32) n \<longleftrightarrow> bit v n \<and> n \<noteq> 4"
    unfolding p by (auto simp: bit_simps dest: bit_imp_le_length simp del: push_bit_of_1)
qed

lemmas cleared = cleared_bits cleared_bits [simplified]

lemma is_dup_bit: "is_dup s \<longleftrightarrow> bit (cs_flags s) 7"
  by (simp add: is_dup_def and_dup)

abbreviation without_prog :: "coff_section \<Rightarrow> coff_section" where
  "without_prog s \<equiv> s\<lparr>cs_flags := cs_flags s AND NOT SFlag_Prog, cs_prog_addr := 0\<rparr>"

abbreviation without_data :: "coff_section \<Rightarrow> coff_section" where
  "without_data s \<equiv> s\<lparr>cs_flags := cs_flags s AND NOT SFlag_Data, cs_data_addr := 0\<rparr>"

lemma separate_regions_set:
  assumes "partitions partition_by"
  shows "set (separate_regions partition_by ms) =
    {s \<in> set ms. \<not> (bit (cs_flags s) 3 \<and> bit (cs_flags s) 4)} \<union>
    (\<Union>s \<in> {s \<in> set ms. bit (cs_flags s) 3 \<and> bit (cs_flags s) 4}. {without_prog s, without_data s})"
proof -
  let ?P = "\<lambda>s. cs_flags s AND SFlag_RegionMask \<noteq> SFlag_RegionMask"
  obtain one both where p: "partition_by ?P ms = (one, both)"
    by fastforce
  then have q: "mset one + mset both = mset ms" "\<forall>s \<in> set one. ?P s" "\<forall>s \<in> set both. \<not> ?P s"
    using assms [unfolded partitions_def, THEN spec [of _ ?P], THEN spec [of _ ms]] by (simp_all add: list_all_iff)
  then have "set one \<union> set both = set ms"
    by (metis set_mset_mset set_mset_union)
  with q have one: "set one = {s \<in> set ms. ?P s}" and both: "set both = {s \<in> set ms. \<not> ?P s}"
    by blast+
  have "set (separate_regions partition_by ms) = set one \<union> (without_prog ` set both \<union> without_data ` set both)"
    by (simp add: separate_regions_def p)
  also have "\<dots> = set one \<union> (\<Union>s \<in> set both. {without_prog s, without_data s})"
    by blast
  finally show ?thesis
    unfolding one both region_bits(3) by simp
qed

lemma as_readD:
  assumes "as_read raw header i m" and "\<not> is_dup m"
  shows "name_get_string raw (file_string_offset header) (sh_name (file_section raw header i)) = Inr (cs_name m)"
    "cs_flags m = sh_flags (file_section raw header i)"
    "cs_prog_addr m = sh_prog_addr (file_section raw header i)" "cs_data_addr m = sh_data_addr (file_section raw header i)"
    "length (cs_data m) = unat (sh_size (file_section raw header i))"
    "cs_data m = take (unat (sh_size (file_section raw header i))) (drop (unat (sh_offset_data (file_section raw header i))) raw)"
    "cs_flags m AND SFlag_RegionMask \<noteq> 0" "in_prog m \<Longrightarrow> cs_data_addr m = 0"
    "cs_flags m AND SFlag_RegionMask = SFlag_Data \<Longrightarrow> cs_prog_addr m = 0"
  using assms unfolding as_read_def Let_def by blast+

lemma kept_section:
  assumes "as_read raw header i m" and "\<not> is_dup m" and "\<not> (bit (cs_flags m) 3 \<and> bit (cs_flags m) 4)"
  shows "one_region m \<and> has_file_data raw header i m"
proof -
  note m = as_readD [OF assms(1, 2)]
  have "one_region m"
    using m(7-9) assms(3) unfolding one_region_def by (auto simp: region_bits)
  moreover have "has_file_data raw header i m"
    using m(1, 3-5) unfolding has_file_data_def Let_def section_addr_def by (simp add: m(6) [symmetric])
  ultimately show ?thesis
    by blast
qed

lemma split_section:
  assumes "as_read raw header i m" and "\<not> is_dup m" and "bit (cs_flags m) 3 \<and> bit (cs_flags m) 4"
  shows "\<not> in_prog (without_prog m)" "one_region (without_prog m)" "has_file_data raw header i (without_prog m)"
    "\<not> is_dup (without_prog m)" "in_prog (without_data m)" "one_region (without_data m)"
    "has_file_data raw header i (without_data m)" "\<not> is_dup (without_data m)"
proof -
  note m = as_readD [OF assms(1, 2)]
  show bits: "\<not> in_prog (without_prog m)" "one_region (without_prog m)" "\<not> is_dup (without_prog m)"
    "in_prog (without_data m)" "one_region (without_data m)" "\<not> is_dup (without_data m)"
  proof -
    have "cs_flags (without_prog m) AND SFlag_RegionMask = SFlag_Data"
      unfolding region_bits using assms(3) by (simp add: cleared)
    then show "\<not> in_prog (without_prog m)" "one_region (without_prog m)"
      using assms(3) by (simp_all add: one_region_def in_prog_def)
    show "\<not> is_dup (without_prog m)" "in_prog (without_data m)" "one_region (without_data m)" "\<not> is_dup (without_data m)"
      using assms(2, 3) by (simp_all add: one_region_def region_bits is_dup_bit cleared)
  qed
  show "has_file_data raw header i (without_prog m)" "has_file_data raw header i (without_data m)"
    using bits m(1, 3-5) unfolding has_file_data_def Let_def section_addr_def
    by (simp_all add: m(6) [symmetric])
qed

text \<open>The sections of a reader that returns, by way of the sections as they are read.\<close>

lemma read_coff_ok:
  assumes "read_coff sort_by partition_by raw = Inr co" and "header = coff_header_of (take 20 raw)"
  obtains sections st merged where
    "list_all2 (as_read raw header) [0..<unat (ch_num_section header)] sections"
    "read_symbols raw header (file_string_offset header) sections 0 empty_table = Some (Inr st)"
    "merge_duplicates (sort_by duplicate_before sections) = Inr merged"
    "co_sections co = sort_by address_before (separate_regions partition_by merged)"
    "co_symbols co = st_symbols st" "co_lut co = st_lut st"
proof -
  obtain sections st merged where r:
    "read_sections raw header (file_string_offset header) [0..<unat (ch_num_section header)] 0 = Inr sections"
    "(case read_symbols raw header (file_string_offset header) sections 0 empty_table of
       None \<Rightarrow> Inl (Fault Diverges) | Some r \<Rightarrow> r) = Inr st"
    "merge_duplicates (sort_by duplicate_before sections) = Inr merged"
    "co = \<lparr>co_sections = sort_by address_before (separate_regions partition_by merged),
             co_symbols = st_symbols st, co_lut = st_lut st, co_printed = st_printed st\<rparr>"
    using assms(1) unfolding read_coff_def Let_def
    by (auto simp: cbind_Inr_iff read_record_def assms(2) file_string_offset_def split: if_splits)
  have "list_all2 (as_read raw header) [0..<unat (ch_num_section header)] sections"
    using read_sections_all2 [OF r(1)] by (rule list_all2_mono) (auto dest: read_section_ok)
  with r show thesis
    by (intro that [of sections st merged]) (auto split: option.splits)
qed

lemma list_all2_set:
  assumes "list_all2 P [0..<n] ss"
  shows "s \<in> set ss \<Longrightarrow> \<exists>i < n. P i s" and "i < n \<Longrightarrow> \<exists>s \<in> set ss. P i s"
  using assms by (auto simp: list_all2_conv_all_nth in_set_conv_nth intro!: bexI [of _ "ss ! i"])

section \<open>An example\<close>

text \<open>Insertion sort and two filters keep the promises; the file has one section in both memories, its duplicate, and one symbol.\<close>

fun insert_by :: "('a \<Rightarrow> 'a \<Rightarrow> bool) \<Rightarrow> 'a \<Rightarrow> 'a list \<Rightarrow> 'a list" where
  "insert_by before x [] = [x]"
| "insert_by before x (y # ys) = (if before y x then y # insert_by before x ys else x # y # ys)"

definition insertion_sort :: sorter where
  "insertion_sort before xs = foldr (insert_by before) xs []"

definition two_filters :: partitioner where
  "two_filters P xs = (filter P xs, filter (\<lambda>x. \<not> P x) xs)"

lemma mset_insert_by: "mset (insert_by before x ys) = add_mset x (mset ys)"
  by (induction ys) auto

lemma set_insert_by: "set (insert_by before x ys) = insert x (set ys)"
  using mset_insert_by [of before x ys] by (metis set_mset_add_mset_insert set_mset_mset)

lemma sorted_insert_by:
  assumes "strict_weak before" and "sorted_wrt (\<lambda>a b. \<not> before b a) ys"
  shows "sorted_wrt (\<lambda>a b. \<not> before b a) (insert_by before x ys)"
  using assms(2)
proof (induction ys)
  case (Cons y ys)
  have "\<not> before z x" if "\<not> before y x" "z \<in> set ys" for z
    using that Cons.prems assms(1) unfolding strict_weak_def by (metis list.set_intros(2) sorted_wrt.simps(2))
  moreover have "\<not> before x y" if "before y x"
    using that assms(1) unfolding strict_weak_def by blast
  ultimately show ?case
    using Cons by (auto simp: set_insert_by)
qed simp

lemma insertion_sort_sorts: "sorts insertion_sort"
proof -
  have "mset (insertion_sort before xs) = mset xs" for before xs
    by (induction xs) (simp_all add: insertion_sort_def mset_insert_by)
  moreover have "sorted_wrt (\<lambda>a b. \<not> before b a) (insertion_sort before xs)" if "strict_weak before" for before xs
    by (induction xs) (simp_all add: insertion_sort_def sorted_insert_by [OF that])
  ultimately show ?thesis
    by (simp add: sorts_def)
qed

lemma two_filters_partitions: "partitions two_filters"
  by (simp add: partitions_def two_filters_def list_all_iff flip: multiset_partition)

definition coff_example :: "u8 list" where
  "coff_example = concat [
     le16 0, le16 2, le32 0, le32 104, le32 1, le16 0, le16 0,
     [0x61, 0, 0, 0, 0, 0, 0, 0], le32 0x100, le32 0x200, le32 4, le32 100, le32 0, le32 0, le16 0, le16 0, le32 0x18,
     [0x61, 0, 0, 0, 0, 0, 0, 0], le32 0x100, le32 0x200, le32 4, le32 104, le32 0, le32 0, le16 0, le16 0, le32 0x98,
     [1, 2, 3, 4],
     [0x6D, 0, 0, 0, 0, 0, 0, 0], le32 1, le16 1, le16 0, [2, 0]]"

definition coff_of_example :: coff where
  "coff_of_example = \<lparr>
     co_sections = [
       \<lparr>cs_name = ''a'', cs_prog_addr = 0x100, cs_data_addr = 0, cs_data = [1, 2, 3, 4], cs_num_rel = 0,
         cs_flags = 0x8, cs_line_numbers = [], cs_relocations = []\<rparr>,
       \<lparr>cs_name = ''a'', cs_prog_addr = 0, cs_data_addr = 0x200, cs_data = [1, 2, 3, 4], cs_num_rel = 0,
         cs_flags = 0x10, cs_line_numbers = [], cs_relocations = []\<rparr>],
     co_symbols = [\<lparr>se_name = ''m'', se_region = Region_Prog, se_value = 0x101, se_type = 0, se_storage = 2\<rparr>],
     co_lut = [(0x101, 0)],
     co_printed = [''m'', ''value = 00000001, section = 0001, type = 0000, storage = 02, aux = 00'']\<rparr>"

lemma read_coff_example: "read_coff insertion_sort two_filters coff_example = Inr coff_of_example"
  by code_simp

section \<open>Properties\<close>



end
