(* ===== verification/Coff_Symbols.thy ===== *)
theory Coff_Symbols
  imports Coff_Sections
begin

unbundle bit_operations_syntax

text \<open>
  The symbols of the COFF reader and the listing: the table from addresses to symbols, the end of the loop over the
  symbols, and the words and addresses that are listed.
\<close>

section \<open>Errors that do not occur\<close>

definition avoids :: "coff_error \<Rightarrow> 'a coff_result \<Rightarrow> bool" where
  "avoids e r \<longleftrightarrow> r \<noteq> Inl e"

lemma avoids_simps [simp]:
  "avoids e (Inr x)" "avoids e (Inl e') \<longleftrightarrow> e' \<noteq> e"
  by (simp_all add: avoids_def)

lemma avoids_cbind: "avoids e m \<Longrightarrow> (\<And>x. m = Inr x \<Longrightarrow> avoids e (f x)) \<Longrightarrow> avoids e (cbind m f)"
  by (cases m) simp_all

lemma avoids_if: "(b \<Longrightarrow> avoids e m) \<Longrightarrow> (\<not> b \<Longrightarrow> avoids e n) \<Longrightarrow> avoids e (if b then m else n)"
  by simp

lemma avoids_prod: "(\<And>a b. avoids e (f a b)) \<Longrightarrow> avoids e (case p of (a, b) \<Rightarrow> f a b)"
  by (cases p) simp

lemma avoids_basic [simp]:
  "message \<noteq> message' \<Longrightarrow> avoids (Threw message) (cassert message' b)"
  "avoids (Threw message) (at_index xs i)"
  "avoids (Threw message) (fault r)"
  "avoids (Fault f) (cassert message' b)"
  "f \<noteq> OutOfBounds \<Longrightarrow> avoids (Fault f) (at_index xs i)"
  "avoids (Fault f) (read_record raw pos n message')"
  by (auto simp: avoids_def cassert_def at_index_def fault_def read_record_def split: sum.splits if_splits)

lemmas avoids_rules = avoids_cbind avoids_if avoids_prod

section \<open>The loop over the symbols ends\<close>

lemma read_symbol_fits:
  assumes "read_symbol raw header string_offset sections i st = Inr r"
  shows "unat i * 18 + 18 \<le> length raw"
  using assms by (auto simp: read_symbol_def cbind_Inr_iff read_record_def split: if_splits)

lemma read_symbols_return:
  assumes "length raw < 2 ^ 32"
  shows "\<exists>r. read_symbols raw header string_offset sections i st = Some r"
proof (induction "unat (ch_num_symbol header) - unat i" arbitrary: i st rule: less_induct)
  case less
  show ?case
  proof (cases "i < ch_num_symbol header")
    case True
    show ?thesis
    proof (cases "read_symbol raw header string_offset sections i st")
      case (Inl e)
      with True show ?thesis
        by (subst read_symbols.simps) simp
    next
      case (Inr r)
      obtain num_aux st' where r: "r = (num_aux, st')"
        by (cases r)
      have "unat num_aux < 256"
        using unat_below [of num_aux] by simp
      moreover from this have "unat (ucast num_aux :: u32) = unat num_aux"
        by (simp add: unsigned_ucast_eq take_bit_nat_eq_self)
      ultimately have "unat (i + ucast num_aux + 1) = unat i + unat num_aux + 1"
        using read_symbol_fits [OF Inr] assms by (simp add: unat_word_ariths)
      then have "unat (ch_num_symbol header) - unat (i + ucast num_aux + 1) < unat (ch_num_symbol header) - unat i"
        using True by (simp add: word_less_nat_alt)
      from less [OF this, of st'] show ?thesis
        using True Inr r by (subst read_symbols.simps) simp
    qed
  qed (subst read_symbols.simps, simp)
qed

lemma avoids_string_at: "avoids (Fault f) (string_at raw pos)"
  by (simp add: string_at_def)

lemma avoids_name: "avoids (Fault f) (name_get_string raw offset value)"
  by (simp add: name_get_string_def avoids_string_at split: sum.split)

lemma avoids_read_lines: "avoids (Fault f) (read_lines raw prog_addr size' pos n current)"
  by (induction n arbitrary: pos current) (auto simp: Let_def simp del: not_less intro!: avoids_cbind avoids_if)

lemma avoids_read_relocations: "avoids (Fault f) (read_relocations raw pos n)"
  by (induction n arbitrary: pos) (auto intro!: avoids_rules)

lemma avoids_read_section: "avoids (Fault f) (read_section raw header string_offset i e)"
  unfolding read_section_def Let_def read_section_data_def check_region_def
  by (auto intro!: avoids_rules avoids_name avoids_read_lines avoids_read_relocations)

lemma avoids_read_sections: "avoids (Fault f) (read_sections raw header string_offset is e)"
  by (induction raw header string_offset "is" e rule: read_sections.induct)
    (auto intro!: avoids_rules avoids_read_section)

lemma avoids_read_symbol: "f \<noteq> OutOfBounds \<Longrightarrow> avoids (Fault f) (read_symbol raw header string_offset sections i st)"
  unfolding read_symbol_def Let_def symbol_place_def
  by (auto intro!: avoids_rules avoids_name)

lemma avoids_read_symbols:
  assumes "read_symbols raw header string_offset sections i st = Some r" and "f \<noteq> OutOfBounds"
  shows "avoids (Fault f) r"
proof (rule read_symbols.raw_induct [OF _ assms(1), of "\<lambda>_ _ _ _ _ _ r. avoids (Fault f) r"], goal_cases)
  case (1 recurse raw header string_offset sections i st r)
  then show ?case
    using avoids_read_symbol [OF assms(2), of raw header string_offset sections i st]
    by (auto split: if_splits sum.splits prod.splits)
qed

lemma avoids_merge: "avoids (Fault f) (merge_duplicates xs)"
proof -
  have "avoids (Fault f) (check_duplicates pairs)" for pairs
    by (induction pairs rule: check_duplicates.induct) (auto simp: check_duplicate_def intro!: avoids_rules)
  then show ?thesis
    unfolding merge_duplicates_def Let_def by (auto intro!: avoids_rules)
qed

section \<open>The table from addresses to symbols\<close>

text \<open>The symbols of a region that stand for an address, in the order of the table of symbols.\<close>

definition located :: "symbol_ex \<Rightarrow> bool" where
  "located se \<longleftrightarrow> se_region se = Region_Prog \<or> se_region se = Region_Data"

definition symbols_at :: "(symbol_ex \<Rightarrow> bool) \<Rightarrow> u32 \<Rightarrow> symbol_ex list \<Rightarrow> nat list" where
  "symbols_at P addr ses = filter (\<lambda>k. P (ses ! k) \<and> se_value (ses ! k) = addr) [0..<length ses]"

lemma symbols_at_append:
  "symbols_at P addr (ses @ ses') = symbols_at P addr ses @ map (\<lambda>k. length ses + k) (symbols_at P addr ses')"
proof -
  have "[length ses..<length ses + length ses'] = map (\<lambda>k. length ses + k) [0..<length ses']"
    by (simp add: map_add_upt add.commute)
  then show ?thesis
    by (simp add: symbols_at_def upt_add_eq_append [of 0] filter_map comp_def nth_append)
      (rule filter_cong; simp)
qed

lemma symbols_at_none: "\<forall>se \<in> set ses. \<not> P se \<Longrightarrow> symbols_at P addr ses = []"
  by (simp add: symbols_at_def filter_empty_conv)

definition table_ok :: "symbol_table \<Rightarrow> bool" where
  "table_ok st \<longleftrightarrow> (\<forall>addr. entries_at addr (st_lut st) = symbols_at located addr (st_symbols st))"

lemma table_ok_empty: "table_ok empty_table"
  by (simp add: table_ok_def empty_table_def entries_at_def symbols_at_def)

lemma table_ok_add: "table_ok st \<Longrightarrow> table_ok (add_symbol se n printed st)"
proof -
  have "symbols_at located addr (se # replicate n (se\<lparr>se_region := Region_Aux\<rparr>)) = (if located se \<and> se_value se = addr then [0] else [])" for addr
    using symbols_at_append [of located addr "[se]" "replicate n (se\<lparr>se_region := Region_Aux\<rparr>)"]
      symbols_at_none [of "replicate n (se\<lparr>se_region := Region_Aux\<rparr>)" located addr]
    by (simp add: located_def symbols_at_def)
  then show "table_ok st \<Longrightarrow> table_ok (add_symbol se n printed st)"
    by (auto simp: table_ok_def add_symbol_def symbols_at_append entries_at_def located_def)
qed

lemma table_ok_read_symbol:
  "read_symbol raw header string_offset sections i st = Inr (num_aux, st') \<Longrightarrow> table_ok st \<Longrightarrow> table_ok st'"
  by (auto simp: read_symbol_def cbind_Inr_iff Let_def dest: table_ok_add)

lemma table_ok_read:
  assumes "read_symbols raw header string_offset sections i st = Some r" and "table_ok st"
  shows "case r of Inl e \<Rightarrow> True | Inr st' \<Rightarrow> table_ok st'"
proof -
  have "table_ok st \<longrightarrow> (case r of Inl e \<Rightarrow> True | Inr st' \<Rightarrow> table_ok st')"
  proof (rule read_symbols.raw_induct [OF _ assms(1), of "\<lambda>_ _ _ _ _ st r. table_ok st \<longrightarrow> (case r of Inl e \<Rightarrow> True | Inr st' \<Rightarrow> table_ok st')"], goal_cases)
    case (1 recurse raw header string_offset sections i st r)
    from 1(2) show ?case
      using table_ok_read_symbol [of raw header string_offset sections i st]
      by (auto split: if_splits sum.splits prod.splits dest!: 1(1))
  qed
  with assms(2) show ?thesis
    by blast
qed

lemma read_coff_lut:
  assumes "read_coff sort_by partition_by raw = Inr co"
  shows "entries_at addr (co_lut co) = symbols_at located addr (co_symbols co)"
proof -
  obtain ss st where "read_symbols raw (coff_header_of (take 20 raw)) (file_string_offset (coff_header_of (take 20 raw))) ss 0 empty_table
      = Some (Inr st)" "co_symbols co = st_symbols st" "co_lut co = st_lut st"
    using read_coff_ok [OF assms refl] by metis
  with table_ok_read [OF this(1) table_ok_empty] show ?thesis
    by (simp add: table_ok_def)
qed

text \<open>The items of a list of symbols.\<close>

fun name_items :: "coff \<Rightarrow> nat list \<Rightarrow> item list coff_result" where
  "name_items co [] = Inr []"
| "name_items co (i # is) =
     cbind (named_symbol co i) (\<lambda>(storage, name).
     cbind (name_items co is) (\<lambda>rest. Inr (Symbol_Item storage name # rest)))"

definition in_region :: "bool \<Rightarrow> symbol_ex \<Rightarrow> bool" where
  "in_region is_prog se \<longleftrightarrow> se_region se = (if is_prog then Region_Prog else Region_Data)"

lemma symbol_items_filter:
  assumes "\<forall>i \<in> set is. i < length (co_symbols co) \<and> located (co_symbols co ! i) \<and> se_value (co_symbols co ! i) = addr"
  shows "symbol_items co is_prog addr is = name_items co (filter (\<lambda>i. in_region is_prog (co_symbols co ! i)) is)"
  using assms
proof (induction "is")
  case (Cons i "is")
  then have "stands_at is_prog addr (co_symbols co ! i) = Inr (in_region is_prog (co_symbols co ! i))"
    by (auto simp: stands_at_def located_def in_region_def)
  with Cons show ?case
    by (simp add: at_index_def)
qed simp

lemma filter_symbols_at:
  "filter (\<lambda>i. Q (ses ! i)) (symbols_at P addr ses) = symbols_at (\<lambda>se. P se \<and> Q se) addr ses"
  by (simp add: symbols_at_def conj_commute conj_left_commute)

lemma located_in_region: "(\<lambda>se. located se \<and> in_region is_prog se) = in_region is_prog"
  by (auto simp: located_def in_region_def fun_eq_iff)

lemma symbol_items_ok:
  assumes "read_coff sort_by partition_by raw = Inr co"
  shows "symbol_items co is_prog addr (entries_at addr (co_lut co)) =
    name_items co (symbols_at (in_region is_prog) addr (co_symbols co))"
proof -
  have "\<forall>i \<in> set (entries_at addr (co_lut co)). i < length (co_symbols co) \<and> located (co_symbols co ! i) \<and> se_value (co_symbols co ! i) = addr"
    by (auto simp: read_coff_lut [OF assms] symbols_at_def)
  from symbol_items_filter [OF this] show ?thesis
    by (simp add: read_coff_lut [OF assms] filter_symbols_at located_in_region)
qed

lemma avoids_named: "avoids (Threw message) (named_symbol co i)"
  unfolding named_symbol_def storage_name_def by (auto intro!: avoids_cbind split: option.split)

lemma avoids_name_items: "avoids (Threw message) (name_items co is)"
  by (induction "is") (auto intro!: avoids_rules avoids_named)

lemma avoids_line_items: "avoids (Threw message) (line_items co lns)"
  by (induction lns) (auto intro!: avoids_rules avoids_named)

lemma avoids_relocation_texts: "avoids (Threw message) (relocation_texts co rls)"
  by (induction rls) (auto intro!: avoids_rules avoids_named)

lemma avoids_code_at: "avoids (Threw message) (code_at flags data k)"
  unfolding code_at_def by (auto intro!: avoids_rules)

lemma avoids_list_words:
  assumes "\<And>addr. avoids (Threw message) (symbol_items co is_prog addr (entries_at addr (co_lut co)))"
  shows "avoids (Threw message) (list_words co s is_prog addr data k)"
proof (induction "length data - k" arbitrary: k rule: less_induct)
  case less
  have "avoids (Threw message) (list_words co s is_prog addr data (k + code_words c))" if "k < length data" for c
    by (rule less) (use that in \<open>auto simp: code_words_def split: code.split option.split\<close>)
  then show ?case
    by (subst list_words.simps)
      (auto simp: Let_def intro!: avoids_rules assms avoids_line_items avoids_code_at avoids_relocation_texts)
qed

lemma avoids_list_sections:
  assumes "\<And>is_prog addr. avoids (Threw message) (symbol_items co is_prog addr (entries_at addr (co_lut co)))"
    and "message \<noteq> ''overlap''"
  shows "avoids (Threw message) (list_sections co ss prog_grow data_grow)"
proof (induction ss arbitrary: prog_grow data_grow)
  case (Cons s ss)
  have "avoids (Threw message) (section_words s)"
    by (simp add: section_words_def)
  with Cons assms show ?case
    unfolding list_sections.simps by (intro avoids_rules avoids_list_words) simp_all
qed simp

end
