(* ===== verification/Coff_Reader.thy ===== *)
theory Coff_Reader
  imports Coff_Symbols
begin

unbundle bit_operations_syntax

text \<open>
  What the COFF lister as a whole promises: which failures remain, which symbols it shows at an address, and that it
  shows every word once.
\<close>

section \<open>The failures\<close>

lemma disassembler_faultless: "avoids (Fault f) (fault (need_expansion w))" "avoids (Fault f) (fault (disassemble w v settings))"
proof -
  obtain m where "dsm_decode w = Inr m"
    by (rule dsm_decode_agrees)
  then show "avoids (Fault f) (fault (need_expansion w))"
    by (simp add: need_expansion_def fault_def)
  obtain ts where "get_token_list w v settings = Inr ts"
    by (rule get_token_list_total)
  then show "avoids (Fault f) (fault (disassemble w v settings))"
    by (simp add: disassemble_def fault_def)
qed

lemma avoids_named_fault: "f \<noteq> OutOfBounds \<Longrightarrow> avoids (Fault f) (named_symbol co i)"
  unfolding named_symbol_def storage_name_def by (auto intro!: avoids_cbind split: option.split)

lemma avoids_items_fault:
  assumes "f \<noteq> OutOfBounds"
  shows "avoids (Fault f) (symbol_items co is_prog addr is)" "avoids (Fault f) (line_items co lns)"
    "avoids (Fault f) (relocation_texts co rls)" "avoids (Fault f) (code_at flags data k)"
proof -
  show "avoids (Fault f) (symbol_items co is_prog addr is)"
    by (induction "is") (use assms in \<open>auto simp: stands_at_def intro!: avoids_rules avoids_named_fault\<close>)
  show "avoids (Fault f) (line_items co lns)"
    by (induction lns) (use assms in \<open>auto intro!: avoids_rules avoids_named_fault\<close>)
  show "avoids (Fault f) (relocation_texts co rls)"
    by (induction rls) (use assms in \<open>auto intro!: avoids_rules avoids_named_fault\<close>)
  show "avoids (Fault f) (code_at flags data k)"
    unfolding code_at_def by (auto intro!: avoids_rules disassembler_faultless)
qed

lemma avoids_list_words_fault:
  assumes "f \<noteq> OutOfBounds"
  shows "avoids (Fault f) (list_words co s is_prog addr data k)"
proof (induction "length data - k" arbitrary: k rule: less_induct)
  case less
  have "avoids (Fault f) (list_words co s is_prog addr data (k + code_words c))" if "k < length data" for c
    by (rule less) (use that in \<open>auto simp: code_words_def split: code.split option.split\<close>)
  then show ?case
    by (subst list_words.simps) (auto simp: Let_def intro!: avoids_rules avoids_items_fault assms)
qed

lemma avoids_list_sections_fault:
  assumes "f \<noteq> OutOfBounds"
  shows "avoids (Fault f) (list_sections co ss prog_grow data_grow)"
proof (induction ss arbitrary: prog_grow data_grow)
  case (Cons s ss)
  have "avoids (Fault f) (section_words s)"
    using assms by (simp add: section_words_def)
  with Cons assms show ?case
    unfolding list_sections.simps by (intro avoids_rules avoids_list_words_fault) simp_all
qed simp

lemma avoids_read_coff:
  assumes "length raw < 2 ^ 32" and "f \<noteq> OutOfBounds"
  shows "avoids (Fault f) (read_coff sort_by partition_by raw)"
proof -
  have "avoids (Fault f) (case read_symbols raw header string_offset sections 0 empty_table of
      None \<Rightarrow> Inl (Fault Diverges) | Some r \<Rightarrow> r)" for header string_offset sections
    using read_symbols_return [OF assms(1), of header string_offset sections 0 empty_table]
    by (auto dest: avoids_read_symbols [OF _ assms(2)])
  then show ?thesis
    unfolding read_coff_def Let_def
    by (auto intro!: avoids_rules avoids_read_sections avoids_merge)
qed

section \<open>The words of a listing\<close>

text \<open>The memory, the address and the value of every word that is shown, the second words of instructions included.\<close>

fun listed_words :: "bool \<Rightarrow> item list \<Rightarrow> (bool \<times> u32 \<times> u16) list" where
  "listed_words is_prog [] = []"
| "listed_words is_prog (Section_Item name p addr flags # items) = listed_words p items"
| "listed_words is_prog (Symbol_Item storage name # items) = listed_words is_prog items"
| "listed_words is_prog (Line_Item line storage name # items) = listed_words is_prog items"
| "listed_words is_prog (Word_Item addr v code relocations # items) =
     (is_prog, addr, v) # (case code of Instruction (Some w) dsm \<Rightarrow> [(is_prog, addr + 1, w)] | _ \<Rightarrow> []) @
     listed_words is_prog items"

fun inside_section :: "item \<Rightarrow> bool" where
  "inside_section (Section_Item name p addr flags) = False"
| "inside_section _ = True"

lemma listed_words_append:
  "list_all inside_section items \<Longrightarrow> listed_words p (items @ items') = listed_words p items @ listed_words p items'"
  by (induction p items rule: listed_words.induct) auto

definition section_listing :: "coff_section \<Rightarrow> (bool \<times> u32 \<times> u16) list" where
  "section_listing s = map (\<lambda>k. (in_prog s, section_addr s + of_nat k, u16_at (cs_data s) (2 * k)))
     [0..<length (cs_data s) div 2]"

lemma symbol_items_plain:
  "symbol_items co is_prog addr is = Inr items \<Longrightarrow> list_all inside_section items \<and> listed_words p items = []"
  by (induction "is" arbitrary: items) (auto simp: cbind_Inr_iff split: if_splits)

lemma line_items_plain:
  "line_items co lns = Inr items \<Longrightarrow> list_all inside_section items \<and> listed_words p items = []"
  by (induction lns arbitrary: items) (auto simp: cbind_Inr_iff)

lemma code_at_words:
  assumes "code_at flags data k = Inr code" and "k < length data"
  shows "code = Broken_Expansion \<Longrightarrow> k + 1 = length data" and "k + code_words code \<le> length data"
  using assms by (auto simp: code_at_def cbind_Inr_iff code_words_def split: if_splits)

lemma code_at_shown:
  assumes "code_at flags data k = Inr code" and "k < length data"
  shows "(addr + of_nat k, data ! k) # (case code of Instruction (Some w) dsm \<Rightarrow> [(addr + of_nat k + 1, w)] | _ \<Rightarrow> []) =
    map (\<lambda>j. (addr + of_nat j :: u32, data ! j)) [k..<k + code_words code]"
proof -
  have one: "[k..<k + 1] = [k]" and two: "[k..<k + 2] = [k, k + 1]"
    by (simp_all add: upt_conv_Cons)
  have "code = Plain \<or> code = Broken_Expansion \<or> (\<exists>dsm. code = Instruction None dsm) \<or>
      (\<exists>dsm. code = Instruction (Some (data ! (k + 1))) dsm)"
    using assms(1) by (auto simp: code_at_def cbind_Inr_iff split: if_splits)
  then show ?thesis
    by (elim disjE exE) (simp_all add: code_words_def one [simplified] two [simplified] add.assoc add.commute [of 1])
qed

lemma list_words_listed:
  "list_words co s is_prog addr data k = Inr items \<Longrightarrow> k \<le> length data \<Longrightarrow>
   list_all inside_section items \<and>
   listed_words p items = map (\<lambda>j. (p, addr + of_nat j, data ! j)) [k..<length data]"
proof (induction "length data - k" arbitrary: k items rule: less_induct)
  case less
  show ?case
  proof (cases "k < length data")
    case False
    with less.prems show ?thesis
      by (subst (asm) list_words.simps) simp
  next
    case True
    let ?addr = "of_nat k + addr"
    obtain symbols lines code where r:
      "symbol_items co is_prog ?addr (entries_at ?addr (co_lut co)) = Inr symbols"
      "line_items co (entries_at ?addr (cs_line_numbers s)) = Inr lines"
      "code_at (cs_flags s) data k = Inr code"
      "if code = Broken_Expansion then items = symbols @ lines @ [Word_Item ?addr (data ! k) code []]
       else \<exists>relocations rest. list_words co s is_prog addr data (k + code_words code) = Inr rest \<and>
         items = symbols @ lines @ [Word_Item ?addr (data ! k) code relocations] @ rest"
      using less.prems(1) True by (subst (asm) list_words.simps) (auto simp: Let_def cbind_Inr_iff split: if_splits)
    note plain = symbol_items_plain [OF r(1), of p] line_items_plain [OF r(2), of p]
    note words = code_at_words [OF r(3) True]
    have shown: "listed_words p (Word_Item ?addr (data ! k) code relocations # rest) =
        map (\<lambda>j. (p, addr + of_nat j, data ! j)) [k..<k + code_words code] @ listed_words p rest" for relocations rest
      using arg_cong [OF code_at_shown [OF r(3) True, of addr], of "map (Pair p)"]
      by (cases code) (auto simp: comp_def ac_simps split: option.splits)
    show ?thesis
    proof (cases "code = Broken_Expansion")
      case True
      with r(4) plain words(1) shown [of "[]" "[]"] show ?thesis
        by (simp add: listed_words_append code_words_def)
    next
      case False
      then obtain relocations rest where
        rest: "list_words co s is_prog addr data (k + code_words code) = Inr rest"
        and items: "items = symbols @ lines @ [Word_Item ?addr (data ! k) code relocations] @ rest"
        using r(4) by auto
      have "0 < code_words code"
        by (simp add: code_words_def split: code.split option.split)
      then have "list_all inside_section rest \<and>
          listed_words p rest = map (\<lambda>j. (p, addr + of_nat j, data ! j)) [k + code_words code..<length data]"
        using less.hyps [OF _ rest words(2)] True by simp
      moreover have "[k..<length data] = [k..<k + code_words code] @ [k + code_words code..<length data]"
        using words(2) by (metis le_add_diff_inverse upt_add_eq_append le_add1)
      ultimately show ?thesis
        using items plain shown [of relocations rest] by (simp add: listed_words_append)
    qed
  qed
qed

lemma section_words_ok:
  assumes "section_words s = Inr data"
  shows "even (length (cs_data s))" and "length data = length (cs_data s) div 2"
    and "j < length data \<Longrightarrow> data ! j = u16_at (cs_data s) (2 * j)"
proof -
  have *: "\<not> length (cs_data s) div 2 * 2 < length (cs_data s)"
    "data = map (\<lambda>k. u16_at (cs_data s) (2 * k)) [0..<length (cs_data s) div 2]"
    using assms by (auto simp: section_words_def split: if_splits)
  then show "even (length (cs_data s))"
    by (metis dvd_triv_right le_neq_implies_less div_times_less_eq_dividend)
  show "length data = length (cs_data s) div 2" "j < length data \<Longrightarrow> data ! j = u16_at (cs_data s) (2 * j)"
    by (simp_all add: *(2))
qed

lemma list_sections_listed:
  "list_sections co ss prog_grow data_grow = Inr items \<Longrightarrow>
   listed_words p items = concat (map section_listing ss) \<and> (\<forall>s \<in> set ss. even (length (cs_data s)))"
proof (induction ss arbitrary: prog_grow data_grow items p)
  case (Cons s ss)
  then obtain data words rest where r: "section_words s = Inr data"
    "list_words co s (in_prog s) (section_addr s) data 0 = Inr words"
    "(if in_prog s then list_sections co ss (section_end s) data_grow else list_sections co ss prog_grow (section_end s)) = Inr rest"
    "items = Section_Item (cs_name s) (in_prog s) (section_addr s) (cs_flags s) # words @ rest"
    by (auto simp: cbind_Inr_iff)
  note data = section_words_ok [OF r(1)]
  have "list_all inside_section words \<and> listed_words (in_prog s) words = section_listing s"
    using list_words_listed [OF r(2), of "in_prog s"] data by (auto simp: section_listing_def)
  moreover have "listed_words (in_prog s) rest = concat (map section_listing ss) \<and> (\<forall>s \<in> set ss. even (length (cs_data s)))"
    using r(3) Cons.IH [where p = "in_prog s"] by (auto split: if_splits)
  ultimately show ?case
    using r(4) data(1) by (simp add: listed_words_append)
qed simp

text \<open>A section that ends inside the 32-bit addresses.\<close>

definition fits_memory :: "coff_section \<Rightarrow> bool" where
  "fits_memory s \<longleftrightarrow> length (cs_data s) < 2 ^ 32 \<and> unat (section_addr s) + length (cs_data s) div 2 < 2 ^ 32"

definition word_place :: "bool \<times> u32 \<times> u16 \<Rightarrow> bool \<times> u32" where
  "word_place w = (case w of (p, a, v) \<Rightarrow> (p, a))"

lemma unat_section_addr:
  "fits_memory s \<Longrightarrow> k \<le> length (cs_data s) div 2 \<Longrightarrow> unat (section_addr s + of_nat k) = unat (section_addr s) + k"
  by (simp add: fits_memory_def unat_word_ariths unat_of_nat)

lemma section_end_fits: "fits_memory s \<Longrightarrow> section_end s = section_addr s + of_nat (length (cs_data s) div 2)"
  by (simp add: section_end_def fits_memory_def word_arith_nat_div unat_of_nat)

lemma section_places:
  assumes "fits_memory s"
  shows "distinct (map word_place (section_listing s))"
    and "set (map word_place (section_listing s)) \<subseteq> {in_prog s} \<times> {section_addr s..<section_end s}"
proof -
  let ?n = "length (cs_data s) div 2"
  have places: "map word_place (section_listing s) = map (\<lambda>k. (in_prog s, section_addr s + of_nat k)) [0..<?n]"
    by (simp add: section_listing_def word_place_def comp_def)
  have "inj_on (\<lambda>k. (in_prog s, section_addr s + of_nat k)) {0..<?n}"
    using unat_section_addr [OF assms] by (intro inj_onI) (metis add_left_cancel atLeastLessThan_iff less_imp_le prod.inject)
  then show "distinct (map word_place (section_listing s))"
    by (simp add: places distinct_map)
  have "section_addr s \<le> section_addr s + of_nat k \<and> section_addr s + of_nat k < section_end s" if "k < ?n" for k
    using that unat_section_addr [OF assms, of k] unat_section_addr [OF assms, of ?n]
    by (simp add: section_end_fits [OF assms] word_le_nat_alt word_less_nat_alt)
  then show "set (map word_place (section_listing s)) \<subseteq> {in_prog s} \<times> {section_addr s..<section_end s}"
    by (auto simp: places)
qed

lemma list_sections_places:
  "list_sections co ss prog_grow data_grow = Inr items \<Longrightarrow> \<forall>s \<in> set ss. fits_memory s \<Longrightarrow>
   distinct (map word_place (concat (map section_listing ss))) \<and>
   (\<forall>(p, a) \<in> set (map word_place (concat (map section_listing ss))). (if p then prog_grow else data_grow) \<le> a)"
proof (induction ss arbitrary: prog_grow data_grow items)
  case (Cons s ss)
  let ?rest = "map word_place (concat (map section_listing ss))"
  let ?pg = "if in_prog s then section_end s else prog_grow" and ?dg = "if in_prog s then data_grow else section_end s"
  obtain rest where rest: "list_sections co ss ?pg ?dg = Inr rest"
    and grow: "(if in_prog s then prog_grow else data_grow) \<le> section_addr s"
    using Cons.prems(1) by (auto simp: cbind_Inr_iff not_less split: if_splits)
  have fits: "fits_memory s"
    using Cons.prems(2) by simp
  note IH = Cons.IH [OF rest] and here = section_places [OF fits]
  have tail: "distinct ?rest" "\<forall>(p, a) \<in> set ?rest. (if p then ?pg else ?dg) \<le> a"
    using IH Cons.prems(2) by auto
  have up: "section_addr s \<le> section_end s"
    using unat_section_addr [OF fits, of "length (cs_data s) div 2"] by (simp add: section_end_fits [OF fits] word_le_nat_alt)
  have "set (map word_place (section_listing s)) \<inter> set ?rest = {}"
    using here(2) tail(2) by (fastforce split: if_splits)
  moreover have "\<forall>(p, a) \<in> set ?rest. (if p then prog_grow else data_grow) \<le> a"
    using tail(2) grow up by (fastforce split: if_splits)
  moreover have "\<forall>(p, a) \<in> set (map word_place (section_listing s)). (if p then prog_grow else data_grow) \<le> a"
    using here(2) grow by fastforce
  ultimately show ?case
    using tail(1) here(1) by (simp only: list.map concat.simps map_append distinct_append set_append ball_Un simp_thms)
qed simp

section \<open>Properties\<close>

text \<open>
  The lister always returns for a file below four gigabytes: the loop over its symbols ends, the disassembler
  does not fail, and what is left are the messages it throws, a storage class without a name, and
  indices out of a vector.
\<close>

theorem coff_reader_returns:
  assumes "length raw < 2 ^ 32" and "coff_reader_main sort_by partition_by argc (Some raw) out = Inl (Fault f)"
  shows "f = OutOfBounds"
proof (rule ccontr)
  assume "f \<noteq> OutOfBounds"
  then have "avoids (Fault f) (coff_reader_main sort_by partition_by argc (Some raw) out)"
    unfolding coff_reader_main_def list_coff_def
    by (auto intro!: avoids_rules avoids_read_coff [OF assms(1)] avoids_list_sections_fault)
  with assms(2) show False
    by simp
qed

text \<open>
  At every address the lister shows the symbols of the memory that stand for it, in the order of the file,
  and no others: the table it looks them up in is exact. So the two exceptions for a table that does not fit the
  symbols are never thrown.
\<close>

theorem coff_symbols_found:
  assumes "read_coff sort_by partition_by raw = Inr co"
  shows "symbol_items co is_prog addr (entries_at addr (co_lut co)) =
      name_items co (symbols_at (in_region is_prog) addr (co_symbols co)) \<and>
    list_coff co \<noteq> Inl (Threw ''what'')"
proof -
  have "avoids (Threw ''what'') (list_coff co)"
    unfolding list_coff_def
    by (rule avoids_list_sections) (simp_all add: symbol_items_ok [OF assms] avoids_name_items)
  then show ?thesis
    using symbol_items_ok [OF assms] by (simp add: avoids_def)
qed

lemma coff_symbols_found_witness:
  "symbol_items coff_of_example True 0x101 [0] = Inr [Symbol_Item ''external'' ''m'']"
proof -
  have "entries_at 0x101 (co_lut coff_of_example) = [0]"
    "name_items coff_of_example (symbols_at (in_region True) 0x101 (co_symbols coff_of_example)) = Inr [Symbol_Item ''external'' ''m'']"
    by code_simp+
  then show ?thesis
    using coff_symbols_found [OF read_coff_example, where is_prog = True and addr = "0x101"] by simp
qed

text \<open>
  A listing shows the words of every section, each at its address, whether it is the first or the second
  word of an instruction, and no other word. No section has an odd number of bytes, and if the
  sections end inside the 32-bit addresses, no address of a memory is shown twice.
\<close>

theorem coff_lists_every_word:
  assumes "list_coff co = Inr items"
  shows "listed_words False items = concat (map section_listing (co_sections co)) \<and>
    (\<forall>s \<in> set (co_sections co). even (length (cs_data s))) \<and>
    (list_all fits_memory (co_sections co) \<longrightarrow> distinct (map word_place (listed_words False items)))"
  using list_sections_listed [of co "co_sections co" 0 0 items False] list_sections_places [of co "co_sections co" 0 0 items] assms
  by (simp add: list_coff_def list_all_iff)

lemma coff_lists_every_word_witness:
  "\<exists>items. list_coff coff_of_example = Inr items \<and> listed_words False items =
     [(True, 0x100, 0x201), (True, 0x101, 0x403), (False, 0x200, 0x201), (False, 0x201, 0x403)] \<and>
   distinct (map word_place (listed_words False items))"
proof -
  let ?words = "concat (map section_listing (co_sections coff_of_example))"
  have words: "?words = [(True, 0x100, 0x201), (True, 0x101, 0x403), (False, 0x200, 0x201), (False, 0x201, 0x403)]"
    by code_simp
  have fits: "list_all fits_memory (co_sections coff_of_example)"
    by (simp add: coff_of_example_def fits_memory_def section_addr_def in_prog_def)
  obtain items where items: "list_coff coff_of_example = Inr items"
  proof (cases "list_coff coff_of_example")
    case (Inl e)
    moreover have "\<not> isl (list_coff coff_of_example)"
      by code_simp
    ultimately show ?thesis
      by simp
  qed
  have listed: "listed_words False items = ?words" and "distinct (map word_place (listed_words False items))"
    using coff_lists_every_word [OF items] fits by blast+
  with items words show ?thesis
    by metis
qed

end
