(* ===== verification/Spec2Isabelle.thy ===== *)
theory Spec2Isabelle
  imports Loops Shifter Interrupt_Return Host_Interface Disasm_Settings C_Bindings Dsp1_File Directed_Tests Coff_Reader
begin

text \<open>
  Teakra is an emulator of the XpertTeak DSP: a processor with its instruction set, the peripherals
  around it, a host interface, and beside the emulator a disassembler, an assembler that packs
  firmware files, a reader of these files, the generators and the verifier of the vectors the
  emulator is tested with, and a lister of COFF object files. This development models them from the C++ sources
  under src/ and proves what makes them correct. Paths in the theories are those of the repository.

  The program and its model, from the bottom up. A class is a record with the class's fields, a method
  a function on it; what a method passes to a callback is a list of signals the composition
  delivers. ASSERT, UNREACHABLE, an unimplemented instruction, an index out of an array and a
  call that never returns are values of \<open>teakra_error\<close>, so every failing path is a branch of the
  model. Machine integers are words of their width. Instructions are steps over the machine in a
  monad of state and failure (Prelude).

  \<^item> Prelude: integers, errors, the monads, and the lemmas on lists and words that are shared.
  \<^item> Core_Timing (core_timing.h), Timers (timer.cpp), Audio_Ports (btdmp.cpp): the clock and its
    components. The locale \<open>timing_callbacks\<close> states the contract between them, that skipping time
    is ticking; it is interpreted on the timers, the audio ports and the whole clock.
  \<^item> Interrupt_Controller (icu.h), Mailbox (apbp.cpp), Shared_Mem (shared_memory.h and the
    translation of memory_interface.h, with the locale \<open>word_memory\<close>), Ahb_Master (ahbm.cpp) and
    Dma_Engine (dma.cpp), whose loop is a \<open>partial_function\<close>, as it need not end.
  \<^item> Mmio_Region (mmio.cpp, memory_interface.cpp): the table of registers a program reaches the
    peripherals through, and the wiring of teakra.cpp. Clocked_System composes the clock.
  \<^item> Operands (operand.h), Register_File and Pseudo_Registers (register.h): the operand tables, the
    registers with their shadows (locales \<open>bank_exchange\<close>, \<open>bank_pair\<close>), and the status words as
    bit fields (locales \<open>guarded_fields\<close> and \<open>bit_fields\<close>).
  \<^item> Accumulators, Addressing, Arithmetic, Machine, Instr_Support, Instr_Arith, Instr_Product,
    Instr_Move, Instr_Control (interpreter.h): the private helpers of the interpreter and one
    definition for each of its instruction methods.
  \<^item> Decoder (matcher.h, decoder.h): the matchers and the instruction table. Processor (the run loop of
    interpreter.h, processor.cpp): a cycle, idling, interrupts, and runs.
  \<^item> Host_Interface (teakra.cpp): the calls of the host and sessions of them. C_Bindings
    (disassembler_c.cpp): the disassembler behind C linkage.
  \<^item> Disasm_Text, Disasm_Arithmetic, Disasm_Control, Disasm_Moves, Disasm_Pairs, Disassembler
    (disassembler.cpp, with decoder.h a second time): the text of operands, one definition per
    visitor method, the table over them, and the entry points.
  \<^item> Assembler_Parser (parser.cpp): the tree of tokens of the assembler. Firmware_Assembler, Sha256 and
    Dsp1_File (makedsp1/main.cpp, makedsp1/sha256.cpp, dsp1_reader/main.cpp): the lines of the
    assembler, the hash of a segment, and the firmware file written and read.
  \<^item> Test_Format (test.h), Test_Config, Test_Handlers_Compute, Test_Handlers_Move, Test_Generator
    (test_generator.cpp with decoder.h a third time): the record of a test case, the configuration of
    each instruction's operands, one definition per visitor method, and the random cases. The source
    of random numbers is a parameter \<open>uniform\<close>, of which only the bounds are assumed. Test_Verifier,
    Test_Loading, Test_Verdicts (test_verifier/main.cpp): a case is loaded, run and compared.
    Directed_Tests (step2_test_generator, mod_test_generator): the other two generators.
  \<^item> Coff_File (coff.h), Coff_Listing (coff_reader/main.cpp): an object file read and listed;
    Coff_Sections, Coff_Symbols and Coff_Reader hold their lemmas. \<open>std::sort\<close> and \<open>std::partition\<close> are
    parameters, of which what the standard promises is assumed.

  What the lemmas show.

  \<^item> Decoding: no two entries of the instruction table match one opcode, so decoding never aborts.
  \<^item> Well_Formed, Instr_Invariant, Run_Invariant: an invariant of the whole machine (shapes of
    arrays, sign-extended accumulators, ranges of the configuration, nesting of repeats), kept by
    every instruction, every cycle and every run; Host_Interface extends it to every sequence of
    host calls after the first reset.
  \<^item> Loops: the block repeat frames refine a bounded stack of loops. Followed over the cycles of the
    run loop, fetches, interrupts and clock included, both hardware loops run their body once more than
    their count (\<open>follows_course\<close>, for bodies whose instructions are \<open>inline_at\<close> where the run
    reaches them). Interrupt_Return: an interrupt is entered and left without a trace; the context
    switch restores every register, in both of its modes for the second accumulators. Modulo_Addressing: steps by one cycle through the
    buffer. Shifter, Arithmetic, Accumulators: the shifter, the adder, the multiplier and saturation
    against the arithmetic of the integers.
  \<^item> Timers, Audio_Ports, Clocked_System: skipping is ticking, with the exceptions stated. Dma_Engine:
    the counter machine is three nested loops. Ahb_Master: a burst moves the units at consecutive
    addresses of a byte memory. Shared_Mem, Mmio_Region,
    Pseudo_Registers, Register_File: what is written is read back; in the words with read-only and
    write-to-clear fields (locale \<open>guarded_fields\<close>), what exactly is.
  \<^item> Disassembler, Disasm_Settings: the disassembler selects the same entries as the interpreter,
    always gives text, and shows the configuration the interpreter uses. Assembler_Parser: parsing
    inverts the disassembly of the least opcode with a text. Firmware_Assembler: which opcodes
    the assembler reads back from their text. Sha256: the streaming hash is the standard's on whole
    messages. Dsp1_File: the reader gives back what the packer wrote.
  \<^item> Test_Generator, Test_Verdicts, Directed_Tests: the generator always returns; its cases address
    only the windows that are loaded and compared; a case passes exactly when the observed state is the
    expected one; the exit code follows the records of the file. Coff_Sections, Coff_Reader: the
    sections listed are those of the file, each word once, with the symbols of its address.
  \<^item> Where the code does what its authors cannot have meant, a lemma states it: a timer skipped by
    zero, a transfer that never completes, a port whose period is lowered, the
    buffer of the C disassembler, and the instructions no line of the assembler gives.

  Bounds and termination. A run is total: it recurses on the remaining cycles. No fuel is used.
  A transfer of the DMA engine that does not end is the error \<open>Diverges\<close>. Each theorem on a loop says that
  it returns. That generating the parser does not abort is not proved: its theorems name the two
  opcodes with one text that would make it.

  Not modelled: threads (the atomics and mutexes are plain fields of one thread), the debug output, the
  setters of the host's handlers (their calls are the signals in \<open>mc_out\<close>), the host's reference to
  the registers, and teakra_c.cpp, which forwards each call to the method of the same name. In the
  test tools: the text that is printed, the window of registers the verifier can show, and the
  sampling inside the random engine. Outside the emulator: the programs for the console under
  hwtest, the tests and the vendored test framework.
\<close>

end
